(* ===== verification/PyBase.thy ===== *)
theory PyBase
  imports Complex_Main "HOL-Library.AList" "HOL-Library.Sublist"
begin

text \<open>
  The values and library operations of Python that the plugin's modules share:
  dynamic (JSON) values, the exceptions the code catches, parsing and printing of
  integers, string predicates, insertion-ordered dictionaries, rounding.

  A Python \<open>str\<close> is a \<open>string\<close>: a list of code points below 256. The
  predicates below are exact on that range (for instance the superscripts at the code
  points 178, 179 and 185 are digits for \<open>str.isdigit\<close> and not for
  \<open>str.isdecimal\<close> or \<open>int\<close>). A Python \<open>int\<close> is an \<open>int\<close>; a finite
  float is the rational number it stands for. A dictionary is an association list in
  insertion order: \<open>map_of\<close> reads it, \<open>AList.update\<close> writes in place or appends,
  \<open>AList.delete\<close> removes, as \<open>d[k]\<close>, \<open>d[k] = v\<close> and \<open>d.pop(k, None)\<close> do.
\<close>

named_theorems py_defs \<open>definitions of the Python operations, unfolded to evaluate\<close>

section \<open>Values and exceptions\<close>

datatype pyfloat = Fin rat | PosInf | NegInf | NaN

datatype pyval =
    PNone
  | PBool bool
  | PInt int
  | PFloat pyfloat
  | PStr string
  | PList "pyval list"
  | PDict "(string \<times> pyval) list"

type_synonym pydict = "(string \<times> pyval) list"

datatype py_exc =
    ValueError
  | TypeError
  | AttributeError
  | KeyError
  | OverflowError
  | RuntimeError
  | OtherException string

type_synonym 'a py_result = "py_exc + 'a"

text \<open>\<open>bool(value)\<close>.\<close>

fun truthy :: "pyval \<Rightarrow> bool" where
  "truthy PNone = False"
| "truthy (PBool b) = b"
| "truthy (PInt n) = (n \<noteq> 0)"
| "truthy (PFloat f) = (case f of Fin r \<Rightarrow> r \<noteq> 0 | _ \<Rightarrow> True)"
| "truthy (PStr s) = (s \<noteq> [])"
| "truthy (PList xs) = (xs \<noteq> [])"
| "truthy (PDict d) = (d \<noteq> [])"

text \<open>\<open>value == n\<close> for an integer \<open>n\<close>: Python equates \<open>True\<close> with 1 and
  \<open>1.0\<close> with 1.\<close>

fun eq_int :: "pyval \<Rightarrow> int \<Rightarrow> bool" where
  "eq_int (PInt m) n = (m = n)"
| "eq_int (PBool b) n = ((if b then 1 else 0) = n)"
| "eq_int (PFloat (Fin r)) n = (r = of_int n)"
| "eq_int _ n = False"

text \<open>\<open>d.get(k)\<close>: the value, or \<open>None\<close>, and \<open>v or None\<close>.\<close>

definition dget :: "pydict \<Rightarrow> string \<Rightarrow> pyval" where
  [py_defs]: "dget d k = (case map_of d k of None \<Rightarrow> PNone | Some v \<Rightarrow> v)"

definition or_none :: "pyval \<Rightarrow> pyval" where
  [py_defs]: "or_none v = (if truthy v then v else PNone)"

lemma truthy_or_none [simp]: "or_none v = PNone \<longleftrightarrow> \<not> truthy v"
  by (cases v) (auto simp: or_none_def)

section \<open>Characters and strings\<close>

definition code_point :: "char \<Rightarrow> nat" where
  [py_defs]: "code_point c = of_char c"

text \<open>\<open>str.isspace\<close> of one character (what \<open>str.strip\<close> removes), and the white
  space \<open>int(text)\<close> skips, which leaves out the four separators 28 to 31.\<close>

definition is_space :: "char \<Rightarrow> bool" where
  [py_defs]: "is_space c = (let n = code_point c in
     (9 \<le> n \<and> n \<le> 13) \<or> (28 \<le> n \<and> n \<le> 32) \<or> n = 133 \<or> n = 160)"

definition is_int_space :: "char \<Rightarrow> bool" where
  [py_defs]: "is_int_space c = (let n = code_point c in
     (9 \<le> n \<and> n \<le> 13) \<or> n = 32 \<or> n = 133 \<or> n = 160)"

definition is_decimal_char :: "char \<Rightarrow> bool" where
  [py_defs]: "is_decimal_char c = (let n = code_point c in 48 \<le> n \<and> n \<le> 57)"

definition is_digit_char :: "char \<Rightarrow> bool" where
  [py_defs]: "is_digit_char c = (let n = code_point c in
     (48 \<le> n \<and> n \<le> 57) \<or> n = 178 \<or> n = 179 \<or> n = 185)"

definition str_isdigit :: "string \<Rightarrow> bool" where
  [py_defs]: "str_isdigit s = (s \<noteq> [] \<and> list_all is_digit_char s)"

definition str_isdecimal :: "string \<Rightarrow> bool" where
  [py_defs]: "str_isdecimal s = (s \<noteq> [] \<and> list_all is_decimal_char s)"

definition strip_with :: "(char \<Rightarrow> bool) \<Rightarrow> string \<Rightarrow> string" where
  [py_defs]: "strip_with P s = rev (dropWhile P (rev (dropWhile P s)))"

definition str_strip :: "string \<Rightarrow> string" where
  [py_defs]: "str_strip = strip_with is_space"

text \<open>\<open>s.split(sep)\<close> for a one-character separator: always at least one field.\<close>

fun str_split :: "char \<Rightarrow> string \<Rightarrow> string list" where
  "str_split sep [] = [[]]"
| "str_split sep (c # cs) =
     (if c = sep then [] # str_split sep cs
      else (case str_split sep cs of [] \<Rightarrow> [[c]] | w # ws \<Rightarrow> (c # w) # ws))"

lemma str_split_nonempty [simp]: "str_split sep s \<noteq> []"
  by (induction s) (auto split: list.splits)

lemma str_split_no_sep: "sep \<notin> set w \<Longrightarrow> str_split sep w = [w]"
  by (induction w) auto

lemma str_split_append:
  "sep \<notin> set w \<Longrightarrow> str_split sep (w @ sep # rest) = w # str_split sep rest"
  by (induction w) auto

section \<open>Parsing integers\<close>

definition digit_val :: "char \<Rightarrow> int option" where
  [py_defs]: "digit_val c = (let n = int (code_point c) in
     if 48 \<le> n \<and> n \<le> 57 then Some (n - 48)
     else if 97 \<le> n \<and> n \<le> 122 then Some (n - 87)
     else if 65 \<le> n \<and> n \<le> 90 then Some (n - 55)
     else None)"

text \<open>Digits of a base with single underscores between them; the flag says that the
  last character was a digit, so the empty text, a leading, doubled or trailing underscore
  are all refused.\<close>

fun parse_digits :: "int \<Rightarrow> bool \<Rightarrow> int \<Rightarrow> string \<Rightarrow> int option" where
  "parse_digits b prev acc [] = (if prev then Some acc else None)"
| "parse_digits b prev acc (c # cs) =
     (if c = CHR ''_'' then (if prev then parse_digits b False acc cs else None)
      else (case digit_val c of
              None \<Rightarrow> None
            | Some d \<Rightarrow> if d < b then parse_digits b True (acc * b + d) cs else None))"

fun split_sign :: "string \<Rightarrow> int \<times> string" where
  "split_sign [] = (1, [])"
| "split_sign (c # cs) =
     (if c = CHR ''+'' then (1, cs) else if c = CHR ''-'' then (-1, cs) else (1, c # cs))"

definition int_strip :: "string \<Rightarrow> string" where
  [py_defs]: "int_strip = strip_with is_int_space"

text \<open>\<open>int(text)\<close> and \<open>int(text, 0)\<close>; \<open>None\<close> is \<open>ValueError\<close>. Base 0 reads
  the prefixes of the three bases (one underscore may follow the prefix) and refuses
  other leading zeros unless the value is zero.\<close>

definition int_of_text :: "string \<Rightarrow> int option" where
  [py_defs]: "int_of_text s = (let (sg, t) = split_sign (int_strip s)
     in map_option (\<lambda>n. sg * n) (parse_digits 10 False 0 t))"

definition skip_underscore :: "string \<Rightarrow> string" where
  [py_defs]: "skip_underscore s = (case s of [] \<Rightarrow> [] | c # cs \<Rightarrow> if c = CHR ''_'' then cs else s)"

definition unsigned_base0 :: "string \<Rightarrow> int option" where
  [py_defs]: "unsigned_base0 t = (case t of
       [] \<Rightarrow> None
     | c # cs \<Rightarrow>
         if c \<noteq> CHR ''0'' then parse_digits 10 False 0 t
         else (case cs of
                 [] \<Rightarrow> Some 0
               | p # ds \<Rightarrow>
                   if p = CHR ''x'' \<or> p = CHR ''X'' then parse_digits 16 False 0 (skip_underscore ds)
                   else if p = CHR ''o'' \<or> p = CHR ''O'' then parse_digits 8 False 0 (skip_underscore ds)
                   else if p = CHR ''b'' \<or> p = CHR ''B'' then parse_digits 2 False 0 (skip_underscore ds)
                   else (case parse_digits 10 False 0 t of
                           Some n \<Rightarrow> if n = 0 then Some 0 else None
                         | None \<Rightarrow> None)))"

definition int_of_text0 :: "string \<Rightarrow> int option" where
  [py_defs]: "int_of_text0 s = (let (sg, t) = split_sign (int_strip s)
     in map_option (\<lambda>n. sg * n) (unsigned_base0 t))"

text \<open>\<open>int(value)\<close> of a dynamic value: a float is truncated towards zero, an infinite
  one raises \<open>OverflowError\<close>, a NaN \<open>ValueError\<close>.\<close>

definition rat_trunc :: "rat \<Rightarrow> int" where
  [py_defs]: "rat_trunc r = (if r < 0 then - \<lfloor>- r\<rfloor> else \<lfloor>r\<rfloor>)"

fun py_int :: "pyval \<Rightarrow> int py_result" where
  "py_int PNone = Inl TypeError"
| "py_int (PBool b) = Inr (if b then 1 else 0)"
| "py_int (PInt n) = Inr n"
| "py_int (PFloat (Fin r)) = Inr (rat_trunc r)"
| "py_int (PFloat NaN) = Inl ValueError"
| "py_int (PFloat _) = Inl OverflowError"
| "py_int (PStr s) = (case int_of_text s of None \<Rightarrow> Inl ValueError | Some n \<Rightarrow> Inr n)"
| "py_int (PList _) = Inl TypeError"
| "py_int (PDict _) = Inl TypeError"

section \<open>Printing integers\<close>

definition digit_char :: "nat \<Rightarrow> char" where
  [py_defs]: "digit_char d = (if d < 10 then char_of (48 + d) else char_of (55 + d))"

fun digits_of :: "nat \<Rightarrow> nat \<Rightarrow> string" where
  "digits_of b n = (if b < 2 \<or> n < b then [digit_char n]
                    else digits_of b (n div b) @ [digit_char (n mod b)])"

declare digits_of.simps [simp del]

text \<open>\<open>str(n)\<close> and the \<open>:X\<close> format.\<close>

definition str_of_int :: "int \<Rightarrow> string" where
  [py_defs]: "str_of_int n = (if n < 0 then CHR ''-'' # digits_of 10 (nat (- n)) else digits_of 10 (nat n))"

definition hex_of_int :: "int \<Rightarrow> string" where
  [py_defs]: "hex_of_int n = (if n < 0 then CHR ''-'' # digits_of 16 (nat (- n)) else digits_of 16 (nat n))"

lemma digit_char_code: "d < 36 \<Longrightarrow> code_point (digit_char d) = (if d < 10 then 48 + d else 55 + d)"
  by (auto simp: digit_char_def code_point_def)

lemma digit_val_digit_char [simp]: "d < 36 \<Longrightarrow> digit_val (digit_char d) = Some (int d)"
  by (auto simp: digit_val_def digit_char_code Let_def)

lemma digit_char_neq:
  "d < 36 \<Longrightarrow> code_point c \<noteq> (if d < 10 then 48 + d else 55 + d) \<Longrightarrow> digit_char d \<noteq> c"
  using digit_char_code by auto

lemma digits_of_nonempty [simp]: "digits_of b n \<noteq> []"
  by (subst digits_of.simps) simp

lemma digits_of_set:
  "2 \<le> b \<Longrightarrow> c \<in> set (digits_of b n) \<Longrightarrow> \<exists>d < b. c = digit_char d"
proof (induction b n rule: digits_of.induct)
  case (1 b n)
  show ?case
  proof (cases "n < b")
    case True
    with 1(3) have "c = digit_char n" by (subst (asm) digits_of.simps) simp
    with True show ?thesis by blast
  next
    case False
    with 1(2,3) have "c \<in> set (digits_of b (n div b)) \<or> c = digit_char (n mod b)"
      by (subst (asm) digits_of.simps) auto
    moreover have "n mod b < b" using 1(2) by simp
    ultimately show ?thesis using 1(1,2) False by (metis not_less)
  qed
qed

lemma digits_of_char_range:
  assumes "2 \<le> b" "b \<le> 36" "c \<in> set (digits_of b n)"
  shows "(48 \<le> code_point c \<and> code_point c \<le> 57) \<or> (65 \<le> code_point c \<and> code_point c < 55 + b)"
proof -
  obtain d where "d < b" "c = digit_char d" using digits_of_set assms by blast
  then show ?thesis using assms(2) digit_char_code [of d] by (auto split: if_splits)
qed

lemma parse_digits_append:
  "parse_digits b p acc xs = Some m \<Longrightarrow> xs \<noteq> [] \<Longrightarrow>
   parse_digits b p acc (xs @ ys) = parse_digits b True m ys"
proof (induction b p acc xs rule: parse_digits.induct)
  case (2 b prev acc c cs)
  then show ?case
    by (cases cs) (auto split: if_splits option.splits)
qed simp

lemma digit_char_not_underscore: "d < 36 \<Longrightarrow> digit_char d \<noteq> CHR ''_''"
  by (rule digit_char_neq) (auto simp: code_point_def)

lemma parse_digits_of:
  assumes "2 \<le> b" "b \<le> 36"
  shows "parse_digits (int b) p 0 (digits_of b n) = Some (int n)"
  using assms
proof (induction b n arbitrary: p rule: digits_of.induct)
  case (1 b n)
  show ?case
  proof (cases "n < b")
    case True
    with 1 show ?thesis
      by (subst digits_of.simps) (simp add: digit_char_not_underscore)
  next
    case False
    then have step: "digits_of b n = digits_of b (n div b) @ [digit_char (n mod b)]"
      using 1(2) by (subst digits_of.simps) simp
    have "parse_digits (int b) p 0 (digits_of b (n div b)) = Some (int (n div b))"
      using 1 False by simp
    then have "parse_digits (int b) p 0 (digits_of b n)
        = parse_digits (int b) True (int (n div b)) [digit_char (n mod b)]"
      unfolding step by (rule parse_digits_append) simp
    moreover have "n mod b < 36" using 1(2,3) mod_less_divisor [of b n] by linarith
    moreover have "int (n div b) * int b + int (n mod b) = int n"
      by (metis div_mult_mod_eq of_nat_add of_nat_mult)
    ultimately show ?thesis
      using 1(2) by (simp add: digit_char_not_underscore flip: of_nat_mod)
  qed
qed

lemma strip_with_id: "list_all (\<lambda>c. \<not> P c) s \<Longrightarrow> strip_with P s = s"
proof -
  assume a: "list_all (\<lambda>c. \<not> P c) s"
  then have 1: "dropWhile P s = s" by (cases s) auto
  from a have "list_all (\<lambda>c. \<not> P c) (rev s)" by (simp add: list_all_iff)
  then have 2: "dropWhile P (rev s) = rev s" by (cases "rev s") auto
  show ?thesis by (simp add: strip_with_def 1 2)
qed

lemma int_strip_digits: "2 \<le> b \<Longrightarrow> b \<le> 36 \<Longrightarrow> int_strip (digits_of b n) = digits_of b n"
  unfolding int_strip_def
  by (rule strip_with_id)
     (auto simp: list_all_iff is_int_space_def Let_def dest!: digits_of_char_range)

lemma split_sign_digits: "2 \<le> b \<Longrightarrow> b \<le> 36 \<Longrightarrow> split_sign (digits_of b n) = (1, digits_of b n)"
proof (cases "digits_of b n")
  case (Cons c cs)
  assume b: "2 \<le> b" "b \<le> 36"
  have "c \<in> set (digits_of b n)" by (simp add: Cons)
  then have "c \<noteq> CHR ''+''" "c \<noteq> CHR ''-''"
    using digits_of_char_range [OF b] by (force simp: code_point_def)+
  with Cons show ?thesis by simp
qed simp

text \<open>\<open>int(str(n))\<close> is \<open>n\<close>.\<close>

lemma int_of_text_str [simp]: "int_of_text (str_of_int n) = Some n"
proof (cases "n < 0")
  case False
  then show ?thesis
    using parse_digits_of [of 10 False "nat n"]
    by (simp add: int_of_text_def str_of_int_def int_strip_digits split_sign_digits)
next
  case True
  have "list_all (\<lambda>c. \<not> is_int_space c) (CHR ''-'' # digits_of 10 (nat (- n)))"
    by (auto simp: list_all_iff is_int_space_def Let_def code_point_def
        dest!: digits_of_char_range [of 10, simplified])
  then have "int_strip (CHR ''-'' # digits_of 10 (nat (- n))) = CHR ''-'' # digits_of 10 (nat (- n))"
    unfolding int_strip_def by (rule strip_with_id)
  with True show ?thesis
    using parse_digits_of [of 10 False "nat (- n)"]
    by (simp add: int_of_text_def str_of_int_def)
qed

lemma str_of_int_chars: "c \<in> set (str_of_int n) \<Longrightarrow> c = CHR ''-'' \<or> (48 \<le> code_point c \<and> code_point c \<le> 57)"
  using digits_of_char_range [of 10 c] by (fastforce simp: str_of_int_def split: if_splits)

lemma str_of_int_inj [simp]: "str_of_int m = str_of_int n \<longleftrightarrow> m = n"
  by (metis int_of_text_str option.inject)

section \<open>Rounding\<close>

text \<open>\<open>round(a / b)\<close> of integers: to the nearest integer, a half to the even one. The
  quotient is taken exactly; the float quotient the interpreter rounds is so close to it
  that the two can differ only where the denominator exceeds \<open>2 ^ 31\<close> and the numerators
  used here (at most 1000000) then round to 0 either way.\<close>

definition round_div :: "int \<Rightarrow> int \<Rightarrow> int" where
  [py_defs]: "round_div a b = (let a' = (if b < 0 then - a else a); b' = \<bar>b\<bar>;
       q = a' div b'; r = a' mod b'
     in if 2 * r < b' then q else if b' < 2 * r then q + 1 else if even q then q else q + 1)"

lemma round_div_near:
  assumes "0 < b" shows "\<bar>2 * (round_div a b * b - a)\<bar> \<le> b"
proof -
  define q r where "q = a div b" and "r = a mod b"
  have a: "a = q * b + r" by (simp add: q_def r_def)
  have r: "0 \<le> r" "r < b" using assms by (auto simp: r_def)
  have "round_div a b = (if 2 * r < b then q else if b < 2 * r then q + 1
      else if even q then q else q + 1)"
    using assms by (simp add: round_div_def Let_def q_def r_def)
  then show ?thesis using r by (auto simp: a algebra_simps)
qed

lemma round_div_mono_num:
  assumes "0 < b" "a \<le> a'" shows "round_div a b \<le> round_div a' b"
proof (rule ccontr)
  assume "\<not> ?thesis"
  then have lt: "round_div a' b + 1 \<le> round_div a b" by simp
  have 1: "2 * (round_div a b * b - a) \<le> b" and 2: "- b \<le> 2 * (round_div a' b * b - a')"
    using round_div_near [OF assms(1), of a] round_div_near [OF assms(1), of a'] by auto
  have "round_div a' b * b + b \<le> round_div a b * b"
    using mult_right_mono [OF lt, of b] assms(1) by (simp add: algebra_simps)
  with 1 2 have "a' \<le> a" by (auto simp: algebra_simps)
  with assms(2) lt show False by simp
qed

section \<open>Dictionaries and lists\<close>

lemma map_of_update_same [simp]: "map_of (AList.update k v d) k = Some v"
  by (simp add: update_conv')

lemma map_of_update_other [simp]: "k' \<noteq> k \<Longrightarrow> map_of (AList.update k v d) k' = map_of d k'"
  by (simp add: update_conv')

lemma map_of_delete_same [simp]: "map_of (AList.delete k d) k = None"
  by (simp add: delete_conv')

lemma map_of_delete_other [simp]: "k' \<noteq> k \<Longrightarrow> map_of (AList.delete k d) k' = map_of d k'"
  by (simp add: delete_conv')

lemma dget_update: "dget (AList.update k v d) k' = (if k' = k then v else dget d k')"
  by (simp add: dget_def)

section \<open>Sequencing code that may raise\<close>

definition py_bind :: "'a py_result \<Rightarrow> ('a \<Rightarrow> 'b py_result) \<Rightarrow> 'b py_result" where
  "py_bind r f = (case r of Inl e \<Rightarrow> Inl e | Inr x \<Rightarrow> f x)"

lemma py_bind_simps [simp]: "py_bind (Inl e) f = Inl e" "py_bind (Inr x) f = f x"
  by (simp_all add: py_bind_def)

lemma py_bind_Inr: "py_bind r f = Inr y \<longleftrightarrow> (\<exists>x. r = Inr x \<and> f x = Inr y)"
  by (cases r) simp_all

lemma py_bind_Inl: "py_bind r f = Inl e \<longleftrightarrow> r = Inl e \<or> (\<exists>x. r = Inr x \<and> f x = Inl e)"
  by (cases r) simp_all

text \<open>A comprehension whose body may raise: the first exception wins.\<close>

fun py_map :: "('a \<Rightarrow> 'b py_result) \<Rightarrow> 'a list \<Rightarrow> 'b list py_result" where
  "py_map f [] = Inr []"
| "py_map f (x # xs) = py_bind (f x) (\<lambda>y. py_bind (py_map f xs) (\<lambda>ys. Inr (y # ys)))"

lemma py_map_Inr: "(\<And>x. x \<in> set xs \<Longrightarrow> f x = Inr (g x)) \<Longrightarrow> py_map f xs = Inr (map g xs)"
  by (induction xs) simp_all

lemma py_map_Inl: "py_map f xs = Inl e \<Longrightarrow> \<exists>x \<in> set xs. f x = Inl e"
  by (induction xs) (auto simp: py_bind_Inl)

lemma py_map_total: "(\<And>x. x \<in> set xs \<Longrightarrow> \<exists>y. f x = Inr y) \<Longrightarrow> \<exists>ys. py_map f xs = Inr ys"
  by (induction xs) (force simp: py_bind_Inr)+

text \<open>\<open>d.get(k, default)\<close>, \<open>d[k]\<close>, and what a loop over \<open>value or []\<close> visits.\<close>

definition dget_or :: "pydict \<Rightarrow> string \<Rightarrow> pyval \<Rightarrow> pyval" where
  "dget_or d k v = (case map_of d k of None \<Rightarrow> v | Some x \<Rightarrow> x)"

fun py_item :: "pyval \<Rightarrow> string \<Rightarrow> pyval py_result" where
  "py_item (PDict d) k = (case map_of d k of None \<Rightarrow> Inl KeyError | Some v \<Rightarrow> Inr v)"
| "py_item _ k = Inl TypeError"

fun py_get :: "pyval \<Rightarrow> string \<Rightarrow> pyval \<Rightarrow> pyval py_result" where
  "py_get (PDict d) k v = Inr (dget_or d k v)"
| "py_get _ k v = Inl AttributeError"

definition py_iter :: "pyval \<Rightarrow> pyval list py_result" where
  "py_iter v = (if \<not> truthy v then Inr []
     else (case v of PList xs \<Rightarrow> Inr xs
           | PDict d \<Rightarrow> Inr (map (\<lambda>p. PStr (fst p)) d)
           | PStr s \<Rightarrow> Inr (map (\<lambda>c. PStr [c]) s)
           | _ \<Rightarrow> Inl TypeError))"

text \<open>\<open>value or {}\<close>.\<close>

definition or_empty :: "pyval \<Rightarrow> pyval" where
  "or_empty v = (if truthy v then v else PDict [])"

lemma length_digits_of: "2 \<le> b \<Longrightarrow> n < b ^ k \<Longrightarrow> 0 < k \<Longrightarrow> length (digits_of b n) \<le> k"
proof (induction b n arbitrary: k rule: digits_of.induct)
  case (1 b n)
  show ?case
  proof (cases "n < b")
    case True
    with "1.prems" show ?thesis by (simp add: digits_of.simps [of b n])
  next
    case False
    with "1.prems" have "k \<noteq> 1" by auto
    with "1.prems" obtain k' where k: "k = Suc k'" "0 < k'" by (cases k) auto
    have "n div b < b ^ k'" using "1.prems" k by (simp add: less_mult_imp_div_less mult.commute)
    with 1 k False show ?thesis by (simp add: digits_of.simps [of b n])
  qed
qed

lemma length_str_of_int: "\<bar>n\<bar> < 10 ^ k \<Longrightarrow> 0 < k \<Longrightarrow> length (str_of_int n) \<le> Suc k"
  using length_digits_of [of 10 "nat \<bar>n\<bar>" k]
  by (auto simp: str_of_int_def nat_less_iff)

lemma length_str_of_nat: "0 \<le> n \<Longrightarrow> n < 10 ^ k \<Longrightarrow> 0 < k \<Longrightarrow> length (str_of_int n) \<le> k"
  using length_digits_of [of 10 "nat n" k] by (auto simp: str_of_int_def nat_less_iff)

section \<open>Dictionaries as association lists\<close>

lemma delete_eq_filter: "AList.delete k d = filter (\<lambda>(k', v). k' \<noteq> k) d"
  by (induction d) auto

lemma set_delete_sub: "p \<in> set (AList.delete k d) \<Longrightarrow> p \<in> set d \<and> fst p \<noteq> k"
  by (auto simp: delete_eq_filter)

lemma map_of_filter_fst: "map_of (filter (\<lambda>(k, v). P k) d) k = (if P k then map_of d k else None)"
  by (induction d) auto

lemma distinct_map_filter: "distinct (map f xs) \<Longrightarrow> distinct (map f (filter P xs))"
  by (induction xs) auto

lemma update_fresh: "k \<notin> fst ` set d \<Longrightarrow> AList.update k v d = d @ [(k, v)]"
  by (induction d) auto

lemma delete_fresh: "k \<notin> fst ` set d \<Longrightarrow> AList.delete k (d @ [(k, v)]) = d"
  by (induction d) auto

lemma delete_update: "AList.delete k (AList.update k v d) = AList.delete k d"
  by (induction d) auto

lemma update_in_set:
  "(k', v') \<in> set (AList.update k v d) \<Longrightarrow> distinct (map fst d) \<Longrightarrow> k' = k \<and> v' = v \<or> (k', v') \<in> set d"
  by (induction d) (auto split: if_splits)

section \<open>Free names\<close>

text \<open>The first free numeric suffix from 2, as \<open>_unique_health_device_name\<close> and \<open>_unique_name\<close> find it.\<close>

definition suffixed :: "string \<Rightarrow> nat \<Rightarrow> string" where
  "suffixed name k = name @ '' '' @ str_of_int (int k)"

lemma suffixed_inj: "suffixed name j = suffixed name k \<longleftrightarrow> j = k"
  by (simp add: suffixed_def)

function free_suffix :: "string list \<Rightarrow> string \<Rightarrow> nat \<Rightarrow> nat" where
  "free_suffix existing name k = (if suffixed name k \<in> set existing then free_suffix existing name (Suc k) else k)"
  by pat_completeness auto

termination
proof (relation "measure (\<lambda>(existing, name, k). card {j. k \<le> j \<and> suffixed name j \<in> set existing})")
  fix existing :: "string list" and name k
  assume used: "suffixed name k \<in> set existing"
  let ?rest = "{j. Suc k \<le> j \<and> suffixed name j \<in> set existing}" and ?all = "{j. k \<le> j \<and> suffixed name j \<in> set existing}"
  have "finite ?all"
  proof (rule inj_on_finite [of "suffixed name" _ "set existing"])
    show "inj_on (suffixed name) ?all" by (simp add: inj_on_def suffixed_inj)
  qed auto
  moreover have "?rest \<subset> ?all"
  proof (rule psubsetI)
    show "?rest \<noteq> ?all" using used by (metis (mono_tags, lifting) mem_Collect_eq not_less_eq_eq order_refl)
  qed auto
  ultimately have "card ?rest < card ?all" by (rule psubset_card_mono)
  then show "((existing, name, Suc k), existing, name, k) \<in> measure (\<lambda>(existing, name, k). card {j. k \<le> j \<and> suffixed name j \<in> set existing})"
    by simp
qed simp

declare free_suffix.simps [simp del]

definition unique_name :: "string list \<Rightarrow> string \<Rightarrow> string" where
  "unique_name existing name = (if name \<notin> set existing then name else suffixed name (free_suffix existing name 2))"

end
