(* ===== verification/MatterProtocol.thy ===== *)
theory MatterProtocol
  imports PyBase
begin

text \<open>
  \<open>protocol.py\<close>: the adapter between matter-server's WebSocket frames and the plugin.
  A frame is a dictionary; outbound frames are built with a message id drawn from a
  counter, inbound ones are classified and normalised to an event record. Every exception
  the parsing can raise is an \<open>Inl\<close>.
\<close>

section \<open>Wire vocabulary\<close>

definition KEY_MESSAGE_ID :: string where "KEY_MESSAGE_ID = ''message_id''"
definition KEY_COMMAND :: string where "KEY_COMMAND = ''command''"
definition KEY_ARGS :: string where "KEY_ARGS = ''args''"
definition KEY_RESULT :: string where "KEY_RESULT = ''result''"
definition KEY_ERROR_CODE :: string where "KEY_ERROR_CODE = ''error_code''"
definition KEY_ERROR_DETAILS :: string where "KEY_ERROR_DETAILS = ''details''"
definition KEY_EVENT :: string where "KEY_EVENT = ''event''"
definition KEY_DATA :: string where "KEY_DATA = ''data''"

lemmas wire_keys = KEY_MESSAGE_ID_def KEY_COMMAND_def KEY_ARGS_def KEY_RESULT_def
  KEY_ERROR_CODE_def KEY_ERROR_DETAILS_def KEY_EVENT_def KEY_DATA_def

definition ERR_NODE_NOT_EXISTS :: int where "ERR_NODE_NOT_EXISTS = 5"
definition ERR_NODE_NOT_READY :: int where "ERR_NODE_NOT_READY = 3"
definition ERR_NODE_NOT_RESOLVING :: int where "ERR_NODE_NOT_RESOLVING = 4"

definition EVT_NODE_REMOVED :: string where "EVT_NODE_REMOVED = ''node_removed''"
definition EVT_ATTRIBUTE_UPDATED :: string where "EVT_ATTRIBUTE_UPDATED = ''attribute_updated''"
definition EVT_NODE_EVENT :: string where "EVT_NODE_EVENT = ''node_event''"
definition EVT_ENDPOINT_ADDED :: string where "EVT_ENDPOINT_ADDED = ''endpoint_added''"
definition EVT_ENDPOINT_REMOVED :: string where "EVT_ENDPOINT_REMOVED = ''endpoint_removed''"

lemmas event_names = EVT_NODE_REMOVED_def EVT_ATTRIBUTE_UPDATED_def EVT_NODE_EVENT_def
  EVT_ENDPOINT_ADDED_def EVT_ENDPOINT_REMOVED_def

record matter_command =
  mc_node_id :: int
  mc_endpoint :: int
  mc_cluster :: int
  mc_command :: string
  mc_args :: pydict

record matter_write =
  mw_node_id :: int
  mw_endpoint :: int
  mw_cluster :: int
  mw_attribute :: int
  mw_value :: pyval

record matter_event =
  ev_kind :: pyval
  ev_node_id :: pyval
  ev_endpoint :: "int option"
  ev_cluster :: "int option"
  ev_attribute :: "int option"
  ev_value :: pyval
  ev_event_id :: "int option"
  ev_event_data :: pyval
  ev_raw :: pydict

text \<open>\<open>ProtocolError(code, details)\<close>.\<close>

datatype protocol_error = ProtocolError pyval pyval

section \<open>Reading integers\<close>

text \<open>\<open>opt_int\<close>: the handler catches \<open>TypeError\<close> and \<open>ValueError\<close>; an
  \<open>OverflowError\<close> passes through.\<close>

definition opt_int :: "pyval \<Rightarrow> int option py_result" where
  "opt_int v = (if v = PNone then Inr None
     else (case py_int v of
             Inr n \<Rightarrow> Inr (Some n)
           | Inl e \<Rightarrow> if e = TypeError \<or> e = ValueError then Inr None else Inl e))"

text \<open>\<open>_to_int\<close> of a text, and of a value: the text of a float, a list, an object or
  \<open>None\<close> is never an integer literal, so those raise \<open>ValueError\<close>.\<close>

definition to_int_text :: "string \<Rightarrow> int py_result" where
  "to_int_text s = (case int_of_text s of
       Some n \<Rightarrow> Inr n
     | None \<Rightarrow> (case int_of_text0 s of Some n \<Rightarrow> Inr n | None \<Rightarrow> Inl ValueError))"

fun to_int :: "pyval \<Rightarrow> int py_result" where
  "to_int (PInt n) = Inr n"
| "to_int (PBool b) = Inr (if b then 1 else 0)"
| "to_int (PStr s) = to_int_text s"
| "to_int _ = Inl ValueError"

definition is_node_not_exists :: "pyval \<Rightarrow> bool" where
  "is_node_not_exists code = (code \<noteq> PNone \<and>
     (case to_int code of Inr n \<Rightarrow> n = ERR_NODE_NOT_EXISTS | Inl _ \<Rightarrow> False))"

definition is_node_unreachable :: "pyval \<Rightarrow> bool" where
  "is_node_unreachable code = (code \<noteq> PNone \<and>
     (case to_int code of Inr n \<Rightarrow> n = ERR_NODE_NOT_READY \<or> n = ERR_NODE_NOT_RESOLVING
      | Inl _ \<Rightarrow> False))"

section \<open>Outbound frames\<close>

text \<open>The state is the next number of \<open>itertools.count(1)\<close>.\<close>

definition proto_next_id :: "int \<Rightarrow> string \<times> int" where
  "proto_next_id ids = (str_of_int ids, ids + 1)"

definition build_request :: "string \<Rightarrow> pydict option \<Rightarrow> string option \<Rightarrow> int \<Rightarrow> pydict \<times> int" where
  "build_request command args message_id ids =
     (let (mid, ids') = (case message_id of
            Some m \<Rightarrow> if m \<noteq> [] then (m, ids) else proto_next_id ids
          | None \<Rightarrow> proto_next_id ids)
      in ([(KEY_MESSAGE_ID, PStr mid), (KEY_COMMAND, PStr command),
           (KEY_ARGS, PDict (case args of Some a \<Rightarrow> a | None \<Rightarrow> []))], ids'))"

definition attr_key :: "int \<Rightarrow> int \<Rightarrow> int \<Rightarrow> string" where
  "attr_key endpoint cluster attribute =
     str_of_int endpoint @ ''/'' @ str_of_int cluster @ ''/'' @ str_of_int attribute"

definition build_command :: "matter_command \<Rightarrow> string option \<Rightarrow> int \<Rightarrow> pydict \<times> int" where
  "build_command cmd message_id ids = build_request ''device_command''
     (Some [(''node_id'', PInt (mc_node_id cmd)), (''endpoint_id'', PInt (mc_endpoint cmd)),
            (''cluster_id'', PInt (mc_cluster cmd)), (''command_name'', PStr (mc_command cmd)),
            (''payload'', PDict (mc_args cmd))]) message_id ids"

definition build_write :: "matter_write \<Rightarrow> string option \<Rightarrow> int \<Rightarrow> pydict \<times> int" where
  "build_write w message_id ids = build_request ''write_attribute''
     (Some [(''node_id'', PInt (mw_node_id w)),
            (''attribute_path'', PStr (attr_key (mw_endpoint w) (mw_cluster w) (mw_attribute w))),
            (''value'', mw_value w)]) message_id ids"

section \<open>Inbound frames\<close>

definition is_event :: "pydict \<Rightarrow> bool" where
  "is_event frame = (map_of frame KEY_EVENT \<noteq> None)"

definition is_response :: "pydict \<Rightarrow> bool" where
  "is_response frame = (map_of frame KEY_EVENT = None \<and> map_of frame KEY_MESSAGE_ID \<noteq> None)"

definition message_id_of :: "pydict \<Rightarrow> pyval" where
  "message_id_of frame = dget frame KEY_MESSAGE_ID"

text \<open>The details are kept as the value found (the code renders them with \<open>str\<close>); the
  default is the empty text.\<close>

definition parse_result :: "pydict \<Rightarrow> protocol_error + pyval" where
  "parse_result frame =
     (if map_of frame KEY_ERROR_CODE \<noteq> None
      then Inl (ProtocolError (dget frame KEY_ERROR_CODE)
                  (case map_of frame KEY_ERROR_DETAILS of None \<Rightarrow> PStr [] | Some d \<Rightarrow> d))
      else Inr (dget frame KEY_RESULT))"

definition parse_attr_key :: "string \<Rightarrow> (int \<times> int \<times> int) py_result" where
  "parse_attr_key key = (case str_split (CHR ''/'') key of
       [e, c, a] \<Rightarrow>
         (case to_int_text e of Inl x \<Rightarrow> Inl x | Inr e' \<Rightarrow>
            (case to_int_text c of Inl x \<Rightarrow> Inl x | Inr c' \<Rightarrow>
               (case to_int_text a of Inl x \<Rightarrow> Inl x | Inr a' \<Rightarrow> Inr (e', c', a'))))
     | _ \<Rightarrow> Inl ValueError)"

text \<open>\<open>parse_attr_key(str(value))\<close>: only a text can hold two separators between three
  integer literals.\<close>

fun parse_attr_path :: "pyval \<Rightarrow> (int \<times> int \<times> int) py_result" where
  "parse_attr_path (PStr s) = parse_attr_key s"
| "parse_attr_path _ = Inl ValueError"

text \<open>\<open>_to_int(raw) if raw is not None else None\<close>.\<close>

definition to_int_or_none :: "pyval \<Rightarrow> int option py_result" where
  "to_int_or_none raw = (if raw = PNone then Inr None
     else (case to_int raw of Inr n \<Rightarrow> Inr (Some n) | Inl e \<Rightarrow> Inl e))"

definition opt_val :: "int option \<Rightarrow> pyval" where
  "opt_val x = (case x of None \<Rightarrow> PNone | Some n \<Rightarrow> PInt n)"

definition blank_event :: "pydict \<Rightarrow> pyval \<Rightarrow> matter_event" where
  "blank_event frame name = \<lparr>ev_kind = name, ev_node_id = PNone, ev_endpoint = None, ev_cluster = None,
     ev_attribute = None, ev_value = PNone, ev_event_id = None, ev_event_data = PNone, ev_raw = frame\<rparr>"

definition parse_endpoint_event :: "matter_event \<Rightarrow> pydict \<Rightarrow> matter_event py_result" where
  "parse_endpoint_event ev d =
     (case to_int_or_none (dget d ''node_id'') of Inl e \<Rightarrow> Inl e | Inr n \<Rightarrow>
     (case to_int_or_none (dget d ''endpoint_id'') of Inl e \<Rightarrow> Inl e | Inr ep \<Rightarrow>
        Inr (ev\<lparr>ev_node_id := opt_val n, ev_endpoint := ep\<rparr>)))"

definition parse_cluster_event :: "matter_event \<Rightarrow> pydict \<Rightarrow> matter_event py_result" where
  "parse_cluster_event ev d =
     (case to_int_or_none (dget d ''node_id'') of Inl e \<Rightarrow> Inl e | Inr n \<Rightarrow>
     (case to_int_or_none (dget d ''endpoint_id'') of Inl e \<Rightarrow> Inl e | Inr ep \<Rightarrow>
     (case to_int_or_none (dget d ''cluster_id'') of Inl e \<Rightarrow> Inl e | Inr cl \<Rightarrow>
     (case to_int_or_none (dget d ''event_id'') of Inl e \<Rightarrow> Inl e | Inr ei \<Rightarrow>
        Inr (ev\<lparr>ev_node_id := opt_val n, ev_endpoint := ep, ev_cluster := cl,
                ev_event_id := ei, ev_event_data := dget d ''data''\<rparr>)))))"

definition parse_event :: "pydict \<Rightarrow> matter_event py_result" where
  "parse_event frame =
     (let name = (case map_of frame KEY_EVENT of None \<Rightarrow> PStr [] | Some n \<Rightarrow> n);
          data = dget frame KEY_DATA;
          ev = blank_event frame name
      in if name = PStr EVT_ATTRIBUTE_UPDATED \<and> (case data of PList xs \<Rightarrow> 3 \<le> length xs | _ \<Rightarrow> False)
         then (case data of
                 PList (n # path # v # _) \<Rightarrow>
                   (case parse_attr_path path of
                      Inl e \<Rightarrow> Inl e
                    | Inr (e, c, a) \<Rightarrow> Inr (ev\<lparr>ev_node_id := n, ev_endpoint := Some e, ev_cluster := Some c,
                                              ev_attribute := Some a, ev_value := v\<rparr>))
               | _ \<Rightarrow> Inr ev)
         else if name = PStr EVT_NODE_REMOVED
         then Inr (ev\<lparr>ev_node_id := (case data of PDict d \<Rightarrow> dget d ''node_id'' | _ \<Rightarrow> data)\<rparr>)
         else (case data of
                 PDict d \<Rightarrow>
                   if name = PStr EVT_ENDPOINT_ADDED \<or> name = PStr EVT_ENDPOINT_REMOVED
                   then parse_endpoint_event ev d
                   else if name = PStr EVT_NODE_EVENT then parse_cluster_event ev d
                   else Inr (ev\<lparr>ev_node_id := dget d ''node_id''\<rparr>)
               | _ \<Rightarrow> Inr ev))"

section \<open>Commissioning window\<close>

text \<open>\<open>str(value)\<close>; the text of a float, list or object is the parameter \<open>repr\<close>.\<close>

fun py_str :: "(pyval \<Rightarrow> string) \<Rightarrow> pyval \<Rightarrow> string" where
  "py_str repr PNone = ''None''"
| "py_str repr (PBool b) = (if b then ''True'' else ''False'')"
| "py_str repr (PInt n) = str_of_int n"
| "py_str repr (PStr s) = s"
| "py_str repr v = repr v"

record commissioning_window =
  cw_manual_code :: string
  cw_qr_code :: "string option"
  cw_pin_code :: "int option"

definition get_first :: "pydict \<Rightarrow> string \<Rightarrow> string \<Rightarrow> pyval" where
  "get_first d k k' = (if dget d k = PNone then dget d k' else dget d k)"

definition parse_commissioning_window :: "(pyval \<Rightarrow> string) \<Rightarrow> pyval \<Rightarrow> commissioning_window py_result" where
  "parse_commissioning_window repr result =
     (let data = (case result of PDict d \<Rightarrow> d | _ \<Rightarrow> []);
          manual = get_first data ''setup_manual_code'' ''manualPairingCode'';
          qr = get_first data ''setup_qr_code'' ''qrPairingCode'';
          pin = get_first data ''setup_pin_code'' ''pinCode''
      in if manual = PNone then Inl ValueError
         else (case opt_int pin of
                 Inl e \<Rightarrow> Inl e
               | Inr p \<Rightarrow> Inr \<lparr>cw_manual_code = py_str repr manual,
                     cw_qr_code = (if qr = PNone then None else Some (py_str repr qr)),
                     cw_pin_code = p\<rparr>))"

section \<open>Properties\<close>

lemma to_int_text_str [simp]: "to_int_text (str_of_int n) = Inr n"
  by (simp add: to_int_text_def)

lemma slash_not_in_str_of_int: "CHR ''/'' \<notin> set (str_of_int n)"
  using str_of_int_chars [of "CHR ''/''" n] by (auto simp: code_point_def)

lemma str_split_attr_key:
  "str_split (CHR ''/'') (attr_key e c a) = [str_of_int e, str_of_int c, str_of_int a]"
  by (simp add: attr_key_def str_split_append str_split_no_sep slash_not_in_str_of_int)

lemma parse_attr_key_attr_key [simp]: "parse_attr_key (attr_key e c a) = Inr (e, c, a)"
  by (simp add: parse_attr_key_def str_split_attr_key)

text \<open>A path written by \<open>attr_key\<close> and reported back in an \<open>attribute_updated\<close>
  frame is normalised to an event for exactly that endpoint, cluster and attribute, with the
  node id and the value as they came.\<close>

theorem attribute_updated_roundtrip:
  "parse_event [(KEY_EVENT, PStr EVT_ATTRIBUTE_UPDATED),
                (KEY_DATA, PList (n # PStr (attr_key e c a) # v # rest))]
   = Inr \<lparr>ev_kind = PStr EVT_ATTRIBUTE_UPDATED, ev_node_id = n, ev_endpoint = Some e,
          ev_cluster = Some c, ev_attribute = Some a, ev_value = v, ev_event_id = None,
          ev_event_data = PNone,
          ev_raw = [(KEY_EVENT, PStr EVT_ATTRIBUTE_UPDATED),
                    (KEY_DATA, PList (n # PStr (attr_key e c a) # v # rest))]\<rparr>"
  by (simp add: parse_event_def Let_def dget_def wire_keys event_names blank_event_def)

text \<open>The only exception \<open>parse_event\<close> raises is \<open>ValueError\<close>.\<close>

lemma to_int_error: "to_int v = Inl e \<Longrightarrow> e = ValueError"
  by (cases v) (auto simp: to_int_text_def split: option.splits)

lemma to_int_or_none_error: "to_int_or_none v = Inl e \<Longrightarrow> e = ValueError"
  by (auto simp: to_int_or_none_def to_int_error split: if_splits sum.splits)

lemma to_int_text_error: "to_int_text s = Inl e \<Longrightarrow> e = ValueError"
  by (auto simp: to_int_text_def split: option.splits)

lemma parse_attr_key_error: "parse_attr_key s = Inl e \<Longrightarrow> e = ValueError"
  by (auto simp: parse_attr_key_def to_int_text_error split: list.splits sum.splits)

lemma parse_attr_path_error: "parse_attr_path v = Inl e \<Longrightarrow> e = ValueError"
  by (cases v) (auto simp: parse_attr_key_error)

lemma parse_endpoint_event_error: "parse_endpoint_event ev d = Inl e \<Longrightarrow> e = ValueError"
  by (auto simp: parse_endpoint_event_def to_int_or_none_error split: sum.splits)

lemma parse_cluster_event_error: "parse_cluster_event ev d = Inl e \<Longrightarrow> e = ValueError"
  by (auto simp: parse_cluster_event_def to_int_or_none_error split: sum.splits)

lemma parse_event_error: "parse_event frame = Inl e \<Longrightarrow> e = ValueError"
  by (auto simp: parse_event_def Let_def parse_attr_path_error
      dest: parse_endpoint_event_error parse_cluster_event_error
      split: if_splits pyval.splits list.splits sum.splits)

text \<open>Zero-padded decimal texts are read as decimals, which base 0 alone would refuse.\<close>

lemma parse_digits_zeros:
  "parse_digits 10 p 0 (replicate k (CHR ''0'') @ digits_of 10 n) = Some (int n)"
proof (induction k arbitrary: p)
  case 0
  show ?case using parse_digits_of [of 10 p n] by simp
next
  case (Suc k)
  then show ?case by (simp add: digit_val_def code_point_def)
qed

lemma to_int_text_zero_padded:
  "to_int_text (replicate k (CHR ''0'') @ digits_of 10 n) = Inr (int n)"
proof -
  let ?s = "replicate k (CHR ''0'') @ digits_of 10 n"
  have chars: "list_all (\<lambda>c. 48 \<le> code_point c \<and> code_point c \<le> 57) ?s"
    using digits_of_char_range [of 10 _ n] by (fastforce simp: list_all_iff code_point_def)
  then have strip: "int_strip ?s = ?s"
    unfolding int_strip_def
    by (intro strip_with_id list.pred_mono_strong [OF chars]) (auto simp: is_int_space_def Let_def)
  obtain c cs where s: "?s = c # cs" by (cases ?s) auto
  with chars have "c \<noteq> CHR ''+''" "c \<noteq> CHR ''-''" by (auto simp: code_point_def)
  with s have "split_sign ?s = (1, ?s)" by simp
  then show ?thesis
    using parse_digits_zeros [of False k n] by (simp add: to_int_text_def int_of_text_def strip)
qed

lemma opt_int_overflow:
  "opt_int v = Inl e \<Longrightarrow> e = OverflowError \<and> (v = PFloat PosInf \<or> v = PFloat NegInf)"
proof (cases v)
  case (PFloat f)
  assume "opt_int v = Inl e"
  with PFloat show ?thesis by (cases f) (auto simp: opt_int_def)
qed (auto simp: opt_int_def split: option.splits)

text \<open>The optional-integer coercion never fails except on an infinite float, where the
  \<open>OverflowError\<close> of \<open>int()\<close> escapes the handler.\<close>

theorem opt_int_error_iff:
  "opt_int v = Inl e \<longleftrightarrow> e = OverflowError \<and> (v = PFloat PosInf \<or> v = PFloat NegInf)"
proof
  assume "opt_int v = Inl e"
  then show "e = OverflowError \<and> (v = PFloat PosInf \<or> v = PFloat NegInf)" by (rule opt_int_overflow)
qed (auto simp: opt_int_def)

text \<open>Consecutive requests without an id of their own get different ids.\<close>

lemma build_request_fresh:
  assumes "build_request c1 a1 None ids = (f, ids1)" "build_request c2 a2 None ids1 = (f2, ids2)"
  shows "message_id_of f \<noteq> message_id_of f2 \<and> ids < ids1 \<and> is_response f"
  using assms
  by (auto simp: build_request_def proto_next_id_def message_id_of_def is_response_def dget_def wire_keys)

end
