(* ===== verification/BridgeProtocol.thy ===== *)
theory BridgeProtocol
  imports MatterProtocol
begin

text \<open>
  \<open>bridge_protocol.py\<close>: the wire contract with the bridge node. The role vocabularies, the
  published identity of an accessory (its text form, its strict parser and the next
  generation), the shapes with their conversion from and to the wire, the tolerant parsers
  of status, pairing and window answers, and the builder of outbound frames. The envelope
  keys are those of \<open>MatterProtocol\<close>.

  \<open>repr\<close> is the text \<open>str(value)\<close> gives for a value that is not a text, an integer, a
  boolean or \<open>None\<close>, and \<open>todict\<close> what \<open>dict(value)\<close> gives for one that is not an object.
\<close>

section \<open>Roles\<close>

definition ROLE_STATE_KEYS :: "(string \<times> string list) list" where
  "ROLE_STATE_KEYS = [
     (''onOffPlugInUnit'', [''onOff'']),
     (''onOffLight'', [''onOff'']),
     (''dimmableLight'', [''onOff'', ''level'']),
     (''colorTemperatureLight'', [''onOff'', ''level'', ''colorTempMireds'']),
     (''extendedColorLight'', [''onOff'', ''level'', ''colorTempMireds'', ''hue'', ''saturation'']),
     (''windowCovering'', [''position'']),
     (''doorLock'', [''locked'']),
     (''occupancySensor'', [''occupied'']),
     (''contactSensor'', [''contact'']),
     (''waterLeakDetector'', [''leak'']),
     (''waterFreezeDetector'', [''freeze'']),
     (''rainSensor'', [''rain'']),
     (''smokeAlarm'', [''smoke'']),
     (''coAlarm'', [''co'']),
     (''temperatureSensor'', [''temperatureC'']),
     (''humiditySensor'', [''humidityPct'']),
     (''lightSensor'', [''lux'']),
     (''pressureSensor'', [''pressureKPa'']),
     (''flowSensor'', [''flowM3h'']),
     (''thermostat'', [''localTemperatureC'', ''heatingSetpointC'', ''coolingSetpointC'', ''systemMode''])]"

definition ROLE_COMMANDS :: "(string \<times> string list) list" where
  "ROLE_COMMANDS = [
     (''onOffPlugInUnit'', [''onOff'']),
     (''onOffLight'', [''onOff'']),
     (''dimmableLight'', [''onOff'', ''setLevel'']),
     (''colorTemperatureLight'', [''onOff'', ''setLevel'', ''setColorTemp'']),
     (''extendedColorLight'', [''onOff'', ''setLevel'', ''setColorTemp'', ''setColor'']),
     (''windowCovering'', [''goToPosition'', ''stopMotion'']),
     (''doorLock'', [''lock'', ''unlock'']),
     (''occupancySensor'', []),
     (''contactSensor'', []),
     (''waterLeakDetector'', []),
     (''waterFreezeDetector'', []),
     (''rainSensor'', []),
     (''smokeAlarm'', []),
     (''coAlarm'', []),
     (''temperatureSensor'', []),
     (''humiditySensor'', []),
     (''lightSensor'', []),
     (''pressureSensor'', []),
     (''flowSensor'', []),
     (''thermostat'', [''setHeatingSetpoint'', ''setCoolingSetpoint'', ''setSystemMode''])]"

definition ROLES :: "string list" where
  "ROLES = map fst ROLE_STATE_KEYS"

definition is_role :: "string \<Rightarrow> bool" where
  "is_role r = (r \<in> set ROLES)"

section \<open>Published identity\<close>

definition PUBLISHED_ID_MAX :: nat where "PUBLISHED_ID_MAX = 32"
definition PUBLISHED_ID_PREFIX :: string where "PUBLISHED_ID_PREFIX = ''indigo-''"
definition JS_MAX_SAFE_INTEGER :: int where "JS_MAX_SAFE_INTEGER = 2 ^ 53 - 1"

record published_id =
  pi_device_id :: int
  pi_generation :: int

definition published_id_for :: "int \<Rightarrow> int \<Rightarrow> string" where
  "published_id_for device_id generation =
     (if generation = 1 then PUBLISHED_ID_PREFIX @ str_of_int device_id
      else PUBLISHED_ID_PREFIX @ str_of_int device_id @ ''~'' @ str_of_int generation)"

text \<open>The match of the pattern: the two groups, the second one optional. The digits are the
  ASCII ones, the match is anchored at both ends.\<close>

fun split_minus :: "string \<Rightarrow> string \<times> string" where
  "split_minus [] = ([], [])"
| "split_minus (c # cs) = (if c = CHR ''-'' then ([c], cs) else ([], c # cs))"

definition match_published_id :: "string \<Rightarrow> (string \<times> string option) option" where
  "match_published_id s =
     (if \<not> prefix PUBLISHED_ID_PREFIX s then None
      else (let t = drop (length PUBLISHED_ID_PREFIX) s;
                (sign, u) = split_minus t;
                ds = takeWhile is_decimal_char u;
                rest = dropWhile is_decimal_char u
            in if ds = [] then None
               else (case rest of
                       [] \<Rightarrow> Some (sign @ ds, None)
                     | c # gs \<Rightarrow> if c = CHR ''~'' \<and> str_isdecimal gs then Some (sign @ ds, Some gs) else None)))"

definition parse_published_id :: "pyval \<Rightarrow> published_id option" where
  "parse_published_id v =
     (case v of
        PStr s \<Rightarrow>
          (if PUBLISHED_ID_MAX < length s then None
           else (case match_published_id s of
                   None \<Rightarrow> None
                 | Some (dev, gen) \<Rightarrow>
                     (case int_of_text dev of
                        None \<Rightarrow> None
                      | Some device_id \<Rightarrow>
                          if JS_MAX_SAFE_INTEGER < \<bar>device_id\<bar> then None
                          else (case gen of
                                  None \<Rightarrow> Some \<lparr>pi_device_id = device_id, pi_generation = 1\<rparr>
                                | Some g \<Rightarrow>
                                    (case int_of_text g of
                                       None \<Rightarrow> None
                                     | Some generation \<Rightarrow>
                                         if generation < 2 then None
                                         else Some \<lparr>pi_device_id = device_id, pi_generation = generation\<rparr>)))))
      | _ \<Rightarrow> None)"

definition next_generation :: "string \<Rightarrow> string py_result" where
  "next_generation published_as =
     (case parse_published_id (PStr published_as) of
        None \<Rightarrow> Inl ValueError
      | Some p \<Rightarrow> Inr (published_id_for (pi_device_id p) (pi_generation p + 1)))"

section \<open>Errors and shapes\<close>

text \<open>\<open>BridgeProtocolError\<close>: one constructor per text of its details.\<close>

datatype bridge_error =
    NotHandshake pyval
  | NonIntegerVersion pyval
  | WindowMissing "string list" pyval
  | NodeError pyval string

definition ERR_MALFORMED_ARGS :: string where "ERR_MALFORMED_ARGS = ''malformed_args''"

fun bridge_error_code :: "bridge_error \<Rightarrow> pyval" where
  "bridge_error_code (NodeError code _) = code"
| "bridge_error_code _ = PStr ERR_MALFORMED_ARGS"

record hello =
  he_protocol_version :: int
  he_bridge_version :: string
  he_matter_js_version :: string

text \<open>\<open>role\<close> and \<open>label\<close> are copied from the wire without a check, so they are dynamic values.\<close>

record endpoint_spec =
  es_device_id :: int
  es_role :: pyval
  es_label :: pyval
  es_reachable :: bool
  es_states :: pydict
  es_options :: pydict
  es_battery :: bool
  es_published_as :: string

record endpoint_summary =
  sm_device_id :: int
  sm_endpoint_number :: int
  sm_role :: string
  sm_published_as :: string

record drift_entry =
  dr_unique_id :: string
  dr_expected :: int
  dr_actual :: int

record fabric_info =
  fi_index :: int
  fi_label :: string
  fi_vendor_id :: int

record churn_peer =
  cp_peer_node_id :: string
  cp_fabric_index :: int
  cp_live_sessions :: int
  cp_invalid_deletions :: int
  cp_window_minutes :: int
  cp_since :: string

record subscription_churn =
  sc_checked :: bool
  sc_active :: bool
  sc_peers :: "churn_peer list"

record hygiene_peer =
  hp_peer_node_id :: string
  hp_fabric_index :: int
  hp_live_sessions :: int

record hygiene_closed =
  hc_superseded :: int
  hc_dead :: int
  hc_rotated :: int

record session_hygiene =
  sh_checked :: bool
  sh_peers :: "hygiene_peer list"
  sh_closed :: hygiene_closed
  sh_sent :: bool

record status_report =
  sr_commissioned :: bool
  sr_fabrics :: "fabric_info list"
  sr_endpoint_count :: int
  sr_endpoints :: "endpoint_summary list"
  sr_drift :: "drift_entry list"
  sr_drift_checked :: bool
  sr_warnings :: "string list"
  sr_churn :: subscription_churn
  sr_hygiene :: session_hygiene

record pairing_report =
  pr_commissioned :: bool
  pr_window_open :: bool
  pr_window_expires_at :: pyval
  pr_manual_code :: pyval
  pr_qr_code :: pyval
  pr_fabrics :: "fabric_info list"

record pairing_window =
  pw_manual_code :: string
  pw_qr_code :: string
  pw_expires_at :: string

record fabric_removal =
  fr_removed :: bool
  fr_remaining :: "int option"

record bridge_command =
  bc_device_id :: int
  bc_command :: string
  bc_args :: pydict

definition to_wire :: "endpoint_spec \<Rightarrow> pydict" where
  "to_wire spec =
     [(''indigoDeviceId'', PInt (es_device_id spec)), (''role'', es_role spec), (''label'', es_label spec),
      (''reachable'', PBool (es_reachable spec)), (''states'', PDict (es_states spec)),
      (''options'', PDict (es_options spec))]
     @ (if es_battery spec then [(''battery'', PBool True)] else [])
     @ (if es_published_as spec \<noteq> [] \<and> es_published_as spec \<noteq> published_id_for (es_device_id spec) 1
        then [(''publishedAs'', PStr (es_published_as spec))] else [])"

text \<open>\<open>dict(value or {})\<close> and \<open>str(value or "")\<close>.\<close>

definition dict_or_empty :: "(pyval \<Rightarrow> pydict py_result) \<Rightarrow> pyval \<Rightarrow> pydict py_result" where
  "dict_or_empty todict v = (case or_empty v of PDict d \<Rightarrow> Inr d | w \<Rightarrow> todict w)"

definition str_or_blank :: "(pyval \<Rightarrow> string) \<Rightarrow> pyval \<Rightarrow> string" where
  "str_or_blank repr v = (if truthy v then py_str repr v else [])"

definition from_wire ::
  "(pyval \<Rightarrow> string) \<Rightarrow> (pyval \<Rightarrow> pydict py_result) \<Rightarrow> pydict \<Rightarrow> endpoint_spec py_result" where
  "from_wire repr todict d =
     py_bind (py_item (PDict d) ''indigoDeviceId'') (\<lambda>raw.
     py_bind (py_int raw) (\<lambda>device_id.
     py_bind (py_item (PDict d) ''role'') (\<lambda>role.
     py_bind (dict_or_empty todict (dget d ''states'')) (\<lambda>states.
     py_bind (dict_or_empty todict (dget d ''options'')) (\<lambda>options.
       Inr \<lparr>es_device_id = device_id, es_role = role, es_label = dget_or d ''label'' (PStr []),
            es_reachable = truthy (dget_or d ''reachable'' (PBool True)), es_states = states,
            es_options = options, es_battery = truthy (dget d ''battery''),
            es_published_as = str_or_blank repr (dget d ''publishedAs'')\<rparr>)))))"

section \<open>Parsing\<close>

text \<open>\<open>isinstance(version, int) and not isinstance(version, bool)\<close>.\<close>

definition parse_hello :: "(pyval \<Rightarrow> string) \<Rightarrow> pyval \<Rightarrow> bridge_error + hello" where
  "parse_hello repr frame =
     (case frame of
        PDict d \<Rightarrow>
          (case map_of d ''protocolVersion'' of
             None \<Rightarrow> Inl (NotHandshake frame)
           | Some version \<Rightarrow>
               (case version of
                  PInt n \<Rightarrow> Inr \<lparr>he_protocol_version = n,
                     he_bridge_version = py_str repr (dget_or d ''bridgeVersion'' (PStr ''unknown'')),
                     he_matter_js_version = py_str repr (dget_or d ''matterJsVersion'' (PStr ''unknown''))\<rparr>
                | _ \<Rightarrow> Inl (NonIntegerVersion version)))
      | _ \<Rightarrow> Inl (NotHandshake frame))"

text \<open>\<open>try: ... except (listed): return None\<close>.\<close>

definition tolerate :: "py_exc list \<Rightarrow> 'a py_result \<Rightarrow> 'a option py_result" where
  "tolerate listed r = (case r of Inr x \<Rightarrow> Inr (Some x)
     | Inl e \<Rightarrow> if e \<in> set listed then Inr None else Inl e)"

definition int_field :: "pydict \<Rightarrow> string \<Rightarrow> int py_result" where
  "int_field d k = py_int (dget_or d k (PInt 0))"

definition str_field :: "(pyval \<Rightarrow> string) \<Rightarrow> pydict \<Rightarrow> string \<Rightarrow> string" where
  "str_field repr d k = py_str repr (dget_or d k (PStr []))"

definition parse_fabric :: "(pyval \<Rightarrow> string) \<Rightarrow> pyval \<Rightarrow> fabric_info option py_result" where
  "parse_fabric repr item =
     (case item of
        PDict d \<Rightarrow> tolerate [KeyError, TypeError, ValueError]
          (py_bind (py_item item ''fabricIndex'') (\<lambda>raw.
           py_bind (py_int raw) (\<lambda>index.
           py_bind (int_field d ''vendorId'') (\<lambda>vendor.
             Inr \<lparr>fi_index = index, fi_label = str_or_blank repr (dget d ''label''), fi_vendor_id = vendor\<rparr>))))
      | _ \<Rightarrow> Inr None)"

text \<open>\<open>[x for x in (f(item) for item in (value or [])) if x is not None]\<close>.\<close>

definition parse_each :: "(pyval \<Rightarrow> 'a option py_result) \<Rightarrow> pyval \<Rightarrow> 'a list py_result" where
  "parse_each f v = py_bind (py_iter v) (\<lambda>items.
     py_bind (py_map f items) (\<lambda>xs. Inr (List.map_filter (\<lambda>x. x) xs)))"

definition parse_fabrics :: "(pyval \<Rightarrow> string) \<Rightarrow> pyval \<Rightarrow> fabric_info list py_result" where
  "parse_fabrics repr v = parse_each (parse_fabric repr) v"

definition parse_drift_entry :: "(pyval \<Rightarrow> string) \<Rightarrow> pyval \<Rightarrow> drift_entry py_result" where
  "parse_drift_entry repr item =
     py_bind (py_get item ''uniqueId'' (PStr [])) (\<lambda>uid.
     py_bind (py_get item ''expected'' (PInt 0)) (\<lambda>e.
     py_bind (py_int e) (\<lambda>expected.
     py_bind (py_get item ''actual'' (PInt 0)) (\<lambda>a.
     py_bind (py_int a) (\<lambda>actual.
       Inr \<lparr>dr_unique_id = py_str repr uid, dr_expected = expected, dr_actual = actual\<rparr>)))))"

definition parse_drift :: "(pyval \<Rightarrow> string) \<Rightarrow> pyval \<Rightarrow> drift_entry list py_result" where
  "parse_drift repr v = py_bind (py_iter v) (py_map (parse_drift_entry repr))"

definition parse_churn_peer :: "(pyval \<Rightarrow> string) \<Rightarrow> pyval \<Rightarrow> churn_peer option py_result" where
  "parse_churn_peer repr item =
     (case item of
        PDict d \<Rightarrow> tolerate [TypeError, ValueError]
          (py_bind (int_field d ''fabricIndex'') (\<lambda>index.
           py_bind (int_field d ''liveSessions'') (\<lambda>live.
           py_bind (int_field d ''invalidDeletions'') (\<lambda>invalid.
           py_bind (int_field d ''windowMinutes'') (\<lambda>minutes.
             Inr \<lparr>cp_peer_node_id = str_field repr d ''peerNodeId'', cp_fabric_index = index,
                  cp_live_sessions = live, cp_invalid_deletions = invalid,
                  cp_window_minutes = minutes, cp_since = str_field repr d ''since''\<rparr>)))))
      | _ \<Rightarrow> Inr None)"

definition no_churn :: subscription_churn where
  "no_churn = \<lparr>sc_checked = False, sc_active = False, sc_peers = []\<rparr>"

definition parse_subscription_churn :: "(pyval \<Rightarrow> string) \<Rightarrow> pyval \<Rightarrow> subscription_churn py_result" where
  "parse_subscription_churn repr data =
     (case data of
        PDict d \<Rightarrow> py_bind (parse_each (parse_churn_peer repr) (dget d ''peers'')) (\<lambda>peers.
          Inr \<lparr>sc_checked = truthy (dget d ''checked''), sc_active = truthy (dget d ''active''), sc_peers = peers\<rparr>)
      | _ \<Rightarrow> Inr no_churn)"

definition parse_hygiene_peer :: "(pyval \<Rightarrow> string) \<Rightarrow> pyval \<Rightarrow> hygiene_peer option py_result" where
  "parse_hygiene_peer repr item =
     (case item of
        PDict d \<Rightarrow> tolerate [TypeError, ValueError]
          (py_bind (int_field d ''fabricIndex'') (\<lambda>index.
           py_bind (int_field d ''liveSessions'') (\<lambda>live.
             Inr \<lparr>hp_peer_node_id = str_field repr d ''peerNodeId'', hp_fabric_index = index,
                  hp_live_sessions = live\<rparr>)))
      | _ \<Rightarrow> Inr None)"

definition none_closed :: hygiene_closed where
  "none_closed = \<lparr>hc_superseded = 0, hc_dead = 0, hc_rotated = 0\<rparr>"

definition no_hygiene :: session_hygiene where
  "no_hygiene = \<lparr>sh_checked = False, sh_peers = [], sh_closed = none_closed, sh_sent = False\<rparr>"

definition parse_hygiene_closed :: "pyval \<Rightarrow> hygiene_closed py_result" where
  "parse_hygiene_closed v =
     (case v of
        PDict d \<Rightarrow> py_bind (tolerate [TypeError, ValueError]
            (py_bind (int_field d ''superseded'') (\<lambda>superseded.
             py_bind (int_field d ''dead'') (\<lambda>dead.
             py_bind (int_field d ''rotated'') (\<lambda>rotated.
               Inr \<lparr>hc_superseded = superseded, hc_dead = dead, hc_rotated = rotated\<rparr>)))))
          (\<lambda>r. Inr (case r of None \<Rightarrow> none_closed | Some c \<Rightarrow> c))
      | _ \<Rightarrow> Inr none_closed)"

definition parse_session_hygiene :: "(pyval \<Rightarrow> string) \<Rightarrow> pyval \<Rightarrow> session_hygiene py_result" where
  "parse_session_hygiene repr data =
     (case data of
        PDict d \<Rightarrow>
          py_bind (parse_hygiene_closed (dget d ''closed'')) (\<lambda>closed.
          py_bind (parse_each (parse_hygiene_peer repr) (dget d ''peers'')) (\<lambda>peers.
            Inr \<lparr>sh_checked = truthy (dget d ''checked''), sh_peers = peers, sh_closed = closed, sh_sent = True\<rparr>))
      | _ \<Rightarrow> Inr no_hygiene)"

definition parse_summary :: "(pyval \<Rightarrow> string) \<Rightarrow> pyval \<Rightarrow> endpoint_summary py_result" where
  "parse_summary repr item =
     py_bind (py_item item ''indigoDeviceId'') (\<lambda>dev.
     py_bind (py_int dev) (\<lambda>device_id.
     py_bind (py_item item ''endpointNumber'') (\<lambda>num.
     py_bind (py_int num) (\<lambda>number.
     py_bind (py_get item ''role'' (PStr [])) (\<lambda>role.
     py_bind (py_get item ''publishedAs'' (PStr [])) (\<lambda>pub.
       Inr \<lparr>sm_device_id = device_id, sm_endpoint_number = number, sm_role = py_str repr role,
            sm_published_as = str_or_blank repr pub\<rparr>))))))"

text \<open>A truthy answer that is not an object has no \<open>get\<close>.\<close>

definition parse_status :: "(pyval \<Rightarrow> string) \<Rightarrow> pyval \<Rightarrow> status_report py_result" where
  "parse_status repr result =
     (case or_empty result of
        PDict d \<Rightarrow>
          py_bind (parse_fabrics repr (dget d ''fabrics'')) (\<lambda>fabrics.
          py_bind (int_field d ''endpointCount'') (\<lambda>count.
          py_bind (py_bind (py_iter (dget d ''endpoints'')) (py_map (parse_summary repr))) (\<lambda>endpoints.
          py_bind (parse_drift repr (dget d ''drift'')) (\<lambda>drift.
          py_bind (py_iter (dget d ''warnings'')) (\<lambda>warnings.
          py_bind (parse_subscription_churn repr (dget d ''subscriptionChurn'')) (\<lambda>churn.
          py_bind (parse_session_hygiene repr (dget d ''sessionHygiene'')) (\<lambda>hygiene.
            Inr \<lparr>sr_commissioned = truthy (dget d ''commissioned''), sr_fabrics = fabrics,
                 sr_endpoint_count = count, sr_endpoints = endpoints, sr_drift = drift,
                 sr_drift_checked = truthy (dget d ''driftChecked''),
                 sr_warnings = map (py_str repr) warnings, sr_churn = churn, sr_hygiene = hygiene\<rparr>)))))))
      | _ \<Rightarrow> Inl AttributeError)"

definition parse_pairing :: "(pyval \<Rightarrow> string) \<Rightarrow> pyval \<Rightarrow> pairing_report py_result" where
  "parse_pairing repr result =
     (case or_empty result of
        PDict d \<Rightarrow> py_bind (parse_fabrics repr (dget d ''fabrics'')) (\<lambda>fabrics.
          Inr \<lparr>pr_commissioned = truthy (dget d ''commissioned''), pr_window_open = truthy (dget d ''windowOpen''),
               pr_window_expires_at = dget d ''windowExpiresAt'', pr_manual_code = dget d ''manualPairingCode'',
               pr_qr_code = dget d ''qrPairingCode'', pr_fabrics = fabrics\<rparr>)
      | _ \<Rightarrow> Inl AttributeError)"

definition parse_window :: "(pyval \<Rightarrow> string) \<Rightarrow> pyval \<Rightarrow> bridge_error + pairing_window" where
  "parse_window repr result =
     (let d = (case result of PDict d \<Rightarrow> d | _ \<Rightarrow> []);
          missing = filter (\<lambda>k. \<not> truthy (dget d k)) [''manualPairingCode'', ''qrPairingCode'', ''windowExpiresAt'']
      in if missing \<noteq> [] then Inl (WindowMissing missing result)
         else Inr \<lparr>pw_manual_code = py_str repr (dget d ''manualPairingCode''),
                   pw_qr_code = py_str repr (dget d ''qrPairingCode''),
                   pw_expires_at = py_str repr (dget d ''windowExpiresAt'')\<rparr>)"

definition parse_fabric_removal :: "pyval \<Rightarrow> fabric_removal py_result" where
  "parse_fabric_removal result =
     (let d = (case result of PDict d \<Rightarrow> d | _ \<Rightarrow> []);
          raw = dget d ''remaining''
      in py_bind (if raw = PNone then Inr None else tolerate [TypeError, ValueError] (py_int raw)) (\<lambda>remaining.
           Inr \<lparr>fr_removed = truthy (dget_or d ''removed'' (PBool True)), fr_remaining = remaining\<rparr>))"

definition parse_bridge_command ::
  "(pyval \<Rightarrow> string) \<Rightarrow> (pyval \<Rightarrow> pydict py_result) \<Rightarrow> pyval \<Rightarrow> bridge_command py_result" where
  "parse_bridge_command repr todict data =
     py_bind (py_item (or_empty data) ''indigoDeviceId'') (\<lambda>raw.
     py_bind (py_int raw) (\<lambda>device_id.
     py_bind (py_get (or_empty data) KEY_COMMAND (PStr [])) (\<lambda>cmd.
     py_bind (py_get (or_empty data) KEY_ARGS PNone) (\<lambda>args.
     py_bind (dict_or_empty todict args) (\<lambda>d.
       Inr \<lparr>bc_device_id = device_id, bc_command = py_str repr cmd, bc_args = d\<rparr>)))))"

section \<open>Frames\<close>

text \<open>The counter of message ids and the envelope are those of the controller protocol, with
  the class's own text.\<close>

definition bridge_next_id :: "int \<Rightarrow> string \<times> int" where
  "bridge_next_id ids = (str_of_int ids, ids + 1)"

definition bridge_request :: "string \<Rightarrow> pydict option \<Rightarrow> string option \<Rightarrow> int \<Rightarrow> pydict \<times> int" where
  "bridge_request command args message_id ids =
     (let (mid, ids') = (case message_id of
            Some m \<Rightarrow> if m \<noteq> [] then (m, ids) else bridge_next_id ids
          | None \<Rightarrow> bridge_next_id ids)
      in ([(KEY_MESSAGE_ID, PStr mid), (KEY_COMMAND, PStr command),
           (KEY_ARGS, PDict (case args of Some a \<Rightarrow> a | None \<Rightarrow> []))], ids'))"

datatype spec_arg = Spec endpoint_spec | WireDict pydict

fun endpoint_wire :: "spec_arg \<Rightarrow> pydict" where
  "endpoint_wire (Spec s) = to_wire s"
| "endpoint_wire (WireDict d) = d"

definition build_attach :: "string \<Rightarrow> spec_arg list \<Rightarrow> bool \<Rightarrow> string option \<Rightarrow> int \<Rightarrow> pydict \<times> int" where
  "build_attach plugin_version endpoints replace_all message_id ids =
     bridge_request ''attach''
       (Some ([(''protocolVersion'', PInt 2), (''pluginVersion'', PStr plugin_version),
               (''endpoints'', PList (map (\<lambda>s. PDict (endpoint_wire s)) endpoints))]
              @ (if replace_all then [(''intent'', PStr ''replace_all'')] else []))) message_id ids"

definition build_upsert_endpoint :: "spec_arg \<Rightarrow> string option \<Rightarrow> int \<Rightarrow> pydict \<times> int" where
  "build_upsert_endpoint spec message_id ids =
     bridge_request ''upsert_endpoint'' (Some [(''endpoint'', PDict (endpoint_wire spec))]) message_id ids"

definition build_remove_endpoint :: "int \<Rightarrow> string option \<Rightarrow> int \<Rightarrow> pydict \<times> int" where
  "build_remove_endpoint device_id message_id ids =
     bridge_request ''remove_endpoint'' (Some [(''indigoDeviceId'', PInt device_id)]) message_id ids"

definition build_set_state :: "int \<Rightarrow> pydict \<Rightarrow> string option \<Rightarrow> int \<Rightarrow> pydict \<times> int" where
  "build_set_state device_id states message_id ids =
     bridge_request ''set_state'' (Some [(''indigoDeviceId'', PInt device_id), (''states'', PDict states)]) message_id ids"

definition build_set_reachable :: "int \<Rightarrow> bool \<Rightarrow> string option \<Rightarrow> int \<Rightarrow> pydict \<times> int" where
  "build_set_reachable device_id reachable message_id ids =
     bridge_request ''set_reachable''
       (Some [(''indigoDeviceId'', PInt device_id), (''reachable'', PBool reachable)]) message_id ids"

definition build_get_status :: "string option \<Rightarrow> int \<Rightarrow> pydict \<times> int" where
  "build_get_status message_id ids = bridge_request ''get_status'' None message_id ids"

definition build_get_pairing :: "string option \<Rightarrow> int \<Rightarrow> pydict \<times> int" where
  "build_get_pairing message_id ids = bridge_request ''get_pairing'' None message_id ids"

definition build_open_window :: "int \<Rightarrow> string option \<Rightarrow> int \<Rightarrow> pydict \<times> int" where
  "build_open_window duration message_id ids =
     bridge_request ''open_commissioning_window'' (Some [(''durationSeconds'', PInt duration)]) message_id ids"

definition build_remove_fabric :: "int \<Rightarrow> string option \<Rightarrow> int \<Rightarrow> pydict \<times> int" where
  "build_remove_fabric index message_id ids =
     bridge_request ''remove_fabric'' (Some [(''fabricIndex'', PInt index)]) message_id ids"

definition build_factory_reset :: "bool \<Rightarrow> string option \<Rightarrow> int \<Rightarrow> pydict \<times> int" where
  "build_factory_reset preserve message_id ids =
     bridge_request ''factory_reset'' (Some [(''preserveEndpointNumbers'', PBool preserve)]) message_id ids"

definition build_rebuild_endpoint_map :: "string option \<Rightarrow> int \<Rightarrow> pydict \<times> int" where
  "build_rebuild_endpoint_map message_id ids = bridge_request ''rebuild_endpoint_map'' None message_id ids"

definition bridge_is_event :: "pydict \<Rightarrow> bool" where
  "bridge_is_event frame = (map_of frame KEY_EVENT \<noteq> None)"

definition bridge_is_response :: "pydict \<Rightarrow> bool" where
  "bridge_is_response frame = (map_of frame KEY_EVENT = None \<and> map_of frame KEY_MESSAGE_ID \<noteq> None)"

definition bridge_message_id_of :: "pydict \<Rightarrow> pyval" where
  "bridge_message_id_of frame = dget frame KEY_MESSAGE_ID"

definition error_of :: "(pyval \<Rightarrow> string) \<Rightarrow> pydict \<Rightarrow> (pyval \<times> string) option" where
  "error_of repr frame = (if map_of frame KEY_ERROR_CODE = None then None
     else Some (dget frame KEY_ERROR_CODE, str_field repr frame KEY_ERROR_DETAILS))"

definition bridge_parse_result :: "(pyval \<Rightarrow> string) \<Rightarrow> pydict \<Rightarrow> bridge_error + pyval" where
  "bridge_parse_result repr frame = (case error_of repr frame of
       Some (code, details) \<Rightarrow> Inl (NodeError code details)
     | None \<Rightarrow> Inr (dget frame KEY_RESULT))"

definition event_name :: "(pyval \<Rightarrow> string) \<Rightarrow> pydict \<Rightarrow> string" where
  "event_name repr frame = str_field repr frame KEY_EVENT"

definition event_data :: "pydict \<Rightarrow> pyval" where
  "event_data frame = or_empty (dget frame KEY_DATA)"

section \<open>Properties\<close>

lemma roles_ok: "map fst ROLE_COMMANDS = ROLES \<and> distinct ROLES"
  by (simp add: ROLES_def ROLE_COMMANDS_def ROLE_STATE_KEYS_def)

lemma decimal_digits: "list_all is_decimal_char (digits_of 10 n)"
  using digits_of_char_range [of 10 _ n] by (fastforce simp: list_all_iff is_decimal_char_def Let_def)

lemma takeWhile_all: "list_all P xs \<Longrightarrow> takeWhile P (xs @ ys) = xs @ takeWhile P ys"
  and dropWhile_all: "list_all P xs \<Longrightarrow> dropWhile P (xs @ ys) = dropWhile P ys"
  by (simp_all add: list_all_iff)

lemma str_of_int_split:
  obtains sign n where "str_of_int d = sign @ digits_of 10 n" "sign = (if d < 0 then ''-'' else [])"
  by (cases "d < 0") (auto simp: str_of_int_def)

lemma not_decimal_tilde [simp]: "\<not> is_decimal_char (CHR ''~'')" "\<not> is_decimal_char (CHR ''-'')"
  by (simp_all add: is_decimal_char_def code_point_def)

lemma hd_digits_of: "digits_of 10 n = c # cs \<Longrightarrow> c \<noteq> CHR ''-''"
  using decimal_digits [of n] by auto

lemma match_published:
  assumes "rest = [] \<and> gen = None \<or> (\<exists>g. 0 \<le> g \<and> rest = ''~'' @ str_of_int g \<and> gen = Some (str_of_int g))"
  shows "match_published_id (PUBLISHED_ID_PREFIX @ str_of_int d @ rest) = Some (str_of_int d, gen)"
proof -
  let ?sign = "if d < 0 then ''-'' else []"
  obtain n where d: "str_of_int d = ?sign @ digits_of 10 n" by (rule str_of_int_split) auto
  have tw: "takeWhile is_decimal_char (digits_of 10 n @ rest) = digits_of 10 n"
    and dw: "dropWhile is_decimal_char (digits_of 10 n @ rest) = rest"
    using assms decimal_digits [of n] by (auto simp: takeWhile_all dropWhile_all)
  have split: "split_minus (str_of_int d @ rest) = (?sign, digits_of 10 n @ rest)"
  proof (cases "d < 0")
    case False
    obtain c cs where "digits_of 10 n = c # cs" by (cases "digits_of 10 n") auto
    with False d hd_digits_of show ?thesis by simp
  qed (simp add: d)
  have gs: "str_isdecimal (str_of_int g)" if "0 \<le> g" for g
    using that decimal_digits by (simp add: str_isdecimal_def str_of_int_def)
  have "match_published_id (PUBLISHED_ID_PREFIX @ str_of_int d @ rest) =
      (case rest of [] \<Rightarrow> Some (str_of_int d, None)
       | c # gs \<Rightarrow> if c = CHR ''~'' \<and> str_isdecimal gs then Some (str_of_int d, Some gs) else None)"
  proof -
    have "drop (length PUBLISHED_ID_PREFIX) (PUBLISHED_ID_PREFIX @ str_of_int d @ rest) = str_of_int d @ rest"
      by simp
    then show ?thesis
      unfolding match_published_id_def Let_def
      by (simp only: split case_prod_conv tw dw d [symmetric]) simp
  qed
  with assms gs show ?thesis by auto
qed

lemma published_id_for_split:
  "published_id_for d g = PUBLISHED_ID_PREFIX @ str_of_int d @ (if g = 1 then [] else ''~'' @ str_of_int g)"
  by (simp add: published_id_for_def)

lemma parse_published_id_for:
  assumes "\<bar>d\<bar> \<le> JS_MAX_SAFE_INTEGER" "1 \<le> g" "length (published_id_for d g) \<le> PUBLISHED_ID_MAX"
  shows "parse_published_id (PStr (published_id_for d g)) = Some \<lparr>pi_device_id = d, pi_generation = g\<rparr>"
proof -
  have "match_published_id (published_id_for d g)
      = Some (str_of_int d, if g = 1 then None else Some (str_of_int g))"
    unfolding published_id_for_split using assms(2) by (intro match_published) auto
  with assms show ?thesis by (simp add: parse_published_id_def)
qed

lemma published_id_short:
  assumes "\<bar>d\<bar> \<le> JS_MAX_SAFE_INTEGER" "1 \<le> g" "g < 10 ^ 7"
  shows "length (published_id_for d g) \<le> PUBLISHED_ID_MAX"
proof -
  have "\<bar>d\<bar> < 10 ^ 16" using assms(1) by (simp add: JS_MAX_SAFE_INTEGER_def)
  then have "length (str_of_int d) \<le> 17" using length_str_of_int [of d 16] by simp
  moreover have "length (str_of_int g) \<le> 7" using assms(2,3) length_str_of_nat [of g 7] by simp
  ultimately show ?thesis
    by (simp add: published_id_for_split PUBLISHED_ID_MAX_def PUBLISHED_ID_PREFIX_def)
qed

text \<open>The published identity of every device id a peer can represent and every generation below
  ten million reads back as that device and generation, and its next generation is the
  identity of the same device one generation on.\<close>

theorem published_id_roundtrip:
  assumes "\<bar>d\<bar> \<le> JS_MAX_SAFE_INTEGER" "1 \<le> g" "g < 10 ^ 7"
  shows "parse_published_id (PStr (published_id_for d g)) = Some \<lparr>pi_device_id = d, pi_generation = g\<rparr>
    \<and> next_generation (published_id_for d g) = Inr (published_id_for d (g + 1))"
  using parse_published_id_for [OF assms(1,2) published_id_short [OF assms]]
  by (simp add: next_generation_def)

lemma published_id_roundtrip_witness:
  "next_generation (published_id_for 123 2) = Inr (published_id_for 123 3)"
  using published_id_roundtrip [of 123 2] by (simp add: JS_MAX_SAFE_INTEGER_def)

text \<open>Every text the parser accepts fits Matter's cap and names a device id in the safe range
  with a generation of at least one; but several texts name the same identity, although the
  parser is described as the strict inverse of \<open>published_id_for\<close>: a zero-padded one parses
  to a device whose own published identity is a different text.\<close>

theorem parse_published_id_sound:
  "(parse_published_id v = Some p \<longrightarrow>
      (\<exists>s. v = PStr s \<and> length s \<le> 32) \<and> \<bar>pi_device_id p\<bar> \<le> JS_MAX_SAFE_INTEGER \<and> 1 \<le> pi_generation p)
   \<and> parse_published_id (PStr ''indigo-007'') = parse_published_id (PStr (published_id_for 7 1))
   \<and> published_id_for 7 1 \<noteq> ''indigo-007''"
proof (intro conjI impI)
  assume "parse_published_id v = Some p"
  then show "\<exists>s. v = PStr s \<and> length s \<le> 32" "\<bar>pi_device_id p\<bar> \<le> JS_MAX_SAFE_INTEGER"
    "1 \<le> pi_generation p"
    by (auto simp: parse_published_id_def PUBLISHED_ID_MAX_def split: pyval.splits if_splits option.splits)
qed code_simp+

lemma parse_published_id_sound_witness:
  "1 \<le> pi_generation \<lparr>pi_device_id = 5, pi_generation = 3\<rparr>"
proof -
  have "parse_published_id (PStr ''indigo-5~3'') = Some \<lparr>pi_device_id = 5, pi_generation = 3\<rparr>" by code_simp
  then show ?thesis using parse_published_id_sound by blast
qed

definition normal_spec :: "endpoint_spec \<Rightarrow> endpoint_spec" where
  "normal_spec s = s\<lparr>es_published_as :=
     (if es_published_as s = published_id_for (es_device_id s) 1 then [] else es_published_as s)\<rparr>"

lemma dict_or_empty_PDict [simp]: "dict_or_empty todict (PDict d) = Inr d"
  by (simp add: dict_or_empty_def or_empty_def)

text \<open>C35: an endpoint written to the wire reads back as the same endpoint, whatever it holds, except
  that an explicit default identity comes back as the empty one; writing what was read gives
  the same frame again, and the keys \<open>battery\<close> and \<open>publishedAs\<close> are on the wire only when
  they say something.\<close>

theorem wire_roundtrip:
  "from_wire repr todict (to_wire s) = Inr (normal_spec s)
   \<and> to_wire (normal_spec s) = to_wire s
   \<and> (map_of (to_wire s) ''battery'' = (if es_battery s then Some (PBool True) else None))
   \<and> (map_of (to_wire s) ''publishedAs'' =
        (if es_published_as (normal_spec s) = [] then None else Some (PStr (es_published_as s))))"
proof (intro conjI)
  show "from_wire repr todict (to_wire s) = Inr (normal_spec s)"
    by (cases s) (simp add: from_wire_def to_wire_def normal_spec_def dget_def dget_or_def str_or_blank_def)
qed (auto simp: to_wire_def normal_spec_def)

lemma tolerate_Inl: "tolerate listed r = Inl e \<longleftrightarrow> r = Inl e \<and> e \<notin> set listed"
  by (cases r) (auto simp: tolerate_def)

lemma py_int_errors:
  "py_int v = Inl e \<Longrightarrow> e = TypeError \<or> e = ValueError \<or> e = OverflowError \<and> (v = PFloat PosInf \<or> v = PFloat NegInf)"
proof (cases v)
  case (PFloat f)
  assume "py_int v = Inl e"
  with PFloat show ?thesis by (cases f) auto
qed (auto split: option.splits)

definition has_infinity :: "pydict \<Rightarrow> bool" where
  "has_infinity d \<longleftrightarrow> (\<exists>(k, v) \<in> set d. v = PFloat PosInf \<or> v = PFloat NegInf)"

lemma int_field_error:
  assumes "int_field d k = Inl e" "e \<noteq> TypeError" "e \<noteq> ValueError"
  shows "e = OverflowError \<and> has_infinity d"
proof -
  have v: "dget_or d k (PInt 0) = PFloat PosInf \<or> dget_or d k (PInt 0) = PFloat NegInf" "e = OverflowError"
    using assms py_int_errors unfolding int_field_def by blast+
  then obtain v where "map_of d k = Some v" "v = PFloat PosInf \<or> v = PFloat NegInf"
    by (auto simp: dget_or_def split: option.splits)
  with v(2) show ?thesis by (auto simp: has_infinity_def dest: map_of_SomeD)
qed

lemma parse_fabric_error:
  "parse_fabric repr item = Inl e \<Longrightarrow> e = OverflowError \<and> (\<exists>d. item = PDict d \<and> has_infinity d)"
proof -
  assume a: "parse_fabric repr item = Inl e"
  then obtain d where d: "item = PDict d" by (cases item) (auto simp: parse_fabric_def)
  from a d have ne: "e \<notin> set [KeyError, TypeError, ValueError]"
    and b: "(\<exists>raw. map_of d ''fabricIndex'' = Some raw \<and> py_int raw = Inl e) \<or> int_field d ''vendorId'' = Inl e"
    by (auto simp: parse_fabric_def tolerate_Inl py_bind_Inl split: option.splits)
  from b show ?thesis
  proof
    assume "\<exists>raw. map_of d ''fabricIndex'' = Some raw \<and> py_int raw = Inl e"
    then obtain raw where "map_of d ''fabricIndex'' = Some raw" "py_int raw = Inl e" by blast
    with ne py_int_errors [of raw e] d show ?thesis by (auto simp: has_infinity_def dest!: map_of_SomeD)
  next
    assume "int_field d ''vendorId'' = Inl e"
    with ne int_field_error d show ?thesis by auto
  qed
qed

lemma map_filter_id_append: "List.map_filter (\<lambda>x. x) (xs @ ys) = List.map_filter (\<lambda>x. x) xs @ List.map_filter (\<lambda>x. x) ys"
  by (simp add: List.map_filter_def)

lemma parse_each_list:
  assumes "\<And>x. x \<in> set xs \<Longrightarrow> \<exists>y. f x = Inr y"
  shows "parse_each f (PList xs) = Inr (List.map_filter (\<lambda>x. projr (f x)) xs)"
proof -
  have "f x = Inr (projr (f x))" if "x \<in> set xs" for x using assms [OF that] by auto
  then have "py_map f xs = Inr (map (\<lambda>x. projr (f x)) xs)" by (rule py_map_Inr)
  moreover have "py_iter (PList xs) = Inr xs" by (auto simp: py_iter_def)
  ultimately show ?thesis by (simp add: parse_each_def List.map_filter_def comp_def filter_map)
qed

text \<open>One bad entry costs only itself: as long as no entry holds an infinite number, the fabrics
  of a list are the readable entries, each read on its own, in order, and entries that are
  not objects, lack a fabric index or do not convert are left out.\<close>

theorem fabrics_tolerant:
  assumes "\<And>d. PDict d \<in> set xs \<Longrightarrow> \<not> has_infinity d"
  shows "parse_fabrics repr (PList xs) = Inr (List.map_filter (\<lambda>x. projr (parse_fabric repr x)) xs)
    \<and> (\<forall>x \<in> set xs. (\<exists>fo. parse_fabric repr x = Inr fo) \<and>
         (\<forall>d n. x = PDict d \<and> map_of d ''fabricIndex'' = Some (PInt n) \<and> map_of d ''vendorId'' = None \<longrightarrow>
            parse_fabric repr x = Inr (Some \<lparr>fi_index = n, fi_label = str_or_blank repr (dget d ''label''), fi_vendor_id = 0\<rparr>)))"
proof -
  have total: "\<exists>fo. parse_fabric repr x = Inr fo" if "x \<in> set xs" for x
    using parse_fabric_error [of repr x] assms that by (cases "parse_fabric repr x") auto
  moreover have "parse_fabrics repr (PList xs) = Inr (List.map_filter (\<lambda>x. projr (parse_fabric repr x)) xs)"
    unfolding parse_fabrics_def by (rule parse_each_list [OF total])
  moreover have "parse_fabric repr (PDict d) = Inr (Some \<lparr>fi_index = n, fi_label = str_or_blank repr (dget d ''label''), fi_vendor_id = 0\<rparr>)"
    if "map_of d ''fabricIndex'' = Some (PInt n)" "map_of d ''vendorId'' = None" for d n
    using that by (simp add: parse_fabric_def tolerate_def int_field_def dget_or_def)
  ultimately show ?thesis by blast
qed

lemma fabrics_tolerant_witness:
  "parse_fabrics (\<lambda>_. []) (PList [PDict [(''fabricIndex'', PInt 1)], PNone, PDict [(''label'', PInt 3)]])
   = Inr [\<lparr>fi_index = 1, fi_label = [], fi_vendor_id = 0\<rparr>]"
proof -
  let ?xs = "[PDict [(''fabricIndex'', PInt 1)], PNone, PDict [(''label'', PInt 3)]]"
  have "\<not> has_infinity d" if "PDict d \<in> set ?xs" for d using that by (auto simp: has_infinity_def)
  from fabrics_tolerant [of ?xs "\<lambda>_. []", OF this] show ?thesis
    by (simp add: List.map_filter_def parse_fabric_def tolerate_def int_field_def dget_or_def str_or_blank_def dget_def)
qed

lemma parse_each_error:
  "parse_each f v = Inl e \<Longrightarrow> e = TypeError \<and> py_iter v = Inl TypeError \<or> (\<exists>x. f x = Inl e)"
  by (auto simp: parse_each_def py_bind_Inl py_iter_def dest!: py_map_Inl split: if_splits pyval.splits)

lemma parse_hygiene_peer_error: "parse_hygiene_peer repr x = Inl e \<Longrightarrow> e = OverflowError"
  using int_field_error by (auto simp: parse_hygiene_peer_def tolerate_Inl py_bind_Inl split: pyval.splits)

lemma parse_hygiene_closed_error: "parse_hygiene_closed x = Inl e \<Longrightarrow> e = OverflowError"
  using int_field_error by (auto simp: parse_hygiene_closed_def tolerate_Inl py_bind_Inl split: pyval.splits)

text \<open>Reading the session hygiene of a status never raises for a missing or misshapen
  object, and when it returns for an object it reports it as sent; the only exceptions are a
  \<open>TypeError\<close> for peers that cannot be iterated and an \<open>OverflowError\<close> for an infinite
  number, the latter although the counts are meant never to fail a status poll.\<close>

theorem hygiene_errors:
  "(parse_session_hygiene repr data = Inl e \<longrightarrow>
      e = OverflowError \<or> e = TypeError \<and> (\<exists>d. data = PDict d \<and> py_iter (dget d ''peers'') = Inl TypeError))
   \<and> (parse_session_hygiene repr data = Inr h \<longrightarrow> (sh_sent h \<longleftrightarrow> (\<exists>d. data = PDict d)))
   \<and> parse_session_hygiene repr (PDict [(''closed'', PDict [(''dead'', PFloat PosInf)])]) = Inl OverflowError"
proof (intro conjI impI)
  assume e: "parse_session_hygiene repr data = Inl e"
  then obtain d where d: "data = PDict d" by (cases data) (auto simp: parse_session_hygiene_def)
  from e d show "e = OverflowError \<or> e = TypeError \<and> (\<exists>d. data = PDict d \<and> py_iter (dget d ''peers'') = Inl TypeError)"
    using parse_hygiene_closed_error parse_each_error [of "parse_hygiene_peer repr" "dget d ''peers''" e]
      parse_hygiene_peer_error by (auto simp: parse_session_hygiene_def py_bind_Inl)
next
  assume "parse_session_hygiene repr data = Inr h"
  then show "sh_sent h \<longleftrightarrow> (\<exists>d. data = PDict d)"
    by (auto simp: parse_session_hygiene_def py_bind_Inr no_hygiene_def split: pyval.splits)
qed (simp add: parse_session_hygiene_def parse_hygiene_closed_def tolerate_def int_field_def dget_or_def dget_def)

lemma hygiene_errors_witness:
  "sh_sent \<lparr>sh_checked = True, sh_peers = [], sh_closed = none_closed, sh_sent = True\<rparr>"
proof -
  have "parse_session_hygiene (\<lambda>_. []) (PDict [(''checked'', PBool True)])
      = Inr \<lparr>sh_checked = True, sh_peers = [], sh_closed = none_closed, sh_sent = True\<rparr>"
    by code_simp
  then show ?thesis using hygiene_errors [of "\<lambda>_. []" "PDict [(''checked'', PBool True)]"] by blast
qed

lemma py_str_nonempty: "truthy v \<Longrightarrow> (\<And>w. repr w \<noteq> []) \<Longrightarrow> py_str repr v \<noteq> []"
  by (cases v) (auto simp: str_of_int_def)

text \<open>A commissioning window is only ever reported with all three of its fields present and
  printable, and otherwise the answer is refused naming exactly the missing ones, so no empty
  pairing code is shown to the user.\<close>

theorem window_complete:
  assumes "\<And>v. repr v \<noteq> []"
  shows "case parse_window repr result of
      Inr w \<Rightarrow> pw_manual_code w \<noteq> [] \<and> pw_qr_code w \<noteq> [] \<and> pw_expires_at w \<noteq> []
    | Inl e \<Rightarrow> bridge_error_code e = PStr ''malformed_args'' \<and>
        (\<exists>ks. e = WindowMissing ks result \<and> ks \<noteq> [] \<and>
           (\<forall>k. k \<in> set ks \<longleftrightarrow> k \<in> {''manualPairingCode'', ''qrPairingCode'', ''windowExpiresAt''} \<and>
              \<not> (\<exists>d. result = PDict d \<and> truthy (dget d k))))"
proof -
  define d where "d = (case result of PDict d \<Rightarrow> d | _ \<Rightarrow> [])"
  define ks where "ks = filter (\<lambda>k. \<not> truthy (dget d k)) [''manualPairingCode'', ''qrPairingCode'', ''windowExpiresAt'']"
  have obj: "truthy (dget d k) \<longleftrightarrow> (\<exists>d. result = PDict d \<and> truthy (dget d k))" for k
    by (cases result) (auto simp: d_def dget_def)
  have w: "parse_window repr result = (if ks \<noteq> [] then Inl (WindowMissing ks result)
      else Inr \<lparr>pw_manual_code = py_str repr (dget d ''manualPairingCode''),
                pw_qr_code = py_str repr (dget d ''qrPairingCode''),
                pw_expires_at = py_str repr (dget d ''windowExpiresAt'')\<rparr>)"
    by (simp only: parse_window_def Let_def d_def ks_def)
  show ?thesis
  proof (cases "ks = []")
    case True
    then have "truthy (dget d ''manualPairingCode'')" "truthy (dget d ''qrPairingCode'')"
      "truthy (dget d ''windowExpiresAt'')" by (auto simp: ks_def split: if_splits)
    with True w py_str_nonempty assms show ?thesis by simp
  next
    case False
    have "k \<in> set ks \<longleftrightarrow> k \<in> {''manualPairingCode'', ''qrPairingCode'', ''windowExpiresAt''} \<and> \<not> truthy (dget d k)" for k
      by (auto simp: ks_def)
    with False w obj show ?thesis by (simp add: ERR_MALFORMED_ARGS_def)
  qed
qed

lemma window_complete_witness:
  "isl (parse_window (\<lambda>_. ''x'') (PDict [(''qrPairingCode'', PStr ''MT:1'')]))
   \<and> bridge_error_code (projl (parse_window (\<lambda>_. ''x'') (PDict [(''qrPairingCode'', PStr ''MT:1'')]))) = PStr ''malformed_args''"
proof -
  have l: "isl (parse_window (\<lambda>_. ''x'') (PDict [(''qrPairingCode'', PStr ''MT:1'')]))" by code_simp
  then obtain e where e: "parse_window (\<lambda>_. ''x'') (PDict [(''qrPairingCode'', PStr ''MT:1'')]) = Inl e"
    by (auto simp: isl_def)
  then show ?thesis using window_complete [of "\<lambda>_. ''x''" "PDict [(''qrPairingCode'', PStr ''MT:1'')]"] by simp
qed

end
