(* ===== verification/WsClient.thy ===== *)
theory WsClient
  imports MatterProtocol BridgeProtocol
begin

text \<open>
  \<open>ws_json_client.py\<close>: the reconnecting client both peers share, as a transition system on its
  state: the run loop (connect, handshake, listen, tear down, back off), the correlation of
  requests and responses by message id, and the calls of the supervisor (close, resume,
  retry). A coroutine is cut at its awaits; each event is one uninterrupted piece of code,
  with what the await yielded. The hooks a subclass provides are a record of functions, with
  an instance for each of the two peers.

  A future is an index into a list of future states. Times and log texts are dropped, except
  for the time of the last event. What the code does to the outside is a list of \<open>ws_eff\<close>.
\<close>

section \<open>State\<close>

definition MAX_BACKOFF :: nat where "MAX_BACKOFF = 30"
definition SEND_CONTEXT_LIMIT :: nat where "SEND_CONTEXT_LIMIT = 256"

datatype ws_exc =
    NotConnected
  | PeerDisconnected
  | PeerError pyval pyval
  | SendRaised string
  | WaitTimeout
  | WaitCancelled

datatype fut = FutPending | FutResult pyval | FutFailed ws_exc | FutCancelled

datatype stage = Sending | Awaiting

record request =
  rq_mid :: string
  rq_fut :: nat
  rq_stage :: stage

text \<open>How an iteration of the run loop leaves its \<open>try\<close>, and where the run loop is suspended;
  the number is \<open>attempt\<close>.\<close>

datatype exit = GoOn | HaltedHere | Reraise

datatype phase =
    Idle
  | Connecting nat
  | AwaitingHello nat
  | Handshaking nat
  | Listening
  | TearingDown nat exit
  | BackingOff nat

text \<open>The note about a request: any text, or the job of a commissioning request.\<close>

datatype req_context = Note string | CommissionRequest string

record ws =
  ws_phase :: phase
  ws_held :: bool
  ws_connected :: bool
  ws_closing :: bool
  ws_running :: bool
  ws_halted :: bool
  ws_halted_reason :: "string option"
  ws_diag_fired :: bool
  ws_outage_warned :: bool
  ws_retry_armed :: bool
  ws_wakes :: nat
  ws_closers :: nat
  ws_last_event :: "rat option"
  ws_next_id :: int
  ws_futs :: "fut list"
  ws_pending :: "(string \<times> nat) list"
  ws_context :: "(string \<times> req_context) list"
  ws_requests :: "request list"

definition ws_init :: ws where
  "ws_init = \<lparr>ws_phase = Idle, ws_held = False, ws_connected = False, ws_closing = False,
     ws_running = False, ws_halted = False, ws_halted_reason = None, ws_diag_fired = False,
     ws_outage_warned = False, ws_retry_armed = False, ws_wakes = 0, ws_closers = 0,
     ws_last_event = None, ws_next_id = 1, ws_futs = [], ws_pending = [], ws_context = [],
     ws_requests = []\<rparr>"

text \<open>Which of the optional callbacks were given.\<close>

record ws_config =
  cf_on_connect :: bool
  cf_on_disconnect :: bool
  cf_on_repeated :: bool
  cf_on_late :: bool

datatype ws_eff =
    LogUndecodable
  | LogNonObject
  | LogDispatchRaised py_exc
  | LogNoSlot
  | LogUnmatched pyval "req_context option" "(pyval \<times> string) option"
  | LogLateUnparsed
  | LogConnectFailure bool
  | LogHandshakeFailed
  | LogUnexpected
  | LogHalted
  | LogOutageBroken bool
  | LogResumeIgnored
  | LogResumed
  | DeliverEvent pydict
  | CallLate pyval "req_context option" "(pyval \<times> string) + pyval"
  | CallOnDisconnect
  | CallRepeatedFailure nat
  | StartReconcile
  | BackoffDelay nat
  | SendFrame pydict
  | ReqReturns string pyval
  | ReqRaises string ws_exc
  | RetryAnswer bool

section \<open>The hooks\<close>

record hooks =
  hk_is_event :: "pydict \<Rightarrow> bool"
  hk_is_response :: "pydict \<Rightarrow> bool"
  hk_message_id :: "pydict \<Rightarrow> pyval"
  hk_parse_result :: "pydict \<Rightarrow> (pyval \<times> pyval) + pyval"
  hk_error_of :: "pydict \<Rightarrow> (pyval \<times> string) option"
  hk_handle_event :: "pydict \<Rightarrow> py_exc option"
  hk_request :: "string \<Rightarrow> pydict option \<Rightarrow> int \<Rightarrow> pydict \<times> int"

text \<open>\<open>matter_client.py\<close>: an event that does not parse raises; what the callback raises is
  absorbed there. \<open>repr\<close> is the text of a structured value.\<close>

definition matter_error_of :: "(pyval \<Rightarrow> string) \<Rightarrow> pydict \<Rightarrow> (pyval \<times> string) option" where
  "matter_error_of repr frame =
     (if map_of frame KEY_ERROR_CODE = None then None
      else Some (dget frame KEY_ERROR_CODE,
             py_str repr (case map_of frame KEY_ERROR_DETAILS of None \<Rightarrow> PStr [] | Some d \<Rightarrow> d)))"

definition matter_handle_event :: "pydict \<Rightarrow> py_exc option" where
  "matter_handle_event frame = (case parse_event frame of Inl e \<Rightarrow> Some e | Inr _ \<Rightarrow> None)"

definition matter_hooks :: "(pyval \<Rightarrow> string) \<Rightarrow> hooks" where
  "matter_hooks repr = \<lparr>hk_is_event = is_event, hk_is_response = is_response,
     hk_message_id = message_id_of,
     hk_parse_result = (\<lambda>frame. case parse_result frame of
        Inl (ProtocolError code details) \<Rightarrow> Inl (code, details) | Inr v \<Rightarrow> Inr v),
     hk_error_of = matter_error_of repr, hk_handle_event = matter_handle_event,
     hk_request = (\<lambda>command args ids. build_request command args None ids)\<rparr>"

text \<open>\<open>bridge_client.py\<close>: what a handler of a known event raises is absorbed, an unknown event
  is logged and dropped.\<close>

definition bridge_hooks :: "(pyval \<Rightarrow> string) \<Rightarrow> hooks" where
  "bridge_hooks repr = \<lparr>hk_is_event = bridge_is_event, hk_is_response = bridge_is_response,
     hk_message_id = bridge_message_id_of,
     hk_parse_result = (\<lambda>frame. case error_of repr frame of
        Some (code, details) \<Rightarrow> Inl (code, PStr details) | None \<Rightarrow> Inr (dget frame KEY_RESULT)),
     hk_error_of = error_of repr, hk_handle_event = (\<lambda>_. None),
     hk_request = (\<lambda>command args ids. bridge_request command args None ids)\<rparr>"

section \<open>Operations\<close>

fun evict :: "nat \<Rightarrow> 'a list \<Rightarrow> 'a list" where
  "evict limit [] = []"
| "evict limit (x # xs) = (if limit < length (x # xs) then evict limit xs else x # xs)"

definition remember_send_context :: "string \<Rightarrow> req_context \<Rightarrow> ws \<Rightarrow> ws" where
  "remember_send_context mid c w =
     w\<lparr>ws_context := evict SEND_CONTEXT_LIMIT (AList.update mid c (ws_context w))\<rparr>"

definition mark_connected :: "ws \<Rightarrow> ws" where
  "mark_connected w = w\<lparr>ws_connected := True, ws_outage_warned := False, ws_retry_armed := False\<rparr>"

fun fail_pending :: "(string \<times> nat) list \<Rightarrow> fut list \<Rightarrow> fut list" where
  "fail_pending [] futs = futs"
| "fail_pending ((m, f) # rest) futs =
     fail_pending rest (if futs ! f = FutPending then futs[f := FutFailed PeerDisconnected] else futs)"

definition mark_disconnected :: "ws_config \<Rightarrow> ws \<Rightarrow> ws \<times> ws_eff list" where
  "mark_disconnected cf w =
     (w\<lparr>ws_connected := False, ws_futs := fail_pending (ws_pending w) (ws_futs w),
        ws_pending := [], ws_context := []\<rparr>,
      if ws_connected w \<and> \<not> ws_closing w \<and> cf_on_disconnect cf then [CallOnDisconnect] else [])"

text \<open>A dictionary lookup by a value of the wire: only a text can be a key that is present, and a
  list or an object cannot be looked up at all.\<close>

fun hashable :: "pyval \<Rightarrow> bool" where
  "hashable (PList _) = False"
| "hashable (PDict _) = False"
| "hashable _ = True"

definition find_mid :: "(string \<times> 'a) list \<Rightarrow> pyval \<Rightarrow> 'a option" where
  "find_mid d mid = (case mid of PStr m \<Rightarrow> map_of d m | _ \<Rightarrow> None)"

definition drop_mid :: "pyval \<Rightarrow> (string \<times> 'a) list \<Rightarrow> (string \<times> 'a) list" where
  "drop_mid mid d = (case mid of PStr m \<Rightarrow> AList.delete m d | _ \<Rightarrow> d)"

definition log_unmatched :: "hooks \<Rightarrow> ws_config \<Rightarrow> pyval \<Rightarrow> pydict \<Rightarrow> ws \<Rightarrow> ws \<times> ws_eff list" where
  "log_unmatched hk cf mid frame w =
     (let note = find_mid (ws_context w) mid;
          error = hk_error_of hk frame
      in (w\<lparr>ws_context := drop_mid mid (ws_context w)\<rparr>,
          LogUnmatched mid note error #
          (if \<not> cf_on_late cf then []
           else (case error of
                   Some e \<Rightarrow> [CallLate mid note (Inl e)]
                 | None \<Rightarrow> (case hk_parse_result hk frame of
                              Inl _ \<Rightarrow> [LogLateUnparsed] | Inr v \<Rightarrow> [CallLate mid note (Inr v)])))))"

definition settle :: "hooks \<Rightarrow> nat \<Rightarrow> pydict \<Rightarrow> fut list \<Rightarrow> fut list" where
  "settle hk f frame futs =
     (if futs ! f = FutPending
      then futs[f := (case hk_parse_result hk frame of
                        Inr v \<Rightarrow> FutResult v | Inl (code, details) \<Rightarrow> FutFailed (PeerError code details))]
      else futs)"

definition dispatch :: "hooks \<Rightarrow> ws_config \<Rightarrow> rat \<Rightarrow> pydict \<Rightarrow> ws \<Rightarrow> ws \<times> ws_eff list" where
  "dispatch hk cf now frame w =
     (if hk_is_event hk frame
      then (w\<lparr>ws_last_event := Some now\<rparr>,
            case hk_handle_event hk frame of None \<Rightarrow> [DeliverEvent frame] | Some e \<Rightarrow> [LogDispatchRaised e])
      else if \<not> hk_is_response hk frame then (w, [LogNoSlot])
      else (let mid = hk_message_id hk frame
            in if \<not> hashable mid then (w, [LogDispatchRaised TypeError])
               else (case find_mid (ws_pending w) mid of
                       None \<Rightarrow> log_unmatched hk cf mid frame w
                     | Some f \<Rightarrow> (w\<lparr>ws_context := drop_mid mid (ws_context w),
                                    ws_futs := settle hk f frame (ws_futs w)\<rparr>, []))))"

definition handle_frame :: "hooks \<Rightarrow> ws_config \<Rightarrow> rat \<Rightarrow> pyval \<Rightarrow> ws \<Rightarrow> ws \<times> ws_eff list" where
  "handle_frame hk cf now v w =
     (case v of PDict frame \<Rightarrow> dispatch hk cf now frame w | _ \<Rightarrow> (w, [LogNonObject]))"

text \<open>One raw frame: \<open>None\<close> where \<open>json.loads\<close> raises.\<close>

definition handle_raw :: "hooks \<Rightarrow> ws_config \<Rightarrow> rat \<Rightarrow> pyval option \<Rightarrow> ws \<Rightarrow> ws \<times> ws_eff list" where
  "handle_raw hk cf now raw w =
     (case raw of None \<Rightarrow> (w, [LogUndecodable]) | Some v \<Rightarrow> handle_frame hk cf now v w)"

text \<open>The seam \<open>outage_expected\<close> is absent, raises, or answers.\<close>

definition outage_is_expected :: "bool py_result option \<Rightarrow> ws \<Rightarrow> bool \<times> ws \<times> ws_eff list" where
  "outage_is_expected seam w = (case seam of
       None \<Rightarrow> (False, w, [])
     | Some (Inr b) \<Rightarrow> (b, w, [])
     | Some (Inl _) \<Rightarrow> (False, w\<lparr>ws_outage_warned := True\<rparr>, [LogOutageBroken (\<not> ws_outage_warned w)]))"

definition report_connect_failure :: "bool py_result option \<Rightarrow> ws \<Rightarrow> ws \<times> ws_eff list" where
  "report_connect_failure seam w = (case outage_is_expected seam w of
     (expected, w', effs) \<Rightarrow> (w', effs @ [LogConnectFailure (\<not> expected)]))"

definition maybe_report_repeated_failure :: "ws_config \<Rightarrow> nat \<Rightarrow> ws \<Rightarrow> ws \<times> ws_eff list" where
  "maybe_report_repeated_failure cf attempt w =
     (if \<not> cf_on_repeated cf \<or> ws_diag_fired w \<or> attempt < 1 then (w, [])
      else (w\<lparr>ws_diag_fired := True\<rparr>, [CallRepeatedFailure (attempt + 1)]))"

definition rearm_failure_diagnostic :: "ws \<Rightarrow> ws" where
  "rearm_failure_diagnostic w = w\<lparr>ws_diag_fired := False\<rparr>"

definition resume_client :: "ws \<Rightarrow> ws \<times> ws_eff list" where
  "resume_client w = (if ws_running w then (w, [LogResumeIgnored])
     else (w\<lparr>ws_halted := False, ws_halted_reason := None\<rparr>, [LogResumed]))"

text \<open>\<open>retry_now\<close>: the wake-up is handed to the loop, which sets the event later.\<close>

definition retry_now :: "bool \<Rightarrow> ws \<Rightarrow> ws \<times> ws_eff list" where
  "retry_now loop_closed w =
     (if \<not> ws_running w \<or> ws_closing w \<or> ws_halted w \<or> loop_closed then (w, [RetryAnswer False])
      else (w\<lparr>ws_wakes := ws_wakes w + 1\<rparr>, [RetryAnswer True]))"

section \<open>The run loop\<close>

definition stop_run :: "ws \<Rightarrow> ws" where
  "stop_run w = w\<lparr>ws_running := False, ws_phase := Idle\<rparr>"

definition loop_head :: "nat \<Rightarrow> ws \<Rightarrow> ws" where
  "loop_head attempt w = (if ws_closing w then stop_run w else w\<lparr>ws_phase := Connecting attempt\<rparr>)"

definition backoff_delay :: "nat \<Rightarrow> nat" where
  "backoff_delay attempt = min (2 ^ attempt) MAX_BACKOFF"

definition finish_iteration :: "ws_config \<Rightarrow> nat \<Rightarrow> exit \<Rightarrow> ws \<Rightarrow> ws \<times> ws_eff list" where
  "finish_iteration cf attempt ex w =
     (case mark_disconnected cf w of (w1, effs) \<Rightarrow>
        if ex = Reraise \<or> ws_closing w1 \<or> ex = HaltedHere \<or> ws_halted w1 then (stop_run w1, effs)
        else (w1\<lparr>ws_phase := BackingOff (attempt + 1)\<rparr>, effs @ [BackoffDelay (backoff_delay attempt)]))"

text \<open>The \<open>finally\<close>: closing a socket that was never opened returns at once.\<close>

definition leave_try :: "ws_config \<Rightarrow> nat \<Rightarrow> exit \<Rightarrow> ws \<Rightarrow> ws \<times> ws_eff list" where
  "leave_try cf attempt ex w =
     (if ws_held w then (w\<lparr>ws_phase := TearingDown attempt ex\<rparr>, []) else finish_iteration cf attempt ex w)"

datatype failure = FCancelled | FHalted string | FHandshake | FTimeout | FLost | FUnexpected

definition on_failure :: "ws_config \<Rightarrow> nat \<Rightarrow> failure \<Rightarrow> bool py_result option \<Rightarrow> ws \<Rightarrow> exit \<times> ws \<times> ws_eff list" where
  "on_failure cf attempt failure seam w =
     (let counted = (\<lambda>(w1, effs). case maybe_report_repeated_failure cf attempt w1 of
                       (w2, effs') \<Rightarrow> (GoOn, w2, effs @ effs'))
      in case failure of
           FCancelled \<Rightarrow> (Reraise, w, [])
         | FHalted reason \<Rightarrow>
             (HaltedHere, w\<lparr>ws_halted := True, ws_halted_reason := (if reason = [] then None else Some reason)\<rparr>,
              [LogHalted])
         | FHandshake \<Rightarrow> counted (w, [LogHandshakeFailed])
         | FTimeout \<Rightarrow> counted (report_connect_failure seam w)
         | FLost \<Rightarrow> counted (report_connect_failure seam w)
         | FUnexpected \<Rightarrow> counted (w, [LogUnexpected]))"

text \<open>The attempt counter while an iteration is inside its \<open>try\<close>.\<close>

fun attempt_in :: "phase \<Rightarrow> nat option" where
  "attempt_in (Connecting a) = Some a"
| "attempt_in (AwaitingHello a) = Some a"
| "attempt_in (Handshaking a) = Some a"
| "attempt_in Listening = Some 0"
| "attempt_in _ = None"

definition connection_made :: "ws_config \<Rightarrow> ws \<Rightarrow> ws \<times> ws_eff list" where
  "connection_made cf w = ((mark_connected w)\<lparr>ws_phase := Listening, ws_diag_fired := False\<rparr>,
     if cf_on_connect cf then [StartReconcile] else [])"

text \<open>How the wait of the backoff ends.\<close>

datatype waited = Slept | Woken | SleepRaised bool | WaitCancelledB

definition backoff_over :: "nat \<Rightarrow> waited \<Rightarrow> ws \<Rightarrow> ws option" where
  "backoff_over attempt how w = (case how of
       Slept \<Rightarrow> Some (loop_head attempt w)
     | Woken \<Rightarrow> if ws_retry_armed w
                then Some (loop_head 0 (rearm_failure_diagnostic (w\<lparr>ws_retry_armed := False\<rparr>))) else None
     | SleepRaised woken \<Rightarrow>
         if woken \<longrightarrow> ws_retry_armed w
         then Some (stop_run (if woken then w\<lparr>ws_retry_armed := False\<rparr> else w)) else None
     | WaitCancelledB \<Rightarrow> Some (stop_run w))"

section \<open>Requests\<close>

text \<open>\<open>_request_frame\<close> up to its first await; its other pieces run when the send, the future, the
  deadline or a cancellation wakes it. Every exit unregisters the message id.\<close>

definition start_request :: "hooks \<Rightarrow> string \<Rightarrow> pydict option \<Rightarrow> req_context option \<Rightarrow> ws \<Rightarrow> (ws \<times> ws_eff list) option" where
  "start_request hk command args ctx w =
     (case hk_request hk command args (ws_next_id w) of (frame, ids) \<Rightarrow>
        (case hk_message_id hk frame of
           PStr mid \<Rightarrow>
             (let w1 = w\<lparr>ws_next_id := ids\<rparr>
              in if \<not> ws_held w \<or> \<not> ws_connected w then Some (w1, [ReqRaises mid NotConnected])
                 else (let w2 = (case ctx of None \<Rightarrow> w1 | Some c \<Rightarrow> remember_send_context mid c w1);
                           f = length (ws_futs w2)
                       in Some (w2\<lparr>ws_futs := ws_futs w2 @ [FutPending],
                                   ws_pending := AList.update mid f (ws_pending w2),
                                   ws_requests := ws_requests w2 @ [\<lparr>rq_mid = mid, rq_fut = f, rq_stage = Sending\<rparr>]\<rparr>,
                                [SendFrame frame])))
         | _ \<Rightarrow> None))"

definition end_request :: "request \<Rightarrow> ws \<Rightarrow> ws" where
  "end_request q w = w\<lparr>ws_pending := AList.delete (rq_mid q) (ws_pending w),
     ws_requests := filter (\<lambda>q'. rq_fut q' \<noteq> rq_fut q) (ws_requests w)\<rparr>"

definition find_request :: "nat \<Rightarrow> ws \<Rightarrow> request option" where
  "find_request f w = find (\<lambda>q. rq_fut q = f) (ws_requests w)"

datatype request_wake = Sent | SendFails string | FutureDone | Deadline | CancelRequest

definition wake_request :: "request \<Rightarrow> request_wake \<Rightarrow> ws \<Rightarrow> (ws \<times> ws_eff list) option" where
  "wake_request q wake w =
     (let mid = rq_mid q; f = rq_fut q; awaiting = (rq_stage q = Awaiting);
          abandon = w\<lparr>ws_futs := (if awaiting \<and> ws_futs w ! f = FutPending
                                   then (ws_futs w)[f := FutCancelled] else ws_futs w)\<rparr>
      in case wake of
           Sent \<Rightarrow> if awaiting then None
                   else Some (w\<lparr>ws_requests := map (\<lambda>q'. if rq_fut q' = f then q'\<lparr>rq_stage := Awaiting\<rparr> else q')
                                                 (ws_requests w)\<rparr>, [])
         | SendFails m \<Rightarrow> if awaiting then None else Some (end_request q w, [ReqRaises mid (SendRaised m)])
         | FutureDone \<Rightarrow>
             if \<not> awaiting then None
             else (case ws_futs w ! f of
                     FutResult v \<Rightarrow> Some (end_request q w, [ReqReturns mid v])
                   | FutFailed e \<Rightarrow> Some (end_request q w, [ReqRaises mid e])
                   | _ \<Rightarrow> None)
         | Deadline \<Rightarrow> if awaiting \<and> ws_futs w ! f = FutPending
                       then Some (end_request q abandon, [ReqRaises mid WaitTimeout]) else None
         | CancelRequest \<Rightarrow> Some (end_request q abandon, [ReqRaises mid WaitCancelled]))"

section \<open>The transition system\<close>

datatype ws_event =
    EvRun
  | EvConnected
  | EvHello
  | EvEarlyConnected
  | EvHandshakeDone
  | EvRaw rat "pyval option"
  | EvFrame rat pyval
  | EvListenEnds
  | EvFails failure "bool py_result option"
  | EvTornDown
  | EvTearDownCancelled
  | EvBackoffOver waited
  | EvRetryNow bool
  | EvWake
  | EvRearm
  | EvResumeClient
  | EvClose
  | EvClosed
  | EvRequest string "pydict option" "req_context option"
  | EvRequestWakes nat request_wake

definition ws_next :: "hooks \<Rightarrow> ws_config \<Rightarrow> ws_event \<Rightarrow> ws \<Rightarrow> (ws \<times> ws_eff list) option" where
  "ws_next hk cf ev w = (case ev of
       EvRun \<Rightarrow> if ws_running w then None else Some (loop_head 0 (w\<lparr>ws_running := True\<rparr>), [])
     | EvConnected \<Rightarrow> (case ws_phase w of
          Connecting a \<Rightarrow> Some (w\<lparr>ws_phase := AwaitingHello a, ws_held := True\<rparr>, []) | _ \<Rightarrow> None)
     | EvHello \<Rightarrow> (case ws_phase w of
          AwaitingHello a \<Rightarrow> Some (w\<lparr>ws_phase := Handshaking a\<rparr>, []) | _ \<Rightarrow> None)
     | EvEarlyConnected \<Rightarrow> (case ws_phase w of
          Handshaking a \<Rightarrow> Some (mark_connected w, []) | _ \<Rightarrow> None)
     | EvHandshakeDone \<Rightarrow> (case ws_phase w of
          Handshaking a \<Rightarrow> Some (connection_made cf w) | _ \<Rightarrow> None)
     | EvRaw now raw \<Rightarrow> (case ws_phase w of
          Listening \<Rightarrow> Some (handle_raw hk cf now raw w) | _ \<Rightarrow> None)
     | EvFrame now v \<Rightarrow> (case ws_phase w of
          Handshaking a \<Rightarrow> Some (handle_frame hk cf now v w) | _ \<Rightarrow> None)
     | EvListenEnds \<Rightarrow> (case ws_phase w of
          Listening \<Rightarrow> Some (leave_try cf 0 GoOn w) | _ \<Rightarrow> None)
     | EvFails failure seam \<Rightarrow> (case attempt_in (ws_phase w) of
          Some a \<Rightarrow> (case on_failure cf a failure seam w of
             (ex, w1, effs) \<Rightarrow> (case leave_try cf a ex w1 of (w2, effs') \<Rightarrow> Some (w2, effs @ effs')))
        | None \<Rightarrow> None)
     | EvTornDown \<Rightarrow> (case ws_phase w of
          TearingDown a ex \<Rightarrow> Some (finish_iteration cf a ex w) | _ \<Rightarrow> None)
     | EvTearDownCancelled \<Rightarrow> (case ws_phase w of
          TearingDown a ex \<Rightarrow> Some (stop_run w, []) | _ \<Rightarrow> None)
     | EvBackoffOver how \<Rightarrow> (case ws_phase w of
          BackingOff a \<Rightarrow> map_option (\<lambda>w'. (w', [])) (backoff_over a how w) | _ \<Rightarrow> None)
     | EvRetryNow loop_closed \<Rightarrow> Some (retry_now loop_closed w)
     | EvWake \<Rightarrow> if ws_wakes w = 0 then None
                 else Some (w\<lparr>ws_wakes := ws_wakes w - 1, ws_retry_armed := True\<rparr>, [])
     | EvRearm \<Rightarrow> Some (rearm_failure_diagnostic w, [])
     | EvResumeClient \<Rightarrow> Some (resume_client w)
     | EvClose \<Rightarrow> if ws_held w then Some (w\<lparr>ws_closing := True, ws_closers := ws_closers w + 1\<rparr>, [])
                  else Some (mark_disconnected cf (w\<lparr>ws_closing := True\<rparr>))
     | EvClosed \<Rightarrow> if ws_closers w = 0 then None
                   else Some (mark_disconnected cf (w\<lparr>ws_closers := ws_closers w - 1\<rparr>))
     | EvRequest command args ctx \<Rightarrow> start_request hk command args ctx w
     | EvRequestWakes f wake \<Rightarrow> (case find_request f w of
          None \<Rightarrow> None | Some q \<Rightarrow> wake_request q wake w))"

inductive ws_reach :: "hooks \<Rightarrow> ws_config \<Rightarrow> ws \<Rightarrow> bool" for hk cf where
  ws_start: "ws_reach hk cf ws_init"
| ws_step: "ws_reach hk cf w \<Longrightarrow> ws_next hk cf ev w = Some (w', effs) \<Longrightarrow> ws_reach hk cf w'"

section \<open>Outstanding calls\<close>

text \<open>What ties a suspended request to its future and its message id: only a live connection has
  registered ids; an id is registered for a request that is still suspended; a request whose
  future is still open is registered under its own id.\<close>

definition call_key :: "request \<Rightarrow> string \<times> nat" where
  "call_key q = (rq_mid q, rq_fut q)"

definition calls_ok :: "ws \<Rightarrow> bool" where
  "calls_ok w \<longleftrightarrow>
     (\<not> ws_connected w \<longrightarrow> ws_pending w = [] \<and> ws_context w = [])
     \<and> length (ws_context w) \<le> SEND_CONTEXT_LIMIT
     \<and> distinct (map rq_fut (ws_requests w)) \<and> distinct (map rq_mid (ws_requests w))
     \<and> (\<forall>q \<in> set (ws_requests w). rq_fut q < length (ws_futs w)
          \<and> (\<exists>k < ws_next_id w. rq_mid q = str_of_int k)
          \<and> (ws_futs w ! rq_fut q = FutPending \<longrightarrow> map_of (ws_pending w) (rq_mid q) = Some (rq_fut q)))
     \<and> (\<forall>m f. map_of (ws_pending w) m = Some f \<longrightarrow> (m, f) \<in> call_key ` set (ws_requests w))"

lemma calls_ok_init: "calls_ok ws_init"
  by (simp add: calls_ok_def ws_init_def)

text \<open>Two states that agree on what the calls consist of.\<close>

definition same_calls :: "ws \<Rightarrow> ws \<Rightarrow> bool" where
  "same_calls w w' \<longleftrightarrow> ws_connected w' = ws_connected w \<and> ws_pending w' = ws_pending w
     \<and> ws_context w' = ws_context w \<and> ws_requests w' = ws_requests w \<and> ws_futs w' = ws_futs w
     \<and> ws_next_id w' = ws_next_id w"

lemma calls_ok_same: "calls_ok w \<Longrightarrow> same_calls w w' \<Longrightarrow> calls_ok w'"
  by (simp add: calls_ok_def same_calls_def)

lemma length_evict: "length (evict limit xs) = min limit (length xs)"
  by (induction xs) auto

lemma length_fail_pending [simp]: "length (fail_pending p futs) = length futs"
  by (induction p futs rule: fail_pending.induct) auto

lemma nth_fail_pending:
  assumes "f < length futs"
  shows "fail_pending p futs ! f =
     (if f \<in> snd ` set p \<and> futs ! f = FutPending then FutFailed PeerDisconnected else futs ! f)"
  using assms
proof (induction p arbitrary: futs)
  case (Cons x p)
  obtain m g where x: "x = (m, g)" by (cases x)
  show ?case
    using Cons.IH [of "if futs ! g = FutPending then futs[g := FutFailed PeerDisconnected] else futs"] Cons.prems
    by (cases "g = f") (auto simp: x)
qed simp

lemma calls_ok_connected: "calls_ok w \<Longrightarrow> calls_ok (mark_connected w)"
  by (simp add: calls_ok_def mark_connected_def)

lemma calls_ok_disconnected: "calls_ok w \<Longrightarrow> calls_ok (fst (mark_disconnected cf w))"
  by (auto simp: calls_ok_def mark_disconnected_def nth_fail_pending dest: map_of_SomeD split: if_splits)
    (metis image_eqI map_of_SomeD snd_conv)

text \<open>Settling futures keeps the calls in order, as long as none is reopened.\<close>

lemma calls_ok_futs:
  assumes "calls_ok w" "length futs = length (ws_futs w)"
    and "\<And>f. futs ! f = FutPending \<Longrightarrow> ws_futs w ! f = FutPending"
  shows "calls_ok (w\<lparr>ws_futs := futs\<rparr>)"
  using assms by (simp add: calls_ok_def)

lemma length_settle [simp]: "length (settle hk f frame futs) = length futs"
  by (simp add: settle_def)

lemma nth_settle: "f < length futs \<Longrightarrow> settle hk f frame futs ! g =
    (if g = f \<and> futs ! f = FutPending
     then (case hk_parse_result hk frame of
             Inr v \<Rightarrow> FutResult v | Inl (code, details) \<Rightarrow> FutFailed (PeerError code details))
     else futs ! g)"
  by (simp add: settle_def nth_list_update)

lemma settle_pending: "settle hk f frame futs ! g = FutPending \<Longrightarrow> futs ! g = FutPending"
proof -
  have "x \<noteq> FutPending \<Longrightarrow> futs[f := x] ! g = FutPending \<Longrightarrow> futs ! g = FutPending" for x
    by (cases "f < length futs"; cases "g = f") (auto simp: list_update_beyond)
  then show "settle hk f frame futs ! g = FutPending \<Longrightarrow> futs ! g = FutPending"
    by (auto simp: settle_def split: if_splits sum.splits)
qed

lemma length_delete_le: "length (AList.delete k d) \<le> length d"
  by (simp add: AList.delete_eq length_filter_le)

lemma length_drop_mid: "length (drop_mid mid d) \<le> length d"
  by (simp add: drop_mid_def length_delete_le split: pyval.split)

lemma drop_mid_Nil [simp]: "drop_mid mid [] = []"
  by (simp add: drop_mid_def split: pyval.split)

lemma calls_ok_context: "calls_ok w \<Longrightarrow> calls_ok (w\<lparr>ws_context := drop_mid mid (ws_context w)\<rparr>)"
  using length_drop_mid [of mid "ws_context w"] by (auto simp: calls_ok_def)

lemma calls_ok_dispatch: "calls_ok w \<Longrightarrow> calls_ok (fst (dispatch hk cf now frame w))"
proof -
  assume ok: "calls_ok w"
  let ?w = "w\<lparr>ws_context := drop_mid (hk_message_id hk frame) (ws_context w)\<rparr>"
  have c: "calls_ok ?w" by (rule calls_ok_context [OF ok])
  have s: "calls_ok (?w\<lparr>ws_futs := settle hk f frame (ws_futs w)\<rparr>)" for f
    by (rule calls_ok_futs [OF c]) (use settle_pending in auto)
  have e: "calls_ok (w\<lparr>ws_last_event := t\<rparr>)" for t using ok by (simp add: calls_ok_def)
  show ?thesis
    using ok c s e by (simp add: dispatch_def log_unmatched_def Let_def split: option.split)
qed

lemma calls_ok_frame: "calls_ok w \<Longrightarrow> calls_ok (fst (handle_frame hk cf now v w))"
  by (simp add: handle_frame_def calls_ok_dispatch split: pyval.split)

lemma calls_ok_raw: "calls_ok w \<Longrightarrow> calls_ok (fst (handle_raw hk cf now raw w))"
  by (simp add: handle_raw_def calls_ok_frame split: option.split)

text \<open>The end of a request unregisters its id and nothing else.\<close>

lemma calls_ok_end:
  assumes "calls_ok w" "q \<in> set (ws_requests w)"
  shows "calls_ok (end_request q w)"
proof -
  have inj: "rq_mid q' = rq_mid q \<longleftrightarrow> rq_fut q' = rq_fut q" if "q' \<in> set (ws_requests w)" for q'
    using assms that unfolding calls_ok_def distinct_map by (metis inj_onD)
  then have kept: "map_of (AList.delete (rq_mid q) (ws_pending w)) (rq_mid q') = map_of (ws_pending w) (rq_mid q')"
    if "q' \<in> set (ws_requests w)" "rq_fut q' \<noteq> rq_fut q" for q'
    using that by (simp add: delete_conv')
  show ?thesis
    unfolding calls_ok_def
  proof (intro conjI)
    show "\<not> ws_connected (end_request q w) \<longrightarrow> ws_pending (end_request q w) = [] \<and> ws_context (end_request q w) = []"
      "length (ws_context (end_request q w)) \<le> SEND_CONTEXT_LIMIT"
      using assms(1) by (simp_all add: calls_ok_def end_request_def)
    show "distinct (map rq_fut (ws_requests (end_request q w)))"
      "distinct (map rq_mid (ws_requests (end_request q w)))"
      using assms(1) by (simp_all add: calls_ok_def end_request_def distinct_map_filter)
    show "\<forall>q' \<in> set (ws_requests (end_request q w)). rq_fut q' < length (ws_futs (end_request q w))
        \<and> (\<exists>k < ws_next_id (end_request q w). rq_mid q' = str_of_int k)
        \<and> (ws_futs (end_request q w) ! rq_fut q' = FutPending \<longrightarrow>
             map_of (ws_pending (end_request q w)) (rq_mid q') = Some (rq_fut q'))"
      using assms(1) kept by (simp add: calls_ok_def end_request_def)
    show "\<forall>m f. map_of (ws_pending (end_request q w)) m = Some f \<longrightarrow>
        (m, f) \<in> call_key ` set (ws_requests (end_request q w))"
    proof (intro allI impI)
      fix m f
      assume "map_of (ws_pending (end_request q w)) m = Some f"
      then have m: "m \<noteq> rq_mid q" "map_of (ws_pending w) m = Some f"
        by (auto simp: end_request_def delete_conv' split: if_splits)
      then obtain q' where q': "q' \<in> set (ws_requests w)" "(m, f) = call_key q'"
        using assms(1) unfolding calls_ok_def by blast
      then have "rq_fut q' \<noteq> rq_fut q" using inj [OF q'(1)] m(1) by (simp add: call_key_def)
      with q' show "(m, f) \<in> call_key ` set (ws_requests (end_request q w))"
        by (simp add: end_request_def)
    qed
  qed
qed

text \<open>Only the id and the future of a request matter, not its stage.\<close>

lemma calls_ok_requests:
  assumes "calls_ok w" "map call_key rs = map call_key (ws_requests w)"
  shows "calls_ok (w\<lparr>ws_requests := rs\<rparr>)"
proof -
  have proj: "map rq_fut xs = map snd (map call_key xs)" "map rq_mid xs = map fst (map call_key xs)" for xs
    by (simp_all add: call_key_def)
  have keys: "call_key ` set rs = call_key ` set (ws_requests w)"
    using arg_cong [where f = set, OF assms(2)] by (simp only: set_map)
  have "P (rq_mid q) (rq_fut q)" if "q \<in> set rs" "\<forall>q \<in> set (ws_requests w). P (rq_mid q) (rq_fut q)" for q P
  proof -
    from that(1) keys obtain q' where "q' \<in> set (ws_requests w)" "call_key q' = call_key q" by (metis imageE imageI)
    with that(2) show ?thesis by (auto simp: call_key_def)
  qed
  from this [where P = "\<lambda>m f. f < length (ws_futs w) \<and> (\<exists>k < ws_next_id w. m = str_of_int k)
      \<and> (ws_futs w ! f = FutPending \<longrightarrow> map_of (ws_pending w) m = Some f)"] assms(1) keys
  show ?thesis
    unfolding calls_ok_def proj by (simp add: assms(2) del: map_map) 
qed

lemma find_requestD: "find_request f w = Some q \<Longrightarrow> q \<in> set (ws_requests w) \<and> rq_fut q = f"
  by (auto simp: find_request_def find_Some_iff)

lemma calls_ok_wake:
  assumes "calls_ok w" "q \<in> set (ws_requests w)" "wake_request q wake w = Some (w', effs)"
  shows "calls_ok w'"
proof -
  have cancel: "calls_ok (w\<lparr>ws_futs := (if b then (ws_futs w)[rq_fut q := FutCancelled] else ws_futs w)\<rparr>)" for b
    by (rule calls_ok_futs [OF assms(1)])
      (auto split: if_splits, metis fut.distinct(5) length_list_update list_update_beyond not_le nth_list_update)
  have ended: "calls_ok (end_request q (w\<lparr>ws_futs := (if b then (ws_futs w)[rq_fut q := FutCancelled] else ws_futs w)\<rparr>))" for b
    by (rule calls_ok_end [OF cancel]) (use assms(2) in simp)
  have stage: "calls_ok (w\<lparr>ws_requests := map (\<lambda>q'. if rq_fut q' = rq_fut q then q'\<lparr>rq_stage := Awaiting\<rparr> else q')
      (ws_requests w)\<rparr>)"
    by (rule calls_ok_requests [OF assms(1)]) (simp add: call_key_def)
  show ?thesis
    using assms(3) ended [of "rq_stage q = Awaiting \<and> ws_futs w ! rq_fut q = FutPending"] stage calls_ok_end [OF assms(1,2)]
    by (auto simp: wake_request_def Let_def split: request_wake.splits if_splits fut.splits)
qed

text \<open>What one step does to the calls: nothing, a connection made or lost, one frame, one new
  request, or one request woken.\<close>

lemma same_calls_refl [simp]: "same_calls w w"
  by (simp add: same_calls_def)

lemma same_calls_trans: "same_calls u v \<Longrightarrow> same_calls v w \<Longrightarrow> same_calls u w"
  by (simp add: same_calls_def)

lemma same_calls_disconnected:
  "same_calls w u \<Longrightarrow> same_calls (fst (mark_disconnected cf w)) (fst (mark_disconnected cf u))"
  by (simp add: same_calls_def mark_disconnected_def)

lemma step_calls [consumes 1, case_names stay up down frame start wake]:
  assumes "ws_next hk cf ev w = Some (w', effs)"
  obtains "same_calls w w'"
    | "same_calls (mark_connected w) w'"
    | "same_calls (fst (mark_disconnected cf w)) w'"
    | now x where "ev \<in> {EvRaw now (Some x), EvFrame now x}" "w' = fst (handle_frame hk cf now x w)"
    | name args ctx where "ev = EvRequest name args ctx" "start_request hk name args ctx w = Some (w', effs)"
    | f q wk where "ev = EvRequestWakes f wk" "find_request f w = Some q" "wake_request q wk w = Some (w', effs)"
proof -
  have fin: "same_calls (fst (mark_disconnected cf w)) (fst (finish_iteration cf a ex u))" if "same_calls w u" for a ex u
    using same_calls_disconnected [OF that, of cf]
    by (auto simp: finish_iteration_def stop_run_def same_calls_def split: prod.split)
  have leave: "same_calls w (fst (leave_try cf a ex u)) \<or> same_calls (fst (mark_disconnected cf w)) (fst (leave_try cf a ex u))"
    if "same_calls w u" for a ex u
    using fin [OF that] that by (auto simp: leave_try_def same_calls_def)
  have disc: "same_calls (fst (mark_disconnected cf w)) (fst (mark_disconnected cf u))" if "same_calls w u" for u
    using that by (rule same_calls_disconnected)
  show thesis
  proof (cases "ev")
    case (EvRaw now raw)
    with assms that(1,4) show thesis
      by (cases raw) (auto simp: ws_next_def handle_raw_def split: phase.splits)
  next
    case (EvFrame now v)
    with assms that(4) show thesis by (auto simp: ws_next_def split: phase.splits)
  next
    case EvListenEnds
    with assms leave [of w 0 GoOn] that(1,3) show thesis by (auto simp: ws_next_def split: phase.splits)
  next
    case (EvFails failure seam)
    obtain a where a: "attempt_in (ws_phase w) = Some a"
      using assms EvFails by (auto simp: ws_next_def split: option.splits)
    obtain ex u e1 where u: "on_failure cf a failure seam w = (ex, u, e1)" by (cases "on_failure cf a failure seam w")
    then have "same_calls w u"
      by (auto simp: on_failure_def maybe_report_repeated_failure_def report_connect_failure_def outage_is_expected_def
          Let_def same_calls_def split: failure.splits option.splits sum.splits if_splits)
    moreover have "w' = fst (leave_try cf a ex u)" using assms EvFails a u by (auto simp: ws_next_def split: prod.splits)
    ultimately show thesis using leave [of u a ex] that(1,3) by auto
  next
    case EvTornDown
    with assms fin [of w] that(3) show thesis by (auto simp: ws_next_def split: phase.splits) (metis fst_conv)
  next
    case EvClose
    with assms disc [of "w\<lparr>ws_closing := True\<rparr>"] that(1,3) show thesis
      by (auto simp: ws_next_def same_calls_def split: if_splits)
  next
    case EvClosed
    with assms disc [of "w\<lparr>ws_closers := ws_closers w - 1\<rparr>"] that(3) show thesis
      by (auto simp: ws_next_def same_calls_def split: if_splits)
  next
    case (EvRequest c args ctx)
    with assms that(5) show thesis by (simp add: ws_next_def)
  next
    case (EvRequestWakes f wk)
    with assms that(6) show thesis by (auto simp: ws_next_def split: option.splits)
  next
    case EvHandshakeDone
    with assms that(2) show thesis
      by (auto simp: ws_next_def connection_made_def same_calls_def split: phase.splits)
  next
    case EvEarlyConnected
    with assms that(2) show thesis by (auto simp: ws_next_def split: phase.splits)
  qed (use assms in \<open>auto simp: ws_next_def loop_head_def stop_run_def retry_now_def resume_client_def backoff_over_def
      rearm_failure_diagnostic_def same_calls_def intro!: that(1) split: phase.splits if_splits waited.splits\<close>)
qed

section \<open>The contract of the two peers\<close>

text \<open>What the transport relies on: the frame of the next request carries the next number as its
  message id, and the number moves on.\<close>

locale frame_protocol =
  fixes hk :: hooks
  assumes request_id: "hk_request hk command args ids = (frame, ids') \<Longrightarrow>
    hk_message_id hk frame = PStr (str_of_int ids) \<and> ids' = ids + 1"
begin

lemma start_request_cases:
  assumes "start_request hk command args ctx w = Some (w', effs)"
  obtains (refused) "w' = w\<lparr>ws_next_id := ws_next_id w + 1\<rparr>" "\<not> ws_connected w \<or> \<not> ws_held w"
      "effs = [ReqRaises (str_of_int (ws_next_id w)) NotConnected]"
    | (sent) frame cx where "ws_connected w" "ws_held w"
        "cx = (case ctx of None \<Rightarrow> ws_context w
           | Some c \<Rightarrow> evict SEND_CONTEXT_LIMIT (AList.update (str_of_int (ws_next_id w)) c (ws_context w)))"
        "w' = w\<lparr>ws_next_id := ws_next_id w + 1, ws_context := cx, ws_futs := ws_futs w @ [FutPending],
           ws_pending := AList.update (str_of_int (ws_next_id w)) (length (ws_futs w)) (ws_pending w),
           ws_requests := ws_requests w @ [\<lparr>rq_mid = str_of_int (ws_next_id w), rq_fut = length (ws_futs w),
             rq_stage = Sending\<rparr>]\<rparr>" "effs = [SendFrame frame]"
proof -
  obtain frame ids where r: "hk_request hk command args (ws_next_id w) = (frame, ids)"
    by (cases "hk_request hk command args (ws_next_id w)")
  note id = request_id [OF r]
  show thesis
  proof (cases "ws_held w \<and> ws_connected w")
    case False
    with assms r id refused show thesis by (auto simp: start_request_def)
  next
    case True
    show thesis
      by (rule sent [OF _ _ refl, of frame])
        (use assms r id True in \<open>auto simp: start_request_def Let_def remember_send_context_def split: option.splits\<close>)
  qed
qed

lemma calls_ok_start:
  assumes "calls_ok w" "start_request hk command args ctx w = Some (w', effs)"
  shows "calls_ok w'"
  using assms(2)
proof (cases rule: start_request_cases)
  case refused
  with assms(1) show ?thesis unfolding calls_ok_def by (auto intro: less_trans [OF _ zless_add1_eq [THEN iffD2]])
next
  case (sent frame cx)
  let ?n = "ws_next_id w" and ?f = "length (ws_futs w)"
  have fresh: "rq_mid q \<noteq> str_of_int ?n \<and> rq_fut q < ?f" if "q \<in> set (ws_requests w)" for q
    using assms(1) that unfolding calls_ok_def by force
  have len: "length cx \<le> SEND_CONTEXT_LIMIT"
    using assms(1) sent(3) by (auto simp: calls_ok_def length_evict split: option.split)
  have old: "(\<exists>k < ?n + 1. rq_mid q = str_of_int k)
      \<and> (ws_futs w ! rq_fut q = FutPending \<longrightarrow> map_of (ws_pending w) (rq_mid q) = Some (rq_fut q))"
    if "q \<in> set (ws_requests w)" for q
    using assms(1) that unfolding calls_ok_def by (metis zless_add1_eq)
  show ?thesis
    unfolding sent(4) calls_ok_def
    using assms(1) fresh old len sent(1)
    by (auto simp: calls_ok_def call_key_def update_conv' nth_append less_Suc_eq image_iff split: if_splits)
      (metis less_irrefl)
qed

text \<open>Every step keeps the calls in order.\<close>

lemma calls_ok_step:
  assumes "calls_ok w" "ws_next hk cf ev w = Some (w', effs)"
  shows "calls_ok w'"
  using assms(2)
proof (cases rule: step_calls)
  case (frame now x)
  with calls_ok_frame [OF assms(1)] show ?thesis by simp
next
  case (wake f q wk)
  with find_requestD calls_ok_wake [OF assms(1)] show ?thesis by blast
qed (use assms(1) calls_ok_same calls_ok_connected calls_ok_disconnected calls_ok_start in blast)+

theorem calls_ok_reach: "ws_reach hk cf w \<Longrightarrow> calls_ok w"
  by (induction rule: ws_reach.induct) (auto intro: calls_ok_init calls_ok_step)

text \<open>Without a connection no future is left open, so every suspended caller can go on.\<close>

lemma down_settled:
  assumes "ws_reach hk cf w" "\<not> ws_connected w" "q \<in> set (ws_requests w)"
  shows "ws_futs w ! rq_fut q \<noteq> FutPending"
  using calls_ok_reach [OF assms(1)] assms(2,3) by (auto simp: calls_ok_def)

text \<open>The one way a future gets an answer.\<close>

lemma answered:
  assumes "ws_reach hk cf w" "ws_next hk cf ev w = Some (w', effs)"
    and "q \<in> set (ws_requests w)" "ws_futs w ! rq_fut q = FutPending" "ws_futs w' ! rq_fut q = FutResult v"
  shows "\<exists>now frame. ev \<in> {EvRaw now (Some (PDict frame)), EvFrame now (PDict frame)}
    \<and> \<not> hk_is_event hk frame \<and> hk_is_response hk frame
    \<and> hk_message_id hk frame = PStr (rq_mid q) \<and> hk_parse_result hk frame = Inr v"
proof -
  have ok: "calls_ok w" by (rule calls_ok_reach [OF assms(1)])
  have len: "rq_fut q < length (ws_futs w)" using ok assms(3) by (simp add: calls_ok_def)
  have by_frame: "\<exists>frame. x = PDict frame \<and> \<not> hk_is_event hk frame \<and> hk_is_response hk frame
      \<and> hk_message_id hk frame = PStr (rq_mid q) \<and> hk_parse_result hk frame = Inr v"
    if x: "ws_futs (fst (handle_frame hk cf now x w)) ! rq_fut q = FutResult v" for now x
  proof -
    obtain frame where f: "x = PDict frame" using x assms(4) by (cases x) (auto simp: handle_frame_def)
    have r: "\<not> hk_is_event hk frame" "hk_is_response hk frame" "hashable (hk_message_id hk frame)"
      using x f assms(4) by (auto simp: handle_frame_def dispatch_def Let_def split: if_splits)
    obtain m g where m: "hk_message_id hk frame = PStr m" "map_of (ws_pending w) m = Some g"
      using x f r assms(4)
      by (auto simp: handle_frame_def dispatch_def Let_def find_mid_def log_unmatched_def split: pyval.splits option.splits)
    then have "(m, g) \<in> call_key ` set (ws_requests w)" using ok by (simp add: calls_ok_def)
    then obtain q' where q': "q' \<in> set (ws_requests w)" "rq_mid q' = m" "rq_fut q' = g" by (auto simp: call_key_def)
    then have g: "g < length (ws_futs w)" using ok unfolding calls_ok_def by blast
    have s: "settle hk g frame (ws_futs w) ! rq_fut q = FutResult v"
      using x f r m by (simp add: handle_frame_def dispatch_def Let_def find_mid_def)
    with assms(4) have "rq_fut q = g" "hk_parse_result hk frame = Inr v"
      unfolding nth_settle [OF g] by (auto split: if_splits sum.splits)
    moreover have "rq_mid q = m" using ok assms(3) q' \<open>rq_fut q = g\<close> unfolding calls_ok_def distinct_map by (metis inj_onD)
    ultimately show ?thesis using f r m by simp
  qed
  show ?thesis
    using assms(2)
  proof (cases rule: step_calls)
    case down
    with assms(4,5) len show ?thesis
      by (auto simp: same_calls_def mark_disconnected_def nth_fail_pending split: if_splits)
  next
    case (frame now x)
    with by_frame [of now x] assms(5) show ?thesis by auto
  next
    case (start name args ctx)
    from start(2) show ?thesis using assms(4,5) len by (cases rule: start_request_cases) (auto simp: nth_append)
  next
    case (wake f q' wk)
    have "(ws_futs w)[n := FutCancelled] ! rq_fut q \<noteq> FutResult v" for n
      using len assms(4) by (cases "n = rq_fut q") auto
    with wake(3) assms(4,5) show ?thesis
      by (auto simp: wake_request_def Let_def end_request_def split: request_wake.splits if_splits fut.splits)
  qed (use assms(4,5) in \<open>simp_all add: same_calls_def mark_connected_def\<close>)
qed

end

section \<open>Refinement of a call board\<close>

text \<open>What the client promises its callers, without ids, futures, notes or coroutines: a board of
  the calls in flight that is up or down. A call can be opened only while the board is up, is
  answered at most once, is closed by its caller, and going down fails every open call.\<close>

record board =
  bd_up :: bool
  bd_calls :: "string \<Rightarrow> fut option"

fun dropped :: "fut \<Rightarrow> fut" where
  "dropped FutPending = FutFailed PeerDisconnected"
| "dropped x = x"

fun peer_answer :: "fut \<Rightarrow> bool" where
  "peer_answer (FutResult v) = True"
| "peer_answer (FutFailed (PeerError code details)) = True"
| "peer_answer _ = False"

inductive board_step :: "board \<Rightarrow> board \<Rightarrow> bool" where
  bs_stay: "board_step b b"
| bs_up: "board_step b (b\<lparr>bd_up := True\<rparr>)"
| bs_down: "board_step b \<lparr>bd_up = False, bd_calls = (\<lambda>m. map_option dropped (bd_calls b m))\<rparr>"
| bs_open: "bd_up b \<Longrightarrow> bd_calls b m = None \<Longrightarrow>
     board_step b (b\<lparr>bd_calls := (bd_calls b)(m \<mapsto> FutPending)\<rparr>)"
| bs_answer: "bd_calls b m = Some FutPending \<Longrightarrow> peer_answer x \<Longrightarrow>
     board_step b (b\<lparr>bd_calls := (bd_calls b)(m \<mapsto> x)\<rparr>)"
| bs_close: "board_step b (b\<lparr>bd_calls := (bd_calls b)(m := None)\<rparr>)"

text \<open>The promise, on the board alone: a board that is down has no open call.\<close>

definition board_ok :: "board \<Rightarrow> bool" where
  "board_ok b \<longleftrightarrow> (\<forall>m. bd_calls b m \<noteq> Some FutCancelled)
     \<and> (\<not> bd_up b \<longrightarrow> (\<forall>m. bd_calls b m \<noteq> Some FutPending))"

lemma board_ok_step: "board_step b b' \<Longrightarrow> board_ok b \<Longrightarrow> board_ok b'"
proof (induction rule: board_step.induct)
  case (bs_down b)
  have "dropped x \<noteq> FutPending" for x by (cases x) simp_all
  moreover have "dropped x = FutCancelled \<Longrightarrow> x = FutCancelled" for x by (cases x) simp_all
  ultimately show ?case using bs_down by (fastforce simp: board_ok_def)
next
  case (bs_answer b m x)
  then show ?case by (cases x rule: peer_answer.cases) (auto simp: board_ok_def)
qed (auto simp: board_ok_def)

definition board_of :: "ws \<Rightarrow> board" where
  "board_of w = \<lparr>bd_up = ws_connected w,
     bd_calls = map_of (map (\<lambda>q. (rq_mid q, ws_futs w ! rq_fut q)) (ws_requests w))\<rparr>"

lemma board_of_same: "same_calls w w' \<Longrightarrow> board_of w' = board_of w"
  by (simp add: board_of_def same_calls_def)

lemma board_of_connected: "board_step (board_of w) (board_of (mark_connected w))"
  using bs_up [of "board_of w"] by (simp add: board_of_def mark_connected_def)

lemma map_of_map_snd: "map_of (map (\<lambda>q. (k q, h (f q))) qs) m = map_option h (map_of (map (\<lambda>q. (k q, f q)) qs) m)"
  by (induction qs) auto

lemma board_of_disconnected:
  assumes "calls_ok w"
  shows "board_step (board_of w) (board_of (fst (mark_disconnected cf w)))"
proof -
  have eq: "map (\<lambda>q. (rq_mid q, fail_pending (ws_pending w) (ws_futs w) ! rq_fut q)) (ws_requests w)
      = map (\<lambda>q. (rq_mid q, dropped (ws_futs w ! rq_fut q))) (ws_requests w)"
  proof (rule map_cong [OF refl])
    fix q assume q: "q \<in> set (ws_requests w)"
    have "rq_fut q < length (ws_futs w)"
      "ws_futs w ! rq_fut q = FutPending \<Longrightarrow> rq_fut q \<in> snd ` set (ws_pending w)"
      using assms q by (auto simp: calls_ok_def dest!: bspec [OF _ q] map_of_SomeD) (metis image_eqI snd_conv)
    then show "(rq_mid q, fail_pending (ws_pending w) (ws_futs w) ! rq_fut q) = (rq_mid q, dropped (ws_futs w ! rq_fut q))"
      by (cases "ws_futs w ! rq_fut q") (auto simp: nth_fail_pending)
  qed
  have "board_of (fst (mark_disconnected cf w)) =
      \<lparr>bd_up = False, bd_calls = (\<lambda>m. map_option dropped (bd_calls (board_of w) m))\<rparr>"
    by (simp add: board_of_def mark_disconnected_def eq map_of_map_snd [where h = dropped] fun_eq_iff del: map_eq_conv)
  then show ?thesis using bs_down by metis
qed

lemma board_calls:
  assumes "calls_ok w" "q \<in> set (ws_requests w)"
  shows "bd_calls (board_of w) (rq_mid q) = Some (ws_futs w ! rq_fut q)"
proof -
  have "distinct (map fst (map (\<lambda>q. (rq_mid q, ws_futs w ! rq_fut q)) (ws_requests w)))"
    using assms(1) by (simp add: calls_ok_def comp_def)
  then have "map_of (map (\<lambda>q. (rq_mid q, ws_futs w ! rq_fut q)) (ws_requests w)) (rq_mid q) = Some (ws_futs w ! rq_fut q)"
    by (rule map_of_is_SomeI) (use assms(2) in force)
  then show ?thesis by (simp add: board_of_def)
qed

lemma board_absent: "m \<notin> rq_mid ` set (ws_requests w) \<Longrightarrow> bd_calls (board_of w) m = None"
  by (auto simp: board_of_def map_of_eq_None_iff)

text \<open>Two states of one set of requests, one answer apart.\<close>

lemma board_of_settled:
  assumes "calls_ok w" "map_of (ws_pending w) m = Some g"
  shows "board_step (board_of w) (board_of (w\<lparr>ws_context := cx, ws_futs := settle hk g frame (ws_futs w)\<rparr>))"
proof -
  obtain q where q: "q \<in> set (ws_requests w)" "rq_mid q = m" "rq_fut q = g"
  proof -
    have "(m, g) \<in> call_key ` set (ws_requests w)" using assms by (simp add: calls_ok_def)
    with that show thesis by (auto simp: call_key_def)
  qed
  have g: "g < length (ws_futs w)" using assms(1) q unfolding calls_ok_def by blast
  have mid: "rq_mid q' = m \<longleftrightarrow> rq_fut q' = g" if "q' \<in> set (ws_requests w)" for q'
    using assms(1) q that unfolding calls_ok_def distinct_map by (metis inj_onD)
  show ?thesis
  proof (cases "ws_futs w ! g = FutPending")
    case False
    then have "settle hk g frame (ws_futs w) = ws_futs w" by (simp add: settle_def)
    then show ?thesis using bs_stay by (simp add: board_of_def)
  next
    case True
    define x where "x = (case hk_parse_result hk frame of
        Inr v \<Rightarrow> FutResult v | Inl (code, details) \<Rightarrow> FutFailed (PeerError code details))"
    have x: "peer_answer x" by (auto simp: x_def split: sum.split)
    have futs: "settle hk g frame (ws_futs w) ! f = (if f = g then x else ws_futs w ! f)" for f
      using g True by (auto simp: nth_settle x_def)
    let ?b = "board_of (w\<lparr>ws_context := cx, ws_futs := settle hk g frame (ws_futs w)\<rparr>)"
    have "map_of (map (\<lambda>q. (rq_mid q, settle hk g frame (ws_futs w) ! rq_fut q)) qs) k
        = (if k = m \<and> m \<in> rq_mid ` set qs then Some x else map_of (map (\<lambda>q. (rq_mid q, ws_futs w ! rq_fut q)) qs) k)"
      if "set qs \<subseteq> set (ws_requests w)" for qs k
      using that
    proof (induction qs)
      case (Cons a qs)
      then show ?case using mid [of a] by (cases "rq_fut a = g") (auto simp: futs)
    qed simp
    from this [of "ws_requests w"] q have "?b = (board_of w)\<lparr>bd_calls := (bd_calls (board_of w))(m \<mapsto> x)\<rparr>"
      by (auto simp: board_of_def fun_eq_iff)
    moreover have "bd_calls (board_of w) m = Some FutPending" using board_calls [OF assms(1) q(1)] q True by simp
    ultimately show ?thesis using bs_answer x by metis
  qed
qed

lemma board_of_ended:
  assumes "calls_ok w" "q \<in> set (ws_requests w)" "\<And>f. f \<noteq> rq_fut q \<Longrightarrow> futs ! f = ws_futs w ! f"
  shows "board_step (board_of w) (board_of (end_request q (w\<lparr>ws_futs := futs\<rparr>)))"
proof -
  have inj: "rq_mid q' = rq_mid q \<longleftrightarrow> rq_fut q' = rq_fut q" if "q' \<in> set (ws_requests w)" for q'
    using assms(1,2) that unfolding calls_ok_def distinct_map by (metis inj_onD)
  have "map_of (map (\<lambda>q. (rq_mid q, futs ! rq_fut q)) (filter (\<lambda>q'. rq_fut q' \<noteq> rq_fut q) qs)) m
      = (if m = rq_mid q then None else map_of (map (\<lambda>q. (rq_mid q, ws_futs w ! rq_fut q)) qs) m)"
    if "set qs \<subseteq> set (ws_requests w)" for qs m
    using that
  proof (induction qs)
    case (Cons a qs)
    then show ?case using inj [of a] assms(3) [of "rq_fut a"] by (cases "rq_fut a = rq_fut q") auto
  qed simp
  from this [of "ws_requests w"]
  have "board_of (end_request q (w\<lparr>ws_futs := futs\<rparr>)) = (board_of w)\<lparr>bd_calls := (bd_calls (board_of w))(rq_mid q := None)\<rparr>"
    by (auto simp: board_of_def end_request_def fun_eq_iff)
  then show ?thesis using bs_close by metis
qed

context frame_protocol
begin

lemma map_of_snoc_fresh: "map_of xs m = None \<Longrightarrow> map_of (xs @ [(m, v)]) = (map_of xs)(m \<mapsto> v)"
  by (auto simp: map_add_def fun_eq_iff split: option.split)

lemma board_of_frame:
  assumes "calls_ok w"
  shows "board_step (board_of w) (board_of (fst (handle_frame hk cf now x w)))"
proof -
  have cx: "board_of (w\<lparr>ws_context := d\<rparr>) = board_of w" "board_of (w\<lparr>ws_last_event := t\<rparr>) = board_of w" for d t
    by (simp_all add: board_of_def)
  show ?thesis
    using bs_stay board_of_settled [OF assms]
    by (auto simp: handle_frame_def dispatch_def log_unmatched_def Let_def find_mid_def cx
        split: pyval.split option.split)
qed

lemma refines_board:
  assumes "ws_reach hk cf w" "ws_next hk cf ev w = Some (w', effs)"
  shows "board_step (board_of w) (board_of w')"
proof -
  have ok: "calls_ok w" by (rule calls_ok_reach [OF assms(1)])
  show ?thesis
    using assms(2)
  proof (cases rule: step_calls)
    case stay
    then show ?thesis using bs_stay board_of_same by metis
  next
    case up
    then show ?thesis using board_of_connected board_of_same by metis
  next
    case down
    then show ?thesis using board_of_disconnected [OF ok] board_of_same by metis
  next
    case (frame now x)
    then show ?thesis using board_of_frame [OF ok] by simp
  next
    case (start name args ctx)
    from start(2) show ?thesis
    proof (cases rule: start_request_cases)
      case refused
      then show ?thesis using bs_stay [of "board_of w"] by (simp add: board_of_def)
    next
      case (sent frame cx)
      let ?m = "str_of_int (ws_next_id w)"
      have fresh: "?m \<notin> rq_mid ` set (ws_requests w)" using ok by (force simp: calls_ok_def)
      have old: "map (\<lambda>q. (rq_mid q, (ws_futs w @ [FutPending]) ! rq_fut q)) (ws_requests w)
          = map (\<lambda>q. (rq_mid q, ws_futs w ! rq_fut q)) (ws_requests w)"
        using ok by (auto simp: calls_ok_def nth_append)
      have "bd_calls (board_of w) ?m = None" by (rule board_absent [OF fresh])
      moreover have "board_of w' = (board_of w)\<lparr>bd_calls := (bd_calls (board_of w))(?m \<mapsto> FutPending)\<rparr>"
        using map_of_snoc_fresh [of "map (\<lambda>q. (rq_mid q, ws_futs w ! rq_fut q)) (ws_requests w)" ?m FutPending]
          board_absent [OF fresh]
        by (simp add: sent(4) board_of_def old del: map_eq_conv)
      moreover have "bd_up (board_of w)" using sent(1) by (simp add: board_of_def)
      ultimately show ?thesis using bs_open by metis
    qed
  next
    case (wake f q wk)
    have q: "q \<in> set (ws_requests w)" using wake(2) find_requestD by blast
    have sent: "board_of (w\<lparr>ws_requests := map (\<lambda>q'. if rq_fut q' = rq_fut q then q'\<lparr>rq_stage := Awaiting\<rparr> else q')
        (ws_requests w)\<rparr>) = board_of w"
      by (simp add: board_of_def comp_def if_distrib cong: if_cong)
    have ended: "board_step (board_of w) (board_of (end_request q (w\<lparr>ws_futs := futs\<rparr>)))"
      if "\<And>f. f \<noteq> rq_fut q \<Longrightarrow> futs ! f = ws_futs w ! f" for futs
      using board_of_ended [OF ok q] that by blast
    from ended [of "ws_futs w"] ended [of "(ws_futs w)[rq_fut q := FutCancelled]"] wake(3) sent bs_stay show ?thesis
      by (auto simp: wake_request_def Let_def split: request_wake.splits if_splits fut.splits)
  qed
qed

lemma board_reach: "ws_reach hk cf w \<Longrightarrow> board_ok (board_of w)"
proof (induction rule: ws_reach.induct)
  case ws_start
  show ?case by (simp add: board_ok_def board_of_def ws_init_def)
next
  case (ws_step w ev w' effs)
  then show ?case using refines_board board_ok_step by blast
qed

text \<open>Without a connection, a caller that waits can be resumed at once.\<close>

lemma down_returns:
  assumes "ws_reach hk cf w" "\<not> ws_connected w" "q \<in> set (ws_requests w)" "rq_stage q = Awaiting"
  shows "\<exists>eff. ws_next hk cf (EvRequestWakes (rq_fut q) FutureDone) w = Some (end_request q w, [eff])
    \<and> (\<exists>v. eff = ReqReturns (rq_mid q) v \<or> (\<exists>e. eff = ReqRaises (rq_mid q) e))"
proof -
  have ok: "calls_ok w" by (rule calls_ok_reach [OF assms(1)])
  have "bd_calls (board_of w) (rq_mid q) = Some (ws_futs w ! rq_fut q)" by (rule board_calls [OF ok assms(3)])
  with board_reach [OF assms(1)] assms(2)
  have fut: "ws_futs w ! rq_fut q \<noteq> FutPending" "ws_futs w ! rq_fut q \<noteq> FutCancelled"
    by (auto simp: board_ok_def board_of_def)
  have "find_request (rq_fut q) w = Some q"
  proof -
    obtain q' where q': "find_request (rq_fut q) w = Some q'"
      using assms(3) by (cases "find_request (rq_fut q) w") (auto simp: find_request_def find_None_iff)
    then have "q' \<in> set (ws_requests w)" "rq_fut q' = rq_fut q" using find_requestD by blast+
    with ok assms(3) have "q' = q" unfolding calls_ok_def distinct_map by (metis inj_onD)
    with q' show ?thesis by simp
  qed
  with fut assms(4) show ?thesis
    by (cases "ws_futs w ! rq_fut q") (auto simp: ws_next_def wake_request_def Let_def)
qed

end

interpretation matter: frame_protocol "matter_hooks repr" for repr
  by unfold_locales (auto simp: matter_hooks_def build_request_def proto_next_id_def message_id_of_def dget_def wire_keys)

interpretation bridge: frame_protocol "bridge_hooks repr" for repr
  by unfold_locales (auto simp: bridge_hooks_def bridge_request_def bridge_next_id_def bridge_message_id_of_def dget_def wire_keys)

lemma peer_protocol: "hk \<in> {matter_hooks repr, bridge_hooks repr} \<Longrightarrow> frame_protocol hk"
  using matter.frame_protocol_axioms bridge.frame_protocol_axioms by blast

section \<open>Properties of the calls\<close>

text \<open>C13: a caller is only ever given the answer to its own request: if a step gives a waiting caller a
  result, that step handled one frame of matter-server, a response without an error that
  carries the caller's own message id, and the result is that frame's.\<close>

theorem answers_correlated:
  assumes "ws_reach (matter_hooks repr) cf w" "ws_next (matter_hooks repr) cf ev w = Some (w', effs)"
    and "q \<in> set (ws_requests w)" "ws_futs w ! rq_fut q = FutPending" "ws_futs w' ! rq_fut q = FutResult v"
  shows "\<exists>now frame. ev \<in> {EvRaw now (Some (PDict frame)), EvFrame now (PDict frame)}
    \<and> is_response frame \<and> message_id_of frame = PStr (rq_mid q)
    \<and> map_of frame KEY_ERROR_CODE = None \<and> v = dget frame KEY_RESULT"
proof -
  have "parse_result frame = Inr v \<Longrightarrow> map_of frame KEY_ERROR_CODE = None \<and> v = dget frame KEY_RESULT" for frame
    by (auto simp: parse_result_def split: if_splits)
  with matter.answered [OF assms] show ?thesis
    by (fastforce simp: matter_hooks_def split: sum.splits protocol_error.splits)
qed

text \<open>C3: the client refines the call board: whatever happens, each step of the client is a step of
  the board (or none), so a call is opened only on a live connection and answered at most
  once, and a lost connection fails every call that is still open.\<close>

theorem client_refines_board:
  assumes "hk \<in> {matter_hooks repr, bridge_hooks repr}"
    and "ws_reach hk cf w" "ws_next hk cf ev w = Some (w', effs)"
  shows "board_step (board_of w) (board_of w') \<and> board_ok (board_of w')"
  using frame_protocol.refines_board [OF peer_protocol [OF assms(1)] assms(2,3)]
    frame_protocol.board_reach [OF peer_protocol [OF assms(1)] ws_step [OF assms(2,3)]] ..

text \<open>No caller is left hanging by a lost connection: whenever the client is not connected, every
  coroutine that waits for an answer can be resumed at once and ends, with an answer that came
  before or with an exception.\<close>

theorem callers_return:
  assumes "hk \<in> {matter_hooks repr, bridge_hooks repr}"
    and "ws_reach hk cf w" "\<not> ws_connected w" "q \<in> set (ws_requests w)" "rq_stage q = Awaiting"
  shows "\<exists>eff. ws_next hk cf (EvRequestWakes (rq_fut q) FutureDone) w = Some (end_request q w, [eff])
    \<and> (\<exists>v. eff = ReqReturns (rq_mid q) v \<or> (\<exists>e. eff = ReqRaises (rq_mid q) e))"
  by (rule frame_protocol.down_returns [OF peer_protocol [OF assms(1)] assms(2-)])

text \<open>The notes about unanswered requests are bounded, whatever the peer never answers.\<close>

lemma context_bounded: "ws_reach (bridge_hooks repr) cf w \<Longrightarrow> length (ws_context w) \<le> 256"
  using bridge.calls_ok_reach by (simp add: calls_ok_def SEND_CONTEXT_LIMIT_def)

section \<open>Properties of the run loop\<close>

lemma on_failure_fields:
  assumes "on_failure cf a failure seam w = (ex, u, effs)"
  shows "ws_running u = ws_running w" "ws_closing u = ws_closing w" "ws_held u = ws_held w"
    "ws_connected u = ws_connected w" "ws_retry_armed u = ws_retry_armed w" "ws_phase u = ws_phase w"
    "ws_halted u = (ws_halted w \<or> ex = HaltedHere)" "ex = Reraise \<longleftrightarrow> failure = FCancelled"
    "CallOnDisconnect \<notin> set effs" "ws_wakes u = ws_wakes w"
  using assms by (auto simp: on_failure_def maybe_report_repeated_failure_def report_connect_failure_def
      outage_is_expected_def Let_def split: failure.splits option.splits sum.splits if_splits)

text \<open>Two states that agree on the run loop, and effects that tell the supervisor nothing.\<close>

definition same_loop :: "ws \<Rightarrow> ws \<Rightarrow> bool" where
  "same_loop w w' \<longleftrightarrow> ws_running w' = ws_running w \<and> ws_closing w' = ws_closing w \<and> ws_held w' = ws_held w
     \<and> ws_connected w' = ws_connected w \<and> ws_phase w' = ws_phase w \<and> ws_halted w' = ws_halted w
     \<and> ws_diag_fired w' = ws_diag_fired w"

fun is_notice :: "ws_eff \<Rightarrow> bool" where
  "is_notice CallOnDisconnect = True"
| "is_notice (CallRepeatedFailure n) = True"
| "is_notice (BackoffDelay n) = True"
| "is_notice (RetryAnswer b) = True"
| "is_notice _ = False"

definition quiet :: "ws \<Rightarrow> ws \<Rightarrow> ws_eff list \<Rightarrow> bool" where
  "quiet w w' effs \<longleftrightarrow> same_loop w w' \<and> (\<forall>e \<in> set effs. \<not> is_notice e)"

lemma dispatch_quiet: "dispatch hk cf now frame w = (w', effs) \<Longrightarrow> quiet w w' effs"
  by (auto simp: dispatch_def log_unmatched_def Let_def quiet_def same_loop_def split: option.splits if_splits sum.splits)

lemma handle_frame_quiet: "handle_frame hk cf now v w = (w', effs) \<Longrightarrow> quiet w w' effs"
  by (cases v) (auto simp: handle_frame_def quiet_def same_loop_def dest!: dispatch_quiet)

lemma handle_raw_quiet: "handle_raw hk cf now raw w = (w', effs) \<Longrightarrow> quiet w w' effs"
  by (cases raw) (auto simp: handle_raw_def quiet_def same_loop_def dest!: handle_frame_quiet)

lemma start_request_quiet:
  assumes "start_request hk name args ctx w = Some (w', effs)"
  shows "quiet w w' effs"
proof -
  obtain frame ids where r: "hk_request hk name args (ws_next_id w) = (frame, ids)"
    by (cases "hk_request hk name args (ws_next_id w)")
  show ?thesis
    using assms
    by (cases "hk_message_id hk frame"; cases ctx)
      (auto simp: start_request_def r Let_def quiet_def same_loop_def remember_send_context_def split: if_splits)
qed

lemma wake_request_quiet: "wake_request q wk w = Some (w', effs) \<Longrightarrow> quiet w w' effs"
  by (cases wk; cases "ws_futs w ! rq_fut q")
    (auto simp: wake_request_def Let_def quiet_def same_loop_def end_request_def split: if_splits)

text \<open>A step is quiet, or it is one of the events of the run loop and its supervisor.\<close>

fun is_loop_event :: "ws_event \<Rightarrow> bool" where
  "is_loop_event (EvRaw now raw) = False"
| "is_loop_event (EvFrame now v) = False"
| "is_loop_event (EvRequest name args ctx) = False"
| "is_loop_event (EvRequestWakes f wk) = False"
| "is_loop_event _ = True"

lemma step_quiet:
  assumes "ws_next hk cf ev w = Some (w', effs)" "\<not> is_loop_event ev"
  shows "quiet w w' effs"
  using assms handle_raw_quiet handle_frame_quiet start_request_quiet wake_request_quiet
  by (cases "ev") (auto simp: ws_next_def split: phase.splits option.splits)

text \<open>The run loop is suspended exactly while it runs, with a socket in every phase after the
  connect; a halt seen by an iteration is latched.\<close>

fun in_connection :: "phase \<Rightarrow> bool" where
  "in_connection (AwaitingHello a) = True"
| "in_connection (Handshaking a) = True"
| "in_connection Listening = True"
| "in_connection _ = False"

fun is_backing_off :: "phase \<Rightarrow> bool" where
  "is_backing_off (BackingOff a) = True"
| "is_backing_off _ = False"

fun saw_halt :: "phase \<Rightarrow> bool" where
  "saw_halt (TearingDown a ex) = (ex = HaltedHere)"
| "saw_halt _ = False"

definition loop_ok :: "ws \<Rightarrow> bool" where
  "loop_ok w \<longleftrightarrow> (ws_running w \<longleftrightarrow> ws_phase w \<noteq> Idle) \<and> (saw_halt (ws_phase w) \<longrightarrow> ws_halted w)
     \<and> (in_connection (ws_phase w) \<longrightarrow> ws_held w) \<and> (is_backing_off (ws_phase w) \<longrightarrow> \<not> ws_halted w)"

lemma loop_ok_leave:
  assumes "ws_running u" "ex = HaltedHere \<longrightarrow> ws_halted u"
  shows "loop_ok (fst (leave_try cf a ex u))" "loop_ok (fst (finish_iteration cf a ex u))"
  using assms
  by (auto simp: leave_try_def finish_iteration_def mark_disconnected_def stop_run_def loop_ok_def)

lemma loop_ok_step:
  assumes "loop_ok w" "ws_next hk cf ev w = Some (w', effs)"
  shows "loop_ok w'"
proof (cases "is_loop_event ev")
  case False
  with step_quiet [OF assms(2)] assms(1) show ?thesis by (simp add: quiet_def same_loop_def loop_ok_def)
next
  case True
  show ?thesis
  proof (cases "ev")
    case (EvFails failure seam)
    obtain a where a: "attempt_in (ws_phase w) = Some a"
      using assms EvFails by (auto simp: ws_next_def split: option.splits)
    then have "ws_running w" using assms(1) by (cases "ws_phase w") (auto simp: loop_ok_def)
    obtain ex u e1 where u: "on_failure cf a failure seam w = (ex, u, e1)" by (cases "on_failure cf a failure seam w")
    have "w' = fst (leave_try cf a ex u)" using assms(2) EvFails a u by (auto simp: ws_next_def split: prod.splits)
    with loop_ok_leave(1) on_failure_fields [OF u] \<open>ws_running w\<close> show ?thesis by simp
  next
    case EvListenEnds
    with assms loop_ok_leave(1) [of w GoOn cf 0] show ?thesis
      by (auto simp: ws_next_def loop_ok_def split: phase.splits)
  next
    case EvTornDown
    then obtain a ex where p: "ws_phase w = TearingDown a ex" using assms(2) by (auto simp: ws_next_def split: phase.splits)
    with EvTornDown assms loop_ok_leave(2) [of w ex cf a] show ?thesis by (auto simp: ws_next_def loop_ok_def)
  next
    case (EvBackoffOver how)
    then obtain a where p: "ws_phase w = BackingOff a" using assms(2) by (auto simp: ws_next_def split: phase.splits)
    with EvBackoffOver assms show ?thesis
      by (auto simp: ws_next_def backoff_over_def loop_head_def stop_run_def rearm_failure_diagnostic_def loop_ok_def
          split: waited.splits if_splits)
  qed (use assms True in \<open>cases "ws_phase w"; force simp: ws_next_def loop_head_def stop_run_def retry_now_def
      resume_client_def rearm_failure_diagnostic_def connection_made_def mark_connected_def mark_disconnected_def
      loop_ok_def split: if_splits\<close>)+
qed

lemma loop_ok_reach: "ws_reach hk cf w \<Longrightarrow> loop_ok w"
proof (induction rule: ws_reach.induct)
  case ws_start
  show ?case by (simp add: loop_ok_def ws_init_def)
next
  case (ws_step w ev w' effs)
  then show ?case using loop_ok_step by blast
qed

end
