(* ===== verification/CommissionJobs.thy ===== *)
theory CommissionJobs
  imports MatterProtocol
begin

text \<open>
  \<open>commission_jobs.py\<close>, the synchronous part: the job record, the job table with its index
  by setup code, creation and polling of jobs, retention, and the attribution of a node that
  joins late to the timed-out job it belongs to. The asynchronous worker is in the theory
  \<open>CommissionWorker\<close>.

  The plugin shares \<open>Job\<close> objects between the table and running coroutines (a job reaped
  from the table may still be written by its coroutine), so jobs live in a store of objects
  (\<open>js_heap\<close>) and the table maps job ids to references into it. A node id is an integer or a
  text, the two shapes the wire carries. Times are integers in microseconds. Log lines are
  values of \<open>job_log\<close>, message texts values of \<open>job_msg\<close> and \<open>err_msg\<close>, one constructor per text.
\<close>

section \<open>Node ids\<close>

datatype node_id = NInt int | NStr string

datatype nkey = KInt int | KStr string

text \<open>\<open>matter_model.node_id_to_str\<close> and \<open>_node_key\<close>, \<open>_same_node\<close>, \<open>_node_int\<close>.\<close>

fun node_id_to_str :: "node_id \<Rightarrow> string" where
  "node_id_to_str (NStr s) = s"
| "node_id_to_str (NInt n) = ''0x'' @ hex_of_int n"

fun node_key :: "node_id \<Rightarrow> nkey" where
  "node_key (NStr s) =
     (case int_of_text0 s of
        Some n \<Rightarrow> KInt n
      | None \<Rightarrow>
          (let stripped = str_strip s
           in if stripped \<noteq> [] \<and> str_isdecimal stripped
              then (case int_of_text stripped of Some n \<Rightarrow> KInt n | None \<Rightarrow> KStr s)
              else KStr s))"
| "node_key (NInt n) = KInt n"

definition same_node :: "node_id \<Rightarrow> node_id \<Rightarrow> bool" where
  "same_node a b = (node_key a = node_key b)"

definition node_int :: "node_id \<Rightarrow> int option" where
  "node_int v = (case node_key v of KInt n \<Rightarrow> Some n | KStr _ \<Rightarrow> None)"

section \<open>Jobs\<close>

datatype job_status = PENDING | COMMISSIONING | READING_DESCRIPTORS | CREATING_DEVICES | SUCCESS | FAILED

definition TERMINAL :: "job_status set" where
  "TERMINAL = {SUCCESS, FAILED}"

definition RETENTION :: int where "RETENTION = 15 * 60 * 1000000"
definition RECONCILE_WINDOW :: int where "RECONCILE_WINDOW = 5 * 60 * 1000000"

datatype job_msg = NoMessage | MsgCommissioning | MsgDiscovering | MsgCreating
  | MsgJoinedAfterTimeout | MsgDone | MsgDoneAfterTimeout

datatype err_msg =
    Text string
  | TimeoutMessage
  | DescriptorTimeout node_id
  | LateFailure string

record job_error =
  je_code :: string
  je_message :: err_msg
  je_matter :: "int option"

text \<open>What \<open>create_devices\<close> returns: the ids of the created devices and whatever else.\<close>

record created =
  cr_device_ids :: "int list"
  cr_other :: pydict

record job =
  j_job_id :: string
  j_setup_code :: string
  j_suggested_name :: string
  j_suggested_room :: pyval
  j_discriminator :: "int option"
  j_domio_node_id :: pyval
  j_expected_fabric_slots :: "int option"
  j_node_id :: "node_id option"
  j_status :: job_status
  j_progress :: rat
  j_message :: job_msg
  j_started_at :: int
  j_terminal_at :: "int option"
  j_result :: "(string \<times> created) option"
  j_error :: "job_error option"

type_synonym jref = nat

record jobs_state =
  js_heap :: "job list"
  js_jobs :: "(string \<times> jref) list"
  js_by_code :: "(string \<times> string) list"
  js_removing :: "nkey set"

definition jobs_init :: jobs_state where
  "jobs_init = \<lparr>js_heap = [], js_jobs = [], js_by_code = [], js_removing = {}\<rparr>"

abbreviation job_at :: "jobs_state \<Rightarrow> jref \<Rightarrow> job" where
  "job_at st r \<equiv> js_heap st ! r"

definition put_job :: "jref \<Rightarrow> job \<Rightarrow> jobs_state \<Rightarrow> jobs_state" where
  "put_job r j st = st\<lparr>js_heap := (js_heap st)[r := j]\<rparr>"

datatype job_log =
    LogAccepted string
  | LogMalformedUnidentified string
  | LogMalformedIdentified "string list"
  | LogRemovalInFlight string "string list"
  | LogOutsideWindow string string
  | LogAmbiguous string "string list"
  | LogNotWaitingFor string "(string \<times> string) list"
  | LogReconcileUnscheduled string string
  | LogLateUntracked string
  | LogLateFailure string pyval string
  | LogLateErrorIgnoredSuccess string
  | LogLateErrorIgnored string job_status
  | LogLateNoNode string
  | LogLateNodeMismatch string string string
  | LogLateNodeRecorded string string
  | LogHeldByOther string string "string list"
  | LogSlotsShort string string int int
  | LogCommissioned string string nat
  | LogCommissionedLate string string nat
  | LogTimedOut string
  | LogDescriptorTimeout string
  | LogCleanupFailed string
  | LogCommissionFailed string err_msg "int option" string
  | LogWatchdogNotArmed string
  | LogWindowClosedNode string string
  | LogWindowClosedBare string
  | LogRemovingUnchecked string
  | LogTracked string string
  | LogRemovedOrphan string bool
  | LogOrphanRemovalFailed string
  | LogException

section \<open>Fabric slots\<close>

definition OP_CREDS_CLUSTER :: int where "OP_CREDS_CLUSTER = 62"
definition ATTR_SUPPORTED_FABRICS :: int where "ATTR_SUPPORTED_FABRICS = 2"
definition ATTR_COMMISSIONED_FABRICS :: int where "ATTR_COMMISSIONED_FABRICS = 3"

text \<open>The loop over the attribute snapshot, and the two conversions after it:
  \<open>TypeError\<close> and \<open>ValueError\<close> give up on both numbers, \<open>OverflowError\<close> escapes.\<close>

fun scan_fabrics :: "(string \<times> pyval) list \<Rightarrow> pyval \<Rightarrow> pyval \<Rightarrow> pyval \<times> pyval" where
  "scan_fabrics [] supported commissioned = (supported, commissioned)"
| "scan_fabrics ((key, v) # attrs) supported commissioned =
     (case parse_attr_key key of
        Inl _ \<Rightarrow> scan_fabrics attrs supported commissioned
      | Inr (endpoint, cluster, attribute) \<Rightarrow>
          if endpoint \<noteq> 0 \<or> cluster \<noteq> OP_CREDS_CLUSTER then scan_fabrics attrs supported commissioned
          else if attribute = ATTR_SUPPORTED_FABRICS then scan_fabrics attrs v commissioned
          else if attribute = ATTR_COMMISSIONED_FABRICS then scan_fabrics attrs supported v
          else scan_fabrics attrs supported commissioned)"

definition int_or_none :: "pyval \<Rightarrow> int option py_result" where
  "int_or_none v = (if v = PNone then Inr None
     else (case py_int v of Inr n \<Rightarrow> Inr (Some n) | Inl e \<Rightarrow> Inl e))"

definition fabric_counts :: "pydict \<Rightarrow> (int option \<times> int option) py_result" where
  "fabric_counts attributes =
     (let (supported, commissioned) = scan_fabrics attributes PNone PNone;
          r = (case int_or_none supported of Inl e \<Rightarrow> Inl e
               | Inr s \<Rightarrow> (case int_or_none commissioned of Inl e \<Rightarrow> Inl e | Inr c \<Rightarrow> Inr (s, c)))
      in case r of
           Inl e \<Rightarrow> if e = TypeError \<or> e = ValueError then Inr (None, None) else Inl e
         | Inr sc \<Rightarrow> Inr sc)"

definition fabric_slots_available :: "pydict \<Rightarrow> int option py_result" where
  "fabric_slots_available attributes =
     (case fabric_counts attributes of
        Inl e \<Rightarrow> Inl e
      | Inr (Some supported, Some commissioned) \<Rightarrow> Inr (Some (supported - commissioned))
      | Inr _ \<Rightarrow> Inr None)"

definition warn_if_fabric_slots_short :: "job \<Rightarrow> pydict \<Rightarrow> node_id \<Rightarrow> job_log list py_result" where
  "warn_if_fabric_slots_short j attributes nid =
     (case j_expected_fabric_slots j of
        None \<Rightarrow> Inr []
      | Some expected \<Rightarrow>
          (case fabric_slots_available attributes of
             Inl e \<Rightarrow> Inl e
           | Inr None \<Rightarrow> Inr []
           | Inr (Some available) \<Rightarrow>
               if expected \<le> available then Inr []
               else Inr [LogSlotsShort (j_job_id j) (node_id_to_str nid) available expected]))"

section \<open>Table operations\<close>

definition is_valid_setup_code :: "string \<Rightarrow> bool" where
  "is_valid_setup_code code =
     (if code = [] then False
      else if prefix ''MT:'' code then 3 < length code
      else str_isdigit code \<and> (length code = 11 \<or> length code = 21))"

text \<open>\<open>_advance\<close>: the four fields; \<open>terminal_at\<close> is stamped on a terminal status only.\<close>

definition advance_job :: "job_status \<Rightarrow> rat \<Rightarrow> job_msg \<Rightarrow> int \<Rightarrow> job \<Rightarrow> job" where
  "advance_job status progress message now j =
     (let j' = j\<lparr>j_status := status, j_progress := progress, j_message := message\<rparr>
      in if status \<in> TERMINAL then j'\<lparr>j_terminal_at := Some now\<rparr> else j')"

definition advance :: "jref \<Rightarrow> job_status \<Rightarrow> rat \<Rightarrow> job_msg \<Rightarrow> int \<Rightarrow> jobs_state \<Rightarrow> jobs_state" where
  "advance r status progress message now st =
     put_job r (advance_job status progress message now (job_at st r)) st"

definition set_node_id :: "jref \<Rightarrow> node_id \<Rightarrow> jobs_state \<Rightarrow> jobs_state" where
  "set_node_id r nid st = put_job r ((job_at st r)\<lparr>j_node_id := Some nid\<rparr>) st"

text \<open>\<open>_reap_locked\<close>: the expired ids are collected first, then popped one by one; an index
  entry goes only if it still points at the popped job.\<close>

definition expired_ids :: "int \<Rightarrow> jobs_state \<Rightarrow> string list" where
  "expired_ids now st =
     (let cutoff = now - RETENTION
      in map fst (filter (\<lambda>(jid, r). case j_terminal_at (job_at st r) of
                                       None \<Rightarrow> False | Some t \<Rightarrow> t < cutoff) (js_jobs st)))"

definition pop_job :: "string \<Rightarrow> jobs_state \<Rightarrow> jobs_state" where
  "pop_job jid st = (case map_of (js_jobs st) jid of
       None \<Rightarrow> st
     | Some r \<Rightarrow>
         (let code = j_setup_code (job_at st r)
          in st\<lparr>js_jobs := AList.delete jid (js_jobs st),
                js_by_code := (if map_of (js_by_code st) code = Some jid
                               then AList.delete code (js_by_code st) else js_by_code st)\<rparr>))"

definition reap :: "int \<Rightarrow> jobs_state \<Rightarrow> jobs_state" where
  "reap now st = fold pop_job (expired_ids now st) st"

datatype http_body =
    InvalidSetupCode
  | NameRequired
  | Unreachable
  | Duplicate string
  | Unscheduled string
  | Accepted string

text \<open>\<open>(params.get(key) or "").strip()\<close>: a truthy value that is not a text has no
  \<open>strip\<close>.\<close>

definition param_text :: "pydict \<Rightarrow> string \<Rightarrow> string py_result" where
  "param_text params key =
     (let v = dget params key
      in if \<not> truthy v then Inr []
         else (case v of PStr s \<Rightarrow> Inr (str_strip s) | _ \<Rightarrow> Inl AttributeError))"

definition new_job :: "pydict \<Rightarrow> string \<Rightarrow> string \<Rightarrow> string \<Rightarrow> int \<Rightarrow> job py_result" where
  "new_job params jid setup_code name now =
     (case opt_int (dget params ''discriminator'') of Inl e \<Rightarrow> Inl e | Inr disc \<Rightarrow>
     (case opt_int (dget params ''expectedFabricSlots'') of Inl e \<Rightarrow> Inl e | Inr slots \<Rightarrow>
        Inr \<lparr>j_job_id = jid, j_setup_code = setup_code, j_suggested_name = name,
             j_suggested_room = or_none (dget params ''suggestedRoom''),
             j_discriminator = disc,
             j_domio_node_id = or_none (dget params ''domioNodeId''),
             j_expected_fabric_slots = slots, j_node_id = None, j_status = PENDING,
             j_progress = 0, j_message = NoMessage, j_started_at = now, j_terminal_at = None,
             j_result = None, j_error = None\<rparr>))"

definition add_job :: "job \<Rightarrow> jobs_state \<Rightarrow> jobs_state" where
  "add_job j st = st\<lparr>js_heap := js_heap st @ [j],
     js_jobs := AList.update (j_job_id j) (length (js_heap st)) (js_jobs st),
     js_by_code := AList.update (j_setup_code j) (j_job_id j) (js_by_code st)\<rparr>"

definition unadd_job :: "job \<Rightarrow> jobs_state \<Rightarrow> jobs_state" where
  "unadd_job j st = st\<lparr>
     js_jobs := AList.delete (j_job_id j) (js_jobs st),
     js_by_code := (if map_of (js_by_code st) (j_setup_code j) = Some (j_job_id j)
                    then AList.delete (j_setup_code j) (js_by_code st) else js_by_code st)\<rparr>"

text \<open>The job, if any, that a request for this setup code duplicates.\<close>

definition live_duplicate :: "string \<Rightarrow> jobs_state \<Rightarrow> string option" where
  "live_duplicate code st = (case map_of (js_by_code st) code of
       None \<Rightarrow> None
     | Some jid \<Rightarrow> (case map_of (js_jobs st) jid of
                      None \<Rightarrow> None
                    | Some r \<Rightarrow> if j_status (job_at st r) \<in> TERMINAL then None else Some jid))"

text \<open>\<open>create_job\<close>. Inputs of the environment: whether matter-server is connected, the clock,
  the new id of the uuid factory, and what scheduling the worker says (\<open>None\<close>: scheduled;
  \<open>Some text\<close>: the loop is down). The result is the HTTP status with its body, or an exception;
  the reference of a scheduled job is returned beside the new state.\<close>

definition create_job ::
  "pydict \<Rightarrow> bool \<Rightarrow> int \<Rightarrow> string \<Rightarrow> string option \<Rightarrow> jobs_state
     \<Rightarrow> (int \<times> http_body) py_result \<times> jref option \<times> jobs_state" where
  "create_job params server_up now jid sched st =
     (case param_text params ''setupCode'' of Inl e \<Rightarrow> (Inl e, None, st) | Inr setup_code \<Rightarrow>
      if \<not> is_valid_setup_code setup_code then (Inr (400, InvalidSetupCode), None, st)
      else
     (case param_text params ''suggestedName'' of Inl e \<Rightarrow> (Inl e, None, st) | Inr name \<Rightarrow>
      if name = [] then (Inr (400, NameRequired), None, st)
      else if \<not> server_up then (Inr (503, Unreachable), None, st)
      else
        (let st1 = reap now st
         in case live_duplicate setup_code st1 of
              Some existing \<Rightarrow> (Inr (409, Duplicate existing), None, st1)
            | None \<Rightarrow>
                (case new_job params jid setup_code name now of
                   Inl e \<Rightarrow> (Inl e, None, st1)
                 | Inr j \<Rightarrow>
                     (case sched of
                        Some reason \<Rightarrow> (Inr (503, Unscheduled reason), None, unadd_job j (add_job j st1))
                      | None \<Rightarrow> (Inr (202, Accepted jid), Some (length (js_heap st1)), add_job j st1))))))"

text \<open>\<open>Job.serialize\<close>. The elapsed time is taken from the wall clock, not the injected one.\<close>

record job_view =
  jv_job_id :: string
  jv_status :: job_status
  jv_progress :: rat
  jv_started_at :: int
  jv_message :: job_msg
  jv_elapsed_seconds :: "int option"
  jv_result :: "(string \<times> created) option"
  jv_error :: "job_error option"

definition serialize :: "int \<Rightarrow> job \<Rightarrow> job_view" where
  "serialize now_utc j = \<lparr>jv_job_id = j_job_id j, jv_status = j_status j, jv_progress = j_progress j,
     jv_started_at = j_started_at j, jv_message = j_message j,
     jv_elapsed_seconds = (if j_status j \<in> TERMINAL then None
                           else Some (rat_trunc (of_int (now_utc - j_started_at j) / 1000000))),
     jv_result = j_result j, jv_error = j_error j\<rparr>"

definition get_job :: "string \<Rightarrow> int \<Rightarrow> int \<Rightarrow> jobs_state \<Rightarrow> (int \<times> job_view option) \<times> jobs_state" where
  "get_job jid now now_utc st =
     (let st1 = reap now st
      in case map_of (js_jobs st1) jid of
           None \<Rightarrow> ((404, None), st1)
         | Some r \<Rightarrow> ((200, Some (serialize now_utc (job_at st1 r))), st1))"

section \<open>Attribution of a late join\<close>

definition timed_out :: "job \<Rightarrow> bool" where
  "timed_out j = (j_status j = FAILED \<and>
     (case j_error j of None \<Rightarrow> False | Some e \<Rightarrow> je_code e = ''commissioning_timeout''))"

definition timeout_candidates :: "int option \<Rightarrow> jobs_state \<Rightarrow> jref list" where
  "timeout_candidates cutoff st =
     sort_key (\<lambda>r. the (j_terminal_at (job_at st r)))
       (filter (\<lambda>r. let j = job_at st r in timed_out j \<and> j_terminal_at j \<noteq> None \<and>
                      (case cutoff of None \<Rightarrow> True | Some c \<Rightarrow> c \<le> the (j_terminal_at j)))
          (map snd (js_jobs st)))"

definition holds_node :: "jobs_state \<Rightarrow> node_id \<Rightarrow> jref \<Rightarrow> bool" where
  "holds_node st nid r = (case j_node_id (job_at st r) of None \<Rightarrow> False | Some n \<Rightarrow> same_node n nid)"

definition unidentified :: "jobs_state \<Rightarrow> jref \<Rightarrow> bool" where
  "unidentified st r = (j_node_id (job_at st r) = None)"

definition claimable :: "node_id \<Rightarrow> int \<Rightarrow> jobs_state \<Rightarrow> jref option \<times> jref list \<times> bool" where
  "claimable nid cutoff st =
     (let candidates = timeout_candidates (Some cutoff) st
      in if node_key nid \<in> js_removing st then (None, candidates, True)
         else if candidates = [] then (None, candidates, False)
         else (let exact = filter (holds_node st nid) candidates
               in if exact \<noteq> [] then (Some (last exact), candidates, False)
                  else (let un = filter (unidentified st) candidates
                        in if un = [] then (None, candidates, False)
                           else if length (remdups (map (\<lambda>r. j_setup_code (job_at st r)) un)) = 1
                           then (Some (last un), candidates, False)
                           else (None, candidates, False))))"

text \<open>The five assignments of a claim.\<close>

definition claim_job :: "node_id \<Rightarrow> job \<Rightarrow> job" where
  "claim_job nid j = j\<lparr>j_error := None, j_terminal_at := None, j_progress := 17/20,
     j_message := MsgJoinedAfterTimeout, j_node_id := Some nid, j_status := CREATING_DEVICES\<rparr>"

text \<open>Putting a claimed job back: status \<open>FAILED\<close> and the five saved fields.\<close>

definition restore_job :: "job \<Rightarrow> job \<Rightarrow> job" where
  "restore_job prior j = j\<lparr>j_status := FAILED, j_error := j_error prior,
     j_terminal_at := j_terminal_at prior, j_progress := j_progress prior,
     j_message := j_message prior, j_node_id := j_node_id prior\<rparr>"

definition ids_of :: "jobs_state \<Rightarrow> jref list \<Rightarrow> string list" where
  "ids_of st rs = map (\<lambda>r. j_job_id (job_at st r)) rs"

definition log_malformed_node_added :: "int \<Rightarrow> jobs_state \<Rightarrow> job_log list" where
  "log_malformed_node_added now st =
     (let waiting = timeout_candidates (Some (now - RECONCILE_WINDOW)) st;
          un = filter (unidentified st) waiting
      in if un \<noteq> [] then [LogMalformedUnidentified (j_job_id (job_at st (last un)))]
         else if waiting \<noteq> [] then [LogMalformedIdentified (ids_of st waiting)]
         else [])"

definition log_reconcile_refusal :: "node_id \<Rightarrow> jref list \<Rightarrow> jobs_state \<Rightarrow> job_log list" where
  "log_reconcile_refusal nid candidates st =
     (let un = filter (unidentified st) candidates
      in if un \<noteq> [] then [LogAmbiguous (node_id_to_str nid) (ids_of st un)]
         else [LogNotWaitingFor (node_id_to_str nid)
                 (map (\<lambda>r. (j_job_id (job_at st r),
                            (case j_node_id (job_at st r) of None \<Rightarrow> [] | Some n \<Rightarrow> node_id_to_str n)))
                    candidates)])"

definition log_no_claim :: "node_id \<Rightarrow> jref list \<Rightarrow> bool \<Rightarrow> jobs_state \<Rightarrow> job_log list" where
  "log_no_claim nid candidates removal_in_flight st =
     (if removal_in_flight
      then [LogRemovalInFlight (node_id_to_str nid)
              (ids_of st (filter (\<lambda>r. unidentified st r \<or> holds_node st nid r) candidates))]
      else if candidates = []
      then (let expired = timeout_candidates None st
            in if expired = [] then []
               else [LogOutsideWindow (node_id_to_str nid) (j_job_id (job_at st (last expired)))])
      else log_reconcile_refusal nid candidates st)"

text \<open>\<open>reconcile_node_added\<close>: \<open>None\<close> is a node-added event without a usable node id. The
  reference is the job whose reconcile coroutine was scheduled.\<close>

definition reconcile_node_added ::
  "node_id option \<Rightarrow> int \<Rightarrow> bool \<Rightarrow> jobs_state \<Rightarrow> jref option \<times> jobs_state \<times> job_log list" where
  "reconcile_node_added raw now scheduled st =
     (case raw of
        None \<Rightarrow> (None, st, log_malformed_node_added now st)
      | Some nid \<Rightarrow>
          (case claimable nid (now - RECONCILE_WINDOW) st of
             (None, candidates, removal_in_flight) \<Rightarrow>
               (None, st, log_no_claim nid candidates removal_in_flight st)
           | (Some r, _, _) \<Rightarrow>
               (let prior = job_at st r;
                    st1 = put_job r (claim_job nid prior) st
                in if scheduled then (Some r, st1, [])
                   else (None, put_job r (restore_job prior (job_at st1 r)) st1,
                         [LogReconcileUnscheduled (j_job_id prior) (node_id_to_str nid)]))))"

section \<open>Late answers\<close>

datatype commission_result = ResultObject "node_id option" | ResultBare "node_id option"

text \<open>\<open>result.get("node_id") if isinstance(result, dict) else result\<close>.\<close>

fun result_node_id :: "commission_result \<Rightarrow> node_id option" where
  "result_node_id (ResultObject n) = n"
| "result_node_id (ResultBare n) = n"

definition note_late_error :: "jref \<Rightarrow> pyval \<Rightarrow> string \<Rightarrow> jobs_state \<Rightarrow> (jobs_state \<times> job_log list) py_result" where
  "note_late_error r code details st =
     (let j = job_at st r
      in if timed_out j
         then (case opt_int code of
                 Inl e \<Rightarrow> Inl e
               | Inr matter_error_code \<Rightarrow>
                   Inr (put_job r (j\<lparr>j_error := Some \<lparr>je_code = ''commissioning_failed'',
                                       je_message = LateFailure details,
                                       je_matter = matter_error_code\<rparr>\<rparr>) st,
                        [LogLateFailure (j_job_id j) code details]))
         else if j_status j = SUCCESS then Inr (st, [LogLateErrorIgnoredSuccess (j_job_id j)])
         else Inr (st, [LogLateErrorIgnored (j_job_id j) (j_status j)]))"

definition note_late_success :: "jref \<Rightarrow> commission_result \<Rightarrow> jobs_state \<Rightarrow> jobs_state \<times> job_log list" where
  "note_late_success r result st =
     (let j = job_at st r
      in case result_node_id result of
           None \<Rightarrow> (st, [LogLateNoNode (j_job_id j)])
         | Some nid \<Rightarrow>
             (case j_node_id j of
                Some n \<Rightarrow> (st, if same_node n nid then []
                               else [LogLateNodeMismatch (j_job_id j) (node_id_to_str nid) (node_id_to_str n)])
              | None \<Rightarrow> (put_job r (j\<lparr>j_node_id := Some nid\<rparr>) st,
                         [LogLateNodeRecorded (j_job_id j) (node_id_to_str nid)])))"

text \<open>\<open>note_late_response\<close>: the context names the job the request was sent for (\<open>None\<close> for a
  request that was not a commission), the answer is an error with its details or a result.\<close>

definition note_late_response ::
  "string option \<Rightarrow> ((pyval \<times> string) + commission_result) \<Rightarrow> jobs_state
     \<Rightarrow> (string option \<times> jobs_state \<times> job_log list) py_result" where
  "note_late_response context answer st =
     (case context of
        None \<Rightarrow> Inr (None, st, [])
      | Some jid \<Rightarrow>
          (case map_of (js_jobs st) jid of
             None \<Rightarrow> Inr (None, st, [LogLateUntracked jid])
           | Some r \<Rightarrow>
               (case answer of
                  Inl (code, details) \<Rightarrow>
                    (case note_late_error r code details st of
                       Inl e \<Rightarrow> Inl e
                     | Inr (st', logs) \<Rightarrow> Inr (Some jid, st', logs))
                | Inr result \<Rightarrow>
                    (let (st', logs) = note_late_success r result st in Inr (Some jid, st', logs)))))"

section \<open>Ownership of a node\<close>

text \<open>\<open>_node_held_by_other_job\<close>: the other non-failed jobs of the table that hold the node; if
  there is none, the node is marked as being removed.\<close>

definition other_holders :: "jref \<Rightarrow> node_id \<Rightarrow> jobs_state \<Rightarrow> jref list" where
  "other_holders r nid st =
     filter (\<lambda>r'. r' \<noteq> r \<and> j_status (job_at st r') \<noteq> FAILED \<and> holds_node st nid r') (map snd (js_jobs st))"

definition node_held_by_other_job :: "jref \<Rightarrow> node_id \<Rightarrow> jobs_state \<Rightarrow> bool \<times> jobs_state \<times> job_log list" where
  "node_held_by_other_job r nid st =
     (let holders = other_holders r nid st
      in if holders = [] then (False, st\<lparr>js_removing := insert (node_key nid) (js_removing st)\<rparr>, [])
         else (True, st, [LogHeldByOther (j_job_id (job_at st r)) (node_id_to_str nid) (ids_of st holders)]))"

definition clear_removing :: "node_id \<Rightarrow> jobs_state \<Rightarrow> jobs_state" where
  "clear_removing nid st = st\<lparr>js_removing := js_removing st - {node_key nid}\<rparr>"

end
