(* ===== verification/CommissionFacts.thy ===== *)
theory CommissionFacts
  imports CommissionJobs
begin

text \<open>
  Facts about the job table of \<open>CommissionJobs\<close>: what an update of one job leaves alone,
  the invariants of the table and of its index by setup code and their preservation, what
  retention removes, what a creation does, and which job a late join is attributed to.
\<close>

named_theorems job_simps \<open>how the table operations read\<close>

section \<open>Updating one job\<close>

lemma put_job_fields [simp]:
  "js_jobs (put_job r j st) = js_jobs st"
  "js_by_code (put_job r j st) = js_by_code st"
  "js_removing (put_job r j st) = js_removing st"
  "length (js_heap (put_job r j st)) = length (js_heap st)"
  by (simp_all add: put_job_def)

lemma job_at_put_job [simp]:
  "r' < length (js_heap st) \<Longrightarrow> job_at (put_job r j st) r' = (if r' = r then j else job_at st r')"
  by (auto simp: put_job_def)

lemma job_at_put_same [simp]: "r < length (js_heap st) \<Longrightarrow> job_at (put_job r j st) r = j"
  by simp

lemma put_job_other [simp]: "r' \<noteq> r \<Longrightarrow> job_at (put_job r j st) r' = job_at st r'"
  by (simp add: put_job_def)

lemma put_job_same_id [simp]: "put_job r (job_at st r) st = st"
  by (simp add: put_job_def)

lemma put_job_twice [simp]: "put_job r j (put_job r j' st) = put_job r j st"
  by (simp add: put_job_def)

text \<open>Two states with the same table: nothing but the contents of jobs (never their ids or
  codes) and the removal marks may differ.\<close>

definition same_table :: "jobs_state \<Rightarrow> jobs_state \<Rightarrow> bool" where
  "same_table st st' \<longleftrightarrow> js_jobs st' = js_jobs st \<and> js_by_code st' = js_by_code st
     \<and> length (js_heap st') = length (js_heap st)
     \<and> (\<forall>r < length (js_heap st). j_job_id (job_at st' r) = j_job_id (job_at st r)
                               \<and> j_setup_code (job_at st' r) = j_setup_code (job_at st r))"

lemma same_table_refl [simp, intro]: "same_table st st"
  by (simp add: same_table_def)

lemma same_table_trans [trans]: "same_table a b \<Longrightarrow> same_table b c \<Longrightarrow> same_table a c"
  by (auto simp: same_table_def)

lemma same_table_put_job [intro]:
  "r < length (js_heap st) \<Longrightarrow> j_job_id j = j_job_id (job_at st r) \<Longrightarrow>
   j_setup_code j = j_setup_code (job_at st r) \<Longrightarrow> same_table st (put_job r j st)"
  by (simp add: same_table_def)

section \<open>Invariants of the table\<close>

definition table_ok :: "jobs_state \<Rightarrow> bool" where
  "table_ok st \<longleftrightarrow> distinct (map fst (js_jobs st)) \<and> distinct (map snd (js_jobs st))
     \<and> (\<forall>(jid, r) \<in> set (js_jobs st). r < length (js_heap st) \<and> j_job_id (job_at st r) = jid)"

definition index_ok :: "jobs_state \<Rightarrow> bool" where
  "index_ok st \<longleftrightarrow> distinct (map fst (js_by_code st))
     \<and> (\<forall>(code, jid) \<in> set (js_by_code st).
          \<exists>r. map_of (js_jobs st) jid = Some r \<and> j_setup_code (job_at st r) = code)"

lemma table_okD:
  assumes "table_ok st" "map_of (js_jobs st) jid = Some r"
  shows "r < length (js_heap st)" "j_job_id (job_at st r) = jid"
  using assms by (auto simp: table_ok_def dest!: map_of_SomeD)

lemma table_ok_lookup:
  assumes "table_ok st" "r \<in> snd ` set (js_jobs st)"
  shows "map_of (js_jobs st) (j_job_id (job_at st r)) = Some r"
  using assms by (auto simp: table_ok_def)

lemma index_okD:
  "index_ok st \<Longrightarrow> map_of (js_by_code st) code = Some jid \<Longrightarrow>
   \<exists>r. map_of (js_jobs st) jid = Some r \<and> j_setup_code (job_at st r) = code"
  by (auto simp: index_ok_def dest!: map_of_SomeD)

lemma same_table_ok: "same_table st st' \<Longrightarrow> table_ok st \<Longrightarrow> table_ok st'"
  by (fastforce simp: same_table_def table_ok_def)

lemma same_table_index_ok:
  assumes "same_table st st'" "table_ok st" "index_ok st"
  shows "index_ok st'"
  using assms table_okD(1) [OF assms(2)]
  by (fastforce simp: same_table_def index_ok_def)

lemma table_ok_init [simp]: "table_ok jobs_init"
  and index_ok_init [simp]: "index_ok jobs_init"
  by (simp_all add: table_ok_def index_ok_def jobs_init_def)

section \<open>Retention\<close>

definition expired_job :: "int \<Rightarrow> job \<Rightarrow> bool" where
  "expired_job now j = (case j_terminal_at j of None \<Rightarrow> False | Some t \<Rightarrow> t < now - RETENTION)"

lemma expired_ids_eq:
  "expired_ids now st = map fst (filter (\<lambda>(jid, r). expired_job now (job_at st r)) (js_jobs st))"
  by (simp add: expired_ids_def Let_def expired_job_def case_prod_beta)

lemma pop_job_eq:
  assumes "table_ok st" "index_ok st"
  shows "pop_job jid st = st\<lparr>js_jobs := filter (\<lambda>(j, r). j \<noteq> jid) (js_jobs st),
           js_by_code := filter (\<lambda>(c, j). j \<noteq> jid) (js_by_code st)\<rparr>"
proof (cases "map_of (js_jobs st) jid")
  case None
  then have a: "filter (\<lambda>(j, r). j \<noteq> jid) (js_jobs st) = js_jobs st"
    by (force simp: filter_id_conv map_of_eq_None_iff)
  have b: "filter (\<lambda>(c, j). j \<noteq> jid) (js_by_code st) = js_by_code st"
    using assms(2) None by (force simp: filter_id_conv index_ok_def)
  show ?thesis by (simp add: pop_job_def None a b)
next
  case (Some r)
  let ?code = "j_setup_code (job_at st r)"
  have code: "c = ?code" if "(c, jid) \<in> set (js_by_code st)" for c
    using assms(2) that Some by (fastforce simp: index_ok_def)
  have dist: "distinct (map fst (js_by_code st))" using assms(2) by (simp add: index_ok_def)
  have "(if map_of (js_by_code st) ?code = Some jid then AList.delete ?code (js_by_code st)
         else js_by_code st) = filter (\<lambda>(c, j). j \<noteq> jid) (js_by_code st)"
  proof (cases "map_of (js_by_code st) ?code = Some jid")
    case True
    have "j = jid \<longleftrightarrow> c = ?code" if "(c, j) \<in> set (js_by_code st)" for c j
      using that code True dist by (metis map_of_is_SomeI option.inject)
    with True show ?thesis by (auto simp: delete_eq_filter intro!: filter_cong)
  next
    case False
    then have "(c, jid) \<notin> set (js_by_code st)" for c
      using code dist by (metis map_of_is_SomeI)
    then have "filter (\<lambda>(c, j). j \<noteq> jid) (js_by_code st) = js_by_code st"
      by (auto simp: filter_id_conv)
    with False show ?thesis by simp
  qed
  then show ?thesis by (simp add: pop_job_def Some Let_def delete_eq_filter)
qed

text \<open>The state after popping the jobs with the given ids.\<close>

definition without_ids :: "string set \<Rightarrow> jobs_state \<Rightarrow> jobs_state" where
  "without_ids ids st = st\<lparr>js_jobs := filter (\<lambda>(j, r). j \<notin> ids) (js_jobs st),
     js_by_code := filter (\<lambda>(c, j). j \<notin> ids) (js_by_code st)\<rparr>"

lemma without_ids_fields [simp]:
  "js_heap (without_ids ids st) = js_heap st"
  "js_removing (without_ids ids st) = js_removing st"
  "map_of (js_jobs (without_ids ids st)) jid = (if jid \<in> ids then None else map_of (js_jobs st) jid)"
  by (simp_all add: without_ids_def map_of_filter_fst)

lemma table_ok_without_ids: "table_ok st \<Longrightarrow> table_ok (without_ids ids st)"
  by (auto simp: table_ok_def without_ids_def distinct_map_filter)

lemma index_ok_without_ids: "index_ok st \<Longrightarrow> index_ok (without_ids ids st)"
  by (fastforce simp: index_ok_def without_ids_def distinct_map_filter map_of_filter_fst)

lemma without_ids_insert: "without_ids {jid} (without_ids ids st) = without_ids (insert jid ids) st"
  by (simp add: without_ids_def case_prod_unfold conj_commute)

lemma pop_job_without: "table_ok st \<Longrightarrow> index_ok st \<Longrightarrow> pop_job jid st = without_ids {jid} st"
  by (simp add: pop_job_eq without_ids_def)

lemma fold_pop_job:
  "table_ok st \<Longrightarrow> index_ok st \<Longrightarrow> fold pop_job ids st = without_ids (set ids) st"
proof (induction ids rule: rev_induct)
  case Nil
  then show ?case by (simp add: without_ids_def)
next
  case (snoc jid ids)
  then show ?case
    by (simp add: pop_job_without table_ok_without_ids index_ok_without_ids without_ids_insert)
qed

lemma reap_eq:
  "table_ok st \<Longrightarrow> index_ok st \<Longrightarrow> reap now st = without_ids (set (expired_ids now st)) st"
  by (simp add: reap_def fold_pop_job)

lemma reap_ok [intro]:
  "table_ok st \<Longrightarrow> index_ok st \<Longrightarrow> table_ok (reap now st)"
  "table_ok st \<Longrightarrow> index_ok st \<Longrightarrow> index_ok (reap now st)"
  by (simp_all add: reap_eq table_ok_without_ids index_ok_without_ids)

lemma reap_heap [simp]:
  "table_ok st \<Longrightarrow> index_ok st \<Longrightarrow> js_heap (reap now st) = js_heap st"
  "table_ok st \<Longrightarrow> index_ok st \<Longrightarrow> js_removing (reap now st) = js_removing st"
  by (simp_all add: reap_eq)

lemma expired_id_iff:
  assumes "table_ok st" "map_of (js_jobs st) jid = Some r"
  shows "jid \<in> set (expired_ids now st) \<longleftrightarrow> expired_job now (job_at st r)"
proof -
  have dist: "distinct (map fst (js_jobs st))" using assms(1) by (simp add: table_ok_def)
  have "r' = r" if "(jid, r') \<in> set (js_jobs st)" for r'
    using map_of_is_SomeI [OF dist that] assms(2) by simp
  moreover have "(jid, r) \<in> set (js_jobs st)" using assms(2) by (rule map_of_SomeD)
  moreover have "jid \<in> set (expired_ids now st)
      \<longleftrightarrow> (\<exists>r'. (jid, r') \<in> set (js_jobs st) \<and> expired_job now (job_at st r'))"
    unfolding expired_ids_eq by force
  ultimately show ?thesis by blast
qed

lemma reap_lookup:
  assumes "table_ok st" "index_ok st"
  shows "map_of (js_jobs (reap now st)) jid =
    (case map_of (js_jobs st) jid of None \<Rightarrow> None
     | Some r \<Rightarrow> if expired_job now (job_at st r) then None else Some r)"
  using assms expired_id_iff [OF assms(1)] by (auto simp: reap_eq split: option.splits)

text \<open>Retention takes exactly the jobs that have been terminal for longer than fifteen minutes,
  and with each of them the index entry that points at it.\<close>

text \<open>Reaping removes from the table exactly the jobs whose terminal time is more than the
  retention period in the past, keeps every other job where it was, leaves no index entry
  for a removed job, and never removes a job that could still claim a late join.\<close>

theorem reap_exact:
  assumes "table_ok st" "index_ok st"
  shows "(map_of (js_jobs (reap now st)) jid = Some r \<longleftrightarrow>
            map_of (js_jobs st) jid = Some r \<and> \<not> expired_job now (job_at st r))
       \<and> (map_of (js_by_code (reap now st)) code = Some jid \<longrightarrow> map_of (js_jobs (reap now st)) jid \<noteq> None)
       \<and> set (timeout_candidates (Some (now - RECONCILE_WINDOW)) st)
           \<subseteq> snd ` set (js_jobs (reap now st))"
proof (intro conjI impI)
  show "map_of (js_jobs (reap now st)) jid = Some r \<longleftrightarrow>
          map_of (js_jobs st) jid = Some r \<and> \<not> expired_job now (job_at st r)"
    using assms by (auto simp: reap_lookup split: option.splits)
  show "map_of (js_jobs (reap now st)) jid \<noteq> None"
    if "map_of (js_by_code (reap now st)) code = Some jid"
    using index_okD [OF reap_ok(2) [OF assms] that] by auto
  show "set (timeout_candidates (Some (now - RECONCILE_WINDOW)) st) \<subseteq> snd ` set (js_jobs (reap now st))"
  proof
    fix r assume "r \<in> set (timeout_candidates (Some (now - RECONCILE_WINDOW)) st)"
    then have r: "r \<in> snd ` set (js_jobs st)"
      and t: "\<not> expired_job now (job_at st r)"
      by (auto simp: timeout_candidates_def Let_def expired_job_def RECONCILE_WINDOW_def RETENTION_def)
    then have "map_of (js_jobs (reap now st)) (j_job_id (job_at st r)) = Some r"
      using assms table_ok_lookup [OF assms(1) r] by (simp add: reap_lookup)
    then show "r \<in> snd ` set (js_jobs (reap now st))"
      by (force dest: map_of_SomeD)
  qed
qed

section \<open>Creating a job\<close>

text \<open>The invariant of one job: the terminal stamp and the error go with the status, and a job
  that reads descriptors, creates devices or has succeeded knows its node.\<close>

definition job_ok :: "job \<Rightarrow> bool" where
  "job_ok j \<longleftrightarrow> (j_terminal_at j \<noteq> None \<longleftrightarrow> j_status j \<in> TERMINAL)
     \<and> (j_error j \<noteq> None \<longleftrightarrow> j_status j = FAILED)
     \<and> (j_status j = SUCCESS \<longrightarrow> j_result j \<noteq> None)
     \<and> (j_status j \<in> {READING_DESCRIPTORS, CREATING_DEVICES, SUCCESS} \<longrightarrow> j_node_id j \<noteq> None)"

definition heap_ok :: "jobs_state \<Rightarrow> bool" where
  "heap_ok st \<longleftrightarrow> (\<forall>r < length (js_heap st). job_ok (job_at st r))"

lemma job_ok_live: "job_ok j \<Longrightarrow> j_status j \<notin> TERMINAL \<Longrightarrow> \<not> expired_job now j"
  by (simp add: job_ok_def expired_job_def)

lemma new_job_fields:
  assumes "new_job params jid code name now = Inr j"
  shows "j_job_id j = jid" "j_setup_code j = code" "j_status j = PENDING" "job_ok j"
  using assms by (auto simp: new_job_def job_ok_def TERMINAL_def split: sum.splits)

lemma heap_ok_put_job: "heap_ok st \<Longrightarrow> job_ok j \<Longrightarrow> heap_ok (put_job r j st)"
  by (simp add: heap_ok_def)

lemma heap_ok_reap: "table_ok st \<Longrightarrow> index_ok st \<Longrightarrow> heap_ok st \<Longrightarrow> heap_ok (reap now st)"
  by (simp add: heap_ok_def)

lemma heap_ok_add_job: "heap_ok st \<Longrightarrow> job_ok j \<Longrightarrow> heap_ok (add_job j st)"
  by (auto simp: heap_ok_def add_job_def nth_append less_Suc_eq)

lemma job_at_add_job:
  "r < length (js_heap st) \<Longrightarrow> job_at (add_job j st) r = job_at st r"
  "job_at (add_job j st) (length (js_heap st)) = j"
  by (simp_all add: add_job_def nth_append)

lemma index_ids_in_table: "index_ok st \<Longrightarrow> jid \<in> snd ` set (js_by_code st) \<Longrightarrow> jid \<in> fst ` set (js_jobs st)"
  by (force simp: index_ok_def dest: map_of_SomeD)

lemma table_ok_add_job:
  assumes "table_ok st" "j_job_id j \<notin> fst ` set (js_jobs st)"
  shows "table_ok (add_job j st)"
proof -
  have "r \<noteq> length (js_heap st)" if "r \<in> snd ` set (js_jobs st)" for r
    using assms(1) that by (auto simp: table_ok_def)
  then show ?thesis
    using assms by (auto simp: table_ok_def add_job_def update_fresh nth_append)
qed

lemma index_ok_add_job:
  assumes "table_ok st" "index_ok st" "j_job_id j \<notin> fst ` set (js_jobs st)"
  shows "index_ok (add_job j st)"
proof -
  let ?st = "add_job j st"
  have "\<exists>r. map_of (js_jobs ?st) jid = Some r \<and> j_setup_code (job_at ?st r) = code"
    if e: "(code, jid) \<in> set (js_by_code ?st)" for code jid
  proof (cases "code = j_setup_code j \<and> jid = j_job_id j")
    case True
    then have "map_of (js_jobs ?st) jid = Some (length (js_heap st))" by (simp add: add_job_def)
    with True show ?thesis using job_at_add_job(2) by force
  next
    case False
    then have old: "(code, jid) \<in> set (js_by_code st)"
      using e update_in_set assms(2) by (fastforce simp: add_job_def index_ok_def)
    with assms(2) obtain r where r: "map_of (js_jobs st) jid = Some r" "j_setup_code (job_at st r) = code"
      by (fastforce simp: index_ok_def)
    moreover have "jid \<noteq> j_job_id j" using assms(3) r(1) by (force dest: map_of_SomeD)
    moreover have "r < length (js_heap st)" using table_okD(1) assms(1) r(1) by blast
    ultimately show ?thesis by (auto simp: add_job_def nth_append)
  qed
  moreover have "distinct (map fst (js_by_code ?st))"
    using assms(2) by (simp add: index_ok_def add_job_def distinct_update)
  ultimately show ?thesis by (auto simp: index_ok_def)
qed

lemma unadd_add_job:
  assumes "j_job_id j \<notin> fst ` set (js_jobs st)"
  shows "unadd_job j (add_job j st) = st\<lparr>js_heap := js_heap st @ [j],
           js_by_code := AList.delete (j_setup_code j) (js_by_code st)\<rparr>"
  using assms by (simp add: unadd_job_def add_job_def update_fresh delete_fresh delete_update)


text \<open>The worker's view of \<open>create_job\<close>: either nothing is scheduled, and the table is the old
  or the reaped one with at most an unreachable job object more, or one fresh pending job is
  added.\<close>

lemma create_job_cases [consumes 1, case_names unchanged reaped undone added]:
  assumes "create_job params up now jid sched st = (res, spawn, st')"
  obtains "st' = st" "spawn = None"
        | "st' = reap now st" "spawn = None"
        | code name j where "new_job params jid code name now = Inr j"
            "st' = unadd_job j (add_job j (reap now st))" "spawn = None" "sched \<noteq> None"
        | code name j where "new_job params jid code name now = Inr j" "param_text params ''setupCode'' = Inr code"
            "st' = add_job j (reap now st)" "spawn = Some (length (js_heap (reap now st)))"
            "res = Inr (202, Accepted jid)" "live_duplicate code (reap now st) = None"
  using assms
  by (auto simp: create_job_def Let_def split: sum.splits if_splits option.splits)

lemma reap_ids_sub: "table_ok st \<Longrightarrow> index_ok st \<Longrightarrow> fst ` set (js_jobs (reap now st)) \<subseteq> fst ` set (js_jobs st)"
  by (auto simp: reap_eq without_ids_def)

lemma table_ok_heap_snoc: "table_ok st \<Longrightarrow> table_ok (st\<lparr>js_heap := js_heap st @ [j], js_by_code := b\<rparr>)"
  by (auto simp: table_ok_def nth_append)

lemma index_ok_delete_snoc:
  assumes "table_ok st" "index_ok st"
  shows "index_ok (st\<lparr>js_heap := js_heap st @ [j], js_by_code := AList.delete code (js_by_code st)\<rparr>)"
  using assms table_okD(1) [OF assms(1)]
  by (fastforce simp: index_ok_def distinct_delete nth_append dest: set_delete_sub)

lemma create_job_ok:
  assumes "create_job params up now jid sched st = (res, spawn, st')"
    and ok: "table_ok st" "index_ok st" and fresh: "jid \<notin> fst ` set (js_jobs st)"
  shows "table_ok st' \<and> index_ok st'"
proof -
  have rok: "table_ok (reap now st)" "index_ok (reap now st)" using ok by auto
  have rfresh: "jid \<notin> fst ` set (js_jobs (reap now st))" using fresh reap_ids_sub [OF ok] by blast
  from assms(1) show ?thesis
  proof (cases rule: create_job_cases)
    case (undone code name j)
    with rok rfresh show ?thesis
      by (simp add: unadd_add_job new_job_fields table_ok_heap_snoc index_ok_delete_snoc)
  next
    case (added code name j)
    with rok rfresh show ?thesis
      by (simp add: table_ok_add_job index_ok_add_job new_job_fields)
  qed (use ok rok in auto)
qed

text \<open>While the job a setup code is indexed to is still running, a second request for that
  code is answered 409 with the running job's id, whatever its other parameters, and changes
  nothing but the reaping of expired jobs; nothing is scheduled.\<close>

theorem create_job_duplicate:
  assumes ok: "table_ok st" "index_ok st" "heap_ok st"
    and code: "param_text params ''setupCode'' = Inr code" "is_valid_setup_code code"
    and name: "param_text params ''suggestedName'' = Inr name" "name \<noteq> []"
    and running: "map_of (js_by_code st) code = Some jid0" "map_of (js_jobs st) jid0 = Some r"
      "j_status (job_at st r) \<notin> TERMINAL"
  shows "create_job params True now jid sched st = (Inr (409, Duplicate jid0), None, reap now st)"
proof -
  have "r < length (js_heap st)" using table_okD(1) ok(1) running(2) by blast
  then have live: "\<not> expired_job now (job_at st r)"
    using ok(3) running(3) job_ok_live by (auto simp: heap_ok_def)
  then have job: "map_of (js_jobs (reap now st)) jid0 = Some r"
    using ok running by (simp add: reap_lookup)
  have "jid0 \<notin> set (expired_ids now st)"
    using expired_id_iff [OF ok(1) running(2)] live by simp
  then have "map_of (js_by_code (reap now st)) code = Some jid0"
    using ok running(1)
    by (auto simp: reap_eq without_ids_def index_ok_def intro!: map_of_is_SomeI distinct_map_filter dest: map_of_SomeD)
  with job have "live_duplicate code (reap now st) = Some jid0"
    using ok running(3) by (simp add: live_duplicate_def)
  with code name show ?thesis by (simp add: create_job_def Let_def)
qed

text \<open>When the worker cannot be scheduled (the loop is down), the request is answered 503 and
  no job of the new id and no index entry for the code is left behind, so the code is not
  locked: the next request for it is not a duplicate.\<close>

theorem create_job_unscheduled:
  assumes ok: "table_ok st" "index_ok st" and fresh: "jid \<notin> fst ` set (js_jobs st)"
    and code: "param_text params ''setupCode'' = Inr code" "is_valid_setup_code code"
    and res: "create_job params True now jid (Some reason) st = (Inr (503, body), spawn, st')"
  shows "spawn = None \<and> js_jobs st' = js_jobs (reap now st) \<and> map_of (js_by_code st') code = None
    \<and> live_duplicate code st' = None"
proof -
  have rfresh: "jid \<notin> fst ` set (js_jobs (reap now st))" using fresh reap_ids_sub [OF ok] by blast
  from res code obtain j where j: "new_job params jid code (projr (param_text params ''suggestedName'')) now = Inr j"
    and st': "st' = unadd_job j (add_job j (reap now st))" and "spawn = None"
    by (auto simp: create_job_def Let_def split: sum.splits if_splits option.splits)
  moreover have "map_of (js_by_code st') code = None"
    using rfresh new_job_fields [OF j] by (simp add: st' unadd_add_job)
  ultimately show ?thesis
    using rfresh new_job_fields [OF j] by (simp add: unadd_add_job live_duplicate_def)
qed

definition infinite_float :: "pyval \<Rightarrow> bool" where
  "infinite_float v \<longleftrightarrow> v = PFloat PosInf \<or> v = PFloat NegInf"

definition bad_text :: "pyval \<Rightarrow> bool" where
  "bad_text v \<longleftrightarrow> truthy v \<and> (\<forall>s. v \<noteq> PStr s)"

lemma param_text_error: "param_text params key = Inl e \<longleftrightarrow> e = AttributeError \<and> bad_text (dget params key)"
  by (cases "dget params key") (auto simp: param_text_def bad_text_def Let_def)

lemma new_job_error:
  "new_job params jid code name now = Inl e \<Longrightarrow> e = OverflowError \<and>
   (infinite_float (dget params ''discriminator'') \<or> infinite_float (dget params ''expectedFabricSlots''))"
  by (auto simp: new_job_def infinite_float_def dest: opt_int_overflow split: sum.splits)

text \<open>\<open>create_job\<close> raises only for a request it should have answered: an
  \<open>AttributeError\<close> for a truthy setup code or name that is not a text, an \<open>OverflowError\<close> for
  an infinite discriminator or slot count; every other request gets one of the documented
  statuses 202, 400, 409 and 503.\<close>

theorem create_job_outcomes:
  assumes "create_job params up now jid sched st = (res, spawn, st')"
  shows "case res of
      Inl e \<Rightarrow> spawn = None \<and>
        (e = AttributeError \<and> (bad_text (dget params ''setupCode'') \<or> bad_text (dget params ''suggestedName''))
         \<or> e = OverflowError \<and> (infinite_float (dget params ''discriminator'')
                              \<or> infinite_float (dget params ''expectedFabricSlots'')))
    | Inr (status, body) \<Rightarrow> status \<in> {202, 400, 409, 503} \<and> (status = 202 \<longleftrightarrow> spawn \<noteq> None)"
  using assms
  by (auto simp: create_job_def Let_def param_text_error dest: new_job_error
      split: sum.splits if_splits option.splits)

section \<open>Attribution of a late join\<close>

lemma sorted_candidates:
  "sorted (map (\<lambda>r. the (j_terminal_at (job_at st r))) (timeout_candidates cutoff st))"
  by (simp add: timeout_candidates_def)

lemma set_candidates:
  "r \<in> set (timeout_candidates (Some cutoff) st) \<longleftrightarrow>
     r \<in> snd ` set (js_jobs st) \<and> timed_out (job_at st r) \<and>
     (\<exists>t. j_terminal_at (job_at st r) = Some t \<and> cutoff \<le> t)"
  by (auto simp: timeout_candidates_def Let_def)

lemma last_filter_max:
  "sorted (map f xs) \<Longrightarrow> x \<in> set xs \<Longrightarrow> P x \<Longrightarrow> f x \<le> f (last (filter P xs))"
proof (induction xs)
  case (Cons y ys)
  show ?case
  proof (cases "filter P ys = []")
    case True
    with Cons.prems have "x = y" by (auto simp: filter_empty_conv)
    with True Cons.prems show ?thesis by simp
  next
    case False
    then have l: "last (filter P ys) \<in> set ys" by (metis filter_is_subset last_in_set subsetD)
    show ?thesis
    proof (cases "x \<in> set ys")
      case True
      with Cons False show ?thesis by simp
    next
      case False
      with Cons.prems have "x = y" by simp
      with Cons.prems l \<open>filter P ys \<noteq> []\<close> show ?thesis by simp
    qed
  qed
qed simp

lemma last_filter: "filter P xs \<noteq> [] \<Longrightarrow> last (filter P xs) \<in> set xs \<and> P (last (filter P xs))"
  using last_in_set [of "filter P xs"] by simp

lemma length_remdups_1: "length (remdups ys) = 1 \<longleftrightarrow> (\<exists>c. set ys = {c})"
  by (metis One_nat_def card_1_singleton_iff length_remdups_card_conv)

text \<open>Who may claim: a candidate already identified with this node, or, if there is none, an
  unidentified candidate when all unidentified candidates wait for one setup code.\<close>

definition may_claim :: "jobs_state \<Rightarrow> node_id \<Rightarrow> jref list \<Rightarrow> jref \<Rightarrow> bool" where
  "may_claim st nid cands r \<longleftrightarrow> r \<in> set cands \<and>
     (if \<exists>c \<in> set cands. holds_node st nid c then holds_node st nid r
      else unidentified st r \<and>
           (\<forall>c \<in> set cands. unidentified st c \<longrightarrow> j_setup_code (job_at st c) = j_setup_code (job_at st r)))"

lemma may_claim_codes:
  assumes "may_claim st nid C r" "\<not> (\<exists>c \<in> set C. holds_node st nid c)"
  shows "set (map (\<lambda>r. j_setup_code (job_at st r)) (filter (unidentified st) C)) = {j_setup_code (job_at st r)}"
proof -
  have r: "r \<in> set C" "unidentified st r" using assms by (auto simp: may_claim_def)
  have all: "j_setup_code (job_at st c) = j_setup_code (job_at st r)" if "c \<in> set C" "unidentified st c" for c
    using assms that unfolding may_claim_def by metis
  show ?thesis
  proof
    show "set (map (\<lambda>r. j_setup_code (job_at st r)) (filter (unidentified st) C)) \<subseteq> {j_setup_code (job_at st r)}"
    proof
      fix x assume "x \<in> set (map (\<lambda>r. j_setup_code (job_at st r)) (filter (unidentified st) C))"
      then obtain c where "c \<in> set C" "unidentified st c" "x = j_setup_code (job_at st c)" by auto
      with all [of c] show "x \<in> {j_setup_code (job_at st r)}" by simp
    qed
  qed (use r in simp)
qed

lemma claimable_Some:
  assumes "claimable nid cutoff st = (Some r, cands, b)"
  shows "r \<in> set (timeout_candidates (Some cutoff) st)" "node_key nid \<notin> js_removing st"
  using assms last_filter [of _ "timeout_candidates (Some cutoff) st"]
  by (auto simp: claimable_def Let_def split: if_splits)

text \<open>A node that joins is claimed by a job exactly when its own removal is not in flight and
  some candidate may claim it (a candidate already named with this node, else the retries of
  one setup code when no other code is waiting unidentified), and the claim goes to the most
  recently timed-out of those; a job known to wait for a different node never claims it.\<close>

theorem claimable_spec:
  "(fst (claimable nid cutoff st) \<noteq> None \<longleftrightarrow>
      node_key nid \<notin> js_removing st \<and> (\<exists>r. may_claim st nid (timeout_candidates (Some cutoff) st) r))
   \<and> (\<forall>r. fst (claimable nid cutoff st) = Some r \<longrightarrow>
        may_claim st nid (timeout_candidates (Some cutoff) st) r \<and>
        (\<forall>r'. may_claim st nid (timeout_candidates (Some cutoff) st) r' \<longrightarrow>
              the (j_terminal_at (job_at st r')) \<le> the (j_terminal_at (job_at st r))) \<and>
        (\<forall>n. j_node_id (job_at st r) = Some n \<longrightarrow> same_node n nid))"
proof -
  let ?C = "timeout_candidates (Some cutoff) st"
  let ?ex = "filter (holds_node st nid) ?C" and ?un = "filter (unidentified st) ?C"
  let ?codes = "map (\<lambda>r. j_setup_code (job_at st r)) ?un"
  have nid: "same_node n nid" if "holds_node st nid r" "j_node_id (job_at st r) = Some n" for r n
    using that by (simp add: holds_node_def)
  have un: "j_node_id (job_at st r) = None" if "unidentified st r" for r
    using that by (simp add: unidentified_def)
  show ?thesis
  proof (cases "node_key nid \<in> js_removing st")
    case True
    then show ?thesis by (simp add: claimable_def Let_def)
  next
    case False
    have claims: ?thesis
      if "fst (claimable nid cutoff st) = Some r0" and "may_claim st nid ?C r0"
        and "\<And>r'. may_claim st nid ?C r' \<Longrightarrow>
               the (j_terminal_at (job_at st r')) \<le> the (j_terminal_at (job_at st r0))"
        and "\<And>n. j_node_id (job_at st r0) = Some n \<Longrightarrow> same_node n nid" for r0
      using that False by auto
    show ?thesis
    proof (cases "?ex = []")
      case nex: False
      then have c: "fst (claimable nid cutoff st) = Some (last ?ex)"
        using False by (auto simp: claimable_def Let_def)
      have e: "\<exists>c \<in> set ?C. holds_node st nid c" using nex by (auto simp: filter_empty_conv)
      then have m: "may_claim st nid ?C r \<longleftrightarrow> r \<in> set ?C \<and> holds_node st nid r" for r
        by (simp add: may_claim_def)
      show ?thesis
        by (rule claims [OF c]) (use last_filter [OF nex] last_filter_max [OF sorted_candidates] nid m in blast)+
    next
      case ex: True
      then have ne: "\<not> (\<exists>c \<in> set ?C. holds_node st nid c)" by (auto simp: filter_empty_conv)
      show ?thesis
      proof (cases "\<exists>code. set ?codes = {code}")
        case True
        then obtain code where code: "set ?codes = {code}" by blast
        then have nun: "?un \<noteq> []" by (metis insert_not_empty list.simps(8) set_empty)
        have "length (remdups ?codes) = 1" using True by (simp only: length_remdups_1)
        then have c: "fst (claimable nid cutoff st) = Some (last ?un)"
          using False ex nun by (auto simp: claimable_def Let_def)
        have codes: "j_setup_code (job_at st r) = code" if "r \<in> set ?C" "unidentified st r" for r
          using code that by auto
        then have m: "may_claim st nid ?C r \<longleftrightarrow> r \<in> set ?C \<and> unidentified st r" for r
          using ne by (auto simp: may_claim_def)
        have "unidentified st (last ?un)" using last_filter [OF nun] by simp
        then have no: "j_node_id (job_at st (last ?un)) = None" by (rule un)
        show ?thesis
        proof (rule claims [OF c])
          show "may_claim st nid ?C (last ?un)" using last_filter [OF nun] m by blast
          show "the (j_terminal_at (job_at st r')) \<le> the (j_terminal_at (job_at st (last ?un)))"
            if "may_claim st nid ?C r'" for r'
            using that m last_filter_max [OF sorted_candidates] by blast
          show "same_node n nid" if "j_node_id (job_at st (last ?un)) = Some n" for n
            using that no by simp
        qed
      next
        case nocode: False
        then have "length (remdups ?codes) \<noteq> 1" by (simp only: length_remdups_1) simp
        then have c: "fst (claimable nid cutoff st) = None"
          using False ex by (simp add: claimable_def Let_def)
        have "\<not> may_claim st nid ?C r" for r
        proof
          assume m: "may_claim st nid ?C r"
          then have "set ?codes = {j_setup_code (job_at st r)}" using may_claim_codes ne by blast
          with nocode show False by blast
        qed
        with c show ?thesis by simp
      qed
    qed
  qed
qed

lemma reconcile_unscheduled:
  "fst (snd (reconcile_node_added raw now False st)) = st \<and> fst (reconcile_node_added raw now False st) = None"
proof (cases raw)
  case None
  then show ?thesis by (simp add: reconcile_node_added_def)
next
  case (Some nid)
  obtain ro cands b where c: "claimable nid (now - RECONCILE_WINDOW) st = (ro, cands, b)"
    by (metis prod_cases3)
  show ?thesis
  proof (cases ro)
    case None
    with Some c show ?thesis by (simp add: reconcile_node_added_def)
  next
    case (Some r)
    then have "r \<in> set (timeout_candidates (Some (now - RECONCILE_WINDOW)) st)"
      using claimable_Some(1) Some c by blast
    then have f: "j_status (job_at st r) = FAILED" by (auto simp: set_candidates timed_out_def)
    have "put_job r (restore_job (job_at st r) (job_at (put_job r (claim_job nid (job_at st r)) st) r))
            (put_job r (claim_job nid (job_at st r)) st) = st"
    proof (cases "r < length (js_heap st)")
      case True
      then have "restore_job (job_at st r) (claim_job nid (job_at st r)) = job_at st r"
        using f by (simp add: restore_job_def claim_job_def)
      with True show ?thesis by simp
    next
      case False
      then show ?thesis by (simp add: put_job_def list_update_beyond)
    qed
    with \<open>raw = Some nid\<close> Some c show ?thesis by (simp add: reconcile_node_added_def Let_def)
  qed
qed

text \<open>When the reconcile of a claimed job cannot be scheduled, the job is put back exactly as
  it was: the whole state equals the one before the event, and no job is reported as claimed.\<close>

theorem reconcile_unscheduled_restores:
  "reconcile_node_added raw now False st = (None, st, snd (snd (reconcile_node_added raw now False st)))"
  using reconcile_unscheduled [of raw now st] by (cases "reconcile_node_added raw now False st") simp

text \<open>A claim rewrites one timed-out job of the table, and nothing else.\<close>

lemma reconcile_claims:
  assumes "reconcile_node_added raw now sched st = (Some r, st', logs)"
  shows "sched \<and> (\<exists>nid. raw = Some nid \<and> st' = put_job r (claim_job nid (job_at st r)) st
      \<and> r \<in> set (timeout_candidates (Some (now - RECONCILE_WINDOW)) st)
      \<and> node_key nid \<notin> js_removing st)"
proof -
  from assms obtain nid cands b where raw: "raw = Some nid" and "sched"
    and c: "claimable nid (now - RECONCILE_WINDOW) st = (Some r, cands, b)"
    and st': "st' = put_job r (claim_job nid (job_at st r)) st"
    by (auto simp: reconcile_node_added_def Let_def split: option.splits prod.splits if_splits)
  then show ?thesis using claimable_Some [OF c] by simp
qed

lemma reconcile_no_claim:
  assumes "reconcile_node_added raw now sched st = (None, st', logs)"
  shows "st' = st"
proof (cases sched)
  case True
  with assms show ?thesis
    by (auto simp: reconcile_node_added_def Let_def split: option.splits prod.splits if_splits)
next
  case False
  with assms show ?thesis using reconcile_unscheduled [of raw now st] by simp
qed

section \<open>Late answers\<close>

lemma note_late_error_frame:
  assumes "note_late_error r code details st = Inr (st', logs)"
  shows "st' = st \<or> timed_out (job_at st r) \<and>
    (\<exists>e. st' = put_job r ((job_at st r)\<lparr>j_error := Some e\<rparr>) st \<and> je_code e = ''commissioning_failed'')"
  using assms by (auto simp: note_late_error_def Let_def split: if_splits sum.splits)

lemma note_late_success_frame:
  assumes "note_late_success r result st = (st', logs)"
  shows "st' = st \<or> j_node_id (job_at st r) = None \<and>
    (\<exists>nid. result_node_id result = Some nid \<and> st' = put_job r ((job_at st r)\<lparr>j_node_id := Some nid\<rparr>) st)"
  using assms by (auto simp: note_late_success_def Let_def split: option.splits if_splits)

lemma note_late_cases [consumes 1, case_names unchanged error success]:
  assumes "note_late_response context answer st = Inr (res, st', logs)"
  obtains "st' = st"
        | jid r e where "map_of (js_jobs st) jid = Some r" "timed_out (job_at st r)"
            "st' = put_job r ((job_at st r)\<lparr>j_error := Some e\<rparr>) st" "je_code e = ''commissioning_failed''"
        | jid r nid where "map_of (js_jobs st) jid = Some r" "j_node_id (job_at st r) = None"
            "st' = put_job r ((job_at st r)\<lparr>j_node_id := Some nid\<rparr>) st"
proof (cases "context")
  case None
  with assms that(1) show thesis by (simp add: note_late_response_def)
next
  case ctx: (Some jid)
  show thesis
  proof (cases "map_of (js_jobs st) jid")
    case None
    with ctx assms that(1) show thesis by (simp add: note_late_response_def)
  next
    case r: (Some r)
    show thesis
    proof (cases answer)
      case (Inl cd)
      obtain code details where cd: "cd = (code, details)" by (cases cd)
      with ctx r Inl assms have "note_late_error r code details st = Inr (st', logs)"
        by (simp add: note_late_response_def split: sum.splits prod.splits)
      from note_late_error_frame [OF this] show thesis using that(1,2) r by blast
    next
      case (Inr result)
      with ctx r assms have "note_late_success r result st = (st', logs)"
        by (simp add: note_late_response_def split: prod.splits)
      from note_late_success_frame [OF this] show thesis using that(1,3) r by blast
    qed
  qed
qed

text \<open>A late answer of matter-server never changes any job's status, terminal time, result or
  progress and never replaces a recorded node id; what it changes is at most one tracked job,
  either the reason of a commissioning timeout or the node id of a job that had none.\<close>

theorem note_late_response_frame:
  assumes "note_late_response context answer st = Inr (res, st', logs)" and "r < length (js_heap st)"
  shows "j_status (job_at st' r) = j_status (job_at st r)
       \<and> j_terminal_at (job_at st' r) = j_terminal_at (job_at st r)
       \<and> j_result (job_at st' r) = j_result (job_at st r)
       \<and> j_progress (job_at st' r) = j_progress (job_at st r)
       \<and> (j_node_id (job_at st r) \<noteq> None \<longrightarrow> j_node_id (job_at st' r) = j_node_id (job_at st r))
       \<and> (j_error (job_at st' r) \<noteq> j_error (job_at st r) \<longrightarrow> timed_out (job_at st r))
       \<and> js_jobs st' = js_jobs st \<and> js_by_code st' = js_by_code st"
  using assms(1) by (cases rule: note_late_cases) (use assms(2) in auto)

section \<open>Setup codes and the order of the statuses\<close>

text \<open>A setup code is accepted exactly if it is a QR payload with something after its prefix or
  eleven or twenty-one digits in the sense of \<open>str.isdigit\<close>; that sense includes characters
  that are no decimal digits, so a code of superscripts, which \<open>int\<close> refuses, is accepted.\<close>

theorem setup_code_accepted:
  "(is_valid_setup_code code \<longleftrightarrow>
      (\<exists>rest. code = ''MT:'' @ rest \<and> rest \<noteq> [])
      \<or> (length code = 11 \<or> length code = 21) \<and> (\<forall>c \<in> set code. is_digit_char c))
   \<and> is_valid_setup_code (replicate 11 (char_of (178::nat)))
   \<and> int_of_text (replicate 11 (char_of (178::nat))) = None"
proof (intro conjI)
  show "is_valid_setup_code code \<longleftrightarrow> (\<exists>rest. code = ''MT:'' @ rest \<and> rest \<noteq> [])
      \<or> (length code = 11 \<or> length code = 21) \<and> (\<forall>c \<in> set code. is_digit_char c)"
  proof (cases "prefix ''MT:'' code")
    case True
    then obtain rest where rest: "code = ''MT:'' @ rest" by (auto simp: prefix_def)
    have "\<not> is_digit_char (CHR ''M'')" by code_simp
    then show ?thesis by (cases rest) (simp_all add: rest is_valid_setup_code_def)
  next
    case False
    then have no: "(\<exists>rest. code = ''MT:'' @ rest \<and> rest \<noteq> []) = False" by (auto simp: prefix_def)
    show ?thesis
    proof (cases "code = []")
      case True
      then show ?thesis by (simp add: is_valid_setup_code_def)
    next
      case nonempty: False
      show ?thesis unfolding no using False nonempty
        by (auto simp only: is_valid_setup_code_def str_isdigit_def list_all_iff if_False)
    qed
  qed
qed code_simp+

lemma setup_code_accepted_witness: "is_valid_setup_code (''MT:'' @ ''Y.K9042C00KA0648G00'')"
  using setup_code_accepted [of "''MT:'' @ ''Y.K9042C00KA0648G00''"] by blast

text \<open>The order in which a job passes through its statuses; a failure comes last.\<close>

fun status_rank :: "job_status \<Rightarrow> nat" where
  "status_rank PENDING = 0"
| "status_rank COMMISSIONING = 1"
| "status_rank READING_DESCRIPTORS = 2"
| "status_rank CREATING_DEVICES = 3"
| "status_rank SUCCESS = 4"
| "status_rank FAILED = 5"

lemma status_rank_inj: "status_rank a = status_rank b \<longleftrightarrow> a = b"
  by (cases a; cases b) simp_all

instantiation job_status :: linorder
begin

definition less_eq_job_status :: "job_status \<Rightarrow> job_status \<Rightarrow> bool" where
  "less_eq_job_status a b = (status_rank a \<le> status_rank b)"

definition less_job_status :: "job_status \<Rightarrow> job_status \<Rightarrow> bool" where
  "less_job_status a b = (status_rank a < status_rank b)"

instance
  by standard (auto simp: less_eq_job_status_def less_job_status_def status_rank_inj)

end

lemma terminal_last: "s \<in> TERMINAL \<longleftrightarrow> SUCCESS \<le> s"
  by (cases s) (simp_all add: TERMINAL_def less_eq_job_status_def)

section \<open>The properties on concrete tables\<close>

definition demo_params :: pydict where
  "demo_params = [(''setupCode'', PStr ''34970112332''), (''suggestedName'', PStr ''Lamp'')]"

text \<open>A table with one fresh job, and the same job after it timed out at time 0.\<close>

definition demo_jobs :: jobs_state where
  "demo_jobs = snd (snd (create_job demo_params True 0 ''j1'' None jobs_init))"

definition demo_timed_out :: jobs_state where
  "demo_timed_out = put_job 0 ((job_at demo_jobs 0)\<lparr>j_status := FAILED, j_terminal_at := Some 0,
     j_error := Some \<lparr>je_code = ''commissioning_timeout'', je_message = TimeoutMessage, je_matter = None\<rparr>\<rparr>) demo_jobs"

lemma demo_jobs_ok: "table_ok demo_jobs \<and> index_ok demo_jobs" "heap_ok demo_jobs"
proof -
  have "jid \<notin> fst ` set (js_jobs jobs_init)" for jid by (simp add: jobs_init_def)
  then show "table_ok demo_jobs \<and> index_ok demo_jobs"
    unfolding demo_jobs_def using create_job_ok [of demo_params True 0 "''j1''" None jobs_init] by (metis prod.collapse table_ok_init index_ok_init)
  have "js_heap demo_jobs = [job_at demo_jobs 0]" by code_simp
  moreover have "job_ok (job_at demo_jobs 0)" by code_simp
  ultimately show "heap_ok demo_jobs" by (metis One_nat_def heap_ok_def length_Cons less_one list.size(3))
qed

lemma demo_timed_out_ok: "table_ok demo_timed_out \<and> index_ok demo_timed_out"
proof -
  have "0 < length (js_heap demo_jobs)" by code_simp
  then have "same_table demo_jobs demo_timed_out" unfolding demo_timed_out_def by (intro same_table_put_job) simp_all
  with demo_jobs_ok(1) same_table_ok same_table_index_ok show ?thesis by blast
qed

lemma reap_exact_witness: "map_of (js_jobs (reap 1000000000 demo_timed_out)) ''j1'' \<noteq> Some 0"
proof -
  have "expired_job 1000000000 (job_at demo_timed_out 0)" by code_simp
  then show ?thesis using reap_exact [of demo_timed_out 1000000000 "''j1''" 0] demo_timed_out_ok by blast
qed

lemma create_job_duplicate_witness:
  "fst (create_job demo_params True 5 ''j2'' None demo_jobs) = Inr (409, Duplicate ''j1'')"
proof -
  have "param_text demo_params ''setupCode'' = Inr ''34970112332''" "is_valid_setup_code ''34970112332''"
    "param_text demo_params ''suggestedName'' = Inr ''Lamp''" "''Lamp'' \<noteq> []"
    "map_of (js_by_code demo_jobs) ''34970112332'' = Some ''j1''" "map_of (js_jobs demo_jobs) ''j1'' = Some 0"
    "j_status (job_at demo_jobs 0) \<notin> TERMINAL" by code_simp+
  then show ?thesis
    using create_job_duplicate [of demo_jobs demo_params "''34970112332''" "''Lamp''" "''j1''" 0 5 "''j2''" None]
      demo_jobs_ok by simp
qed

lemma create_job_unscheduled_witness:
  "live_duplicate ''34970112332'' (snd (snd (create_job demo_params True 0 ''j1'' (Some ''loop is down'') jobs_init))) = None"
proof -
  let ?c = "create_job demo_params True 0 ''j1'' (Some ''loop is down'') jobs_init"
  have code: "param_text demo_params ''setupCode'' = Inr ''34970112332''" "is_valid_setup_code ''34970112332''" by code_simp+
  have "fst ?c = Inr (503, Unscheduled ''loop is down'')" by code_simp
  then have "?c = (Inr (503, Unscheduled ''loop is down''), fst (snd ?c), snd (snd ?c))" by (metis prod.collapse)
  moreover have "''j1'' \<notin> fst ` set (js_jobs jobs_init)" by (simp add: jobs_init_def)
  ultimately show ?thesis using create_job_unscheduled [OF table_ok_init index_ok_init _ code] by blast
qed

lemma create_job_outcomes_witness:
  "case fst (create_job [(''setupCode'', PInt 5)] True 0 ''j1'' None jobs_init) of
      Inl e \<Rightarrow> e = AttributeError \<or> e = OverflowError
    | Inr (status, body) \<Rightarrow> status \<in> {202, 400, 409, 503}"
  using create_job_outcomes [of "[(''setupCode'', PInt 5)]" True 0 "''j1''" None jobs_init]
  by (cases "create_job [(''setupCode'', PInt 5)] True 0 ''j1'' None jobs_init") (auto split: sum.splits)

lemma claimable_spec_witness: "may_claim demo_timed_out (NInt 9) (timeout_candidates (Some 0) demo_timed_out) 0"
proof -
  have "fst (claimable (NInt 9) 0 demo_timed_out) = Some 0" by code_simp
  then show ?thesis using claimable_spec [of "NInt 9" 0 demo_timed_out] by blast
qed

lemma note_late_response_frame_witness:
  "j_status (job_at (fst (snd (projr (note_late_response (Some ''j1'') (Inl (PInt 1, ''late'')) demo_timed_out)))) 0) = FAILED"
proof -
  let ?n = "note_late_response (Some ''j1'') (Inl (PInt 1, ''late'')) demo_timed_out"
  have "\<not> isl ?n" by code_simp
  then have n: "?n = Inr (fst (projr ?n), fst (snd (projr ?n)), snd (snd (projr ?n)))" by (cases ?n) simp_all
  have "0 < length (js_heap demo_timed_out)" by code_simp
  moreover have "j_status (job_at demo_timed_out 0) = FAILED" by code_simp
  ultimately show ?thesis using note_late_response_frame [OF n] by simp
qed

end
