(* ===== verification/WsLoop.thy ===== *)
theory WsLoop
  imports WsClient CommissionFacts
begin

text \<open>
  What the run loop of \<open>ws_json_client.py\<close> does over time, on the transition system of
  \<open>WsClient\<close>: when it may end, what a halt and a \<open>close()\<close> mean, when the supervisor is
  told of a drop or of repeated failures, and how the answer to a request that timed out finds
  its way to the commissioning jobs.
\<close>

section \<open>Runs\<close>

text \<open>A sequence of events, with everything they do to the outside.\<close>

fun ws_exec :: "hooks \<Rightarrow> ws_config \<Rightarrow> ws_event list \<Rightarrow> ws \<Rightarrow> (ws \<times> ws_eff list) option" where
  "ws_exec hk cf [] w = Some (w, [])"
| "ws_exec hk cf (ev # evs) w = (case ws_next hk cf ev w of
     None \<Rightarrow> None
   | Some (w1, effs) \<Rightarrow> map_option (\<lambda>(w2, effs'). (w2, effs @ effs')) (ws_exec hk cf evs w1))"

lemma ws_exec_Cons:
  assumes "ws_exec hk cf (ev # evs) w = Some (w', effs)"
  obtains w1 e1 e2 where "ws_next hk cf ev w = Some (w1, e1)" "ws_exec hk cf evs w1 = Some (w', e2)" "effs = e1 @ e2"
  using assms by (auto split: option.splits)

lemma ws_exec_reach: "ws_exec hk cf evs w = Some (w', effs) \<Longrightarrow> ws_reach hk cf w \<Longrightarrow> ws_reach hk cf w'"
proof (induction evs arbitrary: w effs)
  case (Cons ev evs)
  from Cons.prems(1) obtain w1 e1 e2 where "ws_next hk cf ev w = Some (w1, e1)" "ws_exec hk cf evs w1 = Some (w', e2)"
    by (rule ws_exec_Cons)
  with Cons.IH Cons.prems(2) ws_step show ?case by blast
qed simp

lemma ws_exec_reachable: "ws_exec hk cf evs ws_init = Some (w, effs) \<Longrightarrow> ws_reach hk cf w"
  using ws_exec_reach ws_start by blast

section \<open>When the loop ends\<close>

fun is_reraise :: "phase \<Rightarrow> bool" where
  "is_reraise (TearingDown a ex) = (ex = Reraise)"
| "is_reraise _ = False"

text \<open>The task is being cancelled; the injected sleep raises.\<close>

fun task_cancelled :: "ws_event \<Rightarrow> bool" where
  "task_cancelled (EvFails failure seam) = (failure = FCancelled)"
| "task_cancelled EvTearDownCancelled = True"
| "task_cancelled (EvBackoffOver WaitCancelledB) = True"
| "task_cancelled _ = False"

fun sleep_raised :: "ws_event \<Rightarrow> bool" where
  "sleep_raised (EvBackoffOver (SleepRaised woken)) = True"
| "sleep_raised _ = False"

lemma leave_stops:
  assumes "ws_running u" "\<not> ws_running (fst (leave_try cf a ex u))"
  shows "ex = Reraise \<or> ws_closing u \<or> ex = HaltedHere \<or> ws_halted u"
  using assms by (auto simp: leave_try_def finish_iteration_def mark_disconnected_def split: if_splits)

lemma leave_keeps:
  "ws_closing (fst (leave_try cf a ex u)) = ws_closing u" "ws_halted (fst (leave_try cf a ex u)) = ws_halted u"
  "ws_closing (fst (finish_iteration cf a ex u)) = ws_closing u" "ws_halted (fst (finish_iteration cf a ex u)) = ws_halted u"
  by (auto simp: leave_try_def finish_iteration_def mark_disconnected_def stop_run_def)

lemma loop_stops:
  assumes "loop_ok w" "ws_next hk cf ev w = Some (w', effs)" "ws_running w" "\<not> ws_running w'"
  shows "ws_closing w' \<or> ws_halted w' \<or> task_cancelled ev \<or> sleep_raised ev \<or> is_reraise (ws_phase w)"
proof (cases "is_loop_event ev")
  case False
  with step_quiet [OF assms(2)] assms(3,4) show ?thesis by (simp add: quiet_def same_loop_def)
next
  case True
  show ?thesis
  proof (cases "ev")
    case (EvFails failure seam)
    obtain a where a: "attempt_in (ws_phase w) = Some a"
      using assms EvFails by (auto simp: ws_next_def split: option.splits)
    obtain ex u e1 where u: "on_failure cf a failure seam w = (ex, u, e1)" by (cases "on_failure cf a failure seam w")
    have w': "w' = fst (leave_try cf a ex u)" using assms(2) EvFails a u by (auto simp: ws_next_def split: prod.splits)
    with leave_stops [of u cf a ex] leave_keeps [of cf a ex u] assms(3,4) on_failure_fields [OF u] EvFails
    show ?thesis by auto
  next
    case EvListenEnds
    with assms(2) have "w' = fst (leave_try cf 0 GoOn w)" by (auto simp: ws_next_def split: phase.splits)
    with leave_stops [of w cf 0 GoOn] leave_keeps [of cf 0 GoOn w] assms(3,4) show ?thesis by auto
  next
    case EvTornDown
    then obtain a ex where p: "ws_phase w = TearingDown a ex" "w' = fst (finish_iteration cf a ex w)"
      using assms(2) by (auto simp: ws_next_def split: phase.splits)
    with assms(1,3,4) show ?thesis
      by (auto simp: finish_iteration_def mark_disconnected_def loop_ok_def stop_run_def split: if_splits)
  next
    case (EvBackoffOver how)
    with assms(2-4) show ?thesis
      by (cases how) (auto simp: ws_next_def backoff_over_def loop_head_def stop_run_def rearm_failure_diagnostic_def
          split: phase.splits if_splits)
  qed (use assms(2-4) True in \<open>auto simp: ws_next_def loop_head_def retry_now_def resume_client_def
      rearm_failure_diagnostic_def connection_made_def mark_connected_def mark_disconnected_def
      split: phase.splits if_splits\<close>)
qed

text \<open>A connection is torn down for a cancellation only after one.\<close>

lemma reraise_step:
  assumes "ws_next hk cf ev w = Some (w', effs)" "is_reraise (ws_phase w')"
  shows "is_reraise (ws_phase w) \<or> task_cancelled ev"
proof (cases "is_loop_event ev")
  case False
  with step_quiet [OF assms(1)] assms(2) show ?thesis by (simp add: quiet_def same_loop_def)
next
  case True
  show ?thesis
  proof (cases "ev")
    case (EvFails failure seam)
    obtain a where a: "attempt_in (ws_phase w) = Some a"
      using assms(1) EvFails by (auto simp: ws_next_def split: option.splits)
    obtain ex u e1 where u: "on_failure cf a failure seam w = (ex, u, e1)" by (cases "on_failure cf a failure seam w")
    have w': "w' = fst (leave_try cf a ex u)" using assms(1) EvFails a u by (auto simp: ws_next_def split: prod.splits)
    with assms(2) have "ex = Reraise"
      by (auto simp: leave_try_def finish_iteration_def mark_disconnected_def stop_run_def split: if_splits)
    then show ?thesis using on_failure_fields [OF u] EvFails by simp
  next
    case (EvBackoffOver how)
    with assms show ?thesis
      by (cases how) (auto simp: ws_next_def backoff_over_def loop_head_def stop_run_def rearm_failure_diagnostic_def
          split: phase.splits if_splits)
  qed (use assms True in \<open>auto simp: ws_next_def leave_try_def finish_iteration_def stop_run_def loop_head_def retry_now_def resume_client_def
      rearm_failure_diagnostic_def connection_made_def mark_connected_def mark_disconnected_def
      split: phase.splits if_splits\<close>)
qed

lemma reraise_exec:
  "ws_exec hk cf evs u = Some (w, effs) \<Longrightarrow> is_reraise (ws_phase w) \<Longrightarrow> is_reraise (ws_phase u) \<or> (\<exists>e \<in> set evs. task_cancelled e)"
proof (induction evs arbitrary: u effs)
  case (Cons ev evs)
  from Cons.prems(1) obtain w1 e1 e2 where "ws_next hk cf ev u = Some (w1, e1)" "ws_exec hk cf evs w1 = Some (w, e2)"
    by (rule ws_exec_Cons)
  with Cons.IH [of w1 e2] Cons.prems(2) reraise_step [of hk cf ev u w1 e1] show ?case by auto
qed simp

text \<open>C17: the reconnect loop outlives every failure of the connection: a refused connect, a handshake
  that fails or times out, a broken socket, an exception nobody expected. Over any run from a state in
  which no cancelled connection is being torn down, it ends only when the client is being closed, is
  halted by a terminal refusal, or its task was cancelled during the run, or when the sleep the client was
  given raises while it waits to retry.\<close>

theorem loop_survives_failures:
  assumes "ws_reach hk cf u" "\<not> is_reraise (ws_phase u)" "ws_exec hk cf evs u = Some (w, before)"
    and "ws_next hk cf ev w = Some (w', effs)" "ws_running w" "\<not> ws_running w'"
  shows "ws_closing w' \<or> ws_halted w' \<or> sleep_raised ev \<or> (\<exists>e \<in> set (evs @ [ev]). task_cancelled e)"
  using loop_stops [OF loop_ok_reach [OF ws_exec_reach [OF assms(3,1)]] assms(4-6)] reraise_exec [OF assms(3)] assms(2) by auto

text \<open>A client with every optional callback.\<close>

definition no_repr :: "pyval \<Rightarrow> string" where
  "no_repr v = []"

definition full_config :: ws_config where
  "full_config = \<lparr>cf_on_connect = True, cf_on_disconnect = True, cf_on_repeated = True, cf_on_late = True\<rparr>"

lemma loop_survives_failures_witness:
  "\<exists>w before w' effs. ws_exec (bridge_hooks no_repr) full_config [EvRun, EvConnected, EvHello, EvFails (FHalted ''version'') None] ws_init
       = Some (w, before) \<and> ws_running w \<and> \<not> ws_running w'
     \<and> ws_next (bridge_hooks no_repr) full_config EvTornDown w = Some (w', effs) \<and> (ws_closing w' \<or> ws_halted w')"
proof -
  let ?evs = "[EvRun, EvConnected, EvHello, EvFails (FHalted ''version'') None]"
  have "\<exists>w effs. ws_exec (bridge_hooks no_repr) full_config ?evs ws_init = Some (w, effs)
      \<and> ws_running w \<and> ws_phase w = TearingDown 0 HaltedHere"
    by (simp add: ws_next_def ws_init_def loop_head_def on_failure_def leave_try_def)
  then obtain w effs where w: "ws_exec (bridge_hooks no_repr) full_config ?evs ws_init = Some (w, effs)"
      "ws_running w" "ws_phase w = TearingDown 0 HaltedHere" by blast
  have start: "ws_reach (bridge_hooks no_repr) full_config ws_init" "\<not> is_reraise (ws_phase ws_init)"
    by (rule ws_start) (simp add: ws_init_def)
  obtain w' effs' where s: "ws_next (bridge_hooks no_repr) full_config EvTornDown w = Some (w', effs')" "\<not> ws_running w'"
    using w by (auto simp: ws_next_def finish_iteration_def mark_disconnected_def stop_run_def)
  from loop_survives_failures [OF start w(1) s(1) w(2) s(2)] have "ws_closing w' \<or> ws_halted w'" by simp
  with w s show ?thesis by blast
qed

section \<open>A halt is latched\<close>

lemma halt_step:
  assumes "loop_ok w" "ws_next hk cf ev w = Some (w', effs)" "ws_halted w" "ev \<noteq> EvResumeClient"
  shows "ws_halted w'"
proof (cases "is_loop_event ev")
  case False
  with step_quiet [OF assms(2)] assms(3) show ?thesis by (simp add: quiet_def same_loop_def)
next
  case True
  show ?thesis
  proof (cases "ev")
    case (EvFails failure seam)
    obtain a where a: "attempt_in (ws_phase w) = Some a"
      using assms EvFails by (auto simp: ws_next_def split: option.splits)
    obtain ex u e1 where u: "on_failure cf a failure seam w = (ex, u, e1)" by (cases "on_failure cf a failure seam w")
    have w': "w' = fst (leave_try cf a ex u)" using assms(2) EvFails a u by (auto simp: ws_next_def split: prod.splits)
    with leave_keeps on_failure_fields [OF u] assms(3) show ?thesis by auto
  next
    case EvListenEnds
    with assms(2) have "w' = fst (leave_try cf 0 GoOn w)" by (auto simp: ws_next_def split: phase.splits)
    with leave_keeps assms(3) show ?thesis by auto
  next
    case EvTornDown
    then obtain a ex where "finish_iteration cf a ex w = (w', effs)"
      using assms(2) by (auto simp: ws_next_def split: phase.splits)
    with leave_keeps(4) [of cf a ex w] assms(3) show ?thesis by simp
  next
    case (EvBackoffOver how)
    with assms(2,3) show ?thesis
      by (cases how) (auto simp: ws_next_def backoff_over_def loop_head_def stop_run_def rearm_failure_diagnostic_def
          split: phase.splits if_splits)
  qed (use assms(2-4) True in \<open>auto simp: ws_next_def loop_head_def retry_now_def stop_run_def
      rearm_failure_diagnostic_def connection_made_def mark_connected_def mark_disconnected_def
      split: phase.splits if_splits\<close>)
qed

text \<open>A terminal refusal fails closed: nothing but \<open>resume()\<close> lifts a halt, a halted client never
  waits to reconnect, and a poke is declined without any effect.\<close>

theorem halted_fails_closed:
  assumes "ws_reach hk cf w" "ws_halted w" "ws_next hk cf ev w = Some (w', effs)"
  shows "(ws_halted w' \<or> ev = EvResumeClient \<and> \<not> ws_running w) \<and> \<not> is_backing_off (ws_phase w)
    \<and> (\<forall>closed. ws_next hk cf (EvRetryNow closed) w = Some (w, [RetryAnswer False]))"
proof -
  have ok: "loop_ok w" by (rule loop_ok_reach [OF assms(1)])
  have "ws_halted w' \<or> ev = EvResumeClient \<and> \<not> ws_running w"
    using halt_step [OF ok assms(3,2)] assms(2,3)
    by (cases "ev = EvResumeClient") (auto simp: ws_next_def resume_client_def split: if_splits)
  with ok assms(2) show ?thesis by (auto simp: loop_ok_def ws_next_def retry_now_def)
qed

lemma halted_fails_closed_witness:
  "\<exists>w w' effs. ws_reach (bridge_hooks no_repr) full_config w
     \<and> ws_next (bridge_hooks no_repr) full_config EvTornDown w = Some (w', effs)
     \<and> ws_halted w \<and> (ws_halted w' \<or> EvTornDown = EvResumeClient \<and> \<not> ws_running w)"
proof -
  have "\<exists>w effs. ws_exec (bridge_hooks no_repr) full_config
      [EvRun, EvConnected, EvHello, EvFails (FHalted ''version'') None] ws_init = Some (w, effs)
      \<and> ws_halted w \<and> ws_phase w = TearingDown 0 HaltedHere"
    by (simp add: ws_next_def ws_init_def loop_head_def on_failure_def leave_try_def)
  then obtain w effs where w: "ws_exec (bridge_hooks no_repr) full_config
      [EvRun, EvConnected, EvHello, EvFails (FHalted ''version'') None] ws_init = Some (w, effs)"
      "ws_halted w" "ws_phase w = TearingDown 0 HaltedHere" by blast
  have r: "ws_reach (bridge_hooks no_repr) full_config w" by (rule ws_exec_reachable [OF w(1)])
  obtain w' effs' where s: "ws_next (bridge_hooks no_repr) full_config EvTornDown w = Some (w', effs')"
    using w by (cases "finish_iteration full_config 0 HaltedHere w") (auto simp: ws_next_def)
  from halted_fails_closed [OF r w(2) s] r s w(2) show ?thesis by blast
qed

section \<open>What the supervisor is told\<close>

lemma finish_notice: "(CallOnDisconnect \<in> set (snd (finish_iteration cf a ex w)))
    = (ws_connected w \<and> \<not> ws_closing w \<and> cf_on_disconnect cf)"
  "ws_connected (fst (finish_iteration cf a ex w)) = False"
  "ws_closing (fst (finish_iteration cf a ex w)) = ws_closing w"
  by (auto simp: finish_iteration_def mark_disconnected_def stop_run_def)

lemma leave_notice: "(CallOnDisconnect \<in> set (snd (leave_try cf a ex w)))
    = (ws_connected w \<and> \<not> ws_connected (fst (leave_try cf a ex w)) \<and> \<not> ws_closing w \<and> cf_on_disconnect cf)"
  by (auto simp: leave_try_def finish_notice)

text \<open>The supervisor is told of a disconnect exactly when a live connection is lost that nobody asked
  to close: not for a connect that failed, and not twice for one drop.\<close>

theorem disconnect_notice:
  assumes "ws_next hk cf ev w = Some (w', effs)"
  shows "CallOnDisconnect \<in> set effs \<longleftrightarrow>
    ws_connected w \<and> \<not> ws_connected w' \<and> \<not> ws_closing w' \<and> cf_on_disconnect cf"
proof (cases "is_loop_event ev")
  case False
  with step_quiet [OF assms] show ?thesis by (auto simp: quiet_def same_loop_def)
next
  case True
  show ?thesis
  proof (cases "ev")
    case (EvFails failure seam)
    obtain a where a: "attempt_in (ws_phase w) = Some a"
      using assms EvFails by (auto simp: ws_next_def split: option.splits)
    obtain ex u e1 where u: "on_failure cf a failure seam w = (ex, u, e1)" by (cases "on_failure cf a failure seam w")
    have "w' = fst (leave_try cf a ex u)" "effs = e1 @ snd (leave_try cf a ex u)"
      using assms EvFails a u by (auto simp: ws_next_def split: prod.splits)
    with leave_notice [of cf a ex u] leave_keeps [of cf a ex u] on_failure_fields [OF u] show ?thesis by auto
  next
    case EvListenEnds
    with assms have "w' = fst (leave_try cf 0 GoOn w)" "effs = snd (leave_try cf 0 GoOn w)"
      by (auto simp: ws_next_def split: phase.splits)
    with leave_notice [of cf 0 GoOn w] leave_keeps show ?thesis by auto
  next
    case EvTornDown
    then obtain a ex where "finish_iteration cf a ex w = (w', effs)"
      using assms by (auto simp: ws_next_def split: phase.splits)
    with finish_notice [of cf a ex w] show ?thesis by auto
  qed (use assms True in \<open>auto simp: ws_next_def loop_head_def retry_now_def stop_run_def resume_client_def
      rearm_failure_diagnostic_def connection_made_def mark_connected_def mark_disconnected_def backoff_over_def
      split: phase.splits if_splits waited.splits\<close>)
qed

lemma disconnect_notice_witness:
  "\<exists>w w'. ws_exec (matter_hooks no_repr) full_config
       [EvRun, EvConnected, EvHello, EvHandshakeDone, EvListenEnds] ws_init = Some (w, [StartReconcile])
     \<and> ws_next (matter_hooks no_repr) full_config EvTornDown w = Some (w', [CallOnDisconnect, BackoffDelay 1])
     \<and> (CallOnDisconnect \<in> set [CallOnDisconnect, BackoffDelay 1] \<longleftrightarrow>
          ws_connected w \<and> \<not> ws_connected w' \<and> \<not> ws_closing w' \<and> cf_on_disconnect full_config)"
proof -
  have "\<exists>w w'. ws_exec (matter_hooks no_repr) full_config
       [EvRun, EvConnected, EvHello, EvHandshakeDone, EvListenEnds] ws_init = Some (w, [StartReconcile])
     \<and> ws_next (matter_hooks no_repr) full_config EvTornDown w = Some (w', [CallOnDisconnect, BackoffDelay 1])"
    by (simp add: ws_next_def ws_init_def loop_head_def connection_made_def mark_connected_def leave_try_def
        finish_iteration_def mark_disconnected_def backoff_delay_def MAX_BACKOFF_def full_config_def)
  with disconnect_notice show ?thesis by blast
qed

text \<open>Events that start a new streak of failures.\<close>

fun rearms :: "ws_event \<Rightarrow> bool" where
  "rearms EvHandshakeDone = True"
| "rearms EvRearm = True"
| "rearms (EvBackoffOver Woken) = True"
| "rearms _ = False"

fun is_diagnostic :: "ws_eff \<Rightarrow> bool" where
  "is_diagnostic (CallRepeatedFailure n) = True"
| "is_diagnostic _ = False"

definition diagnostics :: "ws_eff list \<Rightarrow> nat" where
  "diagnostics effs = length (filter is_diagnostic effs)"

lemma diagnostics_append [simp]: "diagnostics (xs @ ys) = diagnostics xs + diagnostics ys"
  by (simp add: diagnostics_def)

lemma diagnostics_quiet: "\<forall>e \<in> set effs. \<not> is_notice e \<Longrightarrow> diagnostics effs = 0"
proof -
  have "is_diagnostic e \<Longrightarrow> is_notice e" for e by (cases e) simp_all
  then show "\<forall>e \<in> set effs. \<not> is_notice e \<Longrightarrow> diagnostics effs = 0" by (auto simp: diagnostics_def filter_empty_conv)
qed

definition budget :: "ws \<Rightarrow> nat" where
  "budget w = (if ws_diag_fired w then 0 else 1)"

lemma finish_diagnostics: "diagnostics (snd (finish_iteration cf a ex w)) = 0"
    "budget (fst (finish_iteration cf a ex w)) = budget w"
  by (auto simp: finish_iteration_def mark_disconnected_def stop_run_def diagnostics_def budget_def)

lemma leave_diagnostics: "diagnostics (snd (leave_try cf a ex w)) = 0" "budget (fst (leave_try cf a ex w)) = budget w"
  by (auto simp: leave_try_def finish_diagnostics) (simp_all add: diagnostics_def budget_def)

lemma failure_diagnostics:
  assumes "on_failure cf a failure seam w = (ex, u, effs)"
  shows "diagnostics effs + budget u \<le> budget w"
  using assms by (auto simp: on_failure_def maybe_report_repeated_failure_def report_connect_failure_def
      outage_is_expected_def Let_def diagnostics_def budget_def split: failure.splits option.splits sum.splits if_splits)

text \<open>One step, unless it starts a new streak, spends what it reports.\<close>

lemma diagnostic_step:
  assumes "ws_next hk cf ev w = Some (w', effs)" "\<not> rearms ev"
  shows "diagnostics effs + budget w' \<le> budget w"
proof (cases "is_loop_event ev")
  case False
  with step_quiet [OF assms(1)] diagnostics_quiet [of effs] show ?thesis
    by (simp add: quiet_def same_loop_def budget_def)
next
  case True
  show ?thesis
  proof (cases "ev")
    case (EvFails failure seam)
    obtain a where a: "attempt_in (ws_phase w) = Some a"
      using assms EvFails by (auto simp: ws_next_def split: option.splits)
    obtain ex u e1 where u: "on_failure cf a failure seam w = (ex, u, e1)" by (cases "on_failure cf a failure seam w")
    have "w' = fst (leave_try cf a ex u)" "effs = e1 @ snd (leave_try cf a ex u)"
      using assms EvFails a u by (auto simp: ws_next_def split: prod.splits)
    with leave_diagnostics [of cf a ex u] failure_diagnostics [OF u] show ?thesis by simp
  next
    case EvListenEnds
    with assms have "w' = fst (leave_try cf 0 GoOn w)" "effs = snd (leave_try cf 0 GoOn w)"
      by (auto simp: ws_next_def split: phase.splits)
    with leave_diagnostics [of cf 0 GoOn w] show ?thesis by simp
  next
    case EvTornDown
    then obtain a ex where "finish_iteration cf a ex w = (w', effs)"
      using assms by (auto simp: ws_next_def split: phase.splits)
    with finish_diagnostics [of cf a ex w] show ?thesis by simp
  next
    case (EvBackoffOver how)
    with assms show ?thesis
      by (cases how) (auto simp: ws_next_def backoff_over_def loop_head_def stop_run_def diagnostics_def budget_def
          split: phase.splits if_splits)
  qed (use assms True in \<open>auto simp: ws_next_def loop_head_def retry_now_def stop_run_def resume_client_def
      mark_connected_def mark_disconnected_def diagnostics_def budget_def split: phase.splits if_splits\<close>)
qed

text \<open>However long a streak of failures lasts, the supervisor gets at most one diagnostic for it: in
  a run without a completed handshake, a retry by hand or an explicit re-arm, the callback is
  called at most once, and not at all if it had been called already.\<close>

theorem diagnostic_once:
  assumes "ws_exec hk cf evs w = Some (w', effs)" "list_all (\<lambda>ev. \<not> rearms ev) evs"
  shows "diagnostics effs \<le> (if ws_diag_fired w then 0 else 1)"
proof -
  have "diagnostics effs + budget w' \<le> budget w"
    using assms
  proof (induction evs arbitrary: w effs)
    case (Cons ev evs)
    from Cons.prems(1) obtain w1 e1 e2 where s: "ws_next hk cf ev w = Some (w1, e1)"
        "ws_exec hk cf evs w1 = Some (w', e2)" "effs = e1 @ e2"
      by (rule ws_exec_Cons)
    with Cons.IH [OF s(2)] Cons.prems(2) diagnostic_step [OF s(1)] show ?case by simp
  qed (simp add: diagnostics_def)
  then show ?thesis by (simp add: budget_def split: if_splits)
qed

definition three_failures :: "ws_event list" where
  "three_failures = [EvRun, EvFails FLost None, EvBackoffOver Slept, EvFails FLost None, EvBackoffOver Slept,
     EvFails FTimeout None]"

lemma diagnostic_once_witness:
  "\<exists>w effs. ws_exec (matter_hooks no_repr) full_config three_failures ws_init = Some (w, effs)
     \<and> list_all (\<lambda>ev. \<not> rearms ev) three_failures \<and> CallRepeatedFailure 2 \<in> set effs
     \<and> diagnostics effs \<le> (if ws_diag_fired ws_init then 0 else 1)"
proof -
  have run: "\<exists>w effs. ws_exec (matter_hooks no_repr) full_config three_failures ws_init = Some (w, effs)
     \<and> CallRepeatedFailure 2 \<in> set effs"
    by (simp add: three_failures_def ws_next_def ws_init_def loop_head_def on_failure_def report_connect_failure_def
        outage_is_expected_def maybe_report_repeated_failure_def leave_try_def finish_iteration_def
        mark_disconnected_def full_config_def backoff_over_def)
  have "list_all (\<lambda>ev. \<not> rearms ev) three_failures" by (simp add: three_failures_def)
  with run diagnostic_once show ?thesis by blast
qed

section \<open>Closing\<close>

lemma closing_kept: "ws_next hk cf ev w = Some (w', effs) \<Longrightarrow> ws_closing w \<Longrightarrow> ws_closing w'"
proof (cases "is_loop_event ev")
  case False
  then show "ws_next hk cf ev w = Some (w', effs) \<Longrightarrow> ws_closing w \<Longrightarrow> ws_closing w'"
    using step_quiet by (auto simp: quiet_def same_loop_def)
next
  case True
  assume a: "ws_next hk cf ev w = Some (w', effs)" "ws_closing w"
  show "ws_closing w'"
  proof (cases "ev")
    case (EvFails failure seam)
    obtain a where a': "attempt_in (ws_phase w) = Some a"
      using a EvFails by (auto simp: ws_next_def split: option.splits)
    obtain ex u e1 where u: "on_failure cf a failure seam w = (ex, u, e1)" by (cases "on_failure cf a failure seam w")
    have "w' = fst (leave_try cf a ex u)" using a(1) EvFails a' u by (auto simp: ws_next_def split: prod.splits)
    with leave_keeps on_failure_fields [OF u] a(2) show ?thesis by simp
  next
    case EvListenEnds
    with a have "w' = fst (leave_try cf 0 GoOn w)" by (auto simp: ws_next_def split: phase.splits)
    with leave_keeps a(2) show ?thesis by simp
  next
    case EvTornDown
    then obtain b ex where "finish_iteration cf b ex w = (w', effs)"
      using a by (auto simp: ws_next_def split: phase.splits)
    with leave_keeps(3) [of cf b ex w] a(2) show ?thesis by simp
  qed (use a True in \<open>auto simp: ws_next_def loop_head_def retry_now_def stop_run_def resume_client_def
      rearm_failure_diagnostic_def connection_made_def mark_connected_def mark_disconnected_def backoff_over_def
      split: phase.splits if_splits waited.splits\<close>)
qed

text \<open>A closed client is closed for good: no later event takes the mark back, and a fresh \<open>run()\<close>
  on it returns at once without a connect.\<close>

theorem closed_for_good:
  assumes "ws_closing w" "ws_next hk cf ev w = Some (w', effs)"
  shows "ws_closing w' \<and> (ev = EvRun \<longrightarrow> ws_phase w' = Idle \<and> \<not> ws_running w')"
  using closing_kept [OF assms(2,1)] assms by (auto simp: ws_next_def loop_head_def stop_run_def split: if_splits)

lemma closed_for_good_witness:
  "ws_closing (ws_init\<lparr>ws_closing := True\<rparr>)
   \<and> (\<exists>w'. ws_next (matter_hooks no_repr) full_config EvRun (ws_init\<lparr>ws_closing := True\<rparr>) = Some (w', [])
        \<and> ws_closing w' \<and> ws_phase w' = Idle)"
proof -
  have s: "ws_next (matter_hooks no_repr) full_config EvRun (ws_init\<lparr>ws_closing := True\<rparr>)
      = Some (loop_head 0 (ws_init\<lparr>ws_closing := True, ws_running := True\<rparr>), [])"
    by (simp add: ws_next_def ws_init_def)
  from closed_for_good [OF _ s] s show ?thesis by simp
qed

text \<open>A \<open>close()\<close> during a connect attempt does not stop the client: the attempt goes on, and if
  the peer answers, the closed client ends up connected and listening with its callbacks called,
  until the peer drops the connection. It is tested only at the head of the loop.\<close>

theorem close_while_connecting:
  "\<exists>w. ws_exec (bridge_hooks repr) full_config [EvRun, EvClose, EvConnected, EvHello, EvHandshakeDone] ws_init
       = Some (w, [StartReconcile])
     \<and> ws_closing w \<and> ws_connected w \<and> ws_running w \<and> ws_phase w = Listening"
  by (simp add: ws_next_def ws_init_def loop_head_def mark_disconnected_def connection_made_def mark_connected_def
      full_config_def)

section \<open>The answer that comes too late\<close>

text \<open>\<open>plugin._on_late_matter_response\<close>, the part that concerns the commissioning jobs. A result
  whose node id is neither a number, a text nor absent is outside the model of the jobs.\<close>

fun late_node :: "pyval \<Rightarrow> node_id option option" where
  "late_node (PInt n) = Some (Some (NInt n))"
| "late_node (PStr s) = Some (Some (NStr s))"
| "late_node PNone = Some None"
| "late_node _ = None"

fun late_result :: "pyval \<Rightarrow> commission_result option" where
  "late_result (PDict d) = map_option ResultObject (late_node (dget d ''node_id''))"
| "late_result v = map_option ResultBare (late_node v)"

fun job_of_context :: "req_context option \<Rightarrow> string option" where
  "job_of_context (Some (CommissionRequest jid)) = Some jid"
| "job_of_context _ = None"

definition on_late_matter_response ::
  "req_context option \<Rightarrow> (pyval \<times> string) + pyval \<Rightarrow> jobs_state option
     \<Rightarrow> (jobs_state option \<times> job_log list) py_result option" where
  "on_late_matter_response context answer jobs =
     (let note = (\<lambda>a st. map_sum id (\<lambda>(jid, st', logs). (Some st', logs)) (note_late_response (job_of_context context) a st))
      in case jobs of
           None \<Rightarrow> Some (Inr (None, []))
         | Some st \<Rightarrow> (case answer of
               Inl e \<Rightarrow> Some (note (Inl e) st)
             | Inr v \<Rightarrow> map_option (\<lambda>r. note (Inr r) st) (late_result v)))"

text \<open>A request that times out is forgotten by the client, all but its note.\<close>

lemma deadline_keeps_note:
  assumes "calls_ok w" "q \<in> set (ws_requests w)" "rq_stage q = Awaiting" "ws_futs w ! rq_fut q = FutPending"
  obtains w1 where "ws_next hk cf (EvRequestWakes (rq_fut q) Deadline) w = Some (w1, [ReqRaises (rq_mid q) WaitTimeout])"
    "ws_context w1 = ws_context w" "map_of (ws_pending w1) (rq_mid q) = None" "ws_phase w1 = ws_phase w"
proof -
  have "find_request (rq_fut q) w = Some q"
  proof -
    obtain q' where q': "find_request (rq_fut q) w = Some q'"
      using assms(2) by (cases "find_request (rq_fut q) w") (auto simp: find_request_def find_None_iff)
    then have "q' \<in> set (ws_requests w)" "rq_fut q' = rq_fut q" using find_requestD by blast+
    with assms(1,2) have "q' = q" unfolding calls_ok_def distinct_map by (metis inj_onD)
    with q' show ?thesis by simp
  qed
  with assms(3,4) that show thesis
    by (simp add: ws_next_def wake_request_def Let_def end_request_def delete_conv')
qed

lemma late_frame:
  assumes "ws_phase w = Listening" "map_of (ws_pending w) m = None" "map_of (ws_context w) m = Some nt"
    and "\<not> is_event frame" "is_response frame" "message_id_of frame = PStr m" "cf_on_late cf"
    and "matter_error_of repr frame = Some e"
  obtains w' where "ws_next (matter_hooks repr) cf (EvRaw now (Some (PDict frame))) w
    = Some (w', [LogUnmatched (PStr m) (Some nt) (Some e), CallLate (PStr m) (Some nt) (Inl e)])"
  using assms by (simp add: ws_next_def handle_raw_def handle_frame_def dispatch_def log_unmatched_def Let_def
      find_mid_def matter_hooks_def)

lemma late_error_corrects:
  assumes "map_of (js_jobs st) jid = Some r" "r < length (js_heap st)" "timed_out (job_at st r)"
    "opt_int code = Inr mcode"
  obtains st' logs where "on_late_matter_response (Some (CommissionRequest jid)) (Inl (code, details)) (Some st)
      = Some (Inr (Some st', logs))"
    "job_at st' r = (job_at st r)\<lparr>j_error := Some \<lparr>je_code = ''commissioning_failed'',
       je_message = LateFailure details, je_matter = mcode\<rparr>\<rparr>"
  using assms by (simp add: on_late_matter_response_def note_late_response_def note_late_error_def Let_def)

text \<open>The answer to a commissioning request is not lost when it comes after the deadline: the caller
  is told of the timeout, the client keeps the note of the request, and when matter-server's
  error for it does come, on the same connection, the job that timed out is found through the
  note and its recorded error corrected to that failure.\<close>

theorem late_error_reaches_job:
  assumes "ws_reach (matter_hooks repr) cf w" "cf_on_late cf" "ws_phase w = Listening"
    and "q \<in> set (ws_requests w)" "rq_stage q = Awaiting" "ws_futs w ! rq_fut q = FutPending"
    and "map_of (ws_context w) (rq_mid q) = Some (CommissionRequest jid)"
    and "\<not> is_event frame" "is_response frame" "message_id_of frame = PStr (rq_mid q)"
    and "matter_error_of repr frame = Some (code, details)" "opt_int code = Inr mcode"
    and "map_of (js_jobs st) jid = Some r" "r < length (js_heap st)" "timed_out (job_at st r)"
  shows "\<exists>w1 w2 st' logs.
    ws_exec (matter_hooks repr) cf [EvRequestWakes (rq_fut q) Deadline, EvRaw now (Some (PDict frame))] w
      = Some (w2, [ReqRaises (rq_mid q) WaitTimeout,
                   LogUnmatched (PStr (rq_mid q)) (Some (CommissionRequest jid)) (Some (code, details)),
                   CallLate (PStr (rq_mid q)) (Some (CommissionRequest jid)) (Inl (code, details))])
    \<and> on_late_matter_response (Some (CommissionRequest jid)) (Inl (code, details)) (Some st) = Some (Inr (Some st', logs))
    \<and> j_error (job_at st' r) = Some \<lparr>je_code = ''commissioning_failed'', je_message = LateFailure details, je_matter = mcode\<rparr>"
proof -
  have ok: "calls_ok w" by (rule matter.calls_ok_reach [OF assms(1)])
  obtain w1 where w1: "ws_next (matter_hooks repr) cf (EvRequestWakes (rq_fut q) Deadline) w
      = Some (w1, [ReqRaises (rq_mid q) WaitTimeout])"
    "ws_context w1 = ws_context w" "map_of (ws_pending w1) (rq_mid q) = None" "ws_phase w1 = ws_phase w"
    using deadline_keeps_note [OF ok assms(4-6)] by blast
  obtain w2 where w2: "ws_next (matter_hooks repr) cf (EvRaw now (Some (PDict frame))) w1
      = Some (w2, [LogUnmatched (PStr (rq_mid q)) (Some (CommissionRequest jid)) (Some (code, details)),
          CallLate (PStr (rq_mid q)) (Some (CommissionRequest jid)) (Inl (code, details))])"
    using late_frame [where w = w1 and nt = "CommissionRequest jid"] w1(2-4) assms(2,3,7-11) by (metis (no_types, lifting))
  obtain st' logs where "on_late_matter_response (Some (CommissionRequest jid)) (Inl (code, details)) (Some st)
      = Some (Inr (Some st', logs))"
    "job_at st' r = (job_at st r)\<lparr>j_error := Some \<lparr>je_code = ''commissioning_failed'',
       je_message = LateFailure details, je_matter = mcode\<rparr>\<rparr>"
    using late_error_corrects [OF assms(13-15,12)] by blast
  with w1(1) w2 show ?thesis by simp
qed

definition commission_events :: "ws_event list" where
  "commission_events = [EvRun, EvConnected, EvHello, EvHandshakeDone,
     EvRequest ''commission_with_code'' None (Some (CommissionRequest ''j1'')), EvRequestWakes 0 Sent]"

definition late_failure :: pydict where
  "late_failure = [(KEY_MESSAGE_ID, PStr (str_of_int 1)), (KEY_ERROR_CODE, PInt 1), (KEY_ERROR_DETAILS, PStr ''pairing failed'')]"

definition first_call :: request where
  "first_call = \<lparr>rq_mid = str_of_int 1, rq_fut = 0, rq_stage = Awaiting\<rparr>"

text \<open>The state of a client whose first request waits for its answer.\<close>

lemma commissioning_state:
  assumes "hk = matter_hooks repr"
  obtains w effs where "ws_exec hk full_config commission_events ws_init = Some (w, effs)"
    "ws_phase w = Listening" "first_call \<in> set (ws_requests w)" "ws_futs w = [FutPending]" "ws_connected w"
    "ws_context w = [(str_of_int 1, CommissionRequest ''j1'')]" "ws_pending w = [(str_of_int 1, 0)]"
proof -
  have mid: "hk_message_id hk [(KEY_MESSAGE_ID, PStr m), (KEY_COMMAND, c), (KEY_ARGS, a)] = PStr m" for m c a
    by (simp add: assms matter_hooks_def message_id_of_def dget_def wire_keys)
  have req: "hk_request hk c None i = ([(KEY_MESSAGE_ID, PStr (str_of_int i)), (KEY_COMMAND, PStr c), (KEY_ARGS, PDict [])], i + 1)"
    for c i
    by (simp add: assms matter_hooks_def build_request_def proto_next_id_def)
  have "\<exists>w effs. ws_exec hk full_config commission_events ws_init = Some (w, effs)
    \<and> ws_phase w = Listening \<and> first_call \<in> set (ws_requests w) \<and> ws_futs w = [FutPending] \<and> ws_connected w
    \<and> ws_context w = [(str_of_int 1, CommissionRequest ''j1'')] \<and> ws_pending w = [(str_of_int 1, 0)]"
    by (simp add: commission_events_def ws_next_def ws_init_def loop_head_def connection_made_def mark_connected_def
        full_config_def start_request_def req mid Let_def remember_send_context_def SEND_CONTEXT_LIMIT_def
        find_request_def wake_request_def first_call_def)
  with that show thesis by blast
qed

lemma late_error_reaches_job_witness:
  "\<exists>w w2 effs st' logs.
     ws_reach (matter_hooks no_repr) full_config w
     \<and> ws_exec (matter_hooks no_repr) full_config [EvRequestWakes 0 Deadline, EvRaw 0 (Some (PDict late_failure))] w = Some (w2, effs)
     \<and> CallLate (PStr (str_of_int 1)) (Some (CommissionRequest ''j1'')) (Inl (PInt 1, ''pairing failed'')) \<in> set effs
     \<and> on_late_matter_response (Some (CommissionRequest ''j1'')) (Inl (PInt 1, ''pairing failed'')) (Some demo_timed_out)
         = Some (Inr (Some st', logs))
     \<and> map_option je_code (j_error (job_at st' 0)) = Some ''commissioning_failed''"
proof -
  obtain w effs where w: "ws_exec (matter_hooks no_repr) full_config commission_events ws_init = Some (w, effs)"
    "ws_phase w = Listening" "first_call \<in> set (ws_requests w)" "ws_futs w = [FutPending]"
    "ws_context w = [(str_of_int 1, CommissionRequest ''j1'')]"
    using commissioning_state [OF refl] by metis
  have r: "ws_reach (matter_hooks no_repr) full_config w" by (rule ws_exec_reachable [OF w(1)])
  have st: "map_of (js_jobs demo_timed_out) ''j1'' = Some 0" "0 < length (js_heap demo_timed_out)"
    "timed_out (job_at demo_timed_out 0)" "opt_int (PInt 1) = Inr (Some 1)"
    by code_simp+
  have f: "\<not> is_event late_failure" "is_response late_failure" "message_id_of late_failure = PStr (str_of_int 1)"
    "matter_error_of no_repr late_failure = Some (PInt 1, ''pairing failed'')"
    by (simp_all add: late_failure_def is_event_def is_response_def message_id_of_def matter_error_of_def dget_def wire_keys)
  have "\<exists>w1 w2 st' logs.
    ws_exec (matter_hooks no_repr) full_config [EvRequestWakes (rq_fut first_call) Deadline, EvRaw 0 (Some (PDict late_failure))] w
      = Some (w2, [ReqRaises (rq_mid first_call) WaitTimeout,
           LogUnmatched (PStr (rq_mid first_call)) (Some (CommissionRequest ''j1'')) (Some (PInt 1, ''pairing failed'')),
           CallLate (PStr (rq_mid first_call)) (Some (CommissionRequest ''j1'')) (Inl (PInt 1, ''pairing failed''))])
    \<and> on_late_matter_response (Some (CommissionRequest ''j1'')) (Inl (PInt 1, ''pairing failed'')) (Some demo_timed_out)
        = Some (Inr (Some st', logs))
    \<and> j_error (job_at st' 0) = Some \<lparr>je_code = ''commissioning_failed'', je_message = LateFailure ''pairing failed'', je_matter = Some 1\<rparr>"
    by (rule late_error_reaches_job [OF r _ w(2,3)])
      (simp_all add: w st [simplified] f first_call_def full_config_def)
  then show ?thesis using r by (fastforce simp: first_call_def)
qed

section \<open>Witnesses for the properties of the calls\<close>

text \<open>An answer that reaches its caller.\<close>

definition good_answer :: pydict where
  "good_answer = [(KEY_MESSAGE_ID, PStr (str_of_int 1)), (KEY_RESULT, PInt 7)]"

lemma answers_correlated_witness:
  "\<exists>w w' effs. ws_reach (matter_hooks no_repr) full_config w
     \<and> ws_next (matter_hooks no_repr) full_config (EvRaw 0 (Some (PDict good_answer))) w = Some (w', effs)
     \<and> ws_futs w' ! 0 = FutResult (PInt 7) \<and> message_id_of good_answer = PStr (rq_mid first_call)"
proof -
  obtain w effs where w: "ws_exec (matter_hooks no_repr) full_config commission_events ws_init = Some (w, effs)"
    "ws_phase w = Listening" "first_call \<in> set (ws_requests w)" "ws_futs w = [FutPending]"
    "ws_pending w = [(str_of_int 1, 0)]"
    using commissioning_state [OF refl] by metis
  have r: "ws_reach (matter_hooks no_repr) full_config w" by (rule ws_exec_reachable [OF w(1)])
  obtain w' effs' where s: "ws_next (matter_hooks no_repr) full_config (EvRaw 0 (Some (PDict good_answer))) w = Some (w', effs')"
      "ws_futs w' ! 0 = FutResult (PInt 7)"
    using w by (simp add: ws_next_def handle_raw_def handle_frame_def dispatch_def Let_def matter_hooks_def good_answer_def
        is_event_def is_response_def message_id_of_def find_mid_def settle_def parse_result_def dget_def wire_keys)
  have "\<exists>now frame. EvRaw 0 (Some (PDict good_answer)) \<in> {EvRaw now (Some (PDict frame)), EvFrame now (PDict frame)}
    \<and> is_response frame \<and> message_id_of frame = PStr (rq_mid first_call)
    \<and> map_of frame KEY_ERROR_CODE = None \<and> PInt 7 = dget frame KEY_RESULT"
    by (rule answers_correlated [OF r s(1) w(3)]) (use w(4) s(2) in \<open>simp_all add: first_call_def\<close>)
  with r s show ?thesis by auto
qed

lemma client_refines_board_witness:
  "\<exists>w w'. ws_reach (matter_hooks no_repr) full_config w \<and> ws_connected w
     \<and> ws_next (matter_hooks no_repr) full_config EvListenEnds w = Some (w', [])
     \<and> board_step (board_of w) (board_of w')"
proof -
  obtain w effs where w: "ws_exec (matter_hooks no_repr) full_config commission_events ws_init = Some (w, effs)"
    "ws_phase w = Listening" "ws_connected w"
    using commissioning_state [OF refl] by metis
  have r: "ws_reach (matter_hooks no_repr) full_config w" by (rule ws_exec_reachable [OF w(1)])
  then have "ws_held w" using loop_ok_reach [OF r] w(2) by (simp add: loop_ok_def)
  then have "ws_next (matter_hooks no_repr) full_config EvListenEnds w = Some (w\<lparr>ws_phase := TearingDown 0 GoOn\<rparr>, [])"
    using w(2) by (simp add: ws_next_def leave_try_def)
  with client_refines_board [OF _ r this, of no_repr] r w(3) show ?thesis by blast
qed

lemma callers_return_witness:
  "\<exists>w q eff. ws_reach (matter_hooks no_repr) full_config w \<and> \<not> ws_connected w \<and> q \<in> set (ws_requests w)
     \<and> ws_next (matter_hooks no_repr) full_config (EvRequestWakes (rq_fut q) FutureDone) w = Some (end_request q w, [eff])"
proof -
  obtain w effs where w: "ws_exec (matter_hooks no_repr) full_config commission_events ws_init = Some (w, effs)"
    "ws_phase w = Listening" "first_call \<in> set (ws_requests w)"
    using commissioning_state [OF refl] by metis
  have r: "ws_reach (matter_hooks no_repr) full_config w" by (rule ws_exec_reachable [OF w(1)])
  then have h: "ws_held w" using loop_ok_reach [OF r] w(2) by (simp add: loop_ok_def)
  have s: "ws_next (matter_hooks no_repr) full_config EvListenEnds w = Some (w\<lparr>ws_phase := TearingDown 0 GoOn\<rparr>, [])"
    using w(2) h by (simp add: ws_next_def leave_try_def)
  define w1 where "w1 = w\<lparr>ws_phase := TearingDown 0 GoOn\<rparr>"
  have r1: "ws_reach (matter_hooks no_repr) full_config w1" using ws_step [OF r s] by (simp add: w1_def)
  obtain w2 effs' where t: "ws_next (matter_hooks no_repr) full_config EvTornDown w1 = Some (w2, effs')"
      "\<not> ws_connected w2" "ws_requests w2 = ws_requests w"
    by (cases "ws_closing w \<or> ws_halted w")
      (simp_all add: w1_def ws_next_def finish_iteration_def mark_disconnected_def stop_run_def)
  have r2: "ws_reach (matter_hooks no_repr) full_config w2" by (rule ws_step [OF r1 t(1)])
  have "first_call \<in> set (ws_requests w2)" "rq_stage first_call = Awaiting" using w(3) t(3) by (simp_all add: first_call_def)
  with callers_return [OF _ r2 t(2), of no_repr first_call] r2 t(2) show ?thesis by blast
qed

end
