(* ===== verification/CommissionWorker.thy ===== *)
theory CommissionWorker
  imports CommissionJobs
begin

text \<open>
  \<open>commission_jobs.py\<close>, the asynchronous part: the worker coroutine \<open>_run_job\<close> with its
  exception clauses and \<open>_fail\<close>, the reconcile coroutine, and the watchdog of the reconcile
  window. A coroutine is cut at its awaits: a \<open>task\<close> is a suspended coroutine, and resuming it
  with what the await yields (a value or an exception) runs the code up to the next await. The
  HTTP thread's operations interleave with these segments.
\<close>

section \<open>Tasks, answers, effects\<close>

datatype task =
    RunStart jref
  | RunCommission jref
  | RunGetNode jref node_id
  | RunCreate jref node_id
  | RunRemove jref node_id string err_msg "int option"
  | ReconStart jref node_id
  | ReconCreate jref node_id
  | ExpireStart jref
  | ExpireSleep jref
  | ExpireRemove jref node_id bool

text \<open>The exceptions the clauses of \<open>_run_job\<close> distinguish: a \<open>ProtocolError\<close> with its text
  and code, any other exception with its text and type name.\<close>

datatype run_exc =
    XCancelled
  | XCommission string err_msg "int option"
  | XTimeout
  | XProtocol string pyval
  | XOther string string

datatype payload = YCommission commission_result | YNode pydict | YCreated created | YUnit

datatype eff =
    Log job_log
  | RpcCommission string string
  | RpcGetNode node_id
  | CallCreateDevices jref node_id
  | RpcRemoveNode jref node_id

type_synonym outcome = "jobs_state \<times> task list \<times> eff list"

text \<open>What the environment answers besides the await: the clock, whether a coroutine can still
  be scheduled, and the injected \<open>knows_node\<close> (absent, or a test that may raise).\<close>

record env =
  e_now :: int
  e_sched :: bool
  e_knows :: "(int \<Rightarrow> bool py_result) option"

section \<open>Landing a job\<close>

definition exc_message :: "string \<Rightarrow> string \<Rightarrow> string" where
  "exc_message txt type_name = (let t = str_strip txt in if t \<noteq> [] then t else type_name)"

fun exc_text :: "run_exc \<Rightarrow> err_msg" where
  "exc_text (XOther txt type_name) = Text (exc_message txt type_name)"
| "exc_text (XProtocol txt code) = Text (exc_message txt ''ProtocolError'')"
| "exc_text XTimeout = Text ''TimeoutError''"
| "exc_text (XCommission code m me) = m"
| "exc_text XCancelled = Text ''CancelledError''"

definition land_failed :: "jref \<Rightarrow> string \<Rightarrow> err_msg \<Rightarrow> int option \<Rightarrow> int \<Rightarrow> jobs_state \<Rightarrow> jobs_state" where
  "land_failed r code msg me now st =
     (let j = (job_at st r)\<lparr>j_error := Some \<lparr>je_code = code, je_message = msg, je_matter = me\<rparr>\<rparr>
      in put_job r (advance_job FAILED (j_progress j) NoMessage now j) st)"

definition land_success :: "jref \<Rightarrow> node_id \<Rightarrow> created \<Rightarrow> job_msg \<Rightarrow> int \<Rightarrow> jobs_state \<Rightarrow> jobs_state" where
  "land_success r nid created msg now st =
     put_job r (advance_job SUCCESS 1 msg now
                  ((job_at st r)\<lparr>j_result := Some (node_id_to_str nid, created)\<rparr>)) st"

text \<open>\<open>_fail\<close>, after the removal (if any) has settled, and from its start.\<close>

definition finish_fail :: "jref \<Rightarrow> string \<Rightarrow> err_msg \<Rightarrow> int option \<Rightarrow> int \<Rightarrow> jobs_state \<Rightarrow> outcome" where
  "finish_fail r code msg me now st =
     (land_failed r code msg me now st, [],
      [Log (LogCommissionFailed (j_suggested_name (job_at st r)) msg me (j_job_id (job_at st r)))])"

definition run_fail ::
  "jref \<Rightarrow> string \<Rightarrow> err_msg \<Rightarrow> int option \<Rightarrow> node_id option \<Rightarrow> int \<Rightarrow> jobs_state \<Rightarrow> outcome" where
  "run_fail r code msg me nid now st =
     (case nid of
        None \<Rightarrow> finish_fail r code msg me now st
      | Some n \<Rightarrow>
          (case node_held_by_other_job r n st of
             (True, st1, logs) \<Rightarrow>
               (case finish_fail r code msg me now st1 of
                  (st2, ts, effs) \<Rightarrow> (st2, ts, map Log logs @ effs))
           | (False, st1, logs) \<Rightarrow> (st1, [RunRemove r n code msg me], [RpcRemoveNode r n])))"

text \<open>The \<open>except\<close> clauses of \<open>_run_job\<close>. An \<open>OverflowError\<close> of \<open>opt_int\<close> inside the
  \<open>ProtocolError\<close> clause leaves the coroutine: no other clause of the same \<open>try\<close> sees it.\<close>

definition run_except :: "jref \<Rightarrow> node_id option \<Rightarrow> run_exc \<Rightarrow> env \<Rightarrow> jobs_state \<Rightarrow> outcome" where
  "run_except r nid exc env st =
     (let now = e_now env; j = job_at st r
      in case exc of
           XCancelled \<Rightarrow>
             (land_failed r ''internal_error'' (Text ''commissioning cancelled by plugin shutdown'') None now st,
              [], [])
         | XCommission code m me \<Rightarrow> run_fail r code m me nid now st
         | XTimeout \<Rightarrow>
             (case nid of
                Some n \<Rightarrow>
                  (land_failed r ''internal_error'' (DescriptorTimeout n) None now st, [],
                   [Log (LogDescriptorTimeout (j_job_id j))])
              | None \<Rightarrow>
                  (land_failed r ''commissioning_timeout'' TimeoutMessage None now st,
                   if e_sched env then [ExpireStart r] else [],
                   Log (LogTimedOut (j_job_id j)) #
                   (if e_sched env then [] else [Log (LogWatchdogNotArmed (j_job_id j))])))
         | XProtocol txt code \<Rightarrow>
             (case opt_int code of
                Inl _ \<Rightarrow> (st, [], [])
              | Inr me \<Rightarrow> run_fail r ''commissioning_failed'' (Text txt) me nid now st)
         | XOther txt type_name \<Rightarrow>
             (case run_fail r ''internal_error'' (exc_text exc) None nid now st of
                (st1, ts, effs) \<Rightarrow> (st1, ts, Log LogException # effs)))"

section \<open>The worker\<close>

definition run_start :: "jref \<Rightarrow> env \<Rightarrow> jobs_state \<Rightarrow> outcome" where
  "run_start r env st =
     (let st1 = advance r COMMISSIONING (1/5) MsgCommissioning (e_now env) st
      in (st1, [RunCommission r],
          [RpcCommission (j_setup_code (job_at st r)) (j_job_id (job_at st r))]))"

definition run_commissioned :: "jref \<Rightarrow> env \<Rightarrow> jobs_state \<Rightarrow> commission_result \<Rightarrow> outcome" where
  "run_commissioned r env st result =
     (case result_node_id result of
        None \<Rightarrow> run_except r None
                  (XCommission ''commissioning_failed'' (Text ''matter-server returned no node_id'') None) env st
      | Some nid \<Rightarrow>
          (advance r READING_DESCRIPTORS (3/5) MsgDiscovering (e_now env) (set_node_id r nid st),
           [RunGetNode r nid], [RpcGetNode nid]))"

definition run_got_node :: "jref \<Rightarrow> node_id \<Rightarrow> env \<Rightarrow> jobs_state \<Rightarrow> pydict \<Rightarrow> outcome" where
  "run_got_node r nid env st attributes =
     (case warn_if_fabric_slots_short (job_at st r) attributes nid of
        Inl _ \<Rightarrow> run_except r (Some nid)
                   (XOther ''cannot convert float infinity to integer'' ''OverflowError'') env st
      | Inr logs \<Rightarrow>
          (advance r CREATING_DEVICES (17/20) MsgCreating (e_now env) st,
           [RunCreate r nid], map Log logs @ [CallCreateDevices r nid]))"

definition run_created :: "jref \<Rightarrow> node_id \<Rightarrow> env \<Rightarrow> jobs_state \<Rightarrow> created \<Rightarrow> outcome" where
  "run_created r nid env st created =
     (land_success r nid created MsgDone (e_now env) st, [],
      [Log (LogCommissioned (j_suggested_name (job_at st r)) (node_id_to_str nid)
              (length (cr_device_ids created)))])"

definition run_removed ::
  "jref \<Rightarrow> node_id \<Rightarrow> string \<Rightarrow> err_msg \<Rightarrow> int option \<Rightarrow> env \<Rightarrow> jobs_state \<Rightarrow> run_exc option \<Rightarrow> outcome" where
  "run_removed r nid code msg me env st exc =
     (let st1 = clear_removing nid st
      in case exc of
           Some XCancelled \<Rightarrow> (st1, [], [])
         | Some _ \<Rightarrow> (case finish_fail r code msg me (e_now env) st1 of
                        (st2, ts, effs) \<Rightarrow> (st2, ts, Log (LogCleanupFailed (j_job_id (job_at st r))) # effs))
         | None \<Rightarrow> finish_fail r code msg me (e_now env) st1)"

section \<open>The reconcile coroutine\<close>

definition recon_start :: "jref \<Rightarrow> node_id \<Rightarrow> jobs_state \<Rightarrow> outcome" where
  "recon_start r nid st = (st, [ReconCreate r nid], [CallCreateDevices r nid])"

definition recon_created :: "jref \<Rightarrow> node_id \<Rightarrow> env \<Rightarrow> jobs_state \<Rightarrow> run_exc + created \<Rightarrow> outcome" where
  "recon_created r nid env st ans =
     (case ans of
        Inr created \<Rightarrow>
          (land_success r nid created MsgDoneAfterTimeout (e_now env) st, [],
           [Log (LogCommissionedLate (j_suggested_name (job_at st r)) (node_id_to_str nid)
                   (length (cr_device_ids created)))])
      | Inl XCancelled \<Rightarrow> (st, [], [])
      | Inl exc \<Rightarrow> (land_failed r ''internal_error'' (exc_text exc) None (e_now env) st, [], [Log LogException]))"

section \<open>The watchdog of the reconcile window\<close>

definition remove_orphaned_node :: "jref \<Rightarrow> node_id \<Rightarrow> env \<Rightarrow> jobs_state \<Rightarrow> outcome" where
  "remove_orphaned_node r nid env st =
     (case node_held_by_other_job r nid st of
        (True, st1, logs) \<Rightarrow> (st1, [], map Log logs)
      | (False, st1, logs) \<Rightarrow>
          (case node_int nid of
             None \<Rightarrow> (st1, [ExpireRemove r nid False],
                       [Log (LogRemovingUnchecked (j_job_id (job_at st r))), RpcRemoveNode r nid])
           | Some n \<Rightarrow>
               (case (case e_knows env of None \<Rightarrow> Inr False | Some knows \<Rightarrow> knows n) of
                  Inl _ \<Rightarrow> (clear_removing nid st1, [], [Log LogException])
                | Inr True \<Rightarrow> (clear_removing nid st1, [],
                                [Log (LogTracked (j_job_id (job_at st r)) (node_id_to_str nid))])
                | Inr False \<Rightarrow> (st1, [ExpireRemove r nid True], [RpcRemoveNode r nid]))))"

definition expire_woke :: "jref \<Rightarrow> env \<Rightarrow> jobs_state \<Rightarrow> outcome" where
  "expire_woke r env st =
     (let j = job_at st r
      in if map_of (js_jobs st) (j_job_id j) \<noteq> Some r then (st, [], [])
         else if \<not> timed_out j then (st, [], [])
         else (case j_node_id j of
                 Some nid \<Rightarrow>
                   (case remove_orphaned_node r nid env st of
                      (st1, ts, effs) \<Rightarrow>
                        (st1, ts, Log (LogWindowClosedNode (j_job_id j) (node_id_to_str nid)) # effs))
               | None \<Rightarrow> (st, [], [Log (LogWindowClosedBare (j_job_id j))])))"

definition expire_removed :: "jref \<Rightarrow> node_id \<Rightarrow> bool \<Rightarrow> jobs_state \<Rightarrow> run_exc option \<Rightarrow> outcome" where
  "expire_removed r nid checked st exc =
     (clear_removing nid st, [],
      (case exc of
         None \<Rightarrow> [Log (LogRemovedOrphan (j_job_id (job_at st r)) checked)]
       | Some XCancelled \<Rightarrow> []
       | Some _ \<Rightarrow> [Log (LogOrphanRemovalFailed (j_job_id (job_at st r)))]))"

section \<open>Resuming a task\<close>

text \<open>\<open>None\<close> where the answer is not one the await can yield. A coroutine cancelled before its
  first step never enters its body, so none of its clauses runs.\<close>

fun resume :: "task \<Rightarrow> env \<Rightarrow> jobs_state \<Rightarrow> run_exc + payload \<Rightarrow> outcome option" where
  "resume (RunStart r) env st ans = (case ans of
       Inr YUnit \<Rightarrow> Some (run_start r env st)
     | Inl XCancelled \<Rightarrow> Some (st, [], [])
     | _ \<Rightarrow> None)"
| "resume (RunCommission r) env st ans = (case ans of
       Inr (YCommission res) \<Rightarrow> Some (run_commissioned r env st res)
     | Inl exc \<Rightarrow> Some (run_except r None exc env st)
     | _ \<Rightarrow> None)"
| "resume (RunGetNode r nid) env st ans = (case ans of
       Inr (YNode attrs) \<Rightarrow> Some (run_got_node r nid env st attrs)
     | Inl exc \<Rightarrow> Some (run_except r (Some nid) exc env st)
     | _ \<Rightarrow> None)"
| "resume (RunCreate r nid) env st ans = (case ans of
       Inr (YCreated c) \<Rightarrow> Some (run_created r nid env st c)
     | Inl exc \<Rightarrow> Some (run_except r (Some nid) exc env st)
     | _ \<Rightarrow> None)"
| "resume (RunRemove r nid code msg me) env st ans = (case ans of
       Inr YUnit \<Rightarrow> Some (run_removed r nid code msg me env st None)
     | Inl exc \<Rightarrow> Some (run_removed r nid code msg me env st (Some exc))
     | _ \<Rightarrow> None)"
| "resume (ReconStart r nid) env st ans = (case ans of
       Inr YUnit \<Rightarrow> Some (recon_start r nid st)
     | Inl XCancelled \<Rightarrow> Some (st, [], [])
     | _ \<Rightarrow> None)"
| "resume (ReconCreate r nid) env st ans = (case ans of
       Inr (YCreated c) \<Rightarrow> Some (recon_created r nid env st (Inr c))
     | Inl exc \<Rightarrow> Some (recon_created r nid env st (Inl exc))
     | _ \<Rightarrow> None)"
| "resume (ExpireStart r) env st ans = (case ans of
       Inr YUnit \<Rightarrow> Some (st, [ExpireSleep r], [])
     | Inl XCancelled \<Rightarrow> Some (st, [], [])
     | _ \<Rightarrow> None)"
| "resume (ExpireSleep r) env st ans = (case ans of
       Inr YUnit \<Rightarrow> Some (expire_woke r env st)
     | Inl exc \<Rightarrow> Some (st, [], if exc = XCancelled then [] else [Log LogException])
     | _ \<Rightarrow> None)"
| "resume (ExpireRemove r nid checked) env st ans = (case ans of
       Inr YUnit \<Rightarrow> Some (expire_removed r nid checked st None)
     | Inl exc \<Rightarrow> Some (expire_removed r nid checked st (Some exc))
     | _ \<Rightarrow> None)"

end
