(* ===== verification/CommissionSystem.thy ===== *)
theory CommissionSystem
  imports CommissionWorker CommissionFacts
begin

text \<open>
  The commissioning subsystem as one transition system: the job table of \<open>CommissionJobs\<close>
  together with the suspended coroutines of \<open>CommissionWorker\<close>. An event is an HTTP request, a
  message of matter-server, or the resumption of one suspended coroutine, with everything the
  environment decides (clock, scheduling, answers). The lemmas establish the invariant of the
  reachable states (the table and index are consistent, each job is in the state its coroutine
  expects, no job has two drivers, a removal mark belongs to a removal in flight) and what
  follows from it: which removals are sent, that a success is final, that work runs out, and
  which events can leave a job without a driver.
\<close>

section \<open>The system\<close>

record sys =
  ss_jobs :: jobs_state
  ss_tasks :: "task list"

datatype event =
    EvCreate pydict bool int string "string option"
  | EvPoll string int int
  | EvNodeAdded "node_id option" int bool
  | EvLate "string option" "(pyval \<times> string) + commission_result"
  | EvResume task env "run_exc + payload"

definition sys_init :: sys where
  "sys_init = \<lparr>ss_jobs = jobs_init, ss_tasks = []\<rparr>"

definition recon_tasks :: "jref option \<Rightarrow> node_id option \<Rightarrow> task list" where
  "recon_tasks claim raw = (case (claim, raw) of (Some r, Some nid) \<Rightarrow> [ReconStart r nid] | _ \<Rightarrow> [])"

text \<open>The ids of the uuid factory are fresh: no job object carries them yet.\<close>

inductive sys_step :: "sys \<Rightarrow> event \<Rightarrow> eff list \<Rightarrow> sys \<Rightarrow> bool" where
  step_create: "create_job params up now jid sched (ss_jobs s) = (res, spawn, st') \<Longrightarrow>
     jid \<notin> j_job_id ` set (js_heap (ss_jobs s)) \<Longrightarrow>
     sys_step s (EvCreate params up now jid sched) []
       \<lparr>ss_jobs = st', ss_tasks = ss_tasks s @ (case spawn of None \<Rightarrow> [] | Some r \<Rightarrow> [RunStart r])\<rparr>"
| step_poll: "get_job jid now now_utc (ss_jobs s) = (res, st') \<Longrightarrow>
     sys_step s (EvPoll jid now now_utc) [] \<lparr>ss_jobs = st', ss_tasks = ss_tasks s\<rparr>"
| step_node_added: "reconcile_node_added raw now sched (ss_jobs s) = (claim, st', logs) \<Longrightarrow>
     sys_step s (EvNodeAdded raw now sched) (map Log logs)
       \<lparr>ss_jobs = st', ss_tasks = ss_tasks s @ recon_tasks claim raw\<rparr>"
| step_late: "note_late_response ctx answer (ss_jobs s) = Inr (res, st', logs) \<Longrightarrow>
     sys_step s (EvLate ctx answer) (map Log logs) \<lparr>ss_jobs = st', ss_tasks = ss_tasks s\<rparr>"
| step_late_raises: "note_late_response ctx answer (ss_jobs s) = Inl e \<Longrightarrow>
     sys_step s (EvLate ctx answer) [] s"
| step_resume: "t \<in> set (ss_tasks s) \<Longrightarrow> resume t env (ss_jobs s) answer = Some (st', ts, effs) \<Longrightarrow>
     sys_step s (EvResume t env answer) effs
       \<lparr>ss_jobs = st', ss_tasks = remove1 t (ss_tasks s) @ ts\<rparr>"

inductive_cases create_stepE: "sys_step s (EvCreate params up now jid sched) effs s'"
inductive_cases poll_stepE: "sys_step s (EvPoll jid now now_utc) effs s'"
inductive_cases node_added_stepE: "sys_step s (EvNodeAdded raw now sched) effs s'"
inductive_cases late_stepE: "sys_step s (EvLate ctx answer) effs s'"
inductive_simps resume_step_iff: "sys_step s (EvResume t env answer) effs s'"

text \<open>The states reached by events that satisfy a condition.\<close>

inductive reachable :: "(event \<Rightarrow> bool) \<Rightarrow> sys \<Rightarrow> bool" for allowed where
  reach_init: "reachable allowed sys_init"
| reach_step: "reachable allowed s \<Longrightarrow> sys_step s ev effs s' \<Longrightarrow> allowed ev \<Longrightarrow> reachable allowed s'"

lemma reachable_mono: "reachable P s \<Longrightarrow> (\<And>ev. P ev \<Longrightarrow> Q ev) \<Longrightarrow> reachable Q s"
  by (induction rule: reachable.induct) (auto intro: reachable.intros)

section \<open>What a suspended coroutine expects\<close>

fun task_ref :: "task \<Rightarrow> jref" where
  "task_ref (RunStart r) = r"
| "task_ref (RunCommission r) = r"
| "task_ref (RunGetNode r _) = r"
| "task_ref (RunCreate r _) = r"
| "task_ref (RunRemove r _ _ _ _) = r"
| "task_ref (ReconStart r _) = r"
| "task_ref (ReconCreate r _) = r"
| "task_ref (ExpireStart r) = r"
| "task_ref (ExpireSleep r) = r"
| "task_ref (ExpireRemove r _ _) = r"

fun is_driver :: "task \<Rightarrow> bool" where
  "is_driver (ExpireStart _) = False"
| "is_driver (ExpireSleep _) = False"
| "is_driver (ExpireRemove _ _ _) = False"
| "is_driver _ = True"

fun removal_key :: "task \<Rightarrow> nkey option" where
  "removal_key (RunRemove _ nid _ _ _) = Some (node_key nid)"
| "removal_key (ExpireRemove _ nid _) = Some (node_key nid)"
| "removal_key _ = None"

fun expects :: "task \<Rightarrow> job \<Rightarrow> bool" where
  "expects (RunStart _) j = (j_status j = PENDING)"
| "expects (RunCommission _) j = (j_status j = COMMISSIONING)"
| "expects (RunGetNode _ nid) j = (j_status j = READING_DESCRIPTORS \<and> j_node_id j = Some nid)"
| "expects (RunCreate _ nid) j = (j_status j = CREATING_DEVICES \<and> j_node_id j = Some nid)"
| "expects (RunRemove _ nid _ _ _) j =
     (j_status j \<in> {READING_DESCRIPTORS, CREATING_DEVICES} \<and> j_node_id j = Some nid)"
| "expects (ReconStart _ nid) j = (j_status j = CREATING_DEVICES \<and> j_node_id j = Some nid)"
| "expects (ReconCreate _ nid) j = (j_status j = CREATING_DEVICES \<and> j_node_id j = Some nid)"
| "expects _ j = True"

lemma expects_live: "expects t j \<Longrightarrow> is_driver t \<Longrightarrow> j_status j \<notin> TERMINAL"
  by (cases t) (auto simp: TERMINAL_def)

definition task_ok :: "jobs_state \<Rightarrow> task \<Rightarrow> bool" where
  "task_ok st t \<longleftrightarrow> task_ref t < length (js_heap st) \<and> expects t (job_at st (task_ref t))"

section \<open>One segment of a coroutine\<close>

text \<open>What every segment keeps: it writes no job but its own, and its own only when it drives
  the job; what it leaves suspended is at most one coroutine of the same job, in order; a
  removal mark it leaves is that of a removal it leaves suspended.\<close>

definition keeps_jobs :: "jobs_state \<Rightarrow> jref \<Rightarrow> bool \<Rightarrow> jobs_state \<Rightarrow> bool" where
  "keeps_jobs st r driver st' \<longleftrightarrow>
     js_jobs st' = js_jobs st \<and> js_by_code st' = js_by_code st
     \<and> length (js_heap st') = length (js_heap st)
     \<and> (\<forall>r'. r' \<noteq> r \<longrightarrow> job_at st' r' = job_at st r')
     \<and> (\<not> driver \<longrightarrow> job_at st' r = job_at st r)
     \<and> j_job_id (job_at st' r) = j_job_id (job_at st r)
     \<and> j_setup_code (job_at st' r) = j_setup_code (job_at st r)
     \<and> job_ok (job_at st' r)"

definition spawns :: "jobs_state \<Rightarrow> jref \<Rightarrow> bool \<Rightarrow> task list \<Rightarrow> bool" where
  "spawns st' r driver ts \<longleftrightarrow> ts = [] \<or>
     (\<exists>t. ts = [t] \<and> task_ref t = r \<and> expects t (job_at st' r) \<and> (is_driver t \<longrightarrow> driver))"

definition marks :: "jobs_state \<Rightarrow> nkey option \<Rightarrow> jobs_state \<Rightarrow> task list \<Rightarrow> bool" where
  "marks st key st' ts \<longleftrightarrow> (\<forall>k \<in> js_removing st'.
     Some k \<in> removal_key ` set ts \<or> k \<in> js_removing st \<and> key \<noteq> Some k)"

fun segment :: "jobs_state \<Rightarrow> jref \<Rightarrow> bool \<Rightarrow> nkey option \<Rightarrow> outcome \<Rightarrow> bool" where
  "segment st r driver key (st', ts, effs) =
     (keeps_jobs st r driver st' \<and> spawns st' r driver ts \<and> marks st key st' ts)"

lemmas segment_defs = keeps_jobs_def spawns_def marks_def

lemma job_ok_land:
  "job_ok (advance_job FAILED p NoMessage now (j\<lparr>j_error := Some e\<rparr>))"
  "job_ok j \<Longrightarrow> j_status j = CREATING_DEVICES \<Longrightarrow>
     job_ok (advance_job SUCCESS 1 msg now (j\<lparr>j_result := Some x\<rparr>))"
  by (auto simp: job_ok_def advance_job_def TERMINAL_def Let_def)

lemma advance_job_fields [simp]:
  "j_status (advance_job s p m now j) = s"
  "j_node_id (advance_job s p m now j) = j_node_id j"
  "j_job_id (advance_job s p m now j) = j_job_id j"
  "j_setup_code (advance_job s p m now j) = j_setup_code j"
  "j_result (advance_job s p m now j) = j_result j"
  "j_error (advance_job s p m now j) = j_error j"
  by (simp_all add: advance_job_def Let_def)

lemma job_at_mark [simp]: "job_at (js_removing_update g st) r = job_at st r"
  by simp

lemma segment_landed:
  assumes "r < length (js_heap st)" "\<forall>t \<in> set ts. t = ExpireStart r" "length ts \<le> 1"
  shows "segment st r True None (land_failed r code m me now st, ts, effs)"
proof -
  have ts: "ts = [] \<or> ts = [ExpireStart r]"
    using assms(2,3) by (cases ts) auto
  show ?thesis
    using assms(1) ts by (auto simp: segment_defs land_failed_def Let_def job_ok_land(1))
qed

lemma node_held_by_other_job_eq:
  "node_held_by_other_job r nid st = (b, st1, logs) \<Longrightarrow>
     (b \<and> st1 = st) \<or>
     (\<not> b \<and> other_holders r nid st = [] \<and> logs = []
        \<and> st1 = st\<lparr>js_removing := insert (node_key nid) (js_removing st)\<rparr>)"
  by (auto simp: node_held_by_other_job_def Let_def split: if_splits)

lemma segment_run_fail:
  assumes "r < length (js_heap st)" "job_ok (job_at st r)"
    and "\<forall>n. nid = Some n \<longrightarrow> expects (RunRemove r n code m me) (job_at st r)"
  shows "segment st r True None (run_fail r code m me nid now st)"
proof (cases nid)
  case None
  then show ?thesis by (simp add: run_fail_def finish_fail_def segment_landed [OF assms(1)] del: segment.simps)
next
  case (Some n)
  obtain b st1 logs where h: "node_held_by_other_job r n st = (b, st1, logs)" by (cases "node_held_by_other_job r n st")
  from node_held_by_other_job_eq [OF h] show ?thesis
  proof
    assume "b \<and> st1 = st"
    with Some h show ?thesis
      by (simp add: run_fail_def finish_fail_def segment_landed [OF assms(1)] del: segment.simps)
  next
    assume "\<not> b \<and> other_holders r n st = [] \<and> logs = []
        \<and> st1 = st\<lparr>js_removing := insert (node_key n) (js_removing st)\<rparr>"
    with Some h assms show ?thesis by (auto simp: run_fail_def segment_defs)
  qed
qed

lemma segment_log: "segment st r d key (st', ts, effs) \<Longrightarrow> segment st r d key (st', ts, effs')"
  by simp

lemma segment_unchanged: "job_ok (job_at st r) \<Longrightarrow> segment st r d None (st, [], effs)"
  by (simp add: segment_defs)

lemma segment_run_except:
  assumes "r < length (js_heap st)" "job_ok (job_at st r)"
    and "\<forall>n. nid = Some n \<longrightarrow> j_status (job_at st r) \<in> {READING_DESCRIPTORS, CREATING_DEVICES} \<and> j_node_id (job_at st r) = Some n"
  shows "segment st r True None (run_except r nid exc env st)"
proof -
  have rf: "segment st r True None (run_fail r code m me nid now st)" for code m me now
    using segment_run_fail assms by auto
  show ?thesis
  proof (cases exc)
    case XCancelled
    then show ?thesis by (simp add: run_except_def Let_def segment_landed [OF assms(1)] del: segment.simps)
  next
    case (XCommission c m me)
    then show ?thesis using rf by (simp add: run_except_def Let_def del: segment.simps)
  next
    case XTimeout
    then show ?thesis
      by (cases nid) (simp_all add: run_except_def Let_def segment_landed [OF assms(1)] del: segment.simps)
  next
    case (XProtocol m code)
    then show ?thesis using rf segment_unchanged [OF assms(2)]
      by (cases "opt_int code") (simp_all add: run_except_def Let_def del: segment.simps)
  next
    case (XOther m ty)
    then show ?thesis using rf [of "''internal_error''" "exc_text exc" None "e_now env"]
      by (cases "run_fail r ''internal_error'' (exc_text exc) None nid (e_now env) st")
        (simp add: run_except_def Let_def)
  qed
qed

lemma segment_success:
  assumes "r < length (js_heap st)" "job_ok (job_at st r)" "j_status (job_at st r) = CREATING_DEVICES"
  shows "segment st r True None (land_success r nid c msg now st, [], effs)"
  using assms by (simp add: segment_defs land_success_def job_ok_land(2))

lemma job_ok_advance:
  "job_ok j \<Longrightarrow> j_status j \<notin> TERMINAL \<Longrightarrow> j_status j \<noteq> FAILED \<Longrightarrow> s \<notin> TERMINAL \<Longrightarrow>
   (s \<in> {READING_DESCRIPTORS, CREATING_DEVICES} \<longrightarrow> j_node_id j \<noteq> None) \<Longrightarrow> job_ok (advance_job s p m now j)"
  by (auto simp: job_ok_def advance_job_def TERMINAL_def Let_def)

lemma segment_remove_orphaned:
  assumes "r < length (js_heap st)" "job_ok (job_at st r)"
  shows "segment st r False None (remove_orphaned_node r nid env st)"
proof -
  obtain b st1 logs where h: "node_held_by_other_job r nid st = (b, st1, logs)"
    by (cases "node_held_by_other_job r nid st")
  from node_held_by_other_job_eq [OF h] h assms show ?thesis
    by (auto simp: remove_orphaned_node_def segment_defs clear_removing_def
        split: option.splits sum.splits bool.splits)
qed

lemma segment_after_clear:
  "segment (clear_removing nid st) r d None out \<Longrightarrow> segment st r d (Some (node_key nid)) out"
  by (cases out) (auto simp: segment_defs clear_removing_def)

lemma clear_removing_fields [simp]:
  "js_heap (clear_removing nid st) = js_heap st"
  "js_jobs (clear_removing nid st) = js_jobs st"
  "js_by_code (clear_removing nid st) = js_by_code st"
  "js_removing (clear_removing nid st) = js_removing st - {node_key nid}"
  by (simp_all add: clear_removing_def)

lemma segment_run_removed:
  assumes "r < length (js_heap st)" "job_ok (job_at st r)"
  shows "segment st r True (Some (node_key nid)) (run_removed r nid code m me env st exc)"
proof (rule segment_after_clear)
  let ?st = "clear_removing nid st"
  have landed: "segment ?st r True None (finish_fail r code m me (e_now env) ?st)"
    using segment_landed [of r ?st "[]"] assms(1) by (simp add: finish_fail_def del: segment.simps)
  then have logged: "segment ?st r True None
      (case finish_fail r code m me (e_now env) ?st of (st2, ts, effs) \<Rightarrow> (st2, ts, l # effs))" for l
    by (cases "finish_fail r code m me (e_now env) ?st") simp
  show "segment ?st r True None (run_removed r nid code m me env st exc)"
    using landed logged segment_unchanged [of ?st r True] assms(2)
    by (auto simp: run_removed_def Let_def simp del: segment.simps split: option.splits run_exc.splits)
qed

lemma segment_expire_woke:
  assumes "r < length (js_heap st)" "job_ok (job_at st r)"
  shows "segment st r False None (expire_woke r env st)"
proof -
  have "segment st r False None (case remove_orphaned_node r nid env st of (st1, ts, effs) \<Rightarrow> (st1, ts, l # effs))"
    for nid l
    using segment_remove_orphaned [OF assms, of nid env] by (cases "remove_orphaned_node r nid env st") simp
  then show ?thesis
    using segment_unchanged [of st r False] assms(2)
    by (simp add: expire_woke_def Let_def del: segment.simps split: option.split)
qed

lemma segment_run_commissioned:
  assumes "r < length (js_heap st)" "job_ok (job_at st r)" "j_status (job_at st r) = COMMISSIONING"
  shows "segment st r True None (run_commissioned r env st result)"
proof (cases "result_node_id result")
  case None
  then show ?thesis using segment_run_except [of r st None] assms
    by (simp add: run_commissioned_def del: segment.simps)
next
  case (Some nid)
  let ?j = "(job_at st r)\<lparr>j_node_id := Some nid\<rparr>"
  have "job_ok ?j" using assms by (auto simp: job_ok_def TERMINAL_def)
  then have "job_ok (advance_job READING_DESCRIPTORS p m now ?j)" for p m now
    by (rule job_ok_advance) (use assms in \<open>simp_all add: TERMINAL_def\<close>)
  with Some assms(1) show ?thesis
    by (simp add: run_commissioned_def advance_def set_node_id_def segment_defs)
qed

lemma segment_run_got_node:
  assumes "r < length (js_heap st)" "job_ok (job_at st r)"
    "j_status (job_at st r) = READING_DESCRIPTORS" "j_node_id (job_at st r) = Some nid"
  shows "segment st r True None (run_got_node r nid env st attrs)"
proof (cases "warn_if_fabric_slots_short (job_at st r) attrs nid")
  case (Inl e)
  then show ?thesis using segment_run_except [of r st "Some nid"] assms
    by (simp add: run_got_node_def del: segment.simps)
next
  case (Inr logs)
  have "job_ok (advance_job CREATING_DEVICES p m now (job_at st r))" for p m now
    by (rule job_ok_advance) (use assms in \<open>simp_all add: TERMINAL_def\<close>)
  with Inr assms show ?thesis by (simp add: run_got_node_def advance_def segment_defs)
qed

lemma segment_run_start:
  assumes "r < length (js_heap st)" "job_ok (job_at st r)" "j_status (job_at st r) = PENDING"
  shows "segment st r True None (run_start r env st)"
proof -
  have "job_ok (advance_job COMMISSIONING p m now (job_at st r))" for p m now
    by (rule job_ok_advance) (use assms in \<open>simp_all add: TERMINAL_def\<close>)
  with assms(1) show ?thesis by (simp add: run_start_def Let_def advance_def segment_defs)
qed

lemma segment_recon_created:
  assumes "r < length (js_heap st)" "job_ok (job_at st r)" "j_status (job_at st r) = CREATING_DEVICES"
  shows "segment st r True None (recon_created r nid env st ans)"
  using segment_success [OF assms] segment_landed [OF assms(1), of "[]"] segment_unchanged [OF assms(2)]
  by (auto simp: recon_created_def simp del: segment.simps split: sum.splits run_exc.splits)

theorem segment_resume:
  assumes "task_ok st t" "heap_ok st" "resume t env st ans = Some out"
  shows "segment st (task_ref t) (is_driver t) (removal_key t) out"
proof -
  have r: "task_ref t < length (js_heap st)" "expects t (job_at st (task_ref t))"
    using assms(1) by (simp_all add: task_ok_def)
  then have j: "job_ok (job_at st (task_ref t))" using assms(2) by (simp add: heap_ok_def)
  note [simp del] = segment.simps
  have same: "segment st q d None (st, [], effs)" if "q = task_ref t" for q d effs
    using segment_unchanged [of st q d] j that by (simp add: segment.simps)
  show ?thesis
  proof (cases t)
    case (RunStart r)
    with assms(3) j \<open>task_ref t < _\<close> \<open>expects t _\<close> show ?thesis
      by (auto simp: same segment_run_start split: sum.splits payload.splits run_exc.splits)
  next
    case (RunCommission r)
    with assms(3) j \<open>task_ref t < _\<close> \<open>expects t _\<close> show ?thesis
      by (auto simp: segment_run_commissioned segment_run_except split: sum.splits payload.splits)
  next
    case (RunGetNode r nid)
    with assms(3) j \<open>task_ref t < _\<close> \<open>expects t _\<close> show ?thesis
      by (auto simp: segment_run_got_node segment_run_except split: sum.splits payload.splits)
  next
    case (RunCreate r nid)
    with assms(3) j \<open>task_ref t < _\<close> \<open>expects t _\<close> show ?thesis
      by (auto simp: run_created_def segment_success segment_run_except
          intro: segment_log [OF segment_success] split: sum.splits payload.splits)
  next
    case (RunRemove r nid code m me)
    with assms(3) j \<open>task_ref t < _\<close> show ?thesis
      by (auto simp: segment_run_removed split: sum.splits payload.splits)
  next
    case (ReconStart r nid)
    with assms(3) j \<open>task_ref t < _\<close> \<open>expects t _\<close> show ?thesis
      by (auto simp: same recon_start_def segment.simps segment_defs split: sum.splits payload.splits run_exc.splits)
  next
    case (ReconCreate r nid)
    with assms(3) j \<open>task_ref t < _\<close> \<open>expects t _\<close> show ?thesis
      by (auto simp: segment_recon_created split: sum.splits payload.splits)
  next
    case (ExpireStart r)
    with assms(3) j show ?thesis
      by (auto simp: same segment.simps segment_defs split: sum.splits payload.splits run_exc.splits)
  next
    case (ExpireSleep r)
    with assms(3) j \<open>task_ref t < _\<close> show ?thesis
      by (auto simp: same segment_expire_woke split: sum.splits payload.splits)
  next
    case (ExpireRemove r nid checked)
    with assms(3) j show ?thesis
      by (auto simp: expire_removed_def intro!: segment_after_clear
          segment_log [OF segment_unchanged] split: sum.splits payload.splits)
  qed
qed

section \<open>The invariant\<close>

definition drivers :: "task list \<Rightarrow> jref list" where
  "drivers ts = map task_ref (filter is_driver ts)"

definition sys_ok :: "sys \<Rightarrow> bool" where
  "sys_ok s \<longleftrightarrow> table_ok (ss_jobs s) \<and> index_ok (ss_jobs s) \<and> heap_ok (ss_jobs s)
     \<and> (\<forall>t \<in> set (ss_tasks s). task_ok (ss_jobs s) t)
     \<and> distinct (drivers (ss_tasks s))
     \<and> (\<forall>k \<in> js_removing (ss_jobs s). Some k \<in> removal_key ` set (ss_tasks s))"

lemma sys_okI:
  assumes "table_ok (ss_jobs s)" "index_ok (ss_jobs s)" "heap_ok (ss_jobs s)"
    and "\<And>t. t \<in> set (ss_tasks s) \<Longrightarrow> task_ok (ss_jobs s) t"
    and "distinct (drivers (ss_tasks s))"
    and "\<And>k. k \<in> js_removing (ss_jobs s) \<Longrightarrow> Some k \<in> removal_key ` set (ss_tasks s)"
  shows "sys_ok s"
  using assms by (simp add: sys_ok_def)

lemma drivers_simps [simp]:
  "drivers [] = []"
  "drivers (t # ts) = (if is_driver t then task_ref t # drivers ts else drivers ts)"
  "drivers (ts @ us) = drivers ts @ drivers us"
  by (simp_all add: drivers_def)

lemma in_drivers: "r \<in> set (drivers ts) \<longleftrightarrow> (\<exists>t \<in> set ts. is_driver t \<and> task_ref t = r)"
  by (auto simp: drivers_def)

lemma sys_ok_init: "sys_ok sys_init"
  by (simp add: sys_ok_def sys_init_def heap_ok_def) (simp add: jobs_init_def)

text \<open>A coroutine whose own job did not change still finds what it expects.\<close>

lemma task_ok_frame:
  assumes "task_ok st t" "length (js_heap st) \<le> length (js_heap st')"
    and "is_driver t \<Longrightarrow> job_at st' (task_ref t) = job_at st (task_ref t)"
  shows "task_ok st' t"
proof (cases "is_driver t")
  case True
  with assms show ?thesis by (simp add: task_ok_def)
next
  case False
  with assms(1,2) show ?thesis by (cases t) (simp_all add: task_ok_def)
qed

lemma drivers_remove1: "set (drivers (remove1 t ts)) \<subseteq> set (drivers ts)"
  unfolding subset_iff in_drivers by (meson notin_set_remove1)

lemma driver_in: "t \<in> set ts \<Longrightarrow> is_driver t \<Longrightarrow> task_ref t \<in> set (drivers ts)"
  by (auto simp: in_drivers)

lemma distinct_drivers_remove1:
  "distinct (drivers ts) \<Longrightarrow> t \<in> set ts \<Longrightarrow>
     distinct (drivers (remove1 t ts)) \<and> (is_driver t \<longrightarrow> task_ref t \<notin> set (drivers (remove1 t ts)))"
proof (induction ts)
  case (Cons a ts)
  show ?case
  proof (cases "t = a")
    case False
    with Cons.prems have t: "t \<in> set ts" by simp
    have "task_ref a \<notin> set (drivers (remove1 t ts))" if "is_driver a"
      using Cons.prems that drivers_remove1 [of t ts] by auto
    moreover have "task_ref t \<noteq> task_ref a" if "is_driver a" "is_driver t"
      using Cons.prems that driver_in [OF t] by auto
    moreover have "distinct (drivers ts)" using Cons.prems by (simp split: if_splits)
    ultimately show ?thesis using Cons.IH t False by auto
  qed (use Cons.prems in \<open>auto split: if_splits\<close>)
qed simp

lemma keeps_same_table: "keeps_jobs st r d st' \<Longrightarrow> same_table st st'"
  unfolding keeps_jobs_def same_table_def by metis

lemma keeps_heap_ok: "keeps_jobs st r d st' \<Longrightarrow> heap_ok st \<Longrightarrow> heap_ok st'"
  unfolding keeps_jobs_def heap_ok_def by metis

lemma sys_ok_resume:
  assumes ok: "sys_ok s" and t: "t \<in> set (ss_tasks s)"
    and res: "resume t env (ss_jobs s) answer = Some (st', ts, effs)"
  shows "sys_ok \<lparr>ss_jobs = st', ss_tasks = remove1 t (ss_tasks s) @ ts\<rparr>"
proof -
  let ?st = "ss_jobs s" and ?r = "task_ref t" and ?rest = "remove1 t (ss_tasks s)"
  have tok: "task_ok ?st t" and hok: "heap_ok ?st" using ok t by (auto simp: sys_ok_def)
  have rl: "?r < length (js_heap ?st)" using tok by (simp add: task_ok_def)
  from segment_resume [OF tok hok res]
  have keep: "keeps_jobs ?st ?r (is_driver t) st'"
    and sp: "spawns st' ?r (is_driver t) ts" and mk: "marks ?st (removal_key t) st' ts"
    by auto
  have same: "same_table ?st st'" using keep by (rule keeps_same_table)
  have rest: "distinct (drivers ?rest) \<and> (is_driver t \<longrightarrow> ?r \<notin> set (drivers ?rest))"
    using ok t distinct_drivers_remove1 by (simp add: sys_ok_def)
  have "task_ok st' u" if u: "u \<in> set ?rest" for u
  proof (rule task_ok_frame)
    show "task_ok ?st u" using ok notin_set_remove1 [of u "ss_tasks s" t] u by (auto simp: sys_ok_def)
    show "length (js_heap ?st) \<le> length (js_heap st')" using keep by (simp add: keeps_jobs_def)
    show "job_at st' (task_ref u) = job_at ?st (task_ref u)" if "is_driver u"
    proof (cases "task_ref u = ?r")
      case True
      with rest driver_in [OF u that] have "\<not> is_driver t" by auto
      with keep True show ?thesis by (simp add: keeps_jobs_def)
    qed (use keep in \<open>simp add: keeps_jobs_def\<close>)
  qed
  moreover have "task_ok st' u" if "u \<in> set ts" for u
    using sp that rl keep by (auto simp: spawns_def task_ok_def keeps_jobs_def)
  moreover have "distinct (drivers (?rest @ ts))" using rest sp by (auto simp: spawns_def split: if_splits)
  moreover have "heap_ok st'" using keep hok by (rule keeps_heap_ok)
  moreover have "Some k \<in> removal_key ` set (?rest @ ts)" if "k \<in> js_removing st'" for k
  proof (cases "Some k \<in> removal_key ` set ts")
    case False
    with mk that have "k \<in> js_removing ?st" "removal_key t \<noteq> Some k" by (auto simp: marks_def)
    from ok this(1) have "Some k \<in> removal_key ` set (ss_tasks s)" by (simp add: sys_ok_def)
    then obtain u where u: "u \<in> set (ss_tasks s)" "Some k = removal_key u" by blast
    with \<open>removal_key t \<noteq> Some k\<close> have "u \<noteq> t" by auto
    with u(1) have "u \<in> set ?rest" by simp
    with u(2) show ?thesis by simp
  qed auto
  moreover have "table_ok st'" using same_table_ok [OF same] ok by (simp add: sys_ok_def)
  moreover have "index_ok st'" using same_table_index_ok [OF same] ok by (simp add: sys_ok_def)
  ultimately show ?thesis
    by (intro sys_okI) (auto simp only: sys.simps set_append Un_iff)
qed

lemma heap_ids_fresh:
  assumes "table_ok st" "jid \<notin> j_job_id ` set (js_heap st)"
  shows "jid \<notin> fst ` set (js_jobs st)"
proof
  assume "jid \<in> fst ` set (js_jobs st)"
  then obtain r where "(jid, r) \<in> set (js_jobs st)" by auto
  with assms(1) have "r < length (js_heap st)" "j_job_id (job_at st r) = jid"
    by (auto simp: table_ok_def)
  with assms(2) show False by (metis image_eqI nth_mem)
qed

lemma sys_ok_grown:
  assumes "sys_ok s" "table_ok st'" "index_ok st'" "js_removing st' = js_removing (ss_jobs s)"
    and "js_heap st' = js_heap (ss_jobs s) @ js" "\<forall>j \<in> set js. job_ok j"
  shows "sys_ok \<lparr>ss_jobs = st', ss_tasks = ss_tasks s\<rparr>"
proof -
  have at: "job_at st' r = job_at (ss_jobs s) r" if "r < length (js_heap (ss_jobs s))" for r
    using that assms(5) by (simp add: nth_append)
  have "heap_ok st'" using assms(1,5,6) by (auto simp: heap_ok_def sys_ok_def nth_append)
  moreover have "task_ok st' t" if "t \<in> set (ss_tasks s)" for t
  proof (rule task_ok_frame)
    show "task_ok (ss_jobs s) t" using assms(1) that by (simp add: sys_ok_def)
    then show "job_at st' (task_ref t) = job_at (ss_jobs s) (task_ref t)"
      using at by (simp add: task_ok_def)
  qed (use assms(5) in simp)
  ultimately show ?thesis using assms by (auto simp: sys_ok_def)
qed

lemma add_job_fields [simp]:
  "js_heap (add_job j st) = js_heap st @ [j]" "js_removing (add_job j st) = js_removing st"
  by (simp_all add: add_job_def)

lemma unadd_job_fields [simp]:
  "js_heap (unadd_job j st) = js_heap st" "js_removing (unadd_job j st) = js_removing st"
  by (simp_all add: unadd_job_def)

lemma sys_ok_create:
  assumes ok: "sys_ok s" and c: "create_job params up now jid sched (ss_jobs s) = (res, spawn, st')"
    and fresh: "jid \<notin> j_job_id ` set (js_heap (ss_jobs s))"
  shows "sys_ok \<lparr>ss_jobs = st', ss_tasks = ss_tasks s @ (case spawn of None \<Rightarrow> [] | Some r \<Rightarrow> [RunStart r])\<rparr>"
proof -
  let ?st = "ss_jobs s"
  have tok: "table_ok ?st" "index_ok ?st" using ok by (auto simp: sys_ok_def)
  have ok': "table_ok st'" "index_ok st'"
    using create_job_ok [OF c tok heap_ids_fresh [OF tok(1) fresh]] by auto
  from c show ?thesis
  proof (cases rule: create_job_cases)
    case unchanged
    with ok show ?thesis by (simp add: sys_ok_def)
  next
    case reaped
    with sys_ok_grown [OF ok ok', of "[]"] tok show ?thesis by simp
  next
    case (undone code name j)
    with sys_ok_grown [OF ok ok', of "[j]"] tok new_job_fields show ?thesis by simp
  next
    case (added code name j)
    with sys_ok_grown [OF ok ok', of "[j]"] tok new_job_fields(4)
    have grown: "sys_ok \<lparr>ss_jobs = st', ss_tasks = ss_tasks s\<rparr>" by simp
    have r: "spawn = Some (length (js_heap ?st))" using added tok by simp
    have "task_ok st' (RunStart (length (js_heap ?st)))"
      using added tok new_job_fields(3) by (simp add: task_ok_def nth_append)
    moreover have "length (js_heap ?st) \<notin> set (drivers (ss_tasks s))"
      using ok by (fastforce simp: in_drivers sys_ok_def task_ok_def)
    ultimately show ?thesis using grown r by (auto simp: sys_ok_def)
  qed
qed

text \<open>A job without a driver may be rewritten, as long as it stays well formed.\<close>

lemma sys_ok_rewrite:
  assumes ok: "sys_ok s" and r: "r < length (js_heap (ss_jobs s))" "r \<notin> set (drivers (ss_tasks s))"
    and j: "job_ok j" "j_job_id j = j_job_id (job_at (ss_jobs s) r)"
      "j_setup_code j = j_setup_code (job_at (ss_jobs s) r)"
  shows "sys_ok \<lparr>ss_jobs = put_job r j (ss_jobs s), ss_tasks = ss_tasks s\<rparr>"
proof (intro sys_okI; simp only: sys.simps)
  let ?st = "ss_jobs s"
  have same: "same_table ?st (put_job r j ?st)" using r j by (intro same_table_put_job)
  show "table_ok (put_job r j ?st)" using same_table_ok [OF same] ok by (simp add: sys_ok_def)
  show "index_ok (put_job r j ?st)" using same_table_index_ok [OF same] ok by (simp add: sys_ok_def)
  show "heap_ok (put_job r j ?st)" using heap_ok_put_job j ok by (simp add: sys_ok_def)
  show "task_ok (put_job r j ?st) t" if t: "t \<in> set (ss_tasks s)" for t
  proof (rule task_ok_frame)
    show "task_ok ?st t" using ok t by (simp add: sys_ok_def)
    show "job_at (put_job r j ?st) (task_ref t) = job_at ?st (task_ref t)" if "is_driver t"
    proof -
      have "task_ref t \<noteq> r" using driver_in [OF t that] r(2) by metis
      then show ?thesis by simp
    qed
  qed simp
  show "distinct (drivers (ss_tasks s))" using ok by (simp add: sys_ok_def)
  show "Some k \<in> removal_key ` set (ss_tasks s)" if "k \<in> js_removing (put_job r j ?st)" for k
    using ok that by (simp add: sys_ok_def)
qed

text \<open>A job with a driver is live.\<close>

lemma driven_live:
  "sys_ok s \<Longrightarrow> r \<in> set (drivers (ss_tasks s)) \<Longrightarrow>
     r < length (js_heap (ss_jobs s)) \<and> j_status (job_at (ss_jobs s) r) \<notin> TERMINAL"
  using expects_live by (fastforce simp: sys_ok_def in_drivers task_ok_def)

lemma job_ok_claim: "job_ok (claim_job nid j)"
  by (simp add: job_ok_def claim_job_def TERMINAL_def)

lemma claim_job_fields [simp]:
  "j_status (claim_job nid j) = CREATING_DEVICES" "j_node_id (claim_job nid j) = Some nid"
  "j_job_id (claim_job nid j) = j_job_id j" "j_setup_code (claim_job nid j) = j_setup_code j"
  by (simp_all add: claim_job_def)

lemma timed_out_terminal: "timed_out j \<Longrightarrow> j_status j \<in> TERMINAL"
  by (simp add: timed_out_def TERMINAL_def)

lemma sys_ok_node_added:
  assumes ok: "sys_ok s" and n: "reconcile_node_added raw now sched (ss_jobs s) = (claim, st', logs)"
  shows "sys_ok \<lparr>ss_jobs = st', ss_tasks = ss_tasks s @ recon_tasks claim raw\<rparr>"
proof (cases claim)
  case None
  with n reconcile_no_claim have "st' = ss_jobs s" by blast
  with None ok show ?thesis by (simp add: recon_tasks_def sys_ok_def)
next
  case (Some r)
  let ?st = "ss_jobs s"
  from reconcile_claims n Some obtain nid where raw: "raw = Some nid"
    and st': "st' = put_job r (claim_job nid (job_at ?st r)) ?st"
    and cand: "r \<in> set (timeout_candidates (Some (now - RECONCILE_WINDOW)) ?st)" by blast
  have "r \<in> snd ` set (js_jobs ?st)" and t: "timed_out (job_at ?st r)" using cand by (auto simp: set_candidates)
  then have r: "r < length (js_heap ?st)" using ok by (auto simp: sys_ok_def table_ok_def)
  have nd: "r \<notin> set (drivers (ss_tasks s))" using driven_live [OF ok] timed_out_terminal [OF t] by blast
  have "sys_ok \<lparr>ss_jobs = st', ss_tasks = ss_tasks s\<rparr>"
    unfolding st' using sys_ok_rewrite [OF ok r nd job_ok_claim] by simp
  moreover have "task_ok st' (ReconStart r nid)" using r by (simp add: task_ok_def st')
  ultimately show ?thesis using Some raw nd by (auto simp: sys_ok_def recon_tasks_def)
qed

lemma sys_ok_late:
  assumes ok: "sys_ok s" and l: "note_late_response ctx answer (ss_jobs s) = Inr (res, st', logs)"
  shows "sys_ok \<lparr>ss_jobs = st', ss_tasks = ss_tasks s\<rparr>"
  using l
proof (cases rule: note_late_cases)
  case unchanged
  with ok show ?thesis by (simp add: sys_ok_def)
next
  case (error jid r e)
  have r: "r < length (js_heap (ss_jobs s))" using ok error table_okD(1) by (auto simp: sys_ok_def)
  have nd: "r \<notin> set (drivers (ss_tasks s))" using driven_live [OF ok] timed_out_terminal error by blast
  have "job_ok (job_at (ss_jobs s) r)" using ok r by (simp add: sys_ok_def heap_ok_def)
  then have "job_ok ((job_at (ss_jobs s) r)\<lparr>j_error := Some e\<rparr>)"
    using error by (simp add: job_ok_def timed_out_def)
  with sys_ok_rewrite [OF ok r nd this] error show ?thesis by simp
next
  case (success jid r nid)
  let ?st = "ss_jobs s" and ?j = "(job_at (ss_jobs s) r)\<lparr>j_node_id := Some nid\<rparr>"
  have r: "r < length (js_heap ?st)" using ok success table_okD(1) by (auto simp: sys_ok_def)
  have same: "same_table ?st st'" using r success by auto
  have "job_ok (job_at ?st r)" using ok r by (simp add: sys_ok_def heap_ok_def)
  then have "job_ok ?j" by (auto simp: job_ok_def)
  then have heap: "heap_ok st'" using heap_ok_put_job ok success by (simp add: sys_ok_def)
  show ?thesis
  proof (intro sys_okI; simp only: sys.simps)
    show "table_ok st'" using same_table_ok [OF same] ok by (simp add: sys_ok_def)
    show "index_ok st'" using same_table_index_ok [OF same] ok by (simp add: sys_ok_def)
    show "task_ok st' t" if t: "t \<in> set (ss_tasks s)" for t
    proof -
      have "task_ok ?st t" using ok t by (simp add: sys_ok_def)
      then show ?thesis using success r
        by (cases t; cases "task_ref t = r") (auto simp: task_ok_def)
    qed
    show "distinct (drivers (ss_tasks s))" using ok by (simp add: sys_ok_def)
    show "Some k \<in> removal_key ` set (ss_tasks s)" if "k \<in> js_removing st'" for k
      using ok that success by (simp add: sys_ok_def)
  qed (rule heap)
qed

lemma sys_ok_poll:
  assumes ok: "sys_ok s" and p: "get_job jid now now_utc (ss_jobs s) = (res, st')"
  shows "sys_ok \<lparr>ss_jobs = st', ss_tasks = ss_tasks s\<rparr>"
proof -
  have "st' = reap now (ss_jobs s)" using p by (auto simp: get_job_def Let_def split: option.splits)
  with sys_ok_grown [OF ok, of st' "[]"] ok show ?thesis by (auto simp: sys_ok_def)
qed

lemma sys_ok_step:
  assumes "sys_step s ev effs s'" "sys_ok s"
  shows "sys_ok s'"
  using assms
  by (cases rule: sys_step.cases)
    (auto intro: sys_ok_create sys_ok_poll sys_ok_node_added sys_ok_late sys_ok_resume)

lemma sys_ok_reachable: "reachable P s \<Longrightarrow> sys_ok s"
  by (induction rule: reachable.induct) (auto intro: sys_ok_init sys_ok_step)

text \<open>C38: in every reachable state, whatever the requests, answers and interleaving: the job table
  maps each id to its own job and the index by setup code only names tracked jobs of that
  code; every job is well formed; each suspended coroutine finds its job in the state it
  expects; no job is driven by two coroutines; and a node marked as being removed has a
  removal in flight.\<close>

theorem reachable_ok:
  assumes "reachable P s"
  shows "table_ok (ss_jobs s) \<and> index_ok (ss_jobs s) \<and> heap_ok (ss_jobs s)
    \<and> (\<forall>t \<in> set (ss_tasks s). task_ok (ss_jobs s) t)
    \<and> distinct (map task_ref (filter is_driver (ss_tasks s)))
    \<and> js_removing (ss_jobs s) \<subseteq> {k. Some k \<in> removal_key ` set (ss_tasks s)}"
  using sys_ok_reachable [OF assms] by (auto simp: sys_ok_def drivers_def)

section \<open>Removals\<close>

definition removal_sent :: "jobs_state \<Rightarrow> jref \<Rightarrow> node_id \<Rightarrow> outcome \<Rightarrow> bool" where
  "removal_sent st r nid out \<longleftrightarrow> (case out of (st', ts, effs) \<Rightarrow>
     other_holders r nid st = [] \<and> js_jobs st' = js_jobs st \<and> js_heap st' = js_heap st
     \<and> node_key nid \<in> js_removing st' \<and> (\<exists>t \<in> set ts. removal_key t = Some (node_key nid)))"

lemma run_fail_removal:
  assumes "run_fail r code m me n now st = (st', ts, effs)" "RpcRemoveNode r' nid \<in> set effs"
  shows "r' = r \<and> n = Some nid \<and> removal_sent st r nid (st', ts, effs)"
proof (cases n)
  case None
  with assms show ?thesis by (auto simp: run_fail_def finish_fail_def)
next
  case (Some k)
  obtain b st1 logs where h: "node_held_by_other_job r k st = (b, st1, logs)"
    by (cases "node_held_by_other_job r k st")
  from node_held_by_other_job_eq [OF h] h Some assms show ?thesis
    by (auto simp: run_fail_def finish_fail_def removal_sent_def)
qed

lemma run_except_removal:
  assumes "run_except r n exc env st = (st', ts, effs)" "RpcRemoveNode r' nid \<in> set effs"
  shows "r' = r \<and> n = Some nid \<and> removal_sent st r nid (st', ts, effs)"
proof (cases exc)
  case (XOther m ty)
  obtain st1 ts1 effs1 where
    f: "run_fail r ''internal_error'' (exc_text exc) None n (e_now env) st = (st1, ts1, effs1)"
    by (cases "run_fail r ''internal_error'' (exc_text exc) None n (e_now env) st")
  with XOther assms have e: "st' = st1" "ts = ts1" "effs = Log LogException # effs1"
    by (simp_all add: run_except_def Let_def)
  with assms(2) have "RpcRemoveNode r' nid \<in> set effs1" by simp
  from run_fail_removal [OF f this] e show ?thesis by (simp add: removal_sent_def)
qed (use assms in \<open>auto simp: run_except_def Let_def dest: run_fail_removal split: option.splits sum.splits if_splits\<close>)

lemma remove_orphaned_removal:
  assumes "remove_orphaned_node r n env st = (st', ts, effs)" "RpcRemoveNode r' nid \<in> set effs"
  shows "r' = r \<and> n = nid \<and> removal_sent st r nid (st', ts, effs)"
proof -
  obtain b st1 logs where h: "node_held_by_other_job r n st = (b, st1, logs)"
    by (cases "node_held_by_other_job r n st")
  from node_held_by_other_job_eq [OF h] h assms show ?thesis
    by (auto simp: remove_orphaned_node_def removal_sent_def split: option.splits sum.splits bool.splits)
qed

lemma expire_woke_removal:
  assumes "expire_woke r env st = (st', ts, effs)" "RpcRemoveNode r' nid \<in> set effs"
  shows "r' = r \<and> j_node_id (job_at st r) = Some nid \<and> removal_sent st r nid (st', ts, effs)"
proof -
  from assms obtain n where n: "j_node_id (job_at st r) = Some n"
    by (auto simp: expire_woke_def Let_def split: if_splits option.splits)
  obtain st1 ts1 effs1 where o: "remove_orphaned_node r n env st = (st1, ts1, effs1)"
    by (cases "remove_orphaned_node r n env st")
  from assms n o have e: "st' = st1" "ts = ts1"
    and "effs = Log (LogWindowClosedNode (j_job_id (job_at st r)) (node_id_to_str n)) # effs1"
    by (auto simp: expire_woke_def Let_def split: if_splits)
  with assms(2) have "RpcRemoveNode r' nid \<in> set effs1" by simp
  from remove_orphaned_removal [OF o this] n e show ?thesis by (simp add: removal_sent_def)
qed

lemma resume_removal:
  assumes "task_ok st t" "resume t env st ans = Some (st', ts, effs)" "RpcRemoveNode r nid \<in> set effs"
  shows "j_node_id (job_at st r) = Some nid \<and> removal_sent st r nid (st', ts, effs)"
proof (cases t)
  case (RunStart q)
  with assms show ?thesis by (auto simp: run_start_def Let_def split: sum.splits payload.splits run_exc.splits)
next
  case (RunCommission q)
  with assms show ?thesis
    by (auto simp: run_commissioned_def split: sum.splits payload.splits option.splits dest: run_except_removal)
next
  case (RunGetNode q n)
  with assms show ?thesis
    by (auto simp: run_got_node_def task_ok_def split: sum.splits payload.splits option.splits dest: run_except_removal)
next
  case (RunCreate q n)
  with assms show ?thesis
    by (auto simp: run_created_def task_ok_def split: sum.splits payload.splits dest: run_except_removal)
next
  case (RunRemove q n code m me)
  with assms show ?thesis
    by (auto simp: run_removed_def finish_fail_def Let_def split: sum.splits payload.splits run_exc.splits)
next
  case (ReconStart q n)
  with assms show ?thesis by (auto simp: recon_start_def split: sum.splits payload.splits run_exc.splits)
next
  case (ReconCreate q n)
  with assms show ?thesis
    by (auto simp: recon_created_def split: sum.splits payload.splits run_exc.splits)
next
  case (ExpireStart q)
  with assms show ?thesis by (auto split: sum.splits payload.splits run_exc.splits)
next
  case (ExpireSleep q)
  with assms show ?thesis
    by (auto split: sum.splits payload.splits if_splits dest: expire_woke_removal)
next
  case (ExpireRemove q n c)
  with assms show ?thesis
    by (auto simp: expire_removed_def split: sum.splits payload.splits run_exc.splits)
qed

lemma step_effects:
  assumes "sys_step s ev effs s'" "RpcRemoveNode r nid \<in> set effs"
  obtains t env ans st' ts where "ev = EvResume t env ans" "t \<in> set (ss_tasks s)"
    "resume t env (ss_jobs s) ans = Some (st', ts, effs)"
    "s' = \<lparr>ss_jobs = st', ss_tasks = remove1 t (ss_tasks s) @ ts\<rparr>"
  using assms by (cases rule: sys_step.cases) auto

text \<open>C1: a remove-node command is only ever sent for the node its own job recorded, when no other
  tracked job that has not failed holds that node, and the step that sends it leaves the
  node marked as being removed, with a suspended coroutine that owns the mark.\<close>

theorem removal_exclusive:
  assumes "reachable P s" "sys_step s ev effs s'" "RpcRemoveNode r nid \<in> set effs"
  shows "j_node_id (job_at (ss_jobs s') r) = Some nid
    \<and> (\<forall>r' \<in> snd ` set (js_jobs (ss_jobs s')). r' \<noteq> r \<and> holds_node (ss_jobs s') nid r'
          \<longrightarrow> j_status (job_at (ss_jobs s') r') = FAILED)
    \<and> node_key nid \<in> js_removing (ss_jobs s')
    \<and> (\<exists>t \<in> set (ss_tasks s'). removal_key t = Some (node_key nid))"
  using assms(2,3)
proof (cases rule: step_effects)
  case (1 t env ans st' ts)
  have "task_ok (ss_jobs s) t" using sys_ok_reachable [OF assms(1)] 1 by (simp add: sys_ok_def)
  from resume_removal [OF this 1(3) assms(3)] 1(4) show ?thesis
    by (fastforce simp: removal_sent_def other_holders_def filter_empty_conv holds_node_def)
qed

text \<open>While a node is marked as being removed, a report that it joined changes nothing and
  starts nothing, whichever jobs are waiting for a late join.\<close>

theorem removing_blocks_claim:
  assumes "sys_step s (EvNodeAdded (Some nid) now sched) effs s'" "node_key nid \<in> js_removing (ss_jobs s)"
  shows "ss_jobs s' = ss_jobs s \<and> ss_tasks s' = ss_tasks s"
proof -
  from assms(1) obtain claim st' logs where
    n: "reconcile_node_added (Some nid) now sched (ss_jobs s) = (claim, st', logs)"
    and s': "s' = \<lparr>ss_jobs = st', ss_tasks = ss_tasks s @ recon_tasks claim (Some nid)\<rparr>"
    by (auto elim: node_added_stepE)
  have "claim = None" using n assms(2) reconcile_claims by (cases claim) blast+
  with n s' reconcile_no_claim show ?thesis by (auto simp: recon_tasks_def)
qed

section \<open>A success is final\<close>

lemma create_job_keeps:
  assumes "create_job params up now jid sched st = (res, spawn, st')" "table_ok st" "index_ok st"
    "r < length (js_heap st)"
  shows "job_at st' r = job_at st r"
  using assms(1) by (cases rule: create_job_cases) (use assms(2-) in \<open>auto simp: nth_append\<close>)

lemma get_job_keeps:
  assumes "get_job jid now now_utc st = (res, st')" "table_ok st" "index_ok st"
  shows "js_heap st' = js_heap st"
  using assms by (auto simp: get_job_def Let_def split: option.splits)

lemma node_added_keeps:
  assumes "reconcile_node_added raw now sched st = (claim, st', logs)" "j_status (job_at st r) \<noteq> FAILED"
  shows "job_at st' r = job_at st r"
proof (cases claim)
  case None
  with assms(1) reconcile_no_claim show ?thesis by blast
next
  case (Some q)
  from reconcile_claims assms(1) Some obtain nid where st': "st' = put_job q (claim_job nid (job_at st q)) st"
    and "q \<in> set (timeout_candidates (Some (now - RECONCILE_WINDOW)) st)" by blast
  with assms(2) have "q \<noteq> r" by (auto simp: set_candidates timed_out_def)
  with st' show ?thesis by simp
qed

lemma late_keeps_success:
  assumes "note_late_response ctx answer st = Inr (res, st', logs)"
    and "j_status (job_at st r) = SUCCESS" "job_ok (job_at st r)"
  shows "job_at st' r = job_at st r"
  using assms(1)
proof (cases rule: note_late_cases)
  case (error jid q e)
  with assms(2) have "q \<noteq> r" by (auto simp: timed_out_def)
  with error show ?thesis by simp
next
  case (success jid q nid)
  have "j_node_id (job_at st r) \<noteq> None" using assms(2,3) unfolding job_ok_def by blast
  with success(2) have "q \<noteq> r" by metis
  with success show ?thesis by simp
qed simp

lemma resume_keeps_terminal:
  assumes "task_ok st t" "heap_ok st" "resume t env st ans = Some (st', ts, effs)"
    and "j_status (job_at st r) \<in> TERMINAL"
  shows "job_at st' r = job_at st r"
proof -
  have keep: "keeps_jobs st (task_ref t) (is_driver t) st'" using segment_resume [OF assms(1-3)] by simp
  show ?thesis
  proof (cases "task_ref t = r")
    case True
    with assms(1,4) expects_live have "\<not> is_driver t" by (auto simp: task_ok_def)
    with True keep show ?thesis by (simp add: keeps_jobs_def)
  qed (use keep in \<open>simp add: keeps_jobs_def\<close>)
qed

text \<open>A job that has succeeded is never changed again by any event: no late answer, node-added
  report, watchdog or other request touches its status, result, node or error.\<close>

theorem success_final:
  assumes "reachable P s" "sys_step s ev effs s'"
    and "r < length (js_heap (ss_jobs s))" "j_status (job_at (ss_jobs s) r) = SUCCESS"
  shows "job_at (ss_jobs s') r = job_at (ss_jobs s) r"
proof -
  have ok: "sys_ok s" using assms(1) by (rule sys_ok_reachable)
  then have tab: "table_ok (ss_jobs s)" "index_ok (ss_jobs s)" and heap: "heap_ok (ss_jobs s)"
    and tasks: "\<And>t. t \<in> set (ss_tasks s) \<Longrightarrow> task_ok (ss_jobs s) t"
    by (auto simp: sys_ok_def)
  have j: "job_ok (job_at (ss_jobs s) r)" using heap assms(3) by (simp add: heap_ok_def)
  from assms(2) show ?thesis
  proof (cases rule: sys_step.cases)
    case (step_create params up now jid sched res spawn st')
    with create_job_keeps [OF step_create(4) tab assms(3)] show ?thesis by simp
  next
    case (step_poll jid now now_utc res st')
    with get_job_keeps [OF step_poll(4) tab] show ?thesis by simp
  next
    case (step_node_added raw now sched claim st' logs)
    with node_added_keeps [OF step_node_added(4), of r] assms(4) show ?thesis by simp
  next
    case (step_late ctx answer res st' logs)
    with late_keeps_success [OF step_late(4) assms(4) j] show ?thesis by simp
  next
    case (step_resume t env answer st' ts)
    with resume_keeps_terminal [OF tasks heap step_resume(4), of r] assms(4) show ?thesis
      by (simp add: TERMINAL_def)
  qed simp
qed

section \<open>Work runs out\<close>

text \<open>How many more times a coroutine, with those it spawns, can be resumed.\<close>

fun task_weight :: "task \<Rightarrow> nat" where
  "task_weight (RunStart _) = 5"
| "task_weight (RunCommission _) = 4"
| "task_weight (RunGetNode _ _) = 3"
| "task_weight (RunCreate _ _) = 2"
| "task_weight (RunRemove _ _ _ _ _) = 1"
| "task_weight (ReconStart _ _) = 2"
| "task_weight (ReconCreate _ _) = 1"
| "task_weight (ExpireStart _) = 3"
| "task_weight (ExpireSleep _) = 2"
| "task_weight (ExpireRemove _ _ _) = 1"

definition work :: "task list \<Rightarrow> nat" where
  "work ts = sum_list (map task_weight ts)"

lemma work_simps [simp]:
  "work [] = 0" "work (t # ts) = task_weight t + work ts" "work (ts @ us) = work ts + work us"
  by (simp_all add: work_def)

lemma work_remove1: "t \<in> set ts \<Longrightarrow> work (remove1 t ts) + task_weight t = work ts"
  by (induction ts) auto

lemma run_fail_work: "run_fail r code m me n now st = (st', ts, effs) \<Longrightarrow> work ts \<le> 1"
  by (auto simp: run_fail_def finish_fail_def split: option.splits prod.splits bool.splits)

lemma run_except_work:
  "run_except r n exc env st = (st', ts, effs) \<Longrightarrow> work ts \<le> (if n = None then 3 else 1)"
  by (cases exc)
    (auto simp: run_except_def Let_def dest: run_fail_work split: option.splits sum.splits prod.splits if_splits)

lemma remove_orphaned_work: "remove_orphaned_node r n env st = (st', ts, effs) \<Longrightarrow> work ts \<le> 1"
  by (auto simp: remove_orphaned_node_def split: option.splits sum.splits prod.splits bool.splits)

lemma expire_woke_work: "expire_woke r env st = (st', ts, effs) \<Longrightarrow> work ts \<le> 1"
  by (auto simp: expire_woke_def Let_def dest: remove_orphaned_work split: if_splits option.splits prod.splits)

lemma finish_fail_work: "finish_fail r code m me now st = (st', ts, effs) \<Longrightarrow> ts = []"
  by (simp add: finish_fail_def)

lemma resume_work:
  assumes "resume t env st ans = Some (st', ts, effs)"
  shows "work ts < task_weight t"
proof (cases t)
  case (RunCommission q)
  with assms show ?thesis
    by (auto simp: run_commissioned_def dest!: run_except_work split: sum.splits payload.splits option.splits)
next
  case (RunGetNode q n)
  with assms show ?thesis
    by (auto simp: run_got_node_def dest!: run_except_work split: sum.splits payload.splits)
next
  case (RunRemove q n code m me)
  with assms show ?thesis
    by (auto simp: run_removed_def Let_def dest!: finish_fail_work split: sum.splits payload.splits run_exc.splits prod.splits option.splits)
qed (use assms in \<open>auto simp: run_start_def Let_def recon_start_def run_created_def recon_created_def
      expire_removed_def dest!: run_except_work expire_woke_work
      split: sum.splits payload.splits run_exc.splits\<close>)

fun resumes :: "event \<Rightarrow> nat" where
  "resumes (EvResume _ _ _) = 1"
| "resumes _ = 0"

fun grants :: "event \<Rightarrow> nat" where
  "grants (EvCreate _ _ _ _ _) = 5"
| "grants (EvNodeAdded _ _ _) = 2"
| "grants _ = 0"

lemma step_work:
  assumes "sys_step s ev effs s'"
  shows "work (ss_tasks s') + resumes ev \<le> work (ss_tasks s) + grants ev"
  using assms
proof (cases rule: sys_step.cases)
  case (step_resume t env answer st' ts)
  with resume_work [OF step_resume(4)] work_remove1 [OF step_resume(3)] show ?thesis by simp
qed (auto simp: recon_tasks_def split: option.splits)

inductive runs :: "sys \<Rightarrow> event list \<Rightarrow> sys \<Rightarrow> bool" where
  runs_nil: "runs s [] s"
| runs_snoc: "runs s evs s' \<Longrightarrow> sys_step s' ev effs s'' \<Longrightarrow> runs s (evs @ [ev]) s''"

text \<open>The coroutines cannot run for ever: in a run from the initial state, the number of
  resumptions is at most five for each create request and two for each node-added report, and
  what is still suspended counts against the same budget.\<close>

theorem work_bounded:
  assumes "runs sys_init evs s"
  shows "sum_list (map resumes evs) + work (ss_tasks s) \<le> sum_list (map grants evs)"
  using assms
proof (induction sys_init evs s rule: runs.induct)
  case runs_nil
  show ?case by (simp add: sys_init_def)
next
  case (runs_snoc evs s' ev effs s'')
  with step_work [OF runs_snoc(3)] show ?case by simp
qed

section \<open>Every running job has a driver\<close>

text \<open>The answers after which a coroutine leaves its job running with nobody to land it: a
  cancellation outside the \<open>try\<close> of \<open>_run_job\<close> (before its first step, during the removal in
  \<open>_fail\<close>, in the reconcile coroutine), and a \<open>ProtocolError\<close> whose code is an infinite float.\<close>

fun strands :: "task \<Rightarrow> run_exc + payload \<Rightarrow> bool" where
  "strands t (Inl XCancelled) =
     (case t of RunStart _ \<Rightarrow> True | RunRemove _ _ _ _ _ \<Rightarrow> True | ReconStart _ _ \<Rightarrow> True
              | ReconCreate _ _ \<Rightarrow> True | _ \<Rightarrow> False)"
| "strands t (Inl (XProtocol _ c)) =
     ((case t of RunCommission _ \<Rightarrow> True | RunGetNode _ _ \<Rightarrow> True | RunCreate _ _ \<Rightarrow> True | _ \<Rightarrow> False)
      \<and> infinite_float c)"
| "strands t _ = False"

fun orderly :: "event \<Rightarrow> bool" where
  "orderly (EvResume t env answer) = (\<not> strands t answer)"
| "orderly _ = True"

definition lands :: "jref \<Rightarrow> outcome \<Rightarrow> bool" where
  "lands r out \<longleftrightarrow> (case out of (st', ts, effs) \<Rightarrow>
     j_status (job_at st' r) \<in> TERMINAL \<or> r \<in> set (drivers ts))"

lemma lands_failed [simp]: "r < length (js_heap st) \<Longrightarrow> lands r (land_failed r c m me now st, ts, effs)"
  by (simp add: lands_def land_failed_def TERMINAL_def Let_def)

lemma lands_success [simp]: "r < length (js_heap st) \<Longrightarrow> lands r (land_success r n c m now st, ts, effs)"
  by (simp add: lands_def land_success_def TERMINAL_def)

lemma lands_finish_fail: "r < length (js_heap st) \<Longrightarrow> lands r (finish_fail r code m me now st)"
  by (simp add: finish_fail_def)

lemma lands_run_fail:
  assumes "r < length (js_heap st)"
  shows "lands r (run_fail r code m me n now st)"
proof (cases n)
  case (Some k)
  obtain b st1 logs where h: "node_held_by_other_job r k st = (b, st1, logs)"
    by (cases "node_held_by_other_job r k st")
  from node_held_by_other_job_eq [OF h] h Some assms show ?thesis
    by (auto simp: run_fail_def finish_fail_def) (simp add: lands_def)
qed (use assms in \<open>simp add: run_fail_def lands_finish_fail\<close>)

lemma lands_logged: "lands r (st', ts, effs) \<Longrightarrow> lands r (st', ts, effs')"
  by (simp add: lands_def)

lemma lands_run_except:
  assumes "r < length (js_heap st)" "\<And>m c. exc = XProtocol m c \<Longrightarrow> \<not> infinite_float c"
  shows "lands r (run_except r n exc env st)"
proof (cases exc)
  case (XProtocol m c)
  with assms(2) obtain me where "opt_int c = Inr me"
    by (cases "opt_int c") (auto simp: infinite_float_def dest: opt_int_overflow)
  with XProtocol assms(1) show ?thesis by (simp add: run_except_def Let_def lands_run_fail)
next
  case (XOther m ty)
  have "lands r (run_fail r ''internal_error'' (exc_text exc) None n (e_now env) st)"
    using assms(1) by (rule lands_run_fail)
  with XOther show ?thesis
    by (auto simp: run_except_def Let_def intro: lands_logged split: prod.split)
qed (use assms(1) in \<open>auto simp: run_except_def Let_def lands_run_fail split: option.split\<close>)

lemma lands_run_removed:
  assumes "r < length (js_heap st)" "exc \<noteq> Some XCancelled"
  shows "lands r (run_removed r nid code m me env st exc)"
proof -
  have f: "lands r (finish_fail r code m me (e_now env) (clear_removing nid st))"
    using assms(1) by (simp add: lands_finish_fail)
  then have "lands r (case finish_fail r code m me (e_now env) (clear_removing nid st) of
      (st2, ts, effs) \<Rightarrow> (st2, ts, l # effs))" for l
    by (auto intro: lands_logged split: prod.split)
  with f assms(2) show ?thesis
    by (simp add: run_removed_def Let_def split: option.split run_exc.split)
qed

lemma resume_lands:
  assumes "task_ok st t" "resume t env st ans = Some out" "is_driver t" "\<not> strands t ans"
  shows "lands (task_ref t) out"
proof -
  have r: "task_ref t < length (js_heap st)" using assms(1) by (simp add: task_ok_def)
  have exc: "lands (task_ref t) (run_except (task_ref t) n exc env st)"
    if "ans = Inl exc" "t = RunCommission q \<or> t = RunGetNode q k \<or> t = RunCreate q k" for n exc q k
    using r assms(4) that by (intro lands_run_except) auto
  show ?thesis
  proof (cases t)
    case (RunStart q)
    with assms show ?thesis
      by (auto simp: run_start_def lands_def Let_def split: sum.splits payload.splits run_exc.splits)
  next
    case (RunCommission q)
    with assms(2) exc lands_run_except [OF r] show ?thesis
      by (auto simp: run_commissioned_def split: sum.splits payload.splits option.splits)
        (auto simp: lands_def)
  next
    case (RunGetNode q k)
    with assms(2) exc lands_run_except [OF r] show ?thesis
      by (auto simp: run_got_node_def split: sum.splits payload.splits)
        (auto simp: lands_def)
  next
    case (RunCreate q k)
    with assms(2) exc r show ?thesis
      by (auto simp: run_created_def split: sum.splits payload.splits)
  next
    case (RunRemove q k code m me)
    with assms(2,4) r show ?thesis
      by (auto intro!: lands_run_removed split: sum.splits payload.splits)
  next
    case (ReconStart q k)
    with assms show ?thesis
      by (auto simp: recon_start_def lands_def split: sum.splits payload.splits run_exc.splits)
  next
    case (ReconCreate q k)
    with assms(2,4) r show ?thesis
      by (auto simp: recon_created_def split: sum.splits payload.splits run_exc.splits)
  qed (use assms(3) in simp_all)
qed

definition driven :: "sys \<Rightarrow> bool" where
  "driven s \<longleftrightarrow> (\<forall>r \<in> snd ` set (js_jobs (ss_jobs s)).
     j_status (job_at (ss_jobs s) r) \<notin> TERMINAL \<longrightarrow> r \<in> set (drivers (ss_tasks s)))"

lemma drivenD:
  "driven s \<Longrightarrow> r \<in> snd ` set (js_jobs (ss_jobs s)) \<Longrightarrow>
     j_status (job_at (ss_jobs s) r) \<notin> TERMINAL \<Longrightarrow> r \<in> set (drivers (ss_tasks s))"
  unfolding driven_def by blast

lemma reap_refs_sub:
  "table_ok st \<Longrightarrow> index_ok st \<Longrightarrow> snd ` set (js_jobs (reap now st)) \<subseteq> snd ` set (js_jobs st)"
  by (auto simp: reap_eq without_ids_def)

lemma driven_resume:
  assumes ok: "sys_ok s" and d: "driven s" and t: "t \<in> set (ss_tasks s)"
    and res: "resume t env (ss_jobs s) ans = Some (st', ts, effs)" and "\<not> strands t ans"
  shows "driven \<lparr>ss_jobs = st', ss_tasks = remove1 t (ss_tasks s) @ ts\<rparr>"
  unfolding driven_def sys.simps
proof (intro ballI impI)
  fix r assume r: "r \<in> snd ` set (js_jobs st')" and live: "j_status (job_at st' r) \<notin> TERMINAL"
  have tok: "task_ok (ss_jobs s) t" and hok: "heap_ok (ss_jobs s)" using ok t by (auto simp: sys_ok_def)
  have keep: "keeps_jobs (ss_jobs s) (task_ref t) (is_driver t) st'" using segment_resume [OF tok hok res] by simp
  show "r \<in> set (drivers (remove1 t (ss_tasks s) @ ts))"
  proof (cases "is_driver t \<and> task_ref t = r")
    case True
    with resume_lands [OF tok res] assms(5) live show ?thesis by (auto simp: lands_def)
  next
    case False
    with keep have "job_at st' r = job_at (ss_jobs s) r"
      by (cases "r = task_ref t") (auto simp: keeps_jobs_def)
    with r live keep have "r \<in> set (drivers (ss_tasks s))"
      by (intro drivenD [OF d]) (simp_all add: keeps_jobs_def)
    then obtain u where "u \<in> set (ss_tasks s)" "is_driver u" "task_ref u = r" by (auto simp: in_drivers)
    with False have "u \<in> set (remove1 t (ss_tasks s))" by (cases "u = t") auto
    with \<open>is_driver u\<close> \<open>task_ref u = r\<close> show ?thesis by (auto simp: in_drivers)
  qed
qed

lemma driven_frame:
  assumes "driven s" "snd ` set (js_jobs st') \<subseteq> snd ` set (js_jobs (ss_jobs s))"
    and "\<And>r. r \<in> snd ` set (js_jobs st') \<Longrightarrow> j_status (job_at st' r) = j_status (job_at (ss_jobs s) r)"
  shows "driven \<lparr>ss_jobs = st', ss_tasks = ss_tasks s @ ts\<rparr>"
  unfolding driven_def sys.simps
proof (intro ballI impI)
  fix r assume r: "r \<in> snd ` set (js_jobs st')" and "j_status (job_at st' r) \<notin> TERMINAL"
  with assms(3) have "j_status (job_at (ss_jobs s) r) \<notin> TERMINAL" by metis
  with assms(1,2) r have "r \<in> set (drivers (ss_tasks s))" unfolding driven_def by blast
  then show "r \<in> set (drivers (ss_tasks s @ ts))" by simp
qed

lemma add_job_refs:
  "table_ok st \<Longrightarrow> j_job_id j \<notin> fst ` set (js_jobs st) \<Longrightarrow>
     snd ` set (js_jobs (add_job j st)) = insert (length (js_heap st)) (snd ` set (js_jobs st))"
  by (simp add: add_job_def update_fresh)

lemma table_refs: "table_ok st \<Longrightarrow> r \<in> snd ` set (js_jobs st) \<Longrightarrow> r < length (js_heap st)"
  by (auto simp: table_ok_def)

lemma driven_create:
  assumes ok: "sys_ok s" and d: "driven s"
    and c: "create_job params up now jid sched (ss_jobs s) = (res, spawn, st')"
    and fresh: "jid \<notin> j_job_id ` set (js_heap (ss_jobs s))"
  shows "driven \<lparr>ss_jobs = st', ss_tasks = ss_tasks s @ (case spawn of None \<Rightarrow> [] | Some r \<Rightarrow> [RunStart r])\<rparr>"
proof -
  let ?st = "ss_jobs s"
  have tok: "table_ok ?st" "index_ok ?st" using ok by (auto simp: sys_ok_def)
  have free: "jid \<notin> fst ` set (js_jobs (reap now ?st))"
    using heap_ids_fresh [OF tok(1) fresh] reap_ids_sub [OF tok] by blast
  have keep: "job_at st' r = job_at ?st r" if "r \<in> snd ` set (js_jobs ?st)" for r
    using create_job_keeps [OF c tok] table_refs [OF tok(1)] that by blast
  have framed: ?thesis if "snd ` set (js_jobs st') \<subseteq> snd ` set (js_jobs ?st)"
    by (rule driven_frame [OF d that]) (use that keep in \<open>simp add: subset_iff\<close>)
  from c show ?thesis
  proof (cases rule: create_job_cases)
    case (undone code name j)
    have "js_jobs st' = js_jobs (reap now ?st)"
      using undone free new_job_fields(1) by (simp add: unadd_add_job)
    with framed reap_refs_sub [OF tok] show ?thesis by simp
  next
    case (added code name j)
    have refs: "snd ` set (js_jobs st') = insert (length (js_heap ?st)) (snd ` set (js_jobs (reap now ?st)))"
      using added free new_job_fields(1) reap_ok(1) [OF tok] add_job_refs [of "reap now ?st" j] tok by simp
    show ?thesis unfolding driven_def sys.simps
    proof (intro ballI impI)
      fix r assume "r \<in> snd ` set (js_jobs st')" and live: "j_status (job_at st' r) \<notin> TERMINAL"
      then consider "r = length (js_heap ?st)" | "r \<in> snd ` set (js_jobs ?st)"
        using refs reap_refs_sub [OF tok] by blast
      then show "r \<in> set (drivers (ss_tasks s @ (case spawn of None \<Rightarrow> [] | Some r \<Rightarrow> [RunStart r])))"
      proof cases
        case 1
        with added tok show ?thesis by simp
      next
        case 2
        with keep live have "r \<in> set (drivers (ss_tasks s))" by (intro drivenD [OF d]) simp_all
        then show ?thesis by simp
      qed
    qed
  next
    case unchanged
    then show ?thesis using framed by simp
  next
    case reaped
    then show ?thesis using framed reap_refs_sub [OF tok] by simp
  qed
qed

lemma driven_node_added:
  assumes ok: "sys_ok s" and d: "driven s"
    and n: "reconcile_node_added raw now sched (ss_jobs s) = (claim, st', logs)"
  shows "driven \<lparr>ss_jobs = st', ss_tasks = ss_tasks s @ recon_tasks claim raw\<rparr>"
proof (cases claim)
  case None
  with n reconcile_no_claim have "st' = ss_jobs s" by blast
  with driven_frame [OF d, of st'] show ?thesis by simp
next
  case (Some q)
  from reconcile_claims n Some obtain nid where raw: "raw = Some nid"
    and st': "st' = put_job q (claim_job nid (job_at (ss_jobs s) q)) (ss_jobs s)" by blast
  show ?thesis unfolding driven_def sys.simps
  proof (intro ballI impI)
    fix r assume r: "r \<in> snd ` set (js_jobs st')" and live: "j_status (job_at st' r) \<notin> TERMINAL"
    show "r \<in> set (drivers (ss_tasks s @ recon_tasks claim raw))"
    proof (cases "r = q")
      case True
      with Some raw show ?thesis by (simp add: recon_tasks_def)
    next
      case False
      with r live st' have "r \<in> set (drivers (ss_tasks s))" by (intro drivenD [OF d]) simp_all
      then show ?thesis by simp
    qed
  qed
qed

lemma late_status:
  assumes "note_late_response ctx answer st = Inr (res, st', logs)" "r < length (js_heap st)"
  shows "j_status (job_at st' r) = j_status (job_at st r) \<and> js_jobs st' = js_jobs st"
  using assms(1) by (cases rule: note_late_cases) (use assms(2) in auto)

lemma driven_step:
  assumes "sys_step s ev effs s'" "sys_ok s" "driven s" "orderly ev"
  shows "driven s'"
  using assms(1)
proof (cases rule: sys_step.cases)
  case (step_create params up now jid sched res spawn st')
  with driven_create [OF assms(2,3)] show ?thesis by blast
next
  case (step_poll jid now now_utc res st')
  have tok: "table_ok (ss_jobs s)" "index_ok (ss_jobs s)" using assms(2) by (auto simp: sys_ok_def)
  have "st' = reap now (ss_jobs s)" using step_poll(4) by (auto simp: get_job_def Let_def split: option.splits)
  with driven_frame [OF assms(3), of st' "[]"] reap_refs_sub [OF tok] tok step_poll show ?thesis by simp
next
  case (step_node_added raw now sched claim st' logs)
  with driven_node_added [OF assms(2,3)] show ?thesis by blast
next
  case (step_late ctx answer res st' logs)
  have tok: "table_ok (ss_jobs s)" using assms(2) by (auto simp: sys_ok_def)
  have "js_jobs st' = js_jobs (ss_jobs s)" if "r < length (js_heap (ss_jobs s))" for r
    using late_status [OF step_late(4) that] by simp
  have jobs: "js_jobs st' = js_jobs (ss_jobs s)"
    using step_late(4) by (cases rule: note_late_cases) auto
  have "driven \<lparr>ss_jobs = st', ss_tasks = ss_tasks s @ []\<rparr>"
  proof (rule driven_frame [OF assms(3)])
    show "j_status (job_at st' r) = j_status (job_at (ss_jobs s) r)" if "r \<in> snd ` set (js_jobs st')" for r
      using that jobs late_status [OF step_late(4)] table_refs [OF tok] by simp
  qed (simp add: jobs)
  with step_late show ?thesis by simp
next
  case (step_resume t env answer st' ts)
  with driven_resume [OF assms(2,3) step_resume(3,4)] assms(4) show ?thesis by simp
qed (use assms(3) in simp)

lemma driven_reachable: "reachable orderly s \<Longrightarrow> driven s"
proof (induction rule: reachable.induct)
  case (reach_step s ev effs s')
  then show ?case using driven_step sys_ok_reachable by blast
qed (simp add: driven_def sys_init_def jobs_init_def)

text \<open>C2: as long as no coroutine is cancelled where it has no clause for it and no error code is an
  infinite number, every tracked job that is not terminal has exactly one suspended coroutine
  that drives it (so a client's poll is never left waiting for nothing), and when no coroutine
  is suspended every tracked job is terminal, with an error exactly if it failed and a result
  if it succeeded.\<close>

theorem jobs_driven:
  assumes "reachable orderly s" "map_of (js_jobs (ss_jobs s)) jid = Some r"
  shows "(j_status (job_at (ss_jobs s) r) \<notin> TERMINAL \<longrightarrow>
            length (filter (\<lambda>t. is_driver t \<and> task_ref t = r) (ss_tasks s)) = 1)
    \<and> (ss_tasks s = [] \<longrightarrow> j_status (job_at (ss_jobs s) r) \<in> TERMINAL
         \<and> (j_error (job_at (ss_jobs s) r) \<noteq> None \<longleftrightarrow> j_status (job_at (ss_jobs s) r) = FAILED)
         \<and> (j_status (job_at (ss_jobs s) r) = SUCCESS \<longrightarrow> j_result (job_at (ss_jobs s) r) \<noteq> None))"
proof -
  have ok: "sys_ok s" using assms(1) by (rule sys_ok_reachable)
  have ref: "r \<in> snd ` set (js_jobs (ss_jobs s))" using assms(2) by (force dest: map_of_SomeD)
  have d: "r \<in> set (drivers (ss_tasks s))" if "j_status (job_at (ss_jobs s) r) \<notin> TERMINAL"
    using driven_reachable [OF assms(1)] ref that by (auto simp: driven_def)
  have one: "length (filter (\<lambda>t. is_driver t \<and> task_ref t = r) ts) = 1"
    if "distinct (drivers ts)" "r \<in> set (drivers ts)" for ts
    using that by (induction ts) (auto simp: in_drivers filter_empty_conv split: if_splits)
  have "distinct (drivers (ss_tasks s))" using ok by (simp add: sys_ok_def)
  moreover have "r < length (js_heap (ss_jobs s))" using ok ref by (auto simp: sys_ok_def dest: table_refs)
  then have "job_ok (job_at (ss_jobs s) r)" using ok by (simp add: sys_ok_def heap_ok_def)
  ultimately show ?thesis using d one by (auto simp: job_ok_def)
qed

section \<open>Jobs move forward\<close>

lemma status_le [simp]:
  "(s :: job_status) \<le> FAILED" "PENDING \<le> s" "COMMISSIONING \<le> READING_DESCRIPTORS"
  "READING_DESCRIPTORS \<le> CREATING_DEVICES" "CREATING_DEVICES \<le> SUCCESS"
  by (cases s; simp add: less_eq_job_status_def)+

definition forward :: "jref \<Rightarrow> jobs_state \<Rightarrow> outcome \<Rightarrow> bool" where
  "forward r st out \<longleftrightarrow> j_status (job_at st r) \<le> j_status (job_at (fst out) r)"

lemma forward_landed [simp]: "r < length (js_heap st) \<Longrightarrow> forward r st (land_failed r c m me now st', x)"
  if "length (js_heap st') = length (js_heap st)" for st'
  using that by (simp add: forward_def land_failed_def Let_def)

lemma forward_same [simp]: "forward r st (st, x)"
  by (simp add: forward_def)

lemma forward_finish_fail:
  "r < length (js_heap st) \<Longrightarrow> length (js_heap st') = length (js_heap st) \<Longrightarrow>
   forward r st (finish_fail r code m me now st')"
  by (simp add: finish_fail_def)

lemma forward_logged: "forward r st (st', ts, effs) \<Longrightarrow> forward r st (st', ts', effs')"
  by (simp add: forward_def)

lemma forward_run_fail:
  assumes "r < length (js_heap st)"
  shows "forward r st (run_fail r code m me n now st)"
proof (cases n)
  case (Some k)
  obtain b st1 logs where h: "node_held_by_other_job r k st = (b, st1, logs)" by (cases "node_held_by_other_job r k st")
  from node_held_by_other_job_eq [OF h] h Some assms show ?thesis
    by (auto simp: run_fail_def finish_fail_def) (simp add: forward_def)
qed (simp add: run_fail_def forward_finish_fail assms)

lemma forward_run_except:
  assumes "r < length (js_heap st)"
  shows "forward r st (run_except r n exc env st)"
proof (cases exc)
  case (XOther m ty)
  with forward_run_fail [OF assms, of "''internal_error''" "exc_text exc" None n "e_now env"] show ?thesis
    by (cases "run_fail r ''internal_error'' (exc_text exc) None n (e_now env) st")
      (simp add: run_except_def forward_def)
next
  case (XProtocol m c)
  with forward_run_fail [OF assms] show ?thesis by (cases "opt_int c") (simp_all add: run_except_def Let_def)
qed (use assms forward_run_fail in \<open>simp_all add: run_except_def Let_def split: option.split\<close>)

lemma forward_run_removed:
  assumes "r < length (js_heap st)"
  shows "forward r st (run_removed r nid code m me env st exc)"
proof -
  let ?f = "finish_fail r code m me (e_now env) (clear_removing nid st)"
  have f: "forward r st ?f" by (rule forward_finish_fail) (use assms in simp_all)
  moreover have "forward r st (case ?f of (st2, ts, effs) \<Rightarrow> (st2, ts, l # effs))" for l
    using f by (cases ?f) (simp add: forward_def)
  moreover have "forward r st (clear_removing nid st, x)" for x by (simp add: forward_def)
  ultimately show ?thesis by (simp add: run_removed_def Let_def split: option.split run_exc.split)
qed

lemma resume_forward:
  assumes "task_ok st t" "heap_ok st" "resume t env st ans = Some out"
  shows "j_status (job_at st r) \<le> j_status (job_at (fst out) r)"
proof -
  obtain st' ts effs where out: "out = (st', ts, effs)" by (cases out)
  have keep: "keeps_jobs st (task_ref t) (is_driver t) st'" using segment_resume [OF assms] out by simp
  have bound: "task_ref t < length (js_heap st)" and ex: "expects t (job_at st (task_ref t))"
    using assms(1) by (simp_all add: task_ok_def)
  show ?thesis
  proof (cases "task_ref t = r \<and> is_driver t")
    case False
    with keep out have "job_at (fst out) r = job_at st r" unfolding keeps_jobs_def by (metis fst_conv)
    then show ?thesis by simp
  next
    case True
    have "forward r st out"
    proof (cases t)
      case (RunStart q)
      with True assms(3) bound ex show ?thesis
        by (auto simp: run_start_def forward_def Let_def advance_def split: sum.splits payload.splits run_exc.splits)
    next
      case (RunCommission q)
      with True assms(3) bound ex forward_run_except [of q st] show ?thesis
        by (auto simp: run_commissioned_def split: sum.splits payload.splits option.splits)
          (auto simp: forward_def advance_def set_node_id_def)
    next
      case (RunGetNode q k)
      with True assms(3) bound ex forward_run_except [of q st] show ?thesis
        by (auto simp: run_got_node_def split: sum.splits payload.splits)
          (auto simp: forward_def advance_def)
    next
      case (RunCreate q k)
      with True assms(3) bound ex forward_run_except [of q st] show ?thesis
        by (auto simp: run_created_def forward_def land_success_def split: sum.splits payload.splits)
    next
      case (RunRemove q k code m me)
      with True assms(3) bound show ?thesis
        by (auto intro: forward_run_removed split: sum.splits payload.splits)
    next
      case (ReconStart q k)
      with True assms(3) show ?thesis
        by (auto simp: recon_start_def split: sum.splits payload.splits run_exc.splits)
    next
      case (ReconCreate q k)
      with True assms(3) bound ex show ?thesis
        by (auto simp: recon_created_def forward_def land_success_def land_failed_def Let_def
            split: sum.splits payload.splits run_exc.splits)
    qed (use True in simp_all)
    then show ?thesis by (simp add: forward_def)
  qed
qed

lemma node_added_back:
  assumes "reconcile_node_added raw now sched st = (claim, st', logs)" "r < length (js_heap st)"
  shows "job_at st' r = job_at st r \<or> timed_out (job_at st r) \<and> j_status (job_at st' r) = CREATING_DEVICES"
proof (cases claim)
  case None
  with assms(1) reconcile_no_claim show ?thesis by blast
next
  case (Some q)
  from reconcile_claims assms(1) Some obtain nid where "st' = put_job q (claim_job nid (job_at st q)) st"
    and "q \<in> set (timeout_candidates (Some (now - RECONCILE_WINDOW)) st)" by blast
  then show ?thesis using assms(2) by (cases "q = r") (auto simp: set_candidates)
qed

text \<open>C34: no event moves a job back: each one leaves its status where it is or moves it forward
  along pending, commissioning, reading descriptors, creating devices, success, failed; the one
  exception is a node-added report that takes a timed-out job back to creating its devices.\<close>

theorem status_forward:
  assumes "reachable P s" "sys_step s ev effs s'" "r < length (js_heap (ss_jobs s))"
  shows "j_status (job_at (ss_jobs s) r) \<le> j_status (job_at (ss_jobs s') r)
    \<or> (\<exists>raw now sched. ev = EvNodeAdded raw now sched) \<and> timed_out (job_at (ss_jobs s) r)
       \<and> j_status (job_at (ss_jobs s') r) = CREATING_DEVICES"
proof -
  have ok: "sys_ok s" using assms(1) by (rule sys_ok_reachable)
  then have tab: "table_ok (ss_jobs s)" "index_ok (ss_jobs s)" and heap: "heap_ok (ss_jobs s)"
    and tasks: "\<And>t. t \<in> set (ss_tasks s) \<Longrightarrow> task_ok (ss_jobs s) t"
    by (auto simp: sys_ok_def)
  from assms(2) show ?thesis
  proof (cases rule: sys_step.cases)
    case (step_create params up now jid sched res spawn st')
    with create_job_keeps [OF step_create(4) tab assms(3)] show ?thesis by simp
  next
    case (step_poll jid now now_utc res st')
    with get_job_keeps [OF step_poll(4) tab] show ?thesis by simp
  next
    case (step_node_added raw now sched claim st' logs)
    from node_added_back [OF step_node_added(4) assms(3)] show ?thesis
      unfolding step_node_added by auto
  next
    case (step_late ctx answer res st' logs)
    with late_status [OF step_late(4) assms(3)] show ?thesis by simp
  next
    case (step_resume t env answer st' ts)
    with resume_forward [OF tasks heap step_resume(4), of r] show ?thesis by simp
  qed simp
qed

section \<open>A job that has lost its driver\<close>

definition abandoned :: "string \<Rightarrow> string \<Rightarrow> jref \<Rightarrow> job_status \<Rightarrow> sys \<Rightarrow> bool" where
  "abandoned code jid r status s \<longleftrightarrow>
     map_of (js_jobs (ss_jobs s)) jid = Some r \<and> map_of (js_by_code (ss_jobs s)) code = Some jid
     \<and> j_status (job_at (ss_jobs s) r) = status \<and> r \<notin> set (drivers (ss_tasks s))"

lemma reap_keeps_live:
  assumes "table_ok st" "index_ok st" "heap_ok st"
    and "map_of (js_jobs st) jid = Some r" "map_of (js_by_code st) code = Some jid"
    and "j_status (job_at st r) \<notin> TERMINAL"
  shows "map_of (js_jobs (reap now st)) jid = Some r \<and> map_of (js_by_code (reap now st)) code = Some jid"
proof -
  have "r < length (js_heap st)" using table_okD(1) assms(1,4) by blast
  then have "\<not> expired_job now (job_at st r)" using assms(3,6) job_ok_live by (auto simp: heap_ok_def)
  with expired_id_iff [OF assms(1,4)] have "jid \<notin> set (expired_ids now st)" by simp
  with assms show ?thesis
    by (auto simp: reap_eq without_ids_def index_ok_def map_of_filter_fst intro!: map_of_is_SomeI distinct_map_filter
        dest: map_of_SomeD)
qed

lemma create_job_writes:
  assumes "create_job params up now jid sched st = (res, spawn, st')"
  shows "st' = st \<or> st' = reap now st \<or>
    (\<exists>j. j_job_id j = jid \<and> live_duplicate (j_setup_code j) (reap now st) = None
        \<and> (st' = add_job j (reap now st) \<or> st' = unadd_job j (add_job j (reap now st))))"
proof -
  have named: "\<exists>i. j_job_id i = jid \<and> live_duplicate (j_setup_code i) (reap now st) = None
      \<and> (new = add_job i (reap now st) \<or> new = unadd_job i (add_job i (reap now st)))"
    if "new_job params jid code name now = Inr j" "live_duplicate code (reap now st) = None"
      "new = add_job j (reap now st) \<or> new = unadd_job j (add_job j (reap now st))" for code name j new
    using that new_job_fields(1,2) by blast
  show ?thesis
    using assms by (auto simp: create_job_def Let_def intro: named split: sum.splits if_splits option.splits)
qed

lemma create_job_keeps_live:
  assumes "create_job params up now jid' sched st = (res, spawn, st')"
    and "table_ok st" "index_ok st" "heap_ok st"
    and "map_of (js_jobs st) jid = Some r" "map_of (js_by_code st) code = Some jid"
    and "j_status (job_at st r) \<notin> TERMINAL" "jid' \<noteq> jid"
  shows "map_of (js_jobs st') jid = Some r \<and> map_of (js_by_code st') code = Some jid"
proof -
  have live: "map_of (js_jobs (reap now st)) jid = Some r" "map_of (js_by_code (reap now st)) code = Some jid"
    using reap_keeps_live [OF assms(2-7)] by simp_all
  then have "live_duplicate code (reap now st) = Some jid"
    using assms(2,3,7) by (simp add: live_duplicate_def)
  then have "j_setup_code j \<noteq> code" if "live_duplicate (j_setup_code j) (reap now st) = None" for j
    using that by auto
  note fresh = this
  from create_job_writes [OF assms(1)] consider "st' = st" | "st' = reap now st"
    | j where "j_job_id j = jid'" "j_setup_code j \<noteq> code"
        "st' = add_job j (reap now st) \<or> st' = unadd_job j (add_job j (reap now st))"
    using fresh by blast
  then show ?thesis
  proof cases
    case 3
    with live assms(8) show ?thesis by (auto simp: add_job_def unadd_job_def update_conv' delete_conv')
  qed (use live assms(5,6) in auto)
qed

lemma abandoned_step:
  assumes "sys_ok s" "abandoned code jid r status s" "status \<notin> TERMINAL" "sys_step s ev effs s'"
  shows "abandoned code jid r status s'"
proof -
  have tab: "table_ok (ss_jobs s)" "index_ok (ss_jobs s)" and heap: "heap_ok (ss_jobs s)"
    and tasks: "\<And>t. t \<in> set (ss_tasks s) \<Longrightarrow> task_ok (ss_jobs s) t"
    using assms(1) by (auto simp: sys_ok_def)
  have here: "map_of (js_jobs (ss_jobs s)) jid = Some r" "map_of (js_by_code (ss_jobs s)) code = Some jid"
    "j_status (job_at (ss_jobs s) r) = status" and free: "r \<notin> set (drivers (ss_tasks s))"
    using assms(2) by (auto simp: abandoned_def)
  note r = table_okD [OF tab(1) here(1)]
  from assms(4) show ?thesis
  proof (cases rule: sys_step.cases)
    case (step_create params up now jid' sched res spawn st')
    have "jid' \<noteq> jid" using step_create(5) r by auto
    with create_job_keeps_live [OF step_create(4) tab heap here(1,2)] create_job_keeps [OF step_create(4) tab r(1)]
      here(3) assms(3)
    have "map_of (js_jobs st') jid = Some r \<and> map_of (js_by_code st') code = Some jid \<and> j_status (job_at st' r) = status"
      by simp
    moreover have "spawn \<noteq> Some r"
      using step_create(4) r(1) tab by (cases rule: create_job_cases) auto
    ultimately show ?thesis using free step_create(3) by (auto simp: abandoned_def split: option.splits)
  next
    case (step_poll jid' now now_utc res st')
    then have "st' = reap now (ss_jobs s)" by (auto simp: get_job_def Let_def split: option.splits)
    with reap_keeps_live [OF tab heap here(1,2)] here(3) assms(3) free tab step_poll(3) show ?thesis
      by (simp add: abandoned_def)
  next
    case (step_node_added raw now sched claim st' logs)
    show ?thesis
    proof (cases claim)
      case None
      then have "st' = ss_jobs s" using step_node_added(4) reconcile_no_claim by blast
      with None step_node_added(3) assms(2) show ?thesis by (simp add: abandoned_def recon_tasks_def)
    next
      case (Some q)
      from reconcile_claims step_node_added(4) Some obtain nid where raw: "raw = Some nid"
        and st': "st' = put_job q (claim_job nid (job_at (ss_jobs s) q)) (ss_jobs s)"
        and "q \<in> set (timeout_candidates (Some (now - RECONCILE_WINDOW)) (ss_jobs s))" by blast
      then have "q \<noteq> r" using here(3) assms(3) by (auto simp: set_candidates timed_out_def TERMINAL_def)
      with st' raw Some step_node_added(3) here free show ?thesis by (simp add: abandoned_def recon_tasks_def)
    qed
  next
    case (step_late ctx answer res st' logs)
    from step_late(4) have "js_jobs st' = js_jobs (ss_jobs s) \<and> js_by_code st' = js_by_code (ss_jobs s)
        \<and> j_status (job_at st' r) = status"
      by (cases rule: note_late_cases) (use here(3) r(1) in \<open>auto simp: job_at_put_job\<close>)
    with step_late(3) here free show ?thesis by (simp add: abandoned_def)
  next
    case (step_resume t env answer st' ts)
    have seg: "segment (ss_jobs s) (task_ref t) (is_driver t) (removal_key t) (st', ts, effs)"
      using segment_resume [OF tasks heap step_resume(4)] step_resume(3) by simp
    have other: "\<not> (is_driver t \<and> task_ref t = r)" using free driver_in [OF step_resume(3)] by blast
    then have "job_at st' r = job_at (ss_jobs s) r"
      using seg by (cases "r = task_ref t") (auto simp: keeps_jobs_def)
    moreover have "r \<notin> set (drivers ts)" using seg other by (auto simp: spawns_def split: if_splits)
    ultimately show ?thesis
      using seg step_resume(2) here free drivers_remove1 [of t "ss_tasks s"] by (auto simp: abandoned_def keeps_jobs_def)
  qed (use assms(2) in simp)
qed

lemma abandoned_runs:
  assumes "runs s evs s'" "sys_ok s" "abandoned code jid r status s" "status \<notin> TERMINAL"
  shows "abandoned code jid r status s' \<and> sys_ok s'"
  using assms by (induction rule: runs.induct) (auto intro: abandoned_step sys_ok_step)

text \<open>C39: the promise that every job is driven to its end needs its condition on the
  error codes. Whenever matter-server answers the commission, the read of the node or the creation
  of the devices for a tracked job, to which its setup code is indexed, with an error whose code is
  an infinite number (as the JSON text 1e999 reads), the coroutine ends without a line and the job keeps its status, which is not terminal, through every run that follows, whatever happens in
  it: no coroutine drives it again, it is never reaped, and every named request for that code is
  refused as its duplicate while matter-server is connected.\<close>

theorem infinite_code_strands:
  assumes "reachable P s" "sys_step s (EvResume t env (Inl (XProtocol message error))) effs s1" "infinite_float error"
    and "t = RunCommission r \<or> t = RunGetNode r nid \<or> t = RunCreate r nid"
    and "map_of (js_jobs (ss_jobs s)) jid = Some r" "map_of (js_by_code (ss_jobs s)) code = Some jid"
    and "runs s1 evs s2"
  shows "effs = [] \<and> map_of (js_jobs (ss_jobs s2)) jid = Some r
    \<and> j_status (job_at (ss_jobs s2) r) = j_status (job_at (ss_jobs s) r)
    \<and> j_status (job_at (ss_jobs s) r) \<notin> TERMINAL
    \<and> (\<forall>u \<in> set (ss_tasks s2). is_driver u \<longrightarrow> task_ref u \<noteq> r)
    \<and> (\<forall>params name now fresh sched.
         param_text params ''setupCode'' = Inr code \<and> is_valid_setup_code code
         \<and> param_text params ''suggestedName'' = Inr name \<and> name \<noteq> []
         \<longrightarrow> fst (create_job params True now fresh sched (ss_jobs s2)) = Inr (409, Duplicate jid))"
proof -
  let ?status = "j_status (job_at (ss_jobs s) r)"
  have ok: "sys_ok s" using assms(1) by (rule sys_ok_reachable)
  from assms(2) obtain st' ts where t: "t \<in> set (ss_tasks s)"
    and res: "resume t env (ss_jobs s) (Inl (XProtocol message error)) = Some (st', ts, effs)"
    and s1: "s1 = \<lparr>ss_jobs = st', ss_tasks = remove1 t (ss_tasks s) @ ts\<rparr>" by (auto simp: resume_step_iff)
  from assms(3) obtain e where "opt_int error = Inl e"
    by (auto simp: infinite_float_def opt_int_def split: pyval.splits pyfloat.splits)
  with res assms(4) have kept: "st' = ss_jobs s" "ts = []" "effs = []" by (auto simp: run_except_def Let_def)
  have drives: "is_driver t" "task_ref t = r" using assms(4) by auto
  with ok t have live: "?status \<notin> TERMINAL" using expects_live by (auto simp: sys_ok_def task_ok_def)
  have "r \<notin> set (drivers (remove1 t (ss_tasks s)))"
    using distinct_drivers_remove1 [OF _ t] ok drives by (simp add: sys_ok_def)
  with s1 kept assms(5,6) have "abandoned code jid r ?status s1" by (simp add: abandoned_def)
  moreover have "sys_ok s1" using sys_ok_step [OF assms(2) ok] .
  ultimately have a: "abandoned code jid r ?status s2" and ok2: "sys_ok s2"
    using abandoned_runs [OF assms(7)] live by blast+
  have "fst (create_job params True now fresh sched (ss_jobs s2)) = Inr (409, Duplicate jid)"
    if "param_text params ''setupCode'' = Inr code" "is_valid_setup_code code"
      "param_text params ''suggestedName'' = Inr name" "name \<noteq> []" for params name now fresh sched
    using create_job_duplicate [OF _ _ _ that, of "ss_jobs s2" jid r] a ok2 live
    by (simp add: abandoned_def sys_ok_def)
  then show ?thesis using a live kept by (auto simp: abandoned_def in_drivers)
qed

section \<open>Concrete runs\<close>

text \<open>The state after resuming a coroutine, to compute runs.\<close>

definition resumed :: "task \<Rightarrow> env \<Rightarrow> run_exc + payload \<Rightarrow> sys \<Rightarrow> sys" where
  "resumed t env ans s = (case resume t env (ss_jobs s) ans of
       None \<Rightarrow> s
     | Some (st', ts, effs) \<Rightarrow> \<lparr>ss_jobs = st', ss_tasks = remove1 t (ss_tasks s) @ ts\<rparr>)"

definition resumed_effs :: "task \<Rightarrow> env \<Rightarrow> run_exc + payload \<Rightarrow> sys \<Rightarrow> eff list" where
  "resumed_effs t env ans s = (case resume t env (ss_jobs s) ans of None \<Rightarrow> [] | Some (st', ts, effs) \<Rightarrow> effs)"

lemma sys_step_resumed:
  "t \<in> set (ss_tasks s) \<Longrightarrow> resume t env (ss_jobs s) ans \<noteq> None \<Longrightarrow>
   sys_step s (EvResume t env ans) (resumed_effs t env ans s) (resumed t env ans s)"
  by (auto simp: resumed_def resumed_effs_def intro: step_resume)

definition demo_env :: env where
  "demo_env = \<lparr>e_now = 1000, e_sched = True, e_knows = None\<rparr>"

definition demo_created :: sys where
  "demo_created = (let (res, spawn, st) = create_job demo_params True 0 ''j1'' None jobs_init
     in \<lparr>ss_jobs = st, ss_tasks = [] @ (case spawn of None \<Rightarrow> [] | Some r \<Rightarrow> [RunStart r])\<rparr>)"

definition demo_started :: sys where
  "demo_started = resumed (RunStart 0) demo_env (Inr YUnit) demo_created"

definition demo_commissioned :: sys where
  "demo_commissioned = resumed (RunCommission 0) demo_env
     (Inr (YCommission (ResultObject (Some (NInt 7))))) demo_started"

definition demo_read :: sys where
  "demo_read = resumed (RunGetNode 0 (NInt 7)) demo_env (Inr (YNode [])) demo_commissioned"

definition demo_done :: sys where
  "demo_done = resumed (RunCreate 0 (NInt 7)) demo_env
     (Inr (YCreated \<lparr>cr_device_ids = [101], cr_other = []\<rparr>)) demo_read"

definition demo_removing :: sys where
  "demo_removing = resumed (RunCreate 0 (NInt 7)) demo_env (Inl (XOther ''no such plugin'' ''KeyError'')) demo_read"

definition demo_stranded :: sys where
  "demo_stranded = resumed (RunCommission 0) demo_env
     (Inl (XProtocol ''commission failed'' (PFloat PosInf))) demo_started"

lemma demo_create_step:
  "sys_step sys_init (EvCreate demo_params True 0 ''j1'' None) [] demo_created"
proof -
  obtain res spawn st where c: "create_job demo_params True 0 ''j1'' None (ss_jobs sys_init) = (res, spawn, st)"
    by (cases "create_job demo_params True 0 ''j1'' None (ss_jobs sys_init)")
  have "''j1'' \<notin> j_job_id ` set (js_heap (ss_jobs sys_init))" by (simp add: sys_init_def jobs_init_def)
  from step_create [OF c this] c show ?thesis by (simp add: demo_created_def sys_init_def)
qed

lemma demo_reachable:
  "reachable orderly demo_created" "reachable orderly demo_started" "reachable orderly demo_commissioned"
  "reachable orderly demo_read" "reachable orderly demo_done" "reachable orderly demo_removing"
proof -
  show c: "reachable orderly demo_created" by (rule reach_step [OF reach_init demo_create_step]) simp
  show s: "reachable orderly demo_started"
    unfolding demo_started_def by (rule reach_step [OF c sys_step_resumed]) code_simp+
  show m: "reachable orderly demo_commissioned"
    unfolding demo_commissioned_def by (rule reach_step [OF s sys_step_resumed]) code_simp+
  show r: "reachable orderly demo_read"
    unfolding demo_read_def by (rule reach_step [OF m sys_step_resumed]) code_simp+
  show "reachable orderly demo_done"
    unfolding demo_done_def by (rule reach_step [OF r sys_step_resumed]) code_simp+
  show "reachable orderly demo_removing"
    unfolding demo_removing_def by (rule reach_step [OF r sys_step_resumed]) code_simp+
qed

section \<open>The properties on concrete runs\<close>

lemma infinite_code_strands_witness:
  "j_status (job_at (ss_jobs demo_stranded) 0) = COMMISSIONING
   \<and> fst (create_job demo_params True 5000 ''j2'' None (ss_jobs demo_stranded)) = Inr (409, Duplicate ''j1'')"
proof -
  let ?t = "RunCommission 0" and ?a = "Inl (XProtocol ''commission failed'' (PFloat PosInf)) :: run_exc + payload"
  have "?t \<in> set (ss_tasks demo_started)" by code_simp
  moreover have "resume ?t demo_env (ss_jobs demo_started) ?a \<noteq> None" by code_simp
  ultimately have step: "sys_step demo_started (EvResume ?t demo_env ?a)
      (resumed_effs ?t demo_env ?a demo_started) demo_stranded"
    unfolding demo_stranded_def by (rule sys_step_resumed)
  have table: "map_of (js_jobs (ss_jobs demo_started)) ''j1'' = Some 0"
    "map_of (js_by_code (ss_jobs demo_started)) ''34970112332'' = Some ''j1''" by code_simp+
  have "j_status (job_at (ss_jobs demo_started) 0) = COMMISSIONING" by code_simp
  moreover have "param_text demo_params ''setupCode'' = Inr ''34970112332''" "is_valid_setup_code ''34970112332''"
    "param_text demo_params ''suggestedName'' = Inr ''Lamp''" by code_simp+
  ultimately show ?thesis
    using infinite_code_strands [OF demo_reachable(2) step _ _ table runs_nil] by (simp add: infinite_float_def demo_params_def)
qed

lemma reachable_ok_witness:
  "task_ok (ss_jobs demo_removing) (RunRemove 0 (NInt 7) ''internal_error'' (Text ''no such plugin'') None)
   \<and> js_removing (ss_jobs demo_removing) = {KInt 7}"
proof -
  have "ss_tasks demo_removing = [RunRemove 0 (NInt 7) ''internal_error'' (Text ''no such plugin'') None]"
    by code_simp
  moreover have "KInt 7 \<in> js_removing (ss_jobs demo_removing)" by code_simp
  ultimately show ?thesis using reachable_ok [OF demo_reachable(6)] by auto
qed

lemma removal_exclusive_witness:
  "node_key (NInt 7) \<in> js_removing (ss_jobs demo_removing)
   \<and> (\<exists>t \<in> set (ss_tasks demo_removing). removal_key t = Some (node_key (NInt 7)))"
proof -
  let ?t = "RunCreate 0 (NInt 7)" and ?a = "Inl (XOther ''no such plugin'' ''KeyError'') :: run_exc + payload"
  have "?t \<in> set (ss_tasks demo_read)" by code_simp
  moreover have "resume ?t demo_env (ss_jobs demo_read) ?a \<noteq> None" by code_simp
  ultimately have step: "sys_step demo_read (EvResume ?t demo_env ?a)
      (resumed_effs ?t demo_env ?a demo_read) demo_removing"
    unfolding demo_removing_def by (rule sys_step_resumed)
  have "RpcRemoveNode 0 (NInt 7) \<in> set (resumed_effs ?t demo_env ?a demo_read)" by code_simp
  from removal_exclusive [OF demo_reachable(4) step this] show ?thesis by blast
qed

lemma removing_blocks_claim_witness:
  "\<exists>s' effs. sys_step demo_removing (EvNodeAdded (Some (NStr ''7'')) 2000 True) effs s'
     \<and> ss_jobs s' = ss_jobs demo_removing"
proof -
  obtain claim st' logs where
    n: "reconcile_node_added (Some (NStr ''7'')) 2000 True (ss_jobs demo_removing) = (claim, st', logs)"
    by (cases "reconcile_node_added (Some (NStr ''7'')) 2000 True (ss_jobs demo_removing)")
  have step: "sys_step demo_removing (EvNodeAdded (Some (NStr ''7'')) 2000 True) (map Log logs)
    \<lparr>ss_jobs = st', ss_tasks = ss_tasks demo_removing @ recon_tasks claim (Some (NStr ''7''))\<rparr>"
    by (rule step_node_added [OF n])
  have "node_key (NStr ''7'') \<in> js_removing (ss_jobs demo_removing)" by code_simp
  from step removing_blocks_claim [OF step this] show ?thesis by blast
qed

lemma success_final_witness:
  "\<exists>s' effs. sys_step demo_done (EvLate (Some ''j1'') (Inl (PInt 3, ''late''))) effs s'
     \<and> job_at (ss_jobs s') 0 = job_at (ss_jobs demo_done) 0"
proof -
  have "\<not> isl (note_late_response (Some ''j1'') (Inl (PInt 3, ''late'')) (ss_jobs demo_done))" by code_simp
  then obtain res st' logs where
    n: "note_late_response (Some ''j1'') (Inl (PInt 3, ''late'')) (ss_jobs demo_done) = Inr (res, st', logs)"
    by (metis isl_def prod_cases3 sum.exhaust)
  have "0 < length (js_heap (ss_jobs demo_done))" by code_simp
  moreover have "j_status (job_at (ss_jobs demo_done) 0) = SUCCESS" by code_simp
  ultimately show ?thesis
    using success_final [OF demo_reachable(5) step_late [OF n]] step_late [OF n] by blast
qed

lemma work_bounded_witness: "\<exists>evs s. runs sys_init evs s \<and> sum_list (map grants evs) = 5 \<and> work (ss_tasks s) \<le> 5"
proof -
  have r: "runs sys_init ([] @ [EvCreate demo_params True 0 ''j1'' None]) demo_created"
    by (rule runs_snoc [OF runs_nil demo_create_step])
  from r work_bounded [OF r] show ?thesis
    by (intro exI [of _ "[EvCreate demo_params True 0 ''j1'' None]"] exI [of _ demo_created]) simp
qed

lemma jobs_driven_witness:
  "length (filter (\<lambda>t. is_driver t \<and> task_ref t = 0) (ss_tasks demo_read)) = 1"
proof -
  have "map_of (js_jobs (ss_jobs demo_read)) ''j1'' = Some 0" by code_simp
  moreover have "j_status (job_at (ss_jobs demo_read) 0) \<notin> TERMINAL" by code_simp
  ultimately show ?thesis using jobs_driven [OF demo_reachable(4)] by blast
qed

lemma status_forward_witness:
  "j_status (job_at (ss_jobs demo_read) 0) \<le> j_status (job_at (ss_jobs demo_done) 0)"
proof -
  let ?t = "RunCreate 0 (NInt 7)" and ?a = "Inr (YCreated \<lparr>cr_device_ids = [101], cr_other = []\<rparr>) :: run_exc + payload"
  have "?t \<in> set (ss_tasks demo_read)" by code_simp
  moreover have "resume ?t demo_env (ss_jobs demo_read) ?a \<noteq> None" by code_simp
  ultimately have step: "sys_step demo_read (EvResume ?t demo_env ?a)
      (resumed_effs ?t demo_env ?a demo_read) demo_done"
    unfolding demo_done_def by (rule sys_step_resumed)
  have "0 < length (js_heap (ss_jobs demo_read))" by code_simp
  from status_forward [OF demo_reachable(4) step this] show ?thesis by simp
qed

end
