(* ===== verification/CtBounds.thy ===== *)
theory CtBounds
  imports PyBase
begin

text \<open>
  Colour-temperature arithmetic and bounds: \<open>mired_units.py\<close> (the reciprocal
  conversion) and \<open>ct_bounds.py\<close> (which of the learned, seeded and generic bounds is in
  effect for an export, and what of them goes on the wire).
\<close>

section \<open>Mireds and Kelvin\<close>

definition mireds_to_kelvin :: "int \<Rightarrow> int" where
  "mireds_to_kelvin mireds = (if mireds \<noteq> 0 then round_div 1000000 mireds else 0)"

text \<open>The float argument of \<open>kelvin_to_mireds\<close> is modelled at whole Kelvin values.\<close>

definition kelvin_to_mireds :: "int \<Rightarrow> int" where
  "kelvin_to_mireds kelvin = (if kelvin \<noteq> 0 then round_div 1000000 kelvin else 0)"

lemma mireds_to_kelvin_antimono:
  assumes "0 < m" "m \<le> m'" shows "mireds_to_kelvin m' \<le> mireds_to_kelvin m"
proof -
  have near: "\<bar>2 * (round_div 1000000 m' * m' - 1000000)\<bar> \<le> m'"
    "\<bar>2 * (round_div 1000000 m * m - 1000000)\<bar> \<le> m"
    using round_div_near [of m' 1000000] round_div_near [of m 1000000] assms by auto
  have "round_div 1000000 m' \<le> round_div 1000000 m"
  proof (rule ccontr)
    assume "\<not> ?thesis"
    then have lt: "round_div 1000000 m + 1 \<le> round_div 1000000 m'" by simp
    have nn: "0 \<le> round_div 1000000 m" using assms by (simp add: round_div_def Let_def pos_imp_zdiv_nonneg_iff)
    have "(round_div 1000000 m + 1) * m' \<le> round_div 1000000 m' * m'"
      using lt assms by (intro mult_right_mono) auto
    moreover have "round_div 1000000 m * m \<le> round_div 1000000 m * m'"
      using nn assms by (intro mult_left_mono) auto
    moreover have "2 * (round_div 1000000 m' * m') - 2000000 \<le> m'"
      "2000000 \<le> m + 2 * (round_div 1000000 m * m)"
      using near by auto
    ultimately have "m' \<le> m" by (simp add: algebra_simps)
    with assms(2) have "m = m'" by simp
    with lt show False by simp
  qed
  with assms show ?thesis by (simp add: mireds_to_kelvin_def)
qed

section \<open>Bounds\<close>

definition GENERIC_MIN_MIREDS :: int where "GENERIC_MIN_MIREDS = 153"
definition GENERIC_MAX_MIREDS :: int where "GENERIC_MAX_MIREDS = 500"

definition CT_ROLES :: "string list" where
  "CT_ROLES = [''colorTemperatureLight'', ''extendedColorLight'']"

definition OPTION_CT_MIN_MIREDS :: string where
  "OPTION_CT_MIN_MIREDS = ''ctMinMireds''"
definition OPTION_CT_MAX_MIREDS :: string where
  "OPTION_CT_MAX_MIREDS = ''ctMaxMireds''"
definition OPTION_CT_LEARNED_MIN_MIREDS :: string where
  "OPTION_CT_LEARNED_MIN_MIREDS = ''ctLearnedMinMireds''"
definition OPTION_CT_LEARNED_MAX_MIREDS :: string where
  "OPTION_CT_LEARNED_MAX_MIREDS = ''ctLearnedMaxMireds''"

lemmas ct_keys = OPTION_CT_MIN_MIREDS_def OPTION_CT_MAX_MIREDS_def
  OPTION_CT_LEARNED_MIN_MIREDS_def OPTION_CT_LEARNED_MAX_MIREDS_def

lemmas ct_generic = GENERIC_MIN_MIREDS_def GENERIC_MAX_MIREDS_def

definition STORED_KEYS :: "string list" where
  "STORED_KEYS = [OPTION_CT_MIN_MIREDS, OPTION_CT_MAX_MIREDS,
     OPTION_CT_LEARNED_MIN_MIREDS, OPTION_CT_LEARNED_MAX_MIREDS]"

text \<open>\<open>isinstance(value, int) and not isinstance(value, bool)\<close>.\<close>

fun is_valid_ct_bound :: "pyval \<Rightarrow> bool" where
  "is_valid_ct_bound (PInt _) = True"
| "is_valid_ct_bound _ = False"

lemma is_valid_ct_bound_iff: "is_valid_ct_bound v \<longleftrightarrow> (\<exists>n. v = PInt n)"
  by (cases v) auto

text \<open>The value of a bound that passed the check.\<close>

fun the_int :: "pyval \<Rightarrow> int" where
  "the_int (PInt n) = n"
| "the_int _ = 0"

definition ct_side :: "pydict \<Rightarrow> string \<Rightarrow> string \<Rightarrow> int \<Rightarrow> int" where
  "ct_side options learned_key seed_key generic =
     (if is_valid_ct_bound (dget options learned_key) then the_int (dget options learned_key)
      else if is_valid_ct_bound (dget options seed_key) then the_int (dget options seed_key)
      else generic)"

definition effective_ct_bounds :: "pydict \<Rightarrow> int \<times> int" where
  "effective_ct_bounds options =
     (ct_side options OPTION_CT_LEARNED_MIN_MIREDS OPTION_CT_MIN_MIREDS GENERIC_MIN_MIREDS,
      ct_side options OPTION_CT_LEARNED_MAX_MIREDS OPTION_CT_MAX_MIREDS GENERIC_MAX_MIREDS)"

datatype ct_source = SOURCE_LEARNED | SOURCE_SEED | SOURCE_GENERIC

definition ct_side_source :: "pydict \<Rightarrow> string \<Rightarrow> string \<Rightarrow> ct_source" where
  "ct_side_source options learned_key seed_key =
     (if is_valid_ct_bound (dget options learned_key) then SOURCE_LEARNED
      else if is_valid_ct_bound (dget options seed_key) then SOURCE_SEED
      else SOURCE_GENERIC)"

definition effective_ct_sources :: "pydict \<Rightarrow> ct_source \<times> ct_source" where
  "effective_ct_sources options =
     (ct_side_source options OPTION_CT_LEARNED_MIN_MIREDS OPTION_CT_MIN_MIREDS,
      ct_side_source options OPTION_CT_LEARNED_MAX_MIREDS OPTION_CT_MAX_MIREDS)"

definition has_stored_ct_bounds :: "pydict \<Rightarrow> bool" where
  "has_stored_ct_bounds options = list_ex (\<lambda>key. map_of options key \<noteq> None) STORED_KEYS"

definition wire_options :: "pydict \<Rightarrow> pydict" where
  "wire_options options =
     (let result = filter (\<lambda>(key, value). key \<notin> set STORED_KEYS) options
      in if has_stored_ct_bounds options
         then (let (min_mireds, max_mireds) = effective_ct_bounds options
               in AList.update OPTION_CT_MAX_MIREDS (PInt max_mireds)
                    (AList.update OPTION_CT_MIN_MIREDS (PInt min_mireds) result))
         else result)"

lemmas ct_defs = effective_ct_bounds_def effective_ct_sources_def ct_side_def ct_side_source_def

lemma set_STORED_KEYS: "set STORED_KEYS = {OPTION_CT_MIN_MIREDS, OPTION_CT_MAX_MIREDS,
    OPTION_CT_LEARNED_MIN_MIREDS, OPTION_CT_LEARNED_MAX_MIREDS}"
  by (auto simp: STORED_KEYS_def)

lemma map_of_filter_key:
  "map_of (filter (\<lambda>(key, value). P key) d) k = (if P k then map_of d k else None)"
  by (induction d) auto

lemma has_stored_iff: "has_stored_ct_bounds options \<longleftrightarrow> (\<exists>k \<in> set STORED_KEYS. map_of options k \<noteq> None)"
  by (simp add: has_stored_ct_bounds_def list_ex_iff)

section \<open>Properties\<close>

text \<open>What a lookup in the wire options finds: the two effective bounds when any bound is
  stored, every unrelated option as it was, nothing of the learner's own record.\<close>

lemma map_of_wire_options:
  "map_of (wire_options options) k =
     (if has_stored_ct_bounds options \<and> k = OPTION_CT_MIN_MIREDS then Some (PInt (fst (effective_ct_bounds options)))
      else if has_stored_ct_bounds options \<and> k = OPTION_CT_MAX_MIREDS then Some (PInt (snd (effective_ct_bounds options)))
      else if k \<in> set STORED_KEYS then None else map_of options k)"
  by (auto simp: wire_options_def Let_def update_conv' map_of_filter_key ct_keys
      split: prod.splits)

text \<open>The wire options of an export are its stored options with the four stored bound
  keys replaced by the one effective pair, which is sent exactly when any of the four keys is
  stored (even if it equals the generic pair); every other option is sent unchanged.\<close>

theorem wire_options_lookup:
  "map_of (wire_options options) k =
     (if k = OPTION_CT_MIN_MIREDS \<or> k = OPTION_CT_MAX_MIREDS
      then (if has_stored_ct_bounds options
            then Some (PInt ((if k = OPTION_CT_MIN_MIREDS then fst else snd) (effective_ct_bounds options)))
            else None)
      else if k = OPTION_CT_LEARNED_MIN_MIREDS \<or> k = OPTION_CT_LEARNED_MAX_MIREDS then None
      else map_of options k)"
  by (auto simp: map_of_wire_options set_STORED_KEYS ct_keys)

text \<open>The pair read back from a wire frame is the pair that was in effect, so a second
  derivation from the wire options changes nothing.\<close>

lemma effective_of_wire_options:
  "effective_ct_bounds (wire_options options) = effective_ct_bounds options"
proof (cases "has_stored_ct_bounds options")
  case True
  then show ?thesis
    by (simp add: effective_ct_bounds_def [of "wire_options options"] ct_side_def dget_def map_of_wire_options
        set_STORED_KEYS ct_keys)
next
  case False
  then have "map_of options k = None" if "k \<in> set STORED_KEYS" for k
    using that by (auto simp: has_stored_iff)
  with False show ?thesis
    by (simp add: ct_defs dget_def map_of_wire_options set_STORED_KEYS)
qed

text \<open>The source reported for a side is the source its effective bound was taken from.\<close>

theorem effective_sources_agree:
  "(fst (effective_ct_sources options) = SOURCE_LEARNED \<longleftrightarrow>
      (\<exists>n. map_of options OPTION_CT_LEARNED_MIN_MIREDS = Some (PInt n) \<and> fst (effective_ct_bounds options) = n))
   \<and> (fst (effective_ct_sources options) = SOURCE_SEED \<longleftrightarrow>
      (\<nexists>n. map_of options OPTION_CT_LEARNED_MIN_MIREDS = Some (PInt n)) \<and>
      (\<exists>n. map_of options OPTION_CT_MIN_MIREDS = Some (PInt n) \<and> fst (effective_ct_bounds options) = n))
   \<and> (fst (effective_ct_sources options) = SOURCE_GENERIC \<longleftrightarrow>
      (\<nexists>n. map_of options OPTION_CT_LEARNED_MIN_MIREDS = Some (PInt n)) \<and>
      (\<nexists>n. map_of options OPTION_CT_MIN_MIREDS = Some (PInt n)))"
  by (auto simp: ct_defs dget_def is_valid_ct_bound_iff split: option.splits)

end
