(* ===== verification/ExportStore.thy ===== *)
theory ExportStore
  imports CtBounds BridgeProtocol
begin

text \<open>
  \<open>export_store.py\<close>: the allow-list of exported devices. Validation of the options of an
  entry, the persisted shape of an entry and its strict reader, and the store itself: reads,
  the three writes, the commit that persists before it adopts, and the load that moves an
  unreadable blob aside.

  A preference value is described by what \<open>json.loads\<close> makes of it: \<open>Json v\<close> is a text that
  reads as \<open>v\<close> (such as the one \<open>json.dumps\<close> writes for \<open>v\<close>), \<open>NotJson\<close> a text it refuses
  with a \<open>ValueError\<close>, \<open>NonText\<close> a value that is not a text and that it refuses with a
  \<open>TypeError\<close>, \<open>ReprOf\<close> the text \<open>repr\<close> gives for such a value.
\<close>

section \<open>Vocabulary\<close>

definition KEY_DEVICE_ID :: string where "KEY_DEVICE_ID = ''indigoDeviceId''"
definition KEY_ROLE :: string where "KEY_ROLE = ''role''"
definition KEY_NAME_OVERRIDE :: string where "KEY_NAME_OVERRIDE = ''nameOverride''"
definition KEY_OPTIONS :: string where "KEY_OPTIONS = ''options''"
definition KEY_PUBLISHED_AS :: string where "KEY_PUBLISHED_AS = ''publishedAs''"
definition KEY_VERSION :: string where "KEY_VERSION = ''v''"
definition KEY_EXPORTS :: string where "KEY_EXPORTS = ''exports''"
definition SCHEMA_VERSION :: int where "SCHEMA_VERSION = 1"
definition PREF_KEY :: string where "PREF_KEY = ''matterExports''"
definition PREF_KEY_CORRUPT :: string where "PREF_KEY_CORRUPT = ''matterExports.corrupt''"

lemmas store_keys = KEY_DEVICE_ID_def KEY_ROLE_def KEY_NAME_OVERRIDE_def KEY_OPTIONS_def
  KEY_PUBLISHED_AS_def KEY_VERSION_def KEY_EXPORTS_def SCHEMA_VERSION_def

definition OPTION_INVERT :: string where "OPTION_INVERT = ''invert''"
definition OPTION_STATE_KEY :: string where "OPTION_STATE_KEY = ''stateKey''"
definition OPTION_STATE_INVERT :: string where "OPTION_STATE_INVERT = ''stateInvert''"

definition MAPPABLE_ROLES :: "string list" where
  "MAPPABLE_ROLES = [''occupancySensor'', ''contactSensor'', ''waterLeakDetector'',
     ''waterFreezeDetector'', ''rainSensor'', ''smokeAlarm'', ''coAlarm'']"

definition INVERTIBLE_ROLES :: "string list" where
  "INVERTIBLE_ROLES = [''windowCovering'']"

definition CT_BOUNDS_ROLES :: "string list" where
  "CT_BOUNDS_ROLES = CT_ROLES"

text \<open>The texts of the \<open>ValueError\<close>s, one constructor each.\<close>

datatype entry_error =
    NotAnObject
  | NoUsableDeviceId
  | UnknownRole
  | NameNotText
  | OptionsNotObject
  | OptionNotBoolean string
  | OptionNotText string
  | OptionWrongRole string
  | OptionNotInteger string
  | IncompletePair string string
  | OutsideDomain string
  | BadPair string string
  | PublishedNotText
  | PublishedUnlawful

section \<open>Validation\<close>

text \<open>One round of the loop over the two pairs: \<open>None\<close> is no objection.\<close>

definition ct_pair_error :: "pydict \<Rightarrow> string \<Rightarrow> string \<Rightarrow> string \<Rightarrow> bool \<Rightarrow> entry_error option" where
  "ct_pair_error options role min_key max_key seed_pair =
     (let has_min = map_of options min_key \<noteq> None; has_max = map_of options max_key \<noteq> None
      in if \<not> (has_min \<or> has_max) then None
         else if role \<notin> set CT_BOUNDS_ROLES then Some (OptionWrongRole min_key)
         else (case find (\<lambda>key. map_of options key \<noteq> None \<and> \<not> is_valid_ct_bound (dget options key)) [min_key, max_key] of
                 Some key \<Rightarrow> Some (OptionNotInteger key)
               | None \<Rightarrow>
                   if has_min \<noteq> has_max
                   then (if seed_pair then Some (IncompletePair min_key max_key)
                         else (let lone_key = (if has_min then min_key else max_key);
                                   lone_value = the_int (dget options lone_key)
                               in if \<not> (GENERIC_MIN_MIREDS \<le> lone_value \<and> lone_value \<le> GENERIC_MAX_MIREDS)
                                  then Some (OutsideDomain lone_key) else None))
                   else (let min_value = the_int (dget options min_key); max_value = the_int (dget options max_key)
                         in if \<not> (GENERIC_MIN_MIREDS \<le> min_value \<and> min_value < max_value
                                  \<and> max_value \<le> GENERIC_MAX_MIREDS)
                            then Some (BadPair min_key max_key) else None)))"

definition ct_bounds_error :: "pydict \<Rightarrow> string \<Rightarrow> entry_error option" where
  "ct_bounds_error options role =
     (case ct_pair_error options role OPTION_CT_MIN_MIREDS OPTION_CT_MAX_MIREDS True of
        Some e \<Rightarrow> Some e
      | None \<Rightarrow> ct_pair_error options role OPTION_CT_LEARNED_MIN_MIREDS OPTION_CT_LEARNED_MAX_MIREDS False)"

fun is_bool :: "pyval \<Rightarrow> bool" where
  "is_bool (PBool _) = True"
| "is_bool _ = False"

fun is_str :: "pyval \<Rightarrow> bool" where
  "is_str (PStr _) = True"
| "is_str _ = False"

text \<open>\<open>_validate_options\<close>: the error raised, or \<open>None\<close>.\<close>

definition options_error :: "pydict \<Rightarrow> string \<Rightarrow> entry_error option" where
  "options_error options role =
     (if map_of options OPTION_INVERT \<noteq> None \<and> \<not> is_bool (dget options OPTION_INVERT)
      then Some (OptionNotBoolean OPTION_INVERT)
      else if map_of options OPTION_INVERT \<noteq> None \<and> role \<notin> set INVERTIBLE_ROLES
      then Some (OptionWrongRole OPTION_INVERT)
      else if map_of options OPTION_STATE_KEY \<noteq> None
           \<and> (\<not> is_str (dget options OPTION_STATE_KEY) \<or> \<not> truthy (dget options OPTION_STATE_KEY))
      then Some (OptionNotText OPTION_STATE_KEY)
      else if map_of options OPTION_STATE_KEY \<noteq> None \<and> role \<notin> set MAPPABLE_ROLES
      then Some (OptionWrongRole OPTION_STATE_KEY)
      else if map_of options OPTION_STATE_INVERT \<noteq> None \<and> \<not> is_bool (dget options OPTION_STATE_INVERT)
      then Some (OptionNotBoolean OPTION_STATE_INVERT)
      else if map_of options OPTION_STATE_INVERT \<noteq> None \<and> role \<notin> set MAPPABLE_ROLES
      then Some (OptionWrongRole OPTION_STATE_INVERT)
      else ct_bounds_error options role)"

section \<open>Entries\<close>

record export_entry =
  ee_device_id :: int
  ee_role :: string
  ee_name_override :: "string option"
  ee_options :: pydict
  ee_published_as :: "string option"

definition opt_str :: "string option \<Rightarrow> pyval" where
  "opt_str s = (case s of None \<Rightarrow> PNone | Some t \<Rightarrow> PStr t)"

definition entry_to_dict :: "export_entry \<Rightarrow> pydict" where
  "entry_to_dict e = [(KEY_DEVICE_ID, PInt (ee_device_id e)), (KEY_ROLE, PStr (ee_role e)),
     (KEY_NAME_OVERRIDE, opt_str (ee_name_override e)), (KEY_OPTIONS, PDict (ee_options e)),
     (KEY_PUBLISHED_AS, opt_str (ee_published_as e))]"

text \<open>What reading an entry can raise: the \<open>ValueError\<close> of a check, or an exception no check
  turns into one.\<close>

datatype entry_exc = Invalid entry_error | Escapes py_exc

text \<open>\<open>int(raw[KEY_DEVICE_ID])\<close> under \<open>except (KeyError, TypeError, ValueError)\<close>.\<close>

definition entry_device_id :: "pydict \<Rightarrow> entry_exc + int" where
  "entry_device_id d =
     (case py_bind (py_item (PDict d) KEY_DEVICE_ID) py_int of
        Inr n \<Rightarrow> Inr n
      | Inl e \<Rightarrow> if e \<in> {KeyError, TypeError, ValueError} then Inl (Invalid NoUsableDeviceId) else Inl (Escapes e))"

text \<open>\<open>role not in ROLES\<close>: membership in a frozenset hashes the value, which a list or an
  object has no hash for.\<close>

fun entry_role :: "pyval \<Rightarrow> entry_exc + string" where
  "entry_role (PStr r) = (if is_role r then Inr r else Inl (Invalid UnknownRole))"
| "entry_role (PList _) = Inl (Escapes TypeError)"
| "entry_role (PDict _) = Inl (Escapes TypeError)"
| "entry_role _ = Inl (Invalid UnknownRole)"

definition entry_published :: "pyval \<Rightarrow> entry_exc + string option" where
  "entry_published v = (case v of
       PNone \<Rightarrow> Inr None
     | PStr s \<Rightarrow> (if parse_published_id (PStr s) = None then Inl (Invalid PublishedUnlawful) else Inr (Some s))
     | _ \<Rightarrow> Inl (Invalid PublishedNotText))"

definition entry_from_dict :: "pyval \<Rightarrow> entry_exc + export_entry" where
  "entry_from_dict raw =
     (case raw of
        PDict d \<Rightarrow>
          (case entry_device_id d of Inl e \<Rightarrow> Inl e | Inr device_id \<Rightarrow>
          (case entry_role (dget d KEY_ROLE) of Inl e \<Rightarrow> Inl e | Inr role \<Rightarrow>
           let name = dget d KEY_NAME_OVERRIDE
           in if name \<noteq> PNone \<and> \<not> is_str name then Inl (Invalid NameNotText)
              else (case or_empty (dget d KEY_OPTIONS) of
                      PDict options \<Rightarrow>
                        (case options_error options role of
                           Some err \<Rightarrow> Inl (Invalid err)
                         | None \<Rightarrow>
                             (case entry_published (dget d KEY_PUBLISHED_AS) of
                                Inl e \<Rightarrow> Inl e
                              | Inr published \<Rightarrow>
                                  Inr \<lparr>ee_device_id = device_id, ee_role = role,
                                       ee_name_override = (case name of PStr s \<Rightarrow> if s = [] then None else Some s | _ \<Rightarrow> None),
                                       ee_options = options, ee_published_as = published\<rparr>))
                    | _ \<Rightarrow> Inl (Invalid OptionsNotObject))))
      | _ \<Rightarrow> Inl (Invalid NotAnObject))"

definition label_for :: "export_entry \<Rightarrow> string \<Rightarrow> string" where
  "label_for e device_name = (case ee_name_override e of
     Some s \<Rightarrow> if s = [] then device_name else s | None \<Rightarrow> device_name)"

section \<open>The store\<close>

datatype pref_value = Json pyval | NotJson | NonText pyval | ReprOf pyval

datatype load_error = Unreadable | Dropped nat

datatype store_log = LogDroppedEntry entry_exc | LogRejectedEntry int string
  | LogUnreadable | LogRescueKept | LogStoreException | LogLoaded nat nat

record store =
  st_entries :: "(int \<times> export_entry) list"
  st_prefs :: "(string \<times> pref_value) list"
  st_load_error :: "load_error option"

definition store_get :: "int \<Rightarrow> store \<Rightarrow> export_entry option" where
  "store_get device_id st = map_of (st_entries st) device_id"

definition store_all :: "store \<Rightarrow> export_entry list" where
  "store_all st = map (\<lambda>k. the (map_of (st_entries st) k)) (sort (map fst (st_entries st)))"

definition store_ids :: "store \<Rightarrow> int set" where
  "store_ids st = fst ` set (st_entries st)"

definition store_len :: "store \<Rightarrow> nat" where
  "store_len st = length (st_entries st)"

text \<open>\<open>in\<close>: an \<open>OverflowError\<close> of \<open>int\<close> is not one of the two exceptions it answers.\<close>

definition store_contains :: "pyval \<Rightarrow> store \<Rightarrow> bool py_result" where
  "store_contains v st = (case py_int v of
       Inr n \<Rightarrow> Inr (n \<in> store_ids st)
     | Inl e \<Rightarrow> if e = TypeError \<or> e = ValueError then Inr False else Inl e)"

definition payload_of :: "(int \<times> export_entry) list \<Rightarrow> pyval" where
  "payload_of entries = PDict [(KEY_VERSION, PInt SCHEMA_VERSION),
     (KEY_EXPORTS, PList (map (\<lambda>k. PDict (entry_to_dict (the (map_of entries k)))) (sort (map fst entries))))]"

text \<open>What the prefs mapping and Indigo do during a commit: the write of the key may raise, the
  flush may raise, and so may putting the key back.\<close>

record commit_env =
  ce_write :: "py_exc option"
  ce_save :: "py_exc option"
  ce_rollback_fails :: bool

definition commit :: "commit_env \<Rightarrow> (int \<times> export_entry) list \<Rightarrow> store \<Rightarrow> py_exc option \<times> store \<times> store_log list" where
  "commit env pending st =
     (let blob = Json (payload_of pending);
          previous = map_of (st_prefs st) PREF_KEY
      in case ce_write env of
           Some e \<Rightarrow> (Some e, st, [])
         | None \<Rightarrow>
             (let st1 = st\<lparr>st_prefs := AList.update PREF_KEY blob (st_prefs st)\<rparr>
              in case ce_save env of
                   None \<Rightarrow> (None, st1\<lparr>st_entries := pending\<rparr>, [])
                 | Some e \<Rightarrow>
                     if ce_rollback_fails env then (Some e, st1, [LogStoreException])
                     else (Some e, st1\<lparr>st_prefs := (case previous of
                                           Some p \<Rightarrow> AList.update PREF_KEY p (st_prefs st1)
                                         | None \<Rightarrow> AList.delete PREF_KEY (st_prefs st1))\<rparr>, [])))"

text \<open>The check both writes make of an entry.\<close>

definition write_error :: "export_entry \<Rightarrow> entry_error option" where
  "write_error e =
     (if (case ee_published_as e of None \<Rightarrow> False | Some s \<Rightarrow> parse_published_id (PStr s) = None)
      then Some PublishedUnlawful
      else options_error (ee_options e) (ee_role e))"

datatype write_exc = WInvalid entry_error | WCommit py_exc

definition upsert :: "commit_env \<Rightarrow> export_entry \<Rightarrow> store \<Rightarrow> (write_exc + export_entry) \<times> store" where
  "upsert env e st =
     (case write_error e of
        Some err \<Rightarrow> (Inl (WInvalid err), st)
      | None \<Rightarrow>
          (case commit env (AList.update (ee_device_id e) e (st_entries st)) st of
             (Some exc, st', _) \<Rightarrow> (Inl (WCommit exc), st')
           | (None, st', _) \<Rightarrow> (Inr e, st')))"

definition store_remove :: "commit_env \<Rightarrow> int \<Rightarrow> store \<Rightarrow> (write_exc + bool) \<times> store" where
  "store_remove env device_id st =
     (if map_of (st_entries st) device_id = None then (Inr False, st)
      else (case commit env (AList.delete device_id (st_entries st)) st of
              (Some exc, st', _) \<Rightarrow> (Inl (WCommit exc), st')
            | (None, st', _) \<Rightarrow> (Inr True, st')))"

definition entries_dict :: "export_entry list \<Rightarrow> (int \<times> export_entry) list" where
  "entries_dict es = fold (\<lambda>e d. AList.update (ee_device_id e) e d) es []"

fun first_error :: "export_entry list \<Rightarrow> entry_error option" where
  "first_error [] = None"
| "first_error (e # es) = (case write_error e of Some err \<Rightarrow> Some err | None \<Rightarrow> first_error es)"

definition replace_all :: "commit_env \<Rightarrow> export_entry list \<Rightarrow> store \<Rightarrow> (write_exc + unit) \<times> store" where
  "replace_all env es st =
     (case first_error es of
        Some err \<Rightarrow> (Inl (WInvalid err), st)
      | None \<Rightarrow>
          (case commit env (entries_dict es) st of
             (Some exc, st', _) \<Rightarrow> (Inl (WCommit exc), st')
           | (None, st', _) \<Rightarrow> (Inr (), st')))"

section \<open>Loading\<close>

fun pref_truthy :: "pref_value \<Rightarrow> bool" where
  "pref_truthy (NonText v) = truthy v"
| "pref_truthy _ = True"

text \<open>\<open>_preserve\<close>: the first rescue wins; the flag says that the prefs mapping raises.\<close>

definition preserve :: "pref_value \<Rightarrow> bool \<Rightarrow> store \<Rightarrow> store \<times> store_log list" where
  "preserve raw prefs_raise st =
     (if prefs_raise then (st, [LogStoreException])
      else if (case map_of (st_prefs st) PREF_KEY_CORRUPT of None \<Rightarrow> False | Some p \<Rightarrow> pref_truthy p)
      then (st, [LogRescueKept])
      else (st\<lparr>st_prefs := AList.update PREF_KEY_CORRUPT
                 (case raw of NonText v \<Rightarrow> ReprOf v | p \<Rightarrow> p) (st_prefs st)\<rparr>, []))"

definition corrupt :: "pref_value \<Rightarrow> bool \<Rightarrow> store \<Rightarrow> store \<times> store_log list" where
  "corrupt raw prefs_raise st =
     (case preserve raw prefs_raise (st\<lparr>st_entries := [], st_load_error := Some Unreadable\<rparr>) of
        (st', logs) \<Rightarrow> (st', LogUnreadable # logs))"

text \<open>\<open>_reject\<close>: the injected validator (absent, or a test that may raise) returns a reason
  or \<open>None\<close>; an empty reason does not reject.\<close>

definition reject :: "(export_entry \<Rightarrow> string option py_result) option \<Rightarrow> export_entry \<Rightarrow> string option" where
  "reject validator e = (case validator of
       None \<Rightarrow> None
     | Some check \<Rightarrow> (case check e of Inl _ \<Rightarrow> None | Inr verdict \<Rightarrow> verdict))"

text \<open>The loop over the listed items; an exception that is not a \<open>ValueError\<close> ends it.\<close>

fun load_items :: "(export_entry \<Rightarrow> string option py_result) option \<Rightarrow> pyval list
    \<Rightarrow> (int \<times> export_entry) list \<Rightarrow> nat \<Rightarrow> store_log list
    \<Rightarrow> py_exc + ((int \<times> export_entry) list \<times> nat \<times> store_log list)" where
  "load_items validator [] entries dropped logs = Inr (entries, dropped, logs)"
| "load_items validator (item # items) entries dropped logs =
     (case entry_from_dict item of
        Inl (Escapes e) \<Rightarrow> Inl e
      | Inl err \<Rightarrow> load_items validator items entries (dropped + 1) (logs @ [LogDroppedEntry err])
      | Inr e \<Rightarrow>
          (case reject validator e of
             Some reason \<Rightarrow>
               if reason \<noteq> [] then load_items validator items entries (dropped + 1)
                                      (logs @ [LogRejectedEntry (ee_device_id e) reason])
               else load_items validator items (AList.update (ee_device_id e) e entries) dropped logs
           | None \<Rightarrow> load_items validator items (AList.update (ee_device_id e) e entries) dropped logs))"

definition load_list :: "(export_entry \<Rightarrow> string option py_result) option \<Rightarrow> bool \<Rightarrow> pref_value \<Rightarrow> pyval list
    \<Rightarrow> store \<Rightarrow> py_exc option \<times> store \<times> store_log list" where
  "load_list validator prefs_raise raw items st =
     (case load_items validator items [] 0 [] of
        Inl e \<Rightarrow> (Some e, st, [])
      | Inr (entries, dropped, logs) \<Rightarrow>
          (let st1 = st\<lparr>st_entries := entries\<rparr>
           in if dropped = 0 then (None, st1, logs @ [LogLoaded (length entries) 0])
              else (case preserve raw prefs_raise (st1\<lparr>st_load_error := Some (Dropped dropped)\<rparr>) of
                      (st2, plogs) \<Rightarrow> (None, st2, logs @ plogs @ [LogLoaded (length entries) dropped]))))"

text \<open>\<open>version != SCHEMA_VERSION\<close> compares numerically, so \<open>true\<close> and \<open>1.0\<close> pass.\<close>

definition load_store :: "(export_entry \<Rightarrow> string option py_result) option \<Rightarrow> bool \<Rightarrow> store
    \<Rightarrow> py_exc option \<times> store \<times> store_log list" where
  "load_store validator prefs_raise st =
     (let bad = (\<lambda>raw. case corrupt raw prefs_raise st of (st', logs) \<Rightarrow> (None, st', logs))
      in case map_of (st_prefs st) PREF_KEY of
           None \<Rightarrow> (None, st\<lparr>st_entries := []\<rparr>, [])
         | Some raw \<Rightarrow>
             if \<not> pref_truthy raw then (None, st\<lparr>st_entries := []\<rparr>, [])
             else (case raw of
                     Json (PDict payload) \<Rightarrow>
                       if \<not> eq_int (dget payload KEY_VERSION) SCHEMA_VERSION then bad raw
                       else (case dget payload KEY_EXPORTS of
                               PList items \<Rightarrow> load_list validator prefs_raise raw items st
                             | _ \<Rightarrow> bad raw)
                   | _ \<Rightarrow> bad raw))"

definition open_store :: "(export_entry \<Rightarrow> string option py_result) option \<Rightarrow> bool
    \<Rightarrow> (string \<times> pref_value) list \<Rightarrow> py_exc option \<times> store \<times> store_log list" where
  "open_store validator prefs_raise prefs =
     load_store validator prefs_raise \<lparr>st_entries = [], st_prefs = prefs, st_load_error = None\<rparr>"

section \<open>Properties of entries\<close>

lemma is_roleD: "is_role r \<Longrightarrow> r \<noteq> []"
  by (auto simp: is_role_def ROLES_def ROLE_STATE_KEYS_def)

definition entry_ok :: "export_entry \<Rightarrow> bool" where
  "entry_ok e \<longleftrightarrow> is_role (ee_role e) \<and> ee_name_override e \<noteq> Some [] \<and> write_error e = None"

lemma write_error_None:
  "write_error e = None \<longleftrightarrow> options_error (ee_options e) (ee_role e) = None
     \<and> (\<forall>s. ee_published_as e = Some s \<longrightarrow> parse_published_id (PStr s) \<noteq> None)"
  by (auto simp: write_error_def split: option.splits)

lemma or_empty_PDict [simp]: "or_empty (PDict d) = PDict d"
  by (cases d) (simp_all add: or_empty_def)

lemma entry_from_to_dict:
  assumes "entry_ok e"
  shows "entry_from_dict (PDict (entry_to_dict e)) = Inr e"
proof -
  let ?d = "entry_to_dict e"
  have "entry_device_id ?d = Inr (ee_device_id e)"
    by (simp add: entry_device_id_def entry_to_dict_def)
  moreover have "dget ?d KEY_ROLE = PStr (ee_role e)" "dget ?d KEY_NAME_OVERRIDE = opt_str (ee_name_override e)"
    "dget ?d KEY_OPTIONS = PDict (ee_options e)" "dget ?d KEY_PUBLISHED_AS = opt_str (ee_published_as e)"
    by (simp_all add: dget_def entry_to_dict_def store_keys)
  moreover have "entry_published (opt_str (ee_published_as e)) = Inr (ee_published_as e)"
    using assms by (auto simp: entry_ok_def write_error_None entry_published_def opt_str_def split: option.split)
  moreover have "(case opt_str (ee_name_override e) of PStr s \<Rightarrow> if s = [] then None else Some s | _ \<Rightarrow> None)
      = ee_name_override e"
    using assms by (auto simp: entry_ok_def opt_str_def split: option.split)
  moreover have "opt_str (ee_name_override e) = PNone \<or> is_str (opt_str (ee_name_override e))"
    by (simp add: opt_str_def split: option.split)
  ultimately show ?thesis
    using assms by (auto simp: entry_from_dict_def Let_def entry_ok_def write_error_None)
qed

lemma entry_published_ok: "entry_published v = Inr (Some s) \<Longrightarrow> parse_published_id (PStr s) \<noteq> None"
  by (auto simp: entry_published_def split: pyval.splits if_splits)

lemma entry_role_ok: "entry_role v = Inr r \<Longrightarrow> is_role r"
  by (cases v) (auto split: if_splits)

lemma entry_from_dict_ok:
  assumes "entry_from_dict raw = Inr e"
  shows "entry_ok e"
proof -
  from assms obtain d where "raw = PDict d" by (cases raw) (auto simp: entry_from_dict_def)
  with assms show ?thesis
    by (auto simp: entry_from_dict_def Let_def entry_ok_def write_error_None
        dest: entry_role_ok entry_published_ok split: sum.splits if_splits pyval.splits option.splits)
qed

text \<open>An entry the store accepts is read back exactly from its persisted shape, and whatever the
  reader accepts is an entry the store accepts, so persisting and reloading an accepted entry
  changes nothing about it.\<close>

theorem entry_roundtrip:
  "(entry_ok e \<longrightarrow> entry_from_dict (PDict (entry_to_dict e)) = Inr e)
   \<and> (entry_from_dict raw = Inr e' \<longrightarrow> entry_ok e' \<and> entry_from_dict (PDict (entry_to_dict e')) = Inr e')"
  using entry_from_to_dict entry_from_dict_ok by blast

definition demo_entry :: export_entry where
  "demo_entry = \<lparr>ee_device_id = 42, ee_role = ''colorTemperatureLight'', ee_name_override = Some ''Desk'',
     ee_options = [(''ctMinMireds'', PInt 200), (''ctMaxMireds'', PInt 400)], ee_published_as = Some ''indigo-41~2''\<rparr>"

lemma demo_entry_ok: "entry_ok demo_entry"
  unfolding entry_ok_def by code_simp

lemma entry_roundtrip_witness: "entry_from_dict (PDict (entry_to_dict demo_entry)) = Inr demo_entry"
  using entry_roundtrip [of demo_entry] demo_entry_ok by blast

lemma pair_error_None:
  assumes "ct_pair_error options role k k' seed = None" "role \<in> set CT_BOUNDS_ROLES"
  shows "map_of options k = Some v \<Longrightarrow> \<exists>n. v = PInt n \<and> GENERIC_MIN_MIREDS \<le> n \<and> n \<le> GENERIC_MAX_MIREDS"
    and "map_of options k' = Some v \<Longrightarrow> \<exists>n. v = PInt n \<and> GENERIC_MIN_MIREDS \<le> n \<and> n \<le> GENERIC_MAX_MIREDS"
    and "map_of options k = Some (PInt n) \<Longrightarrow> map_of options k' = Some (PInt m) \<Longrightarrow> n < m"
  using assms by (auto simp: ct_pair_error_def Let_def dget_def is_valid_ct_bound_iff split: if_splits option.splits)

lemma options_error_ct: "options_error options role = None \<Longrightarrow> ct_bounds_error options role = None"
  by (simp add: options_error_def split: if_splits)

lemma ct_bounds_error_None:
  "ct_bounds_error options role = None \<Longrightarrow>
     ct_pair_error options role OPTION_CT_MIN_MIREDS OPTION_CT_MAX_MIREDS True = None
   \<and> ct_pair_error options role OPTION_CT_LEARNED_MIN_MIREDS OPTION_CT_LEARNED_MAX_MIREDS False = None"
  by (simp add: ct_bounds_error_def split: option.splits)

lemma ct_side_domain:
  assumes "\<And>v. map_of options k = Some v \<Longrightarrow> \<exists>n. v = PInt n \<and> GENERIC_MIN_MIREDS \<le> n \<and> n \<le> GENERIC_MAX_MIREDS"
    and "\<And>v. map_of options k' = Some v \<Longrightarrow> \<exists>n. v = PInt n \<and> GENERIC_MIN_MIREDS \<le> n \<and> n \<le> GENERIC_MAX_MIREDS"
    and "GENERIC_MIN_MIREDS \<le> g" "g \<le> GENERIC_MAX_MIREDS"
  shows "GENERIC_MIN_MIREDS \<le> ct_side options k k' g \<and> ct_side options k k' g \<le> GENERIC_MAX_MIREDS"
proof -
  have in_range: "GENERIC_MIN_MIREDS \<le> the_int (dget options key) \<and> the_int (dget options key) \<le> GENERIC_MAX_MIREDS"
    if "is_valid_ct_bound (dget options key)" "key = k \<or> key = k'" for key
    using that assms(1,2) by (auto simp: dget_def is_valid_ct_bound_iff split: option.splits)
  show ?thesis using in_range [of k] in_range [of k'] assms(3,4) by (auto simp: ct_side_def)
qed

text \<open>Options that pass validation on a colour-temperature role give two effective bounds inside
  the generic domain, in order whenever both come from the same stored pair or neither is
  stored; but validation treats the two pairs apart, so a learned bound and a seed together
  can pass it and cross.\<close>

theorem validated_bounds:
  "(options_error options role = None \<and> role \<in> set CT_BOUNDS_ROLES \<longrightarrow>
      (case effective_ct_bounds options of (lo, hi) \<Rightarrow>
         GENERIC_MIN_MIREDS \<le> lo \<and> lo \<le> GENERIC_MAX_MIREDS \<and> GENERIC_MIN_MIREDS \<le> hi \<and> hi \<le> GENERIC_MAX_MIREDS
         \<and> (fst (effective_ct_sources options) = snd (effective_ct_sources options) \<longrightarrow> lo < hi)))
   \<and> options_error [(''ctMinMireds'', PInt 153), (''ctMaxMireds'', PInt 300), (''ctLearnedMinMireds'', PInt 400)]
       ''colorTemperatureLight'' = None
   \<and> effective_ct_bounds [(''ctMinMireds'', PInt 153), (''ctMaxMireds'', PInt 300), (''ctLearnedMinMireds'', PInt 400)]
       = (400, 300)"
proof (intro conjI impI)
  assume a: "options_error options role = None \<and> role \<in> set CT_BOUNDS_ROLES"
  then have seed: "ct_pair_error options role OPTION_CT_MIN_MIREDS OPTION_CT_MAX_MIREDS True = None"
    and learned: "ct_pair_error options role OPTION_CT_LEARNED_MIN_MIREDS OPTION_CT_LEARNED_MAX_MIREDS False = None"
    and role: "role \<in> set CT_BOUNDS_ROLES"
    using options_error_ct ct_bounds_error_None by blast+
  note s = pair_error_None [OF seed role] and l = pair_error_None [OF learned role]
  have dom: "GENERIC_MIN_MIREDS \<le> GENERIC_MAX_MIREDS" by (simp add: ct_generic)
  have lo: "GENERIC_MIN_MIREDS \<le> fst (effective_ct_bounds options) \<and> fst (effective_ct_bounds options) \<le> GENERIC_MAX_MIREDS"
    unfolding effective_ct_bounds_def fst_conv by (rule ct_side_domain [OF l(1) s(1) order_refl dom])
  have hi: "GENERIC_MIN_MIREDS \<le> snd (effective_ct_bounds options) \<and> snd (effective_ct_bounds options) \<le> GENERIC_MAX_MIREDS"
    unfolding effective_ct_bounds_def snd_conv by (rule ct_side_domain [OF l(2) s(2) dom order_refl])
  have "fst (effective_ct_bounds options) < snd (effective_ct_bounds options)"
    if "fst (effective_ct_sources options) = snd (effective_ct_sources options)"
    using that l(3) s(3)
    by (auto simp: ct_defs dget_def is_valid_ct_bound_iff ct_generic split: if_splits option.splits)
  with lo hi show "case effective_ct_bounds options of (lo, hi) \<Rightarrow>
         GENERIC_MIN_MIREDS \<le> lo \<and> lo \<le> GENERIC_MAX_MIREDS \<and> GENERIC_MIN_MIREDS \<le> hi \<and> hi \<le> GENERIC_MAX_MIREDS
         \<and> (fst (effective_ct_sources options) = snd (effective_ct_sources options) \<longrightarrow> lo < hi)"
    by (simp add: case_prod_beta)
qed code_simp+

lemma validated_bounds_witness: "200 < (400::int) \<and> effective_ct_bounds (ee_options demo_entry) = (200, 400)"
proof -
  have "options_error (ee_options demo_entry) ''colorTemperatureLight'' = None \<and> ''colorTemperatureLight'' \<in> set CT_BOUNDS_ROLES"
    by code_simp
  moreover have e: "effective_ct_bounds (ee_options demo_entry) = (200, 400)" by code_simp
  moreover have "fst (effective_ct_sources (ee_options demo_entry)) = snd (effective_ct_sources (ee_options demo_entry))"
    by code_simp
  ultimately show ?thesis using validated_bounds [of "ee_options demo_entry" "''colorTemperatureLight''"] by auto
qed

section \<open>Properties of the store\<close>

text \<open>Every entry under its own id and acceptable.\<close>

definition entries_ok :: "(int \<times> export_entry) list \<Rightarrow> bool" where
  "entries_ok d \<longleftrightarrow> distinct (map fst d) \<and> (\<forall>(k, e) \<in> set d. ee_device_id e = k \<and> entry_ok e)"

definition store_ok :: "store \<Rightarrow> bool" where
  "store_ok st \<longleftrightarrow> entries_ok (st_entries st)"

text \<open>The preference holds what memory holds.\<close>

definition persisted :: "store \<Rightarrow> bool" where
  "persisted st \<longleftrightarrow> map_of (st_prefs st) PREF_KEY = Some (Json (payload_of (st_entries st)))"

lemma entries_ok_map_of: "entries_ok d \<Longrightarrow> map_of d k = Some e \<Longrightarrow> ee_device_id e = k \<and> entry_ok e"
  by (auto simp: entries_ok_def dest!: map_of_SomeD)

lemma entries_ok_update:
  assumes "entries_ok d" "entry_ok e"
  shows "entries_ok (AList.update (ee_device_id e) e d)"
proof -
  have "k = ee_device_id e \<and> e' = e \<or> (k, e') \<in> set d" if "(k, e') \<in> set (AList.update (ee_device_id e) e d)" for k e'
    using update_in_set [OF that] assms(1) by (simp add: entries_ok_def)
  with assms show ?thesis by (fastforce simp: entries_ok_def distinct_update)
qed

lemma entries_ok_delete: "entries_ok d \<Longrightarrow> entries_ok (AList.delete k d)"
  by (auto simp: entries_ok_def distinct_delete dest: set_delete_sub)

lemma entries_ok_dict:
  assumes "\<forall>e \<in> set es. entry_ok e"
  shows "entries_ok (entries_dict es)"
proof -
  have "entries_ok (fold (\<lambda>e d. AList.update (ee_device_id e) e d) es d)" if "entries_ok d" for d
    using that assms by (induction es arbitrary: d) (auto simp: entries_ok_update)
  from this [of "[]"] show ?thesis by (simp add: entries_dict_def) (simp add: entries_ok_def)
qed

text \<open>A commit either adopts and persists, or leaves the entries alone; it leaves every
  preference alone too unless putting the key back failed.\<close>

lemma commit_cases [consumes 1, case_names committed failed]:
  assumes "commit env pending st = (r, st', logs)"
  obtains "r = None" "st_entries st' = pending" "persisted st'"
      "\<And>k. k \<noteq> PREF_KEY \<Longrightarrow> map_of (st_prefs st') k = map_of (st_prefs st) k"
    | exc where "r = Some exc" "st_entries st' = st_entries st" "ce_write env \<noteq> None \<or> ce_save env \<noteq> None"
      "\<not> ce_rollback_fails env \<Longrightarrow> map_of (st_prefs st') = map_of (st_prefs st)"
      "\<And>k. k \<noteq> PREF_KEY \<Longrightarrow> map_of (st_prefs st') k = map_of (st_prefs st) k"
proof (cases "ce_write env")
  case (Some e)
  with assms have "r = Some e" "st' = st" by (simp_all add: commit_def Let_def)
  with Some show thesis by (intro that(2)) simp_all
next
  case w: None
  show thesis
  proof (cases "ce_save env")
    case None
    with assms w that(1) show thesis by (auto simp: commit_def Let_def persisted_def)
  next
    case (Some e)
    have back1: "map_of (AList.update k p d) = map_of d" if "map_of d k = Some p"
      for k :: string and p :: pref_value and d
      using that by (auto simp: update_conv' fun_eq_iff)
    have back2: "map_of (AList.delete k (AList.update k b d)) = map_of d" if "map_of d k = None"
      for k :: string and b :: pref_value and d
      using that by (auto simp: update_conv' delete_conv' fun_eq_iff)
    have st': "r = Some e" "st_entries st' = st_entries st"
      "\<not> ce_rollback_fails env \<Longrightarrow> map_of (st_prefs st') = map_of (st_prefs st)"
      "k \<noteq> PREF_KEY \<Longrightarrow> map_of (st_prefs st') k = map_of (st_prefs st) k" for k
      using assms w Some
      by (auto simp: commit_def Let_def back1 back2 split: if_splits option.splits)
    show thesis by (rule that(2) [OF st'(1,2)]) (use Some st' in auto)
  qed
qed

lemma store_ok_commit: "commit env pending st = (r, st', logs) \<Longrightarrow> store_ok st \<Longrightarrow> entries_ok pending \<Longrightarrow> store_ok st'"
  by (cases rule: commit_cases) (auto simp: store_ok_def)

text \<open>What a client of the allow-list relies on: a write that returns is seen by the next
  lookup and by no other, a write that raises changes no lookup.\<close>

locale entry_store =
  fixes lookup :: "int \<Rightarrow> 's \<Rightarrow> 'e option"
    and put :: "'c \<Rightarrow> 'e \<Rightarrow> 's \<Rightarrow> ('x + 'e) \<times> 's"
    and device_of :: "'e \<Rightarrow> int"
    and sound :: "'s \<Rightarrow> bool"
    and acceptable :: "'e \<Rightarrow> bool"
  assumes write_ok: "sound s \<Longrightarrow> acceptable e \<Longrightarrow> put c e s = (Inr e', s') \<Longrightarrow>
        e' = e \<and> sound s' \<and> lookup (device_of e) s' = Some e
        \<and> (\<forall>k. k \<noteq> device_of e \<longrightarrow> lookup k s' = lookup k s)"
    and write_failed: "sound s \<Longrightarrow> put c e s = (Inl x, s') \<Longrightarrow>
        sound s' \<and> (\<forall>k. lookup k s' = lookup k s)"
    and lookup_key: "sound s \<Longrightarrow> lookup k s = Some e \<Longrightarrow> device_of e = k \<and> acceptable e"
begin

lemma write_sound: "sound s \<Longrightarrow> acceptable e \<Longrightarrow> put c e s = (r, s') \<Longrightarrow> sound s'"
  using write_ok write_failed by (cases r) blast+

lemma write_lookup:
  assumes "sound s" "acceptable e" "put c e s = (r, s')"
  shows "lookup k s' = (if k = device_of e \<and> (\<exists>e'. r = Inr e') then Some e else lookup k s)"
proof (cases r)
  case (Inl x)
  with assms write_failed show ?thesis by simp
next
  case (Inr e')
  with assms write_ok [of s e c e' s'] show ?thesis by auto
qed

text \<open>Updating the entry of a device in place: what was read, changed, and written.\<close>

lemma rewrite_lookup:
  assumes "sound s" "lookup k s = Some e" "device_of e' = k" "acceptable e'" "put c e' s = (r, s')"
  shows "lookup k s' = Some (case r of Inr _ \<Rightarrow> e' | Inl _ \<Rightarrow> e)
       \<and> (\<forall>k'. k' \<noteq> k \<longrightarrow> lookup k' s' = lookup k' s)"
  using write_lookup [OF assms(1,4,5)] assms(2,3) by (cases r) auto

end

definition role_named :: "export_entry \<Rightarrow> bool" where
  "role_named e \<longleftrightarrow> is_role (ee_role e) \<and> ee_name_override e \<noteq> Some []"

lemma upsert_ok:
  assumes "store_ok st" "role_named e" "upsert env e st = (Inr e', st')"
  shows "e' = e \<and> entry_ok e \<and> store_ok st' \<and> persisted st'
    \<and> st_entries st' = AList.update (ee_device_id e) e (st_entries st)"
proof -
  from assms(3) obtain logs where w: "write_error e = None" "e' = e"
    and c: "commit env (AList.update (ee_device_id e) e (st_entries st)) st = (None, st', logs)"
    by (auto simp: upsert_def split: option.splits prod.splits)
  have ok: "entry_ok e" using assms(2) w(1) by (simp add: entry_ok_def role_named_def)
  from c have "st_entries st' = AList.update (ee_device_id e) e (st_entries st)" "persisted st'"
    by (cases rule: commit_cases; simp)+
  with ok w assms(1) entries_ok_update show ?thesis by (simp add: store_ok_def)
qed

lemma upsert_failed:
  assumes "upsert env e st = (Inl x, st')"
  shows "st_entries st' = st_entries st \<and> (\<not> ce_rollback_fails env \<longrightarrow> map_of (st_prefs st') = map_of (st_prefs st))"
proof (cases "write_error e")
  case (Some err)
  with assms show ?thesis by (simp add: upsert_def)
next
  case None
  with assms obtain exc logs where "commit env (AList.update (ee_device_id e) e (st_entries st)) st = (Some exc, st', logs)"
    by (auto simp: upsert_def split: option.splits prod.splits)
  then show ?thesis by (cases rule: commit_cases) auto
qed

interpretation allow_list: entry_store store_get upsert ee_device_id store_ok role_named
proof
  show "e' = e \<and> store_ok s' \<and> store_get (ee_device_id e) s' = Some e
      \<and> (\<forall>k. k \<noteq> ee_device_id e \<longrightarrow> store_get k s' = store_get k s)"
    if "store_ok s" "role_named e" "upsert c e s = (Inr e', s')" for s e c e' s'
    using upsert_ok [OF that] by (simp add: store_get_def)
  show "store_ok s' \<and> (\<forall>k. store_get k s' = store_get k s)"
    if "store_ok s" "upsert c e s = (Inl x, s')" for s c e x s'
    using upsert_failed [OF that(2)] that(1) by (simp add: store_get_def store_ok_def)
  show "ee_device_id e = k \<and> role_named e" if "store_ok s" "store_get k s = Some e" for s k e
    using that entries_ok_map_of by (auto simp: store_ok_def store_get_def role_named_def entry_ok_def)
qed

text \<open>C23: in a well-formed store, the write of one entry that has a known role and no empty name override is
  all or nothing: if it returns, the entry is found under its device id, every other device keeps its entry and the preferences hold
  exactly the new list; if it raises, no lookup and (unless restoring the preference itself failed)
  no preference changes. Such an entry that the strict reader would refuse (\<open>entry_ok\<close>) always raises;
  an unknown role or an empty override itself is not looked at by the write.\<close>

theorem upsert_atomic:
  assumes "store_ok st" "role_named e" "upsert env e st = (r, st')"
  shows "(case r of
      Inr e' \<Rightarrow> e' = e \<and> entry_ok e \<and> persisted st' \<and> store_get (ee_device_id e) st' = Some e
    | Inl x \<Rightarrow> (\<not> ce_rollback_fails env \<longrightarrow> map_of (st_prefs st') = map_of (st_prefs st))
              \<and> store_get (ee_device_id e) st' = store_get (ee_device_id e) st)
    \<and> (\<forall>k. k \<noteq> ee_device_id e \<longrightarrow> store_get k st' = store_get k st)
    \<and> store_ok st'"
proof (cases r)
  case (Inl x)
  with assms allow_list.write_failed [OF assms(1)] upsert_failed show ?thesis by auto
next
  case (Inr e')
  with assms(3) have "upsert env e st = (Inr e', st')" by simp
  from upsert_ok [OF assms(1,2) this] allow_list.write_ok [OF assms(1,2) this] Inr show ?thesis by simp
qed

definition demo_store :: store where
  "demo_store = \<lparr>st_entries = [(42, demo_entry)],
     st_prefs = [(PREF_KEY, Json (payload_of [(42, demo_entry)]))], st_load_error = None\<rparr>"

lemma demo_store_ok: "store_ok demo_store" "role_named demo_entry" "persisted demo_store"
  using demo_entry_ok by (auto simp: store_ok_def entries_ok_def demo_store_def role_named_def entry_ok_def persisted_def demo_entry_def)

lemma upsert_atomic_witness:
  "store_get 42 (snd (upsert \<lparr>ce_write = None, ce_save = Some RuntimeError, ce_rollback_fails = False\<rparr>
      (demo_entry\<lparr>ee_name_override := None\<rparr>) demo_store)) = Some demo_entry"
proof -
  let ?env = "\<lparr>ce_write = None, ce_save = Some RuntimeError, ce_rollback_fails = False\<rparr>"
  let ?e = "demo_entry\<lparr>ee_name_override := None\<rparr>"
  have "role_named ?e" using demo_store_ok(2) by (simp add: role_named_def)
  moreover obtain r st' where u: "upsert ?env ?e demo_store = (r, st')" by (cases "upsert ?env ?e demo_store")
  moreover have "isl (fst (upsert ?env ?e demo_store))" by code_simp
  then obtain x where "r = Inl x" using u by (auto simp: isl_def)
  ultimately have "store_get 42 st' = store_get 42 demo_store"
    using upsert_atomic [OF demo_store_ok(1), of ?e ?env r st'] by (simp add: demo_entry_def)
  with u show ?thesis by (simp add: store_get_def demo_store_def)
qed

section \<open>Loading\<close>

text \<open>An entry the injected validator lets through.\<close>

definition accepts :: "(export_entry \<Rightarrow> string option py_result) option \<Rightarrow> export_entry \<Rightarrow> bool" where
  "accepts validator e \<longleftrightarrow> reject validator e \<in> {None, Some []}"

lemma accepts_None [simp]: "accepts None e"
  by (simp add: accepts_def reject_def)

lemma load_items_ok:
  assumes "\<forall>e \<in> set es. entry_ok e \<and> accepts validator e"
  shows "load_items validator (map (\<lambda>e. PDict (entry_to_dict e)) es) d n logs =
    Inr (fold (\<lambda>e d. AList.update (ee_device_id e) e d) es d, n, logs)"
  using assms by (induction es arbitrary: d) (auto simp: entry_from_to_dict accepts_def)

lemma fold_update_lookup:
  assumes "distinct (map ee_device_id es)"
  shows "map_of (fold (\<lambda>e d. AList.update (ee_device_id e) e d) es d) k =
    (case find (\<lambda>e. ee_device_id e = k) es of Some e \<Rightarrow> Some e | None \<Rightarrow> map_of d k)"
  using assms
proof (induction es arbitrary: d)
  case (Cons e es)
  then have "find (\<lambda>e'. ee_device_id e' = ee_device_id e) es = None"
    by (simp add: find_None_iff) (metis image_eqI)
  with Cons show ?case by (auto simp: update_conv' split: option.split)
qed simp

definition sorted_entries :: "(int \<times> export_entry) list \<Rightarrow> export_entry list" where
  "sorted_entries d = map (\<lambda>k. the (map_of d k)) (sort (map fst d))"

lemma sorted_entries_ids: "entries_ok d \<Longrightarrow> map ee_device_id (sorted_entries d) = sort (map fst d)"
proof -
  assume ok: "entries_ok d"
  have "ee_device_id (the (map_of d k)) = k" if "k \<in> fst ` set d" for k
  proof -
    have "map_of d k \<noteq> None" using that by (simp add: map_of_eq_None_iff)
    then obtain e where e: "map_of d k = Some e" by blast
    with entries_ok_map_of [OF ok e] show ?thesis by simp
  qed
  then have "map (\<lambda>k. ee_device_id (the (map_of d k))) (sort (map fst d)) = sort (map fst d)"
    by (intro map_idI) simp
  then show ?thesis by (simp add: sorted_entries_def comp_def)
qed

lemma sorted_entries_set: "entries_ok d \<Longrightarrow> e \<in> set (sorted_entries d) \<longleftrightarrow> map_of d (ee_device_id e) = Some e"
proof -
  assume ok: "entries_ok d"
  have "e \<in> set (sorted_entries d) \<longleftrightarrow> (\<exists>k \<in> fst ` set d. e = the (map_of d k))"
    by (auto simp: sorted_entries_def)
  also have "\<dots> \<longleftrightarrow> (\<exists>k. map_of d k = Some e)"
  proof
    assume "\<exists>k \<in> fst ` set d. e = the (map_of d k)"
    then obtain k where k: "k \<in> fst ` set d" "e = the (map_of d k)" by blast
    then have "map_of d k \<noteq> None" by (simp add: map_of_eq_None_iff)
    with k show "\<exists>k. map_of d k = Some e" by auto
  next
    assume "\<exists>k. map_of d k = Some e"
    then obtain k where k: "map_of d k = Some e" by blast
    then have "map_of d k \<noteq> None" by simp
    then have "k \<in> fst ` set d" by (simp add: map_of_eq_None_iff)
    with k show "\<exists>k \<in> fst ` set d. e = the (map_of d k)" by (intro bexI [of _ k]) simp_all
  qed
  also have "\<dots> \<longleftrightarrow> map_of d (ee_device_id e) = Some e" using entries_ok_map_of [OF ok] by blast
  finally show ?thesis .
qed

lemma reload_entries:
  assumes "entries_ok d"
  shows "map_of (fold (\<lambda>e d. AList.update (ee_device_id e) e d) (sorted_entries d) []) = map_of d"
proof
  fix k
  have dist: "distinct (map ee_device_id (sorted_entries d))"
    using assms by (simp add: sorted_entries_ids) (simp add: entries_ok_def)
  have "find (\<lambda>e. ee_device_id e = k) (sorted_entries d) = map_of d k"
  proof (cases "map_of d k")
    case None
    then have "k \<notin> set (map ee_device_id (sorted_entries d))"
      by (simp add: sorted_entries_ids [OF assms] map_of_eq_None_iff)
    with None show ?thesis by (auto simp: find_None_iff)
  next
    case (Some e)
    then have e: "e \<in> set (sorted_entries d)" "ee_device_id e = k"
      using entries_ok_map_of [OF assms] sorted_entries_set [OF assms] by auto
    then obtain e' where f: "find (\<lambda>e. ee_device_id e = k) (sorted_entries d) = Some e'"
      by (metis (mono_tags) find_None_iff not_None_eq)
    then have "e' \<in> set (sorted_entries d)" "ee_device_id e' = k" by (auto simp: find_Some_iff)
    with Some f sorted_entries_set [OF assms] show ?thesis by simp
  qed
  with dist show "map_of (fold (\<lambda>e d. AList.update (ee_device_id e) e d) (sorted_entries d) []) k = map_of d k"
    by (simp add: fold_update_lookup split: option.split)
qed

lemma reload_store:
  assumes "store_ok st" "persisted st" "\<And>k e. store_get k st = Some e \<Longrightarrow> accepts validator e"
  shows "open_store validator prefs_raise (st_prefs st) =
    (None, \<lparr>st_entries = fold (\<lambda>e d. AList.update (ee_device_id e) e d) (sorted_entries (st_entries st)) [],
            st_prefs = st_prefs st, st_load_error = None\<rparr>,
     [LogLoaded (length (fold (\<lambda>e d. AList.update (ee_device_id e) e d) (sorted_entries (st_entries st)) [])) 0])"
proof -
  let ?d = "st_entries st"
  have ok: "entries_ok ?d" using assms(1) by (simp add: store_ok_def)
  have es: "\<forall>e \<in> set (sorted_entries ?d). entry_ok e \<and> accepts validator e"
    using sorted_entries_set [OF ok] entries_ok_map_of [OF ok] assms(3) unfolding store_get_def by blast
  have blob: "payload_of ?d = PDict [(KEY_VERSION, PInt SCHEMA_VERSION),
      (KEY_EXPORTS, PList (map (\<lambda>e. PDict (entry_to_dict e)) (sorted_entries ?d)))]"
    by (simp add: payload_of_def sorted_entries_def comp_def)
  show ?thesis
    using assms(2) load_items_ok [OF es, of "[]" 0 "[]"]
    by (simp add: open_store_def load_store_def persisted_def blob dget_def store_keys load_list_def Let_def)
qed

text \<open>C36: what a commit wrote, the next start reads: opening a store on the preferences of a store
  that holds what it persisted, all of it let through by the injected validator, succeeds,
  without a load error, with the same entry for every device and without touching a
  preference.\<close>

theorem reload_exact:
  assumes "store_ok st" "persisted st" "\<And>k e. store_get k st = Some e \<Longrightarrow> accepts validator e"
  shows "\<exists>st' logs. open_store validator prefs_raise (st_prefs st) = (None, st', logs)
    \<and> st_load_error st' = None \<and> st_prefs st' = st_prefs st
    \<and> (\<forall>k. store_get k st' = store_get k st)"
  using reload_store [OF assms(1,2), of validator prefs_raise] assms(3) reload_entries [of "st_entries st"] assms(1)
  by (simp add: store_get_def store_ok_def)

lemma reload_exact_witness:
  "\<exists>st' logs. open_store None False (st_prefs demo_store) = (None, st', logs) \<and> store_get 42 st' = Some demo_entry"
proof -
  have "store_get 42 demo_store = Some demo_entry" by (simp add: store_get_def demo_store_def)
  with reload_exact [OF demo_store_ok(1,3), of None False] show ?thesis by (metis accepts_None)
qed

definition rescued :: "pref_value \<Rightarrow> store \<Rightarrow> store \<Rightarrow> bool" where
  "rescued raw st st' \<longleftrightarrow>
     map_of (st_prefs st') PREF_KEY_CORRUPT =
       (case map_of (st_prefs st) PREF_KEY_CORRUPT of
          Some p \<Rightarrow> if pref_truthy p then Some p else Some (case raw of NonText v \<Rightarrow> ReprOf v | q \<Rightarrow> q)
        | None \<Rightarrow> Some (case raw of NonText v \<Rightarrow> ReprOf v | q \<Rightarrow> q))"

lemma pref_keys_differ [simp]: "PREF_KEY \<noteq> PREF_KEY_CORRUPT" "PREF_KEY_CORRUPT \<noteq> PREF_KEY"
  by (simp_all add: PREF_KEY_def PREF_KEY_CORRUPT_def)

lemma preserve_rescued:
  assumes "preserve raw False st = (st', logs)"
  shows "rescued raw st st' \<and> map_of (st_prefs st') PREF_KEY = map_of (st_prefs st) PREF_KEY
    \<and> st_entries st' = st_entries st \<and> st_load_error st' = st_load_error st"
  using assms by (auto simp: preserve_def rescued_def split: if_splits option.splits)

lemma corrupt_rescued:
  assumes "corrupt raw False st = (st', logs)"
  shows "rescued raw st st' \<and> map_of (st_prefs st') PREF_KEY = map_of (st_prefs st) PREF_KEY
    \<and> st_entries st' = [] \<and> st_load_error st' = Some Unreadable"
proof -
  obtain st1 l where p: "preserve raw False (st\<lparr>st_entries := [], st_load_error := Some Unreadable\<rparr>) = (st1, l)"
    by (cases "preserve raw False (st\<lparr>st_entries := [], st_load_error := Some Unreadable\<rparr>)")
  with assms preserve_rescued [OF p] show ?thesis by (simp add: corrupt_def rescued_def)
qed

lemma load_list_rescued:
  assumes "load_list validator False raw items st = (None, st', logs)" "st_load_error st = None"
  shows "map_of (st_prefs st') PREF_KEY = map_of (st_prefs st) PREF_KEY
    \<and> (st_load_error st' = None \<or> rescued raw st st')"
proof -
  from assms(1) obtain entries dropped l where
    i: "load_items validator items [] 0 [] = Inr (entries, dropped, l)"
    by (auto simp: load_list_def split: sum.splits)
  show ?thesis
  proof (cases "dropped = 0")
    case True
    with assms i show ?thesis by (auto simp: load_list_def Let_def)
  next
    case False
    let ?st = "st\<lparr>st_entries := entries, st_load_error := Some (Dropped dropped)\<rparr>"
    obtain st1 pl where p: "preserve raw False ?st = (st1, pl)" by (cases "preserve raw False ?st")
    with assms i False preserve_rescued [OF p] show ?thesis by (auto simp: load_list_def Let_def rescued_def)
  qed
qed

text \<open>A start never loses the saved list: whenever loading ends with a load error (the whole
  blob unreadable, or some entries dropped), the blob as it was is still under its own key,
  and a rescue copy of it, or the earlier one if there was a non-empty one, is under the
  rescue key.\<close>

theorem load_never_discards:
  assumes "open_store validator False prefs = (None, st', logs)" "map_of prefs PREF_KEY = Some raw"
  shows "map_of (st_prefs st') PREF_KEY = Some raw
    \<and> (st_load_error st' = None \<or> (\<exists>p. map_of (st_prefs st') PREF_KEY_CORRUPT = Some p \<and> pref_truthy p
         \<and> (p = (case raw of NonText v \<Rightarrow> ReprOf v | q \<Rightarrow> q) \<or> map_of prefs PREF_KEY_CORRUPT = Some p)))"
proof -
  let ?st = "\<lparr>st_entries = [], st_prefs = prefs, st_load_error = None\<rparr>"
  have load: "load_store validator False ?st = (None, st', logs)" using assms(1) by (simp add: open_store_def)
  have copy: "pref_truthy (case raw of NonText v \<Rightarrow> ReprOf v | q \<Rightarrow> q)" by (cases raw) simp_all
  have good: ?thesis if "map_of (st_prefs st') PREF_KEY = map_of (st_prefs ?st) PREF_KEY"
      "st_load_error st' = None \<or> rescued raw ?st st'"
    using that assms(2) copy by (auto simp: rescued_def split: option.splits if_splits)
  have bad: ?thesis if c: "(case corrupt raw False ?st of (st', logs) \<Rightarrow> (None, st', logs)) = (None, st', logs)"
    using c good corrupt_rescued [of raw ?st] by (cases "corrupt raw False ?st") auto
  show ?thesis
  proof (cases "pref_truthy raw")
    case False
    with load assms(2) have "st' = ?st" by (simp add: load_store_def Let_def)
    then show ?thesis using good by simp
  next
    case True
    then have "(case corrupt raw False ?st of (st', logs) \<Rightarrow> (None, st', logs)) = (None, st', logs)
        \<or> (\<exists>items. load_list validator False raw items ?st = (None, st', logs))"
      using load assms(2)
      by (cases raw) (auto simp: load_store_def Let_def split: pyval.splits if_splits)
    then show ?thesis
    proof
      assume "\<exists>items. load_list validator False raw items ?st = (None, st', logs)"
      then obtain items where "load_list validator False raw items ?st = (None, st', logs)" ..
      from load_list_rescued [OF this] show ?thesis by (intro good) simp_all
    qed (rule bad)
  qed
qed

lemma load_never_discards_witness:
  "\<exists>st' logs. open_store None False [(PREF_KEY, NotJson)] = (None, st', logs)
     \<and> map_of (st_prefs st') PREF_KEY = Some NotJson"
proof -
  have "fst (open_store None False [(PREF_KEY, NotJson)]) = None" by code_simp
  then obtain st' logs where o: "open_store None False [(PREF_KEY, NotJson)] = (None, st', logs)"
    by (cases "open_store None False [(PREF_KEY, NotJson)]") auto
  have "map_of [(PREF_KEY, NotJson)] PREF_KEY = Some NotJson" by simp
  from load_never_discards [OF o this] o show ?thesis by blast
qed

definition escaping_item :: "pyval \<Rightarrow> bool" where
  "escaping_item item \<longleftrightarrow> (\<exists>d. item = PDict d \<and>
     ((\<exists>v. map_of d KEY_DEVICE_ID = Some v \<and> (v = PFloat PosInf \<or> v = PFloat NegInf))
      \<or> (\<exists>xs. dget d KEY_ROLE = PList xs) \<or> (\<exists>d'. dget d KEY_ROLE = PDict d')))"

lemma entry_device_id_escapes:
  assumes "entry_device_id d = Inl (Escapes e)"
  shows "e = OverflowError \<and> (\<exists>v. map_of d KEY_DEVICE_ID = Some v \<and> (v = PFloat PosInf \<or> v = PFloat NegInf))"
proof -
  from assms have e: "py_bind (py_item (PDict d) KEY_DEVICE_ID) py_int = Inl e" "e \<notin> {KeyError, TypeError, ValueError}"
    by (auto simp: entry_device_id_def split: sum.splits if_splits)
  then obtain v where "map_of d KEY_DEVICE_ID = Some v" "py_int v = Inl e"
    by (auto simp: py_bind_Inl split: option.splits)
  with e(2) py_int_errors [of v e] show ?thesis by auto
qed

lemma entry_role_escapes: "entry_role v = Inl (Escapes e) \<Longrightarrow> e = TypeError \<and> ((\<exists>xs. v = PList xs) \<or> (\<exists>d. v = PDict d))"
  by (cases v) (auto split: if_splits)

lemma entry_published_escapes: "entry_published v \<noteq> Inl (Escapes e)"
  by (cases v) (auto simp: entry_published_def)

lemma entry_escapes:
  assumes "entry_from_dict item = Inl (Escapes e)"
  shows "(e = TypeError \<or> e = OverflowError) \<and> escaping_item item"
proof -
  from assms obtain d where d: "item = PDict d" by (cases item) (auto simp: entry_from_dict_def)
  show ?thesis
  proof (cases "entry_device_id d")
    case (Inl x)
    with assms d have "entry_device_id d = Inl (Escapes e)" by (simp add: entry_from_dict_def)
    from entry_device_id_escapes [OF this] d show ?thesis by (auto simp: escaping_item_def)
  next
    case dev: (Inr n)
    show ?thesis
    proof (cases "entry_role (dget d KEY_ROLE)")
      case (Inl x)
      with assms d dev have "entry_role (dget d KEY_ROLE) = Inl (Escapes e)" by (simp add: entry_from_dict_def)
      from entry_role_escapes [OF this] d show ?thesis by (auto simp: escaping_item_def)
    next
      case (Inr role)
      with assms d dev have "entry_published (dget d KEY_PUBLISHED_AS) = Inl (Escapes e)"
        by (cases "or_empty (dget d KEY_OPTIONS)")
          (auto simp: entry_from_dict_def Let_def split: if_splits option.splits sum.splits)
      with entry_published_escapes show ?thesis by blast
    qed
  qed
qed

lemma load_items_escapes:
  "load_items validator items d n logs = Inl e \<Longrightarrow>
     (e = TypeError \<or> e = OverflowError) \<and> (\<exists>item \<in> set items. escaping_item item)"
proof (induction items arbitrary: d n logs)
  case (Cons item items)
  show ?case
  proof (cases "\<exists>x. entry_from_dict item = Inl (Escapes x)")
    case True
    with Cons.prems entry_escapes [of item e] show ?thesis by auto
  next
    case False
    then obtain d' n' logs' where "load_items validator items d' n' logs' = Inl e"
      using Cons.prems by (auto split: sum.splits entry_exc.splits option.splits if_splits)
    from Cons.IH [OF this] show ?thesis by auto
  qed
qed simp

text \<open>Opening the store raises only because of a listed entry whose role is a list or an object
  (a set has no answer for an unhashable value) or whose device id is an infinite number; but
  such an entry does make the whole start raise, at the cost of every other export, although
  one bad row is meant to be dropped.\<close>

theorem open_store_raises:
  "(open_store validator prefs_raise prefs = (Some e, st', logs) \<longrightarrow>
      (e = TypeError \<or> e = OverflowError) \<and>
      (\<exists>payload items item. map_of prefs PREF_KEY = Some (Json (PDict payload))
         \<and> dget payload KEY_EXPORTS = PList items \<and> item \<in> set items \<and> escaping_item item))
   \<and> fst (open_store None False [(PREF_KEY, Json (PDict [(''v'', PInt 1), (''exports'',
        PList [PDict (entry_to_dict demo_entry), PDict [(''indigoDeviceId'', PInt 7), (''role'', PList [])]])]))])
      = Some TypeError"
proof (intro conjI impI)
  assume o: "open_store validator prefs_raise prefs = (Some e, st', logs)"
  let ?st = "\<lparr>st_entries = [], st_prefs = prefs, st_load_error = None\<rparr>"
  from o obtain payload items raw where p: "map_of prefs PREF_KEY = Some raw" "raw = Json (PDict payload)"
      "dget payload KEY_EXPORTS = PList items"
    and l: "load_list validator prefs_raise raw items ?st = (Some e, st', logs)"
    by (auto simp: open_store_def load_store_def Let_def split: option.splits if_splits pref_value.splits pyval.splits prod.splits)
  from l have "load_items validator items [] 0 [] = Inl e"
    by (auto simp: load_list_def Let_def split: sum.splits prod.splits if_splits)
  from load_items_escapes [OF this]
  show "e = TypeError \<or> e = OverflowError"
    "\<exists>payload items item. map_of prefs PREF_KEY = Some (Json (PDict payload))
         \<and> dget payload KEY_EXPORTS = PList items \<and> item \<in> set items \<and> escaping_item item"
    using p by blast+
qed code_simp

lemma open_store_raises_witness:
  "\<exists>e. fst (open_store None False [(PREF_KEY, Json (PDict [(''v'', PInt 1), (''exports'',
        PList [PDict [(''indigoDeviceId'', PInt 7), (''role'', PList [])]])]))]) = Some e
     \<and> (e = TypeError \<or> e = OverflowError)"
proof -
  let ?prefs = "[(PREF_KEY, Json (PDict [(''v'', PInt 1), (''exports'',
        PList [PDict [(''indigoDeviceId'', PInt 7), (''role'', PList [])]])]))]"
  have f: "fst (open_store None False ?prefs) \<noteq> None" by code_simp
  then obtain e st' logs where "open_store None False ?prefs = (Some e, st', logs)"
    by (cases "open_store None False ?prefs") auto
  with open_store_raises [of None False ?prefs e st' logs] show ?thesis by auto
qed

end
