(* ===== verification/PyFloat.thy ===== *)
theory PyFloat
  imports PyBase "HOL-Library.Log_Nat"
begin

text \<open>
  The floats of Python. A finite double is the rational it stands for (negative zero is zero);
  the result of an operation is the exact result rounded to a double. \<open>round\<close> with no digits
  rounds to an integer, half to even; with digits, to the double nearest to the decimal.
\<close>

section \<open>Numbers\<close>

definition round_rat :: "rat \<Rightarrow> int" where
  "round_rat r = (case quotient_of r of (a, b) \<Rightarrow> round_div a b)"

text \<open>The double nearest to a rational, for results that are neither subnormal nor too large: a
  significand of 53 bits.\<close>

definition exponent_of :: "rat \<Rightarrow> int" where
  "exponent_of r = (case quotient_of r of (a, b) \<Rightarrow>
     (let e = int (floorlog 2 (nat a)) - int (floorlog 2 (nat b)) - 53
      in if 2 ^ 53 \<le> r / 2 powi e then e + 1 else e))"

definition fl :: "rat \<Rightarrow> rat" where
  "fl r = (if r = 0 then 0
     else (let e = exponent_of \<bar>r\<bar> in of_int (round_rat (r / 2 powi e)) * 2 powi e))"

text \<open>\<open>isinstance(value, (int, float)) and not isinstance(value, bool)\<close>, and \<open>round\<close>.\<close>

fun is_number :: "pyval \<Rightarrow> bool" where
  "is_number (PInt n) = True"
| "is_number (PFloat f) = True"
| "is_number _ = False"

fun round_float :: "pyfloat \<Rightarrow> int py_result" where
  "round_float (Fin r) = Inr (round_rat r)"
| "round_float NaN = Inl ValueError"
| "round_float _ = Inl OverflowError"

fun round_val :: "pyval \<Rightarrow> int py_result" where
  "round_val (PInt n) = Inr n"
| "round_val (PFloat f) = round_float f"
| "round_val _ = Inl TypeError"

text \<open>\<open>float(n)\<close>: integers up to \<open>2 ^ 53\<close> are exact, larger ones are taken as exact here too, and
  one no double can hold raises.\<close>

definition float_int :: "int \<Rightarrow> pyfloat py_result" where
  "float_int n = (if 2 ^ 1024 - 2 ^ 970 \<le> \<bar>n\<bar> then Inl OverflowError else Inr (Fin (of_int n)))"

fun float_number :: "pyval \<Rightarrow> pyfloat option py_result" where
  "float_number (PInt n) = py_bind (float_int n) (\<lambda>f. Inr (Some f))"
| "float_number (PFloat f) = Inr (Some f)"
| "float_number _ = Inr None"

definition clamp :: "int \<Rightarrow> int \<Rightarrow> int \<Rightarrow> int" where
  "clamp n low high = max low (min high n)"

text \<open>Comparison of floats, with \<open>max\<close> and \<open>min\<close> as the interpreter computes them (the first argument
  is kept unless a later one compares beyond it, so what a NaN does depends on its place).\<close>

fun flt_less :: "pyfloat \<Rightarrow> pyfloat \<Rightarrow> bool" where
  "flt_less NaN y = False"
| "flt_less x NaN = False"
| "flt_less (Fin r) (Fin s) = (r < s)"
| "flt_less NegInf y = (y \<noteq> NegInf)"
| "flt_less x PosInf = (x \<noteq> PosInf)"
| "flt_less x y = False"

definition flt_eq :: "pyfloat \<Rightarrow> pyfloat \<Rightarrow> bool" where
  "flt_eq x y = (x = y \<and> x \<noteq> NaN)"

definition flt_max :: "pyfloat \<Rightarrow> pyfloat \<Rightarrow> pyfloat" where
  "flt_max x y = (if flt_less x y then y else x)"

definition flt_min :: "pyfloat \<Rightarrow> pyfloat \<Rightarrow> pyfloat" where
  "flt_min x y = (if flt_less y x then y else x)"

text \<open>\<open>max(low, min(high, x))\<close>, where NaN becomes the upper bound, and the fraction of a number.\<close>

definition clamp_float :: "pyfloat \<Rightarrow> rat \<Rightarrow> rat \<Rightarrow> rat" where
  "clamp_float x low high = (case x of
       Fin r \<Rightarrow> max low (min high r) | NegInf \<Rightarrow> low | _ \<Rightarrow> high)"

definition frac_part :: "rat \<Rightarrow> rat" where
  "frac_part r = r - of_int \<lfloor>r\<rfloor>"

section \<open>Rounding\<close>

lemma round_rat_int [simp]: "round_rat (of_int n) = n"
  by (simp add: round_rat_def round_div_def)

lemma round_rat_near: "\<bar>2 * (of_int (round_rat r) - r)\<bar> \<le> 1"
proof -
  obtain a b where q: "quotient_of r = (a, b)" by (cases "quotient_of r")
  then have b: "0 < b" and r: "r = of_int a / of_int b"
    using quotient_of_denom_pos quotient_of_div by blast+
  have "\<bar>2 * (round_div a b * b - a)\<bar> \<le> b" by (rule round_div_near [OF b])
  then have "\<bar>2 * ((of_int (round_div a b)) * of_int b - of_int a)\<bar> \<le> (of_int b :: rat)"
    by (metis (mono_tags, lifting) of_int_abs of_int_diff of_int_le_iff of_int_mult of_int_numeral)
  moreover have "2 * (of_int (round_div a b) - r) = 2 * (of_int (round_div a b) * of_int b - of_int a) / of_int b"
    using b by (simp add: r field_simps)
  ultimately show ?thesis
    using b by (simp add: round_rat_def q abs_divide divide_le_eq)
qed

lemma round_rat_mono: "r \<le> s \<Longrightarrow> round_rat r \<le> round_rat s"
proof (rule ccontr)
  assume le: "r \<le> s" and "\<not> round_rat r \<le> round_rat s"
  then have lt: "round_rat s + 1 \<le> round_rat r" by simp
  then have l: "of_int (round_rat s) + 1 \<le> (of_int (round_rat r) :: rat)"
    by (metis of_int_1 of_int_add of_int_le_iff)
  have 1: "2 * of_int (round_rat r) - 2 * r \<le> 1" "- 1 \<le> 2 * of_int (round_rat s) - 2 * s"
    using round_rat_near [of r] round_rat_near [of s] by (simp_all add: abs_le_iff algebra_simps)
  with l le have "r = s" by linarith
  with lt show False by simp
qed

lemma round_rat_range: "of_int a \<le> r \<Longrightarrow> r \<le> of_int b \<Longrightarrow> a \<le> round_rat r \<and> round_rat r \<le> b"
  using round_rat_mono [of "of_int a" r] round_rat_mono [of r "of_int b"] by simp

lemma clamp_range: "low \<le> high \<Longrightarrow> low \<le> clamp n low high \<and> clamp n low high \<le> high"
  by (simp add: clamp_def)

lemma clamp_id: "low \<le> n \<Longrightarrow> n \<le> high \<Longrightarrow> clamp n low high = n"
  by (simp add: clamp_def)

section \<open>Doubles\<close>

lemma exponent_of_bound:
  assumes "0 < r"
  shows "2 ^ 52 * 2 powi exponent_of r \<le> r"
proof -
  obtain a b where q: "quotient_of r = (a, b)" by (cases "quotient_of r")
  have b: "0 < b" and r: "r = of_int a / of_int b" using quotient_of_denom_pos [OF q] quotient_of_div [OF q] by auto
  have a: "0 < a" using assms b by (simp add: r zero_less_divide_iff)
  define m n where "m = floorlog 2 (nat a)" and "n = floorlog 2 (nat b)"
  have m: "2 ^ (m - 1) \<le> nat a" "0 < m"     using a floorlog_bounds [of "nat a" 2] floorlog_eq_zero_iff [of 2 "nat a"] by (auto simp: m_def)
  have n: "nat b < 2 ^ n" using b floorlog_bounds [of "nat b" 2] by (simp add: n_def)
  define e where "e = int m - int n - 53"
  have "(2::rat) ^ (m - 1) \<le> of_int a"
    using m(1) a by (metis (mono_tags, lifting) nat_le_iff of_int_le_iff of_int_numeral of_int_power of_nat_numeral of_nat_power le_nat_iff order_less_imp_le)
  moreover have "of_int b \<le> (2::rat) ^ n"
    using n b by (metis (mono_tags, lifting) nat_less_iff of_int_le_iff of_int_numeral of_int_power of_nat_numeral of_nat_power order_less_imp_le)
  ultimately have "(2::rat) ^ (m - 1) / 2 ^ n \<le> r"
    unfolding r using b a by (intro frac_le) simp_all
  moreover have "(2::rat) ^ 52 * 2 powi e = 2 ^ (m - 1) / 2 ^ n"
  proof -
    have "(2::rat) ^ 52 * 2 powi e = 2 powi (52 + e)" by (simp add: power_int_add)
    also have "52 + e = int (m - 1) - int n" using m(2) by (simp add: e_def)
    finally show ?thesis by (simp add: power_int_diff)
  qed
  ultimately have low: "2 ^ 52 * 2 powi e \<le> r" by simp
  show ?thesis
  proof (cases "2 ^ 53 \<le> r / 2 powi e")
    case True
    then have "2 ^ 53 * 2 powi e \<le> r" by (simp add: le_divide_eq)
    moreover have "(2::rat) ^ 52 * 2 powi (e + 1) = 2 ^ 53 * 2 powi e" by (simp add: power_int_add)
    moreover have "exponent_of r = e + 1" using True by (simp add: exponent_of_def q m_def n_def e_def Let_def)
    ultimately show ?thesis by simp
  next
    case False
    with low show ?thesis by (simp add: exponent_of_def q m_def n_def e_def Let_def)
  qed
qed

text \<open>The relative error of a rounding.\<close>

lemma fl_near: "\<bar>fl r - r\<bar> \<le> \<bar>r\<bar> / 2 ^ 53"
proof (cases "r = 0")
  case False
  define u where "u = (2 powi exponent_of \<bar>r\<bar> :: rat)"
  have u: "0 < u" by (simp add: u_def)
  have "2 ^ 52 * u \<le> \<bar>r\<bar>" using exponent_of_bound [of "\<bar>r\<bar>"] False by (simp add: u_def)
  then have b: "u / 2 \<le> \<bar>r\<bar> / 2 ^ 53" by simp
  have "\<bar>2 * (of_int (round_rat (r / u)) - r / u)\<bar> \<le> 1" by (rule round_rat_near)
  then have "\<bar>2 * (of_int (round_rat (r / u)) - r / u)\<bar> * u \<le> 1 * u" using u by (intro mult_right_mono) simp_all
  moreover have "\<bar>2 * (of_int (round_rat (r / u)) - r / u)\<bar> * u = 2 * \<bar>of_int (round_rat (r / u)) * u - r\<bar>"
  proof -
    have "\<bar>2 * (of_int (round_rat (r / u)) - r / u)\<bar> * u = \<bar>2 * (of_int (round_rat (r / u)) - r / u) * u\<bar>"
      using u by (simp add: abs_mult)
    also have "2 * (of_int (round_rat (r / u)) - r / u) * u = 2 * (of_int (round_rat (r / u)) * u - r)"
      using u by (simp add: field_simps)
    also have "\<bar>2 * (of_int (round_rat (r / u)) * u - r)\<bar> = 2 * \<bar>of_int (round_rat (r / u)) * u - r\<bar>"
      by (subst abs_mult) simp
    finally show ?thesis .
  qed
  ultimately have "\<bar>of_int (round_rat (r / u)) * u - r\<bar> \<le> u / 2" by simp
  with b False show ?thesis by (simp add: fl_def u_def Let_def)
qed (simp add: fl_def)

lemma round_rat_unique:
  assumes "2 * \<bar>r - of_int n\<bar> < 1"
  shows "round_rat r = n"
proof -
  have "\<bar>2 * (of_int (round_rat r) - r)\<bar> \<le> 1" by (rule round_rat_near)
  then have "of_int (round_rat r) - r \<le> 1 / 2" "r - of_int (round_rat r) \<le> 1 / 2" by (simp_all add: abs_le_iff)
  moreover from assms have "of_int n - r < 1 / 2" "r - of_int n < 1 / 2" by (auto simp: abs_if split: if_splits)
  ultimately have "of_int (round_rat r) - of_int n < (1::rat)" "of_int n - of_int (round_rat r) < (1::rat)" by linarith+
  then have "\<bar>of_int (round_rat r - n) :: rat\<bar> < 1" by (simp add: abs_less_iff)
  then have "\<bar>round_rat r - n\<bar> < 1" by (metis of_int_1 of_int_abs of_int_less_iff)
  then show ?thesis by simp
qed

section \<open>Arithmetic on doubles\<close>

definition fadd :: "rat \<Rightarrow> rat \<Rightarrow> rat" where "fadd x y = fl (x + y)"
definition fsub :: "rat \<Rightarrow> rat \<Rightarrow> rat" where "fsub x y = fl (x - y)"
definition fmul :: "rat \<Rightarrow> rat \<Rightarrow> rat" where "fmul x y = fl (x * y)"
definition fdiv :: "rat \<Rightarrow> rat \<Rightarrow> rat" where "fdiv x y = fl (x / y)"

text \<open>\<open>round(x, k)\<close>: the decimal with \<open>k\<close> digits nearest to the double, read back as a double.\<close>

definition round_digits :: "nat \<Rightarrow> rat \<Rightarrow> rat" where
  "round_digits k x = fl (of_int (round_rat (x * 10 ^ k)) / 10 ^ k)"

fun round_to :: "nat \<Rightarrow> pyfloat \<Rightarrow> pyfloat" where
  "round_to k (Fin x) = Fin (round_digits k x)"
| "round_to k f = f"

text \<open>\<open>float(n)\<close>, with the rounding of an integer beyond 53 bits.\<close>

definition float_of_int :: "int \<Rightarrow> rat py_result" where
  "float_of_int n = (if 2 ^ 1024 - 2 ^ 970 \<le> \<bar>n\<bar> then Inl OverflowError else Inr (fl (of_int n)))"

text \<open>The double nearest to a rational of any size: subnormals have a fixed exponent, and what
  rounds to \<open>2 ^ 1024\<close> is infinite.\<close>

definition to_double :: "rat \<Rightarrow> pyfloat" where
  "to_double r = (if r = 0 then Fin 0
     else (let e = max (exponent_of \<bar>r\<bar>) (- 1074); v = of_int (round_rat (r / 2 powi e)) * 2 powi e
           in if 2 ^ 1024 \<le> v then PosInf else if v \<le> - (2 ^ 1024) then NegInf else Fin v))"

text \<open>Sums, and products and quotients with a positive constant, of floats that may not be finite.\<close>

fun flt_add :: "pyfloat \<Rightarrow> pyfloat \<Rightarrow> pyfloat" where
  "flt_add NaN y = NaN"
| "flt_add x NaN = NaN"
| "flt_add (Fin x) (Fin y) = to_double (x + y)"
| "flt_add (Fin x) y = y"
| "flt_add x (Fin y) = x"
| "flt_add x y = (if x = y then x else NaN)"

fun flt_neg :: "pyfloat \<Rightarrow> pyfloat" where
  "flt_neg (Fin x) = Fin (- x)"
| "flt_neg PosInf = NegInf"
| "flt_neg NegInf = PosInf"
| "flt_neg NaN = NaN"

fun flt_scale :: "rat \<Rightarrow> pyfloat \<Rightarrow> pyfloat" where
  "flt_scale c (Fin x) = to_double (c * x)"
| "flt_scale c f = f"

text \<open>\<open>float(text)\<close>: blanks around, a sign, then \<open>inf\<close>, \<open>infinity\<close> or \<open>nan\<close> in any case, or a
  decimal with an optional fraction and an optional exponent; underscores only between digits.\<close>

definition lower_char :: "char \<Rightarrow> char" where
  "lower_char c = (if 65 \<le> code_point c \<and> code_point c \<le> 90 then char_of (code_point c + 32) else c)"

definition number_char :: "char \<Rightarrow> bool" where
  "number_char c = (c = CHR ''_'' \<or> (48 \<le> code_point c \<and> code_point c \<le> 57))"

definition digit_part :: "string \<Rightarrow> int option" where
  "digit_part s = (if s = [] then Some 0 else parse_digits 10 False 0 s)"

definition exponent_part :: "string \<Rightarrow> int option" where
  "exponent_part s = (case s of
       [] \<Rightarrow> Some 0
     | c # cs \<Rightarrow> if c = CHR ''e'' \<or> c = CHR ''E''
         then (let (sg, t) = split_sign cs in map_option (\<lambda>n. sg * n) (parse_digits 10 False 0 t))
         else None)"

definition decimal_of_text :: "string \<Rightarrow> rat option" where
  "decimal_of_text s =
     (let ip = takeWhile number_char s; rest = dropWhile number_char s;
          dot = (rest \<noteq> [] \<and> hd rest = CHR ''.'');
          fp = (if dot then takeWhile number_char (tl rest) else []);
          rest' = (if dot then dropWhile number_char (tl rest) else rest);
          k = length (filter (\<lambda>c. c \<noteq> CHR ''_'') fp)
      in if ip = [] \<and> fp = [] then None
         else (case (digit_part ip, digit_part fp, exponent_part rest') of
                 (Some i, Some f, Some e) \<Rightarrow> Some (of_int (i * 10 ^ k + f) * 10 powi (e - int k))
               | _ \<Rightarrow> None))"

definition float_of_text :: "string \<Rightarrow> pyfloat option" where
  "float_of_text s =
     (let (sg, t) = split_sign (int_strip s); l = map lower_char t
      in if l = ''inf'' \<or> l = ''infinity'' then Some (if sg < 0 then NegInf else PosInf)
         else if l = ''nan'' then Some NaN
         else map_option (\<lambda>r. to_double (of_int sg * r)) (decimal_of_text t))"

text \<open>\<open>float(value)\<close> of a dynamic value.\<close>

fun py_float :: "pyval \<Rightarrow> pyfloat py_result" where
  "py_float PNone = Inl TypeError"
| "py_float (PBool b) = Inr (Fin (if b then 1 else 0))"
| "py_float (PInt n) = py_bind (float_of_int n) (\<lambda>x. Inr (Fin x))"
| "py_float (PFloat f) = Inr f"
| "py_float (PStr s) = (case float_of_text s of None \<Rightarrow> Inl ValueError | Some f \<Rightarrow> Inr f)"
| "py_float (PList _) = Inl TypeError"
| "py_float (PDict _) = Inl TypeError"

text \<open>The format \<open>:.kf\<close> of a finite double.\<close>

definition pad_left :: "nat \<Rightarrow> char \<Rightarrow> string \<Rightarrow> string" where
  "pad_left k c s = replicate (k - length s) c @ s"

definition fixed_text :: "nat \<Rightarrow> rat \<Rightarrow> string" where
  "fixed_text k x =
     (let n = nat (round_rat (\<bar>x\<bar> * 10 ^ k)); s = pad_left (Suc k) CHR ''0'' (digits_of 10 n);
          i = take (length s - k) s; f = drop (length s - k) s
      in (if x < 0 then ''-'' else []) @ i @ (if k = 0 then [] else CHR ''.'' # f))"

section \<open>Doubles and integers\<close>

text \<open>Integers of at most 53 bits are doubles, so a double operation whose exact result is one is exact.\<close>

lemma fl_of_int [simp]:
  assumes "\<bar>n\<bar> \<le> 2 ^ 53"
  shows "fl (of_int n) = of_int n"
proof (cases "n = 0")
  case False
  define e where "e = exponent_of \<bar>of_int n\<bar>"
  have pos: "0 < (\<bar>of_int n\<bar> :: rat)" using False by simp
  have le: "2 ^ 52 * 2 powi e \<le> (\<bar>of_int n\<bar> :: rat)" unfolding e_def by (rule exponent_of_bound [OF pos])
  show ?thesis
  proof (cases "e \<le> 0")
    case True
    define k where "k = nat (- e)"
    have "e = - int k" using True by (simp add: k_def)
    then have p: "(2::rat) powi e = 1 / 2 ^ k" by (simp add: power_int_minus field_simps)
    have "of_int n / (2::rat) powi e = of_int (n * 2 ^ k)" by (simp add: p)
    then have "round_rat (of_int n / 2 powi e) = n * 2 ^ k" by (simp only: round_rat_int)
    then show ?thesis using False by (simp add: fl_def e_def [symmetric] Let_def p)
  next
    case False
    then have "1 \<le> e" by simp
    then have "(2::rat) powi 1 \<le> 2 powi e" by (intro power_int_increasing) simp_all
    then have "(2::rat) ^ 53 \<le> 2 ^ 52 * 2 powi e" by simp
    moreover have "(\<bar>of_int n\<bar> :: rat) \<le> 2 ^ 53"
      using assms by (metis (mono_tags, lifting) of_int_abs of_int_le_iff of_int_numeral of_int_power)
    ultimately have eq: "2 ^ 52 * 2 powi e = (2::rat) ^ 53" "\<bar>of_int n\<bar> = (2::rat) ^ 53" using le by simp_all
    then have p: "(2::rat) powi e = 2" by simp
    have "\<bar>n\<bar> = 2 ^ 53" using eq(2) by (metis (mono_tags, lifting) of_int_abs of_int_eq_iff of_int_numeral of_int_power)
    then have "n = 2 ^ 53 \<or> n = - (2 ^ 53)" by linarith
    then have "n = 2 * (n div 2)" by (elim disjE) simp_all
    then have "of_int n / (2::rat) powi e = of_int (n div 2)"
      unfolding p by (metis of_int_mult of_int_numeral nonzero_mult_div_cancel_left zero_neq_numeral)
    then have "round_rat (of_int n / 2 powi e) = n div 2" by (simp only: round_rat_int)
    moreover have "of_int (n div 2) * 2 = (of_int n :: rat)"
      using \<open>n = 2 * (n div 2)\<close> by (metis mult.commute of_int_mult of_int_numeral)
    ultimately show ?thesis using \<open>n \<noteq> 0\<close> by (simp add: fl_def e_def [symmetric] Let_def p)
  qed
qed (simp add: fl_def)

lemma exponent_of_upper:
  assumes "0 < r"
  shows "r < 2 ^ 53 * 2 powi exponent_of r"
proof -
  obtain a b where q: "quotient_of r = (a, b)" by (cases "quotient_of r")
  have b: "0 < b" and r: "r = of_int a / of_int b" using quotient_of_denom_pos [OF q] quotient_of_div [OF q] by auto
  have a: "0 < a" using assms b by (simp add: r zero_less_divide_iff)
  define m n where "m = floorlog 2 (nat a)" and "n = floorlog 2 (nat b)"
  have m: "nat a < 2 ^ m" using a floorlog_bounds [of "nat a" 2] by (simp add: m_def)
  have n: "2 ^ (n - 1) \<le> nat b" "0 < n"
    using b floorlog_bounds [of "nat b" 2] floorlog_eq_zero_iff [of 2 "nat b"] by (auto simp: n_def)
  define e where "e = int m - int n - 53"
  have "of_int a < (2::rat) ^ m"
    using m a by (metis (mono_tags, lifting) nat_less_iff of_int_less_iff of_int_numeral of_int_power of_nat_numeral of_nat_power order_less_imp_le)
  moreover have "(2::rat) ^ (n - 1) \<le> of_int b"
    using n(1) b by (metis (mono_tags, lifting) nat_le_iff of_int_le_iff of_int_numeral of_int_power of_nat_numeral of_nat_power le_nat_iff order_less_imp_le)
  ultimately have "r < (2::rat) ^ m / 2 ^ (n - 1)"
    unfolding r using b a by (intro frac_less) simp_all
  also have "(2::rat) ^ m / 2 ^ (n - 1) = 2 powi (int m - int (n - 1))"
    by (simp add: power_int_diff)
  also have "int m - int (n - 1) = 54 + e" using n(2) by (simp add: e_def)
  also have "(2::rat) powi (54 + e) = 2 * (2 ^ 53 * 2 powi e)" by (simp add: power_int_add)
  finally have up: "r < 2 * (2 ^ 53 * 2 powi e)" .
  show ?thesis
  proof (cases "2 ^ 53 \<le> r / 2 powi e")
    case True
    moreover have "(2::rat) ^ 53 * 2 powi (e + 1) = 2 * (2 ^ 53 * 2 powi e)" by (simp add: power_int_add)
    moreover have "exponent_of r = e + 1" using True by (simp add: exponent_of_def q m_def n_def e_def Let_def)
    ultimately show ?thesis using up by simp
  next
    case False
    then have "r < 2 ^ 53 * 2 powi e" by (simp add: divide_less_eq not_le)
    with False show ?thesis by (simp add: exponent_of_def q m_def n_def e_def Let_def)
  qed
qed

text \<open>Away from the extremes of the range \<open>to_double\<close> is the rounding.\<close>

lemma to_double_fl:
  assumes "r = 0 \<or> 2 powi (- 100) \<le> \<bar>r\<bar>" "\<bar>r\<bar> \<le> 2 ^ 100"
  shows "to_double r = Fin (fl r)"
proof (cases "r = 0")
  case False
  define e where "e = exponent_of \<bar>r\<bar>"
  from False assms have pos: "0 < \<bar>r\<bar>" and low: "2 powi (- 100) \<le> \<bar>r\<bar>" by auto
  have "\<bar>r\<bar> < 2 ^ 53 * 2 powi e" unfolding e_def by (rule exponent_of_upper [OF pos])
  also have "(2::rat) ^ 53 * 2 powi e = 2 powi (53 + e)"
    by (subst power_int_add) (simp_all only: power_int_numeral, simp)
  finally have "(2::rat) powi (- 100) < 2 powi (53 + e)" using low by (rule order_le_less_trans [rotated])
  then have "- 100 < 53 + e"
    using power_int_increasing [of "53 + e" "- 100" "2::rat"] by (simp only: not_le [symmetric]) auto
  then have e: "max e (- 1074) = e" by simp
  have "\<bar>fl r\<bar> \<le> \<bar>r\<bar> + \<bar>r\<bar> / 2 ^ 53" using fl_near [of r] by linarith
  also have "\<dots> \<le> 2 * \<bar>r\<bar>" using pos by simp
  also have "\<dots> \<le> 2 ^ 101" using assms(2) by simp
  also have "\<dots> < (2::rat) ^ 1024" by (rule power_strict_increasing) simp_all
  finally have "\<bar>fl r\<bar> < 2 ^ 1024" .
  then have big: "\<not> 2 ^ 1024 \<le> fl r" "\<not> fl r \<le> - (2 ^ 1024)" by (simp_all only: abs_less_iff not_le minus_less_iff)
  have v: "of_int (round_rat (r / 2 powi e)) * 2 powi e = fl r"
    using False by (simp add: fl_def Let_def e_def)
  show ?thesis
    unfolding to_double_def e_def [symmetric] e Let_def v by (simp only: False big if_False)
qed (simp add: to_double_def fl_def)

section \<open>Evaluation\<close>

text \<open>The length of an integer in bits, computed on integers, and powers of two by squaring-free
  recursion on them: the exponent and the power evaluate without unary numbers.\<close>

function int_bits :: "int \<Rightarrow> int" where
  "int_bits n = (if n \<le> 0 then 0 else 1 + int_bits (n div 2))"
  by auto
termination by (relation "measure nat") auto

declare int_bits.simps [simp del]

lemma int_bits_floorlog: "0 < n \<Longrightarrow> int_bits n = int (floorlog 2 (nat n))"
proof (induction n rule: int_bits.induct)
  case (1 n)
  have "floorlog 2 (nat n) = Suc (floorlog 2 (nat n div 2))" using 1(2) by (subst compute_floorlog) simp
  moreover have "nat n div 2 = nat (n div 2)" using 1(2) by (simp add: nat_div_distrib)
  moreover have "int_bits (n div 2) = int (floorlog 2 (nat (n div 2)))"
  proof (cases "n = 1")
    case True
    then show ?thesis by (simp add: int_bits.simps floorlog_def)
  next
    case False
    with 1 show ?thesis by (simp add: pos_imp_zdiv_pos_iff)
  qed
  ultimately show ?case using 1(2) by (subst int_bits.simps) simp
qed

lemma exponent_of_eval [code]:
  "exponent_of r = (case quotient_of r of (a, b) \<Rightarrow>
     (let e = (if 0 < a then int_bits a else 0) - int_bits b - 53
      in if 2 ^ 53 \<le> r / 2 powi e then e + 1 else e))"
proof -
  obtain a b where q: "quotient_of r = (a, b)" by (cases "quotient_of r")
  then have "0 < b" by (rule quotient_of_denom_pos)
  then show ?thesis by (simp add: exponent_of_def q int_bits_floorlog floorlog_def Let_def)
qed

end
