(* ===== verification/ExportHandlers.thy ===== *)
theory ExportHandlers
  imports ExportStore PyFloat
begin

text \<open>
  \<open>export_handlers.py\<close>: per role of the bridge protocol, the state snapshot of an Indigo
  device, the difference between two snapshots, and the Indigo call a command becomes.

  An attribute of a device that does not exist reads as \<open>None\<close>. The member of
  \<open>indigo.kHvacMode\<close> and the \<open>states\<close> proxy, whose reading may raise, are fields of their own.
  The module-level sets of devices already warned about are the record \<open>latches\<close>. Every command
  makes at most one Indigo call, which may raise: \<open>None\<close>, or the exception.

  A float is the rational it stands for. A quotient is rounded to a double (\<open>fl\<close>), except in
  the colour conversions, which are taken exactly: there the double result can differ by one
  unit where the exact one is half way between two integers.
\<close>

section \<open>Devices\<close>

datatype hvac_mode = HvOff | HvHeat | HvCool | HvHeatCool | HvProgramHeat | HvProgramCool
  | HvProgramHeatCool | HvOther

record device =
  xd_id :: int
  xd_attrs :: pydict
  xd_hvac :: "hvac_mode option"
  xd_states :: "pydict py_result"
  xd_plugin_id :: "string option"
  xd_owner_props :: pydict
  xd_global_props :: "(string \<times> pydict) list"

record latches =
  lt_overrange :: "int set"
  lt_on_at_zero :: "int set"
  lt_non_z2m :: "int set"
  lt_relay :: "int set"

definition latches_init :: latches where
  "latches_init = \<lparr>lt_overrange = {}, lt_on_at_zero = {}, lt_non_z2m = {}, lt_relay = {}\<rparr>"

datatype export_log =
    WarnOverrange int
  | WarnOnAtZero int
  | InfoNonZ2m int
  | InfoRelayFallback int

definition attr :: "device \<Rightarrow> string \<Rightarrow> pyval" where
  "attr dev name = dget (xd_attrs dev) name"

definition number :: "device \<Rightarrow> string \<Rightarrow> pyfloat option py_result" where
  "number dev name = float_number (attr dev name)"

text \<open>\<open>_first_number\<close>.\<close>

definition first_number :: "pyval \<Rightarrow> pyfloat option py_result" where
  "first_number v = (case v of
       PList xs \<Rightarrow> (case find is_number xs of None \<Rightarrow> Inr None | Some x \<Rightarrow> float_number x)
     | _ \<Rightarrow> Inr None)"

fun system_mode :: "hvac_mode \<Rightarrow> string option" where
  "system_mode HvOff = Some ''off''"
| "system_mode HvHeat = Some ''heat''"
| "system_mode HvProgramHeat = Some ''heat''"
| "system_mode HvCool = Some ''cool''"
| "system_mode HvProgramCool = Some ''cool''"
| "system_mode HvHeatCool = Some ''auto''"
| "system_mode HvProgramHeatCool = Some ''auto''"
| "system_mode HvOther = None"

definition system_mode_of :: "device \<Rightarrow> string option" where
  "system_mode_of dev = (case xd_hvac dev of None \<Rightarrow> None | Some m \<Rightarrow> system_mode m)"

definition hvac_mode_for :: "pyval \<Rightarrow> hvac_mode option" where
  "hvac_mode_for mode = (case mode of
       PStr s \<Rightarrow> map_of [(''off'', HvOff), (''heat'', HvHeat), (''cool'', HvCool), (''auto'', HvHeatCool)] s
     | _ \<Rightarrow> None)"

section \<open>Colour conversion\<close>

definition MIREDS_MIN :: int where "MIREDS_MIN = 153"
definition MIREDS_MAX :: int where "MIREDS_MAX = 500"
definition HUE_TOLERANCE_DEGREES :: int where "HUE_TOLERANCE_DEGREES = 1"
definition SATURATION_HUE_FLOOR :: int where "SATURATION_HUE_FLOOR = 20"
definition CT_TOLERANCE_MIREDS :: int where "CT_TOLERANCE_MIREDS = 30"

text \<open>\<open>colorsys.rgb_to_hsv\<close> without the value component, and \<open>colorsys.hsv_to_rgb\<close> for the value 1.\<close>

definition rgb_to_hs :: "rat \<Rightarrow> rat \<Rightarrow> rat \<Rightarrow> rat \<times> rat" where
  "rgb_to_hs r g b =
     (let maxc = max r (max g b); minc = min r (min g b); range = maxc - minc
      in if minc = maxc then (0, 0)
         else (let rc = (maxc - r) / range; gc = (maxc - g) / range; bc = (maxc - b) / range;
                   h = (if r = maxc then bc - gc else if g = maxc then 2 + rc - bc else 4 + gc - rc)
               in (frac_part (h / 6), range / maxc)))"

definition hs_to_rgb :: "rat \<Rightarrow> rat \<Rightarrow> rat \<times> rat \<times> rat" where
  "hs_to_rgb h s =
     (if s = 0 then (1, 1, 1)
      else (let i = rat_trunc (h * 6); f = h * 6 - of_int i;
                p = 1 - s; q = 1 - s * f; t = 1 - s * (1 - f); k = i mod 6
            in if k = 0 then (1, t, p) else if k = 1 then (q, 1, p) else if k = 2 then (p, 1, t)
               else if k = 3 then (p, q, 1) else if k = 4 then (t, p, 1) else (1, p, q)))"

text \<open>With a channel that is infinite or NaN, unless the extremes are equal, the hue or the
  saturation is not a finite number and \<open>round\<close> raises.\<close>

definition rgb_to_hue_saturation :: "pyfloat \<Rightarrow> pyfloat \<Rightarrow> pyfloat \<Rightarrow> (int \<times> int) py_result" where
  "rgb_to_hue_saturation red green blue =
     (let maxc = flt_max (flt_max red green) blue; minc = flt_min (flt_min red green) blue
      in if flt_eq minc maxc then Inr (0, 0)
         else if maxc = Fin 0 then Inl (OtherException ''ZeroDivisionError'')
         else (case (red, green, blue) of
                 (Fin r, Fin g, Fin b) \<Rightarrow>
                   (case rgb_to_hs (r / 100) (g / 100) (b / 100) of
                      (h, s) \<Rightarrow> Inr (round_rat (h * 360) mod 360, round_rat (s * 100)))
               | _ \<Rightarrow> Inl ValueError))"

text \<open>The colour a command asks for. A hue that is not finite raises, unless the colour is white.\<close>

definition channels :: "rat \<times> rat \<times> rat \<Rightarrow> int \<times> int \<times> int" where
  "channels c = (case c of (r, g, b) \<Rightarrow> (round_rat (r * 100), round_rat (g * 100), round_rat (b * 100)))"

definition hue_saturation_to_rgb :: "pyfloat \<Rightarrow> pyfloat \<Rightarrow> (int \<times> int \<times> int) py_result" where
  "hue_saturation_to_rgb hue saturation =
     (let s = clamp_float saturation 0 100 / 100
      in case hue of
           Fin h \<Rightarrow> Inr (channels (hs_to_rgb (frac_part (h / 360)) s))
         | _ \<Rightarrow> if s = 0 then Inr (100, 100, 100) else Inl ValueError)"

section \<open>The handlers: states\<close>

definition position_of :: "int \<Rightarrow> pydict \<Rightarrow> int" where
  "position_of rounded options =
     (if dget options ''invert'' = PBool True then 100 - clamp rounded 0 100 else clamp rounded 0 100)"

text \<open>An optional number under a key.\<close>

definition opt_number :: "string \<Rightarrow> pyfloat option \<Rightarrow> pydict" where
  "opt_number key v = (case v of None \<Rightarrow> [] | Some f \<Rightarrow> [(key, PFloat f)])"

definition on_off_states :: "device \<Rightarrow> pydict" where
  "on_off_states dev = [(''onOff'', PBool (truthy (attr dev ''onState'')))]"

definition level_state :: "device \<Rightarrow> pydict py_result" where
  "level_state dev = py_bind (number dev ''brightness'') (\<lambda>v. case v of
       None \<Rightarrow> Inr []
     | Some f \<Rightarrow> py_bind (round_float f) (\<lambda>n. Inr [(''level'', PInt (clamp n 0 100))]))"

text \<open>\<open>if kelvin:\<close> and the conversion; \<open>1000000 / inf\<close> is 0.\<close>

fun usable_kelvin :: "pyfloat option \<Rightarrow> bool" where
  "usable_kelvin None = False"
| "usable_kelvin (Some (Fin r)) = (r \<noteq> 0)"
| "usable_kelvin (Some f) = True"

definition mireds_of_kelvin :: "pyfloat \<Rightarrow> int py_result" where
  "mireds_of_kelvin k = (case k of
       Fin r \<Rightarrow> Inr (if r = 0 then 0 else round_rat (fl (1000000 / r)))
     | NaN \<Rightarrow> Inl ValueError | _ \<Rightarrow> Inr 0)"

definition ct_state :: "pyfloat option \<Rightarrow> pydict py_result" where
  "ct_state kelvin = (case kelvin of
       None \<Rightarrow> Inr []
     | Some k \<Rightarrow> if \<not> usable_kelvin kelvin then Inr []
         else py_bind (mireds_of_kelvin k) (\<lambda>m. Inr [(''colorTempMireds'', PInt (clamp m MIREDS_MIN MIREDS_MAX))]))"

text \<open>\<open>DimmableLightExport.states_for\<close>: the states, with the warning of a device that is on at 0.\<close>

type_synonym snapshot = "pydict py_result \<times> latches \<times> export_log list"

definition dimmable_states :: "device \<Rightarrow> latches \<Rightarrow> snapshot" where
  "dimmable_states dev lt = (case level_state dev of
       Inl e \<Rightarrow> (Inl e, lt, [])
     | Inr level \<Rightarrow>
         (let states = on_off_states dev @ level
          in if dget states ''onOff'' = PBool True \<and> dget states ''level'' = PInt 0 \<and> xd_id dev \<notin> lt_on_at_zero lt
             then (Inr states, lt\<lparr>lt_on_at_zero := insert (xd_id dev) (lt_on_at_zero lt)\<rparr>, [WarnOnAtZero (xd_id dev)])
             else (Inr states, lt, [])))"

text \<open>More keys after a snapshot, or the exception of computing them.\<close>

definition add_states :: "snapshot \<Rightarrow> pydict py_result \<Rightarrow> snapshot" where
  "add_states snap extra = (case snap of
       (Inl e, lt, logs) \<Rightarrow> (Inl e, lt, logs)
     | (Inr states, lt, logs) \<Rightarrow> (py_bind extra (\<lambda>m. Inr (states @ m)), lt, logs))"

definition color_temperature_states :: "device \<Rightarrow> latches \<Rightarrow> snapshot" where
  "color_temperature_states dev lt =
     add_states (dimmable_states dev lt) (py_bind (number dev ''whiteTemperature'') ct_state)"

text \<open>The colour mode of a device: the value of its state, if it can be read.\<close>

definition color_mode :: "device \<Rightarrow> pyval" where
  "color_mode dev = (case xd_states dev of Inl _ \<Rightarrow> PNone | Inr d \<Rightarrow> dget d ''colorMode'')"

definition zero_or_none :: "pyfloat option \<Rightarrow> bool" where
  "zero_or_none v = (v = None \<or> v = Some (Fin 0))"

definition use_color_temp :: "pyval \<Rightarrow> pyfloat option list \<Rightarrow> pyfloat option \<Rightarrow> bool" where
  "use_color_temp mode rgb kelvin =
     (if mode = PStr ''color_temp'' then True
      else if mode = PStr ''xy'' \<or> mode = PStr ''hs'' then False
      else list_all zero_or_none rgb \<and> usable_kelvin kelvin)"

fun hue_state :: "pyfloat option list \<Rightarrow> pydict py_result" where
  "hue_state [Some red, Some green, Some blue] =
     py_bind (rgb_to_hue_saturation red green blue) (\<lambda>(hue, saturation).
       Inr ((''saturation'', PInt saturation) #
            (if SATURATION_HUE_FLOOR \<le> saturation then [(''hue'', PInt hue)] else [])))"
| "hue_state _ = Inr []"

definition channel_state :: "device \<Rightarrow> pydict py_result" where
  "channel_state dev =
     py_bind (py_map (number dev) [''redLevel'', ''greenLevel'', ''blueLevel'']) (\<lambda>rgb.
     py_bind (number dev ''whiteTemperature'') (\<lambda>kelvin.
       if use_color_temp (color_mode dev) rgb kelvin then ct_state kelvin else hue_state rgb))"

definition extended_color_states :: "device \<Rightarrow> latches \<Rightarrow> snapshot" where
  "extended_color_states dev lt = add_states (dimmable_states dev lt) (channel_state dev)"

definition covering_states :: "device \<Rightarrow> pydict \<Rightarrow> pydict py_result" where
  "covering_states dev options = py_bind (number dev ''brightness'') (\<lambda>v. case v of
       None \<Rightarrow> Inr []
     | Some f \<Rightarrow> py_bind (round_float f) (\<lambda>n. Inr [(''position'', PInt (position_of n options))]))"

definition lock_states :: "device \<Rightarrow> pydict" where
  "lock_states dev = (if attr dev ''onState'' = PNone then [] else [(''locked'', PBool (truthy (attr dev ''onState'')))])"

definition thermostat_states :: "device \<Rightarrow> pydict py_result" where
  "thermostat_states dev =
     py_bind (first_number (attr dev ''temperatures'')) (\<lambda>t.
     py_bind (number dev ''heatSetpoint'') (\<lambda>h.
     py_bind (number dev ''coolSetpoint'') (\<lambda>c.
       Inr (opt_number ''localTemperatureC'' t @ opt_number ''heatingSetpointC'' h @ opt_number ''coolingSetpointC'' c
            @ (case system_mode_of dev of None \<Rightarrow> [] | Some m \<Rightarrow> [(''systemMode'', PStr m)])))))"

text \<open>A binary sensor: the mapped state if the options name one (\<open>Some None\<close> where it has gone),
  otherwise \<open>onState\<close>.\<close>

definition apply_invert :: "bool \<Rightarrow> pydict \<Rightarrow> bool" where
  "apply_invert b options = (if dget options OPTION_STATE_INVERT = PBool True then \<not> b else b)"

definition mapped_reading :: "device \<Rightarrow> pydict \<Rightarrow> bool option option" where
  "mapped_reading dev options = (case dget options OPTION_STATE_KEY of
       PStr key \<Rightarrow> if key = [] then None
         else Some (case xd_states dev of
                      Inl _ \<Rightarrow> None
                    | Inr d \<Rightarrow> (case dget d key of PBool b \<Rightarrow> Some (apply_invert b options) | _ \<Rightarrow> None))
     | _ \<Rightarrow> None)"

definition binary_states :: "string \<Rightarrow> device \<Rightarrow> pydict \<Rightarrow> pydict" where
  "binary_states key dev options = (case mapped_reading dev options of
       Some None \<Rightarrow> []
     | Some (Some b) \<Rightarrow> [(key, PBool b)]
     | None \<Rightarrow> if attr dev ''onState'' = PNone then []
               else [(key, PBool (apply_invert (truthy (attr dev ''onState'')) options))])"

definition numeric_states :: "string \<Rightarrow> device \<Rightarrow> pydict py_result" where
  "numeric_states key dev = py_bind (number dev ''sensorValue'') (\<lambda>v. Inr (opt_number key v))"

text \<open>\<open>round(value / 10.0, 1)\<close>: the quotient is a double, and so is the nearest multiple of 0.1.\<close>

definition hpa_to_kpa :: "pyfloat \<Rightarrow> pyfloat" where
  "hpa_to_kpa v = (case v of Fin r \<Rightarrow> Fin (fl (of_int (round_rat (10 * fl (r / 10))) / 10)) | _ \<Rightarrow> v)"

definition pressure_states :: "device \<Rightarrow> pydict py_result" where
  "pressure_states dev = py_bind (number dev ''sensorValue'') (\<lambda>v. Inr (opt_number ''pressureKPa'' (map_option hpa_to_kpa v)))"

text \<open>The handler classes (the binary and the numeric sensors differ in their key), and the registry:
  the handler of a role.\<close>

datatype handler = OnOffExport | DimmableExport | ColorTemperatureExport | ExtendedColorExport | CoveringExport
  | DoorLockExport | BinaryExport string | NumericExport string | PressureExport | ThermostatExport

definition HANDLERS :: "(string \<times> handler) list" where
  "HANDLERS = [(''onOffPlugInUnit'', OnOffExport), (''onOffLight'', OnOffExport), (''dimmableLight'', DimmableExport),
     (''colorTemperatureLight'', ColorTemperatureExport), (''extendedColorLight'', ExtendedColorExport),
     (''windowCovering'', CoveringExport), (''doorLock'', DoorLockExport),
     (''occupancySensor'', BinaryExport ''occupied''), (''contactSensor'', BinaryExport ''contact''),
     (''waterLeakDetector'', BinaryExport ''leak''), (''waterFreezeDetector'', BinaryExport ''freeze''),
     (''rainSensor'', BinaryExport ''rain''), (''smokeAlarm'', BinaryExport ''smoke''), (''coAlarm'', BinaryExport ''co''),
     (''temperatureSensor'', NumericExport ''temperatureC''), (''humiditySensor'', NumericExport ''humidityPct''),
     (''lightSensor'', NumericExport ''lux''), (''pressureSensor'', PressureExport),
     (''flowSensor'', NumericExport ''flowM3h''), (''thermostat'', ThermostatExport)]"

definition handler_for :: "string \<Rightarrow> handler option" where
  "handler_for role = map_of HANDLERS role"

definition is_bridgeable :: "string \<Rightarrow> bool" where
  "is_bridgeable role = (role \<in> fst ` set HANDLERS)"

fun states_for :: "handler \<Rightarrow> device \<Rightarrow> pydict \<Rightarrow> latches \<Rightarrow> snapshot" where
  "states_for OnOffExport dev options lt = (Inr (on_off_states dev), lt, [])"
| "states_for DimmableExport dev options lt = dimmable_states dev lt"
| "states_for ColorTemperatureExport dev options lt = color_temperature_states dev lt"
| "states_for ExtendedColorExport dev options lt = extended_color_states dev lt"
| "states_for CoveringExport dev options lt = (covering_states dev options, lt, [])"
| "states_for DoorLockExport dev options lt = (Inr (lock_states dev), lt, [])"
| "states_for (BinaryExport key) dev options lt = (Inr (binary_states key dev options), lt, [])"
| "states_for (NumericExport key) dev options lt = (numeric_states key dev, lt, [])"
| "states_for PressureExport dev options lt = (pressure_states dev, lt, [])"
| "states_for ThermostatExport dev options lt = (thermostat_states dev, lt, [])"

text \<open>\<open>battery_percent\<close>: the value is rounded before a zero is suppressed.\<close>

definition exceeds_100 :: "pyval \<Rightarrow> bool" where
  "exceeds_100 v = (case v of PInt n \<Rightarrow> 100 < n | PFloat (Fin r) \<Rightarrow> 100 < r | PFloat PosInf \<Rightarrow> True | _ \<Rightarrow> False)"

definition battery_percent :: "device \<Rightarrow> latches \<Rightarrow> int option py_result \<times> latches \<times> export_log list" where
  "battery_percent dev lt =
     (let v = attr dev ''batteryLevel''
      in if \<not> is_number v then (Inr None, lt, [])
         else (let (lt1, logs) = (if exceeds_100 v \<and> xd_id dev \<notin> lt_overrange lt
                    then (lt\<lparr>lt_overrange := insert (xd_id dev) (lt_overrange lt)\<rparr>, [WarnOverrange (xd_id dev)])
                    else (lt, []))
               in (py_bind (round_val v) (\<lambda>n. let percent = min 100 n in Inr (if percent \<le> 0 then None else Some percent)),
                   lt1, logs)))"

text \<open>\<open>published_states\<close>: the snapshot of the role and the battery level.\<close>

definition published_states :: "handler \<Rightarrow> device \<Rightarrow> pydict \<Rightarrow> latches \<Rightarrow> snapshot" where
  "published_states h dev options lt = (case states_for h dev options lt of
       (Inl e, lt1, logs) \<Rightarrow> (Inl e, lt1, logs)
     | (Inr states, lt1, logs) \<Rightarrow>
         (case battery_percent dev lt1 of
            (percent, lt2, logs') \<Rightarrow>
              (py_bind percent (\<lambda>p. Inr (case p of None \<Rightarrow> states
                  | Some n \<Rightarrow> AList.update ''batteryLevel'' (PInt n) states)), lt2, logs @ logs')))"

section \<open>The handlers: differences\<close>

fun tolerances :: "handler \<Rightarrow> (string \<times> int) list" where
  "tolerances ColorTemperatureExport = [(''colorTempMireds'', CT_TOLERANCE_MIREDS)]"
| "tolerances ExtendedColorExport = [(''hue'', HUE_TOLERANCE_DEGREES), (''colorTempMireds'', CT_TOLERANCE_MIREDS)]"
| "tolerances _ = []"

fun mode_alternating_keys :: "handler \<Rightarrow> string list" where
  "mode_alternating_keys ExtendedColorExport = [''colorTempMireds'', ''hue'', ''saturation'']"
| "mode_alternating_keys _ = []"

text \<open>The number a value compares as (a boolean is 0 or 1), and equality of two values. A list or
  an object, which no snapshot holds, is compared as it is written.\<close>

fun num_of :: "pyval \<Rightarrow> pyfloat option" where
  "num_of (PBool b) = Some (Fin (if b then 1 else 0))"
| "num_of (PInt n) = Some (Fin (of_int n))"
| "num_of (PFloat f) = Some f"
| "num_of _ = None"

definition py_eq :: "pyval \<Rightarrow> pyval \<Rightarrow> bool" where
  "py_eq v w = (case (num_of v, num_of w) of
       (Some x, Some y) \<Rightarrow> flt_eq x y | (None, None) \<Rightarrow> v = w | _ \<Rightarrow> False)"

text \<open>\<open>abs(after - before) > tolerance\<close>: a difference that is NaN is not greater.\<close>

definition gap_exceeds :: "pyfloat \<Rightarrow> pyfloat \<Rightarrow> int \<Rightarrow> bool" where
  "gap_exceeds x y tol = (case (x, y) of
       (Fin r, Fin s) \<Rightarrow> of_int tol < \<bar>s - r\<bar>
     | _ \<Rightarrow> x \<noteq> NaN \<and> y \<noteq> NaN \<and> x \<noteq> y)"

definition changed_value :: "handler \<Rightarrow> string \<Rightarrow> pyval option \<Rightarrow> pyval \<Rightarrow> bool" where
  "changed_value h key before after = (case before of
       None \<Rightarrow> True
     | Some v \<Rightarrow> (case (map_of (tolerances h) key, num_of v, num_of after) of
           (Some tol, Some x, Some y) \<Rightarrow> gap_exceeds x y tol
         | _ \<Rightarrow> \<not> py_eq v after))"

record state_diff =
  sd_changed :: pydict
  sd_stopped :: "string list"

definition diff_states :: "handler \<Rightarrow> pydict \<Rightarrow> pydict \<Rightarrow> state_diff" where
  "diff_states h before after =
     (let stopped = filter (\<lambda>k. k \<notin> fst ` set after) (map fst before);
          alternating = mode_alternating_keys h
      in \<lparr>sd_changed = filter (\<lambda>(key, v). changed_value h key (map_of before key) v) after,
          sd_stopped = (if \<exists>k \<in> set alternating. k \<in> fst ` set after
                        then filter (\<lambda>k. k \<notin> set alternating) stopped else stopped)\<rparr>)"

definition diff_from :: "handler \<Rightarrow> pydict option \<Rightarrow> device \<Rightarrow> pydict \<Rightarrow> latches
     \<Rightarrow> state_diff py_result \<times> latches \<times> export_log list" where
  "diff_from h pushed dev options lt = (case published_states h dev options lt of
       (r, lt1, logs) \<Rightarrow>
         (py_bind r (\<lambda>after. Inr (diff_states h (case pushed of None \<Rightarrow> [] | Some d \<Rightarrow> d) after)), lt1, logs))"

definition diff_with_gaps :: "handler \<Rightarrow> device \<Rightarrow> device \<Rightarrow> pydict \<Rightarrow> latches
     \<Rightarrow> state_diff py_result \<times> latches \<times> export_log list" where
  "diff_with_gaps h orig new options lt = (case published_states h orig options lt of
       (Inl e, lt1, logs) \<Rightarrow> (Inl e, lt1, logs)
     | (Inr before, lt1, logs) \<Rightarrow>
         (case diff_from h (Some before) new options lt1 of (r, lt2, logs') \<Rightarrow> (r, lt2, logs @ logs')))"

section \<open>The handlers: commands\<close>

datatype indigo_call =
    TurnOn int
  | TurnOff int
  | SetBrightness int int
  | SetWhiteTemperature int int
  | SetRgb int int int int
  | LockDevice int
  | UnlockDevice int
  | SetHeatSetpoint int pyfloat
  | SetCoolSetpoint int pyfloat
  | SetHvacMode int hvac_mode

datatype declined = NoStopAction | NoWhiteChannel

text \<open>What the handler of a command does: an exception before any call, lawfully nothing, or one
  call.\<close>

datatype command_plan =
    Raises py_exc
  | Declines declined
  | Calls indigo_call

definition guard_number :: "pyval \<Rightarrow> (pyval \<Rightarrow> command_plan) \<Rightarrow> command_plan" where
  "guard_number v f = (if is_number v then f v else Raises ValueError)"

definition or_raises :: "'a py_result \<Rightarrow> ('a \<Rightarrow> command_plan) \<Rightarrow> command_plan" where
  "or_raises r f = (case r of Inl e \<Rightarrow> Raises e | Inr x \<Rightarrow> f x)"

definition plan_on_off :: "pydict \<Rightarrow> device \<Rightarrow> command_plan" where
  "plan_on_off args dev = Calls (if truthy (dget args ''value'') then TurnOn (xd_id dev) else TurnOff (xd_id dev))"

definition plan_set_level :: "pydict \<Rightarrow> device \<Rightarrow> command_plan" where
  "plan_set_level args dev = guard_number (dget args ''level'') (\<lambda>v.
     or_raises (round_val v) (\<lambda>n. Calls (SetBrightness (xd_id dev) (clamp n 0 100))))"

definition usable_mireds :: "pyval \<Rightarrow> bool" where
  "usable_mireds v = (is_number v \<and> truthy v)"

definition plan_set_color_temp :: "pydict \<Rightarrow> device \<Rightarrow> command_plan" where
  "plan_set_color_temp args dev =
     (let v = dget args ''colorTempMireds''
      in if \<not> usable_mireds v then Raises ValueError
         else or_raises (number dev ''whiteLevel'') (\<lambda>white.
           if white = None then Declines NoWhiteChannel
           else or_raises (round_val v) (\<lambda>n.
             Calls (SetWhiteTemperature (xd_id dev) (mireds_to_kelvin (clamp n MIREDS_MIN MIREDS_MAX))))))"

definition plan_set_color :: "pydict \<Rightarrow> device \<Rightarrow> command_plan" where
  "plan_set_color args dev =
     guard_number (dget args ''hue'') (\<lambda>hue. guard_number (dget args ''saturation'') (\<lambda>saturation.
       or_raises (case (num_of hue, num_of saturation) of
           (Some h, Some s) \<Rightarrow> hue_saturation_to_rgb h s | _ \<Rightarrow> Inl TypeError)
         (\<lambda>(red, green, blue). Calls (SetRgb (xd_id dev) red green blue))))"

definition plan_go_to_position :: "pydict \<Rightarrow> device \<Rightarrow> pydict \<Rightarrow> command_plan" where
  "plan_go_to_position args dev options = guard_number (dget args ''position'') (\<lambda>v.
     or_raises (round_val v) (\<lambda>n. Calls (SetBrightness (xd_id dev) (position_of (clamp n 0 100) options))))"

text \<open>\<open>_drive\<close>: the properties of the owning plugin say whether the device is a lock.\<close>

definition owner_props :: "device \<Rightarrow> pydict" where
  "owner_props dev =
     (if xd_owner_props dev \<noteq> [] then xd_owner_props dev
      else (case map_of (xd_global_props dev) (case xd_plugin_id dev of None \<Rightarrow> [] | Some p \<Rightarrow> p) of
              None \<Rightarrow> [] | Some d \<Rightarrow> d))"

definition is_lock :: "device \<Rightarrow> bool" where
  "is_lock dev = truthy (dget (owner_props dev) ''IsLockSubType'')"

definition plan_drive :: "device \<Rightarrow> bool \<Rightarrow> command_plan" where
  "plan_drive dev locked =
     (if is_lock dev then Calls (if locked then LockDevice (xd_id dev) else UnlockDevice (xd_id dev))
      else Calls (if locked then TurnOn (xd_id dev) else TurnOff (xd_id dev)))"

definition setpoint_of :: "pydict \<Rightarrow> pyfloat py_result" where
  "setpoint_of args = (if is_number (dget args ''valueC'')
     then py_bind (float_number (dget args ''valueC'')) (\<lambda>v. case v of None \<Rightarrow> Inl ValueError | Some f \<Rightarrow> Inr f)
     else Inl ValueError)"

definition plan_set_mode :: "pydict \<Rightarrow> device \<Rightarrow> command_plan" where
  "plan_set_mode args dev = (case hvac_mode_for (dget args ''systemMode'') of
       None \<Rightarrow> Raises ValueError | Some m \<Rightarrow> Calls (SetHvacMode (xd_id dev) m))"

text \<open>\<open>commands()\<close> of every handler, each class after the one it extends, and the once-per-device
  notices that go before a call.\<close>

type_synonym command_handler = "pydict \<Rightarrow> device \<Rightarrow> pydict \<Rightarrow> command_plan"

definition on_off_commands :: "(string \<times> command_handler) list" where
  "on_off_commands = [(''onOff'', \<lambda>args dev options. plan_on_off args dev)]"

definition dimmable_commands :: "(string \<times> command_handler) list" where
  "dimmable_commands = on_off_commands @ [(''setLevel'', \<lambda>args dev options. plan_set_level args dev)]"

definition color_temperature_commands :: "(string \<times> command_handler) list" where
  "color_temperature_commands = dimmable_commands @ [(''setColorTemp'', \<lambda>args dev options. plan_set_color_temp args dev)]"

definition extended_color_commands :: "(string \<times> command_handler) list" where
  "extended_color_commands = color_temperature_commands @ [(''setColor'', \<lambda>args dev options. plan_set_color args dev)]"

fun commands :: "handler \<Rightarrow> (string \<times> command_handler) list" where
  "commands OnOffExport = on_off_commands"
| "commands DimmableExport = dimmable_commands"
| "commands ColorTemperatureExport = color_temperature_commands"
| "commands ExtendedColorExport = extended_color_commands"
| "commands CoveringExport = [(''goToPosition'', plan_go_to_position), (''stopMotion'', \<lambda>args dev options. Declines NoStopAction)]"
| "commands DoorLockExport = [(''lock'', \<lambda>args dev options. plan_drive dev True),
     (''unlock'', \<lambda>args dev options. plan_drive dev False)]"
| "commands ThermostatExport =
     [(''setHeatingSetpoint'', \<lambda>args dev options. or_raises (setpoint_of args) (\<lambda>f. Calls (SetHeatSetpoint (xd_id dev) f))),
      (''setCoolingSetpoint'', \<lambda>args dev options. or_raises (setpoint_of args) (\<lambda>f. Calls (SetCoolSetpoint (xd_id dev) f))),
      (''setSystemMode'', \<lambda>args dev options. plan_set_mode args dev)]"
| "commands _ = []"

definition ZIGBEE2MQTT_PLUGIN_ID :: string where
  "ZIGBEE2MQTT_PLUGIN_ID = ''com.autologplugin.indigoplugin.zigbee2mqtt''"

definition command_notice :: "string \<Rightarrow> device \<Rightarrow> latches \<Rightarrow> latches \<times> export_log list" where
  "command_notice command dev lt =
     (let d = xd_id dev
      in if command = ''setColorTemp'' \<and> xd_plugin_id dev \<noteq> Some ZIGBEE2MQTT_PLUGIN_ID \<and> d \<notin> lt_non_z2m lt
         then (lt\<lparr>lt_non_z2m := insert d (lt_non_z2m lt)\<rparr>, [InfoNonZ2m d])
         else if command \<in> {''lock'', ''unlock''} \<and> \<not> is_lock dev \<and> d \<notin> lt_relay lt
         then (lt\<lparr>lt_relay := insert d (lt_relay lt)\<rparr>, [InfoRelayFallback d])
         else (lt, []))"

datatype dispatch_result = DispatchRefused | DispatchDone | DispatchDeclined declined | DispatchRaised py_exc

text \<open>\<open>dispatch\<close>: the result, the latches, the notices, and the call that was made, if any;
  \<open>raises\<close> is what Indigo raises on it.\<close>

definition dispatch_command ::
  "handler \<Rightarrow> string \<Rightarrow> pydict \<Rightarrow> device \<Rightarrow> pydict \<Rightarrow> py_exc option \<Rightarrow> latches
     \<Rightarrow> dispatch_result \<times> latches \<times> export_log list \<times> indigo_call option" where
  "dispatch_command h command args dev options raises lt =
     (case map_of (commands h) command of
        None \<Rightarrow> (DispatchRefused, lt, [], None)
      | Some f \<Rightarrow>
          (case f args dev options of
             Raises e \<Rightarrow> (DispatchRaised e, lt, [], None)
           | Declines why \<Rightarrow> (DispatchDeclined why, lt, [], None)
           | Calls call \<Rightarrow>
               (case command_notice command dev lt of (lt', logs) \<Rightarrow>
                  (case raises of None \<Rightarrow> DispatchDone | Some e \<Rightarrow> DispatchRaised e, lt', logs, Some call))))"

text \<open>\<open>commanded_states\<close>.\<close>

definition commanded_states :: "handler \<Rightarrow> string \<Rightarrow> pydict \<Rightarrow> pydict py_result" where
  "commanded_states h command args =
     (let v = dget args ''colorTempMireds''
      in if h \<in> {ColorTemperatureExport, ExtendedColorExport} \<and> command = ''setColorTemp'' \<and> usable_mireds v
         then py_bind (round_val v) (\<lambda>n. Inr [(''colorTempMireds'', PInt (clamp n MIREDS_MIN MIREDS_MAX))])
         else Inr [])"

section \<open>The vocabulary of the protocol\<close>

text \<open>The type of the value under a state key.\<close>

definition value_ok :: "string \<Rightarrow> pyval \<Rightarrow> bool" where
  "value_ok key v =
     (if key \<in> {''level'', ''position''} then (\<exists>n. v = PInt n \<and> 0 \<le> n \<and> n \<le> 100)
      else if key = ''saturation'' then (\<exists>n. v = PInt n)
      else if key = ''hue'' then (\<exists>n. v = PInt n \<and> 0 \<le> n \<and> n < 360)
      else if key = ''colorTempMireds'' then (\<exists>n. v = PInt n \<and> 153 \<le> n \<and> n \<le> 500)
      else if key = ''batteryLevel'' then (\<exists>n. v = PInt n \<and> 1 \<le> n \<and> n \<le> 100)
      else if key = ''systemMode'' then v \<in> PStr ` {''off'', ''heat'', ''cool'', ''auto''}
      else if key \<in> {''temperatureC'', ''humidityPct'', ''lux'', ''pressureKPa'', ''flowM3h'', ''localTemperatureC'',
                     ''heatingSetpointC'', ''coolingSetpointC''} then (\<exists>f. v = PFloat f)
      else (\<exists>b. v = PBool b))"

lemma value_ok_keys:
  "value_ok ''level'' v \<longleftrightarrow> (\<exists>n. v = PInt n \<and> 0 \<le> n \<and> n \<le> 100)"
  "value_ok ''position'' v \<longleftrightarrow> (\<exists>n. v = PInt n \<and> 0 \<le> n \<and> n \<le> 100)"
  "value_ok ''saturation'' v \<longleftrightarrow> (\<exists>n. v = PInt n)"
  "value_ok ''hue'' v \<longleftrightarrow> (\<exists>n. v = PInt n \<and> 0 \<le> n \<and> n < 360)"
  "value_ok ''colorTempMireds'' v \<longleftrightarrow> (\<exists>n. v = PInt n \<and> 153 \<le> n \<and> n \<le> 500)"
  "value_ok ''batteryLevel'' v \<longleftrightarrow> (\<exists>n. v = PInt n \<and> 1 \<le> n \<and> n \<le> 100)"
  "value_ok ''systemMode'' v \<longleftrightarrow> v \<in> PStr ` {''off'', ''heat'', ''cool'', ''auto''}"
  "value_ok ''onOff'' v \<longleftrightarrow> (\<exists>b. v = PBool b)"
  "value_ok ''locked'' v \<longleftrightarrow> (\<exists>b. v = PBool b)"
  "value_ok ''localTemperatureC'' v \<longleftrightarrow> (\<exists>f. v = PFloat f)"
  "value_ok ''heatingSetpointC'' v \<longleftrightarrow> (\<exists>f. v = PFloat f)"
  "value_ok ''coolingSetpointC'' v \<longleftrightarrow> (\<exists>f. v = PFloat f)"
  "value_ok ''pressureKPa'' v \<longleftrightarrow> (\<exists>f. v = PFloat f)"
  by (simp_all add: value_ok_def)

definition snapshot_ok :: "string list \<Rightarrow> pydict \<Rightarrow> bool" where
  "snapshot_ok keys states \<longleftrightarrow> distinct (map fst states) \<and> set (map fst states) \<subseteq> set keys
     \<and> (\<forall>(k, v) \<in> set states. value_ok k v)"

lemma snapshot_ok_append:
  "snapshot_ok ks a \<Longrightarrow> snapshot_ok ls b \<Longrightarrow> set ks \<inter> set ls = {} \<Longrightarrow> snapshot_ok (ks @ ls) (a @ b)"
  unfolding snapshot_ok_def by (auto simp: image_subset_iff disjoint_iff) (metis fst_conv)

lemma snapshot_ok_mono: "snapshot_ok ks a \<Longrightarrow> set ks \<subseteq> set ls \<Longrightarrow> snapshot_ok ls a"
  by (auto simp: snapshot_ok_def)

lemma level_state_ok: "level_state dev = Inr st \<Longrightarrow> snapshot_ok [''level''] st"
  using clamp_range [of 0 100]
  by (auto simp: level_state_def py_bind_Inr snapshot_ok_def value_ok_keys split: option.splits)

lemma on_off_states_ok: "snapshot_ok [''onOff''] (on_off_states dev)"
  by (simp add: on_off_states_def snapshot_ok_def value_ok_keys)

lemma dimmable_ok: "fst (dimmable_states dev lt) = Inr st \<Longrightarrow> snapshot_ok [''onOff'', ''level''] st"
  using snapshot_ok_append [OF on_off_states_ok level_state_ok]
  by (auto simp: dimmable_states_def Let_def split: sum.splits if_splits)

lemma ct_state_ok: "ct_state k = Inr st \<Longrightarrow> snapshot_ok [''colorTempMireds''] st"
  using clamp_range [of MIREDS_MIN MIREDS_MAX]
  by (auto simp: ct_state_def py_bind_Inr snapshot_ok_def value_ok_keys MIREDS_MIN_def MIREDS_MAX_def
      split: option.splits if_splits)

lemma hue_range: "rgb_to_hue_saturation r g b = Inr (hue, sat) \<Longrightarrow> 0 \<le> hue \<and> hue < 360"
  by (auto simp: rgb_to_hue_saturation_def Let_def split: if_splits pyfloat.splits prod.splits)

lemma hue_state_ok: "hue_state rgb = Inr st \<Longrightarrow> snapshot_ok [''hue'', ''saturation''] st"
  by (cases rgb rule: hue_state.cases)
    (auto simp: py_bind_Inr snapshot_ok_def value_ok_keys dest!: hue_range)

lemma channel_state_ok:
  assumes "channel_state dev = Inr st"
  shows "snapshot_ok [''colorTempMireds'', ''hue'', ''saturation''] st"
    "snapshot_ok [''colorTempMireds''] st \<or> snapshot_ok [''hue'', ''saturation''] st"
proof -
  obtain rgb kelvin where "ct_state kelvin = Inr st \<or> hue_state rgb = Inr st"
    using assms by (auto simp: channel_state_def py_bind_Inr split: if_splits)
  then show "snapshot_ok [''colorTempMireds''] st \<or> snapshot_ok [''hue'', ''saturation''] st"
    using ct_state_ok hue_state_ok by blast
  then show "snapshot_ok [''colorTempMireds'', ''hue'', ''saturation''] st"
    by (auto elim: snapshot_ok_mono)
qed

lemma add_states_Inr: "fst (add_states snap extra) = Inr st \<longleftrightarrow>
    (\<exists>a b. fst snap = Inr a \<and> extra = Inr b \<and> st = a @ b)"
  by (cases snap; cases "fst snap") (auto simp: add_states_def py_bind_Inr)

lemma covering_ok: "covering_states dev options = Inr st \<Longrightarrow> snapshot_ok [''position''] st"
  using clamp_range [of 0 100]
  by (auto simp: covering_states_def py_bind_Inr snapshot_ok_def value_ok_keys position_of_def split: option.splits)

lemma opt_number_ok: "(\<And>f. value_ok key (PFloat f)) \<Longrightarrow> snapshot_ok [key] (opt_number key v)"
  by (cases v) (simp_all add: opt_number_def snapshot_ok_def)

lemma system_mode_ok: "system_mode_of dev = Some m \<Longrightarrow> m \<in> {''off'', ''heat'', ''cool'', ''auto''}"
proof (cases "xd_hvac dev")
  case (Some h)
  then show "system_mode_of dev = Some m \<Longrightarrow> m \<in> {''off'', ''heat'', ''cool'', ''auto''}"
    by (cases h) (auto simp: system_mode_of_def)
qed (simp add: system_mode_of_def)

lemma thermostat_ok:
  assumes "thermostat_states dev = Inr st"
  shows "snapshot_ok [''localTemperatureC'', ''heatingSetpointC'', ''coolingSetpointC'', ''systemMode''] st"
proof -
  obtain t h c where st: "st = opt_number ''localTemperatureC'' t @ opt_number ''heatingSetpointC'' h
      @ opt_number ''coolingSetpointC'' c @ (case system_mode_of dev of None \<Rightarrow> [] | Some m \<Rightarrow> [(''systemMode'', PStr m)])"
    using assms by (auto simp: thermostat_states_def py_bind_Inr)
  have "snapshot_ok [''systemMode''] (case system_mode_of dev of None \<Rightarrow> [] | Some m \<Rightarrow> [(''systemMode'', PStr m)])"
  proof (cases "system_mode_of dev")
    case (Some m)
    then have "value_ok ''systemMode'' (PStr m)" using system_mode_ok [of dev m] unfolding value_ok_keys by blast
    with Some show ?thesis by (simp add: snapshot_ok_def)
  qed (simp add: snapshot_ok_def)
  from snapshot_ok_append [OF opt_number_ok snapshot_ok_append [OF opt_number_ok snapshot_ok_append [OF opt_number_ok this]],
      of "''localTemperatureC''" "''heatingSetpointC''" "''coolingSetpointC''" t h c]
  show ?thesis by (simp add: st value_ok_keys)
qed

text \<open>The keys of a handler: those of its role in the protocol.\<close>

fun handler_keys :: "handler \<Rightarrow> string list" where
  "handler_keys OnOffExport = [''onOff'']"
| "handler_keys DimmableExport = [''onOff'', ''level'']"
| "handler_keys ColorTemperatureExport = [''onOff'', ''level'', ''colorTempMireds'']"
| "handler_keys ExtendedColorExport = [''onOff'', ''level'', ''colorTempMireds'', ''hue'', ''saturation'']"
| "handler_keys CoveringExport = [''position'']"
| "handler_keys DoorLockExport = [''locked'']"
| "handler_keys (BinaryExport key) = [key]"
| "handler_keys (NumericExport key) = [key]"
| "handler_keys PressureExport = [''pressureKPa'']"
| "handler_keys ThermostatExport = [''localTemperatureC'', ''heatingSetpointC'', ''coolingSetpointC'', ''systemMode'']"

definition binary_key :: "string \<Rightarrow> bool" where
  "binary_key key = (key \<in> {''occupied'', ''contact'', ''leak'', ''freeze'', ''rain'', ''smoke'', ''co''})"

definition numeric_key :: "string \<Rightarrow> bool" where
  "numeric_key key = (key \<in> {''temperatureC'', ''humidityPct'', ''lux'', ''flowM3h''})"

fun handler_ok :: "handler \<Rightarrow> bool" where
  "handler_ok (BinaryExport key) = binary_key key"
| "handler_ok (NumericExport key) = numeric_key key"
| "handler_ok _ = True"

lemma registry: "list_all (\<lambda>(role, h). handler_ok h \<and> map_of ROLE_STATE_KEYS role = Some (handler_keys h)
    \<and> map_of ROLE_COMMANDS role = Some (map fst (commands h))) HANDLERS"
  by code_simp

lemma handler_for_role:
  assumes "handler_for role = Some h"
  shows "handler_ok h" "map_of ROLE_STATE_KEYS role = Some (handler_keys h)"
    "map_of ROLE_COMMANDS role = Some (map fst (commands h))"
proof -
  have "(role, h) \<in> set HANDLERS" using assms by (simp add: handler_for_def map_of_SomeD)
  with registry show "handler_ok h" "map_of ROLE_STATE_KEYS role = Some (handler_keys h)"
    "map_of ROLE_COMMANDS role = Some (map fst (commands h))"
    unfolding list_all_iff by blast+
qed

lemma bridgeable_role: "is_bridgeable role \<longleftrightarrow> is_role role"
proof -
  have "map fst HANDLERS = ROLES" by (simp add: HANDLERS_def ROLES_def ROLE_STATE_KEYS_def)
  then have "fst ` set HANDLERS = set ROLES" by (metis list.set_map)
  then show ?thesis by (simp add: is_bridgeable_def is_role_def)
qed

lemma binary_key_ok: "binary_key key \<Longrightarrow> value_ok key (PBool b)"
  unfolding binary_key_def by (elim insertE emptyE) (simp_all add: value_ok_def)

lemma binary_ok:
  assumes "binary_key key"
  shows "snapshot_ok [key] (binary_states key dev options)"
proof -
  have "binary_states key dev options = [] \<or> (\<exists>b. binary_states key dev options = [(key, PBool b)])"
    unfolding binary_states_def by (simp split: option.split)
  with binary_key_ok [OF assms] show ?thesis by (auto simp: snapshot_ok_def)
qed

lemma numeric_key_ok: "numeric_key key \<Longrightarrow> value_ok key (PFloat f)"
  unfolding numeric_key_def by (elim insertE emptyE) (simp_all add: value_ok_def)

lemma numeric_ok:
  assumes "numeric_key key" "numeric_states key dev = Inr st"
  shows "snapshot_ok [key] st"
  using opt_number_ok [OF numeric_key_ok [OF assms(1)]] assms(2) by (auto simp: numeric_states_def py_bind_Inr)

lemma pressure_ok: "pressure_states dev = Inr st \<Longrightarrow> snapshot_ok [''pressureKPa''] st"
  using opt_number_ok [of "''pressureKPa''"] by (auto simp: value_ok_keys pressure_states_def py_bind_Inr)

lemma lock_ok: "snapshot_ok [''locked''] (lock_states dev)"
  by (simp add: lock_states_def snapshot_ok_def value_ok_keys)

lemma color_temperature_ok:
  assumes "fst (color_temperature_states dev lt) = Inr st"
  shows "snapshot_ok [''onOff'', ''level'', ''colorTempMireds''] st"
proof -
  obtain a b where "fst (dimmable_states dev lt) = Inr a"
      "py_bind (number dev ''whiteTemperature'') ct_state = Inr b" "st = a @ b"
    using assms unfolding color_temperature_states_def add_states_Inr by blast
  then show ?thesis using snapshot_ok_append [OF dimmable_ok ct_state_ok] by (auto simp: py_bind_Inr)
qed

lemma extended_color_ok:
  assumes "fst (extended_color_states dev lt) = Inr st"
  shows "snapshot_ok [''onOff'', ''level'', ''colorTempMireds'', ''hue'', ''saturation''] st"
proof -
  obtain a b where "fst (dimmable_states dev lt) = Inr a" "channel_state dev = Inr b" "st = a @ b"
    using assms unfolding extended_color_states_def add_states_Inr by blast
  then show ?thesis using snapshot_ok_append [OF dimmable_ok channel_state_ok(1)] by auto
qed

lemma states_for_ok:
  assumes "states_for h dev options lt = (Inr st, lt', logs)" "handler_ok h"
  shows "snapshot_ok (handler_keys h) st"
proof (cases h)
  case OnOffExport
  with assms on_off_states_ok [of dev] show ?thesis by simp
next
  case DimmableExport
  with assms dimmable_ok [of dev lt st] show ?thesis by simp
next
  case ColorTemperatureExport
  with assms color_temperature_ok [of dev lt st] show ?thesis by simp
next
  case ExtendedColorExport
  with assms extended_color_ok [of dev lt st] show ?thesis by simp
next
  case CoveringExport
  with assms covering_ok [of dev options st] show ?thesis by simp
next
  case DoorLockExport
  with assms lock_ok [of dev] show ?thesis by simp
next
  case (BinaryExport key)
  with assms binary_ok [of key dev options] show ?thesis by simp
next
  case (NumericExport key)
  with assms numeric_ok [of key dev st] show ?thesis by simp
next
  case PressureExport
  with assms pressure_ok [of dev st] show ?thesis by simp
next
  case ThermostatExport
  with assms thermostat_ok [of dev st] show ?thesis by simp
qed

lemma battery_range: "fst (battery_percent dev lt) = Inr (Some n) \<Longrightarrow> 1 \<le> n \<and> n \<le> 100"
  by (auto simp: battery_percent_def Let_def py_bind_Inr split: if_splits prod.splits)

lemma handler_keys_no_battery: "handler_ok h \<Longrightarrow> ''batteryLevel'' \<notin> set (handler_keys h)"
  by (cases h) (auto simp: binary_key_def numeric_key_def)

section \<open>Properties of the snapshots\<close>

lemma published_cases:
  assumes "published_states h dev options lt = (Inr st, lt', logs)"
  obtains s lt1 l1 percent lt2 l2 where "states_for h dev options lt = (Inr s, lt1, l1)"
    "battery_percent dev lt1 = (Inr percent, lt2, l2)"
    "st = (case percent of None \<Rightarrow> s | Some n \<Rightarrow> AList.update ''batteryLevel'' (PInt n) s)"
proof -
  obtain r lt1 l1 where s: "states_for h dev options lt = (r, lt1, l1)" by (cases "states_for h dev options lt")
  obtain p lt2 l2 where b: "battery_percent dev lt1 = (p, lt2, l2)" by (cases "battery_percent dev lt1")
  from assms s b that show thesis by (cases r; cases p) (auto simp: published_states_def)
qed

lemma published_ok:
  assumes "handler_ok h" "published_states h dev options lt = (Inr st, lt', logs)"
  shows "snapshot_ok (handler_keys h @ [''batteryLevel'']) st"
proof -
  obtain s lt1 l1 percent lt2 l2 where s: "states_for h dev options lt = (Inr s, lt1, l1)"
      "battery_percent dev lt1 = (Inr percent, lt2, l2)"
      "st = (case percent of None \<Rightarrow> s | Some n \<Rightarrow> AList.update ''batteryLevel'' (PInt n) s)"
    using assms(2) by (rule published_cases)
  have k: "snapshot_ok (handler_keys h) s" by (rule states_for_ok [OF s(1) assms(1)])
  show ?thesis
  proof (cases percent)
    case None
    with k s show ?thesis by (auto elim: snapshot_ok_mono)
  next
    case (Some n)
    have "''batteryLevel'' \<notin> fst ` set s" using handler_keys_no_battery [OF assms(1)] k by (auto simp: snapshot_ok_def)
    then have "st = s @ [(''batteryLevel'', PInt n)]" using s(3) Some by (simp add: update_fresh)
    moreover have "snapshot_ok [''batteryLevel''] [(''batteryLevel'', PInt n)]"
      using battery_range [of dev lt1 n] s(2) Some by (simp add: snapshot_ok_def value_ok_keys)
    ultimately show ?thesis using snapshot_ok_append [OF k] handler_keys_no_battery [OF assms(1)] by simp
  qed
qed

text \<open>The saturation of channels that are not negative.\<close>

definition colors_not_negative :: "device \<Rightarrow> bool" where
  "colors_not_negative dev \<longleftrightarrow> list_all (\<lambda>key. case number dev key of Inr (Some (Fin r)) \<Rightarrow> 0 \<le> r | _ \<Rightarrow> True)
     [''redLevel'', ''greenLevel'', ''blueLevel'']"

lemma hs_saturation:
  assumes "0 \<le> r" "0 \<le> g" "0 \<le> b" "rgb_to_hs r g b = (h, s)"
  shows "0 \<le> s \<and> s \<le> 1"
proof -
  let ?max = "max r (max g b)" and ?min = "min r (min g b)"
  have "0 \<le> ?min" "?min \<le> ?max" using assms(1-3) by (simp_all add: le_max_iff_disj)
  then have "s = 0 \<or> s = (?max - ?min) / ?max \<and> 0 < ?max" using assms(4) by (auto simp: rgb_to_hs_def Let_def split: if_splits)
  with \<open>0 \<le> ?min\<close> \<open>?min \<le> ?max\<close> show ?thesis by (auto simp: divide_le_eq)
qed

lemma saturation_range:
  assumes "rgb_to_hue_saturation red green blue = Inr (hue, sat)"
    and "\<forall>f \<in> {red, green, blue}. \<forall>r. f = Fin r \<longrightarrow> 0 \<le> r"
  shows "0 \<le> sat \<and> sat \<le> 100"
proof (cases "sat = 0")
  case False
  then obtain r g b h s where f: "red = Fin r" "green = Fin g" "blue = Fin b" "rgb_to_hs (r / 100) (g / 100) (b / 100) = (h, s)"
      "sat = round_rat (s * 100)"
    using assms(1) by (auto simp: rgb_to_hue_saturation_def Let_def split: if_splits pyfloat.splits prod.splits)
  have "0 \<le> s \<and> s \<le> 1" by (rule hs_saturation [OF _ _ _ f(4)]) (use assms(2) f in auto)
  then show ?thesis using round_rat_range [of 0 "s * 100" 100] f(5) by simp
qed simp

lemma published_saturation:
  assumes "handler_ok h" "published_states h dev options lt = (Inr st, lt', logs)" "colors_not_negative dev"
    "map_of st ''saturation'' = Some (PInt n)"
  shows "0 \<le> n \<and> n \<le> 100"
proof -
  obtain s lt1 l1 percent lt2 l2 where s: "states_for h dev options lt = (Inr s, lt1, l1)"
      "st = (case percent of None \<Rightarrow> s | Some n \<Rightarrow> AList.update ''batteryLevel'' (PInt n) s)"
    using assms(2) by (rule published_cases)
  have sat: "map_of s ''saturation'' = Some (PInt n)" using s(2) assms(4) by (cases percent) (simp_all add: update_conv')
  then have "''saturation'' \<in> set (handler_keys h)"
    using states_for_ok [OF s(1) assms(1)] by (auto simp: snapshot_ok_def dest!: map_of_SomeD)
  then have "h = ExtendedColorExport" using assms(1) by (cases h) (auto simp: binary_key_def numeric_key_def)
  then have "fst (extended_color_states dev lt) = Inr s" using s(1) by simp
  then obtain a b where ab: "fst (dimmable_states dev lt) = Inr a" "channel_state dev = Inr b" "s = a @ b"
    unfolding extended_color_states_def add_states_Inr by blast
  have "map_of a ''saturation'' = None" using dimmable_ok [OF ab(1)] by (auto simp: snapshot_ok_def map_of_eq_None_iff)
  with sat ab(3) have b: "map_of b ''saturation'' = Some (PInt n)" by (auto simp: map_add_Some_iff)
  obtain rgb kelvin where rgb: "py_map (number dev) [''redLevel'', ''greenLevel'', ''blueLevel''] = Inr rgb"
      "ct_state kelvin = Inr b \<or> hue_state rgb = Inr b"
    using ab(2) by (auto simp: channel_state_def py_bind_Inr simp del: py_map.simps split: if_splits)
  have "map_of b ''saturation'' = None" if "ct_state kelvin = Inr b"
    using ct_state_ok [OF that] by (auto simp: snapshot_ok_def map_of_eq_None_iff)
  with b have "ct_state kelvin \<noteq> Inr b" by auto
  with rgb have "hue_state rgb = Inr b" by blast
  then obtain red green blue hue where c: "rgb = [Some red, Some green, Some blue]" "rgb_to_hue_saturation red green blue = Inr (hue, n)"
    using b by (cases rgb rule: hue_state.cases) (auto simp: py_bind_Inr split: if_splits)
  show ?thesis
    by (rule saturation_range [OF c(2)])
      (use rgb(1) c(1) assms(3) in \<open>auto simp: colors_not_negative_def py_bind_Inr\<close>)
qed

text \<open>C26: every snapshot the plugin publishes is well typed: for whatever attributes a device has, each
  role publishes only keys the protocol defines for it (and the battery level), each key once, and
  under each key a value of the type the protocol gives it; levels, positions, hues, colour temperatures and
  the battery level are within its ranges, and so is the saturation (0 to 100) if no colour level of
  the device is negative.\<close>

theorem published_typed:
  assumes "handler_for role = Some h" "published_states h dev options lt = (Inr st, lt', logs)"
  shows "\<exists>keys. map_of ROLE_STATE_KEYS role = Some keys \<and> snapshot_ok (keys @ [''batteryLevel'']) st
    \<and> (colors_not_negative dev \<longrightarrow> (\<forall>n. map_of st ''saturation'' = Some (PInt n) \<longrightarrow> 0 \<le> n \<and> n \<le> 100))"
  using published_ok [OF handler_for_role(1) [OF assms(1)] assms(2)] handler_for_role(2) [OF assms(1)]
    published_saturation [OF handler_for_role(1) [OF assms(1)] assms(2)] by blast

text \<open>An extended colour light publishes one colour channel at a time, so the colour mode the bridge
  derives from the keys is never ambiguous.\<close>

theorem one_color_channel:
  assumes "states_for ExtendedColorExport dev options lt = (Inr st, lt', logs)"
  shows "map_of st ''colorTempMireds'' = None \<or> (map_of st ''hue'' = None \<and> map_of st ''saturation'' = None)"
proof -
  have "fst (extended_color_states dev lt) = Inr st" using assms by simp
  then obtain a b where ab: "fst (dimmable_states dev lt) = Inr a" "channel_state dev = Inr b" "st = a @ b"
    unfolding extended_color_states_def add_states_Inr by blast
  have a: "set (map fst a) \<subseteq> {''onOff'', ''level''}" using dimmable_ok [OF ab(1)] by (simp add: snapshot_ok_def)
  have b: "set (map fst b) \<subseteq> set [''colorTempMireds''] \<or> set (map fst b) \<subseteq> set [''hue'', ''saturation'']"
    using channel_state_ok(2) [OF ab(2)] unfolding snapshot_ok_def by metis
  have absent: "map_of st k = None" if "k \<notin> fst ` set a" "k \<notin> fst ` set b" for k
  proof -
    have "map_of a k = None" "map_of b k = None" using that by (simp_all add: map_of_eq_None_iff)
    then show ?thesis by (simp add: ab(3) map_add_def)
  qed
  have keys: "''colorTempMireds'' \<notin> fst ` set a" "''hue'' \<notin> fst ` set a" "''saturation'' \<notin> fst ` set a"
    using a by auto
  from b show ?thesis
  proof
    assume "set (map fst b) \<subseteq> set [''colorTempMireds'']"
    then have "''hue'' \<notin> fst ` set b" "''saturation'' \<notin> fst ` set b" by auto
    with absent keys show ?thesis by blast
  next
    assume "set (map fst b) \<subseteq> set [''hue'', ''saturation'']"
    then have "''colorTempMireds'' \<notin> fst ` set b" by auto
    with absent keys show ?thesis by blast
  qed
qed

end
