(* ===== verification/ExportCatalog.thy ===== *)
theory ExportCatalog
  imports ExportHandlers "HOL-Library.Product_Lexorder" "HOL-Library.List_Lexorder" "HOL-Library.Char_ord"
begin

text \<open>
  The catalogue of exports (\<open>export_catalog.py\<close>): which roles an Indigo device may be exported as,
  and which is the default. A device is what \<open>classify\<close> reads of it; an attribute that the live
  proxy fails to read is an exception. The regular expressions of the name and unit hints are
  lists of items with a matcher; the text they run over has code points below 256.
\<close>

section \<open>Regular expressions of the hints\<close>

definition is_word_char :: "char \<Rightarrow> bool" where
  "is_word_char c = (let n = code_point c in
     (48 \<le> n \<and> n \<le> 57) \<or> (65 \<le> n \<and> n \<le> 90) \<or> n = 95 \<or> (97 \<le> n \<and> n \<le> 122)
     \<or> n \<in> {170, 178, 179, 181, 185, 186, 188, 189, 190} \<or> (192 \<le> n \<and> n \<noteq> 215 \<and> n \<noteq> 247))"

definition lower_char :: "char \<Rightarrow> char" where
  "lower_char c = (let n = code_point c in
     if (65 \<le> n \<and> n \<le> 90) \<or> (192 \<le> n \<and> n \<le> 222 \<and> n \<noteq> 215) then char_of (n + 32) else c)"

text \<open>\<open>\b\<close>, a character, a character with \<open>?\<close>, and \<open>\s?\<close>.\<close>

datatype rx_item = WordEdge | Lit char | Maybe char | MaybeSpace

type_synonym needle = "rx_item list"

definition word_before :: "char option \<Rightarrow> bool" where
  "word_before p = (case p of None \<Rightarrow> False | Some c \<Rightarrow> is_word_char c)"

definition word_next :: "string \<Rightarrow> bool" where
  "word_next s = (case s of [] \<Rightarrow> False | c # _ \<Rightarrow> is_word_char c)"

text \<open>\<open>match_here prev items text\<close>: the items match at the start of the text, which stands after \<open>prev\<close>.\<close>

fun match_here :: "char option \<Rightarrow> needle \<Rightarrow> string \<Rightarrow> bool" where
  "match_here p [] s = True"
| "match_here p (WordEdge # r) s = (word_before p \<noteq> word_next s \<and> match_here p r s)"
| "match_here p (Lit c # r) s = (case s of [] \<Rightarrow> False | x # xs \<Rightarrow> x = c \<and> match_here (Some x) r xs)"
| "match_here p (Maybe c # r) s =
     ((case s of [] \<Rightarrow> False | x # xs \<Rightarrow> x = c \<and> match_here (Some x) r xs) \<or> match_here p r s)"
| "match_here p (MaybeSpace # r) s =
     ((case s of [] \<Rightarrow> False | x # xs \<Rightarrow> is_space x \<and> match_here (Some x) r xs) \<or> match_here p r s)"

fun search_from :: "char option \<Rightarrow> needle \<Rightarrow> string \<Rightarrow> bool" where
  "search_from p r [] = match_here p r []"
| "search_from p r (x # xs) = (match_here p r (x # xs) \<or> search_from (Some x) r xs)"

definition search :: "needle \<Rightarrow> string \<Rightarrow> bool" where
  "search r s = search_from None r s"

definition lits :: "string \<Rightarrow> needle" where
  "lits s = map Lit s"

definition word :: "string \<Rightarrow> needle" where
  "word s = WordEdge # lits s @ [WordEdge]"

definition plural :: "string \<Rightarrow> needle" where
  "plural s = WordEdge # lits s @ [Maybe (CHR ''s''), WordEdge]"

section \<open>Roles, labels and reasons\<close>

definition ROLE_LABELS :: "(string \<times> string) list" where
  "ROLE_LABELS = [
     (''onOffPlugInUnit'', ''Plug (On/Off Plug-in Unit)''), (''onOffLight'', ''Light (On/Off)''),
     (''doorLock'', ''Lock (Door Lock)''), (''dimmableLight'', ''Light (Dimmable)''),
     (''colorTemperatureLight'', ''Light (Colour temperature)''), (''extendedColorLight'', ''Light (Full colour)''),
     (''windowCovering'', ''Window covering''), (''occupancySensor'', ''Occupancy sensor (PIR/motion)''),
     (''contactSensor'', ''Contact sensor''), (''waterLeakDetector'', ''Water leak sensor''),
     (''waterFreezeDetector'', ''Freeze sensor''), (''rainSensor'', ''Rain sensor''), (''smokeAlarm'', ''Smoke alarm''),
     (''coAlarm'', ''Carbon monoxide alarm''), (''temperatureSensor'', ''Temperature sensor''),
     (''humiditySensor'', ''Humidity sensor''), (''lightSensor'', ''Light (lux) sensor''),
     (''pressureSensor'', ''Pressure sensor''), (''flowSensor'', ''Flow sensor''), (''thermostat'', ''Thermostat'')]"

datatype exclusion = ReasonLoopGuard | ReasonFan | ReasonSprinkler | ReasonMultiIo | ReasonSensorUnits
  | ReasonNoBinaryState | ReasonOnlyNumericStates | ReasonMappedStateGone | ReasonDeviceError

definition STATE_KEY_RANK :: "(string \<times> nat) list" where
  "STATE_KEY_RANK = [(''onOffState'', 0), (''onOff'', 1), (''state'', 2), (''status'', 3), (''active'', 4)]"

definition BINARY_SENSOR_ROLES :: "string list" where
  "BINARY_SENSOR_ROLES = [''occupancySensor'', ''contactSensor'', ''waterLeakDetector'', ''waterFreezeDetector'',
     ''rainSensor'', ''smokeAlarm'', ''coAlarm'']"

definition NUMERIC_SENSOR_ROLES :: "string list" where
  "NUMERIC_SENSOR_ROLES = [''temperatureSensor'', ''humiditySensor'', ''lightSensor'', ''pressureSensor'', ''flowSensor'']"

definition ROLES_INVERTED_BY_DEFAULT :: "string list" where
  "ROLES_INVERTED_BY_DEFAULT = [''contactSensor'']"

definition default_invert_for :: "string \<Rightarrow> bool" where
  "default_invert_for role = (role \<in> set ROLES_INVERTED_BY_DEFAULT)"

definition BINARY_PATTERNS :: "(string \<times> needle list) list" where
  "BINARY_PATTERNS = [
     (''occupancySensor'', [word ''motion'', plural ''pir'', word ''occupancy'', word ''occupied'', word ''presence'']),
     (''waterLeakDetector'', [plural ''leak'', word ''flood'', word ''water alarm'', word ''water sensor'']),
     (''waterFreezeDetector'', [word ''freeze'', word ''freezing'', word ''frost'']),
     (''rainSensor'', [word ''rain'']),
     (''coAlarm'', [word ''carbon monoxide'', word ''co alarm'', word ''co detector'', word ''co sensor'', word ''co'']),
     (''smokeAlarm'', [word ''smoke'', word ''fire alarm'']),
     (''contactSensor'', [plural ''contact'', plural ''door'', plural ''window'', plural ''gate'', word ''reed'',
        word ''open/closed'', plural ''skylight''])]"

definition UNIT_PATTERNS :: "(string \<times> needle list) list" where
  "UNIT_PATTERNS = [
     (''humiditySensor'', [Lit (CHR ''%'') # MaybeSpace # lits ''rh'' @ [WordEdge],
        WordEdge # lits ''rh'' @ [MaybeSpace, Lit (CHR ''%'')], word ''humidity'', word ''moisture'']),
     (''lightSensor'', [word ''lux'', word ''lx'', word ''illuminance'', word ''light level'', word ''luminance'']),
     (''pressureSensor'', [WordEdge # Maybe (CHR ''k'') # lits ''pa'' @ [WordEdge], word ''hpa'', word ''mbar'',
        word ''millibar'', word ''psi'', word ''inhg'', word ''pressure'']),
     (''flowSensor'', [WordEdge # lits ''m3/h'', [Lit (CHR ''m''), Lit (CHR 0xB3)] @ lits ''/h'', word ''l/min'',
        word ''lpm'', word ''gpm'', word ''flow rate'', word ''flow'']),
     (''temperatureSensor'', [[Lit (CHR 0xB0), MaybeSpace, Lit (CHR ''c''), WordEdge],
        [Lit (CHR 0xB0), MaybeSpace, Lit (CHR ''f''), WordEdge],
        WordEdge # lits ''deg'' @ [MaybeSpace, Lit (CHR ''c''), WordEdge],
        WordEdge # lits ''deg'' @ [MaybeSpace, Lit (CHR ''f''), WordEdge],
        word ''celsius'', word ''fahrenheit'', word ''temperature'', word ''temp''])]"

definition UNIT_PROP_KEYS :: "string list" where
  "UNIT_PROP_KEYS = [''unit'', ''units'', ''sensorUnits'', ''unitOfMeasure'', ''uiUnits'', ''sensorType'']"

definition UNIT_ATTRS_STRONG :: "string list" where
  "UNIT_ATTRS_STRONG = [''displayStateValUi'', ''model'', ''subModel'']"

definition KIND_PRIORITY :: "string list" where
  "KIND_PRIORITY = [''DimmerDevice'', ''SensorDevice'', ''ThermostatDevice'', ''SprinklerDevice'',
     ''SpeedControlDevice'', ''MultiIODevice'', ''RelayDevice'']"

section \<open>The device and its verdict\<close>

text \<open>The class names of the method resolution order, the attributes (an absent one is
  \<open>AttributeError\<close>), and the states.\<close>

record catalog_device =
  cd_mro :: "string list py_result"
  cd_attrs :: "(string \<times> pyval py_result) list"
  cd_states :: "pydict py_result"

datatype verdict =
    EligibleDevice "string list" string
  | MappableDevice "string list"
  | Excluded exclusion

text \<open>\<open>getattr(dev, name, default)\<close>: only \<open>AttributeError\<close> gives the default.\<close>

definition getattr :: "catalog_device \<Rightarrow> string \<Rightarrow> pyval \<Rightarrow> pyval py_result" where
  "getattr dev name dflt = (case map_of (cd_attrs dev) name of
       None \<Rightarrow> Inr dflt
     | Some (Inl AttributeError) \<Rightarrow> Inr dflt
     | Some r \<Rightarrow> r)"

definition suggested_state_key :: "string list \<Rightarrow> string" where
  "suggested_state_key keys = hd keys"

definition device_kind :: "catalog_device \<Rightarrow> string py_result" where
  "device_kind dev = (case cd_mro dev of
       Inl AttributeError \<Rightarrow> Inr []
     | Inl TypeError \<Rightarrow> Inr []
     | Inl e \<Rightarrow> Inl e
     | Inr names \<Rightarrow> Inr (case find (\<lambda>kind. kind \<in> set names) KIND_PRIORITY of None \<Rightarrow> [] | Some kind \<Rightarrow> kind))"

definition plugin_id_of :: "catalog_device \<Rightarrow> string py_result" where
  "plugin_id_of dev = py_bind (getattr dev ''pluginId'' (PStr [])) (\<lambda>v. Inr (case v of PStr s \<Rightarrow> s | _ \<Rightarrow> []))"

definition flag :: "catalog_device \<Rightarrow> string \<Rightarrow> bool py_result" where
  "flag dev name = py_bind (getattr dev name (PBool False)) (\<lambda>v. Inr (v = PBool True \<or> eq_int v 1))"

fun dedup_onto :: "string list \<Rightarrow> string list \<Rightarrow> string list" where
  "dedup_onto seen [] = seen"
| "dedup_onto seen (r # rs) = dedup_onto (if r \<in> set seen then seen else seen @ [r]) rs"

definition default_first :: "string list \<Rightarrow> string \<Rightarrow> string list" where
  "default_first roles dflt = dedup_onto [] (dflt # filter (\<lambda>r. r \<noteq> dflt) roles)"

section \<open>Hints\<close>

text \<open>\<open>" ".join(texts)\<close>.\<close>

fun join_space :: "string list \<Rightarrow> string" where
  "join_space [] = []"
| "join_space [t] = t"
| "join_space (t # ts) = t @ CHR '' '' # join_space ts"

definition text_of :: "pyval \<Rightarrow> string list" where
  "text_of v = (case v of PStr s \<Rightarrow> [s] | _ \<Rightarrow> [])"

definition unit_texts :: "catalog_device \<Rightarrow> (string \<times> string) py_result" where
  "unit_texts dev = py_bind (getattr dev ''pluginProps'' PNone) (\<lambda>props.
     py_bind (py_map (\<lambda>name. getattr dev name PNone) UNIT_ATTRS_STRONG) (\<lambda>strong.
     py_bind (getattr dev ''name'' PNone) (\<lambda>weak.
       let declared = (case props of PDict d \<Rightarrow> concat (map (\<lambda>k. text_of (dget d k)) UNIT_PROP_KEYS) | _ \<Rightarrow> [])
       in Inr (map lower_char (join_space (declared @ concat (map text_of strong))),
               map lower_char (join_space (text_of weak))))))"

definition role_in :: "(string \<times> needle list) list \<Rightarrow> string \<Rightarrow> string option" where
  "role_in table t = (if t = [] then None
     else map_option fst (find (\<lambda>(role, needles). list_ex (\<lambda>n. search n t) needles) table))"

definition role_for_text :: "string \<Rightarrow> string option" where
  "role_for_text = role_in UNIT_PATTERNS"

definition binary_role_for_text :: "string \<Rightarrow> string option" where
  "binary_role_for_text = role_in BINARY_PATTERNS"

definition or_else :: "'a option \<Rightarrow> 'a option \<Rightarrow> 'a option" where
  "or_else a b = (case a of None \<Rightarrow> b | Some x \<Rightarrow> Some x)"

definition binary_sensor_role :: "catalog_device \<Rightarrow> string option py_result" where
  "binary_sensor_role dev = py_bind (unit_texts dev) (\<lambda>(strong, weak).
     Inr (or_else (binary_role_for_text strong) (binary_role_for_text weak)))"

definition numeric_sensor_role :: "catalog_device \<Rightarrow> string option py_result" where
  "numeric_sensor_role dev = py_bind (unit_texts dev) (\<lambda>(strong, weak).
     Inr (or_else (role_for_text strong) (role_for_text weak)))"

section \<open>Mapped states\<close>

text \<open>\<open>name.partition(".")\<close>: what stands before the first dot, and after it.\<close>

definition is_enum_expansion :: "string \<Rightarrow> string list \<Rightarrow> bool" where
  "is_enum_expansion name names =
     (let parent = takeWhile (\<lambda>c. c \<noteq> CHR ''.'') name; suffix = drop (Suc (length parent)) name
      in suffix \<noteq> [] \<and> parent \<in> set names)"

definition state_rank :: "string \<Rightarrow> nat" where
  "state_rank name = (case map_of STATE_KEY_RANK name of None \<Rightarrow> length STATE_KEY_RANK | Some n \<Rightarrow> n)"

definition binary_state_keys :: "catalog_device \<Rightarrow> string list" where
  "binary_state_keys dev = (case cd_states dev of
       Inl _ \<Rightarrow> []
     | Inr states \<Rightarrow>
         sort_key (\<lambda>name. (state_rank name, name))
           (map fst (filter (\<lambda>(name, v). is_bool v \<and> \<not> is_enum_expansion name (map fst states)) states)))"

definition has_numeric_state :: "catalog_device \<Rightarrow> bool" where
  "has_numeric_state dev = (case cd_states dev of
       Inl _ \<Rightarrow> False
     | Inr states \<Rightarrow> list_ex (\<lambda>(_, v). case v of PInt _ \<Rightarrow> True | PFloat _ \<Rightarrow> True | _ \<Rightarrow> False) states)"

definition mapped_state_key :: "pyval \<Rightarrow> string option" where
  "mapped_state_key options = (case options of
       PDict d \<Rightarrow> (case dget d OPTION_STATE_KEY of PStr key \<Rightarrow> if key = [] then None else Some key | _ \<Rightarrow> None)
     | _ \<Rightarrow> None)"

section \<open>The rules per class\<close>

definition relay_rule :: verdict where
  "relay_rule = EligibleDevice [''onOffPlugInUnit'', ''onOffLight'', ''doorLock''] ''onOffPlugInUnit''"

definition dimmer_rule :: "catalog_device \<Rightarrow> verdict py_result" where
  "dimmer_rule dev = py_bind (flag dev ''supportsRGB'') (\<lambda>rgb.
     py_bind (flag dev ''supportsWhiteTemperature'') (\<lambda>white.
       let dflt = (if rgb then ''extendedColorLight'' else if white then ''colorTemperatureLight'' else ''dimmableLight'');
           roles = [''dimmableLight''] @ (if rgb then [''extendedColorLight''] else [])
             @ (if white \<or> rgb then [''colorTemperatureLight''] else []) @ [''windowCovering'']
       in Inr (EligibleDevice (default_first roles dflt) dflt)))"

text \<open>Every on/off sensor, mapped or not, gets the binary roles with the hinted one first.\<close>

definition binary_verdict :: "catalog_device \<Rightarrow> verdict py_result" where
  "binary_verdict dev = py_bind (binary_sensor_role dev) (\<lambda>hint.
     let dflt = (case hint of None \<Rightarrow> ''occupancySensor'' | Some r \<Rightarrow> r)
     in Inr (EligibleDevice (default_first BINARY_SENSOR_ROLES dflt) dflt))"

definition custom_rule :: "catalog_device \<Rightarrow> pyval \<Rightarrow> verdict py_result" where
  "custom_rule dev options =
     (let candidates = binary_state_keys dev
      in case mapped_state_key options of
           Some key \<Rightarrow> if key \<notin> set candidates then Inr (Excluded ReasonMappedStateGone) else binary_verdict dev
         | None \<Rightarrow> Inr (if candidates \<noteq> [] then MappableDevice candidates
                      else Excluded (if has_numeric_state dev then ReasonOnlyNumericStates else ReasonNoBinaryState)))"

definition sensor_rule :: "catalog_device \<Rightarrow> pyval \<Rightarrow> verdict py_result" where
  "sensor_rule dev options = py_bind (flag dev ''supportsOnState'') (\<lambda>on_state.
     if on_state then binary_verdict dev
     else py_bind (flag dev ''supportsSensorValue'') (\<lambda>numeric.
       if numeric then py_bind (numeric_sensor_role dev) (\<lambda>hint. Inr (case hint of
              None \<Rightarrow> Excluded ReasonSensorUnits
            | Some dflt \<Rightarrow> EligibleDevice (default_first NUMERIC_SENSOR_ROLES dflt) dflt))
       else custom_rule dev options))"

definition rule_for_kind :: "string \<Rightarrow> catalog_device \<Rightarrow> pyval \<Rightarrow> verdict py_result" where
  "rule_for_kind kind dev options =
     (if kind = ''RelayDevice'' then Inr relay_rule
      else if kind = ''DimmerDevice'' then dimmer_rule dev
      else if kind = ''SensorDevice'' then sensor_rule dev options
      else if kind = ''ThermostatDevice'' then Inr (EligibleDevice [''thermostat''] ''thermostat'')
      else if kind = ''SpeedControlDevice'' then Inr (Excluded ReasonFan)
      else if kind = ''SprinklerDevice'' then Inr (Excluded ReasonSprinkler)
      else if kind = ''MultiIODevice'' then Inr (Excluded ReasonMultiIo)
      else custom_rule dev options)"

datatype catalog_log = LogCouldNotClassify py_exc

definition classify :: "catalog_device \<Rightarrow> string \<Rightarrow> pyval \<Rightarrow> verdict \<times> catalog_log list" where
  "classify dev plugin_id options =
     (case py_bind (plugin_id_of dev) (\<lambda>owner.
             if owner = plugin_id then Inr (Excluded ReasonLoopGuard)
             else py_bind (device_kind dev) (\<lambda>kind. rule_for_kind kind dev options)) of
        Inl e \<Rightarrow> (Excluded ReasonDeviceError, [LogCouldNotClassify e])
      | Inr v \<Rightarrow> (v, []))"

definition is_exportable :: "catalog_device \<Rightarrow> string \<Rightarrow> pyval \<Rightarrow> bool" where
  "is_exportable dev plugin_id options =
     (case fst (classify dev plugin_id options) of EligibleDevice _ _ \<Rightarrow> True | _ \<Rightarrow> False)"

definition role_label :: "string \<Rightarrow> string" where
  "role_label role = (case map_of ROLE_LABELS role of None \<Rightarrow> role | Some label \<Rightarrow> label)"

record target_refusal =
  tr_verdict :: verdict
  tr_role_mismatch :: bool

definition eligible_target :: "catalog_device \<Rightarrow> string \<Rightarrow> pyval \<Rightarrow> string \<Rightarrow> target_refusal + verdict" where
  "eligible_target dev plugin_id options required_role =
     (let v = fst (classify dev plugin_id options)
      in case v of
           EligibleDevice roles _ \<Rightarrow>
             if required_role \<notin> set roles then Inl \<lparr>tr_verdict = v, tr_role_mismatch = True\<rparr> else Inr v
         | _ \<Rightarrow> Inl \<lparr>tr_verdict = v, tr_role_mismatch = False\<rparr>)"

text \<open>The row of an excluded device in a picker: its key, and its name with the reason.\<close>

definition excluded_row ::
  "exclusion \<Rightarrow> int \<Rightarrow> string \<Rightarrow> string \<Rightarrow> string \<Rightarrow> (string \<times> string \<times> exclusion) option" where
  "excluded_row reason device_id name mark excluded_prefix =
     (if reason = ReasonLoopGuard then None
      else Some (excluded_prefix @ str_of_int device_id, mark @ name, reason))"

section \<open>Facts about the hints\<close>

lemma split_Cons: "(\<exists>a b. x # xs = a @ b \<and> P a b) \<longleftrightarrow> P [] (x # xs) \<or> (\<exists>a b. xs = a @ b \<and> P (x # a) b)"
  by (auto simp: Cons_eq_append_conv)

lemma search_from_iff:
  "search_from p r s \<longleftrightarrow> (\<exists>a b. s = a @ b \<and> match_here (if a = [] then p else Some (last a)) r b)"
proof (induction s arbitrary: p)
  case Nil then show ?case by simp
next
  case (Cons x xs)
  have last_Cons: "(if x # a = [] then p else Some (last (x # a))) = (if a = [] then Some x else Some (last a))" for a
    by simp
  show ?case
    unfolding split_Cons last_Cons search_from.simps Cons.IH by simp
qed

lemma match_lits: "match_here p (lits s @ r) t
    \<longleftrightarrow> (\<exists>b. t = s @ b \<and> match_here (if s = [] then p else Some (last s)) r b)"
  by (induction s arbitrary: p t) (auto simp: lits_def split: list.splits)

text \<open>A needle between word edges matches exactly where the text stands alone as words.\<close>

definition stands_alone :: "string \<Rightarrow> string \<Rightarrow> bool" where
  "stands_alone s t = (\<exists>a b. t = a @ s @ b \<and> (a = [] \<or> \<not> is_word_char (last a)) \<and> (b = [] \<or> \<not> is_word_char (hd b)))"

lemma search_word:
  assumes "s \<noteq> []" "is_word_char (hd s)" "is_word_char (last s)"
  shows "search (word s) t \<longleftrightarrow> stands_alone s t"
proof -
  have here: "match_here p (word s) x \<longleftrightarrow> (\<exists>b. x = s @ b \<and> \<not> word_before p \<and> \<not> word_next b)" for p x
  proof -
    have next_s: "word_next (s @ b)" for b
      using assms(1,2) by (cases s) (auto simp: word_next_def)
    have "word_before (if s = [] then p else Some (last s))" for p
      using assms by (simp add: word_before_def)
    then show ?thesis
      unfolding word_def match_here.simps match_lits using next_s by auto
  qed
  have edge: "\<not> word_before (if a = [] then None else Some (last a)) \<longleftrightarrow> a = [] \<or> \<not> is_word_char (last a)" for a
    by (simp add: word_before_def)
  have edge_next: "\<not> word_next b \<longleftrightarrow> b = [] \<or> \<not> is_word_char (hd b)" for b
    by (cases b) (simp_all add: word_next_def)
  show ?thesis
    unfolding search_def search_from_iff here stands_alone_def edge edge_next by blast
qed

section \<open>Facts about the verdict\<close>

lemma dedup_onto_props:
  "distinct seen \<Longrightarrow> distinct (dedup_onto seen rs) \<and> set (dedup_onto seen rs) = set seen \<union> set rs
     \<and> (\<exists>more. dedup_onto seen rs = seen @ more)"
  by (induction seen rs rule: dedup_onto.induct) (auto split: if_splits)

lemma default_first_props:
  "distinct (default_first roles d)" "set (default_first roles d) = insert d (set roles)"
  "\<exists>more. default_first roles d = d # more"
  using dedup_onto_props [of "[d]" "filter (\<lambda>r. r \<noteq> d) roles"]
  by (auto simp: default_first_def)

lemma role_in_member: "role_in table t = Some role \<Longrightarrow> role \<in> fst ` set table"
  by (force simp: role_in_def find_Some_iff split: if_splits dest: nth_mem)

lemma table_roles: "fst ` set BINARY_PATTERNS \<subseteq> set BINARY_SENSOR_ROLES" "fst ` set UNIT_PATTERNS \<subseteq> set NUMERIC_SENSOR_ROLES"
  by (simp_all add: BINARY_PATTERNS_def UNIT_PATTERNS_def BINARY_SENSOR_ROLES_def NUMERIC_SENSOR_ROLES_def)

lemma or_else_Some: "or_else a b = Some x \<Longrightarrow> a = Some x \<or> b = Some x"
  by (auto simp: or_else_def split: option.splits)

lemma hint_roles:
  "binary_sensor_role dev = Inr (Some r) \<Longrightarrow> r \<in> set BINARY_SENSOR_ROLES"
  "numeric_sensor_role dev = Inr (Some r) \<Longrightarrow> r \<in> set NUMERIC_SENSOR_ROLES"
  unfolding binary_sensor_role_def numeric_sensor_role_def py_bind_Inr role_for_text_def binary_role_for_text_def
  using table_roles by (auto dest!: or_else_Some role_in_member)

text \<open>What every eligible verdict offers.\<close>

definition offer_ok :: "verdict \<Rightarrow> bool" where
  "offer_ok v = (case v of
       EligibleDevice roles d \<Rightarrow> roles \<noteq> [] \<and> hd roles = d \<and> distinct roles \<and> (\<forall>r \<in> set roles. is_bridgeable r)
     | MappableDevice keys \<Rightarrow> keys \<noteq> []
     | Excluded _ \<Rightarrow> True)"

lemma bridgeable_roles: "list_all is_bridgeable (BINARY_SENSOR_ROLES @ NUMERIC_SENSOR_ROLES @
    [''onOffPlugInUnit'', ''onOffLight'', ''doorLock'', ''dimmableLight'', ''extendedColorLight'',
     ''colorTemperatureLight'', ''windowCovering'', ''thermostat''])"
  by code_simp

lemma default_first_ok:
  assumes "d \<in> set roles \<or> is_bridgeable d" "\<forall>r \<in> set roles. is_bridgeable r"
  shows "offer_ok (EligibleDevice (default_first roles d) d)"
  using default_first_props [of roles d] assms by (auto simp: offer_ok_def)

lemma offer_binary: "d \<in> set BINARY_SENSOR_ROLES \<Longrightarrow> offer_ok (EligibleDevice (default_first BINARY_SENSOR_ROLES d) d)"
  and offer_numeric: "d \<in> set NUMERIC_SENSOR_ROLES \<Longrightarrow> offer_ok (EligibleDevice (default_first NUMERIC_SENSOR_ROLES d) d)"
  using bridgeable_roles by (auto simp: list_all_iff simp del: set_append intro!: default_first_ok) auto

lemma binary_verdict_ok:
  assumes "binary_verdict dev = Inr v"
  shows "\<exists>d \<in> set BINARY_SENSOR_ROLES. v = EligibleDevice (default_first BINARY_SENSOR_ROLES d) d"
proof -
  obtain hint where hint: "binary_sensor_role dev = Inr hint"
    and v: "v = (let d = (case hint of None \<Rightarrow> ''occupancySensor'' | Some r \<Rightarrow> r)
      in EligibleDevice (default_first BINARY_SENSOR_ROLES d) d)"
    using assms by (auto simp: binary_verdict_def py_bind_Inr Let_def)
  have "''occupancySensor'' \<in> set BINARY_SENSOR_ROLES" by (simp add: BINARY_SENSOR_ROLES_def)
  with hint v show ?thesis by (cases hint) (auto simp: Let_def dest: hint_roles(1))
qed

lemma custom_rule_ok:
  assumes "custom_rule dev options = Inr v"
  shows "offer_ok v"
proof (cases "mapped_state_key options")
  case None
  with assms show ?thesis by (auto simp: custom_rule_def Let_def offer_ok_def)
next
  case (Some key)
  with assms have "v = Excluded ReasonMappedStateGone \<or> binary_verdict dev = Inr v"
    by (auto simp: custom_rule_def Let_def split: if_splits)
  with binary_verdict_ok offer_binary show ?thesis by (auto simp: offer_ok_def [of "Excluded r" for r])
qed

lemma rule_ok:
  assumes "rule_for_kind kind dev options = Inr v"
  shows "offer_ok v"
proof -
  have lights: "offer_ok (EligibleDevice (default_first [''dimmableLight'', ''extendedColorLight'', ''colorTemperatureLight'',
        ''windowCovering''] ''extendedColorLight'') ''extendedColorLight'')"
    "offer_ok (EligibleDevice (default_first [''dimmableLight'', ''colorTemperatureLight'', ''windowCovering'']
        ''colorTemperatureLight'') ''colorTemperatureLight'')"
    "offer_ok (EligibleDevice (default_first [''dimmableLight'', ''windowCovering''] ''dimmableLight'') ''dimmableLight'')"
    using bridgeable_roles by (intro default_first_ok; simp add: list_all_iff)+
  have "dimmer_rule dev = Inr v \<Longrightarrow> ?thesis"
  proof -
    assume "dimmer_rule dev = Inr v"
    then obtain rgb white where "v = (let dflt = (if rgb then ''extendedColorLight'' else if white then ''colorTemperatureLight'' else ''dimmableLight'');
           roles = [''dimmableLight''] @ (if rgb then [''extendedColorLight''] else [])
             @ (if white \<or> rgb then [''colorTemperatureLight''] else []) @ [''windowCovering'']
       in EligibleDevice (default_first roles dflt) dflt)"
      unfolding dimmer_rule_def py_bind_Inr by (auto simp: Let_def)
    then show ?thesis using lights by (cases rgb; cases white) (simp_all add: Let_def)
  qed
  moreover have "sensor_rule dev options = Inr v \<Longrightarrow> ?thesis"
  proof -
    assume "sensor_rule dev options = Inr v"
    then consider "binary_verdict dev = Inr v" | "custom_rule dev options = Inr v"
      | hint where "numeric_sensor_role dev = Inr hint"
          "v = (case hint of None \<Rightarrow> Excluded ReasonSensorUnits | Some d \<Rightarrow> EligibleDevice (default_first NUMERIC_SENSOR_ROLES d) d)"
      by (auto simp: sensor_rule_def py_bind_Inr split: if_splits)
    then show ?thesis
    proof cases
      case 1 with binary_verdict_ok offer_binary show ?thesis by blast
    next
      case 2 then show ?thesis by (rule custom_rule_ok)
    next
      case 3 then show ?thesis by (cases hint) (auto simp: offer_ok_def [of "Excluded r" for r] intro: offer_numeric hint_roles(2))
    qed
  qed
  moreover have "offer_ok relay_rule" "offer_ok (EligibleDevice [''thermostat''] ''thermostat'')"
    using bridgeable_roles by (simp_all add: offer_ok_def relay_rule_def list_all_iff)
  moreover have "offer_ok (Excluded r)" for r by (simp add: offer_ok_def)
  ultimately show ?thesis
    using assms custom_rule_ok unfolding rule_for_kind_def by (auto split: if_splits)
qed

lemma classify_cases:
  obtains (guard) "plugin_id_of dev = Inr plugin_id" "classify dev plugin_id options = (Excluded ReasonLoopGuard, [])"
  | (rule) owner kind v where "plugin_id_of dev = Inr owner" "owner \<noteq> plugin_id" "device_kind dev = Inr kind"
      "rule_for_kind kind dev options = Inr v" "classify dev plugin_id options = (v, [])"
  | (error) e where "plugin_id_of dev \<noteq> Inr plugin_id" "classify dev plugin_id options = (Excluded ReasonDeviceError, [LogCouldNotClassify e])"
proof (cases "plugin_id_of dev")
  case (Inl e) then show thesis by (intro error) (simp_all add: classify_def)
next
  case (Inr owner)
  show thesis
  proof (cases "owner = plugin_id")
    case True with Inr show thesis by (intro guard) (simp_all add: classify_def)
  next
    case False
    show thesis
    proof (cases "py_bind (device_kind dev) (\<lambda>kind. rule_for_kind kind dev options)")
      case (Inl e) with Inr False show thesis by (intro error) (simp_all add: classify_def)
    next
      case (Inr v)
      then obtain kind where "device_kind dev = Inr kind" "rule_for_kind kind dev options = Inr v"
        unfolding py_bind_Inr by blast
      with \<open>plugin_id_of dev = Inr owner\<close> False show thesis by (intro rule) (simp_all add: classify_def)
    qed
  qed
qed

text \<open>C28: a device is offered for export only when its owner could be read and is not the running plugin;
  every role offered is one the bridge has a handler for, none is offered twice, and the first is
  the default.\<close>

theorem classify_sound:
  assumes "fst (classify dev plugin_id options) = EligibleDevice roles d"
  shows "(\<exists>owner. plugin_id_of dev = Inr owner \<and> owner \<noteq> plugin_id) \<and> roles \<noteq> [] \<and> hd roles = d
    \<and> distinct roles \<and> (\<forall>r \<in> set roles. is_bridgeable r)"
proof (cases rule: classify_cases [of dev plugin_id options])
  case (rule owner kind v)
  with assms rule_ok [of kind dev options v] show ?thesis by (auto simp: offer_ok_def)
qed (use assms in auto)

lemma is_bool_iff: "is_bool v \<longleftrightarrow> (\<exists>b. v = PBool b)"
  by (cases v) simp_all

lemma rule_not_guard: "rule_for_kind kind dev options = Inr v \<Longrightarrow> v \<noteq> Excluded ReasonLoopGuard"
  unfolding rule_for_kind_def dimmer_rule_def sensor_rule_def custom_rule_def py_bind_Inr Let_def relay_rule_def
  by (auto simp: binary_verdict_def py_bind_Inr Let_def split: if_splits option.splits)

text \<open>The row of a picker is missing for the devices of the running plugin and for no other.\<close>

theorem loop_guard_exact:
  "fst (classify dev plugin_id options) = Excluded ReasonLoopGuard \<longleftrightarrow> plugin_id_of dev = Inr plugin_id"
proof (cases rule: classify_cases [of dev plugin_id options])
  case (rule owner kind v)
  then show ?thesis using rule_not_guard [of kind dev options v] by auto
qed auto

text \<open>The states offered for a mapping: the booleans that are no expansion of an enumeration, each
  once, those with a rank first.\<close>

theorem binary_state_keys_spec:
  assumes "cd_states dev = Inr states" "distinct (map fst states)"
  shows "set (binary_state_keys dev) = {k. (\<exists>b. map_of states k = Some (PBool b)) \<and> \<not> is_enum_expansion k (map fst states)}
    \<and> distinct (binary_state_keys dev)
    \<and> sorted_wrt (\<lambda>k l. state_rank k < state_rank l \<or> (state_rank k = state_rank l \<and> k < l)) (binary_state_keys dev)"
proof -
  let ?f = "\<lambda>name. (state_rank name, name)"
  let ?keys = "map fst (filter (\<lambda>(name, v). is_bool v \<and> \<not> is_enum_expansion name (map fst states)) states)"
  have keys: "binary_state_keys dev = sort_key ?f ?keys" using assms(1) by (simp add: binary_state_keys_def)
  have dist: "distinct ?keys" using assms(2) by (rule distinct_map_filter)
  have "sorted (map ?f (sort_key ?f ?keys))" by simp
  moreover have "distinct (map ?f (sort_key ?f ?keys))"
    unfolding distinct_map using dist by (auto simp: inj_on_def)
  ultimately have "sorted_wrt (<) (map ?f (sort_key ?f ?keys))"
    by (simp only: strict_sorted_iff)
  then have "sorted_wrt (\<lambda>k l. ?f k < ?f l) (binary_state_keys dev)" by (simp only: keys sorted_wrt_map)
  moreover have "(\<lambda>k l. ?f k < ?f l) = (\<lambda>k l. state_rank k < state_rank l \<or> (state_rank k = state_rank l \<and> k < l))"
    by (intro ext) auto
  moreover have "set ?keys = {k. (\<exists>b. map_of states k = Some (PBool b)) \<and> \<not> is_enum_expansion k (map fst states)}"
  proof (rule set_eqI)
    fix k
    have "k \<in> set ?keys \<longleftrightarrow> (\<exists>v. (k, v) \<in> set states \<and> is_bool v) \<and> \<not> is_enum_expansion k (map fst states)"
      by (auto simp: image_iff)
    then show "k \<in> set ?keys \<longleftrightarrow> k \<in> {k. (\<exists>b. map_of states k = Some (PBool b)) \<and> \<not> is_enum_expansion k (map fst states)}"
      using map_of_eq_Some_iff [OF assms(2)] by (auto simp: is_bool_iff)
  qed
  ultimately show ?thesis using dist by (simp only: keys set_sort distinct_sort simp_thms)
qed

text \<open>A device without a class of its own is eligible only through a mapped state, and each role
  it is then offered publishes the reading of that state.\<close>

theorem mapped_export_reads:
  assumes "device_kind dev = Inr []" "fst (classify dev plugin_id (PDict options)) = EligibleDevice roles d"
    and "role \<in> set roles" "xd_states xd = cd_states dev" "cd_states dev = Inr states" "distinct (map fst states)"
  shows "\<exists>key name b. handler_for role = Some (BinaryExport key) \<and> mapped_state_key (PDict options) = Some name
    \<and> map_of states name = Some (PBool b)
    \<and> binary_states key xd options = [(key, PBool (apply_invert b options))]"
proof (cases rule: classify_cases [of dev plugin_id "PDict options"])
  case (rule owner kind v)
  with assms(1,2) have custom: "custom_rule dev (PDict options) = Inr (EligibleDevice roles d)"
    by (simp add: rule_for_kind_def)
  obtain name where name: "mapped_state_key (PDict options) = Some name" "name \<in> set (binary_state_keys dev)"
    "binary_verdict dev = Inr (EligibleDevice roles d)"
    using custom by (auto simp: custom_rule_def Let_def split: option.splits if_splits)
  have "role \<in> set BINARY_SENSOR_ROLES"
    using binary_verdict_ok [OF name(3)] assms(3) default_first_props(2) by auto
  then have handler: "\<exists>key. handler_for role = Some (BinaryExport key)"
    unfolding BINARY_SENSOR_ROLES_def list.set
    by (elim insertE emptyE) (simp_all add: handler_for_def HANDLERS_def)
  have "\<exists>b. map_of states name = Some (PBool b)"
    using name(2) binary_state_keys_spec [OF assms(5,6)] by blast
  moreover have "mapped_reading xd options = Some (Some (apply_invert b options))" if "map_of states name = Some (PBool b)" for b
    using that name(1) assms(4,5)
    by (cases "dget options OPTION_STATE_KEY") (simp_all add: mapped_reading_def mapped_state_key_def dget_def [of states] split: if_splits)
  ultimately show ?thesis using name(1) handler unfolding binary_states_def
    by (elim exE) (intro exI conjI; assumption?; simp)
qed (use assms(2) in auto)

section \<open>Witnesses\<close>

definition zone :: catalog_device where
  "zone = \<lparr>cd_mro = Inr [''Device'', ''object''],
     cd_attrs = [(''pluginId'', Inr (PStr ''alarm'')), (''name'', Inr (PStr ''Back Door Motion''))],
     cd_states = Inr [(''status'', PBool True), (''statusText'', PStr ''ok''), (''statusText.ok'', PBool True)]\<rparr>"

definition zone_options :: pydict where
  "zone_options = [(''stateKey'', PStr ''status'')]"

definition zone_reader :: device where
  "zone_reader = \<lparr>xd_id = 7, xd_attrs = [], xd_hvac = None, xd_states = cd_states zone, xd_plugin_id = None,
     xd_owner_props = [], xd_global_props = []\<rparr>"

lemma zone_keys: "binary_state_keys zone = [''status'']"
  by (simp add: binary_state_keys_def zone_def is_enum_expansion_def)

lemma zone_text: "unit_texts zone = Inr ([], ''back door motion'')"
  by code_simp

lemma zone_hint: "binary_role_for_text ''back door motion'' = Some ''occupancySensor''"
  by code_simp

lemma zone_verdict: "fst (classify zone ''matter'' (PDict zone_options)) = EligibleDevice BINARY_SENSOR_ROLES ''occupancySensor''"
proof -
  have "default_first BINARY_SENSOR_ROLES ''occupancySensor'' = BINARY_SENSOR_ROLES" by code_simp
  moreover have "binary_role_for_text [] = None" by (simp add: binary_role_for_text_def role_in_def)
  moreover have "device_kind zone = Inr []" "plugin_id_of zone = Inr ''alarm''" by code_simp+
  moreover have "mapped_state_key (PDict zone_options) = Some ''status''" by code_simp
  ultimately show ?thesis
    by (simp add: classify_def rule_for_kind_def custom_rule_def zone_keys binary_verdict_def binary_sensor_role_def
        zone_text zone_hint or_else_def)
qed

lemma classify_sound_witness:
  "(\<exists>owner. plugin_id_of zone = Inr owner \<and> owner \<noteq> ''matter'') \<and> BINARY_SENSOR_ROLES \<noteq> []
   \<and> hd BINARY_SENSOR_ROLES = ''occupancySensor'' \<and> distinct BINARY_SENSOR_ROLES
   \<and> set BINARY_SENSOR_ROLES \<subseteq> Collect is_bridgeable"
  using classify_sound [OF zone_verdict] by (simp add: subset_eq)

lemma binary_state_keys_spec_witness:
  "set (binary_state_keys zone) = {k. (\<exists>b. map_of [(''status'', PBool True), (''statusText'', PStr ''ok''), (''statusText.ok'', PBool True)] k
       = Some (PBool b)) \<and> \<not> is_enum_expansion k [''status'', ''statusText'', ''statusText.ok'']}
   \<and> distinct (binary_state_keys zone)
   \<and> sorted_wrt (\<lambda>k l. state_rank k < state_rank l \<or> (state_rank k = state_rank l \<and> k < l)) (binary_state_keys zone)"
  using binary_state_keys_spec [of zone "[(''status'', PBool True), (''statusText'', PStr ''ok''), (''statusText.ok'', PBool True)]"]
  by (simp add: zone_def)

lemma mapped_export_reads_witness:
  "\<exists>key name b. handler_for ''contactSensor'' = Some (BinaryExport key) \<and> mapped_state_key (PDict zone_options) = Some name
    \<and> map_of [(''status'', PBool True), (''statusText'', PStr ''ok''), (''statusText.ok'', PBool True)] name = Some (PBool b)
    \<and> binary_states key zone_reader zone_options = [(key, PBool (apply_invert b zone_options))]"
proof (rule mapped_export_reads [OF _ zone_verdict])
  show "device_kind zone = Inr []" by code_simp
qed (simp_all add: BINARY_SENSOR_ROLES_def zone_reader_def zone_def)

text \<open>Words that only contain a hint do not count.\<close>

lemma hints_are_words:
  "binary_role_for_text ''drainage'' = None" "binary_role_for_text ''patio doors'' = Some ''contactSensor''"
  "role_for_text ''21 % rh'' = Some ''humiditySensor''"
  subgoal by code_simp
  subgoal by code_simp
  subgoal by code_simp
  done

end
