(* ===== verification/BridgeHealth.thy ===== *)
theory BridgeHealth
  imports BridgeProtocol
begin

text \<open>
  The health band of the bridge (\<open>bridge_health.py\<close>): the standing health device with its fabric
  slots, the session-hygiene lines and the watchdog pass. The reporter's attributes are a record,
  the latches it shares with the bridge another; what Indigo answers (a device by its id, a scan,
  the creation of a device, a write) is an environment. The code point 151 stands for the dash
  U+2014 of the texts.
\<close>

section \<open>Texts\<close>

definition DISCONNECT_WARN_TICKS :: int where "DISCONNECT_WARN_TICKS = 4"
definition HEALTH_DEVICE_NAME :: string where "HEALTH_DEVICE_NAME = ''Matter Bridge Health''"
definition HEALTH_UNKNOWN :: string where "HEALTH_UNKNOWN = ''unknown''"
definition HEALTH_HEALTHY :: string where "HEALTH_HEALTHY = ''healthy''"
definition HEALTH_CHURNING :: string where "HEALTH_CHURNING = ''churning''"
definition FABRIC_SLOT_COUNT :: nat where "FABRIC_SLOT_COUNT = 5"

lemmas health_consts = HEALTH_UNKNOWN_def HEALTH_HEALTHY_def HEALTH_CHURNING_def

definition VENDOR_NAMES :: "(int \<times> string) list" where
  "VENDOR_NAMES = [(0x1349, ''Apple Home''), (0x1384, ''Apple Keychain''), (0x1217, ''Amazon Alexa''),
     (0x6006, ''Google''), (0x110A, ''Samsung SmartThings''), (0x134B, ''Home Assistant''),
     (0x100B, ''Signify (Philips Hue)''), (0xFFF1, ''test vendor'')]"

definition dash :: string where
  "dash = '' '' @ [CHR 0x97] @ '' ''"

text \<open>The format \<open>:04X\<close>: the sign counts for the width.\<close>

definition hex04 :: "int \<Rightarrow> string" where
  "hex04 n = (let d = digits_of 16 (nat \<bar>n\<bar>) in
     if n < 0 then CHR ''-'' # replicate (3 - length d) (CHR ''0'') @ d
     else replicate (4 - length d) (CHR ''0'') @ d)"

definition vendor_text :: "int \<Rightarrow> string" where
  "vendor_text v = (case map_of VENDOR_NAMES v of Some n \<Rightarrow> n | None \<Rightarrow> ''vendor 0x'' @ hex04 v)"

definition describe_fabric :: "fabric_info \<Rightarrow> string" where
  "describe_fabric f =
     (let name = vendor_text (fi_vendor_id f); label = str_strip (fi_label f);
          index = '' (index '' @ str_of_int (fi_index f) @ '')''
      in if label = [] then name @ index else name @ dash @ label @ index)"

text \<open>\<open>sep.join(texts)\<close>.\<close>

fun join_with :: "string \<Rightarrow> string list \<Rightarrow> string" where
  "join_with sep [] = []"
| "join_with sep [t] = t"
| "join_with sep (t # ts) = t @ sep @ join_with sep ts"

definition describe_churn :: "subscription_churn \<Rightarrow> string" where
  "describe_churn churn = join_with ''; '' (map (\<lambda>p. cp_peer_node_id p @ '' (fabric '' @ str_of_int (cp_fabric_index p)
     @ ''): '' @ str_of_int (cp_invalid_deletions p) @ '' deletion(s)/'' @ str_of_int (cp_window_minutes p) @ ''min, ''
     @ str_of_int (cp_live_sessions p) @ '' live session(s)'') (sc_peers churn))"

definition fabric_slot_key :: "nat \<Rightarrow> string \<Rightarrow> string" where
  "fabric_slot_key slot field = ''fabric'' @ str_of_int (int slot) @ field"

definition describe_fabric_slot :: "fabric_info \<Rightarrow> string" where
  "describe_fabric_slot f =
     (let label = str_strip (fi_label f)
      in if fi_vendor_id f \<noteq> 0 then (let name = vendor_text (fi_vendor_id f) in if label \<noteq> [] then name @ dash @ label else name)
         else if label \<noteq> [] then label
         else ''fabric '' @ str_of_int (fi_index f))"

definition slot_health :: "int set \<Rightarrow> bool \<Rightarrow> fabric_info \<Rightarrow> string" where
  "slot_health churning unattributable f =
     (if fi_index f \<in> churning then HEALTH_CHURNING else if unattributable then HEALTH_UNKNOWN else HEALTH_HEALTHY)"

definition pad_slots :: "string list \<Rightarrow> string list" where
  "pad_slots xs = xs @ replicate (FABRIC_SLOT_COUNT - length xs) []"

definition fabric_slot_plan ::
  "fabric_info list \<Rightarrow> subscription_churn \<Rightarrow> string list \<times> string list \<times> fabric_info list" where
  "fabric_slot_plan fabrics churn =
     (let ordered = sort_key fi_index fabrics;
          fitted = take FABRIC_SLOT_COUNT ordered; dropped = drop FABRIC_SLOT_COUNT ordered;
          churning = set (map cp_fabric_index (sc_peers churn));
          unattributable = (sc_active churn \<and> churning \<inter> set (map fi_index fitted) = {})
      in (pad_slots (map describe_fabric_slot fitted), pad_slots (map (slot_health churning unattributable) fitted), dropped))"

section \<open>Finding and creating the device\<close>

record health_device =
  hd_id :: int
  hd_states :: "pydict py_result"
  hd_write :: "py_exc option"

text \<open>What the host answers: a device by id, a scan of the plugin's devices, a creation.\<close>

record health_env =
  hv_getter :: "int \<Rightarrow> health_device option py_result"
  hv_finder :: "health_device option py_result"
  hv_factory :: "health_device option py_result"
  hv_repr :: "pyval \<Rightarrow> string"

type_synonym slots = "(string list \<times> string list) option"

type_synonym health_state = "string \<times> string \<times> slots"

record reporter =
  hr_device_id :: "int option"
  hr_device_warned :: bool
  hr_write_warned :: bool
  hr_state :: "health_state option"
  hr_dropped :: "int set"
  hr_scanned :: bool
  hr_read_warned :: bool
  hr_hygiene_warned :: bool
  hr_closed_totals :: "hygiene_closed option"

definition reporter_init :: reporter where
  "reporter_init = \<lparr>hr_device_id = None, hr_device_warned = False, hr_write_warned = False, hr_state = None,
     hr_dropped = {}, hr_scanned = False, hr_read_warned = False, hr_hygiene_warned = False, hr_closed_totals = None\<rparr>"

datatype health_eff =
    Scan
  | CreateDevice
  | WriteStates int "(string \<times> string) list"
  | WarnNoDevice py_exc
  | WarnNotCreated
  | WarnRead py_exc
  | WarnWrite py_exc
  | InfoChurnRecovered
  | WarnSlots nat string
  | WarnHygiene
  | InfoHygieneRecovered
  | DebugClosed "(string \<times> int) list" "hygiene_peer list"
  | InfoFabrics string string
  | CheckQueue
  | PollStatus
  | WarnHalted string
  | WarnAwaitingRebuild
  | WarnDetached
  | DebugDetached

definition find_health_device :: "health_env \<Rightarrow> reporter \<Rightarrow> health_device option py_result \<times> reporter \<times> health_eff list" where
  "find_health_device env hr =
     (let scan = (\<lambda>hr1. (hv_finder env, case hv_finder env of Inr (Some d) \<Rightarrow> hr1\<lparr>hr_device_id := Some (hd_id d)\<rparr> | _ \<Rightarrow> hr1, [Scan]))
      in case hr_device_id hr of
           None \<Rightarrow> scan hr
         | Some i \<Rightarrow> (case hv_getter env i of
               Inl e \<Rightarrow> (Inl e, hr, [])
             | Inr (Some d) \<Rightarrow> (Inr (Some d), hr, [])
             | Inr None \<Rightarrow> scan (hr\<lparr>hr_device_id := None\<rparr>)))"

definition find_for_unknown :: "health_env \<Rightarrow> reporter \<Rightarrow> health_device option py_result \<times> reporter \<times> health_eff list" where
  "find_for_unknown env hr =
     (let once = (\<lambda>hr1. if hr_scanned hr1 then (Inr None, hr1, [])
            else (hv_finder env,
                  case hv_finder env of
                    Inr (Some d) \<Rightarrow> hr1\<lparr>hr_scanned := True, hr_device_id := Some (hd_id d)\<rparr>
                  | _ \<Rightarrow> hr1\<lparr>hr_scanned := True\<rparr>, [Scan]))
      in case hr_device_id hr of
           None \<Rightarrow> once hr
         | Some i \<Rightarrow> (case hv_getter env i of
               Inl e \<Rightarrow> (Inl e, hr, [])
             | Inr (Some d) \<Rightarrow> (Inr (Some d), hr, [])
             | Inr None \<Rightarrow> once (hr\<lparr>hr_device_id := None\<rparr>)))"

definition warn_device_once :: "health_eff \<Rightarrow> reporter \<Rightarrow> reporter \<times> health_eff list" where
  "warn_device_once w hr = (if hr_device_warned hr then (hr, []) else (hr\<lparr>hr_device_warned := True\<rparr>, [w]))"

definition ensure_health_device :: "health_env \<Rightarrow> reporter \<Rightarrow> health_device option py_result \<times> reporter \<times> health_eff list" where
  "ensure_health_device env hr = (case find_health_device env hr of
       (Inl e, hr1, effs) \<Rightarrow> (Inl e, hr1, effs)
     | (Inr (Some d), hr1, effs) \<Rightarrow> (Inr (Some d), hr1, effs)
     | (Inr None, hr1, effs) \<Rightarrow> (case hv_factory env of
           Inl e \<Rightarrow> (case warn_device_once (WarnNoDevice e) hr1 of (hr2, l) \<Rightarrow> (Inr None, hr2, effs @ CreateDevice # l))
         | Inr None \<Rightarrow> (case warn_device_once WarnNotCreated hr1 of (hr2, l) \<Rightarrow> (Inr None, hr2, effs @ CreateDevice # l))
         | Inr (Some d) \<Rightarrow>
             (Inr (Some d), hr1\<lparr>hr_device_id := Some (hd_id d), hr_device_warned := False\<rparr>, effs @ [CreateDevice])))"

section \<open>The health device\<close>

definition health_kv :: "string \<Rightarrow> string \<Rightarrow> string list \<Rightarrow> string list \<Rightarrow> (string \<times> string) list" where
  "health_kv health detail names healths =
     (''subscriptionHealth'', health) # (''churnDetail'', detail)
     # concat (map (\<lambda>i. [(fabric_slot_key (Suc i) ''Name'', names ! i), (fabric_slot_key (Suc i) ''Health'', healths ! i)])
         [0..<FABRIC_SLOT_COUNT])"

definition write_health_state ::
  "health_device \<Rightarrow> string \<Rightarrow> string \<Rightarrow> string list \<Rightarrow> string list \<Rightarrow> reporter \<Rightarrow> reporter \<times> health_eff list" where
  "write_health_state dev health detail names healths hr =
     (let w = WriteStates (hd_id dev) (health_kv health detail names healths)
      in case hd_write dev of
           Some e \<Rightarrow> if hr_write_warned hr then (hr, [w]) else (hr\<lparr>hr_write_warned := True\<rparr>, [w, WarnWrite e])
         | None \<Rightarrow> (hr\<lparr>hr_write_warned := False, hr_state := Some (health, detail, Some (names, healths))\<rparr>,
             w # (case hr_state hr of
                    Some (before, _) \<Rightarrow> if before = HEALTH_CHURNING \<and> health = HEALTH_HEALTHY then [InfoChurnRecovered] else []
                  | None \<Rightarrow> [])))"

definition warn_if_fabrics_dropped :: "fabric_info list \<Rightarrow> reporter \<Rightarrow> reporter \<times> health_eff list" where
  "warn_if_fabrics_dropped dropped hr =
     (let indices = set (map fi_index dropped)
      in if indices = {} then (hr\<lparr>hr_dropped := {}\<rparr>, [])
         else if indices = hr_dropped hr then (hr, [])
         else (hr\<lparr>hr_dropped := indices\<rparr>,
               [WarnSlots (length dropped) (join_with '', '' (map describe_fabric_slot dropped))]))"

definition apply_checked ::
  "health_env \<Rightarrow> subscription_churn \<Rightarrow> fabric_info list \<Rightarrow> reporter \<Rightarrow> unit py_result \<times> reporter \<times> health_eff list" where
  "apply_checked env churn fabrics hr =
     (let health = (if sc_active churn then HEALTH_CHURNING else HEALTH_HEALTHY);
          detail = (if sc_active churn then describe_churn churn else []);
          (names, healths, dropped) = fabric_slot_plan fabrics churn;
          (hr1, warned) = warn_if_fabrics_dropped dropped hr
      in if hr_state hr1 = Some (health, detail, Some (names, healths)) then (Inr (), hr1, warned)
         else (case ensure_health_device env hr1 of
                 (Inl e, hr2, effs) \<Rightarrow> (Inl e, hr2, warned @ effs)
               | (Inr None, hr2, effs) \<Rightarrow> (Inr (), hr2, warned @ effs)
               | (Inr (Some d), hr2, effs) \<Rightarrow>
                   (case write_health_state d health detail names healths hr2 of
                      (hr3, w) \<Rightarrow> (Inr (), hr3, warned @ effs @ w))))"

text \<open>The name a slot of the device shows now: \<open>str(device.states.get(key, "") or "")\<close>.\<close>

definition shown_name :: "(pyval \<Rightarrow> string) \<Rightarrow> pydict \<Rightarrow> nat \<Rightarrow> string" where
  "shown_name repr states i = (let v = dget_or states (fabric_slot_key (Suc i) ''Name'') (PStr [])
     in if truthy v then py_str repr v else [])"

definition read_failed :: "py_exc \<Rightarrow> reporter \<Rightarrow> reporter \<times> health_eff list" where
  "read_failed e hr = (if hr_read_warned hr then (hr, []) else (hr\<lparr>hr_read_warned := True\<rparr>, [WarnRead e]))"

definition apply_unchecked :: "health_env \<Rightarrow> reporter \<Rightarrow> reporter \<times> health_eff list" where
  "apply_unchecked env hr = (case find_for_unknown env hr of
       (Inl e, hr1, effs) \<Rightarrow> (case read_failed e hr1 of (hr2, l) \<Rightarrow> (hr2, effs @ l))
     | (Inr None, hr1, effs) \<Rightarrow> (hr1\<lparr>hr_read_warned := False, hr_state := Some (HEALTH_UNKNOWN, [], None)\<rparr>, effs)
     | (Inr (Some d), hr1, effs) \<Rightarrow> (case hd_states d of
           Inl e \<Rightarrow> (case read_failed e hr1 of (hr2, l) \<Rightarrow> (hr2, effs @ l))
         | Inr states \<Rightarrow>
             (let names = map (shown_name (hv_repr env) states) [0..<FABRIC_SLOT_COUNT];
                  healths = map (\<lambda>name. if name \<noteq> [] then HEALTH_UNKNOWN else []) names;
                  hr2 = hr1\<lparr>hr_read_warned := False\<rparr>
              in if hr_state hr2 = Some (HEALTH_UNKNOWN, [], Some (names, healths)) then (hr2, effs)
                 else (case write_health_state d HEALTH_UNKNOWN [] names healths hr2 of (hr3, w) \<Rightarrow> (hr3, effs @ w)))))"

definition apply_subscription_churn ::
  "health_env \<Rightarrow> subscription_churn option \<Rightarrow> fabric_info list \<Rightarrow> reporter \<Rightarrow> unit py_result \<times> reporter \<times> health_eff list" where
  "apply_subscription_churn env churn fabrics hr =
     (case churn of
        Some c \<Rightarrow> if sc_checked c then apply_checked env c fabrics hr
                  else (case apply_unchecked env hr of (hr1, effs) \<Rightarrow> (Inr (), hr1, effs))
      | None \<Rightarrow> (case apply_unchecked env hr of (hr1, effs) \<Rightarrow> (Inr (), hr1, effs)))"

definition mark_health_unknown :: "health_env \<Rightarrow> reporter \<Rightarrow> reporter \<times> health_eff list" where
  "mark_health_unknown env hr = (case apply_subscription_churn env None [] hr of (_, hr1, effs) \<Rightarrow> (hr1, effs))"

section \<open>Session hygiene\<close>

definition closed_deltas :: "hygiene_closed \<Rightarrow> hygiene_closed \<Rightarrow> (string \<times> int) list" where
  "closed_deltas before after = filter (\<lambda>(_, d). d \<noteq> 0)
     [(''superseded'', hc_superseded after - hc_superseded before), (''dead'', hc_dead after - hc_dead before),
      (''rotated'', hc_rotated after - hc_rotated before)]"

definition apply_session_hygiene :: "session_hygiene option \<Rightarrow> reporter \<Rightarrow> reporter \<times> health_eff list" where
  "apply_session_hygiene hygiene hr = (case hygiene of
       None \<Rightarrow> (hr, [])
     | Some h \<Rightarrow>
         if \<not> sh_sent h then (hr, [])
         else if \<not> sh_checked h then
           (if hr_hygiene_warned hr then (hr, []) else (hr\<lparr>hr_hygiene_warned := True\<rparr>, [WarnHygiene]))
         else (let recovered = (if hr_hygiene_warned hr then [InfoHygieneRecovered] else []);
                   hr1 = hr\<lparr>hr_hygiene_warned := False, hr_closed_totals := Some (sh_closed h)\<rparr>
               in case hr_closed_totals hr of
                    None \<Rightarrow> (hr1, recovered)
                  | Some before \<Rightarrow> (let deltas = closed_deltas before (sh_closed h)
                      in (hr1, recovered @ (if deltas = [] then [] else [DebugClosed deltas (sh_peers h)])))))"

section \<open>Fabrics and the watchdog\<close>

text \<open>What the reporter shares with the bridge, and the flags of a client it reads.\<close>

record bridge_latches =
  bl_disconnect_ticks :: int
  bl_halted_reported :: bool
  bl_recovery_reported :: bool
  bl_fabrics :: "fabric_info list option"

record client_flags =
  cf_halted :: bool
  cf_halted_reason :: "string option"
  cf_recovery :: bool
  cf_attached :: bool

definition on_fabrics_changed :: "fabric_info list \<Rightarrow> string \<Rightarrow> bridge_latches \<Rightarrow> bridge_latches \<times> health_eff list" where
  "on_fabrics_changed fabrics change bl =
     (bl\<lparr>bl_fabrics := Some fabrics\<rparr>,
      [InfoFabrics (if change = [] then ''changed'' else change)
         (let t = join_with '', '' (map describe_fabric fabrics) in if t = [] then ''none'' else t)])"

definition note_fabrics :: "fabric_info list \<Rightarrow> bridge_latches \<Rightarrow> bridge_latches" where
  "note_fabrics fabrics bl = bl\<lparr>bl_fabrics := Some fabrics\<rparr>"

definition halted_text :: "client_flags \<Rightarrow> string" where
  "halted_text c = (case cf_halted_reason c of Some r \<Rightarrow> if r = [] then ''no reason recorded'' else r
     | None \<Rightarrow> ''no reason recorded'')"

definition health_tick ::
  "health_env \<Rightarrow> client_flags option \<Rightarrow> bridge_latches \<Rightarrow> reporter \<Rightarrow> bridge_latches \<times> reporter \<times> health_eff list" where
  "health_tick env client bl hr =
     (let (hr1, unknown) = mark_health_unknown env hr
      in case client of
           None \<Rightarrow> (bl, hr1, CheckQueue # unknown)
         | Some c \<Rightarrow>
             if cf_halted c then
               (bl\<lparr>bl_halted_reported := True\<rparr>, hr1,
                CheckQueue # unknown @ (if bl_halted_reported bl then [] else [WarnHalted (halted_text c)]))
             else if cf_recovery c then
               (bl\<lparr>bl_recovery_reported := True\<rparr>, hr1,
                CheckQueue # unknown @ (if bl_recovery_reported bl then [] else [WarnAwaitingRebuild]))
             else if cf_attached c then (bl\<lparr>bl_disconnect_ticks := 0\<rparr>, hr, [CheckQueue, PollStatus])
             else (let n = bl_disconnect_ticks bl + 1
                   in (bl\<lparr>bl_disconnect_ticks := n\<rparr>, hr1,
                       CheckQueue # unknown @ [if n = DISCONNECT_WARN_TICKS then WarnDetached else DebugDetached])))"

section \<open>Names\<close>

lemma free_suffix_props: "suffixed name (free_suffix existing name k) \<notin> set existing \<and> k \<le> free_suffix existing name k
    \<and> (\<forall>j. k \<le> j \<and> j < free_suffix existing name k \<longrightarrow> suffixed name j \<in> set existing)"
proof (induction existing name k rule: free_suffix.induct)
  case (1 existing name k)
  show ?case
  proof (cases "suffixed name k \<in> set existing")
    case True
    then have "free_suffix existing name k = free_suffix existing name (Suc k)" by (subst free_suffix.simps) simp
    with 1 [OF True] True show ?thesis by (metis Suc_leD Suc_leI le_neq_implies_less)
  next
    case False
    then have "free_suffix existing name k = k" by (subst free_suffix.simps) simp
    with False show ?thesis by auto
  qed
qed

text \<open>C32: the search for a name ends, with one no device has: the wanted name, or the least suffix from 2.\<close>

theorem unique_name_free:
  "unique_name existing name \<notin> set existing
   \<and> (unique_name existing name = name
      \<or> (\<exists>k \<ge> 2. unique_name existing name = suffixed name k
           \<and> name \<in> set existing \<and> suffixed name ` {2..<k} \<subseteq> set existing))"
  using free_suffix_props [of name existing 2] by (auto simp: unique_name_def)

section \<open>What is written\<close>

definition unknown_health :: "string \<Rightarrow> string" where
  "unknown_health name = (if name \<noteq> [] then HEALTH_UNKNOWN else [])"

definition claims_nothing :: "health_eff list \<Rightarrow> bool" where
  "claims_nothing effs = (CreateDevice \<notin> set effs
     \<and> (\<forall>i kv. WriteStates i kv \<in> set effs \<longrightarrow> (\<exists>names. kv = health_kv HEALTH_UNKNOWN [] names (map unknown_health names))))"

lemma claims_nothing_simps [simp]:
  "claims_nothing []" "claims_nothing (xs @ ys) \<longleftrightarrow> claims_nothing xs \<and> claims_nothing ys"
  by (auto simp: claims_nothing_def)

lemma claims_nothing_Cons: "claims_nothing (x # xs) \<longleftrightarrow> claims_nothing [x] \<and> claims_nothing xs"
  by (auto simp: claims_nothing_def)

lemma claims_nothing_log:
  "claims_nothing [Scan]" "claims_nothing [WarnRead e]" "claims_nothing [WarnWrite e]" "claims_nothing [InfoChurnRecovered]"
  "claims_nothing [CheckQueue]" "claims_nothing [PollStatus]" "claims_nothing [WarnHalted r]"
  "claims_nothing [WarnAwaitingRebuild]" "claims_nothing [WarnDetached]" "claims_nothing [DebugDetached]"
  by (simp_all add: claims_nothing_def)

lemma write_unknown_claims_nothing:
  "claims_nothing (snd (write_health_state d HEALTH_UNKNOWN [] names (map unknown_health names) hr))"
  by (auto simp: write_health_state_def Let_def claims_nothing_def split: option.splits)

lemma find_for_unknown_effs: "snd (snd (find_for_unknown env hr)) \<in> {[], [Scan]}"
  by (auto simp: find_for_unknown_def Let_def split: option.splits sum.splits)

lemma unchecked_claims_nothing: "claims_nothing (snd (apply_unchecked env hr))"
proof -
  obtain r hr1 effs where find: "find_for_unknown env hr = (r, hr1, effs)" by (cases "find_for_unknown env hr")
  then have effs: "claims_nothing effs" using find_for_unknown_effs [of env hr] by (auto simp: claims_nothing_log)
  have healths: "map (\<lambda>name. if name \<noteq> [] then HEALTH_UNKNOWN else []) names = map unknown_health names" for names
    by (simp add: unknown_health_def)
  have failed: "claims_nothing (snd (read_failed e h))" for e h
    by (simp add: read_failed_def claims_nothing_log)
  show ?thesis
  proof (cases r)
    case (Inl e)
    then show ?thesis using effs failed by (simp add: apply_unchecked_def find split_beta)
  next
    case (Inr dev)
    show ?thesis
    proof (cases dev)
      case None
      then show ?thesis using effs Inr by (simp add: apply_unchecked_def find)
    next
      case (Some d)
      show ?thesis
      proof (cases "hd_states d")
        case (Inl e)
        then show ?thesis using effs failed Some Inr by (simp add: apply_unchecked_def find split_beta)
      next
        case (Inr states)
        then show ?thesis using effs \<open>r = Inr dev\<close> Some write_unknown_claims_nothing
          by (simp add: apply_unchecked_def find Let_def healths split_beta del: map_map)
      qed
    qed
  qed
qed

text \<open>A watchdog pass by itself never creates the device and never shows a reading it did not make:
  whatever it writes is ``unknown'' throughout, and only on slots that show a fabric.\<close>

theorem tick_claims_nothing:
  assumes "health_tick env client bl hr = (bl', hr', effs)"
  shows "CreateDevice \<notin> set effs
    \<and> (\<forall>i kv. WriteStates i kv \<in> set effs \<longrightarrow> (\<exists>names. kv = health_kv HEALTH_UNKNOWN [] names (map unknown_health names)))"
proof -
  obtain hr1 unknown where u: "apply_unchecked env hr = (hr1, unknown)" by (cases "apply_unchecked env hr")
  then have "claims_nothing unknown" using unchecked_claims_nothing [of env hr] by simp
  moreover have "effs \<in> {[CheckQueue, PollStatus]} \<union> (\<lambda>w. CheckQueue # unknown @ w) `
      {[], [WarnHalted (halted_text (the client))], [WarnAwaitingRebuild], [WarnDetached], [DebugDetached]}"
    using assms u
    by (auto simp: health_tick_def mark_health_unknown_def apply_subscription_churn_def Let_def split: option.splits if_splits)
  ultimately have "claims_nothing effs"
    by (auto simp: claims_nothing_Cons [of CheckQueue "xs @ ys" for xs ys] claims_nothing_Cons [of CheckQueue "[PollStatus]"]
        claims_nothing_Cons [of CheckQueue "unknown"] claims_nothing_log)
  then show ?thesis by (simp add: claims_nothing_def)
qed

section \<open>The slot plan\<close>

lemma vendor_names_nonempty: "map_of VENDOR_NAMES v = Some n \<Longrightarrow> n \<noteq> []"
  by (auto simp: VENDOR_NAMES_def split: if_splits)

lemma slot_name_nonempty: "describe_fabric_slot f \<noteq> []"
  by (auto simp: describe_fabric_slot_def vendor_text_def Let_def dest: vendor_names_nonempty split: option.splits)

lemma slot_health_nonempty: "slot_health churning u f \<noteq> []"
  by (simp add: slot_health_def health_consts)

lemma pad_slots_nth: "i < FABRIC_SLOT_COUNT \<Longrightarrow> length xs \<le> FABRIC_SLOT_COUNT \<Longrightarrow>
    pad_slots xs ! i = (if i < length xs then xs ! i else [])"
  by (simp add: pad_slots_def nth_append)

lemma length_pad_slots: "length xs \<le> FABRIC_SLOT_COUNT \<Longrightarrow> length (pad_slots xs) = FABRIC_SLOT_COUNT"
  by (simp add: pad_slots_def)

text \<open>A slot shows a name and a health exactly when a fabric stands in it, in the order of the fabric
  indices; ``healthy'' is shown only for a fabric no churning peer is on, and while the verdict is
  active only if some peer is on a shown fabric. The fabrics beyond the slots are returned.\<close>

theorem slot_plan_sound:
  assumes "fabric_slot_plan fabrics churn = (names, healths, dropped)"
  shows "length names = 5 \<and> length healths = 5 \<and> length dropped = length fabrics - 5
    \<and> (\<forall>i < 5. (names ! i = [] \<longleftrightarrow> length fabrics \<le> i) \<and> (healths ! i = [] \<longleftrightarrow> length fabrics \<le> i)
         \<and> (i < length fabrics \<longrightarrow> names ! i = describe_fabric_slot (sort_key fi_index fabrics ! i))
         \<and> (i < length fabrics \<and> healths ! i = HEALTH_HEALTHY \<longrightarrow>
              (\<forall>p \<in> set (sc_peers churn). cp_fabric_index p \<noteq> fi_index (sort_key fi_index fabrics ! i))
              \<and> (sc_active churn \<longrightarrow> (\<exists>p \<in> set (sc_peers churn). \<exists>j < 5. j < length fabrics
                   \<and> cp_fabric_index p = fi_index (sort_key fi_index fabrics ! j)))))"
proof -
  let ?ord = "sort_key fi_index fabrics"
  define churning where "churning = set (map cp_fabric_index (sc_peers churn))"
  define u where "u = (sc_active churn \<and> churning \<inter> set (map fi_index (take FABRIC_SLOT_COUNT ?ord)) = {})"
  have names: "names = pad_slots (map describe_fabric_slot (take FABRIC_SLOT_COUNT ?ord))"
    and healths: "healths = pad_slots (map (slot_health churning u) (take FABRIC_SLOT_COUNT ?ord))"
    and dropped: "dropped = drop FABRIC_SLOT_COUNT ?ord"
    using assms by (simp_all add: fabric_slot_plan_def Let_def churning_def u_def)
  have lens: "length names = 5" "length healths = 5" "length dropped = length fabrics - 5"
    using length_pad_slots [of "map describe_fabric_slot (take FABRIC_SLOT_COUNT ?ord)"]
      length_pad_slots [of "map (slot_health churning u) (take FABRIC_SLOT_COUNT ?ord)"]
    by (simp_all add: names healths dropped FABRIC_SLOT_COUNT_def)
  have at: "names ! i = (if i < length fabrics then describe_fabric_slot (?ord ! i) else [])"
      "healths ! i = (if i < length fabrics then slot_health churning u (?ord ! i) else [])" if "i < 5" for i
    using that by (simp_all add: names healths pad_slots_nth FABRIC_SLOT_COUNT_def)
  have healthy: "slot_health churning u f = HEALTH_HEALTHY \<longleftrightarrow> fi_index f \<notin> churning \<and> \<not> u" for f
    by (simp add: slot_health_def health_consts)
  have seen: "\<exists>p \<in> set (sc_peers churn). \<exists>j < 5. j < length fabrics \<and> cp_fabric_index p = fi_index (?ord ! j)"
    if "\<not> u" "sc_active churn"
  proof -
    obtain x where "x \<in> churning" "x \<in> set (map fi_index (take FABRIC_SLOT_COUNT ?ord))" using \<open>\<not> u\<close> \<open>sc_active churn\<close> u_def by blast
    then obtain p j where "p \<in> set (sc_peers churn)" "cp_fabric_index p = fi_index (?ord ! j)" "j < 5" "j < length fabrics"
      by (auto simp: churning_def in_set_conv_nth FABRIC_SLOT_COUNT_def) metis
    then show ?thesis by blast
  qed
  have "cp_fabric_index p \<noteq> fi_index f" if "fi_index f \<notin> churning" "p \<in> set (sc_peers churn)" for p f
    using that unfolding churning_def set_map by (metis image_eqI)
  with lens seen show ?thesis
    by (simp add: at slot_name_nonempty slot_health_nonempty healthy) blast
qed

section \<open>Writes on a change only\<close>

lemma find_keeps_state: "find_health_device env hr = (r, hr1, effs) \<Longrightarrow> hr_state hr1 = hr_state hr \<and> hr_dropped hr1 = hr_dropped hr"
  by (auto simp: find_health_device_def Let_def split: option.splits sum.splits)

lemma warn_once_keeps: "hr_state (fst (warn_device_once w hr)) = hr_state hr \<and> hr_dropped (fst (warn_device_once w hr)) = hr_dropped hr"
  by (simp add: warn_device_once_def)

lemma ensure_keeps_state:
  assumes "ensure_health_device env hr = (r, hr1, effs)"
  shows "hr_state hr1 = hr_state hr \<and> hr_dropped hr1 = hr_dropped hr"
proof -
  obtain d h l where find: "find_health_device env hr = (d, h, l)" by (cases "find_health_device env hr")
  then have "hr1 \<in> {h, fst (warn_device_once WarnNotCreated h)} \<union> {fst (warn_device_once (WarnNoDevice e) h) |e. True}
      \<union> {h\<lparr>hr_device_id := i, hr_device_warned := False\<rparr> |i. True}"
    using assms by (auto simp: ensure_health_device_def split_beta split: sum.splits option.splits)
  then show ?thesis using find_keeps_state [OF find] warn_once_keeps by auto
qed

lemma warn_dropped_state: "warn_if_fabrics_dropped dropped hr = (hr1, effs) \<Longrightarrow>
    hr_state hr1 = hr_state hr \<and> hr_dropped hr1 = set (map fi_index dropped)
    \<and> warn_if_fabrics_dropped dropped hr2 = (if hr_dropped hr2 = set (map fi_index dropped) then (hr2, []) else warn_if_fabrics_dropped dropped hr2)"
  by (auto simp: warn_if_fabrics_dropped_def Let_def split: if_splits)

lemma write_keeps: "write_health_state d health detail names healths hr = (hr1, effs) \<Longrightarrow>
    hr_dropped hr1 = hr_dropped hr \<and>
    hr_state hr1 = (if hd_write d = None then Some (health, detail, Some (names, healths)) else hr_state hr)"
  by (auto simp: write_health_state_def Let_def split: option.splits if_splits)

definition verdict_state :: "subscription_churn \<Rightarrow> fabric_info list \<Rightarrow> health_state" where
  "verdict_state churn fabrics = (case fabric_slot_plan fabrics churn of (names, healths, _) \<Rightarrow>
     (if sc_active churn then HEALTH_CHURNING else HEALTH_HEALTHY, if sc_active churn then describe_churn churn else [],
      Some (names, healths)))"

lemma checked_outcome:
  assumes "apply_checked env churn fabrics hr = (r, hr', effs)"
  shows "hr_dropped hr' = set (map fi_index (snd (snd (fabric_slot_plan fabrics churn))))
    \<and> hr_state hr' \<in> {hr_state hr, Some (verdict_state churn fabrics)}"
proof -
  obtain names healths dropped where plan: "fabric_slot_plan fabrics churn = (names, healths, dropped)"
    by (cases "fabric_slot_plan fabrics churn")
  obtain hr1 warned where w: "warn_if_fabrics_dropped dropped hr = (hr1, warned)" by (cases "warn_if_fabrics_dropped dropped hr")
  obtain d hr2 effs2 where e: "ensure_health_device env hr1 = (d, hr2, effs2)" by (cases "ensure_health_device env hr1")
  show ?thesis
    using assms warn_dropped_state [OF w] ensure_keeps_state [OF e]
    by (auto simp: apply_checked_def Let_def plan w e verdict_state_def dest!: write_keeps
        split: sum.splits option.splits prod.splits if_splits)
qed

text \<open>A verdict that reached the device is not written, looked up or logged again while it stands,
  whatever Indigo would answer.\<close>

theorem standing_verdict_quiet:
  assumes "apply_checked env churn fabrics hr = (r, hr', effs)" "hr_state hr' \<noteq> hr_state hr"
  shows "apply_checked env' churn fabrics hr' = (Inr (), hr', [])"
proof -
  obtain names healths dropped where plan: "fabric_slot_plan fabrics churn = (names, healths, dropped)"
    by (cases "fabric_slot_plan fabrics churn")
  have "hr_dropped hr' = set (map fi_index dropped)" "hr_state hr' = Some (verdict_state churn fabrics)"
    using checked_outcome [OF assms(1)] assms(2) by (auto simp: plan)
  then show ?thesis
    by (auto simp: apply_checked_def plan verdict_state_def warn_if_fabrics_dropped_def Let_def)
qed

text \<open>A failed write is not taken for one that landed: the state stays as it was and the write is
  tried again by the next verdict.\<close>

theorem failed_write_retried:
  assumes "apply_checked env churn fabrics hr = (Inr (), hr', effs)" "WarnWrite e \<in> set effs"
  shows "hr_state hr' = hr_state hr \<and> hr_state hr' \<noteq> Some (verdict_state churn fabrics) \<and> hr_write_warned hr'"
proof -
  obtain names healths dropped where plan: "fabric_slot_plan fabrics churn = (names, healths, dropped)"
    by (cases "fabric_slot_plan fabrics churn")
  obtain hr1 warned where w: "warn_if_fabrics_dropped dropped hr = (hr1, warned)" by (cases "warn_if_fabrics_dropped dropped hr")
  obtain d hr2 effs2 where e: "ensure_health_device env hr1 = (d, hr2, effs2)" by (cases "ensure_health_device env hr1")
  have no: "WarnWrite e \<notin> set warned" "WarnWrite e \<notin> set effs2"
    using w e by (auto simp: warn_if_fabrics_dropped_def ensure_health_device_def find_health_device_def warn_device_once_def Let_def
        split: if_splits option.splits sum.splits prod.splits)
  obtain dev where dev: "d = Inr (Some dev)"
    using assms no by (auto simp: apply_checked_def Let_def plan w e split: sum.splits option.splits if_splits)
  have "hd_write dev \<noteq> None"
    using assms no by (auto simp: apply_checked_def Let_def plan w e dev write_health_state_def split: option.splits if_splits)
  with assms no warn_dropped_state [OF w] ensure_keeps_state [OF e] show ?thesis
    by (auto simp: apply_checked_def Let_def plan w e dev verdict_state_def write_health_state_def split: option.splits if_splits)
qed

section \<open>One scan for the passes without a client\<close>

definition detached :: "client_flags option \<Rightarrow> bool" where
  "detached client = (case client of None \<Rightarrow> True | Some c \<Rightarrow> cf_halted c \<or> cf_recovery c \<or> \<not> cf_attached c)"

fun run_ticks :: "(health_env \<times> client_flags option) list \<Rightarrow> bridge_latches \<Rightarrow> reporter \<Rightarrow> bridge_latches \<times> reporter \<times> health_eff list" where
  "run_ticks [] bl hr = (bl, hr, [])"
| "run_ticks ((env, client) # rest) bl hr =
     (let (bl1, hr1, effs) = health_tick env client bl hr; (bl2, hr2, more) = run_ticks rest bl1 hr1 in (bl2, hr2, effs @ more))"

lemma unchecked_scans:
  "count_list (snd (apply_unchecked env hr)) Scan \<le> (if hr_scanned hr then 0 else 1)
   \<and> (Scan \<in> set (snd (apply_unchecked env hr)) \<longrightarrow> hr_scanned (fst (apply_unchecked env hr)))
   \<and> (hr_scanned hr \<longrightarrow> hr_scanned (fst (apply_unchecked env hr)))"
proof -
  obtain r hr1 effs where find: "find_for_unknown env hr = (r, hr1, effs)" by (cases "find_for_unknown env hr")
  have scans: "effs = [] \<or> effs = [Scan]" "effs = [Scan] \<longrightarrow> \<not> hr_scanned hr \<and> hr_scanned hr1" "hr_scanned hr \<longrightarrow> hr_scanned hr1"
    using find by (auto simp: find_for_unknown_def Let_def split: option.splits sum.splits if_splits)
  have writes: "hr_scanned (fst (write_health_state d h t ns hs hr2)) = hr_scanned hr2"
      "Scan \<notin> set (snd (write_health_state d h t ns hs hr2))" for d h t ns hs hr2
    by (simp_all add: write_health_state_def Let_def split: option.splits)
  have failed: "hr_scanned (fst (read_failed e hr2)) = hr_scanned hr2" "Scan \<notin> set (snd (read_failed e hr2))" for e hr2
    by (simp_all add: read_failed_def)
  show ?thesis
    using scans writes failed
    by (auto simp: apply_unchecked_def find split_beta Let_def count_list_0_iff split: sum.splits option.splits)
qed

lemma tick_scans:
  assumes "health_tick env client bl hr = (bl', hr', effs)"
  shows "count_list effs Scan \<le> (if hr_scanned hr then 0 else 1) \<and> (Scan \<in> set effs \<or> hr_scanned hr \<longrightarrow> hr_scanned hr')"
  using assms unchecked_scans [of env hr]
  by (auto simp: health_tick_def mark_health_unknown_def apply_subscription_churn_def Let_def count_list_0_iff
      split: option.splits if_splits prod.splits)

text \<open>However long the bridge stays detached, the watchdog scans the plugin's devices at most once in
  a session.\<close>

theorem one_scan_per_session:
  "run_ticks ticks bl reporter_init = (bl', hr', effs) \<Longrightarrow> count_list effs Scan \<le> 1"
proof -
  have "run_ticks ticks bl hr = (bl', hr', effs) \<Longrightarrow> count_list effs Scan \<le> (if hr_scanned hr then 0 else 1)" for hr
  proof (induction ticks bl hr arbitrary: bl' hr' effs rule: run_ticks.induct)
    case (2 env client rest bl hr)
    obtain bl1 hr1 effs1 where t: "health_tick env client bl hr = (bl1, hr1, effs1)" by (cases "health_tick env client bl hr")
    obtain bl2 hr2 more where m: "run_ticks rest bl1 hr1 = (bl2, hr2, more)" by (cases "run_ticks rest bl1 hr1")
    have "count_list more Scan \<le> (if hr_scanned hr1 then 0 else 1)" using 2(1) [OF t [symmetric] refl refl m] .
    then show ?case using 2(2) t m tick_scans [OF t] by (auto simp: count_list_0_iff split: if_splits)
  qed simp
  then show "run_ticks ticks bl reporter_init = (bl', hr', effs) \<Longrightarrow> count_list effs Scan \<le> 1"
    by (fastforce simp: reporter_init_def)
qed

section \<open>What escapes\<close>

text \<open>The lookup of a checked verdict is not guarded: a failure of the host leaves through the caller,
  before anything is written.\<close>

theorem finder_failure_escapes:
  assumes "hr_device_id hr = None" "hv_finder env = Inl e" "sc_checked churn" "hr_state hr \<noteq> Some (verdict_state churn fabrics)"
  shows "\<exists>hr' effs. apply_subscription_churn env (Some churn) fabrics hr = (Inl e, hr', effs) \<and> hr_state hr' = hr_state hr"
proof -
  obtain names healths dropped where plan: "fabric_slot_plan fabrics churn = (names, healths, dropped)"
    by (cases "fabric_slot_plan fabrics churn")
  obtain hr1 warned where w: "warn_if_fabrics_dropped dropped hr = (hr1, warned)" by (cases "warn_if_fabrics_dropped dropped hr")
  then have "hr_device_id hr1 = None" "hr_state hr1 = hr_state hr"
    using assms(1) by (auto simp: warn_if_fabrics_dropped_def Let_def split: if_splits)
  with assms w plan show ?thesis
    by (auto simp: apply_subscription_churn_def apply_checked_def ensure_health_device_def find_health_device_def verdict_state_def Let_def)
qed

section \<open>Witnesses\<close>

definition demo_fabrics :: "fabric_info list" where
  "demo_fabrics = [\<lparr>fi_index = 2, fi_label = [], fi_vendor_id = 0x1384\<rparr>, \<lparr>fi_index = 1, fi_label = ''Home'', fi_vendor_id = 0x1349\<rparr>]"

definition demo_churn :: subscription_churn where
  "demo_churn = \<lparr>sc_checked = True, sc_active = True, sc_peers = [\<lparr>cp_peer_node_id = ''17'', cp_fabric_index = 2,
     cp_live_sessions = 3, cp_invalid_deletions = 9, cp_window_minutes = 10, cp_since = ''''\<rparr>]\<rparr>"

definition demo_device :: "py_exc option \<Rightarrow> health_device" where
  "demo_device w = \<lparr>hd_id = 41, hd_states = Inr [(''fabric1Name'', PStr ''Apple Home'')], hd_write = w\<rparr>"

definition demo_env :: "py_exc option \<Rightarrow> health_env" where
  "demo_env w = \<lparr>hv_getter = (\<lambda>_. Inr None), hv_finder = Inr (Some (demo_device w)), hv_factory = Inr None, hv_repr = (\<lambda>_. [])\<rparr>"

definition broken_env :: health_env where
  "broken_env = \<lparr>hv_getter = (\<lambda>_. Inr None), hv_finder = Inl RuntimeError, hv_factory = Inr None, hv_repr = (\<lambda>_. [])\<rparr>"

definition demo_latches :: bridge_latches where
  "demo_latches = \<lparr>bl_disconnect_ticks = 0, bl_halted_reported = False, bl_recovery_reported = False, bl_fabrics = None\<rparr>"

lemma slot_plan_sound_witness:
  "\<exists>names healths dropped. fabric_slot_plan demo_fabrics demo_churn = (names, healths, dropped)
    \<and> length names = 5 \<and> length healths = 5 \<and> length dropped = 0"
proof -
  obtain names healths dropped where p: "fabric_slot_plan demo_fabrics demo_churn = (names, healths, dropped)"
    by (cases "fabric_slot_plan demo_fabrics demo_churn")
  from slot_plan_sound [OF p] p show ?thesis by (simp add: demo_fabrics_def)
qed

lemma tick_claims_nothing_witness:
  "\<exists>bl' hr' effs. health_tick (demo_env None) None demo_latches reporter_init = (bl', hr', effs) \<and> CreateDevice \<notin> set effs
     \<and> Scan \<in> set effs"
proof -
  obtain bl' hr' effs where t: "health_tick (demo_env None) None demo_latches reporter_init = (bl', hr', effs)"
    by (cases "health_tick (demo_env None) None demo_latches reporter_init")
  have "Scan \<in> set (snd (snd (health_tick (demo_env None) None demo_latches reporter_init)))" by code_simp
  with tick_claims_nothing [OF t] t show ?thesis by simp
qed

lemma checked_demo: "hr_state (fst (snd (apply_checked (demo_env None) demo_churn demo_fabrics reporter_init))) \<noteq> hr_state reporter_init"
  by code_simp

lemma standing_verdict_quiet_witness:
  "\<exists>r hr' effs. apply_checked (demo_env None) demo_churn demo_fabrics reporter_init = (r, hr', effs)
     \<and> apply_checked broken_env demo_churn demo_fabrics hr' = (Inr (), hr', [])"
proof -
  obtain r hr' effs where a: "apply_checked (demo_env None) demo_churn demo_fabrics reporter_init = (r, hr', effs)"
    by (cases "apply_checked (demo_env None) demo_churn demo_fabrics reporter_init")
  with checked_demo have "hr_state hr' \<noteq> hr_state reporter_init" by simp
  from standing_verdict_quiet [OF a this] a show ?thesis by blast
qed

lemma failed_write_retried_witness:
  "\<exists>hr' effs. apply_checked (demo_env (Some RuntimeError)) demo_churn demo_fabrics reporter_init = (Inr (), hr', effs)
     \<and> hr_state hr' = hr_state reporter_init \<and> hr_write_warned hr'"
proof -
  let ?a = "apply_checked (demo_env (Some RuntimeError)) demo_churn demo_fabrics reporter_init"
  obtain r hr' effs where a: "?a = (r, hr', effs)" by (cases ?a)
  have "fst ?a = Inr ()" "WarnWrite RuntimeError \<in> set (snd (snd ?a))" by code_simp+
  then have "r = Inr ()" "WarnWrite RuntimeError \<in> set effs" by (simp_all only: a fst_conv snd_conv)
  from failed_write_retried [OF a [unfolded this(1)] this(2)] a \<open>r = Inr ()\<close> show ?thesis by blast
qed

lemma one_scan_per_session_witness:
  "\<exists>bl' hr' effs. run_ticks [(broken_env, None), (broken_env, None), (demo_env None, None)] demo_latches reporter_init = (bl', hr', effs)
     \<and> count_list effs Scan = 1"
proof -
  let ?r = "run_ticks [(broken_env, None), (broken_env, None), (demo_env None, None)] demo_latches reporter_init"
  obtain bl' hr' effs where r: "?r = (bl', hr', effs)" by (cases ?r)
  have "Scan \<in> set (snd (snd ?r))" by code_simp
  then have "count_list effs Scan \<noteq> 0" by (simp only: r snd_conv count_list_0_iff) simp
  with one_scan_per_session [OF r] have "count_list effs Scan = 1" by linarith
  with r show ?thesis by blast
qed

lemma finder_failure_escapes_witness:
  "\<exists>hr' effs. apply_subscription_churn broken_env (Some demo_churn) demo_fabrics reporter_init = (Inl RuntimeError, hr', effs)
     \<and> hr_state hr' = None"
  using finder_failure_escapes [of reporter_init broken_env RuntimeError demo_churn demo_fabrics]
  by (simp add: reporter_init_def broken_env_def demo_churn_def)

end
