(* ===== verification/BridgeAttach.thy ===== *)
theory BridgeAttach
  imports BridgeProtocol
begin

text \<open>
  \<open>bridge_client.py\<close>: the attach of the bridge client, which reconciles the endpoints of the
  bridge node with the export list: the handshake with its decision to carry the opt-in for an
  empty set, the triage of a refusal, the retry with intent, the rebuild of the endpoint map, and
  the fire-and-forget state push. The transport below it is \<open>WsClient\<close>.

  A handshake runs as one function of what its awaits and its injected providers yield: the record
  \<open>attach_env\<close>. A provider is read several times and may answer differently each time, so it is a
  function of the number of the read. A callback that is not given, or raises, has no effect here.
\<close>

section \<open>Deadlines\<close>

definition ATTACH_TIMEOUT :: rat where "ATTACH_TIMEOUT = 8"
definition ATTACH_TIMEOUT_BASE :: rat where "ATTACH_TIMEOUT_BASE = 2"
definition ATTACH_TIMEOUT_PER_ENDPOINT :: rat where "ATTACH_TIMEOUT_PER_ENDPOINT = 15 / 100"
definition LONG_TIMEOUT :: rat where "LONG_TIMEOUT = 30"
definition REBUILD_TIMEOUT_HEADROOM :: rat where "REBUILD_TIMEOUT_HEADROOM = 5"

definition attach_timeout_for :: "int \<Rightarrow> rat" where
  "attach_timeout_for n = max ATTACH_TIMEOUT (ATTACH_TIMEOUT_BASE + ATTACH_TIMEOUT_PER_ENDPOINT * of_int (max 0 n))"

definition rebuild_timeout_for :: "int \<Rightarrow> rat" where
  "rebuild_timeout_for n = LONG_TIMEOUT + attach_timeout_for n + REBUILD_TIMEOUT_HEADROOM"

section \<open>Refusals\<close>

definition PROTOCOL_VERSION :: int where "PROTOCOL_VERSION = 2"
definition ERR_VERSION_MISMATCH :: string where "ERR_VERSION_MISMATCH = ''version_mismatch''"
definition ERR_MASS_REMOVAL_REFUSED :: string where "ERR_MASS_REMOVAL_REFUSED = ''mass_removal_refused''"
definition ERR_ENDPOINT_MAP_INVALID :: string where "ERR_ENDPOINT_MAP_INVALID = ''endpoint_map_invalid''"
definition REFUSE_IDENTITY_UNREADABLE :: string where
  "REFUSE_IDENTITY_UNREADABLE = ''the bridge identity file is present but unreadable''"

lemmas err_codes = ERR_VERSION_MISMATCH_def ERR_MASS_REMOVAL_REFUSED_def ERR_ENDPOINT_MAP_INVALID_def

datatype remedy = RemedyVersion | RemedyMassRemoval | RemedyEndpointMap | RemedyIdentity

definition TERMINAL_ATTACH_ERRORS :: "(string \<times> remedy) list" where
  "TERMINAL_ATTACH_ERRORS = [(ERR_VERSION_MISMATCH, RemedyVersion), (ERR_MASS_REMOVAL_REFUSED, RemedyMassRemoval),
     (ERR_ENDPOINT_MAP_INVALID, RemedyEndpointMap)]"

definition HALTING_ATTACH_ERRORS :: "string list" where
  "HALTING_ATTACH_ERRORS = [ERR_VERSION_MISMATCH, ERR_MASS_REMOVAL_REFUSED]"

definition remedy_for :: "string \<Rightarrow> string \<Rightarrow> remedy option" where
  "remedy_for code details =
     (if code = ERR_ENDPOINT_MAP_INVALID \<and> sublist REFUSE_IDENTITY_UNREADABLE details then Some RemedyIdentity
      else map_of TERMINAL_ATTACH_ERRORS code)"

section \<open>State and environment\<close>

record bridge_client =
  bc_hello :: "hello option"
  bc_status :: "status_report option"
  bc_connected :: bool
  bc_attached :: bool
  bc_recovery :: bool
  bc_halted :: bool
  bc_ids :: int

definition bridge_client_init :: bridge_client where
  "bridge_client_init = \<lparr>bc_hello = None, bc_status = None, bc_connected = False, bc_attached = False,
     bc_recovery = False, bc_halted = False, bc_ids = 1\<rparr>"

definition attached :: "bridge_client \<Rightarrow> bool" where
  "attached bc = (bc_attached bc \<and> bc_connected bc)"

definition bridge_mark_disconnected :: "bridge_client \<Rightarrow> bridge_client" where
  "bridge_mark_disconnected bc = bc\<lparr>bc_attached := False, bc_recovery := False, bc_connected := False\<rparr>"

datatype attach_answer = AnsResult pyval | AnsError string string | AnsRaises py_exc

record attach_env =
  ae_specs :: "nat \<Rightarrow> spec_arg list py_result"
  ae_owed :: "nat \<Rightarrow> pyval py_result"
  ae_declared :: "nat \<Rightarrow> pyval py_result"
  ae_answer :: "nat \<Rightarrow> attach_answer"
  ae_repr :: "pyval \<Rightarrow> string"
  ae_version :: string

datatype bc_eff =
    MarkConnected
  | SendAttach pydict bool rat
  | NotifySkew hello
  | NotifyAttached status_report bool
  | NotifyRefused string string
  | LogOwedUnreadable
  | LogDeclaredUnreadable
  | LogFinishingUnexport int
  | LogNothingBridgeable int
  | LogRetryWithIntent int
  | LogRefused string string remedy
  | LogRebuilt
  | LogRebuiltHalted string
  | LogRebuiltRefused

text \<open>How a coroutine of the client ends: with a value, or with one of the exceptions its caller tells
  apart: a halt, a failed handshake, a refusal by the node, anything else.\<close>

datatype bc_exc = XHalted string | XHandshake string string | XProtocol string string | XOther py_exc

section \<open>The providers\<close>

text \<open>\<open>max(0, int(provider() or 0))\<close>; whatever it raises is logged and counts as 0.\<close>

definition count_of :: "bc_eff \<Rightarrow> pyval py_result \<Rightarrow> int \<times> bc_eff list" where
  "count_of broken r = (case py_bind r (\<lambda>v. py_int (if truthy v then v else PInt 0)) of
       Inl _ \<Rightarrow> (0, [broken]) | Inr n \<Rightarrow> (max 0 n, []))"

definition owed_removals :: "pyval py_result \<Rightarrow> int \<times> bc_eff list" where
  "owed_removals = count_of LogOwedUnreadable"

definition declared_exports :: "pyval py_result \<Rightarrow> int \<times> bc_eff list" where
  "declared_exports = count_of LogDeclaredUnreadable"

definition replace_all :: "int \<Rightarrow> spec_arg list \<Rightarrow> pyval py_result \<Rightarrow> bool \<times> bc_eff list" where
  "replace_all owed specs declared_read =
     (if 0 < owed then (True, [LogFinishingUnexport owed])
      else if specs \<noteq> [] then (False, [])
      else (case declared_exports declared_read of
              (declared, logs) \<Rightarrow> if declared \<le> 0 then (False, logs)
                                   else (True, logs @ [LogNothingBridgeable declared])))"

section \<open>Attach\<close>

text \<open>\<open>_attach\<close> with the specs in hand: \<open>r\<close> numbers the reads of the two providers for the deadline,
  \<open>q\<close> the request. Inline, the flags are left to the handshake; otherwise they are set as soon as
  the answer is there, before it is parsed.\<close>

definition attach_specs ::
  "attach_env \<Rightarrow> nat \<Rightarrow> nat \<Rightarrow> nat \<Rightarrow> bool \<Rightarrow> spec_arg list \<Rightarrow> bool \<Rightarrow> bridge_client
     \<Rightarrow> (bc_exc + status_report) \<times> bridge_client \<times> bc_eff list" where
  "attach_specs env ro rd q inline specs intent bc =
     (let (owed, l1) = owed_removals (ae_owed env ro);
          (declared, l2) = declared_exports (ae_declared env rd);
          deadline = attach_timeout_for (max (int (length specs)) (max owed declared));
          (frame, ids) = build_attach (ae_version env) specs intent None (bc_ids bc);
          bc1 = bc\<lparr>bc_ids := ids\<rparr>;
          effs = l1 @ l2 @ [SendAttach frame intent deadline]
      in case ae_answer env q of
           AnsError code details \<Rightarrow> (Inl (XProtocol code details), bc1, effs)
         | AnsRaises e \<Rightarrow> (Inl (XOther e), bc1, effs)
         | AnsResult result \<Rightarrow>
             (let bc2 = (if inline then bc1 else bc1\<lparr>bc_attached := True, bc_recovery := False\<rparr>)
              in case parse_status (ae_repr env) result of
                   Inl e \<Rightarrow> (Inl (XOther e), bc2, effs)
                 | Inr status \<Rightarrow> (Inr status, bc2\<lparr>bc_status := Some status\<rparr>, effs)))"

text \<open>The handshake's part after an accepted attach.\<close>

definition accept_attach :: "status_report \<Rightarrow> bool \<Rightarrow> bridge_client \<Rightarrow> bridge_client \<times> bc_eff list" where
  "accept_attach status intent bc =
     (bc\<lparr>bc_attached := True, bc_recovery := False\<rparr>, [NotifyAttached status intent])"

definition handle_attach_refused ::
  "string \<Rightarrow> string \<Rightarrow> bridge_client \<Rightarrow> bc_exc option \<times> bridge_client \<times> bc_eff list" where
  "handle_attach_refused code details bc = (case remedy_for code details of
       None \<Rightarrow> (Some (XHandshake code details), bc, [NotifyRefused code details])
     | Some remedy \<Rightarrow>
         (let effs = [LogRefused code details remedy, NotifyRefused code details]
          in if code \<in> set HALTING_ATTACH_ERRORS then (Some (XHalted code), bc, effs)
             else (None, bc\<lparr>bc_recovery := True\<rparr>, effs)))"

text \<open>\<open>_retry_with_intent\<close>: \<open>Inr False\<close> when no debt is recorded.\<close>

definition retry_with_intent ::
  "attach_env \<Rightarrow> bridge_client \<Rightarrow> (bc_exc + bool) \<times> bridge_client \<times> bc_eff list" where
  "retry_with_intent env bc =
     (case owed_removals (ae_owed env 2) of (owed, l1) \<Rightarrow>
        if owed \<le> 0 then (Inr False, bc, l1)
        else (let l2 = l1 @ [LogRetryWithIntent owed]
              in case ae_specs env 1 of
                   Inl e \<Rightarrow> (Inl (XOther e), bc, l2)
                 | Inr specs \<Rightarrow>
                     (case attach_specs env 3 2 1 True specs True bc of
                        (Inl e, bc1, l3) \<Rightarrow> (Inl e, bc1, l2 @ l3)
                      | (Inr status, bc1, l3) \<Rightarrow>
                          (case accept_attach status True bc1 of (bc2, l4) \<Rightarrow> (Inr True, bc2, l2 @ l3 @ l4)))))"

text \<open>What becomes of a refusal at the end of the handshake.\<close>

definition triage ::
  "string \<Rightarrow> string \<Rightarrow> bridge_client \<Rightarrow> bc_eff list \<Rightarrow> bc_exc option \<times> bridge_client \<times> bc_eff list" where
  "triage code details bc effs = (case handle_attach_refused code details bc of
       (x, bc1, l) \<Rightarrow> (x, bc1, effs @ l))"

text \<open>\<open>_handshake\<close> on the first frame.\<close>

definition handshake :: "attach_env \<Rightarrow> pyval \<Rightarrow> bridge_client \<Rightarrow> bc_exc option \<times> bridge_client \<times> bc_eff list" where
  "handshake env first bc = (case parse_hello (ae_repr env) first of
       Inl e \<Rightarrow> (Some (XProtocol ERR_MALFORMED_ARGS []), bc, [])
     | Inr hello \<Rightarrow>
         (let bc1 = bc\<lparr>bc_hello := Some hello\<rparr>
          in if he_protocol_version hello \<noteq> PROTOCOL_VERSION
             then (Some (XHalted ''version_skew''), bc1, [NotifySkew hello])
             else (case ae_specs env 0 of
                     Inl e \<Rightarrow> (Some (XOther e), bc1, [])
                   | Inr specs \<Rightarrow>
                       (let (owed, l1) = owed_removals (ae_owed env 0);
                            (intent, l2) = replace_all owed specs (ae_declared env 0);
                            bc2 = bc1\<lparr>bc_connected := True\<rparr>;
                            l3 = l1 @ l2 @ [MarkConnected]
                        in case attach_specs env 1 1 0 True specs intent bc2 of
                             (Inr status, bc3, l4) \<Rightarrow>
                               (case accept_attach status intent bc3 of (bc4, l5) \<Rightarrow> (None, bc4, l3 @ l4 @ l5))
                           | (Inl (XProtocol code details), bc3, l4) \<Rightarrow>
                               if code = ERR_MASS_REMOVAL_REFUSED \<and> \<not> intent
                               then (case retry_with_intent env bc3 of
                                       (Inr True, bc4, l5) \<Rightarrow> (None, bc4, l3 @ l4 @ l5)
                                     | (Inr False, bc4, l5) \<Rightarrow> triage code details bc4 (l3 @ l4 @ l5)
                                     | (Inl (XProtocol code' details'), bc4, l5) \<Rightarrow> triage code' details' bc4 (l3 @ l4 @ l5)
                                     | (Inl x, bc4, l5) \<Rightarrow> (Some x, bc4, l3 @ l4 @ l5))
                               else triage code details bc3 (l3 @ l4)
                           | (Inl x, bc3, l4) \<Rightarrow> (Some x, bc3, l3 @ l4)))))"

section \<open>Rebuild\<close>

text \<open>\<open>rebuild_endpoint_map\<close>, from the answer to its request on: the report of the rebuild, then, from
  the recovery state, the attach on the live connection (the requests 0 and 1, the reads 0 and 1).\<close>

definition triage_rebuilt_reattach :: "string \<Rightarrow> string \<Rightarrow> bridge_client \<Rightarrow> bridge_client \<times> bc_eff list" where
  "triage_rebuilt_reattach code details bc = (case handle_attach_refused code details bc of
       (None, bc1, l) \<Rightarrow> (bc1, l)
     | (Some (XHalted reason), bc1, l) \<Rightarrow> (bc1\<lparr>bc_halted := True\<rparr>, l @ [LogRebuiltHalted reason])
     | (Some _, bc1, l) \<Rightarrow> (bc1, l @ [LogRebuiltRefused]))"

definition rebuild_endpoint_map ::
  "attach_env \<Rightarrow> bridge_client \<Rightarrow> (bc_exc + status_report) \<times> bridge_client \<times> bc_eff list" where
  "rebuild_endpoint_map env bc0 =
     (let bc = bc0\<lparr>bc_ids := snd (build_rebuild_endpoint_map None (bc_ids bc0))\<rparr>
      in case ae_answer env 0 of
        AnsError code details \<Rightarrow> (Inl (XProtocol code details), bc, [])
      | AnsRaises e \<Rightarrow> (Inl (XOther e), bc, [])
      | AnsResult result \<Rightarrow>
          (case parse_status (ae_repr env) result of
             Inl e \<Rightarrow> (Inl (XOther e), bc, [])
           | Inr rebuilt \<Rightarrow>
               (let bc1 = bc\<lparr>bc_status := Some rebuilt\<rparr>
                in if \<not> bc_recovery bc then (Inr rebuilt, bc1, [])
                   else (let bc2 = bc1\<lparr>bc_recovery := False\<rparr>
                         in case ae_specs env 0 of
                              Inl e \<Rightarrow> (Inl (XOther e), bc2, [LogRebuilt])
                            | Inr specs \<Rightarrow>
                                (let (owed, l1) = owed_removals (ae_owed env 0);
                                     (intent, l2) = replace_all owed specs (ae_declared env 0);
                                     l3 = LogRebuilt # l1 @ l2
                                 in case attach_specs env 1 1 1 False specs intent bc2 of
                                      (Inr status, bc3, l4) \<Rightarrow>
                                        (Inr status, bc3, l3 @ l4 @ [NotifyAttached status intent])
                                    | (Inl (XProtocol code details), bc3, l4) \<Rightarrow>
                                        (case triage_rebuilt_reattach code details bc3 of
                                           (bc4, l5) \<Rightarrow> (Inr rebuilt, bc4, l3 @ l4 @ l5))
                                    | (Inl x, bc3, l4) \<Rightarrow> (Inl x, bc3, l3 @ l4))))))"

section \<open>State pushes and single requests\<close>

datatype push_eff = PushDroppedHalted int | PushDropped int | PushSent pydict | PushSendFailed pydict

text \<open>\<open>set_state\<close>: the note of the request is kept by the transport; \<open>send_fails\<close> is what the send
  raises of the connection errors.\<close>

definition set_state :: "int \<Rightarrow> pydict \<Rightarrow> bool \<Rightarrow> bool \<Rightarrow> bridge_client \<Rightarrow> bridge_client \<times> push_eff" where
  "set_state device_id states socket send_fails bc =
     (if \<not> socket \<or> \<not> attached bc
      then (bc, if bc_halted bc then PushDroppedHalted device_id else PushDropped device_id)
      else (case build_set_state device_id states None (bc_ids bc) of
              (frame, ids) \<Rightarrow> (bc\<lparr>bc_ids := ids\<rparr>, if send_fails then PushSendFailed frame else PushSent frame)))"

text \<open>\<open>upsert_endpoint\<close> and \<open>remove_endpoint\<close>, from their answers on.\<close>

definition upsert_result :: "pyval \<Rightarrow> bc_exc + int" where
  "upsert_result result =
     (let data = (case result of PDict d \<Rightarrow> d | _ \<Rightarrow> [])
      in case map_of data ''endpointNumber'' of
           None \<Rightarrow> Inl (XProtocol ERR_MALFORMED_ARGS ''upsert_endpoint result carried no endpointNumber'')
         | Some v \<Rightarrow> (case py_int v of Inl e \<Rightarrow> Inl (XOther e) | Inr n \<Rightarrow> Inr n))"

definition remove_result :: "pyval \<Rightarrow> bool py_result" where
  "remove_result result = (case or_empty result of
       PDict d \<Rightarrow> Inr (truthy (dget_or d ''removed'' (PBool False))) | _ \<Rightarrow> Inl AttributeError)"

section \<open>What an attach sends\<close>

fun is_send :: "bc_eff \<Rightarrow> bool" where
  "is_send (SendAttach frame intent deadline) = True"
| "is_send _ = False"

lemma count_of_logs: "\<not> is_send broken \<Longrightarrow> e \<in> set (snd (count_of broken r)) \<Longrightarrow> \<not> is_send e"
  by (auto simp: count_of_def split: sum.splits)

lemma owed_logs: "owed_removals r = (n, l) \<Longrightarrow> e \<in> set l \<Longrightarrow> \<not> is_send e"
  using count_of_logs [of LogOwedUnreadable e r] by (simp add: owed_removals_def)

lemma declared_logs: "declared_exports r = (n, l) \<Longrightarrow> e \<in> set l \<Longrightarrow> \<not> is_send e"
  using count_of_logs [of LogDeclaredUnreadable e r] by (simp add: declared_exports_def)

lemma replace_all_logs: "replace_all owed specs r = (b, l) \<Longrightarrow> e \<in> set l \<Longrightarrow> \<not> is_send e"
  using declared_logs [of r] by (auto simp: replace_all_def split: if_splits prod.splits)

lemma replace_all_iff: "fst (replace_all owed specs r) \<longleftrightarrow> 0 < owed \<or> (specs = [] \<and> 0 < fst (declared_exports r))"
  by (auto simp: replace_all_def split: prod.splits)

text \<open>An attach that is sent: the opt-in it carries, its specs, its deadline.\<close>

definition attach_sent :: "attach_env \<Rightarrow> spec_arg list \<Rightarrow> bool \<Rightarrow> bc_eff \<Rightarrow> bool" where
  "attach_sent env specs intent e \<longleftrightarrow> (\<exists>ids deadline.
     e = SendAttach (fst (build_attach (ae_version env) specs intent None ids)) intent deadline
     \<and> 8 \<le> deadline \<and> 2 + 15 / 100 * of_int (int (length specs)) \<le> deadline)"

lemma attach_timeout_ge:
  "8 \<le> attach_timeout_for n" "2 + 15 / 100 * of_int n \<le> attach_timeout_for n"
  by (auto simp: attach_timeout_for_def ATTACH_TIMEOUT_def ATTACH_TIMEOUT_BASE_def ATTACH_TIMEOUT_PER_ENDPOINT_def)

lemma attach_timeout_mono: "m \<le> n \<Longrightarrow> attach_timeout_for m \<le> attach_timeout_for n"
  by (auto simp: attach_timeout_for_def ATTACH_TIMEOUT_PER_ENDPOINT_def)

lemma attach_specs_effs:
  assumes "attach_specs env ro rd q inline specs intent bc = (r, bc', effs)" "e \<in> set effs" "is_send e"
  shows "attach_sent env specs intent e"
proof -
  obtain owed l1 where o: "owed_removals (ae_owed env ro) = (owed, l1)" by (cases "owed_removals (ae_owed env ro)")
  obtain declared l2 where d: "declared_exports (ae_declared env rd) = (declared, l2)"
    by (cases "declared_exports (ae_declared env rd)")
  obtain frame ids where f: "build_attach (ae_version env) specs intent None (bc_ids bc) = (frame, ids)"
    by (cases "build_attach (ae_version env) specs intent None (bc_ids bc)")
  let ?n = "max (int (length specs)) (max owed declared)"
  have "effs = l1 @ l2 @ [SendAttach frame intent (attach_timeout_for ?n)]"
    using assms(1) by (auto simp: attach_specs_def o d f Let_def split: attach_answer.splits sum.splits)
  then have "e = SendAttach frame intent (attach_timeout_for ?n)"
    using assms(2,3) owed_logs [OF o] declared_logs [OF d] by auto
  moreover have "attach_timeout_for (int (length specs)) \<le> attach_timeout_for ?n" by (rule attach_timeout_mono) simp
  then have "2 + 15 / 100 * of_int (int (length specs)) \<le> attach_timeout_for ?n"
    using attach_timeout_ge(2) [of "int (length specs)"] by (rule order_trans [rotated])
  ultimately show ?thesis using attach_timeout_ge(1) [of ?n] f unfolding attach_sent_def by (metis fst_conv)
qed

lemma attach_specs_flags:
  assumes "attach_specs env ro rd q True specs intent bc = (r, bc', effs)"
  shows "bc_attached bc' = bc_attached bc" "bc_recovery bc' = bc_recovery bc" "bc_connected bc' = bc_connected bc"
    "bc_halted bc' = bc_halted bc" "bc_hello bc' = bc_hello bc"
  using assms by (auto simp: attach_specs_def Let_def split: prod.splits attach_answer.splits sum.splits)

lemma attach_specs_result:
  assumes "attach_specs env ro rd q inline specs intent bc = (r, bc', effs)"
  shows "(case ae_answer env q of AnsError code details \<Rightarrow> r = Inl (XProtocol code details)
     | AnsRaises e \<Rightarrow> r = Inl (XOther e)
     | AnsResult v \<Rightarrow> (case parse_status (ae_repr env) v of Inl e \<Rightarrow> r = Inl (XOther e)
          | Inr s \<Rightarrow> r = Inr s \<and> bc_status bc' = Some s))"
  using assms by (auto simp: attach_specs_def Let_def split: prod.splits attach_answer.splits sum.splits)

lemma refused_cases:
  assumes "handle_attach_refused code details bc = (x, bc', effs)"
  obtains (unknown) "remedy_for code details = None" "x = Some (XHandshake code details)" "bc' = bc"
    | (halt) "code \<in> set HALTING_ATTACH_ERRORS" "x = Some (XHalted code)" "bc' = bc"
    | (hold) "code = ERR_ENDPOINT_MAP_INVALID" "x = None" "bc' = bc\<lparr>bc_recovery := True\<rparr>"
proof (cases "remedy_for code details")
  case None
  with assms unknown show thesis by (simp add: handle_attach_refused_def)
next
  case (Some remedy)
  then have "code \<in> set HALTING_ATTACH_ERRORS \<or> code = ERR_ENDPOINT_MAP_INVALID"
    by (auto simp: remedy_for_def TERMINAL_ATTACH_ERRORS_def HALTING_ATTACH_ERRORS_def split: if_splits)
  with assms Some halt hold show thesis
    by (auto simp: handle_attach_refused_def Let_def split: if_splits)
qed

lemma refused_no_send: "handle_attach_refused code details bc = (x, bc', effs) \<Longrightarrow> e \<in> set effs \<Longrightarrow> \<not> is_send e"
  by (auto simp: handle_attach_refused_def Let_def split: option.splits if_splits)

text \<open>The retry: what it sends always carries the opt-in, and only with a debt.\<close>

lemma retry_cases:
  assumes "retry_with_intent env bc = (r, bc', effs)"
  obtains (no_debt) "fst (owed_removals (ae_owed env 2)) \<le> 0" "r = Inr False" "bc' = bc" "\<forall>e \<in> set effs. \<not> is_send e"
    | (unread) e where "r = Inl (XOther e)" "bc' = bc" "\<forall>e \<in> set effs. \<not> is_send e"
    | (failed) specs x where "0 < fst (owed_removals (ae_owed env 2))" "ae_specs env 1 = Inr specs" "r = Inl x"
        "bc_attached bc' = bc_attached bc" "bc_recovery bc' = bc_recovery bc" "bc_connected bc' = bc_connected bc"
        "\<forall>e \<in> set effs. is_send e \<longrightarrow> attach_sent env specs True e"
        "\<And>code details. x = XProtocol code details \<Longrightarrow> ae_answer env 1 = AnsError code details"
        "\<And>reason. x \<noteq> XHalted reason"
    | (accepted) specs where "0 < fst (owed_removals (ae_owed env 2))" "ae_specs env 1 = Inr specs" "r = Inr True"
        "bc_attached bc'" "\<not> bc_recovery bc'" "bc_connected bc' = bc_connected bc"
        "\<forall>e \<in> set effs. is_send e \<longrightarrow> attach_sent env specs True e"
proof -
  obtain owed l1 where o: "owed_removals (ae_owed env 2) = (owed, l1)" by (cases "owed_removals (ae_owed env 2)")
  note ol = owed_logs [OF o]
  show thesis
  proof (cases "owed \<le> 0")
    case True
    with assms o ol no_debt show thesis by (simp add: retry_with_intent_def)
  next
    case debt: False
    show thesis
    proof (cases "ae_specs env 1")
      case (Inl e)
      with assms o debt ol unread show thesis by (auto simp: retry_with_intent_def Let_def)
    next
      case (Inr specs)
      obtain r1 bc1 l3 where a: "attach_specs env 3 2 1 True specs True bc = (r1, bc1, l3)"
        by (cases "attach_specs env 3 2 1 True specs True bc")
      note fl = attach_specs_flags [OF a] and res = attach_specs_result [OF a]
      have sends: "e \<in> set l3 \<Longrightarrow> is_send e \<Longrightarrow> attach_sent env specs True e" for e by (rule attach_specs_effs [OF a])
      show thesis
      proof (cases r1)
        case (Inl x)
        show thesis
        proof (rule failed [OF _ Inr, of x])
          show "x = XProtocol code details \<Longrightarrow> ae_answer env 1 = AnsError code details" for code details
            using res Inl by (auto split: attach_answer.splits sum.splits)
          show "x \<noteq> XHalted reason" for reason using res Inl by (auto split: attach_answer.splits sum.splits)
        qed (use assms o debt Inr a Inl fl sends ol in \<open>auto simp: retry_with_intent_def Let_def\<close>)
      next
        case accept: (Inr status)
        show thesis
          by (rule accepted [OF _ Inr])
            (use assms o debt Inr a accept fl sends ol in \<open>auto simp: retry_with_intent_def Let_def accept_attach_def\<close>)
      qed
    qed
  qed
qed

text \<open>The opt-in of the handshake's first attach: a debt, or an export list of which nothing can be
  bridged.\<close>

definition first_intent :: "attach_env \<Rightarrow> spec_arg list \<Rightarrow> bool" where
  "first_intent env specs \<longleftrightarrow> 0 < fst (owed_removals (ae_owed env 0))
     \<or> (specs = [] \<and> 0 < fst (declared_exports (ae_declared env 0)))"

definition speaks_version :: "attach_env \<Rightarrow> pyval \<Rightarrow> int \<Rightarrow> bool" where
  "speaks_version env first v \<longleftrightarrow> (\<exists>hello. parse_hello (ae_repr env) first = Inr hello \<and> he_protocol_version hello = v)"

text \<open>The attaches of a handshake: the first one, and the retry with the opt-in.\<close>

definition handshake_sends :: "attach_env \<Rightarrow> pyval \<Rightarrow> bc_eff \<Rightarrow> bool" where
  "handshake_sends env first e \<longleftrightarrow> speaks_version env first PROTOCOL_VERSION
     \<and> (\<exists>specs. (ae_specs env 0 = Inr specs \<and> attach_sent env specs (first_intent env specs) e)
         \<or> (0 < fst (owed_removals (ae_owed env 2)) \<and> ae_specs env 1 = Inr specs \<and> attach_sent env specs True e))"

definition refused_with :: "attach_env \<Rightarrow> string \<Rightarrow> bool" where
  "refused_with env code \<longleftrightarrow> (\<exists>details. ae_answer env 1 = AnsError code details
     \<or> (ae_answer env 0 = AnsError code details
        \<and> (code = ERR_MASS_REMOVAL_REFUSED \<longrightarrow> (\<exists>specs. ae_specs env 0 = Inr specs \<and> first_intent env specs)
             \<or> fst (owed_removals (ae_owed env 2)) \<le> 0)))"

definition shake_outcome :: "attach_env \<Rightarrow> pyval \<Rightarrow> bridge_client \<Rightarrow> bc_exc option \<Rightarrow> bridge_client \<Rightarrow> bool" where
  "shake_outcome env first bc x bc' \<longleftrightarrow> (case x of
       None \<Rightarrow> bc_connected bc'
          \<and> (bc_attached bc' \<and> \<not> bc_recovery bc'
             \<or> bc_attached bc' = bc_attached bc \<and> bc_recovery bc' \<and> refused_with env ERR_ENDPOINT_MAP_INVALID)
     | Some y \<Rightarrow> bc_attached bc' = bc_attached bc \<and> bc_recovery bc' = bc_recovery bc
          \<and> (\<forall>reason. y = XHalted reason \<longrightarrow>
               (\<exists>v. v \<noteq> PROTOCOL_VERSION \<and> speaks_version env first v)
               \<or> reason \<in> set HALTING_ATTACH_ERRORS \<and> refused_with env reason))"

lemma triage_outcome:
  assumes "triage code details bc1 effs0 = (x, bc', effs)" "refused_with env code"
    and "bc_attached bc1 = bc_attached bc" "bc_recovery bc1 = bc_recovery bc" "bc_connected bc1"
  shows "shake_outcome env first bc x bc' \<and> (\<exists>l. effs = effs0 @ l \<and> (\<forall>e \<in> set l. \<not> is_send e))"
proof -
  obtain y bc2 l where h: "handle_attach_refused code details bc1 = (y, bc2, l)"
    by (cases "handle_attach_refused code details bc1")
  with assms(1) have eq: "x = y" "bc' = bc2" "effs = effs0 @ l" by (simp_all add: triage_def)
  have "\<exists>l. effs = effs0 @ l \<and> (\<forall>e \<in> set l. \<not> is_send e)" using eq(3) refused_no_send [OF h] by blast
  moreover from h have "shake_outcome env first bc x bc'"
    by (cases rule: refused_cases) (use assms(2-5) eq in \<open>auto simp: shake_outcome_def\<close>)
  ultimately show ?thesis by blast
qed

lemma handshake_spec:
  assumes "handshake env first bc = (x, bc', effs)"
  shows "shake_outcome env first bc x bc' \<and> (\<forall>e \<in> set effs. is_send e \<longrightarrow> handshake_sends env first e)"
proof (cases "parse_hello (ae_repr env) first")
  case (Inl e)
  with assms show ?thesis by (auto simp: handshake_def shake_outcome_def)
next
  case hello: (Inr hello)
  show ?thesis
  proof (cases "he_protocol_version hello = PROTOCOL_VERSION")
    case False
    with assms hello show ?thesis by (auto simp: handshake_def shake_outcome_def speaks_version_def Let_def)
  next
    case version: True
    then have v: "speaks_version env first PROTOCOL_VERSION" using hello by (auto simp: speaks_version_def)
    show ?thesis
    proof (cases "ae_specs env 0")
      case (Inl e)
      with assms hello version show ?thesis by (auto simp: handshake_def shake_outcome_def Let_def)
    next
      case specs: (Inr specs)
      obtain owed l1 where o: "owed_removals (ae_owed env 0) = (owed, l1)" by (cases "owed_removals (ae_owed env 0)")
      obtain intent l2 where i: "replace_all owed specs (ae_declared env 0) = (intent, l2)"
        by (cases "replace_all owed specs (ae_declared env 0)")
      have intent: "intent = first_intent env specs"
        using replace_all_iff [of owed specs "ae_declared env 0"] o i by (simp add: first_intent_def)
      define bc2 where "bc2 = bc\<lparr>bc_hello := Some hello, bc_connected := True\<rparr>"
      obtain r bc3 l4 where a: "attach_specs env 1 1 0 True specs intent bc2 = (r, bc3, l4)"
        by (cases "attach_specs env 1 1 0 True specs intent bc2")
      note fl = attach_specs_flags [OF a] and res = attach_specs_result [OF a]
      define l3 where "l3 = l1 @ l2 @ [MarkConnected]"
      have quiet: "e \<in> set l3 \<Longrightarrow> \<not> is_send e" for e
        using owed_logs [OF o] replace_all_logs [OF i] by (auto simp: l3_def)
      have sends: "e \<in> set l4 \<Longrightarrow> is_send e \<Longrightarrow> handshake_sends env first e" for e
        using attach_specs_effs [OF a] v specs intent by (auto simp: handshake_sends_def)
      have flags: "bc_attached bc3 = bc_attached bc" "bc_recovery bc3 = bc_recovery bc" "bc_connected bc3"
        using fl by (simp_all add: bc2_def)
      have run: "handshake env first bc = (case (r, bc3, l4) of
             (Inr status, bc3, l4) \<Rightarrow>
               (case accept_attach status intent bc3 of (bc4, l5) \<Rightarrow> (None, bc4, l3 @ l4 @ l5))
           | (Inl (XProtocol code details), bc3, l4) \<Rightarrow>
               if code = ERR_MASS_REMOVAL_REFUSED \<and> \<not> intent
               then (case retry_with_intent env bc3 of
                       (Inr True, bc4, l5) \<Rightarrow> (None, bc4, l3 @ l4 @ l5)
                     | (Inr False, bc4, l5) \<Rightarrow> triage code details bc4 (l3 @ l4 @ l5)
                     | (Inl (XProtocol code' details'), bc4, l5) \<Rightarrow> triage code' details' bc4 (l3 @ l4 @ l5)
                     | (Inl x, bc4, l5) \<Rightarrow> (Some x, bc4, l3 @ l4 @ l5))
               else triage code details bc3 (l3 @ l4)
           | (Inl x, bc3, l4) \<Rightarrow> (Some x, bc3, l3 @ l4))"
        unfolding a [symmetric] bc2_def l3_def using hello version specs o i by (simp add: handshake_def Let_def)
      show ?thesis
      proof (cases r)
        case (Inr status)
        with assms run quiet sends flags show ?thesis by (auto simp: accept_attach_def shake_outcome_def)
      next
        case (Inl y)
        show ?thesis
        proof (cases y)
          case (XProtocol code details)
          have ans: "ae_answer env 0 = AnsError code details"
            using res Inl XProtocol by (auto split: attach_answer.splits sum.splits)
          show ?thesis
          proof (cases "code = ERR_MASS_REMOVAL_REFUSED \<and> \<not> intent")
            case False
            then have rw: "refused_with env code" using ans specs intent by (auto simp: refused_with_def)
            have t: "triage code details bc3 (l3 @ l4) = (x, bc', effs)" using assms run Inl XProtocol False by auto
            from triage_outcome [OF t rw flags, of first] quiet sends show ?thesis by fastforce
          next
            case True
            obtain r5 bc4 l5 where rt: "retry_with_intent env bc3 = (r5, bc4, l5)" by (cases "retry_with_intent env bc3")
            have run2: "(case (r5, bc4, l5) of
                       (Inr True, bc4, l5) \<Rightarrow> (None, bc4, l3 @ l4 @ l5)
                     | (Inr False, bc4, l5) \<Rightarrow> triage code details bc4 (l3 @ l4 @ l5)
                     | (Inl (XProtocol code' details'), bc4, l5) \<Rightarrow> triage code' details' bc4 (l3 @ l4 @ l5)
                     | (Inl x, bc4, l5) \<Rightarrow> (Some x, bc4, l3 @ l4 @ l5)) = (x, bc', effs)"
              using assms(1) unfolding run Inl XProtocol prod.case sum.case bc_exc.case if_P [OF True] rt .
            from rt show ?thesis
            proof (cases rule: retry_cases)
              case no_debt
              then have rw: "refused_with env code" using ans by (auto simp: refused_with_def)
              have t: "triage code details bc3 (l3 @ l4 @ l5) = (x, bc', effs)" using run2 no_debt by simp
              from triage_outcome [OF t rw flags, of first] quiet sends no_debt(4) show ?thesis by fastforce
            next
              case (unread e)
              with run2 quiet sends flags show ?thesis by (auto simp: shake_outcome_def)
            next
              case (failed specs' z)
              have s5: "e \<in> set l5 \<Longrightarrow> is_send e \<Longrightarrow> handshake_sends env first e" for e
                using failed v by (auto simp: handshake_sends_def)
              show ?thesis
              proof (cases z)
                case (XProtocol code' details')
                then have rw: "refused_with env code'" using failed(8) by (auto simp: refused_with_def)
                have t: "triage code' details' bc4 (l3 @ l4 @ l5) = (x, bc', effs)" using run2 failed(3) XProtocol by simp
                have f4: "bc_attached bc4 = bc_attached bc" "bc_recovery bc4 = bc_recovery bc" "bc_connected bc4"
                  using failed flags by simp_all
                from triage_outcome [OF t rw f4, of first] quiet sends s5 show ?thesis by fastforce
              qed (use run2 failed flags quiet sends s5 in \<open>auto simp: shake_outcome_def\<close>)
            next
              case (accepted specs')
              then have "e \<in> set l5 \<Longrightarrow> is_send e \<Longrightarrow> handshake_sends env first e" for e
                using v by (auto simp: handshake_sends_def)
              with accepted run2 flags quiet sends show ?thesis by (auto simp: shake_outcome_def)
            qed
          qed
        next
          case (XHalted reason)
          then show ?thesis using res Inl by (auto split: attach_answer.splits sum.splits)
        qed (use assms run Inl flags quiet sends in \<open>auto simp: shake_outcome_def\<close>)
      qed
    qed
  qed
qed

section \<open>Properties\<close>

text \<open>C25: the handshake of a new connection sends no attach to a node that speaks another version, and an
  attach it sends carries the opt-in to empty the node's live set only for a reason: an un-export
  that is still owed, or an export list that declares entries of which none can be bridged. Its
  deadline leaves room for the reconcile of every endpoint that is sent. (The attaches of a
  rebuild, of a re-attach and of an un-export are not the handshake's and not covered here.)\<close>

theorem attach_guarded:
  assumes "handshake env first bc = (x, bc', effs)" "SendAttach frame intent deadline \<in> set effs"
  shows "speaks_version env first PROTOCOL_VERSION \<and> 8 \<le> deadline
    \<and> (\<exists>specs ids. frame = fst (build_attach (ae_version env) specs intent None ids)
         \<and> 2 + 15 / 100 * of_int (int (length specs)) \<le> deadline)
    \<and> (intent \<longrightarrow> 0 < fst (owed_removals (ae_owed env 0)) \<or> 0 < fst (owed_removals (ae_owed env 2))
         \<or> (ae_specs env 0 = Inr [] \<and> 0 < fst (declared_exports (ae_declared env 0))))"
proof -
  have h: "handshake_sends env first (SendAttach frame intent deadline)"
    using handshake_spec [OF assms(1)] assms(2) by auto
  then obtain specs where v: "speaks_version env first PROTOCOL_VERSION"
    and s: "(ae_specs env 0 = Inr specs \<and> attach_sent env specs (first_intent env specs) (SendAttach frame intent deadline))
      \<or> (0 < fst (owed_removals (ae_owed env 2)) \<and> ae_specs env 1 = Inr specs
         \<and> attach_sent env specs True (SendAttach frame intent deadline))"
    by (auto simp: handshake_sends_def)
  then have a: "attach_sent env specs intent (SendAttach frame intent deadline)" by (auto simp: attach_sent_def)
  have i: "intent \<longrightarrow> 0 < fst (owed_removals (ae_owed env 0)) \<or> 0 < fst (owed_removals (ae_owed env 2))
         \<or> (ae_specs env 0 = Inr [] \<and> 0 < fst (declared_exports (ae_declared env 0)))"
    using s by (auto simp: attach_sent_def first_intent_def)
  from a obtain ids where "frame = fst (build_attach (ae_version env) specs intent None ids)" "8 \<le> deadline"
      "2 + 15 / 100 * of_int (int (length specs)) \<le> deadline"
    by (auto simp: attach_sent_def)
  with v i show ?thesis by blast
qed

text \<open>What a finished handshake means: it succeeds only if the node accepted an attach, and the client
  is then attached and not in recovery, or if the node refused for its endpoint map, and the
  connection is then held open un-attached in recovery; any other end leaves it un-attached.\<close>

theorem handshake_outcomes:
  assumes "handshake env first bc = (x, bc', effs)" "\<not> bc_attached bc" "\<not> bc_recovery bc"
  shows "(x = None \<longleftrightarrow> bc_attached bc' \<or> bc_recovery bc') \<and> \<not> (bc_attached bc' \<and> bc_recovery bc')
    \<and> (bc_recovery bc' \<longrightarrow> refused_with env ERR_ENDPOINT_MAP_INVALID) \<and> (x = None \<longrightarrow> bc_connected bc')"
  using handshake_spec [OF assms(1)] assms(2,3) by (auto simp: shake_outcome_def split: option.splits)

text \<open>The client halts for good only where a retry cannot help: the node speaks another version, or its
  final refusal is one of the two terminal ones; a refused mass removal halts only if the refused
  attach carried the opt-in, or no un-export was owed.\<close>

theorem handshake_halts_only:
  assumes "handshake env first bc = (Some (XHalted reason), bc', effs)"
  shows "(\<exists>v. v \<noteq> PROTOCOL_VERSION \<and> speaks_version env first v)
    \<or> (reason \<in> {ERR_VERSION_MISMATCH, ERR_MASS_REMOVAL_REFUSED}
       \<and> (\<exists>details. ae_answer env 1 = AnsError reason details
            \<or> (ae_answer env 0 = AnsError reason details
               \<and> (reason = ERR_MASS_REMOVAL_REFUSED \<longrightarrow> (\<exists>specs. ae_specs env 0 = Inr specs \<and> first_intent env specs)
                    \<or> fst (owed_removals (ae_owed env 2)) \<le> 0))))"
  using handshake_spec [OF assms]
  by (auto simp: shake_outcome_def refused_with_def HALTING_ATTACH_ERRORS_def)

text \<open>A rebuild that the node answered is never reported as failed because the node then refused the
  attach: the caller gets the rebuild's report, the recovery state is left unless the node names
  its endpoint map again, and a terminal refusal sets the halt.\<close>

theorem rebuild_reported:
  assumes "ae_answer env 0 = AnsResult v" "parse_status (ae_repr env) v = Inr rebuilt" "bc_recovery bc"
    and "ae_specs env 0 = Inr specs" "ae_answer env 1 = AnsError code details"
  shows "\<exists>bc' effs. rebuild_endpoint_map env bc = (Inr rebuilt, bc', effs) \<and> bc_status bc' = Some rebuilt
    \<and> (bc_recovery bc' \<longleftrightarrow> code = ERR_ENDPOINT_MAP_INVALID)
    \<and> (bc_halted bc' \<longleftrightarrow> bc_halted bc \<or> code \<in> {ERR_VERSION_MISMATCH, ERR_MASS_REMOVAL_REFUSED})"
proof -
  define bc2 where "bc2 = bc\<lparr>bc_ids := snd (build_rebuild_endpoint_map None (bc_ids bc)), bc_status := Some rebuilt,
    bc_recovery := False\<rparr>"
  obtain owed l1 where o: "owed_removals (ae_owed env 0) = (owed, l1)" by (cases "owed_removals (ae_owed env 0)")
  obtain intent l2 where i: "replace_all owed specs (ae_declared env 0) = (intent, l2)"
    by (cases "replace_all owed specs (ae_declared env 0)")
  obtain r bc3 l4 where a: "attach_specs env 1 1 1 False specs intent bc2 = (r, bc3, l4)"
    by (cases "attach_specs env 1 1 1 False specs intent bc2")
  have r: "r = Inl (XProtocol code details)" "bc_status bc3 = Some rebuilt" "\<not> bc_recovery bc3" "bc_halted bc3 = bc_halted bc"
    using a assms(5) by (auto simp: attach_specs_def bc2_def Let_def split: prod.splits)
  obtain bc4 l5 where t: "triage_rebuilt_reattach code details bc3 = (bc4, l5)"
    by (cases "triage_rebuilt_reattach code details bc3")
  obtain y bc5 l6 where h: "handle_attach_refused code details bc3 = (y, bc5, l6)"
    by (cases "handle_attach_refused code details bc3")
  have run: "rebuild_endpoint_map env bc = (Inr rebuilt, bc4, (LogRebuilt # l1 @ l2) @ l4 @ l5)"
    using assms(1-4) o i a t r(1) by (simp add: rebuild_endpoint_map_def bc2_def Let_def)
  have "bc_status bc4 = Some rebuilt \<and> (bc_recovery bc4 \<longleftrightarrow> code = ERR_ENDPOINT_MAP_INVALID)
      \<and> (bc_halted bc4 \<longleftrightarrow> bc_halted bc \<or> code \<in> {ERR_VERSION_MISMATCH, ERR_MASS_REMOVAL_REFUSED})"
    using h
  proof (cases rule: refused_cases)
    case unknown
    then have "code \<notin> {ERR_VERSION_MISMATCH, ERR_MASS_REMOVAL_REFUSED, ERR_ENDPOINT_MAP_INVALID}"
      by (auto simp: remedy_for_def TERMINAL_ATTACH_ERRORS_def split: if_splits)
    with unknown t h r show ?thesis by (auto simp: triage_rebuilt_reattach_def)
  next
    case halt
    then have "code \<noteq> ERR_ENDPOINT_MAP_INVALID" "code \<in> {ERR_VERSION_MISMATCH, ERR_MASS_REMOVAL_REFUSED}"
      by (auto simp: HALTING_ATTACH_ERRORS_def err_codes)
    with halt t h r show ?thesis by (auto simp: triage_rebuilt_reattach_def)
  next
    case hold
    then have "code \<notin> {ERR_VERSION_MISMATCH, ERR_MASS_REMOVAL_REFUSED}" by (simp add: err_codes)
    with hold t h r show ?thesis by (auto simp: triage_rebuilt_reattach_def)
  qed
  with run show ?thesis by blast
qed

text \<open>That promise does not hold for a re-attach that is not refused but fails: a deadline or a lost
  connection after the rebuild escapes to the caller as the failure of the whole.\<close>

theorem rebuild_failure_escapes:
  assumes "ae_answer env 0 = AnsResult v" "parse_status (ae_repr env) v = Inr rebuilt" "bc_recovery bc"
    and "ae_specs env 0 = Inr specs" "ae_answer env 1 = AnsRaises e"
  shows "\<exists>bc' effs. rebuild_endpoint_map env bc = (Inl (XOther e), bc', effs)
    \<and> bc_status bc' = Some rebuilt \<and> \<not> bc_recovery bc'"
  using assms by (auto simp: rebuild_endpoint_map_def attach_specs_def Let_def split: prod.splits)

section \<open>Witnesses\<close>

definition good_hello :: pyval where
  "good_hello = PDict [(''protocolVersion'', PInt 2)]"

text \<open>A node that refuses the mass removal, with a debt that only the second reading shows.\<close>

definition glitch_env :: attach_env where
  "glitch_env = \<lparr>ae_specs = (\<lambda>k. Inr []), ae_owed = (\<lambda>k. if k < 2 then Inl RuntimeError else Inr (PInt 3)),
     ae_declared = (\<lambda>k. Inr PNone),
     ae_answer = (\<lambda>k. if k = 0 then AnsError ERR_MASS_REMOVAL_REFUSED [] else AnsResult (PDict [])),
     ae_repr = (\<lambda>v. []), ae_version = ''1''\<rparr>"

definition refusing_env :: "string \<Rightarrow> attach_env" where
  "refusing_env code = glitch_env\<lparr>ae_owed := (\<lambda>k. Inr (PInt 0)), ae_answer := (\<lambda>k. AnsError code [])\<rparr>"

definition shake_flags :: "bc_exc option \<times> bridge_client \<times> bc_eff list \<Rightarrow> bc_exc option \<times> bool \<times> bool" where
  "shake_flags r = (case r of (x, bc, effs) \<Rightarrow> (x, bc_attached bc, bc_recovery bc))"

fun sends_intent :: "bc_eff \<Rightarrow> bool" where
  "sends_intent (SendAttach frame intent deadline) = intent"
| "sends_intent _ = False"

lemma attach_guarded_witness:
  "\<exists>frame deadline. SendAttach frame True deadline \<in> set (snd (snd (handshake glitch_env good_hello bridge_client_init)))
     \<and> 8 \<le> deadline"
proof -
  obtain x bc' effs where h: "handshake glitch_env good_hello bridge_client_init = (x, bc', effs)"
    by (cases "handshake glitch_env good_hello bridge_client_init")
  have "list_ex sends_intent (snd (snd (handshake glitch_env good_hello bridge_client_init)))"
    by code_simp
  then obtain y where y: "y \<in> set effs" "sends_intent y" unfolding h by (auto simp: list_ex_iff)
  from y(2) obtain frame deadline where "y = SendAttach frame True deadline" by (cases y rule: sends_intent.cases) auto
  with y(1) have e: "SendAttach frame True deadline \<in> set effs" by simp
  from attach_guarded [OF h e] e h show ?thesis by auto
qed

lemma handshake_outcomes_witness:
  "bc_attached (fst (snd (handshake glitch_env good_hello bridge_client_init)))
   \<and> \<not> bc_recovery (fst (snd (handshake glitch_env good_hello bridge_client_init)))"
proof -
  obtain x bc' effs where h: "handshake glitch_env good_hello bridge_client_init = (x, bc', effs)"
    by (cases "handshake glitch_env good_hello bridge_client_init")
  have "shake_flags (handshake glitch_env good_hello bridge_client_init) = (None, True, False)" by code_simp
  then have "x = None" "bc_attached bc'" by (simp_all add: h shake_flags_def)
  moreover have "\<not> bc_attached bridge_client_init" "\<not> bc_recovery bridge_client_init" by (simp_all add: bridge_client_init_def)
  ultimately show ?thesis using handshake_outcomes [OF h] h by auto
qed

lemma handshake_halts_only_witness:
  "ERR_MASS_REMOVAL_REFUSED \<in> {ERR_VERSION_MISMATCH, ERR_MASS_REMOVAL_REFUSED}
   \<and> fst (shake_flags (handshake (refusing_env ERR_MASS_REMOVAL_REFUSED) good_hello bridge_client_init))
       = Some (XHalted ERR_MASS_REMOVAL_REFUSED)"
proof -
  have f: "fst (shake_flags (handshake (refusing_env ERR_MASS_REMOVAL_REFUSED) good_hello bridge_client_init))
       = Some (XHalted ERR_MASS_REMOVAL_REFUSED)"
    by code_simp
  then obtain bc' effs where h: "handshake (refusing_env ERR_MASS_REMOVAL_REFUSED) good_hello bridge_client_init
      = (Some (XHalted ERR_MASS_REMOVAL_REFUSED), bc', effs)"
    by (cases "handshake (refusing_env ERR_MASS_REMOVAL_REFUSED) good_hello bridge_client_init") (simp add: shake_flags_def)
  have "\<not> (\<exists>v. v \<noteq> PROTOCOL_VERSION \<and> speaks_version (refusing_env ERR_MASS_REMOVAL_REFUSED) good_hello v)"
    by (auto simp: speaks_version_def good_hello_def parse_hello_def PROTOCOL_VERSION_def)
  with handshake_halts_only [OF h] f show ?thesis by blast
qed

definition rebuilt_env :: "attach_answer \<Rightarrow> attach_env" where
  "rebuilt_env a = glitch_env\<lparr>ae_answer := (\<lambda>k. if k = 0 then AnsResult (PDict []) else a)\<rparr>"

lemma rebuild_reported_witness:
  "\<exists>rebuilt bc' effs. rebuild_endpoint_map (rebuilt_env (AnsError ''internal'' [])) (bridge_client_init\<lparr>bc_recovery := True\<rparr>)
     = (Inr rebuilt, bc', effs) \<and> \<not> bc_recovery bc'"
proof -
  have "\<exists>rebuilt. parse_status (ae_repr (rebuilt_env (AnsError ''internal'' []))) (PDict []) = Inr rebuilt"
    by (simp add: parse_status_def or_empty_def parse_fabrics_def parse_each_def py_iter_def dget_def dget_or_def int_field_def
        parse_drift_def parse_subscription_churn_def parse_session_hygiene_def rebuilt_env_def glitch_env_def)
  then obtain rebuilt where p: "parse_status (ae_repr (rebuilt_env (AnsError ''internal'' []))) (PDict []) = Inr rebuilt" ..
  have "\<exists>bc' effs. rebuild_endpoint_map (rebuilt_env (AnsError ''internal'' [])) (bridge_client_init\<lparr>bc_recovery := True\<rparr>)
      = (Inr rebuilt, bc', effs) \<and> bc_status bc' = Some rebuilt
    \<and> (bc_recovery bc' \<longleftrightarrow> ''internal'' = ERR_ENDPOINT_MAP_INVALID)
    \<and> (bc_halted bc' \<longleftrightarrow> bc_halted (bridge_client_init\<lparr>bc_recovery := True\<rparr>)
         \<or> ''internal'' \<in> {ERR_VERSION_MISMATCH, ERR_MASS_REMOVAL_REFUSED})"
    by (rule rebuild_reported [OF _ p]) (simp_all add: rebuilt_env_def glitch_env_def)
  then show ?thesis by (auto simp: err_codes)
qed

lemma rebuild_failure_escapes_witness:
  "\<exists>bc' effs. rebuild_endpoint_map (rebuilt_env (AnsRaises (OtherException ''TimeoutError'')))
       (bridge_client_init\<lparr>bc_recovery := True\<rparr>) = (Inl (XOther (OtherException ''TimeoutError'')), bc', effs)
     \<and> bc_status bc' \<noteq> None"
proof -
  let ?env = "rebuilt_env (AnsRaises (OtherException ''TimeoutError''))"
  have "\<exists>rebuilt. parse_status (ae_repr ?env) (PDict []) = Inr rebuilt"
    by (simp add: parse_status_def or_empty_def parse_fabrics_def parse_each_def py_iter_def dget_def dget_or_def int_field_def
        parse_drift_def parse_subscription_churn_def parse_session_hygiene_def rebuilt_env_def glitch_env_def)
  then obtain rebuilt where p: "parse_status (ae_repr ?env) (PDict []) = Inr rebuilt" ..
  have "\<exists>bc' effs. rebuild_endpoint_map ?env (bridge_client_init\<lparr>bc_recovery := True\<rparr>)
      = (Inl (XOther (OtherException ''TimeoutError'')), bc', effs) \<and> bc_status bc' = Some rebuilt \<and> \<not> bc_recovery bc'"
    by (rule rebuild_failure_escapes [OF _ p]) (simp_all add: rebuilt_env_def glitch_env_def)
  then show ?thesis by auto
qed

end
