(* ===== verification/CtLearner.thy ===== *)
theory CtLearner
  imports ExportStore
begin

text \<open>
  \<open>ct_learner.py\<close>: learning the physical colour-temperature bounds of an exported lamp from
  pairs of a commanded value and the value the device reports back. The learner keeps, per
  device, the last confirmed command and a shortfall streak; an adoption re-reads the
  allow-list and writes one learned key.

  Clock readings are rational numbers. An observation reads the clock at most twice, so it is
  given two readings. The log lines and the republish call are values of \<open>learn_eff\<close>.
\<close>

section \<open>State\<close>

definition FRESHNESS_WINDOW_SECONDS :: rat where "FRESHNESS_WINDOW_SECONDS = 15"
definition SHORTFALL_THRESHOLD_MIREDS :: int where "SHORTFALL_THRESHOLD_MIREDS = 10"
definition REPEAT_TOLERANCE_MIREDS :: int where "REPEAT_TOLERANCE_MIREDS = 1"
definition MIN_CONFIRMATION_GAP_SECONDS :: rat where "MIN_CONFIRMATION_GAP_SECONDS = 2"

lemmas learner_consts = FRESHNESS_WINDOW_SECONDS_def SHORTFALL_THRESHOLD_MIREDS_def
  REPEAT_TOLERANCE_MIREDS_def MIN_CONFIRMATION_GAP_SECONDS_def

datatype side = SideMin | SideMax

record commanded =
  cm_mireds :: int
  cm_at :: rat

record pending =
  pe_side :: side
  pe_mireds :: int
  pe_commanded_at :: rat
  pe_started_at :: rat

record learner =
  ln_commanded :: "(int \<times> commanded) list"
  ln_pending :: "(int \<times> pending) list"

definition learner_init :: learner where
  "learner_init = \<lparr>ln_commanded = [], ln_pending = []\<rparr>"

datatype reason = PastFloor int int | PastCeiling int int | TwoShortfalls side int | Swept int

datatype learn_eff =
    LogCandidateGone int side int
  | LogCandidateClaimed int side int bool
  | LogCandidateInvalid int side int int int
  | LogSaveFailed int
  | LogLearned int side int int reason
  | Republish int
  | LogRepublishFailed int side

section \<open>Operations\<close>

definition learn_forget :: "int \<Rightarrow> learner \<Rightarrow> learner" where
  "learn_forget device_id lr = lr\<lparr>ln_commanded := AList.delete device_id (ln_commanded lr),
     ln_pending := AList.delete device_id (ln_pending lr)\<rparr>"

definition record_commanded :: "int \<Rightarrow> int \<Rightarrow> rat \<Rightarrow> learner \<Rightarrow> learner" where
  "record_commanded device_id mireds now lr =
     lr\<lparr>ln_commanded := AList.update device_id \<lparr>cm_mireds = mireds, cm_at = now\<rparr> (ln_commanded lr)\<rparr>"

definition learned_key :: "side \<Rightarrow> string" where
  "learned_key s = (case s of SideMin \<Rightarrow> OPTION_CT_LEARNED_MIN_MIREDS | SideMax \<Rightarrow> OPTION_CT_LEARNED_MAX_MIREDS)"

definition seed_key :: "side \<Rightarrow> string" where
  "seed_key s = (case s of SideMin \<Rightarrow> OPTION_CT_MIN_MIREDS | SideMax \<Rightarrow> OPTION_CT_MAX_MIREDS)"

definition new_bounds :: "side \<Rightarrow> int \<Rightarrow> int \<times> int \<Rightarrow> int \<times> int" where
  "new_bounds s candidate current = (case s of
     SideMin \<Rightarrow> (candidate, snd current) | SideMax \<Rightarrow> (fst current, candidate))"

definition learned_entry :: "side \<Rightarrow> int \<Rightarrow> export_entry \<Rightarrow> export_entry" where
  "learned_entry s candidate fresh =
     fresh\<lparr>ee_options := AList.update (learned_key s) (PInt candidate) (ee_options fresh)\<rparr>"

text \<open>\<open>_adopt\<close>; the environment is what the commit meets and whether the republish raises.\<close>

definition adopt :: "int \<Rightarrow> side \<Rightarrow> int \<Rightarrow> reason \<Rightarrow> bool \<Rightarrow> commit_env \<Rightarrow> bool \<Rightarrow> store \<Rightarrow> store \<times> learn_eff list" where
  "adopt device_id s candidate why only_if_unclaimed env republish_ok st =
     (case store_get device_id st of
        None \<Rightarrow> (st, [LogCandidateGone device_id s candidate])
      | Some fresh \<Rightarrow>
          (let options = ee_options fresh;
               (new_min, new_max) = new_bounds s candidate (effective_ct_bounds options);
               learned = dget options (learned_key s)
           in if only_if_unclaimed \<and> (is_valid_ct_bound learned \<or> is_valid_ct_bound (dget options (seed_key s)))
              then (st, [LogCandidateClaimed device_id s candidate (is_valid_ct_bound learned)])
              else if eq_int learned candidate then (st, [])
              else if new_max \<le> new_min then (st, [LogCandidateInvalid device_id s candidate new_min new_max])
              else (case upsert env (learned_entry s candidate fresh) st of
                      (Inl _, st') \<Rightarrow> (st', [LogSaveFailed device_id])
                    | (Inr _, st') \<Rightarrow>
                        (st', [LogLearned device_id s candidate (mireds_to_kelvin candidate) why, Republish device_id]
                              @ (if republish_ok then [] else [LogRepublishFailed device_id s])))))"

definition drop_pending :: "int \<Rightarrow> learner \<Rightarrow> learner" where
  "drop_pending device_id lr = lr\<lparr>ln_pending := AList.delete device_id (ln_pending lr)\<rparr>"

definition set_pending :: "int \<Rightarrow> pending \<Rightarrow> learner \<Rightarrow> learner" where
  "set_pending device_id p lr = lr\<lparr>ln_pending := AList.update device_id p (ln_pending lr)\<rparr>"

type_synonym learn_outcome = "learner \<times> store \<times> learn_eff list"

text \<open>The part of \<open>_observe_locked\<close> after a fresh shortfall on one side was found.\<close>

definition observe_shortfall ::
  "int \<Rightarrow> side \<Rightarrow> int \<Rightarrow> commanded \<Rightarrow> rat \<Rightarrow> commit_env \<Rightarrow> bool \<Rightarrow> learner \<Rightarrow> store \<Rightarrow> learn_outcome" where
  "observe_shortfall device_id s mireds cmd now env republish_ok lr st =
     (let restart = (set_pending device_id \<lparr>pe_side = s, pe_mireds = mireds, pe_commanded_at = cm_at cmd,
                                             pe_started_at = now\<rparr> lr, st, [])
      in case map_of (ln_pending lr) device_id of
           None \<Rightarrow> restart
         | Some p \<Rightarrow>
             if pe_side p = s \<and> \<bar>pe_mireds p - mireds\<bar> \<le> REPEAT_TOLERANCE_MIREDS
             then (if cm_at cmd = pe_commanded_at p then (lr, st, [])
                   else if now - pe_started_at p < MIN_CONFIRMATION_GAP_SECONDS then (lr, st, [])
                   else (case adopt device_id s mireds (TwoShortfalls s mireds) False env republish_ok st of
                           (st', effs) \<Rightarrow> (drop_pending device_id lr, st', effs)))
             else restart)"

definition observe_locked ::
  "export_entry \<Rightarrow> int \<Rightarrow> rat \<times> rat \<Rightarrow> commit_env \<Rightarrow> bool \<Rightarrow> learner \<Rightarrow> store \<Rightarrow> learn_outcome" where
  "observe_locked entry mireds clock env republish_ok lr st =
     (let device_id = ee_device_id entry;
          (current_min, current_max) = effective_ct_bounds (ee_options entry)
      in if mireds < current_min
         then (case adopt device_id SideMin mireds (PastFloor mireds current_min) False env republish_ok st of
                 (st', effs) \<Rightarrow> (lr, st', effs))
         else if current_max < mireds
         then (case adopt device_id SideMax mireds (PastCeiling mireds current_max) False env republish_ok st of
                 (st', effs) \<Rightarrow> (lr, st', effs))
         else (case map_of (ln_commanded lr) device_id of
                 None \<Rightarrow> (drop_pending device_id lr, st, [])
               | Some cmd \<Rightarrow>
                   if FRESHNESS_WINDOW_SECONDS < fst clock - cm_at cmd then (drop_pending device_id lr, st, [])
                   else (let delta = mireds - cm_mireds cmd
                         in if \<bar>delta\<bar> < SHORTFALL_THRESHOLD_MIREDS then (drop_pending device_id lr, st, [])
                            else observe_shortfall device_id (if delta < 0 then SideMax else SideMin)
                                   mireds cmd (snd clock) env republish_ok lr st)))"

definition learn_observe ::
  "export_entry \<Rightarrow> int \<Rightarrow> rat \<times> rat \<Rightarrow> commit_env \<Rightarrow> bool \<Rightarrow> learner \<Rightarrow> store \<Rightarrow> learn_outcome" where
  "learn_observe entry mireds clock env republish_ok lr st =
     (if ee_role entry \<notin> set CT_ROLES then (lr, st, [])
      else observe_locked entry mireds clock env republish_ok lr st)"

definition adopt_measured ::
  "export_entry \<Rightarrow> side \<Rightarrow> int \<Rightarrow> bool \<Rightarrow> commit_env \<Rightarrow> bool \<Rightarrow> store \<Rightarrow> store \<times> learn_eff list" where
  "adopt_measured entry s mireds only_if_unclaimed env republish_ok st =
     (if ee_role entry \<notin> set CT_ROLES then (st, [])
      else adopt (ee_device_id entry) s mireds (Swept mireds) only_if_unclaimed env republish_ok st)"

section \<open>Adoption\<close>

lemma learned_entry_fields [simp]:
  "ee_device_id (learned_entry s c e) = ee_device_id e" "ee_role (learned_entry s c e) = ee_role e"
  "role_named (learned_entry s c e) = role_named e"
  by (simp_all add: learned_entry_def role_named_def)

lemma learned_bounds:
  "effective_ct_bounds (ee_options (learned_entry s c e)) = new_bounds s c (effective_ct_bounds (ee_options e))"
  by (cases s) (simp_all add: effective_ct_bounds_def ct_side_def learned_entry_def new_bounds_def
      learned_key_def dget_update ct_keys)

text \<open>An adoption either leaves the allow-list's lookups alone or replaces the entry of its
  device by the one with the candidate learned, which then is a proper range.\<close>

lemma adopt_cases [consumes 2, case_names same learned]:
  assumes "adopt device_id s c why weak env ok st = (st', effs)" "store_ok st"
  obtains "\<And>k. store_get k st' = store_get k st" "store_ok st'" "Republish device_id \<notin> set effs"
    | fresh where "store_get device_id st = Some fresh" "store_get device_id st' = Some (learned_entry s c fresh)"
        "\<And>k. k \<noteq> device_id \<Longrightarrow> store_get k st' = store_get k st" "store_ok st'" "persisted st'"
        "entry_ok (learned_entry s c fresh)"
        "fst (new_bounds s c (effective_ct_bounds (ee_options fresh)))
           < snd (new_bounds s c (effective_ct_bounds (ee_options fresh)))"
        "weak \<Longrightarrow> \<not> is_valid_ct_bound (dget (ee_options fresh) (learned_key s))
               \<and> \<not> is_valid_ct_bound (dget (ee_options fresh) (seed_key s))"
        "Republish device_id \<in> set effs"
proof (cases "store_get device_id st")
  case None
  with assms(1) have "st' = st" "effs = [LogCandidateGone device_id s c]" by (simp_all add: adopt_def)
  with that(1) assms(2) show thesis by simp
next
  case (Some fresh)
  let ?e = "learned_entry s c fresh"
  have id: "ee_device_id fresh = device_id" and named: "role_named ?e"
    using allow_list.lookup_key [OF assms(2) Some] by simp_all
  obtain lo hi where b: "new_bounds s c (effective_ct_bounds (ee_options fresh)) = (lo, hi)"
    by (cases "new_bounds s c (effective_ct_bounds (ee_options fresh))")
  obtain r st1 where u: "upsert env ?e st = (r, st1)" by (cases "upsert env ?e st")
  show thesis
  proof (cases "weak \<and> (is_valid_ct_bound (dget (ee_options fresh) (learned_key s))
        \<or> is_valid_ct_bound (dget (ee_options fresh) (seed_key s)))
      \<or> eq_int (dget (ee_options fresh) (learned_key s)) c \<or> hi \<le> lo")
    case True
    with assms(1) Some b have "st' = st" "Republish device_id \<notin> set effs"
      by (auto simp: adopt_def Let_def split: if_splits)
    with that(1) assms(2) show thesis by simp
  next
    case False
    show thesis
    proof (cases r)
      case (Inl x)
      with u have f: "upsert env ?e st = (Inl x, st1)" by simp
      from assms(1) Some b u False Inl have "st' = st1" "effs = [LogSaveFailed device_id]"
        by (auto simp: adopt_def Let_def)
      with allow_list.write_failed [OF assms(2) f] that(1) show thesis by simp
    next
      case (Inr e')
      with u have f: "upsert env ?e st = (Inr e', st1)" by simp
      from assms(1) Some b u False Inr have eq: "st' = st1" "Republish device_id \<in> set effs"
        by (auto simp: adopt_def Let_def)
      show thesis
      proof (rule that(2) [OF Some])
        show "store_get device_id st' = Some ?e" "\<And>k. k \<noteq> device_id \<Longrightarrow> store_get k st' = store_get k st"
          using allow_list.rewrite_lookup [OF assms(2) Some _ named f] id eq(1) by simp_all
        show "store_ok st'" using allow_list.write_sound [OF assms(2) named f] eq(1) by simp
        show "persisted st'" "entry_ok ?e" using upsert_ok [OF assms(2) named f] eq(1) by auto
        show "Republish device_id \<in> set effs" by (rule eq(2))
      qed (use False b in auto)
    qed
  qed
qed

definition proper_range :: "export_entry \<Rightarrow> bool" where
  "proper_range e \<longleftrightarrow> fst (effective_ct_bounds (ee_options e)) < snd (effective_ct_bounds (ee_options e))"

text \<open>C24: an adoption never leaves a collapsed or inverted range behind: whatever snapshot the
  caller held and whatever the candidate, if every colour-temperature export had a proper
  range before, every one has it after; only the one learned key of the one device may have
  changed, and a weak candidate changes nothing where the side was already claimed.\<close>

theorem adopt_keeps_ranges:
  assumes "adopt device_id s c why weak env ok st = (st', effs)" "store_ok st"
    and "\<And>k e. store_get k st = Some e \<Longrightarrow> proper_range e"
  shows "(\<forall>k e. store_get k st' = Some e \<longrightarrow> proper_range e) \<and> store_ok st'
    \<and> (\<forall>k. k \<noteq> device_id \<longrightarrow> store_get k st' = store_get k st)
    \<and> (\<forall>e. store_get device_id st = Some e \<longrightarrow>
         store_get device_id st' \<in> {Some e, Some (learned_entry s c e)}
         \<and> (weak \<and> (is_valid_ct_bound (dget (ee_options e) (learned_key s))
                    \<or> is_valid_ct_bound (dget (ee_options e) (seed_key s)))
            \<longrightarrow> store_get device_id st' = Some e))"
  using assms(1,2)
proof (cases rule: adopt_cases)
  case same
  with assms(3) show ?thesis by simp
next
  case (learned fresh)
  have "proper_range (learned_entry s c fresh)"
    using learned(7) by (simp add: proper_range_def learned_bounds)
  with learned assms(3) show ?thesis by (metis insertI1 insertI2 option.inject)
qed

definition ok_env :: commit_env where
  "ok_env = \<lparr>ce_write = None, ce_save = None, ce_rollback_fails = False\<rparr>"

lemma adopt_keeps_ranges_witness:
  "\<exists>e. store_get 42 (fst (adopt 42 SideMax 350 (Swept 350) False ok_env True demo_store)) = Some e
     \<and> effective_ct_bounds (ee_options e) = (200, 350) \<and> proper_range e"
proof -
  have "proper_range demo_entry" unfolding proper_range_def by code_simp
  then have demo: "\<And>k e. store_get k demo_store = Some e \<Longrightarrow> proper_range e"
    by (auto simp: store_get_def demo_store_def split: if_splits)
  obtain st' effs where a: "adopt 42 SideMax 350 (Swept 350) False ok_env True demo_store = (st', effs)"
    by (cases "adopt 42 SideMax 350 (Swept 350) False ok_env True demo_store")
  have "map_option (\<lambda>e. effective_ct_bounds (ee_options e))
      (store_get 42 (fst (adopt 42 SideMax 350 (Swept 350) False ok_env True demo_store))) = Some (200, 350)"
    by code_simp
  with a obtain e where e: "store_get 42 st' = Some e" "effective_ct_bounds (ee_options e) = (200, 350)"
    by (auto simp: map_option_case split: option.splits)
  with adopt_keeps_ranges [OF a demo_store_ok(1) demo] a show ?thesis by auto
qed

lemma upsert_out_of_domain:
  assumes "c < GENERIC_MIN_MIREDS \<or> GENERIC_MAX_MIREDS < c"
  shows "options_error (ee_options (learned_entry s c e)) (ee_role e) \<noteq> None"
proof
  assume "options_error (ee_options (learned_entry s c e)) (ee_role e) = None"
  then have p: "ct_pair_error (ee_options (learned_entry s c e)) (ee_role e)
      OPTION_CT_LEARNED_MIN_MIREDS OPTION_CT_LEARNED_MAX_MIREDS False = None"
    using options_error_ct ct_bounds_error_None by blast
  have m: "map_of (ee_options (learned_entry s c e)) (learned_key s) = Some (PInt c)"
    by (simp add: learned_entry_def)
  have role: "ee_role e \<in> set CT_BOUNDS_ROLES"
    using p m by (cases s) (auto simp: ct_pair_error_def Let_def learned_key_def split: if_splits)
  show False
    using pair_error_None(1,2) [OF p role] m assms by (cases s) (auto simp: learned_key_def)
qed

text \<open>A reading outside the domain the store accepts is never learned, for any device and any
  bounds stored: the lookups stay as they are; when the reading is past the current bound,
  the write is refused and reported as a failure to save, again on every such reading.\<close>

theorem out_of_domain_never_learned:
  assumes "store_ok st" "c < GENERIC_MIN_MIREDS \<or> GENERIC_MAX_MIREDS < c"
    and "adopt device_id s c why weak env ok st = (st', effs)"
  shows "(\<forall>k. store_get k st' = store_get k st)
    \<and> (\<forall>e lo hi. store_get device_id st = Some e \<and> \<not> weak \<and> dget (ee_options e) (learned_key s) = PNone
         \<and> new_bounds s c (effective_ct_bounds (ee_options e)) = (lo, hi) \<and> lo < hi \<longrightarrow> effs = [LogSaveFailed device_id])"
proof
  have bad: "\<not> entry_ok (learned_entry s c fresh)" for fresh
    using upsert_out_of_domain [OF assms(2), of s fresh] by (auto simp: entry_ok_def write_error_None)
  from assms(3,1) show "\<forall>k. store_get k st' = store_get k st"
    by (cases rule: adopt_cases) (use bad in blast)+
  show "\<forall>e lo hi. store_get device_id st = Some e \<and> \<not> weak \<and> dget (ee_options e) (learned_key s) = PNone
         \<and> new_bounds s c (effective_ct_bounds (ee_options e)) = (lo, hi) \<and> lo < hi \<longrightarrow> effs = [LogSaveFailed device_id]"
  proof (intro allI impI, elim conjE)
    fix e lo hi
    assume e: "store_get device_id st = Some e" "\<not> weak" "dget (ee_options e) (learned_key s) = PNone"
      "new_bounds s c (effective_ct_bounds (ee_options e)) = (lo, hi)" "lo < hi"
    have "write_error (learned_entry s c e) \<noteq> None"
      using upsert_out_of_domain [OF assms(2)] by (simp add: write_error_None)
    then obtain err where "upsert env (learned_entry s c e) st = (Inl (WInvalid err), st)"
      by (auto simp: upsert_def)
    with e assms(3) show "effs = [LogSaveFailed device_id]" by (simp add: adopt_def Let_def)
  qed
qed

lemma out_of_domain_never_learned_witness:
  "store_get 42 (fst (adopt 42 SideMin 140 (PastFloor 140 200) False ok_env True demo_store)) = store_get 42 demo_store"
proof -
  have "140 < GENERIC_MIN_MIREDS \<or> GENERIC_MAX_MIREDS < 140" by (simp add: ct_generic)
  moreover obtain st' effs where
    a: "adopt 42 SideMin 140 (PastFloor 140 200) False ok_env True demo_store = (st', effs)"
    by (cases "adopt 42 SideMin 140 (PastFloor 140 200) False ok_env True demo_store")
  ultimately show ?thesis using out_of_domain_never_learned [OF demo_store_ok(1) _ a] by simp
qed

section \<open>Observation\<close>

lemma observe_cases [consumes 1, case_names idle past shortfall]:
  assumes "learn_observe entry mireds clock env ok lr st = (lr', st', effs)"
  obtains "st' = st" "effs = []"
    | s why where "adopt (ee_device_id entry) s mireds why False env ok st = (st', effs)" "lr' = lr"
        "mireds < fst (effective_ct_bounds (ee_options entry)) \<or> snd (effective_ct_bounds (ee_options entry)) < mireds"
    | s why cmd p where "adopt (ee_device_id entry) s mireds why False env ok st = (st', effs)"
        "lr' = drop_pending (ee_device_id entry) lr"
        "map_of (ln_commanded lr) (ee_device_id entry) = Some cmd"
        "map_of (ln_pending lr) (ee_device_id entry) = Some p"
        "fst clock - cm_at cmd \<le> FRESHNESS_WINDOW_SECONDS"
        "s = (if mireds < cm_mireds cmd then SideMax else SideMin)"
        "SHORTFALL_THRESHOLD_MIREDS \<le> \<bar>mireds - cm_mireds cmd\<bar>"
        "pe_side p = s" "\<bar>pe_mireds p - mireds\<bar> \<le> REPEAT_TOLERANCE_MIREDS"
        "cm_at cmd \<noteq> pe_commanded_at p" "MIN_CONFIRMATION_GAP_SECONDS \<le> snd clock - pe_started_at p"
proof -
  let ?d = "ee_device_id entry"
  obtain lo hi where b: "effective_ct_bounds (ee_options entry) = (lo, hi)" by (cases "effective_ct_bounds (ee_options entry)")
  consider "ee_role entry \<notin> set CT_ROLES" | "ee_role entry \<in> set CT_ROLES" "mireds < lo"
    | "ee_role entry \<in> set CT_ROLES" "\<not> mireds < lo" "hi < mireds"
    | "ee_role entry \<in> set CT_ROLES" "\<not> mireds < lo" "\<not> hi < mireds" "map_of (ln_commanded lr) ?d = None"
    | cmd where "ee_role entry \<in> set CT_ROLES" "\<not> mireds < lo" "\<not> hi < mireds" "map_of (ln_commanded lr) ?d = Some cmd"
    by (cases "map_of (ln_commanded lr) ?d") auto
  then show thesis
  proof cases
    case 1
    with assms that(1) show thesis by (simp add: learn_observe_def)
  next
    case 2
    with assms b that(2) show thesis by (auto simp: learn_observe_def observe_locked_def split: prod.splits)
  next
    case 3
    with assms b that(2) show thesis by (auto simp: learn_observe_def observe_locked_def split: prod.splits)
  next
    case 4
    with assms b that(1) show thesis by (simp add: learn_observe_def observe_locked_def)
  next
    case (5 cmd)
    let ?s = "if mireds - cm_mireds cmd < 0 then SideMax else SideMin"
    show thesis
    proof (cases "FRESHNESS_WINDOW_SECONDS < fst clock - cm_at cmd \<or> \<bar>mireds - cm_mireds cmd\<bar> < SHORTFALL_THRESHOLD_MIREDS")
      case True
      with 5 assms b that(1) show thesis by (auto simp: learn_observe_def observe_locked_def Let_def split: if_splits)
    next
      case False
      with 5 assms b have o: "observe_shortfall ?d ?s mireds cmd (snd clock) env ok lr st = (lr', st', effs)"
        by (simp add: learn_observe_def observe_locked_def Let_def)
      show thesis
      proof (cases "map_of (ln_pending lr) ?d")
        case None
        with o that(1) show thesis by (simp add: observe_shortfall_def Let_def)
      next
        case (Some p)
        show thesis
        proof (cases "pe_side p = ?s \<and> \<bar>pe_mireds p - mireds\<bar> \<le> REPEAT_TOLERANCE_MIREDS
            \<and> cm_at cmd \<noteq> pe_commanded_at p \<and> \<not> snd clock - pe_started_at p < MIN_CONFIRMATION_GAP_SECONDS")
          case True
          with o Some have "adopt ?d ?s mireds (TwoShortfalls ?s mireds) False env ok st = (st', effs)"
            "lr' = drop_pending ?d lr"
            by (auto simp: observe_shortfall_def Let_def split: prod.splits)
          then show thesis by (rule that(3)) (use True False 5 Some in auto)
        next
          case False
          with o Some that(1) show thesis by (auto simp: observe_shortfall_def Let_def split: if_splits)
        qed
      qed
    qed
  qed
qed

text \<open>Evidence rule of the learner: an observation only ever touches the allow-list when the
  reading lies outside the entry's current bounds (the device went further than thought), or
  when it confirms a pending streak: a fresh command missed by at least the threshold, on the
  side of the streak, at the same value up to the tolerance, for a different dispatch than the
  one that started it and no sooner than the confirmation gap.\<close>

theorem observe_evidence:
  assumes "learn_observe entry mireds clock env ok lr st = (lr', st', effs)" "st' \<noteq> st \<or> effs \<noteq> []"
  shows "mireds < fst (effective_ct_bounds (ee_options entry))
     \<or> snd (effective_ct_bounds (ee_options entry)) < mireds
     \<or> (\<exists>cmd p. map_of (ln_commanded lr) (ee_device_id entry) = Some cmd
          \<and> map_of (ln_pending lr) (ee_device_id entry) = Some p
          \<and> fst clock - cm_at cmd \<le> 15 \<and> 10 \<le> \<bar>mireds - cm_mireds cmd\<bar>
          \<and> pe_side p = (if mireds < cm_mireds cmd then SideMax else SideMin)
          \<and> \<bar>pe_mireds p - mireds\<bar> \<le> 1 \<and> pe_commanded_at p \<noteq> cm_at cmd
          \<and> 2 \<le> snd clock - pe_started_at p)"
  using assms(1)
  by (cases rule: observe_cases) (use assms(2) in \<open>auto simp: learner_consts\<close>)

definition demo_learner :: learner where
  "demo_learner = record_commanded 42 380 20 (set_pending 42
     \<lparr>pe_side = SideMax, pe_mireds = 360, pe_commanded_at = 10, pe_started_at = 11\<rparr> learner_init)"

lemma observe_evidence_witness:
  "\<exists>cmd p. map_of (ln_commanded demo_learner) 42 = Some cmd \<and> map_of (ln_pending demo_learner) 42 = Some p
     \<and> pe_commanded_at p \<noteq> cm_at cmd"
proof -
  obtain lr' st' effs where o: "learn_observe demo_entry 360 (21, 21) ok_env True demo_learner demo_store = (lr', st', effs)"
    by (cases "learn_observe demo_entry 360 (21, 21) ok_env True demo_learner demo_store")
  have "snd (snd (learn_observe demo_entry 360 (21, 21) ok_env True demo_learner demo_store)) \<noteq> []" by code_simp
  with o have "effs \<noteq> []" by simp
  moreover have "effective_ct_bounds (ee_options demo_entry) = (200, 400)" "ee_device_id demo_entry = 42" by code_simp+
  ultimately show ?thesis using observe_evidence [OF o] by auto
qed

lemma observe_learner:
  assumes "learn_observe entry mireds clock env ok lr st = (lr', st', effs)"
  shows "ln_commanded lr' = ln_commanded lr
    \<and> (\<forall>k. k \<noteq> ee_device_id entry \<longrightarrow> map_of (ln_pending lr') k = map_of (ln_pending lr) k)"
  using assms
  by (auto simp: learn_observe_def observe_locked_def observe_shortfall_def Let_def drop_pending_def set_pending_def
      split: if_splits option.splits prod.splits)

text \<open>Devices do not interfere: observing a reading of one device, recording a command for it
  or forgetting it leaves the learner's reference and streak and the stored export of every
  other device as they were; after forgetting, neither reference nor streak is left for it.\<close>

theorem devices_independent:
  assumes "store_ok st" "learn_observe entry mireds clock env ok lr st = (lr', st', effs)"
    and "k \<noteq> ee_device_id entry"
  shows "store_get k st' = store_get k st
    \<and> map_of (ln_commanded lr') k = map_of (ln_commanded lr) k
    \<and> map_of (ln_pending lr') k = map_of (ln_pending lr) k
    \<and> map_of (ln_commanded (learn_forget (ee_device_id entry) lr')) k = map_of (ln_commanded lr) k
    \<and> map_of (ln_commanded (record_commanded (ee_device_id entry) m t lr')) k = map_of (ln_commanded lr) k
    \<and> map_of (ln_pending (learn_forget (ee_device_id entry) lr')) k = map_of (ln_pending lr) k
    \<and> map_of (ln_commanded (learn_forget (ee_device_id entry) lr')) (ee_device_id entry) = None
    \<and> map_of (ln_pending (learn_forget (ee_device_id entry) lr')) (ee_device_id entry) = None"
proof -
  have "store_get k st' = store_get k st"
    using assms(2)
  proof (cases rule: observe_cases)
    case (past s why)
    from past(1) assms(1,3) show ?thesis by (cases rule: adopt_cases) auto
  next
    case (shortfall s why cmd p)
    from shortfall(1) assms(1,3) show ?thesis by (cases rule: adopt_cases) auto
  qed simp
  with observe_learner [OF assms(2)] assms(3) show ?thesis
    by (simp add: learn_forget_def record_commanded_def)
qed

lemma devices_independent_witness:
  "store_get 7 (fst (snd (learn_observe demo_entry 360 (21, 21) ok_env True demo_learner demo_store))) = store_get 7 demo_store"
proof -
  obtain lr' st' effs where o: "learn_observe demo_entry 360 (21, 21) ok_env True demo_learner demo_store = (lr', st', effs)"
    by (cases "learn_observe demo_entry 360 (21, 21) ok_env True demo_learner demo_store")
  have "7 \<noteq> ee_device_id demo_entry" by code_simp
  from devices_independent [OF demo_store_ok(1) o this] o show ?thesis by simp
qed

text \<open>A reading past a current bound leaves a pending streak standing, so the two confirmations
  of an adoption need not be consecutive readings, although it is logged as two consecutive
  shortfalls: a streak begun at 360, a reading of 190 below the floor of 200, and a second
  shortfall at 360 adopt 360 as the warm bound.\<close>

theorem streak_survives_interruption:
  "(ee_role entry \<in> set CT_ROLES \<and> mireds < fst (effective_ct_bounds (ee_options entry)) \<longrightarrow>
      fst (learn_observe entry mireds clock env ok lr st) = lr)
   \<and> (let (lr1, st1, _) = learn_observe demo_entry 360 (11, 11) ok_env True
                             (record_commanded 42 380 10 learner_init) demo_store;
          (lr2, st2, _) = learn_observe demo_entry 190 (12, 12) ok_env True lr1 st1;
          (_, _, effs) = learn_observe (the (store_get 42 st2)) 360 (21, 21) ok_env True
                             (record_commanded 42 380 20 lr2) st2
      in LogLearned 42 SideMax 360 2778 (TwoShortfalls SideMax 360) \<in> set effs)"
proof
  show "ee_role entry \<in> set CT_ROLES \<and> mireds < fst (effective_ct_bounds (ee_options entry)) \<longrightarrow>
      fst (learn_observe entry mireds clock env ok lr st) = lr"
    by (cases "effective_ct_bounds (ee_options entry)")
      (auto simp: learn_observe_def observe_locked_def split: prod.split)
qed code_simp

lemma streak_survives_interruption_witness:
  "fst (learn_observe demo_entry 190 (12, 12) ok_env True demo_learner demo_store) = demo_learner"
proof -
  have "ee_role demo_entry \<in> set CT_ROLES \<and> 190 < fst (effective_ct_bounds (ee_options demo_entry))" by code_simp
  then show ?thesis using streak_survives_interruption by blast
qed

end
