(* ===== verification/BridgeOps.thy ===== *)
theory BridgeOps
  imports ExportCatalog BridgeHealth BridgeAttach CtLearner
begin

text \<open>
  The state of the export engine (\<open>export_bridge.py\<close>, class \<open>ExportBridge\<close>) and the operations its
  methods are written in: an operation takes the state to a result or a Python exception, the new
  state, and the effects it had (coroutines handed to the loop, calls of the agent, log lines).
  What the host, the loop, the preferences and the clock answer is an environment.
\<close>

section \<open>The state\<close>

text \<open>An Indigo device as the engine's parts read it.\<close>

record host_device =
  ho_catalog :: catalog_device
  ho_reader :: device
  ho_name :: string
  ho_enabled :: bool
  ho_configured :: bool

datatype skip_reason =
    SkipNoDevice
  | SkipNotExportable "exclusion option"
  | SkipRoleNotOffered string "string list"
  | SkipRoleUnknown string
  | SkipStateUnreadable

record export_bridge =
  eb_client :: "nat option"
  eb_store :: store
  eb_learner :: learner
  eb_latch :: bridge_latches
  eb_reporter :: reporter
  eb_latches :: latches
  eb_prefs :: pydict
  eb_skipped :: "(int \<times> skip_reason) list"
  eb_confirmed_deleted :: "int set"
  eb_wholly_unbridgeable :: "(int \<times> skip_reason) list"
  eb_unreachable_reported :: bool
  eb_refusal_reported :: "string option"
  eb_restart_until :: rat
  eb_restart_notice :: bool
  eb_update_failed :: "int set"
  eb_stopped_keys :: "(int \<times> string set) list"
  eb_no_op :: "(int \<times> declined) list"
  eb_last_count :: int
  eb_pushed :: "(int \<times> pydict) list"
  eb_un_exporting :: bool
  eb_start_after :: bool
  eb_executor :: bool
  eb_stopped :: bool
  eb_submitted :: int
  eb_completed :: int
  eb_queue_warned :: bool
  eb_node_warnings :: "string set"
  eb_drift_reported :: "(string \<times> int \<times> int) set"
  eb_poll_fail_ticks :: int
  eb_window :: pyval
  eb_agent_started :: bool

text \<open>The coroutines handed to the loop; the first number is the client they belong to.\<close>

datatype task =
    TRun nat
  | TClose nat
  | TUnExport nat
  | TUpsert nat endpoint_spec
  | TRemove nat int
  | TReplace nat int
  | TSetState nat int pydict
  | TSetReachable nat int bool
  | TPoll nat
  | TWindow
  | TStopAgent
  | TDispatch bridge_command export_entry handler

text \<open>Log lines: of the life cycle, of devices and commands, of the node.\<close>

datatype life_line =
    ErrAgentStart py_exc
  | WarnAgentStop py_exc
  | InfoConnecting int
  | InfoSwitchedOff
  | InfoUnExport
  | InfoFinishUnExport int
  | InfoReplaced nat
  | WarnDebtUnreadable
  | WarnDebtNotRecorded py_exc
  | WarnDebtNotCleared py_exc
  | WarnLinger py_exc
  | InfoDebtPaid int
  | WarnDroppedCommands int
  | ErrReattach string
  | WarnNoClientReattach
  | InfoExpectingRestart
  | WarnUnreachable int string "string option"

datatype device_line =
    WarnSkipped int skip_reason
  | WarnWhollyUnbridgeable int "(int \<times> skip_reason) list"
  | WarnDeviceUnread int py_exc
  | WarnBattery int
  | ErrUpdateFailed int py_exc
  | WarnStoppedKeys int "string set"
  | WarnHaltedPush int string
  | WarnRecoveryPush int
  | ErrStoreRemove int write_exc
  | InfoDeletedWhileDown int
  | WarnReplacementGone int
  | WarnReplacementUnbuilt int

datatype command_line =
    WarnNotExported string int
  | WarnUnbridgeableCommand string int
  | WarnCommandFailed string int py_exc
  | WarnCommandGone string int
  | WarnCommandUndefined string int
  | WarnNoOp string int declined
  | WarnCorrectUnreadable int py_exc
  | WarnNoTruth int
  | WarnCommandTimeout string int
  | WarnDispatchFailed py_exc
  | WarnQueue int

datatype node_line =
    InfoAttached int bool
  | WarnNode string
  | ErrIdentityUnreadable string
  | ErrMapUnreadable string
  | ErrRefused string string
  | ErrVersionSkew
  | ErrDrift "drift_entry list"
  | InfoCommissioned
  | WarnDecommissioned
  | InfoWindowClosed bool

datatype eff =
    Fired task
  | NotScheduled task py_exc bool
  | CloseClient nat
  | SendAttach nat "endpoint_spec list" bool rat
  | SendRemove nat int
  | SendUpsert nat endpoint_spec
  | AgentStart
  | AgentStop
  | Rearm nat
  | RetryNow nat
  | IndigoCall indigo_call
  | Life life_line
  | Dev device_line
  | Cmd command_line
  | Node node_line
  | HealthEff health_eff
  | LearnEff learn_eff
  | HandlerLog export_log
  | CatalogLog catalog_log

record bridge_env =
  ev_read :: "int \<Rightarrow> host_device py_result"
  ev_commit :: commit_env
  ev_pref_write :: "py_exc option"
  ev_pref_save :: "py_exc option"
  ev_flags :: "nat \<Rightarrow> client_flags"
  ev_new_client :: nat
  ev_submit :: "py_exc option"
  ev_now :: rat
  ev_learn_clock :: "rat \<times> rat"
  ev_health :: health_env
  ev_agent_start :: "py_exc option option"
  ev_agent_stop :: "py_exc option option"
  ev_agent_diagnose :: "string option py_result option"
  ev_plugin_id :: string
  ev_indigo_raises :: "py_exc option"

section \<open>Operations\<close>

type_synonym 'a op = "export_bridge \<Rightarrow> 'a py_result \<times> export_bridge \<times> eff list"

definition ret :: "'a \<Rightarrow> 'a op" where
  "ret x s = (Inr x, s, [])"

definition raise_exc :: "py_exc \<Rightarrow> 'a op" where
  "raise_exc e s = (Inl e, s, [])"

definition bind :: "'a op \<Rightarrow> ('a \<Rightarrow> 'b op) \<Rightarrow> 'b op" where
  "bind m f s = (case m s of
       (Inl e, s1, l1) \<Rightarrow> (Inl e, s1, l1)
     | (Inr x, s1, l1) \<Rightarrow> (case f x s1 of (r, s2, l2) \<Rightarrow> (r, s2, l1 @ l2)))"

text \<open>A block of statements.\<close>

fun block :: "unit op list \<Rightarrow> unit op" where
  "block [] = ret ()"
| "block [m] = m"
| "block (m # ms) = bind m (\<lambda>_. block ms)"

definition gets :: "(export_bridge \<Rightarrow> 'a) \<Rightarrow> 'a op" where
  "gets f s = (Inr (f s), s, [])"

definition upd :: "(export_bridge \<Rightarrow> export_bridge) \<Rightarrow> unit op" where
  "upd f s = (Inr (), f s, [])"

definition tell :: "eff list \<Rightarrow> unit op" where
  "tell l s = (Inr (), s, l)"

text \<open>\<open>try: m except Exception as e: h(e)\<close>.\<close>

definition catch :: "'a op \<Rightarrow> (py_exc \<Rightarrow> 'a op) \<Rightarrow> 'a op" where
  "catch m h s = (case m s of
       (Inl e, s1, l1) \<Rightarrow> (case h e s1 of (r, s2, l2) \<Rightarrow> (r, s2, l1 @ l2))
     | (Inr x, s1, l1) \<Rightarrow> (Inr x, s1, l1))"

definition lift :: "'a py_result \<Rightarrow> 'a op" where
  "lift r s = (r, s, [])"

fun for_each :: "('b \<Rightarrow> unit op) \<Rightarrow> 'b list \<Rightarrow> unit op" where
  "for_each f [] = ret ()"
| "for_each f (x # xs) = bind (f x) (\<lambda>_. for_each f xs)"

text \<open>The results that are not \<open>None\<close>, in order.\<close>

fun collect :: "('b \<Rightarrow> 'a option op) \<Rightarrow> 'b list \<Rightarrow> 'a list op" where
  "collect f [] = ret []"
| "collect f (x # xs) = bind (f x) (\<lambda>y. bind (collect f xs) (\<lambda>ys. ret (case y of None \<Rightarrow> ys | Some v \<Rightarrow> v # ys)))"

text \<open>A part of the state that has its own operations: the reporter, the handlers.\<close>

definition with_reporter :: "(reporter \<Rightarrow> 'a py_result \<times> reporter \<times> health_eff list) \<Rightarrow> 'a op" where
  "with_reporter f s = (case f (eb_reporter s) of (r, hr, l) \<Rightarrow> (r, s\<lparr>eb_reporter := hr\<rparr>, map HealthEff l))"

definition with_latches :: "(latches \<Rightarrow> 'a py_result \<times> latches \<times> export_log list) \<Rightarrow> 'a op" where
  "with_latches f s = (case f (eb_latches s) of (r, lt, l) \<Rightarrow> (r, s\<lparr>eb_latches := lt\<rparr>, map HandlerLog l))"

text \<open>Running the primitive operations.\<close>

named_theorems op_simps \<open>what a composed operation does on a state\<close>

lemma bind_gets [op_simps]: "bind (gets f) g s = g (f s) s"
  by (simp add: bind_def gets_def split: prod.splits)

lemma bind_upd [op_simps]: "bind (upd f) g s = g () (f s)"
  by (simp add: bind_def upd_def split: prod.splits)

lemma bind_ret [op_simps]: "bind (ret x) g s = g x s"
  by (simp add: bind_def ret_def split: prod.splits)

lemma bind_tell [op_simps]: "bind (tell l) g s = (case g () s of (r, s1, l1) \<Rightarrow> (r, s1, l @ l1))"
  by (simp add: bind_def tell_def)

lemma bind_raise [op_simps]: "bind (raise_exc e) g s = (Inl e, s, [])"
  by (simp add: bind_def raise_exc_def)

lemma bind_bind [op_simps]: "bind (bind m f) g s = bind m (\<lambda>x. bind (f x) g) s"
  by (auto simp: bind_def split: prod.splits sum.splits)

lemmas op_runs = op_simps ret_def gets_def upd_def tell_def raise_exc_def

section \<open>Relations kept by operations\<close>

text \<open>A relation between the state before, the state after and the effects, that composes.\<close>

definition satisfies :: "(export_bridge \<Rightarrow> export_bridge \<Rightarrow> eff list \<Rightarrow> bool) \<Rightarrow> 'a op \<Rightarrow> bool" where
  "satisfies Q m = (\<forall>s. Q s (fst (snd (m s))) (snd (snd (m s))))"

lemma satisfiesD: "satisfies Q m \<Longrightarrow> m s = (r, s', l) \<Longrightarrow> Q s s' l"
  unfolding satisfies_def by (metis fst_conv snd_conv)

locale step_relation =
  fixes Q :: "export_bridge \<Rightarrow> export_bridge \<Rightarrow> eff list \<Rightarrow> bool"
  assumes same: "Q s s []"
    and compose: "Q s s1 l1 \<Longrightarrow> Q s1 s2 l2 \<Longrightarrow> Q s s2 (l1 @ l2)"
begin

lemma ret: "satisfies Q (ret x)"
  by (simp add: satisfies_def ret_def same)

lemma raise_exc: "satisfies Q (raise_exc e)"
  by (simp add: satisfies_def raise_exc_def same)

lemma gets: "satisfies Q (gets f)"
  by (simp add: satisfies_def gets_def same)

lemma lift: "satisfies Q (lift r)"
  by (simp add: satisfies_def lift_def same)

lemma bind: "satisfies Q m \<Longrightarrow> (\<And>x. satisfies Q (f x)) \<Longrightarrow> satisfies Q (bind m f)"
  unfolding satisfies_def bind_def
  by (auto split: prod.splits sum.splits) (metis compose fst_conv snd_conv)+

lemma catch: "satisfies Q m \<Longrightarrow> (\<And>e. satisfies Q (h e)) \<Longrightarrow> satisfies Q (catch m h)"
  unfolding satisfies_def catch_def
  by (auto split: prod.splits sum.splits) (metis compose fst_conv snd_conv)+

lemma block: "(\<And>m. m \<in> set ms \<Longrightarrow> satisfies Q m) \<Longrightarrow> satisfies Q (block ms)"
  by (induction ms rule: block.induct) (simp_all add: ret bind)

lemma for_each: "(\<And>x. x \<in> set xs \<Longrightarrow> satisfies Q (f x)) \<Longrightarrow> satisfies Q (for_each f xs)"
  by (induction xs) (simp_all add: ret bind)

lemma collect: "(\<And>x. x \<in> set xs \<Longrightarrow> satisfies Q (f x)) \<Longrightarrow> satisfies Q (collect f xs)"
  by (induction xs) (simp_all add: ret bind)

lemma upd: "(\<And>s. Q s (f s) []) \<Longrightarrow> satisfies Q (upd f)"
  by (simp add: satisfies_def upd_def)

lemma tell: "(\<And>s. Q s s l) \<Longrightarrow> satisfies Q (tell l)"
  by (simp add: satisfies_def tell_def)

lemmas rules = ret raise_exc gets lift bind catch block for_each collect

end

end
