(* ===== verification/ExportBridge.thy ===== *)
theory ExportBridge
  imports BridgeOps
begin

text \<open>
  The export engine (\<open>export_bridge.py\<close>): its life cycle and the un-export debt, the endpoint
  provider, the pushes of device changes, the commands of the ecosystems, the callbacks of the
  client and the watchdog. Each method is one operation of \<open>BridgeOps\<close>; a coroutine is the operation
  that runs once its await is answered.
\<close>

section \<open>Scheduling and preferences\<close>

definition COMMAND_QUEUE_WARN :: int where "COMMAND_QUEUE_WARN = 3"
definition PREF_PENDING_REPLACE_ALL :: string where "PREF_PENDING_REPLACE_ALL = ''matterExportPendingReplaceAll''"
definition PREF_EXPORT_ENABLED :: string where "PREF_EXPORT_ENABLED = ''exportEnabled''"
definition REVIVABLE_HALT_REASONS :: "string list" where
  "REVIVABLE_HALT_REASONS = [''version_skew'', ERR_VERSION_MISMATCH]"
definition EXPECTED_RESTART_WINDOW :: rat where "EXPECTED_RESTART_WINDOW = 30"
definition HEALTH_POLL_FAIL_TICKS :: int where "HEALTH_POLL_FAIL_TICKS = 2"
definition REATTACH_RESULT_HEADROOM :: rat where "REATTACH_RESULT_HEADROOM = 5"

lemma export_pref_keys_differ: "PREF_EXPORT_ENABLED \<noteq> PREF_PENDING_REPLACE_ALL"
  by (simp add: PREF_EXPORT_ENABLED_def PREF_PENDING_REPLACE_ALL_def)

text \<open>\<open>_fire\<close>: whether the coroutine was handed to the loop; the flag is whether \<open>lost\<close> names a
  standing consequence.\<close>

definition fire :: "bridge_env \<Rightarrow> task \<Rightarrow> bool \<Rightarrow> bool op" where
  "fire env t lost = (case ev_submit env of
       None \<Rightarrow> bind (tell [Fired t]) (\<lambda>_. ret True)
     | Some e \<Rightarrow> bind (tell [NotScheduled t e lost]) (\<lambda>_. ret False))"

definition fire_only :: "bridge_env \<Rightarrow> task \<Rightarrow> unit op" where
  "fire_only env t = bind (fire env t False) (\<lambda>_. ret ())"

definition export_enabled :: "export_bridge \<Rightarrow> bool" where
  "export_enabled s = (case dget (eb_prefs s) PREF_EXPORT_ENABLED of
       PNone \<Rightarrow> True
     | PStr t \<Rightarrow> map lower_char (str_strip t) \<notin> {''false'', ''no'', ''off'', ''0''}
     | v \<Rightarrow> truthy v)"

definition pref_write :: "bridge_env \<Rightarrow> (pydict \<Rightarrow> pydict) \<Rightarrow> unit op" where
  "pref_write env f = (case ev_pref_write env of Some e \<Rightarrow> raise_exc e | None \<Rightarrow> upd (\<lambda>s. s\<lparr>eb_prefs := f (eb_prefs s)\<rparr>))"

definition pref_save :: "bridge_env \<Rightarrow> unit op" where
  "pref_save env = (case ev_pref_save env of Some e \<Rightarrow> raise_exc e | None \<Rightarrow> ret ())"

text \<open>\<open>int(raw or 0)\<close>; an \<open>OverflowError\<close> is not one of the two exceptions it answers with 0.\<close>

definition owed_of :: "pydict \<Rightarrow> int py_result" where
  "owed_of prefs = (let raw = dget prefs PREF_PENDING_REPLACE_ALL in py_int (if truthy raw then raw else PInt 0))"

definition pending_replace_all :: "int op" where
  "pending_replace_all = bind (gets eb_prefs) (\<lambda>prefs. case owed_of prefs of
       Inr n \<Rightarrow> ret n
     | Inl e \<Rightarrow> if e = TypeError \<or> e = ValueError then bind (tell [Life WarnDebtUnreadable]) (\<lambda>_. ret 0) else raise_exc e)"

definition record_pending_replace_all :: "bridge_env \<Rightarrow> int \<Rightarrow> unit op" where
  "record_pending_replace_all env removing = bind pending_replace_all (\<lambda>old.
     let owed = max old removing
     in if owed \<le> 0 then ret ()
        else catch (block [pref_write env (AList.update PREF_PENDING_REPLACE_ALL (PInt owed)), pref_save env])
               (\<lambda>e. tell [Life (WarnDebtNotRecorded e)]))"

definition clear_pending_replace_all :: "bridge_env \<Rightarrow> unit op" where
  "clear_pending_replace_all env =
     catch (block [pref_write env (AList.delete PREF_PENDING_REPLACE_ALL), pref_save env])
       (\<lambda>e. tell [Life (WarnDebtNotCleared e)])"

section \<open>The agent\<close>

definition ensure_agent :: "bridge_env \<Rightarrow> unit op" where
  "ensure_agent env = (case ev_agent_start env of
       None \<Rightarrow> ret ()
     | Some r \<Rightarrow> block [upd (\<lambda>s. s\<lparr>eb_agent_started := True\<rparr>),
                       tell (AgentStart # (case r of None \<Rightarrow> [] | Some e \<Rightarrow> [Life (ErrAgentStart e)]))])"

definition stop_agent :: "bridge_env \<Rightarrow> unit op" where
  "stop_agent env = (case ev_agent_stop env of
       None \<Rightarrow> ret ()
     | Some r \<Rightarrow> bind (gets eb_agent_started) (\<lambda>started.
         if \<not> started then ret ()
         else block [upd (\<lambda>s. s\<lparr>eb_agent_started := False\<rparr>),
                     tell (AgentStop # (case r of None \<Rightarrow> [] | Some e \<Rightarrow> [Life (WarnAgentStop e)]))]))"

definition note_agent_stopped :: "unit op" where
  "note_agent_stopped = upd (\<lambda>s. s\<lparr>eb_agent_started := False\<rparr>)"

section \<open>The life cycle\<close>

definition expect_restart :: "bridge_env \<Rightarrow> unit op" where
  "expect_restart env = upd (\<lambda>s. s\<lparr>eb_restart_until := ev_now env + EXPECTED_RESTART_WINDOW, eb_restart_notice := False\<rparr>)"

definition cancel_expected_restart :: "unit op" where
  "cancel_expected_restart = upd (\<lambda>s. s\<lparr>eb_restart_until := 0, eb_restart_notice := False\<rparr>)"

definition restart_expected :: "bridge_env \<Rightarrow> export_bridge \<Rightarrow> bool" where
  "restart_expected env s = (ev_now env < eb_restart_until s)"

definition new_client :: "nat \<Rightarrow> export_bridge \<Rightarrow> export_bridge" where
  "new_client c s = s\<lparr>eb_client := Some c, eb_unreachable_reported := False, eb_refusal_reported := None,
     eb_latch := (eb_latch s)\<lparr>bl_disconnect_ticks := 0, bl_halted_reported := False, bl_recovery_reported := False\<rparr>\<rparr>"

definition start :: "bridge_env \<Rightarrow> unit op" where
  "start env = bind (gets eb_un_exporting) (\<lambda>busy.
     if busy then upd (\<lambda>s. s\<lparr>eb_start_after := True\<rparr>)
     else bind (gets eb_client) (\<lambda>client.
       if client \<noteq> None then ret ()
       else bind (gets export_enabled) (\<lambda>on.
         if \<not> on then ret ()
         else block
           [ensure_agent env,
            upd (new_client (ev_new_client env)),
            bind (fire env (TRun (ev_new_client env)) True) (\<lambda>_. ret ()),
            bind (gets (\<lambda>s. int (store_len (eb_store s)))) (\<lambda>n. tell [Life (InfoConnecting n)])])))"

definition stop :: "unit op" where
  "stop = block
     [cancel_expected_restart,
      upd (\<lambda>s. s\<lparr>eb_stopped := True\<rparr>),
      bind (gets eb_client) (\<lambda>client. bind (gets eb_executor) (\<lambda>executor. block
        [upd (\<lambda>s. s\<lparr>eb_client := None, eb_executor := False\<rparr>),
         bind (gets (\<lambda>s. max 0 (eb_submitted s - eb_completed s))) (\<lambda>dropped.
           if executor \<and> dropped \<noteq> 0 then tell [Life (WarnDroppedCommands dropped)] else ret ()),
         (case client of None \<Rightarrow> ret () | Some c \<Rightarrow> tell [CloseClient c])]))]"

definition stop_soon :: "bridge_env \<Rightarrow> unit op" where
  "stop_soon env = bind (gets eb_client) (\<lambda>client. block
     [upd (\<lambda>s. s\<lparr>eb_client := None\<rparr>), (case client of None \<Rightarrow> ret () | Some c \<Rightarrow> fire_only env (TClose c))])"

text \<open>\<open>retry_now\<close>; \<open>poke\<close> is what the client's own method answers.\<close>

definition bridge_retry_now :: "(nat \<Rightarrow> bool) \<Rightarrow> bool op" where
  "bridge_retry_now poke = bind (gets eb_client) (\<lambda>client. case client of
       None \<Rightarrow> ret False
     | Some c \<Rightarrow> bind (tell [RetryNow c]) (\<lambda>_. ret (poke c)))"

definition revive_after_install :: "bridge_env \<Rightarrow> bool op" where
  "revive_after_install env = bind (gets eb_client) (\<lambda>client. case client of
       None \<Rightarrow> ret False
     | Some c \<Rightarrow>
         (let flags = ev_flags env c
          in if \<not> cf_halted flags \<or> cf_halted_reason flags \<notin> Some ` set REVIVABLE_HALT_REASONS then ret False
             else bind (block [upd (\<lambda>s. s\<lparr>eb_client := None\<rparr>), tell [Life (InfoReplaced c), CloseClient c], start env])
                    (\<lambda>_. ret True)))"

text \<open>What follows an un-export, whether it ran or could not be scheduled: a deferred start is made up.\<close>

definition release_un_export :: "bridge_env \<Rightarrow> unit op \<Rightarrow> unit op" where
  "release_un_export env otherwise = block
     [upd (\<lambda>s. s\<lparr>eb_un_exporting := False\<rparr>),
      bind (gets eb_start_after) (\<lambda>again.
        if again then block [upd (\<lambda>s. s\<lparr>eb_start_after := False\<rparr>), start env] else otherwise)]"

definition replace_all_then_stop :: "bridge_env \<Rightarrow> int \<Rightarrow> unit op" where
  "replace_all_then_stop env removing = bind (gets eb_client) (\<lambda>client. case client of
       None \<Rightarrow> ret ()
     | Some c \<Rightarrow> block
         [upd (\<lambda>s. s\<lparr>eb_client := None, eb_un_exporting := True, eb_pushed := []\<rparr>),
          record_pending_replace_all env removing,
          tell [Life InfoUnExport],
          bind (fire env (TUnExport c) True) (\<lambda>ok. if ok then ret () else release_un_export env (ret ()))])"

datatype attach_outcome = AttachLands | AttachFails py_exc | AttachCancelled

text \<open>The coroutine \<open>_un_export\<close>, with what its attach meets.\<close>

definition un_export :: "bridge_env \<Rightarrow> nat \<Rightarrow> attach_outcome \<Rightarrow> unit op" where
  "un_export env c outcome = block
     [catch (bind pending_replace_all (\<lambda>owed. block
          [tell [SendAttach c [] True (attach_timeout_for owed)],
           (case outcome of AttachLands \<Rightarrow> clear_pending_replace_all env | AttachFails e \<Rightarrow> raise_exc e | AttachCancelled \<Rightarrow> ret ())]))
        (\<lambda>e. tell [Life (WarnLinger e)]),
      tell [CloseClient c],
      release_un_export env (stop_agent env)]"

definition health_unknown :: "bridge_env \<Rightarrow> unit op" where
  "health_unknown env = with_reporter (\<lambda>hr. case mark_health_unknown (ev_health env) hr of (hr1, l) \<Rightarrow> (Inr (), hr1, l))"

definition exports_changed :: "bridge_env \<Rightarrow> unit op" where
  "exports_changed env = bind (gets (\<lambda>s. (int (store_len (eb_store s)), eb_last_count s, export_enabled s, eb_client s)))
     (\<lambda>(count, removing, on, client). block
       [upd (\<lambda>s. s\<lparr>eb_skipped := [], eb_last_count := count\<rparr>),
        (if \<not> on then block
           [(if client \<noteq> None then block
               [tell [Life InfoSwitchedOff], stop, upd (\<lambda>s. s\<lparr>eb_stopped := False\<rparr>), health_unknown env] else ret ()),
            stop_agent env]
         else if count \<noteq> 0 then start env
         else if client \<noteq> None then replace_all_then_stop env removing
         else bind pending_replace_all (\<lambda>owed. if owed \<noteq> 0
                then block [bind pending_replace_all (\<lambda>n. tell [Life (InfoFinishUnExport n)]), start env] else ret ()))])"

section \<open>The endpoint provider\<close>

definition absent_exc :: "py_exc \<Rightarrow> bool" where
  "absent_exc e = (e \<in> {KeyError, TypeError, ValueError, OtherException ''IndexError''})"

text \<open>\<open>_indigo_device\<close>: both an absent device and a failed read are \<open>None\<close>.\<close>

definition indigo_device :: "bridge_env \<Rightarrow> int \<Rightarrow> host_device option op" where
  "indigo_device env device_id = (case ev_read env device_id of
       Inr d \<Rightarrow> ret (Some d)
     | Inl e \<Rightarrow> if absent_exc e then ret None else bind (tell [Dev (WarnDeviceUnread device_id e)]) (\<lambda>_. ret None))"

definition reachable_of :: "host_device \<Rightarrow> bool" where
  "reachable_of d = (ho_enabled d \<and> ho_configured d)"

definition has_battery :: "host_device \<Rightarrow> bool" where
  "has_battery d = (attr (ho_reader d) ''batteryLevel'' \<noteq> PNone)"

definition drop_pushed :: "int \<Rightarrow> export_bridge \<Rightarrow> export_bridge" where
  "drop_pushed device_id s = s\<lparr>eb_pushed := AList.delete device_id (eb_pushed s)\<rparr>"

definition skip :: "int \<Rightarrow> skip_reason \<Rightarrow> 'a option op" where
  "skip device_id why = bind (block
     [upd (drop_pushed device_id),
      bind (gets (\<lambda>s. map_of (eb_skipped s) device_id)) (\<lambda>before.
        if before = Some why then ret ()
        else block [upd (\<lambda>s. s\<lparr>eb_skipped := AList.update device_id why (eb_skipped s)\<rparr>), tell [Dev (WarnSkipped device_id why)]])])
     (\<lambda>_. ret None)"

definition spec_of :: "export_entry \<Rightarrow> host_device \<Rightarrow> pydict \<Rightarrow> endpoint_spec" where
  "spec_of entry d states =
     \<lparr>es_device_id = ee_device_id entry, es_role = PStr (ee_role entry),
      es_label = PStr (label_for entry (ho_name d)), es_reachable = reachable_of d, es_states = states,
      es_options = wire_options (ee_options entry), es_battery = has_battery d,
      es_published_as = (case ee_published_as entry of Some p \<Rightarrow> if p = [] then published_id_for (ee_device_id entry) 1 else p
                         | None \<Rightarrow> published_id_for (ee_device_id entry) 1)\<rparr>"

definition spec_for :: "bridge_env \<Rightarrow> export_entry \<Rightarrow> endpoint_spec option op" where
  "spec_for env entry =
     (let device_id = ee_device_id entry
      in bind (indigo_device env device_id) (\<lambda>found. case found of
           None \<Rightarrow> bind (upd (\<lambda>s. s\<lparr>eb_confirmed_deleted := insert device_id (eb_confirmed_deleted s)\<rparr>))
                      (\<lambda>_. skip device_id SkipNoDevice)
         | Some d \<Rightarrow>
             (case classify (ho_catalog d) (ev_plugin_id env) (PDict (ee_options entry)) of
                (verdict, logs) \<Rightarrow> bind (tell (map CatalogLog logs)) (\<lambda>_. case verdict of
                    Excluded reason \<Rightarrow> skip device_id (SkipNotExportable (Some reason))
                  | MappableDevice _ \<Rightarrow> skip device_id (SkipNotExportable None)
                  | EligibleDevice roles _ \<Rightarrow>
                      if ee_role entry \<notin> set roles then skip device_id (SkipRoleNotOffered (ee_role entry) roles)
                      else (case handler_for (ee_role entry) of
                          None \<Rightarrow> skip device_id (SkipRoleUnknown (ee_role entry))
                        | Some h \<Rightarrow> catch
                            (bind (with_latches (published_states h (ho_reader d) (ee_options entry))) (\<lambda>states.
                               bind (upd (\<lambda>s. s\<lparr>eb_skipped := AList.delete device_id (eb_skipped s),
                                                eb_pushed := AList.update device_id states (eb_pushed s)\<rparr>))
                                 (\<lambda>_. ret (Some (spec_of entry d states)))))
                            (\<lambda>_. skip device_id SkipStateUnreadable))))))"

definition warn_if_wholly_unbridgeable :: "int \<Rightarrow> endpoint_spec list \<Rightarrow> unit op" where
  "warn_if_wholly_unbridgeable declared specs =
     (if specs \<noteq> [] \<or> declared \<le> 0 then upd (\<lambda>s. s\<lparr>eb_wholly_unbridgeable := []\<rparr>)
      else bind (gets (\<lambda>s. (sort_key fst (eb_skipped s), eb_wholly_unbridgeable s))) (\<lambda>(reasons, before).
        if before = reasons then ret ()
        else block [upd (\<lambda>s. s\<lparr>eb_wholly_unbridgeable := reasons\<rparr>), tell [Dev (WarnWhollyUnbridgeable declared reasons)]]))"

definition endpoint_specs :: "bridge_env \<Rightarrow> endpoint_spec list op" where
  "endpoint_specs env = bind (gets (\<lambda>s. store_all (eb_store s))) (\<lambda>entries.
     bind (collect (spec_for env) entries) (\<lambda>specs.
       bind (warn_if_wholly_unbridgeable (int (length entries)) specs) (\<lambda>_. ret specs)))"

definition declared_export_count :: "export_bridge \<Rightarrow> int" where
  "declared_export_count s = int (length (store_all (eb_store s)))"

section \<open>Indigo to the node\<close>

definition live_client :: "bridge_env \<Rightarrow> int \<Rightarrow> nat option op" where
  "live_client env device_id = bind (gets eb_client) (\<lambda>client. case client of
       None \<Rightarrow> ret None
     | Some c \<Rightarrow>
         (let flags = ev_flags env c
          in if cf_attached flags then ret (Some c)
             else if cf_halted flags then
               bind (gets (bl_halted_reported \<circ> eb_latch)) (\<lambda>said. if said then ret None
                 else bind (block [upd (\<lambda>s. s\<lparr>eb_latch := (eb_latch s)\<lparr>bl_halted_reported := True\<rparr>\<rparr>),
                                   tell [Dev (WarnHaltedPush device_id (halted_text flags))]]) (\<lambda>_. ret None))
             else if cf_recovery flags then
               bind (gets (bl_recovery_reported \<circ> eb_latch)) (\<lambda>said. if said then ret None
                 else bind (block [upd (\<lambda>s. s\<lparr>eb_latch := (eb_latch s)\<lparr>bl_recovery_reported := True\<rparr>\<rparr>),
                                   tell [Dev (WarnRecoveryPush device_id)]]) (\<lambda>_. ret None))
             else ret None))"

definition bridge_upsert :: "bridge_env \<Rightarrow> int \<Rightarrow> unit op" where
  "bridge_upsert env device_id = bind (live_client env device_id) (\<lambda>client. case client of
       None \<Rightarrow> ret ()
     | Some c \<Rightarrow> bind (gets (\<lambda>s. store_get device_id (eb_store s))) (\<lambda>entry. case entry of
         None \<Rightarrow> ret ()
       | Some e \<Rightarrow> bind (spec_for env e) (\<lambda>spec. case spec of
           None \<Rightarrow> ret ()
         | Some sp \<Rightarrow> fire_only env (TUpsert c sp))))"

definition forget_device :: "int \<Rightarrow> export_bridge \<Rightarrow> export_bridge" where
  "forget_device d s = s\<lparr>eb_skipped := AList.delete d (eb_skipped s), eb_update_failed := eb_update_failed s - {d},
     eb_stopped_keys := AList.delete d (eb_stopped_keys s), eb_no_op := AList.delete d (eb_no_op s),
     eb_pushed := AList.delete d (eb_pushed s), eb_learner := learn_forget d (eb_learner s)\<rparr>"

definition bridge_remove :: "bridge_env \<Rightarrow> int \<Rightarrow> unit op" where
  "bridge_remove env device_id = bind (upd (forget_device device_id)) (\<lambda>_.
     bind (live_client env device_id) (\<lambda>client. case client of
       None \<Rightarrow> ret ()
     | Some c \<Rightarrow> fire_only env (TRemove c device_id)))"

definition bridge_replace :: "bridge_env \<Rightarrow> int \<Rightarrow> unit op" where
  "bridge_replace env device_id = bind (live_client env device_id) (\<lambda>client. case client of
       None \<Rightarrow> ret ()
     | Some c \<Rightarrow> bind (fire env (TReplace c device_id) True) (\<lambda>_. ret ()))"

text \<open>The coroutine \<open>_recreate\<close>, with what its two awaits meet.\<close>

definition recreate :: "bridge_env \<Rightarrow> nat \<Rightarrow> int \<Rightarrow> unit py_result \<Rightarrow> unit py_result \<Rightarrow> unit op" where
  "recreate env c device_id removed added = bind (tell [SendRemove c device_id]) (\<lambda>_. bind (lift removed) (\<lambda>_.
     bind (gets (\<lambda>s. store_get device_id (eb_store s))) (\<lambda>entry. case entry of
       None \<Rightarrow> tell [Dev (WarnReplacementGone device_id)]
     | Some e \<Rightarrow> bind (spec_for env e) (\<lambda>spec. case spec of
         None \<Rightarrow> tell [Dev (WarnReplacementUnbuilt device_id)]
       | Some sp \<Rightarrow> bind (tell [SendUpsert c sp]) (\<lambda>_. lift added)))))"

text \<open>\<open>_note_pushed\<close>: the push is merged, and when it carries a mode key the other mode keys go.\<close>

definition merged :: "(string \<times> 'v) list \<Rightarrow> (string \<times> 'v) list \<Rightarrow> (string \<times> 'v) list" where
  "merged snapshot states = fold (\<lambda>(k, v). AList.update k v) states snapshot"

definition note_pushed_states :: "handler \<Rightarrow> pydict \<Rightarrow> pydict \<Rightarrow> pydict" where
  "note_pushed_states h snapshot states =
     (let modes = mode_alternating_keys h; now = filter (\<lambda>k. k \<in> fst ` set states) modes
      in if now = [] then merged snapshot states
         else filter (\<lambda>(k, _). k \<notin> set modes \<or> k \<in> set now) (merged snapshot states))"

definition note_pushed :: "int \<Rightarrow> pydict \<Rightarrow> handler \<Rightarrow> unit op" where
  "note_pushed device_id states h = upd (\<lambda>s. s\<lparr>eb_pushed := AList.update device_id
     (note_pushed_states h (case map_of (eb_pushed s) device_id of None \<Rightarrow> [] | Some d \<Rightarrow> d) states) (eb_pushed s)\<rparr>)"

definition report_stopped_keys :: "int \<Rightarrow> string list \<Rightarrow> unit op" where
  "report_stopped_keys device_id stopped =
     (if stopped = [] then upd (\<lambda>s. s\<lparr>eb_stopped_keys := AList.delete device_id (eb_stopped_keys s)\<rparr>)
      else bind (gets (\<lambda>s. map_of (eb_stopped_keys s) device_id)) (\<lambda>before.
        if before = Some (set stopped) then ret ()
        else block [upd (\<lambda>s. s\<lparr>eb_stopped_keys := AList.update device_id (set stopped) (eb_stopped_keys s)\<rparr>),
                    tell [Dev (WarnStoppedKeys device_id (set stopped))]]))"

text \<open>One reading to the learner; an adoption republishes the device through \<open>upsert\<close>.\<close>

definition observe_reading :: "bridge_env \<Rightarrow> export_entry \<Rightarrow> int \<Rightarrow> int list op" where
  "observe_reading env entry mireds s =
     (case learn_observe entry mireds (ev_learn_clock env) (ev_commit env) True (eb_learner s) (eb_store s) of
        (lr, st, l) \<Rightarrow> (Inr (concat (map (\<lambda>e. case e of Republish d \<Rightarrow> [d] | _ \<Rightarrow> []) l)),
                       s\<lparr>eb_learner := lr, eb_store := st\<rparr>, map LearnEff l))"

definition feed_ct_learner :: "bridge_env \<Rightarrow> export_entry \<Rightarrow> host_device \<Rightarrow> handler \<Rightarrow> unit op" where
  "feed_ct_learner env entry d h = catch
     (bind (with_latches (published_states h (ho_reader d) (ee_options entry))) (\<lambda>states.
        case dget states ''colorTempMireds'' of
          PInt mireds \<Rightarrow> bind (observe_reading env entry mireds) (\<lambda>ids. for_each (bridge_upsert env) ids)
        | _ \<Rightarrow> ret ()))
     (\<lambda>_. ret ())"

definition push_changes :: "bridge_env \<Rightarrow> nat \<Rightarrow> export_entry \<Rightarrow> int \<Rightarrow> host_device \<Rightarrow> handler \<Rightarrow> unit op" where
  "push_changes env c entry device_id d h = bind (gets (\<lambda>s. map_of (eb_pushed s) device_id)) (\<lambda>pushed.
     bind (catch (bind (with_latches (diff_from h pushed (ho_reader d) (ee_options entry))) (\<lambda>df. ret (Some df)))
        (\<lambda>e. bind (gets eb_update_failed) (\<lambda>failed. if device_id \<in> failed then ret None
           else bind (block [upd (\<lambda>s. s\<lparr>eb_update_failed := insert device_id (eb_update_failed s)\<rparr>),
                             tell [Dev (ErrUpdateFailed device_id e)]]) (\<lambda>_. ret None))))
     (\<lambda>found. case found of
         None \<Rightarrow> ret ()
       | Some df \<Rightarrow> block
           [upd (\<lambda>s. s\<lparr>eb_update_failed := eb_update_failed s - {device_id}\<rparr>),
            report_stopped_keys device_id (sd_stopped df),
            (if sd_changed df = [] then ret ()
             else block [note_pushed device_id (sd_changed df) h, fire_only env (TSetState c device_id (sd_changed df))])]))"

definition device_updated :: "bridge_env \<Rightarrow> int \<Rightarrow> host_device \<Rightarrow> host_device \<Rightarrow> unit op" where
  "device_updated env device_id orig new = bind (gets (\<lambda>s. store_get device_id (eb_store s))) (\<lambda>found. case found of
       None \<Rightarrow> ret ()
     | Some entry \<Rightarrow> (case handler_for (ee_role entry) of
         None \<Rightarrow> ret ()
       | Some h \<Rightarrow> bind (live_client env device_id) (\<lambda>client. case client of
           None \<Rightarrow> ret ()
         | Some c \<Rightarrow> bind (feed_ct_learner env entry new h) (\<lambda>_.
             if has_battery new \<and> \<not> has_battery orig then block [tell [Dev (WarnBattery device_id)], bridge_upsert env device_id]
             else block
               [(if ee_name_override entry = None \<and> ho_name orig \<noteq> ho_name new then bridge_upsert env device_id
                 else if reachable_of orig \<noteq> reachable_of new then fire_only env (TSetReachable c device_id (reachable_of new))
                 else ret ()),
                push_changes env c entry device_id new h]))))"

section \<open>The node to Indigo\<close>

definition on_command :: "bridge_env \<Rightarrow> bridge_command \<Rightarrow> unit op" where
  "on_command env cmd = bind (gets (\<lambda>s. store_get (bc_device_id cmd) (eb_store s))) (\<lambda>found. case found of
       None \<Rightarrow> tell [Cmd (WarnNotExported (bc_command cmd) (bc_device_id cmd))]
     | Some entry \<Rightarrow> (case handler_for (ee_role entry) of
         None \<Rightarrow> tell [Cmd (WarnUnbridgeableCommand (bc_command cmd) (bc_device_id cmd))]
       | Some h \<Rightarrow> fire_only env (TDispatch cmd entry h)))"

text \<open>\<open>_dispatch_off_loop\<close> up to its await: whether a worker took the command.\<close>

definition dispatch_off_loop :: "bool op" where
  "dispatch_off_loop = bind (gets eb_stopped) (\<lambda>stopped. if stopped then ret False
     else bind (upd (\<lambda>s. s\<lparr>eb_executor := True, eb_submitted := eb_submitted s + 1\<rparr>)) (\<lambda>_. ret True))"

definition dispatch_timed_out :: "bridge_command \<Rightarrow> unit op" where
  "dispatch_timed_out cmd = tell [Cmd (WarnCommandTimeout (bc_command cmd) (bc_device_id cmd))]"

definition note_command_done :: "py_exc option \<Rightarrow> unit op" where
  "note_command_done failure = block
     [upd (\<lambda>s. s\<lparr>eb_completed := eb_completed s + 1\<rparr>),
      (case failure of None \<Rightarrow> ret () | Some e \<Rightarrow> tell [Cmd (WarnDispatchFailed e)])]"

definition report_no_op :: "string \<Rightarrow> int \<Rightarrow> declined \<Rightarrow> unit op" where
  "report_no_op command device_id why = bind (gets (\<lambda>s. map_of (eb_no_op s) device_id)) (\<lambda>before.
     if before = Some why then ret ()
     else block [upd (\<lambda>s. s\<lparr>eb_no_op := AList.update device_id why (eb_no_op s)\<rparr>), tell [Cmd (WarnNoOp command device_id why)]])"

definition correct_device :: "bridge_env \<Rightarrow> handler \<Rightarrow> host_device \<Rightarrow> int \<Rightarrow> pydict \<Rightarrow> unit op" where
  "correct_device env h d device_id options = bind (live_client env device_id) (\<lambda>client. case client of
       None \<Rightarrow> ret ()
     | Some c \<Rightarrow> bind (catch (bind (with_latches (states_for h (ho_reader d) options)) (\<lambda>st. ret (Some st)))
           (\<lambda>e. bind (tell [Cmd (WarnCorrectUnreadable device_id e)]) (\<lambda>_. ret None)))
         (\<lambda>found. case found of
             None \<Rightarrow> ret ()
           | Some states \<Rightarrow> if states = [] then tell [Cmd (WarnNoTruth device_id)]
               else block [note_pushed device_id states h, fire_only env (TSetState c device_id states)]))"

definition push_commanded :: "bridge_env \<Rightarrow> bridge_command \<Rightarrow> handler \<Rightarrow> pydict \<Rightarrow> unit op" where
  "push_commanded env cmd h commanded = (let device_id = bc_device_id cmd in block
     [(if bc_command cmd = ''setColorTemp'' then (case dget commanded ''colorTempMireds'' of
          PInt n \<Rightarrow> upd (\<lambda>s. s\<lparr>eb_learner := record_commanded device_id n (fst (ev_learn_clock env)) (eb_learner s)\<rparr>)
        | _ \<Rightarrow> ret ()) else ret ()),
      bind (live_client env device_id) (\<lambda>client. case client of
        None \<Rightarrow> ret ()
      | Some c \<Rightarrow> block [note_pushed device_id commanded h, fire_only env (TSetState c device_id commanded)])])"

definition dispatch_to :: "bridge_env \<Rightarrow> handler \<Rightarrow> bridge_command \<Rightarrow> host_device \<Rightarrow> pydict \<Rightarrow> dispatch_result op" where
  "dispatch_to env h cmd d options s =
     (case dispatch_command h (bc_command cmd) (bc_args cmd) (ho_reader d) options (ev_indigo_raises env) (eb_latches s) of
        (r, lt, logs, call) \<Rightarrow> (Inr r, s\<lparr>eb_latches := lt\<rparr>,
          map HandlerLog logs @ (case call of None \<Rightarrow> [] | Some k \<Rightarrow> [IndigoCall k])))"

definition apply_command :: "bridge_env \<Rightarrow> bridge_command \<Rightarrow> export_entry \<Rightarrow> handler \<Rightarrow> unit op" where
  "apply_command env cmd entry h =
     (let device_id = bc_device_id cmd; command = bc_command cmd
      in bind (indigo_device env device_id) (\<lambda>found. case found of
           None \<Rightarrow> tell [Cmd (WarnCommandGone command device_id)]
         | Some d \<Rightarrow> bind (dispatch_to env h cmd d (ee_options entry)) (\<lambda>outcome. case outcome of
             DispatchRaised e \<Rightarrow> block [tell [Cmd (WarnCommandFailed command device_id e)],
                                      correct_device env h d device_id (ee_options entry)]
           | DispatchRefused \<Rightarrow> tell [Cmd (WarnCommandUndefined command device_id)]
           | DispatchDeclined why \<Rightarrow> report_no_op command device_id why
           | DispatchDone \<Rightarrow> bind (upd (\<lambda>s. s\<lparr>eb_no_op := AList.delete device_id (eb_no_op s)\<rparr>)) (\<lambda>_.
               bind (lift (commanded_states h command (bc_args cmd))) (\<lambda>commanded.
                 if commanded = [] then ret () else push_commanded env cmd h commanded)))))"

text \<open>One device confirmed deleted: the allow-list entry goes, then the accessory.\<close>

definition store_remove_op :: "bridge_env \<Rightarrow> int \<Rightarrow> unit op" where
  "store_remove_op env device_id s = (case store_remove (ev_commit env) device_id (eb_store s) of
       (r, st) \<Rightarrow> (Inr (), s\<lparr>eb_store := st\<rparr>, (case r of Inl e \<Rightarrow> [Dev (ErrStoreRemove device_id e)] | Inr _ \<Rightarrow> [])))"

definition purge_device :: "bridge_env \<Rightarrow> int \<Rightarrow> unit op" where
  "purge_device env device_id = block
     [store_remove_op env device_id, tell [Dev (InfoDeletedWhileDown device_id)], bridge_remove env device_id]"

definition purge_confirmed_deleted :: "bridge_env \<Rightarrow> unit op" where
  "purge_confirmed_deleted env = bind (gets (\<lambda>s. sorted_list_of_set (eb_confirmed_deleted s))) (\<lambda>ids. block
     [upd (\<lambda>s. s\<lparr>eb_confirmed_deleted := {}\<rparr>), for_each (purge_device env) ids])"

section \<open>Callbacks of the client\<close>

definition report_node_warnings :: "status_report \<Rightarrow> unit op" where
  "report_node_warnings status =
     (let warnings = set (sr_warnings status)
      in if warnings = {} then upd (\<lambda>s. s\<lparr>eb_node_warnings := {}\<rparr>)
         else bind (gets eb_node_warnings) (\<lambda>before. if warnings = before then ret ()
           else block [upd (\<lambda>s. s\<lparr>eb_node_warnings := warnings\<rparr>),
                       tell (map (Node \<circ> WarnNode) (sorted_list_of_set warnings))]))"

definition health_verdict :: "bridge_env \<Rightarrow> status_report \<Rightarrow> unit op" where
  "health_verdict env status = block
     [with_reporter (apply_subscription_churn (ev_health env) (Some (sr_churn status)) (sr_fabrics status)),
      with_reporter (\<lambda>hr. case apply_session_hygiene (Some (sr_hygiene status)) hr of (hr1, l) \<Rightarrow> (Inr (), hr1, l))]"

definition clear_outage :: "status_report \<Rightarrow> export_bridge \<Rightarrow> export_bridge" where
  "clear_outage status s = s\<lparr>eb_poll_fail_ticks := 0, eb_unreachable_reported := False, eb_refusal_reported := None,
     eb_restart_until := 0, eb_restart_notice := False,
     eb_latch := \<lparr>bl_disconnect_ticks = 0, bl_halted_reported = False, bl_recovery_reported = False,
                  bl_fabrics = Some (sr_fabrics status)\<rparr>\<rparr>"

definition discharge_debt :: "bridge_env \<Rightarrow> unit op" where
  "discharge_debt env = bind pending_replace_all (\<lambda>owed. if owed = 0 then ret () else block
     [bind pending_replace_all (\<lambda>n. block [clear_pending_replace_all env, tell [Life (InfoDebtPaid n)]]),
      bind (gets (\<lambda>s. store_len (eb_store s))) (\<lambda>n. if n = 0
        then block [stop_soon env, fire_only env TStopAgent] else ret ())])"

definition on_attached :: "bridge_env \<Rightarrow> status_report \<Rightarrow> bool \<Rightarrow> unit op" where
  "on_attached env status carried = block
     [purge_confirmed_deleted env,
      upd (clear_outage status),
      fire_only env TWindow,
      tell [Node (InfoAttached (sr_endpoint_count status) (sr_commissioned status))],
      report_node_warnings status,
      health_verdict env status,
      (if carried then discharge_debt env else ret ())]"

definition on_attach_refused :: "string \<Rightarrow> string \<Rightarrow> unit op" where
  "on_attach_refused code details = bind cancel_expected_restart (\<lambda>_.
     if code = ERR_ENDPOINT_MAP_INVALID then
       tell [Node (if sublist REFUSE_IDENTITY_UNREADABLE details then ErrIdentityUnreadable details else ErrMapUnreadable details)]
     else if code \<in> fst ` set TERMINAL_ATTACH_ERRORS then tell [Node (ErrRefused code details)]
     else bind (gets eb_refusal_reported) (\<lambda>before. if before = Some code then ret ()
       else block [upd (\<lambda>s. s\<lparr>eb_refusal_reported := Some code\<rparr>), tell [Node (ErrRefused code details)]]))"

definition on_version_skew :: "unit op" where
  "on_version_skew = tell [Node ErrVersionSkew]"

definition on_drift_detected :: "drift_entry list \<Rightarrow> unit op" where
  "on_drift_detected drift =
     (let seen = set (map (\<lambda>d. (dr_unique_id d, dr_expected d, dr_actual d)) drift)
      in bind (gets eb_drift_reported) (\<lambda>before. if seen = before then ret ()
           else block [upd (\<lambda>s. s\<lparr>eb_drift_reported := seen\<rparr>), tell [Node (ErrDrift drift)]]))"

definition on_commissioned :: "unit op" where
  "on_commissioned = tell [Node InfoCommissioned]"

definition on_decommissioned :: "unit op" where
  "on_decommissioned = block
     [upd (\<lambda>s. s\<lparr>eb_latch := (eb_latch s)\<lparr>bl_fabrics := Some []\<rparr>, eb_window := PNone\<rparr>), tell [Node WarnDecommissioned]]"

definition on_window_closed :: "string \<Rightarrow> unit op" where
  "on_window_closed reason = block
     [upd (\<lambda>s. s\<lparr>eb_window := PNone\<rparr>), tell [Node (InfoWindowClosed (reason = ''commissioned''))]]"

definition note_window_opened :: "string \<Rightarrow> unit op" where
  "note_window_opened expires = upd (\<lambda>s. s\<lparr>eb_window := PStr expires\<rparr>)"

definition refresh_pairing_window :: "pairing_report py_result \<Rightarrow> unit op" where
  "refresh_pairing_window answer = bind (gets eb_client) (\<lambda>client. case (client, answer) of
       (Some _, Inr pairing) \<Rightarrow> upd (\<lambda>s. s\<lparr>eb_window := (if pr_window_open pairing then pr_window_expires_at pairing else PNone)\<rparr>)
     | _ \<Rightarrow> ret ())"

definition agent_diagnosis :: "bridge_env \<Rightarrow> string option" where
  "agent_diagnosis env = (case ev_agent_diagnose env of
       Some (Inr (Some detail)) \<Rightarrow> if detail = [] then None else Some detail
     | _ \<Rightarrow> None)"

text \<open>\<open>_on_unreachable\<close>; the port is the text of the preference or of the default.\<close>

definition on_unreachable :: "bridge_env \<Rightarrow> string \<Rightarrow> int \<Rightarrow> unit op" where
  "on_unreachable env port attempts = bind (gets (restart_expected env)) (\<lambda>expected.
     if expected then block
       [bind (gets eb_restart_notice) (\<lambda>shown. if shown then ret ()
          else block [upd (\<lambda>s. s\<lparr>eb_restart_notice := True\<rparr>), tell [Life InfoExpectingRestart]]),
        bind (gets eb_client) (\<lambda>client. case client of None \<Rightarrow> ret () | Some c \<Rightarrow> tell [Rearm c])]
     else bind (gets eb_unreachable_reported) (\<lambda>said. if said then ret ()
       else block [upd (\<lambda>s. s\<lparr>eb_unreachable_reported := True\<rparr>),
                   tell [Life (WarnUnreachable attempts port (agent_diagnosis env))]]))"

section \<open>The watchdog\<close>

definition poll_node_status :: "bridge_env \<Rightarrow> nat \<Rightarrow> unit op" where
  "poll_node_status env c = fire_only env (TPoll c)"

text \<open>The coroutine \<open>_poll\<close>, with what its await meets.\<close>

definition poll_answer :: "bridge_env \<Rightarrow> status_report py_result \<Rightarrow> unit op" where
  "poll_answer env answer = (case answer of
       Inl _ \<Rightarrow> bind (upd (\<lambda>s. s\<lparr>eb_poll_fail_ticks := eb_poll_fail_ticks s + 1\<rparr>)) (\<lambda>_.
         bind (gets eb_poll_fail_ticks) (\<lambda>n. if HEALTH_POLL_FAIL_TICKS \<le> n then health_unknown env else ret ()))
     | Inr status \<Rightarrow> block
         [upd (\<lambda>s. s\<lparr>eb_poll_fail_ticks := 0\<rparr>), report_node_warnings status, health_verdict env status])"

definition check_command_queue :: "unit op" where
  "check_command_queue = bind (gets (\<lambda>s. eb_submitted s - eb_completed s)) (\<lambda>outstanding.
     if outstanding < COMMAND_QUEUE_WARN then upd (\<lambda>s. s\<lparr>eb_queue_warned := False\<rparr>)
     else bind (gets eb_queue_warned) (\<lambda>warned. if warned then ret ()
       else block [upd (\<lambda>s. s\<lparr>eb_queue_warned := True\<rparr>), tell [Cmd (WarnQueue outstanding)]]))"

definition run_tick :: "bridge_env \<Rightarrow> bool op" where
  "run_tick env s = (case health_tick (ev_health env) (map_option (ev_flags env) (eb_client s)) (eb_latch s) (eb_reporter s) of
       (bl, hr, l) \<Rightarrow> (Inr (PollStatus \<in> set l), s\<lparr>eb_latch := bl, eb_reporter := hr\<rparr>, map HealthEff l))"

definition bridge_health_tick :: "bridge_env \<Rightarrow> unit op" where
  "bridge_health_tick env = block
     [check_command_queue,
      bind (gets eb_client) (\<lambda>client. bind (run_tick env) (\<lambda>poll. case client of
        Some c \<Rightarrow> if poll then poll_node_status env c else ret ()
      | None \<Rightarrow> ret ()))]"

datatype reattach_outcome = ReattachLands status_report | ReattachNoConnection | ReattachRefused string | ReattachTimeout | ReattachRaises py_exc

definition reattach :: "bridge_env \<Rightarrow> reattach_outcome \<Rightarrow> bool op" where
  "reattach env outcome = bind (gets eb_client) (\<lambda>client. case client of
       None \<Rightarrow> bind (tell [Life WarnNoClientReattach]) (\<lambda>_. ret False)
     | Some c \<Rightarrow> bind (endpoint_specs env) (\<lambda>specs.
         bind (tell [SendAttach c specs False (attach_timeout_for (int (length specs)))]) (\<lambda>_. case outcome of
             ReattachLands status \<Rightarrow> bind (on_attached env status False) (\<lambda>_. ret True)
           | ReattachNoConnection \<Rightarrow> bind (tell [Life (ErrReattach ''FAILED'')]) (\<lambda>_. ret False)
           | ReattachRefused code \<Rightarrow> bind (tell [Life (ErrReattach code)]) (\<lambda>_. ret False)
           | ReattachTimeout \<Rightarrow> bind (tell [Life (ErrReattach ''TIMED OUT'')]) (\<lambda>_. ret False)
           | ReattachRaises e \<Rightarrow> bind (tell [Life (ErrReattach ''unexpected'')]) (\<lambda>_. ret False))))"

end
