(* ===== verification/ExportBridgeFacts.thy ===== *)
theory ExportBridgeFacts
  imports ExportBridge
begin

text \<open>
  What the export engine guarantees: which operations touch the preferences and the client at all,
  the un-export debt over any sequence of calls, the gate between an un-export and the next start,
  and what a published endpoint is built from.
\<close>

section \<open>Operations that leave the life cycle alone\<close>

definition core :: "export_bridge \<Rightarrow> pydict \<times> nat option \<times> bool \<times> bool" where
  "core s = (eb_prefs s, eb_client s, eb_un_exporting s, eb_start_after s)"

definition keeps_core :: "export_bridge \<Rightarrow> export_bridge \<Rightarrow> eff list \<Rightarrow> bool" where
  "keeps_core s s' l = (core s' = core s)"

interpretation kc: step_relation keeps_core
  by unfold_locales (simp_all add: keeps_core_def)

named_theorems keep \<open>operations that keep the core\<close>

lemmas kc_rules = kc.ret kc.raise_exc kc.gets kc.lift kc.bind kc.catch kc.for_each kc.collect

lemma kc_upd: "(\<And>s. core (f s) = core s) \<Longrightarrow> satisfies keeps_core (upd f)"
  by (rule kc.upd) (simp add: keeps_core_def)

lemma kc_tell: "satisfies keeps_core (tell l)"
  by (rule kc.tell) (simp add: keeps_core_def)

lemma kc_block:
  "satisfies keeps_core (block [])"
  "satisfies keeps_core m \<Longrightarrow> satisfies keeps_core (block ms) \<Longrightarrow> satisfies keeps_core (block (m # ms))"
  by (simp add: kc.ret, cases ms) (simp_all add: kc.bind)

lemma kc_reporter: "satisfies keeps_core (with_reporter f)"
  by (auto simp: satisfies_def keeps_core_def with_reporter_def core_def split: prod.splits)

lemma kc_latches: "satisfies keeps_core (with_latches f)"
  by (auto simp: satisfies_def keeps_core_def with_latches_def core_def split: prod.splits)

lemma kc_if: "(b \<Longrightarrow> satisfies keeps_core m) \<Longrightarrow> (\<not> b \<Longrightarrow> satisfies keeps_core n) \<Longrightarrow> satisfies keeps_core (if b then m else n)"
  by simp

lemma kc_option: "satisfies keeps_core m \<Longrightarrow> (\<And>x. satisfies keeps_core (f x)) \<Longrightarrow>
    satisfies keeps_core (case y of None \<Rightarrow> m | Some x \<Rightarrow> f x)"
  by (cases y) simp_all

lemma kc_sum: "(\<And>x. satisfies keeps_core (f x)) \<Longrightarrow> (\<And>x. satisfies keeps_core (g x)) \<Longrightarrow>
    satisfies keeps_core (case y of Inl x \<Rightarrow> f x | Inr x \<Rightarrow> g x)"
  by (cases y) simp_all

lemma kc_prod: "(\<And>a b. satisfies keeps_core (f a b)) \<Longrightarrow> satisfies keeps_core (case p of (a, b) \<Rightarrow> f a b)"
  by (cases p) simp

lemma kc_pyval_int: "(\<And>n. satisfies keeps_core (f n)) \<Longrightarrow> satisfies keeps_core m \<Longrightarrow>
    satisfies keeps_core (case v of PInt n \<Rightarrow> f n | _ \<Rightarrow> m)"
  by (cases v) simp_all

lemma kc_verdict: "(\<And>r d. satisfies keeps_core (f r d)) \<Longrightarrow> (\<And>k. satisfies keeps_core (g k)) \<Longrightarrow> (\<And>x. satisfies keeps_core (h x)) \<Longrightarrow>
    satisfies keeps_core (case v of EligibleDevice r d \<Rightarrow> f r d | MappableDevice k \<Rightarrow> g k | Excluded x \<Rightarrow> h x)"
  by (cases v) simp_all

lemmas kc_intros = kc_rules kc_upd kc_tell kc_block kc_reporter kc_latches kc_if kc_option kc_sum kc_prod kc_pyval_int kc_verdict

lemma keep_fire [keep]: "satisfies keeps_core (fire env t lost)"
  unfolding fire_def by (intro kc_intros)

lemma keep_fire_only [keep]: "satisfies keeps_core (fire_only env t)"
  unfolding fire_only_def by (intro kc_intros keep)

lemma keep_agent [keep]: "satisfies keeps_core (ensure_agent env)" "satisfies keeps_core (stop_agent env)"
  "satisfies keeps_core note_agent_stopped"
  unfolding ensure_agent_def stop_agent_def note_agent_stopped_def
  by (intro kc_intros; simp add: core_def)+

lemma keep_restart [keep]: "satisfies keeps_core (expect_restart env)" "satisfies keeps_core cancel_expected_restart"
  unfolding expect_restart_def cancel_expected_restart_def by (intro kc_intros; simp add: core_def)+

lemma keep_pending [keep]: "satisfies keeps_core pending_replace_all"
  unfolding pending_replace_all_def by (intro kc_intros)

lemma keep_health_unknown [keep]: "satisfies keeps_core (health_unknown env)"
  unfolding health_unknown_def by (rule kc_reporter)

lemma keep_device [keep]: "satisfies keeps_core (indigo_device env d)" "satisfies keeps_core (skip d why)"
  unfolding indigo_device_def skip_def drop_pushed_def by (intro kc_intros; simp add: core_def)+

lemma keep_spec_for [keep]: "satisfies keeps_core (spec_for env entry)"
  unfolding spec_for_def Let_def by (intro kc_intros keep; simp add: core_def)

lemma keep_endpoint_specs [keep]: "satisfies keeps_core (endpoint_specs env)"
  unfolding endpoint_specs_def warn_if_wholly_unbridgeable_def by (intro kc_intros keep; simp add: core_def)

lemma keep_live_client [keep]: "satisfies keeps_core (live_client env d)"
  unfolding live_client_def Let_def by (intro kc_intros; simp add: core_def)

lemma keep_upsert [keep]: "satisfies keeps_core (bridge_upsert env d)"
  unfolding bridge_upsert_def by (intro kc_intros keep)

lemma keep_remove [keep]: "satisfies keeps_core (bridge_remove env d)"
  unfolding bridge_remove_def forget_device_def by (intro kc_intros keep; simp add: core_def)

lemma keep_replace [keep]: "satisfies keeps_core (bridge_replace env d)" "satisfies keeps_core (recreate env c d r a)"
  unfolding bridge_replace_def recreate_def by (intro kc_intros keep)+

lemma keep_note_pushed [keep]: "satisfies keeps_core (note_pushed d st h)"
  unfolding note_pushed_def by (intro kc_intros; simp add: core_def)

lemma keep_stopped_keys [keep]: "satisfies keeps_core (report_stopped_keys d ks)"
  unfolding report_stopped_keys_def by (intro kc_intros; simp add: core_def)

lemma keep_observe [keep]: "satisfies keeps_core (observe_reading env e n)"
  by (auto simp: satisfies_def keeps_core_def observe_reading_def core_def split: prod.splits)

lemma keep_feed [keep]: "satisfies keeps_core (feed_ct_learner env e d h)"
  unfolding feed_ct_learner_def by (intro kc_intros keep)

lemma keep_push_changes [keep]: "satisfies keeps_core (push_changes env c e i d h)"
  unfolding push_changes_def by (intro kc_intros keep; simp add: core_def)

lemma keep_device_updated [keep]: "satisfies keeps_core (device_updated env i d d')"
  unfolding device_updated_def by (intro kc_intros keep)

lemma keep_on_command [keep]: "satisfies keeps_core (on_command env cmd)"
  unfolding on_command_def by (intro kc_intros keep)

lemma keep_dispatch [keep]: "satisfies keeps_core dispatch_off_loop" "satisfies keeps_core (dispatch_timed_out cmd)"
  "satisfies keeps_core (note_command_done x)"
  unfolding dispatch_off_loop_def dispatch_timed_out_def note_command_done_def by (intro kc_intros; simp add: core_def)+

lemma keep_no_op [keep]: "satisfies keeps_core (report_no_op c d w)"
  unfolding report_no_op_def by (intro kc_intros; simp add: core_def)

lemma keep_correct [keep]: "satisfies keeps_core (correct_device env h d i opts)"
  unfolding correct_device_def by (intro kc_intros keep)

lemma keep_push_commanded [keep]: "satisfies keeps_core (push_commanded env cmd h st)"
  unfolding push_commanded_def Let_def by (intro kc_intros keep; simp add: core_def)

lemma keep_dispatch_to [keep]: "satisfies keeps_core (dispatch_to env h cmd d opts)"
  by (auto simp: satisfies_def keeps_core_def dispatch_to_def core_def split: prod.splits)

lemma kc_outcome: "satisfies keeps_core m1 \<Longrightarrow> satisfies keeps_core m2 \<Longrightarrow> (\<And>w. satisfies keeps_core (f w)) \<Longrightarrow> (\<And>e. satisfies keeps_core (g e)) \<Longrightarrow>
    satisfies keeps_core (case x of DispatchRefused \<Rightarrow> m1 | DispatchDone \<Rightarrow> m2 | DispatchDeclined w \<Rightarrow> f w | DispatchRaised e \<Rightarrow> g e)"
  by (cases x) simp_all

lemma keep_apply_command [keep]: "satisfies keeps_core (apply_command env cmd e h)"
  unfolding apply_command_def Let_def by (intro kc_intros kc_outcome keep; simp add: core_def)

lemma keep_purge [keep]: "satisfies keeps_core (purge_confirmed_deleted env)"
proof -
  have "satisfies keeps_core (store_remove_op env d)" for d
    by (auto simp: satisfies_def keeps_core_def store_remove_op_def core_def split: prod.splits)
  then show ?thesis
    unfolding purge_confirmed_deleted_def purge_device_def by (intro kc_intros keep; simp add: core_def)
qed

lemma keep_node [keep]: "satisfies keeps_core (report_node_warnings st)" "satisfies keeps_core (health_verdict env st)"
  unfolding report_node_warnings_def health_verdict_def Let_def by (intro kc_intros; simp add: core_def)+

lemma keep_callbacks [keep]: "satisfies keeps_core (on_attach_refused code details)" "satisfies keeps_core on_version_skew"
  "satisfies keeps_core (on_drift_detected drift)" "satisfies keeps_core on_commissioned" "satisfies keeps_core on_decommissioned"
  "satisfies keeps_core (on_window_closed why)" "satisfies keeps_core (note_window_opened t)"
  "satisfies keeps_core (on_unreachable env port n)"
  unfolding on_attach_refused_def on_version_skew_def on_drift_detected_def on_commissioned_def on_decommissioned_def
    on_window_closed_def note_window_opened_def on_unreachable_def Let_def
  by (intro kc_intros keep; simp add: core_def)+

lemma keep_window [keep]: "satisfies keeps_core (refresh_pairing_window a)"
  unfolding refresh_pairing_window_def by (intro kc.bind kc.gets) (auto split: option.splits sum.splits intro!: kc_upd kc.ret simp: core_def)

lemma keep_watchdog [keep]: "satisfies keeps_core (poll_answer env a)" "satisfies keeps_core check_command_queue"
  unfolding poll_answer_def check_command_queue_def by (intro kc_intros keep; simp add: core_def)+

lemma keep_tick [keep]: "satisfies keeps_core (bridge_health_tick env)"
proof -
  have "satisfies keeps_core (run_tick env)"
    by (auto simp: satisfies_def keeps_core_def run_tick_def core_def split: prod.splits)
  then show ?thesis
    unfolding bridge_health_tick_def poll_node_status_def by (intro kc_intros keep)
qed

lemma keep_attached [keep]: "satisfies keeps_core (on_attached env status False)"
  unfolding on_attached_def clear_outage_def if_False by (intro kc_intros keep; simp add: core_def)

lemma keep_reattach [keep]: "satisfies keeps_core (reattach env outcome)"
  unfolding reattach_def by (intro kc_intros keep; cases outcome) (simp_all, (intro kc_intros keep)+)

section \<open>Runs\<close>

text \<open>Every call the plugin, the client, the loop and the command worker make of the engine. An
  un-export coroutine runs once; the outcome of its attach is the environment's.\<close>

datatype bridge_call =
    CStart
  | CStop
  | CRetryNow "nat \<Rightarrow> bool"
  | CRevive
  | CExportsChanged
  | CUnExport nat attach_outcome
  | CEndpointSpecs
  | CReattach reattach_outcome
  | CDeviceUpdated int host_device host_device
  | CUpsert int
  | CRemove int
  | CReplace int
  | CRecreate nat int "unit py_result" "unit py_result"
  | CCommand bridge_command
  | CDispatch
  | CApply bridge_command export_entry handler
  | CDone "py_exc option"
  | CAttached status_report bool
  | CAttachRefused string string
  | CDrift "drift_entry list"
  | CDecommissioned
  | CWindowClosed string
  | CWindowOpened string
  | CRefreshWindow "pairing_report py_result"
  | CUnreachable string int
  | CExpectRestart
  | CCancelRestart
  | CHealthTick
  | CPollAnswer "status_report py_result"
  | CAgentStopped
  | CStoreChanged store

definition quietly :: "'a op \<Rightarrow> unit op" where
  "quietly m = bind m (\<lambda>_. ret ())"

fun perform :: "bridge_env \<Rightarrow> bridge_call \<Rightarrow> unit op" where
  "perform env CStart = start env"
| "perform env CStop = stop"
| "perform env (CRetryNow poke) = quietly (bridge_retry_now poke)"
| "perform env CRevive = quietly (revive_after_install env)"
| "perform env CExportsChanged = exports_changed env"
| "perform env (CUnExport c outcome) = un_export env c outcome"
| "perform env CEndpointSpecs = quietly (endpoint_specs env)"
| "perform env (CReattach outcome) = quietly (reattach env outcome)"
| "perform env (CDeviceUpdated i d d') = device_updated env i d d'"
| "perform env (CUpsert i) = bridge_upsert env i"
| "perform env (CRemove i) = bridge_remove env i"
| "perform env (CReplace i) = bridge_replace env i"
| "perform env (CRecreate c i r a) = recreate env c i r a"
| "perform env (CCommand cmd) = on_command env cmd"
| "perform env CDispatch = quietly dispatch_off_loop"
| "perform env (CApply cmd e h) = apply_command env cmd e h"
| "perform env (CDone x) = note_command_done x"
| "perform env (CAttached status carried) = on_attached env status carried"
| "perform env (CAttachRefused code details) = on_attach_refused code details"
| "perform env (CDrift drift) = on_drift_detected drift"
| "perform env CDecommissioned = on_decommissioned"
| "perform env (CWindowClosed why) = on_window_closed why"
| "perform env (CWindowOpened t) = note_window_opened t"
| "perform env (CRefreshWindow a) = refresh_pairing_window a"
| "perform env (CUnreachable port n) = on_unreachable env port n"
| "perform env CExpectRestart = expect_restart env"
| "perform env CCancelRestart = cancel_expected_restart"
| "perform env CHealthTick = bridge_health_tick env"
| "perform env (CPollAnswer a) = poll_answer env a"
| "perform env CAgentStopped = note_agent_stopped"
| "perform env (CStoreChanged st) = upd (\<lambda>s. s\<lparr>eb_store := st\<rparr>)"

text \<open>A run: calls with what they meet, one after the other; an exception ends its call only.\<close>

fun run :: "(bridge_env \<times> bridge_call) list \<Rightarrow> export_bridge \<Rightarrow> export_bridge \<times> eff list" where
  "run [] s = (s, [])"
| "run ((env, c) # rest) s = (case perform env c s of
     (_, s1, l1) \<Rightarrow> (case run rest s1 of (s2, l2) \<Rightarrow> (s2, l1 @ l2)))"

context step_relation
begin

lemma run_rel:
  assumes "\<And>env c. (env, c) \<in> set calls \<Longrightarrow> satisfies Q (perform env c)"
  shows "Q s (fst (run calls s)) (snd (run calls s))"
  using assms
proof (induction calls arbitrary: s)
  case Nil
  then show ?case by (simp add: same)
next
  case (Cons call rest)
  obtain env c where call: "call = (env, c)" by (cases call)
  obtain r s1 l1 where p: "perform env c s = (r, s1, l1)" by (cases "perform env c s")
  have "Q s s1 l1" using Cons.prems [of env c] p call by (auto dest: satisfiesD)
  moreover have "Q s1 (fst (run rest s1)) (snd (run rest s1))" using Cons by simp
  ultimately show ?case by (simp add: call p split_beta) (rule compose)
qed

end

text \<open>A relation that only looks at the core is kept by all calls but these.\<close>

definition life_call :: "bridge_call \<Rightarrow> bool" where
  "life_call c = (case c of CStart \<Rightarrow> True | CStop \<Rightarrow> True | CRevive \<Rightarrow> True | CExportsChanged \<Rightarrow> True
     | CUnExport _ _ \<Rightarrow> True | CAttached _ carried \<Rightarrow> carried | _ \<Rightarrow> False)"

lemma keep_quietly: "satisfies keeps_core m \<Longrightarrow> satisfies keeps_core (quietly m)"
  unfolding quietly_def by (intro kc_intros)

lemma keep_retry: "satisfies keeps_core (bridge_retry_now poke)"
  unfolding bridge_retry_now_def by (intro kc_intros)

lemma keep_others: "\<not> life_call c \<Longrightarrow> satisfies keeps_core (perform env c)"
  by (cases c) (simp_all add: life_call_def keep keep_quietly keep_retry kc_upd core_def)

locale core_relation = step_relation +
  assumes core_only: "core s' = core s \<Longrightarrow> Q s s' l"
begin

lemma lift_core: "satisfies keeps_core m \<Longrightarrow> satisfies Q m"
  by (auto simp: satisfies_def keeps_core_def core_only)

lemma perform_rel:
  assumes "life_call c \<Longrightarrow> satisfies Q (perform env c)"
  shows "satisfies Q (perform env c)"
  using assms keep_others lift_core by blast

end

section \<open>The un-export debt\<close>

definition debt :: "export_bridge \<Rightarrow> int" where
  "debt s = (case owed_of (eb_prefs s) of Inr n \<Rightarrow> n | Inl _ \<Rightarrow> 0)"

definition debt_kept :: "export_bridge \<Rightarrow> export_bridge \<Rightarrow> eff list \<Rightarrow> bool" where
  "debt_kept s s' l = (debt s \<le> debt s')"

interpretation dk: core_relation debt_kept
  by unfold_locales (auto simp: debt_kept_def debt_def core_def)

lemma owed_update: "owed_of (AList.update PREF_PENDING_REPLACE_ALL (PInt n) d) = Inr n"
  by (simp add: owed_of_def dget_update)

lemma dk_prefs: "(\<And>s. eb_prefs (f s) = eb_prefs s) \<Longrightarrow> satisfies debt_kept (upd f)"
  by (rule dk.upd) (simp add: debt_kept_def debt_def)

lemma pending_debt: "pending_replace_all s = (r, s', l) \<Longrightarrow> s' = s \<and> (\<forall>n. r = Inr n \<longrightarrow> debt s = n)"
  by (auto simp: pending_replace_all_def bind_def gets_def ret_def raise_exc_def tell_def debt_def split: sum.splits if_splits)

lemma record_debt_kept: "satisfies debt_kept (record_pending_replace_all env removing)"
proof -
  have "debt s \<le> debt s'" if "record_pending_replace_all env removing s = (r, s', l)" for s r s' l
  proof -
    obtain p s1 l1 where p: "pending_replace_all s = (p, s1, l1)" by (cases "pending_replace_all s")
    have s1: "s1 = s" "\<And>n. p = Inr n \<Longrightarrow> debt s = n" using pending_debt [OF p] by auto
    have "s' = s \<or> (\<exists>n. p = Inr n \<and> s' = s\<lparr>eb_prefs := AList.update PREF_PENDING_REPLACE_ALL (PInt (max n removing)) (eb_prefs s)\<rparr>)"
      using that p s1
      by (auto simp: record_pending_replace_all_def bind_def Let_def catch_def pref_write_def pref_save_def upd_def raise_exc_def ret_def
          tell_def split: sum.splits if_splits option.splits prod.splits)
    then show ?thesis using s1(2) by (auto simp: debt_def [of "s\<lparr>eb_prefs := x\<rparr>" for x] owed_update)
  qed
  then show ?thesis by (simp add: satisfies_def debt_kept_def) (metis prod.collapse)
qed

lemmas dk_intros = dk.ret dk.gets dk.bind dk.for_each

lemma dk_block:
  "satisfies debt_kept (block [])"
  "satisfies debt_kept m \<Longrightarrow> satisfies debt_kept (block ms) \<Longrightarrow> satisfies debt_kept (block (m # ms))"
  by (simp add: dk.ret, cases ms) (simp_all add: dk.bind)

lemma dk_tell: "satisfies debt_kept (tell l)"
  by (rule dk.tell) (simp add: debt_kept_def)

lemma dk_if: "satisfies debt_kept m \<Longrightarrow> satisfies debt_kept n \<Longrightarrow> satisfies debt_kept (if b then m else n)"
  by simp

lemma dk_option: "satisfies debt_kept m \<Longrightarrow> (\<And>x. satisfies debt_kept (f x)) \<Longrightarrow>
    satisfies debt_kept (case y of None \<Rightarrow> m | Some x \<Rightarrow> f x)"
  by (cases y) simp_all

lemma dk_prod: "(\<And>a b. satisfies debt_kept (f a b)) \<Longrightarrow> satisfies debt_kept (case p of (a, b) \<Rightarrow> f a b)"
  by (cases p) simp

lemmas dk_steps = dk_intros dk_block dk_tell dk_if dk_option dk_prod dk_prefs dk.lift_core [OF keep_fire]
  dk.lift_core [OF keep_fire_only] dk.lift_core [OF keep_agent(1)] dk.lift_core [OF keep_agent(2)]
  dk.lift_core [OF keep_restart(2)] dk.lift_core [OF keep_health_unknown] dk.lift_core [OF keep_pending] record_debt_kept

lemma start_debt: "satisfies debt_kept (start env)"
  unfolding start_def new_client_def by (intro dk_steps; simp)

lemma release_debt: "satisfies debt_kept m \<Longrightarrow> satisfies debt_kept (release_un_export env m)"
  unfolding release_un_export_def by (intro dk_steps start_debt; simp)

lemma stop_debt: "satisfies debt_kept stop"
  unfolding stop_def by (intro dk_steps; simp)

lemma revive_debt: "satisfies debt_kept (revive_after_install env)"
  unfolding revive_after_install_def Let_def by (intro dk_steps start_debt; simp)

lemma replace_all_debt: "satisfies debt_kept (replace_all_then_stop env n)"
  unfolding replace_all_then_stop_def by (intro dk_steps release_debt; simp)

lemma exports_changed_debt: "satisfies debt_kept (exports_changed env)"
  unfolding exports_changed_def by (intro dk_steps start_debt stop_debt replace_all_debt; simp)

lemma un_export_debt:
  assumes "outcome \<noteq> AttachLands"
  shows "satisfies debt_kept (un_export env c outcome)"
proof -
  have "satisfies debt_kept (case outcome of AttachLands \<Rightarrow> clear_pending_replace_all env | AttachFails e \<Rightarrow> raise_exc e | AttachCancelled \<Rightarrow> ret ())"
    using assms by (cases outcome) (simp_all add: dk.ret dk.raise_exc)
  then show ?thesis
    unfolding un_export_def by (intro dk_steps dk.catch release_debt)
qed

text \<open>Calls that may pay the debt: an un-export whose attach landed, an attach that carried the intent.\<close>

definition pays :: "bridge_call \<Rightarrow> bool" where
  "pays c = (case c of CUnExport _ outcome \<Rightarrow> outcome = AttachLands | CAttached _ carried \<Rightarrow> carried | _ \<Rightarrow> False)"

lemma unpaid_call: "\<not> pays c \<Longrightarrow> satisfies debt_kept (perform env c)"
  by (rule dk.perform_rel, cases c)
    (simp_all add: pays_def life_call_def quietly_def start_debt stop_debt revive_debt exports_changed_debt un_export_debt dk.bind dk.ret)

text \<open>C5: over any sequence of calls, failing or not, the number of accessories an un-export still owes the
  node never goes down, except through an attach that carried the intent and landed.\<close>

theorem debt_survives:
  assumes "\<forall>(env, c) \<in> set calls. \<not> pays c"
  shows "debt s \<le> debt (fst (run calls s))"
proof -
  have "satisfies debt_kept (perform env c)" if "(env, c) \<in> set calls" for env c
    using that assms unpaid_call by fastforce
  from dk.run_rel [OF this] show ?thesis by (simp add: debt_kept_def)
qed

text \<open>Emptying the allow-list of a connected bridge records what the node still has to remove, before
  the removal is even sent.\<close>

lemma pending_total:
  assumes "owed_of (eb_prefs s) \<noteq> Inl OverflowError"
  shows "\<exists>l. pending_replace_all s = (Inr (debt s), s, l)"
proof -
  have "e = TypeError \<or> e = ValueError \<or> e = OverflowError" if "owed_of (eb_prefs s) = Inl e" for e
  proof -
    have "py_int v = Inl e \<Longrightarrow> e = TypeError \<or> e = ValueError \<or> e = OverflowError" for v
      by (cases v rule: py_int.cases) (auto split: option.splits)
    then show ?thesis using that by (simp add: owed_of_def Let_def)
  qed
  with assms show ?thesis
    by (auto simp: pending_replace_all_def bind_def gets_def ret_def tell_def debt_def raise_exc_def split: sum.splits)
qed

lemma record_pending_records:
  assumes "owed_of (eb_prefs s) \<noteq> Inl OverflowError" "ev_pref_write env = None"
  shows "\<exists>s' l. record_pending_replace_all env removing s = (Inr (), s', l) \<and> max (debt s) removing \<le> max 0 (debt s')
    \<and> eb_client s' = eb_client s \<and> eb_un_exporting s' = eb_un_exporting s \<and> eb_start_after s' = eb_start_after s"
proof -
  obtain l where p: "pending_replace_all s = (Inr (debt s), s, l)" using pending_total [OF assms(1)] by blast
  have upd_debt: "debt (s\<lparr>eb_prefs := AList.update PREF_PENDING_REPLACE_ALL (PInt n) (eb_prefs s)\<rparr>) = n" for n
    by (simp add: debt_def owed_update)
  show ?thesis
    using assms(2) upd_debt [of "max (debt s) removing"]
    by (cases "ev_pref_save env") (auto simp: record_pending_replace_all_def bind_def [of pending_replace_all] p Let_def
        catch_def bind_def pref_write_def pref_save_def upd_def ret_def raise_exc_def tell_def)
qed

theorem empty_list_records_debt:
  assumes "store_len (eb_store s) = 0" "export_enabled s" "eb_client s = Some c" "\<not> eb_start_after s"
    and "owed_of (eb_prefs s) \<noteq> Inl OverflowError" "ev_pref_write env = None" "ev_submit env = None"
  shows "\<exists>s' l. exports_changed env s = (Inr (), s', l) \<and> Fired (TUnExport c) \<in> set l
    \<and> max (debt s) (eb_last_count s) \<le> max 0 (debt s') \<and> eb_client s' = None \<and> eb_un_exporting s'"
proof -
  let ?s1 = "s\<lparr>eb_skipped := [], eb_last_count := 0\<rparr>"
  let ?s2 = "?s1\<lparr>eb_client := None, eb_un_exporting := True, eb_pushed := []\<rparr>"
  have "owed_of (eb_prefs ?s2) \<noteq> Inl OverflowError" "debt ?s2 = debt s" using assms(5) by (simp_all add: debt_def)
  with record_pending_records [of ?s2 env "eb_last_count s"] assms(6) obtain s3 l where
    r: "record_pending_replace_all env (eb_last_count s) ?s2 = (Inr (), s3, l)" "max (debt s) (eb_last_count s) \<le> max 0 (debt s3)"
      "eb_client s3 = None" "eb_un_exporting s3"
    by auto
  show ?thesis
    using assms r
    by (simp add: exports_changed_def bind_def gets_def upd_def replace_all_then_stop_def tell_def fire_def ret_def)
qed

section \<open>One un-export at a time\<close>

definition gate :: "export_bridge \<Rightarrow> bool" where
  "gate s = ((eb_un_exporting s \<longrightarrow> eb_client s = None) \<and> (eb_start_after s \<longrightarrow> eb_un_exporting s))"

definition keeps_gate :: "export_bridge \<Rightarrow> export_bridge \<Rightarrow> eff list \<Rightarrow> bool" where
  "keeps_gate s s' l = (gate s \<longrightarrow> gate s')"

interpretation kg: core_relation keeps_gate
  by unfold_locales (auto simp: keeps_gate_def gate_def core_def)

lemma kg_block:
  "satisfies keeps_gate (block [])"
  "satisfies keeps_gate m \<Longrightarrow> satisfies keeps_gate (block ms) \<Longrightarrow> satisfies keeps_gate (block (m # ms))"
  by (simp add: kg.ret, cases ms) (simp_all add: kg.bind)

lemma start_shape:
  "start env s = (if eb_un_exporting s then (Inr (), s\<lparr>eb_start_after := True\<rparr>, [])
     else if eb_client s \<noteq> None \<or> \<not> export_enabled s then (Inr (), s, [])
     else (Inr (), new_client (ev_new_client env) (if ev_agent_start env = None then s else s\<lparr>eb_agent_started := True\<rparr>),
       snd (snd (start env s))))"
  by (auto simp: start_def bind_def gets_def upd_def ret_def ensure_agent_def tell_def fire_def new_client_def
      split: option.splits)

lemma start_gated: "satisfies keeps_gate (start env)"
proof -
  have "gate s \<longrightarrow> gate (fst (snd (start env s)))" for s
    by (subst start_shape) (auto simp: gate_def new_client_def)
  then show ?thesis by (simp add: satisfies_def keeps_gate_def)
qed

lemma kg_upd: "(\<And>s. gate s \<Longrightarrow> gate (f s)) \<Longrightarrow> satisfies keeps_gate (upd f)"
  by (rule kg.upd) (simp add: keeps_gate_def)

lemma kg_tell: "satisfies keeps_gate (tell l)"
  by (rule kg.tell) (simp add: keeps_gate_def)

lemma kg_if: "satisfies keeps_gate m \<Longrightarrow> satisfies keeps_gate n \<Longrightarrow> satisfies keeps_gate (if b then m else n)"
  by simp

lemma kg_option: "satisfies keeps_gate m \<Longrightarrow> (\<And>x. satisfies keeps_gate (f x)) \<Longrightarrow>
    satisfies keeps_gate (case y of None \<Rightarrow> m | Some x \<Rightarrow> f x)"
  by (cases y) simp_all

lemma kg_prod: "(\<And>a b. satisfies keeps_gate (f a b)) \<Longrightarrow> satisfies keeps_gate (case p of (a, b) \<Rightarrow> f a b)"
  by (cases p) simp

lemma release_gate:
  assumes "satisfies keeps_gate m"
  shows "satisfies keeps_gate (release_un_export env m)"
proof -
  have "gate (fst (snd (release_un_export env m s)))" if "gate s" for s
  proof (cases "eb_start_after s")
    case True
    let ?s = "s\<lparr>eb_un_exporting := False, eb_start_after := False\<rparr>"
    have "gate ?s" using that by (simp add: gate_def)
    then have "gate (fst (snd (start env ?s)))" using start_gated by (auto simp: satisfies_def keeps_gate_def)
    then show ?thesis using True by (simp add: release_un_export_def bind_def upd_def gets_def split: prod.splits sum.splits)
  next
    case False
    let ?s = "s\<lparr>eb_un_exporting := False\<rparr>"
    have "gate ?s" using that False by (simp add: gate_def)
    then have "gate (fst (snd (m ?s)))" using assms by (auto simp: satisfies_def keeps_gate_def)
    then show ?thesis using False by (simp add: release_un_export_def bind_def upd_def gets_def split: prod.splits sum.splits)
  qed
  then show ?thesis by (simp add: satisfies_def keeps_gate_def)
qed

lemma record_keeps_gate: "satisfies keeps_gate (record_pending_replace_all env n)" "satisfies keeps_gate (clear_pending_replace_all env)"
  unfolding record_pending_replace_all_def clear_pending_replace_all_def pref_write_def pref_save_def Let_def
  by (intro kg.bind kg.lift_core [OF keep_pending] kg_if kg.ret kg.catch kg_block kg_option kg.raise_exc kg_upd kg_tell; simp add: gate_def)+

lemmas kg_steps = kg.ret kg.gets kg.bind kg_block kg_tell kg_if kg_option kg_prod kg.lift_core [OF keep_fire]
  kg.lift_core [OF keep_fire_only] kg.lift_core [OF keep_agent(1)] kg.lift_core [OF keep_agent(2)]
  kg.lift_core [OF keep_restart(2)] kg.lift_core [OF keep_health_unknown] kg.lift_core [OF keep_pending]
  record_keeps_gate start_gated release_gate kg_upd

lemma life_gate:
  "satisfies keeps_gate stop" "satisfies keeps_gate (stop_soon env)" "satisfies keeps_gate (revive_after_install env)"
  unfolding stop_def stop_soon_def revive_after_install_def Let_def by (intro kg_steps; simp add: gate_def)+

text \<open>The state between the capture of the client and the coroutine: no client, the flag set.\<close>

lemma replace_all_gate: "satisfies keeps_gate (replace_all_then_stop env n)"
  unfolding replace_all_then_stop_def by (intro kg_steps; simp add: gate_def)

lemma exports_changed_gate: "satisfies keeps_gate (exports_changed env)"
  unfolding exports_changed_def by (intro kg_steps life_gate replace_all_gate; simp add: gate_def)

lemma un_export_gate: "satisfies keeps_gate (un_export env c outcome)"
  unfolding un_export_def by (intro kg_steps kg.catch; cases outcome) (simp_all add: kg.ret kg.raise_exc record_keeps_gate)

lemma attached_gate: "satisfies keeps_gate (on_attached env status carried)"
proof (cases carried)
  case False
  then show ?thesis using kg.lift_core [OF keep_attached] by simp
next
  case True
  have "satisfies keeps_gate (discharge_debt env)"
    unfolding discharge_debt_def by (intro kg_steps life_gate)
  with True show ?thesis
    unfolding on_attached_def clear_outage_def if_True
    by (intro kg_steps kg.lift_core [OF keep_purge] kg.lift_core [OF keep_node(1)] kg.lift_core [OF keep_node(2)]; simp add: gate_def)
qed

lemma gate_call: "satisfies keeps_gate (perform env c)"
  by (rule kg.perform_rel, cases c)
    (simp_all add: life_call_def quietly_def start_gated life_gate exports_changed_gate un_export_gate attached_gate kg.bind kg.ret)

definition bridge_idle :: "export_bridge \<Rightarrow> bool" where
  "bridge_idle s = (eb_client s = None \<and> \<not> eb_un_exporting s \<and> \<not> eb_start_after s)"

text \<open>C12: while an un-export is in flight there is no client, so no second socket races the removal; and a
  start that had to wait is remembered only as long as there is something to wait for.\<close>

theorem un_export_alone:
  assumes "bridge_idle s" "run calls s = (s', l)"
  shows "(eb_un_exporting s' \<longrightarrow> eb_client s' = None) \<and> (eb_start_after s' \<longrightarrow> eb_un_exporting s')"
proof -
  have "keeps_gate s s' l" using kg.run_rel [of calls s] gate_call assms(2) by simp
  with assms(1) show ?thesis by (simp add: keeps_gate_def gate_def bridge_idle_def)
qed

definition only_prefs :: "export_bridge \<Rightarrow> export_bridge \<Rightarrow> eff list \<Rightarrow> bool" where
  "only_prefs s s' l = (\<exists>p. s' = s\<lparr>eb_prefs := p\<rparr>)"

lemma only_prefs_same: "only_prefs s s l"
  unfolding only_prefs_def by (rule exI [of _ "eb_prefs s"]) simp

interpretation po: step_relation only_prefs
  by unfold_locales (rule only_prefs_same, auto simp: only_prefs_def)

lemma po_pending: "satisfies only_prefs pending_replace_all"
  unfolding satisfies_def by (metis only_prefs_same pending_debt prod.collapse)

lemma po_clear: "satisfies only_prefs (clear_pending_replace_all env)"
proof -
  have "satisfies only_prefs (pref_write env f)" "satisfies only_prefs (pref_save env)" for f
    unfolding pref_write_def pref_save_def
    by (auto split: option.splits intro!: po.ret po.raise_exc po.upd simp: only_prefs_def)
  then show ?thesis
    unfolding clear_pending_replace_all_def by (intro po.catch po.block po.tell) (auto simp: only_prefs_same)
qed

lemma po_tell: "satisfies only_prefs (tell l)"
  by (rule po.tell) (rule only_prefs_same)

text \<open>A start that came during an un-export is made up when the coroutine ends, whether or not the node
  was told.\<close>

theorem deferred_start_made_up:
  assumes "eb_start_after s" "eb_client s = None" "un_export env c outcome s = (r, s', l)" "export_enabled s'"
  shows "eb_client s' = Some (ev_new_client env) \<and> \<not> eb_un_exporting s' \<and> \<not> eb_start_after s'"
proof -
  define body where "body = catch (bind pending_replace_all (\<lambda>owed. block
          [tell [SendAttach c [] True (attach_timeout_for owed)],
           (case outcome of AttachLands \<Rightarrow> clear_pending_replace_all env | AttachFails e \<Rightarrow> raise_exc e | AttachCancelled \<Rightarrow> ret ())]))
        (\<lambda>e. tell [Life (WarnLinger e)])"
  have po: "satisfies only_prefs body"
    unfolding body_def
    by (intro po.catch po.bind po_pending po.block po_tell) (cases outcome; auto simp: po_tell po_clear po.raise_exc po.ret)
  obtain rb s1 l1 where b: "body s = (rb, s1, l1)" by (cases "body s")
  from satisfiesD [OF po b] obtain p where s1: "s1 = s\<lparr>eb_prefs := p\<rparr>" by (auto simp: only_prefs_def)
  have "rb = Inr ()"
    using b by (auto simp: body_def catch_def tell_def split: sum.splits prod.splits)
  let ?s2 = "s1\<lparr>eb_un_exporting := False, eb_start_after := False\<rparr>"
  have "s' = fst (snd (start env ?s2))"
    using assms(1,3) \<open>rb = Inr ()\<close> b s1 unfolding un_export_def body_def [symmetric]
    by (auto simp: bind_def tell_def release_un_export_def upd_def gets_def split: sum.splits prod.splits)
  moreover have "eb_prefs s' = eb_prefs ?s2" unfolding calculation by (subst start_shape) (auto simp: new_client_def)
  then have "export_enabled ?s2" using assms(4) by (simp add: export_enabled_def)
  ultimately show ?thesis
    using assms(2) s1 by (subst (asm) start_shape) (auto simp: new_client_def split: if_splits)
qed

text \<open>Closing the bridge does not withdraw such a start: the coroutine of an un-export that ends after
  the shutdown builds a client again.\<close>

theorem restart_after_stop:
  assumes "eb_start_after s" "eb_un_exporting s" "gate s" "stop s = (r, s1, l1)" "un_export env c outcome s1 = (r2, s2, l2)"
    and "export_enabled s2"
  shows "eb_stopped s1 \<and> eb_client s1 = None \<and> eb_client s2 = Some (ev_new_client env)"
proof -
  have "eb_stopped s1" "eb_client s1 = None" "eb_start_after s1"
    using assms(1,4) by (auto simp: stop_def cancel_expected_restart_def bind_def upd_def gets_def ret_def tell_def
        split: option.splits if_splits)
  with deferred_start_made_up [OF _ _ assms(5,6)] show ?thesis by simp
qed

section \<open>Switching export off\<close>

text \<open>Effects that no accessory sees.\<close>

definition unseen :: "eff \<Rightarrow> bool" where
  "unseen e = (case e of Fired _ \<Rightarrow> False | NotScheduled _ _ _ \<Rightarrow> False | SendAttach _ _ _ _ \<Rightarrow> False | SendRemove _ _ \<Rightarrow> False
     | SendUpsert _ _ \<Rightarrow> False | _ \<Rightarrow> True)"

definition leaves_exports :: "export_bridge \<Rightarrow> export_bridge \<Rightarrow> eff list \<Rightarrow> bool" where
  "leaves_exports s s' l = (eb_store s' = eb_store s \<and> eb_prefs s' = eb_prefs s \<and> list_all unseen l)"

interpretation le: step_relation leaves_exports
  by unfold_locales (auto simp: leaves_exports_def)

lemma le_upd: "(\<And>s. eb_store (f s) = eb_store s \<and> eb_prefs (f s) = eb_prefs s) \<Longrightarrow> satisfies leaves_exports (upd f)"
  by (rule le.upd) (simp add: leaves_exports_def)

lemma le_tell: "list_all unseen l \<Longrightarrow> satisfies leaves_exports (tell l)"
  by (rule le.tell) (simp add: leaves_exports_def)

lemma le_block:
  "satisfies leaves_exports (block [])"
  "satisfies leaves_exports m \<Longrightarrow> satisfies leaves_exports (block ms) \<Longrightarrow> satisfies leaves_exports (block (m # ms))"
  by (simp add: le.ret, cases ms) (simp_all add: le.bind)

lemma le_if: "satisfies leaves_exports m \<Longrightarrow> satisfies leaves_exports n \<Longrightarrow> satisfies leaves_exports (if b then m else n)"
  by simp

lemma le_option: "satisfies leaves_exports m \<Longrightarrow> (\<And>x. satisfies leaves_exports (f x)) \<Longrightarrow>
    satisfies leaves_exports (case y of None \<Rightarrow> m | Some x \<Rightarrow> f x)"
  by (cases y) simp_all

lemmas le_steps = le.ret le.gets le.bind le_block le_if le_option le_upd le_tell

lemma stop_leaves: "satisfies leaves_exports stop"
  unfolding stop_def cancel_expected_restart_def by (intro le_steps; simp add: unseen_def)

lemma stop_agent_leaves: "satisfies leaves_exports (stop_agent env)"
  unfolding stop_agent_def by (intro le_steps; simp add: unseen_def split: option.splits)

lemma health_unknown_leaves: "satisfies leaves_exports (health_unknown env)"
  by (auto simp: satisfies_def leaves_exports_def health_unknown_def with_reporter_def list_all_iff unseen_def split: prod.splits)

text \<open>Switching export off tells the node nothing: no attach, no removal, nothing handed to the loop; the
  allow-list and the recorded debt stay as they are, and the client is gone.\<close>

theorem switched_off_keeps_accessories:
  assumes "\<not> export_enabled s" "exports_changed env s = (r, s', l)"
  shows "eb_store s' = eb_store s \<and> eb_prefs s' = eb_prefs s \<and> list_all unseen l \<and> eb_client s' = None \<and> r = Inr ()"
proof -
  let ?s1 = "s\<lparr>eb_skipped := [], eb_last_count := int (store_len (eb_store s))\<rparr>"
  define off where "off = block
    [(if eb_client s \<noteq> None then block [tell [Life InfoSwitchedOff], stop, upd (\<lambda>s. s\<lparr>eb_stopped := False\<rparr>), health_unknown env] else ret ()),
     stop_agent env]"
  have "satisfies leaves_exports off"
    unfolding off_def by (intro le_steps stop_leaves stop_agent_leaves health_unknown_leaves; simp add: unseen_def)
  moreover have "exports_changed env s = off ?s1"
    using assms(1) by (simp add: exports_changed_def op_simps off_def)
  with assms(2) have "off ?s1 = (r, s', l)" by simp
  moreover have "eb_client (fst (snd (off ?s1))) = None \<and> fst (off ?s1) = Inr ()"
    by (auto simp: off_def op_runs stop_def cancel_expected_restart_def health_unknown_def bind_def [of "with_reporter f" for f]
        with_reporter_def stop_agent_def split: option.splits prod.splits if_splits)
  ultimately show ?thesis by (auto simp: leaves_exports_def dest: satisfiesD)
qed

end
