(* ===== verification/ExportFacts.thy ===== *)
theory ExportFacts
  imports ExportHandlers
begin

text \<open>
  Properties of the export handlers (\<open>export_handlers.py\<close>): a colour through Indigo's integer
  channels and back, a colour temperature through Kelvin and back, the position of a covering,
  and what a difference that is pushed leaves behind.
\<close>

section \<open>Colours\<close>

lemma frac_part_shift: "frac_part (r + of_int n) = frac_part r"
  by (simp add: frac_part_def)

lemma frac_part_less: "frac_part (x - 1 / 6) = frac_part (x + 5 / 6)"
  using frac_part_shift [of "x - 1 / 6" 1] by (simp add: algebra_simps)


lemma sector_bounds:
  fixes c y :: rat
  assumes "0 < c" "0 \<le> y" "y \<le> 1"
  shows "0 \<le> y * c" "y * c \<le> c" "y * c = c \<longleftrightarrow> y = 1" "y * c = 0 \<longleftrightarrow> y = 0" "y * c \<le> 0 \<longleftrightarrow> y = 0"
  using assms by (auto simp: mult_left_le_one_le mult_le_0_iff)

lemma sector_quotients:
  fixes c y :: rat
  assumes "0 < c"
  shows "(1 - (1 - c + y * c)) / c = 1 - y" "(1 - (1 - c)) / c = 1" "(1 - (1 - y * c)) / c = y"
  using assms by (simp_all add: field_simps)

lemma hs_sectors:
  assumes "0 < c" "0 \<le> y" "y \<le> 1"
  shows "rgb_to_hs 1 (1 - c + y * c) (1 - c) = (frac_part (y / 6), c)"
    "rgb_to_hs (1 - y * c) 1 (1 - c) = (frac_part ((1 + y) / 6), c)"
    "rgb_to_hs (1 - c) 1 (1 - c + y * c) = (frac_part ((2 + y) / 6), c)"
    "rgb_to_hs (1 - c) (1 - y * c) 1 = (frac_part ((3 + y) / 6), c)"
    "rgb_to_hs (1 - c + y * c) (1 - c) 1 = (frac_part ((4 + y) / 6), c)"
    "rgb_to_hs 1 (1 - c) (1 - y * c) = (frac_part ((5 + y) / 6), c)"
proof -
  note b = sector_bounds [OF assms] and q = sector_quotients [OF assms(1)]
  have m: "max 1 (max (1 - c + y * c) (1 - c)) = 1" "min 1 (min (1 - c + y * c) (1 - c)) = 1 - c"
    "max (1 - y * c) (max 1 (1 - c)) = 1" "min (1 - y * c) (min 1 (1 - c)) = 1 - c"
    "max (1 - c) (max 1 (1 - c + y * c)) = 1" "min (1 - c) (min 1 (1 - c + y * c)) = 1 - c"
    "max (1 - c) (max (1 - y * c) 1) = 1" "min (1 - c) (min (1 - y * c) 1) = 1 - c"
    "max (1 - c + y * c) (max (1 - c) 1) = 1" "min (1 - c + y * c) (min (1 - c) 1) = 1 - c"
    "max 1 (max (1 - c) (1 - y * c)) = 1" "min 1 (min (1 - c) (1 - y * c)) = 1 - c"
    using b assms by (auto simp: max_def min_def)
  have n: "1 - c \<noteq> 1" "1 - c \<noteq> (1::rat)" using assms by simp_all
  have r: "1 - (1 - c) = c" by simp
  show "rgb_to_hs 1 (1 - c + y * c) (1 - c) = (frac_part (y / 6), c)"
    unfolding rgb_to_hs_def Let_def m r q using n by simp
  show "rgb_to_hs (1 - c) 1 (1 - c + y * c) = (frac_part ((2 + y) / 6), c)"
    unfolding rgb_to_hs_def Let_def m r q using n assms by (simp add: algebra_simps)
  show "rgb_to_hs (1 - y * c) 1 (1 - c) = (frac_part ((1 + y) / 6), c)"
    unfolding rgb_to_hs_def Let_def m r q using n assms b by (auto simp: algebra_simps)
  show "rgb_to_hs (1 - c) (1 - y * c) 1 = (frac_part ((3 + y) / 6), c)"
    unfolding rgb_to_hs_def Let_def m r q using n assms b by (auto simp: algebra_simps)
  show "rgb_to_hs (1 - c + y * c) (1 - c) 1 = (frac_part ((4 + y) / 6), c)"
    unfolding rgb_to_hs_def Let_def m r q using n assms b frac_part_less [of 0] by (auto simp: algebra_simps)
  show "rgb_to_hs 1 (1 - c) (1 - y * c) = (frac_part ((5 + y) / 6), c)"
    unfolding rgb_to_hs_def Let_def m r q using n assms b frac_part_less [of "y / 6"] by (simp add: add_divide_distrib diff_divide_distrib add.commute)
qed


text \<open>A saturation of \<open>k\<close> percent and a hue of \<open>60 * i + j\<close> degrees, as channels and back: the hue that
  is read is \<open>60 * m / k\<close> degrees into the sector, where \<open>m\<close> is the rounding of \<open>k * j / 60\<close>.\<close>

definition near :: "int \<Rightarrow> int \<Rightarrow> int \<Rightarrow> bool" where
  "near k j m \<longleftrightarrow> 0 \<le> m \<and> m \<le> k \<and> \<bar>120 * m - 2 * k * j\<bar> \<le> 60"

lemma near_round_up:
  assumes "0 \<le> j" "j < 60" "0 < k"
  shows "near k j (round_rat (100 - of_int k + of_int k * of_int j / 60) - (100 - k))"
    "near k j (100 - round_rat (100 - of_int k * of_int j / 60))"
proof -
  have kj: "0 \<le> k * j" "k * j \<le> k * 60" using assms by (simp_all add: mult_left_mono)
  then have kj': "0 \<le> (of_int k * of_int j :: rat)" "(of_int k * of_int j :: rat) \<le> of_int k * 60"
    by (metis (mono_tags) of_int_0_le_iff of_int_mult) (metis (mono_tags) kj(2) of_int_le_iff of_int_mult of_int_numeral)
  define a where "a = (100 - of_int k + of_int k * of_int j / 60 :: rat)"
  define b where "b = (100 - of_int k * of_int j / 60 :: rat)"
  have "100 - k \<le> round_rat a \<and> round_rat a \<le> 100"
    by (rule round_rat_range) (use kj' in \<open>simp_all add: a_def\<close>)
  moreover have "\<bar>120 * (of_int (round_rat a) - (100 - of_int k)) - 2 * of_int k * (of_int j :: rat)\<bar> \<le> 60"
    using round_rat_near [of a] by (simp add: a_def abs_le_iff algebra_simps)
  then have "\<bar>120 * (round_rat a - (100 - k)) - 2 * k * j\<bar> \<le> 60"
    by (metis (mono_tags, lifting) of_int_abs of_int_diff of_int_le_iff of_int_mult of_int_numeral)
  ultimately show "near k j (round_rat (100 - of_int k + of_int k * of_int j / 60) - (100 - k))"
    unfolding near_def a_def by simp
  have "100 - k \<le> round_rat b \<and> round_rat b \<le> 100"
    by (rule round_rat_range) (use kj' in \<open>simp_all add: b_def\<close>)
  moreover have "\<bar>120 * (100 - of_int (round_rat b)) - 2 * of_int k * (of_int j :: rat)\<bar> \<le> 60"
    using round_rat_near [of b] by (simp add: b_def abs_le_iff algebra_simps)
  then have "\<bar>120 * (100 - round_rat b) - 2 * k * j\<bar> \<le> 60"
    by (metis (mono_tags, lifting) of_int_abs of_int_diff of_int_le_iff of_int_mult of_int_numeral)
  ultimately show "near k j (100 - round_rat (100 - of_int k * of_int j / 60))"
    unfolding near_def b_def by simp
qed

lemma near_hue:
  assumes "near k j m" "20 \<le> k" "0 \<le> j" "j < 60"
  shows "\<bar>round_rat (60 * (of_int i + of_int m / of_int k)) - (60 * i + j)\<bar> \<le> 1"
proof -
  define x where "x = (60 * (of_int i + of_int m / of_int k) :: rat)"
  have k: "(0::rat) < of_int k" using assms(2) by simp
  have "\<bar>of_int (120 * m - 2 * k * j) :: rat\<bar> \<le> 60" using assms(1) unfolding near_def
    by (metis (mono_tags, lifting) of_int_abs of_int_le_iff of_int_numeral)
  moreover have "of_int (120 * m - 2 * k * j) = 2 * of_int k * (x - of_int (60 * i + j))"
    using k by (simp add: x_def field_simps)
  ultimately have d: "2 * of_int k * \<bar>x - of_int (60 * i + j)\<bar> \<le> 60" using k by (simp add: abs_mult)
  have "2 * \<bar>x - of_int (60 * i + j)\<bar> < 3"
  proof (cases "k = 20")
    case True
    then have "\<bar>120 * m - 40 * j\<bar> \<le> 60" using assms(1) by (simp add: near_def)
    then have "\<bar>3 * m - j\<bar> \<le> 1" by arith
    then have "\<bar>of_int (3 * m - j) :: rat\<bar> \<le> 1" by (metis of_int_1 of_int_abs of_int_le_iff)
    moreover have "x - of_int (60 * i + j) = of_int (3 * m - j)" using True by (simp add: x_def)
    ultimately have "\<bar>x - of_int (60 * i + j)\<bar> \<le> 1" by (simp only:)
    then have "2 * \<bar>x - of_int (60 * i + j)\<bar> \<le> 2 * 1" by (rule mult_left_mono) simp
    then show ?thesis by (rule le_less_trans) simp
  next
    case False
    with assms(2) have "(21::rat) \<le> of_int k" by simp
    then have "2 * 21 * \<bar>x - of_int (60 * i + j)\<bar> \<le> 2 * of_int k * \<bar>x - of_int (60 * i + j)\<bar>"
      by (intro mult_right_mono) simp_all
    with d show ?thesis by simp
  qed
  moreover have "\<bar>2 * (of_int (round_rat x) - x)\<bar> \<le> 1" by (rule round_rat_near)
  moreover have "(2 * \<bar>z\<bar> < 3) = (- 3 < 2 * z \<and> 2 * z < 3)" for z :: rat by (auto simp: abs_if)
  ultimately have "2 * \<bar>of_int (round_rat x) - of_int (60 * i + j) :: rat\<bar> < 4"
    by (auto simp: abs_if split: if_splits)
  then have "\<bar>of_int (round_rat x - (60 * i + j)) :: rat\<bar> < 2" by simp
  then have "\<bar>round_rat x - (60 * i + j)\<bar> < 2" by (metis of_int_abs of_int_less_iff of_int_numeral)
  then show ?thesis by (simp add: x_def)
qed


text \<open>The colour of a hue and a saturation, by sector.\<close>

lemma sector_colour:
  assumes "0 \<le> h" "h < 360" "20 \<le> k" "k \<le> 100"
  obtains i m where "near k (h mod 60) m" "i = h div 60"
    "hue_saturation_to_rgb (Fin (of_int h)) (Fin (of_int k)) = Inr
      (if i = 0 then (100, 100 - k + m, 100 - k) else if i = 1 then (100 - m, 100, 100 - k)
       else if i = 2 then (100 - k, 100, 100 - k + m) else if i = 3 then (100 - k, 100 - m, 100)
       else if i = 4 then (100 - k + m, 100 - k, 100) else (100, 100 - k, 100 - m))"
proof -
  define i j where "i = h div 60" and "j = h mod 60"
  have h: "h = 60 * i + j" by (simp add: i_def j_def)
  have i: "0 \<le> i" "i < 6" and j: "0 \<le> j" "j < 60" using assms(1,2) by (auto simp: i_def j_def)
  have s: "clamp_float (Fin (of_int k)) 0 100 / 100 = of_int k / (100::rat)" "of_int k / (100::rat) \<noteq> 0"
    using assms(3,4) by (simp_all add: clamp_float_def)
  have fp: "frac_part (of_int h / 360) = of_int h / (360::rat)"
    using assms(1,2) by (simp add: frac_part_def floor_eq_iff)
  have h6: "of_int h / 360 * 6 = of_int i + of_int j / (60::rat)" by (simp add: h)
  have jf: "0 \<le> of_int j / (60::rat)" "of_int j / (60::rat) < 1" using j by simp_all
  have "\<lfloor>of_int i + of_int j / (60::rat)\<rfloor> = i" using jf by (simp add: floor_eq_iff)
  then have t: "rat_trunc (of_int i + of_int j / (60::rat)) = i"
    using i jf by (auto simp: rat_trunc_def)
  have m: "i mod 6 = i" using i by simp
  define up where "up = round_rat (100 - of_int k + of_int k * of_int j / 60) - (100 - k)"
  define down where "down = 100 - round_rat (100 - of_int k * of_int j / 60)"
  have n: "near k j up" "near k j down" unfolding up_def down_def using near_round_up [OF j] assms(3) by simp_all
  have p: "round_rat ((1 - of_int k / 100) * 100) = 100 - k"
  proof -
    have "(1 - of_int k / 100) * 100 = (of_int (100 - k) :: rat)" by simp
    then show ?thesis by (simp only: round_rat_int)
  qed
  have one: "round_rat (1 * 100) = 100" using round_rat_int [of 100] by simp
  have q: "round_rat ((1 - of_int k / 100 * (of_int j / 60)) * 100) = 100 - down"
    by (simp add: down_def algebra_simps)
  have tt: "round_rat ((1 - of_int k / 100 * (1 - of_int j / 60)) * 100) = 100 - k + up"
    by (simp add: up_def algebra_simps)
  have hs: "hs_to_rgb (of_int h / 360) (of_int k / 100) =
      (let p = 1 - of_int k / 100; q = 1 - of_int k / 100 * (of_int j / 60); t = 1 - of_int k / 100 * (1 - of_int j / 60)
       in if i = 0 then (1, t, p) else if i = 1 then (q, 1, p) else if i = 2 then (p, 1, t)
          else if i = 3 then (p, q, 1) else if i = 4 then (t, p, 1) else (1, p, q))"
    unfolding hs_to_rgb_def Let_def if_not_P [OF s(2)] h6 t m add_diff_cancel_left' ..
  have rgb: "hue_saturation_to_rgb (Fin (of_int h)) (Fin (of_int k)) = Inr
      (if i = 0 then (100, 100 - k + up, 100 - k) else if i = 1 then (100 - down, 100, 100 - k)
       else if i = 2 then (100 - k, 100, 100 - k + up) else if i = 3 then (100 - k, 100 - down, 100)
       else if i = 4 then (100 - k + up, 100 - k, 100) else (100, 100 - k, 100 - down))"
    unfolding hue_saturation_to_rgb_def Let_def s(1) pyfloat.case fp hs channels_def
    by (simp only: if_distrib [where f = "case_prod _"] prod.case p one q tt cong: if_cong)
  show thesis
    by (rule that [of "if even i then up else down" i]) (use n rgb i in \<open>auto simp: i_def j_def\<close>)
qed

text \<open>A colour that an ecosystem sets survives the integer channels Indigo stores: from the
  saturation on at which the hue is published at all, the saturation is read back exactly and the
  hue within one degree, which is the tolerance of the difference.\<close>

theorem hue_roundtrip:
  assumes "0 \<le> h" "h < 360" "SATURATION_HUE_FLOOR \<le> k" "k \<le> 100"
  shows "\<exists>r g b h'. hue_saturation_to_rgb (Fin (of_int h)) (Fin (of_int k)) = Inr (r, g, b)
    \<and> rgb_to_hue_saturation (Fin (of_int r)) (Fin (of_int g)) (Fin (of_int b)) = Inr (h', k)
    \<and> (h' - h) mod 360 \<in> {0, 1, 359}"
proof -
  have k: "20 \<le> k" using assms(3) by (simp add: SATURATION_HUE_FLOOR_def)
  obtain i m where n: "near k (h mod 60) m" "i = h div 60" and rgb0:
    "hue_saturation_to_rgb (Fin (of_int h)) (Fin (of_int k)) = Inr
      (if i = 0 then (100, 100 - k + m, 100 - k) else if i = 1 then (100 - m, 100, 100 - k)
       else if i = 2 then (100 - k, 100, 100 - k + m) else if i = 3 then (100 - k, 100 - m, 100)
       else if i = 4 then (100 - k + m, 100 - k, 100) else (100, 100 - k, 100 - m))"
    using sector_colour [OF assms(1,2) k assms(4)] .
  have i: "i \<in> {0, 1, 2, 3, 4, 5}" using assms(1,2) n(2) by auto
  have m: "0 \<le> m" "m \<le> k" using n(1) by (simp_all add: near_def)
  define y where "y = (of_int m / of_int k :: rat)"
  define c where "c = (of_int k / 100 :: rat)"
  have y: "0 \<le> y" "y \<le> 1" and c: "0 < c" using m k by (simp_all add: y_def c_def)
  have yc: "y * c = of_int m / 100" using k by (simp add: y_def c_def)
  obtain r g b where rgb: "hue_saturation_to_rgb (Fin (of_int h)) (Fin (of_int k)) = Inr (r, g, b)"
    "rgb_to_hs (of_int r / 100) (of_int g / 100) (of_int b / 100) = (frac_part ((of_int i + y) / 6), c)"
    "max r (max g b) = 100" "min r (min g b) = 100 - k"
    using i rgb0 hs_sectors [OF c y, unfolded yc, unfolded c_def] m k
    by (auto simp: c_def diff_divide_distrib add_divide_distrib)
  have ex: "flt_max (flt_max (Fin (of_int r)) (Fin (of_int g))) (Fin (of_int b)) = Fin (of_int (max r (max g b)))"
    "flt_min (flt_min (Fin (of_int r)) (Fin (of_int g))) (Fin (of_int b)) = Fin (of_int (min r (min g b)))"
    by (auto simp: flt_max_def flt_min_def max_def min_def)
  let ?x = "60 * (of_int i + y)"
  have sat: "round_rat (c * 100) = k"
    using round_rat_int [of k] by (simp add: c_def)
  have hue: "round_rat (frac_part ((of_int i + y) / 6) * 360) mod 360 = round_rat ?x mod 360"
  proof (cases "(of_int i + y) / 6 = 1")
    case True
    then have "?x = of_int 360" by simp
    then have "round_rat ?x = 360" by (simp only: round_rat_int)
    moreover have "round_rat 0 = 0" using round_rat_int [of 0] by simp
    ultimately show ?thesis by (simp add: True frac_part_def)
  next
    case False
    have "0 \<le> (of_int i + y) / 6" "(of_int i + y) / 6 \<le> 1" using i y by auto
    with False have "\<lfloor>(of_int i + y) / 6\<rfloor> = 0" by (simp add: floor_eq_iff)
    then have "frac_part ((of_int i + y) / 6) * 360 = ?x" by (simp add: frac_part_def)
    then show ?thesis by simp
  qed
  have "\<bar>round_rat ?x - h\<bar> \<le> 1"
    using near_hue [OF n(1) k, of i] n(2) by (simp add: y_def)
  then have "round_rat ?x - h \<in> {- 1, 0, 1}" by auto
  then have "(round_rat ?x mod 360 - h) mod 360 \<in> {0, 1, 359}"
    by (auto simp: mod_diff_left_eq)
  moreover have "rgb_to_hue_saturation (Fin (of_int r)) (Fin (of_int g)) (Fin (of_int b)) = Inr (round_rat ?x mod 360, k)"
    unfolding rgb_to_hue_saturation_def Let_def ex rgb(3,4)
    using rgb(2) k hue sat by (simp add: flt_eq_def)
  ultimately show ?thesis using rgb(1) by (intro exI conjI)
qed

lemma hue_roundtrip_witness:
  "\<exists>r g b h'. hue_saturation_to_rgb (Fin (of_int 205)) (Fin (of_int 20)) = Inr (r, g, b)
    \<and> rgb_to_hue_saturation (Fin (of_int r)) (Fin (of_int g)) (Fin (of_int b)) = Inr (h', 20)
    \<and> (h' - 205) mod 360 \<in> {0, 1, 359}"
  by (rule hue_roundtrip) (simp_all add: SATURATION_HUE_FLOOR_def)

section \<open>Colour temperature\<close>

lemma kelvin_range:
  assumes "153 \<le> m" "m \<le> 500"
  shows "2000 \<le> mireds_to_kelvin m" "\<bar>2 * (mireds_to_kelvin m * m - 1000000)\<bar> \<le> m"
proof -
  have k: "mireds_to_kelvin m = round_div 1000000 m" using assms by (simp add: mireds_to_kelvin_def)
  show n: "\<bar>2 * (mireds_to_kelvin m * m - 1000000)\<bar> \<le> m" unfolding k by (rule round_div_near) (use assms in simp)
  show "2000 \<le> mireds_to_kelvin m"
  proof (rule ccontr)
    assume "\<not> 2000 \<le> mireds_to_kelvin m"
    then have "mireds_to_kelvin m * m \<le> 1999 * 500" using assms by (intro mult_mono) simp_all
    with n assms show False by simp
  qed
qed

lemma kelvin_back:
  assumes "153 \<le> m" "m \<le> 500"
  shows "round_rat (fl (1000000 / of_int (mireds_to_kelvin m))) = m"
proof (rule round_rat_unique)
  define k where "k = mireds_to_kelvin m"
  define x where "x = (1000000 / of_int k :: rat)"
  note kr = kelvin_range [OF assms, folded k_def]
  have k: "(2000::rat) \<le> of_int k" using kr(1) by simp
  have "\<bar>2 * (of_int k * of_int m - 1000000) :: rat\<bar> \<le> of_int m"
    using kr(2) by (metis (mono_tags, lifting) of_int_abs of_int_diff of_int_le_iff of_int_mult of_int_numeral)
  then have d: "2 * \<bar>of_int k * of_int m - 1000000 :: rat\<bar> \<le> 500" using assms(2) by (simp add: abs_mult)
  have "\<bar>x - of_int m\<bar> * of_int k = \<bar>of_int k * of_int m - 1000000\<bar>"
    using k by (simp add: x_def abs_mult_pos [symmetric] flip: abs_mult) (simp add: field_simps abs_minus_commute)
  then have "\<bar>x - of_int m\<bar> * 2000 \<le> 250"
    using d mult_left_mono [OF k, of "\<bar>x - of_int m\<bar>"] by simp
  then have e: "\<bar>x - of_int m\<bar> \<le> 1 / 8" by simp
  then have "\<bar>x\<bar> \<le> 501" using assms by (auto simp: abs_if split: if_splits)
  moreover have "\<bar>fl x - x\<bar> \<le> \<bar>x\<bar> / 2 ^ 53" by (rule fl_near)
  ultimately have "\<bar>fl x - x\<bar> \<le> 1 / 8" by simp
  with e have "\<bar>fl x - of_int m\<bar> \<le> 1 / 4" by (auto simp: abs_if split: if_splits)
  then show "2 * \<bar>fl (1000000 / of_int (mireds_to_kelvin m)) - of_int m\<bar> < 1" by (simp add: x_def k_def)
qed

text \<open>A device that was sent a colour temperature and reports the Kelvin value it was given is seen at
  exactly the commanded number, for every command in or outside the domain of the protocol: what is
  pushed optimistically after the command is confirmed by the echo, not overwritten.\<close>

theorem color_temp_confirmed:
  assumes "h \<in> {ColorTemperatureExport, ExtendedColorExport}"
    and "dispatch_command h ''setColorTemp'' args dev options None lt = (DispatchDone, lt', logs, Some (SetWhiteTemperature d k))"
  shows "d = xd_id dev \<and> commanded_states h ''setColorTemp'' args = ct_state (Some (Fin (of_int k)))"
proof -
  have "map_of (commands h) ''setColorTemp'' = Some (\<lambda>args dev options. plan_set_color_temp args dev)"
    using assms(1) by (auto simp: on_off_commands_def dimmable_commands_def color_temperature_commands_def
        extended_color_commands_def)
  then have p: "plan_set_color_temp args dev = Calls (SetWhiteTemperature d k)"
    using assms(2) by (auto simp: dispatch_command_def split: command_plan.splits prod.splits)
  define v where "v = dget args ''colorTempMireds''"
  from p obtain n where n: "usable_mireds v" "round_val v = Inr n" "d = xd_id dev"
      "k = mireds_to_kelvin (clamp n MIREDS_MIN MIREDS_MAX)"
    by (auto simp: plan_set_color_temp_def or_raises_def v_def Let_def split: if_splits sum.splits)
  define m where "m = clamp n MIREDS_MIN MIREDS_MAX"
  have m: "153 \<le> m" "m \<le> 500" using clamp_range [of MIREDS_MIN MIREDS_MAX n] by (simp_all add: m_def MIREDS_MIN_def MIREDS_MAX_def)
  have k: "2000 \<le> k" using kelvin_range(1) [OF m] n(4) by (simp add: m_def)
  have "mireds_of_kelvin (Fin (of_int k)) = Inr m"
    using kelvin_back [OF m] n(4) k by (simp add: mireds_of_kelvin_def m_def)
  moreover have "clamp m MIREDS_MIN MIREDS_MAX = m" using m by (intro clamp_id) (simp_all add: MIREDS_MIN_def MIREDS_MAX_def)
  ultimately have "ct_state (Some (Fin (of_int k))) = Inr [(''colorTempMireds'', PInt m)]"
    using k by (simp add: ct_state_def)
  moreover have "commanded_states h ''setColorTemp'' args = Inr [(''colorTempMireds'', PInt m)]"
    using assms(1) n(1,2) by (auto simp: commanded_states_def v_def m_def)
  ultimately show ?thesis using n(3) by simp
qed

definition demo_lamp :: device where
  "demo_lamp = \<lparr>xd_id = 7, xd_attrs = [(''onState'', PBool True), (''brightness'', PInt 40), (''whiteLevel'', PInt 100),
     (''whiteTemperature'', PInt 2500), (''redLevel'', PInt 0), (''greenLevel'', PInt 0), (''blueLevel'', PInt 0)],
     xd_hvac = None, xd_states = Inr [(''colorMode'', PStr ''color_temp'')], xd_plugin_id = Some ''x'',
     xd_owner_props = [], xd_global_props = []\<rparr>"

lemma color_temp_confirmed_witness:
  "commanded_states ExtendedColorExport ''setColorTemp'' [(''colorTempMireds'', PInt 426)] = ct_state (Some (Fin (of_int 2347)))"
proof -
  have "dispatch_command ExtendedColorExport ''setColorTemp'' [(''colorTempMireds'', PInt 426)] demo_lamp [] None latches_init
      = (DispatchDone, latches_init\<lparr>lt_non_z2m := {7}\<rparr>, [InfoNonZ2m 7], Some (SetWhiteTemperature 7 2347))"
    by code_simp
  from color_temp_confirmed [OF _ this] show ?thesis by simp
qed

text \<open>A lamp that shows red.\<close>

definition demo_red :: device where
  "demo_red = demo_lamp\<lparr>xd_attrs := [(''onState'', PBool True), (''redLevel'', PInt 100), (''greenLevel'', PInt 50), (''blueLevel'', PInt 50)],
     xd_states := Inr []\<rparr>"

lemma published_typed_witness:
  "\<exists>st lt' logs. published_states ExtendedColorExport demo_red [] latches_init = (Inr st, lt', logs)
     \<and> map_of st ''saturation'' = Some (PInt 50) \<and> (0 :: int) \<le> 50 \<and> (50 :: int) \<le> 100"
proof -
  have h: "handler_for ''extendedColorLight'' = Some ExtendedColorExport" by code_simp
  obtain r lt' logs where run: "published_states ExtendedColorExport demo_red [] latches_init = (r, lt', logs)"
    by (cases "published_states ExtendedColorExport demo_red [] latches_init")
  have "(case fst (published_states ExtendedColorExport demo_red [] latches_init) of
      Inr st \<Rightarrow> map_of st ''saturation'' = Some (PInt 50) | Inl _ \<Rightarrow> False)" by code_simp
  then obtain st where st: "r = Inr st" "map_of st ''saturation'' = Some (PInt 50)" using run by (cases r) auto
  have "colors_not_negative demo_red" by code_simp
  with published_typed [OF h run [unfolded st(1)]] st(2) have "(0 :: int) \<le> 50 \<and> (50 :: int) \<le> 100" by blast
  with run st show ?thesis by blast
qed

lemma one_color_channel_witness:
  "map_of [(''onOff'', PBool True), (''level'', PInt 40), (''colorTempMireds'', PInt 400)] ''colorTempMireds'' = None
   \<or> (map_of [(''onOff'', PBool True), (''level'', PInt 40), (''colorTempMireds'', PInt 400)] ''hue'' = None
      \<and> map_of [(''onOff'', PBool True), (''level'', PInt 40), (''colorTempMireds'', PInt 400)] ''saturation'' = None)"
proof -
  have "states_for ExtendedColorExport demo_lamp [] latches_init
      = (Inr [(''onOff'', PBool True), (''level'', PInt 40), (''colorTempMireds'', PInt 400)], latches_init, [])"
    by code_simp
  from one_color_channel [OF this] show ?thesis .
qed

section \<open>Commands\<close>

text \<open>C29: the commands a role answers are exactly those the protocol defines for it: a command is refused
  if and only if the table of the protocol does not list it for the role.\<close>

theorem commands_match_protocol:
  assumes "handler_for role = Some h"
  shows "fst (dispatch_command h command args dev options raises lt) = DispatchRefused
    \<longleftrightarrow> command \<notin> set (case map_of ROLE_COMMANDS role of None \<Rightarrow> [] | Some cs \<Rightarrow> cs)"
proof -
  have cs: "map_of ROLE_COMMANDS role = Some (map fst (commands h))" by (rule handler_for_role(3) [OF assms])
  have "fst (dispatch_command h command args dev options raises lt) = DispatchRefused \<longleftrightarrow> map_of (commands h) command = None"
    by (auto simp: dispatch_command_def split: option.split command_plan.split prod.split)
  then show ?thesis using map_of_eq_None_iff [of "commands h" command] by (simp add: cs)
qed

lemma commands_match_protocol_witness:
  "fst (dispatch_command DoorLockExport ''setLevel'' [] demo_lamp [] None latches_init) = DispatchRefused
   \<longleftrightarrow> ''setLevel'' \<notin> set (case map_of ROLE_COMMANDS ''doorLock'' of None \<Rightarrow> [] | Some cs \<Rightarrow> cs)"
  by (rule commands_match_protocol) code_simp

text \<open>Whatever its arguments are, a command makes at most the one Indigo call its result reports, on the
  device it was sent for, with a brightness in the domain of Indigo and a temperature no lamp
  could be asked to exceed.\<close>

fun call_ok :: "int \<Rightarrow> indigo_call \<Rightarrow> bool" where
  "call_ok d (TurnOn i) = (i = d)"
| "call_ok d (TurnOff i) = (i = d)"
| "call_ok d (SetBrightness i n) = (i = d \<and> 0 \<le> n \<and> n \<le> 100)"
| "call_ok d (SetWhiteTemperature i k) = (i = d \<and> 2000 \<le> k \<and> k \<le> 6536)"
| "call_ok d (SetRgb i r g b) = (i = d)"
| "call_ok d (LockDevice i) = (i = d)"
| "call_ok d (UnlockDevice i) = (i = d)"
| "call_ok d (SetHeatSetpoint i f) = (i = d)"
| "call_ok d (SetCoolSetpoint i f) = (i = d)"
| "call_ok d (SetHvacMode i m) = (i = d \<and> m \<in> {HvOff, HvHeat, HvCool, HvHeatCool})"

lemma kelvin_upper: "153 \<le> m \<Longrightarrow> m \<le> 500 \<Longrightarrow> mireds_to_kelvin m \<le> 6536"
proof -
  assume m: "153 \<le> m" "m \<le> 500"
  have "mireds_to_kelvin m \<le> mireds_to_kelvin 153" by (rule mireds_to_kelvin_antimono) (use m in simp_all)
  also have "mireds_to_kelvin 153 = 6536" by code_simp
  finally show ?thesis .
qed

lemma position_range: "0 \<le> position_of n options \<and> position_of n options \<le> 100"
  using clamp_range [of 0 100 n] by (auto simp: position_of_def)

lemma plan_call_ok:
  assumes "(command, f) \<in> set (commands h)" "f args dev options = Calls call"
  shows "call_ok (xd_id dev) call"
proof -
  have m: "153 \<le> clamp n MIREDS_MIN MIREDS_MAX" "clamp n MIREDS_MIN MIREDS_MAX \<le> 500" for n
    using clamp_range [of MIREDS_MIN MIREDS_MAX n] by (simp_all add: MIREDS_MIN_def MIREDS_MAX_def)
  have "plan_on_off args dev = Calls call \<Longrightarrow> ?thesis" by (auto simp: plan_on_off_def split: if_splits)
  moreover have "plan_set_level args dev = Calls call \<Longrightarrow> ?thesis"
    using clamp_range [of 0 100]
    by (auto simp: plan_set_level_def guard_number_def or_raises_def split: if_splits sum.splits)
  moreover have "plan_set_color_temp args dev = Calls call \<Longrightarrow> ?thesis"
    using kelvin_range(1) [OF m] kelvin_upper [OF m]
    by (auto simp: plan_set_color_temp_def or_raises_def Let_def split: if_splits sum.splits)
  moreover have "plan_set_color args dev = Calls call \<Longrightarrow> ?thesis"
    by (auto simp: plan_set_color_def guard_number_def or_raises_def split: if_splits sum.splits)
  moreover have "plan_go_to_position args dev options = Calls call \<Longrightarrow> ?thesis"
    using position_range
    by (auto simp: plan_go_to_position_def guard_number_def or_raises_def split: if_splits sum.splits)
  moreover have "plan_drive dev b = Calls call \<Longrightarrow> ?thesis" for b by (auto simp: plan_drive_def split: if_splits)
  moreover have "or_raises (setpoint_of args) (\<lambda>f. Calls (SetHeatSetpoint (xd_id dev) f)) = Calls call \<Longrightarrow> ?thesis"
    "or_raises (setpoint_of args) (\<lambda>f. Calls (SetCoolSetpoint (xd_id dev) f)) = Calls call \<Longrightarrow> ?thesis"
    by (auto simp: or_raises_def split: sum.splits)
  moreover have "plan_set_mode args dev = Calls call \<Longrightarrow> ?thesis"
    by (auto simp: plan_set_mode_def hvac_mode_for_def split: option.splits pyval.splits if_splits)
  ultimately show ?thesis
    using assms by (cases h) (auto simp: on_off_commands_def dimmable_commands_def color_temperature_commands_def
        extended_color_commands_def)
qed

text \<open>Whatever arguments an ecosystem sends, a call that reaches Indigo addresses the exported
  device itself; a brightness is a percentage, a white temperature is the kelvin of a mired value
  the export accepts (2000 to 6536), and an HVAC mode is one of the four that have a name.\<close>

theorem command_calls_ok:
  assumes "dispatch_command h command args dev options raises lt = (r, lt', logs, Some call)"
  shows "call_ok (xd_id dev) call"
proof -
  obtain f where f: "map_of (commands h) command = Some f" "f args dev options = Calls call"
    using assms by (auto simp: dispatch_command_def split: option.splits command_plan.splits prod.splits)
  then show ?thesis using plan_call_ok map_of_SomeD by metis
qed

lemma command_calls_ok_witness:
  "call_ok 7 (SetBrightness 7 100)"
proof -
  have "dispatch_command DimmableExport ''setLevel'' [(''level'', PFloat (Fin 250))] demo_lamp [] None latches_init
      = (DispatchDone, latches_init, [], Some (SetBrightness 7 100))"
    by code_simp
  from command_calls_ok [OF this] show ?thesis by (simp add: demo_lamp_def)
qed

text \<open>The polarity of a covering is one for both directions: the brightness a position command sets is
  read back as that position under the same options, inverted or not.\<close>

theorem position_confirmed:
  assumes "dispatch_command CoveringExport ''goToPosition'' args dev options None lt = (r, lt', logs, Some (SetBrightness d n))"
    and "attr dev' ''brightness'' = PInt n"
  shows "\<exists>p. round_val (dget args ''position'') = Inr p
    \<and> states_for CoveringExport dev' options lt'' = (Inr [(''position'', PInt (clamp p 0 100))], lt'', [])"
proof -
  have "plan_go_to_position args dev options = Calls (SetBrightness d n)"
    using assms(1) by (auto simp: dispatch_command_def split: command_plan.splits prod.splits)
  then obtain p where p: "round_val (dget args ''position'') = Inr p" "n = position_of (clamp p 0 100) options"
    by (auto simp: plan_go_to_position_def guard_number_def or_raises_def split: if_splits sum.splits)
  have "0 \<le> n" "n \<le> 100" using position_range p(2) by auto
  then have f: "float_int n = Inr (Fin (of_int n))" by (simp add: float_int_def)
  have "position_of n options = clamp p 0 100"
    unfolding p(2) position_of_def clamp_def by auto
  then show ?thesis using p(1) assms(2) f by (simp add: covering_states_def number_def)
qed

definition demo_blind :: device where
  "demo_blind = demo_lamp\<lparr>xd_attrs := [(''brightness'', PInt 70)]\<rparr>"

lemma position_confirmed_witness:
  "states_for CoveringExport demo_blind [(''invert'', PBool True)] latches_init = (Inr [(''position'', PInt 30)], latches_init, [])"
proof -
  have d: "dispatch_command CoveringExport ''goToPosition'' [(''position'', PInt 30)] demo_lamp [(''invert'', PBool True)] None latches_init
      = (DispatchDone, latches_init, [], Some (SetBrightness 7 70))"
    by code_simp
  have b: "attr demo_blind ''brightness'' = PInt 70" by code_simp
  from position_confirmed [OF d b, of latches_init] show ?thesis by (auto simp: dget_def clamp_def)
qed

text \<open>A device exported as a lock: a real lock is never driven as a relay, and the relay of a plain one
  is driven with the polarity its state is published with.\<close>

theorem lock_polarity:
  assumes "command \<in> {''lock'', ''unlock''}"
    and "dispatch_command DoorLockExport command args dev options None lt = (r, lt', logs, Some call)"
  shows "call = (if is_lock dev then (if command = ''lock'' then LockDevice (xd_id dev) else UnlockDevice (xd_id dev))
                 else if command = ''lock'' then TurnOn (xd_id dev) else TurnOff (xd_id dev))
    \<and> (\<forall>dev'. attr dev' ''onState'' = PBool (command = ''lock'') \<longrightarrow>
          states_for DoorLockExport dev' options lt' = (Inr [(''locked'', PBool (command = ''lock''))], lt', []))"
  using assms by (auto simp: dispatch_command_def plan_drive_def lock_states_def split: if_splits prod.splits)

lemma lock_polarity_witness: "\<not> is_lock demo_lamp \<and> TurnOn 7 = TurnOn (xd_id demo_lamp)"
proof -
  have "dispatch_command DoorLockExport ''lock'' [] demo_lamp [] None latches_init
      = (DispatchDone, latches_init\<lparr>lt_relay := {7}\<rparr>, [InfoRelayFallback 7], Some (TurnOn 7))"
    by code_simp
  moreover have "\<not> is_lock demo_lamp" by code_simp
  moreover have "''lock'' \<in> {''lock'', ''unlock''}" by simp
  ultimately show ?thesis using lock_polarity [THEN conjunct1] by (metis (full_types))
qed

section \<open>Differences\<close>

text \<open>What the bridge shows after a push: the values pushed before, with the changed ones replaced.\<close>

definition shown :: "pydict \<Rightarrow> state_diff \<Rightarrow> string \<Rightarrow> pyval option" where
  "shown pushed d k = (case map_of (sd_changed d) k of None \<Rightarrow> map_of pushed k | Some v \<Rightarrow> Some v)"

lemma map_of_filter_pair:
  assumes "distinct (map fst d)"
  shows "map_of (filter (\<lambda>(k, v). P k v) d) k = (case map_of d k of Some v \<Rightarrow> if P k v then Some v else None | None \<Rightarrow> None)"
  using assms by (induction d) (auto simp: map_of_eq_None_iff split: option.splits if_splits)

lemma value_kinds:
  "k \<in> {''level'', ''position'', ''saturation'', ''hue'', ''colorTempMireds'', ''batteryLevel''} \<Longrightarrow> value_ok k v \<Longrightarrow> \<exists>n. v = PInt n"
  "k = ''systemMode'' \<Longrightarrow> value_ok k v \<Longrightarrow> \<exists>s. v = PStr s"
  "k \<in> {''temperatureC'', ''humidityPct'', ''lux'', ''pressureKPa'', ''flowM3h'', ''localTemperatureC'', ''heatingSetpointC'', ''coolingSetpointC''}
     \<Longrightarrow> value_ok k v \<Longrightarrow> \<exists>f. v = PFloat f"
  "k \<notin> {''level'', ''position'', ''saturation'', ''hue'', ''colorTempMireds'', ''batteryLevel''} \<Longrightarrow> k \<noteq> ''systemMode''
     \<Longrightarrow> k \<notin> {''temperatureC'', ''humidityPct'', ''lux'', ''pressureKPa'', ''flowM3h'', ''localTemperatureC'', ''heatingSetpointC'', ''coolingSetpointC''}
     \<Longrightarrow> value_ok k v \<Longrightarrow> \<exists>b. v = PBool b"
  subgoal by (elim insertE emptyE) (auto simp: value_ok_keys)
  subgoal by (auto simp: value_ok_keys)
  subgoal by (elim insertE emptyE) (simp_all add: value_ok_def)
  subgoal by (simp add: value_ok_def)
  done

lemma same_kind:
  assumes "value_ok k v" "value_ok k w"
  shows "(\<exists>m n. v = PInt m \<and> w = PInt n) \<or> (\<exists>a b. v = PBool a \<and> w = PBool b) \<or> (\<exists>x y. v = PFloat x \<and> w = PFloat y)
    \<or> (\<exists>x y. v = PStr x \<and> w = PStr y)"
  using value_kinds [of k v] value_kinds [of k w] assms by meson

lemma equal_typed: "value_ok k v \<Longrightarrow> value_ok k w \<Longrightarrow> py_eq v w \<Longrightarrow> v = w"
  using same_kind [of k v w] by (auto simp: py_eq_def flt_eq_def split: if_splits)

definition tolerated :: "handler \<Rightarrow> string \<Rightarrow> pyval \<Rightarrow> pyval \<Rightarrow> bool" where
  "tolerated h k v w \<longleftrightarrow> v = w \<or> \<not> changed_value h k (Some v) w"

lemma diff_shown:
  assumes "handler_for role = Some h" "published_states h dev options lt = (Inr after, lt', logs)" "map_of after k = Some w"
  shows "\<exists>v. shown pushed (diff_states h pushed after) k = Some v \<and> tolerated h k v w \<and> (v = w \<or> map_of pushed k = Some v)"
proof -
  have ok: "snapshot_ok (handler_keys h @ [''batteryLevel'']) after"
    by (rule published_ok [OF handler_for_role(1) [OF assms(1)] assms(2)])
  have c: "map_of (sd_changed (diff_states h pushed after)) k =
      (if changed_value h k (map_of pushed k) w then Some w else None)"
    using assms(3) ok by (simp add: diff_states_def Let_def map_of_filter_pair snapshot_ok_def)
  show ?thesis
  proof (cases "changed_value h k (map_of pushed k) w")
    case True
    then show ?thesis by (simp add: shown_def c tolerated_def)
  next
    case False
    then obtain v where "map_of pushed k = Some v" by (cases "map_of pushed k") (simp_all add: changed_value_def)
    with False show ?thesis by (intro exI [of _ v]) (simp add: shown_def c tolerated_def)
  qed
qed

text \<open>C27: the drift is bounded: for every key the device answers, the value shown after the push is the device's
  own, or a hue at most one degree off, or a colour temperature at most 30 mireds off. The difference is
  taken from what was pushed, so this holds however many small steps led there.\<close>

theorem diff_bounds_drift:
  assumes "handler_for role = Some h" "published_states h dev options lt = (Inr after, lt', logs)" "map_of after k = Some w"
    and "\<forall>v. map_of pushed k = Some v \<longrightarrow> value_ok k v"
  shows "\<exists>v. shown pushed (diff_states h pushed after) k = Some v
    \<and> (v = w \<or> (\<exists>m n. v = PInt m \<and> w = PInt n
         \<and> (k = ''hue'' \<and> \<bar>m - n\<bar> \<le> 1 \<or> k = ''colorTempMireds'' \<and> \<bar>m - n\<bar> \<le> 30)))"
proof -
  have "snapshot_ok (handler_keys h @ [''batteryLevel'']) after"
    by (rule published_ok [OF handler_for_role(1) [OF assms(1)] assms(2)])
  then have w: "value_ok k w" using map_of_SomeD [OF assms(3)] by (auto simp: snapshot_ok_def)
  obtain v where v: "shown pushed (diff_states h pushed after) k = Some v" "tolerated h k v w" "v = w \<or> map_of pushed k = Some v"
    using diff_shown [OF assms(1-3)] by blast
  then have "value_ok k v" using assms(4) w by blast
  have "v = w \<or> (\<exists>m n. v = PInt m \<and> w = PInt n \<and> (k = ''hue'' \<and> \<bar>m - n\<bar> \<le> 1 \<or> k = ''colorTempMireds'' \<and> \<bar>m - n\<bar> \<le> 30))"
  proof (cases "v = w")
    case False
    then have same: "\<not> changed_value h k (Some v) w" using v(2) by (simp add: tolerated_def)
    show ?thesis
    proof (cases "map_of (tolerances h) k")
      case None
      then show ?thesis using same equal_typed [OF \<open>value_ok k v\<close> w] by (simp add: changed_value_def)
    next
      case (Some t)
      then have k: "k = ''hue'' \<and> t = 1 \<or> k = ''colorTempMireds'' \<and> t = 30"
        by (cases h) (auto simp: CT_TOLERANCE_MIREDS_def HUE_TOLERANCE_DEGREES_def split: if_splits)
      then obtain m n where mn: "v = PInt m" "w = PInt n" using \<open>value_ok k v\<close> w by (auto simp: value_ok_keys)
      then have "\<bar>of_int n - of_int m :: rat\<bar> \<le> of_int t" using same Some by (simp add: changed_value_def gap_exceeds_def)
      then have "\<bar>n - m\<bar> \<le> t" by (metis of_int_abs of_int_diff of_int_le_iff)
      then show ?thesis using k mn by (auto simp: abs_minus_commute)
    qed
  qed simp
  then show ?thesis using v(1) by blast
qed

lemma diff_bounds_drift_witness:
  "\<exists>v. shown [(''colorTempMireds'', PInt 426)] (diff_states ExtendedColorExport [(''colorTempMireds'', PInt 426)]
        [(''onOff'', PBool True), (''level'', PInt 40), (''colorTempMireds'', PInt 400)]) ''colorTempMireds'' = Some v
     \<and> (v = PInt 400 \<or> (\<exists>m. v = PInt m \<and> \<bar>m - 400\<bar> \<le> 30))"
proof -
  have h: "handler_for ''extendedColorLight'' = Some ExtendedColorExport" by code_simp
  have s: "published_states ExtendedColorExport demo_lamp [] latches_init
      = (Inr [(''onOff'', PBool True), (''level'', PInt 40), (''colorTempMireds'', PInt 400)], latches_init, [])"
    by code_simp
  have a: "map_of [(''onOff'', PBool True), (''level'', PInt 40), (''colorTempMireds'', PInt 400)] ''colorTempMireds'' = Some (PInt 400)"
    by simp
  have b: "\<forall>v. map_of [(''colorTempMireds'', PInt 426)] ''colorTempMireds'' = Some v \<longrightarrow> value_ok ''colorTempMireds'' v"
    by (simp add: value_ok_keys)
  from diff_bounds_drift [OF h s a b] show ?thesis by auto
qed

end
