(* ===== verification/ExportBridgePush.thy ===== *)
theory ExportBridgePush
  imports ExportBridgeFacts ExportFacts
begin

text \<open>
  What the export engine tells the node about a device: how a published endpoint comes about, what a
  push leaves in the snapshot, and what an attach does about a device that could not be read.
\<close>

section \<open>Published endpoints\<close>

lemma skip_result: "\<exists>s' l. skip d why s = (Inr None, s', l) \<and> eb_confirmed_deleted s' = eb_confirmed_deleted s
    \<and> eb_store s' = eb_store s \<and> map_of (eb_skipped s') d = Some why"
  by (cases "map_of (eb_skipped s) d = Some why") (auto simp: skip_def op_runs drop_pushed_def)

lemma indigo_device_result: "\<exists>l. indigo_device env d s = (Inr (case ev_read env d of Inr x \<Rightarrow> Some x | Inl _ \<Rightarrow> None), s, l)"
  by (auto simp: indigo_device_def op_runs split: sum.splits)

text \<open>Building an endpoint never fails; it gives one exactly as a reading of the device that the
  catalogue and the handler of the role accept, and otherwise remembers why not.\<close>

lemma spec_for_result:
  obtains (no_device) s' l e where "spec_for env entry s = (Inr None, s', l)" "ev_read env (ee_device_id entry) = Inl e"
      "eb_confirmed_deleted s' = insert (ee_device_id entry) (eb_confirmed_deleted s)"
      "map_of (eb_skipped s') (ee_device_id entry) = Some SkipNoDevice" "eb_store s' = eb_store s"
  | (skipped) s' l why d where "spec_for env entry s = (Inr None, s', l)" "ev_read env (ee_device_id entry) = Inr d"
      "eb_confirmed_deleted s' = eb_confirmed_deleted s" "map_of (eb_skipped s') (ee_device_id entry) = Some why"
      "eb_store s' = eb_store s"
  | (built) s' l d roles dflt h states lt logs where "spec_for env entry s = (Inr (Some (spec_of entry d states)), s', l)"
      "ev_read env (ee_device_id entry) = Inr d"
      "fst (classify (ho_catalog d) (ev_plugin_id env) (PDict (ee_options entry))) = EligibleDevice roles dflt"
      "ee_role entry \<in> set roles" "handler_for (ee_role entry) = Some h"
      "published_states h (ho_reader d) (ee_options entry) (eb_latches s) = (Inr states, lt, logs)"
      "eb_confirmed_deleted s' = eb_confirmed_deleted s" "map_of (eb_pushed s') (ee_device_id entry) = Some states"
      "eb_store s' = eb_store s"
proof -
  let ?i = "ee_device_id entry"
  obtain l0 where dev: "indigo_device env ?i s = (Inr (case ev_read env ?i of Inr x \<Rightarrow> Some x | Inl _ \<Rightarrow> None), s, l0)"
    using indigo_device_result by blast
  show thesis
  proof (cases "ev_read env ?i")
    case (Inl e)
    let ?s = "s\<lparr>eb_confirmed_deleted := insert ?i (eb_confirmed_deleted s)\<rparr>"
    obtain s' l where "skip ?i SkipNoDevice ?s = (Inr (None :: endpoint_spec option), s', l)"
      "eb_confirmed_deleted s' = insert ?i (eb_confirmed_deleted s)" "map_of (eb_skipped s') ?i = Some SkipNoDevice" "eb_store s' = eb_store s"
      using skip_result [of ?i SkipNoDevice ?s] by auto
    then show thesis using no_device Inl dev by (simp add: spec_for_def Let_def bind_def [of "indigo_device env ?i"] op_simps)
  next
    case (Inr d)
    obtain verdict clogs where c: "classify (ho_catalog d) (ev_plugin_id env) (PDict (ee_options entry)) = (verdict, clogs)"
      by (cases "classify (ho_catalog d) (ev_plugin_id env) (PDict (ee_options entry))")
    have skipping: thesis if run: "spec_for env entry s = (case skip ?i why t of (r, s1, l1) \<Rightarrow> (r, s1, l2 @ l1))"
      and conf: "eb_confirmed_deleted t = eb_confirmed_deleted s" "eb_store t = eb_store s" for why t l2
    proof -
      obtain s' l where "skip ?i why t = (Inr (None :: endpoint_spec option), s', l)"
        "eb_confirmed_deleted s' = eb_confirmed_deleted t" "map_of (eb_skipped s') ?i = Some why" "eb_store s' = eb_store t"
        using skip_result by blast
      then show thesis using skipped run conf Inr by simp
    qed
    show thesis
    proof (cases verdict)
      case (MappableDevice ks)
      then show thesis using skipping [where why = "SkipNotExportable None" and t = s and ?l2.0 = "l0 @ map CatalogLog clogs"] dev Inr c
        by (simp add: spec_for_def Let_def bind_def [of "indigo_device env ?i"] op_simps split: prod.splits)
    next
      case (Excluded why)
      then show thesis using skipping [where why = "SkipNotExportable (Some why)" and t = s and ?l2.0 = "l0 @ map CatalogLog clogs"] dev Inr c
        by (simp add: spec_for_def Let_def bind_def [of "indigo_device env ?i"] op_simps split: prod.splits)
    next
      case (EligibleDevice roles dflt)
      show thesis
      proof (cases "ee_role entry \<in> set roles")
        case False
        then show thesis using skipping [where why = "SkipRoleNotOffered (ee_role entry) roles" and t = s and ?l2.0 = "l0 @ map CatalogLog clogs"] dev Inr c EligibleDevice
          by (simp add: spec_for_def Let_def bind_def [of "indigo_device env ?i"] op_simps split: prod.splits)
      next
        case True
        show thesis
        proof (cases "handler_for (ee_role entry)")
          case None
          then show thesis using skipping [where why = "SkipRoleUnknown (ee_role entry)" and t = s and ?l2.0 = "l0 @ map CatalogLog clogs"] dev Inr c EligibleDevice True
            by (simp add: spec_for_def Let_def bind_def [of "indigo_device env ?i"] op_simps split: prod.splits)
        next
          case (Some h)
          obtain r lt logs where p: "published_states h (ho_reader d) (ee_options entry) (eb_latches s) = (r, lt, logs)"
            by (cases "published_states h (ho_reader d) (ee_options entry) (eb_latches s)")
          show thesis
          proof (cases r)
            case (Inl e)
            then show thesis
              using skipping [where why = SkipStateUnreadable and t = "s\<lparr>eb_latches := lt\<rparr>" and ?l2.0 = "l0 @ map CatalogLog clogs @ map HandlerLog logs"]
                dev Inr c EligibleDevice True Some p
              by (simp add: spec_for_def Let_def bind_def [of "indigo_device env ?i"] op_simps catch_def
                  bind_def [of "with_latches f" for f] with_latches_def split: prod.splits)
          next
            case (Inr states)
            then show thesis using built \<open>ev_read env ?i = Inr d\<close> dev c EligibleDevice True Some p
              by (simp add: spec_for_def Let_def bind_def [of "indigo_device env ?i"] op_simps catch_def
                  bind_def [of "with_latches f" for f] with_latches_def ret_def split: prod.splits)
          qed
        qed
      qed
    qed
  qed
qed

text \<open>C7: every endpoint handed to the node belongs to a device that was read and is not the plugin's own, has a role
  the catalogue offers for the device as it is now and the bridge can serve, carries each key of its
  role at most once with a value of the type and range of the wire (the saturation within 0 to 100 if no
  colour level of the device is negative), and its states are the snapshot later differences are taken from.\<close>

theorem published_spec_sound:
  assumes "spec_for env entry s = (Inr (Some spec), s', l)"
  shows "\<exists>d h owner keys roles dflt. ev_read env (ee_device_id entry) = Inr d \<and> plugin_id_of (ho_catalog d) = Inr owner
    \<and> owner \<noteq> ev_plugin_id env
    \<and> fst (classify (ho_catalog d) (ev_plugin_id env) (PDict (ee_options entry))) = EligibleDevice roles dflt \<and> ee_role entry \<in> set roles
    \<and> handler_for (ee_role entry) = Some h \<and> es_device_id spec = ee_device_id entry
    \<and> es_role spec = PStr (ee_role entry) \<and> map_of ROLE_STATE_KEYS (ee_role entry) = Some keys
    \<and> snapshot_ok (keys @ [''batteryLevel'']) (es_states spec)
    \<and> (colors_not_negative (ho_reader d) \<longrightarrow> (\<forall>n. map_of (es_states spec) ''saturation'' = Some (PInt n) \<longrightarrow> 0 \<le> n \<and> n \<le> 100))
    \<and> map_of (eb_pushed s') (ee_device_id entry) = Some (es_states spec)"
proof (cases rule: spec_for_result [of env entry s])
  case (built s1 l1 d roles dflt h states lt logs)
  have typed: "\<exists>keys. map_of ROLE_STATE_KEYS (ee_role entry) = Some keys \<and> snapshot_ok (keys @ [''batteryLevel'']) states"
    using published_ok [OF handler_for_role(1) [OF built(5)] built(6)] handler_for_role(2) [OF built(5)] by blast
  note saturated = published_saturation [OF handler_for_role(1) [OF built(5)] built(6)]
  obtain owner where "plugin_id_of (ho_catalog d) = Inr owner" "owner \<noteq> ev_plugin_id env"
    using built(3) by (cases rule: classify_cases [of "ho_catalog d" "ev_plugin_id env" "PDict (ee_options entry)"]) auto
  with built typed saturated assms show ?thesis by (auto simp: spec_of_def)
qed (use assms in simp_all)

section \<open>A device that could not be read\<close>

lemma collect_specs:
  "\<exists>specs s' l. collect (spec_for env) entries s = (Inr specs, s', l)
     \<and> eb_confirmed_deleted s' = eb_confirmed_deleted s \<union> {ee_device_id e |e x. e \<in> set entries \<and> ev_read env (ee_device_id e) = Inl x}
     \<and> eb_store s' = eb_store s"
proof (induction entries arbitrary: s)
  case Nil then show ?case by (simp add: ret_def)
next
  case (Cons e es)
  have "\<exists>y s1 l1. spec_for env e s = (Inr y, s1, l1)
      \<and> eb_confirmed_deleted s1 = eb_confirmed_deleted s \<union> {ee_device_id e |x. ev_read env (ee_device_id e) = Inl x} \<and> eb_store s1 = eb_store s"
    by (cases rule: spec_for_result [of env e s]) auto
  then obtain y s1 l1 where e: "spec_for env e s = (Inr y, s1, l1)"
    "eb_confirmed_deleted s1 = eb_confirmed_deleted s \<union> {ee_device_id e |x. ev_read env (ee_device_id e) = Inl x}" "eb_store s1 = eb_store s" by blast
  obtain specs s2 l2 where es: "collect (spec_for env) es s1 = (Inr specs, s2, l2)"
    "eb_confirmed_deleted s2 = eb_confirmed_deleted s1 \<union> {ee_device_id e |e x. e \<in> set es \<and> ev_read env (ee_device_id e) = Inl x}"
    "eb_store s2 = eb_store s1"
    using Cons.IH [of s1] by blast
  have "eb_confirmed_deleted s2 = eb_confirmed_deleted s
      \<union> {ee_device_id e' |e' x. e' \<in> set (e # es) \<and> ev_read env (ee_device_id e') = Inl x}"
    using e(2) es(2) by auto
  then show ?case using e(1,3) es(1,3) by (simp add: bind_def ret_def)
qed

text \<open>The provider never raises, and queues for destruction every device that is not there.\<close>

lemma endpoint_specs_result:
  "\<exists>specs s' l. endpoint_specs env s = (Inr specs, s', l)
     \<and> eb_confirmed_deleted s' = eb_confirmed_deleted s
         \<union> {ee_device_id e |e x. e \<in> set (store_all (eb_store s)) \<and> ev_read env (ee_device_id e) = Inl x}
     \<and> eb_store s' = eb_store s \<and> eb_client s' = eb_client s"
proof -
  obtain specs s1 l1 where c: "collect (spec_for env) (store_all (eb_store s)) s = (Inr specs, s1, l1)"
    "eb_confirmed_deleted s1 = eb_confirmed_deleted s
       \<union> {ee_device_id e |e x. e \<in> set (store_all (eb_store s)) \<and> ev_read env (ee_device_id e) = Inl x}"
    "eb_store s1 = eb_store s"
    using collect_specs by blast
  have w: "\<exists>s2 l2. warn_if_wholly_unbridgeable n sp t = (Inr (), s2, l2) \<and> eb_confirmed_deleted s2 = eb_confirmed_deleted t \<and> eb_store s2 = eb_store t" for n sp t
    by (auto simp: warn_if_wholly_unbridgeable_def op_runs)
  obtain s2 l2 where r: "endpoint_specs env s = (Inr specs, s2, l2)" "eb_confirmed_deleted s2 = eb_confirmed_deleted s1"
      "eb_store s2 = eb_store s1"
    using c(1) w [of "int (length (store_all (eb_store s)))" specs s1]
    by (auto simp: endpoint_specs_def op_simps bind_def [of "collect f xs" for f xs] bind_def [of "warn_if_wholly_unbridgeable n sp" for n sp] ret_def)
  have "eb_client s2 = eb_client s" using satisfiesD [OF keep_endpoint_specs r(1)] by (simp add: keeps_core_def core_def)
  then show ?thesis using r c(2,3) by auto
qed

definition keeps_store :: "export_bridge \<Rightarrow> export_bridge \<Rightarrow> eff list \<Rightarrow> bool" where
  "keeps_store s s' l = (eb_store s' = eb_store s)"

interpretation ks: step_relation keeps_store
  by unfold_locales (simp_all add: keeps_store_def)

lemma ks_upd: "(\<And>s. eb_store (f s) = eb_store s) \<Longrightarrow> satisfies keeps_store (upd f)"
  by (rule ks.upd) (simp add: keeps_store_def)

lemma ks_tell: "satisfies keeps_store (tell l)"
  by (rule ks.tell) (simp add: keeps_store_def)

lemma ks_block:
  "satisfies keeps_store (block [])"
  "satisfies keeps_store m \<Longrightarrow> satisfies keeps_store (block ms) \<Longrightarrow> satisfies keeps_store (block (m # ms))"
  by (simp add: ks.ret, cases ms) (simp_all add: ks.bind)

lemma ks_if: "satisfies keeps_store m \<Longrightarrow> satisfies keeps_store n \<Longrightarrow> satisfies keeps_store (if b then m else n)"
  by simp

lemma ks_option: "satisfies keeps_store m \<Longrightarrow> (\<And>x. satisfies keeps_store (f x)) \<Longrightarrow>
    satisfies keeps_store (case y of None \<Rightarrow> m | Some x \<Rightarrow> f x)"
  by (cases y) simp_all

lemma ks_reporter: "satisfies keeps_store (with_reporter f)"
  by (auto simp: satisfies_def keeps_store_def with_reporter_def split: prod.splits)

lemma ks_pending: "satisfies keeps_store pending_replace_all"
  unfolding satisfies_def keeps_store_def by (metis pending_debt prod.collapse)

lemma ks_clear: "satisfies keeps_store (clear_pending_replace_all env)"
proof -
  have "eb_store (fst (snd (clear_pending_replace_all env s))) = eb_store s" for s
  proof -
    obtain p where "fst (snd (clear_pending_replace_all env s)) = s\<lparr>eb_prefs := p\<rparr>"
      using po_clear by (auto simp: satisfies_def only_prefs_def)
    then show ?thesis by simp
  qed
  then show ?thesis by (simp add: satisfies_def keeps_store_def)
qed

lemmas ks_steps = ks.ret ks.gets ks.bind ks.catch ks_block ks_tell ks_if ks_option ks_reporter ks_pending ks_clear ks_upd

lemma attached_rest_store:
  "satisfies keeps_store (block [upd (clear_outage status), fire_only env TWindow,
      tell [Node (InfoAttached (sr_endpoint_count status) (sr_commissioned status))], report_node_warnings status,
      health_verdict env status, (if carried then discharge_debt env else ret ())])"
  unfolding clear_outage_def fire_only_def fire_def report_node_warnings_def health_verdict_def discharge_debt_def stop_soon_def Let_def
  by (intro ks_steps; simp)

definition commits :: "commit_env \<Rightarrow> bool" where
  "commits env = (ce_write env = None \<and> ce_save env = None)"

lemma purge_device_result:
  assumes "commits (ev_commit env)" "eb_client s = Some c" "cf_attached (ev_flags env c)" "ev_submit env = None"
  shows "\<exists>s' l. purge_device env d s = (Inr (), s', l) \<and> Fired (TRemove c d) \<in> set l \<and> store_get d (eb_store s') = None
    \<and> (\<forall>x. store_get x (eb_store s) = None \<longrightarrow> store_get x (eb_store s') = None) \<and> eb_client s' = Some c"
proof -
  obtain r st where rem: "store_remove (ev_commit env) d (eb_store s) = (r, st)" by (cases "store_remove (ev_commit env) d (eb_store s)")
  have st: "store_get d st = None" "store_get x (eb_store s) = None \<Longrightarrow> store_get x st = None" for x
    using rem assms(1) by (auto simp: store_remove_def commit_def commits_def store_get_def delete_conv map_of_delete_other
        split: if_splits option.splits prod.splits)
  have "\<exists>s' l. purge_device env d s = (Inr (), s', l) \<and> Fired (TRemove c d) \<in> set l \<and> eb_store s' = st \<and> eb_client s' = Some c"
    using assms by (auto simp: purge_device_def store_remove_op_def rem bridge_remove_def live_client_def op_runs forget_device_def
        bind_def [of "store_remove_op env d"] fire_only_def fire_def Let_def)
  with st show ?thesis by blast
qed

lemma purge_loop:
  assumes "commits (ev_commit env)" "cf_attached (ev_flags env c)" "ev_submit env = None" "eb_client s = Some c"
  shows "\<exists>s' l. for_each (purge_device env) ids s = (Inr (), s', l)
    \<and> (\<forall>d \<in> set ids. Fired (TRemove c d) \<in> set l \<and> store_get d (eb_store s') = None)
    \<and> (\<forall>x. store_get x (eb_store s) = None \<longrightarrow> store_get x (eb_store s') = None) \<and> eb_client s' = Some c"
  using assms(4)
proof (induction ids arbitrary: s)
  case Nil then show ?case by (simp add: ret_def)
next
  case (Cons d ids)
  obtain s1 l1 where d: "purge_device env d s = (Inr (), s1, l1)" "Fired (TRemove c d) \<in> set l1" "store_get d (eb_store s1) = None"
    "\<And>x. store_get x (eb_store s) = None \<Longrightarrow> store_get x (eb_store s1) = None" "eb_client s1 = Some c"
    using purge_device_result [OF assms(1) Cons.prems assms(2,3)] by blast
  obtain s2 l2 where r: "for_each (purge_device env) ids s1 = (Inr (), s2, l2)"
    "\<forall>d \<in> set ids. Fired (TRemove c d) \<in> set l2 \<and> store_get d (eb_store s2) = None"
    "\<And>x. store_get x (eb_store s1) = None \<Longrightarrow> store_get x (eb_store s2) = None" "eb_client s2 = Some c"
    using Cons.IH [OF d(5)] by blast
  have "for_each (purge_device env) (d # ids) s = (Inr (), s2, l1 @ l2)" by (simp add: bind_def d(1) r(1))
  then show ?case using d r by fastforce
qed

text \<open>What a pass logs about a device that could not be read.\<close>

lemma unread_logged:
  assumes "ev_read env (ee_device_id entry) = Inl e" "\<not> absent_exc e" "spec_for env entry s = (r, t, l)"
  shows "Dev (WarnDeviceUnread (ee_device_id entry) e) \<in> set l"
  using assms(3)
  by (auto simp: spec_for_def Let_def indigo_device_def assms(1,2) bind_def tell_def ret_def split: prod.splits sum.splits)

lemma unread_collected:
  assumes "ev_read env (ee_device_id entry) = Inl e" "\<not> absent_exc e" "entry \<in> set entries" "collect (spec_for env) entries s = (r, t, l)"
  shows "Dev (WarnDeviceUnread (ee_device_id entry) e) \<in> set l"
  using assms(3,4)
proof (induction entries arbitrary: s r t l)
  case (Cons x xs)
  obtain y s1 l1 where x: "spec_for env x s = (Inr y, s1, l1)"
    by (cases rule: spec_for_result [of env x s]) auto
  obtain r2 s2 l2 where xs: "collect (spec_for env) xs s1 = (r2, s2, l2)" by (cases "collect (spec_for env) xs s1")
  have "set l1 \<union> set l2 \<subseteq> set l" using Cons.prems(2) by (cases r2) (auto simp: bind_def x xs ret_def)
  then show ?case using Cons.prems(1) unread_logged [OF assms(1,2)] x Cons.IH [OF _ xs] by auto
qed simp

lemma unread_reported:
  assumes "ev_read env (ee_device_id entry) = Inl e" "\<not> absent_exc e" "entry \<in> set (store_all (eb_store s))"
    "endpoint_specs env s = (r, t, l)"
  shows "Dev (WarnDeviceUnread (ee_device_id entry) e) \<in> set l"
proof -
  obtain r1 s1 l1 where c: "collect (spec_for env) (store_all (eb_store s)) s = (r1, s1, l1)"
    by (cases "collect (spec_for env) (store_all (eb_store s)) s")
  have "set l1 \<subseteq> set l"
    using assms(4) by (cases r1) (auto simp: endpoint_specs_def op_simps bind_def gets_def ret_def c split: prod.splits sum.splits)
  then show ?thesis using unread_collected [OF assms(1-3) c] by blast
qed

text \<open>C9: a read of the host that fails, other than by the device being absent, is taken for the deletion of the
  device: the pass logs that the device could not be read, and the attach that follows it drops the export
  from the allow-list and has its accessory destroyed, provided the preferences can be written and the
  removal can be submitted to an attached client.\<close>

theorem unread_device_destroyed:
  assumes "entry \<in> set (store_all (eb_store s))" "ev_read env (ee_device_id entry) = Inl e" "\<not> absent_exc e"
    and "eb_client s = Some c" "cf_attached (ev_flags env c)" "commits (ev_commit env)" "ev_submit env = None"
    and "finite (eb_confirmed_deleted s)"
    and "endpoint_specs env s = (r1, s1, l1)" "on_attached env status carried s1 = (r2, s2, l2)"
  shows "Dev (WarnDeviceUnread (ee_device_id entry) e) \<in> set l1
    \<and> store_get (ee_device_id entry) (eb_store s2) = None \<and> Fired (TRemove c (ee_device_id entry)) \<in> set l2"
proof -
  let ?d = "ee_device_id entry"
  let ?gone = "{ee_device_id e |e x. e \<in> set (store_all (eb_store s)) \<and> ev_read env (ee_device_id e) = Inl x}"
  have s1: "eb_confirmed_deleted s1 = eb_confirmed_deleted s \<union> ?gone" "eb_client s1 = Some c"
    using endpoint_specs_result [of env s] assms(4,9) by auto
  have "finite ?gone" by (rule finite_subset [of _ "ee_device_id ` set (store_all (eb_store s))"]) auto
  then have "?d \<in> set (sorted_list_of_set (eb_confirmed_deleted s1))" using s1(1) assms(1,2,8) by auto
  let ?ids = "sorted_list_of_set (eb_confirmed_deleted s1)"
  obtain t l where loop: "for_each (purge_device env) ?ids (s1\<lparr>eb_confirmed_deleted := {}\<rparr>) = (Inr (), t, l)"
    "\<forall>d \<in> set ?ids. Fired (TRemove c d) \<in> set l \<and> store_get d (eb_store t) = None"
    using purge_loop [OF assms(6,5,7), of "s1\<lparr>eb_confirmed_deleted := {}\<rparr>" ?ids] s1(2) by auto
  define rest where "rest = block [upd (clear_outage status), fire_only env TWindow,
      tell [Node (InfoAttached (sr_endpoint_count status) (sr_commissioned status))], report_node_warnings status,
      health_verdict env status, (if carried then discharge_debt env else ret ())]"
  have "purge_confirmed_deleted env s1 = (Inr (), t, l)"
    by (simp add: purge_confirmed_deleted_def op_simps loop(1))
  moreover obtain r3 s3 l3 where rest: "rest t = (r3, s3, l3)" by (cases "rest t")
  ultimately have "on_attached env status carried s1 = (r3, s3, l @ l3)"
    by (simp add: on_attached_def rest_def bind_def [of "purge_confirmed_deleted env"])
  moreover have "eb_store s3 = eb_store t"
    using satisfiesD [OF attached_rest_store rest [unfolded rest_def]] by (simp add: keeps_store_def)
  ultimately show ?thesis
    using assms(10) loop(2) \<open>?d \<in> set ?ids\<close> unread_reported [OF assms(2,3,1,9)] by auto
qed

section \<open>The snapshot of what was pushed\<close>

lemma merged_lookup:
  "distinct (map fst states) \<Longrightarrow> map_of (merged snapshot states) k = (case map_of states k of Some v \<Rightarrow> Some v | None \<Rightarrow> map_of snapshot k)"
proof (induction states arbitrary: snapshot)
  case Nil then show ?case by (simp add: merged_def)
next
  case (Cons p ps)
  obtain j v where p: "p = (j, v)" by (cases p)
  have "merged snapshot (p # ps) = merged (AList.update j v snapshot) ps" by (simp add: merged_def p)
  moreover have "map_of ps j = None" using Cons.prems by (simp add: p map_of_eq_None_iff)
  ultimately show ?case using Cons by (cases "k = j") (simp_all add: p split: option.splits)
qed

lemma note_pushed_lookup:
  assumes "distinct (map fst states)" "k \<notin> set (mode_alternating_keys h)"
  shows "map_of (note_pushed_states h snapshot states) k = (case map_of states k of Some v \<Rightarrow> Some v | None \<Rightarrow> map_of snapshot k)"
  using merged_lookup [OF assms(1), of snapshot k] assms(2)
    map_of_filter_fst [of "\<lambda>k. k \<in> set (mode_alternating_keys h) \<longrightarrow> k \<in> fst ` set states" "merged snapshot states" k]
  by (simp add: note_pushed_states_def Let_def)

text \<open>After a push that carries one colour mode, the keys of the other mode are not in the snapshot: when
  the device goes back to that mode its value is sent, whatever was sent for it before.\<close>

theorem mode_return_resent:
  assumes "k \<in> set (mode_alternating_keys h)" "k \<notin> fst ` set states" "m \<in> set (mode_alternating_keys h)" "m \<in> fst ` set states"
    and "(k, v) \<in> set after"
  shows "map_of (note_pushed_states h snapshot states) k = None
    \<and> (k, v) \<in> set (sd_changed (diff_states h (note_pushed_states h snapshot states) after))"
proof -
  have "filter (\<lambda>k. k \<in> fst ` set states) (mode_alternating_keys h) \<noteq> []"
    using assms(3,4) by (auto simp: filter_empty_conv)
  then have none: "map_of (note_pushed_states h snapshot states) k = None"
    using assms(1,2)
      map_of_filter_fst [of "\<lambda>k. k \<in> set (mode_alternating_keys h) \<longrightarrow> k \<in> fst ` set states" "merged snapshot states" k]
    by (simp add: note_pushed_states_def Let_def)
  then show ?thesis using assms(5) by (simp add: diff_states_def Let_def changed_value_def)
qed

text \<open>After a device change went through, the snapshot has for every key the device answers (outside the
  colour modes) the device's value, or one the role's tolerance does not tell from it.\<close>

theorem snapshot_follows:
  assumes "push_changes env c entry i d h s = (r, s', l)" "handler_for (ee_role entry) = Some h"
    and "published_states h (ho_reader d) (ee_options entry) (eb_latches s) = (Inr after, lt, logs)"
    and "map_of after k = Some w" "k \<notin> set (mode_alternating_keys h)"
  shows "\<exists>snap v. map_of (eb_pushed s') i = Some snap \<and> map_of snap k = Some v \<and> tolerated h k v w"
proof -
  define before where "before = (case map_of (eb_pushed s) i of None \<Rightarrow> [] | Some x \<Rightarrow> x)"
  define df where "df = diff_states h before after"
  obtain v where v: "shown before df k = Some v" "tolerated h k v w"
    using diff_shown [OF assms(2,3,4), of before] by (auto simp: df_def)
  have "distinct (map fst after)"
    using published_ok [OF handler_for_role(1) [OF assms(2)] assms(3)] by (simp add: snapshot_ok_def)
  then have dist: "distinct (map fst (sd_changed df))" by (simp add: df_def diff_states_def Let_def distinct_map_filter)
  have stopped: "\<exists>s2 l2. report_stopped_keys i ks t = (Inr (), s2, l2) \<and> eb_pushed s2 = eb_pushed t" for ks t
    by (auto simp: report_stopped_keys_def op_runs)
  have "eb_pushed s' = (if sd_changed df = [] then eb_pushed s
      else AList.update i (note_pushed_states h before (sd_changed df)) (eb_pushed s))"
    using assms(1,3) stopped [of "sd_stopped df" "s\<lparr>eb_latches := lt, eb_update_failed := eb_update_failed s - {i}\<rparr>"]
    by (auto simp: fire_only_def fire_def push_changes_def diff_from_def df_def [symmetric] before_def [symmetric] op_runs catch_def with_latches_def
        bind_def [of "with_latches f" for f] bind_def [of "report_stopped_keys i ks" for ks] bind_def [of "catch m h" for m h]
        note_pushed_def py_bind_def split: if_splits option.splits)
  moreover have "map_of (note_pushed_states h before (sd_changed df)) k = Some v"
    using note_pushed_lookup [OF dist assms(5), of before] v(1) by (simp add: shown_def)
  moreover have "sd_changed df = [] \<Longrightarrow> map_of before k = Some v" using v(1) by (simp add: shown_def)
  ultimately show ?thesis
    using v(2) by (cases "sd_changed df = []") (auto simp: before_def split: option.splits)
qed

section \<open>Witnesses\<close>

definition plug_entry :: export_entry where
  "plug_entry = \<lparr>ee_device_id = 7, ee_role = ''onOffLight'', ee_name_override = None, ee_options = [], ee_published_as = None\<rparr>"

definition plug_device :: host_device where
  "plug_device = \<lparr>ho_catalog = \<lparr>cd_mro = Inr [''RelayDevice'', ''Device''], cd_attrs = [(''pluginId'', Inr (PStr ''zwave''))],
       cd_states = Inr []\<rparr>,
     ho_reader = \<lparr>xd_id = 7, xd_attrs = [(''onState'', PBool True)], xd_hvac = None, xd_states = Inr [], xd_plugin_id = None,
       xd_owner_props = [], xd_global_props = []\<rparr>,
     ho_name = ''Lamp'', ho_enabled = True, ho_configured = True\<rparr>"

definition plug_bridge :: export_bridge where
  "plug_bridge = \<lparr>eb_client = Some 1, eb_store = \<lparr>st_entries = [(7, plug_entry)], st_prefs = [], st_load_error = None\<rparr>,
     eb_learner = learner_init, eb_latch = demo_latches, eb_reporter = reporter_init, eb_latches = latches_init, eb_prefs = [],
     eb_skipped = [], eb_confirmed_deleted = {}, eb_wholly_unbridgeable = [], eb_unreachable_reported = False,
     eb_refusal_reported = None, eb_restart_until = 0, eb_restart_notice = False, eb_update_failed = {}, eb_stopped_keys = [],
     eb_no_op = [], eb_last_count = 1, eb_pushed = [], eb_un_exporting = False, eb_start_after = False, eb_executor = False,
     eb_stopped = False, eb_submitted = 0, eb_completed = 0, eb_queue_warned = False, eb_node_warnings = {},
     eb_drift_reported = {}, eb_poll_fail_ticks = 0, eb_window = PNone, eb_agent_started = False\<rparr>"

definition plug_env :: "host_device py_result \<Rightarrow> bridge_env" where
  "plug_env found = \<lparr>ev_read = (\<lambda>_. found), ev_commit = ok_env, ev_pref_write = None, ev_pref_save = None,
     ev_flags = (\<lambda>_. \<lparr>cf_halted = False, cf_halted_reason = None, cf_recovery = False, cf_attached = True\<rparr>),
     ev_new_client = 2, ev_submit = None, ev_now = 0, ev_learn_clock = (0, 0), ev_health = broken_env,
     ev_agent_start = None, ev_agent_stop = None, ev_agent_diagnose = None, ev_plugin_id = ''matter'', ev_indigo_raises = None\<rparr>"

lemma published_spec_sound_witness:
  "\<exists>spec s' l h. spec_for (plug_env (Inr plug_device)) plug_entry plug_bridge = (Inr (Some spec), s', l)
     \<and> handler_for ''onOffLight'' = Some h \<and> es_role spec = PStr ''onOffLight''"
proof -
  let ?r = "spec_for (plug_env (Inr plug_device)) plug_entry plug_bridge"
  have "(case fst ?r of Inr (Some _) \<Rightarrow> True | _ \<Rightarrow> False)" by code_simp
  then obtain spec where "fst ?r = Inr (Some spec)" by (auto split: sum.splits option.splits)
  then obtain s' l where r: "?r = (Inr (Some spec), s', l)" by (cases ?r) auto
  from published_spec_sound [OF r] have "\<exists>h. handler_for ''onOffLight'' = Some h" "es_role spec = PStr ''onOffLight''"
    by (auto simp: plug_entry_def)
  with r show ?thesis by blast
qed

definition empty_status :: status_report where
  "empty_status = \<lparr>sr_commissioned = True, sr_fabrics = [], sr_endpoint_count = 0, sr_endpoints = [], sr_drift = [],
     sr_drift_checked = False, sr_warnings = [], sr_churn = \<lparr>sc_checked = False, sc_active = False, sc_peers = []\<rparr>,
     sr_hygiene = \<lparr>sh_checked = False, sh_peers = [], sh_closed = \<lparr>hc_superseded = 0, hc_dead = 0, hc_rotated = 0\<rparr>, sh_sent = False\<rparr>\<rparr>"

lemma unread_device_destroyed_witness:
  "\<exists>r1 s1 l1 r2 s2 l2. endpoint_specs (plug_env (Inl RuntimeError)) plug_bridge = (r1, s1, l1)
     \<and> on_attached (plug_env (Inl RuntimeError)) empty_status False s1 = (r2, s2, l2)
     \<and> store_get 7 (eb_store plug_bridge) \<noteq> None \<and> store_get 7 (eb_store s2) = None \<and> Fired (TRemove 1 7) \<in> set l2"
proof -
  let ?env = "plug_env (Inl RuntimeError)"
  obtain r1 s1 l1 where a: "endpoint_specs ?env plug_bridge = (r1, s1, l1)" by (cases "endpoint_specs ?env plug_bridge")
  obtain r2 s2 l2 where b: "on_attached ?env empty_status False s1 = (r2, s2, l2)" by (cases "on_attached ?env empty_status False s1")
  have "store_get 7 (eb_store s2) = None \<and> Fired (TRemove 1 7) \<in> set l2"
    using unread_device_destroyed [OF _ _ _ _ _ _ _ _ a b, of plug_entry RuntimeError 1]
    by (simp add: plug_entry_def plug_bridge_def plug_env_def store_all_def absent_exc_def commits_def ok_env_def)
  with a b show ?thesis by (auto simp: plug_bridge_def store_get_def)
qed

lemma mode_return_resent_witness:
  "map_of (note_pushed_states ExtendedColorExport [(''hue'', PInt 210)] [(''colorTempMireds'', PInt 300)]) ''hue'' = None"
  using mode_return_resent [of "''hue''" ExtendedColorExport "[(''colorTempMireds'', PInt 300)]" "''colorTempMireds''" "PInt 210" "[(''hue'', PInt 210)]"]
  by simp

lemma snapshot_follows_witness:
  "\<exists>r s' l snap v. push_changes (plug_env (Inr plug_device)) 1 plug_entry 7 plug_device OnOffExport plug_bridge = (r, s', l)
     \<and> map_of (eb_pushed s') 7 = Some snap \<and> map_of snap ''onOff'' = Some v"
proof -
  let ?p = "push_changes (plug_env (Inr plug_device)) 1 plug_entry 7 plug_device OnOffExport plug_bridge"
  let ?q = "published_states OnOffExport (ho_reader plug_device) (ee_options plug_entry) (eb_latches plug_bridge)"
  obtain r s' l where p: "?p = (r, s', l)" by (cases ?p)
  have "fst ?q = Inr [(''onOff'', PBool True)]" by code_simp
  then obtain lt logs where q: "?q = (Inr [(''onOff'', PBool True)], lt, logs)" by (cases ?q) auto
  have h: "handler_for (ee_role plug_entry) = Some OnOffExport" by code_simp
  from snapshot_follows [OF p h q, of "''onOff''"] p show ?thesis by auto
qed

definition indebted :: export_bridge where
  "indebted = plug_bridge\<lparr>eb_prefs := [(PREF_PENDING_REPLACE_ALL, PInt 5)]\<rparr>"

definition emptied :: export_bridge where
  "emptied = plug_bridge\<lparr>eb_store := \<lparr>st_entries = [], st_prefs = [], st_load_error = None\<rparr>, eb_last_count := 3\<rparr>"

definition waiting :: export_bridge where
  "waiting = plug_bridge\<lparr>eb_client := None, eb_un_exporting := True, eb_start_after := True\<rparr>"

lemma debt_survives_witness:
  "5 \<le> debt (fst (run [(plug_env (Inr plug_device), CExportsChanged), (plug_env (Inr plug_device), CUnExport 1 (AttachFails RuntimeError)),
       (plug_env (Inr plug_device), CAttached empty_status False)] indebted))"
proof -
  have "debt indebted = 5" by code_simp
  with debt_survives [of "[(plug_env (Inr plug_device), CExportsChanged), (plug_env (Inr plug_device), CUnExport 1 (AttachFails RuntimeError)),
       (plug_env (Inr plug_device), CAttached empty_status False)]" indebted]
  show ?thesis by (simp add: pays_def)
qed

lemma empty_list_records_debt_witness:
  "\<exists>s' l. exports_changed (plug_env (Inr plug_device)) emptied = (Inr (), s', l) \<and> Fired (TUnExport 1) \<in> set l \<and> 3 \<le> debt s'"
proof -
  have "export_enabled emptied" "owed_of (eb_prefs emptied) = Inr 0" "debt emptied = 0" by code_simp+
  with empty_list_records_debt [of emptied 1 "plug_env (Inr plug_device)"] show ?thesis
    by (auto simp: emptied_def plug_bridge_def plug_env_def store_len_def)
qed

lemma un_export_alone_witness:
  "\<exists>s' l. run [(plug_env (Inr plug_device), CExportsChanged), (plug_env (Inr plug_device), CStart)] (emptied\<lparr>eb_client := None\<rparr>) = (s', l)
     \<and> (eb_un_exporting s' \<longrightarrow> eb_client s' = None)"
proof -
  obtain s' l where r: "run [(plug_env (Inr plug_device), CExportsChanged), (plug_env (Inr plug_device), CStart)] (emptied\<lparr>eb_client := None\<rparr>) = (s', l)"
    by (cases "run [(plug_env (Inr plug_device), CExportsChanged), (plug_env (Inr plug_device), CStart)] (emptied\<lparr>eb_client := None\<rparr>)")
  from un_export_alone [OF _ r] r show ?thesis by (simp add: bridge_idle_def emptied_def plug_bridge_def)
qed

lemma deferred_start_made_up_witness:
  "eb_client (fst (snd (un_export (plug_env (Inr plug_device)) 1 (AttachFails RuntimeError) waiting))) = Some 2"
proof -
  let ?u = "un_export (plug_env (Inr plug_device)) 1 (AttachFails RuntimeError) waiting"
  obtain r s' l where u: "?u = (r, s', l)" by (cases ?u)
  have "export_enabled (fst (snd ?u))" by code_simp
  with deferred_start_made_up [OF _ _ u] u show ?thesis by (simp add: waiting_def plug_env_def)
qed

lemma restart_after_stop_witness:
  "\<exists>r s1 l1 r2 s2 l2. stop waiting = (r, s1, l1) \<and> un_export (plug_env (Inr plug_device)) 1 AttachCancelled s1 = (r2, s2, l2)
     \<and> eb_stopped s1 \<and> eb_client s1 = None \<and> eb_client s2 = Some 2"
proof -
  let ?u = "un_export (plug_env (Inr plug_device)) 1 AttachCancelled"
  obtain r s1 l1 where s: "stop waiting = (r, s1, l1)" by (cases "stop waiting")
  obtain r2 s2 l2 where u: "?u s1 = (r2, s2, l2)" by (cases "?u s1")
  have "export_enabled (fst (snd (?u (fst (snd (stop waiting))))))" by code_simp
  then have "export_enabled s2" by (simp only: s u fst_conv snd_conv)
  with restart_after_stop [OF _ _ _ s u] s u show ?thesis by (simp add: waiting_def plug_env_def gate_def plug_bridge_def)
qed

lemma switched_off_keeps_accessories_witness:
  "\<exists>r s' l. exports_changed (plug_env (Inr plug_device)) (plug_bridge\<lparr>eb_prefs := [(PREF_EXPORT_ENABLED, PStr '' False '')]\<rparr>) = (r, s', l)
     \<and> eb_store s' = eb_store plug_bridge \<and> list_all unseen l \<and> eb_client s' = None"
proof -
  let ?s = "plug_bridge\<lparr>eb_prefs := [(PREF_EXPORT_ENABLED, PStr '' False '')]\<rparr>"
  obtain r s' l where e: "exports_changed (plug_env (Inr plug_device)) ?s = (r, s', l)" by (cases "exports_changed (plug_env (Inr plug_device)) ?s")
  have "\<not> export_enabled ?s" by code_simp
  from switched_off_keeps_accessories [OF this e] e show ?thesis by simp
qed

end
