(* ===== verification/CtCalibration.thy ===== *)
theory CtCalibration
  imports CtLearner
begin

text \<open>
  \<open>ct_calibration.py\<close>: the operator-invoked sweep that drives a lamp to both colour-temperature
  extremes, reads back what it reports and hands the measurements to the learner, and the gate
  that lets one sweep run at a time.

  The lamp and its handler are an environment that answers each call: a dispatch is accepted,
  refused with a reason or raises; the device looked up after the settling time is gone, or its
  reading is a number, no number, or raises. What the sweep does to the outside (dispatches,
  log lines, and the learner's effects) is a list of \<open>sweep_eff\<close> in order.
\<close>

section \<open>The lamp's answers\<close>

definition MIREDS_MIN :: int where "MIREDS_MIN = 153"
definition MIREDS_MAX :: int where "MIREDS_MAX = 500"

definition EXTREMES :: "(side \<times> int) list" where
  "EXTREMES = [(SideMin, MIREDS_MIN), (SideMax, MIREDS_MAX)]"

datatype dispatch_answer = Dispatched | Refused string | DispatchRaises py_exc

datatype read_answer = Reading pyval | ReadRaises py_exc

record side_env =
  sv_dispatch :: dispatch_answer
  sv_fresh :: "read_answer option"
  sv_commit :: commit_env
  sv_republish_ok :: bool

record lamp_env =
  le_device :: bool
  le_handler :: bool
  le_brightness :: pyval
  le_original :: read_answer
  le_side :: "side \<Rightarrow> side_env"
  le_restore :: dispatch_answer

datatype skip_reason = RefusedWith string | StoppedExisting | ErrorInterrupted py_exc

datatype sweep_eff =
    SetColorTemp int int
  | Learner learn_eff
  | LogSkippedNotExported int
  | LogSkippedRole int
  | LogSkippedNoDevice int
  | LogSkippedNoHandler int
  | LogSkippedLit int
  | LogSkipped int skip_reason
  | LogSweepFailed int py_exc
  | LogRestoreFailed int int py_exc
  | LogNotCalibrated int py_exc
  | LogCalibrated int "(side \<times> int option) list"
  | LogFinished nat nat
  | LogAlreadyRunning

text \<open>\<open>isinstance(value, (int, float)) and not isinstance(value, bool) and value > 0\<close>.\<close>

fun is_lit :: "pyval \<Rightarrow> bool" where
  "is_lit (PInt n) = (0 < n)"
| "is_lit (PFloat f) = (case f of Fin r \<Rightarrow> 0 < r | PosInf \<Rightarrow> True | _ \<Rightarrow> False)"
| "is_lit _ = False"

text \<open>\<open>_read_mireds\<close>: a plain integer or nothing.\<close>

fun read_mireds :: "read_answer \<Rightarrow> int option py_result" where
  "read_mireds (ReadRaises e) = Inl e"
| "read_mireds (Reading v) = Inr (if is_valid_ct_bound v then Some (the_int v) else None)"

section \<open>One lamp\<close>

text \<open>One round of the loop over the extremes: an exception, a reason to stop, or the result for
  the side (\<open>None\<close>: no readable value), with the store and the effects so far.\<close>

datatype round = Raised py_exc | Stopped skip_reason | Result "int option"

definition sweep_side ::
  "export_entry \<Rightarrow> side \<Rightarrow> int \<Rightarrow> side_env \<Rightarrow> store \<Rightarrow> round \<times> store \<times> sweep_eff list" where
  "sweep_side entry s extreme env st =
     (let sent = [SetColorTemp (ee_device_id entry) extreme]
      in case sv_dispatch env of
           DispatchRaises e \<Rightarrow> (Raised e, st, sent)
         | Refused why \<Rightarrow> (Stopped (RefusedWith why), st, sent)
         | Dispatched \<Rightarrow>
             (case sv_fresh env of
                None \<Rightarrow> (Stopped StoppedExisting, st, sent)
              | Some answer \<Rightarrow>
                  (case read_mireds answer of
                     Inl e \<Rightarrow> (Raised e, st, sent)
                   | Inr None \<Rightarrow> (Result None, st, sent)
                   | Inr (Some echo) \<Rightarrow>
                       (let clamped = SHORTFALL_THRESHOLD_MIREDS \<le> \<bar>echo - extreme\<bar>;
                            measured = (if clamped then echo else extreme);
                            (st', effs) = adopt_measured entry s measured (\<not> clamped)
                                            (sv_commit env) (sv_republish_ok env) st
                        in (Result (Some measured), st', sent @ map Learner effs)))))"

fun sweep_sides ::
  "export_entry \<Rightarrow> (side \<Rightarrow> side_env) \<Rightarrow> (side \<times> int) list \<Rightarrow> (side \<times> int option) list \<Rightarrow> store
     \<Rightarrow> (py_exc + (skip_reason option \<times> (side \<times> int option) list)) \<times> store \<times> sweep_eff list" where
  "sweep_sides entry env [] results st = (Inr (None, results), st, [])"
| "sweep_sides entry env ((s, extreme) # rest) results st =
     (case sweep_side entry s extreme (env s) st of
        (Raised e, st', effs) \<Rightarrow> (Inl e, st', effs)
      | (Stopped why, st', effs) \<Rightarrow> (Inr (Some why, results), st', effs)
      | (Result r, st', effs) \<Rightarrow>
          (case sweep_sides entry env rest (results @ [(s, r)]) st' of
             (out, st'', effs') \<Rightarrow> (out, st'', effs @ effs')))"

definition restore_lamp :: "int \<Rightarrow> int \<Rightarrow> dispatch_answer \<Rightarrow> sweep_eff list" where
  "restore_lamp device_id original answer =
     SetColorTemp device_id original #
     (case answer of DispatchRaises e \<Rightarrow> [LogRestoreFailed device_id original e] | _ \<Rightarrow> [])"

text \<open>\<open>_calibrate_one\<close>: an exception, or whether the lamp was calibrated.\<close>

definition calibrate_one ::
  "export_entry \<Rightarrow> bool \<Rightarrow> lamp_env \<Rightarrow> store \<Rightarrow> (py_exc + bool) \<times> store \<times> sweep_eff list" where
  "calibrate_one entry skip_lit env st =
     (let device_id = ee_device_id entry
      in if ee_role entry \<notin> set CT_ROLES then (Inr False, st, [LogSkippedRole device_id])
         else if \<not> le_device env then (Inr False, st, [LogSkippedNoDevice device_id])
         else if \<not> le_handler env then (Inr False, st, [LogSkippedNoHandler device_id])
         else if skip_lit \<and> is_lit (le_brightness env) then (Inr False, st, [LogSkippedLit device_id])
         else (case read_mireds (le_original env) of
                 Inl e \<Rightarrow> (Inl e, st, [])
               | Inr original \<Rightarrow>
                   (case sweep_sides entry (le_side env) EXTREMES [] st of
                      (out, st', effs) \<Rightarrow>
                        (let back_effs = (case original of None \<Rightarrow> []
                                          | Some m \<Rightarrow> restore_lamp device_id m (le_restore env))
                         in case out of
                              Inl e \<Rightarrow> (Inr False, st', effs @ [LogSweepFailed device_id e] @ back_effs
                                         @ [LogSkipped device_id (ErrorInterrupted e)])
                            | Inr (Some why, _) \<Rightarrow> (Inr False, st', effs @ back_effs @ [LogSkipped device_id why])
                            | Inr (None, results) \<Rightarrow>
                                (Inr True, st', effs @ back_effs @ [LogCalibrated device_id results])))))"

section \<open>A sweep\<close>

datatype target = Exported export_entry | Missing int

definition resolve_targets :: "int list option \<Rightarrow> store \<Rightarrow> target list" where
  "resolve_targets ids st = (case ids of
       None \<Rightarrow> map Exported (filter (\<lambda>e. ee_role e \<in> set CT_ROLES) (store_all st))
     | Some xs \<Rightarrow> map (\<lambda>k. case store_get k st of Some e \<Rightarrow> Exported e | None \<Rightarrow> Missing k) xs)"

fun process_target :: "target \<Rightarrow> bool \<Rightarrow> (int \<Rightarrow> lamp_env) \<Rightarrow> store \<Rightarrow> bool \<times> store \<times> sweep_eff list" where
  "process_target (Missing k) skip_lit env st = (False, st, [LogSkippedNotExported k])"
| "process_target (Exported e) skip_lit env st =
     (case calibrate_one e skip_lit (env (ee_device_id e)) st of
        (Inr done, st', effs) \<Rightarrow> (done, st', effs)
      | (Inl x, st', effs) \<Rightarrow> (False, st', effs @ [LogNotCalibrated (ee_device_id e) x]))"

fun sweep_targets ::
  "target list \<Rightarrow> bool \<Rightarrow> (int \<Rightarrow> lamp_env) \<Rightarrow> nat \<Rightarrow> nat \<Rightarrow> store \<Rightarrow> store \<times> sweep_eff list" where
  "sweep_targets [] skip_lit env calibrated skipped st = (st, [LogFinished calibrated skipped])"
| "sweep_targets (t # ts) skip_lit env calibrated skipped st =
     (case process_target t skip_lit env st of
        (ok, st', effs) \<Rightarrow>
          (case sweep_targets ts skip_lit env (if ok then calibrated + 1 else calibrated)
                  (if ok then skipped else skipped + 1) st' of
             (st'', effs') \<Rightarrow> (st'', effs @ effs')))"

record engine =
  en_running :: bool
  en_store :: store

text \<open>\<open>_run\<close>, with its \<open>finally\<close>.\<close>

definition run_sweep :: "int list option \<Rightarrow> bool \<Rightarrow> (int \<Rightarrow> lamp_env) \<Rightarrow> engine \<Rightarrow> engine \<times> sweep_eff list" where
  "run_sweep ids skip_lit env en =
     (case sweep_targets (resolve_targets ids (en_store en)) skip_lit env 0 0 (en_store en) of
        (st', effs) \<Rightarrow> (en\<lparr>en_running := False, en_store := st'\<rparr>, effs))"

text \<open>\<open>int(raw)\<close> of each requested id, \<open>TypeError\<close> and \<open>ValueError\<close> dropped.\<close>

fun resolve_ids :: "pyval list \<Rightarrow> int list py_result" where
  "resolve_ids [] = Inr []"
| "resolve_ids (v # vs) =
     (case py_int v of
        Inr n \<Rightarrow> py_bind (resolve_ids vs) (\<lambda>ns. Inr (n # ns))
      | Inl e \<Rightarrow> if e = TypeError \<or> e = ValueError then resolve_ids vs else Inl e)"

text \<open>\<open>start\<close>, up to the thread: the ids to sweep, or a refusal, or an exception (of \<open>int\<close>, or of
  starting the thread).\<close>

datatype started = Started "int list option" | AlreadyRunning | StartRaises py_exc

definition start_sweep :: "pyval list option \<Rightarrow> py_exc option \<Rightarrow> engine \<Rightarrow> started \<times> engine \<times> sweep_eff list" where
  "start_sweep ids thread en =
     (if en_running en then (AlreadyRunning, en, [LogAlreadyRunning])
      else (let en1 = en\<lparr>en_running := True\<rparr>;
                resolved = (case ids of None \<Rightarrow> Inr None
                            | Some vs \<Rightarrow> py_bind (resolve_ids vs) (\<lambda>ns. Inr (Some ns)))
            in case resolved of
                 Inl e \<Rightarrow> (StartRaises e, en1, [])
               | Inr r \<Rightarrow> (case thread of Some e \<Rightarrow> (StartRaises e, en1, []) | None \<Rightarrow> (Started r, en1, []))))"

section \<open>What a sweep sends\<close>

fun is_set :: "sweep_eff \<Rightarrow> bool" where
  "is_set (SetColorTemp _ _) = True"
| "is_set _ = False"

lemma sweep_side_sets:
  "sweep_side entry s extreme env st = (r, st', effs) \<Longrightarrow>
     filter is_set effs = [SetColorTemp (ee_device_id entry) extreme]"
  by (auto simp: sweep_side_def Let_def filter_map comp_def
      split: dispatch_answer.splits option.splits sum.splits prod.splits)

lemma sweep_sides_sets:
  "sweep_sides entry env sides results st = (out, st', effs) \<Longrightarrow>
     \<exists>n \<le> length sides. filter is_set effs = map (\<lambda>(s, x). SetColorTemp (ee_device_id entry) x) (take n sides)
       \<and> (sides \<noteq> [] \<longrightarrow> 0 < n)"
proof (induction sides arbitrary: results st st' effs out)
  case (Cons p sides)
  obtain s x where p: "p = (s, x)" by (cases p)
  obtain r st1 e1 where side: "sweep_side entry s x (env s) st = (r, st1, e1)" by (cases "sweep_side entry s x (env s) st")
  have sent: "filter is_set e1 = [SetColorTemp (ee_device_id entry) x]" by (rule sweep_side_sets [OF side])
  show ?case
  proof (cases r)
    case (Result v)
    obtain o2 st2 e2 where rest: "sweep_sides entry env sides (results @ [(s, v)]) st1 = (o2, st2, e2)"
      by (cases "sweep_sides entry env sides (results @ [(s, v)]) st1")
    from Cons.IH [OF rest] obtain n where "n \<le> length sides"
      "filter is_set e2 = map (\<lambda>(s, x). SetColorTemp (ee_device_id entry) x) (take n sides)" by blast
    moreover have "effs = e1 @ e2" using Cons.prems p side Result rest by simp
    ultimately show ?thesis using sent p by (intro exI [of _ "Suc n"]) simp
  qed (use Cons.prems p side sent in \<open>auto intro!: exI [of _ "Suc 0"]\<close>)
qed (auto intro: exI [of _ 0])

text \<open>C40: a lamp whose colour temperature could be read beforehand is put back: whatever happens
  during its sweep (refusal, disappearance, exception), the last value it is told to take is
  the one it had, after at most the two extremes; nothing is sent to any other device; and a
  lamp that one of the checks before the sweep skips (lit while lit lamps are to be left alone, of a
  role without colour temperature, without a device or a handler, or with a colour temperature
  whose reading raises) is sent nothing and learns nothing.\<close>

theorem lamp_restored:
  assumes "calibrate_one entry skip_lit env st = (out, st', effs)"
  shows "(\<forall>m. read_mireds (le_original env) = Inr (Some m) \<and> filter is_set effs \<noteq> [] \<longrightarrow>
      (\<exists>n. 0 < n \<and> filter is_set effs = map (SetColorTemp (ee_device_id entry)) (take n [153, 500] @ [m])))
    \<and> (\<forall>d x. SetColorTemp d x \<in> set effs \<longrightarrow> d = ee_device_id entry)
    \<and> ((skip_lit \<and> is_lit (le_brightness env) \<or> ee_role entry \<notin> set CT_ROLES \<or> \<not> le_device env
        \<or> \<not> le_handler env \<or> isl (read_mireds (le_original env))) \<longrightarrow> filter is_set effs = [] \<and> st' = st)"
proof (cases "ee_role entry \<notin> set CT_ROLES \<or> \<not> le_device env \<or> \<not> le_handler env
    \<or> (skip_lit \<and> is_lit (le_brightness env)) \<or> isl (read_mireds (le_original env))")
  case True
  with assms show ?thesis by (auto simp: calibrate_one_def Let_def isl_def split: if_splits)
next
  case False
  then obtain original where o: "read_mireds (le_original env) = Inr original"
    by (cases "read_mireds (le_original env)") auto
  obtain res st1 e1 where s: "sweep_sides entry (le_side env) EXTREMES [] st = (res, st1, e1)"
    by (cases "sweep_sides entry (le_side env) EXTREMES [] st")
  obtain n where n: "0 < n" "filter is_set e1 = map (SetColorTemp (ee_device_id entry)) (take n [153, 500])"
    using sweep_sides_sets [OF s] by (auto simp: EXTREMES_def MIREDS_MIN_def MIREDS_MAX_def take_map [symmetric])
  define back_effs where "back_effs = (case original of None \<Rightarrow> []
      | Some m \<Rightarrow> restore_lamp (ee_device_id entry) m (le_restore env))"
  have restored: "filter is_set back_effs = (case original of None \<Rightarrow> [] | Some m \<Rightarrow> [SetColorTemp (ee_device_id entry) m])"
    by (simp add: back_effs_def restore_lamp_def split: option.split dispatch_answer.split)
  have sets: "filter is_set effs = filter is_set e1 @ filter is_set back_effs"
    using assms False o s
    by (auto simp: calibrate_one_def Let_def back_effs_def split: sum.splits option.splits)
  have own: "d = ee_device_id entry" if "SetColorTemp d x \<in> set effs" for d x
  proof -
    have "SetColorTemp d x \<in> set (filter is_set effs)" using that by simp
    then show ?thesis unfolding sets n(2) restored by (auto split: option.splits)
  qed
  have "\<exists>n. 0 < n \<and> filter is_set effs = map (SetColorTemp (ee_device_id entry)) (take n [153, 500] @ [m])"
    if "original = Some m" for m
    using that sets n restored by (intro exI [of _ n]) simp
  with own o False show ?thesis by auto
qed

section \<open>What a sweep learns\<close>

definition ranges_ok :: "store \<Rightarrow> bool" where
  "ranges_ok st \<longleftrightarrow> store_ok st \<and> (\<forall>k e. store_get k st = Some e \<longrightarrow> proper_range e)"

lemma adopt_ranges_ok:
  assumes "adopt device_id s c why weak env ok st = (st', effs)" "ranges_ok st"
  shows "ranges_ok st' \<and> (\<forall>k. k \<noteq> device_id \<longrightarrow> store_get k st' = store_get k st)"
proof -
  from assms(2) have ok: "store_ok st" and all: "\<And>k e. store_get k st = Some e \<Longrightarrow> proper_range e"
    by (auto simp: ranges_ok_def)
  from assms(1) ok show ?thesis
  proof (cases rule: adopt_cases)
    case same
    with all show ?thesis by (simp add: ranges_ok_def)
  next
    case (learned fresh)
    have "proper_range (learned_entry s c fresh)" using learned(7) by (simp add: proper_range_def learned_bounds)
    with learned all have "proper_range e" if "store_get k st' = Some e" for k e
      using that by (cases "k = device_id") auto
    with learned show ?thesis by (simp add: ranges_ok_def)
  qed
qed

lemma adopt_measured_ranges_ok:
  assumes "adopt_measured entry s m weak env ok st = (st', effs)" "ranges_ok st"
  shows "ranges_ok st' \<and> (\<forall>k. k \<noteq> ee_device_id entry \<longrightarrow> store_get k st' = store_get k st)"
  using assms adopt_ranges_ok by (auto simp: adopt_measured_def split: if_splits)

lemma sweep_side_ranges_ok:
  "sweep_side entry s x env st = (r, st', effs) \<Longrightarrow> ranges_ok st \<Longrightarrow> ranges_ok st'
     \<and> (\<forall>k. k \<noteq> ee_device_id entry \<longrightarrow> store_get k st' = store_get k st)"
  by (auto simp: sweep_side_def Let_def dest: adopt_measured_ranges_ok
      split: dispatch_answer.splits option.splits sum.splits prod.splits)

lemma sweep_sides_ranges_ok:
  "sweep_sides entry env sides results st = (out, st', effs) \<Longrightarrow> ranges_ok st \<Longrightarrow> ranges_ok st'
     \<and> (\<forall>k. k \<noteq> ee_device_id entry \<longrightarrow> store_get k st' = store_get k st)"
proof (induction sides arbitrary: results st st' effs out)
  case (Cons p sides)
  obtain s x where p: "p = (s, x)" by (cases p)
  obtain r st1 e1 where side: "sweep_side entry s x (env s) st = (r, st1, e1)" by (cases "sweep_side entry s x (env s) st")
  note one = sweep_side_ranges_ok [OF side Cons.prems(2)]
  show ?case
  proof (cases r)
    case (Result v)
    obtain o2 st2 e2 where rest: "sweep_sides entry env sides (results @ [(s, v)]) st1 = (o2, st2, e2)"
      by (cases "sweep_sides entry env sides (results @ [(s, v)]) st1")
    from Cons.IH [OF rest] one Cons.prems p side Result rest show ?thesis by simp
  qed (use Cons.prems p side one in auto)
qed simp

lemma calibrate_one_ranges_ok:
  "calibrate_one entry skip_lit env st = (out, st', effs) \<Longrightarrow> ranges_ok st \<Longrightarrow> ranges_ok st'"
  by (auto simp: calibrate_one_def Let_def dest: sweep_sides_ranges_ok
      split: if_splits sum.splits prod.splits option.splits)

lemma process_target_ranges_ok:
  "process_target t skip_lit env st = (done, st', effs) \<Longrightarrow> ranges_ok st \<Longrightarrow> ranges_ok st'"
  by (cases t) (auto dest: calibrate_one_ranges_ok split: prod.splits sum.splits)

lemma sweep_targets_ranges_ok:
  "sweep_targets ts skip_lit env c k st = (st', effs) \<Longrightarrow> ranges_ok st \<Longrightarrow> ranges_ok st'"
proof (induction ts arbitrary: c k st st' effs)
  case (Cons t ts)
  obtain ok st1 e1 where t: "process_target t skip_lit env st = (ok, st1, e1)"
    by (cases "process_target t skip_lit env st")
  with Cons.prems obtain c' k' e2 where "sweep_targets ts skip_lit env c' k' st1 = (st', e2)"
    by (auto split: prod.splits)
  from Cons.IH [OF this process_target_ranges_ok [OF t Cons.prems(2)]] show ?case .
qed simp

text \<open>A whole sweep, over any targets and whatever each lamp answers, leaves every export with
  an acceptable entry and a proper colour-temperature range if it found them so, and always
  clears the running flag, so that the next sweep can start.\<close>

theorem sweep_keeps_ranges:
  assumes "store_ok (en_store en)" "\<And>k e. store_get k (en_store en) = Some e \<Longrightarrow> proper_range e"
    and "run_sweep ids skip_lit env en = (en', effs)"
  shows "store_ok (en_store en') \<and> (\<forall>k e. store_get k (en_store en') = Some e \<longrightarrow> proper_range e)
    \<and> \<not> en_running en' \<and> fst (start_sweep None None en') = Started None"
proof -
  from assms(3) obtain st' where
    s: "sweep_targets (resolve_targets ids (en_store en)) skip_lit env 0 0 (en_store en) = (st', effs)"
    and en': "en' = en\<lparr>en_running := False, en_store := st'\<rparr>"
    by (auto simp: run_sweep_def split: prod.splits)
  have "ranges_ok (en_store en)" using assms(1,2) by (simp add: ranges_ok_def)
  from sweep_targets_ranges_ok [OF s this] en' show ?thesis
    by (auto simp: ranges_ok_def start_sweep_def)
qed

definition demo_lamp :: lamp_env where
  "demo_lamp = \<lparr>le_device = True, le_handler = True, le_brightness = PInt 0, le_original = Reading (PInt 250),
     le_side = (\<lambda>s. \<lparr>sv_dispatch = Dispatched,
                     sv_fresh = Some (Reading (PInt (case s of SideMin \<Rightarrow> 153 | SideMax \<Rightarrow> 454))),
                     sv_commit = ok_env, sv_republish_ok = True\<rparr>),
     le_restore = Dispatched\<rparr>"

lemma lamp_restored_witness:
  "\<exists>n. 0 < n \<and> filter is_set (snd (snd (calibrate_one demo_entry True demo_lamp demo_store)))
     = map (SetColorTemp 42) (take n [153, 500] @ [250])"
proof -
  obtain out st' effs where c: "calibrate_one demo_entry True demo_lamp demo_store = (out, st', effs)"
    by (cases "calibrate_one demo_entry True demo_lamp demo_store")
  have "filter is_set (snd (snd (calibrate_one demo_entry True demo_lamp demo_store))) \<noteq> []" by code_simp
  moreover have "read_mireds (le_original demo_lamp) = Inr (Some 250)" "ee_device_id demo_entry = 42" by code_simp+
  ultimately show ?thesis using lamp_restored [OF c] c by simp
qed

lemma sweep_keeps_ranges_witness:
  "\<forall>k e. store_get k (en_store (fst (run_sweep None True (\<lambda>_. demo_lamp) \<lparr>en_running = True, en_store = demo_store\<rparr>)))
     = Some e \<longrightarrow> proper_range e"
proof -
  let ?en = "\<lparr>en_running = True, en_store = demo_store\<rparr>"
  have "proper_range demo_entry" unfolding proper_range_def by code_simp
  then have p: "\<And>k e. store_get k (en_store ?en) = Some e \<Longrightarrow> proper_range e"
    by (auto simp: store_get_def demo_store_def split: if_splits)
  have ok: "store_ok (en_store ?en)" using demo_store_ok(1) by simp
  obtain en' effs where r: "run_sweep None True (\<lambda>_. demo_lamp) ?en = (en', effs)"
    by (cases "run_sweep None True (\<lambda>_. demo_lamp) ?en")
  from sweep_keeps_ranges [OF ok p r] r show ?thesis by simp
qed

lemma resolve_ids_error: "resolve_ids vs = Inl e \<Longrightarrow> e = OverflowError \<and> (PFloat PosInf \<in> set vs \<or> PFloat NegInf \<in> set vs)"
proof (induction vs)
  case (Cons v vs)
  then show ?case
    using py_int_errors [of v] by (auto simp: py_bind_Inl split: sum.splits if_splits)
qed simp

text \<open>The gate: a request while a sweep runs changes nothing and is refused, and a request that
  starts marks the sweep as running; but a request that raises on its way to the thread (an
  infinite device id, or a thread that cannot be started) leaves the mark set with no sweep
  to clear it, so that every later request is refused.\<close>

theorem start_gate:
  "(en_running en \<longrightarrow> start_sweep ids thread en = (AlreadyRunning, en, [LogAlreadyRunning]))
   \<and> (start_sweep ids thread en = (Started r, en', effs) \<longrightarrow> en_running en' \<and> \<not> en_running en \<and> en_store en' = en_store en)
   \<and> (start_sweep ids thread en = (StartRaises e, en', effs) \<longrightarrow>
        (thread = Some e \<or> e = OverflowError)
        \<and> (\<forall>ids' thread'. fst (start_sweep ids' thread' en') = AlreadyRunning))"
proof (intro conjI impI)
  show "start_sweep ids thread en = (AlreadyRunning, en, [LogAlreadyRunning])" if "en_running en"
    using that by (simp add: start_sweep_def)
  show "en_running en'" "\<not> en_running en" "en_store en' = en_store en"
    if "start_sweep ids thread en = (Started r, en', effs)"
    using that by (auto simp: start_sweep_def Let_def split: if_splits sum.splits option.splits)
  assume s: "start_sweep ids thread en = (StartRaises e, en', effs)"
  then have "en_running en'"
    by (auto simp: start_sweep_def Let_def split: if_splits sum.splits option.splits)
  then show "\<forall>ids' thread'. fst (start_sweep ids' thread' en') = AlreadyRunning"
    by (simp add: start_sweep_def)
  show "thread = Some e \<or> e = OverflowError"
    using s resolve_ids_error
    by (auto simp: start_sweep_def Let_def py_bind_Inl split: if_splits sum.splits option.splits)
qed

lemma start_gate_witness:
  "\<forall>ids' thread'. fst (start_sweep ids' thread'
     (fst (snd (start_sweep None (Some RuntimeError) \<lparr>en_running = False, en_store = demo_store\<rparr>)))) = AlreadyRunning"
proof -
  let ?en = "\<lparr>en_running = False, en_store = demo_store\<rparr>"
  have s: "start_sweep None (Some RuntimeError) ?en = (StartRaises RuntimeError, ?en\<lparr>en_running := True\<rparr>, [])"
    by (simp add: start_sweep_def)
  then show ?thesis using start_gate [of ?en None "Some RuntimeError"] by simp
qed

end
