(* ===== verification/NodeReplace.thy ===== *)
theory NodeReplace
  imports CommissionJobs "HOL-Library.Multiset" "HOL-Library.Product_Lexorder"
    "HOL-Library.List_Lexorder" "HOL-Library.Char_ord"
begin

text \<open>
  \<open>node_replace.py\<close>: the planner of "Replace a Matter node", which pairs the devices of the old
  node with those of the new one by endpoint and device type, decides whether to refuse, and
  says what to show. The texts of the reasons and of the preview rows are values of datatypes,
  one constructor per text. The lexicographic orders of the library are those of Python on
  tuples and texts.
\<close>

section \<open>The plan\<close>

record device_ref =
  dv_id :: int
  dv_endpoint :: int
  dv_type :: string
  dv_name :: string

type_synonym ref_key = "int \<times> string"

record plan =
  pl_old_node :: int
  pl_new_node :: int
  pl_pairs :: "(device_ref \<times> device_ref) list"
  pl_unmatched_old :: "device_ref list"
  pl_unmatched_new :: "device_ref list"
  pl_extra_deletes :: "device_ref list"

definition shape_matches :: "plan \<Rightarrow> bool" where
  "shape_matches p = (pl_unmatched_old p = [] \<and> pl_unmatched_new p = [])"

definition ref_key :: "device_ref \<Rightarrow> ref_key" where
  "ref_key r = (dv_endpoint r, dv_type r)"

definition sort_refs :: "device_ref list \<Rightarrow> device_ref list" where
  "sort_refs = sort_key (\<lambda>r. (ref_key r, dv_id r))"

definition bucket :: "(ref_key \<times> device_ref list) list \<Rightarrow> ref_key \<Rightarrow> device_ref list" where
  "bucket d k = (case map_of d k of None \<Rightarrow> [] | Some rs \<Rightarrow> rs)"

definition group_refs :: "device_ref list \<Rightarrow> (ref_key \<times> device_ref list) list" where
  "group_refs refs = fold (\<lambda>r d. AList.update (ref_key r) (bucket d (ref_key r) @ [r]) d) refs []"

text \<open>The loop over the old devices: pairs, left-over old devices, and what is left of the
  buckets.\<close>

fun pair_up :: "device_ref list \<Rightarrow> (ref_key \<times> device_ref list) list
    \<Rightarrow> (device_ref \<times> device_ref) list \<times> device_ref list \<times> (ref_key \<times> device_ref list) list" where
  "pair_up [] d = ([], [], d)"
| "pair_up (old # olds) d =
     (case bucket d (ref_key old) of
        new # rest \<Rightarrow>
          (case pair_up olds (AList.update (ref_key old) rest d) of
             (pairs, unmatched, d') \<Rightarrow> ((old, new) # pairs, unmatched, d'))
      | [] \<Rightarrow>
          (case pair_up olds d of (pairs, unmatched, d') \<Rightarrow> (pairs, old # unmatched, d')))"

definition is_node_device :: "device_ref \<Rightarrow> bool" where
  "is_node_device r = (dv_endpoint r = 0 \<and> dv_type r = ''matterNode'')"

definition plan_replacement :: "int \<Rightarrow> device_ref list \<Rightarrow> int \<Rightarrow> device_ref list \<Rightarrow> bool \<Rightarrow> plan" where
  "plan_replacement old_node old_refs new_node new_refs drop_new_node_device =
     (let (pairs, unmatched_old, rest) = pair_up (sort_refs old_refs) (group_refs (sort_refs new_refs));
          unmatched_new = sort_refs (concat (map snd rest));
          extra_deletes = (if drop_new_node_device then filter is_node_device unmatched_new else []);
          kept = filter (\<lambda>r. r \<notin> set extra_deletes) unmatched_new
      in \<lparr>pl_old_node = old_node, pl_new_node = new_node, pl_pairs = pairs,
          pl_unmatched_old = unmatched_old,
          pl_unmatched_new = (if drop_new_node_device then kept else unmatched_new),
          pl_extra_deletes = extra_deletes\<rparr>)"

section \<open>Refusals, preview, properties of the rebound device\<close>

datatype refusal =
    SameNode
  | NoPairs
  | OnBothNodes
  | ShapeMismatch
  | ExportedAccessory string
  | ReferencedBy string "string list"
  | LookupFailed string string

definition deleted_refs :: "plan \<Rightarrow> device_ref list" where
  "deleted_refs p = map snd (pl_pairs p) @ pl_extra_deletes p"

definition refusal_reasons ::
  "plan \<Rightarrow> bool \<Rightarrow> int set \<Rightarrow> (int \<Rightarrow> string list option) \<Rightarrow> (int \<Rightarrow> string option) \<Rightarrow> refusal list" where
  "refusal_reasons p allow_mismatch exported_ids references reference_errors =
     (let old_ids = set (map (dv_id \<circ> fst) (pl_pairs p)) \<union> set (map dv_id (pl_unmatched_old p));
          new_ids = set (map (dv_id \<circ> snd) (pl_pairs p)) \<union> set (map dv_id (pl_unmatched_new p))
                    \<union> set (map dv_id (pl_extra_deletes p));
          new_devices = deleted_refs p
      in (if pl_old_node p = pl_new_node p then [SameNode] else [])
         @ (if pl_pairs p = [] then [NoPairs] else [])
         @ (if old_ids \<inter> new_ids \<noteq> {} then [OnBothNodes] else [])
         @ (if \<not> shape_matches p \<and> \<not> allow_mismatch then [ShapeMismatch] else [])
         @ map (\<lambda>r. ExportedAccessory (dv_name r)) (filter (\<lambda>r. dv_id r \<in> exported_ids) new_devices)
         @ List.map_filter (\<lambda>r. case references (dv_id r) of
              Some names \<Rightarrow> if names \<noteq> [] then Some (ReferencedBy (dv_name r) names) else None
            | None \<Rightarrow> None) new_devices
         @ List.map_filter (\<lambda>r. case reference_errors (dv_id r) of
              Some e \<Rightarrow> if e \<noteq> [] then Some (LookupFailed (dv_name r) e) else None
            | None \<Rightarrow> None) new_devices)"

text \<open>The label with a subscript is the one text outside the character range of \<open>string\<close>.\<close>

datatype role_label = Label string | LabelCO2

definition ROLE_LABELS :: "(string \<times> role_label) list" where
  "ROLE_LABELS = [
     (''matterNode'', Label ''Node device''), (''matterRelay'', Label ''Switch''),
     (''matterDimmer'', Label ''Dimmer''), (''matterColorDimmer'', Label ''Light''),
     (''matterTemperatureSensor'', Label ''Temperature''), (''matterHumiditySensor'', Label ''Humidity''),
     (''matterMotionSensor'', Label ''Motion''), (''matterContactSensor'', Label ''Contact''),
     (''matterIlluminanceSensor'', Label ''Illuminance''), (''matterPressureSensor'', Label ''Pressure''),
     (''matterFlowSensor'', Label ''Flow''), (''matterThermostat'', Label ''Thermostat''),
     (''matterFan'', Label ''Fan''), (''matterWindowCovering'', Label ''Window Covering''),
     (''matterLock'', Label ''Lock''), (''matterValve'', Label ''Valve''),
     (''matterButton'', Label ''Button''), (''matterSmokeCOAlarm'', Label ''Smoke/CO''),
     (''matterAirQualitySensor'', Label ''Air Quality''), (''matterCO2Sensor'', LabelCO2),
     (''matterPM25Sensor'', Label ''PM2.5''), (''matterTVOCSensor'', Label ''TVOC''),
     (''matterEnergyMeter'', Label ''Energy''), (''matterUnknown'', Label ''Unsupported'')]"

definition role_of :: "device_ref \<Rightarrow> role_label" where
  "role_of r = (case map_of ROLE_LABELS (dv_type r) of Some l \<Rightarrow> l | None \<Rightarrow> Label (dv_type r))"

datatype row_label =
    CannotReplace
  | PairsWith role_label string
  | NoMatchStays role_label
  | NewKept role_label
  | NewDeleted role_label

definition tag :: "string \<Rightarrow> device_ref \<Rightarrow> string" where
  "tag kind r = kind @ '':'' @ str_of_int (dv_id r)"

definition preview_rows :: "plan \<Rightarrow> refusal list \<Rightarrow> (string \<times> row_label) list" where
  "preview_rows p refusals =
     (if refusals \<noteq> [] then [(''refuse'', CannotReplace)]
      else map (\<lambda>(old, new). (tag ''pair'' old, PairsWith (role_of old) (node_id_to_str (NInt (pl_new_node p))))) (pl_pairs p)
         @ map (\<lambda>old. (tag ''old'' old, NoMatchStays (role_of old))) (pl_unmatched_old p)
         @ map (\<lambda>new. (tag ''new'' new, NewKept (role_of new))) (pl_unmatched_new p)
         @ map (\<lambda>new. (tag ''extra'' new, NewDeleted (role_of new))) (pl_extra_deletes p))"

definition rebound_props :: "pydict \<Rightarrow> int \<Rightarrow> string option \<Rightarrow> pydict" where
  "rebound_props old_props new_node software_version =
     (let out = AList.update ''address'' (PStr (node_id_to_str (NInt new_node)))
                  (AList.update ''nodeId'' (PStr (str_of_int new_node)) old_props)
      in case software_version of
           Some v \<Rightarrow> AList.update ''softwareVersion'' (PStr v) out | None \<Rightarrow> out)"

section \<open>Pairing\<close>

lemma bucket_update: "bucket (AList.update k rs d) k' = (if k' = k then rs else bucket d k')"
  by (simp add: bucket_def update_conv')

definition keyed :: "(ref_key \<times> device_ref list) list \<Rightarrow> bool" where
  "keyed d \<longleftrightarrow> distinct (map fst d) \<and> (\<forall>(k, rs) \<in> set d. \<forall>r \<in> set rs. ref_key r = k)"

definition pool :: "(ref_key \<times> device_ref list) list \<Rightarrow> device_ref multiset" where
  "pool d = mset (concat (map snd d))"

lemma pool_update:
  "distinct (map fst d) \<Longrightarrow> pool (AList.update k rs d) + mset (bucket d k) = pool d + mset rs"
proof (induction d)
  case (Cons p d)
  obtain k' rs' where p: "p = (k', rs')" by (cases p)
  show ?case
  proof (cases "k' = k")
    case True
    then show ?thesis by (simp add: p pool_def bucket_def)
  next
    case False
    with Cons have "pool (AList.update k rs d) + mset (bucket d k) = pool d + mset rs" by simp
    with False show ?thesis by (simp add: p pool_def bucket_def add.assoc)
  qed
qed (simp add: pool_def bucket_def)

lemma keyed_update:
  assumes "keyed d" "\<forall>r \<in> set rs. ref_key r = k"
  shows "keyed (AList.update k rs d)"
  unfolding keyed_def
proof (intro conjI ballI, goal_cases)
  case 1
  show ?case using assms(1) by (simp add: keyed_def distinct_update)
next
  case (2 p)
  obtain k' rs' where p: "p = (k', rs')" by (cases p)
  have "k' = k \<and> rs' = rs \<or> (k', rs') \<in> set d"
    using update_in_set [of k' rs' k rs d] 2 p assms(1) by (simp add: keyed_def)
  with assms p show ?case by (auto simp: keyed_def)
qed

lemma keyed_bucket: "keyed d \<Longrightarrow> r \<in> set (bucket d k) \<Longrightarrow> ref_key r = k"
  by (auto simp: keyed_def bucket_def dest!: map_of_SomeD split: option.splits)

lemma group_refs_fold:
  assumes "keyed d"
  shows "keyed (fold (\<lambda>r d. AList.update (ref_key r) (bucket d (ref_key r) @ [r]) d) refs d)
    \<and> pool (fold (\<lambda>r d. AList.update (ref_key r) (bucket d (ref_key r) @ [r]) d) refs d) = pool d + mset refs"
  using assms
proof (induction refs arbitrary: d)
  case (Cons r refs)
  let ?d = "AList.update (ref_key r) (bucket d (ref_key r) @ [r]) d"
  have k: "keyed ?d" using Cons.prems keyed_bucket by (intro keyed_update) auto
  have "pool ?d + mset (bucket d (ref_key r)) = pool d + (mset (bucket d (ref_key r)) + {#r#})"
    using pool_update [of d "ref_key r" "bucket d (ref_key r) @ [r]"] Cons.prems by (simp add: keyed_def)
  then have "pool ?d = add_mset r (pool d)" by (simp add: union_commute union_assoc)
  with Cons.IH [OF k] show ?case by simp
qed simp

lemma group_refs_ok: "keyed (group_refs refs) \<and> pool (group_refs refs) = mset refs"
proof -
  have "keyed []" by (simp add: keyed_def)
  from group_refs_fold [OF this, of refs] show ?thesis by (simp add: group_refs_def pool_def)
qed

lemma pair_up_spec:
  assumes "pair_up olds d = (pairs, unmatched, d')" "keyed d"
  shows "keyed d' \<and> mset (map fst pairs) + mset unmatched = mset olds
    \<and> mset (map snd pairs) + pool d' = pool d
    \<and> (\<forall>(old, new) \<in> set pairs. ref_key old = ref_key new)
    \<and> (\<forall>old \<in> set unmatched. bucket d' (ref_key old) = [])
    \<and> (\<forall>k. bucket d k = [] \<longrightarrow> bucket d' k = [])"
  using assms
proof (induction olds arbitrary: d pairs unmatched d')
  case (Cons old olds)
  show ?case
  proof (cases "bucket d (ref_key old)")
    case Nil
    obtain ps us d1 where rec: "pair_up olds d = (ps, us, d1)" by (cases "pair_up olds d")
    with Cons.prems(1) Nil have "pairs = ps" "unmatched = old # us" "d' = d1" by auto
    moreover note ih = Cons.IH [OF rec Cons.prems(2)]
    moreover have "bucket d1 (ref_key old) = []" using ih Nil by blast
    ultimately show ?thesis by simp
  next
    case b: (Cons new rest)
    let ?d = "AList.update (ref_key old) rest d"
    have keys: "ref_key r = ref_key old" if "r \<in> set (new # rest)" for r
      using keyed_bucket [OF Cons.prems(2)] that b by metis
    then have k: "keyed ?d" by (intro keyed_update [OF Cons.prems(2)]) simp
    obtain ps us d1 where rec: "pair_up olds ?d = (ps, us, d1)" by (cases "pair_up olds ?d")
    with Cons.prems(1) b have e: "pairs = (old, new) # ps" "unmatched = us" "d' = d1" by auto
    have "pool ?d + mset (new # rest) = pool d + mset rest"
      using pool_update [of d "ref_key old" rest] Cons.prems(2) b by (simp add: keyed_def)
    then have "add_mset new (pool ?d) = pool d" by simp
    moreover have "bucket d k = [] \<Longrightarrow> bucket ?d k = []" for k using b by (auto simp: bucket_update)
    ultimately show ?thesis using Cons.IH [OF rec k] e keys by auto
  qed
qed (auto simp: pool_def)

section \<open>The plan is right\<close>

lemma mset_sort_refs [simp]: "mset (sort_refs rs) = mset rs" "set (sort_refs rs) = set rs"
  by (simp_all add: sort_refs_def)

lemma plan_parts:
  assumes "p = plan_replacement old_node old_refs new_node new_refs dropping"
  obtains rest where "pair_up (sort_refs old_refs) (group_refs (sort_refs new_refs)) = (pl_pairs p, pl_unmatched_old p, rest)"
    "mset (pl_unmatched_new p) + mset (pl_extra_deletes p) = pool rest"
    "pl_extra_deletes p = (if dropping then filter is_node_device (sort_refs (concat (map snd rest))) else [])"
    "pl_unmatched_new p = (if dropping then filter (\<lambda>r. \<not> is_node_device r) (sort_refs (concat (map snd rest)))
                           else sort_refs (concat (map snd rest)))"
proof -
  obtain pairs us rest where r: "pair_up (sort_refs old_refs) (group_refs (sort_refs new_refs)) = (pairs, us, rest)"
    by (cases "pair_up (sort_refs old_refs) (group_refs (sort_refs new_refs))")
  let ?all = "sort_refs (concat (map snd rest))"
  have kept: "filter (\<lambda>r. r \<notin> set (filter is_node_device ?all)) ?all = filter (\<lambda>r. \<not> is_node_device r) ?all"
    by (intro filter_cong) auto
  have p: "p = \<lparr>pl_old_node = old_node, pl_new_node = new_node, pl_pairs = pairs, pl_unmatched_old = us,
      pl_unmatched_new = (if dropping then filter (\<lambda>r. \<not> is_node_device r) ?all else ?all),
      pl_extra_deletes = (if dropping then filter is_node_device ?all else [])\<rparr>"
    using assms r kept by (simp add: plan_replacement_def Let_def)
  show thesis
    by (rule that [of rest]) (use r p in \<open>simp_all add: pool_def multiset_partition [symmetric] add.commute\<close>)
qed

text \<open>A plan loses and invents nothing and pairs as much as it can: every old device is either
  paired or unmatched, every new one paired, kept or marked for deletion, each exactly as often
  as given; partners share endpoint and type; and no device is left unmatched on one side
  while one of the same endpoint and type is left on the other.\<close>

theorem plan_complete:
  assumes "p = plan_replacement old_node old_refs new_node new_refs dropping"
  shows "mset (map fst (pl_pairs p)) + mset (pl_unmatched_old p) = mset old_refs
    \<and> mset (map snd (pl_pairs p)) + (mset (pl_unmatched_new p) + mset (pl_extra_deletes p)) = mset new_refs
    \<and> (\<forall>(old, new) \<in> set (pl_pairs p). ref_key old = ref_key new)
    \<and> (\<forall>old \<in> set (pl_unmatched_old p). \<forall>new \<in> set (pl_unmatched_new p) \<union> set (pl_extra_deletes p).
          ref_key old \<noteq> ref_key new)
    \<and> set (pl_extra_deletes p) \<subseteq> {r. dropping \<and> is_node_device r}"
proof -
  obtain rest where r: "pair_up (sort_refs old_refs) (group_refs (sort_refs new_refs)) = (pl_pairs p, pl_unmatched_old p, rest)"
    and all: "mset (pl_unmatched_new p) + mset (pl_extra_deletes p) = pool rest"
    and extra: "pl_extra_deletes p = (if dropping then filter is_node_device (sort_refs (concat (map snd rest))) else [])"
    using plan_parts [OF assms] by metis
  have g: "keyed (group_refs (sort_refs new_refs))" "pool (group_refs (sort_refs new_refs)) = mset new_refs"
    using group_refs_ok [of "sort_refs new_refs"] by simp_all
  note spec = pair_up_spec [OF r g(1)]
  have "ref_key old \<noteq> ref_key new"
    if "old \<in> set (pl_unmatched_old p)" "new \<in> set (pl_unmatched_new p) \<union> set (pl_extra_deletes p)" for old new
  proof
    assume same: "ref_key old = ref_key new"
    have "new \<in># pool rest" using that(2) all by (metis Un_iff set_mset_mset set_mset_union)
    then obtain k rs where k: "(k, rs) \<in> set rest" "new \<in> set rs" by (auto simp: pool_def)
    then have "ref_key new = k" using spec by (auto simp: keyed_def)
    moreover have "bucket rest k = rs" using k(1) spec by (simp add: bucket_def keyed_def map_of_is_SomeI)
    moreover have "bucket rest (ref_key old) = []" using spec that(1) by blast
    ultimately show False using same k(2) by simp
  qed
  moreover have "set (pl_extra_deletes p) \<subseteq> {r. dropping \<and> is_node_device r}" using extra by auto
  ultimately show ?thesis using spec g(2) all by simp
qed

definition demo_refs :: "int \<Rightarrow> device_ref list" where
  "demo_refs base = [\<lparr>dv_id = base + 2, dv_endpoint = 1, dv_type = ''matterRelay'', dv_name = ''Lamp''\<rparr>,
     \<lparr>dv_id = base + 1, dv_endpoint = 0, dv_type = ''matterNode'', dv_name = ''Node''\<rparr>]"

lemma plan_complete_witness:
  "mset (map fst (pl_pairs (plan_replacement 5 (demo_refs 100) 6 (demo_refs 200) False)))
     + mset (pl_unmatched_old (plan_replacement 5 (demo_refs 100) 6 (demo_refs 200) False)) = mset (demo_refs 100)"
  using plan_complete [OF refl, of 5 "demo_refs 100" 6 "demo_refs 200" False] by blast

lemma map_filter_empty: "List.map_filter f xs = [] \<longleftrightarrow> (\<forall>x \<in> set xs. f x = None)"
  by (simp add: List.map_filter_def filter_empty_conv)

text \<open>A replacement is allowed exactly when the nodes differ, something pairs, no device stands
  on both sides, the shapes match or the mismatch was accepted, and every device it would
  delete (paired or extra) is known not to be exported, to have no referrers, and to have been
  looked up without an error; what happens to devices that are kept does not matter.\<close>

theorem allowed_iff:
  "refusal_reasons p allow_mismatch exported_ids references reference_errors = [] \<longleftrightarrow>
     pl_old_node p \<noteq> pl_new_node p \<and> pl_pairs p \<noteq> []
     \<and> (\<forall>old \<in> set (map fst (pl_pairs p)) \<union> set (pl_unmatched_old p).
          \<forall>new \<in> set (map snd (pl_pairs p)) \<union> set (pl_unmatched_new p) \<union> set (pl_extra_deletes p).
            dv_id old \<noteq> dv_id new)
     \<and> (allow_mismatch \<or> pl_unmatched_old p = [] \<and> pl_unmatched_new p = [])
     \<and> (\<forall>new \<in> set (map snd (pl_pairs p)) \<union> set (pl_extra_deletes p).
          dv_id new \<notin> exported_ids
          \<and> (\<forall>names. references (dv_id new) = Some names \<longrightarrow> names = [])
          \<and> (\<forall>e. reference_errors (dv_id new) = Some e \<longrightarrow> e = []))"
proof -
  let ?O = "set (map (dv_id \<circ> fst) (pl_pairs p)) \<union> set (map dv_id (pl_unmatched_old p))"
  let ?N = "set (map (dv_id \<circ> snd) (pl_pairs p)) \<union> set (map dv_id (pl_unmatched_new p)) \<union> set (map dv_id (pl_extra_deletes p))"
  have O: "?O = dv_id ` (set (map fst (pl_pairs p)) \<union> set (pl_unmatched_old p))" by (auto simp: image_iff)
  have N: "?N = dv_id ` (set (map snd (pl_pairs p)) \<union> set (pl_unmatched_new p) \<union> set (pl_extra_deletes p))"
    by (auto simp: image_iff)
  have disjoint: "?O \<inter> ?N = {} \<longleftrightarrow>
      (\<forall>old \<in> set (map fst (pl_pairs p)) \<union> set (pl_unmatched_old p).
          \<forall>new \<in> set (map snd (pl_pairs p)) \<union> set (pl_unmatched_new p) \<union> set (pl_extra_deletes p).
            dv_id old \<noteq> dv_id new)"
    unfolding O N by blast
  have del: "set (deleted_refs p) = set (map snd (pl_pairs p)) \<union> set (pl_extra_deletes p)"
    by (simp add: deleted_refs_def)
  have "refusal_reasons p allow_mismatch exported_ids references reference_errors = [] \<longleftrightarrow>
      pl_old_node p \<noteq> pl_new_node p \<and> pl_pairs p \<noteq> [] \<and> ?O \<inter> ?N = {}
      \<and> (allow_mismatch \<or> shape_matches p)
      \<and> (\<forall>new \<in> set (deleted_refs p). dv_id new \<notin> exported_ids
          \<and> (\<forall>names. references (dv_id new) = Some names \<longrightarrow> names = [])
          \<and> (\<forall>e. reference_errors (dv_id new) = Some e \<longrightarrow> e = []))"
    by (auto simp: refusal_reasons_def Let_def map_filter_empty filter_empty_conv split: option.splits if_splits)
  then show ?thesis unfolding disjoint del shape_matches_def by blast
qed

lemma allowed_iff_witness:
  "\<not> list_ex (\<lambda>new. dv_id new \<in> {9}) (map snd (pl_pairs (plan_replacement 5 (demo_refs 100) 6 (demo_refs 200) False)))"
proof -
  have "refusal_reasons (plan_replacement 5 (demo_refs 100) 6 (demo_refs 200) False) False {9} (\<lambda>_. None) (\<lambda>_. None) = []"
    by code_simp
  then show ?thesis unfolding list_ex_iff using allowed_iff by blast
qed

lemma sort_refs_perm:
  assumes "mset rs = mset rs'" "distinct (map dv_id rs)"
  shows "sort_refs rs = sort_refs rs'"
proof -
  have "inj_on (\<lambda>r. (ref_key r, dv_id r)) (set rs)"
    using assms(2) by (auto simp: inj_on_def distinct_map)
  with assms(1) show ?thesis unfolding sort_refs_def by (intro sort_key_inj_key_eq) simp_all
qed

lemma distinct_ids_mset:
  assumes "mset xs = mset ys" "distinct (map dv_id ys)"
  shows "distinct (map dv_id xs)"
  using assms by (metis mset_map mset_eq_imp_distinct_iff)

lemma distinct_tags: "distinct (map dv_id rs) \<Longrightarrow> distinct (map (tag kind) rs)"
  by (auto simp: distinct_map inj_on_def tag_def)

lemma preview_tags:
  "refusals = [] \<Longrightarrow> map fst (preview_rows p refusals) =
     map (tag ''pair'') (map fst (pl_pairs p)) @ map (tag ''old'') (pl_unmatched_old p)
     @ map (tag ''new'') (pl_unmatched_new p) @ map (tag ''extra'') (pl_extra_deletes p)"
  by (simp add: preview_rows_def comp_def case_prod_beta)

text \<open>The plan does not depend on the order in which the devices are listed, and its preview
  never holds two rows with the same value, which an Indigo list requires.\<close>

theorem plan_deterministic:
  assumes "distinct (map dv_id old_refs)" "distinct (map dv_id new_refs)"
    and "mset old_refs' = mset old_refs" "mset new_refs' = mset new_refs"
  shows "plan_replacement old_node old_refs' new_node new_refs' dropping
       = plan_replacement old_node old_refs new_node new_refs dropping
    \<and> distinct (map fst (preview_rows (plan_replacement old_node old_refs new_node new_refs dropping) refusals))"
proof
  let ?p = "plan_replacement old_node old_refs new_node new_refs dropping"
  have "sort_refs old_refs' = sort_refs old_refs" "sort_refs new_refs' = sort_refs new_refs"
    using sort_refs_perm [of old_refs old_refs'] sort_refs_perm [of new_refs new_refs'] assms by simp_all
  then show "plan_replacement old_node old_refs' new_node new_refs' dropping = ?p"
    by (simp only: plan_replacement_def)
  obtain rest where r: "pair_up (sort_refs old_refs) (group_refs (sort_refs new_refs)) = (pl_pairs ?p, pl_unmatched_old ?p, rest)"
    and all: "mset (pl_unmatched_new ?p) + mset (pl_extra_deletes ?p) = pool rest"
    using plan_parts [OF refl] by metis
  have g: "keyed (group_refs (sort_refs new_refs))" "pool (group_refs (sort_refs new_refs)) = mset new_refs"
    using group_refs_ok [of "sort_refs new_refs"] by simp_all
  note spec = pair_up_spec [OF r g(1)]
  have "mset (map fst (pl_pairs ?p) @ pl_unmatched_old ?p) = mset old_refs" using spec by simp
  from distinct_ids_mset [OF this assms(1)]
  have olds: "distinct (map dv_id (map fst (pl_pairs ?p)))" "distinct (map dv_id (pl_unmatched_old ?p))" by simp_all
  have "mset (map snd (pl_pairs ?p) @ (pl_unmatched_new ?p @ pl_extra_deletes ?p)) = mset new_refs"
    using spec all g(2) by simp
  from distinct_ids_mset [OF this assms(2)]
  have news: "distinct (map dv_id (pl_unmatched_new ?p))" "distinct (map dv_id (pl_extra_deletes ?p))" by simp_all
  have kinds: "tag k r \<noteq> tag k' r'" if "k = c # w" "k' = c' # w'" "c \<noteq> c'" for k k' c c' w w' r r'
    using that by (simp add: tag_def)
  show "distinct (map fst (preview_rows ?p refusals))"
  proof (cases "refusals = []")
    case True
    show ?thesis
      unfolding preview_tags [OF True]
      using distinct_tags [OF olds(1)] distinct_tags [OF olds(2)] distinct_tags [OF news(1)] distinct_tags [OF news(2)]
      by (auto simp: tag_def)
  qed (simp add: preview_rows_def)
qed

lemma plan_deterministic_witness:
  "plan_replacement 5 (rev (demo_refs 100)) 6 (demo_refs 200) True = plan_replacement 5 (demo_refs 100) 6 (demo_refs 200) True"
proof -
  have "distinct (map dv_id (demo_refs b))" for b by (simp add: demo_refs_def)
  then show ?thesis
    using plan_deterministic [of "demo_refs 100" "demo_refs 200" "rev (demo_refs 100)" "demo_refs 200" 5 6 True "[]"]
    by simp
qed

text \<open>Rebinding writes the new node's id and address (and the version only when given) and keeps
  every other property of the device.\<close>

theorem rebound_props_lookup:
  "map_of (rebound_props old_props new_node version) k =
     (if k = ''nodeId'' then Some (PStr (str_of_int new_node))
      else if k = ''address'' then Some (PStr (''0x'' @ hex_of_int new_node))
      else if k = ''softwareVersion'' then (case version of Some v \<Rightarrow> Some (PStr v) | None \<Rightarrow> map_of old_props k)
      else map_of old_props k)"
  by (auto simp: rebound_props_def Let_def update_conv' split: option.split)

end
