(* ===== verification/MatterModel.thy ===== *)
theory MatterModel
  imports MatterProtocol CommissionJobs
begin

text \<open>
  \<open>matter_model.py\<close>: a node of matter-server as the plugin sees it. The attribute snapshot is
  keyed by (endpoint, cluster, attribute); the endpoints, their clusters, device types and
  bridged identity are derived from it. \<open>node_id_to_str\<close> is modelled in \<open>CommissionJobs\<close>, and
  \<open>repr\<close> is the text of a value that is not a text, a number, a boolean or \<open>None\<close>.
\<close>

section \<open>Shapes\<close>

type_synonym attr_path = "int \<times> int \<times> int"
type_synonym attributes = "(attr_path \<times> pyval) list"

record endpoint_info =
  ei_endpoint_id :: int
  ei_cluster_ids :: "int set"
  ei_device_types :: "int list"
  ei_node_label :: string
  ei_vendor_name :: string
  ei_product_name :: string

record node_info =
  ni_node_id :: int
  ni_suggested_name :: string
  ni_vendor_id :: "int option"
  ni_product_id :: "int option"
  ni_vendor_name :: string
  ni_product_name :: string
  ni_sw_version :: string
  ni_available :: bool
  ni_endpoints :: "endpoint_info list"
  ni_attributes :: attributes

definition ei_has :: "endpoint_info \<Rightarrow> int \<Rightarrow> bool" where
  "ei_has e cluster = (cluster \<in> ei_cluster_ids e)"

definition BASIC_INFO :: int where "BASIC_INFO = 40"
definition CLUSTER_BRIDGED_BASIC :: int where "CLUSTER_BRIDGED_BASIC = 57"
definition DESCRIPTOR :: int where "DESCRIPTOR = 29"

section \<open>Reading a node\<close>

definition normalise_attributes :: "pydict \<Rightarrow> attributes" where
  "normalise_attributes raw = fold (\<lambda>(key, v) out. case parse_attr_key key of
       Inr path \<Rightarrow> AList.update path v out | Inl _ \<Rightarrow> out) raw []"

text \<open>\<open>setdefault(endpoint, set()).add(cluster)\<close> for every path.\<close>

definition add_cluster :: "attr_path \<Rightarrow> (int \<times> int set) list \<Rightarrow> (int \<times> int set) list" where
  "add_cluster path d = (case path of (endpoint, cluster, _) \<Rightarrow>
     AList.update endpoint (insert cluster (case map_of d endpoint of None \<Rightarrow> {} | Some s \<Rightarrow> s)) d)"

definition clusters_by_endpoint :: "attributes \<Rightarrow> (int \<times> int set) list" where
  "clusters_by_endpoint attrs = fold add_cluster (map fst attrs) []"

fun device_type_of :: "pyval \<Rightarrow> int option py_result" where
  "device_type_of (PDict d) = (if dget d ''0'' = PNone then Inr None
     else py_bind (py_int (dget d ''0'')) (\<lambda>n. Inr (Some n)))"
| "device_type_of _ = Inr None"

definition path_value :: "attributes \<Rightarrow> attr_path \<Rightarrow> pyval" where
  "path_value attrs path = (case map_of attrs path of None \<Rightarrow> PNone | Some v \<Rightarrow> v)"

definition device_types :: "attributes \<Rightarrow> int \<Rightarrow> int list py_result" where
  "device_types attrs endpoint = (case path_value attrs (endpoint, DESCRIPTOR, 0) of
     PList entries \<Rightarrow> py_bind (py_map device_type_of entries) (\<lambda>ns. Inr (List.map_filter (\<lambda>x. x) ns))
   | _ \<Rightarrow> Inr [])"

definition battr :: "(pyval \<Rightarrow> string) \<Rightarrow> attributes \<Rightarrow> int \<Rightarrow> int \<Rightarrow> string" where
  "battr repr attrs endpoint attr_id =
     (let v = path_value attrs (endpoint, CLUSTER_BRIDGED_BASIC, attr_id)
      in if v = PNone then [] else py_str repr v)"

definition endpoint_of :: "(pyval \<Rightarrow> string) \<Rightarrow> attributes \<Rightarrow> int \<times> int set \<Rightarrow> endpoint_info py_result" where
  "endpoint_of repr attrs item = py_bind (device_types attrs (fst item)) (\<lambda>types.
     Inr \<lparr>ei_endpoint_id = fst item, ei_cluster_ids = snd item, ei_device_types = types,
          ei_node_label = battr repr attrs (fst item) 5, ei_vendor_name = battr repr attrs (fst item) 1,
          ei_product_name = battr repr attrs (fst item) 3\<rparr>)"

definition basic_text :: "(pyval \<Rightarrow> string) \<Rightarrow> attributes \<Rightarrow> int \<Rightarrow> string" where
  "basic_text repr attrs attr_id =
     (let v = path_value attrs (0, BASIC_INFO, attr_id) in if truthy v then py_str repr v else [])"

definition parse_node :: "(pyval \<Rightarrow> string) \<Rightarrow> pydict \<Rightarrow> string \<Rightarrow> node_info py_result" where
  "parse_node repr raw suggested_name =
     (case or_empty (dget raw ''attributes'') of
        PDict raw_attrs \<Rightarrow>
          (let attrs = normalise_attributes raw_attrs
           in py_bind (py_map (endpoint_of repr attrs) (sort_key fst (clusters_by_endpoint attrs))) (\<lambda>endpoints.
              py_bind (py_int (dget raw ''node_id'')) (\<lambda>node_id.
              py_bind (opt_int (path_value attrs (0, BASIC_INFO, 2))) (\<lambda>vendor_id.
              py_bind (opt_int (path_value attrs (0, BASIC_INFO, 4))) (\<lambda>product_id.
                Inr \<lparr>ni_node_id = node_id, ni_suggested_name = suggested_name, ni_vendor_id = vendor_id,
                     ni_product_id = product_id, ni_vendor_name = basic_text repr attrs 1,
                     ni_product_name = basic_text repr attrs 3, ni_sw_version = basic_text repr attrs 10,
                     ni_available = truthy (dget_or raw ''available'' (PBool True)),
                     ni_endpoints = endpoints, ni_attributes = attrs\<rparr>)))))
      | _ \<Rightarrow> Inl AttributeError)"

section \<open>Properties\<close>

lemma normalise_fold:
  "map_of (fold (\<lambda>(key, v) out. case parse_attr_key key of
       Inr path \<Rightarrow> AList.update path v out | Inl _ \<Rightarrow> out) raw d) path =
     (case find (\<lambda>(key, v). parse_attr_key key = Inr path) (rev raw) of
        Some (key, v) \<Rightarrow> Some v | None \<Rightarrow> map_of d path)"
proof (induction raw arbitrary: d rule: rev_induct)
  case (snoc p raw)
  obtain key v where p: "p = (key, v)" by (cases p)
  show ?case
    by (cases "parse_attr_key key") (auto simp: p snoc.IH update_conv')
qed simp

lemma add_cluster_lookup:
  "map_of (add_cluster (e, c, a) d) k =
     (if k = e then Some (insert c (case map_of d e of None \<Rightarrow> {} | Some s \<Rightarrow> s)) else map_of d k)"
  by (simp add: add_cluster_def update_conv')

lemma add_cluster_distinct: "distinct (map fst d) \<Longrightarrow> distinct (map fst (add_cluster p d))"
  by (cases p) (simp add: add_cluster_def distinct_update)

lemma fold_clusters:
  "distinct (map fst d) \<Longrightarrow> distinct (map fst (fold add_cluster ps d)) \<and>
     map_of (fold add_cluster ps d) e =
       (if \<exists>c a. (e, c, a) \<in> set ps
        then Some ({c. \<exists>a. (e, c, a) \<in> set ps} \<union> (case map_of d e of None \<Rightarrow> {} | Some s \<Rightarrow> s))
        else map_of d e)"
proof (induction ps arbitrary: d)
  case (Cons p ps)
  obtain e' c' a' where p: "p = (e', c', a')" by (cases p)
  note ih = Cons.IH [OF add_cluster_distinct [OF Cons.prems, of p]]
  have "fold add_cluster (p # ps) d = fold add_cluster ps (add_cluster p d)" by simp
  with ih show ?case
    by (cases "e = e'") (auto simp: p add_cluster_lookup)
qed simp

lemma clusters_by_endpoint_lookup:
  "distinct (map fst (clusters_by_endpoint attrs))"
  "map_of (clusters_by_endpoint attrs) e =
     (if \<exists>c a. (e, c, a) \<in> fst ` set attrs then Some {c. \<exists>a. (e, c, a) \<in> fst ` set attrs} else None)"
  using fold_clusters [of "[]" "map fst attrs" e] by (auto simp: clusters_by_endpoint_def)

lemma sort_key_strict:
  fixes d :: "(int \<times> 'a) list"
  assumes "distinct (map fst d)"
  shows "sorted_wrt (<) (map fst (sort_key fst d))"
proof -
  have "distinct (map fst (sort_key fst d))"
    using assms by (simp add: distinct_map)
  then show ?thesis by (simp add: strict_sorted_iff)
qed

lemma py_map_endpoints:
  "py_map (endpoint_of repr attrs) items = Inr es \<Longrightarrow>
     map ei_endpoint_id es = map fst items \<and> map ei_cluster_ids es = map snd items"
  by (induction items arbitrary: es) (auto simp: py_bind_Inr endpoint_of_def)

text \<open>The endpoints of a node that reads are listed once each in ascending order; they are
  exactly the endpoints some readable attribute path names, each with exactly the clusters
  those paths give it; and the snapshot holds for each path the value of the last key that
  reads as it, unreadable keys left out.\<close>

theorem parse_node_shape:
  assumes "parse_node repr raw name = Inr n" "dget raw ''attributes'' = PDict raw_attrs"
  shows "sorted_wrt (<) (map ei_endpoint_id (ni_endpoints n))
    \<and> (\<forall>e. e \<in> set (map ei_endpoint_id (ni_endpoints n)) \<longleftrightarrow>
           (\<exists>c a. map_of (ni_attributes n) (e, c, a) \<noteq> None))
    \<and> (\<forall>ep \<in> set (ni_endpoints n).
           ei_cluster_ids ep = {c. \<exists>a. map_of (ni_attributes n) (ei_endpoint_id ep, c, a) \<noteq> None})
    \<and> (\<forall>path. map_of (ni_attributes n) path =
           map_option snd (find (\<lambda>(key, v). parse_attr_key key = Inr path) (rev raw_attrs)))"
proof -
  let ?attrs = "normalise_attributes raw_attrs"
  let ?d = "clusters_by_endpoint ?attrs"
  have oe: "or_empty (PDict raw_attrs) = PDict raw_attrs" by (cases raw_attrs) (simp_all add: or_empty_def)
  from assms have attrs: "ni_attributes n = ?attrs"
    and eps: "py_map (endpoint_of repr ?attrs) (sort_key fst ?d) = Inr (ni_endpoints n)"
    by (auto simp: parse_node_def oe Let_def py_bind_Inr)
  note shape = py_map_endpoints [OF eps]
  have key: "map_of ?attrs path \<noteq> None \<longleftrightarrow> path \<in> fst ` set ?attrs" for path
    by (simp add: map_of_eq_None_iff)
  have mem: "e \<in> fst ` set ?d \<longleftrightarrow> (\<exists>c a. map_of ?attrs (e, c, a) \<noteq> None)" for e
  proof -
    have "e \<in> fst ` set ?d \<longleftrightarrow> map_of ?d e \<noteq> None" by (simp add: map_of_eq_None_iff)
    also have "\<dots> \<longleftrightarrow> (\<exists>c a. (e, c, a) \<in> fst ` set ?attrs)"
      by (simp add: clusters_by_endpoint_lookup(2))
    finally show ?thesis by (simp only: key)
  qed
  have clusters: "ei_cluster_ids ep = {c. \<exists>a. map_of ?attrs (ei_endpoint_id ep, c, a) \<noteq> None}"
    if ep: "ep \<in> set (ni_endpoints n)" for ep
  proof -
    obtain i where i: "i < length (ni_endpoints n)" "ep = ni_endpoints n ! i" using ep by (auto simp: in_set_conv_nth)
    have len: "length (ni_endpoints n) = length (sort_key fst ?d)" using shape by (metis length_map)
    have "(ei_endpoint_id ep, ei_cluster_ids ep) = sort_key fst ?d ! i"
      using shape i len by (metis nth_map prod.collapse)
    then have "(ei_endpoint_id ep, ei_cluster_ids ep) \<in> set ?d"
      using i len nth_mem [of i "sort_key fst ?d"] by simp
    then have "map_of ?d (ei_endpoint_id ep) = Some (ei_cluster_ids ep)"
      using clusters_by_endpoint_lookup(1) by (simp add: map_of_is_SomeI)
    then have "ei_cluster_ids ep = {c. \<exists>a. (ei_endpoint_id ep, c, a) \<in> fst ` set ?attrs}"
      unfolding clusters_by_endpoint_lookup(2) by (simp split: if_split_asm)
    then show ?thesis by (simp only: key)
  qed
  have "map_of ?attrs path = map_option snd (find (\<lambda>(key, v). parse_attr_key key = Inr path) (rev raw_attrs))" for path
    by (simp add: normalise_attributes_def normalise_fold split: option.split)
  moreover have "sorted_wrt (<) (map ei_endpoint_id (ni_endpoints n))"
    using shape sort_key_strict [OF clusters_by_endpoint_lookup(1)] by simp
  moreover have "set (map ei_endpoint_id (ni_endpoints n)) = fst ` set ?d" using shape by simp
  ultimately show ?thesis using attrs mem clusters by auto
qed

definition demo_node :: pydict where
  "demo_node = [(''node_id'', PInt 7), (''attributes'', PDict
     [(''1/6/0'', PBool True), (''0/40/2'', PInt 4447), (''bad'', PInt 1), (''1/8/0'', PInt 3)])]"

lemma parse_node_shape_witness:
  "\<exists>n. parse_node (\<lambda>_. []) demo_node [] = Inr n \<and> sorted_wrt (<) (map ei_endpoint_id (ni_endpoints n))"
proof -
  have "\<not> isl (parse_node (\<lambda>_. []) demo_node [])" by code_simp
  then obtain n where n: "parse_node (\<lambda>_. []) demo_node [] = Inr n"
    by (cases "parse_node (\<lambda>_. []) demo_node []") auto
  have "dget demo_node ''attributes'' = PDict [(''1/6/0'', PBool True), (''0/40/2'', PInt 4447),
      (''bad'', PInt 1), (''1/8/0'', PInt 3)]" by code_simp
  from parse_node_shape [OF n this] n show ?thesis by blast
qed

end
