(* ===== verification/HandlerBase.thy ===== *)
theory HandlerBase
  imports MatterModel PyFloat
begin

text \<open>
  \<open>matter_handlers/base.py\<close> and what the cluster handlers share: the description of an Indigo
  device to create, the handle of an existing one, the action Indigo asks for, the Matter command
  or attribute write it becomes, and the shape of a state update.

  A member of an Indigo enumeration that is stored in a state is its qualified name. Numbers of an
  action or of a device attribute are integers or floats, and arithmetic on them is Python's.
\<close>

named_theorems handler_defs \<open>definitions of the handlers, unfolded to evaluate\<close>

section \<open>Devices and actions\<close>

record indigo_spec =
  sp_device_type_id :: string
  sp_name :: string
  sp_props :: pydict
  sp_initial_states :: pydict

text \<open>A handle of an Indigo device; an attribute it may lack is \<open>None\<close>.\<close>

datatype pynum = NumI int | NumF pyfloat

record matter_dev =
  md_device_type_id :: "string option"
  md_name :: string
  md_plugin_props :: pydict
  md_states :: pydict
  md_brightness :: pynum
  md_on_state :: "pyval option"
  md_heat_setpoint :: pynum
  md_cool_setpoint :: pynum

datatype device_action = ActTurnOn | ActTurnOff | ActToggle | ActSetBrightness | ActBrightenBy | ActDimBy
  | ActSetColorLevels | ActLock | ActUnlock | ActOther

datatype thermostat_action = ThSetHeat | ThSetCool | ThIncreaseHeat | ThDecreaseHeat | ThIncreaseCool
  | ThDecreaseCool | ThSetHvacMode | ThSetFanMode | ThOther

record indigo_action =
  ia_device_action :: device_action
  ia_thermostat_action :: thermostat_action
  ia_value :: pynum
  ia_levels :: pydict
  ia_mode :: string

text \<open>What a handler answers to an action: the actions to send, or \<open>None\<close> (an exception is an
  \<open>Inl\<close>), and the states echoed to the device before that.\<close>

datatype matter_action = Invoke matter_command | WriteAttr matter_write

type_synonym acted = "matter_action list option py_result \<times> pydict option"

definition answer :: "matter_action \<Rightarrow> acted" where
  "answer a = (Inr (Some [a]), None)"

definition no_action :: acted where
  "no_action = (Inr None, None)"

definition acted_bind :: "'a py_result \<Rightarrow> ('a \<Rightarrow> acted) \<Rightarrow> acted" where
  "acted_bind r f = (case r of Inl e \<Rightarrow> (Inl e, None) | Inr x \<Rightarrow> f x)"

lemma acted_bind_simps [simp]: "acted_bind (Inl e) f = (Inl e, None)" "acted_bind (Inr x) f = f x"
  by (simp_all add: acted_bind_def)

section \<open>Identity properties\<close>

definition dict_over :: "pydict \<Rightarrow> pydict \<Rightarrow> pydict" where
  "dict_over d e = fold (\<lambda>(k, v). AList.update k v) e d"

lemma map_of_dict_over: "map_of (dict_over d e) k = (case map_of (rev e) k of None \<Rightarrow> map_of d k | Some v \<Rightarrow> Some v)"
proof (induction e rule: rev_induct)
  case (snoc p e)
  then show ?case by (cases p) (simp add: dict_over_def update_conv')
qed (simp add: dict_over_def)

definition base_props :: "node_info \<Rightarrow> endpoint_info \<Rightarrow> pydict" where
  [handler_defs]: "base_props node endpoint =
     [(''nodeId'', PStr (str_of_int (ni_node_id node))),
      (''endpointId'', PStr (str_of_int (ei_endpoint_id endpoint))),
      (''vendorName'', PStr (ni_vendor_name node)),
      (''productName'', PStr (ni_product_name node))]"

definition node_endpoint :: "matter_dev \<Rightarrow> (int \<times> int) py_result" where
  "node_endpoint dev =
     py_bind (py_bind (py_item (PDict (md_plugin_props dev)) ''nodeId'') py_int) (\<lambda>n.
     py_bind (py_bind (py_item (PDict (md_plugin_props dev)) ''endpointId'') py_int) (\<lambda>e. Inr (n, e)))"

text \<open>The name of a new device, and a device with the identity and further properties.\<close>

definition device_name :: "string \<Rightarrow> node_info \<Rightarrow> string" where
  "device_name pre node =
     (if ni_suggested_name node \<noteq> [] then ni_suggested_name node
      else if ni_product_name node \<noteq> [] then ni_product_name node
      else pre @ str_of_int (ni_node_id node))"

definition new_device :: "string \<Rightarrow> node_info \<Rightarrow> endpoint_info \<Rightarrow> pydict \<Rightarrow> pydict \<Rightarrow> indigo_spec" where
  "new_device type_id node endpoint props states =
     \<lparr>sp_device_type_id = type_id, sp_name = device_name ''Matter '' node,
      sp_props = dict_over (base_props node endpoint) props, sp_initial_states = states\<rparr>"

definition ENDPOINT_OWNER_CLUSTERS :: "int list" where
  "ENDPOINT_OWNER_CLUSTERS = [129, 257, 258, 513, 514]"

definition has_owner :: "endpoint_info \<Rightarrow> bool" where
  "has_owner endpoint = list_ex (ei_has endpoint) ENDPOINT_OWNER_CLUSTERS"

definition CLUSTER_ELECTRICAL_POWER :: int where "CLUSTER_ELECTRICAL_POWER = 144"
definition CLUSTER_ELECTRICAL_ENERGY :: int where "CLUSTER_ELECTRICAL_ENERGY = 145"

definition meter_props :: "endpoint_info \<Rightarrow> pydict" where
  "meter_props endpoint =
     (if ei_has endpoint CLUSTER_ELECTRICAL_POWER then [(''SupportsPowerMeter'', PBool True)] else []) @
     (if ei_has endpoint CLUSTER_ELECTRICAL_ENERGY then [(''SupportsEnergyMeter'', PBool True)] else [])"

section \<open>State updates\<close>

record kv_entry =
  kv_key :: string
  kv_value :: pyval
  kv_format :: "(nat \<times> string) option"

definition plain_kv :: "pydict \<Rightarrow> kv_entry list" where
  "plain_kv states = map (\<lambda>(k, v). \<lparr>kv_key = k, kv_value = v, kv_format = None\<rparr>) states"

definition has_state :: "matter_dev \<Rightarrow> string \<Rightarrow> bool" where
  "has_state dev key = (key \<in> fst ` set (md_states dev))"

text \<open>A reading that is written only to a device that has the state for it.\<close>

definition guarded :: "matter_dev \<Rightarrow> string \<Rightarrow> pydict py_result \<Rightarrow> pydict py_result" where
  "guarded dev key r = (if has_state dev key then r else Inr [])"

text \<open>An \<open>int\<close> or \<open>float\<close> conversion behind an \<open>except (TypeError, ValueError)\<close>.\<close>

definition tolerant :: "'a py_result \<Rightarrow> 'a option py_result" where
  "tolerant r = (case r of Inr x \<Rightarrow> Inr (Some x)
     | Inl e \<Rightarrow> if e = TypeError \<or> e = ValueError then Inr None else Inl e)"

section \<open>Numbers\<close>

text \<open>\<open>a / b\<close> of two integers.\<close>

definition true_div :: "int \<Rightarrow> int \<Rightarrow> rat py_result" where
  "true_div a b = (case to_double (of_int a / of_int b) of Fin x \<Rightarrow> Inr x | _ \<Rightarrow> Inl OverflowError)"

definition num_float :: "pynum \<Rightarrow> pyfloat py_result" where
  "num_float x = (case x of NumI n \<Rightarrow> py_bind (float_of_int n) (\<lambda>r. Inr (Fin r)) | NumF f \<Rightarrow> Inr f)"

definition num_add :: "pynum \<Rightarrow> pynum \<Rightarrow> pynum py_result" where
  "num_add x y = (case (x, y) of
       (NumI a, NumI b) \<Rightarrow> Inr (NumI (a + b))
     | _ \<Rightarrow> py_bind (num_float x) (\<lambda>f. py_bind (num_float y) (\<lambda>g. Inr (NumF (flt_add f g)))))"

definition num_neg :: "pynum \<Rightarrow> pynum" where
  "num_neg x = (case x of NumI n \<Rightarrow> NumI (- n) | NumF f \<Rightarrow> NumF (flt_neg f))"

text \<open>\<open>min(x, n)\<close> and \<open>max(x, n)\<close> with an integer.\<close>

definition num_less :: "pynum \<Rightarrow> pynum \<Rightarrow> bool" where
  "num_less x y = (case (x, y) of
       (NumI a, NumI b) \<Rightarrow> a < b
     | (NumI a, NumF g) \<Rightarrow> flt_less (Fin (of_int a)) g
     | (NumF f, NumI b) \<Rightarrow> flt_less f (Fin (of_int b))
     | (NumF f, NumF g) \<Rightarrow> flt_less f g)"

definition num_min :: "pynum \<Rightarrow> int \<Rightarrow> pynum" where
  "num_min x n = (if num_less (NumI n) x then NumI n else x)"

definition num_max :: "pynum \<Rightarrow> int \<Rightarrow> pynum" where
  "num_max x n = (if num_less x (NumI n) then NumI n else x)"

text \<open>\<open>int(x)\<close>.\<close>

definition num_int :: "pynum \<Rightarrow> int py_result" where
  "num_int x = (case x of NumI n \<Rightarrow> Inr n | NumF f \<Rightarrow> py_int (PFloat f))"

definition brighten :: "matter_dev \<Rightarrow> indigo_action \<Rightarrow> pynum py_result" where
  "brighten dev action = py_bind (num_add (md_brightness dev) (ia_value action)) (\<lambda>x. Inr (num_min x 100))"

definition dim :: "matter_dev \<Rightarrow> indigo_action \<Rightarrow> pynum py_result" where
  "dim dev action = py_bind (num_add (md_brightness dev) (num_neg (ia_value action))) (\<lambda>x. Inr (num_max x 0))"

text \<open>\<open>value or 0\<close>.\<close>

definition or_zero :: "pyval \<Rightarrow> pyval" where
  "or_zero v = (if truthy v then v else PInt 0)"

section \<open>Identity round trip\<close>

text \<open>A device created with the base properties answers \<open>node_endpoint\<close> with the node and the
  endpoint it was created for, whatever properties outside the identity are added.\<close>

theorem identity_roundtrip:
  assumes "md_plugin_props dev = dict_over (base_props node endpoint) props"
    and "''nodeId'' \<notin> fst ` set props" and "''endpointId'' \<notin> fst ` set props"
  shows "node_endpoint dev = Inr (ni_node_id node, ei_endpoint_id endpoint)"
proof -
  have "map_of (rev props) ''nodeId'' = None" "map_of (rev props) ''endpointId'' = None"
    using assms(2,3) by (simp_all add: map_of_eq_None_iff)
  then have "map_of (md_plugin_props dev) ''nodeId'' = Some (PStr (str_of_int (ni_node_id node)))"
    "map_of (md_plugin_props dev) ''endpointId'' = Some (PStr (str_of_int (ei_endpoint_id endpoint)))"
    unfolding assms(1) by (simp_all add: map_of_dict_over base_props_def)
  then show ?thesis by (simp add: node_endpoint_def int_of_text_str)
qed

end
