(* ===== verification/HandlerLights.thy ===== *)
theory HandlerLights
  imports HandlerBase
begin

text \<open>
  The lighting handlers: \<open>matter_handlers/on_off.py\<close>, \<open>level_control.py\<close> and \<open>color_control.py\<close>.

  Floats are rounded after every operation. The power function of the platform's C library, which
  the sRGB gamma uses, is the parameter \<open>pow\<close>. Channel levels that are read from the states of a
  device are finite numbers; with another one \<open>ValueError\<close> stands for what the interpreter raises.
\<close>

section \<open>On and off\<close>

definition CLUSTER_ON_OFF :: int where "CLUSTER_ON_OFF = 6"
definition CLUSTER_LEVEL_CONTROL :: int where "CLUSTER_LEVEL_CONTROL = 8"
definition CLUSTER_COLOR_CONTROL :: int where "CLUSTER_COLOR_CONTROL = 768"
definition ATTR_START_UP_ON_OFF :: int where "ATTR_START_UP_ON_OFF = 16387"

definition on_off_primary :: "endpoint_info \<Rightarrow> bool" where
  "on_off_primary endpoint =
     (if ei_has endpoint CLUSTER_LEVEL_CONTROL \<or> ei_has endpoint CLUSTER_COLOR_CONTROL then False
      else \<not> has_owner endpoint)"

definition on_off_create :: "node_info \<Rightarrow> endpoint_info \<Rightarrow> indigo_spec list" where
  "on_off_create node endpoint =
     (if \<not> on_off_primary endpoint then []
      else [new_device ''matterRelay'' node endpoint (meter_props endpoint) [(''onOffState'', PBool False)]])"

definition on_off_update :: "matter_dev \<Rightarrow> int \<Rightarrow> pyval \<Rightarrow> pydict py_result" where
  "on_off_update dev attribute v =
     (if attribute = 0 then Inr [(''onOffState'', PBool (truthy v))]
      else if attribute \<noteq> ATTR_START_UP_ON_OFF \<or> v = PNone then Inr []
      else py_bind (tolerant (py_int v)) (\<lambda>number. case number of
             None \<Rightarrow> Inr []
           | Some n \<Rightarrow> guarded dev ''startUpOnOff'' (Inr [(''startUpOnOff'', PInt n)])))"

definition on_off_command :: "int \<Rightarrow> int \<Rightarrow> string \<Rightarrow> matter_action" where
  "on_off_command node_id endpoint_id command =
     Invoke \<lparr>mc_node_id = node_id, mc_endpoint = endpoint_id, mc_cluster = CLUSTER_ON_OFF,
             mc_command = command, mc_args = []\<rparr>"

definition on_off_action :: "matter_dev \<Rightarrow> indigo_action \<Rightarrow> acted" where
  "on_off_action dev action = acted_bind (node_endpoint dev) (\<lambda>(n, e).
     case ia_device_action action of
       ActTurnOn \<Rightarrow> answer (on_off_command n e ''On'')
     | ActTurnOff \<Rightarrow> answer (on_off_command n e ''Off'')
     | ActToggle \<Rightarrow> answer (on_off_command n e ''Toggle'')
     | _ \<Rightarrow> no_action)"

section \<open>Levels\<close>

definition level_to_pct :: "int \<Rightarrow> int py_result" where
  "level_to_pct level = py_bind (true_div (level * 100) 254) (\<lambda>x. Inr (clamp (round_rat x) 0 100))"

definition pct_to_level :: "pynum \<Rightarrow> int py_result" where
  "pct_to_level pct =
     py_bind (case pct of
                NumI n \<Rightarrow> py_bind (true_div (n * 254) 100) (\<lambda>x. Inr (round_rat x))
              | NumF f \<Rightarrow> round_float (flt_scale (1 / 100) (flt_scale 254 f)))
       (\<lambda>level. Inr (clamp level 0 254))"

definition level_primary :: "endpoint_info \<Rightarrow> bool" where
  "level_primary endpoint = (if ei_has endpoint CLUSTER_COLOR_CONTROL then False else \<not> has_owner endpoint)"

definition level_create :: "node_info \<Rightarrow> endpoint_info \<Rightarrow> indigo_spec list" where
  "level_create node endpoint =
     (if \<not> level_primary endpoint then []
      else [new_device ''matterDimmer'' node endpoint (meter_props endpoint)
              [(''onOffState'', PBool False), (''brightnessLevel'', PInt 0)]])"

definition level_update :: "matter_dev \<Rightarrow> int \<Rightarrow> pyval \<Rightarrow> pydict py_result" where
  "level_update dev attribute v =
     (if attribute = 0 \<and> v \<noteq> PNone
      then py_bind (py_int v) (\<lambda>n. py_bind (level_to_pct n) (\<lambda>pct. Inr [(''brightnessLevel'', PInt pct)]))
      else Inr [])"

definition level_command :: "int \<Rightarrow> int \<Rightarrow> int \<Rightarrow> matter_action" where
  "level_command node_id endpoint_id level =
     Invoke \<lparr>mc_node_id = node_id, mc_endpoint = endpoint_id, mc_cluster = CLUSTER_LEVEL_CONTROL,
             mc_command = ''MoveToLevelWithOnOff'',
             mc_args = [(''level'', PInt level), (''transitionTime'', PInt 0),
                        (''optionsMask'', PInt 0), (''optionsOverride'', PInt 0)]\<rparr>"

definition set_level :: "int \<Rightarrow> int \<Rightarrow> pynum \<Rightarrow> acted" where
  "set_level node_id endpoint_id pct =
     acted_bind (pct_to_level pct) (\<lambda>level. answer (level_command node_id endpoint_id level))"

definition level_action :: "matter_dev \<Rightarrow> indigo_action \<Rightarrow> acted" where
  "level_action dev action = acted_bind (node_endpoint dev) (\<lambda>(n, e).
     case ia_device_action action of
       ActTurnOn \<Rightarrow> answer (on_off_command n e ''On'')
     | ActTurnOff \<Rightarrow> answer (on_off_command n e ''Off'')
     | ActToggle \<Rightarrow> answer (on_off_command n e ''Toggle'')
     | ActSetBrightness \<Rightarrow> set_level n e (ia_value action)
     | ActBrightenBy \<Rightarrow> acted_bind (brighten dev action) (set_level n e)
     | ActDimBy \<Rightarrow> acted_bind (dim dev action) (set_level n e)
     | _ \<Rightarrow> no_action)"

section \<open>Colour spaces\<close>

text \<open>\<open>colorsys\<close>, with the rounding of every operation; \<open>h % 1.0\<close> of a double is its fraction,
  rounded.\<close>

definition rgb_to_hsv :: "rat \<Rightarrow> rat \<Rightarrow> rat \<Rightarrow> (rat \<times> rat \<times> rat) py_result" where
  "rgb_to_hsv r g b =
     (let maxc = max r (max g b); minc = min r (min g b); range = fsub maxc minc
      in if minc = maxc then Inr (0, 0, maxc)
         else if maxc = 0 then Inl (OtherException ''ZeroDivisionError'')
         else (let s = fdiv range maxc;
                   rc = fdiv (fsub maxc r) range; gc = fdiv (fsub maxc g) range; bc = fdiv (fsub maxc b) range;
                   h = (if r = maxc then fsub bc gc else if g = maxc then fsub (fadd 2 rc) bc
                        else fsub (fadd 4 gc) rc)
               in Inr (fl (frac_part (fdiv h 6)), s, maxc)))"

definition hsv_to_rgb :: "rat \<Rightarrow> rat \<Rightarrow> rat \<Rightarrow> rat \<times> rat \<times> rat" where
  "hsv_to_rgb h s v =
     (if s = 0 then (v, v, v)
      else (let i = rat_trunc (fmul h 6); f = fsub (fmul h 6) (of_int i);
                p = fmul v (fsub 1 s); q = fmul v (fsub 1 (fmul s f));
                t = fmul v (fsub 1 (fmul s (fsub 1 f))); k = i mod 6
            in if k = 0 then (v, t, p) else if k = 1 then (q, v, p) else if k = 2 then (p, v, t)
               else if k = 3 then (p, q, v) else if k = 4 then (t, p, v) else (v, p, q)))"

definition rgb_to_matter_hs :: "rat \<Rightarrow> rat \<Rightarrow> rat \<Rightarrow> (int \<times> int) py_result" where
  "rgb_to_matter_hs red green blue =
     py_bind (rgb_to_hsv (fdiv red 100) (fdiv green 100) (fdiv blue 100)) (\<lambda>(hue, sat, _).
       Inr (round_rat (fmul hue 254), round_rat (fmul sat 254)))"

definition XY_SCALE :: int where "XY_SCALE = 65536"
definition XY_MAX :: int where "XY_MAX = 65279"

definition unit_clamp :: "rat \<Rightarrow> rat" where
  "unit_clamp x = max 0 (min 1 x)"

definition linearise :: "(rat \<Rightarrow> rat \<Rightarrow> rat) \<Rightarrow> rat \<Rightarrow> rat" where
  "linearise pow channel =
     (let c = unit_clamp (fdiv channel 100)
      in if c \<le> fl (4045 / 100000) then fdiv c (fl (1292 / 100))
         else pow (fdiv (fadd c (fl (55 / 1000))) (fl (1055 / 1000))) (fl (24 / 10)))"

definition weighted :: "rat \<Rightarrow> rat \<Rightarrow> rat \<Rightarrow> rat \<Rightarrow> rat \<Rightarrow> rat \<Rightarrow> rat" where
  "weighted a b c x y z = fadd (fadd (fmul (fl a) x) (fmul (fl b) y)) (fmul (fl c) z)"

definition rgb_to_matter_xy :: "(rat \<Rightarrow> rat \<Rightarrow> rat) \<Rightarrow> rat \<Rightarrow> rat \<Rightarrow> rat \<Rightarrow> int \<times> int" where
  "rgb_to_matter_xy pow red green blue =
     (let r = linearise pow red; g = linearise pow green; b = linearise pow blue;
          big_x = weighted (4124 / 10000) (3576 / 10000) (1805 / 10000) r g b;
          big_y = weighted (2126 / 10000) (7152 / 10000) (722 / 10000) r g b;
          big_z = weighted (193 / 10000) (1192 / 10000) (9505 / 10000) r g b;
          total = fadd (fadd big_x big_y) big_z;
          (x, y) = (if total \<le> 0 then (fl (3127 / 10000), fl (3290 / 10000))
                    else (fdiv big_x total, fdiv big_y total))
      in (min XY_MAX (round_rat (fmul x 65536)), min XY_MAX (round_rat (fmul y 65536))))"

definition delinearise :: "(rat \<Rightarrow> rat \<Rightarrow> rat) \<Rightarrow> rat \<Rightarrow> rat" where
  "delinearise pow c0 =
     (let c = unit_clamp c0
      in if c \<le> fl (31308 / 10000000) then fmul c (fl (1292 / 100))
         else fsub (fmul (fl (1055 / 1000)) (pow c (fdiv 1 (fl (24 / 10))))) (fl (55 / 1000)))"

definition matter_xy_to_rgb :: "(rat \<Rightarrow> rat \<Rightarrow> rat) \<Rightarrow> rat \<Rightarrow> rat \<Rightarrow> rat \<Rightarrow> int \<times> int \<times> int" where
  "matter_xy_to_rgb pow raw_x raw_y brightness0 =
     (let x = max (fl (1 / 1000000)) (fdiv raw_x 65536); y = max (fl (1 / 1000000)) (fdiv raw_y 65536);
          big_x = fmul (fdiv x y) 1; big_z = fmul (fdiv (fsub (fsub 1 x) y) y) 1;
          r0 = fsub (fsub (fmul (fl (32406 / 10000)) big_x) (fmul (fl (15372 / 10000)) 1))
                    (fmul (fl (4986 / 10000)) big_z);
          g0 = fadd (fadd (fmul (fl (- 9689 / 10000)) big_x) (fmul (fl (18758 / 10000)) 1))
                    (fmul (fl (415 / 10000)) big_z);
          b0 = fadd (fsub (fmul (fl (557 / 10000)) big_x) (fmul (fl (2040 / 10000)) 1))
                    (fmul (fl (10570 / 10000)) big_z);
          peak = max r0 (max g0 b0);
          scaled = (\<lambda>c. if 0 < peak then fdiv c peak else c);
          brightness = unit_clamp brightness0;
          level = (\<lambda>c. round_rat (fmul (fmul (delinearise pow (scaled c)) 100) brightness))
      in (level r0, level g0, level b0))"

section \<open>Colour\<close>

definition CAP_HUE_SATURATION :: int where "CAP_HUE_SATURATION = 1"
definition CAP_XY :: int where "CAP_XY = 8"

definition ATTR_CURRENT_HUE :: int where "ATTR_CURRENT_HUE = 0"
definition ATTR_CURRENT_SATURATION :: int where "ATTR_CURRENT_SATURATION = 1"
definition ATTR_CURRENT_X :: int where "ATTR_CURRENT_X = 3"
definition ATTR_CURRENT_Y :: int where "ATTR_CURRENT_Y = 4"
definition ATTR_COLOR_TEMP_MIREDS :: int where "ATTR_COLOR_TEMP_MIREDS = 7"
definition ATTR_COLOR_CAPABILITIES :: int where "ATTR_COLOR_CAPABILITIES = 16394"

definition color_props :: pydict where
  "color_props =
     [(''SupportsColor'', PBool True), (''SupportsRGB'', PBool True), (''SupportsWhite'', PBool True),
      (''SupportsWhiteTemperature'', PBool True), (''SupportsRGBandWhiteSimultaneously'', PBool False),
      (''WhiteTemperatureMin'', PInt 2000), (''WhiteTemperatureMax'', PInt 6500)]"

definition color_create :: "node_info \<Rightarrow> endpoint_info \<Rightarrow> indigo_spec list" where
  "color_create node endpoint =
     [new_device ''matterColorDimmer'' node endpoint (dict_over color_props (meter_props endpoint))
        [(''onOffState'', PBool False), (''brightnessLevel'', PInt 0)]]"

text \<open>\<open>float(states.get(key, alt) or alt)\<close>.\<close>

definition level_state_of :: "matter_dev \<Rightarrow> string \<Rightarrow> int \<Rightarrow> rat py_result" where
  "level_state_of dev key alt =
     (let v = dget_or (md_states dev) key (PInt alt)
      in py_bind (py_float (if truthy v then v else PInt alt))
           (\<lambda>f. case f of Fin x \<Rightarrow> Inr x | _ \<Rightarrow> Inl ValueError))"

definition raw_axis :: "matter_dev \<Rightarrow> string \<Rightarrow> int py_result" where
  "raw_axis dev key = py_int (or_zero (dget_or (md_states dev) key (PInt 0)))"

definition rgb_levels :: "int \<times> int \<times> int \<Rightarrow> pydict" where
  "rgb_levels c = (case c of (r, g, b) \<Rightarrow>
     [(''redLevel'', PInt r), (''greenLevel'', PInt g), (''blueLevel'', PInt b)])"

definition xy_update :: "(rat \<Rightarrow> rat \<Rightarrow> rat) \<Rightarrow> matter_dev \<Rightarrow> int \<Rightarrow> pyval \<Rightarrow> pydict py_result" where
  "xy_update pow dev attribute v =
     (if \<not> has_state dev ''colorX'' \<or> \<not> has_state dev ''colorY'' then Inr []
      else py_bind (if attribute = ATTR_CURRENT_X then py_int v else raw_axis dev ''colorX'') (\<lambda>raw_x.
           py_bind (if attribute = ATTR_CURRENT_Y then py_int v else raw_axis dev ''colorY'') (\<lambda>raw_y.
             (let updates = [(''colorX'', PInt raw_x), (''colorY'', PInt raw_y)]
              in if raw_x \<noteq> 0 \<and> raw_y \<noteq> 0
                 then py_bind (level_state_of dev ''brightnessLevel'' 100) (\<lambda>level.
                      py_bind (float_of_int raw_x) (\<lambda>x. py_bind (float_of_int raw_y) (\<lambda>y.
                        Inr (updates @ rgb_levels (matter_xy_to_rgb pow x y (fdiv level 100))))))
                 else Inr updates))))"

definition hue_sat_update :: "matter_dev \<Rightarrow> int \<Rightarrow> pyval \<Rightarrow> pydict py_result" where
  "hue_sat_update dev attribute v =
     py_bind (level_state_of dev ''redLevel'' 0) (\<lambda>red.
     py_bind (level_state_of dev ''greenLevel'' 0) (\<lambda>green.
     py_bind (level_state_of dev ''blueLevel'' 0) (\<lambda>blue.
     py_bind (rgb_to_hsv (fdiv red 100) (fdiv green 100) (fdiv blue 100)) (\<lambda>(hue, sat, val).
     py_bind (py_int v) (\<lambda>n. py_bind (float_of_int n) (\<lambda>x.
       (let hue' = (if attribute = ATTR_CURRENT_HUE then fdiv x 254 else hue);
            sat' = (if attribute = ATTR_CURRENT_HUE then sat else fdiv x 254);
            (r, g, b) = hsv_to_rgb hue' sat' (if 0 < val then val else 1)
        in Inr (rgb_levels (round_rat (fmul r 100), round_rat (fmul g 100), round_rat (fmul b 100))))))))))"

definition mireds_in_kelvin :: "int \<Rightarrow> int py_result" where
  "mireds_in_kelvin mireds =
     (if mireds = 0 then Inr 0 else py_bind (true_div 1000000 mireds) (\<lambda>x. Inr (round_rat x)))"

definition color_update :: "(rat \<Rightarrow> rat \<Rightarrow> rat) \<Rightarrow> matter_dev \<Rightarrow> int \<Rightarrow> pyval \<Rightarrow> pydict py_result" where
  "color_update pow dev attribute v =
     (if v = PNone then Inr []
      else if attribute = ATTR_COLOR_TEMP_MIREDS then
        guarded dev ''whiteTemperature''
          (py_bind (py_int v) (\<lambda>n. py_bind (mireds_in_kelvin n) (\<lambda>k. Inr [(''whiteTemperature'', PInt k)])))
      else if attribute = ATTR_COLOR_CAPABILITIES then
        guarded dev ''colorCapabilities'' (py_bind (py_int v) (\<lambda>n. Inr [(''colorCapabilities'', PInt n)]))
      else if attribute = ATTR_CURRENT_X \<or> attribute = ATTR_CURRENT_Y then xy_update pow dev attribute v
      else if attribute \<noteq> ATTR_CURRENT_HUE \<and> attribute \<noteq> ATTR_CURRENT_SATURATION then Inr []
      else hue_sat_update dev attribute v)"

section \<open>Setting a colour\<close>

definition color_command :: "int \<Rightarrow> int \<Rightarrow> string \<Rightarrow> pydict \<Rightarrow> matter_action" where
  "color_command node_id endpoint_id command args =
     Invoke \<lparr>mc_node_id = node_id, mc_endpoint = endpoint_id, mc_cluster = CLUSTER_COLOR_CONTROL,
             mc_command = command,
             mc_args = args @ [(''transitionTime'', PInt 0), (''optionsMask'', PInt 0),
                               (''optionsOverride'', PInt 0)]\<rparr>"

text \<open>\<open>kelvin_to_mireds\<close> of a float.\<close>

definition kelvin_in_mireds :: "pyfloat \<Rightarrow> int py_result" where
  "kelvin_in_mireds kelvin = (case kelvin of
       Fin k \<Rightarrow> if k = 0 then Inr 0 else round_float (to_double (1000000 / k))
     | NaN \<Rightarrow> Inl ValueError
     | _ \<Rightarrow> Inr 0)"

definition ct_command :: "int \<Rightarrow> int \<Rightarrow> pyfloat \<Rightarrow> matter_action py_result" where
  "ct_command node_id endpoint_id kelvin = py_bind (kelvin_in_mireds kelvin) (\<lambda>m.
     Inr (color_command node_id endpoint_id ''MoveToColorTemperature'' [(''colorTemperatureMireds'', PInt m)]))"

text \<open>Whether any of the three channels is asked for: the first that is ends the scan.\<close>

fun any_positive :: "pydict \<Rightarrow> string list \<Rightarrow> bool py_result" where
  "any_positive levels [] = Inr False"
| "any_positive levels (key # keys) =
     py_bind (py_float (or_zero (dget_or levels key (PInt 0)))) (\<lambda>f.
       if flt_less (Fin 0) f then Inr True else any_positive levels keys)"

definition finite_level :: "pyval \<Rightarrow> rat py_result" where
  "finite_level v = py_bind (py_float (or_zero v)) (\<lambda>f. case f of Fin x \<Rightarrow> Inr x | _ \<Rightarrow> Inl ValueError)"

definition asked_level :: "matter_dev \<Rightarrow> pydict \<Rightarrow> string \<Rightarrow> rat py_result" where
  "asked_level dev levels key = finite_level (dget_or levels key (dget_or (md_states dev) key (PInt 0)))"

definition white_mode :: "matter_dev \<Rightarrow> int \<Rightarrow> int \<Rightarrow> pyval \<Rightarrow> pyval \<Rightarrow> acted" where
  "white_mode dev n e white_temp white_level =
     acted_bind (py_float (if truthy white_temp then white_temp
                  else (let t = dget_or (md_states dev) ''whiteTemperature'' (PInt 0)
                        in if truthy t then t else PInt 2700))) (\<lambda>kelvin.
     acted_bind (ct_command n e kelvin) (\<lambda>ct.
       let dark = rgb_levels (0, 0, 0)
       in if white_level = PNone then (Inr (Some [ct]), Some dark)
          else acted_bind (py_float white_level) (\<lambda>w. acted_bind (pct_to_level (NumF w)) (\<lambda>level.
               acted_bind (round_float w) (\<lambda>shown.
                 (Inr (Some [ct, level_command n e level]), Some (dark @ [(''whiteLevel'', PInt shown)])))))))"

definition rgb_mode :: "(rat \<Rightarrow> rat \<Rightarrow> rat) \<Rightarrow> matter_dev \<Rightarrow> int \<Rightarrow> int \<Rightarrow> pydict \<Rightarrow> acted" where
  "rgb_mode pow dev n e levels =
     acted_bind (asked_level dev levels ''redLevel'') (\<lambda>red.
     acted_bind (asked_level dev levels ''greenLevel'') (\<lambda>green.
     acted_bind (asked_level dev levels ''blueLevel'') (\<lambda>blue.
       (py_bind (raw_axis dev ''colorCapabilities'') (\<lambda>caps.
          if caps \<noteq> 0 \<and> and caps CAP_HUE_SATURATION = 0 \<and> and caps CAP_XY \<noteq> 0
          then (let (x, y) = rgb_to_matter_xy pow red green blue
                in Inr (Some [color_command n e ''MoveToColor'' [(''colorX'', PInt x), (''colorY'', PInt y)]]))
          else py_bind (rgb_to_matter_hs red green blue) (\<lambda>(hue, sat).
                Inr (Some [color_command n e ''MoveToHueAndSaturation''
                             [(''hue'', PInt hue), (''saturation'', PInt sat)]]))),
        Some [(''whiteLevel'', PInt 0)]))))"

definition set_color :: "(rat \<Rightarrow> rat \<Rightarrow> rat) \<Rightarrow> matter_dev \<Rightarrow> pydict \<Rightarrow> acted" where
  "set_color pow dev levels = acted_bind (node_endpoint dev) (\<lambda>(n, e).
     let white_temp = dget levels ''whiteTemperature''; white_level = dget levels ''whiteLevel''
     in acted_bind (any_positive levels [''redLevel'', ''greenLevel'', ''blueLevel'']) (\<lambda>rgb_requested.
          if (truthy white_temp \<or> white_level \<noteq> PNone) \<and> \<not> rgb_requested
          then white_mode dev n e white_temp white_level
          else if truthy white_temp
          then acted_bind (py_float white_temp) (\<lambda>k. acted_bind (ct_command n e k) answer)
          else rgb_mode pow dev n e levels))"

definition color_action :: "(rat \<Rightarrow> rat \<Rightarrow> rat) \<Rightarrow> matter_dev \<Rightarrow> indigo_action \<Rightarrow> acted" where
  "color_action pow dev action =
     (if ia_device_action action = ActSetColorLevels then set_color pow dev (ia_levels action)
      else level_action dev action)"

end
