(* ===== verification/HandlerActuators.thy ===== *)
theory HandlerActuators
  imports HandlerBase
begin

text \<open>
  The handlers of the clusters that own their endpoint: \<open>matter_handlers/window_covering.py\<close>,
  \<open>door_lock.py\<close>, \<open>valve.py\<close> and \<open>thermostat.py\<close> (with the fan control that merges into a
  thermostat or stands alone).
\<close>

section \<open>Window coverings\<close>

definition CLUSTER_WINDOW_COVERING :: int where "CLUSTER_WINDOW_COVERING = 258"
definition ATTR_CURRENT_LIFT_PERCENT100THS :: int where "ATTR_CURRENT_LIFT_PERCENT100THS = 14"

definition lift_pct100ths_to_brightness :: "pyval \<Rightarrow> int py_result" where
  "lift_pct100ths_to_brightness v =
     py_bind (py_int v) (\<lambda>n. py_bind (true_div n 100) (\<lambda>x. Inr (max 0 (min 100 (100 - round_rat x)))))"

definition brightness_to_lift_pct100ths :: "pynum \<Rightarrow> int py_result" where
  "brightness_to_lift_pct100ths brightness = py_bind (num_int brightness) (\<lambda>n. Inr ((100 - n) * 100))"

definition covering_create :: "node_info \<Rightarrow> endpoint_info \<Rightarrow> indigo_spec list" where
  "covering_create node endpoint = [new_device ''matterWindowCovering'' node endpoint [] []]"

definition covering_update :: "matter_dev \<Rightarrow> int \<Rightarrow> pyval \<Rightarrow> pydict py_result" where
  "covering_update dev attribute v =
     (if attribute = ATTR_CURRENT_LIFT_PERCENT100THS
      then if v = PNone then Inr []
           else py_bind (lift_pct100ths_to_brightness v) (\<lambda>b.
                  Inr [(''brightnessLevel'', PInt b), (''onOffState'', PBool (0 < b))])
      else Inr [])"

definition covering_command :: "int \<Rightarrow> int \<Rightarrow> string \<Rightarrow> pydict \<Rightarrow> matter_action" where
  "covering_command node_id endpoint_id command args =
     Invoke \<lparr>mc_node_id = node_id, mc_endpoint = endpoint_id, mc_cluster = CLUSTER_WINDOW_COVERING,
             mc_command = command, mc_args = args\<rparr>"

definition go_to_lift :: "int \<Rightarrow> int \<Rightarrow> pynum \<Rightarrow> acted" where
  "go_to_lift node_id endpoint_id brightness =
     acted_bind (brightness_to_lift_pct100ths brightness) (\<lambda>lift.
       answer (covering_command node_id endpoint_id ''GoToLiftPercentage''
                 [(''liftPercent100thsValue'', PInt lift)]))"

definition covering_action :: "matter_dev \<Rightarrow> indigo_action \<Rightarrow> acted" where
  "covering_action dev action = acted_bind (node_endpoint dev) (\<lambda>(n, e).
     case ia_device_action action of
       ActTurnOn \<Rightarrow> answer (covering_command n e ''UpOrOpen'' [])
     | ActTurnOff \<Rightarrow> answer (covering_command n e ''DownOrClose'' [])
     | ActSetBrightness \<Rightarrow> go_to_lift n e (ia_value action)
     | ActBrightenBy \<Rightarrow> acted_bind (brighten dev action) (go_to_lift n e)
     | ActDimBy \<Rightarrow> acted_bind (dim dev action) (go_to_lift n e)
     | _ \<Rightarrow> no_action)"

section \<open>Locks\<close>

definition CLUSTER_DOOR_LOCK :: int where "CLUSTER_DOOR_LOCK = 257"

definition lock_create :: "node_info \<Rightarrow> endpoint_info \<Rightarrow> indigo_spec list" where
  "lock_create node endpoint =
     [\<lparr>sp_device_type_id = ''matterLock'', sp_name = device_name ''Matter Lock '' node,
       sp_props = dict_over (base_props node endpoint) [(''IsLockSubType'', PBool True)],
       sp_initial_states = []\<rparr>]"

definition lock_update :: "matter_dev \<Rightarrow> int \<Rightarrow> pyval \<Rightarrow> pydict py_result" where
  "lock_update dev attribute v =
     (if attribute \<noteq> 0 then Inr []
      else if v = PNone then Inr []
      else py_bind (py_int v) (\<lambda>n.
        Inr (if n = 1 then [(''onOffState'', PBool True), (''lockState'', PStr ''locked'')]
             else if n = 2 then [(''onOffState'', PBool False), (''lockState'', PStr ''unlocked'')]
             else [(''onOffState'', PBool False), (''lockState'', PStr ''jammed'')])))"

text \<open>\<open>getattr(indigo_dev, "onState", default)\<close>.\<close>

definition on_state_or :: "matter_dev \<Rightarrow> pyval \<Rightarrow> pyval" where
  "on_state_or dev alt = (case md_on_state dev of None \<Rightarrow> alt | Some v \<Rightarrow> v)"

definition lock_command :: "int \<Rightarrow> int \<Rightarrow> bool \<Rightarrow> matter_action" where
  "lock_command node_id endpoint_id lock =
     Invoke \<lparr>mc_node_id = node_id, mc_endpoint = endpoint_id, mc_cluster = CLUSTER_DOOR_LOCK,
             mc_command = (if lock then ''LockDoor'' else ''UnlockDoor''), mc_args = []\<rparr>"

definition lock_action :: "matter_dev \<Rightarrow> indigo_action \<Rightarrow> acted" where
  "lock_action dev action = acted_bind (node_endpoint dev) (\<lambda>(n, e).
     case ia_device_action action of
       ActLock \<Rightarrow> answer (lock_command n e True)
     | ActUnlock \<Rightarrow> answer (lock_command n e False)
     | ActTurnOn \<Rightarrow> answer (lock_command n e True)
     | ActTurnOff \<Rightarrow> answer (lock_command n e False)
     | ActToggle \<Rightarrow> answer (lock_command n e (\<not> truthy (on_state_or dev (PBool False))))
     | _ \<Rightarrow> no_action)"

section \<open>Valves\<close>

definition CLUSTER_VALVE :: int where "CLUSTER_VALVE = 129"
definition ATTR_CURRENT_STATE :: int where "ATTR_CURRENT_STATE = 4"
definition STATE_CLOSED :: int where "STATE_CLOSED = 0"
definition STATE_OPEN :: int where "STATE_OPEN = 1"
definition STATE_TRANSITIONING :: int where "STATE_TRANSITIONING = 2"

definition valve_create :: "node_info \<Rightarrow> endpoint_info \<Rightarrow> indigo_spec list" where
  "valve_create node endpoint = [new_device ''matterValve'' node endpoint [] []]"

definition valve_update :: "matter_dev \<Rightarrow> int \<Rightarrow> pyval \<Rightarrow> pydict py_result" where
  "valve_update dev attribute v =
     (if attribute \<noteq> ATTR_CURRENT_STATE then Inr []
      else if v = PNone then Inr []
      else Inr (if eq_int v STATE_OPEN then [(''onOffState'', PBool True), (''valveState'', PStr ''open'')]
                else if eq_int v STATE_CLOSED
                then [(''onOffState'', PBool False), (''valveState'', PStr ''closed'')]
                else if eq_int v STATE_TRANSITIONING then [(''valveState'', PStr ''transitioning'')]
                else []))"

definition valve_command :: "int \<Rightarrow> int \<Rightarrow> bool \<Rightarrow> matter_action" where
  "valve_command node_id endpoint_id open_it =
     Invoke \<lparr>mc_node_id = node_id, mc_endpoint = endpoint_id, mc_cluster = CLUSTER_VALVE,
             mc_command = (if open_it then ''Open'' else ''Close''), mc_args = []\<rparr>"

definition valve_action :: "matter_dev \<Rightarrow> indigo_action \<Rightarrow> acted" where
  "valve_action dev action = acted_bind (node_endpoint dev) (\<lambda>(n, e).
     case ia_device_action action of
       ActTurnOn \<Rightarrow> answer (valve_command n e True)
     | ActTurnOff \<Rightarrow> answer (valve_command n e False)
     | ActToggle \<Rightarrow>
         (let on = on_state_or dev PNone
          in if on = PNone then no_action else answer (valve_command n e (\<not> truthy on)))
     | _ \<Rightarrow> no_action)"

section \<open>Thermostats\<close>

definition CLUSTER_THERMOSTAT :: int where "CLUSTER_THERMOSTAT = 513"
definition CLUSTER_FAN_CONTROL :: int where "CLUSTER_FAN_CONTROL = 514"

definition ATTR_LOCAL_TEMPERATURE :: int where "ATTR_LOCAL_TEMPERATURE = 0"
definition ATTR_OCCUPIED_COOLING_SETPOINT :: int where "ATTR_OCCUPIED_COOLING_SETPOINT = 17"
definition ATTR_OCCUPIED_HEATING_SETPOINT :: int where "ATTR_OCCUPIED_HEATING_SETPOINT = 18"
definition ATTR_SYSTEM_MODE :: int where "ATTR_SYSTEM_MODE = 28"
definition ATTR_RUNNING_STATE :: int where "ATTR_RUNNING_STATE = 41"

definition SYS_OFF :: int where "SYS_OFF = 0"
definition SYS_AUTO :: int where "SYS_AUTO = 1"
definition SYS_COOL :: int where "SYS_COOL = 3"
definition SYS_HEAT :: int where "SYS_HEAT = 4"

definition FAN_HIGH :: int where "FAN_HIGH = 3"
definition FAN_AUTO :: int where "FAN_AUTO = 5"
definition ATTR_FAN_MODE :: int where "ATTR_FAN_MODE = 0"
definition ATTR_PERCENT_SETTING :: int where "ATTR_PERCENT_SETTING = 2"
definition ATTR_PERCENT_CURRENT :: int where "ATTR_PERCENT_CURRENT = 3"

definition in_celsius :: "pyval \<Rightarrow> rat py_result" where
  "in_celsius v = py_bind (py_int v) (\<lambda>n. py_bind (float_of_int n) (\<lambda>x. Inr (round_digits 1 (fdiv x 100))))"

definition in_centi :: "pynum \<Rightarrow> int py_result" where
  "in_centi celsius = py_bind (num_float celsius) (\<lambda>f. round_float (flt_scale 100 f))"

definition thermostat_create :: "node_info \<Rightarrow> endpoint_info \<Rightarrow> indigo_spec list" where
  "thermostat_create node endpoint =
     [new_device ''matterThermostat'' node endpoint
        [(''NumTemperatureInputs'', PStr ''1''), (''NumHumidityInputs'', PStr ''0''),
         (''SupportsHeatSetpoint'', PStr ''true''), (''SupportsCoolSetpoint'', PStr ''true''),
         (''SupportsHvacOperationMode'', PStr ''true''),
         (''SupportsHvacFanMode'', PStr (if ei_has endpoint CLUSTER_FAN_CONTROL then ''true'' else ''false'')),
         (''ShowCoolHeatEquipmentStateUI'', PStr ''true'')] []]"

definition matter_to_indigo_mode :: "int \<Rightarrow> string" where
  "matter_to_indigo_mode mode =
     (case map_of [(SYS_OFF, ''Off''), (SYS_AUTO, ''HeatCool''), (SYS_COOL, ''Cool''), (SYS_HEAT, ''Heat'')] mode of
        None \<Rightarrow> ''Off'' | Some m \<Rightarrow> m)"

definition indigo_to_matter_mode :: "string \<Rightarrow> int" where
  "indigo_to_matter_mode mode =
     (case map_of [(''Off'', SYS_OFF), (''Heat'', SYS_HEAT), (''Cool'', SYS_COOL), (''HeatCool'', SYS_AUTO),
                   (''ProgramHeat'', SYS_HEAT), (''ProgramCool'', SYS_COOL), (''ProgramHeatCool'', SYS_AUTO)] mode of
        None \<Rightarrow> SYS_OFF | Some m \<Rightarrow> m)"

definition indigo_to_matter_fan :: "string \<Rightarrow> int" where
  "indigo_to_matter_fan mode = (if mode = ''Auto'' then FAN_AUTO else FAN_HIGH)"

definition thermostat_update :: "matter_dev \<Rightarrow> int \<Rightarrow> pyval \<Rightarrow> pydict py_result" where
  "thermostat_update dev attribute v =
     (if v = PNone then Inr []
      else if attribute = ATTR_LOCAL_TEMPERATURE
      then py_bind (in_celsius v) (\<lambda>t. Inr [(''temperatureInput1'', PFloat (Fin t))])
      else if attribute = ATTR_OCCUPIED_HEATING_SETPOINT
      then py_bind (in_celsius v) (\<lambda>t. Inr [(''setpointHeat'', PFloat (Fin t))])
      else if attribute = ATTR_OCCUPIED_COOLING_SETPOINT
      then py_bind (in_celsius v) (\<lambda>t. Inr [(''setpointCool'', PFloat (Fin t))])
      else if attribute = ATTR_SYSTEM_MODE
      then py_bind (py_int v) (\<lambda>n.
             Inr [(''hvacOperationMode'', PStr (''kHvacMode.'' @ matter_to_indigo_mode n))])
      else if attribute = ATTR_RUNNING_STATE
      then py_bind (py_int v) (\<lambda>n.
             Inr [(''hvacHeaterIsOn'', PBool (and n 1 \<noteq> 0)), (''hvacCoolerIsOn'', PBool (and n 2 \<noteq> 0))])
      else Inr [])"

definition write_to :: "int \<Rightarrow> int \<Rightarrow> int \<Rightarrow> int \<Rightarrow> int \<Rightarrow> matter_action" where
  "write_to node_id endpoint_id cluster attribute n =
     WriteAttr \<lparr>mw_node_id = node_id, mw_endpoint = endpoint_id, mw_cluster = cluster,
                mw_attribute = attribute, mw_value = PInt n\<rparr>"

definition write_setpoint :: "int \<Rightarrow> int \<Rightarrow> int \<Rightarrow> pynum \<Rightarrow> acted" where
  "write_setpoint attribute node_id endpoint_id celsius =
     acted_bind (in_centi celsius) (\<lambda>n.
       answer (write_to node_id endpoint_id CLUSTER_THERMOSTAT attribute n))"

definition thermostat_action_for :: "matter_dev \<Rightarrow> indigo_action \<Rightarrow> acted" where
  "thermostat_action_for dev action = acted_bind (node_endpoint dev) (\<lambda>(n, e).
     let heat = write_setpoint ATTR_OCCUPIED_HEATING_SETPOINT n e;
         cool = write_setpoint ATTR_OCCUPIED_COOLING_SETPOINT n e;
         v = ia_value action
     in case ia_thermostat_action action of
          ThSetHeat \<Rightarrow> heat v
        | ThSetCool \<Rightarrow> cool v
        | ThIncreaseHeat \<Rightarrow> acted_bind (num_add (md_heat_setpoint dev) v) heat
        | ThDecreaseHeat \<Rightarrow> acted_bind (num_add (md_heat_setpoint dev) (num_neg v)) heat
        | ThIncreaseCool \<Rightarrow> acted_bind (num_add (md_cool_setpoint dev) v) cool
        | ThDecreaseCool \<Rightarrow> acted_bind (num_add (md_cool_setpoint dev) (num_neg v)) cool
        | ThSetHvacMode \<Rightarrow>
            answer (write_to n e CLUSTER_THERMOSTAT ATTR_SYSTEM_MODE (indigo_to_matter_mode (ia_mode action)))
        | ThSetFanMode \<Rightarrow>
            answer (write_to n e CLUSTER_FAN_CONTROL ATTR_FAN_MODE (indigo_to_matter_fan (ia_mode action)))
        | ThOther \<Rightarrow> no_action)"

section \<open>Fans\<close>

definition fan_primary :: "endpoint_info \<Rightarrow> bool" where
  "fan_primary endpoint = (\<not> ei_has endpoint CLUSTER_THERMOSTAT)"

definition fan_create :: "node_info \<Rightarrow> endpoint_info \<Rightarrow> indigo_spec list" where
  "fan_create node endpoint =
     (if \<not> fan_primary endpoint then []
      else [new_device ''matterFan'' node endpoint []
              [(''onOffState'', PBool False), (''brightnessLevel'', PInt 0)]])"

definition fan_update :: "matter_dev \<Rightarrow> int \<Rightarrow> pyval \<Rightarrow> pydict py_result" where
  "fan_update dev attribute v =
     (if md_device_type_id dev = Some ''matterThermostat''
      then if attribute = ATTR_FAN_MODE \<and> v \<noteq> PNone
           then py_bind (py_int v) (\<lambda>n.
                  Inr [(''hvacFanMode'', PStr (if n = FAN_AUTO then ''kFanMode.Auto'' else ''kFanMode.AlwaysOn''))])
           else Inr []
      else if md_device_type_id dev \<noteq> Some ''matterFan'' then Inr []
      else if attribute = ATTR_FAN_MODE
      then if v = PNone then Inr [] else py_bind (py_int v) (\<lambda>n. Inr [(''onOffState'', PBool (n \<noteq> 0))])
      else if attribute = ATTR_PERCENT_CURRENT
      then if v = PNone then Inr [] else py_bind (py_int v) (\<lambda>n. Inr [(''brightnessLevel'', PInt n)])
      else Inr [])"

definition fan_turn_on :: "int \<Rightarrow> int \<Rightarrow> matter_action" where
  "fan_turn_on node_id endpoint_id = write_to node_id endpoint_id CLUSTER_FAN_CONTROL ATTR_PERCENT_SETTING 100"

definition fan_speed :: "int \<Rightarrow> int \<Rightarrow> int \<Rightarrow> matter_action" where
  "fan_speed node_id endpoint_id pct = write_to node_id endpoint_id CLUSTER_FAN_CONTROL ATTR_PERCENT_SETTING pct"

definition fan_off :: "int \<Rightarrow> int \<Rightarrow> matter_action" where
  "fan_off node_id endpoint_id = write_to node_id endpoint_id CLUSTER_FAN_CONTROL ATTR_FAN_MODE 0"

definition fan_action :: "matter_dev \<Rightarrow> indigo_action \<Rightarrow> acted" where
  "fan_action dev action =
     (if md_device_type_id dev = Some ''matterThermostat'' then no_action
      else acted_bind (node_endpoint dev) (\<lambda>(n, e).
        case ia_device_action action of
          ActTurnOn \<Rightarrow> answer (fan_turn_on n e)
        | ActTurnOff \<Rightarrow> answer (fan_off n e)
        | ActToggle \<Rightarrow> answer (if truthy (on_state_or dev (PBool False)) then fan_off n e else fan_turn_on n e)
        | ActSetBrightness \<Rightarrow> acted_bind (num_int (ia_value action)) (\<lambda>pct. answer (fan_speed n e pct))
        | ActBrightenBy \<Rightarrow> acted_bind (num_add (md_brightness dev) (ia_value action)) (\<lambda>x.
            acted_bind (num_int x) (\<lambda>pct. answer (fan_speed n e (min pct 100))))
        | ActDimBy \<Rightarrow> acted_bind (num_add (md_brightness dev) (num_neg (ia_value action))) (\<lambda>x.
            acted_bind (num_int x) (\<lambda>pct. answer (fan_speed n e (max pct 0))))
        | _ \<Rightarrow> no_action))"

end
