(* ===== verification/HandlerSensors.thy ===== *)
theory HandlerSensors
  imports HandlerBase
begin

text \<open>
  The read-only handlers: \<open>matter_handlers/sensors.py\<close>, \<open>air_quality.py\<close>, \<open>smoke_co.py\<close>,
  \<open>electrical.py\<close>, \<open>power_source.py\<close>, \<open>boolean_state_config.py\<close>, \<open>basic_information.py\<close> and
  \<open>generic_switch.py\<close>.

  The subclasses of \<open>_SensorHandler\<close> are the constructors of \<open>sensor_kind\<close>. The parameter \<open>pow10\<close>
  is \<open>10 ** x\<close> of the platform's C library, which raises \<open>OverflowError\<close> when the result is too
  large. The degree, micro and superscript signs of a unit are single characters.
\<close>

section \<open>Measured values\<close>

datatype sensor_kind = Temperature | Humidity | Occupancy | Contact | Illuminance | Pressure | Flow
  | AirQuality | CO2 | PM25 | TVOC

fun sensor_cluster :: "sensor_kind \<Rightarrow> int" where
  "sensor_cluster Temperature = 1026"
| "sensor_cluster Humidity = 1029"
| "sensor_cluster Occupancy = 1030"
| "sensor_cluster Contact = 69"
| "sensor_cluster Illuminance = 1024"
| "sensor_cluster Pressure = 1027"
| "sensor_cluster Flow = 1028"
| "sensor_cluster AirQuality = 91"
| "sensor_cluster CO2 = 1037"
| "sensor_cluster PM25 = 1066"
| "sensor_cluster TVOC = 1070"

fun sensor_type :: "sensor_kind \<Rightarrow> string" where
  "sensor_type Temperature = ''matterTemperatureSensor''"
| "sensor_type Humidity = ''matterHumiditySensor''"
| "sensor_type Occupancy = ''matterMotionSensor''"
| "sensor_type Contact = ''matterContactSensor''"
| "sensor_type Illuminance = ''matterIlluminanceSensor''"
| "sensor_type Pressure = ''matterPressureSensor''"
| "sensor_type Flow = ''matterFlowSensor''"
| "sensor_type AirQuality = ''matterAirQualitySensor''"
| "sensor_type CO2 = ''matterCO2Sensor''"
| "sensor_type PM25 = ''matterPM25Sensor''"
| "sensor_type TVOC = ''matterTVOCSensor''"

definition binary_sensor :: "sensor_kind \<Rightarrow> bool" where
  "binary_sensor k = (k = Occupancy \<or> k = Contact)"

definition sensor_state_key :: "sensor_kind \<Rightarrow> string" where
  "sensor_state_key k = (if binary_sensor k then ''onOffState'' else ''sensorValue'')"

definition sensor_display :: "sensor_kind \<Rightarrow> pydict" where
  "sensor_display k =
     (if binary_sensor k then [(''SupportsOnState'', PBool True), (''SupportsSensorValue'', PBool False)]
      else if k = AirQuality then [(''SupportsOnState'', PBool False), (''SupportsSensorValue'', PBool False)]
      else [(''SupportsSensorValue'', PBool True), (''SupportsOnState'', PBool False)])"

definition micrograms :: string where
  "micrograms = '' '' @ [char_of (181 :: nat)] @ ''g/m'' @ [char_of (179 :: nat)]"

fun sensor_format :: "sensor_kind \<Rightarrow> (nat \<times> string) option" where
  "sensor_format Temperature = Some (1, '' '' @ [char_of (176 :: nat)] @ ''C'')"
| "sensor_format Humidity = Some (1, ''%'')"
| "sensor_format Illuminance = Some (0, '' lux'')"
| "sensor_format Pressure = Some (0, '' hPa'')"
| "sensor_format Flow = Some (1, '' m'' @ [char_of (179 :: nat)] @ ''/h'')"
| "sensor_format CO2 = Some (1, '' ppm'')"
| "sensor_format PM25 = Some (1, micrograms)"
| "sensor_format TVOC = Some (1, [])"
| "sensor_format _ = None"

text \<open>The format \<open>:.kf\<close> of a number that is not a boolean.\<close>

definition number_text :: "nat \<Rightarrow> pyval \<Rightarrow> string option" where
  "number_text k v = (case v of
       PInt n \<Rightarrow> Some (fixed_text k (of_int n))
     | PFloat (Fin x) \<Rightarrow> Some (fixed_text k x)
     | PFloat PosInf \<Rightarrow> Some ''inf''
     | PFloat NegInf \<Rightarrow> Some ''-inf''
     | PFloat NaN \<Rightarrow> Some ''nan''
     | _ \<Rightarrow> None)"

definition sensor_kv :: "sensor_kind \<Rightarrow> pydict \<Rightarrow> kv_entry list" where
  "sensor_kv kind states = map (\<lambda>(k, v).
     \<lparr>kv_key = k, kv_value = v,
      kv_format = (case sensor_format kind of
          Some (digits, unit) \<Rightarrow>
            (if k = sensor_state_key kind
             then map_option (\<lambda>s. (digits, s @ unit)) (number_text digits v) else None)
        | None \<Rightarrow> None)\<rparr>) states"

definition sensor_create :: "sensor_kind \<Rightarrow> node_info \<Rightarrow> endpoint_info \<Rightarrow> indigo_spec list" where
  "sensor_create kind node endpoint =
     [new_device (sensor_type kind) node endpoint (sensor_display kind)
        ((sensor_state_key kind, PInt 0) #
         (if kind = AirQuality then [(''airQuality'', PStr ''unknown'')] else []))]"

text \<open>\<open>round(int(value) / d, k)\<close> and \<open>round(float(value), k)\<close>.\<close>

definition int_over :: "rat \<Rightarrow> nat \<Rightarrow> pyval \<Rightarrow> pyval py_result" where
  "int_over d k v = py_bind (py_int v) (\<lambda>n. py_bind (float_of_int n) (\<lambda>x.
     Inr (PFloat (Fin (round_digits k (fdiv x d))))))"

definition rounded_float :: "nat \<Rightarrow> pyval \<Rightarrow> pyval py_result" where
  "rounded_float k v = py_bind (py_float v) (\<lambda>f. Inr (PFloat (round_to k f)))"

definition in_lux :: "(rat \<Rightarrow> rat py_result) \<Rightarrow> pyval \<Rightarrow> pyval py_result" where
  "in_lux pow10 v = py_bind (py_int v) (\<lambda>raw.
     if raw \<le> 0 then Inr (PFloat (Fin 0))
     else py_bind (float_of_int (raw - 1)) (\<lambda>x. py_bind (pow10 (fdiv x 10000)) (\<lambda>lux.
            Inr (PFloat (Fin (round_digits 1 lux))))))"

fun transform :: "(rat \<Rightarrow> rat py_result) \<Rightarrow> sensor_kind \<Rightarrow> pyval \<Rightarrow> pyval py_result" where
  "transform pow10 Temperature v = int_over 100 2 v"
| "transform pow10 Humidity v = int_over 100 1 v"
| "transform pow10 Occupancy v = py_bind (py_int v) (\<lambda>n. Inr (PBool (and n 1 \<noteq> 0)))"
| "transform pow10 Contact v = Inr (PBool (truthy v))"
| "transform pow10 Illuminance v = in_lux pow10 v"
| "transform pow10 Pressure v = py_bind (py_int v) (\<lambda>n. py_bind (float_of_int n) (\<lambda>x. Inr (PFloat (Fin x))))"
| "transform pow10 Flow v = int_over 10 1 v"
| "transform pow10 AirQuality v = Inr v"
| "transform pow10 CO2 v = rounded_float 1 v"
| "transform pow10 PM25 v = rounded_float 1 v"
| "transform pow10 TVOC v = rounded_float 1 v"

definition AQ_ENUM :: "(int \<times> string) list" where
  "AQ_ENUM = [(0, ''unknown''), (1, ''good''), (2, ''fair''), (3, ''moderate''), (4, ''poor''),
     (5, ''verypoor''), (6, ''extremelypoor'')]"

definition air_quality_update :: "int \<Rightarrow> pyval \<Rightarrow> pydict py_result" where
  "air_quality_update attribute v =
     (if attribute = 0 \<and> v \<noteq> PNone
      then py_bind (py_int v) (\<lambda>n. Inr [(''sensorValue'', PInt n),
             (''airQuality'', PStr (case map_of AQ_ENUM n of None \<Rightarrow> ''unknown'' | Some s \<Rightarrow> s))])
      else Inr [])"

definition measured_update ::
  "(rat \<Rightarrow> rat py_result) \<Rightarrow> sensor_kind \<Rightarrow> int \<Rightarrow> pyval \<Rightarrow> pydict py_result" where
  "measured_update pow10 kind attribute v =
     (if attribute = 0 \<and> v \<noteq> PNone
      then py_bind (transform pow10 kind v) (\<lambda>x. Inr [(sensor_state_key kind, x)]) else Inr [])"

definition ATTR_HOLD_TIME :: int where "ATTR_HOLD_TIME = 3"

definition occupancy_update ::
  "(rat \<Rightarrow> rat py_result) \<Rightarrow> matter_dev \<Rightarrow> int \<Rightarrow> pyval \<Rightarrow> pydict py_result" where
  "occupancy_update pow10 dev attribute v =
     (if attribute = ATTR_HOLD_TIME
      then if v = PNone then Inr []
           else py_bind (tolerant (py_int v)) (\<lambda>hold. case hold of
                  None \<Rightarrow> Inr [] | Some n \<Rightarrow> guarded dev ''holdTime'' (Inr [(''holdTime'', PInt n)]))
      else measured_update pow10 Occupancy attribute v)"

definition sensor_update ::
  "(rat \<Rightarrow> rat py_result) \<Rightarrow> sensor_kind \<Rightarrow> matter_dev \<Rightarrow> int \<Rightarrow> pyval \<Rightarrow> pydict py_result" where
  "sensor_update pow10 kind dev attribute v =
     (if kind = Occupancy then occupancy_update pow10 dev attribute v
      else if kind = AirQuality then air_quality_update attribute v
      else measured_update pow10 kind attribute v)"

section \<open>Smoke and carbon monoxide alarms\<close>

definition CLUSTER_SMOKE_CO_ALARM :: int where "CLUSTER_SMOKE_CO_ALARM = 92"

definition EXPRESSED_STATE_NAMES :: "(int \<times> string) list" where
  "EXPRESSED_STATE_NAMES =
     [(0, ''normal''), (1, ''smokeAlarm''), (2, ''coAlarm''), (3, ''batteryAlert''), (4, ''testing''),
      (5, ''hardwareFault''), (6, ''endOfService''), (7, ''interconnectSmoke''), (8, ''interconnectCO'')]"

definition EXPRESSED_ALARM_STATES :: "int list" where
  "EXPRESSED_ALARM_STATES = [1, 2, 7, 8]"

definition smoke_create :: "node_info \<Rightarrow> endpoint_info \<Rightarrow> indigo_spec list" where
  "smoke_create node endpoint =
     [new_device ''matterSmokeCOAlarm'' node endpoint
        [(''SupportsOnState'', PBool True), (''SupportsSensorValue'', PBool False)]
        [(''onOffState'', PBool False)]]"

definition alarm_flag :: "string \<Rightarrow> pyval \<Rightarrow> pydict py_result" where
  "alarm_flag key v = py_bind (py_int v) (\<lambda>n. Inr [(key, PBool (0 < n))])"

definition smoke_update :: "int \<Rightarrow> pyval \<Rightarrow> pydict py_result" where
  "smoke_update attribute v =
     (if v = PNone then Inr []
      else if attribute = 0
      then py_bind (py_int v) (\<lambda>n.
        Inr [(''expressedState'',
                PStr (case map_of EXPRESSED_STATE_NAMES n of None \<Rightarrow> str_of_int n | Some s \<Rightarrow> s)),
             (''onOffState'', PBool (n \<in> set EXPRESSED_ALARM_STATES))])
      else if attribute = 1 then alarm_flag ''smokeAlarm'' v
      else if attribute = 2 then alarm_flag ''coAlarm'' v
      else if attribute = 3 then alarm_flag ''batteryAlert'' v
      else if attribute = 7 then alarm_flag ''endOfService'' v
      else Inr [])"

section \<open>Electrical measurements\<close>

definition ATTR_ACTIVE_POWER :: int where "ATTR_ACTIVE_POWER = 8"
definition ATTR_CUMULATIVE_IMPORTED :: int where "ATTR_CUMULATIVE_IMPORTED = 1"

definition parse_active_power_mw :: "pyval \<Rightarrow> rat option py_result" where
  "parse_active_power_mw v =
     (if v = PNone then Inr None else tolerant (py_bind (py_int v) float_of_int))"

definition parse_energy_struct_mwh :: "pyval \<Rightarrow> pyfloat option py_result" where
  "parse_energy_struct_mwh v = (case v of
       PNone \<Rightarrow> Inr None
     | PInt n \<Rightarrow> tolerant (py_float v)
     | PBool b \<Rightarrow> tolerant (py_float v)
     | PFloat f \<Rightarrow> tolerant (py_float v)
     | PDict d \<Rightarrow> (let raw = dget_or d ''energy'' (dget d ''0'')
                  in if raw = PNone then Inr None else tolerant (py_float raw))
     | _ \<Rightarrow> Inr None)"

definition power_update :: "matter_dev \<Rightarrow> int \<Rightarrow> pyval \<Rightarrow> pydict py_result" where
  "power_update dev attribute v =
     (if attribute \<noteq> ATTR_ACTIVE_POWER then Inr []
      else py_bind (parse_active_power_mw v) (\<lambda>mw. case mw of
             None \<Rightarrow> Inr []
           | Some x \<Rightarrow> guarded dev ''curEnergyLevel''
                         (Inr [(''curEnergyLevel'', PFloat (Fin (round_digits 1 (fdiv x 1000))))])))"

definition energy_update :: "matter_dev \<Rightarrow> int \<Rightarrow> pyval \<Rightarrow> pydict py_result" where
  "energy_update dev attribute v =
     (if attribute \<noteq> ATTR_CUMULATIVE_IMPORTED then Inr []
      else py_bind (parse_energy_struct_mwh v) (\<lambda>mwh. case mwh of
             None \<Rightarrow> Inr []
           | Some f \<Rightarrow> guarded dev ''accumEnergyTotal''
                         (Inr [(''accumEnergyTotal'', PFloat (round_to 3 (flt_scale (1 / 1000000) f)))])))"

section \<open>Power sources\<close>

definition CLUSTER_POWER_SOURCE :: int where "CLUSTER_POWER_SOURCE = 47"
definition ATTR_BAT_PERCENT_REMAINING :: int where "ATTR_BAT_PERCENT_REMAINING = 12"
definition ATTR_ENDPOINT_LIST :: int where "ATTR_ENDPOINT_LIST = 31"

text \<open>What each power source of a node powers. A coverage comes with the sources whose unusable list
  was noted in the log.\<close>

record power_coverage =
  pc_by_source :: "(int \<times> int set) list"
  pc_covered :: "int set"
  pc_from_endpoint_list :: "int set"

definition parse_endpoint_list :: "pyval \<Rightarrow> int set option py_result" where
  "parse_endpoint_list raw = (case raw of
       PList entries \<Rightarrow>
         if list_ex (\<lambda>v. case v of PBool b \<Rightarrow> True | _ \<Rightarrow> False) entries then Inr None
         else tolerant (py_bind (py_map py_int entries) (\<lambda>ns. Inr (set ns)))
     | _ \<Rightarrow> Inr None)"

definition source_coverage :: "bool \<Rightarrow> int set \<Rightarrow> int \<Rightarrow> int set option \<Rightarrow> int set" where
  "source_coverage several all_endpoints ep listed = (case listed of
       None \<Rightarrow> if several then {ep} else all_endpoints
     | Some eps \<Rightarrow> if eps = {} then all_endpoints else eps \<union> {ep})"

fun cover_sources :: "bool \<Rightarrow> int set \<Rightarrow> (int \<Rightarrow> pyval) \<Rightarrow> int list \<Rightarrow> (int \<times> int set) list \<Rightarrow> int set
    \<Rightarrow> int list \<Rightarrow> ((int \<times> int set) list \<times> int set \<times> int list) py_result" where
  "cover_sources several all_endpoints reported [] by_source listed_eps notes = Inr (by_source, listed_eps, notes)"
| "cover_sources several all_endpoints reported (ep # eps) by_source listed_eps notes =
     py_bind (parse_endpoint_list (reported ep)) (\<lambda>listed.
       cover_sources several all_endpoints reported eps
         (AList.update ep (source_coverage several all_endpoints ep listed) by_source)
         (if listed = None then listed_eps else insert ep listed_eps)
         (if listed = None \<and> reported ep \<noteq> PNone then notes @ [ep] else notes))"

definition resolve_power_coverage ::
  "int list \<Rightarrow> (int \<Rightarrow> pyval) \<Rightarrow> int list \<Rightarrow> (power_coverage \<times> int list) py_result" where
  "resolve_power_coverage sources reported endpoints =
     py_bind (cover_sources (1 < length sources) (set endpoints) reported (sort sources) [] {} [])
       (\<lambda>(by_source, listed, notes).
         Inr (\<lparr>pc_by_source = by_source, pc_covered = \<Union> (snd ` set by_source),
               pc_from_endpoint_list = listed\<rparr>, notes))"

definition battery_update :: "matter_dev \<Rightarrow> int \<Rightarrow> pyval \<Rightarrow> pydict py_result" where
  "battery_update dev attribute v =
     (if attribute \<noteq> ATTR_BAT_PERCENT_REMAINING \<or> v = PNone then Inr []
      else guarded dev ''batteryLevel''
             (py_bind (py_int v) (\<lambda>n. Inr [(''batteryLevel'', PInt (clamp (n div 2) 0 100))])))"

section \<open>Sensitivity and node identity\<close>

definition CLUSTER_BOOLEAN_STATE_CONFIG :: int where "CLUSTER_BOOLEAN_STATE_CONFIG = 128"

definition parse_sensitivity :: "pyval \<Rightarrow> int option py_result" where
  "parse_sensitivity v = (if v = PNone then Inr None else tolerant (py_int v))"

definition sensitivity_update :: "matter_dev \<Rightarrow> int \<Rightarrow> pyval \<Rightarrow> pydict py_result" where
  "sensitivity_update dev attribute v =
     (if attribute \<noteq> 0 then Inr []
      else py_bind (parse_sensitivity v) (\<lambda>level. case level of
             None \<Rightarrow> Inr []
           | Some n \<Rightarrow> guarded dev ''sensitivityLevel'' (Inr [(''sensitivityLevel'', PInt n)])))"

definition identity_update :: "(pyval \<Rightarrow> string) \<Rightarrow> matter_dev \<Rightarrow> int \<Rightarrow> pyval \<Rightarrow> pydict py_result" where
  "identity_update repr dev attribute v =
     (if v = PNone then Inr []
      else if attribute = 5 then guarded dev ''nodeLabel'' (Inr [(''nodeLabel'', PStr (py_str repr v))])
      else if attribute = 10
      then guarded dev ''softwareVersion'' (Inr [(''softwareVersion'', PStr (py_str repr v))])
      else Inr [])"

section \<open>Buttons\<close>

definition CLUSTER_SWITCH :: int where "CLUSTER_SWITCH = 59"
definition ATTR_FEATURE_MAP :: int where "ATTR_FEATURE_MAP = 65532"
definition EVT_INITIAL_PRESS :: int where "EVT_INITIAL_PRESS = 1"
definition EVT_LONG_PRESS :: int where "EVT_LONG_PRESS = 2"
definition EVT_SHORT_RELEASE :: int where "EVT_SHORT_RELEASE = 3"
definition EVT_MULTI_PRESS_COMPLETE :: int where "EVT_MULTI_PRESS_COMPLETE = 6"
definition FEATURE_MOMENTARY_SWITCH :: int where "FEATURE_MOMENTARY_SWITCH = 2"
definition TERMINAL_PRESS_FEATURES :: int where "TERMINAL_PRESS_FEATURES = 28"

definition switch_features :: "node_info \<Rightarrow> endpoint_info \<Rightarrow> int option" where
  "switch_features node endpoint =
     (case path_value (ni_attributes node) (ei_endpoint_id endpoint, CLUSTER_SWITCH, ATTR_FEATURE_MAP) of
        PInt n \<Rightarrow> Some n | _ \<Rightarrow> None)"

definition maps_initial_press :: "int option \<Rightarrow> bool" where
  "maps_initial_press features = (case features of
       None \<Rightarrow> False
     | Some f \<Rightarrow> and f FEATURE_MOMENTARY_SWITCH \<noteq> 0 \<and> and f TERMINAL_PRESS_FEATURES = 0)"

definition button_create :: "node_info \<Rightarrow> endpoint_info \<Rightarrow> indigo_spec list" where
  "button_create node endpoint =
     [new_device ''matterButton'' node endpoint
        ((case switch_features node endpoint of
            Some f \<Rightarrow> if f \<noteq> 0 then [(''switchFeatureMap'', PStr (str_of_int f))] else []
          | None \<Rightarrow> []) @
         [(''SupportsOnState'', PBool False), (''SupportsSensorValue'', PBool False)])
        [(''lastButtonEvent'', PStr []), (''pressCount'', PInt 0)]]"

definition device_maps_initial_press :: "matter_dev \<Rightarrow> bool py_result" where
  "device_maps_initial_press dev =
     (let raw = dget (md_plugin_props dev) ''switchFeatureMap''
      in if raw = PNone \<or> raw = PStr [] then Inr False
         else py_bind (tolerant (py_int raw)) (\<lambda>f. Inr (f \<noteq> None \<and> maps_initial_press f)))"

definition multi_press_label :: "pyval \<Rightarrow> string option py_result" where
  "multi_press_label data =
     py_bind (py_get (or_empty data) ''totalNumberOfPressesCounted'' (PInt 1)) (\<lambda>v.
     py_bind (py_int v) (\<lambda>n.
       Inr (if n = 2 then Some ''doublePress'' else if n = 3 then Some ''triplePress''
            else if 3 < n then Some (''multiPress'' @ str_of_int n) else None)))"

definition press_label :: "matter_dev \<Rightarrow> int \<Rightarrow> pyval \<Rightarrow> string option py_result" where
  "press_label dev event_id data =
     (if event_id = EVT_INITIAL_PRESS
      then py_bind (device_maps_initial_press dev) (\<lambda>b. Inr (if b then Some ''shortPress'' else None))
      else if event_id = EVT_SHORT_RELEASE then Inr (Some ''shortPress'')
      else if event_id = EVT_LONG_PRESS then Inr (Some ''longPress'')
      else if event_id = EVT_MULTI_PRESS_COMPLETE then multi_press_label data
      else Inr None)"

definition button_event :: "matter_dev \<Rightarrow> int \<Rightarrow> pyval \<Rightarrow> pydict py_result" where
  "button_event dev event_id data =
     py_bind (press_label dev event_id data) (\<lambda>label. case label of
       None \<Rightarrow> Inr []
     | Some s \<Rightarrow> py_bind (py_int (dget_or (md_states dev) ''pressCount'' (PInt 0))) (\<lambda>n.
         Inr [(''lastButtonEvent'', PStr s), (''pressCount'', PInt (n + 1))]))"

end
