(* ===== verification/ThreadMesh.thy ===== *)
theory ThreadMesh
  imports MatterModel PyFloat
begin

text \<open>
  \<open>thread_mesh.py\<close>: the ThreadNetworkDiagnostics of the nodes, parsed from the cache or a live
  read, the health of each node and the mesh they form together.

  Bit shifts of an RLOC16 are divisions and products with 1024. The text of a warning or of a health
  flag is its constructor with the values it shows; the mesh key of a node is the text the code
  builds. A wall-clock time is a rational number of seconds. A name that itself contains
  \<open>to 0x\<close> with four hexadecimal digits is not rewritten in a flag here.
\<close>

section \<open>Attributes\<close>

definition CLUSTER_THREAD_DIAG :: int where "CLUSTER_THREAD_DIAG = 53"
definition ATTR_CHANNEL :: int where "ATTR_CHANNEL = 0"
definition ATTR_ROUTING_ROLE :: int where "ATTR_ROUTING_ROLE = 1"
definition ATTR_NETWORK_NAME :: int where "ATTR_NETWORK_NAME = 2"
definition ATTR_PAN_ID :: int where "ATTR_PAN_ID = 3"
definition ATTR_EXTENDED_PAN_ID :: int where "ATTR_EXTENDED_PAN_ID = 4"
definition ATTR_NEIGHBOR_TABLE :: int where "ATTR_NEIGHBOR_TABLE = 7"
definition ATTR_ROUTE_TABLE :: int where "ATTR_ROUTE_TABLE = 8"
definition ATTR_PARTITION_ID :: int where "ATTR_PARTITION_ID = 9"
definition ATTR_LEADER_ROUTER_ID :: int where "ATTR_LEADER_ROUTER_ID = 13"
definition ATTR_PARENT_CHANGE_COUNT :: int where "ATTR_PARENT_CHANGE_COUNT = 21"
definition ATTR_ATTRIBUTE_LIST :: int where "ATTR_ATTRIBUTE_LIST = 65531"

definition ROLE_UNSPECIFIED :: int where "ROLE_UNSPECIFIED = 0"
definition ROLE_UNASSIGNED :: int where "ROLE_UNASSIGNED = 1"
definition ROLE_ROUTER :: int where "ROLE_ROUTER = 5"
definition ROLE_LEADER :: int where "ROLE_LEADER = 6"

definition ROLE_NAMES :: "(int \<times> string) list" where
  "ROLE_NAMES = [(0, ''Unspecified''), (1, ''Unassigned''), (2, ''SleepyEndDevice''), (3, ''EndDevice''),
     (4, ''Reed''), (5, ''Router''), (6, ''Leader'')]"

definition INVALID_ROUTER_ID :: int where "INVALID_ROUTER_ID = 63"
definition RSSI_WEAK :: int where "RSSI_WEAK = - 80"
definition RSSI_BAD :: int where "RSSI_BAD = - 90"
definition FRAME_ERROR_HIGH :: int where "FRAME_ERROR_HIGH = 20"
definition PATH_COST_FAR :: int where "PATH_COST_FAR = 3"
definition PARENT_CHANGES_HIGH :: int where "PARENT_CHANGES_HIGH = 5"

definition COUNTER_ATTRS :: "(int \<times> string) list" where
  "COUNTER_ATTRS = [(14, ''detached_role''), (15, ''child_role''), (16, ''router_role''), (17, ''leader_role''),
     (18, ''attach_attempts''), (19, ''partition_changes''), (20, ''better_partition_attach_attempts''),
     (21, ''parent_changes'')]"

text \<open>The two shapes of a key that callers hand over: a path, or its text.\<close>

datatype diag_key = AtPath attr_path | AtText string

type_synonym diag_attrs = "(diag_key \<times> pyval) list"

definition diag_attr :: "diag_attrs \<Rightarrow> int \<Rightarrow> pyval" where
  "diag_attr attrs attr_id = (case map_of attrs (AtPath (0, CLUSTER_THREAD_DIAG, attr_id)) of
       Some v \<Rightarrow> v
     | None \<Rightarrow> (case map_of attrs (AtText (attr_key 0 CLUSTER_THREAD_DIAG attr_id)) of
                 Some v \<Rightarrow> v | None \<Rightarrow> PNone))"

fun thread_key :: "diag_key \<Rightarrow> bool" where
  "thread_key (AtPath path) = (fst (snd path) = CLUSTER_THREAD_DIAG)"
| "thread_key (AtText s) = (let parts = str_split CHR ''/'' s
     in length parts = 3 \<and> parts ! 1 = str_of_int CLUSTER_THREAD_DIAG)"

definition has_thread_cluster_data :: "diag_attrs \<Rightarrow> bool" where
  "has_thread_cluster_data attrs = list_ex (\<lambda>p. thread_key (fst p)) attrs"

section \<open>Ages\<close>

datatype age = JustNow | Ago string

definition humanise_age :: "rat \<Rightarrow> age" where
  "humanise_age seconds =
     (let minutes = fdiv seconds 60; hours = fdiv minutes 60
      in if seconds < 60 then JustNow
         else if minutes < 60 then Ago (str_of_int (rat_trunc minutes) @ ''m'')
         else if hours < 24 then Ago (str_of_int (rat_trunc hours) @ ''h'')
         else Ago (str_of_int (rat_trunc (fdiv hours 24)) @ ''d''))"

definition age_phrase :: "rat \<Rightarrow> age option" where
  "age_phrase seconds = (if seconds < - 120 then None else if seconds < 60 then Some JustNow
     else Some (humanise_age seconds))"

section \<open>Neighbours and routes\<close>

record neighbour =
  nb_ext_address :: int
  nb_age_s :: int
  nb_rloc16 :: int
  nb_lqi :: int
  nb_avg_rssi :: "int option"
  nb_last_rssi :: "int option"
  nb_frame_error_pct :: int
  nb_message_error_pct :: int
  nb_rx_on_when_idle :: bool
  nb_full_thread_device :: bool
  nb_is_child :: bool

definition nb_router_id :: "neighbour \<Rightarrow> int" where
  "nb_router_id n = nb_rloc16 n div 1024"

definition nb_rssi :: "neighbour \<Rightarrow> int option" where
  "nb_rssi n = (if nb_last_rssi n \<noteq> None then nb_last_rssi n else nb_avg_rssi n)"

record route =
  rt_ext_address :: int
  rt_rloc16 :: int
  rt_router_id :: int
  rt_next_hop :: int
  rt_path_cost :: int
  rt_lqi_in :: int
  rt_lqi_out :: int
  rt_age_s :: int
  rt_allocated :: bool
  rt_link_established :: bool

definition is_self :: "route \<Rightarrow> bool" where
  "is_self r = (rt_next_hop r = INVALID_ROUTER_ID \<and> rt_path_cost r = 0 \<and> rt_allocated r
     \<and> \<not> rt_link_established r)"

datatype diag_warning = NeighboursAbsent | NeighboursMalformed | RoutesAbsent | RoutesMalformed
  | BadNeighbour nat | BadRoute nat | SelfAmbiguous "int list"

text \<open>\<open>int(entry[key])\<close> and \<open>bool(entry[key])\<close>.\<close>

definition int_field_of :: "pyval \<Rightarrow> string \<Rightarrow> int py_result" where
  "int_field_of entry key = py_bind (py_item entry key) py_int"

definition bool_field_of :: "pyval \<Rightarrow> string \<Rightarrow> bool py_result" where
  "bool_field_of entry key = py_bind (py_item entry key) (\<lambda>v. Inr (truthy v))"

definition opt_field_of :: "pyval \<Rightarrow> string \<Rightarrow> int option py_result" where
  "opt_field_of entry key = py_bind (py_get entry key PNone) opt_int"

definition parse_neighbour :: "pyval \<Rightarrow> neighbour py_result" where
  "parse_neighbour entry =
     py_bind (int_field_of entry ''0'') (\<lambda>ext. py_bind (int_field_of entry ''1'') (\<lambda>age_s.
     py_bind (int_field_of entry ''2'') (\<lambda>rloc. py_bind (int_field_of entry ''5'') (\<lambda>lqi.
     py_bind (opt_field_of entry ''6'') (\<lambda>avg. py_bind (opt_field_of entry ''7'') (\<lambda>lst.
     py_bind (int_field_of entry ''8'') (\<lambda>fe. py_bind (int_field_of entry ''9'') (\<lambda>me.
     py_bind (bool_field_of entry ''10'') (\<lambda>rx. py_bind (bool_field_of entry ''11'') (\<lambda>ftd.
     py_bind (bool_field_of entry ''13'') (\<lambda>child.
       Inr \<lparr>nb_ext_address = ext, nb_age_s = age_s, nb_rloc16 = rloc, nb_lqi = lqi, nb_avg_rssi = avg,
            nb_last_rssi = lst, nb_frame_error_pct = fe, nb_message_error_pct = me,
            nb_rx_on_when_idle = rx, nb_full_thread_device = ftd, nb_is_child = child\<rparr>)))))))))))"

definition parse_route :: "pyval \<Rightarrow> route py_result" where
  "parse_route entry =
     py_bind (int_field_of entry ''0'') (\<lambda>ext. py_bind (int_field_of entry ''1'') (\<lambda>rloc.
     py_bind (int_field_of entry ''2'') (\<lambda>rid. py_bind (int_field_of entry ''3'') (\<lambda>hop.
     py_bind (int_field_of entry ''4'') (\<lambda>cost. py_bind (int_field_of entry ''5'') (\<lambda>lqi_in.
     py_bind (int_field_of entry ''6'') (\<lambda>lqi_out. py_bind (int_field_of entry ''7'') (\<lambda>age_s.
     py_bind (bool_field_of entry ''8'') (\<lambda>alloc. py_bind (bool_field_of entry ''9'') (\<lambda>link.
       Inr \<lparr>rt_ext_address = ext, rt_rloc16 = rloc, rt_router_id = rid, rt_next_hop = hop,
            rt_path_cost = cost, rt_lqi_in = lqi_in, rt_lqi_out = lqi_out, rt_age_s = age_s,
            rt_allocated = alloc, rt_link_established = link\<rparr>))))))))))"

text \<open>The rows of a table: one that raises \<open>TypeError\<close>, \<open>ValueError\<close> or \<open>KeyError\<close> is skipped with
  a warning that names its index.\<close>

fun parse_rows :: "(pyval \<Rightarrow> 'a py_result) \<Rightarrow> (nat \<Rightarrow> diag_warning) \<Rightarrow> nat \<Rightarrow> pyval list
    \<Rightarrow> ('a list \<times> diag_warning list) py_result" where
  "parse_rows f warn i [] = Inr ([], [])"
| "parse_rows f warn i (v # vs) = (case f v of
       Inr row \<Rightarrow> py_bind (parse_rows f warn (Suc i) vs) (\<lambda>(rows, ws). Inr (row # rows, ws))
     | Inl e \<Rightarrow> if e = TypeError \<or> e = ValueError \<or> e = KeyError
         then py_bind (parse_rows f warn (Suc i) vs) (\<lambda>(rows, ws). Inr (rows, warn i # ws))
         else Inl e)"

definition parse_neighbours :: "pyval \<Rightarrow> (neighbour list \<times> diag_warning list \<times> bool) py_result" where
  "parse_neighbours raw = (case raw of
       PNone \<Rightarrow> Inr ([], [NeighboursAbsent], False)
     | PList entries \<Rightarrow> py_bind (parse_rows parse_neighbour BadNeighbour 0 entries)
         (\<lambda>(rows, ws). Inr (rows, ws, True))
     | _ \<Rightarrow> Inr ([], [NeighboursMalformed], False))"

definition parse_routes :: "pyval \<Rightarrow> (route list \<times> diag_warning list) py_result" where
  "parse_routes raw = (case raw of
       PNone \<Rightarrow> Inr ([], [RoutesAbsent])
     | PList entries \<Rightarrow> parse_rows parse_route BadRoute 0 entries
     | _ \<Rightarrow> Inr ([], [RoutesMalformed]))"

section \<open>One node\<close>

record node_diag =
  nd_node_id :: int
  nd_name :: string
  nd_available :: bool
  nd_role :: int
  nd_channel :: "int option"
  nd_network_name :: string
  nd_pan_id :: "int option"
  nd_ext_pan_id :: "int option"
  nd_partition_id :: "int option"
  nd_leader_router_id :: "int option"
  nd_neighbours :: "neighbour list"
  nd_routes :: "route list"
  nd_counters :: "(string \<times> int) list"
  nd_live :: bool
  nd_read_error :: "string option"
  nd_parse_warnings :: "diag_warning list"
  nd_neighbours_known :: bool
  nd_last_interview :: "rat option"
  nd_last_event_seen :: "rat option"

definition role_name :: "node_diag \<Rightarrow> string" where
  "role_name d = (case map_of ROLE_NAMES (nd_role d) of
       Some s \<Rightarrow> s | None \<Rightarrow> ''Unknown('' @ str_of_int (nd_role d) @ '')'')"

definition is_router :: "node_diag \<Rightarrow> bool" where
  "is_router d = (nd_role d = ROLE_ROUTER \<or> nd_role d = ROLE_LEADER)"

definition self_entry_router_ids :: "route list \<Rightarrow> int list" where
  "self_entry_router_ids routes = remdups (map rt_router_id (filter is_self routes))"

definition router_id :: "node_diag \<Rightarrow> int option" where
  "router_id d = (if \<not> is_router d then None
     else (case self_entry_router_ids (nd_routes d) of [r] \<Rightarrow> Some r | _ \<Rightarrow> None))"

definition nd_rloc16 :: "node_diag \<Rightarrow> int option" where
  "nd_rloc16 d = map_option (\<lambda>r. r * 1024) (router_id d)"

text \<open>\<open>max\<close> and \<open>min\<close> with a key: the first of the extreme elements.\<close>

definition first_max :: "('a \<Rightarrow> int) \<Rightarrow> 'a list \<Rightarrow> 'a" where
  "first_max key xs = foldl (\<lambda>best x. if key best < key x then x else best) (hd xs) (tl xs)"

definition first_min :: "('a \<Rightarrow> int) \<Rightarrow> 'a list \<Rightarrow> 'a" where
  "first_min key xs = first_max (\<lambda>x. - key x) xs"

definition parent :: "node_diag \<Rightarrow> neighbour option" where
  "parent d = (if is_router d then None
     else (let candidates = filter (\<lambda>n. nb_rx_on_when_idle n \<and> nb_full_thread_device n) (nd_neighbours d);
               strangers = filter (\<lambda>n. \<not> nb_is_child n) candidates;
               preferred = (if strangers \<noteq> [] then strangers else candidates)
           in if candidates = [] then None
              else Some (first_max (\<lambda>n. case nb_avg_rssi n of Some r \<Rightarrow> r | None \<Rightarrow> - 1000) preferred)))"

definition children :: "node_diag \<Rightarrow> neighbour list" where
  "children d = filter nb_is_child (nd_neighbours d)"

definition best_rssi :: "node_diag \<Rightarrow> int option" where
  "best_rssi d = (let values = List.map_filter nb_rssi (nd_neighbours d)
     in if values = [] then None else Some (Max (set values)))"

definition path_cost_to_leader :: "node_diag \<Rightarrow> int option" where
  "path_cost_to_leader d = (case nd_leader_router_id d of
       None \<Rightarrow> None
     | Some l \<Rightarrow> map_option rt_path_cost (find (\<lambda>r. rt_router_id r = l) (nd_routes d)))"

text \<open>\<open>attr_id in attribute_list\<close>, and the counters the device says it has.\<close>

fun read_counters :: "diag_attrs \<Rightarrow> pyval list \<Rightarrow> (int \<times> string) list \<Rightarrow> (string \<times> int) list py_result" where
  "read_counters attrs listed [] = Inr []"
| "read_counters attrs listed ((attr_id, name) # rest) =
     (if list_ex (\<lambda>v. eq_int v attr_id) listed
      then py_bind (opt_int (diag_attr attrs attr_id)) (\<lambda>r.
             py_bind (read_counters attrs listed rest) (\<lambda>cs.
               Inr (case r of None \<Rightarrow> cs | Some n \<Rightarrow> (name, n) # cs)))
      else read_counters attrs listed rest)"

definition counters_of :: "diag_attrs \<Rightarrow> (string \<times> int) list py_result" where
  "counters_of attrs = (case diag_attr attrs ATTR_ATTRIBUTE_LIST of
       PList listed \<Rightarrow> read_counters attrs listed COUNTER_ATTRS | _ \<Rightarrow> Inr [])"

definition diag_role :: "diag_attrs \<Rightarrow> (int \<times> bool) option py_result" where
  "diag_role attrs = py_bind (opt_int (diag_attr attrs ATTR_ROUTING_ROLE)) (\<lambda>role.
     Inr (case role of
        Some r \<Rightarrow> Some (r, False)
      | None \<Rightarrow> if has_thread_cluster_data attrs then Some (ROLE_UNSPECIFIED, True) else None))"

definition ambiguity :: "int \<Rightarrow> route list \<Rightarrow> diag_warning list" where
  "ambiguity role routes =
     (let cands = self_entry_router_ids routes
      in if (role = ROLE_ROUTER \<or> role = ROLE_LEADER) \<and> 1 < length cands
         then [SelfAmbiguous (sort cands)] else [])"

definition parse_node_diag ::
  "(pyval \<Rightarrow> string) \<Rightarrow> int \<Rightarrow> string \<Rightarrow> bool \<Rightarrow> diag_attrs \<Rightarrow> node_diag option py_result" where
  "parse_node_diag repr node_id name available attrs =
     py_bind (diag_role attrs) (\<lambda>r. case r of
       None \<Rightarrow> Inr None
     | Some (role, unreadable) \<Rightarrow>
         py_bind (parse_neighbours (diag_attr attrs ATTR_NEIGHBOR_TABLE)) (\<lambda>(neighbours, ws, known).
         py_bind (parse_routes (diag_attr attrs ATTR_ROUTE_TABLE)) (\<lambda>(routes, rws).
         py_bind (counters_of attrs) (\<lambda>counters.
         py_bind (opt_int (diag_attr attrs ATTR_CHANNEL)) (\<lambda>channel.
         py_bind (opt_int (diag_attr attrs ATTR_PAN_ID)) (\<lambda>pan.
         py_bind (opt_int (diag_attr attrs ATTR_EXTENDED_PAN_ID)) (\<lambda>ext_pan.
         py_bind (opt_int (diag_attr attrs ATTR_PARTITION_ID)) (\<lambda>partition.
         py_bind (opt_int (diag_attr attrs ATTR_LEADER_ROUTER_ID)) (\<lambda>leader.
           Inr (Some \<lparr>nd_node_id = node_id, nd_name = name, nd_available = available, nd_role = role,
             nd_channel = channel,
             nd_network_name = (let v = diag_attr attrs ATTR_NETWORK_NAME
                                in if truthy v then py_str repr v else []),
             nd_pan_id = pan, nd_ext_pan_id = ext_pan, nd_partition_id = partition,
             nd_leader_router_id = leader, nd_neighbours = neighbours, nd_routes = routes,
             nd_counters = counters, nd_live = False,
             nd_read_error = (if unreadable then Some ''RoutingRole unreadable'' else None),
             nd_parse_warnings = ws @ rws @ ambiguity role routes, nd_neighbours_known = known,
             nd_last_interview = None, nd_last_event_seen = None\<rparr>))))))))))"

section \<open>Health\<close>

datatype severity = SevInfo | SevWarn | SevBad

text \<open>What a flag says: \<open>WeakLink\<close> carries the reading and whether it is the last one, \<open>FrameErrors\<close>
  the percentage, the neighbour's RLOC16 and the name a mesh resolved it to.\<close>

datatype flag_code = Detached | RouterIdUnknown | NeighboursUnknown | WeakLink int bool
  | FrameErrors int int "string option" | NoNeighbours | OneNeighbour | NoParent | FarFromLeader int
  | UnstableParent int | Stale "age option"

record health_flag =
  hf_node_key :: string
  hf_severity :: severity
  hf_code :: flag_code

definition mesh_key :: "node_diag \<Rightarrow> string" where
  "mesh_key d = ''node:0x'' @ hex_of_int (nd_node_id d)"

definition router_key :: "int \<Rightarrow> string" where
  "router_key r = ''rid:'' @ str_of_int r"

text \<open>The format \<open>:04X\<close>; the sign of a negative number counts.\<close>

definition hex4 :: "int \<Rightarrow> string" where
  "hex4 n = (let s = hex_of_int n
     in if n < 0 then CHR ''-'' # replicate (4 - length s) CHR ''0'' @ tl s else replicate (4 - length s) CHR ''0'' @ s)"

definition child_key :: "int \<Rightarrow> string" where
  "child_key rloc = ''child:0x'' @ hex4 rloc"

definition worst_reading :: "neighbour \<Rightarrow> (int \<times> bool) option" where
  "worst_reading n = (case (nb_avg_rssi n, nb_last_rssi n) of
       (None, None) \<Rightarrow> None
     | (None, Some l) \<Rightarrow> Some (l, True)
     | (Some a, None) \<Rightarrow> Some (a, False)
     | (Some a, Some l) \<Rightarrow> if l \<le> a then Some (l, True) else Some (a, False))"

definition worst_link_reading :: "node_diag \<Rightarrow> (int \<times> bool) option" where
  "worst_link_reading d = (if is_router d
     then (let readings = List.map_filter worst_reading (nd_neighbours d)
           in if readings = [] then None else Some (first_max fst readings))
     else (case parent d of None \<Rightarrow> None | Some p \<Rightarrow> worst_reading p))"

definition mesh_flag :: "node_diag \<Rightarrow> severity \<Rightarrow> flag_code \<Rightarrow> health_flag" where
  "mesh_flag d sev code = \<lparr>hf_node_key = mesh_key d, hf_severity = sev, hf_code = code\<rparr>"

definition link_flags :: "node_diag \<Rightarrow> health_flag list" where
  "link_flags d =
     (case worst_link_reading d of
        None \<Rightarrow> []
      | Some (rssi, is_last) \<Rightarrow>
          if rssi < RSSI_BAD then [mesh_flag d SevBad (WeakLink rssi is_last)]
          else if rssi < RSSI_WEAK then [mesh_flag d SevWarn (WeakLink rssi is_last)] else []) @
     map (\<lambda>n. mesh_flag d SevWarn (FrameErrors (nb_frame_error_pct n) (nb_rloc16 n) None))
         (filter (\<lambda>n. FRAME_ERROR_HIGH < nb_frame_error_pct n) (nd_neighbours d)) @
     (if is_router d
      then (if length (nd_neighbours d) = 0 then [mesh_flag d SevBad NoNeighbours]
            else if length (nd_neighbours d) = 1 then [mesh_flag d SevWarn OneNeighbour] else [])
      else if parent d = None then [mesh_flag d SevBad NoParent] else [])"

definition stale_flags :: "node_diag \<Rightarrow> rat \<Rightarrow> health_flag list" where
  "stale_flags d now =
     (if \<not> nd_live d \<and> \<not> is_router d
      then [mesh_flag d SevInfo (Stale (case nd_last_interview d of
              Some t \<Rightarrow> age_phrase (now - t) | None \<Rightarrow> None))]
      else [])"

definition health_flags :: "node_diag \<Rightarrow> rat \<Rightarrow> health_flag list" where
  "health_flags d now =
     (if nd_role d = ROLE_UNSPECIFIED \<or> nd_role d = ROLE_UNASSIGNED \<or> \<not> nd_available d
      then [mesh_flag d SevBad Detached] else []) @
     (if is_router d \<and> router_id d = None then [mesh_flag d SevWarn RouterIdUnknown] else []) @
     (if \<not> nd_neighbours_known d then [mesh_flag d SevInfo NeighboursUnknown] else link_flags d) @
     (case path_cost_to_leader d of
        Some cost \<Rightarrow> if PATH_COST_FAR \<le> cost then [mesh_flag d SevWarn (FarFromLeader cost)] else []
      | None \<Rightarrow> []) @
     (case map_of (nd_counters d) ''parent_changes'' of
        Some n \<Rightarrow> if PARENT_CHANGES_HIGH \<le> n then [mesh_flag d SevWarn (UnstableParent n)] else []
      | None \<Rightarrow> []) @
     stale_flags d now"

definition summary_states :: "node_diag \<Rightarrow> rat \<Rightarrow> pydict" where
  "summary_states d now =
     (if \<not> nd_neighbours_known d then [(''threadRole'', PStr (role_name d))]
      else (let sevs = map hf_severity (filter (\<lambda>f. hf_severity f \<noteq> SevInfo) (health_flags d now));
                health = (if SevBad \<in> set sevs then ''bad'' else if SevWarn \<in> set sevs then ''warn'' else ''ok'');
                rssi = (if is_router d then best_rssi d
                        else (case parent d of None \<Rightarrow> None | Some p \<Rightarrow> nb_rssi p))
            in [(''threadRole'', PStr (role_name d)),
                (''threadNeighbourCount'', PInt (int (length (nd_neighbours d)))),
                (''threadHealth'', PStr health)] @
               (case rssi of None \<Rightarrow> [] | Some r \<Rightarrow> [(''threadLinkRssi'', PInt r)])))"

end
