(* ===== verification/HandlerRegistry.thy ===== *)
theory HandlerRegistry
  imports HandlerLights HandlerActuators HandlerSensors ThreadMesh
begin

text \<open>
  \<open>matter_handlers/registry.py\<close>: the handlers in priority order with their common interface
  (\<open>ClusterHandler\<close> of \<open>base.py\<close>), the devices an endpoint produces and the dispatch of updates,
  events and actions; and \<open>thread_network_diagnostics.py\<close>, the handler that keeps a cache.

  A method of the interface is a function by cases over the handler. What the handlers need of the
  platform is the record \<open>platform\<close>: the powers of its C library and the text of a value that is
  not a text, a number, a boolean or \<open>None\<close>.
\<close>

section \<open>Thread diagnostics\<close>

record platform =
  pf_pow :: "rat \<Rightarrow> rat \<Rightarrow> rat"
  pf_pow10 :: "rat \<Rightarrow> rat py_result"
  pf_repr :: "pyval \<Rightarrow> string"

type_synonym thread_cache = "(int \<times> (int \<times> pyval) list) list"

definition SUBSCRIBED_ATTRS :: "int list" where
  "SUBSCRIBED_ATTRS = [ATTR_ROUTING_ROLE, ATTR_NEIGHBOR_TABLE, ATTR_ROUTE_TABLE, ATTR_LEADER_ROUTER_ID,
     ATTR_PARENT_CHANGE_COUNT, ATTR_ATTRIBUTE_LIST]"

definition cached_attrs :: "thread_cache \<Rightarrow> int \<Rightarrow> (int \<times> pyval) list" where
  "cached_attrs cache node_id = (case map_of cache node_id of None \<Rightarrow> [] | Some d \<Rightarrow> d)"

text \<open>The states of the whole cluster as the cache knows it, once its role and its neighbour table
  have been seen. No clock is read: a node parsed here has no interview time.\<close>

definition thread_states :: "platform \<Rightarrow> matter_dev \<Rightarrow> int \<Rightarrow> (int \<times> pyval) list \<Rightarrow> pydict py_result" where
  "thread_states pf dev node_id attrs =
     (if map_of attrs ATTR_ROUTING_ROLE = None \<or> map_of attrs ATTR_NEIGHBOR_TABLE = None then Inr []
      else py_bind (parse_node_diag (pf_repr pf) node_id (md_name dev)
                      (truthy (dget_or (md_states dev) ''reachable'' (PBool True)))
                      (map (\<lambda>(a, raw). (AtPath (0, CLUSTER_THREAD_DIAG, a), raw)) attrs)) (\<lambda>diag.
             Inr (case diag of
                    None \<Rightarrow> []
                  | Some d \<Rightarrow> filter (\<lambda>p. has_state dev (fst p)) (summary_states d 0))))"

definition thread_update ::
  "platform \<Rightarrow> matter_dev \<Rightarrow> int \<Rightarrow> pyval \<Rightarrow> thread_cache \<Rightarrow> pydict py_result \<times> thread_cache" where
  "thread_update pf dev attribute v cache =
     (if attribute \<notin> set SUBSCRIBED_ATTRS then (Inr [], cache)
      else (case node_endpoint dev of
              Inl e \<Rightarrow> (if e = KeyError \<or> e = TypeError \<or> e = ValueError then Inr [] else Inl e, cache)
            | Inr (node_id, _) \<Rightarrow>
                (let attrs = AList.update attribute v (cached_attrs cache node_id)
                 in (thread_states pf dev node_id attrs, AList.update node_id attrs cache))))"

section \<open>The interface\<close>

datatype handler_class = ColorControlH | LevelControlH | OnOffH | SensorH sensor_kind | ThermostatH
  | FanControlH | WindowCoveringH | DoorLockH | ValveH | GenericSwitchH | SmokeCOAlarmH
  | ElectricalPowerH | ElectricalEnergyH | BooleanStateConfigH | PowerSourceH | BasicInformationH
  | ThreadDiagnosticsH

fun cluster_id :: "handler_class \<Rightarrow> int" where
  "cluster_id ColorControlH = 768"
| "cluster_id LevelControlH = 8"
| "cluster_id OnOffH = 6"
| "cluster_id (SensorH k) = sensor_cluster k"
| "cluster_id ThermostatH = 513"
| "cluster_id FanControlH = 514"
| "cluster_id WindowCoveringH = 258"
| "cluster_id DoorLockH = 257"
| "cluster_id ValveH = 129"
| "cluster_id GenericSwitchH = 59"
| "cluster_id SmokeCOAlarmH = 92"
| "cluster_id ElectricalPowerH = 144"
| "cluster_id ElectricalEnergyH = 145"
| "cluster_id BooleanStateConfigH = 128"
| "cluster_id PowerSourceH = 47"
| "cluster_id BasicInformationH = 40"
| "cluster_id ThreadDiagnosticsH = 53"

text \<open>The empty text is a handler that owns no device type.\<close>

fun device_type_id :: "handler_class \<Rightarrow> string" where
  "device_type_id ColorControlH = ''matterColorDimmer''"
| "device_type_id LevelControlH = ''matterDimmer''"
| "device_type_id OnOffH = ''matterRelay''"
| "device_type_id (SensorH k) = sensor_type k"
| "device_type_id ThermostatH = ''matterThermostat''"
| "device_type_id FanControlH = ''matterFan''"
| "device_type_id WindowCoveringH = ''matterWindowCovering''"
| "device_type_id DoorLockH = ''matterLock''"
| "device_type_id ValveH = ''matterValve''"
| "device_type_id GenericSwitchH = ''matterButton''"
| "device_type_id SmokeCOAlarmH = ''matterSmokeCOAlarm''"
| "device_type_id BasicInformationH = ''matterNode''"
| "device_type_id ThreadDiagnosticsH = ''matterNode''"
| "device_type_id _ = []"

definition node_scoped :: "handler_class \<Rightarrow> bool" where
  "node_scoped h = (h = PowerSourceH)"

fun display_props :: "handler_class \<Rightarrow> pydict" where
  "display_props (SensorH k) = sensor_display k"
| "display_props SmokeCOAlarmH = [(''SupportsOnState'', PBool True), (''SupportsSensorValue'', PBool False)]"
| "display_props GenericSwitchH = [(''SupportsOnState'', PBool False), (''SupportsSensorValue'', PBool False)]"
| "display_props _ = []"

fun is_primary_for :: "handler_class \<Rightarrow> endpoint_info \<Rightarrow> bool" where
  "is_primary_for LevelControlH endpoint = level_primary endpoint"
| "is_primary_for OnOffH endpoint = on_off_primary endpoint"
| "is_primary_for FanControlH endpoint = fan_primary endpoint"
| "is_primary_for ElectricalPowerH endpoint = False"
| "is_primary_for ElectricalEnergyH endpoint = False"
| "is_primary_for BooleanStateConfigH endpoint = False"
| "is_primary_for PowerSourceH endpoint = False"
| "is_primary_for BasicInformationH endpoint = False"
| "is_primary_for ThreadDiagnosticsH endpoint = False"
| "is_primary_for _ endpoint = True"

fun create_indigo_devices :: "handler_class \<Rightarrow> node_info \<Rightarrow> endpoint_info \<Rightarrow> indigo_spec list" where
  "create_indigo_devices ColorControlH node endpoint = color_create node endpoint"
| "create_indigo_devices LevelControlH node endpoint = level_create node endpoint"
| "create_indigo_devices OnOffH node endpoint = on_off_create node endpoint"
| "create_indigo_devices (SensorH k) node endpoint = sensor_create k node endpoint"
| "create_indigo_devices ThermostatH node endpoint = thermostat_create node endpoint"
| "create_indigo_devices FanControlH node endpoint = fan_create node endpoint"
| "create_indigo_devices WindowCoveringH node endpoint = covering_create node endpoint"
| "create_indigo_devices DoorLockH node endpoint = lock_create node endpoint"
| "create_indigo_devices ValveH node endpoint = valve_create node endpoint"
| "create_indigo_devices GenericSwitchH node endpoint = button_create node endpoint"
| "create_indigo_devices SmokeCOAlarmH node endpoint = smoke_create node endpoint"
| "create_indigo_devices _ node endpoint = []"

fun on_attribute_update ::
  "platform \<Rightarrow> handler_class \<Rightarrow> matter_dev \<Rightarrow> int \<Rightarrow> pyval \<Rightarrow> thread_cache \<Rightarrow> pydict py_result \<times> thread_cache" where
  "on_attribute_update pf ColorControlH dev a v cache = (color_update (pf_pow pf) dev a v, cache)"
| "on_attribute_update pf LevelControlH dev a v cache = (level_update dev a v, cache)"
| "on_attribute_update pf OnOffH dev a v cache = (on_off_update dev a v, cache)"
| "on_attribute_update pf (SensorH k) dev a v cache = (sensor_update (pf_pow10 pf) k dev a v, cache)"
| "on_attribute_update pf ThermostatH dev a v cache = (thermostat_update dev a v, cache)"
| "on_attribute_update pf FanControlH dev a v cache = (fan_update dev a v, cache)"
| "on_attribute_update pf WindowCoveringH dev a v cache = (covering_update dev a v, cache)"
| "on_attribute_update pf DoorLockH dev a v cache = (lock_update dev a v, cache)"
| "on_attribute_update pf ValveH dev a v cache = (valve_update dev a v, cache)"
| "on_attribute_update pf GenericSwitchH dev a v cache = (Inr [], cache)"
| "on_attribute_update pf SmokeCOAlarmH dev a v cache = (smoke_update a v, cache)"
| "on_attribute_update pf ElectricalPowerH dev a v cache = (power_update dev a v, cache)"
| "on_attribute_update pf ElectricalEnergyH dev a v cache = (energy_update dev a v, cache)"
| "on_attribute_update pf BooleanStateConfigH dev a v cache = (sensitivity_update dev a v, cache)"
| "on_attribute_update pf PowerSourceH dev a v cache = (battery_update dev a v, cache)"
| "on_attribute_update pf BasicInformationH dev a v cache = (identity_update (pf_repr pf) dev a v, cache)"
| "on_attribute_update pf ThreadDiagnosticsH dev a v cache = thread_update pf dev a v cache"

fun attributes_to_subscribe :: "handler_class \<Rightarrow> int list" where
  "attributes_to_subscribe ColorControlH =
     [ATTR_CURRENT_HUE, ATTR_CURRENT_SATURATION, ATTR_CURRENT_X, ATTR_CURRENT_Y, ATTR_COLOR_TEMP_MIREDS,
      ATTR_COLOR_CAPABILITIES]"
| "attributes_to_subscribe OnOffH = [0, ATTR_START_UP_ON_OFF]"
| "attributes_to_subscribe (SensorH k) = (if k = Occupancy then [0, ATTR_HOLD_TIME] else [0])"
| "attributes_to_subscribe ThermostatH =
     [ATTR_LOCAL_TEMPERATURE, ATTR_OCCUPIED_COOLING_SETPOINT, ATTR_OCCUPIED_HEATING_SETPOINT,
      ATTR_SYSTEM_MODE, ATTR_RUNNING_STATE]"
| "attributes_to_subscribe FanControlH = [ATTR_FAN_MODE, ATTR_PERCENT_SETTING, ATTR_PERCENT_CURRENT]"
| "attributes_to_subscribe WindowCoveringH = [ATTR_CURRENT_LIFT_PERCENT100THS]"
| "attributes_to_subscribe ValveH = [ATTR_CURRENT_STATE]"
| "attributes_to_subscribe GenericSwitchH = [1]"
| "attributes_to_subscribe SmokeCOAlarmH = [0, 1, 2, 3, 7]"
| "attributes_to_subscribe ElectricalPowerH = [ATTR_ACTIVE_POWER]"
| "attributes_to_subscribe ElectricalEnergyH = [ATTR_CUMULATIVE_IMPORTED]"
| "attributes_to_subscribe PowerSourceH = [ATTR_BAT_PERCENT_REMAINING, ATTR_ENDPOINT_LIST]"
| "attributes_to_subscribe BasicInformationH = [5, 10]"
| "attributes_to_subscribe ThreadDiagnosticsH = sort SUBSCRIBED_ATTRS"
| "attributes_to_subscribe _ = [0]"

definition on_node_event :: "handler_class \<Rightarrow> matter_dev \<Rightarrow> int \<Rightarrow> pyval \<Rightarrow> pydict py_result" where
  "on_node_event h dev event_id data = (if h = GenericSwitchH then button_event dev event_id data else Inr [])"

fun format_kv :: "handler_class \<Rightarrow> pydict \<Rightarrow> kv_entry list" where
  "format_kv (SensorH k) states = sensor_kv k states"
| "format_kv _ states = plain_kv states"

fun handle_indigo_action :: "platform \<Rightarrow> handler_class \<Rightarrow> matter_dev \<Rightarrow> indigo_action \<Rightarrow> acted" where
  "handle_indigo_action pf ColorControlH dev action = color_action (pf_pow pf) dev action"
| "handle_indigo_action pf LevelControlH dev action = level_action dev action"
| "handle_indigo_action pf OnOffH dev action = on_off_action dev action"
| "handle_indigo_action pf ThermostatH dev action = thermostat_action_for dev action"
| "handle_indigo_action pf FanControlH dev action = fan_action dev action"
| "handle_indigo_action pf WindowCoveringH dev action = covering_action dev action"
| "handle_indigo_action pf DoorLockH dev action = lock_action dev action"
| "handle_indigo_action pf ValveH dev action = valve_action dev action"
| "handle_indigo_action pf _ dev action = no_action"

section \<open>The registry\<close>

definition default_handlers :: "handler_class list" where
  "default_handlers =
     [ColorControlH, LevelControlH, OnOffH, SensorH Temperature, SensorH Humidity, SensorH Occupancy,
      SensorH Contact, SensorH Illuminance, SensorH Pressure, SensorH Flow, ThermostatH, FanControlH,
      WindowCoveringH, DoorLockH, ValveH, GenericSwitchH, SmokeCOAlarmH, SensorH AirQuality, SensorH CO2,
      SensorH PM25, SensorH TVOC, ElectricalPowerH, ElectricalEnergyH, BooleanStateConfigH, PowerSourceH,
      BasicInformationH, ThreadDiagnosticsH]"

definition handlers_for_endpoint :: "node_info \<Rightarrow> endpoint_info \<Rightarrow> indigo_spec list" where
  "handlers_for_endpoint node endpoint =
     concat (map (\<lambda>h. create_indigo_devices h node endpoint)
       (filter (\<lambda>h. ei_has endpoint (cluster_id h) \<and> is_primary_for h endpoint) default_handlers))"

text \<open>The dictionaries by cluster and by device type: the last handler with a key has it.\<close>

definition handler_for_cluster :: "int \<Rightarrow> handler_class option" where
  "handler_for_cluster cluster = find (\<lambda>h. cluster_id h = cluster) (rev default_handlers)"

definition handler_for_device :: "matter_dev \<Rightarrow> handler_class option" where
  "handler_for_device dev = (case md_device_type_id dev of
       None \<Rightarrow> None
     | Some t \<Rightarrow> find (\<lambda>h. device_type_id h = t \<and> t \<noteq> []) (rev default_handlers))"

end
