(* ===== verification/HandlerFacts.thy ===== *)
theory HandlerFacts
  imports HandlerRegistry
begin

text \<open>
  Properties of the cluster handlers: which devices an endpoint becomes, what a null report may
  write, conversions there and back, the arguments of commands, the counting of button presses and
  the coverage of power sources.
\<close>

section \<open>Devices of an endpoint\<close>

definition creates_device :: "handler_class \<Rightarrow> bool" where
  "creates_device h = (h \<notin> {ElectricalPowerH, ElectricalEnergyH, BooleanStateConfigH, PowerSourceH,
     BasicInformationH, ThreadDiagnosticsH})"

lemma create_types:
  "is_primary_for h endpoint \<Longrightarrow> map sp_device_type_id (create_indigo_devices h node endpoint) =
     (if creates_device h then [device_type_id h] else [])"
  by (cases h) (simp_all add: creates_device_def color_create_def level_create_def on_off_create_def
      sensor_create_def thermostat_create_def fan_create_def covering_create_def lock_create_def
      valve_create_def button_create_def smoke_create_def new_device_def)

lemma concat_types:
  "(\<And>h. h \<in> set hs \<Longrightarrow> is_primary_for h endpoint) \<Longrightarrow>
     map sp_device_type_id (concat (map (\<lambda>h. create_indigo_devices h node endpoint) hs)) =
     map device_type_id (filter creates_device hs)"
  by (induction hs) (simp_all add: create_types)

lemma endpoint_types:
  "map sp_device_type_id (handlers_for_endpoint node endpoint) =
     map device_type_id (filter (\<lambda>h. creates_device h \<and> ei_has endpoint (cluster_id h) \<and> is_primary_for h endpoint)
       default_handlers)"
  unfolding handlers_for_endpoint_def by (subst concat_types) (auto simp: conj_commute conj_left_commute)

definition LIGHT_TYPES :: "string list" where
  "LIGHT_TYPES = [''matterColorDimmer'', ''matterDimmer'', ''matterRelay'']"

lemma light_handlers:
  "filter (\<lambda>h. device_type_id h \<in> set LIGHT_TYPES) default_handlers = [ColorControlH, LevelControlH, OnOffH]"
  by code_simp

lemma creating_types_distinct: "distinct (map device_type_id (filter creates_device default_handlers))"
  by code_simp

text \<open>C31: the devices of an endpoint have different types, and at most one of them is a light: the colour
  light if the endpoint has colour control, else the dimmer if it has level control, else the relay;
  none of the last two when another cluster owns the endpoint.\<close>

theorem one_light_per_endpoint:
  "distinct (map sp_device_type_id (handlers_for_endpoint node endpoint))
   \<and> filter (\<lambda>t. t \<in> set LIGHT_TYPES) (map sp_device_type_id (handlers_for_endpoint node endpoint)) =
       (if ei_has endpoint CLUSTER_COLOR_CONTROL then [''matterColorDimmer'']
        else if has_owner endpoint then []
        else if ei_has endpoint CLUSTER_LEVEL_CONTROL then [''matterDimmer'']
        else if ei_has endpoint CLUSTER_ON_OFF then [''matterRelay''] else [])"
proof
  let ?P = "\<lambda>h. creates_device h \<and> ei_has endpoint (cluster_id h) \<and> is_primary_for h endpoint"
  have "filter ?P default_handlers = filter (\<lambda>h. ei_has endpoint (cluster_id h) \<and> is_primary_for h endpoint)
      (filter creates_device default_handlers)"
    by (simp add: conj_commute conj_left_commute)
  then show "distinct (map sp_device_type_id (handlers_for_endpoint node endpoint))"
    unfolding endpoint_types by (simp only: distinct_map_filter [OF creating_types_distinct])
  have "filter (\<lambda>t. t \<in> set LIGHT_TYPES) (map device_type_id (filter ?P default_handlers)) =
      map device_type_id (filter ?P (filter (\<lambda>h. device_type_id h \<in> set LIGHT_TYPES) default_handlers))"
    by (simp add: filter_map o_def conj_commute conj_left_commute)
  then show "filter (\<lambda>t. t \<in> set LIGHT_TYPES) (map sp_device_type_id (handlers_for_endpoint node endpoint)) =
       (if ei_has endpoint CLUSTER_COLOR_CONTROL then [''matterColorDimmer'']
        else if has_owner endpoint then []
        else if ei_has endpoint CLUSTER_LEVEL_CONTROL then [''matterDimmer'']
        else if ei_has endpoint CLUSTER_ON_OFF then [''matterRelay''] else [])"
    unfolding endpoint_types light_handlers
    by (simp add: creates_device_def level_primary_def on_off_primary_def CLUSTER_COLOR_CONTROL_def
        CLUSTER_LEVEL_CONTROL_def CLUSTER_ON_OFF_def)
qed

text \<open>A cluster has one handler, and a handler is found under its own cluster.\<close>

theorem cluster_dispatch:
  "handler_for_cluster (cluster_id h) = Some h \<and> (handler_for_cluster c = Some h' \<longrightarrow> cluster_id h' = c)"
proof
  have "list_all (\<lambda>h. handler_for_cluster (cluster_id h) = Some h) default_handlers" by code_simp
  moreover have "h \<in> set default_handlers"
    by (cases h) (simp_all add: default_handlers_def, metis sensor_kind.exhaust)
  ultimately show "handler_for_cluster (cluster_id h) = Some h" by (auto simp: list_all_iff)
  show "handler_for_cluster c = Some h' \<longrightarrow> cluster_id h' = c"
    by (auto simp: handler_for_cluster_def find_Some_iff)
qed

section \<open>Null reports\<close>

lemma guarded_null: "guarded dev k (Inr []) = Inr []" by (simp add: guarded_def)

text \<open>A null report writes no state, with two exceptions: the on-off handler writes its device off,
  and the Thread handler, for which a null counts as a reading of the cluster.\<close>

theorem null_report:
  assumes "h \<noteq> ThreadDiagnosticsH"
  shows "on_attribute_update pf h dev attribute PNone cache =
    (Inr (if h = OnOffH \<and> attribute = 0 then [(''onOffState'', PBool False)] else []), cache)"
proof (cases h)
  case (SensorH k)
  then show ?thesis
    by (cases k) (simp_all add: sensor_update_def occupancy_update_def measured_update_def air_quality_update_def)
qed (use assms in \<open>simp_all add: color_update_def level_update_def on_off_update_def thermostat_update_def
  fan_update_def covering_update_def lock_update_def valve_update_def smoke_update_def power_update_def
  energy_update_def parse_active_power_mw_def parse_energy_struct_mwh_def sensitivity_update_def
  parse_sensitivity_def battery_update_def identity_update_def\<close>)

section \<open>Conversions\<close>

text \<open>A handler reads nothing it does not name: a report of any other attribute of its cluster
  changes no state and no cache.\<close>

theorem only_subscribed_read:
  assumes "attribute \<notin> set (attributes_to_subscribe h)"
  shows "on_attribute_update pf h dev attribute v cache = (Inr [], cache)"
proof (cases h)
  case (SensorH k)
  with assms show ?thesis
    by (cases k) (simp_all add: sensor_update_def occupancy_update_def air_quality_update_def measured_update_def)
next
  case ThermostatH
  with assms show ?thesis by (auto simp: thermostat_update_def)
qed (use assms in \<open>auto simp: color_update_def level_update_def on_off_update_def fan_update_def covering_update_def
  lock_update_def valve_update_def smoke_update_def power_update_def energy_update_def sensitivity_update_def
  battery_update_def identity_update_def thread_update_def xy_update_def hue_sat_update_def\<close>)

lemma true_div_fl:
  assumes "\<bar>a\<bar> \<le> 2 ^ 40" "0 < b" "b \<le> 2 ^ 40"
  shows "true_div a b = Inr (fl (of_int a / of_int b))"
proof -
  have "to_double (of_int a / of_int b) = Fin (fl (of_int a / of_int b))"
  proof (rule to_double_fl)
    have a: "(\<bar>of_int a\<bar> :: rat) \<le> 2 ^ 40"
      using assms(1) by (metis (mono_tags, lifting) of_int_abs of_int_le_iff of_int_numeral of_int_power)
    have b: "1 \<le> (of_int b :: rat)" "(of_int b :: rat) \<le> 2 ^ 40"
      using assms(2,3) by (simp, metis (mono_tags, lifting) of_int_le_iff of_int_numeral of_int_power)
    have "\<bar>of_int a / (of_int b :: rat)\<bar> \<le> \<bar>of_int a\<bar>" using b(1) by (simp add: abs_divide divide_le_eq mult_le_cancel_left1)
    also have "\<dots> \<le> 2 ^ 100" using a by simp
    finally show "\<bar>of_int a / (of_int b :: rat)\<bar> \<le> 2 ^ 100" .
    show "of_int a / (of_int b :: rat) = 0 \<or> 2 powi (- 100) \<le> \<bar>of_int a / (of_int b :: rat)\<bar>"
    proof (cases "a = 0")
      case False
      then have "1 \<le> (\<bar>of_int a\<bar> :: rat)"
        by (metis of_int_1_le_iff of_int_abs zero_less_abs_iff zless_imp_add1_zle add_0)
      then have "1 / 2 ^ 40 \<le> \<bar>of_int a / (of_int b :: rat)\<bar>"
        using b by (simp add: abs_divide frac_le)
      moreover have "(2::rat) powi (- 100) \<le> 1 / 2 ^ 40" by (simp add: power_int_minus)
      ultimately show ?thesis by linarith
    qed simp
  qed
  then show ?thesis by (simp add: true_div_def)
qed

text \<open>Chains of rounding errors.\<close>

lemma near_rounded:
  fixes a f x :: rat
  assumes "\<bar>f - x\<bar> \<le> 1 / 1000" "\<bar>2 * (a - f)\<bar> \<le> 1" shows "\<bar>a - x\<bar> \<le> 501 / 1000"
  using assms by (auto simp: abs_if field_simps split: if_splits)

lemma near_level:
  fixes l p :: rat
  assumes "\<bar>l - 254 / 100 * p\<bar> \<le> 501 / 1000" "0 \<le> p" "p \<le> 100" shows "- 1 < l" "l < 255"
  using assms by (auto simp: abs_if field_simps split: if_splits)

lemma near_level_back:
  fixes l p x f :: rat
  assumes "\<bar>l - 254 / 100 * p\<bar> \<le> 501 / 1000" "x = 100 / 254 * l" "\<bar>f - x\<bar> \<le> 1 / 1000" shows "\<bar>f - p\<bar> < 1 / 2"
  using assms by (auto simp: abs_if field_simps split: if_splits)

text \<open>A rounded quotient is within half a unit of the exact one, up to the error of a double.\<close>

lemma rounded_div_near:
  assumes "0 < b" "\<bar>a\<bar> \<le> 30000 * b"
  shows "\<bar>of_int (round_rat (fl (of_int a / of_int b))) - of_int a / (of_int b :: rat)\<bar> \<le> 501 / 1000"
proof -
  define x where "x = of_int a / (of_int b :: rat)"
  have b: "0 < (of_int b :: rat)" using assms(1) by simp
  have "\<bar>of_int a\<bar> \<le> (30000 * of_int b :: rat)"
    using assms(2) by (metis (mono_tags, lifting) of_int_abs of_int_le_iff of_int_mult of_int_numeral)
  then have "\<bar>x\<bar> \<le> 30000" using b by (simp add: x_def abs_divide divide_le_eq)
  moreover have "\<bar>fl x - x\<bar> \<le> \<bar>x\<bar> / 2 ^ 53" by (rule fl_near)
  ultimately have "\<bar>fl x - x\<bar> \<le> 1 / 1000" by simp
  moreover have "\<bar>2 * (of_int (round_rat (fl x)) - fl x)\<bar> \<le> 1" by (rule round_rat_near)
  ultimately show ?thesis unfolding x_def [symmetric] by (rule near_rounded)
qed

text \<open>A brightness of 0 to 100 per cent comes back from the Matter level it is sent as.\<close>

theorem level_roundtrip:
  assumes "0 \<le> p" "p \<le> 100"
  shows "py_bind (pct_to_level (NumI p)) level_to_pct = Inr p"
proof -
  define l where "l = round_rat (fl (of_int (p * 254) / of_int 100))"
  have sent: "true_div (p * 254) 100 = Inr (fl (of_int (p * 254) / of_int 100))"
    using assms by (intro true_div_fl) simp_all
  have near: "\<bar>of_int l - of_int (p * 254) / (of_int 100 :: rat)\<bar> \<le> 501 / 1000"
    unfolding l_def using assms by (intro rounded_div_near) simp_all
  have pr: "0 \<le> (of_int p :: rat)" "(of_int p :: rat) \<le> 100" using assms by simp_all
  have "of_int (p * 254) / (of_int 100 :: rat) = 254 / 100 * of_int p" by simp
  note near = near [unfolded this]
  have "of_int (- 1) < (of_int l :: rat)" "(of_int l :: rat) < of_int 255"
    using near_level [OF near pr] by simp_all
  then have l: "0 \<le> l" "l \<le> 254" by (simp_all only: of_int_less_iff)
  with sent have lev: "pct_to_level (NumI p) = Inr l" by (simp add: pct_to_level_def clamp_def l_def)
  have home: "true_div (l * 100) 254 = Inr (fl (of_int (l * 100) / of_int 254))"
    using l by (intro true_div_fl) simp_all
  have "round_rat (fl (of_int (l * 100) / of_int 254)) = p"
  proof (rule round_rat_unique)
    define x where "x = (of_int (l * 100) / of_int 254 :: rat)"
    have "\<bar>x\<bar> \<le> 100" using l by (simp add: x_def)
    moreover have "\<bar>fl x - x\<bar> \<le> \<bar>x\<bar> / 2 ^ 53" by (rule fl_near)
    ultimately have "\<bar>fl x - x\<bar> \<le> 1 / 1000" by simp
    have "x = 100 / 254 * of_int l" by (simp add: x_def)
    from near_level_back [OF near this \<open>\<bar>fl x - x\<bar> \<le> 1 / 1000\<close>] have "\<bar>fl x - of_int p\<bar> < 1 / 2" .
    then show "2 * \<bar>fl (of_int (l * 100) / of_int 254) - of_int p\<bar> < 1" by (simp add: x_def)
  qed
  then show ?thesis using assms by (simp add: lev level_to_pct_def home clamp_def)
qed

text \<open>A covering's opening comes back from the lift position it is sent as, and no report puts the
  brightness outside 0 to 100.\<close>

theorem lift_roundtrip:
  assumes "0 \<le> b" "b \<le> 100"
  shows "py_bind (brightness_to_lift_pct100ths (NumI b)) (\<lambda>n. lift_pct100ths_to_brightness (PInt n)) = Inr b"
proof -
  have "true_div ((100 - b) * 100) 100 = Inr (fl (of_int ((100 - b) * 100) / of_int 100))"
    using assms by (intro true_div_fl) simp_all
  also have "of_int ((100 - b) * 100) / of_int 100 = (of_int (100 - b) :: rat)" by simp
  also have "fl (of_int (100 - b)) = of_int (100 - b)" using assms by (intro fl_of_int) simp
  finally have d: "true_div ((100 - b) * 100) 100 = Inr (of_int (100 - b))" .
  have "round_rat (of_int (100 - b)) = 100 - b" by (rule round_rat_int)
  with assms d show ?thesis
    by (simp add: brightness_to_lift_pct100ths_def num_int_def lift_pct100ths_to_brightness_def)
qed


text \<open>A setpoint of whole tenths of a degree comes back exactly from the hundredths it is written as.\<close>

lemma tenths_near:
  fixes k :: int
  assumes "\<bar>k\<bar> \<le> 10000"
  shows "\<bar>fl (of_int k / 10) - of_int k / 10\<bar> \<le> 1 / 100000"
proof -
  have "(\<bar>of_int k\<bar> :: rat) \<le> 10000" using assms by (metis of_int_abs of_int_le_iff of_int_numeral)
  then have "\<bar>of_int k / 10 :: rat\<bar> \<le> 1000" by (simp add: abs_divide)
  with fl_near [of "of_int k / 10"] show ?thesis by simp
qed

lemma tenths_size:
  assumes "\<bar>k\<bar> \<le> 10000" "k \<noteq> 0"
  shows "1 / 100 \<le> \<bar>fl (of_int k / 10)\<bar>" "\<bar>fl (of_int k / 10)\<bar> \<le> 1001"
proof -
  have "1 \<le> (\<bar>of_int k\<bar> :: rat)" "(\<bar>of_int k\<bar> :: rat) \<le> 10000"
    using assms by (metis of_int_1_le_iff of_int_abs zero_less_abs_iff zless_imp_add1_zle add_0,
      metis of_int_abs of_int_le_iff of_int_numeral)
  with tenths_near [OF assms(1)] show "1 / 100 \<le> \<bar>fl (of_int k / 10)\<bar>" "\<bar>fl (of_int k / 10)\<bar> \<le> 1001"
    by (auto simp: abs_if field_simps split: if_splits)
qed

lemma near_hundred:
  fixes f x y :: rat
  assumes "\<bar>x - k / 10\<bar> \<le> 1 / 100000" "\<bar>f - 100 * x\<bar> \<le> 1 / 1000" shows "2 * \<bar>f - 10 * k\<bar> < 1"
  using assms by (auto simp: abs_if field_simps split: if_splits)

lemma near_ten:
  fixes f k :: rat
  assumes "\<bar>f - k / 10\<bar> \<le> 1 / 100000" shows "2 * \<bar>f * 10 - k\<bar> < 1"
  using assms by (auto simp: abs_if field_simps split: if_splits)

text \<open>A set-point with one decimal, sent as hundredths of a degree, is what a thermostat that
  echoes it is shown with.\<close>

theorem setpoint_roundtrip:
  assumes "\<bar>k\<bar> \<le> 10000"
  shows "in_centi (NumF (Fin (fl (of_int k / 10)))) = Inr (10 * k)
    \<and> in_celsius (PInt (10 * k)) = Inr (fl (of_int k / 10))"
proof
  define c where "c = fl (of_int k / 10)"
  have near: "\<bar>c - of_int k / 10\<bar> \<le> 1 / 100000" unfolding c_def by (rule tenths_near [OF assms])
  have "to_double (100 * c) = Fin (fl (100 * c))"
  proof (cases "k = 0")
    case False
    from tenths_size [OF assms this] have "1 / 100 \<le> \<bar>c\<bar>" "\<bar>c\<bar> \<le> 1001" by (simp_all add: c_def)
    then have "1 \<le> \<bar>100 * c\<bar>" "\<bar>100 * c\<bar> \<le> 100100" by (simp_all add: abs_mult)
    moreover have "(2::rat) powi (- 100) \<le> 1" by (simp add: power_int_minus)
    ultimately show ?thesis by (intro to_double_fl) auto
  qed (simp add: c_def fl_def to_double_def)
  moreover have "round_rat (fl (100 * c)) = 10 * k"
  proof (rule round_rat_unique)
    have "\<bar>100 * c\<bar> \<le> 100100"
      using tenths_size(2) [OF assms] by (cases "k = 0") (simp_all add: c_def abs_mult fl_def)
    with fl_near [of "100 * c"] have "\<bar>fl (100 * c) - 100 * c\<bar> \<le> 1 / 1000" by simp
    from near_hundred [OF near this] show "2 * \<bar>fl (100 * c) - of_int (10 * k)\<bar> < 1" by simp
  qed
  ultimately show "in_centi (NumF (Fin (fl (of_int k / 10)))) = Inr (10 * k)"
    by (simp add: in_centi_def num_float_def c_def)
  have "\<not> 2 ^ 1024 - 2 ^ 970 \<le> \<bar>10 * k\<bar>"
  proof -
    have "(2::int) ^ 970 * 2 \<le> 2 ^ 970 * 2 ^ 54" by (intro mult_left_mono) simp_all
    then have "(2::int) ^ 970 \<le> 2 ^ 1024 - 2 ^ 970" by (simp flip: power_add)
    moreover have "(2::int) ^ 20 \<le> 2 ^ 970" by (rule power_increasing) simp_all
    ultimately show ?thesis using assms by simp
  qed
  moreover have "fl (of_int (10 * k)) = (of_int (10 * k) :: rat)" using assms by (intro fl_of_int) simp
  ultimately have "float_of_int (10 * k) = Inr (of_int (10 * k))" by (simp only: float_of_int_def if_False)
  moreover have "fdiv (of_int (10 * k)) 100 = c" by (simp add: fdiv_def c_def)
  moreover have "round_rat (c * 10) = k" by (rule round_rat_unique, rule near_ten [OF near])
  ultimately show "in_celsius (PInt (10 * k)) = Inr (fl (of_int k / 10))"
    by (simp add: in_celsius_def round_digits_def)
qed

section \<open>Button presses\<close>

definition apply_updates :: "matter_dev \<Rightarrow> pydict \<Rightarrow> matter_dev" where
  "apply_updates dev ups = dev\<lparr>md_states := dict_over (md_states dev) ups\<rparr>"

fun press_all :: "matter_dev \<Rightarrow> (int \<times> pyval) list \<Rightarrow> matter_dev py_result" where
  "press_all dev [] = Inr dev"
| "press_all dev ((event_id, data) # evs) =
     py_bind (on_node_event GenericSwitchH dev event_id data) (\<lambda>ups. press_all (apply_updates dev ups) evs)"

text \<open>What a momentary switch sends for one short press, by its features: the release if it has
  releases, and the close of the sequence if it counts multiple presses.\<close>

definition click_events :: "int \<Rightarrow> (int \<times> pyval) list" where
  "click_events f = (EVT_INITIAL_PRESS, PNone) #
     (if and f 4 \<noteq> 0 then [(EVT_SHORT_RELEASE, PNone)] else []) @
     (if and f 16 \<noteq> 0
      then [(EVT_MULTI_PRESS_COMPLETE, PDict [(''totalNumberOfPressesCounted'', PInt 1)])] else [])"

lemma terminal_features: "and f TERMINAL_PRESS_FEATURES = 0 \<longleftrightarrow> and f 4 = 0 \<and> and f 8 = 0 \<and> and f 16 = 0" for f :: int
proof -
  have t: "TERMINAL_PRESS_FEATURES = or 4 (or 8 16)" by (simp add: TERMINAL_PRESS_FEATURES_def)
  show ?thesis by (simp only: t bit.conj_disj_distrib or_eq_0_iff)
qed

text \<open>One short press counts once, whatever the features of the switch: the initial press counts
  exactly when nothing else will, and the close of a single press adds nothing.\<close>

theorem one_press_one_count:
  assumes "map_of (md_plugin_props dev) ''switchFeatureMap'' = Some (PStr (str_of_int f))"
    and "and f FEATURE_MOMENTARY_SWITCH \<noteq> 0"
    and "and f 8 \<noteq> 0 \<or> and f 16 \<noteq> 0 \<longrightarrow> and f 4 \<noteq> 0"
    and "map_of (md_states dev) ''pressCount'' = Some (PInt n)"
  shows "\<exists>dev'. press_all dev (click_events f) = Inr dev'
    \<and> map_of (md_states dev') ''pressCount'' = Some (PInt (n + 1))
    \<and> map_of (md_states dev') ''lastButtonEvent'' = Some (PStr ''shortPress'')"
proof -
  have ne: "str_of_int f \<noteq> []" by (auto simp: str_of_int_def digits_of_nonempty)
  have terminal: "and f TERMINAL_PRESS_FEATURES = 0 \<longleftrightarrow> and f 4 = 0"
    using assms(3) by (auto simp: terminal_features)
  have init: "device_maps_initial_press dev = Inr (and f 4 = 0)"
    using assms(1,2) ne terminal
    by (simp add: device_maps_initial_press_def dget_def Let_def int_of_text_str tolerant_def maps_initial_press_def)
  note defs = click_events_def on_node_event_def button_event_def press_label_def multi_press_label_def
    EVT_INITIAL_PRESS_def EVT_SHORT_RELEASE_def EVT_LONG_PRESS_def EVT_MULTI_PRESS_COMPLETE_def
    dget_or_def apply_updates_def dict_over_def or_empty_def init assms(4)
  show ?thesis
  proof (cases "and f 4 = 0")
    case True
    with assms(3) have "and f 16 = 0" by auto
    with True show ?thesis by (simp add: defs update_conv')
  next
    case False
    then show ?thesis by (simp add: defs update_conv')
  qed
qed

section \<open>Power sources\<close>

lemma cover_sources_lookup:
  assumes "cover_sources several everything reported eps d listed notes = Inr (d', listed', notes')"
    and "distinct eps" and "set eps \<inter> fst ` set d = {}"
  shows "map_of d' s = (if s \<in> set eps
      then Some (source_coverage several everything s (projr (parse_endpoint_list (reported s)))) else map_of d s)
    \<and> listed' = listed \<union> {s \<in> set eps. projr (parse_endpoint_list (reported s)) \<noteq> None}
    \<and> (distinct (map fst d) \<longrightarrow> distinct (map fst d'))"
  using assms
proof (induction eps arbitrary: d listed "notes")
  case (Cons e eps)
  then obtain r where r: "parse_endpoint_list (reported e) = Inr r"
    and rest: "cover_sources several everything reported eps
      (AList.update e (source_coverage several everything e r) d)
      (if r = None then listed else insert e listed)
      (if r = None \<and> reported e \<noteq> PNone then notes @ [e] else notes) = Inr (d', listed', notes')"
    by (auto simp: py_bind_Inr)
  have "set eps \<inter> fst ` set (AList.update e (source_coverage several everything e r) d) = {}"
    using Cons.prems(2,3) by (auto simp: dom_update)
  from Cons.IH [OF rest _ this] Cons.prems(2) r show ?case
    by (auto simp: update_conv' distinct_update)
qed simp

text \<open>Every power source of a node powers its own endpoint; a source that reported a usable list
  powers exactly that list (or the node, if it is empty) and itself, also beside sources that
  did not; of several sources without a list each powers its own endpoint only.\<close>

theorem power_coverage:
  assumes "resolve_power_coverage sources reported endpoints = Inr (pc, notes)"
    and "distinct sources" and "set sources \<subseteq> set endpoints" and "s \<in> set sources"
  shows "map_of (pc_by_source pc) s = Some (case projr (parse_endpoint_list (reported s)) of
      Some eps \<Rightarrow> if eps = {} then set endpoints else insert s eps
    | None \<Rightarrow> if 1 < length sources then {s} else set endpoints)
   \<and> s \<in> pc_covered pc
   \<and> (s \<in> pc_from_endpoint_list pc \<longleftrightarrow> projr (parse_endpoint_list (reported s)) \<noteq> None)"
proof -
  obtain d listed where run: "cover_sources (1 < length sources) (set endpoints) reported (sort sources) [] {} []
      = Inr (d, listed, notes)"
    and pc: "pc = \<lparr>pc_by_source = d, pc_covered = \<Union> (snd ` set d), pc_from_endpoint_list = listed\<rparr>"
    using assms(1) by (auto simp: resolve_power_coverage_def py_bind_Inr)
  note look = cover_sources_lookup [OF run, of s]
  have d: "map_of d s = Some (source_coverage (1 < length sources) (set endpoints) s (projr (parse_endpoint_list (reported s))))"
    and l: "listed = {s \<in> set sources. projr (parse_endpoint_list (reported s)) \<noteq> None}"
    using look assms(2,4) by simp_all
  let ?c = "case projr (parse_endpoint_list (reported s)) of
      Some eps \<Rightarrow> if eps = {} then set endpoints else insert s eps
    | None \<Rightarrow> if 1 < length sources then {s} else set endpoints"
  have c: "source_coverage (1 < length sources) (set endpoints) s (projr (parse_endpoint_list (reported s))) = ?c"
    by (auto simp: source_coverage_def split: option.splits)
  then have "s \<in> ?c" using assms(3,4) by (auto split: option.splits)
  moreover have "?c \<in> snd ` set d" using map_of_SomeD [OF d] c by (metis image_eqI snd_conv)
  ultimately have "s \<in> \<Union> (snd ` set d)" by blast
  with d l c assms(4) show ?thesis by (simp add: pc)
qed

section \<open>Commands of lights\<close>






















section \<open>Witnesses\<close>

definition demo_light :: matter_dev where
  "demo_light = \<lparr>md_device_type_id = Some ''matterColorDimmer'', md_name = ''Lamp'',
     md_plugin_props = [(''nodeId'', PStr ''5''), (''endpointId'', PStr ''1''), (''switchFeatureMap'', PStr ''6'')],
     md_states = [(''pressCount'', PInt 3)], md_brightness = NumI 40, md_on_state = Some (PBool True),
     md_heat_setpoint = NumI 20, md_cool_setpoint = NumI 24\<rparr>"


lemma null_report_witness:
  "map (\<lambda>h. fst (on_attribute_update \<lparr>pf_pow = \<lambda>u w. u, pf_pow10 = \<lambda>u. Inr u, pf_repr = \<lambda>v. []\<rparr> h demo_light 0 PNone [])) [DoorLockH, OnOffH]
   = [Inr [], Inr [(''onOffState'', PBool False)]]"
  by (simp add: null_report del: on_attribute_update.simps)

lemma cluster_dispatch_witness:
  "handler_for_cluster (cluster_id DoorLockH) = Some DoorLockH \<and> handler_for_cluster 257 = Some DoorLockH"
  using cluster_dispatch [of DoorLockH 257 DoorLockH] by simp

lemma level_roundtrip_witness: "py_bind (pct_to_level (NumI 33)) level_to_pct = Inr 33"
  by (rule level_roundtrip) simp_all

lemma lift_roundtrip_witness:
  "py_bind (brightness_to_lift_pct100ths (NumI 25)) (\<lambda>n. lift_pct100ths_to_brightness (PInt n)) = Inr 25"
  by (rule lift_roundtrip) simp_all

lemma setpoint_roundtrip_witness:
  "in_centi (NumF (Fin (fl (205 / 10)))) = Inr 2050 \<and> in_celsius (PInt 2050) = Inr (fl (205 / 10))"
  using setpoint_roundtrip [of 205] by simp

lemma one_press_one_count_witness:
  "\<exists>dev'. press_all demo_light [(EVT_INITIAL_PRESS, PNone), (EVT_SHORT_RELEASE, PNone)] = Inr dev'
    \<and> map_of (md_states dev') ''pressCount'' = Some (PInt 4)
    \<and> map_of (md_states dev') ''lastButtonEvent'' = Some (PStr ''shortPress'')"
proof -
  have "str_of_int 6 = ''6''" by code_simp
  then show ?thesis
    using one_press_one_count [of demo_light 6 3]
    by (simp add: demo_light_def click_events_def FEATURE_MOMENTARY_SWITCH_def)
qed

lemma power_coverage_witness:
  "\<exists>pc notes. resolve_power_coverage [0, 3] (\<lambda>e::int. if e = 3 then PList [PInt 3, PInt 4] else PNone) [0, 1, 3, 4] = Inr (pc, notes)
    \<and> map_of (pc_by_source pc) 3 = Some {3, 4} \<and> 3 \<in> pc_covered pc"
proof -
  let ?rep = "\<lambda>e::int. if e = 3 then PList [PInt 3, PInt 4] else PNone :: pyval"
  have p: "parse_endpoint_list (?rep 3) = Inr (Some {3, 4})" "parse_endpoint_list (?rep 0) = Inr None"
    by (simp_all add: parse_endpoint_list_def tolerant_def)
  obtain pc "notes" where r: "resolve_power_coverage [0, 3] ?rep [0, 1, 3, 4] = Inr (pc, notes)"
    using p by (auto simp: resolve_power_coverage_def)
  from power_coverage [OF r, of 3] p have "map_of (pc_by_source pc) 3 = Some {3, 4} \<and> 3 \<in> pc_covered pc" by simp
  with r show ?thesis by blast
qed


lemma only_subscribed_read_witness:
  "on_attribute_update \<lparr>pf_pow = \<lambda>u w. u, pf_pow10 = \<lambda>u. Inr u, pf_repr = \<lambda>v. []\<rparr> PowerSourceH demo_light 11 (PInt 50) []
   = (Inr [], [])"
  by (rule only_subscribed_read) (simp add: ATTR_BAT_PERCENT_REMAINING_def ATTR_ENDPOINT_LIST_def)

end
