(* ===== verification/AttributeTable.thy ===== *)
theory AttributeTable
  imports Main
begin

text \<open>
  \<open>matter_handlers/writable_attributes.py\<close>, the generated table of the data model of Matter: the names
  of the clusters and of their attributes, which attributes can be written, and which of those share
  their name with a field of a command. A set is a list in increasing order; the names of the
  attributes are cut at cluster boundaries.
\<close>

definition CLUSTER_NAMES :: "(int \<times> string) list" where
  "CLUSTER_NAMES =
    [(3, ''Identify''), (4, ''Groups''), (6, ''OnOff''), (8, ''LevelControl''), (29, ''Descriptor''),
     (30, ''Binding''), (31, ''AccessControl''), (37, ''Actions''), (40, ''BasicInformation''),
     (41, ''OtaSoftwareUpdateProvider''), (42, ''OtaSoftwareUpdateRequestor''),
     (43, ''LocalizationConfiguration''), (44, ''TimeFormatLocalization''), (45, ''UnitLocalization''),
     (46, ''PowerSourceConfiguration''), (47, ''PowerSource''), (48, ''GeneralCommissioning''),
     (49, ''NetworkCommissioning''), (50, ''DiagnosticLogs''), (51, ''GeneralDiagnostics''),
     (52, ''SoftwareDiagnostics''), (53, ''ThreadNetworkDiagnostics''), (54, ''WiFiNetworkDiagnostics''),
     (55, ''EthernetNetworkDiagnostics''), (56, ''TimeSynchronization''),
     (57, ''BridgedDeviceBasicInformation''), (59, ''Switch''), (60, ''AdministratorCommissioning''),
     (62, ''OperationalCredentials''), (63, ''GroupKeyManagement''), (64, ''FixedLabel''),
     (65, ''UserLabel''), (69, ''BooleanState''), (70, ''IcdManagement''),
     (72, ''OvenCavityOperationalState''), (73, ''OvenMode''), (74, ''LaundryDryerControls''),
     (80, ''ModeSelect''), (81, ''LaundryWasherMode''),
     (82, ''RefrigeratorAndTemperatureControlledCabinetMode''), (83, ''LaundryWasherControls''),
     (84, ''RvcRunMode''), (85, ''RvcCleanMode''), (86, ''TemperatureControl''), (87, ''RefrigeratorAlarm''),
     (89, ''DishwasherMode''), (91, ''AirQuality''), (92, ''SmokeCoAlarm''), (93, ''DishwasherAlarm''),
     (94, ''MicrowaveOvenMode''), (95, ''MicrowaveOvenControl''), (96, ''OperationalState''),
     (97, ''RvcOperationalState''), (98, ''ScenesManagement''), (100, ''TemperatureAlarm''),
     (101, ''Groupcast''), (113, ''HepaFilterMonitoring''), (114, ''ActivatedCarbonFilterMonitoring''),
     (121, ''WaterTankLevelMonitoring''), (128, ''BooleanStateConfiguration''),
     (129, ''ValveConfigurationAndControl''), (144, ''ElectricalPowerMeasurement''),
     (145, ''ElectricalEnergyMeasurement''), (148, ''WaterHeaterManagement''), (149, ''CommodityPrice''),
     (151, ''Messages''), (152, ''DeviceEnergyManagement''), (153, ''EnergyEvse''),
     (155, ''EnergyPreference''), (156, ''PowerTopology''), (157, ''EnergyEvseMode''),
     (158, ''WaterHeaterMode''), (159, ''DeviceEnergyManagementMode''), (160, ''ElectricalGridConditions''),
     (257, ''DoorLock''), (258, ''WindowCovering''), (260, ''ClosureControl''), (261, ''ClosureDimension''),
     (336, ''ServiceArea''), (512, ''PumpConfigurationAndControl''), (513, ''Thermostat''),
     (514, ''FanControl''), (516, ''ThermostatUserInterfaceConfiguration''), (768, ''ColorControl''),
     (1024, ''IlluminanceMeasurement''), (1026, ''TemperatureMeasurement''), (1027, ''PressureMeasurement''),
     (1028, ''FlowMeasurement''), (1029, ''RelativeHumidityMeasurement''), (1030, ''OccupancySensing''),
     (1036, ''CarbonMonoxideConcentrationMeasurement''), (1037, ''CarbonDioxideConcentrationMeasurement''),
     (1043, ''NitrogenDioxideConcentrationMeasurement''), (1045, ''OzoneConcentrationMeasurement''),
     (1066, ''Pm25ConcentrationMeasurement''), (1067, ''FormaldehydeConcentrationMeasurement''),
     (1068, ''Pm1ConcentrationMeasurement''), (1069, ''Pm10ConcentrationMeasurement''),
     (1070, ''TotalVolatileOrganicCompoundsConcentrationMeasurement''),
     (1071, ''RadonConcentrationMeasurement''), (1072, ''SoilMeasurement''),
     (1073, ''AmbientContextSensing''), (1105, ''WiFiNetworkManagement''),
     (1106, ''ThreadBorderRouterManagement''), (1107, ''ThreadNetworkDirectory''), (1283, ''WakeOnLan''),
     (1284, ''Channel''), (1285, ''TargetNavigator''), (1286, ''MediaPlayback''), (1287, ''MediaInput''),
     (1288, ''LowPower''), (1289, ''KeypadInput''), (1290, ''ContentLauncher''), (1291, ''AudioOutput''),
     (1292, ''ApplicationLauncher''), (1293, ''ApplicationBasic''), (1294, ''AccountLogin''),
     (1295, ''ContentControl''), (1296, ''ContentAppObserver''), (1360, ''ZoneManagement''),
     (1361, ''CameraAvStreamManagement''), (1362, ''CameraAvSettingsUserLevelManagement''),
     (1363, ''WebRtcTransportProvider''), (1364, ''WebRtcTransportRequestor''),
     (1365, ''PushAvStreamTransport''), (1366, ''Chime''), (1792, ''CommodityTariff''),
     (1872, ''EcosystemInformation''), (1873, ''CommissionerControl''), (1874, ''JointFabricDatastore''),
     (1875, ''JointFabricAdministrator''), (2049, ''TlsCertificateManagement''),
     (2050, ''TlsClientManagement''), (2822, ''MeterIdentification''), (2823, ''CommodityMetering'')]"

definition ATTRIBUTE_NAMES_1 :: "(int \<times> (int \<times> string) list) list" where
  "ATTRIBUTE_NAMES_1 =
    [(3, [(0, ''IdentifyTime''), (1, ''IdentifyType''), (65533, ''ClusterRevision'')]),
     (4, [(0, ''NameSupport''), (65532, ''FeatureMap''), (65533, ''ClusterRevision'')]),
     (6, [(0, ''OnOff''), (16384, ''GlobalSceneControl''), (16385, ''OnTime''), (16386, ''OffWaitTime''),
       (16387, ''StartUpOnOff''), (65532, ''FeatureMap''), (65533, ''ClusterRevision'')]),
     (8, [(0, ''CurrentLevel''), (1, ''RemainingTime''), (2, ''MinLevel''), (3, ''MaxLevel''),
       (4, ''CurrentFrequency''), (5, ''MinFrequency''), (6, ''MaxFrequency''), (15, ''Options''),
       (16, ''OnOffTransitionTime''), (17, ''OnLevel''), (18, ''OnTransitionTime''),
       (19, ''OffTransitionTime''), (20, ''DefaultMoveRate''), (16384, ''StartUpCurrentLevel''),
       (65532, ''FeatureMap''), (65533, ''ClusterRevision'')]),
     (29, [(0, ''DeviceTypeList''), (1, ''ServerList''), (2, ''ClientList''), (3, ''PartsList''), (4, ''TagList''),
       (5, ''EndpointUniqueId''), (65532, ''FeatureMap''), (65533, ''ClusterRevision'')]),
     (30, [(0, ''Binding''), (65533, ''ClusterRevision'')]),
     (31, [(0, ''Acl''), (1, ''Extension''), (2, ''SubjectsPerAccessControlEntry''),
       (3, ''TargetsPerAccessControlEntry''), (4, ''AccessControlEntriesPerFabric''),
       (5, ''CommissioningArl''), (6, ''Arl''), (7, ''AuxiliaryAcl''), (65532, ''FeatureMap''),
       (65533, ''ClusterRevision'')]),
     (37, [(0, ''ActionList''), (1, ''EndpointLists''), (2, ''SetupUrl''), (65533, ''ClusterRevision'')]),
     (40, [(0, ''DataModelRevision''), (1, ''VendorName''), (2, ''VendorId''), (3, ''ProductName''),
       (4, ''ProductId''), (5, ''NodeLabel''), (6, ''Location''), (7, ''HardwareVersion''),
       (8, ''HardwareVersionString''), (9, ''SoftwareVersion''), (10, ''SoftwareVersionString''),
       (11, ''ManufacturingDate''), (12, ''PartNumber''), (13, ''ProductUrl''), (14, ''ProductLabel''),
       (15, ''SerialNumber''), (16, ''LocalConfigDisabled''), (17, ''Reachable''), (18, ''UniqueId''),
       (19, ''CapabilityMinima''), (20, ''ProductAppearance''), (21, ''SpecificationVersion''),
       (22, ''MaxPathsPerInvoke''), (24, ''ConfigurationVersion''), (65533, ''ClusterRevision'')]),
     (41, [(65533, ''ClusterRevision'')]),
     (42, [(0, ''DefaultOtaProviders''), (1, ''UpdatePossible''), (2, ''UpdateState''),
       (3, ''UpdateStateProgress''), (65533, ''ClusterRevision'')]),
     (43, [(0, ''ActiveLocale''), (1, ''SupportedLocales''), (65533, ''ClusterRevision'')]),
     (44, [(0, ''HourFormat''), (1, ''ActiveCalendarType''), (2, ''SupportedCalendarTypes''),
       (65532, ''FeatureMap''), (65533, ''ClusterRevision'')]),
     (45, [(0, ''TemperatureUnit''), (1, ''SupportedTemperatureUnits''), (65532, ''FeatureMap''),
       (65533, ''ClusterRevision'')]),
     (46, [(0, ''Sources''), (65533, ''ClusterRevision'')])]"

definition ATTRIBUTE_NAMES_2 :: "(int \<times> (int \<times> string) list) list" where
  "ATTRIBUTE_NAMES_2 =
    [(47, [(0, ''Status''), (1, ''Order''), (2, ''Description''), (3, ''WiredAssessedInputVoltage''),
       (4, ''WiredAssessedInputFrequency''), (5, ''WiredCurrentType''), (6, ''WiredAssessedCurrent''),
       (7, ''WiredNominalVoltage''), (8, ''WiredMaximumCurrent''), (9, ''WiredPresent''),
       (10, ''ActiveWiredFaults''), (11, ''BatVoltage''), (12, ''BatPercentRemaining''),
       (13, ''BatTimeRemaining''), (14, ''BatChargeLevel''), (15, ''BatReplacementNeeded''),
       (16, ''BatReplaceability''), (17, ''BatPresent''), (18, ''ActiveBatFaults''),
       (19, ''BatReplacementDescription''), (20, ''BatCommonDesignation''), (21, ''BatAnsiDesignation''),
       (22, ''BatIecDesignation''), (23, ''BatApprovedChemistry''), (24, ''BatCapacity''),
       (25, ''BatQuantity''), (26, ''BatChargeState''), (27, ''BatTimeToFullCharge''),
       (28, ''BatFunctionalWhileCharging''), (29, ''BatChargingCurrent''), (30, ''ActiveBatChargeFaults''),
       (31, ''EndpointList''), (65532, ''FeatureMap''), (65533, ''ClusterRevision'')]),
     (48, [(0, ''Breadcrumb''), (1, ''BasicCommissioningInfo''), (2, ''RegulatoryConfig''),
       (3, ''LocationCapability''), (4, ''SupportsConcurrentConnection''), (5, ''TcAcceptedVersion''),
       (6, ''TcMinRequiredVersion''), (7, ''TcAcknowledgements''), (8, ''TcAcknowledgementsRequired''),
       (9, ''TcUpdateDeadline''), (10, ''RecoveryIdentifier''), (11, ''NetworkRecoveryReason''),
       (12, ''IsCommissioningWithoutPower''), (65532, ''FeatureMap''), (65533, ''ClusterRevision'')]),
     (49, [(0, ''MaxNetworks''), (1, ''Networks''), (2, ''ScanMaxTimeSeconds''), (3, ''ConnectMaxTimeSeconds''),
       (4, ''InterfaceEnabled''), (5, ''LastNetworkingStatus''), (6, ''LastNetworkId''),
       (7, ''LastConnectErrorValue''), (8, ''SupportedWiFiBands''), (9, ''SupportedThreadFeatures''),
       (10, ''ThreadVersion''), (65532, ''FeatureMap''), (65533, ''ClusterRevision'')]),
     (50, [(65533, ''ClusterRevision'')]),
     (51, [(0, ''NetworkInterfaces''), (1, ''RebootCount''), (2, ''UpTime''), (3, ''TotalOperationalHours''),
       (4, ''BootReason''), (5, ''ActiveHardwareFaults''), (6, ''ActiveRadioFaults''),
       (7, ''ActiveNetworkFaults''), (8, ''TestEventTriggersEnabled''), (10, ''DeviceLoadStatus''),
       (65532, ''FeatureMap''), (65533, ''ClusterRevision'')]),
     (52, [(0, ''ThreadMetrics''), (1, ''CurrentHeapFree''), (2, ''CurrentHeapUsed''),
       (3, ''CurrentHeapHighWatermark''), (65532, ''FeatureMap''), (65533, ''ClusterRevision'')])]"

definition ATTRIBUTE_NAMES_3 :: "(int \<times> (int \<times> string) list) list" where
  "ATTRIBUTE_NAMES_3 =
    [(53, [(0, ''Channel''), (1, ''RoutingRole''), (2, ''NetworkName''), (3, ''PanId''), (4, ''ExtendedPanId''),
       (5, ''MeshLocalPrefix''), (6, ''OverrunCount''), (7, ''NeighborTable''), (8, ''RouteTable''),
       (9, ''PartitionId''), (10, ''Weighting''), (11, ''DataVersion''), (12, ''StableDataVersion''),
       (13, ''LeaderRouterId''), (14, ''DetachedRoleCount''), (15, ''ChildRoleCount''),
       (16, ''RouterRoleCount''), (17, ''LeaderRoleCount''), (18, ''AttachAttemptCount''),
       (19, ''PartitionIdChangeCount''), (20, ''BetterPartitionAttachAttemptCount''),
       (21, ''ParentChangeCount''), (22, ''TxTotalCount''), (23, ''TxUnicastCount''),
       (24, ''TxBroadcastCount''), (25, ''TxAckRequestedCount''), (26, ''TxAckedCount''),
       (27, ''TxNoAckRequestedCount''), (28, ''TxDataCount''), (29, ''TxDataPollCount''),
       (30, ''TxBeaconCount''), (31, ''TxBeaconRequestCount''), (32, ''TxOtherCount''), (33, ''TxRetryCount''),
       (34, ''TxDirectMaxRetryExpiryCount''), (35, ''TxIndirectMaxRetryExpiryCount''), (36, ''TxErrCcaCount''),
       (37, ''TxErrAbortCount''), (38, ''TxErrBusyChannelCount''), (39, ''RxTotalCount''),
       (40, ''RxUnicastCount''), (41, ''RxBroadcastCount''), (42, ''RxDataCount''), (43, ''RxDataPollCount''),
       (44, ''RxBeaconCount''), (45, ''RxBeaconRequestCount''), (46, ''RxOtherCount''),
       (47, ''RxAddressFilteredCount''), (48, ''RxDestAddrFilteredCount''), (49, ''RxDuplicatedCount''),
       (50, ''RxErrNoFrameCount''), (51, ''RxErrUnknownNeighborCount''), (52, ''RxErrInvalidSrcAddrCount''),
       (53, ''RxErrSecCount''), (54, ''RxErrFcsCount''), (55, ''RxErrOtherCount''), (56, ''ActiveTimestamp''),
       (57, ''PendingTimestamp''), (58, ''Delay''), (59, ''SecurityPolicy''), (60, ''ChannelPage0Mask''),
       (61, ''OperationalDatasetComponents''), (62, ''ActiveNetworkFaultsList''), (63, ''ExtAddress''),
       (64, ''Rloc16''), (65532, ''FeatureMap''), (65533, ''ClusterRevision'')]),
     (54, [(0, ''Bssid''), (1, ''SecurityType''), (2, ''WiFiVersion''), (3, ''ChannelNumber''), (4, ''Rssi''),
       (5, ''BeaconLostCount''), (6, ''BeaconRxCount''), (7, ''PacketMulticastRxCount''),
       (8, ''PacketMulticastTxCount''), (9, ''PacketUnicastRxCount''), (10, ''PacketUnicastTxCount''),
       (11, ''CurrentMaxRate''), (12, ''OverrunCount''), (65532, ''FeatureMap''), (65533, ''ClusterRevision'')]),
     (55, [(0, ''PhyRate''), (1, ''FullDuplex''), (2, ''PacketRxCount''), (3, ''PacketTxCount''),
       (4, ''TxErrCount''), (5, ''CollisionCount''), (6, ''OverrunCount''), (7, ''CarrierDetect''),
       (8, ''TimeSinceReset''), (65532, ''FeatureMap''), (65533, ''ClusterRevision'')]),
     (56, [(0, ''UtcTime''), (1, ''Granularity''), (2, ''TimeSource''), (3, ''TrustedTimeSource''),
       (4, ''DefaultNtp''), (5, ''TimeZone''), (6, ''DstOffset''), (7, ''LocalTime''),
       (8, ''TimeZoneDatabase''), (9, ''NtpServerAvailable''), (10, ''TimeZoneListMaxSize''),
       (11, ''DstOffsetListMaxSize''), (12, ''SupportsDnsResolve''), (65532, ''FeatureMap''),
       (65533, ''ClusterRevision'')]),
     (57, [(1, ''VendorName''), (2, ''VendorId''), (3, ''ProductName''), (4, ''ProductId''), (5, ''NodeLabel''),
       (7, ''HardwareVersion''), (8, ''HardwareVersionString''), (9, ''SoftwareVersion''),
       (10, ''SoftwareVersionString''), (11, ''ManufacturingDate''), (12, ''PartNumber''),
       (13, ''ProductUrl''), (14, ''ProductLabel''), (15, ''SerialNumber''), (17, ''Reachable''),
       (18, ''UniqueId''), (20, ''ProductAppearance''), (24, ''ConfigurationVersion''),
       (65532, ''FeatureMap''), (65533, ''ClusterRevision'')])]"

definition ATTRIBUTE_NAMES_4 :: "(int \<times> (int \<times> string) list) list" where
  "ATTRIBUTE_NAMES_4 =
    [(59, [(0, ''NumberOfPositions''), (1, ''CurrentPosition''), (2, ''MultiPressMax''), (65532, ''FeatureMap''),
       (65533, ''ClusterRevision'')]),
     (60, [(0, ''WindowStatus''), (1, ''AdminFabricIndex''), (2, ''AdminVendorId''), (65532, ''FeatureMap''),
       (65533, ''ClusterRevision'')]),
     (62, [(0, ''Nocs''), (1, ''Fabrics''), (2, ''SupportedFabrics''), (3, ''CommissionedFabrics''),
       (4, ''TrustedRootCertificates''), (5, ''CurrentFabricIndex''), (65533, ''ClusterRevision'')]),
     (63, [(0, ''GroupKeyMap''), (1, ''GroupTable''), (2, ''MaxGroupsPerFabric''), (3, ''MaxGroupKeysPerFabric''),
       (4, ''GroupcastAdoption''), (65532, ''FeatureMap''), (65533, ''ClusterRevision'')]),
     (64, [(0, ''LabelList''), (65533, ''ClusterRevision'')]),
     (65, [(0, ''LabelList''), (65533, ''ClusterRevision'')]),
     (69, [(0, ''StateValue''), (65532, ''FeatureMap''), (65533, ''ClusterRevision'')]),
     (70, [(0, ''IdleModeDuration''), (1, ''ActiveModeDuration''), (2, ''ActiveModeThreshold''),
       (3, ''RegisteredClients''), (4, ''IcdCounter''), (5, ''ClientsSupportedPerFabric''),
       (6, ''UserActiveModeTriggerHint''), (7, ''UserActiveModeTriggerInstruction''), (8, ''OperatingMode''),
       (9, ''MaximumCheckInBackoff''), (65532, ''FeatureMap''), (65533, ''ClusterRevision'')]),
     (72, [(0, ''PhaseList''), (1, ''CurrentPhase''), (2, ''CountdownTime''), (3, ''OperationalStateList''),
       (4, ''OperationalState''), (5, ''OperationalError''), (65533, ''ClusterRevision'')]),
     (73, [(0, ''SupportedModes''), (1, ''CurrentMode''), (65532, ''FeatureMap''), (65533, ''ClusterRevision'')]),
     (74, [(0, ''SupportedDrynessLevels''), (1, ''SelectedDrynessLevel''), (65533, ''ClusterRevision'')]),
     (80, [(0, ''Description''), (1, ''StandardNamespace''), (2, ''SupportedModes''), (3, ''CurrentMode''),
       (4, ''StartUpMode''), (5, ''OnMode''), (65532, ''FeatureMap''), (65533, ''ClusterRevision'')]),
     (81, [(0, ''SupportedModes''), (1, ''CurrentMode''), (65532, ''FeatureMap''), (65533, ''ClusterRevision'')]),
     (82, [(0, ''SupportedModes''), (1, ''CurrentMode''), (65532, ''FeatureMap''), (65533, ''ClusterRevision'')]),
     (83, [(0, ''SpinSpeeds''), (1, ''SpinSpeedCurrent''), (2, ''NumberOfRinses''), (3, ''SupportedRinses''),
       (65532, ''FeatureMap''), (65533, ''ClusterRevision'')]),
     (84, [(0, ''SupportedModes''), (1, ''CurrentMode''), (65532, ''FeatureMap''), (65533, ''ClusterRevision'')]),
     (85, [(0, ''SupportedModes''), (1, ''CurrentMode''), (65532, ''FeatureMap''), (65533, ''ClusterRevision'')]),
     (86, [(0, ''TemperatureSetpoint''), (1, ''MinTemperature''), (2, ''MaxTemperature''), (3, ''Step''),
       (4, ''SelectedTemperatureLevel''), (5, ''SupportedTemperatureLevels''), (65532, ''FeatureMap''),
       (65533, ''ClusterRevision'')]),
     (87, [(0, ''Mask''), (1, ''Latch''), (2, ''State''), (3, ''Supported''), (65532, ''FeatureMap''),
       (65533, ''ClusterRevision'')])]"

definition ATTRIBUTE_NAMES_5 :: "(int \<times> (int \<times> string) list) list" where
  "ATTRIBUTE_NAMES_5 =
    [(89, [(0, ''SupportedModes''), (1, ''CurrentMode''), (65532, ''FeatureMap''), (65533, ''ClusterRevision'')]),
     (91, [(0, ''AirQuality''), (65532, ''FeatureMap''), (65533, ''ClusterRevision'')]),
     (92, [(0, ''ExpressedState''), (1, ''SmokeState''), (2, ''CoState''), (3, ''BatteryAlert''),
       (4, ''DeviceMuted''), (5, ''TestInProgress''), (6, ''HardwareFaultAlert''), (7, ''EndOfServiceAlert''),
       (8, ''InterconnectSmokeAlarm''), (9, ''InterconnectCoAlarm''), (10, ''ContaminationState''),
       (11, ''SmokeSensitivityLevel''), (12, ''ExpiryDate''), (13, ''Unmounted''), (65532, ''FeatureMap''),
       (65533, ''ClusterRevision'')]),
     (93, [(0, ''Mask''), (1, ''Latch''), (2, ''State''), (3, ''Supported''), (65532, ''FeatureMap''),
       (65533, ''ClusterRevision'')]),
     (94, [(0, ''SupportedModes''), (1, ''CurrentMode''), (65532, ''FeatureMap''), (65533, ''ClusterRevision'')]),
     (95, [(0, ''CookTime''), (1, ''MaxCookTime''), (2, ''PowerSetting''), (3, ''MinPower''), (4, ''MaxPower''),
       (5, ''PowerStep''), (6, ''SupportedWatts''), (7, ''SelectedWattIndex''), (8, ''WattRating''),
       (65532, ''FeatureMap''), (65533, ''ClusterRevision'')]),
     (96, [(0, ''PhaseList''), (1, ''CurrentPhase''), (2, ''CountdownTime''), (3, ''OperationalStateList''),
       (4, ''OperationalState''), (5, ''OperationalError''), (65533, ''ClusterRevision'')]),
     (97, [(0, ''PhaseList''), (1, ''CurrentPhase''), (2, ''CountdownTime''), (3, ''OperationalStateList''),
       (4, ''OperationalState''), (5, ''OperationalError''), (65533, ''ClusterRevision'')]),
     (98, [(1, ''SceneTableSize''), (2, ''FabricSceneInfo''), (65532, ''FeatureMap''), (65533, ''ClusterRevision'')]),
     (100, [(0, ''Mask''), (1, ''Latch''), (2, ''State''), (3, ''Supported''),
       (128, ''CriticalOverTemperatureThreshold''), (129, ''MajorOverTemperatureThreshold''),
       (130, ''MinorOverTemperatureThreshold''), (131, ''MinorUnderTemperatureThreshold''),
       (132, ''MajorUnderTemperatureThreshold''), (133, ''CriticalUnderTemperatureThreshold''),
       (65532, ''FeatureMap''), (65533, ''ClusterRevision'')]),
     (101, [(0, ''Membership''), (1, ''MaxMembershipCount''), (2, ''MaxMcastAddrCount''),
       (3, ''UsedMcastAddrCount''), (4, ''FabricUnderTest''), (65532, ''FeatureMap''),
       (65533, ''ClusterRevision'')]),
     (113, [(0, ''Condition''), (1, ''DegradationDirection''), (2, ''ChangeIndication''), (3, ''InPlaceIndicator''),
       (4, ''LastChangedTime''), (5, ''ReplacementProductList''), (65532, ''FeatureMap''),
       (65533, ''ClusterRevision'')]),
     (114, [(0, ''Condition''), (1, ''DegradationDirection''), (2, ''ChangeIndication''), (3, ''InPlaceIndicator''),
       (4, ''LastChangedTime''), (5, ''ReplacementProductList''), (65532, ''FeatureMap''),
       (65533, ''ClusterRevision'')]),
     (121, [(0, ''Condition''), (1, ''DegradationDirection''), (2, ''ChangeIndication''), (3, ''InPlaceIndicator''),
       (4, ''LastChangedTime''), (5, ''ReplacementProductList''), (65532, ''FeatureMap''),
       (65533, ''ClusterRevision'')])]"

definition ATTRIBUTE_NAMES_6 :: "(int \<times> (int \<times> string) list) list" where
  "ATTRIBUTE_NAMES_6 =
    [(128, [(0, ''CurrentSensitivityLevel''), (1, ''SupportedSensitivityLevels''), (2, ''DefaultSensitivityLevel''),
       (3, ''AlarmsActive''), (4, ''AlarmsSuppressed''), (5, ''AlarmsEnabled''), (6, ''AlarmsSupported''),
       (7, ''SensorFault''), (65532, ''FeatureMap''), (65533, ''ClusterRevision'')]),
     (129, [(0, ''OpenDuration''), (1, ''DefaultOpenDuration''), (2, ''AutoCloseTime''), (3, ''RemainingDuration''),
       (4, ''CurrentState''), (5, ''TargetState''), (6, ''CurrentLevel''), (7, ''TargetLevel''),
       (8, ''DefaultOpenLevel''), (9, ''ValveFault''), (10, ''LevelStep''), (65532, ''FeatureMap''),
       (65533, ''ClusterRevision'')]),
     (144, [(0, ''PowerMode''), (1, ''NumberOfMeasurementTypes''), (2, ''Accuracy''), (3, ''Ranges''),
       (4, ''Voltage''), (5, ''ActiveCurrent''), (6, ''ReactiveCurrent''), (7, ''ApparentCurrent''),
       (8, ''ActivePower''), (9, ''ReactivePower''), (10, ''ApparentPower''), (11, ''RmsVoltage''),
       (12, ''RmsCurrent''), (13, ''RmsPower''), (14, ''Frequency''), (15, ''HarmonicCurrents''),
       (16, ''HarmonicPhases''), (17, ''PowerFactor''), (18, ''NeutralCurrent''), (65532, ''FeatureMap''),
       (65533, ''ClusterRevision'')]),
     (145, [(0, ''Accuracy''), (1, ''CumulativeEnergyImported''), (2, ''CumulativeEnergyExported''),
       (3, ''PeriodicEnergyImported''), (4, ''PeriodicEnergyExported''), (5, ''CumulativeEnergyReset''),
       (65532, ''FeatureMap''), (65533, ''ClusterRevision'')]),
     (148, [(0, ''HeaterTypes''), (1, ''HeatDemand''), (2, ''TankVolume''), (3, ''EstimatedHeatRequired''),
       (4, ''TankPercentage''), (5, ''BoostState''), (65532, ''FeatureMap''), (65533, ''ClusterRevision'')]),
     (149, [(0, ''TariffUnit''), (1, ''Currency''), (2, ''CurrentPrice''), (3, ''PriceForecast''),
       (65532, ''FeatureMap''), (65533, ''ClusterRevision'')]),
     (151, [(0, ''Messages''), (1, ''ActiveMessageIDs''), (65532, ''FeatureMap''), (65533, ''ClusterRevision'')]),
     (152, [(0, ''EsaType''), (1, ''EsaCanGenerate''), (2, ''EsaState''), (3, ''AbsMinPower''),
       (4, ''AbsMaxPower''), (5, ''PowerAdjustmentCapability''), (6, ''Forecast''), (7, ''OptOutState''),
       (65532, ''FeatureMap''), (65533, ''ClusterRevision'')]),
     (153, [(0, ''State''), (1, ''SupplyState''), (2, ''FaultState''), (3, ''ChargingEnabledUntil''),
       (4, ''DischargingEnabledUntil''), (5, ''CircuitCapacity''), (6, ''MinimumChargeCurrent''),
       (7, ''MaximumChargeCurrent''), (8, ''MaximumDischargeCurrent''), (9, ''UserMaximumChargeCurrent''),
       (10, ''RandomizationDelayWindow''), (35, ''NextChargeStartTime''), (36, ''NextChargeTargetTime''),
       (37, ''NextChargeRequiredEnergy''), (38, ''NextChargeTargetSoC''), (39, ''ApproximateEvEfficiency''),
       (48, ''StateOfCharge''), (49, ''BatteryCapacity''), (50, ''VehicleId''), (64, ''SessionId''),
       (65, ''SessionDuration''), (66, ''SessionEnergyCharged''), (67, ''SessionEnergyDischarged''),
       (65532, ''FeatureMap''), (65533, ''ClusterRevision'')]),
     (155, [(0, ''EnergyBalances''), (1, ''CurrentEnergyBalance''), (2, ''EnergyPriorities''),
       (3, ''LowPowerModeSensitivities''), (4, ''CurrentLowPowerModeSensitivity''), (65532, ''FeatureMap''),
       (65533, ''ClusterRevision'')]),
     (156, [(0, ''AvailableEndpoints''), (1, ''ActiveEndpoints''), (65532, ''FeatureMap''),
       (65533, ''ClusterRevision'')])]"

definition ATTRIBUTE_NAMES_7 :: "(int \<times> (int \<times> string) list) list" where
  "ATTRIBUTE_NAMES_7 =
    [(157, [(0, ''SupportedModes''), (1, ''CurrentMode''), (65532, ''FeatureMap''), (65533, ''ClusterRevision'')]),
     (158, [(0, ''SupportedModes''), (1, ''CurrentMode''), (65532, ''FeatureMap''), (65533, ''ClusterRevision'')]),
     (159, [(0, ''SupportedModes''), (1, ''CurrentMode''), (65532, ''FeatureMap''), (65533, ''ClusterRevision'')]),
     (160, [(0, ''LocalGenerationAvailable''), (1, ''CurrentConditions''), (2, ''ForecastConditions''),
       (65532, ''FeatureMap''), (65533, ''ClusterRevision'')]),
     (257, [(0, ''LockState''), (1, ''LockType''), (2, ''ActuatorEnabled''), (3, ''DoorState''),
       (4, ''DoorOpenEvents''), (5, ''DoorClosedEvents''), (6, ''OpenPeriod''),
       (17, ''NumberOfTotalUsersSupported''), (18, ''NumberOfPinUsersSupported''),
       (19, ''NumberOfRfidUsersSupported''), (20, ''NumberOfWeekDaySchedulesSupportedPerUser''),
       (21, ''NumberOfYearDaySchedulesSupportedPerUser''), (22, ''NumberOfHolidaySchedulesSupported''),
       (23, ''MaxPinCodeLength''), (24, ''MinPinCodeLength''), (25, ''MaxRfidCodeLength''),
       (26, ''MinRfidCodeLength''), (27, ''CredentialRulesSupport''),
       (28, ''NumberOfCredentialsSupportedPerUser''), (33, ''Language''), (34, ''LedSettings''),
       (35, ''AutoRelockTime''), (36, ''SoundVolume''), (37, ''OperatingMode''),
       (38, ''SupportedOperatingModes''), (39, ''DefaultConfigurationRegister''),
       (40, ''EnableLocalProgramming''), (41, ''EnableOneTouchLocking''), (42, ''EnableInsideStatusLed''),
       (43, ''EnablePrivacyModeButton''), (44, ''LocalProgrammingFeatures''), (48, ''WrongCodeEntryLimit''),
       (49, ''UserCodeTemporaryDisableTime''), (50, ''SendPinOverTheAir''),
       (51, ''RequirePinForRemoteOperation''), (52, ''SecurityLevel''), (53, ''ExpiringUserTimeout''),
       (128, ''AliroReaderVerificationKey''), (129, ''AliroReaderGroupIdentifier''),
       (130, ''AliroReaderGroupSubIdentifier''), (131, ''AliroExpeditedTransactionSupportedProtocolVersions''),
       (132, ''AliroGroupResolvingKey''), (133, ''AliroSupportedBleuwbProtocolVersions''),
       (134, ''AliroBleAdvertisingVersion''), (135, ''NumberOfAliroCredentialIssuerKeysSupported''),
       (136, ''NumberOfAliroEndpointKeysSupported''), (65532, ''FeatureMap''), (65533, ''ClusterRevision'')]),
     (258, [(0, ''Type''), (5, ''NumberOfActuationsLift''), (6, ''NumberOfActuationsTilt''), (7, ''ConfigStatus''),
       (8, ''CurrentPositionLiftPercentage''), (9, ''CurrentPositionTiltPercentage''),
       (10, ''OperationalStatus''), (11, ''TargetPositionLiftPercent100ths''),
       (12, ''TargetPositionTiltPercent100ths''), (13, ''EndProductType''),
       (14, ''CurrentPositionLiftPercent100ths''), (15, ''CurrentPositionTiltPercent100ths''), (23, ''Mode''),
       (26, ''SafetyStatus''), (65532, ''FeatureMap''), (65533, ''ClusterRevision'')]),
     (260, [(0, ''CountdownTime''), (1, ''MainState''), (2, ''CurrentErrorList''), (3, ''OverallCurrentState''),
       (4, ''OverallTargetState''), (5, ''LatchControlModes''), (65532, ''FeatureMap''),
       (65533, ''ClusterRevision'')]),
     (261, [(0, ''CurrentState''), (1, ''TargetState''), (2, ''Resolution''), (3, ''StepValue''), (4, ''Unit''),
       (5, ''UnitRange''), (6, ''LimitRange''), (7, ''TranslationDirection''), (8, ''RotationAxis''),
       (9, ''Overflow''), (10, ''ModulationType''), (11, ''LatchControlModes''), (65532, ''FeatureMap''),
       (65533, ''ClusterRevision'')]),
     (336, [(0, ''SupportedAreas''), (1, ''SupportedMaps''), (2, ''SelectedAreas''), (3, ''CurrentArea''),
       (4, ''EstimatedEndTime''), (5, ''Progress''), (65532, ''FeatureMap''), (65533, ''ClusterRevision'')])]"

definition ATTRIBUTE_NAMES_8 :: "(int \<times> (int \<times> string) list) list" where
  "ATTRIBUTE_NAMES_8 =
    [(512, [(0, ''MaxPressure''), (1, ''MaxSpeed''), (2, ''MaxFlow''), (3, ''MinConstPressure''),
       (4, ''MaxConstPressure''), (5, ''MinCompPressure''), (6, ''MaxCompPressure''), (7, ''MinConstSpeed''),
       (8, ''MaxConstSpeed''), (9, ''MinConstFlow''), (10, ''MaxConstFlow''), (11, ''MinConstTemp''),
       (12, ''MaxConstTemp''), (16, ''PumpStatus''), (17, ''EffectiveOperationMode''),
       (18, ''EffectiveControlMode''), (19, ''Capacity''), (20, ''Speed''), (21, ''LifetimeRunningHours''),
       (22, ''Power''), (23, ''LifetimeEnergyConsumed''), (32, ''OperationMode''), (33, ''ControlMode''),
       (34, ''AlarmMask''), (65532, ''FeatureMap''), (65533, ''ClusterRevision'')]),
     (513, [(0, ''LocalTemperature''), (1, ''OutdoorTemperature''), (2, ''Occupancy''),
       (3, ''AbsMinHeatSetpointLimit''), (4, ''AbsMaxHeatSetpointLimit''), (5, ''AbsMinCoolSetpointLimit''),
       (6, ''AbsMaxCoolSetpointLimit''), (7, ''PiCoolingDemand''), (8, ''PiHeatingDemand''),
       (9, ''HvacSystemTypeConfiguration''), (16, ''LocalTemperatureCalibration''),
       (17, ''OccupiedCoolingSetpoint''), (18, ''OccupiedHeatingSetpoint''),
       (19, ''UnoccupiedCoolingSetpoint''), (20, ''UnoccupiedHeatingSetpoint''),
       (21, ''MinHeatSetpointLimit''), (22, ''MaxHeatSetpointLimit''), (23, ''MinCoolSetpointLimit''),
       (24, ''MaxCoolSetpointLimit''), (25, ''MinSetpointDeadBand''), (26, ''RemoteSensing''),
       (27, ''ControlSequenceOfOperation''), (28, ''SystemMode''), (30, ''ThermostatRunningMode''),
       (35, ''TemperatureSetpointHold''), (36, ''TemperatureSetpointHoldDuration''),
       (37, ''ThermostatProgrammingOperationMode''), (41, ''ThermostatRunningState''),
       (48, ''SetpointChangeSource''), (49, ''SetpointChangeAmount''), (50, ''SetpointChangeSourceTimestamp''),
       (52, ''OccupiedSetback''), (53, ''OccupiedSetbackMin''), (54, ''OccupiedSetbackMax''),
       (55, ''UnoccupiedSetback''), (56, ''UnoccupiedSetbackMin''), (57, ''UnoccupiedSetbackMax''),
       (58, ''EmergencyHeatDelta''), (64, ''AcType''), (65, ''AcCapacity''), (66, ''AcRefrigerantType''),
       (67, ''AcCompressorType''), (68, ''AcErrorCode''), (69, ''AcLouverPosition''),
       (70, ''AcCoilTemperature''), (71, ''AcCapacityFormat''), (72, ''PresetTypes''), (73, ''ScheduleTypes''),
       (74, ''NumberOfPresets''), (75, ''NumberOfSchedules''), (76, ''NumberOfScheduleTransitions''),
       (77, ''NumberOfScheduleTransitionPerDay''), (78, ''ActivePresetHandle''),
       (79, ''ActiveScheduleHandle''), (80, ''Presets''), (81, ''Schedules''),
       (82, ''SetpointHoldExpiryTimestamp''), (83, ''MaxThermostatSuggestions''),
       (84, ''ThermostatSuggestions''), (85, ''CurrentThermostatSuggestion''),
       (86, ''ThermostatSuggestionNotFollowingReason''), (65532, ''FeatureMap''), (65533, ''ClusterRevision'')]),
     (514, [(0, ''FanMode''), (1, ''FanModeSequence''), (2, ''PercentSetting''), (3, ''PercentCurrent''),
       (4, ''SpeedMax''), (5, ''SpeedSetting''), (6, ''SpeedCurrent''), (7, ''RockSupport''),
       (8, ''RockSetting''), (9, ''WindSupport''), (10, ''WindSetting''), (11, ''AirflowDirection''),
       (65532, ''FeatureMap''), (65533, ''ClusterRevision'')]),
     (516, [(0, ''TemperatureDisplayMode''), (1, ''KeypadLockout''), (2, ''ScheduleProgrammingVisibility''),
       (65533, ''ClusterRevision'')])]"

definition ATTRIBUTE_NAMES_9 :: "(int \<times> (int \<times> string) list) list" where
  "ATTRIBUTE_NAMES_9 =
    [(768, [(0, ''CurrentHue''), (1, ''CurrentSaturation''), (2, ''RemainingTime''), (3, ''CurrentX''),
       (4, ''CurrentY''), (5, ''DriftCompensation''), (6, ''CompensationText''),
       (7, ''ColorTemperatureMireds''), (8, ''ColorMode''), (15, ''Options''), (16, ''NumberOfPrimaries''),
       (17, ''Primary1X''), (18, ''Primary1Y''), (19, ''Primary1Intensity''), (21, ''Primary2X''),
       (22, ''Primary2Y''), (23, ''Primary2Intensity''), (25, ''Primary3X''), (26, ''Primary3Y''),
       (27, ''Primary3Intensity''), (32, ''Primary4X''), (33, ''Primary4Y''), (34, ''Primary4Intensity''),
       (36, ''Primary5X''), (37, ''Primary5Y''), (38, ''Primary5Intensity''), (40, ''Primary6X''),
       (41, ''Primary6Y''), (42, ''Primary6Intensity''), (48, ''WhitePointX''), (49, ''WhitePointY''),
       (50, ''ColorPointRx''), (51, ''ColorPointRy''), (52, ''ColorPointRIntensity''), (54, ''ColorPointGx''),
       (55, ''ColorPointGy''), (56, ''ColorPointGIntensity''), (58, ''ColorPointBx''), (59, ''ColorPointBy''),
       (60, ''ColorPointBIntensity''), (16384, ''EnhancedCurrentHue''), (16385, ''EnhancedColorMode''),
       (16386, ''ColorLoopActive''), (16387, ''ColorLoopDirection''), (16388, ''ColorLoopTime''),
       (16389, ''ColorLoopStartEnhancedHue''), (16390, ''ColorLoopStoredEnhancedHue''),
       (16394, ''ColorCapabilities''), (16395, ''ColorTempPhysicalMinMireds''),
       (16396, ''ColorTempPhysicalMaxMireds''), (16397, ''CoupleColorTempToLevelMinMireds''),
       (16400, ''StartUpColorTemperatureMireds''), (65532, ''FeatureMap''), (65533, ''ClusterRevision'')]),
     (1024, [(0, ''MeasuredValue''), (1, ''MinMeasuredValue''), (2, ''MaxMeasuredValue''), (3, ''Tolerance''),
       (4, ''LightSensorType''), (65533, ''ClusterRevision'')]),
     (1026, [(0, ''MeasuredValue''), (1, ''MinMeasuredValue''), (2, ''MaxMeasuredValue''), (3, ''Tolerance''),
       (65533, ''ClusterRevision'')]),
     (1027, [(0, ''MeasuredValue''), (1, ''MinMeasuredValue''), (2, ''MaxMeasuredValue''), (3, ''Tolerance''),
       (16, ''ScaledValue''), (17, ''MinScaledValue''), (18, ''MaxScaledValue''), (19, ''ScaledTolerance''),
       (20, ''Scale''), (65532, ''FeatureMap''), (65533, ''ClusterRevision'')]),
     (1028, [(0, ''MeasuredValue''), (1, ''MinMeasuredValue''), (2, ''MaxMeasuredValue''), (3, ''Tolerance''),
       (65533, ''ClusterRevision'')]),
     (1029, [(0, ''MeasuredValue''), (1, ''MinMeasuredValue''), (2, ''MaxMeasuredValue''), (3, ''Tolerance''),
       (65533, ''ClusterRevision'')]),
     (1030, [(0, ''Occupancy''), (1, ''OccupancySensorType''), (2, ''OccupancySensorTypeBitmap''), (3, ''HoldTime''),
       (4, ''HoldTimeLimits''), (16, ''PirOccupiedToUnoccupiedDelay''), (17, ''PirUnoccupiedToOccupiedDelay''),
       (18, ''PirUnoccupiedToOccupiedThreshold''), (32, ''UltrasonicOccupiedToUnoccupiedDelay''),
       (33, ''UltrasonicUnoccupiedToOccupiedDelay''), (34, ''UltrasonicUnoccupiedToOccupiedThreshold''),
       (48, ''PhysicalContactOccupiedToUnoccupiedDelay''), (49, ''PhysicalContactUnoccupiedToOccupiedDelay''),
       (50, ''PhysicalContactUnoccupiedToOccupiedThreshold''), (65532, ''FeatureMap''),
       (65533, ''ClusterRevision'')]),
     (1036, [(0, ''MeasuredValue''), (1, ''MinMeasuredValue''), (2, ''MaxMeasuredValue''),
       (3, ''PeakMeasuredValue''), (4, ''PeakMeasuredValueWindow''), (5, ''AverageMeasuredValue''),
       (6, ''AverageMeasuredValueWindow''), (7, ''Uncertainty''), (8, ''MeasurementUnit''),
       (9, ''MeasurementMedium''), (10, ''LevelValue''), (65532, ''FeatureMap''), (65533, ''ClusterRevision'')])]"

definition ATTRIBUTE_NAMES_10 :: "(int \<times> (int \<times> string) list) list" where
  "ATTRIBUTE_NAMES_10 =
    [(1037, [(0, ''MeasuredValue''), (1, ''MinMeasuredValue''), (2, ''MaxMeasuredValue''),
       (3, ''PeakMeasuredValue''), (4, ''PeakMeasuredValueWindow''), (5, ''AverageMeasuredValue''),
       (6, ''AverageMeasuredValueWindow''), (7, ''Uncertainty''), (8, ''MeasurementUnit''),
       (9, ''MeasurementMedium''), (10, ''LevelValue''), (65532, ''FeatureMap''), (65533, ''ClusterRevision'')]),
     (1043, [(0, ''MeasuredValue''), (1, ''MinMeasuredValue''), (2, ''MaxMeasuredValue''),
       (3, ''PeakMeasuredValue''), (4, ''PeakMeasuredValueWindow''), (5, ''AverageMeasuredValue''),
       (6, ''AverageMeasuredValueWindow''), (7, ''Uncertainty''), (8, ''MeasurementUnit''),
       (9, ''MeasurementMedium''), (10, ''LevelValue''), (65532, ''FeatureMap''), (65533, ''ClusterRevision'')]),
     (1045, [(0, ''MeasuredValue''), (1, ''MinMeasuredValue''), (2, ''MaxMeasuredValue''),
       (3, ''PeakMeasuredValue''), (4, ''PeakMeasuredValueWindow''), (5, ''AverageMeasuredValue''),
       (6, ''AverageMeasuredValueWindow''), (7, ''Uncertainty''), (8, ''MeasurementUnit''),
       (9, ''MeasurementMedium''), (10, ''LevelValue''), (65532, ''FeatureMap''), (65533, ''ClusterRevision'')]),
     (1066, [(0, ''MeasuredValue''), (1, ''MinMeasuredValue''), (2, ''MaxMeasuredValue''),
       (3, ''PeakMeasuredValue''), (4, ''PeakMeasuredValueWindow''), (5, ''AverageMeasuredValue''),
       (6, ''AverageMeasuredValueWindow''), (7, ''Uncertainty''), (8, ''MeasurementUnit''),
       (9, ''MeasurementMedium''), (10, ''LevelValue''), (65532, ''FeatureMap''), (65533, ''ClusterRevision'')]),
     (1067, [(0, ''MeasuredValue''), (1, ''MinMeasuredValue''), (2, ''MaxMeasuredValue''),
       (3, ''PeakMeasuredValue''), (4, ''PeakMeasuredValueWindow''), (5, ''AverageMeasuredValue''),
       (6, ''AverageMeasuredValueWindow''), (7, ''Uncertainty''), (8, ''MeasurementUnit''),
       (9, ''MeasurementMedium''), (10, ''LevelValue''), (65532, ''FeatureMap''), (65533, ''ClusterRevision'')]),
     (1068, [(0, ''MeasuredValue''), (1, ''MinMeasuredValue''), (2, ''MaxMeasuredValue''),
       (3, ''PeakMeasuredValue''), (4, ''PeakMeasuredValueWindow''), (5, ''AverageMeasuredValue''),
       (6, ''AverageMeasuredValueWindow''), (7, ''Uncertainty''), (8, ''MeasurementUnit''),
       (9, ''MeasurementMedium''), (10, ''LevelValue''), (65532, ''FeatureMap''), (65533, ''ClusterRevision'')]),
     (1069, [(0, ''MeasuredValue''), (1, ''MinMeasuredValue''), (2, ''MaxMeasuredValue''),
       (3, ''PeakMeasuredValue''), (4, ''PeakMeasuredValueWindow''), (5, ''AverageMeasuredValue''),
       (6, ''AverageMeasuredValueWindow''), (7, ''Uncertainty''), (8, ''MeasurementUnit''),
       (9, ''MeasurementMedium''), (10, ''LevelValue''), (65532, ''FeatureMap''), (65533, ''ClusterRevision'')]),
     (1070, [(0, ''MeasuredValue''), (1, ''MinMeasuredValue''), (2, ''MaxMeasuredValue''),
       (3, ''PeakMeasuredValue''), (4, ''PeakMeasuredValueWindow''), (5, ''AverageMeasuredValue''),
       (6, ''AverageMeasuredValueWindow''), (7, ''Uncertainty''), (8, ''MeasurementUnit''),
       (9, ''MeasurementMedium''), (10, ''LevelValue''), (65532, ''FeatureMap''), (65533, ''ClusterRevision'')]),
     (1071, [(0, ''MeasuredValue''), (1, ''MinMeasuredValue''), (2, ''MaxMeasuredValue''),
       (3, ''PeakMeasuredValue''), (4, ''PeakMeasuredValueWindow''), (5, ''AverageMeasuredValue''),
       (6, ''AverageMeasuredValueWindow''), (7, ''Uncertainty''), (8, ''MeasurementUnit''),
       (9, ''MeasurementMedium''), (10, ''LevelValue''), (65532, ''FeatureMap''), (65533, ''ClusterRevision'')]),
     (1072, [(0, ''SoilMoistureMeasurementLimits''), (1, ''SoilMoistureMeasuredValue''), (65533, ''ClusterRevision'')])]"

definition ATTRIBUTE_NAMES_11 :: "(int \<times> (int \<times> string) list) list" where
  "ATTRIBUTE_NAMES_11 =
    [(1073, [(0, ''HumanActivityDetected''), (1, ''ObjectIdentified''), (2, ''AudioContextDetected''),
       (3, ''AmbientContextType''), (4, ''AmbientContextTypeSupported''), (5, ''ObjectCountReached''),
       (6, ''ObjectCountConfig''), (7, ''ObjectCount''), (8, ''SimultaneousDetectionLimit''),
       (9, ''HoldTime''), (10, ''HoldTimeLimits''), (11, ''PredictedActivity''), (65532, ''FeatureMap''),
       (65533, ''ClusterRevision'')]),
     (1105, [(0, ''Ssid''), (1, ''PassphraseSurrogate''), (65533, ''ClusterRevision'')]),
     (1106, [(0, ''BorderRouterName''), (1, ''BorderAgentId''), (2, ''ThreadVersion''), (3, ''InterfaceEnabled''),
       (4, ''ActiveDatasetTimestamp''), (5, ''PendingDatasetTimestamp''), (65532, ''FeatureMap''),
       (65533, ''ClusterRevision'')]),
     (1107, [(0, ''PreferredExtendedPanId''), (1, ''ThreadNetworks''), (2, ''ThreadNetworkTableSize''),
       (65533, ''ClusterRevision'')]),
     (1283, [(0, ''MacAddress''), (1, ''LinkLocalAddress''), (65533, ''ClusterRevision'')]),
     (1284, [(0, ''ChannelList''), (1, ''Lineup''), (2, ''CurrentChannel''), (65532, ''FeatureMap''),
       (65533, ''ClusterRevision'')]),
     (1285, [(0, ''TargetList''), (1, ''CurrentTarget''), (65533, ''ClusterRevision'')]),
     (1286, [(0, ''CurrentState''), (1, ''StartTime''), (2, ''Duration''), (3, ''SampledPosition''),
       (4, ''PlaybackSpeed''), (5, ''SeekRangeEnd''), (6, ''SeekRangeStart''), (7, ''ActiveAudioTrack''),
       (8, ''AvailableAudioTracks''), (9, ''ActiveTextTrack''), (10, ''AvailableTextTracks''),
       (65532, ''FeatureMap''), (65533, ''ClusterRevision'')]),
     (1287, [(0, ''InputList''), (1, ''CurrentInput''), (65532, ''FeatureMap''), (65533, ''ClusterRevision'')]),
     (1288, [(65533, ''ClusterRevision'')]),
     (1289, [(65532, ''FeatureMap''), (65533, ''ClusterRevision'')]),
     (1290, [(0, ''AcceptHeader''), (1, ''SupportedStreamingProtocols''), (65532, ''FeatureMap''),
       (65533, ''ClusterRevision'')]),
     (1291, [(0, ''OutputList''), (1, ''CurrentOutput''), (65532, ''FeatureMap''), (65533, ''ClusterRevision'')]),
     (1292, [(0, ''CatalogList''), (1, ''CurrentApp''), (65532, ''FeatureMap''), (65533, ''ClusterRevision'')]),
     (1293, [(0, ''VendorName''), (1, ''VendorId''), (2, ''ApplicationName''), (3, ''ProductId''),
       (4, ''Application''), (5, ''Status''), (6, ''ApplicationVersion''), (7, ''AllowedVendorList''),
       (65533, ''ClusterRevision'')]),
     (1294, [(65533, ''ClusterRevision'')]),
     (1295, [(0, ''Enabled''), (1, ''OnDemandRatings''), (2, ''OnDemandRatingThreshold''),
       (3, ''ScheduledContentRatings''), (4, ''ScheduledContentRatingThreshold''), (5, ''ScreenDailyTime''),
       (6, ''RemainingScreenTime''), (7, ''BlockUnrated''), (8, ''BlockChannelList''),
       (9, ''BlockApplicationList''), (10, ''BlockContentTimeWindow''), (65532, ''FeatureMap''),
       (65533, ''ClusterRevision'')]),
     (1296, [(65533, ''ClusterRevision'')])]"

definition ATTRIBUTE_NAMES_12 :: "(int \<times> (int \<times> string) list) list" where
  "ATTRIBUTE_NAMES_12 =
    [(1360, [(0, ''MaxUserDefinedZones''), (1, ''MaxZones''), (2, ''Zones''), (3, ''Triggers''),
       (4, ''SensitivityMax''), (5, ''Sensitivity''), (6, ''TwoDCartesianMax''), (65532, ''FeatureMap''),
       (65533, ''ClusterRevision'')]),
     (1361, [(0, ''MaxConcurrentEncoders''), (1, ''MaxEncodedPixelRate''), (2, ''VideoSensorParams''),
       (3, ''NightVisionUsesInfrared''), (4, ''MinViewportResolution''), (5, ''RateDistortionTradeOffPoints''),
       (6, ''MaxContentBufferSize''), (7, ''MicrophoneCapabilities''), (8, ''SpeakerCapabilities''),
       (9, ''TwoWayTalkSupport''), (10, ''SnapshotCapabilities''), (11, ''MaxNetworkBandwidth''),
       (12, ''CurrentFrameRate''), (13, ''HdrModeEnabled''), (14, ''SupportedStreamUsages''),
       (15, ''AllocatedVideoStreams''), (16, ''AllocatedAudioStreams''), (17, ''AllocatedSnapshotStreams''),
       (18, ''StreamUsagePriorities''), (19, ''SoftRecordingPrivacyModeEnabled''),
       (20, ''SoftLivestreamPrivacyModeEnabled''), (21, ''HardPrivacyModeOn''), (22, ''NightVision''),
       (23, ''NightVisionIllum''), (24, ''Viewport''), (25, ''SpeakerMuted''), (26, ''SpeakerVolumeLevel''),
       (27, ''SpeakerMaxLevel''), (28, ''SpeakerMinLevel''), (29, ''MicrophoneMuted''),
       (30, ''MicrophoneVolumeLevel''), (31, ''MicrophoneMaxLevel''), (32, ''MicrophoneMinLevel''),
       (33, ''MicrophoneAgcEnabled''), (34, ''ImageRotation''), (35, ''ImageFlipHorizontal''),
       (36, ''ImageFlipVertical''), (37, ''LocalVideoRecordingEnabled''),
       (38, ''LocalSnapshotRecordingEnabled''), (39, ''StatusLightEnabled''), (40, ''StatusLightBrightness''),
       (41, ''ImageRotationDiscreteAngles''), (65532, ''FeatureMap''), (65533, ''ClusterRevision'')]),
     (1362, [(0, ''MptzPosition''), (1, ''MaxPresets''), (2, ''MptzPresets''), (3, ''DptzStreams''),
       (4, ''ZoomMax''), (5, ''TiltMin''), (6, ''TiltMax''), (7, ''PanMin''), (8, ''PanMax''),
       (9, ''MovementState''), (65532, ''FeatureMap''), (65533, ''ClusterRevision'')]),
     (1363, [(0, ''CurrentSessions''), (65532, ''FeatureMap''), (65533, ''ClusterRevision'')]),
     (1364, [(0, ''CurrentSessions''), (65533, ''ClusterRevision'')]),
     (1365, [(0, ''SupportedFormats''), (1, ''CurrentConnections''), (65532, ''FeatureMap''),
       (65533, ''ClusterRevision'')]),
     (1366, [(0, ''InstalledChimeSounds''), (1, ''SelectedChime''), (2, ''Enabled''), (65533, ''ClusterRevision'')]),
     (1792, [(0, ''TariffInfo''), (1, ''TariffUnit''), (2, ''StartDate''), (3, ''DayEntries''), (4, ''DayPatterns''),
       (5, ''CalendarPeriods''), (6, ''IndividualDays''), (7, ''CurrentDay''), (8, ''NextDay''),
       (9, ''CurrentDayEntry''), (10, ''CurrentDayEntryDate''), (11, ''NextDayEntry''),
       (12, ''NextDayEntryDate''), (13, ''TariffComponents''), (14, ''TariffPeriods''),
       (15, ''CurrentTariffComponents''), (16, ''NextTariffComponents''), (17, ''DefaultRandomizationOffset''),
       (18, ''DefaultRandomizationType''), (65532, ''FeatureMap''), (65533, ''ClusterRevision'')]),
     (1872, [(0, ''DeviceDirectory''), (1, ''LocationDirectory''), (65533, ''ClusterRevision'')]),
     (1873, [(0, ''SupportedDeviceCategories''), (65533, ''ClusterRevision'')])]"

definition ATTRIBUTE_NAMES_13 :: "(int \<times> (int \<times> string) list) list" where
  "ATTRIBUTE_NAMES_13 =
    [(1874, [(0, ''AnchorRootCa''), (1, ''AnchorNodeId''), (2, ''AnchorVendorId''), (3, ''FriendlyName''),
       (4, ''GroupKeySetList''), (5, ''GroupList''), (6, ''NodeList''), (7, ''AdminList''), (8, ''Status''),
       (9, ''EndpointGroupIdList''), (10, ''EndpointBindingList''), (11, ''NodeKeySetList''),
       (12, ''NodeAclList''), (13, ''NodeEndpointList''), (65533, ''ClusterRevision'')]),
     (1875, [(0, ''AdministratorFabricIndex''), (65533, ''ClusterRevision'')]),
     (2049, [(0, ''MaxRootCertificates''), (1, ''ProvisionedRootCertificates''), (2, ''MaxClientCertificates''),
       (3, ''ProvisionedClientCertificates''), (65533, ''ClusterRevision'')]),
     (2050, [(0, ''MaxProvisioned''), (1, ''ProvisionedEndpoints''), (65533, ''ClusterRevision'')]),
     (2822, [(0, ''MeterType''), (1, ''PointOfDelivery''), (2, ''MeterSerialNumber''), (3, ''ProtocolVersion''),
       (4, ''PowerThreshold''), (65532, ''FeatureMap''), (65533, ''ClusterRevision'')]),
     (2823, [(0, ''MeteredQuantity''), (1, ''MeteredQuantityTimestamp''), (2, ''TariffUnit''),
       (3, ''MaximumMeteredQuantities''), (65533, ''ClusterRevision'')])]"

definition ATTRIBUTE_NAMES :: "(int \<times> (int \<times> string) list) list" where
  "ATTRIBUTE_NAMES = ATTRIBUTE_NAMES_1 @ ATTRIBUTE_NAMES_2 @ ATTRIBUTE_NAMES_3 @ ATTRIBUTE_NAMES_4 @ ATTRIBUTE_NAMES_5 @ ATTRIBUTE_NAMES_6 @ ATTRIBUTE_NAMES_7 @ ATTRIBUTE_NAMES_8 @ ATTRIBUTE_NAMES_9 @ ATTRIBUTE_NAMES_10 @ ATTRIBUTE_NAMES_11 @ ATTRIBUTE_NAMES_12 @ ATTRIBUTE_NAMES_13"

definition WRITABLE_ATTRIBUTES :: "(int \<times> int list) list" where
  "WRITABLE_ATTRIBUTES =
    [(3, [0]), (6, [16385, 16386, 16387]), (8, [15, 16, 17, 18, 19, 20, 16384]), (30, [0]), (31, [0, 1]),
     (40, [5, 6, 16]), (42, [0]), (43, [0]), (44, [0, 1]), (45, [0]), (48, [0]), (49, [4]), (57, [5]),
     (63, [0, 4]), (65, [0]), (74, [1]), (80, [4, 5]), (83, [1, 2]), (92, [11]), (113, [4]), (114, [4]),
     (121, [4]), (128, [0]), (129, [1, 8]), (153, [9, 10, 39]), (155, [1, 4]), (160, [0]),
     (257, [4, 5, 6, 33, 34, 35, 36, 37, 40, 41, 42, 43, 44, 48, 49, 50, 51, 53]), (258, [23]),
     (512, [21, 23, 32, 33]),
     (513, [16, 17, 18, 19, 20, 21, 22, 23, 24, 25, 26, 27, 28, 35, 36, 58, 64, 65, 66, 67, 68, 69, 71, 80, 81]),
     (514, [0, 2, 5, 8, 10, 11]), (516, [0, 1, 2]), (768, [15, 16400]),
     (1030, [3, 16, 17, 18, 32, 33, 34, 48, 49, 50]), (1073, [6, 8, 9]), (1107, [0]), (1360, [5]),
     (1361, [13, 19, 20, 22, 23, 24, 25, 26, 29, 30, 33, 34, 35, 36, 37, 38, 39, 40, 41]), (1366, [1, 2])]"

definition COMMAND_FIELD_ATTRIBUTES :: "(int \<times> int list) list" where
  "COMMAND_FIELD_ATTRIBUTES =
    [(3, [0]), (6, [16385, 16386]), (48, [0]), (257, [37])]"

end
