(* ===== verification/HandlerSettings.thy ===== *)
theory HandlerSettings
  imports HandlerBase
begin

text \<open>
  \<open>matter_handlers/settings.py\<close>: the registry of writable device settings, where the permitted
  values of each come from, the validation of what a user enters and the verification of a write.

  The texts shown to the user are the constructors of \<open>setting_fault\<close>; the sentinel
  \<open>NO_ANSWER\<close> is the constructor \<open>NoAnswer\<close>.
\<close>

section \<open>Bounds\<close>

record bounds =
  bd_minimum :: int
  bd_maximum :: int
  bd_allowed :: "int list option"

definition contains :: "bounds \<Rightarrow> int \<Rightarrow> bool" where
  "contains b n = (case bd_allowed b of
       Some ns \<Rightarrow> n \<in> set ns
     | None \<Rightarrow> bd_minimum b \<le> n \<and> n \<le> bd_maximum b)"

definition describe_bounds :: "bounds \<Rightarrow> string" where
  "describe_bounds b = str_of_int (bd_minimum b) @ ''-'' @ str_of_int (bd_maximum b)"

text \<open>A field of a wire structure: by index, then by name (the keys of a parsed frame are texts).\<close>

fun first_key :: "pydict \<Rightarrow> string list \<Rightarrow> pyval" where
  "first_key d [] = PNone"
| "first_key d (k # ks) = (case map_of d k of Some v \<Rightarrow> v | None \<Rightarrow> first_key d ks)"

definition struct_field :: "pydict \<Rightarrow> int \<Rightarrow> string list \<Rightarrow> pyval" where
  "struct_field d i names = first_key d (str_of_int i # names)"

definition parse_limits_struct :: "pyval \<Rightarrow> bounds option py_result" where
  "parse_limits_struct v = (case v of
       PDict d \<Rightarrow>
         py_bind (tolerant (py_bind (py_int (struct_field d 0 [''min'', ''holdTimeMin''])) (\<lambda>low.
                            py_bind (py_int (struct_field d 1 [''max'', ''holdTimeMax''])) (\<lambda>high.
                              Inr (low, high))))) (\<lambda>r.
           case r of
             None \<Rightarrow> Inr None
           | Some p \<Rightarrow>
               Inr (if snd p < fst p then None
                    else Some \<lparr>bd_minimum = fst p, bd_maximum = snd p, bd_allowed = None\<rparr>))
     | _ \<Rightarrow> Inr None)"

definition parse_level_count :: "pyval \<Rightarrow> bounds option py_result" where
  "parse_level_count v = py_bind (tolerant (py_int v)) (\<lambda>r. case r of
       None \<Rightarrow> Inr None
     | Some count \<Rightarrow> Inr (if count < 1 then None
                       else Some \<lparr>bd_minimum = 0, bd_maximum = count - 1, bd_allowed = None\<rparr>))"

section \<open>Where bounds come from\<close>

text \<open>\<open>FromAttribute\<close> carries which of the two parsers reads the limits; \<open>limits\<close> is the lookup of
  an attribute of the device (\<open>None\<close> when it is not reported).\<close>

datatype limits_parser = LimitsStruct | LevelCount

datatype bounds_source =
    FromAttribute int limits_parser
  | StaticRange int int
  | EnumValues "(int \<times> string) list"

fun parse_limits :: "limits_parser \<Rightarrow> pyval \<Rightarrow> bounds option py_result" where
  "parse_limits LimitsStruct v = parse_limits_struct v"
| "parse_limits LevelCount v = parse_level_count v"

fun resolve_source :: "bounds_source \<Rightarrow> int \<Rightarrow> (int \<Rightarrow> int \<Rightarrow> pyval) \<Rightarrow> bounds option py_result" where
  "resolve_source (FromAttribute attribute parser) cluster limits =
     (let raw = limits cluster attribute in if raw = PNone then Inr None else parse_limits parser raw)"
| "resolve_source (StaticRange low high) cluster limits =
     Inr (Some \<lparr>bd_minimum = low, bd_maximum = high, bd_allowed = None\<rparr>)"
| "resolve_source (EnumValues rows) cluster limits =
     (let numbers = map fst rows
      in Inr (if numbers = [] then None
              else Some \<lparr>bd_minimum = Min (set numbers), bd_maximum = Max (set numbers),
                         bd_allowed = Some numbers\<rparr>))"

definition sensitivity_options :: "bounds \<Rightarrow> (string \<times> string) list" where
  "sensitivity_options b =
     (let count = bd_maximum b - bd_minimum b + 1;
          labels = (if count = 3 then [''Low (least sensitive)'', ''Standard'', ''High (most sensitive)'']
                    else (let ls = map (\<lambda>i. ''Level '' @ str_of_int i) [bd_minimum b..bd_maximum b];
                              ls1 = (case ls of [] \<Rightarrow> [] | l # r \<Rightarrow> (l @ '' (least sensitive)'') # r)
                          in if ls1 = [] then []
                             else ls1[length ls1 - 1 := last ls1 @ '' (most sensitive)'']))
      in map (\<lambda>(i, l). (str_of_int (bd_minimum b + int i), l)) (enumerate 0 labels))"

section \<open>The registry\<close>

text \<open>Whether the setting names its own picker (\<open>sensitivity_options\<close>).\<close>

record device_setting =
  ds_key :: string
  ds_label :: string
  ds_cluster :: int
  ds_attribute :: int
  ds_bounds :: bounds_source
  ds_device_types :: "string list"
  ds_unit :: string
  ds_sensitivity_picker :: bool

definition resolve_bounds :: "device_setting \<Rightarrow> (int \<Rightarrow> int \<Rightarrow> pyval) \<Rightarrow> bounds option py_result" where
  "resolve_bounds setting limits = resolve_source (ds_bounds setting) (ds_cluster setting) limits"

definition option_rows :: "device_setting \<Rightarrow> bounds \<Rightarrow> (string \<times> string) list option" where
  "option_rows setting b =
     (if ds_sensitivity_picker setting then Some (sensitivity_options b)
      else (case ds_bounds setting of
              EnumValues rows \<Rightarrow> Some (map (\<lambda>(n, l). (str_of_int n, l)) rows)
            | _ \<Rightarrow> None))"

definition is_choice :: "device_setting \<Rightarrow> bool" where
  "is_choice setting = (ds_sensitivity_picker setting \<or>
     (case ds_bounds setting of EnumValues rows \<Rightarrow> True | _ \<Rightarrow> False))"

definition describe_range :: "device_setting \<Rightarrow> bounds \<Rightarrow> string" where
  "describe_range setting b = describe_bounds b @ ds_unit setting"

definition hold_time_setting :: device_setting where
  "hold_time_setting =
     \<lparr>ds_key = ''holdTime'', ds_label = ''Presence Hold Time'', ds_cluster = 1030, ds_attribute = 3,
      ds_bounds = FromAttribute 4 LimitsStruct, ds_device_types = [''matterMotionSensor''],
      ds_unit = '' seconds'', ds_sensitivity_picker = False\<rparr>"

definition sensitivity_setting :: device_setting where
  "sensitivity_setting =
     \<lparr>ds_key = ''sensitivityLevel'', ds_label = ''Sensitivity'', ds_cluster = 128, ds_attribute = 0,
      ds_bounds = FromAttribute 1 LevelCount,
      ds_device_types = [''matterMotionSensor'', ''matterContactSensor''],
      ds_unit = [], ds_sensitivity_picker = True\<rparr>"

definition start_up_setting :: device_setting where
  "start_up_setting =
     \<lparr>ds_key = ''startUpOnOff'', ds_label = ''After a power cut'', ds_cluster = 6, ds_attribute = 16387,
      ds_bounds = EnumValues [(0, ''Off''), (1, ''On''), (2, ''Toggle (opposite of before)'')],
      ds_device_types = [''matterRelay''], ds_unit = [], ds_sensitivity_picker = False\<rparr>"

definition SETTINGS :: "device_setting list" where
  "SETTINGS = [hold_time_setting, sensitivity_setting, start_up_setting]"

definition settings_for_type :: "string \<Rightarrow> device_setting list" where
  "settings_for_type device_type = filter (\<lambda>s. device_type \<in> set (ds_device_types s)) SETTINGS"

section \<open>Capability\<close>

text \<open>\<open>implements\<close>: \<open>None\<close> is unknown. The scan stops at the first entry that is not an integer.\<close>

fun listed_ids :: "pyval list \<Rightarrow> int list option py_result" where
  "listed_ids [] = Inr (Some [])"
| "listed_ids (v # vs) = py_bind (tolerant (py_int v)) (\<lambda>r. case r of
       None \<Rightarrow> Inr None
     | Some n \<Rightarrow> py_bind (listed_ids vs) (\<lambda>ns. Inr (map_option (\<lambda>xs. n # xs) ns)))"

definition implements :: "pyval \<Rightarrow> int \<Rightarrow> bool option py_result" where
  "implements attribute_list attribute = (case attribute_list of
       PList entries \<Rightarrow> py_bind (listed_ids entries) (\<lambda>r. Inr (case r of
           None \<Rightarrow> None | Some ids \<Rightarrow> if ids = [] then None else Some (attribute \<in> set ids)))
     | _ \<Rightarrow> Inr None)"

section \<open>Writing a setting\<close>

datatype setting_fault = EmptyEntry | NotWhole | OutOfRange int int

text \<open>\<open>str(raw)\<close>, and the value to send or the reason it is refused.\<close>

definition coerce_value :: "(pyval \<Rightarrow> string) \<Rightarrow> pyval \<Rightarrow> bounds \<Rightarrow> setting_fault + int" where
  "coerce_value repr raw b =
     (let text = str_strip (py_str repr raw)
      in if text = [] then Inl EmptyEntry
         else (case int_of_text text of
                 None \<Rightarrow> Inl NotWhole
               | Some n \<Rightarrow> if contains b n then Inr n else Inl (OutOfRange (bd_minimum b) (bd_maximum b))))"

datatype read_back = NoAnswer | Answered pyval

datatype verdict_of_write = Applied | Unconfirmed | NotAValue pyval | AnsweredNull | StillReports int

definition verify_write :: "int \<Rightarrow> read_back \<Rightarrow> verdict_of_write py_result" where
  "verify_write intended reply = (case reply of
       NoAnswer \<Rightarrow> Inr Unconfirmed
     | Answered v \<Rightarrow>
         if v = PNone then Inr AnsweredNull
         else py_bind (tolerant (py_int v)) (\<lambda>r. Inr (case r of
                None \<Rightarrow> NotAValue v
              | Some actual \<Rightarrow> if actual \<noteq> intended then StillReports actual else Applied)))"

section \<open>Properties\<close>

lemma tolerant_Inr: "tolerant r = Inr x \<longleftrightarrow>
    (case x of Some y \<Rightarrow> r = Inr y | None \<Rightarrow> r = Inl TypeError \<or> r = Inl ValueError)"
  by (cases r) (auto simp: tolerant_def split: option.splits)

lemma limits_struct_interval:
  assumes "parse_limits_struct v = Inr (Some b)"
  shows "bd_minimum b \<le> bd_maximum b \<and> bd_allowed b = None"
proof (cases v)
  case (PDict d)
  from assms obtain q where "(case q of None \<Rightarrow> Inr None
      | Some p \<Rightarrow> Inr (if snd p < fst p then None
          else Some \<lparr>bd_minimum = fst p, bd_maximum = snd p, bd_allowed = None\<rparr>)) = (Inr (Some b) :: bounds option py_result)"
    unfolding parse_limits_struct_def PDict pyval.case py_bind_Inr by blast
  then show ?thesis by (cases q) (auto split: if_splits)
qed (use assms in \<open>simp_all add: parse_limits_struct_def\<close>)

text \<open>Bounds that resolve are an interval that holds at least one value, or a set inside it.\<close>

theorem bounds_sensible:
  assumes "resolve_source source cluster limits = Inr (Some b)"
    and "\<forall>low high. source = StaticRange low high \<longrightarrow> low \<le> high"
  shows "bd_minimum b \<le> bd_maximum b \<and> contains b (bd_minimum b) \<and> contains b (bd_maximum b)
    \<and> (\<forall>n. contains b n \<longrightarrow> bd_minimum b \<le> n \<and> n \<le> bd_maximum b)"
proof (cases source)
  case (FromAttribute attribute parser)
  then have r: "parse_limits parser (limits cluster attribute) = Inr (Some b)"
    using assms(1) by (auto simp: Let_def split: if_splits)
  show ?thesis
  proof (cases parser)
    case LimitsStruct
    with r limits_struct_interval [of "limits cluster attribute" b] show ?thesis by (auto simp: contains_def)
  next
    case LevelCount
    with r show ?thesis
      by (auto simp: parse_level_count_def py_bind_Inr contains_def split: option.splits if_splits)
  qed
next
  case (StaticRange low high)
  with assms show ?thesis by (auto simp: contains_def)
next
  case (EnumValues rows)
  then have ne: "rows \<noteq> []" and b: "b = \<lparr>bd_minimum = Min (set (map fst rows)), bd_maximum = Max (set (map fst rows)),
      bd_allowed = Some (map fst rows)\<rparr>"
    using assms(1) by (auto simp: Let_def split: if_splits)
  have "Min (set (map fst rows)) \<in> set (map fst rows)" "Max (set (map fst rows)) \<in> set (map fst rows)"
    using ne by (intro Min_in Max_in; simp)+
  then show ?thesis by (auto simp: b contains_def)
qed

text \<open>A value is sent only when the entered text is an integer the device accepts, and such a text
  is never refused.\<close>

theorem coerce_exact:
  "coerce_value repr raw b = Inr n \<longleftrightarrow>
     int_of_text (str_strip (py_str repr raw)) = Some n \<and> contains b n"
proof -
  have "int_of_text [] = None" by (simp add: int_of_text_def int_strip_def strip_with_def)
  then show ?thesis by (auto simp: coerce_value_def Let_def split: option.splits)
qed

text \<open>A write counts as applied only when the device answered the read-back with the value that was
  asked for: an acknowledged write that was ignored, a null and silence do not.\<close>

theorem write_verified:
  "verify_write intended reply = Inr Applied \<longleftrightarrow> (\<exists>v. reply = Answered v \<and> py_int v = Inr intended)"
  by (cases reply)
     (auto simp: verify_write_def py_bind_Inr tolerant_Inr split: option.splits if_splits)

text \<open>Absence is concluded only from a list that is readable in full and not empty.\<close>

theorem absent_needs_list:
  assumes "implements attribute_list attribute = Inr (Some False)"
  shows "\<exists>entries ids. attribute_list = PList entries \<and> entries \<noteq> [] \<and> map py_int entries = map Inr ids
    \<and> attribute \<notin> set ids"
proof -
  have ids: "listed_ids vs = Inr (Some ns) \<Longrightarrow> map py_int vs = map Inr ns" for vs ns
    by (induction vs arbitrary: ns) (auto simp: py_bind_Inr tolerant_Inr split: option.splits)
  from assms obtain entries ns where "attribute_list = PList entries" "listed_ids entries = Inr (Some ns)"
    "ns \<noteq> []" "attribute \<notin> set ns"
    by (auto simp: implements_def py_bind_Inr split: pyval.splits option.splits if_splits)
  with ids [of entries ns] show ?thesis by auto
qed

section \<open>Witnesses\<close>

lemma bounds_sensible_witness:
  "contains \<lparr>bd_minimum = 0, bd_maximum = 2, bd_allowed = None\<rparr> 2
   \<and> resolve_source (FromAttribute 1 LevelCount) 128 (\<lambda>c a. PInt 3)
     = Inr (Some \<lparr>bd_minimum = 0, bd_maximum = 2, bd_allowed = None\<rparr>)"
proof -
  have r: "resolve_source (FromAttribute 1 LevelCount) 128 (\<lambda>c a. PInt 3)
     = Inr (Some \<lparr>bd_minimum = 0, bd_maximum = 2, bd_allowed = None\<rparr>)"
    by (simp add: parse_level_count_def tolerant_def)
  with bounds_sensible [OF r] show ?thesis by simp
qed

lemma absent_needs_list_witness:
  "implements (PList [PInt 0, PInt 65533]) 16387 = Inr (Some False)
   \<and> (\<exists>ids. map py_int [PInt 0, PInt 65533] = map Inr ids \<and> 16387 \<notin> set ids)"
proof -
  have r: "implements (PList [PInt 0, PInt 65533]) 16387 = Inr (Some False)"
    by (simp add: implements_def tolerant_def)
  with absent_needs_list [OF r] show ?thesis by auto
qed

end
