(* ===== verification/DeviceSettings.thy ===== *)
theory DeviceSettings
  imports HandlerSettings "HOL-Library.List_Lexorder" "HOL-Library.Char_ord"
begin

text \<open>
  \<open>device_settings.py\<close>: which writable settings a device is offered, the values its dialog opens
  with, the validation of what the user typed, the writes that follow from it, and the write that is
  proved by a read-back; and the log of the unimplemented states that were announced.

  The lookups of limits and attribute listing are arguments, an attribute list \<open>None\<close> when there is
  no lookup. The two attempts of each leg of a write are answered by the environment. Texts shown
  to the user are constructors.
\<close>

section \<open>What a device is offered\<close>

record offered_setting =
  of_setting :: device_setting
  of_bounds :: bounds

datatype offer_refusal = NoNodeYet | ListSaysNo | NoEvidence | BoundsUnknown

type_synonym limits_lookup = "int \<Rightarrow> int \<Rightarrow> pyval"
type_synonym list_lookup = "(int \<Rightarrow> pyval) option"

definition listed_for :: "list_lookup \<Rightarrow> device_setting \<Rightarrow> pyval" where
  "listed_for listing setting = (case listing of None \<Rightarrow> PNone | Some f \<Rightarrow> f (ds_cluster setting))"

definition from_attribute :: "device_setting \<Rightarrow> bool" where
  "from_attribute setting = (case ds_bounds setting of FromAttribute _ _ \<Rightarrow> True | _ \<Rightarrow> False)"

definition offer_setting ::
  "limits_lookup \<Rightarrow> list_lookup \<Rightarrow> bool \<Rightarrow> device_setting \<Rightarrow> (offer_refusal + offered_setting) py_result" where
  "offer_setting limits listing device_known setting =
     (if \<not> device_known then Inr (Inl NoNodeYet)
      else py_bind (implements (listed_for listing setting) (ds_attribute setting)) (\<lambda>known.
        if known = Some False then Inr (Inl ListSaysNo)
        else if known = None \<and> \<not> from_attribute setting then Inr (Inl NoEvidence)
        else py_bind (resolve_bounds setting limits) (\<lambda>b. Inr (case b of
               None \<Rightarrow> Inl BoundsUnknown
             | Some b \<Rightarrow> Inr \<lparr>of_setting = setting, of_bounds = b\<rparr>))))"

text \<open>The settings offered, and those left out with the reason \<open>on_skip\<close> is told.\<close>

definition offered_settings ::
  "string \<Rightarrow> limits_lookup \<Rightarrow> list_lookup \<Rightarrow> bool \<Rightarrow> (offered_setting list \<times> (device_setting \<times> offer_refusal) list) py_result" where
  "offered_settings device_type_id limits listing device_known =
     py_bind (py_map (\<lambda>s. py_bind (offer_setting limits listing device_known s) (\<lambda>r. Inr (s, r)))
        (settings_for_type device_type_id)) (\<lambda>rs.
      Inr (List.map_filter (\<lambda>(s, r). case r of Inr x \<Rightarrow> Some x | Inl _ \<Rightarrow> None) rs,
           List.map_filter (\<lambda>(s, r). case r of Inl why \<Rightarrow> Some (s, why) | Inr _ \<Rightarrow> None) rs))"

definition unimplemented_states :: "string \<Rightarrow> list_lookup \<Rightarrow> device_setting list py_result" where
  "unimplemented_states device_type_id listing =
     py_bind (py_map (\<lambda>s. py_bind (implements (listed_for listing s) (ds_attribute s)) (\<lambda>known.
        Inr (if known = Some False then Some s else None))) (settings_for_type device_type_id)) (\<lambda>rs.
      Inr (List.map_filter id rs))"

section \<open>The dialog\<close>

definition MARKER_YES :: string where "MARKER_YES = ''yes''"
definition MARKER_NO :: string where "MARKER_NO = ''no''"

definition seed_value :: "(pyval \<Rightarrow> string) \<Rightarrow> pyval \<Rightarrow> string" where
  "seed_value repr v = (case v of
       PNone \<Rightarrow> []
     | PBool b \<Rightarrow> if b then ''1'' else ''0''
     | PFloat (Fin x) \<Rightarrow> if x = of_int \<lfloor>x\<rfloor> then str_of_int \<lfloor>x\<rfloor> else py_str repr v
     | _ \<Rightarrow> py_str repr v)"

definition upper_char :: "char \<Rightarrow> char" where
  "upper_char c = (let n = code_point c in if 97 \<le> n \<and> n \<le> 122 then char_of (n - 32) else c)"

definition marker_field :: "device_setting \<Rightarrow> string" where
  "marker_field setting =
     (if ds_key setting = ''sensitivityLevel'' then ''hasSensitivity''
      else ''has'' @ (case ds_key setting of [] \<Rightarrow> [] | c # cs \<Rightarrow> upper_char c # cs))"

definition put_all :: "(string \<times> pyval) list \<Rightarrow> pydict \<Rightarrow> pydict" where
  "put_all kvs d = fold (\<lambda>(k, v). AList.update k v) kvs d"

definition marker_values :: "string \<Rightarrow> offered_setting list \<Rightarrow> pydict" where
  "marker_values device_type_id offered =
     map (\<lambda>s. (marker_field s, PStr (if ds_key s \<in> set (map (ds_key \<circ> of_setting) offered) then MARKER_YES else MARKER_NO)))
       (settings_for_type device_type_id)
     @ [(''hasAnySetting'', PStr (if offered \<noteq> [] then MARKER_YES else MARKER_NO))]"

definition field_values :: "(pyval \<Rightarrow> string) \<Rightarrow> pydict \<Rightarrow> offered_setting \<Rightarrow> pydict" where
  "field_values repr states x = (let s = of_setting x in
     (ds_key s, PStr (seed_value repr (dget states (ds_key s))))
     # (if is_choice s then [] else [(ds_key s @ ''Range'', PStr (describe_range s (of_bounds x)))]))"

definition config_ui_values ::
  "(pyval \<Rightarrow> string) \<Rightarrow> string \<Rightarrow> pydict \<Rightarrow> limits_lookup \<Rightarrow> pydict \<Rightarrow> list_lookup \<Rightarrow> bool \<Rightarrow> pydict py_result" where
  "config_ui_values repr device_type_id states limits given listing device_known =
     py_bind (offered_settings device_type_id limits listing device_known) (\<lambda>(offered, _).
       Inr (put_all (marker_values device_type_id offered @ concat (map (field_values repr states) offered)) given))"

definition is_editing :: "(pyval \<Rightarrow> string) \<Rightarrow> device_setting \<Rightarrow> pydict \<Rightarrow> bool" where
  "is_editing repr setting given = (map_of given (ds_key setting) \<noteq> None
     \<and> str_strip (py_str repr (dget given (ds_key setting))) \<noteq> [])"

definition validate_settings ::
  "(pyval \<Rightarrow> string) \<Rightarrow> string \<Rightarrow> pydict \<Rightarrow> limits_lookup \<Rightarrow> list_lookup \<Rightarrow> bool \<Rightarrow> (string \<times> setting_fault) list py_result" where
  "validate_settings repr device_type_id given limits listing device_known =
     py_bind (offered_settings device_type_id limits listing device_known) (\<lambda>(offered, _).
       Inr (List.map_filter (\<lambda>x. if \<not> is_editing repr (of_setting x) given then None
          else (case coerce_value repr (dget given (ds_key (of_setting x))) (of_bounds x) of
                  Inl why \<Rightarrow> Some (ds_key (of_setting x), why) | Inr _ \<Rightarrow> None)) offered))"

record planned_write =
  pw_setting :: device_setting
  pw_value :: int
  pw_previous :: "int option"

definition as_int :: "pyval \<Rightarrow> int option py_result" where
  "as_int v = (if v = PNone then Inr None else tolerant (py_int v))"

definition plan_setting :: "(pyval \<Rightarrow> string) \<Rightarrow> pydict \<Rightarrow> pydict \<Rightarrow> offered_setting \<Rightarrow> planned_write option py_result" where
  "plan_setting repr given states x = (let s = of_setting x in
     if \<not> is_editing repr s given then Inr None
     else (case coerce_value repr (dget given (ds_key s)) (of_bounds x) of
         Inl _ \<Rightarrow> Inr None
       | Inr n \<Rightarrow> py_bind (as_int (dget states (ds_key s))) (\<lambda>previous.
           Inr (if previous = Some n then None
                else Some \<lparr>pw_setting = s, pw_value = n, pw_previous = previous\<rparr>))))"

definition planned_writes ::
  "(pyval \<Rightarrow> string) \<Rightarrow> string \<Rightarrow> pydict \<Rightarrow> pydict \<Rightarrow> limits_lookup \<Rightarrow> list_lookup \<Rightarrow> bool \<Rightarrow> planned_write list py_result" where
  "planned_writes repr device_type_id given states limits listing device_known =
     py_bind (offered_settings device_type_id limits listing device_known) (\<lambda>(offered, _).
       py_bind (py_map (plan_setting repr given states) offered) (\<lambda>ws. Inr (List.map_filter id ws)))"

section \<open>A write that is proved\<close>

text \<open>What the client does: sends, reads, waits between attempts, and tells the caller what the device
  holds.\<close>

datatype setting_call = WriteCall int | ReadCall | RetryPause | Observed "int option"

datatype write_attempt = Landed | SendFailed string
datatype read_attempt = ReadValue pyval | ReadFailed string

fun write_leg :: "int \<Rightarrow> write_attempt \<Rightarrow> write_attempt \<Rightarrow> string option \<times> setting_call list" where
  "write_leg n Landed w2 = (None, [WriteCall n])"
| "write_leg n (SendFailed e1) Landed = (None, [WriteCall n, RetryPause, WriteCall n])"
| "write_leg n (SendFailed e1) (SendFailed e2) = (Some e2, [WriteCall n, RetryPause, WriteCall n])"

fun read_leg :: "read_attempt \<Rightarrow> read_attempt \<Rightarrow> read_back \<times> string option \<times> setting_call list" where
  "read_leg (ReadValue v) r2 = (Answered v, None, [ReadCall])"
| "read_leg (ReadFailed e1) (ReadValue v) = (Answered v, None, [ReadCall, RetryPause, ReadCall])"
| "read_leg (ReadFailed e1) (ReadFailed e2) = (NoAnswer, Some e2, [ReadCall, RetryPause, ReadCall])"

definition observe_answer :: "bool \<Rightarrow> read_back \<Rightarrow> setting_call list py_result" where
  "observe_answer listening reply = (case reply of
       NoAnswer \<Rightarrow> Inr []
     | Answered v \<Rightarrow>
         if \<not> listening then Inr []
         else if v = PNone then Inr [Observed None]
         else py_bind (tolerant (py_int v)) (\<lambda>r. Inr (case r of None \<Rightarrow> [] | Some n \<Rightarrow> [Observed (Some n)])))"

record apply_outcome =
  ao_verdict :: verdict_of_write
  ao_send_error :: "string option"
  ao_read_error :: "string option"

definition ao_ok :: "apply_outcome \<Rightarrow> bool" where
  "ao_ok out = (ao_verdict out = Applied)"

definition apply_setting ::
  "planned_write \<Rightarrow> bool \<Rightarrow> write_attempt \<times> write_attempt \<Rightarrow> read_attempt \<times> read_attempt
    \<Rightarrow> (apply_outcome \<times> setting_call list) py_result" where
  "apply_setting plan listening writes reads = (case write_leg (pw_value plan) (fst writes) (snd writes) of
     (send_error, sent) \<Rightarrow> (case read_leg (fst reads) (snd reads) of (reply, read_error, read_calls) \<Rightarrow>
       py_bind (observe_answer listening reply) (\<lambda>observed.
       py_bind (verify_write (pw_value plan) reply) (\<lambda>verdict.
         Inr (\<lparr>ao_verdict = verdict, ao_send_error = send_error, ao_read_error = read_error\<rparr>,
              sent @ read_calls @ observed)))))"

section \<open>The log of announced states\<close>

text \<open>The answer last logged per key; a save hook may be missing, and what it raises is dropped. The
  second component is what is handed to the hook.\<close>

record seen_log =
  sl_seen :: "(string \<times> string) list"
  sl_hook :: bool

definition load_log :: "(pyval \<Rightarrow> string) \<Rightarrow> (string \<Rightarrow> pyval py_result) \<Rightarrow> pyval \<Rightarrow> seen_log \<Rightarrow> seen_log py_result" where
  "load_log repr loads blob l = (case blob of
       PStr t \<Rightarrow>
         (if str_strip t = [] then Inr (l\<lparr>sl_seen := []\<rparr>)
          else (case loads t of
                  Inr (PDict d) \<Rightarrow> Inr (l\<lparr>sl_seen := map (\<lambda>(k, v). (k, py_str repr v)) d\<rparr>)
                | Inr _ \<Rightarrow> Inr (l\<lparr>sl_seen := []\<rparr>)
                | Inl e \<Rightarrow> if e = TypeError \<or> e = ValueError then Inr (l\<lparr>sl_seen := []\<rparr>) else Inl e))
     | _ \<Rightarrow> Inr (l\<lparr>sl_seen := []\<rparr>))"

definition log_to_json :: "seen_log \<Rightarrow> (string \<times> string) list" where
  "log_to_json l = sort_key fst (sl_seen l)"

definition removed_fingerprint :: "string list \<Rightarrow> string" where
  "removed_fingerprint removed = concat (case sorted_list_of_set (set removed) of
     [] \<Rightarrow> [] | k # ks \<Rightarrow> k # map (\<lambda>x. '','' @ x) ks)"

definition should_log :: "int \<Rightarrow> string \<Rightarrow> seen_log \<Rightarrow> bool" where
  "should_log dev_id fp l = (map_of (sl_seen l) (str_of_int dev_id) \<noteq> Some fp)"

definition persist_log :: "seen_log \<Rightarrow> (string \<times> string) list option" where
  "persist_log l = (if sl_hook l then Some (log_to_json l) else None)"

definition record_log :: "int \<Rightarrow> string \<Rightarrow> seen_log \<Rightarrow> seen_log \<times> (string \<times> string) list option" where
  "record_log dev_id fp l = (let l' = l\<lparr>sl_seen := AList.update (str_of_int dev_id) fp (sl_seen l)\<rparr> in (l', persist_log l'))"

definition forget_log :: "int \<Rightarrow> seen_log \<Rightarrow> seen_log \<times> (string \<times> string) list option" where
  "forget_log dev_id l = (let l' = l\<lparr>sl_seen := AList.delete (str_of_int dev_id) (sl_seen l)\<rparr>
     in (l', if map_of (sl_seen l) (str_of_int dev_id) = None then None else persist_log l'))"

section \<open>Properties\<close>

lemma offered_cases:
  assumes "offered_settings t limits listing known = Inr (offered, skipped)" "x \<in> set offered"
  shows "of_setting x \<in> set SETTINGS" "offer_setting limits listing known (of_setting x) = Inr (Inr x)"
proof -
  obtain rs where rs: "py_map (\<lambda>s. py_bind (offer_setting limits listing known s) (\<lambda>r. Inr (s, r))) (settings_for_type t) = Inr rs"
      "offered = List.map_filter (\<lambda>(s, r). case r of Inr x \<Rightarrow> Some x | Inl _ \<Rightarrow> None) rs"
    using assms(1) by (auto simp: offered_settings_def py_bind_Inr)
  obtain s where s: "(s, Inr x) \<in> set rs" using assms(2) rs(2) by (auto simp: map_filter_def split: sum.splits)
  have "py_map f xs = Inr ys \<Longrightarrow> y \<in> set ys \<Longrightarrow> \<exists>x \<in> set xs. f x = Inr y" for f :: "device_setting \<Rightarrow> 'a py_result" and xs ys y
    by (induction xs arbitrary: ys) (auto simp: py_bind_Inr)
  from this [OF rs(1) s] have o: "s \<in> set (settings_for_type t)" "offer_setting limits listing known s = Inr (Inr x)"
    by (auto simp: py_bind_Inr)
  moreover have "of_setting x = s"
    using o(2) by (auto simp: offer_setting_def py_bind_Inr split: if_splits option.splits)
  ultimately show "of_setting x \<in> set SETTINGS" "offer_setting limits listing known (of_setting x) = Inr (Inr x)"
    by (auto simp: settings_for_type_def)
qed

lemma py_map_filtered:
  "py_map f xs = Inr ys \<Longrightarrow> y \<in> set (List.map_filter id ys) \<longleftrightarrow> (\<exists>x \<in> set xs. f x = Inr (Some y))"
proof (induction xs arbitrary: ys)
  case (Cons x xs)
  then obtain z zs where "f x = Inr z" "py_map f xs = Inr zs" "ys = z # zs" by (auto simp: py_bind_Inr)
  with Cons.IH show ?case by (cases z) (auto simp: map_filter_simps)
qed (simp add: map_filter_simps)

text \<open>Only settings the device is offered are ever written, with a value within their bounds that the user
  typed and that differs from the one shown; and when the dialog was accepted, every field with a
  text that differs from the shown value is written.\<close>

theorem writes_are_the_changes:
  assumes "offered_settings t limits listing known = Inr (offered, skipped)"
    and "planned_writes repr t given states limits listing known = Inr ws"
  shows "(\<forall>w \<in> set ws. \<exists>x \<in> set offered. of_setting x = pw_setting w \<and> contains (of_bounds x) (pw_value w)
           \<and> int_of_text (str_strip (py_str repr (dget given (ds_key (of_setting x))))) = Some (pw_value w)
           \<and> pw_previous w \<noteq> Some (pw_value w))
    \<and> (validate_settings repr t given limits listing known = Inr [] \<longrightarrow>
        (\<forall>x \<in> set offered. is_editing repr (of_setting x) given \<longrightarrow>
           (\<exists>n. int_of_text (str_strip (py_str repr (dget given (ds_key (of_setting x))))) = Some n \<and> contains (of_bounds x) n
              \<and> (as_int (dget states (ds_key (of_setting x))) = Inr (Some n)
                  \<or> (\<exists>w \<in> set ws. pw_setting w = of_setting x \<and> pw_value w = n)))))"
proof -
  obtain rs where rs: "py_map (plan_setting repr given states) offered = Inr rs" "ws = List.map_filter id rs"
    using assms by (auto simp: planned_writes_def py_bind_Inr)
  have ws: "w \<in> set ws \<longleftrightarrow> (\<exists>x \<in> set offered. plan_setting repr given states x = Inr (Some w))" for w
    using py_map_filtered [OF rs(1)] rs(2) by simp
  have total: "\<exists>r. plan_setting repr given states x = Inr r" if "x \<in> set offered" for x
    using rs(1) that by (induction offered arbitrary: rs) (auto simp: py_bind_Inr)
  show ?thesis
  proof (intro conjI impI ballI)
    fix w
    assume "w \<in> set ws"
    then obtain x where "x \<in> set offered" "plan_setting repr given states x = Inr (Some w)" using ws by blast
    then show "\<exists>x \<in> set offered. of_setting x = pw_setting w \<and> contains (of_bounds x) (pw_value w)
           \<and> int_of_text (str_strip (py_str repr (dget given (ds_key (of_setting x))))) = Some (pw_value w)
           \<and> pw_previous w \<noteq> Some (pw_value w)"
      using coerce_exact
      by (intro bexI [of _ x]) (fastforce simp: plan_setting_def Let_def py_bind_Inr split: if_splits sum.splits)+
  next
    fix x
    assume v: "validate_settings repr t given limits listing known = Inr []" and x: "x \<in> set offered"
      and e: "is_editing repr (of_setting x) given"
    obtain n where n: "coerce_value repr (dget given (ds_key (of_setting x))) (of_bounds x) = Inr n"
      using v x e assms(1)
      by (cases "coerce_value repr (dget given (ds_key (of_setting x))) (of_bounds x)")
        (fastforce simp: validate_settings_def map_filter_def filter_empty_conv)+
    obtain r where r: "plan_setting repr given states x = Inr r" using total [OF x] by blast
    show "\<exists>n. int_of_text (str_strip (py_str repr (dget given (ds_key (of_setting x))))) = Some n \<and> contains (of_bounds x) n
              \<and> (as_int (dget states (ds_key (of_setting x))) = Inr (Some n)
                  \<or> (\<exists>w \<in> set ws. pw_setting w = of_setting x \<and> pw_value w = n))"
    proof (intro exI [of _ n] conjI)
      show "int_of_text (str_strip (py_str repr (dget given (ds_key (of_setting x))))) = Some n" "contains (of_bounds x) n"
        using n coerce_exact by auto
      show "as_int (dget states (ds_key (of_setting x))) = Inr (Some n)
                  \<or> (\<exists>w \<in> set ws. pw_setting w = of_setting x \<and> pw_value w = n)"
      proof (cases r)
        case None
        then show ?thesis using r n e by (auto simp: plan_setting_def Let_def py_bind_Inr split: if_splits)
      next
        case (Some w)
        then have "w \<in> set ws" "pw_setting w = of_setting x" "pw_value w = n"
          using r n e x ws by (auto simp: plan_setting_def Let_def py_bind_Inr split: if_splits)
        then show ?thesis by blast
      qed
    qed
  qed
qed

lemma write_leg_calls:
  "write_leg n w1 w2 = (e, cs) \<Longrightarrow> set cs \<subseteq> {WriteCall n, RetryPause} \<and> length (filter (\<lambda>c. c = WriteCall n) cs) \<le> 2
     \<and> filter (\<lambda>c. c = ReadCall) cs = []"
  by (cases w1; cases w2) auto

lemma read_leg_calls:
  "read_leg r1 r2 = (reply, e, cs) \<Longrightarrow> set cs \<subseteq> {ReadCall, RetryPause} \<and> length (filter (\<lambda>c. c = ReadCall) cs) \<le> 2
     \<and> filter (\<lambda>c. c = WriteCall n) cs = []"
  "read_leg r1 r2 = (reply, e, cs) \<Longrightarrow>
     reply = Answered v \<longleftrightarrow> r1 = ReadValue v \<or> (\<exists>e. r1 = ReadFailed e) \<and> r2 = ReadValue v"
  by (cases r1; cases r2; auto)+

lemma observed_calls:
  "observe_answer listening reply = Inr cs \<Longrightarrow> set cs \<subseteq> range Observed \<and> filter (\<lambda>c. c = ReadCall) cs = []
     \<and> filter (\<lambda>c. c = WriteCall n) cs = []"
  by (auto simp: observe_answer_def py_bind_Inr split: read_back.splits if_splits option.splits)

text \<open>C18: a write is reported as applied exactly when the device answered a read with the value that was asked
  for; an acknowledged write proves nothing and a failed one does not disprove it. There are at most
  two sends and two reads.\<close>

theorem applied_is_proved:
  assumes "apply_setting plan listening (w1, w2) (r1, r2) = Inr (out, calls)"
  shows "(ao_ok out \<longleftrightarrow> (\<exists>v. (r1 = ReadValue v \<or> (\<exists>e. r1 = ReadFailed e) \<and> r2 = ReadValue v) \<and> py_int v = Inr (pw_value plan)))
    \<and> length (filter (\<lambda>c. c = ReadCall) calls) \<le> 2
    \<and> length (filter (\<lambda>c. c = WriteCall (pw_value plan)) calls) \<le> 2
    \<and> set calls \<subseteq> {WriteCall (pw_value plan), ReadCall, RetryPause} \<union> range Observed"
proof -
  obtain send_error sent where w: "write_leg (pw_value plan) w1 w2 = (send_error, sent)" by fastforce
  obtain reply read_error got where r: "read_leg r1 r2 = (reply, read_error, got)" by (metis prod_cases3)
  obtain seen verdict where seen: "observe_answer listening reply = Inr seen" "verify_write (pw_value plan) reply = Inr verdict"
      "out = \<lparr>ao_verdict = verdict, ao_send_error = send_error, ao_read_error = read_error\<rparr>" "calls = sent @ got @ seen"
    using assms by (auto simp: apply_setting_def w r py_bind_Inr)
  have "ao_ok out \<longleftrightarrow> (\<exists>v. reply = Answered v \<and> py_int v = Inr (pw_value plan))"
    using write_verified [of "pw_value plan" reply] seen(2,3) by (simp add: ao_ok_def)
  moreover have "reply = Answered v \<longleftrightarrow> r1 = ReadValue v \<or> (\<exists>e. r1 = ReadFailed e) \<and> r2 = ReadValue v" for v
    by (rule read_leg_calls(2) [OF r])
  ultimately have "ao_ok out \<longleftrightarrow> (\<exists>v. (r1 = ReadValue v \<or> (\<exists>e. r1 = ReadFailed e) \<and> r2 = ReadValue v) \<and> py_int v = Inr (pw_value plan))"
    by simp
  with write_leg_calls [OF w] read_leg_calls(1) [OF r, of "pw_value plan"] observed_calls [OF seen(1), of "pw_value plan"] show ?thesis
    by (auto simp: seen(4))
qed

section \<open>An untouched dialog\<close>

lemma settings_fields:
  "x \<in> set SETTINGS \<Longrightarrow> y \<in> set SETTINGS \<Longrightarrow> ds_key x = ds_key y \<Longrightarrow> x = y"
  "x \<in> set SETTINGS \<Longrightarrow> y \<in> set SETTINGS \<Longrightarrow> ds_key x @ ''Range'' \<noteq> ds_key y"
proof -
  have "distinct (map ds_key SETTINGS)" by code_simp
  then show "x \<in> set SETTINGS \<Longrightarrow> y \<in> set SETTINGS \<Longrightarrow> ds_key x = ds_key y \<Longrightarrow> x = y"
    by (auto simp: distinct_map inj_on_def)
  have "list_all (\<lambda>x. list_all (\<lambda>y. ds_key x @ ''Range'' \<noteq> ds_key y) SETTINGS) SETTINGS" by code_simp
  then show "x \<in> set SETTINGS \<Longrightarrow> y \<in> set SETTINGS \<Longrightarrow> ds_key x @ ''Range'' \<noteq> ds_key y"
    by (simp add: list_all_iff)
qed

lemma put_all_append: "put_all (a @ b) d = put_all b (put_all a d)"
  by (simp add: put_all_def)

lemma put_all_lookup:
  "(k, v) \<in> set kvs \<Longrightarrow> (\<And>w. (k, w) \<in> set kvs \<Longrightarrow> w = v) \<Longrightarrow> map_of (put_all kvs d) k = Some v"
proof (induction kvs rule: rev_induct)
  case (snoc p kvs)
  show ?case
  proof (cases "fst p = k")
    case True
    then have "p = (k, v)" using snoc.prems(2) [of "snd p"] by (cases p) simp
    then show ?thesis by (simp add: put_all_def update_conv')
  next
    case False
    then have "(k, v) \<in> set kvs" using snoc.prems(1) by auto
    then have "map_of (put_all kvs d) k = Some v" by (rule snoc.IH) (simp add: snoc.prems(2))
    then show ?thesis using False by (cases p) (simp add: put_all_def update_conv')
  qed
qed simp

lemma str_strip_int [simp]: "str_strip (str_of_int n) = str_of_int n"
  unfolding str_strip_def
  by (rule strip_with_id) (auto simp: list_all_iff is_space_def Let_def code_point_def dest!: str_of_int_chars)

lemma int_not_empty [simp]: "str_of_int n \<noteq> []"
  by (simp add: str_of_int_def)

text \<open>Whether a state is one the plugin writes for a setting: nothing, a truth value or a number.\<close>

fun plain_state :: "pyval \<Rightarrow> bool" where
  "plain_state (PStr _) = False"
| "plain_state (PList _) = False"
| "plain_state (PDict _) = False"
| "plain_state v = True"

text \<open>Opening the dialog and saving it untouched writes nothing, whatever the device reports: the texts it
  opens with read back as the values shown. The text of a float that is not whole must not read as
  an integer.\<close>

theorem untouched_dialog_writes_nothing:
  assumes "config_ui_values repr t states limits given listing known = Inr shown"
    and "\<forall>s \<in> set SETTINGS. plain_state (dget states (ds_key s))"
    and "\<And>f. (\<And>n. f \<noteq> Fin (of_int n)) \<Longrightarrow> int_of_text (str_strip (repr (PFloat f))) = None"
  shows "planned_writes repr t shown states limits listing known = Inr []"
proof -
  obtain offered skipped where o: "offered_settings t limits listing known = Inr (offered, skipped)"
      "shown = put_all (marker_values t offered @ concat (map (field_values repr states) offered)) given"
    using assms(1) by (auto simp: config_ui_values_def py_bind_Inr)
  have field: "dget shown (ds_key (of_setting x)) = PStr (seed_value repr (dget states (ds_key (of_setting x))))" if x: "x \<in> set offered" for x
  proof -
    have "map_of shown (ds_key (of_setting x)) = Some (PStr (seed_value repr (dget states (ds_key (of_setting x)))))"
      unfolding o(2) put_all_append
    proof (rule put_all_lookup)
      show "(ds_key (of_setting x), PStr (seed_value repr (dget states (ds_key (of_setting x))))) \<in> set (concat (map (field_values repr states) offered))"
        using x by (auto simp: field_values_def Let_def)
      fix w
      assume "(ds_key (of_setting x), w) \<in> set (concat (map (field_values repr states) offered))"
      then obtain y where y: "y \<in> set offered" "(ds_key (of_setting x), w) \<in> set (field_values repr states y)" by auto
      have "ds_key (of_setting y) @ ''Range'' \<noteq> ds_key (of_setting x)"
        by (rule settings_fields(2) [OF offered_cases(1) [OF o(1) y(1)] offered_cases(1) [OF o(1) x]])
      with y(2) show "w = PStr (seed_value repr (dget states (ds_key (of_setting x))))"
        by (auto simp: field_values_def Let_def split: if_splits)
    qed
    then show ?thesis by (simp add: dget_def)
  qed
  have "plan_setting repr shown states x = Inr None" if x: "x \<in> set offered" for x
  proof -
    let ?v = "dget states (ds_key (of_setting x))"
    have plain: "plain_state ?v" using assms(2) offered_cases(1) [OF o(1) x] by blast
    have "int_of_text (str_strip (seed_value repr ?v)) = None \<or> str_strip (seed_value repr ?v) = []
        \<or> (\<exists>n. int_of_text (str_strip (seed_value repr ?v)) = Some n \<and> as_int ?v = Inr (Some n))"
    proof (cases ?v)
      case PNone
      then show ?thesis by (simp add: seed_value_def str_strip_def strip_with_def)
    next
      case (PBool b)
      have "int_of_text (str_strip ''1'') = Some 1" "int_of_text (str_strip ''0'') = Some 0" by code_simp+
      with PBool show ?thesis by (auto simp: seed_value_def as_int_def tolerant_def)
    next
      case (PFloat f)
      show ?thesis
      proof (cases "\<exists>n. f = Fin (of_int n)")
        case True
        then show ?thesis using PFloat by (auto simp: seed_value_def as_int_def tolerant_def rat_trunc_def)
      next
        case False
        then have "seed_value repr ?v = repr (PFloat f)" using PFloat by (cases f) (auto simp: seed_value_def)
        then show ?thesis using assms(3) [of f] False by simp
      qed
    qed (use plain in \<open>auto simp: seed_value_def as_int_def tolerant_def\<close>)
    moreover have "plan_setting repr shown states x = (if map_of shown (ds_key (of_setting x)) = None \<or> str_strip (seed_value repr ?v) = [] then Inr None
        else (case coerce_value repr (PStr (seed_value repr ?v)) (of_bounds x) of Inl _ \<Rightarrow> Inr None
          | Inr n \<Rightarrow> py_bind (as_int ?v) (\<lambda>previous. Inr (if previous = Some n then None
                else Some \<lparr>pw_setting = of_setting x, pw_value = n, pw_previous = previous\<rparr>))))"
      by (simp add: plan_setting_def Let_def is_editing_def field [OF x])
    moreover have "int_of_text (str_strip (seed_value repr ?v)) = Some n" if "coerce_value repr (PStr (seed_value repr ?v)) (of_bounds x) = Inr n" for n
      using that coerce_exact by simp
    ultimately show ?thesis by (auto split: sum.split)
  qed
  then have "py_map (plan_setting repr shown states) offered = Inr (map (\<lambda>_. None) offered)"
    by (induction offered) auto
  then show ?thesis by (simp add: planned_writes_def o(1) map_filter_def)
qed

section \<open>Witnesses\<close>

definition relay_lists :: list_lookup where
  "relay_lists = Some (\<lambda>cluster. if cluster = 6 then PList [PInt 0, PInt 16387] else PNone)"

definition relay_offer :: offered_setting where
  "relay_offer = \<lparr>of_setting = start_up_setting, of_bounds = \<lparr>bd_minimum = 0, bd_maximum = 2, bd_allowed = Some [0, 1, 2]\<rparr>\<rparr>"

lemma relay_offered: "offered_settings ''matterRelay'' (\<lambda>c a. PNone) relay_lists True = Inr ([relay_offer], [])"
  by code_simp

lemma writes_are_the_changes_witness:
  "planned_writes (\<lambda>_. []) ''matterRelay'' [(''startUpOnOff'', PStr ''1'')] [(''startUpOnOff'', PInt 0)] (\<lambda>c a. PNone) relay_lists True
     = Inr [\<lparr>pw_setting = start_up_setting, pw_value = 1, pw_previous = Some 0\<rparr>]
   \<and> contains (of_bounds relay_offer) 1"
proof
  show *: "planned_writes (\<lambda>_. []) ''matterRelay'' [(''startUpOnOff'', PStr ''1'')] [(''startUpOnOff'', PInt 0)] (\<lambda>c a. PNone) relay_lists True
     = Inr [\<lparr>pw_setting = start_up_setting, pw_value = 1, pw_previous = Some 0\<rparr>]" by code_simp
  show "contains (of_bounds relay_offer) 1"
    using writes_are_the_changes [OF relay_offered *] by simp
qed

lemma applied_is_proved_witness:
  "apply_setting \<lparr>pw_setting = start_up_setting, pw_value = 1, pw_previous = Some 0\<rparr> True (SendFailed ''timeout'', SendFailed ''timeout'')
       (ReadFailed ''timeout'', ReadValue (PInt 1))
     = Inr (\<lparr>ao_verdict = Applied, ao_send_error = Some ''timeout'', ao_read_error = None\<rparr>,
            [WriteCall 1, RetryPause, WriteCall 1, ReadCall, RetryPause, ReadCall, Observed (Some 1)])
   \<and> ao_ok \<lparr>ao_verdict = Applied, ao_send_error = Some ''timeout'', ao_read_error = None\<rparr>"
proof
  show *: "apply_setting \<lparr>pw_setting = start_up_setting, pw_value = 1, pw_previous = Some 0\<rparr> True (SendFailed ''timeout'', SendFailed ''timeout'')
       (ReadFailed ''timeout'', ReadValue (PInt 1))
     = Inr (\<lparr>ao_verdict = Applied, ao_send_error = Some ''timeout'', ao_read_error = None\<rparr>,
            [WriteCall 1, RetryPause, WriteCall 1, ReadCall, RetryPause, ReadCall, Observed (Some 1)])" by code_simp
  show "ao_ok \<lparr>ao_verdict = Applied, ao_send_error = Some ''timeout'', ao_read_error = None\<rparr>"
    using applied_is_proved [OF *] by simp
qed

lemma untouched_dialog_writes_nothing_witness:
  "\<exists>shown. config_ui_values (\<lambda>_. ''x'') ''matterRelay'' [(''startUpOnOff'', PFloat (Fin 1))] (\<lambda>c a. PNone) [] relay_lists True = Inr shown
    \<and> dget shown ''startUpOnOff'' = PStr ''1''
    \<and> planned_writes (\<lambda>_. ''x'') ''matterRelay'' shown [(''startUpOnOff'', PFloat (Fin 1))] (\<lambda>c a. PNone) relay_lists True = Inr []"
proof -
  have r: "case config_ui_values (\<lambda>_. ''x'') ''matterRelay'' [(''startUpOnOff'', PFloat (Fin 1))] (\<lambda>c a. PNone) [] relay_lists True of
      Inr shown \<Rightarrow> dget shown ''startUpOnOff'' = PStr ''1'' | Inl _ \<Rightarrow> False" by code_simp
  then obtain shown where shown: "config_ui_values (\<lambda>_. ''x'') ''matterRelay'' [(''startUpOnOff'', PFloat (Fin 1))] (\<lambda>c a. PNone) [] relay_lists True = Inr shown"
    "dget shown ''startUpOnOff'' = PStr ''1''" by (auto split: sum.splits)
  have "planned_writes (\<lambda>_. ''x'') ''matterRelay'' shown [(''startUpOnOff'', PFloat (Fin 1))] (\<lambda>c a. PNone) relay_lists True = Inr []"
  proof (rule untouched_dialog_writes_nothing [OF shown(1)])
    show "\<forall>s \<in> set SETTINGS. plain_state (dget [(''startUpOnOff'', PFloat (Fin 1))] (ds_key s))"
      by (auto simp: SETTINGS_def hold_time_setting_def sensitivity_setting_def start_up_setting_def dget_def)
    have "int_of_text (str_strip ''x'') = None" by code_simp
    then show "\<And>f. int_of_text (str_strip ''x'') = None" .
  qed
  with shown show ?thesis by blast
qed

end
