(* ===== verification/SettingsReport.thy ===== *)
theory SettingsReport
  imports AttributeTable DeviceSettings ThreadMesh "HOL-Library.Product_Lexorder"
begin

text \<open>
  \<open>settings_report.py\<close>: which writable attributes a node implements and the plugin does not offer, the
  fingerprint by which a node is reported once, the report, and the dump of what a node holds.

  A line of the report or the dump is a constructor with the values it shows; \<open>dumps\<close> and \<open>loads\<close> are
  those of the \<open>json\<close> module, except that the list of triples in a fingerprint is printed as it is.
\<close>

section \<open>What is left out\<close>

definition GLOBAL_ATTRIBUTES :: "(int \<times> string) list" where
  "GLOBAL_ATTRIBUTES = [(65528, ''GeneratedCommandList''), (65529, ''AcceptedCommandList''), (65530, ''EventList''),
     (65531, ''AttributeList''), (65532, ''FeatureMap''), (65533, ''ClusterRevision'')]"

definition INFRASTRUCTURE_CLUSTERS :: "int list" where
  "INFRASTRUCTURE_CLUSTERS = [3, 40, 48, 49, 1107, 53, 30, 31, 42, 63, 65, 57]"

definition DRIVEN_ATTRIBUTES :: "(int \<times> int) list" where
  "DRIVEN_ATTRIBUTES = [(513, 17), (513, 18), (513, 28), (514, 0), (514, 2)]"

definition NOT_SETTINGS :: "(int \<times> int) list" where
  "NOT_SETTINGS = [(6, 16385), (6, 16386), (3, 0), (48, 0)]"

definition REVIEWED_COMMAND_FIELD_COLLISIONS :: "(int \<times> int) list" where
  "REVIEWED_COMMAND_FIELD_COLLISIONS = [(257, 37)]"

definition MAX_VALUE_CHARS :: nat where "MAX_VALUE_CHARS = 220"

section \<open>Labels\<close>

definition cluster_label :: "int \<Rightarrow> string" where
  "cluster_label cluster = (case map_of CLUSTER_NAMES cluster of
       Some name \<Rightarrow> name @ '' (0x'' @ hex4 cluster @ '')''
     | None \<Rightarrow> ''cluster 0x'' @ hex4 cluster)"

definition attribute_name :: "int \<Rightarrow> int \<Rightarrow> string option" where
  "attribute_name cluster attribute =
     (case map_of (case map_of ATTRIBUTE_NAMES cluster of None \<Rightarrow> [] | Some names \<Rightarrow> names) attribute of
        Some name \<Rightarrow> Some name
      | None \<Rightarrow> map_of GLOBAL_ATTRIBUTES attribute)"

definition attribute_label :: "int \<Rightarrow> int \<Rightarrow> string" where
  "attribute_label cluster attribute = (case attribute_name cluster attribute of
       Some name \<Rightarrow> name @ '' (0x'' @ hex4 attribute @ '')''
     | None \<Rightarrow> ''attribute 0x'' @ hex4 attribute)"

section \<open>The survey\<close>

record endpoint_survey =
  es_endpoint :: int
  es_device_names :: "string list"
  es_settable :: "(int \<times> int) list"

record node_survey =
  nv_node_id :: int
  nv_vendor :: string
  nv_product :: string
  nv_firmware :: string
  nv_endpoints :: "endpoint_survey list"

definition describe_settable :: "int \<times> int \<Rightarrow> string" where
  "describe_settable x = attribute_label (fst x) (snd x) @ '' on '' @ cluster_label (fst x)"

definition joined :: "string \<Rightarrow> string list \<Rightarrow> string" where
  "joined sep xs = concat (case xs of [] \<Rightarrow> [] | x # r \<Rightarrow> x # map (\<lambda>y. sep @ y) r)"

definition endpoint_title :: "endpoint_survey \<Rightarrow> string" where
  "endpoint_title e =
     (if es_endpoint e = 0 then ''the Matter root node (endpoint 0)''
      else if es_device_names e \<noteq> []
      then joined '', '' (es_device_names e) @ '' (endpoint '' @ str_of_int (es_endpoint e) @ '')''
      else ''endpoint '' @ str_of_int (es_endpoint e))"

definition survey_count :: "node_survey \<Rightarrow> nat" where
  "survey_count s = sum_list (map (length \<circ> es_settable) (nv_endpoints s))"

definition identity_text :: "string \<Rightarrow> string \<Rightarrow> string \<Rightarrow> int \<Rightarrow> string" where
  "identity_text vendor product firmware node_id =
     (let parts = filter (\<lambda>p. p \<noteq> []) [vendor, product]
      in (if parts = [] then ''unknown device'' else joined '' '' parts)
         @ (if firmware = [] then [] else '' firmware '' @ firmware)
         @ '' (node '' @ node_id_to_str (NInt node_id) @ '')'')"

definition survey_identity :: "node_survey \<Rightarrow> string" where
  "survey_identity s = identity_text (nv_vendor s) (nv_product s) (nv_firmware s) (nv_node_id s)"

definition survey_pairs :: "node_survey \<Rightarrow> (int \<times> int \<times> int) list" where
  "survey_pairs s = sort (concat (map (\<lambda>e. map (\<lambda>(c, a). (es_endpoint e, c, a)) (es_settable e)) (nv_endpoints s)))"

definition dump_pairs :: "(int \<times> int \<times> int) list \<Rightarrow> string" where
  "dump_pairs ps = ''['' @ joined '','' (map (\<lambda>(e, c, a).
     ''['' @ str_of_int e @ '','' @ str_of_int c @ '','' @ str_of_int a @ '']'') ps) @ '']''"

definition survey_fingerprint :: "node_survey \<Rightarrow> string" where
  "survey_fingerprint s = nv_firmware s @ ''#'' @ dump_pairs (survey_pairs s)"

text \<open>The gaps of one cluster, against the pairs offered on the endpoint.\<close>

definition survey_cluster :: "node_info \<Rightarrow> (int \<times> int) set \<Rightarrow> int \<Rightarrow> int \<Rightarrow> (int \<times> int) list py_result" where
  "survey_cluster node already endpoint cluster =
     (if cluster \<in> set INFRASTRUCTURE_CLUSTERS then Inr []
      else (case map_of WRITABLE_ATTRIBUTES cluster of
              None \<Rightarrow> Inr []
            | Some writable \<Rightarrow>
                py_bind (py_map (\<lambda>attribute.
                    py_bind (implements (path_value (ni_attributes node) (endpoint, cluster, ATTR_ATTRIBUTE_LIST)) attribute) (\<lambda>known.
                      Inr (if known \<noteq> Some True then None
                           else if (cluster, attribute) \<in> set DRIVEN_ATTRIBUTES then None
                           else if (cluster, attribute) \<in> set NOT_SETTINGS then None
                           else if (cluster, attribute) \<in> already then None
                           else Some (cluster, attribute)))) writable) (\<lambda>rs.
                  Inr (List.map_filter id rs))))"

definition node_endpoint_ids :: "node_info \<Rightarrow> int list" where
  "node_endpoint_ids node = sorted_list_of_set (set (map (\<lambda>((e, c, a), v). e) (ni_attributes node)))"

definition endpoint_clusters :: "node_info \<Rightarrow> int \<Rightarrow> int list" where
  "endpoint_clusters node endpoint =
     sorted_list_of_set (set (map (\<lambda>((e, c, a), v). c) (filter (\<lambda>((e, c, a), v). e = endpoint) (ni_attributes node))))"

definition survey_endpoint ::
  "node_info \<Rightarrow> (int \<Rightarrow> (int \<times> int) set) option \<Rightarrow> int \<Rightarrow> endpoint_survey option py_result" where
  "survey_endpoint node offered endpoint =
     (let already = (case offered of None \<Rightarrow> {} | Some f \<Rightarrow> f endpoint)
      in py_bind (py_map (survey_cluster node already endpoint) (endpoint_clusters node endpoint)) (\<lambda>rs.
           Inr (if concat rs = [] then None
                else Some \<lparr>es_endpoint = endpoint, es_device_names = [], es_settable = concat rs\<rparr>)))"

definition survey_node :: "node_info \<Rightarrow> (int \<Rightarrow> (int \<times> int) set) option \<Rightarrow> node_survey py_result" where
  "survey_node node offered =
     py_bind (py_map (survey_endpoint node offered) (node_endpoint_ids node)) (\<lambda>rs.
       Inr \<lparr>nv_node_id = ni_node_id node, nv_vendor = ni_vendor_name node, nv_product = ni_product_name node,
            nv_firmware = ni_sw_version node, nv_endpoints = List.map_filter id rs\<rparr>)"

definition name_endpoints :: "node_survey \<Rightarrow> (int \<Rightarrow> string list) \<Rightarrow> node_survey" where
  "name_endpoints s names =
     s\<lparr>nv_endpoints := map (\<lambda>e. e\<lparr>es_device_names := names (es_endpoint e)\<rparr>) (nv_endpoints s)\<rparr>"

section \<open>The report and the dump\<close>

datatype report_line =
    ReportHead string nat
  | ReportEndpoint string
  | ReportNodeLevel
  | ReportItem string
  | ReportClosing

definition report_lines :: "node_survey \<Rightarrow> report_line list" where
  "report_lines s =
     (if nv_endpoints s = [] then []
      else ReportHead (survey_identity s) (survey_count s)
           # concat (map (\<lambda>e. ReportEndpoint (endpoint_title e)
                 # (if es_endpoint e = 0 then [ReportNodeLevel] else [])
                 @ map (\<lambda>x. ReportItem (describe_settable x)) (es_settable e)) (nv_endpoints s))
           @ [ReportClosing])"

datatype rendered = Rendered string | Truncated string nat

definition render_value :: "(pyval \<Rightarrow> string py_result) \<Rightarrow> (pyval \<Rightarrow> string) \<Rightarrow> pyval \<Rightarrow> rendered py_result" where
  "render_value dumps repr v =
     py_bind (case dumps v of Inr t \<Rightarrow> Inr t
        | Inl e \<Rightarrow> if e = TypeError \<or> e = ValueError then Inr (repr v) else Inl e) (\<lambda>t.
       Inr (if MAX_VALUE_CHARS < length t then Truncated (take MAX_VALUE_CHARS t) (length t) else Rendered t))"

datatype attribute_flag = PlainAttribute | WritableAttribute | CommandParameter

datatype explore_line =
    ExploreHead "int option" "int option" string
  | ExploreCaution
  | ExploreNothing
  | ExploreEndpoint int
  | ExploreCluster int string
  | ExploreAttribute int int int string attribute_flag rendered

definition attribute_flag_of :: "int \<Rightarrow> int \<Rightarrow> attribute_flag" where
  "attribute_flag_of cluster attribute =
     (if (cluster, attribute) \<in> set NOT_SETTINGS then CommandParameter
      else if attribute \<in> set (case map_of WRITABLE_ATTRIBUTES cluster of None \<Rightarrow> [] | Some ws \<Rightarrow> ws)
      then WritableAttribute else PlainAttribute)"

definition in_scope :: "int option \<Rightarrow> int option \<Rightarrow> attr_path \<Rightarrow> bool" where
  "in_scope endpoint cluster path = (case path of (e, c, a) \<Rightarrow>
     (endpoint = None \<or> endpoint = Some e) \<and> (cluster = None \<or> cluster = Some c))"

definition explore_cluster ::
  "(pyval \<Rightarrow> string py_result) \<Rightarrow> (pyval \<Rightarrow> string) \<Rightarrow> attributes \<Rightarrow> int \<Rightarrow> int \<Rightarrow> explore_line list py_result" where
  "explore_cluster dumps repr wanted ep cl =
     (let ids = sorted_list_of_set (set (map (\<lambda>((e, c, a), v). a) (filter (\<lambda>((e, c, a), v). e = ep \<and> c = cl) wanted)))
      in py_bind (py_map (\<lambda>a. py_bind (render_value dumps repr (path_value wanted (ep, cl, a))) (\<lambda>r.
             Inr (ExploreAttribute ep cl a (attribute_label cl a) (attribute_flag_of cl a) r))) ids) (\<lambda>ls.
           Inr (ExploreCluster cl (cluster_label cl) # ls)))"

definition explore_endpoint ::
  "(pyval \<Rightarrow> string py_result) \<Rightarrow> (pyval \<Rightarrow> string) \<Rightarrow> attributes \<Rightarrow> int \<Rightarrow> explore_line list py_result" where
  "explore_endpoint dumps repr wanted ep =
     (let cls = sorted_list_of_set (set (map (\<lambda>((e, c, a), v). c) (filter (\<lambda>((e, c, a), v). e = ep) wanted)))
      in py_bind (py_map (explore_cluster dumps repr wanted ep) cls) (\<lambda>ls. Inr (ExploreEndpoint ep # concat ls)))"

definition explore_lines ::
  "(pyval \<Rightarrow> string py_result) \<Rightarrow> (pyval \<Rightarrow> string) \<Rightarrow> node_info \<Rightarrow> int option \<Rightarrow> int option \<Rightarrow> explore_line list py_result" where
  "explore_lines dumps repr node endpoint cluster =
     (let wanted = filter (in_scope endpoint cluster \<circ> fst) (ni_attributes node);
          head = [ExploreHead endpoint cluster (identity_text (ni_vendor_name node) (ni_product_name node)
                    (ni_sw_version node) (ni_node_id node)), ExploreCaution];
          eps = sorted_list_of_set (set (map (\<lambda>((e, c, a), v). e) wanted))
      in if wanted = [] then Inr (head @ [ExploreNothing])
         else py_bind (py_map (explore_endpoint dumps repr wanted) eps) (\<lambda>ls. Inr (head @ concat ls)))"

section \<open>Once per answer\<close>

datatype survey_summary = NotSurveyed | SurveyUnreadable | FullySupported | SurveyPending nat

text \<open>\<open>rpartition("#")\<close>: the text after the last number sign, or all of it.\<close>

fun after_last_hash :: "string \<Rightarrow> string" where
  "after_last_hash [] = []"
| "after_last_hash (c # s) = (if CHR ''#'' \<in> set s then after_last_hash s
     else if c = CHR ''#'' then s else c # s)"

definition describe_fingerprint :: "(string \<Rightarrow> pyval py_result) \<Rightarrow> string option \<Rightarrow> survey_summary py_result" where
  "describe_fingerprint loads fp = (case fp of
       None \<Rightarrow> Inr NotSurveyed
     | Some t \<Rightarrow>
         (if t = [] then Inr NotSurveyed
          else let tail = after_last_hash t
               in (case (if tail = [] then Inr (PList []) else loads tail) of
                     Inl e \<Rightarrow> if e = TypeError \<or> e = ValueError then Inr SurveyUnreadable else Inl e
                   | Inr v \<Rightarrow> (let count = (case v of PList xs \<Rightarrow> length xs | _ \<Rightarrow> 0)
                       in Inr (if count = 0 then FullySupported else SurveyPending count)))))"

text \<open>\<open>SurveyLog\<close> keeps its answers as \<open>RemovedStateLog\<close> does, by node id.\<close>

definition survey_should_report :: "int \<Rightarrow> string \<Rightarrow> seen_log \<Rightarrow> bool" where
  "survey_should_report node_id fp l = (map_of (sl_seen l) (str_of_int node_id) \<noteq> Some fp)"

definition survey_record :: "int \<Rightarrow> string \<Rightarrow> seen_log \<Rightarrow> seen_log \<times> (string \<times> string) list option" where
  "survey_record node_id fp l = (let l' = l\<lparr>sl_seen := AList.update (str_of_int node_id) fp (sl_seen l)\<rparr>
     in (l', persist_log l'))"

definition fingerprint_for :: "int \<Rightarrow> seen_log \<Rightarrow> string option" where
  "fingerprint_for node_id l = map_of (sl_seen l) (str_of_int node_id)"

definition survey_forget :: "int \<Rightarrow> seen_log \<Rightarrow> seen_log \<times> (string \<times> string) list option" where
  "survey_forget node_id l = (let l' = l\<lparr>sl_seen := AList.delete (str_of_int node_id) (sl_seen l)\<rparr>
     in (l', if map_of (sl_seen l) (str_of_int node_id) = None then None else persist_log l'))"

definition declared_pairs :: "(int \<times> int) set" where
  "declared_pairs = set (map (\<lambda>s. (ds_cluster s, ds_attribute s)) SETTINGS)"

section \<open>Properties\<close>

lemma py_map_defined: "py_map f xs = Inr ys \<Longrightarrow> x \<in> set xs \<Longrightarrow> \<exists>y. f x = Inr y"
  by (induction xs arbitrary: ys) (auto simp: py_bind_Inr)

lemma py_map_mem: "py_map f xs = Inr ys \<Longrightarrow> y \<in> set ys \<longleftrightarrow> (\<exists>x \<in> set xs. f x = Inr y)"
  by (induction xs arbitrary: ys) (auto simp: py_bind_Inr)

text \<open>What makes a pair of the node a gap: it is writable, the list of the device names it, and neither the
  kind of its cluster, an ordinary control, the review nor a setting already offered accounts for it.\<close>

definition is_gap :: "node_info \<Rightarrow> (int \<times> int) set \<Rightarrow> int \<Rightarrow> int \<Rightarrow> int \<Rightarrow> bool" where
  "is_gap node already endpoint cluster attribute =
     (cluster \<notin> set INFRASTRUCTURE_CLUSTERS
      \<and> (case map_of WRITABLE_ATTRIBUTES cluster of None \<Rightarrow> False | Some ws \<Rightarrow> attribute \<in> set ws)
      \<and> implements (path_value (ni_attributes node) (endpoint, cluster, ATTR_ATTRIBUTE_LIST)) attribute = Inr (Some True)
      \<and> (cluster, attribute) \<notin> set DRIVEN_ATTRIBUTES \<union> set NOT_SETTINGS \<union> already)"

lemma survey_cluster_gaps:
  assumes "survey_cluster node already endpoint cluster = Inr r"
  shows "(c, a) \<in> set r \<longleftrightarrow> c = cluster \<and> is_gap node already endpoint cluster a"
proof (cases "map_of WRITABLE_ATTRIBUTES cluster")
  case (Some ws)
  show ?thesis
  proof (cases "cluster \<in> set INFRASTRUCTURE_CLUSTERS")
    case False
    with assms Some obtain rs where "py_map (\<lambda>attribute.
          py_bind (implements (path_value (ni_attributes node) (endpoint, cluster, ATTR_ATTRIBUTE_LIST)) attribute) (\<lambda>known.
                      Inr (if known \<noteq> Some True then None
                           else if (cluster, attribute) \<in> set DRIVEN_ATTRIBUTES then None
                           else if (cluster, attribute) \<in> set NOT_SETTINGS then None
                           else if (cluster, attribute) \<in> already then None
                           else Some (cluster, attribute)))) ws = Inr rs" "r = List.map_filter id rs"
      by (auto simp: survey_cluster_def py_bind_Inr)
    from py_map_filtered [OF this(1), of "(c, a)"] this(2) Some False show ?thesis
      by (auto simp: is_gap_def py_bind_Inr split: if_splits)
  qed (use assms in \<open>simp add: survey_cluster_def is_gap_def\<close>)
qed (use assms in \<open>auto simp: survey_cluster_def is_gap_def split: if_splits\<close>)

lemma endpoint_clusters_set:
  "set (endpoint_clusters node endpoint) = {c. \<exists>a v. ((endpoint, c, a), v) \<in> set (ni_attributes node)}"
  by (force simp: endpoint_clusters_def)

lemma node_endpoints_set:
  "set (node_endpoint_ids node) = {e. \<exists>c a v. ((e, c, a), v) \<in> set (ni_attributes node)}"
  by (force simp: node_endpoint_ids_def)

definition offered_on :: "(int \<Rightarrow> (int \<times> int) set) option \<Rightarrow> int \<Rightarrow> (int \<times> int) set" where
  "offered_on offered endpoint = (case offered of None \<Rightarrow> {} | Some f \<Rightarrow> f endpoint)"

lemma survey_endpoint_gaps:
  assumes "survey_endpoint node offered endpoint = Inr r"
  shows "(\<exists>e. r = Some e \<and> es_endpoint e = ep \<and> (c, a) \<in> set (es_settable e))
    \<longleftrightarrow> ep = endpoint \<and> c \<in> set (endpoint_clusters node endpoint) \<and> is_gap node (offered_on offered endpoint) endpoint c a"
proof -
  obtain rs where rs: "py_map (survey_cluster node (offered_on offered endpoint) endpoint) (endpoint_clusters node endpoint) = Inr rs"
      "r = (if concat rs = [] then None
            else Some \<lparr>es_endpoint = endpoint, es_device_names = [], es_settable = concat rs\<rparr>)"
    using assms by (auto simp: survey_endpoint_def offered_on_def py_bind_Inr Let_def)
  have "(c, a) \<in> set (concat rs) \<longleftrightarrow>
      c \<in> set (endpoint_clusters node endpoint) \<and> is_gap node (offered_on offered endpoint) endpoint c a" (is "?l \<longleftrightarrow> ?r")
  proof
    assume ?l
    then obtain g where "g \<in> set rs" "(c, a) \<in> set g" by auto
    then obtain x where x: "x \<in> set (endpoint_clusters node endpoint)"
        "survey_cluster node (offered_on offered endpoint) endpoint x = Inr g"
      using py_map_mem [OF rs(1)] by blast
    with survey_cluster_gaps [OF x(2), of c a] \<open>(c, a) \<in> set g\<close> show ?r by simp
  next
    assume gap: ?r
    obtain g where g: "survey_cluster node (offered_on offered endpoint) endpoint c = Inr g"
      using py_map_defined [OF rs(1)] gap by blast
    with py_map_mem [OF rs(1)] gap have "g \<in> set rs" by blast
    with survey_cluster_gaps [OF g] gap show ?l by auto
  qed
  with rs(2) show ?thesis by auto
qed

text \<open>C20: the survey is exact: an attribute is reported on an endpoint exactly when the node holds its cluster
  there and it is a gap.\<close>

theorem survey_exact:
  assumes "survey_node node offered = Inr s"
  shows "(\<exists>e \<in> set (nv_endpoints s). es_endpoint e = ep \<and> (c, a) \<in> set (es_settable e))
    \<longleftrightarrow> (\<exists>k v. ((ep, c, k), v) \<in> set (ni_attributes node)) \<and> is_gap node (offered_on offered ep) ep c a"
proof -
  obtain rs where rs: "py_map (survey_endpoint node offered) (node_endpoint_ids node) = Inr rs"
      "nv_endpoints s = List.map_filter id rs"
    using assms by (auto simp: survey_node_def py_bind_Inr)
  show ?thesis (is "?l \<longleftrightarrow> ?r")
  proof
    assume ?l
    then obtain e where e: "e \<in> set (nv_endpoints s)" "es_endpoint e = ep" "(c, a) \<in> set (es_settable e)" by blast
    then obtain p where "survey_endpoint node offered p = Inr (Some e)"
      using py_map_filtered [OF rs(1)] rs(2) by auto
    from survey_endpoint_gaps [OF this, of ep c a] e endpoint_clusters_set show ?r by auto
  next
    assume gap: ?r
    then have p: "ep \<in> set (node_endpoint_ids node)" "c \<in> set (endpoint_clusters node ep)"
      by (auto simp: node_endpoints_set endpoint_clusters_set)
    obtain r where r: "survey_endpoint node offered ep = Inr r" using py_map_defined [OF rs(1)] p(1) by blast
    with survey_endpoint_gaps [OF r, of ep c a] gap p(2) obtain e
      where e: "r = Some e" "es_endpoint e = ep" "(c, a) \<in> set (es_settable e)" by blast
    with r p(1) py_map_filtered [OF rs(1), of e] rs(2) have "e \<in> set (nv_endpoints s)" by auto
    with e show ?l by blast
  qed
qed

text \<open>A dialog shows the number of gaps the survey counted, read back from the fingerprint that was stored.\<close>

lemma after_hash_plain: "CHR ''#'' \<notin> set t \<Longrightarrow> after_last_hash (s @ CHR ''#'' # t) = t"
  by (induction s) auto

lemma joined_chars: "set (joined sep xs) \<subseteq> set sep \<union> \<Union> (set ` set xs)"
  by (cases xs) (auto simp: joined_def)

lemma dump_pairs_plain: "CHR ''#'' \<notin> set (dump_pairs ps)"
proof -
  have "CHR ''#'' \<notin> set (str_of_int n)" for n
    using str_of_int_chars [of "CHR ''#''" n] by (auto simp: code_point_def)
  then show ?thesis
    using joined_chars by (fastforce simp: dump_pairs_def)
qed

lemma survey_pairs_length: "length (survey_pairs s) = survey_count s"
  by (simp add: survey_pairs_def survey_count_def length_concat comp_def)

theorem fingerprint_counts:
  assumes "loads (dump_pairs (survey_pairs s)) = Inr (PList vs)" "length vs = length (survey_pairs s)"
  shows "describe_fingerprint loads (Some (survey_fingerprint s))
    = Inr (if survey_count s = 0 then FullySupported else SurveyPending (survey_count s))"
proof -
  have "after_last_hash (survey_fingerprint s) = dump_pairs (survey_pairs s)"
    using after_hash_plain [OF dump_pairs_plain] by (simp add: survey_fingerprint_def)
  moreover have "dump_pairs ps \<noteq> []" for ps by (simp add: dump_pairs_def)
  moreover have "survey_fingerprint s \<noteq> []" by (simp add: survey_fingerprint_def)
  ultimately show ?thesis
    using assms by (simp add: describe_fingerprint_def survey_pairs_length)
qed

section \<open>The dump leaves nothing out\<close>

fun shows_attribute :: "attr_path \<Rightarrow> explore_line \<Rightarrow> bool" where
  "shows_attribute (e, c, a) (ExploreAttribute e' c' a' label flag r) =
     (e' = e \<and> c' = c \<and> a' = a \<and> label = attribute_label c a \<and> flag = attribute_flag_of c a)"
| "shows_attribute path _ = False"

lemma py_map_once:
  assumes "py_map f xs = Inr ys" "distinct xs" "\<And>x y. x \<in> set xs \<Longrightarrow> f x = Inr y \<Longrightarrow> P y \<longleftrightarrow> x = k \<and> Q"
  shows "length (filter P ys) = (if k \<in> set xs \<and> Q then 1 else 0)"
  using assms
proof (induction xs arbitrary: ys)
  case (Cons x xs)
  then obtain z zs where z: "f x = Inr z" "py_map f xs = Inr zs" "ys = z # zs" by (auto simp: py_bind_Inr)
  moreover have "length (filter P zs) = (if k \<in> set xs \<and> Q then 1 else 0)"
    using Cons.IH [OF z(2)] Cons.prems(2,3) by (metis distinct.simps(2) list.set_intros(2))
  moreover have "P z \<longleftrightarrow> x = k \<and> Q" using Cons.prems(3) z(1) by (metis list.set_intros(1))
  ultimately show ?case using Cons.prems(2) by auto
qed simp

lemma py_map_counts:
  assumes "py_map f xs = Inr ys" "distinct xs"
    and "\<And>x y. x \<in> set xs \<Longrightarrow> f x = Inr y \<Longrightarrow> length (filter P y) = (if x = k then n else 0)"
  shows "length (filter P (concat ys)) = (if k \<in> set xs then n else 0)"
  using assms
proof (induction xs arbitrary: ys)
  case (Cons x xs)
  then obtain z zs where z: "f x = Inr z" "py_map f xs = Inr zs" "ys = z # zs" by (auto simp: py_bind_Inr)
  moreover have "length (filter P (concat zs)) = (if k \<in> set xs then n else 0)"
    using Cons.IH [OF z(2)] Cons.prems(2,3) by (metis distinct.simps(2) list.set_intros(2))
  moreover have "length (filter P z) = (if x = k then n else 0)" using Cons.prems(3) z(1) by (metis list.set_intros(1))
  ultimately show ?case using Cons.prems(2) by auto
qed simp

lemma cluster_shows_once:
  assumes "explore_cluster dumps repr wanted ep cl = Inr ls"
  shows "length (filter (shows_attribute (e, c, a)) ls)
    = (if cl = c then if ep = e \<and> (\<exists>v. ((ep, c, a), v) \<in> set wanted) then 1 else 0 else 0)"
proof -
  let ?ids = "sorted_list_of_set (set (map (\<lambda>((e, c, a), v). a) (filter (\<lambda>((e, c, a), v). e = ep \<and> c = cl) wanted)))"
  obtain ls' where ls': "py_map (\<lambda>a. py_bind (render_value dumps repr (path_value wanted (ep, cl, a))) (\<lambda>r.
             Inr (ExploreAttribute ep cl a (attribute_label cl a) (attribute_flag_of cl a) r))) ?ids = Inr ls'"
      "ls = ExploreCluster cl (cluster_label cl) # ls'"
    using assms by (auto simp: explore_cluster_def py_bind_Inr Let_def)
  have "length (filter (shows_attribute (e, c, a)) ls') = (if a \<in> set ?ids \<and> ep = e \<and> cl = c then 1 else 0)"
    by (rule py_map_once [OF ls'(1)]) (auto simp: py_bind_Inr)
  moreover have "a \<in> set ?ids \<longleftrightarrow> (\<exists>v. ((ep, cl, a), v) \<in> set wanted)" by force
  ultimately have "length (filter (shows_attribute (e, c, a)) ls')
      = (if (\<exists>v. ((ep, cl, a), v) \<in> set wanted) \<and> ep = e \<and> cl = c then 1 else 0)" by presburger
  then show ?thesis by (auto simp: ls'(2))
qed

lemma endpoint_shows_once:
  assumes "explore_endpoint dumps repr wanted ep = Inr ls"
  shows "length (filter (shows_attribute (e, c, a)) ls)
    = (if ep = e then if \<exists>v. ((e, c, a), v) \<in> set wanted then 1 else 0 else 0)"
proof -
  let ?cls = "sorted_list_of_set (set (map (\<lambda>((e, c, a), v). c) (filter (\<lambda>((e, c, a), v). e = ep) wanted)))"
  obtain ls' where ls': "py_map (explore_cluster dumps repr wanted ep) ?cls = Inr ls'" "ls = ExploreEndpoint ep # concat ls'"
    using assms by (auto simp: explore_endpoint_def py_bind_Inr Let_def)
  have "length (filter (shows_attribute (e, c, a)) (concat ls'))
      = (if c \<in> set ?cls then if ep = e \<and> (\<exists>v. ((ep, c, a), v) \<in> set wanted) then 1 else 0 else 0)"
    by (rule py_map_counts [OF ls'(1)], simp, erule cluster_shows_once)
  moreover have "(\<exists>v. ((ep, c, a), v) \<in> set wanted) \<Longrightarrow> c \<in> set ?cls" by force
  ultimately show ?thesis by (auto simp: ls'(2))
qed

text \<open>The dump leaves nothing out and repeats nothing: an attribute the node holds and the dialog asked for has
  exactly one line, under its own label and marking, and no other attribute has any.\<close>

theorem dump_complete:
  assumes "explore_lines dumps repr node endpoint cluster = Inr ls"
  shows "length (filter (shows_attribute (e, c, a)) ls)
    = (if in_scope endpoint cluster (e, c, a) \<and> (\<exists>v. ((e, c, a), v) \<in> set (ni_attributes node)) then 1 else 0)"
proof -
  let ?wanted = "filter (in_scope endpoint cluster \<circ> fst) (ni_attributes node)"
  let ?eps = "sorted_list_of_set (set (map (\<lambda>((e, c, a), v). e) ?wanted))"
  have held: "(\<exists>v. ((e, c, a), v) \<in> set ?wanted)
      \<longleftrightarrow> in_scope endpoint cluster (e, c, a) \<and> (\<exists>v. ((e, c, a), v) \<in> set (ni_attributes node))" by auto
  show ?thesis
  proof (cases "?wanted = []")
    case True
    then have "length (filter (shows_attribute (e, c, a)) ls) = 0"
      using assms by (auto simp: explore_lines_def Let_def)
    then show ?thesis using held True by auto
  next
    case False
    then obtain ls' h s where ls': "py_map (explore_endpoint dumps repr ?wanted) ?eps = Inr ls'"
        "ls = ExploreHead endpoint cluster h # ExploreCaution # concat ls'"
      using assms by (auto simp: explore_lines_def py_bind_Inr Let_def)
    have "length (filter (shows_attribute (e, c, a)) (concat ls'))
        = (if e \<in> set ?eps then if \<exists>v. ((e, c, a), v) \<in> set ?wanted then 1 else 0 else 0)"
      by (rule py_map_counts [OF ls'(1)], simp, erule endpoint_shows_once)
    moreover have "(\<exists>v. ((e, c, a), v) \<in> set ?wanted) \<Longrightarrow> e \<in> set ?eps" by force
    ultimately show ?thesis using held by (auto simp: ls'(2))
  qed
qed

text \<open>Every attribute the generated table says shares its name with a field of a command has been decided by
  hand, once: it is either no setting or a reviewed collision.\<close>

theorem collisions_decided:
  "set (concat (map (\<lambda>(c, as). map (Pair c) as) COMMAND_FIELD_ATTRIBUTES)) = set NOT_SETTINGS \<union> set REVIEWED_COMMAND_FIELD_COLLISIONS
   \<and> set NOT_SETTINGS \<inter> set REVIEWED_COMMAND_FIELD_COLLISIONS = {}"
  by code_simp

text \<open>An answer that was recorded is not reported again, until it changes or the node is forgotten.\<close>

lemma reported_once:
  "survey_should_report n fp (fst (survey_record n fp' l)) \<longleftrightarrow> fp \<noteq> fp'"
  "distinct (map fst (sl_seen l)) \<Longrightarrow> survey_should_report n fp (fst (survey_forget n l))"
  by (auto simp: survey_should_report_def survey_record_def survey_forget_def update_conv' delete_conv' Let_def)

section \<open>Witnesses\<close>

text \<open>A plug with an on-off cluster whose list names the start-up behaviour, and a lock.\<close>

definition survey_demo :: node_info where
  "survey_demo = \<lparr>ni_node_id = 56, ni_suggested_name = ''Plug'', ni_vendor_id = None, ni_product_id = None,
     ni_vendor_name = ''Aqara'', ni_product_name = ''Plug'', ni_sw_version = ''1#2'', ni_available = True, ni_endpoints = [],
     ni_attributes = [((1, 6, 65531), PList [PInt 0, PInt 16385, PInt 16387]), ((1, 6, 0), PBool True),
       ((2, 257, 65531), PList [PInt 37])]\<rparr>"

definition survey_demo_result :: node_survey where
  "survey_demo_result = \<lparr>nv_node_id = 56, nv_vendor = ''Aqara'', nv_product = ''Plug'', nv_firmware = ''1#2'',
     nv_endpoints = [\<lparr>es_endpoint = 1, es_device_names = [], es_settable = [(6, 16387)]\<rparr>,
       \<lparr>es_endpoint = 2, es_device_names = [], es_settable = [(257, 37)]\<rparr>]\<rparr>"

lemma survey_demo_run: "survey_node survey_demo None = Inr survey_demo_result"
  by code_simp

lemma survey_exact_witness: "is_gap survey_demo {} 1 6 16387 \<and> \<not> is_gap survey_demo {} 1 6 16385"
  using survey_exact [OF survey_demo_run, of 1 6 16387] survey_exact [OF survey_demo_run, of 1 6 16385]
  by (auto simp: survey_demo_result_def survey_demo_def offered_on_def)

lemma fingerprint_counts_witness:
  "describe_fingerprint (\<lambda>t. Inr (PList [PNone, PNone])) (Some (survey_fingerprint survey_demo_result)) = Inr (SurveyPending 2)"
  using fingerprint_counts [of "\<lambda>t. Inr (PList [PNone, PNone])" survey_demo_result "[PNone, PNone]"]
  by (simp add: survey_pairs_length) (simp add: survey_count_def survey_demo_result_def)

definition explore_demo :: "explore_line list" where
  "explore_demo = [ExploreHead (Some 1) None (identity_text ''Aqara'' ''Plug'' ''1#2'' 56), ExploreCaution, ExploreEndpoint 1,
     ExploreCluster 6 (cluster_label 6),
     ExploreAttribute 1 6 0 (attribute_label 6 0) (attribute_flag_of 6 0) (Rendered ''1''),
     ExploreAttribute 1 6 65531 (attribute_label 6 65531) (attribute_flag_of 6 65531) (Rendered ''1'')]"

lemma explore_demo_run:
  "explore_lines (\<lambda>v. Inr ''1'') (\<lambda>v. []) survey_demo (Some 1) None = Inr explore_demo"
  by (simp add: explore_lines_def explore_endpoint_def explore_cluster_def survey_demo_def in_scope_def Let_def
      render_value_def MAX_VALUE_CHARS_def explore_demo_def)

lemma dump_complete_witness: "length (filter (shows_attribute (1, 6, 0)) explore_demo) = 1"
  using dump_complete [OF explore_demo_run, of 1 6 0] by (simp add: in_scope_def survey_demo_def)

end
