(* ===== verification/NodeToolchain.thy ===== *)
theory NodeToolchain
  imports HandlerSettings "HOL-Library.List_Lexorder"
begin

text \<open>
  \<open>node_resolver.py\<close>: which \<open>npx\<close> and \<open>node\<close> the agents run on. A pinned directory is honoured when the node
  in it runs and is new enough; otherwise Homebrew, nvm and the search path are tried, never the
  rejected directory again. The stamp of the node an install used gives an advisory warning.

  The file system and the probe of a binary are fields of a record the definitions read; what
  the code does not catch is an escaping exception. Texts for the user are constructors.
\<close>

section \<open>Paths\<close>

definition SLASH :: char where "SLASH = CHR ''/''"

text \<open>\<open>os.path.join\<close>, \<open>dirname\<close> and \<open>normpath\<close> of a POSIX system.\<close>

fun join_path :: "string \<Rightarrow> string list \<Rightarrow> string" where
  "join_path a [] = a"
| "join_path a (b # bs) = join_path (if b \<noteq> [] \<and> hd b = SLASH then b
     else if a = [] \<or> last a = SLASH then a @ b else a @ SLASH # b) bs"

definition dir_name :: "string \<Rightarrow> string" where
  "dir_name p = (let head = rev (dropWhile (\<lambda>c. c \<noteq> SLASH) (rev p))
     in if list_all (\<lambda>c. c = SLASH) head then head else rev (dropWhile (\<lambda>c. c = SLASH) (rev head)))"

definition keep_comp :: "nat \<Rightarrow> string list \<Rightarrow> string \<Rightarrow> string list" where
  "keep_comp slashes comps c =
     (if c = [] \<or> c = ''.'' then comps
      else if c \<noteq> ''..'' \<or> slashes = 0 \<and> comps = [] \<or> comps \<noteq> [] \<and> last comps = ''..'' then comps @ [c]
      else butlast comps)"

definition leading_slashes :: "string \<Rightarrow> nat" where
  "leading_slashes p = (let n = length (takeWhile (\<lambda>c. c = SLASH) p) in if n = 2 then 2 else min n 1)"

definition slash_joined :: "string list \<Rightarrow> string" where
  "slash_joined cs = (case cs of [] \<Rightarrow> [] | c # r \<Rightarrow> c @ concat (map (\<lambda>x. SLASH # x) r))"

definition norm_path :: "string \<Rightarrow> string" where
  "norm_path p = (let n = leading_slashes p;
       q = replicate n SLASH @ slash_joined (foldl (keep_comp n) [] (str_split SLASH p))
     in if q = [] then ''.'' else q)"

section \<open>The machine\<close>

datatype probe_answer =
    ProbeOsError string
  | ProbeTimedOut string
  | ProbeRaises py_exc
  | ProbeNothing
  | ProbeRan int "string option" "string option"

datatype file_read = FileText string | FileOsError | FileRaises py_exc

record node_host =
  nh_exists :: "string \<Rightarrow> bool"
  nh_isdir :: "string \<Rightarrow> bool"
  nh_listdir :: "string \<Rightarrow> string list option"
  nh_read :: "string \<Rightarrow> file_read"
  nh_write_fault :: "string \<Rightarrow> string option"
  nh_which :: "string option"
  nh_probe :: "string \<Rightarrow> probe_answer"

definition NPX_CANDIDATES :: "string list" where
  "NPX_CANDIDATES = [''/opt/homebrew/bin/npx'', ''/usr/local/bin/npx'']"

definition MIN_NODE_VERSION :: "int list" where "MIN_NODE_VERSION = [22, 13]"

definition INSTALL_NODE_STAMP :: string where "INSTALL_NODE_STAMP = ''.indigo-node''"

definition expand_home :: "string \<Rightarrow> string \<Rightarrow> string" where
  "expand_home path home = (case path of c # rest \<Rightarrow> if c = CHR ''~'' then home @ rest else path | [] \<Rightarrow> [])"

section \<open>Versions\<close>

fun all_some :: "'a option list \<Rightarrow> 'a list option" where
  "all_some [] = Some []"
| "all_some (None # xs) = None"
| "all_some (Some x # xs) = map_option (Cons x) (all_some xs)"

definition parse_node_version :: "string \<Rightarrow> int list option" where
  "parse_node_version name = (let cleaned = str_strip name;
       digits = (if cleaned \<noteq> [] \<and> hd cleaned = CHR ''v'' then tl cleaned else cleaned)
     in all_some (map int_of_text (str_split (CHR ''.'') digits)))"

definition node_major :: "string option \<Rightarrow> int option" where
  "node_major version = (case version of
       None \<Rightarrow> None
     | Some v \<Rightarrow> if v = [] then None else map_option hd (parse_node_version v))"

definition version_key :: "string \<Rightarrow> int list" where
  "version_key d = (case parse_node_version d of None \<Rightarrow> [- 1] | Some v \<Rightarrow> v)"

text \<open>\<open>max\<close> with that key: the first of the highest.\<close>

fun highest_version :: "string \<Rightarrow> string list \<Rightarrow> string" where
  "highest_version best [] = best"
| "highest_version best (d # ds) = highest_version (if version_key best < version_key d then d else best) ds"

definition match_nvm_version :: "string \<Rightarrow> string list \<Rightarrow> string option" where
  "match_nvm_version alias installed =
     (if alias \<in> set installed then Some alias
      else if (CHR ''v'' # alias) \<in> set installed then Some (CHR ''v'' # alias)
      else (case parse_node_version alias of
              None \<Rightarrow> None
            | Some wanted \<Rightarrow>
                (case filter (\<lambda>d. take (length wanted) (case parse_node_version d of None \<Rightarrow> [] | Some v \<Rightarrow> v) = wanted) installed of
                   [] \<Rightarrow> None
                 | d # ds \<Rightarrow> Some (highest_version d ds))))"

section \<open>Probing a node\<close>

datatype probe_fault = DidNotRun string | NoResponse string | NoResult | ExitedWith int "string option" | NoVersion

definition is_line_break :: "char \<Rightarrow> bool" where
  "is_line_break c = (code_point c \<in> {10, 11, 12, 13, 28, 29, 30, 133})"

definition first_line :: "string \<Rightarrow> string option" where
  "first_line s = (let t = str_strip s in if t = [] then None else Some (takeWhile (\<lambda>c. \<not> is_line_break c) t))"

definition text_or_empty :: "string option \<Rightarrow> string" where
  "text_or_empty s = (case s of None \<Rightarrow> [] | Some t \<Rightarrow> t)"

definition probe_detail :: "node_host \<Rightarrow> string \<Rightarrow> (probe_fault + string) py_result" where
  "probe_detail host node = (case nh_probe host node of
       ProbeOsError e \<Rightarrow> Inr (Inl (DidNotRun e))
     | ProbeTimedOut name \<Rightarrow> Inr (Inl (NoResponse name))
     | ProbeRaises e \<Rightarrow> Inl e
     | ProbeNothing \<Rightarrow> Inr (Inl NoResult)
     | ProbeRan code out err \<Rightarrow>
         if code \<noteq> 0 then Inr (Inl (ExitedWith code (first_line (text_or_empty err))))
         else let version = str_strip (text_or_empty out)
              in Inr (if version = [] then Inl NoVersion else Inr version))"

definition probe_version :: "node_host \<Rightarrow> string \<Rightarrow> string option py_result" where
  "probe_version host node = py_bind (probe_detail host node) (\<lambda>r. Inr (case r of Inl _ \<Rightarrow> None | Inr v \<Rightarrow> Some v))"

section \<open>Finding npx\<close>

datatype pin_fault = NodeUnusable string probe_fault | NodeTooOld string string

datatype resolver_note =
    UnparsedVersion string string
  | NoNpxInPin string
  | PinKept string pin_fault
  | PinIgnored string pin_fault string
  | NoNpxAnywhere string

definition node_beside :: "string \<Rightarrow> string" where
  "node_beside npx = join_path (dir_name npx) [''node'']"

definition pin_problem :: "node_host \<Rightarrow> string \<Rightarrow> (pin_fault option \<times> resolver_note list) py_result" where
  "pin_problem host npx = (let node = node_beside npx in py_bind (probe_detail host node) (\<lambda>r. Inr (case r of
       Inl why \<Rightarrow> (Some (NodeUnusable node why), [])
     | Inr version \<Rightarrow>
         (case parse_node_version version of
            None \<Rightarrow> (None, [UnparsedVersion node version])
          | Some parsed \<Rightarrow> (if take 2 parsed < MIN_NODE_VERSION then Some (NodeTooOld node version) else None, [])))))"

definition resolve_nvm_npx :: "node_host \<Rightarrow> string \<Rightarrow> string option py_result" where
  "resolve_nvm_npx host home = (let versions_dir = join_path home [''.nvm'', ''versions'', ''node''] in
     if \<not> nh_isdir host versions_dir then Inr None
     else (case nh_listdir host versions_dir of
         None \<Rightarrow> Inr None
       | Some entries \<Rightarrow>
           (case filter (\<lambda>d. nh_isdir host (join_path versions_dir [d])) entries of
              [] \<Rightarrow> Inr None
            | first # others \<Rightarrow>
                py_bind (case nh_read host (join_path home [''.nvm'', ''alias'', ''default'']) of
                    FileText t \<Rightarrow> Inr (str_strip t) | FileOsError \<Rightarrow> Inr [] | FileRaises e \<Rightarrow> Inl e) (\<lambda>alias.
                  let chosen = (case (if alias = [] then None else match_nvm_version alias (first # others)) of
                          Some d \<Rightarrow> d | None \<Rightarrow> highest_version first others);
                      npx = join_path versions_dir [chosen, ''bin'', ''npx'']
                  in Inr (if nh_exists host npx then Some npx else None)))))"

definition usable_npx :: "string \<Rightarrow> string option \<Rightarrow> string option" where
  "usable_npx exclude_dir path = (case path of
       None \<Rightarrow> None
     | Some p \<Rightarrow> if p = [] then None
         else if exclude_dir \<noteq> [] \<and> norm_path (dir_name p) = norm_path exclude_dir then None else Some p)"

definition autodetect_npx :: "node_host \<Rightarrow> string \<Rightarrow> string \<Rightarrow> string option py_result" where
  "autodetect_npx host home exclude_dir =
     (case List.find (\<lambda>c. nh_exists host c \<and> usable_npx exclude_dir (Some c) \<noteq> None) NPX_CANDIDATES of
        Some c \<Rightarrow> Inr (Some c)
      | None \<Rightarrow> py_bind (resolve_nvm_npx host home) (\<lambda>nvm.
          Inr (case usable_npx exclude_dir nvm of
                 Some p \<Rightarrow> Some p
               | None \<Rightarrow> usable_npx exclude_dir (nh_which host))))"

definition detect_or_default :: "node_host \<Rightarrow> string \<Rightarrow> (string \<times> resolver_note list) py_result" where
  "detect_or_default host home = py_bind (autodetect_npx host home []) (\<lambda>found. Inr (case found of
       Some p \<Rightarrow> (p, [])
     | None \<Rightarrow> (hd NPX_CANDIDATES, [NoNpxAnywhere (hd NPX_CANDIDATES)])))"

definition resolve_npx :: "node_host \<Rightarrow> string \<Rightarrow> string \<Rightarrow> (string \<times> resolver_note list) py_result" where
  "resolve_npx host home pin =
     (if pin = [] then detect_or_default host home
      else let candidate = join_path pin [''npx''] in
        if \<not> nh_exists host candidate
        then py_bind (detect_or_default host home) (\<lambda>(p, ns). Inr (p, NoNpxInPin pin # ns))
        else py_bind (pin_problem host candidate) (\<lambda>(problem, ns). case problem of
            None \<Rightarrow> Inr (candidate, ns)
          | Some why \<Rightarrow> py_bind (autodetect_npx host home pin) (\<lambda>fallback. Inr (case fallback of
                None \<Rightarrow> (candidate, ns @ [PinKept pin why])
              | Some p \<Rightarrow> (p, ns @ [PinIgnored pin why p])))))"

record node_resolver =
  nr_home :: string
  nr_project_dir :: string
  nr_bin_dir :: string
  nr_npx_path :: string
  nr_node_path :: string

definition make_resolver ::
  "(pyval \<Rightarrow> string) \<Rightarrow> node_host \<Rightarrow> pydict \<Rightarrow> string \<Rightarrow> string \<Rightarrow> string option \<Rightarrow> (node_resolver \<times> resolver_note list) py_result" where
  "make_resolver repr host prefs home project_dir npx_path =
     (let given = dget_or prefs ''nodeBinDir'' (PStr []);
          raw = str_strip (py_str repr (if truthy given then given else PStr []));
          pin = (if raw = [] then [] else expand_home raw home)
      in py_bind (case npx_path of
             Some p \<Rightarrow> if p = [] then resolve_npx host home pin else Inr (p, [])
           | None \<Rightarrow> resolve_npx host home pin) (\<lambda>(npx, ns).
           Inr (\<lparr>nr_home = home, nr_project_dir = project_dir, nr_bin_dir = pin, nr_npx_path = npx,
                 nr_node_path = node_beside npx\<rparr>, ns)))"

section \<open>The install stamp\<close>

definition install_stamp_path :: "node_resolver \<Rightarrow> string" where
  "install_stamp_path r = join_path (nr_project_dir r) [INSTALL_NODE_STAMP]"

definition read_install_node_major :: "node_host \<Rightarrow> node_resolver \<Rightarrow> int option py_result" where
  "read_install_node_major host r = (case nh_read host (install_stamp_path r) of
       FileText t \<Rightarrow> Inr (node_major (Some (str_strip t)))
     | FileOsError \<Rightarrow> Inr None
     | FileRaises e \<Rightarrow> Inl e)"

text \<open>The warning names the major version of the stamp and the current one.\<close>

definition abi_warning :: "node_host \<Rightarrow> node_resolver \<Rightarrow> (int \<times> int) option py_result" where
  "abi_warning host r = py_bind (read_install_node_major host r) (\<lambda>stamped. case stamped of
       None \<Rightarrow> Inr None
     | Some s \<Rightarrow> py_bind (probe_version host (nr_node_path r)) (\<lambda>version.
         Inr (case node_major version of
                None \<Rightarrow> None
              | Some current \<Rightarrow> if s = current then None else Some (s, current))))"

text \<open>The write of the stamp: the host afterwards, and the fault that is logged.\<close>

definition record_install_node :: "node_host \<Rightarrow> node_resolver \<Rightarrow> (node_host \<times> string option) py_result" where
  "record_install_node host r = py_bind (probe_version host (nr_node_path r)) (\<lambda>version. Inr (case version of
       None \<Rightarrow> (host, None)
     | Some v \<Rightarrow>
         (if v = [] then (host, None)
          else (case nh_write_fault host (install_stamp_path r) of
             Some fault \<Rightarrow> (host, Some fault)
           | None \<Rightarrow> (host\<lparr>nh_read := (nh_read host)(install_stamp_path r := FileText (v @ [CHR 0x0A]))\<rparr>, None)))))"

section \<open>Properties\<close>

declare join_path.simps [simp del]

lemma strip_ends:
  assumes "str_strip s \<noteq> []" shows "\<not> is_space (hd (str_strip s)) \<and> \<not> is_space (last (str_strip s))"
proof -
  let ?l = "dropWhile is_space s"
  let ?r = "dropWhile is_space (rev ?l)"
  have t: "str_strip s = rev ?r" by (simp add: str_strip_def strip_with_def)
  then have "?r \<noteq> []" using assms by simp
  then have "\<not> is_space (hd ?r)" by (rule hd_dropWhile)
  moreover have "?l = rev ?r @ rev (takeWhile is_space (rev ?l))"
    by (metis rev_append rev_rev_ident takeWhile_dropWhile_id)
  with \<open>?r \<noteq> []\<close> have "hd ?l = hd (rev ?r)" "?l \<noteq> []" by (metis hd_append2 rev_is_Nil_conv, metis Nil_is_append_conv rev_is_Nil_conv)
  ultimately show ?thesis using hd_dropWhile [OF \<open>?l \<noteq> []\<close>] \<open>?r \<noteq> []\<close> by (simp add: t last_rev)
qed

lemma strip_id_ends: "t \<noteq> [] \<Longrightarrow> \<not> is_space (hd t) \<Longrightarrow> \<not> is_space (last t) \<Longrightarrow> str_strip t = t"
proof -
  assume t: "t \<noteq> []" "\<not> is_space (hd t)" "\<not> is_space (last t)"
  have d: "dropWhile is_space x = x" if "x = [] \<or> \<not> is_space (hd x)" for x using that by (cases x) auto
  show ?thesis using t by (simp add: str_strip_def strip_with_def d hd_rev)
qed

lemma strip_idem [simp]: "str_strip (str_strip s) = str_strip s"
proof (cases "str_strip s = []")
  case False
  then show ?thesis using strip_ends strip_id_ends by blast
next
  case True
  have "str_strip [] = []" by (simp add: str_strip_def strip_with_def)
  then show ?thesis by (simp only: True)
qed

lemma strip_newline:
  assumes "str_strip v = v" shows "str_strip (v @ [CHR 0x0A]) = v"
proof (cases "v = []")
  case False
  then have e: "\<not> is_space (hd v)" "\<not> is_space (last v)" using strip_ends [of v] assms by auto
  have d: "dropWhile is_space x = x" if "x = [] \<or> \<not> is_space (hd x)" for x using that by (cases x) auto
  have "is_space (CHR 0x0A)" by (simp add: py_defs)
  with e False show ?thesis by (simp add: str_strip_def strip_with_def d hd_rev)
qed (simp add: str_strip_def strip_with_def py_defs)

lemma all_some_length: "all_some xs = Some ys \<Longrightarrow> length ys = length xs"
  by (induction xs arbitrary: ys rule: all_some.induct) auto

lemma parse_nonempty: "parse_node_version s = Some v \<Longrightarrow> v \<noteq> []"
  by (auto simp: parse_node_version_def Let_def dest: all_some_length)

lemma usable_npx_Some:
  "usable_npx exclude path = Some p \<longleftrightarrow> path = Some p \<and> p \<noteq> [] \<and> (exclude \<noteq> [] \<longrightarrow> norm_path (dir_name p) \<noteq> norm_path exclude)"
  by (auto simp: usable_npx_def split: option.splits)

lemma nvm_npx_exists:
  assumes "resolve_nvm_npx host home = Inr (Some p)" shows "nh_exists host p"
  using assms by (auto simp: resolve_nvm_npx_def Let_def py_bind_Inr split: if_splits option.splits list.splits)

lemma autodetect_usable:
  assumes "autodetect_npx host home exclude = Inr (Some p)"
  shows "(nh_exists host p \<or> nh_which host = Some p) \<and> (exclude \<noteq> [] \<longrightarrow> norm_path (dir_name p) \<noteq> norm_path exclude)"
proof (cases "List.find (\<lambda>c. nh_exists host c \<and> usable_npx exclude (Some c) \<noteq> None) NPX_CANDIDATES")
  case (Some c)
  then have "p = c" using assms by (simp add: autodetect_npx_def)
  moreover have "nh_exists host c" "usable_npx exclude (Some c) = Some c"
    using Some by (auto simp: find_Some_iff usable_npx_Some)
  ultimately show ?thesis by (simp add: usable_npx_Some)
next
  case None
  with assms show ?thesis
    using nvm_npx_exists by (auto simp: autodetect_npx_def py_bind_Inr usable_npx_Some split: option.splits)
qed

lemma pin_problem_notes:
  assumes "pin_problem host npx = Inr (problem, ns)"
  shows "(problem \<noteq> None \<longrightarrow> ns = []) \<and> (\<forall>n \<in> set ns. \<exists>node v. n = UnparsedVersion node v)"
proof (cases "probe_detail host (node_beside npx)")
  case (Inr r)
  then show ?thesis using assms by (cases r) (auto simp: pin_problem_def Let_def split: option.splits if_splits)
qed (use assms in \<open>simp add: pin_problem_def Let_def\<close>)

lemma detect_notes:
  "detect_or_default host home = Inr (p, ns) \<Longrightarrow> set ns \<subseteq> {NoNpxAnywhere (hd NPX_CANDIDATES)}"
  by (auto simp: detect_or_default_def py_bind_Inr split: option.splits)

text \<open>Where a pin is set aside, the \<open>npx\<close> that the log names instead is the one returned, it was found
  on this machine (it exists, or the search path names it), its directory differs from the pinned
  one also after both are normalised as text (the way os.path.normpath does, which keeps two leading
  slashes apart from one and follows no link), and the pin's own check is what found the fault that
  the log states; and the pin is kept in spite of its fault
  only when nothing else was found.\<close>

theorem rejected_pin_avoided:
  assumes "resolve_npx host home pin = Inr (p, ns)"
  shows "(PinIgnored d why f \<in> set ns \<longrightarrow> d = pin \<and> f = p \<and> (nh_exists host p \<or> nh_which host = Some p)
      \<and> norm_path (dir_name p) \<noteq> norm_path pin \<and> pin_problem host (join_path pin [''npx'']) = Inr (Some why, []))
    \<and> (PinKept d why \<in> set ns \<longrightarrow> d = pin \<and> p = join_path pin [''npx''] \<and> autodetect_npx host home pin = Inr None)"
proof (cases "pin = [] \<or> \<not> nh_exists host (join_path pin [''npx''])")
  case True
  obtain ms where "detect_or_default host home = Inr (p, ms)" "set ns \<subseteq> insert (NoNpxInPin pin) (set ms)"
    using assms True by (cases "pin = []") (auto simp: resolve_npx_def Let_def py_bind_Inr)
  then have "set ns \<subseteq> {NoNpxInPin pin, NoNpxAnywhere (hd NPX_CANDIDATES)}" using detect_notes by fast
  then show ?thesis by auto
next
  case False
  then obtain problem ms where m: "pin_problem host (join_path pin [''npx'']) = Inr (problem, ms)"
      "(case problem of None \<Rightarrow> Inr (join_path pin [''npx''], ms)
          | Some why \<Rightarrow> py_bind (autodetect_npx host home pin) (\<lambda>fallback. Inr (case fallback of
                None \<Rightarrow> (join_path pin [''npx''], ms @ [PinKept pin why])
              | Some p \<Rightarrow> (p, ms @ [PinIgnored pin why p])))) = Inr (p, ns)"
    using assms by (auto simp: resolve_npx_def Let_def py_bind_Inr)
  note plain = pin_problem_notes [OF m(1)]
  show ?thesis
  proof (cases problem)
    case None
    then show ?thesis using m(2) plain by auto
  next
    case (Some w)
    then obtain fallback where f: "autodetect_npx host home pin = Inr fallback" using m(2) by (auto simp: py_bind_Inr)
    show ?thesis
    proof (cases fallback)
      case None
      then show ?thesis using f Some m(2) plain by auto
    next
      case (Some q)
      then show ?thesis using f \<open>problem = Some w\<close> m plain False autodetect_usable [of host home pin q] by auto
    qed
  qed
qed

text \<open>A pinned node that runs and is new enough is used as it is.\<close>

lemma good_pin_honoured:
  assumes "pin \<noteq> []" "nh_exists host (join_path pin [''npx''])"
    and "nh_probe host (node_beside (join_path pin [''npx''])) = ProbeRan 0 (Some v) err"
    and "parse_node_version v = Some parsed" "MIN_NODE_VERSION \<le> take 2 parsed"
  shows "resolve_npx host home pin = Inr (join_path pin [''npx''], [])"
proof -
  have "parse_node_version [] = None" by code_simp
  moreover have "parse_node_version (str_strip v) = Some parsed" using assms(4) by (simp add: parse_node_version_def)
  ultimately have "parse_node_version (str_strip v) = Some parsed" "str_strip v \<noteq> []" by auto
  then show ?thesis
    using assms by (simp add: resolve_npx_def pin_problem_def probe_detail_def text_or_empty_def Let_def not_less [symmetric])
qed

section \<open>The choice among installed versions\<close>

lemma highest_version_max:
  "highest_version b ds \<in> insert b (set ds) \<and> (\<forall>d \<in> insert b (set ds). version_key d \<le> version_key (highest_version b ds))"
proof (induction ds arbitrary: b)
  case (Cons d ds)
  show ?case
    using Cons.IH [of b] Cons.IH [of d] by (cases "version_key b < version_key d") (auto dest: order.strict_implies_order)
qed simp

text \<open>What an nvm alias resolves to is installed: the directory of that name, or the highest of those whose
  version starts with the one named.\<close>

theorem alias_resolves_to_highest:
  assumes "match_nvm_version alias installed = Some d"
  shows "d \<in> set installed \<and> (d = alias \<or> d = CHR ''v'' # alias \<or>
    (\<exists>wanted v. parse_node_version alias = Some wanted \<and> parse_node_version d = Some v \<and> take (length wanted) v = wanted
      \<and> (\<forall>d' \<in> set installed. \<forall>v'. parse_node_version d' = Some v' \<longrightarrow> take (length wanted) v' = wanted \<longrightarrow> v' \<le> v)))"
proof (cases "alias \<in> set installed \<or> (CHR ''v'' # alias) \<in> set installed")
  case True
  then show ?thesis using assms by (auto simp: match_nvm_version_def split: if_splits)
next
  case False
  then obtain wanted where "parse_node_version alias = Some wanted"
    using assms by (auto simp: match_nvm_version_def split: option.splits)
  moreover from this obtain x xs where
      "filter (\<lambda>d. take (length wanted) (case parse_node_version d of None \<Rightarrow> [] | Some v \<Rightarrow> v) = wanted) installed = x # xs"
      "d = highest_version x xs"
    using assms False by (cases "filter (\<lambda>d. take (length wanted) (case parse_node_version d of None \<Rightarrow> [] | Some v \<Rightarrow> v) = wanted) installed")
      (simp_all add: match_nvm_version_def)
  ultimately obtain x xs where w: "parse_node_version alias = Some wanted"
      "filter (\<lambda>d. take (length wanted) (case parse_node_version d of None \<Rightarrow> [] | Some v \<Rightarrow> v) = wanted) installed = x # xs"
      "d = highest_version x xs" by blast
  have "wanted \<noteq> []" using w(1) parse_nonempty by blast
  have sel: "y \<in> insert x (set xs) \<longleftrightarrow> y \<in> set installed \<and> (\<exists>v. parse_node_version y = Some v \<and> take (length wanted) v = wanted)" for y
    using arg_cong [OF w(2), of set] \<open>wanted \<noteq> []\<close> by (auto simp: set_eq_iff split: option.splits)
  have "d \<in> insert x (set xs)" "\<forall>y \<in> insert x (set xs). version_key y \<le> version_key d"
    using highest_version_max w(3) by blast+
  with sel obtain v where v: "d \<in> set installed" "parse_node_version d = Some v" "take (length wanted) v = wanted" by blast
  moreover have "v' \<le> v" if "d' \<in> set installed" "parse_node_version d' = Some v'" "take (length wanted) v' = wanted" for d' v'
  proof -
    have "d' \<in> insert x (set xs)" using sel that by blast
    then have "version_key d' \<le> version_key d" using highest_version_max w(3) by blast
    then show ?thesis using that v by (simp add: version_key_def)
  qed
  ultimately show ?thesis using w(1) by blast
qed

section \<open>The stamp of an install\<close>

text \<open>After an install has stamped its node, no warning is given while that node stays; whenever one is
  given, both versions were read and differ.\<close>

theorem fresh_stamp_silent:
  assumes "record_install_node host r = Inr (host', None)"
    and "probe_version host (nr_node_path r) = Inr (Some v)"
  shows "read_install_node_major host' r = Inr (node_major (Some v)) \<and> abi_warning host' r = Inr None"
proof -
  have v: "str_strip v = v" "v \<noteq> []"
    using assms(2) strip_idem
    by (auto simp: probe_version_def probe_detail_def py_bind_Inr Let_def split: probe_answer.splits if_splits sum.splits)
  then have h: "host' = host\<lparr>nh_read := (nh_read host)(install_stamp_path r := FileText (v @ [CHR 0x0A]))\<rparr>"
    using assms by (auto simp: record_install_node_def py_bind_Inr split: option.splits)
  have "str_strip (v @ [CHR 0x0A]) = v" using v by (simp add: strip_newline)
  then have read: "read_install_node_major host' r = Inr (node_major (Some v))"
    by (simp add: read_install_node_major_def h)
  have "probe_version host' (nr_node_path r) = Inr (Some v)"
    using assms(2) by (simp add: h probe_version_def probe_detail_def)
  then show ?thesis using read by (simp add: abi_warning_def split: option.splits)
qed

lemma warning_means_mismatch:
  assumes "abi_warning host r = Inr (Some (s, current))"
  shows "read_install_node_major host r = Inr (Some s) \<and> s \<noteq> current
    \<and> (\<exists>v. probe_version host (nr_node_path r) = Inr (Some v) \<and> node_major (Some v) = Some current)"
proof -
  obtain w where "read_install_node_major host r = Inr (Some s)" "probe_version host (nr_node_path r) = Inr w"
      "node_major w = Some current" "s \<noteq> current"
    using assms by (auto simp: abi_warning_def py_bind_Inr split: option.splits if_splits)
  then show ?thesis by (cases w) (auto simp: node_major_def)
qed

section \<open>Witnesses\<close>

text \<open>A machine with an old node pinned under a trailing slash, and a new one elsewhere.\<close>

definition toolchain_demo :: node_host where
  "toolchain_demo = \<lparr>nh_exists = (\<lambda>p. p = ''/opt/homebrew/bin/npx'' \<or> p = ''/usr/local/bin/npx''),
     nh_isdir = (\<lambda>p. False), nh_listdir = (\<lambda>p. None), nh_read = (\<lambda>p. FileOsError), nh_write_fault = (\<lambda>p. None),
     nh_which = None,
     nh_probe = (\<lambda>p. ProbeRan 0 (Some (if p = ''/opt/homebrew/bin/node'' then ''v18.2.0'' else ''v22.18.0'')) None)\<rparr>"

definition resolver_demo :: node_resolver where
  "resolver_demo = \<lparr>nr_home = ''/h'', nr_project_dir = ''/h/p'', nr_bin_dir = [], nr_npx_path = ''/usr/local/bin/npx'',
     nr_node_path = ''/usr/local/bin/node''\<rparr>"

lemma resolve_demo_run:
  "resolve_npx toolchain_demo ''/h'' ''/opt/homebrew/bin/'' = Inr (''/usr/local/bin/npx'',
     [PinIgnored ''/opt/homebrew/bin/'' (NodeTooOld ''/opt/homebrew/bin/node'' ''v18.2.0'') ''/usr/local/bin/npx''])"
  by code_simp

lemma rejected_pin_avoided_witness:
  "norm_path (dir_name ''/usr/local/bin/npx'') \<noteq> norm_path ''/opt/homebrew/bin/''"
  using rejected_pin_avoided [OF resolve_demo_run, of "''/opt/homebrew/bin/''"
      "NodeTooOld ''/opt/homebrew/bin/node'' ''v18.2.0''" "''/usr/local/bin/npx''"] by simp

lemma alias_resolves_to_highest_witness:
  "\<exists>v. parse_node_version ''v22.18.0'' = Some v \<and> [22, 3, 0] \<le> v"
proof -
  have run: "match_nvm_version ''22'' [''v22.3.0'', ''v22.18.0'', ''v24.1.0''] = Some ''v22.18.0''" by code_simp
  have "parse_node_version ''22'' = Some [22]" "parse_node_version ''v22.3.0'' = Some [22, 3, 0]" by code_simp+
  with alias_resolves_to_highest [OF run] show ?thesis by auto
qed

lemma fresh_stamp_silent_witness:
  "\<exists>host'. record_install_node toolchain_demo resolver_demo = Inr (host', None) \<and> abi_warning host' resolver_demo = Inr None"
proof -
  have v: "probe_version toolchain_demo (nr_node_path resolver_demo) = Inr (Some ''v22.18.0'')" by code_simp
  then obtain host' where "record_install_node toolchain_demo resolver_demo = Inr (host', None)"
    by (simp add: record_install_node_def toolchain_demo_def)
  with fresh_stamp_silent [OF _ v] show ?thesis by blast
qed

text \<open>The version nvm is asked for is chosen before the rejected directory is left out: with an old default version
  pinned, the pin is kept and nothing is reported as found although a newer version is installed.\<close>

definition nvm_demo :: node_host where
  "nvm_demo = \<lparr>nh_exists = (\<lambda>p. p \<in> {''/h/.nvm/versions/node/v18.2.0/bin/npx'', ''/h/.nvm/versions/node/v22.18.0/bin/npx''}),
     nh_isdir = (\<lambda>p. True), nh_listdir = (\<lambda>p. Some [''v18.2.0'', ''v22.18.0'']),
     nh_read = (\<lambda>p. FileText ''18''), nh_write_fault = (\<lambda>p. None), nh_which = None,
     nh_probe = (\<lambda>p. ProbeRan 0 (Some (if p = ''/h/.nvm/versions/node/v18.2.0/bin/node'' then ''v18.2.0'' else ''v22.18.0'')) None)\<rparr>"

lemma newer_node_overlooked:
  "resolve_npx nvm_demo ''/h'' ''/h/.nvm/versions/node/v18.2.0/bin'' = Inr (''/h/.nvm/versions/node/v18.2.0/bin/npx'',
     [PinKept ''/h/.nvm/versions/node/v18.2.0/bin'' (NodeTooOld ''/h/.nvm/versions/node/v18.2.0/bin/node'' ''v18.2.0'')])
   \<and> pin_problem nvm_demo ''/h/.nvm/versions/node/v22.18.0/bin/npx'' = Inr (None, [])"
  by code_simp

end
