(* ===== verification/AgentHost.thy ===== *)
theory AgentHost
  imports NodeToolchain
begin

text \<open>
  What \<open>launch_agent.py\<close> works with: the identity of an agent, the machine it runs on, and the parsing of
  what \<open>ps\<close>, \<open>lsof\<close> and \<open>launchctl\<close> print.

  A method is an operation on the record of the agent: it ends in a result or an exception and leaves the
  record, with the state of the machine, changed. Every call of the machine and every warning is noted in
  the order it happened, with the answer; the theorems speak of these notes. The six flags \<open>_..._warned\<close>
  of the code are the set of latches that are set. Debug and info lines are dropped.
\<close>

section \<open>The machine\<close>

datatype run_answer = RunOsError string | RunNoResult | RunDone int string string

datatype read_result = ReadText string | ReadMissing | ReadUndecodable | ReadFault string

datatype dir_answer = DirEntries "string list" | DirMissing | DirFault string

datatype gone_answer = Removed | WasMissing | RemoveFault string

record plist =
  pl_label :: string
  pl_arguments :: "string list"
  pl_out :: string
  pl_err :: string
  pl_env :: "(string \<times> string) list"

record 'h machine =
  mc_run :: "string list \<Rightarrow> 'h \<Rightarrow> run_answer \<times> 'h"
  mc_exists :: "string \<Rightarrow> 'h \<Rightarrow> bool"
  mc_isdir :: "string \<Rightarrow> 'h \<Rightarrow> bool"
  mc_islink :: "string \<Rightarrow> 'h \<Rightarrow> bool"
  mc_listdir :: "string \<Rightarrow> 'h \<Rightarrow> dir_answer"
  mc_read :: "string \<Rightarrow> 'h \<Rightarrow> read_result"
  mc_read_log :: "string \<Rightarrow> 'h \<Rightarrow> read_result"
  mc_read_bytes :: "string \<Rightarrow> 'h \<Rightarrow> read_result"
  mc_mtime :: "string \<Rightarrow> 'h \<Rightarrow> rat option"
  mc_write :: "string \<Rightarrow> string \<Rightarrow> 'h \<Rightarrow> string option \<times> 'h"
  mc_remove :: "string \<Rightarrow> 'h \<Rightarrow> gone_answer \<times> 'h"
  mc_rmtree :: "string \<Rightarrow> 'h \<Rightarrow> string option \<times> 'h"
  mc_makedirs :: "string \<Rightarrow> 'h \<Rightarrow> string option \<times> 'h"
  mc_sleep :: "rat \<Rightarrow> 'h \<Rightarrow> 'h"
  mc_time :: "'h \<Rightarrow> rat"
  mc_mono :: "'h \<Rightarrow> rat"
  mc_toolchain :: "'h \<Rightarrow> node_host"
  mc_stamp :: "node_host \<Rightarrow> 'h \<Rightarrow> 'h"
  mc_uid :: int
  mc_loads :: "string \<Rightarrow> pyval py_result"
  mc_plist_dumps :: "plist \<Rightarrow> string"
  mc_sha256 :: "string \<Rightarrow> string"
  mc_local_time :: "string \<Rightarrow> rat option"

section \<open>An agent\<close>

text \<open>The argument hook is given the path of node and of the entry point; whatever else it uses is fixed when the
  specification is made.\<close>

record agent_spec =
  as_label :: string
  as_package :: string
  as_install_spec :: string
  as_default_entry :: string
  as_storage :: string
  as_out_log :: string
  as_err_log :: string
  as_argv :: "string \<Rightarrow> string \<Rightarrow> string list"
  as_port :: "int option"
  as_applied_marker :: "string option"
  as_install_menu :: string
  as_env :: "(string \<times> string) list"

definition applied_marker_name :: "agent_spec \<Rightarrow> string" where
  "applied_marker_name sp = (case as_applied_marker sp of
       Some (c # cs) \<Rightarrow> c # cs | _ \<Rightarrow> ''.launchagent-'' @ as_label sp @ ''.sha256'')"

definition install_menu_name :: "agent_spec \<Rightarrow> string" where
  "install_menu_name sp = (if as_install_menu sp \<noteq> [] then as_install_menu sp else ''Install/update '' @ as_package sp)"

datatype latch = PortProbe | ProcessAge | PidRead | ListDir | PsForLock | UndecidedPid

datatype preflight_fault = NoNode string | NotInstalled string

datatype live_pid_doubt = MtimeUnknown | AgeUnknown

datatype lock_reason = NoOwnerRecorded | OwnerNotRunning int | OwnerReassigned int | OwnerStartedLater int

datatype port_conflict = HeldByOthers "(int \<times> string option) list" int | PerhapsConflict int | NothingListening int int

datatype agent_line =
    ErrConflict port_conflict
  | ErrNoNpm string
  | ErrNodeTooOld string "int list"
  | ErrInstallNotStarted string
  | ErrInstallFailed
  | ErrCannotStart preflight_fault
  | WarnAbi int int
  | WarnSettings
  | WarnLoadedNotRunning
  | WarnCouldNotStop
  | ErrLoadFailed "string option"
  | ErrNothingToRestart
  | WarnReloadFailed
  | ErrPackageStays string
  | WarnCouldNotRemove string string
  | WarnStopping "int list"
  | WarnIgnoredTerm int
  | WarnSurvivedKill "int list"
  | WarnPortProbe
  | WarnForeignHolder int "string option"
  | WarnAge int
  | WarnListDir string
  | WarnPidUnreadable string
  | WarnPsUnusable string int
  | WarnUndecided string int "live_pid_doubt list"
  | ErrLockStays string lock_reason
  | WarnLockCleared string lock_reason
  | WarnArgumentDrift "string list" "string list"
  | WarnLaunchctl string
  | WarnResolver resolver_note
  | WarnStampFault string

datatype call =
    Ran "string list" run_answer
  | Exists string bool
  | Listed string dir_answer
  | ReadFile string read_result
  | Mtime string "rat option"
  | Clock rat
  | Wrote string string "string option"
  | Removing string gone_answer
  | RemovedTree string "string option"
  | MadeDirs string "string option"
  | Slept rat
  | Stamped
  | Said agent_line

record 'h agent =
  ag_spec :: agent_spec
  ag_node :: node_resolver
  ag_host :: 'h
  ag_warned :: "latch set"
  ag_verify_after :: "rat option"
  ag_boot_time :: "rat option"
  ag_calls :: "call list"

type_synonym ('h, 'a) act = "'h agent \<Rightarrow> 'a py_result \<times> 'h agent"

named_theorems acts \<open>the combinators of agent operations, unfolded to compute\<close>

definition gives :: "'a \<Rightarrow> ('h, 'a) act" where
  [acts]: "gives x s = (Inr x, s)"

definition fails :: "py_exc \<Rightarrow> ('h, 'a) act" where
  [acts]: "fails e s = (Inl e, s)"

definition first :: "('h, 'a) act \<Rightarrow> ('a \<Rightarrow> ('h, 'b) act) \<Rightarrow> ('h, 'b) act" where
  [acts]: "first m f s = (case m s of (Inl e, t) \<Rightarrow> (Inl e, t) | (Inr x, t) \<Rightarrow> f x t)"

definition given :: "('h agent \<Rightarrow> 'a) \<Rightarrow> ('h, 'a) act" where
  [acts]: "given g s = (Inr (g s), s)"

definition alter :: "('h agent \<Rightarrow> 'h agent) \<Rightarrow> ('h, unit) act" where
  [acts]: "alter g s = (Inr (), g s)"

fun all_of :: "('h, unit) act list \<Rightarrow> ('h, unit) act" where
  "all_of [] = gives ()"
| "all_of (m # ms) = first m (\<lambda>_. all_of ms)"

fun each :: "'a list \<Rightarrow> ('a \<Rightarrow> ('h, 'b) act) \<Rightarrow> ('h, 'b list) act" where
  "each [] f = gives []"
| "each (x # xs) f = first (f x) (\<lambda>y. first (each xs f) (\<lambda>ys. gives (y # ys)))"

definition only_if :: "bool \<Rightarrow> ('h, unit) act \<Rightarrow> ('h, unit) act" where
  [acts]: "only_if b m = (if b then m else gives ())"

definition noting :: "call \<Rightarrow> ('h, unit) act" where
  [acts]: "noting c = alter (\<lambda>s. s\<lparr>ag_calls := ag_calls s @ [c]\<rparr>)"

definition says :: "agent_line \<Rightarrow> ('h, unit) act" where
  [acts]: "says l = noting (Said l)"

text \<open>A question that leaves the machine as it is, and a call that may change it.\<close>

definition asks :: "('h \<Rightarrow> 'a) \<Rightarrow> ('a \<Rightarrow> call) \<Rightarrow> ('h, 'a) act" where
  [acts]: "asks q note = first (given (\<lambda>s. q (ag_host s))) (\<lambda>a. first (noting (note a)) (\<lambda>_. gives a))"

definition calls_on :: "('h \<Rightarrow> 'a \<times> 'h) \<Rightarrow> ('a \<Rightarrow> call) \<Rightarrow> ('h, 'a) act" where
  [acts]: "calls_on q note s = (case q (ag_host s) of (a, h) \<Rightarrow>
     (Inr a, s\<lparr>ag_host := h, ag_calls := ag_calls s @ [note a]\<rparr>))"

definition run_cmd :: "'h machine \<Rightarrow> string list \<Rightarrow> ('h, run_answer) act" where
  "run_cmd mc argv = calls_on (mc_run mc argv) (Ran argv)"

definition path_exists :: "'h machine \<Rightarrow> string \<Rightarrow> ('h, bool) act" where
  "path_exists mc p = asks (mc_exists mc p) (Exists p)"

definition read_file :: "'h machine \<Rightarrow> string \<Rightarrow> ('h, read_result) act" where
  "read_file mc p = asks (mc_read mc p) (ReadFile p)"

definition remove_file :: "'h machine \<Rightarrow> string \<Rightarrow> ('h, gone_answer) act" where
  "remove_file mc p = calls_on (mc_remove mc p) (Removing p)"

definition write_file :: "'h machine \<Rightarrow> string \<Rightarrow> string \<Rightarrow> ('h, string option) act" where
  "write_file mc p content = calls_on (mc_write mc p content) (Wrote p content)"

text \<open>\<open>os.makedirs(..., exist_ok=True)\<close>: a failure escapes.\<close>

definition make_dirs :: "'h machine \<Rightarrow> string \<Rightarrow> ('h, unit) act" where
  "make_dirs mc p = first (calls_on (mc_makedirs mc p) (MadeDirs p)) (\<lambda>r.
     case r of None \<Rightarrow> gives () | Some why \<Rightarrow> fails (OtherException why))"

section \<open>Latches\<close>

definition warn_once :: "latch \<Rightarrow> agent_line \<Rightarrow> ('h, unit) act" where
  "warn_once l line = first (given (\<lambda>s. l \<in> ag_warned s)) (\<lambda>already.
     if already then gives () else all_of [alter (\<lambda>s. s\<lparr>ag_warned := insert l (ag_warned s)\<rparr>), says line])"

definition rearm :: "latch \<Rightarrow> ('h, unit) act" where
  "rearm l = alter (\<lambda>s. s\<lparr>ag_warned := ag_warned s - {l}\<rparr>)"

section \<open>Texts\<close>

text \<open>\<open>needle in text\<close>, \<open>splitlines\<close>, \<open>split()\<close>, \<open>partition\<close>.\<close>

fun occurs_in :: "string \<Rightarrow> string \<Rightarrow> bool" where
  "occurs_in needle [] = (needle = [])"
| "occurs_in needle (c # cs) = (take (length needle) (c # cs) = needle \<or> occurs_in needle cs)"

fun split_lines :: "string \<Rightarrow> string list" where
  "split_lines [] = []"
| "split_lines (c # cs) =
     (if c = CHR 0x0D \<and> cs \<noteq> [] \<and> hd cs = CHR 0x0A then [] # split_lines (tl cs)
      else if is_line_break c then [] # split_lines cs
      else (case split_lines cs of [] \<Rightarrow> [[c]] | l # ls \<Rightarrow> (c # l) # ls))"

fun split_words :: "string \<Rightarrow> string list" where
  "split_words [] = []"
| "split_words (c # cs) =
     (if is_space c then split_words cs
      else (case cs of
          [] \<Rightarrow> [[c]]
        | d # _ \<Rightarrow> if is_space d then [c] # split_words cs
                   else (case split_words cs of [] \<Rightarrow> [[c]] | w # ws \<Rightarrow> (c # w) # ws)))"

definition after_first :: "char \<Rightarrow> string \<Rightarrow> string" where
  "after_first sep s = (case dropWhile (\<lambda>c. c \<noteq> sep) s of [] \<Rightarrow> [] | _ # r \<Rightarrow> r)"

text \<open>The lines of \<open>ps -o pid=,command=\<close>.\<close>

definition ps_entry :: "string \<Rightarrow> (int \<times> string) option" where
  "ps_entry line = (let t = str_strip line; head = takeWhile (\<lambda>c. c \<noteq> CHR '' '') t
     in if t = [] then None else map_option (\<lambda>n. (n, after_first CHR '' '' t)) (int_of_text head))"

definition parse_ps :: "string \<Rightarrow> (int \<times> string) list" where
  "parse_ps out = fold (\<lambda>(pid, command). AList.update pid command) (List.map_filter ps_entry (split_lines out)) []"

text \<open>What \<open>ps -o etime=\<close> prints, in seconds.\<close>

definition parse_etime :: "string \<Rightarrow> int option" where
  "parse_etime text = (let t = str_strip text;
       days = (if CHR ''-'' \<in> set t then int_of_text (takeWhile (\<lambda>c. c \<noteq> CHR ''-'') t) else Some 0);
       rest = (if CHR ''-'' \<in> set t then after_first CHR ''-'' t else t)
     in (case (days, all_some (map int_of_text (str_split CHR '':'' rest))) of
           (Some d, Some [m, s]) \<Rightarrow> Some (d * 86400 + m * 60 + s)
         | (Some d, Some [h, m, s]) \<Rightarrow> Some (d * 86400 + h * 3600 + m * 60 + s)
         | _ \<Rightarrow> None))"

text \<open>\<open>launchctl print\<close>.\<close>

record managed_job =
  mj_loaded :: bool
  mj_pid :: "int option"
  mj_pid_line :: bool
  mj_arguments :: "string list"

definition no_job :: managed_job where
  "no_job = \<lparr>mj_loaded = False, mj_pid = None, mj_pid_line = False, mj_arguments = []\<rparr>"

fun job_line :: "bool \<times> managed_job \<Rightarrow> string \<Rightarrow> bool \<times> managed_job" where
  "job_line (in_arguments, j) line = (let t = str_strip line in
     if in_arguments
     then (if t = ''}'' then (False, j)
           else (True, if t = [] then j else j\<lparr>mj_arguments := mj_arguments j @ [t]\<rparr>))
     else if filter (\<lambda>c. c \<noteq> CHR '' '') t = ''arguments={'' then (True, j)
     else if take 5 t = ''pid =''
     then (False, j\<lparr>mj_pid_line := True, mj_pid := int_of_text (str_strip (after_first CHR ''='' t))\<rparr>)
     else (False, j))"

definition parse_job :: "string \<Rightarrow> managed_job" where
  "parse_job out = snd (foldl job_line (False, no_job\<lparr>mj_loaded := True\<rparr>) (split_lines out))"

end
