(* ===== verification/LaunchAgent.thy ===== *)
theory LaunchAgent
  imports AgentHost
begin

text \<open>
  \<open>launch_agent.py\<close>: installing, starting and stopping a launchd agent, reaping the servers that outlived one,
  clearing the storage locks nobody living holds, and telling whether the managed job serves its port.
\<close>

definition DEFAULT_PROJECT_DIRNAME :: string where "DEFAULT_PROJECT_DIRNAME = ''indigo-matter''"

definition LSOF_CANDIDATES :: "string list" where
  "LSOF_CANDIDATES = [''/usr/sbin/lsof'', ''/usr/bin/lsof'', ''lsof'']"

definition EADDRINUSE_MARKER :: string where "EADDRINUSE_MARKER = ''EADDRINUSE''"
definition MATTER_LOCK_FILENAME :: string where "MATTER_LOCK_FILENAME = ''matter.lock''"
definition MATTER_PID_FILENAME :: string where "MATTER_PID_FILENAME = ''matter.pid''"
definition START_AFTER_LOCK_SLACK_SECONDS :: rat where "START_AFTER_LOCK_SLACK_SECONDS = 5"
definition STARTUP_GRACE_SECONDS :: int where "STARTUP_GRACE_SECONDS = 120"
definition FATAL_TAIL_LINES :: nat where "FATAL_TAIL_LINES = 200"
definition FATAL_FRESHNESS_SLACK_SECONDS :: rat where "FATAL_FRESHNESS_SLACK_SECONDS = 5"
definition NO_BOOTSTRAP_RECENT_WINDOW_SECONDS :: rat where "NO_BOOTSTRAP_RECENT_WINDOW_SECONDS = 600"

section \<open>Paths\<close>

definition plist_path :: "'h agent \<Rightarrow> string" where
  "plist_path s = join_path (nr_home (ag_node s)) [''Library'', ''LaunchAgents'', as_label (ag_spec s) @ ''.plist'']"

definition log_dir :: "'h agent \<Rightarrow> string" where
  "log_dir s = join_path (nr_home (ag_node s)) [''Library'', ''Logs'', ''indigo-matter'']"

definition resolved_bin_dir :: "'h agent \<Rightarrow> string" where
  "resolved_bin_dir s = dir_name (nr_npx_path (ag_node s))"

definition package_dir :: "'h agent \<Rightarrow> string" where
  "package_dir s = join_path (nr_project_dir (ag_node s)) [''node_modules'', as_package (ag_spec s)]"

definition applied_marker_path :: "'h agent \<Rightarrow> string" where
  "applied_marker_path s = join_path (nr_project_dir (ag_node s)) [applied_marker_name (ag_spec s)]"

definition lock_path :: "string \<Rightarrow> string" where "lock_path d = join_path d [MATTER_LOCK_FILENAME]"
definition pid_path :: "string \<Rightarrow> string" where "pid_path d = join_path d [MATTER_PID_FILENAME]"

definition server_entry :: "'h machine \<Rightarrow> ('h, string) act" where
  "server_entry mc = first (given package_dir) (\<lambda>dir. first (given (\<lambda>s. as_default_entry (ag_spec s))) (\<lambda>default_entry.
     first (read_file mc (join_path dir [''package.json''])) (\<lambda>r.
       let fallback = gives (join_path dir [default_entry]) in
       case r of
         ReadText t \<Rightarrow>
           (case mc_loads mc t of
              Inl e \<Rightarrow> if e = ValueError then fallback else fails e
            | Inr (PDict d) \<Rightarrow>
                (case dget d ''main'' of
                   PStr m \<Rightarrow> if str_strip m \<noteq> [] then gives (join_path dir [m]) else fallback
                 | _ \<Rightarrow> fallback)
            | Inr _ \<Rightarrow> fails AttributeError)
       | _ \<Rightarrow> fallback)))"

definition program_arguments :: "'h machine \<Rightarrow> ('h, string list) act" where
  "program_arguments mc = first (server_entry mc) (\<lambda>entry.
     given (\<lambda>s. as_argv (ag_spec s) (nr_node_path (ag_node s)) entry))"

definition build_plist :: "'h machine \<Rightarrow> ('h, string) act" where
  "build_plist mc = first (program_arguments mc) (\<lambda>args. given (\<lambda>s. mc_plist_dumps mc
     \<lparr>pl_label = as_label (ag_spec s), pl_arguments = args, pl_out = join_path (log_dir s) [as_out_log (ag_spec s)],
      pl_err = join_path (log_dir s) [as_err_log (ag_spec s)],
      pl_env = AList.update ''PATH'' (resolved_bin_dir s @ '':/usr/bin:/bin'') (as_env (ag_spec s))\<rparr>))"

definition preflight :: "'h machine \<Rightarrow> ('h, preflight_fault option) act" where
  "preflight mc = first (given (\<lambda>s. nr_node_path (ag_node s))) (\<lambda>node. first (path_exists mc node) (\<lambda>there.
     if \<not> there then gives (Some (NoNode node))
     else first (server_entry mc) (\<lambda>entry. first (path_exists mc entry) (\<lambda>installed.
       gives (if installed then None else Some (NotInstalled entry))))))"

section \<open>launchctl and ps\<close>

definition launchctl :: "'h machine \<Rightarrow> string list \<Rightarrow> ('h, (int \<times> string \<times> string) option) act" where
  "launchctl mc args = first (run_cmd mc (''launchctl'' # args)) (\<lambda>r. case r of
       RunOsError why \<Rightarrow> first (says (WarnLaunchctl (hd args))) (\<lambda>_. gives None)
     | RunNoResult \<Rightarrow> gives None
     | RunDone code out err \<Rightarrow> gives (Some (code, out, err)))"

definition went_well :: "(int \<times> string \<times> string) option \<Rightarrow> bool" where
  "went_well r = (case r of Some (code, _) \<Rightarrow> code = 0 | None \<Rightarrow> False)"

definition job_target :: "'h machine \<Rightarrow> 'h agent \<Rightarrow> string" where
  "job_target mc s = ''gui/'' @ str_of_int (mc_uid mc) @ ''/'' @ as_label (ag_spec s)"

definition launchd_bootstrap :: "'h machine \<Rightarrow> ('h, bool) act" where
  "launchd_bootstrap mc = first (given plist_path) (\<lambda>p.
     first (launchctl mc [''bootstrap'', ''gui/'' @ str_of_int (mc_uid mc), p]) (\<lambda>r. gives (went_well r)))"

definition launchd_bootout :: "'h machine \<Rightarrow> ('h, bool) act" where
  "launchd_bootout mc = first (given (job_target mc)) (\<lambda>t. first (launchctl mc [''bootout'', t]) (\<lambda>r. gives (went_well r)))"

definition read_managed_job :: "'h machine \<Rightarrow> ('h, managed_job) act" where
  "read_managed_job mc = first (given (job_target mc)) (\<lambda>t. first (launchctl mc [''print'', t]) (\<lambda>r.
     gives (case r of Some (code, out, _) \<Rightarrow> if code = 0 then parse_job out else no_job | None \<Rightarrow> no_job)))"

definition is_running :: "'h machine \<Rightarrow> ('h, bool) act" where
  "is_running mc = first (given (job_target mc)) (\<lambda>t. first (launchctl mc [''print'', t]) (\<lambda>r. gives (went_well r)))"

datatype run_state = StateNotLoaded | StateRunning | StateLoadedNotRunning | StateUnknown

definition job_state :: "managed_job \<Rightarrow> run_state" where
  "job_state j = (if \<not> mj_loaded j then StateNotLoaded
     else if mj_pid j \<noteq> None then StateRunning
     else if mj_pid_line j then StateUnknown else StateLoadedNotRunning)"

definition read_run_state :: "'h machine \<Rightarrow> ('h, run_state) act" where
  "read_run_state mc = first (read_managed_job mc) (\<lambda>j. gives (job_state j))"

definition is_alive :: "'h machine \<Rightarrow> ('h, bool) act" where
  "is_alive mc = first (read_run_state mc) (\<lambda>r. gives (r = StateRunning \<or> r = StateUnknown))"

definition ps_map :: "'h machine \<Rightarrow> ('h, (int \<times> string) list) act" where
  "ps_map mc = first (run_cmd mc [''ps'', ''-A'', ''-ww'', ''-o'', ''pid=,command='']) (\<lambda>r. gives (case r of
       RunDone code out err \<Rightarrow> if code = 0 then parse_ps out else [] | _ \<Rightarrow> []))"

definition lsof_argv :: "string \<Rightarrow> int \<Rightarrow> string list" where
  "lsof_argv candidate port = [candidate, ''-nP'', ''-iTCP:'' @ str_of_int port, ''-sTCP:LISTEN'', ''-t'']"

text \<open>The first candidate that answers; \<open>None\<close> when none could tell.\<close>

fun try_lsof :: "'h machine \<Rightarrow> int \<Rightarrow> string list \<Rightarrow> ('h, int list option) act" where
  "try_lsof mc port [] = first (warn_once PortProbe WarnPortProbe) (\<lambda>_. gives None)"
| "try_lsof mc port (c # cs) = first (if c \<noteq> [] \<and> hd c = SLASH then path_exists mc c else gives True) (\<lambda>there.
     if \<not> there then try_lsof mc port cs
     else first (run_cmd mc (lsof_argv c port)) (\<lambda>r. case r of
         RunDone code out err \<Rightarrow>
           if code = 0 \<or> code = 1
           then first (rearm PortProbe) (\<lambda>_. gives (Some (List.map_filter int_of_text (split_words out))))
           else try_lsof mc port cs
       | _ \<Rightarrow> try_lsof mc port cs))"

definition port_listener_pids :: "'h machine \<Rightarrow> ('h, int list option) act" where
  "port_listener_pids mc = first (given (\<lambda>s. as_port (ag_spec s))) (\<lambda>port.
     case port of None \<Rightarrow> gives (Some []) | Some p \<Rightarrow> try_lsof mc p LSOF_CANDIDATES)"

definition process_age_seconds :: "'h machine \<Rightarrow> int \<Rightarrow> ('h, int option) act" where
  "process_age_seconds mc pid = first (run_cmd mc [''ps'', ''-o'', ''etime='', ''-p'', str_of_int pid]) (\<lambda>r.
     case (case r of RunDone code out err \<Rightarrow> if code = 0 then parse_etime out else None | _ \<Rightarrow> None) of
       None \<Rightarrow> first (warn_once ProcessAge (WarnAge pid)) (\<lambda>_. gives None)
     | Some age \<Rightarrow> first (rearm ProcessAge) (\<lambda>_. gives (Some age)))"

section \<open>Servers that outlived an agent\<close>

definition names_us :: "'h agent \<Rightarrow> string \<Rightarrow> bool" where
  "names_us s command = (occurs_in (package_dir s) command \<and> occurs_in (as_storage (ag_spec s)) command)"

definition running_server_pids :: "'h machine \<Rightarrow> int option \<Rightarrow> ('h, int list) act" where
  "running_server_pids mc exclude = first (ps_map mc) (\<lambda>procs. if procs = [] then gives []
     else first (port_listener_pids mc) (\<lambda>listeners. given (\<lambda>s. sort (List.map_filter (\<lambda>(pid, command).
       if Some pid \<noteq> exclude
          \<and> (names_us s command
             \<or> pid \<in> set (case listeners of None \<Rightarrow> [] | Some ps \<Rightarrow> ps) \<and> occurs_in (as_package (ag_spec s)) command)
       then Some pid else None) procs))))"

definition warn_on_foreign_port_holder :: "'h machine \<Rightarrow> int list \<Rightarrow> int option \<Rightarrow> ('h, unit) act" where
  "warn_on_foreign_port_holder mc reapable exclude = first (port_listener_pids mc) (\<lambda>listeners.
     let holders = filter (\<lambda>p. Some p \<noteq> exclude \<and> p \<notin> set reapable) (case listeners of None \<Rightarrow> [] | Some ps \<Rightarrow> ps)
     in if holders = [] then gives ()
        else first (ps_map mc) (\<lambda>procs. all_of (map (\<lambda>p. says (WarnForeignHolder p (map_of procs p))) holders)))"

definition signal_pid :: "'h machine \<Rightarrow> string \<Rightarrow> int \<Rightarrow> ('h, unit) act" where
  "signal_pid mc sig pid = first (run_cmd mc [''kill'', CHR ''-'' # sig, str_of_int pid]) (\<lambda>_. gives ())"

fun wait_for_pids_gone :: "'h machine \<Rightarrow> int option \<Rightarrow> nat \<Rightarrow> ('h, bool) act" where
  "wait_for_pids_gone mc exclude 0 = gives False"
| "wait_for_pids_gone mc exclude (Suc n) = first (calls_on (\<lambda>h. ((), mc_sleep mc (1 / 4) h)) (\<lambda>_. Slept (1 / 4))) (\<lambda>_.
     first (running_server_pids mc exclude) (\<lambda>pids. if pids = [] then gives True else wait_for_pids_gone mc exclude n))"

definition reap_orphan_servers :: "'h machine \<Rightarrow> int option \<Rightarrow> ('h, nat) act" where
  "reap_orphan_servers mc exclude = first (running_server_pids mc exclude) (\<lambda>pids.
     first (warn_on_foreign_port_holder mc pids exclude) (\<lambda>_.
     if pids = [] then gives 0
     else first (says (WarnStopping pids)) (\<lambda>_.
       first (all_of (map (signal_pid mc ''TERM'') pids)) (\<lambda>_.
       first (wait_for_pids_gone mc exclude 6) (\<lambda>gone. if gone then gives (length pids)
         else first (running_server_pids mc exclude) (\<lambda>stragglers.
           first (all_of (concat (map (\<lambda>p. [says (WarnIgnoredTerm p), signal_pid mc ''KILL'' p]) stragglers))) (\<lambda>_.
           first (wait_for_pids_gone mc exclude 6) (\<lambda>gone'. if gone' then gives (length pids)
             else first (running_server_pids mc exclude) (\<lambda>survivors.
               first (says (WarnSurvivedKill survivors)) (\<lambda>_. gives (length pids)))))))))))"

section \<open>Storage locks\<close>

datatype lock_owner = OwnerPid int | NoOwner | OwnerUnreadable

text \<open>What \<open>matter.pid\<close> says: only a file that exists and cannot be read is a failed probe.\<close>

definition owner_of :: "read_result \<Rightarrow> lock_owner" where
  "owner_of r = (case r of
       ReadText t \<Rightarrow> (case split_words t of [] \<Rightarrow> NoOwner
         | w # _ \<Rightarrow> (case int_of_text w of None \<Rightarrow> NoOwner | Some n \<Rightarrow> OwnerPid n))
     | ReadMissing \<Rightarrow> NoOwner
     | ReadUndecodable \<Rightarrow> NoOwner
     | ReadFault _ \<Rightarrow> OwnerUnreadable)"

definition read_matter_pid :: "'h machine \<Rightarrow> string \<Rightarrow> ('h, lock_owner) act" where
  "read_matter_pid mc p = first (read_file mc p) (\<lambda>r.
     first (only_if (owner_of r \<noteq> OwnerUnreadable) (rearm PidRead)) (\<lambda>_. gives (owner_of r)))"

definition lock_candidate_dirs :: "'h machine \<Rightarrow> ('h, string list) act" where
  "lock_candidate_dirs mc = first (given (\<lambda>s. as_storage (ag_spec s))) (\<lambda>root.
     first (asks (mc_listdir mc root) (Listed root)) (\<lambda>r. case r of
         DirMissing \<Rightarrow> gives [root]
       | DirFault why \<Rightarrow> first (warn_once ListDir (WarnListDir root)) (\<lambda>_. gives [root])
       | DirEntries names \<Rightarrow> given (\<lambda>s. root # filter (\<lambda>p. \<not> mc_islink mc p (ag_host s) \<and> mc_isdir mc p (ag_host s))
             (map (\<lambda>n. join_path root [n]) names))))"

datatype live_verdict = LivePidStale lock_reason | LivePidOurs | LivePidUndecided "live_pid_doubt list"

definition stale_reason_for_live_pid :: "'h machine \<Rightarrow> string \<Rightarrow> int \<Rightarrow> string \<Rightarrow> ('h, live_verdict) act" where
  "stale_reason_for_live_pid mc d pid command =
     (if command \<noteq> []
      then given (\<lambda>s. if names_us s command then LivePidOurs else LivePidStale (OwnerReassigned pid))
      else first (asks (mc_mtime mc (pid_path d)) (Mtime (pid_path d))) (\<lambda>mtime.
        first (process_age_seconds mc pid) (\<lambda>age.
        first (asks (mc_time mc) Clock) (\<lambda>now. gives (case (mtime, age) of
            (Some m, Some a) \<Rightarrow> if m + START_AFTER_LOCK_SLACK_SECONDS < now - of_int a
                                then LivePidStale (OwnerStartedLater pid) else LivePidOurs
          | _ \<Rightarrow> LivePidUndecided ((if mtime = None then [MtimeUnknown] else []) @ (if age = None then [AgeUnknown] else [])))))))"

definition clear_lock :: "'h machine \<Rightarrow> string \<Rightarrow> lock_reason \<Rightarrow> ('h, bool) act" where
  "clear_lock mc d reason = first (remove_file mc (lock_path d)) (\<lambda>r.
     let removed = (case r of RemoveFault _ \<Rightarrow> False | _ \<Rightarrow> True) in
     first (says (if removed then WarnLockCleared d reason else ErrLockStays d reason)) (\<lambda>_.
     first (remove_file mc (pid_path d)) (\<lambda>_. gives removed)))"

definition sweep_dir :: "'h machine \<Rightarrow> (int \<times> string) list \<Rightarrow> string \<Rightarrow> ('h, bool) act" where
  "sweep_dir mc procs d = first (path_exists mc (lock_path d)) (\<lambda>locked. if \<not> locked then gives False
     else first (read_matter_pid mc (pid_path d)) (\<lambda>owner. case owner of
         OwnerUnreadable \<Rightarrow> first (warn_once PidRead (WarnPidUnreadable d)) (\<lambda>_. gives False)
       | NoOwner \<Rightarrow> clear_lock mc d NoOwnerRecorded
       | OwnerPid pid \<Rightarrow>
           if procs = [] then first (warn_once PsForLock (WarnPsUnusable d pid)) (\<lambda>_. gives False)
           else (case map_of procs pid of
               None \<Rightarrow> clear_lock mc d (OwnerNotRunning pid)
             | Some command \<Rightarrow> first (stale_reason_for_live_pid mc d pid command) (\<lambda>v. case v of
                   LivePidStale reason \<Rightarrow> clear_lock mc d reason
                 | LivePidOurs \<Rightarrow> gives False
                 | LivePidUndecided doubts \<Rightarrow> first (warn_once UndecidedPid (WarnUndecided d pid doubts)) (\<lambda>_. gives False)))))"

definition clear_stale_storage_locks :: "'h machine \<Rightarrow> ('h, nat) act" where
  "clear_stale_storage_locks mc = first (ps_map mc) (\<lambda>procs.
     first (only_if (procs \<noteq> []) (rearm PsForLock)) (\<lambda>_.
     first (lock_candidate_dirs mc) (\<lambda>dirs.
     first (each dirs (sweep_dir mc procs)) (\<lambda>cleared. gives (length (filter id cleared))))))"

section \<open>The error log\<close>

text \<open>\<open>readlines()\<close>: the lines with their ends.\<close>

fun line_ends :: "string \<Rightarrow> string list" where
  "line_ends [] = []"
| "line_ends (c # cs) = (if c = CHR 0x0A then [c] # line_ends cs
     else (case line_ends cs of [] \<Rightarrow> [[c]] | l # ls \<Rightarrow> (c # l) # ls))"

definition tail_error_log :: "'h machine \<Rightarrow> nat \<Rightarrow> ('h, string option) act" where
  "tail_error_log mc n = first (given (\<lambda>s. join_path (log_dir s) [as_err_log (ag_spec s)])) (\<lambda>p.
     first (asks (mc_read_log mc p) (ReadFile p)) (\<lambda>r. gives (case r of
         ReadText t \<Rightarrow> (let ls = line_ends t; tail = str_strip (concat (drop (length ls - n) ls))
                        in if tail = [] then None else Some tail)
       | _ \<Rightarrow> None)))"

text \<open>The colour escapes: \<open>ESC [\<close>, digits and semicolons, \<open>m\<close>.\<close>

function strip_ansi :: "string \<Rightarrow> string" where
  "strip_ansi [] = []"
| "strip_ansi (c # cs) = (let rest = dropWhile (\<lambda>c. is_decimal_char c \<or> c = CHR '';'') (tl cs) in
     if c = CHR 0x1B \<and> cs \<noteq> [] \<and> hd cs = CHR ''['' \<and> rest \<noteq> [] \<and> hd rest = CHR ''m''
     then strip_ansi (tl rest) else c # strip_ansi cs)"
  by pat_completeness auto
termination
proof (relation "measure length"; clarsimp)
  fix cs :: string
  have "length (dropWhile (\<lambda>c. is_decimal_char c \<or> c = CHR '';'') (tl cs)) \<le> length cs"
    by (metis diff_le_self length_dropWhile_le length_tl order_trans)
  then show "length (dropWhile (\<lambda>c. is_decimal_char c \<or> c = CHR '';'') (tl cs)) - Suc 0 < Suc (length cs)" by linarith
qed

definition last_fatal_line :: "'h machine \<Rightarrow> ('h, string option) act" where
  "last_fatal_line mc = first (tail_error_log mc FATAL_TAIL_LINES) (\<lambda>tail. gives (case tail of
       None \<Rightarrow> None
     | Some t \<Rightarrow> List.find (occurs_in ''FATAL'') (map (str_strip \<circ> strip_ansi) (rev (split_lines t)))))"

text \<open>The shape of the time a line starts with; its value is the machine's.\<close>

definition timestamp_shape :: "string \<Rightarrow> bool" where
  "timestamp_shape t = (length t = 23 \<and> list_all2 (\<lambda>f c. if f = CHR ''0'' then is_decimal_char c else c = f)
     ''0000-00-00 00:00:00.000'' t)"

definition parse_fatal_timestamp :: "'h machine \<Rightarrow> string \<Rightarrow> rat option" where
  "parse_fatal_timestamp mc line = (if timestamp_shape (take 23 line) then mc_local_time mc (take 23 line) else None)"

definition fatal_is_fresh :: "'h machine \<Rightarrow> rat \<Rightarrow> 'h agent \<Rightarrow> bool" where
  "fatal_is_fresh mc t s = (case ag_boot_time s of
       Some boot \<Rightarrow> boot - FATAL_FRESHNESS_SLACK_SECONDS \<le> t
     | None \<Rightarrow> mc_time mc (ag_host s) - NO_BOOTSTRAP_RECENT_WINDOW_SECONDS \<le> t)"

datatype lock_holder = HolderUnknown | HolderGone | HolderOurs string | HolderForeign string

datatype lock_cause = CausePidUnreadable string | CausePidMissing string | CauseHeld int lock_holder "int option"

datatype fatal_cause = StorageLockCause lock_cause | PortConflictCause string | OtherCause string

text \<open>The number in the first \<open>(pid N)\<close> of a line.\<close>

fun fatal_pid :: "string \<Rightarrow> int option" where
  "fatal_pid [] = None"
| "fatal_pid (c # cs) = (let t = drop 5 (c # cs); digits = takeWhile is_decimal_char t in
     if take 5 (c # cs) = ''(pid '' \<and> digits \<noteq> [] \<and> take 1 (drop (length digits) t) = '')''
     then int_of_text digits else fatal_pid cs)"

definition describe_pid :: "'h machine \<Rightarrow> int \<Rightarrow> ('h, lock_holder) act" where
  "describe_pid mc pid = first (run_cmd mc [''ps'', ''-ww'', ''-p'', str_of_int pid, ''-o'', ''command='']) (\<lambda>r.
     given (\<lambda>s. case r of
         RunDone code out err \<Rightarrow> (let command = str_strip out in
           if code \<noteq> 0 then (if command = [] then HolderGone else HolderUnknown)
           else if command = [] then HolderUnknown
           else if names_us s command then HolderOurs command else HolderForeign command)
       | _ \<Rightarrow> HolderUnknown))"

definition describe_storage_lock_cause :: "'h machine \<Rightarrow> string \<Rightarrow> ('h, lock_cause) act" where
  "describe_storage_lock_cause mc line = first (given (\<lambda>s. pid_path (as_storage (ag_spec s)))) (\<lambda>p.
     first (read_matter_pid mc p) (\<lambda>owner. case owner of
         OwnerUnreadable \<Rightarrow> gives (CausePidUnreadable line)
       | NoOwner \<Rightarrow> gives (CausePidMissing line)
       | OwnerPid pid \<Rightarrow> first (describe_pid mc pid) (\<lambda>holder. gives (CauseHeld pid holder
           (case fatal_pid line of None \<Rightarrow> None | Some n \<Rightarrow> if n \<noteq> pid then Some n else None)))))"

definition describe_fatal_cause :: "'h machine \<Rightarrow> ('h, fatal_cause option) act" where
  "describe_fatal_cause mc = first (last_fatal_line mc) (\<lambda>fatal. case fatal of
       None \<Rightarrow> gives None
     | Some line \<Rightarrow> (case parse_fatal_timestamp mc line of
         None \<Rightarrow> gives None
       | Some t \<Rightarrow> first (given (fatal_is_fresh mc t)) (\<lambda>fresh.
           if \<not> fresh then gives None
           else if occurs_in ''storage-lock'' line \<or> occurs_in ''Storage is locked'' line
           then first (describe_storage_lock_cause mc line) (\<lambda>c. gives (Some (StorageLockCause c)))
           else gives (Some (if occurs_in EADDRINUSE_MARKER line then PortConflictCause line else OtherCause line)))))"

section \<open>Whether the job serves its port\<close>

definition port_conflict_report :: "'h machine \<Rightarrow> int option \<Rightarrow> ('h, port_conflict option) act" where
  "port_conflict_report mc managed = first (given (\<lambda>s. as_port (ag_spec s))) (\<lambda>port. if port = None then gives None
     else first (case managed of Some p \<Rightarrow> gives (Some p) | None \<Rightarrow> first (read_managed_job mc) (\<lambda>j. gives (mj_pid j))) (\<lambda>pid.
     case pid of None \<Rightarrow> gives None
     | Some me \<Rightarrow> first (port_listener_pids mc) (\<lambda>holders. case holders of
         None \<Rightarrow> first (tail_error_log mc 200) (\<lambda>tail.
           gives (if occurs_in EADDRINUSE_MARKER (case tail of None \<Rightarrow> [] | Some t \<Rightarrow> t) then Some (PerhapsConflict me) else None))
       | Some [] \<Rightarrow> first (process_age_seconds mc me) (\<lambda>age. gives (case age of
             None \<Rightarrow> None
           | Some a \<Rightarrow> if a < STARTUP_GRACE_SECONDS then None else Some (NothingListening me a)))
       | Some ps \<Rightarrow> if me \<in> set ps then gives None
           else first (ps_map mc) (\<lambda>procs. gives (Some (HeldByOthers (map (\<lambda>p. (p, map_of procs p)) ps) me))))))"

definition due_for_bootstrap_verification :: "'h machine \<Rightarrow> 'h agent \<Rightarrow> rat option" where
  "due_for_bootstrap_verification mc s = (case ag_verify_after s of
       None \<Rightarrow> None
     | Some t \<Rightarrow> if mc_mono mc (ag_host s) < t then None else Some t)"

definition clear_bootstrap_verification :: "rat \<Rightarrow> 'h agent \<Rightarrow> 'h agent" where
  "clear_bootstrap_verification observed s =
     (if ag_verify_after s = Some observed then s\<lparr>ag_verify_after := None\<rparr> else s)"

datatype verdict_of_bootstrap = VerdictDead | VerdictConflictFree | VerdictPending

definition post_bootstrap_verdict :: "'h machine \<Rightarrow> ('h, verdict_of_bootstrap) act" where
  "post_bootstrap_verdict mc = first (read_managed_job mc) (\<lambda>j. case mj_pid j of
       None \<Rightarrow> gives VerdictDead
     | Some pid \<Rightarrow> first (process_age_seconds mc pid) (\<lambda>age. gives (case age of
           Some a \<Rightarrow> if STARTUP_GRACE_SECONDS \<le> a then VerdictConflictFree else VerdictPending
         | None \<Rightarrow> VerdictPending)))"

definition managed_job_has_pid :: "'h machine \<Rightarrow> ('h, bool) act" where
  "managed_job_has_pid mc = first (read_managed_job mc) (\<lambda>j. gives (mj_pid j \<noteq> None))"

definition adopt_pending_bootstrap_verification :: "'g agent option \<Rightarrow> 'h agent \<Rightarrow> 'h agent" where
  "adopt_pending_bootstrap_verification previous s = (case previous of
       Some p \<Rightarrow> if ag_verify_after s = None then s\<lparr>ag_verify_after := ag_verify_after p\<rparr> else s
     | None \<Rightarrow> s)"

section \<open>Loading the plist\<close>

definition plist_on_disk :: "'h machine \<Rightarrow> ('h, string option) act" where
  "plist_on_disk mc = first (given plist_path) (\<lambda>p. first (asks (mc_read_bytes mc p) (ReadFile p)) (\<lambda>r.
     gives (case r of ReadText t \<Rightarrow> Some t | _ \<Rightarrow> None)))"

definition read_applied_digest :: "'h machine \<Rightarrow> ('h, string option) act" where
  "read_applied_digest mc = first (given applied_marker_path) (\<lambda>p. first (read_file mc p) (\<lambda>r. case r of
       ReadText t \<Rightarrow> gives (if str_strip t = [] then None else Some (str_strip t))
     | ReadUndecodable \<Rightarrow> fails ValueError
     | _ \<Rightarrow> gives None))"

definition record_applied_digest :: "'h machine \<Rightarrow> string \<Rightarrow> ('h, unit) act" where
  "record_applied_digest mc digest = first (given (\<lambda>s. nr_project_dir (ag_node s))) (\<lambda>dir.
     first (calls_on (mc_makedirs mc dir) (MadeDirs dir)) (\<lambda>r. if r \<noteq> None then gives ()
       else first (given applied_marker_path) (\<lambda>p. first (write_file mc p (digest @ [CHR 0x0A])) (\<lambda>_. gives ()))))"

definition note_bootstrap :: "'h machine \<Rightarrow> ('h, unit) act" where
  "note_bootstrap mc = alter (\<lambda>s. s\<lparr>ag_boot_time := Some (mc_time mc (ag_host s))\<rparr>)"

definition bootstrap_and_record :: "'h machine \<Rightarrow> string option \<Rightarrow> ('h, bool) act" where
  "bootstrap_and_record mc plist_bytes = first (launchd_bootstrap mc) (\<lambda>up. if \<not> up then gives False
     else first (note_bootstrap mc) (\<lambda>_.
       first (case plist_bytes of Some b \<Rightarrow> gives (Some b) | None \<Rightarrow> plist_on_disk mc) (\<lambda>written.
       first (case written of None \<Rightarrow> gives () | Some b \<Rightarrow> record_applied_digest mc (mc_sha256 mc b)) (\<lambda>_.
       first (alter (\<lambda>s. s\<lparr>ag_verify_after := Some (mc_mono mc (ag_host s) + of_int STARTUP_GRACE_SECONDS)\<rparr>)) (\<lambda>_.
         gives True)))))"

definition warn_on_argument_drift :: "'h machine \<Rightarrow> string list \<Rightarrow> ('h, unit) act" where
  "warn_on_argument_drift mc live = (if live = [] then gives ()
     else first (program_arguments mc) (\<lambda>desired. only_if (live \<noteq> desired) (says (WarnArgumentDrift live desired))))"

text \<open>The second half of \<open>_apply_plist\<close>: the loaded job, if any, is replaced.\<close>

definition replace_job :: "'h machine \<Rightarrow> bool \<Rightarrow> string \<Rightarrow> ('h, bool) act" where
  "replace_job mc loaded desired =
     first (if \<not> loaded then gives True else launchd_bootout mc) (\<lambda>out.
     first (only_if (loaded \<and> \<not> out) (says WarnCouldNotStop)) (\<lambda>_.
     first (reap_orphan_servers mc None) (\<lambda>_.
     first (clear_stale_storage_locks mc) (\<lambda>_.
     first (bootstrap_and_record mc (Some desired)) (\<lambda>up. if up then gives True
       else first (given plist_path) (\<lambda>p. first (launchctl mc [''load'', p]) (\<lambda>r.
         if \<not> went_well r
         then first (says (ErrLoadFailed (case r of Some (_, _, err) \<Rightarrow> Some (str_strip err) | None \<Rightarrow> None))) (\<lambda>_. gives False)
         else first (note_bootstrap mc) (\<lambda>_.
           first (record_applied_digest mc (mc_sha256 mc desired)) (\<lambda>_. gives True)))))))))"

text \<open>What is done about a healthy job that is left alone.\<close>

definition leave_job :: "'h machine \<Rightarrow> int \<Rightarrow> managed_job \<Rightarrow> ('h, bool) act" where
  "leave_job mc me job = first (clear_stale_storage_locks mc) (\<lambda>_.
     first (warn_on_argument_drift mc (mj_arguments job)) (\<lambda>_.
     first (port_conflict_report mc (Some me)) (\<lambda>conflict. first (case conflict of
         None \<Rightarrow> gives () | Some c \<Rightarrow> says (ErrConflict c)) (\<lambda>_. gives False))))"

definition apply_plist :: "'h machine \<Rightarrow> string \<Rightarrow> ('h, bool) act" where
  "apply_plist mc desired = first (read_managed_job mc) (\<lambda>job.
     first (if mj_loaded job then read_applied_digest mc else gives None) (\<lambda>digest.
     if mj_loaded job \<and> digest = Some (mc_sha256 mc desired)
     then (case mj_pid job of
         None \<Rightarrow> if mj_pid_line job then gives False
           else first (says WarnLoadedNotRunning) (\<lambda>_. replace_job mc True desired)
       | Some me \<Rightarrow> first (reap_orphan_servers mc (Some me)) (\<lambda>n.
           if n = 0 then leave_job mc me job else replace_job mc True desired))
     else replace_job mc (mj_loaded job) desired))"

definition uninstall :: "'h machine \<Rightarrow> ('h, unit) act" where
  "uninstall mc = first (launchd_bootout mc) (\<lambda>out. first (given plist_path) (\<lambda>p.
     first (if out then gives None else launchctl mc [''unload'', p]) (\<lambda>_.
     first (remove_file mc p) (\<lambda>r. case r of RemoveFault why \<Rightarrow> fails (OtherException why) | _ \<Rightarrow> gives ()))))"

section \<open>Life cycle\<close>

text \<open>\<open>ensure_installed\<close>; \<open>relaxed\<close> says that the hook of the subclass has something to warn about.\<close>

definition ensure_installed :: "'h machine \<Rightarrow> bool \<Rightarrow> ('h, bool option) act" where
  "ensure_installed mc relaxed =
     first (given (\<lambda>s. [as_storage (ag_spec s), log_dir s, dir_name (plist_path s)])) (\<lambda>dirs.
     first (all_of (map (make_dirs mc) dirs)) (\<lambda>_.
     first (preflight mc) (\<lambda>problem. case problem of
         Some why \<Rightarrow> first (says (ErrCannotStart why)) (\<lambda>_. first (given plist_path) (\<lambda>p. first (path_exists mc p) (\<lambda>there.
           first (only_if there (uninstall mc)) (\<lambda>_. gives None))))
       | None \<Rightarrow> first (given (\<lambda>s. abi_warning (mc_toolchain mc (ag_host s)) (ag_node s))) (\<lambda>abi. case abi of
           Inl e \<Rightarrow> fails e
         | Inr w \<Rightarrow> first (case w of None \<Rightarrow> gives () | Some (a, b) \<Rightarrow> says (WarnAbi a b)) (\<lambda>_.
             first (only_if relaxed (says WarnSettings)) (\<lambda>_.
             first (build_plist mc) (\<lambda>desired. first (given plist_path) (\<lambda>p.
             first (write_file mc p desired) (\<lambda>r. case r of
                 Some why \<Rightarrow> fails (OtherException why)
               | None \<Rightarrow> first (apply_plist mc desired) (\<lambda>b. gives (Some b)))))))))))"

definition stop_agent :: "'h machine \<Rightarrow> ('h, bool) act" where
  "stop_agent = launchd_bootout"

definition start_agent :: "'h machine \<Rightarrow> bool \<Rightarrow> ('h, bool) act" where
  "start_agent mc relaxed = first (given plist_path) (\<lambda>p. first (path_exists mc p) (\<lambda>there.
     if there
     then first (reap_orphan_servers mc None) (\<lambda>_. first (clear_stale_storage_locks mc) (\<lambda>_. bootstrap_and_record mc None))
     else first (ensure_installed mc relaxed) (\<lambda>_. is_alive mc)))"

definition restart_agent :: "'h machine \<Rightarrow> bool \<Rightarrow> ('h, bool) act" where
  "restart_agent mc relaxed = first (given plist_path) (\<lambda>p. first (path_exists mc p) (\<lambda>there.
     if \<not> there then first (says ErrNothingToRestart) (\<lambda>_. gives False)
     else first (launchd_bootout mc) (\<lambda>_. first (reap_orphan_servers mc None) (\<lambda>_. first (clear_stale_storage_locks mc) (\<lambda>_.
       first (bootstrap_and_record mc None) (\<lambda>up. if up then gives True
         else first (says WarnReloadFailed) (\<lambda>_. first (uninstall mc) (\<lambda>_.
           first (ensure_installed mc relaxed) (\<lambda>_. is_alive mc)))))))))"

section \<open>The package\<close>

text \<open>The environment of npm is left out.\<close>

definition npm_path :: "'h agent \<Rightarrow> string" where
  "npm_path s = join_path (resolved_bin_dir s) [''npm'']"

definition npm_install :: "'h machine \<Rightarrow> string \<Rightarrow> string \<Rightarrow> ('h, bool) act" where
  "npm_install mc npm wanted = first (given (\<lambda>s. nr_project_dir (ag_node s))) (\<lambda>dir. first (make_dirs mc dir) (\<lambda>_.
     first (run_cmd mc [npm, ''install'', ''--prefix'', dir, wanted]) (\<lambda>r. case r of
         RunOsError why \<Rightarrow> first (says (ErrInstallNotStarted why)) (\<lambda>_. gives False)
       | RunNoResult \<Rightarrow> first (says ErrInstallFailed) (\<lambda>_. gives False)
       | RunDone code out err \<Rightarrow>
           if code \<noteq> 0 then first (says ErrInstallFailed) (\<lambda>_. gives False)
           else first (given (\<lambda>s. record_install_node (mc_toolchain mc (ag_host s)) (ag_node s))) (\<lambda>r. case r of
               Inl e \<Rightarrow> fails e
             | Inr (host', fault) \<Rightarrow>
                 first (calls_on (\<lambda>h. ((), mc_stamp mc host' h)) (\<lambda>_. Stamped)) (\<lambda>_.
                 first (case fault of None \<Rightarrow> gives () | Some why \<Rightarrow> says (WarnStampFault why)) (\<lambda>_. gives True))))))"

definition install_package :: "'h machine \<Rightarrow> string option \<Rightarrow> ('h, bool) act" where
  "install_package mc install_spec = first (given npm_path) (\<lambda>npm. first (path_exists mc npm) (\<lambda>there.
     if \<not> there then first (says (ErrNoNpm npm)) (\<lambda>_. gives False)
     else first (given (\<lambda>s. case install_spec of Some (c # cs) \<Rightarrow> c # cs | _ \<Rightarrow> as_install_spec (ag_spec s))) (\<lambda>wanted.
       first (given (\<lambda>s. probe_version (mc_toolchain mc (ag_host s)) (nr_node_path (ag_node s)))) (\<lambda>probed. case probed of
         Inl e \<Rightarrow> fails e
       | Inr version \<Rightarrow> (case parse_node_version (case version of None \<Rightarrow> [] | Some v \<Rightarrow> v) of
           Some current \<Rightarrow> if take 2 current < MIN_NODE_VERSION
               then first (says (ErrNodeTooOld wanted current)) (\<lambda>_. gives False) else npm_install mc npm wanted
         | None \<Rightarrow> npm_install mc npm wanted)))))"

definition npm_uninstall :: "'h machine \<Rightarrow> ('h, bool) act" where
  "npm_uninstall mc = first (given npm_path) (\<lambda>npm. first (path_exists mc npm) (\<lambda>there.
     if \<not> there then gives False
     else first (given (\<lambda>s. [npm, ''uninstall'', ''--prefix'', nr_project_dir (ag_node s), as_package (ag_spec s)])) (\<lambda>argv.
       first (run_cmd mc argv) (\<lambda>r. gives (case r of RunDone code out err \<Rightarrow> code = 0 | _ \<Rightarrow> False)))))"

definition remove_package_dir :: "'h machine \<Rightarrow> ('h, unit) act" where
  "remove_package_dir mc = first (given package_dir) (\<lambda>dir. first (given (\<lambda>s. mc_isdir mc dir (ag_host s))) (\<lambda>is_dir.
     if is_dir
     then first (calls_on (mc_rmtree mc dir) (RemovedTree dir)) (\<lambda>r.
       case r of None \<Rightarrow> gives () | Some why \<Rightarrow> says (WarnCouldNotRemove dir why))
     else first (path_exists mc dir) (\<lambda>there. if \<not> there then gives ()
       else first (remove_file mc dir) (\<lambda>r. case r of
           Removed \<Rightarrow> gives ()
         | WasMissing \<Rightarrow> says (WarnCouldNotRemove dir [])
         | RemoveFault why \<Rightarrow> says (WarnCouldNotRemove dir why)))))"

definition remove_package :: "'h machine \<Rightarrow> ('h, bool) act" where
  "remove_package mc = first (launchd_bootout mc) (\<lambda>_. first (reap_orphan_servers mc None) (\<lambda>_.
     first (npm_uninstall mc) (\<lambda>gone. first (only_if (\<not> gone) (remove_package_dir mc)) (\<lambda>_.
     first (given applied_marker_path) (\<lambda>marker. first (remove_file mc marker) (\<lambda>_.
     first (given package_dir) (\<lambda>dir. first (path_exists mc dir) (\<lambda>still.
       if still then first (says (ErrPackageStays dir)) (\<lambda>_. gives False) else gives True))))))))"

section \<open>Construction\<close>

definition make_agent ::
  "(pyval \<Rightarrow> string) \<Rightarrow> 'h machine \<Rightarrow> agent_spec \<Rightarrow> pydict \<Rightarrow> string \<Rightarrow> string option \<Rightarrow> 'h \<Rightarrow> 'h agent py_result" where
  "make_agent repr mc sp prefs home npx h =
     py_bind (make_resolver repr (mc_toolchain mc h) prefs home (join_path home [DEFAULT_PROJECT_DIRNAME]) npx) (\<lambda>(r, notes).
       Inr \<lparr>ag_spec = sp, ag_node = r, ag_host = h, ag_warned = {}, ag_verify_after = None, ag_boot_time = None,
            ag_calls = map (Said \<circ> WarnResolver) notes\<rparr>)"

end
