(* ===== verification/AgentFacts.thy ===== *)
theory AgentFacts
  imports LaunchAgent
begin

text \<open>
  Which calls an agent can make on the machine. A call that destroys something - a file is removed or
  overwritten, a process is signalled - needs a licence: evidence, in the answers the operation has
  received so far, that it is allowed. The calculus below carries the known answers through an operation;
  every operation of the agent is shown to keep to its licences.
\<close>

section \<open>Licences\<close>
















section \<open>Carrying the answers\<close>


































section \<open>Questions\<close>







section \<open>Signals\<close>







section \<open>Storage locks\<close>










section \<open>Loading the plist\<close>









section \<open>Life cycle\<close>








section \<open>Everything an agent is asked to do\<close>









section \<open>The verification of a bootstrap\<close>

lemma bootstrap_sets_verification:
  assumes "bootstrap_and_record mc b s = (Inr True, s')"
  shows "ag_verify_after s' = Some (mc_mono mc (ag_host s') + of_int STARTUP_GRACE_SECONDS)"
  using assms
  by (auto simp: bootstrap_and_record_def acts split: prod.splits sum.splits if_splits)

text \<open>A verification that fell due before a bootstrap cannot clear the one the bootstrap has set up, however the two
  are interleaved, and the new one is not due before its grace has passed.\<close>

theorem stale_verdict_keeps_newer:
  assumes "due_for_bootstrap_verification mc s = Some t"
    and "bootstrap_and_record mc b s = (Inr True, s')"
    and "mc_mono mc (ag_host s) \<le> mc_mono mc (ag_host s')"
  shows "clear_bootstrap_verification t s' = s' \<and> ag_verify_after s' \<noteq> None \<and> due_for_bootstrap_verification mc s' = None"
proof -
  have "t \<le> mc_mono mc (ag_host s)"
    using assms(1) by (auto simp: due_for_bootstrap_verification_def split: option.splits if_splits)
  then show ?thesis
    using bootstrap_sets_verification [OF assms(2)] assms(3)
    by (auto simp: clear_bootstrap_verification_def due_for_bootstrap_verification_def STARTUP_GRACE_SECONDS_def)
qed

text \<open>A machine whose clock is all that moves: every program that is run succeeds, there are no files.\<close>

definition clockwork :: "rat machine" where
  "clockwork = \<lparr>mc_run = (\<lambda>_ h. (RunDone 0 [] [], h + 1)), mc_exists = (\<lambda>_ _. False), mc_isdir = (\<lambda>_ _. False),
     mc_islink = (\<lambda>_ _. False), mc_listdir = (\<lambda>_ _. DirMissing), mc_read = (\<lambda>_ _. ReadMissing),
     mc_read_log = (\<lambda>_ _. ReadMissing), mc_read_bytes = (\<lambda>_ _. ReadMissing), mc_mtime = (\<lambda>_ _. None),
     mc_write = (\<lambda>_ _ h. (None, h)), mc_remove = (\<lambda>_ h. (WasMissing, h)), mc_rmtree = (\<lambda>_ h. (None, h)),
     mc_makedirs = (\<lambda>_ h. (None, h)), mc_sleep = (\<lambda>t h. h + t), mc_time = (\<lambda>h. h), mc_mono = (\<lambda>h. h),
     mc_toolchain = (\<lambda>_. toolchain_demo), mc_stamp = (\<lambda>_ h. h), mc_uid = 501, mc_loads = (\<lambda>_. Inl ValueError),
     mc_plist_dumps = pl_label, mc_sha256 = (\<lambda>s. s), mc_local_time = (\<lambda>_. None)\<rparr>"

definition idle_agent :: "rat agent" where
  "idle_agent = \<lparr>ag_spec = \<lparr>as_label = ''com.matter.server'', as_package = ''matter-server'', as_install_spec = ''matter-server'',
      as_default_entry = ''dist/cli.js'', as_storage = ''/h/.matter'', as_out_log = ''out.log'', as_err_log = ''err.log'',
      as_argv = (\<lambda>node entry. [node, entry]), as_port = Some 5580, as_applied_marker = None, as_install_menu = [], as_env = []\<rparr>,
    ag_node = resolver_demo, ag_host = 200, ag_warned = {}, ag_verify_after = Some 150, ag_boot_time = None, ag_calls = []\<rparr>"

lemma stale_verdict_keeps_newer_witness:
  "\<exists>s'. bootstrap_and_record clockwork None idle_agent = (Inr True, s')
     \<and> clear_bootstrap_verification 150 s' = s' \<and> due_for_bootstrap_verification clockwork s' = None"
proof -
  let ?s' = "snd (bootstrap_and_record clockwork None idle_agent)"
  note run = bootstrap_and_record_def launchd_bootstrap_def launchctl_def run_cmd_def note_bootstrap_def plist_on_disk_def
    went_well_def acts clockwork_def idle_agent_def
  have up: "bootstrap_and_record clockwork None idle_agent = (Inr True, ?s')" by (simp add: run)
  have later: "mc_mono clockwork (ag_host idle_agent) \<le> mc_mono clockwork (ag_host ?s')" by (simp add: run)
  have due: "due_for_bootstrap_verification clockwork idle_agent = Some 150"
    by (simp add: due_for_bootstrap_verification_def clockwork_def idle_agent_def)
  show ?thesis using stale_verdict_keeps_newer [OF due up later] up by blast
qed

end
