(* ===== verification/ThreadGraph.thy ===== *)
theory ThreadGraph
  imports ThreadMesh
begin

text \<open>
  \<open>thread_mesh.build_mesh\<close>: owned and foreign routers, links, health flags and partition
  disagreements of a set of parsed nodes; and the partition line of the report.

  The remark that the name of a foreign leader ends in is left out of its name: it is there exactly
  when the node is foreign and the leader. Warnings and disagreements are constructors.
\<close>

section \<open>Shapes\<close>

record mesh_node =
  mn_key :: string
  mn_node_id :: "int option"
  mn_name :: string
  mn_role_name :: string
  mn_router_id :: "int option"
  mn_rloc16 :: "int option"
  mn_foreign :: bool
  mn_is_leader :: bool
  mn_partition_id :: "int option"
  mn_children_count :: nat

datatype link_kind = ParentLink | RouterLink | ChildLink

record mesh_link =
  ml_a :: string
  ml_b :: string
  ml_kind :: link_kind
  ml_avg_rssi :: "int option"
  ml_last_rssi :: "int option"
  ml_lqi :: int
  ml_frame_error_pct :: int
  ml_seen_from :: string

datatype mesh_warning = ParseWarning diag_warning | UnattributedChildren "int option" nat nat

datatype disagreement = Outlier int int bool int | NoMajority int int bool

record mesh =
  ms_network_name :: string
  ms_channel :: "int option"
  ms_pan_id :: "int option"
  ms_partition_ids :: "int list"
  ms_majority_partition :: "int option"
  ms_majority_leader :: "int option"
  ms_nodes :: "mesh_node list"
  ms_links :: "mesh_link list"
  ms_flags :: "health_flag list"
  ms_unreadable :: "(int \<times> string) list"
  ms_disagreements :: "disagreement list"
  ms_warnings :: "(int \<times> mesh_warning) list"

section \<open>Majorities\<close>

text \<open>\<open>Counter(values).most_common()\<close>: by count, then by first occurrence.\<close>

definition most_common :: "int list \<Rightarrow> (int \<times> nat) list" where
  "most_common xs = sort_key (\<lambda>p. - int (snd p)) (map (\<lambda>v. (v, count_list xs v)) (rev (remdups (rev xs))))"

definition majority :: "int list \<Rightarrow> int option" where
  "majority xs = (case most_common xs of
       [] \<Rightarrow> None
     | [p] \<Rightarrow> Some (fst p)
     | p # q # _ \<Rightarrow> if snd p = snd q then None else Some (fst p))"

section \<open>Routers\<close>

definition owned_keys :: "node_diag list \<Rightarrow> (int \<times> string) list" where
  "owned_keys diags = fold (\<lambda>d m. case router_id d of
       Some r \<Rightarrow> AList.update r (mesh_key d) m | None \<Rightarrow> m) diags []"

definition mentioned_routers :: "node_diag \<Rightarrow> int list" where
  "mentioned_routers d = map nb_router_id (nd_neighbours d) @
     map rt_router_id (filter rt_allocated (nd_routes d))"

definition foreign_ids :: "node_diag list \<Rightarrow> int list" where
  "foreign_ids diags = sort (remdups (filter (\<lambda>r. map_of (owned_keys diags) r = None)
     (concat (map mentioned_routers diags))))"

definition target_key :: "(int \<times> string) list \<Rightarrow> int \<Rightarrow> string" where
  "target_key owned r = (case map_of owned r of Some k \<Rightarrow> k | None \<Rightarrow> router_key r)"

section \<open>Links\<close>

definition link_to :: "string \<Rightarrow> string \<Rightarrow> link_kind \<Rightarrow> neighbour \<Rightarrow> string \<Rightarrow> mesh_link" where
  "link_to a b kind n seen_from =
     \<lparr>ml_a = a, ml_b = b, ml_kind = kind, ml_avg_rssi = nb_avg_rssi n, ml_last_rssi = nb_last_rssi n,
      ml_lqi = nb_lqi n, ml_frame_error_pct = nb_frame_error_pct n, ml_seen_from = seen_from\<rparr>"

text \<open>The links of one node, and the RLOC16s each router key is recorded with as identified.\<close>

type_synonym identified = "(string \<times> int list) list"

definition add_identified :: "string \<Rightarrow> int \<Rightarrow> identified \<Rightarrow> identified" where
  "add_identified key rloc m =
     AList.update key (rloc # (case map_of m key of None \<Rightarrow> [] | Some rs \<Rightarrow> rs)) m"

definition node_links :: "(int \<times> string) list \<Rightarrow> node_diag \<Rightarrow> mesh_link list" where
  "node_links owned d =
     (if is_router d
      then map (\<lambda>n. link_to (mesh_key d) (target_key owned (nb_router_id n)) RouterLink n (mesh_key d))
               (filter (\<lambda>n. \<not> nb_is_child n) (nd_neighbours d))
      else (case parent d of
              None \<Rightarrow> []
            | Some p \<Rightarrow> [link_to (mesh_key d) (target_key owned (nb_router_id p)) ParentLink p (mesh_key d)]))"

definition node_identifies :: "(int \<times> string) list \<Rightarrow> node_diag \<Rightarrow> identified \<Rightarrow> identified" where
  "node_identifies owned d m =
     (if is_router d then m
      else (case parent d of
              None \<Rightarrow> m | Some p \<Rightarrow> add_identified (target_key owned (nb_router_id p)) (nb_rloc16 p) m))"

definition identified_child_rlocs :: "node_diag list \<Rightarrow> identified" where
  "identified_child_rlocs diags = fold (node_identifies (owned_keys diags)) diags []"

section \<open>Anonymous children\<close>

definition worst_of :: "neighbour list \<Rightarrow> neighbour" where
  "worst_of cs =
     (let have_reading = List.map_filter (\<lambda>c. map_option (\<lambda>r. (c, fst r)) (worst_reading c)) cs
      in if have_reading \<noteq> [] then fst (first_min snd have_reading) else first_min nb_rloc16 cs)"

definition anonymous_node :: "string \<Rightarrow> string \<Rightarrow> int option \<Rightarrow> mesh_node" where
  "anonymous_node key name rloc =
     \<lparr>mn_key = key, mn_node_id = None, mn_name = name, mn_role_name = ''Child'', mn_router_id = None,
      mn_rloc16 = rloc, mn_foreign = False, mn_is_leader = False, mn_partition_id = None,
      mn_children_count = 0\<rparr>"

definition claimed_rlocs :: "identified \<Rightarrow> node_diag \<Rightarrow> int list" where
  "claimed_rlocs m d = (case map_of m (mesh_key d) of None \<Rightarrow> [] | Some rs \<Rightarrow> rs)"

definition group_key :: "node_diag \<Rightarrow> string" where
  "group_key d = ''child:'' @ mesh_key d @ ''#unattributed''"

definition anonymous_children ::
  "identified \<Rightarrow> node_diag \<Rightarrow> mesh_node list \<times> mesh_link list \<times> (int \<times> mesh_warning) list" where
  "anonymous_children m d =
     (let claimed = claimed_rlocs m d;
          known = filter (\<lambda>c. nb_rloc16 c \<in> set claimed) (children d);
          excess = filter (\<lambda>c. nb_rloc16 c \<notin> set claimed) (children d)
      in if \<not> is_router d \<or> excess = [] then ([], [], [])
         else if known = []
         then (map (\<lambda>c. anonymous_node (child_key (nb_rloc16 c)) (''Child 0x'' @ hex4 (nb_rloc16 c))
                          (Some (nb_rloc16 c))) excess,
               map (\<lambda>c. link_to (child_key (nb_rloc16 c)) (mesh_key d) ChildLink c (mesh_key d)) excess, [])
         else ([anonymous_node (group_key d)
                  (str_of_int (int (length excess)) @ '' unattributed child(ren)'') None],
               [link_to (group_key d) (mesh_key d) ChildLink (worst_of excess) (mesh_key d)],
               [(nd_node_id d, UnattributedChildren (router_id d) (length excess) (length (children d)))]))"

definition anonymous_of :: "node_diag list \<Rightarrow> (mesh_node list \<times> mesh_link list \<times> (int \<times> mesh_warning) list) list" where
  "anonymous_of diags = map (anonymous_children (identified_child_rlocs diags)) diags"

definition mesh_links :: "node_diag list \<Rightarrow> mesh_link list" where
  "mesh_links diags = concat (map (node_links (owned_keys diags)) diags) @
     concat (map (fst \<circ> snd) (anonymous_of diags))"

section \<open>Nodes and flags\<close>

definition children_count :: "mesh_link list \<Rightarrow> string \<Rightarrow> nat" where
  "children_count links key = length (filter (\<lambda>l. ml_kind l \<noteq> RouterLink \<and> ml_b l = key) links)"

definition owned_node :: "int option \<Rightarrow> mesh_link list \<Rightarrow> node_diag \<Rightarrow> mesh_node" where
  "owned_node leader links d =
     \<lparr>mn_key = mesh_key d, mn_node_id = Some (nd_node_id d), mn_name = nd_name d, mn_role_name = role_name d,
      mn_router_id = router_id d, mn_rloc16 = nd_rloc16 d, mn_foreign = False,
      mn_is_leader = (router_id d \<noteq> None \<and> router_id d = leader), mn_partition_id = nd_partition_id d,
      mn_children_count = children_count links (mesh_key d)\<rparr>"

definition foreign_node :: "int option \<Rightarrow> mesh_link list \<Rightarrow> int \<Rightarrow> mesh_node" where
  "foreign_node leader links r =
     \<lparr>mn_key = router_key r, mn_node_id = None, mn_name = ''Router '' @ str_of_int r, mn_role_name = ''Router'',
      mn_router_id = Some r, mn_rloc16 = Some (r * 1024), mn_foreign = True, mn_is_leader = (leader = Some r),
      mn_partition_id = None, mn_children_count = children_count links (router_key r)\<rparr>"

text \<open>\<open>name.split(" (", 1)[0]\<close>.\<close>

fun before_paren :: "string \<Rightarrow> string" where
  "before_paren [] = []"
| "before_paren (c # cs) =
     (if c = CHR '' '' \<and> cs \<noteq> [] \<and> hd cs = CHR ''('' then [] else c # before_paren cs)"

definition rloc_label :: "mesh \<Rightarrow> int \<Rightarrow> string option" where
  "rloc_label m rloc = map_option (\<lambda>n. before_paren (mn_name n))
     (find (\<lambda>n. mn_rloc16 n = Some rloc) (ms_nodes m))"

text \<open>A mention has four hexadecimal digits; of several nodes with the RLOC16 the last one names it.\<close>

definition resolve_mention :: "mesh_node list \<Rightarrow> int \<Rightarrow> string option" where
  "resolve_mention nodes rloc =
     (if rloc < 0 \<or> 65535 < rloc then None
      else (case find (\<lambda>n. mn_rloc16 n = Some rloc) (rev nodes) of
              None \<Rightarrow> None
            | Some n \<Rightarrow> if before_paren (mn_name n) = [] then None else Some (before_paren (mn_name n))))"

definition resolve_flag :: "mesh_node list \<Rightarrow> health_flag \<Rightarrow> health_flag" where
  "resolve_flag nodes f = (case hf_code f of
       FrameErrors pct rloc name \<Rightarrow> f\<lparr>hf_code := FrameErrors pct rloc (resolve_mention nodes rloc)\<rparr>
     | _ \<Rightarrow> f)"

section \<open>The mesh\<close>

definition partition_pool :: "node_diag list \<Rightarrow> node_diag list" where
  "partition_pool diags = (let live = filter nd_live diags in if live \<noteq> [] then live else diags)"

definition disagreements_of :: "int option \<Rightarrow> int list \<Rightarrow> node_diag list \<Rightarrow> disagreement list" where
  "disagreements_of maj ids diags = (case maj of
       Some p \<Rightarrow> List.map_filter (\<lambda>d. case nd_partition_id d of
           Some q \<Rightarrow> if q \<noteq> p then Some (Outlier (nd_node_id d) q (nd_live d) p) else None
         | None \<Rightarrow> None) diags
     | None \<Rightarrow> if 1 < length ids
         then List.map_filter (\<lambda>d. map_option (\<lambda>q. NoMajority (nd_node_id d) q (nd_live d)) (nd_partition_id d)) diags
         else [])"

definition first_name :: "node_diag list \<Rightarrow> string" where
  "first_name diags = fold (\<lambda>d s. if s \<noteq> [] then s else nd_network_name d) diags []"

definition first_some :: "(node_diag \<Rightarrow> int option) \<Rightarrow> node_diag list \<Rightarrow> int option" where
  "first_some f diags = fold (\<lambda>d s. if s \<noteq> None then s else f d) diags None"

definition mesh_nodes :: "node_diag list \<Rightarrow> int option \<Rightarrow> mesh_link list \<Rightarrow> mesh_node list" where
  "mesh_nodes diags leader links =
     map (owned_node leader links) diags @ map (foreign_node leader links) (foreign_ids diags) @
     concat (map fst (anonymous_of diags))"

definition build_mesh :: "node_diag list \<Rightarrow> rat \<Rightarrow> mesh" where
  "build_mesh diags now =
     (let partition_ids = sort (remdups (List.map_filter nd_partition_id diags));
          majority_partition = majority (List.map_filter nd_partition_id (partition_pool diags));
          leader = majority (List.map_filter nd_leader_router_id diags);
          links = mesh_links diags; nodes = mesh_nodes diags leader links
      in \<lparr>ms_network_name = first_name diags, ms_channel = first_some nd_channel diags,
          ms_pan_id = first_some nd_pan_id diags, ms_partition_ids = partition_ids,
          ms_majority_partition = majority_partition, ms_majority_leader = leader,
          ms_nodes = nodes, ms_links = links,
          ms_flags = map (resolve_flag nodes) (concat (map (\<lambda>d. health_flags d now) diags)),
          ms_unreadable = List.map_filter (\<lambda>d. case nd_read_error d of
              Some e \<Rightarrow> if e \<noteq> [] then Some (nd_node_id d, e) else None | None \<Rightarrow> None) diags,
          ms_disagreements = disagreements_of majority_partition partition_ids diags,
          ms_warnings = concat (map (\<lambda>d. map (\<lambda>w. (nd_node_id d, ParseWarning w)) (nd_parse_warnings d)) diags) @
            concat (map (snd \<circ> snd) (anonymous_of diags))\<rparr>)"

text \<open>The partition line of the report.\<close>

datatype partition_header = PartitionsUnknown | SplitNoMajority "int list" | SplitLive "int list"
  | OnePartition int "int option" nat

definition partition_header_text :: "mesh \<Rightarrow> node_diag list \<Rightarrow> partition_header" where
  "partition_header_text m diags =
     (let live_ids = sort (remdups (List.map_filter nd_partition_id (filter nd_live diags)))
      in case ms_majority_partition m of
           None \<Rightarrow> if ms_partition_ids m = [] then PartitionsUnknown else SplitNoMajority (ms_partition_ids m)
         | Some p \<Rightarrow> if 2 \<le> length live_ids then SplitLive live_ids
             else OnePartition p (ms_majority_leader m) (length (ms_disagreements m)))"

end
