(* ===== verification/ThreadFacts.thy ===== *)
theory ThreadFacts
  imports ThreadGraph
begin

text \<open>
  Properties of the Thread mesh (\<open>thread_mesh.py\<close>): majorities, what an unknown neighbour table may
  not conclude, the verdict on a node that cannot reach the mesh, and the links of the graph.
\<close>

section \<open>Majorities\<close>

lemma most_common_member:
  assumes "p \<in> set (most_common xs)" shows "fst p \<in> set xs" "count_list xs (fst p) = snd p"
  using assms by (auto simp: most_common_def)

lemma most_common_props:
  "sorted (map (\<lambda>p. - int (snd p)) (most_common xs))"
  "set (most_common xs) = (\<lambda>v. (v, count_list xs v)) ` set xs"
  "distinct (map fst (most_common xs))"
proof -
  show "sorted (map (\<lambda>p. - int (snd p)) (most_common xs))" by (simp add: most_common_def)
  show "set (most_common xs) = (\<lambda>v. (v, count_list xs v)) ` set xs" by (simp add: most_common_def)
  have "distinct (most_common xs)" by (simp add: most_common_def distinct_map inj_on_def)
  moreover have "inj_on fst (set (most_common xs))" by (auto simp: most_common_def inj_on_def)
  ultimately show "distinct (map fst (most_common xs))" by (simp add: distinct_map)
qed

text \<open>The majority of some readings is the one value that occurs strictly more often than every
  other; a tie has none, and the order of the readings does not matter.\<close>

theorem majority_strict:
  "majority xs = Some v \<longleftrightarrow> v \<in> set xs \<and> (\<forall>w \<in> set xs. w \<noteq> v \<longrightarrow> count_list xs w < count_list xs v)"
proof -
  note s = most_common_props [of xs]
  show ?thesis
  proof (cases "most_common xs")
    case Nil
    with s(2) show ?thesis by (simp add: majority_def)
  next
    case (Cons p ps)
    have p: "fst p \<in> set xs" "count_list xs (fst p) = snd p" using most_common_member [of p xs] Cons by simp_all
    show ?thesis
    proof (cases ps)
      case Nil
      then have "(\<lambda>v. (v, count_list xs v)) ` set xs = {p}" using s(2) Cons by simp
      then have "fst ` (\<lambda>v. (v, count_list xs v)) ` set xs = {fst p}" by simp
      then have "set xs = {fst p}" by (simp add: image_image)
      then show ?thesis by (auto simp: majority_def Cons Nil)
    next
      case (Cons q qs)
      then have mc: "most_common xs = p # q # qs" using \<open>most_common xs = p # ps\<close> by simp
      have q: "fst q \<in> set xs" "count_list xs (fst q) = snd q" using most_common_member [of q xs] mc by simp_all
      have ne: "fst p \<noteq> fst q" using s(3) mc by simp
      have le: "snd q \<le> snd p" using s(1) mc by simp
      have others: "count_list xs w \<le> snd q" if w: "w \<in> set xs" "w \<noteq> fst p" for w
      proof -
        have "(w, count_list xs w) \<in> set (p # q # qs)" using s(2) mc w(1) by (metis image_eqI)
        with w(2) have "(w, count_list xs w) = q \<or> (w, count_list xs w) \<in> set qs" by auto
        then show ?thesis using s(1) mc by fastforce
      qed
      note cp = p(2) q(2)
      show ?thesis
      proof (cases "snd p = snd q")
        case True
        then have "majority xs = None" by (simp add: majority_def mc)
        moreover have "\<exists>w \<in> set xs. w \<noteq> v \<and> count_list xs v \<le> count_list xs w" if "v \<in> set xs"
        proof (cases "v = fst p")
          case True
          then show ?thesis using ne q(1) cp \<open>snd p = snd q\<close> by (intro bexI [of _ "fst q"]) auto
        next
          case False
          then show ?thesis using others [OF that False] p(1) cp \<open>snd p = snd q\<close> by (intro bexI [of _ "fst p"]) auto
        qed
        ultimately show ?thesis by (auto simp: not_less)
      next
        case False
        then have m: "majority xs = Some (fst p)" by (simp add: majority_def mc)
        have lt: "count_list xs w < count_list xs (fst p)" if "w \<in> set xs" "w \<noteq> fst p" for w
          using others [OF that] le False cp by linarith
        show ?thesis
        proof
          assume "majority xs = Some v"
          with m have "v = fst p" by simp
          with p(1) lt show "v \<in> set xs \<and> (\<forall>w \<in> set xs. w \<noteq> v \<longrightarrow> count_list xs w < count_list xs v)" by auto
        next
          assume v: "v \<in> set xs \<and> (\<forall>w \<in> set xs. w \<noteq> v \<longrightarrow> count_list xs w < count_list xs v)"
          have "v = fst p"
          proof (rule ccontr)
            assume "v \<noteq> fst p"
            with v p(1) lt [of v] show False by force
          qed
          with m show "majority xs = Some v" by simp
        qed
      qed
    qed
  qed
qed

section \<open>Health\<close>

definition table_verdict :: "flag_code \<Rightarrow> bool" where
  "table_verdict c = (case c of WeakLink r b \<Rightarrow> True | FrameErrors p r n \<Rightarrow> True | NoNeighbours \<Rightarrow> True
     | OneNeighbour \<Rightarrow> True | NoParent \<Rightarrow> True | _ \<Rightarrow> False)"

lemma flag_fields [simp]:
  "hf_code (mesh_flag d sev c) = c" "hf_severity (mesh_flag d sev c) = sev" "hf_node_key (mesh_flag d sev c) = mesh_key d"
  by (simp_all add: mesh_flag_def)

text \<open>From a neighbour table that was never read, or is malformed, nothing about links, errors,
  neighbours or a parent is concluded: the table is flagged as unknown for information, and the
  only state written is the role.\<close>

theorem unknown_table_concludes_nothing:
  assumes "\<not> nd_neighbours_known d"
  shows "filter table_verdict (map hf_code (health_flags d now)) = []
    \<and> mesh_flag d SevInfo NeighboursUnknown \<in> set (health_flags d now)
    \<and> summary_states d now = [(''threadRole'', PStr (role_name d))]"
proof (intro conjI)
  show "filter table_verdict (map hf_code (health_flags d now)) = []"
    using assms by (auto simp: filter_empty_conv health_flags_def stale_flags_def table_verdict_def split: option.splits)
qed (use assms in \<open>simp_all add: health_flags_def summary_states_def\<close>)

text \<open>A node that is not a router, whose table is known and names no full-thread neighbour that keeps
  its radio on, is reported bad, in the flags and in the state a trigger binds to.\<close>

theorem unreachable_node_is_bad:
  assumes "\<not> is_router d" and "nd_neighbours_known d"
    and "filter (\<lambda>n. nb_rx_on_when_idle n \<and> nb_full_thread_device n) (nd_neighbours d) = []"
  shows "mesh_flag d SevBad NoParent \<in> set (health_flags d now)
    \<and> map_of (summary_states d now) ''threadHealth'' = Some (PStr ''bad'')"
proof -
  have p: "parent d = None" using assms by (simp add: parent_def Let_def)
  then have l: "mesh_flag d SevBad NoParent \<in> set (link_flags d)" using assms(1) by (simp add: link_flags_def)
  then have f: "mesh_flag d SevBad NoParent \<in> set (health_flags d now)" using assms(2) by (simp add: health_flags_def)
  then have "SevBad \<in> hf_severity ` {x \<in> set (health_flags d now). hf_severity x \<noteq> SevInfo}" by force
  then have "map_of (summary_states d now) ''threadHealth'' = Some (PStr ''bad'')"
    using assms(2) by (simp add: summary_states_def Let_def)
  with f show ?thesis ..
qed

text \<open>The states do not depend on the clock.\<close>

lemma summary_now: "summary_states d now = summary_states d now'"
proof -
  have "filter (\<lambda>f. hf_severity f \<noteq> SevInfo) (stale_flags d t) = []" for t by (simp add: stale_flags_def)
  then show ?thesis by (simp add: summary_states_def health_flags_def Let_def)
qed

section \<open>The links of the graph\<close>

lemma first_max_in: "xs \<noteq> [] \<Longrightarrow> first_max key xs \<in> set xs"
proof -
  have "foldl (\<lambda>best x. if key best < key x then x else best) b ys \<in> set (b # ys)" for b ys
    by (induction ys arbitrary: b) auto
  then show "xs \<noteq> [] \<Longrightarrow> first_max key xs \<in> set xs" by (cases xs) (simp_all add: first_max_def)
qed

lemma parent_in: "parent d = Some p \<Longrightarrow> p \<in> set (nd_neighbours d)"
proof -
  assume "parent d = Some p"
  then obtain xs where "p = first_max (\<lambda>n. case nb_avg_rssi n of Some r \<Rightarrow> r | None \<Rightarrow> - 1000) xs" "xs \<noteq> []"
    "set xs \<subseteq> set (nd_neighbours d)"
    by (auto simp: parent_def Let_def split: if_splits)
  with first_max_in [of xs] show ?thesis by auto
qed

lemma owned_keys_range: "map_of (owned_keys diags) r = Some k \<Longrightarrow> k \<in> mesh_key ` set diags"
proof -
  have "map_of (fold (\<lambda>d m. case router_id d of Some r \<Rightarrow> AList.update r (mesh_key d) m | None \<Rightarrow> m) ds m) r = Some k
      \<Longrightarrow> k \<in> mesh_key ` set ds \<or> map_of m r = Some k" for ds m
    by (induction ds arbitrary: m) (force simp: update_conv' split: option.splits if_splits)+
  from this [of diags "[]"] show "map_of (owned_keys diags) r = Some k \<Longrightarrow> k \<in> mesh_key ` set diags"
    by (simp add: owned_keys_def)
qed

definition node_keys :: "node_diag list \<Rightarrow> string set" where
  "node_keys diags = mesh_key ` set diags \<union> router_key ` set (foreign_ids diags) \<union>
     mn_key ` set (concat (map fst (anonymous_of diags)))"

lemma node_keys_mesh: "mn_key ` set (ms_nodes (build_mesh diags now)) = node_keys diags"
  by (simp add: build_mesh_def Let_def mesh_nodes_def node_keys_def image_Un image_image owned_node_def
      foreign_node_def Un_assoc del: set_concat)

lemma target_key_known:
  assumes "d \<in> set diags" "r \<in> set (mentioned_routers d)"
  shows "target_key (owned_keys diags) r \<in> node_keys diags"
proof (cases "map_of (owned_keys diags) r")
  case None
  with assms have "r \<in> set (foreign_ids diags)" by (auto simp: foreign_ids_def)
  with None show ?thesis by (simp add: target_key_def node_keys_def)
next
  case (Some k)
  with owned_keys_range [of diags r k] show ?thesis by (simp add: target_key_def node_keys_def)
qed

text \<open>No link dangles: both ends of every link are nodes of the mesh.\<close>

theorem links_closed:
  "\<Union> ((\<lambda>l. {ml_a l, ml_b l}) ` set (ms_links (build_mesh diags now)))
     \<subseteq> mn_key ` set (ms_nodes (build_mesh diags now))"
proof -
  have node: "{ml_a l, ml_b l} \<subseteq> node_keys diags"
    if d: "d \<in> set diags" and l: "l \<in> set (node_links (owned_keys diags) d)" for d l
  proof -
    obtain n where n: "n \<in> set (nd_neighbours d)" "ml_a l = mesh_key d"
      "ml_b l = target_key (owned_keys diags) (nb_router_id n)"
      using l parent_in [of d] by (cases "parent d") (auto simp: node_links_def link_to_def split: if_splits)
    from n(1) have "nb_router_id n \<in> set (mentioned_routers d)" by (simp add: mentioned_routers_def)
    from target_key_known [OF d this] n(2,3) d show ?thesis by (simp add: node_keys_def)
  qed
  have anon: "{ml_a l, ml_b l} \<subseteq> node_keys diags"
    if d: "d \<in> set diags" and l: "l \<in> set (fst (snd (anonymous_children (identified_child_rlocs diags) d)))" for d l
  proof -
    have "ml_a l \<in> mn_key ` set (fst (anonymous_children (identified_child_rlocs diags) d)) \<and> ml_b l = mesh_key d"
      using l by (auto simp: anonymous_children_def Let_def link_to_def anonymous_node_def image_image split: if_splits)
    with d show ?thesis by (auto simp: node_keys_def anonymous_of_def)
  qed
  have "\<Union> ((\<lambda>l. {ml_a l, ml_b l}) ` set (mesh_links diags)) \<subseteq> node_keys diags"
    using node anon by (fastforce simp: mesh_links_def anonymous_of_def)
  then show ?thesis unfolding node_keys_mesh by (simp add: build_mesh_def Let_def)
qed

section \<open>Owned children\<close>

text \<open>The RLOC16s a mesh can record as identified are those of parents.\<close>

lemma identified_parents:
  assumes "map_of (identified_child_rlocs diags) k = Some rs" "rloc \<in> set rs"
  shows "\<exists>d \<in> set diags. \<exists>p. parent d = Some p \<and> nb_rloc16 p = rloc"
proof -
  have "map_of (fold (node_identifies owned) ds m) k = Some rs \<Longrightarrow> rloc \<in> set rs \<Longrightarrow>
      (\<exists>d \<in> set ds. \<exists>p. parent d = Some p \<and> nb_rloc16 p = rloc) \<or> (\<exists>rs'. map_of m k = Some rs' \<and> rloc \<in> set rs')"
    for ds m owned
  proof (induction ds arbitrary: m)
    case (Cons d ds)
    then consider (later) "\<exists>d \<in> set ds. \<exists>p. parent d = Some p \<and> nb_rloc16 p = rloc"
      | (now) "\<exists>rs'. map_of (node_identifies owned d m) k = Some rs' \<and> rloc \<in> set rs'"
      by fastforce
    then show ?case
    proof cases
      case now
      then show ?thesis
        by (auto simp: node_identifies_def add_identified_def update_conv' split: if_splits option.splits)
    qed auto
  qed auto
  from this [of "owned_keys diags" diags "[]"] assms show ?thesis by (simp add: identified_child_rlocs_def)
qed

text \<open>C22: a child of an owned router is never recognised as an owned device. The RLOC16 of a parent is a
  router's, with child id 0, and the RLOC16 of a child is not; the mesh compares the one with the
  other. So every child entry of every owned router becomes an anonymous node of its own, also
  when the device behind it is one of the parsed nodes.\<close>

theorem owned_children_duplicated:
  assumes "d \<in> set diags" and "is_router d" and "c \<in> set (children d)"
    and "\<And>d' p. d' \<in> set diags \<Longrightarrow> parent d' = Some p \<Longrightarrow> nb_rloc16 p mod 1024 = 0"
    and "\<And>c'. c' \<in> set (children d) \<Longrightarrow> nb_rloc16 c' mod 1024 \<noteq> 0"
  shows "anonymous_node (child_key (nb_rloc16 c)) (''Child 0x'' @ hex4 (nb_rloc16 c)) (Some (nb_rloc16 c))
    \<in> set (ms_nodes (build_mesh diags now))"
proof -
  define m where "m = identified_child_rlocs diags"
  have none: "nb_rloc16 c' \<notin> set (claimed_rlocs m d)" if "c' \<in> set (children d)" for c'
  proof
    assume "nb_rloc16 c' \<in> set (claimed_rlocs m d)"
    then obtain rs where "map_of m (mesh_key d) = Some rs" "nb_rloc16 c' \<in> set rs"
      by (cases "map_of m (mesh_key d)") (auto simp: claimed_rlocs_def)
    from identified_parents [OF this [unfolded m_def]] obtain d' p where
      "d' \<in> set diags" "parent d' = Some p" "nb_rloc16 p = nb_rloc16 c'" by auto
    with assms(4) assms(5) [OF that] show False by metis
  qed
  then have k: "filter (\<lambda>c. nb_rloc16 c \<in> set (claimed_rlocs m d)) (children d) = []"
    "filter (\<lambda>c. nb_rloc16 c \<notin> set (claimed_rlocs m d)) (children d) = children d"
    by (auto simp: filter_empty_conv filter_id_conv)
  moreover have "children d \<noteq> []" using assms(3) by auto
  ultimately have "fst (anonymous_children m d) = map (\<lambda>c. anonymous_node (child_key (nb_rloc16 c))
      (''Child 0x'' @ hex4 (nb_rloc16 c)) (Some (nb_rloc16 c))) (children d)"
    using assms(2) by (simp add: anonymous_children_def Let_def k)
  then have "anonymous_node (child_key (nb_rloc16 c)) (''Child 0x'' @ hex4 (nb_rloc16 c)) (Some (nb_rloc16 c))
      \<in> set (fst (anonymous_children m d))"
    using assms(3) by (simp only: set_map) (rule imageI)
  with assms(1) show ?thesis
    unfolding build_mesh_def Let_def mesh_nodes_def anonymous_of_def m_def by (simp del: append.simps) blast
qed

section \<open>Witnesses\<close>

text \<open>Router 51 hears its child 0xCC01; the child, an owned end device, hears its parent 0xCC00.\<close>

definition demo_neighbour :: "int \<Rightarrow> bool \<Rightarrow> neighbour" where
  "demo_neighbour rloc child =
     \<lparr>nb_ext_address = 1, nb_age_s = 5, nb_rloc16 = rloc, nb_lqi = 3, nb_avg_rssi = Some (- 50),
      nb_last_rssi = Some (- 52), nb_frame_error_pct = 0, nb_message_error_pct = 0,
      nb_rx_on_when_idle = True, nb_full_thread_device = True, nb_is_child = child\<rparr>"

definition demo_diag :: "int \<Rightarrow> int \<Rightarrow> neighbour list \<Rightarrow> route list \<Rightarrow> node_diag" where
  "demo_diag node_id role neighbours routes =
     \<lparr>nd_node_id = node_id, nd_name = ''Lamp'', nd_available = True, nd_role = role, nd_channel = Some 25,
      nd_network_name = ''home'', nd_pan_id = Some 1, nd_ext_pan_id = None, nd_partition_id = Some 7,
      nd_leader_router_id = Some 51, nd_neighbours = neighbours, nd_routes = routes, nd_counters = [],
      nd_live = False, nd_read_error = None, nd_parse_warnings = [], nd_neighbours_known = True,
      nd_last_interview = None, nd_last_event_seen = None\<rparr>"

definition demo_router :: node_diag where
  "demo_router = demo_diag 39 5 [demo_neighbour 52225 True]
     [\<lparr>rt_ext_address = 1, rt_rloc16 = 52224, rt_router_id = 51, rt_next_hop = 63, rt_path_cost = 0,
       rt_lqi_in = 0, rt_lqi_out = 0, rt_age_s = 0, rt_allocated = True, rt_link_established = False\<rparr>]"

definition demo_sed :: node_diag where
  "demo_sed = demo_diag 46 2 [demo_neighbour 52224 False] []"

lemmas demo_mesh_defs = demo_router_def demo_sed_def demo_diag_def demo_neighbour_def

lemma owned_children_duplicated_witness:
  "parent demo_sed = Some (demo_neighbour 52224 False) \<and> nb_router_id (demo_neighbour 52224 False) = 51
   \<and> router_id demo_router = Some 51
   \<and> anonymous_node (child_key 52225) (''Child 0x'' @ hex4 52225) (Some 52225)
       \<in> set (ms_nodes (build_mesh [demo_router, demo_sed] 0))"
proof -
  have p: "parent demo_router = None" "parent demo_sed = Some (demo_neighbour 52224 False)"
    "nb_router_id (demo_neighbour 52224 False) = 51" "router_id demo_router = Some 51" by code_simp+
  have c: "children demo_router = [demo_neighbour 52225 True]" "is_router demo_router" by code_simp+
  have "anonymous_node (child_key (nb_rloc16 (demo_neighbour 52225 True)))
      (''Child 0x'' @ hex4 (nb_rloc16 (demo_neighbour 52225 True))) (Some (nb_rloc16 (demo_neighbour 52225 True)))
      \<in> set (ms_nodes (build_mesh [demo_router, demo_sed] 0))"
    by (rule owned_children_duplicated [of demo_router])
       (auto simp: c p demo_neighbour_def)
  moreover have "nb_rloc16 (demo_neighbour 52225 True) = 52225" by (simp add: demo_neighbour_def)
  ultimately show ?thesis using p by (simp del: append.simps)
qed

lemma majority_strict_witness: "majority [7, 3, 7] = Some 7"
  unfolding majority_strict by simp

lemma unknown_table_concludes_nothing_witness:
  "summary_states (demo_router\<lparr>nd_neighbours_known := False\<rparr>) 0 = [(''threadRole'', PStr ''Router'')]"
  using unknown_table_concludes_nothing [of "demo_router\<lparr>nd_neighbours_known := False\<rparr>" 0]
  by (simp add: demo_mesh_defs role_name_def ROLE_NAMES_def)

lemma unreachable_node_is_bad_witness:
  "map_of (summary_states (demo_sed\<lparr>nd_neighbours := []\<rparr>) 0) ''threadHealth'' = Some (PStr ''bad'')"
  using unreachable_node_is_bad [of "demo_sed\<lparr>nd_neighbours := []\<rparr>" 0]
  by (simp add: demo_mesh_defs is_router_def ROLE_ROUTER_def ROLE_LEADER_def)

end
