(* ===== verification/ThreadSurvey.thy ===== *)
theory ThreadSurvey
  imports ThreadFacts
begin

text \<open>
  \<open>thread_survey.py\<close>: the diagnostics of every Thread node from the cache of matter-server, with a live
  reading of the nodes that are no routers, whatever of it fails.

  The readings of one node, taken concurrently, end together in an answer; the answers are a function
  of the node. A time is a number of seconds; what \<open>datetime\<close> makes of a text or a number is a parameter.
  A time that was not understood is a warning of its own here, kept beside those of the parse. The
  field \<open>date_commissioned\<close> is kept beside the record of the node, which has no use for it.
\<close>

section \<open>Times\<close>

record clock_lib =
  cl_fromiso :: "string \<Rightarrow> rat option"
  cl_fromtimestamp :: "rat \<Rightarrow> rat option"

definition parse_timestamp :: "clock_lib \<Rightarrow> pyval \<Rightarrow> rat option" where
  "parse_timestamp lib v = (case v of
       PStr s \<Rightarrow> (let t = str_strip s
         in cl_fromiso lib (if t \<noteq> [] \<and> last t = CHR ''Z'' then butlast t @ ''+00:00'' else t))
     | PInt n \<Rightarrow> cl_fromtimestamp lib (of_int n)
     | PBool b \<Rightarrow> cl_fromtimestamp lib (if b then 1 else 0)
     | PFloat (Fin x) \<Rightarrow> cl_fromtimestamp lib x
     | _ \<Rightarrow> None)"

section \<open>The answers\<close>

definition LIVE_ATTR_IDS :: "int list" where
  "LIVE_ATTR_IDS = [ATTR_ROUTING_ROLE, ATTR_NEIGHBOR_TABLE, ATTR_ROUTE_TABLE, ATTR_PARTITION_ID, ATTR_LEADER_ROUTER_ID]"

datatype live_answer = LiveValues "pyval list" | LiveTimedOut | LiveFailed string

datatype survey_error = LiveReadTimedOut | LiveReadFailed string | NoNeighborTable | NoRoutingRole | RefreshFailed py_exc

datatype skipped_node = NotAMapping nat | NoNodeId nat

datatype stamp_warning = CommissionedUnparseable pyval | InterviewUnparseable pyval

text \<open>An error of the live reading takes the place of the one the parse has left in the record.\<close>

record surveyed =
  sv_diag :: node_diag
  sv_error :: "survey_error option"
  sv_commissioned :: "rat option"
  sv_stamp_warnings :: "stamp_warning list"

record survey =
  su_diags :: "surveyed list"
  su_raw_count :: nat
  su_skipped :: "skipped_node list"

section \<open>The name\<close>

definition survey_node_name ::
  "(pyval \<Rightarrow> string) \<Rightarrow> int \<Rightarrow> pydict \<Rightarrow> (int \<Rightarrow> string option) \<Rightarrow> string py_result" where
  "survey_node_name repr node_id attributes names = (case names node_id of
       Some (c # cs) \<Rightarrow> Inr (c # cs)
     | _ \<Rightarrow> py_bind (parse_node repr [(''node_id'', PInt node_id), (''attributes'', PDict attributes)] []) (\<lambda>info.
         Inr (case filter (\<lambda>p. p \<noteq> []) [ni_vendor_name info, ni_product_name info] of
                [] \<Rightarrow> ''node 0x'' @ hex_of_int node_id
              | [a] \<Rightarrow> a
              | a # b # _ \<Rightarrow> a @ '' '' @ b)))"

section \<open>One live reading\<close>

definition as_diag_attrs :: "pydict \<Rightarrow> diag_attrs" where
  "as_diag_attrs d = map (\<lambda>(k, v). (AtText k, v)) d"

definition merge_live :: "diag_attrs \<Rightarrow> (int \<times> pyval) list \<Rightarrow> diag_attrs" where
  "merge_live attrs vals = fold (\<lambda>(attr, v) m. AList.update (AtText (attr_key 0 CLUSTER_THREAD_DIAG attr)) v
       (AList.update (AtPath (0, CLUSTER_THREAD_DIAG, attr)) v m)) vals attrs"

definition live_refresh ::
  "(pyval \<Rightarrow> string) \<Rightarrow> node_diag \<Rightarrow> diag_attrs \<Rightarrow> live_answer \<Rightarrow> node_diag \<times> survey_error option" where
  "live_refresh repr d attrs ans = (case ans of
       LiveTimedOut \<Rightarrow> (d, Some LiveReadTimedOut)
     | LiveFailed why \<Rightarrow> (d, Some (LiveReadFailed why))
     | LiveValues vals \<Rightarrow>
         (let live = zip LIVE_ATTR_IDS vals in
          case map_of live ATTR_NEIGHBOR_TABLE of
            Some (PList rows) \<Rightarrow>
              (case parse_node_diag repr (nd_node_id d) (nd_name d) (nd_available d) (merge_live attrs live) of
                 Inl e \<Rightarrow> (d, Some (RefreshFailed e))
               | Inr None \<Rightarrow> (d, Some NoRoutingRole)
               | Inr (Some fresh) \<Rightarrow> (fresh\<lparr>nd_live := True\<rparr>, None))
          | _ \<Rightarrow> (d, Some NoNeighborTable)))"

section \<open>The survey\<close>

datatype raw_outcome = Skipped skipped_node | NotThread | Found node_diag diag_attrs pyval pyval

definition read_raw ::
  "(pyval \<Rightarrow> string) \<Rightarrow> (int \<Rightarrow> string option) \<Rightarrow> nat \<Rightarrow> pyval \<Rightarrow> raw_outcome py_result" where
  "read_raw repr names i raw = (case raw of
       PDict d \<Rightarrow>
         (if dget d ''node_id'' = PNone then Inr (Skipped (NoNodeId i))
          else py_bind (py_int (dget d ''node_id'')) (\<lambda>node_id.
            (case or_empty (dget d ''attributes'') of
               PDict attributes \<Rightarrow>
                 py_bind (survey_node_name repr node_id attributes names) (\<lambda>name.
                 py_bind (parse_node_diag repr node_id name (truthy (dget_or d ''available'' (PBool True)))
                            (as_diag_attrs attributes)) (\<lambda>r.
                   Inr (case r of None \<Rightarrow> NotThread
                        | Some diag \<Rightarrow> Found diag (as_diag_attrs attributes)
                            (dget d ''date_commissioned'') (dget d ''last_interview''))))
             | _ \<Rightarrow> Inl AttributeError)))
     | _ \<Rightarrow> Inr (Skipped (NotAMapping i)))"

fun read_raws ::
  "(pyval \<Rightarrow> string) \<Rightarrow> (int \<Rightarrow> string option) \<Rightarrow> nat \<Rightarrow> pyval list \<Rightarrow> raw_outcome list py_result" where
  "read_raws repr names i [] = Inr []"
| "read_raws repr names i (raw # raws) = py_bind (read_raw repr names i raw) (\<lambda>r.
     py_bind (read_raws repr names (Suc i) raws) (\<lambda>rs. Inr (r # rs)))"

text \<open>The attributes and the times of a node id are those of the last entry with that id.\<close>

record found_node =
  fn_diag :: node_diag
  fn_attrs :: diag_attrs
  fn_commissioned :: pyval
  fn_interview :: pyval

definition found_nodes :: "raw_outcome list \<Rightarrow> found_node list" where
  "found_nodes rs = List.map_filter (\<lambda>r. case r of
       Found d attrs c i \<Rightarrow> Some \<lparr>fn_diag = d, fn_attrs = attrs, fn_commissioned = c, fn_interview = i\<rparr> | _ \<Rightarrow> None) rs"

definition entry_of :: "found_node list \<Rightarrow> found_node \<Rightarrow> found_node" where
  "entry_of fs f = last (filter (\<lambda>g. nd_node_id (fn_diag g) = nd_node_id (fn_diag f)) (f # fs))"

definition refreshed ::
  "(pyval \<Rightarrow> string) \<Rightarrow> bool \<Rightarrow> (int \<Rightarrow> live_answer) \<Rightarrow> found_node list \<Rightarrow> found_node \<Rightarrow> node_diag \<times> survey_error option" where
  "refreshed repr live_sleepy answers fs f =
     (if live_sleepy \<and> \<not> is_router (fn_diag f)
      then live_refresh repr (fn_diag f) (fn_attrs (entry_of fs f)) (answers (nd_node_id (fn_diag f)))
      else (fn_diag f, None))"

definition stamped :: "clock_lib \<Rightarrow> (int \<Rightarrow> rat option) \<Rightarrow> found_node list \<Rightarrow> node_diag \<times> survey_error option \<Rightarrow> found_node \<Rightarrow> surveyed" where
  "stamped lib stamps fs r f =
     (let e = entry_of fs f;
          commissioned = parse_timestamp lib (fn_commissioned e);
          interview = parse_timestamp lib (fn_interview e)
      in \<lparr>sv_diag = (fst r)\<lparr>nd_last_interview := interview, nd_last_event_seen := stamps (nd_node_id (fst r))\<rparr>,
          sv_error = snd r, sv_commissioned = commissioned,
          sv_stamp_warnings =
            (if fn_commissioned e \<noteq> PNone \<and> commissioned = None then [CommissionedUnparseable (fn_commissioned e)] else [])
            @ (if fn_interview e \<noteq> PNone \<and> interview = None then [InterviewUnparseable (fn_interview e)] else [])\<rparr>)"

definition survey_thread_nodes ::
  "(pyval \<Rightarrow> string) \<Rightarrow> clock_lib \<Rightarrow> (int \<Rightarrow> string option) \<Rightarrow> (int \<Rightarrow> rat option) \<Rightarrow> bool \<Rightarrow> (int \<Rightarrow> live_answer)
    \<Rightarrow> pyval list \<Rightarrow> survey py_result" where
  "survey_thread_nodes repr lib names stamps live_sleepy answers raws =
     py_bind (read_raws repr names 0 raws) (\<lambda>rs. let fs = found_nodes rs in
       Inr \<lparr>su_diags = map (\<lambda>f. stamped lib stamps fs (refreshed repr live_sleepy answers fs f) f) fs,
            su_raw_count = length raws,
            su_skipped = List.map_filter (\<lambda>r. case r of Skipped x \<Rightarrow> Some x | _ \<Rightarrow> None) rs\<rparr>)"

section \<open>Properties\<close>

lemma parse_keeps_id: "parse_node_diag repr n name av attrs = Inr (Some d) \<Longrightarrow> nd_node_id d = n \<and> \<not> nd_live d"
  by (auto simp: parse_node_diag_def py_bind_Inr split: option.splits prod.splits)

lemma live_refresh_cases:
  assumes "live_refresh repr d attrs ans = (d', err)"
  shows "nd_node_id d' = nd_node_id d \<and> (err \<noteq> None \<longrightarrow> d' = d)
    \<and> (err = None \<longrightarrow> nd_live d' \<and> (\<exists>vals rows fresh. ans = LiveValues vals
         \<and> map_of (zip LIVE_ATTR_IDS vals) ATTR_NEIGHBOR_TABLE = Some (PList rows)
         \<and> parse_node_diag repr (nd_node_id d) (nd_name d) (nd_available d) (merge_live attrs (zip LIVE_ATTR_IDS vals)) = Inr (Some fresh)
         \<and> d' = fresh\<lparr>nd_live := True\<rparr>))"
proof (cases ans)
  case (LiveValues vals)
  then show ?thesis
    using assms parse_keeps_id
    by (auto simp: live_refresh_def Let_def split: option.splits pyval.splits sum.splits)
qed (use assms in \<open>auto simp: live_refresh_def\<close>)

text \<open>The cached reading of a node: what the survey shows of it when no live reading takes its place.\<close>

definition cached_view :: "node_diag \<Rightarrow> node_diag \<Rightarrow> bool" where
  "cached_view d shown = (shown = d\<lparr>nd_last_interview := nd_last_interview shown, nd_last_event_seen := nd_last_event_seen shown\<rparr>)"

text \<open>What is promised of one node: it keeps its id; a router, a node that was not to be read and one whose reading
  failed are shown as cached; one is shown as live only from an answer with a neighbour table.\<close>

definition shown_honestly :: "bool \<Rightarrow> (int \<Rightarrow> live_answer) \<Rightarrow> found_node \<Rightarrow> surveyed \<Rightarrow> bool" where
  "shown_honestly live_sleepy answers f v \<longleftrightarrow>
     nd_node_id (sv_diag v) = nd_node_id (fn_diag f)
     \<and> (is_router (fn_diag f) \<or> \<not> live_sleepy \<longrightarrow> cached_view (fn_diag f) (sv_diag v) \<and> sv_error v = None)
     \<and> (sv_error v \<noteq> None \<longrightarrow> cached_view (fn_diag f) (sv_diag v))
     \<and> (live_sleepy \<and> \<not> is_router (fn_diag f) \<and> sv_error v = None \<longrightarrow> nd_live (sv_diag v)
          \<and> (\<exists>vals rows. answers (nd_node_id (fn_diag f)) = LiveValues vals
               \<and> map_of (zip LIVE_ATTR_IDS vals) ATTR_NEIGHBOR_TABLE = Some (PList rows)))"

lemma stamped_honest:
  "shown_honestly live_sleepy answers f (stamped lib stamps fs (refreshed repr live_sleepy answers fs f) f)"
proof (cases "live_sleepy \<and> \<not> is_router (fn_diag f)")
  case True
  obtain d' err where r: "live_refresh repr (fn_diag f) (fn_attrs (entry_of fs f)) (answers (nd_node_id (fn_diag f))) = (d', err)"
    by fastforce
  from live_refresh_cases [OF r] True r show ?thesis
    by (auto simp: shown_honestly_def stamped_def refreshed_def Let_def cached_view_def)
qed (auto simp: shown_honestly_def stamped_def refreshed_def Let_def cached_view_def)

text \<open>A live reading never thins the survey: when the nodes could be listed and parsed, the survey ends whatever
  the live answers are, every Thread node of the cache is shown, in order, and each is shown honestly.\<close>

theorem survey_never_thins:
  assumes "read_raws repr names 0 raws = Inr rs"
  shows "\<exists>su. survey_thread_nodes repr lib names stamps live_sleepy answers raws = Inr su
    \<and> su_raw_count su = length raws \<and> list_all2 (shown_honestly live_sleepy answers) (found_nodes rs) (su_diags su)"
proof -
  have "list_all2 (shown_honestly live_sleepy answers) (found_nodes rs)
     (map (\<lambda>f. stamped lib stamps (found_nodes rs) (refreshed repr live_sleepy answers (found_nodes rs) f) f) (found_nodes rs))"
    unfolding list_all2_map2 by (rule list.rel_refl) (rule stamped_honest)
  then show ?thesis by (simp add: survey_thread_nodes_def Let_def assms)
qed

text \<open>Every entry of the list is accounted for: it is shown, named as unreadable, or no Thread node.\<close>

lemma raws_accounted:
  "read_raws repr names i raws = Inr rs \<Longrightarrow> length rs = length raws
    \<and> length (found_nodes rs) + length (List.map_filter (\<lambda>r. case r of Skipped x \<Rightarrow> Some x | _ \<Rightarrow> None) rs)
        + length (filter (\<lambda>r. r = NotThread) rs) = length raws"
proof (induction raws arbitrary: i rs)
  case (Cons raw raws)
  then obtain r rs' where "read_raw repr names i raw = Inr r" "read_raws repr names (Suc i) raws = Inr rs'" "rs = r # rs'"
    by (auto simp: py_bind_Inr)
  with Cons.IH [of "Suc i" rs'] show ?case by (cases r) (auto simp: found_nodes_def map_filter_simps)
qed (simp add: found_nodes_def map_filter_simps)

definition demo_thread_node :: "int \<Rightarrow> int \<Rightarrow> pyval" where
  "demo_thread_node n role = PDict [(''node_id'', PInt n), (''attributes'', PDict [(''0/53/1'', PInt role)])]"

lemma demo_thread_read:
  "\<exists>d. read_raw (\<lambda>v. []) (\<lambda>n. Some ''a'') i (demo_thread_node n role) = Inr (Found d [(AtText ''0/53/1'', PInt role)] PNone PNone)
     \<and> nd_node_id d = n"
proof -
  have "attr_key 0 53 ATTR_ROUTING_ROLE = ''0/53/1''" by code_simp
  then have "\<exists>d. parse_node_diag (\<lambda>v. []) n ''a'' True [(AtText ''0/53/1'', PInt role)] = Inr (Some d) \<and> nd_node_id d = n"
    by (simp add: parse_node_diag_def diag_role_def diag_attr_def opt_int_def parse_neighbours_def
        parse_routes_def counters_of_def CLUSTER_THREAD_DIAG_def)
  then show ?thesis
    by (auto simp: read_raw_def demo_thread_node_def dget_def dget_or_def or_empty_def survey_node_name_def as_diag_attrs_def)
qed

lemma survey_never_thins_witness:
  "\<exists>su. survey_thread_nodes (\<lambda>v. []) \<lparr>cl_fromiso = \<lambda>t. None, cl_fromtimestamp = Some\<rparr> (\<lambda>n. Some ''a'') (\<lambda>n. None) True
      (\<lambda>n. LiveTimedOut) [demo_thread_node 7 5, PNone, demo_thread_node 8 2] = Inr su
    \<and> map (nd_node_id \<circ> sv_diag) (su_diags su) = [7, 8]"
proof -
  obtain rs where rs: "read_raws (\<lambda>v. []) (\<lambda>n. Some ''a'') 0 [demo_thread_node 7 5, PNone, demo_thread_node 8 2] = Inr rs"
    "map (nd_node_id \<circ> fn_diag) (found_nodes rs) = [7, 8]"
    using demo_thread_read [of 0 7 5] demo_thread_read [of "Suc (Suc 0)" 8 2]
    by (auto simp: found_nodes_def map_filter_simps read_raw_def [of _ _ "Suc 0"])
  obtain su where su: "survey_thread_nodes (\<lambda>v. []) \<lparr>cl_fromiso = \<lambda>t. None, cl_fromtimestamp = Some\<rparr> (\<lambda>n. Some ''a'') (\<lambda>n. None) True
      (\<lambda>n. LiveTimedOut) [demo_thread_node 7 5, PNone, demo_thread_node 8 2] = Inr su"
    "list_all2 (shown_honestly True (\<lambda>n. LiveTimedOut)) (found_nodes rs) (su_diags su)"
    using survey_never_thins [OF rs(1)] by blast
  have "map (nd_node_id \<circ> fn_diag) fs = map (nd_node_id \<circ> sv_diag) vs" if "list_all2 (shown_honestly b q) fs vs" for b q fs vs
    using that by (induction rule: list_all2_induct) (simp_all add: shown_honestly_def)
  with su rs(2) show ?thesis by metis
qed

end
