(* ===== verification/SyncHost.thy ===== *)
theory SyncHost
  imports HandlerRegistry NodeReplace "HOL-Library.List_Lexorder" "HOL-Library.Char_ord"
begin

text \<open>
  The state of \<open>device_sync.DeviceSync\<close>, the Indigo host it works on, and the pieces of the module
  that need neither: the names it generates, the fingerprint of capability lists, the node id
  salvaged from an unreadable frame, and the tombstones.

  The host is not part of the repository: it is a parameter \<open>'h indigo\<close> of every operation, the
  state \<open>'h\<close> of the server and its calls as functions on it. A call that raises is an \<open>Inl\<close>; what
  a call does to the server is left open. An operation runs on the state of the component
  together with the server; it ends with a result or an exception, and whatever it did before an
  exception stays done. Public operations hold the lock or touch disjoint state, so each is one
  step. Lines logged at debug level are dropped; the subscript of a role label is the code
  point 130.
\<close>

section \<open>The host\<close>

record host_dev =
  hv_id :: int
  hv_dev :: matter_dev
  hv_folder :: int
  hv_error :: string
  hv_configured :: bool
  hv_display :: "string option"

datatype create_fault = NameNotUnique | CreateRaised py_exc

text \<open>A state write: an entry a handler formatted, or \<open>_reachable_kv\<close>.\<close>

datatype state_write = WriteEntry kv_entry | WriteReachable bool

datatype tomb_kind = NodeTombstones | RetiredNodes

record 'h indigo =
  in_device :: "'h \<Rightarrow> int \<Rightarrow> host_dev py_result"
  in_own :: "'h \<Rightarrow> host_dev list py_result"
  in_all :: "'h \<Rightarrow> host_dev list py_result"
  in_create :: "string \<Rightarrow> string \<Rightarrow> pydict \<Rightarrow> int \<Rightarrow> 'h \<Rightarrow> (create_fault + host_dev) \<times> 'h"
  in_set_model :: "int \<Rightarrow> string \<Rightarrow> 'h \<Rightarrow> unit py_result \<times> 'h"
  in_rename :: "int \<Rightarrow> string \<Rightarrow> 'h \<Rightarrow> unit py_result \<times> 'h"
  in_update_states :: "int \<Rightarrow> state_write list \<Rightarrow> 'h \<Rightarrow> unit py_result \<times> 'h"
  in_replace_props :: "int \<Rightarrow> pydict \<Rightarrow> 'h \<Rightarrow> unit py_result \<times> 'h"
  in_set_error :: "int \<Rightarrow> string \<Rightarrow> 'h \<Rightarrow> unit py_result \<times> 'h"
  in_delete :: "int \<Rightarrow> 'h \<Rightarrow> unit py_result \<times> 'h"
  in_ungroup :: "int \<Rightarrow> 'h \<Rightarrow> unit py_result \<times> 'h"
  in_group_with :: "int \<Rightarrow> int \<Rightarrow> 'h \<Rightarrow> unit py_result \<times> 'h"
  in_group_list :: "'h \<Rightarrow> int \<Rightarrow> int list py_result"
  in_move :: "int \<Rightarrow> int \<Rightarrow> 'h \<Rightarrow> unit py_result \<times> 'h"
  in_folders :: "'h \<Rightarrow> (int \<times> string) list py_result"
  in_new_folder :: "string \<Rightarrow> 'h \<Rightarrow> int py_result \<times> 'h"
  in_states_changed :: "int \<Rightarrow> 'h \<Rightarrow> unit py_result \<times> 'h"
  in_save :: "tomb_kind \<Rightarrow> string list \<Rightarrow> 'h \<Rightarrow> unit py_result \<times> 'h"
  in_survey :: "node_info \<Rightarrow> 'h \<Rightarrow> 'h"
  in_forget_survey :: "int \<Rightarrow> 'h \<Rightarrow> 'h"
  in_platform :: platform

section \<open>State\<close>

record tombstones =
  tb_ids :: "string set"
  tb_saves :: bool
  tb_logs :: bool

type_synonym type_map = "(string \<times> int) list"
type_synonym dev_index = "((int \<times> int) \<times> type_map) list"

text \<open>Warnings that are given once per device and kind (\<open>_group_warn\<close>), and the other lines.\<close>

datatype warn_kind = KindStray | KindTrueupName | KindTrueupNode | KindRestamp | KindGroup | KindVerify
  | KindForeign | KindGroupLookup | KindIdentity | KindFolder | KindRename | KindUnreachable
  | KindClearError | KindReachable | KindSwitchFeatures

datatype creation_line =
    WarnOf warn_kind int
  | WarnCannotDelete int py_exc
  | InfoNodeDeviceDeleted int
  | InfoRebound int int int
  | WarnCannotRebind int py_exc
  | InfoDuplicateDeleted int
  | WarnTombstonesUnsaved tomb_kind
  | InfoRetirementCleared int
  | InfoRedundantMeter int int
  | InfoLeftoverClusters int int "int list"
  | InfoPlaceholderObsolete int int
  | InfoPlaceholder int int
  | InfoCreated int "int list"
  | WarnCreateFailed int nat nat
  | WarnEmptyBridge int "int list"
  | InfoNonConformant int
  | InfoNodeDevice int int
  | InfoBatteryExcluded int int int
  | WarnNameTaken string
  | LogCreateFailed py_exc

datatype sync_line =
    Creation creation_line
  | WarnFolder string
  | WarnPrime int int int
  | WarnStateList int py_exc
  | WarnPropsStuck int "string list"
  | InfoReasserted int "string list"
  | WarnReassert int py_exc
  | WarnStaleDisplay int
  | WarnUnparseable "int option" py_exc
  | WarnReconcile int py_exc
  | WarnDropped "int list"
  | WarnMalformed string
  | WarnShutdown
  | WarnAddedParse py_exc
  | WarnBadEvent int
  | WarnBadUpdate int

record 'h sync =
  sy_host :: 'h
  sy_index :: dev_index
  sy_active :: "int set"
  sy_forward :: "((int \<times> int) \<times> int) list"
  sy_reverse :: "((int \<times> int) \<times> int list) list"
  sy_coverage :: "(int \<times> (int \<times> int set) list) list"
  sy_event_seen :: "(int \<times> rat) list"
  sy_limits :: "((int \<times> int \<times> int \<times> int) \<times> pyval) list"
  sy_lists :: "((int \<times> int \<times> int) \<times> pyval) list"
  sy_known :: "int set"
  sy_tombstones :: "tombstones option"
  sy_retired :: "tombstones option"
  sy_pending_refresh :: "int set"
  sy_battery_warned :: "(int \<times> int) set"
  sy_nonconformant :: "int set"
  sy_self_deleted :: "int set"
  sy_suspended :: "(int \<times> int) list"
  sy_group_warned :: "(int \<times> warn_kind) set"
  sy_redundant_meter :: "(int \<times> int) set"
  sy_cache :: thread_cache
  sy_log :: "sync_line list"

section \<open>Operations\<close>

type_synonym ('h, 'a) sync_op = "'h sync \<Rightarrow> 'a py_result \<times> 'h sync"

named_theorems sync_ops \<open>the combinators of operations, unfolded to compute\<close>

definition pure_op :: "'a \<Rightarrow> ('h, 'a) sync_op" where
  [sync_ops]: "pure_op x s = (Inr x, s)"

definition raise_op :: "py_exc \<Rightarrow> ('h, 'a) sync_op" where
  [sync_ops]: "raise_op e s = (Inl e, s)"

definition and_then :: "('h, 'a) sync_op \<Rightarrow> ('a \<Rightarrow> ('h, 'b) sync_op) \<Rightarrow> ('h, 'b) sync_op" where
  [sync_ops]: "and_then m f s = (case m s of (Inl e, s1) \<Rightarrow> (Inl e, s1) | (Inr x, s1) \<Rightarrow> f x s1)"

definition look :: "('h sync \<Rightarrow> 'a) \<Rightarrow> ('h, 'a) sync_op" where
  [sync_ops]: "look f s = (Inr (f s), s)"

definition change :: "('h sync \<Rightarrow> 'h sync) \<Rightarrow> ('h, unit) sync_op" where
  [sync_ops]: "change f s = (Inr (), f s)"

definition say :: "sync_line \<Rightarrow> ('h, unit) sync_op" where
  [sync_ops]: "say l s = (Inr (), s\<lparr>sy_log := sy_log s @ [l]\<rparr>)"

definition computed :: "'a py_result \<Rightarrow> ('h, 'a) sync_op" where
  [sync_ops]: "computed r s = (r, s)"

definition ask :: "('h \<Rightarrow> 'a py_result) \<Rightarrow> ('h, 'a) sync_op" where
  [sync_ops]: "ask f s = (f (sy_host s), s)"

definition call_host :: "('h \<Rightarrow> 'a \<times> 'h) \<Rightarrow> ('h, 'a) sync_op" where
  [sync_ops]: "call_host f s = (case f (sy_host s) of (r, h) \<Rightarrow> (Inr r, s\<lparr>sy_host := h\<rparr>))"

definition try_host :: "('h \<Rightarrow> 'a py_result \<times> 'h) \<Rightarrow> ('h, 'a) sync_op" where
  [sync_ops]: "try_host f s = (case f (sy_host s) of (r, h) \<Rightarrow> (r, s\<lparr>sy_host := h\<rparr>))"

text \<open>\<open>try: m except Exception as e: handler e\<close>.\<close>

definition rescue :: "('h, 'a) sync_op \<Rightarrow> (py_exc \<Rightarrow> ('h, 'a) sync_op) \<Rightarrow> ('h, 'a) sync_op" where
  [sync_ops]: "rescue m handler s = (case m s of (Inl e, s1) \<Rightarrow> handler e s1 | (Inr x, s1) \<Rightarrow> (Inr x, s1))"

definition when_op :: "bool \<Rightarrow> ('h, unit) sync_op \<Rightarrow> ('h, unit) sync_op" where
  [sync_ops]: "when_op b m = (if b then m else pure_op ())"

fun in_turn :: "('h, unit) sync_op list \<Rightarrow> ('h, unit) sync_op" where
  "in_turn [] = pure_op ()"
| "in_turn (m # ms) = and_then m (\<lambda>_. in_turn ms)"

fun for_each :: "'a list \<Rightarrow> ('a \<Rightarrow> ('h, unit) sync_op) \<Rightarrow> ('h, unit) sync_op" where
  "for_each [] f = pure_op ()"
| "for_each (x # xs) f = and_then (f x) (\<lambda>_. for_each xs f)"

text \<open>A loop that collects what its body yields.\<close>

fun collect :: "'a list \<Rightarrow> ('a \<Rightarrow> ('h, 'b list) sync_op) \<Rightarrow> ('h, 'b list) sync_op" where
  "collect [] f = pure_op []"
| "collect (x # xs) f = and_then (f x) (\<lambda>ys. and_then (collect xs f) (\<lambda>zs. pure_op (ys @ zs)))"

definition group_warn :: "int \<Rightarrow> warn_kind \<Rightarrow> ('h, unit) sync_op" where
  "group_warn dev_id kind = and_then (look sy_group_warned) (\<lambda>warned.
     if (dev_id, kind) \<in> warned then pure_op ()
     else in_turn [change (\<lambda>s. s\<lparr>sy_group_warned := insert (dev_id, kind) (sy_group_warned s)\<rparr>),
                   say (Creation (WarnOf kind dev_id))])"

definition warn_once_if :: "bool \<Rightarrow> int \<Rightarrow> warn_kind \<Rightarrow> ('h, unit) sync_op" where
  "warn_once_if dedup dev_id kind = (if dedup then group_warn dev_id kind else say (Creation (WarnOf kind dev_id)))"

section \<open>The index as a dictionary\<close>

definition types_at :: "dev_index \<Rightarrow> int \<times> int \<Rightarrow> type_map" where
  "types_at ix key = (case map_of ix key of None \<Rightarrow> [] | Some m \<Rightarrow> m)"

text \<open>\<open>_index.setdefault(key, {})[type_id] = dev_id\<close>.\<close>

definition index_put :: "int \<times> int \<Rightarrow> string \<Rightarrow> int \<Rightarrow> dev_index \<Rightarrow> dev_index" where
  "index_put key type_id dev_id ix = AList.update key (AList.update type_id dev_id (types_at ix key)) ix"

text \<open>The device ids under the keys that satisfy a condition, in the order of the dictionary.\<close>

definition ids_where :: "(int \<times> int \<Rightarrow> bool) \<Rightarrow> dev_index \<Rightarrow> int list" where
  "ids_where p ix = concat (map (\<lambda>(key, m). map snd m) (filter (p \<circ> fst) ix))"

definition hv_type :: "host_dev \<Rightarrow> string" where
  "hv_type d = (case md_device_type_id (hv_dev d) of None \<Rightarrow> [] | Some t \<Rightarrow> t)"

definition hv_name :: "host_dev \<Rightarrow> string" where
  "hv_name d = md_name (hv_dev d)"

definition hv_props :: "host_dev \<Rightarrow> pydict" where
  "hv_props d = md_plugin_props (hv_dev d)"

section \<open>Generated names\<close>

definition ENDPOINT_ROLE_LABELS :: "(string \<times> string) list" where
  "ENDPOINT_ROLE_LABELS =
     [(''matterRelay'', ''Switch''), (''matterDimmer'', ''Dimmer''), (''matterColorDimmer'', ''Light''),
      (''matterTemperatureSensor'', ''Temperature''), (''matterHumiditySensor'', ''Humidity''),
      (''matterMotionSensor'', ''Motion''), (''matterContactSensor'', ''Contact''),
      (''matterIlluminanceSensor'', ''Illuminance''), (''matterPressureSensor'', ''Pressure''),
      (''matterFlowSensor'', ''Flow''), (''matterThermostat'', ''Thermostat''), (''matterFan'', ''Fan''),
      (''matterWindowCovering'', ''Window Covering''), (''matterLock'', ''Lock''), (''matterValve'', ''Valve''),
      (''matterButton'', ''Button''), (''matterSmokeCOAlarm'', ''Smoke/CO''),
      (''matterAirQualitySensor'', ''Air Quality''), (''matterCO2Sensor'', ''CO'' @ [char_of (130 :: nat)]),
      (''matterPM25Sensor'', ''PM2.5''), (''matterTVOCSensor'', ''TVOC''), (''matterEnergyMeter'', ''Energy''),
      (''matterUnknown'', ''Unsupported'')]"

definition label_of_type :: "string \<Rightarrow> string" where
  "label_of_type type_id = (case map_of ENDPOINT_ROLE_LABELS type_id of None \<Rightarrow> [] | Some l \<Rightarrow> l)"

definition newline :: char where "newline = char_of (10 :: nat)"

text \<open>The expressions of the module: \<open>\d+\<close>, \<open> \d+\<close> after a text, \<open>(endpoint \d+)\<close> and the first or the
  last place of a text at which the rest matches.\<close>

definition all_digits :: "string \<Rightarrow> bool" where
  "all_digits s = (s \<noteq> [] \<and> list_all is_decimal_char s)"

definition numbered :: "string \<Rightarrow> string \<Rightarrow> bool" where
  "numbered pre s = (take (length pre) s = pre \<and>
     (case drop (length pre) s of [] \<Rightarrow> False | c # ds \<Rightarrow> c = CHR '' '' \<and> all_digits ds))"

definition endpoint_suffix :: "string \<Rightarrow> bool" where
  "endpoint_suffix s = (take 11 s = '' (endpoint '' \<and> drop 11 s \<noteq> [] \<and> last s = CHR '')''
     \<and> all_digits (butlast (drop 11 s)))"

fun first_cut :: "(string \<Rightarrow> bool) \<Rightarrow> string \<Rightarrow> string option" where
  "first_cut p [] = None"
| "first_cut p (c # s) = (if p (c # s) then Some [] else map_option ((#) c) (first_cut p s))"

fun last_cut :: "(string \<Rightarrow> bool) \<Rightarrow> string \<Rightarrow> string option" where
  "last_cut p [] = None"
| "last_cut p (c # s) = (case last_cut p s of
       Some b \<Rightarrow> Some (c # b)
     | None \<Rightarrow> if p (c # s) then Some [] else None)"

text \<open>\<open>_ENDPOINT_SUFFIX_RE.sub("", name)\<close>: the \<open>$\<close> also matches before a last line break.\<close>

definition without_endpoint_suffix :: "string \<Rightarrow> string" where
  "without_endpoint_suffix name = (case first_cut endpoint_suffix name of
       Some b \<Rightarrow> b
     | None \<Rightarrow>
         (if name \<noteq> [] \<and> last name = newline
          then (case first_cut endpoint_suffix (butlast name) of Some b \<Rightarrow> b @ [newline] | None \<Rightarrow> name)
          else name))"

definition role_suffix :: "string \<Rightarrow> string \<Rightarrow> bool" where
  "role_suffix role s = (s = '' - '' @ role \<or> numbered ('' - '' @ role) s)"

definition generated_base :: "string \<Rightarrow> string \<Rightarrow> string option" where
  "generated_base name role =
     (if name = [] then None
      else (let stripped = without_endpoint_suffix name
            in if stripped \<noteq> name then (if stripped = [] then None else Some stripped)
               else if role \<noteq> []
               then (case last_cut (role_suffix role) name of
                       Some b \<Rightarrow> if b \<noteq> [] \<and> newline \<notin> set b then Some b else None
                     | None \<Rightarrow> None)
               else None))"

definition is_generated_name :: "string \<Rightarrow> string \<Rightarrow> string \<Rightarrow> bool" where
  "is_generated_name name base role =
     (if base = [] then False
      else if name = base \<or> numbered base name then True
      else if role \<noteq> [] \<and> (name = base @ '' - '' @ role \<or> numbered (base @ '' - '' @ role) name) then True
      else take (length base) name = base \<and> endpoint_suffix (drop (length base) name))"

section \<open>Capability lists\<close>

text \<open>Equality of the numbers of a set is by their value; a list with an entry that cannot be hashed
  is compared as it is.\<close>

fun by_value :: "pyval \<Rightarrow> pyval" where
  "by_value (PBool b) = PInt (if b then 1 else 0)"
| "by_value (PFloat (Fin x)) = (if x = of_int \<lfloor>x\<rfloor> then PInt \<lfloor>x\<rfloor> else PFloat (Fin x))"
| "by_value v = v"

fun set_element :: "pyval \<Rightarrow> bool" where
  "set_element (PList _) = False"
| "set_element (PDict _) = False"
| "set_element _ = True"

datatype fingerprint = SameSet "pyval set" | SameValue pyval

definition fingerprint_of :: "pyval \<Rightarrow> fingerprint" where
  "fingerprint_of v = (case v of
       PList xs \<Rightarrow> if list_all set_element xs then SameSet (by_value ` set xs) else SameValue v
     | _ \<Rightarrow> SameValue (by_value v))"

definition capability_fingerprint :: "('k \<times> pyval) list \<Rightarrow> ('k \<times> fingerprint) list" where
  "capability_fingerprint caps = map (\<lambda>(k, v). (k, fingerprint_of v)) caps"

text \<open>Equality of dictionaries.\<close>

definition same_dict :: "('k \<times> 'v) list \<Rightarrow> ('k \<times> 'v) list \<Rightarrow> bool" where
  "same_dict d e = (list_all (\<lambda>k. map_of d k = map_of e k) (map fst d @ map fst e))"

definition salvage_node_id :: "pyval \<Rightarrow> int option" where
  "salvage_node_id raw = (case raw of
       PDict d \<Rightarrow> (case dget d ''node_id'' of PInt n \<Rightarrow> Some n | PStr t \<Rightarrow> int_of_text0 t | _ \<Rightarrow> None)
     | _ \<Rightarrow> None)"

section \<open>Tombstones\<close>

text \<open>\<open>loads\<close> is \<open>json.loads\<close>; the saved text is the JSON of the sorted list.\<close>

definition load_tombstones :: "(string \<Rightarrow> pyval py_result) \<Rightarrow> (pyval \<Rightarrow> string) \<Rightarrow> pyval \<Rightarrow> string set py_result" where
  "load_tombstones loads repr blob = (case blob of
       PStr t \<Rightarrow>
         (if str_strip t = [] then Inr {}
          else (case loads t of
                  Inr (PList vs) \<Rightarrow> Inr (py_str repr ` set vs)
                | Inr _ \<Rightarrow> Inr {}
                | Inl e \<Rightarrow> if e = TypeError \<or> e = ValueError then Inr {} else Inl e))
     | _ \<Rightarrow> Inr {})"

definition tombs_of :: "tomb_kind \<Rightarrow> 'h sync \<Rightarrow> tombstones option" where
  "tombs_of k s = (case k of NodeTombstones \<Rightarrow> sy_tombstones s | RetiredNodes \<Rightarrow> sy_retired s)"

definition set_tombs :: "tomb_kind \<Rightarrow> string set \<Rightarrow> 'h sync \<Rightarrow> 'h sync" where
  "set_tombs k ids s = (case k of
       NodeTombstones \<Rightarrow> s\<lparr>sy_tombstones := map_option (\<lambda>t. t\<lparr>tb_ids := ids\<rparr>) (sy_tombstones s)\<rparr>
     | RetiredNodes \<Rightarrow> s\<lparr>sy_retired := map_option (\<lambda>t. t\<lparr>tb_ids := ids\<rparr>) (sy_retired s)\<rparr>)"

definition tombstones_to_json :: "tombstones \<Rightarrow> string list" where
  "tombstones_to_json t = sorted_list_of_set (tb_ids t)"

definition tombstones_persist :: "'h indigo \<Rightarrow> tomb_kind \<Rightarrow> ('h, unit) sync_op" where
  "tombstones_persist api k = and_then (look (tombs_of k)) (\<lambda>t. case t of
       None \<Rightarrow> pure_op ()
     | Some t \<Rightarrow> when_op (tb_saves t)
         (rescue (try_host (in_save api k (tombstones_to_json t)))
            (\<lambda>e. when_op (tb_logs t) (say (Creation (WarnTombstonesUnsaved k))))))"

definition is_tombstoned :: "tomb_kind \<Rightarrow> int \<Rightarrow> 'h sync \<Rightarrow> bool" where
  "is_tombstoned k node_id s = (case tombs_of k s of None \<Rightarrow> False | Some t \<Rightarrow> str_of_int node_id \<in> tb_ids t)"

definition tombstones_add :: "'h indigo \<Rightarrow> tomb_kind \<Rightarrow> int \<Rightarrow> ('h, unit) sync_op" where
  "tombstones_add api k node_id = and_then (look (tombs_of k)) (\<lambda>t. case t of
       None \<Rightarrow> pure_op ()
     | Some t \<Rightarrow> in_turn [change (set_tombs k (insert (str_of_int node_id) (tb_ids t))), tombstones_persist api k])"

definition tombstones_forget :: "'h indigo \<Rightarrow> tomb_kind \<Rightarrow> int \<Rightarrow> ('h, unit) sync_op" where
  "tombstones_forget api k node_id = and_then (look (tombs_of k)) (\<lambda>t. case t of
       None \<Rightarrow> pure_op ()
     | Some t \<Rightarrow> in_turn [change (set_tombs k (tb_ids t - {str_of_int node_id})),
         when_op (str_of_int node_id \<in> tb_ids t) (tombstones_persist api k)])"

definition tombstones_clear_all :: "'h indigo \<Rightarrow> tomb_kind \<Rightarrow> ('h, nat) sync_op" where
  "tombstones_clear_all api k = and_then (look (tombs_of k)) (\<lambda>t. case t of
       None \<Rightarrow> pure_op 0
     | Some t \<Rightarrow> and_then (in_turn [change (set_tombs k {}), when_op (tb_ids t \<noteq> {}) (tombstones_persist api k)])
         (\<lambda>_. pure_op (card (tb_ids t))))"

end
