(* ===== verification/SyncIndex.thy ===== *)
theory SyncIndex
  imports SyncHost
begin

text \<open>
  \<open>device_sync.DeviceSync\<close>: the index from node and endpoint to the Indigo devices, the deletion of
  a node, the replacement of a node, and the summaries of the pickers.

  A node or endpoint id that reaches these methods is an integer; the conversion of the texts in
  a device's properties is part of the model. The three meter-capable types are tried in the
  order of the list; an endpoint has at most one of them (theory HandlerFacts). The software
  version in a device's properties is a text or absent.
\<close>

section \<open>The index\<close>

definition METER_CAPABLE_TYPES :: "string list" where
  "METER_CAPABLE_TYPES = [''matterRelay'', ''matterDimmer'', ''matterColorDimmer'']"

definition prop_present :: "pyval \<Rightarrow> bool" where
  "prop_present v = (v \<noteq> PNone \<and> v \<noteq> PStr [])"

definition set_active :: "int \<Rightarrow> bool \<Rightarrow> ('h, unit) sync_op" where
  "set_active dev_id active = change (\<lambda>s. s\<lparr>sy_active :=
     (if active then insert dev_id (sy_active s) else sy_active s - {dev_id})\<rparr>)"

definition note_device :: "host_dev \<Rightarrow> ('h, unit) sync_op" where
  "note_device dev =
     (let node_id = dget (hv_props dev) ''nodeId''; endpoint_id = dget (hv_props dev) ''endpointId''
      in if prop_present node_id \<and> prop_present endpoint_id
         then and_then (computed (py_bind (py_int node_id) (\<lambda>n. py_bind (py_int endpoint_id) (\<lambda>e. Inr (n, e)))))
                (\<lambda>key. change (\<lambda>s. s\<lparr>sy_index := index_put key (hv_type dev) (hv_id dev) (sy_index s)\<rparr>))
         else pure_op ())"

definition is_stray :: "host_dev \<Rightarrow> bool" where
  "is_stray dev = (\<not> hv_configured dev \<and> truthy (dget (hv_props dev) ''createdTypeId''))"

definition warn_unconfigured_strays :: "'h indigo \<Rightarrow> ('h, unit) sync_op" where
  "warn_unconfigured_strays api =
     and_then (rescue (ask (\<lambda>h. map_sum id (filter is_stray) (in_all api h))) (\<lambda>e. pure_op []))
       (\<lambda>strays. for_each strays (\<lambda>dev. group_warn (hv_id dev) KindStray))"

definition rebuild_index :: "'h indigo \<Rightarrow> ('h, unit) sync_op" where
  "rebuild_index api = in_turn
     [change (\<lambda>s. s\<lparr>sy_index := []\<rparr>),
      and_then (ask (in_own api)) (\<lambda>devs. for_each devs note_device),
      warn_unconfigured_strays api]"

definition lookup_dev :: "dev_index \<Rightarrow> int \<Rightarrow> int \<Rightarrow> string option \<Rightarrow> int option" where
  "lookup_dev ix node_id endpoint_id type_id = (case map_of ix (node_id, endpoint_id) of
       None \<Rightarrow> None
     | Some m \<Rightarrow> (case type_id of
           Some t \<Rightarrow> map_of m t
         | None \<Rightarrow> (case m of [] \<Rightarrow> None | (_, d) # _ \<Rightarrow> Some d)))"

definition all_dev_ids_for_endpoint :: "dev_index \<Rightarrow> int \<Rightarrow> int \<Rightarrow> int list" where
  "all_dev_ids_for_endpoint ix node_id endpoint_id = map snd (types_at ix (node_id, endpoint_id))"

definition meter_cluster :: "int \<Rightarrow> bool" where
  "meter_cluster cluster = (cluster = CLUSTER_ELECTRICAL_POWER \<or> cluster = CLUSTER_ELECTRICAL_ENERGY)"

definition lookup_for_cluster :: "'h sync \<Rightarrow> int \<Rightarrow> int \<Rightarrow> int \<Rightarrow> int option" where
  "lookup_for_cluster s node_id endpoint_id cluster =
     (let target = (if meter_cluster cluster then map_of (sy_forward s) (node_id, endpoint_id) else None);
          eid = (case target of None \<Rightarrow> endpoint_id | Some t \<Rightarrow> t);
          m = types_at (sy_index s) (node_id, eid);
          linked = (if target = None then None
                    else find (\<lambda>t. map_of m t \<noteq> None) METER_CAPABLE_TYPES)
      in case linked of
           Some t \<Rightarrow> map_of m t
         | None \<Rightarrow> (case handler_for_cluster cluster of
               None \<Rightarrow> None
             | Some h \<Rightarrow> if device_type_id h \<noteq> [] \<and> map_of m (device_type_id h) \<noteq> None
                         then map_of m (device_type_id h)
                         else lookup_dev (sy_index s) node_id eid None))"

section \<open>Deletion\<close>

definition forget_device :: "int \<Rightarrow> dev_index \<Rightarrow> dev_index" where
  "forget_device dev_id ix =
     filter (\<lambda>(key, m). m \<noteq> []) (map (\<lambda>(key, m). (key, filter (\<lambda>(t, d). d \<noteq> dev_id) m)) ix)"

definition ungroup_device :: "'h indigo \<Rightarrow> int \<Rightarrow> ('h, unit) sync_op" where
  "ungroup_device api dev_id =
     rescue (and_then (ask (\<lambda>h. in_device api h dev_id)) (\<lambda>_. try_host (in_ungroup api dev_id))) (\<lambda>e. pure_op ())"

text \<open>The host may deliver its callback for a deletion while the call that deletes is still running; \<open>deliver\<close> is
  what the callback then does. The plain names are the case of a host that delivers it later.\<close>

definition delete_device_delivering ::
  "(int \<Rightarrow> ('h, unit) sync_op) \<Rightarrow> 'h indigo \<Rightarrow> int option \<Rightarrow> int \<Rightarrow> ('h, int list) sync_op" where
  "delete_device_delivering deliver api node_dev dev_id = rescue
     (and_then (ask (\<lambda>h. in_device api h dev_id)) (\<lambda>_.
      and_then (try_host (in_delete api dev_id)) (\<lambda>_.
      and_then (deliver dev_id) (\<lambda>_.
      and_then (change (\<lambda>s. s\<lparr>sy_index := forget_device dev_id (sy_index s)\<rparr>)) (\<lambda>_. pure_op [dev_id])))))
     (\<lambda>e. and_then (in_turn
        [when_op (node_dev = Some dev_id) (change (\<lambda>s. s\<lparr>sy_self_deleted := sy_self_deleted s - {dev_id}\<rparr>)),
         say (Creation (WarnCannotDelete dev_id e))]) (\<lambda>_. pure_op []))"

definition delete_devices_delivering ::
  "(int \<Rightarrow> ('h, unit) sync_op) \<Rightarrow> 'h indigo \<Rightarrow> int list \<Rightarrow> int option \<Rightarrow> ('h, int list) sync_op" where
  "delete_devices_delivering deliver api dev_ids node_dev =
     (let marked = (case node_dev of None \<Rightarrow> None | Some d \<Rightarrow> if d \<in> set dev_ids then Some d else None)
      in and_then (in_turn
           [(case marked of None \<Rightarrow> pure_op ()
             | Some d \<Rightarrow> change (\<lambda>s. s\<lparr>sy_self_deleted := insert d (sy_self_deleted s)\<rparr>)),
            for_each dev_ids (ungroup_device api)]) (\<lambda>_. collect dev_ids (delete_device_delivering deliver api marked)))"

definition delete_device :: "'h indigo \<Rightarrow> int option \<Rightarrow> int \<Rightarrow> ('h, int list) sync_op" where
  delete_device_silent: "delete_device = delete_device_delivering (\<lambda>_. pure_op ())"

definition delete_devices :: "'h indigo \<Rightarrow> int list \<Rightarrow> int option \<Rightarrow> ('h, int list) sync_op" where
  delete_devices_silent: "delete_devices = delete_devices_delivering (\<lambda>_. pure_op ())"

lemma delete_device_def:
  "delete_device api node_dev dev_id = rescue
     (and_then (ask (\<lambda>h. in_device api h dev_id)) (\<lambda>_.
      and_then (try_host (in_delete api dev_id)) (\<lambda>_.
      and_then (change (\<lambda>s. s\<lparr>sy_index := forget_device dev_id (sy_index s)\<rparr>)) (\<lambda>_. pure_op [dev_id]))))
     (\<lambda>e. and_then (in_turn
        [when_op (node_dev = Some dev_id) (change (\<lambda>s. s\<lparr>sy_self_deleted := sy_self_deleted s - {dev_id}\<rparr>)),
         say (Creation (WarnCannotDelete dev_id e))]) (\<lambda>_. pure_op []))"
proof -
  have "and_then (pure_op ()) f = f ()" for f :: "unit \<Rightarrow> ('a, int list) sync_op"
    by (simp add: fun_eq_iff and_then_def pure_op_def)
  then show ?thesis by (simp only: delete_device_silent delete_device_delivering_def)
qed

lemma delete_devices_def:
  "delete_devices api dev_ids node_dev =
     (let marked = (case node_dev of None \<Rightarrow> None | Some d \<Rightarrow> if d \<in> set dev_ids then Some d else None)
      in and_then (in_turn
           [(case marked of None \<Rightarrow> pure_op ()
             | Some d \<Rightarrow> change (\<lambda>s. s\<lparr>sy_self_deleted := insert d (sy_self_deleted s)\<rparr>)),
            for_each dev_ids (ungroup_device api)]) (\<lambda>_. collect dev_ids (delete_device api marked)))"
  by (simp add: delete_devices_silent delete_devices_delivering_def delete_device_silent)

definition node_entries :: "dev_index \<Rightarrow> int \<Rightarrow> (int \<times> string \<times> int) list" where
  "node_entries ix node_id = concat (map (\<lambda>((nid, eid), m). if nid = node_id
     then map (\<lambda>(t, d). (eid, t, d)) m else []) ix)"

definition is_node_entry :: "int \<times> string \<times> int \<Rightarrow> bool" where
  "is_node_entry x = (fst x = 0 \<and> fst (snd x) = ''matterNode'')"

definition delete_node_delivering ::
  "(int \<Rightarrow> ('h, unit) sync_op) \<Rightarrow> 'h indigo \<Rightarrow> int \<Rightarrow> bool \<Rightarrow> ('h, int list) sync_op" where
  "delete_node_delivering deliver api node_id forgets =
     and_then (when_op forgets (change (\<lambda>s. s\<lparr>sy_known := sy_known s - {node_id}\<rparr>))) (\<lambda>_.
     and_then (look (\<lambda>s. node_entries (sy_index s) node_id)) (\<lambda>entries.
     (let nodes = map (snd \<circ> snd) (filter is_node_entry entries);
          node_dev = (if nodes = [] then None else Some (last nodes));
          candidates = map (snd \<circ> snd) (filter (\<lambda>x. \<not> is_node_entry x) entries)
                       @ (case node_dev of None \<Rightarrow> [] | Some d \<Rightarrow> [d])
      in and_then (delete_devices_delivering deliver api candidates node_dev) (\<lambda>deleted.
         and_then (when_op forgets (tombstones_forget api RetiredNodes node_id)) (\<lambda>_. pure_op deleted)))))"

definition delete_node :: "'h indigo \<Rightarrow> int \<Rightarrow> bool \<Rightarrow> ('h, int list) sync_op" where
  delete_node_silent: "delete_node = delete_node_delivering (\<lambda>_. pure_op ())"

lemma delete_node_def:
  "delete_node api node_id forgets =
     and_then (when_op forgets (change (\<lambda>s. s\<lparr>sy_known := sy_known s - {node_id}\<rparr>))) (\<lambda>_.
     and_then (look (\<lambda>s. node_entries (sy_index s) node_id)) (\<lambda>entries.
     (let nodes = map (snd \<circ> snd) (filter is_node_entry entries);
          node_dev = (if nodes = [] then None else Some (last nodes));
          candidates = map (snd \<circ> snd) (filter (\<lambda>x. \<not> is_node_entry x) entries)
                       @ (case node_dev of None \<Rightarrow> [] | Some d \<Rightarrow> [d])
      in and_then (delete_devices api candidates node_dev) (\<lambda>deleted.
         and_then (when_op forgets (tombstones_forget api RetiredNodes node_id)) (\<lambda>_. pure_op deleted)))))"
  by (simp add: delete_node_silent delete_node_delivering_def delete_devices_silent)

text \<open>\<open>pop("matterNode")\<close>, and the key when nothing is left.\<close>

definition drop_node_entry :: "int \<Rightarrow> dev_index \<Rightarrow> dev_index" where
  "drop_node_entry node_id ix = (case map_of ix (node_id, 0) of
       None \<Rightarrow> ix
     | Some m \<Rightarrow> (let m' = AList.delete ''matterNode'' m
                  in if m' = [] then AList.delete (node_id, 0) ix else AList.update (node_id, 0) m' ix))"

definition note_node_device_deleted :: "'h indigo \<Rightarrow> int \<Rightarrow> int \<Rightarrow> ('h, unit) sync_op" where
  "note_node_device_deleted api node_id dev_id = and_then (look sy_self_deleted) (\<lambda>own.
     if dev_id \<in> own then change (\<lambda>s. s\<lparr>sy_self_deleted := sy_self_deleted s - {dev_id}\<rparr>)
     else in_turn
       [change (\<lambda>s. s\<lparr>sy_index := drop_node_entry node_id (sy_index s)\<rparr>),
        tombstones_add api NodeTombstones node_id,
        say (Creation (InfoNodeDeviceDeleted node_id))])"

section \<open>Pickers\<close>

definition indexed_nodes :: "dev_index \<Rightarrow> int set" where
  "indexed_nodes ix = fst ` fst ` set ix"

definition knows_node :: "'h sync \<Rightarrow> int \<Rightarrow> bool" where
  "knows_node s node_id = (node_id \<in> sy_known s \<or> node_id \<in> indexed_nodes (sy_index s))"

definition node_count :: "'h sync \<Rightarrow> nat" where
  "node_count s = card (sy_known s \<union> indexed_nodes (sy_index s))"

definition node_ref :: "'h indigo \<Rightarrow> int \<Rightarrow> int \<times> string \<times> int \<Rightarrow> ('h, device_ref list) sync_op" where
  "node_ref api node_id x = (case x of (eid, type_id, dev_id) \<Rightarrow>
     rescue (and_then (ask (\<lambda>h. in_device api h dev_id)) (\<lambda>dev.
         pure_op (if py_str (pf_repr (in_platform api)) (dget_or (hv_props dev) ''nodeId'' (PStr []))
                     \<noteq> str_of_int node_id then []
                  else [\<lparr>dv_id = dev_id, dv_endpoint = eid, dv_type = type_id, dv_name = hv_name dev\<rparr>])))
       (\<lambda>e. if e = KeyError then pure_op [] else raise_op e))"

definition node_device_refs :: "'h indigo \<Rightarrow> int \<Rightarrow> ('h, device_ref list) sync_op" where
  "node_device_refs api node_id = and_then (look (\<lambda>s. sort (node_entries (sy_index s) node_id)))
     (\<lambda>entries. collect entries (node_ref api node_id))"

definition node_device_of :: "dev_index \<Rightarrow> int \<Rightarrow> int option" where
  "node_device_of ix node_id = map_of (types_at ix (node_id, 0)) ''matterNode''"

definition node_unreachable :: "'h indigo \<Rightarrow> 'h sync \<Rightarrow> int \<Rightarrow> bool option" where
  "node_unreachable api s node_id = (case node_device_of (sy_index s) node_id of
       None \<Rightarrow> None
     | Some dev_id \<Rightarrow> (case in_device api (sy_host s) dev_id of
           Inl e \<Rightarrow> None
         | Inr dev \<Rightarrow> (let v = dget (md_states (hv_dev dev)) ''reachable''
                       in if v = PNone then None else Some (\<not> truthy v))))"

definition name_or_id :: "'h indigo \<Rightarrow> 'h \<Rightarrow> int \<Rightarrow> string" where
  "name_or_id api h dev_id = (case in_device api h dev_id of
       Inl e \<Rightarrow> ''device '' @ str_of_int dev_id | Inr dev \<Rightarrow> hv_name dev)"

definition list_nodes :: "'h indigo \<Rightarrow> 'h sync \<Rightarrow> (int \<times> string list) list" where
  "list_nodes api s = map (\<lambda>nid. (nid, map (name_or_id api (sy_host s))
       (sorted_list_of_set (set (ids_where (\<lambda>k. fst k = nid) (sy_index s))))))
     (sorted_list_of_set (sy_known s \<union> indexed_nodes (sy_index s)))"

section \<open>Replacing a node\<close>

definition suspend_creation :: "int \<Rightarrow> ('h, unit) sync_op" where
  "suspend_creation node_id = change (\<lambda>s. s\<lparr>sy_suspended := AList.update node_id
     ((case map_of (sy_suspended s) node_id of None \<Rightarrow> 0 | Some n \<Rightarrow> n) + 1) (sy_suspended s)\<rparr>)"

definition resume_creation :: "int \<Rightarrow> ('h, unit) sync_op" where
  "resume_creation node_id = change (\<lambda>s. s\<lparr>sy_suspended :=
     (let depth = (case map_of (sy_suspended s) node_id of None \<Rightarrow> 0 | Some n \<Rightarrow> n) - 1
      in if 0 < depth then AList.update node_id depth (sy_suspended s)
         else AList.delete node_id (sy_suspended s))\<rparr>)"

text \<open>\<open>try: m finally: c\<close>.\<close>

definition finally_op :: "('h, 'a) sync_op \<Rightarrow> ('h, unit) sync_op \<Rightarrow> ('h, 'a) sync_op" where
  [sync_ops]: "finally_op m c s = (case m s of (r, s1) \<Rightarrow>
     (case c s1 of (Inl e, s2) \<Rightarrow> (Inl e, s2) | (Inr _, s2) \<Rightarrow> (r, s2)))"

definition creation_suspended :: "int \<Rightarrow> ('h, 'a) sync_op \<Rightarrow> ('h, 'a) sync_op" where
  "creation_suspended node_id m =
     and_then (suspend_creation node_id) (\<lambda>_. finally_op m (resume_creation node_id))"

datatype replace_skip = DuplicateKept string int | PropsRefused py_exc

record replace_result =
  rr_rebound :: "int list"
  rr_deleted :: "int list"
  rr_skipped :: "(int \<times> replace_skip) list"

definition rebind_device ::
  "'h indigo \<Rightarrow> plan \<Rightarrow> string option \<Rightarrow> int list \<Rightarrow> device_ref \<times> device_ref \<Rightarrow> ('h, (int + int \<times> replace_skip) list) sync_op" where
  "rebind_device api p version deleted pair = (case pair of (old, new) \<Rightarrow>
     if dv_id new \<notin> set deleted then pure_op [Inr (dv_id old, DuplicateKept (dv_name new) (dv_id new))]
     else rescue
       (and_then (ask (\<lambda>h. in_device api h (dv_id old))) (\<lambda>dev.
        and_then (try_host (in_replace_props api (dv_id old) (rebound_props (hv_props dev) (pl_new_node p)
            (if dv_type old = ''matterNode'' then version else None)))) (\<lambda>_.
        and_then (say (Creation (InfoRebound (dv_id old) (pl_old_node p) (pl_new_node p)))) (\<lambda>_.
          pure_op [Inl (dv_id old)]))))
       (\<lambda>e. and_then (say (Creation (WarnCannotRebind (dv_id old) e))) (\<lambda>_. pure_op [Inr (dv_id old, PropsRefused e)])))"

definition duplicates_of :: "plan \<Rightarrow> int list" where
  "duplicates_of p = fold (\<lambda>r dups. if dv_id r \<in> set dups then dups else dups @ [dv_id r])
     (pl_extra_deletes p) (map (dv_id \<circ> snd) (pl_pairs p))"

definition new_node_version :: "'h indigo \<Rightarrow> int option \<Rightarrow> ('h, string option) sync_op" where
  "new_node_version api node_dev = (case node_dev of
       None \<Rightarrow> pure_op None
     | Some d \<Rightarrow> rescue (and_then (ask (\<lambda>h. in_device api h d)) (\<lambda>dev.
           pure_op (case dget (hv_props dev) ''softwareVersion'' of PStr v \<Rightarrow> Some v | _ \<Rightarrow> None)))
         (\<lambda>e. if e = KeyError then pure_op None else raise_op e))"

definition replace_node :: "'h indigo \<Rightarrow> plan \<Rightarrow> ('h, replace_result) sync_op" where
  "replace_node api p = and_then
     (creation_suspended (pl_new_node p)
       (and_then (look (\<lambda>s. node_device_of (sy_index s) (pl_new_node p))) (\<lambda>node_dev.
        and_then (new_node_version api node_dev) (\<lambda>version.
        finally_op
          (and_then (delete_devices api (duplicates_of p) node_dev) (\<lambda>deleted.
           and_then (collect (pl_pairs p) (rebind_device api p version deleted)) (\<lambda>outcomes.
           (let rebound = List.map_filter (case_sum Some (\<lambda>_. None)) outcomes;
                skipped = List.map_filter (case_sum (\<lambda>_. None) Some) outcomes
            in and_then (in_turn
                 [when_op (list_ex (\<lambda>r. dv_type r = ''matterNode'' \<and> dv_id r \<in> set deleted) (pl_extra_deletes p))
                    (tombstones_add api NodeTombstones (pl_new_node p)),
                  when_op (rebound \<noteq> []) (tombstones_add api RetiredNodes (pl_old_node p)),
                  change (\<lambda>s. s\<lparr>sy_known := insert (pl_new_node p) (sy_known s)\<rparr>)]) (\<lambda>_.
               pure_op \<lparr>rr_rebound = rebound, rr_deleted = deleted, rr_skipped = skipped\<rparr>)))))
          (rebuild_index api)))))
     (\<lambda>result. and_then (for_each (rr_deleted result) (\<lambda>d. say (Creation (InfoDuplicateDeleted d)))) (\<lambda>_. pure_op result))"

end
