(* ===== verification/SyncMeters.thy ===== *)
theory SyncMeters
  imports SyncIndex HandlerSettings
begin

text \<open>
  \<open>device_sync.DeviceSync\<close>: the links from an endpoint that measures energy to the device the
  readings belong to, the endpoints a battery reading applies to, and the cached capabilities of
  a node with everything derived from them.

  The iteration of a set of endpoints is in insertion order. The settable-attribute report
  (\<open>settings_report.py\<close>) writes only log lines and its own preference and never raises: it is the
  host's \<open>in_survey\<close>.
\<close>

section \<open>Meter links\<close>

definition NON_DEVICE_CLUSTERS :: "int list" where
  "NON_DEVICE_CLUSTERS = [3, 4, 5, 29, 30, 40, 47, 57, 64, 65, 98, 144, 145, 156]"

definition CLUSTER_POWER_TOPOLOGY :: int where "CLUSTER_POWER_TOPOLOGY = 156"
definition ATTR_POWER_TOPOLOGY_FEATURE_MAP :: int where "ATTR_POWER_TOPOLOGY_FEATURE_MAP = 65532"
definition FEATURE_SET_TOPOLOGY :: int where "FEATURE_SET_TOPOLOGY = 4"
definition FEATURE_DYNAMIC_POWER_FLOW :: int where "FEATURE_DYNAMIC_POWER_FLOW = 8"
definition ATTR_AVAILABLE_ENDPOINTS :: int where "ATTR_AVAILABLE_ENDPOINTS = 0"
definition ATTR_ACTIVE_ENDPOINTS :: int where "ATTR_ACTIVE_ENDPOINTS = 1"

definition endpoint_by_id :: "node_info \<Rightarrow> int \<Rightarrow> endpoint_info option" where
  "endpoint_by_id node eid = find (\<lambda>e. ei_endpoint_id e = eid) (ni_endpoints node)"

definition has_meter :: "endpoint_info \<Rightarrow> bool" where
  "has_meter endpoint = (ei_has endpoint CLUSTER_ELECTRICAL_POWER \<or> ei_has endpoint CLUSTER_ELECTRICAL_ENERGY)"

definition unmapped_clusters :: "endpoint_info \<Rightarrow> int set" where
  "unmapped_clusters endpoint = ei_cluster_ids endpoint - set NON_DEVICE_CLUSTERS"

definition is_meter_source_candidate :: "endpoint_info \<Rightarrow> indigo_spec list \<Rightarrow> bool" where
  "is_meter_source_candidate endpoint specs =
     (if specs \<noteq> [] then False
      else if \<not> has_meter endpoint then False
      else if ei_endpoint_id endpoint = 0 then True
      else unmapped_clusters endpoint = {})"

definition sole :: "int set \<Rightarrow> int option" where
  "sole xs = (case sorted_list_of_set xs of [x] \<Rightarrow> Some x | _ \<Rightarrow> None)"

definition int_flags :: "pyval \<Rightarrow> int option" where
  "int_flags v = (case v of PInt n \<Rightarrow> Some n | PBool b \<Rightarrow> Some (if b then 1 else 0) | _ \<Rightarrow> None)"

text \<open>\<open>None\<close> is no link; the endpoints a source lists, when it has a readable list.\<close>

definition listed_endpoints :: "node_info \<Rightarrow> endpoint_info \<Rightarrow> int set option py_result" where
  "listed_endpoints node source =
     (let eid = ei_endpoint_id source;
          feature_map = int_flags (path_value (ni_attributes node) (eid, CLUSTER_POWER_TOPOLOGY, ATTR_POWER_TOPOLOGY_FEATURE_MAP))
      in case feature_map of
           None \<Rightarrow> Inr None
         | Some f \<Rightarrow>
             if ei_has source CLUSTER_POWER_TOPOLOGY \<and> and f FEATURE_SET_TOPOLOGY \<noteq> 0
             then (case path_value (ni_attributes node) (eid, CLUSTER_POWER_TOPOLOGY,
                       if and f FEATURE_DYNAMIC_POWER_FLOW \<noteq> 0 then ATTR_ACTIVE_ENDPOINTS else ATTR_AVAILABLE_ENDPOINTS) of
                     PList entries \<Rightarrow> py_bind (tolerant (py_map py_int entries)) (\<lambda>r. Inr (map_option set r))
                   | _ \<Rightarrow> Inr None)
             else Inr None)"

definition resolve_meter_target :: "node_info \<Rightarrow> endpoint_info \<Rightarrow> int set \<Rightarrow> int option py_result" where
  "resolve_meter_target node source capable =
     py_bind (listed_endpoints node source) (\<lambda>listed. Inr (case listed of
         Some eps \<Rightarrow> sole (eps \<inter> capable)
       | None \<Rightarrow> sole capable))"

definition meter_capable_eps :: "node_info \<Rightarrow> (int \<times> indigo_spec list) list \<Rightarrow> int set" where
  "meter_capable_eps node specs_by_ep = set (map fst (filter (\<lambda>(eid, specs).
     list_ex (\<lambda>sp. sp_device_type_id sp \<in> set METER_CAPABLE_TYPES) specs \<and>
     (case endpoint_by_id node eid of None \<Rightarrow> True | Some ep \<Rightarrow> \<not> has_meter ep)) specs_by_ep))"

definition specs_at :: "(int \<times> indigo_spec list) list \<Rightarrow> int \<Rightarrow> indigo_spec list" where
  "specs_at specs_by_ep eid = (case map_of specs_by_ep eid of None \<Rightarrow> [] | Some sp \<Rightarrow> sp)"

text \<open>The links of a node, source endpoint first, in the order of its endpoints.\<close>

definition meter_links :: "node_info \<Rightarrow> (int \<times> indigo_spec list) list \<Rightarrow> (int \<times> int) list py_result" where
  "meter_links node specs_by_ep =
     (let capable = meter_capable_eps node specs_by_ep;
          sources = filter (\<lambda>e. is_meter_source_candidate e (specs_at specs_by_ep (ei_endpoint_id e))) (ni_endpoints node)
      in py_bind (py_map (\<lambda>e. py_bind (resolve_meter_target node e capable) (\<lambda>t.
             Inr (map_option (\<lambda>target. (ei_endpoint_id e, target)) t))) sources) (\<lambda>found.
         Inr (List.map_filter id found)))"

definition reverse_of :: "int \<Rightarrow> (int \<times> int) list \<Rightarrow> ((int \<times> int) \<times> int list) list" where
  "reverse_of node_id links = fold (\<lambda>(src, target) d.
     (let before = (case map_of d (node_id, target) of None \<Rightarrow> [] | Some xs \<Rightarrow> xs)
      in AList.update (node_id, target) (if src \<in> set before then before else before @ [src]) d)) links []"

definition without_node :: "int \<Rightarrow> ((int \<times> int) \<times> 'v) list \<Rightarrow> ((int \<times> int) \<times> 'v) list" where
  "without_node node_id d = filter (\<lambda>(key, _). fst key \<noteq> node_id) d"

definition dict_join :: "('k \<times> 'v) list \<Rightarrow> ('k \<times> 'v) list \<Rightarrow> ('k \<times> 'v) list" where
  "dict_join d e = fold (\<lambda>(k, v). AList.update k v) e d"

definition resolve_meter_links :: "node_info \<Rightarrow> (int \<times> indigo_spec list) list \<Rightarrow> ('h, unit) sync_op" where
  "resolve_meter_links node specs_by_ep =
     (let nid = ni_node_id node
      in and_then (change (\<lambda>s. s\<lparr>sy_forward := without_node nid (sy_forward s),
                                 sy_reverse := without_node nid (sy_reverse s)\<rparr>)) (\<lambda>_.
         and_then (computed (meter_links node specs_by_ep)) (\<lambda>links.
           change (\<lambda>s. s\<lparr>sy_forward := dict_join (sy_forward s) (dict_join [] (map (\<lambda>(src, t). ((nid, src), t)) links)),
                         sy_reverse := dict_join (sy_reverse s) (reverse_of nid links)\<rparr>))))"

section \<open>Battery routing\<close>

definition battery_endpoints :: "'h sync \<Rightarrow> int \<Rightarrow> int set" where
  "battery_endpoints s node_id = (case map_of (sy_coverage s) node_id of
       None \<Rightarrow> {} | Some by_source \<Rightarrow> \<Union> (set (map snd by_source)))"

definition battery_targets :: "'h sync \<Rightarrow> int \<Rightarrow> int \<Rightarrow> int set option" where
  "battery_targets s node_id source_ep = (case map_of (sy_coverage s) node_id of
       None \<Rightarrow> None
     | Some by_source \<Rightarrow>
         if by_source = [] then None
         else (case map_of by_source source_ep of
                 Some targets \<Rightarrow> Some targets
               | None \<Rightarrow> if 1 < length by_source then Some {source_ep} else None))"

definition warn_excluded :: "'h indigo \<Rightarrow> int \<Rightarrow> int \<times> int \<Rightarrow> ('h, unit) sync_op" where
  "warn_excluded api node_id x = (case x of (eid, dev_id) \<Rightarrow>
     and_then (look sy_battery_warned) (\<lambda>warned.
       if (node_id, dev_id) \<in> warned then pure_op ()
       else and_then (ask (\<lambda>h. case in_device api h dev_id of
                Inr dev \<Rightarrow> Inr (Some dev) | Inl e \<Rightarrow> if e = KeyError then Inr None else Inl e)) (\<lambda>found. case found of
              None \<Rightarrow> pure_op ()
            | Some dev \<Rightarrow> when_op (truthy (dget (hv_props dev) ''SupportsBatteryLevel'')) (in_turn
                [change (\<lambda>s. s\<lparr>sy_battery_warned := insert (node_id, dev_id) (sy_battery_warned s)\<rparr>),
                 say (Creation (InfoBatteryExcluded node_id eid dev_id))]))))"

definition warn_of_newly_excluded :: "'h indigo \<Rightarrow> node_info \<Rightarrow> power_coverage \<Rightarrow> ('h, unit) sync_op" where
  "warn_of_newly_excluded api node coverage =
     rescue (and_then (look (\<lambda>s. concat (map (\<lambda>((nid, eid), m).
         if nid = ni_node_id node \<and> eid \<in> set (map ei_endpoint_id (ni_endpoints node)) \<and> eid \<notin> pc_covered coverage
         then map (\<lambda>(t, d). (eid, d)) m else []) (sy_index s))))
       (\<lambda>excluded. for_each excluded (warn_excluded api (ni_node_id node)))) (\<lambda>e. pure_op ())"

section \<open>Capabilities\<close>

definition wanted_limits :: "(int \<times> int) list" where
  "wanted_limits = List.map_filter (\<lambda>s. case ds_bounds s of
     FromAttribute a _ \<Rightarrow> Some (ds_cluster s, a) | _ \<Rightarrow> None) SETTINGS"

definition cache_setting_limits :: "node_info \<Rightarrow> ('h, bool) sync_op" where
  "cache_setting_limits node =
     (let nid = ni_node_id node;
          is_limit = (\<lambda>(ep, cluster, attribute). (cluster, attribute) \<in> set wanted_limits);
          is_list = (\<lambda>(ep, cluster, attribute). attribute = ATTR_ATTRIBUTE_LIST \<and> cluster \<in> set (map ds_cluster SETTINGS));
          limits = map (\<lambda>((ep, cluster, attribute), v). ((nid, ep, cluster, attribute), v))
                     (filter (is_limit \<circ> fst) (ni_attributes node));
          capability_lists = map (\<lambda>((ep, cluster, attribute), v). ((nid, ep, cluster), v))
                     (filter (\<lambda>(path, v). \<not> is_limit path \<and> is_list path) (ni_attributes node))
      in and_then (look (\<lambda>s. filter (\<lambda>(k, v). fst k = nid) (sy_lists s))) (\<lambda>previous.
         and_then (change (\<lambda>s. s\<lparr>sy_limits := filter (\<lambda>(k, v). fst k \<noteq> nid) (sy_limits s) @ limits,
                                 sy_lists := filter (\<lambda>(k, v). fst k \<noteq> nid) (sy_lists s) @ capability_lists\<rparr>)) (\<lambda>_.
         pure_op (\<not> same_dict (capability_fingerprint capability_lists) (capability_fingerprint previous)))))"

definition offered_setting_pairs :: "'h sync \<Rightarrow> int \<Rightarrow> int \<Rightarrow> (int \<times> int) set" where
  "offered_setting_pairs s node_id endpoint_id = set (concat (map (\<lambda>t.
     if t = [] then [] else map (\<lambda>st. (ds_cluster st, ds_attribute st)) (settings_for_type t))
     (map fst (types_at (sy_index s) (node_id, endpoint_id)))))"

definition device_names :: "'h indigo \<Rightarrow> 'h sync \<Rightarrow> int \<Rightarrow> int \<Rightarrow> string list" where
  "device_names api s node_id endpoint_id =
     List.map_filter (\<lambda>d. case in_device api (sy_host s) d of Inr dev \<Rightarrow> Some (hv_name dev) | Inl e \<Rightarrow> None)
       (sorted_list_of_set (set (map snd (types_at (sy_index s) (node_id, endpoint_id)))))"

definition report_settable_attributes :: "'h indigo \<Rightarrow> node_info \<Rightarrow> ('h, unit) sync_op" where
  "report_settable_attributes api node = change (\<lambda>s. s\<lparr>sy_host := in_survey api node (sy_host s)\<rparr>)"

definition forget_node_capabilities :: "'h indigo \<Rightarrow> int \<Rightarrow> ('h, unit) sync_op" where
  "forget_node_capabilities api node_id = in_turn
     [change (\<lambda>s. s\<lparr>sy_limits := filter (\<lambda>(k, v). fst k \<noteq> node_id) (sy_limits s),
                    sy_lists := filter (\<lambda>(k, v). fst k \<noteq> node_id) (sy_lists s),
                    sy_forward := without_node node_id (sy_forward s),
                    sy_reverse := without_node node_id (sy_reverse s),
                    sy_redundant_meter := {k \<in> sy_redundant_meter s. fst k \<noteq> node_id}\<rparr>),
      change (\<lambda>s. s\<lparr>sy_host := in_forget_survey api node_id (sy_host s)\<rparr>),
      tombstones_forget api NodeTombstones node_id,
      tombstones_forget api RetiredNodes node_id]"

text \<open>Whether every state list could be rebuilt; a device that is gone counts as done.\<close>

fun rebuild_state_lists :: "'h indigo \<Rightarrow> int list \<Rightarrow> ('h, bool) sync_op" where
  "rebuild_state_lists api [] = pure_op True"
| "rebuild_state_lists api (d # ds) =
     and_then (rescue (and_then (ask (\<lambda>h. in_device api h d)) (\<lambda>_.
                 and_then (try_host (in_states_changed api d)) (\<lambda>_. pure_op True)))
               (\<lambda>e. if e = KeyError then pure_op True
                    else and_then (say (WarnStateList d e)) (\<lambda>_. pure_op False))) (\<lambda>b.
     and_then (rebuild_state_lists api ds) (\<lambda>bs. pure_op (b \<and> bs)))"

definition refresh_state_lists :: "'h indigo \<Rightarrow> int \<Rightarrow> ('h, unit) sync_op" where
  "refresh_state_lists api node_id =
     and_then (look (\<lambda>s. ids_where (\<lambda>k. fst k = node_id) (sy_index s))) (\<lambda>dev_ids.
     and_then (rebuild_state_lists api dev_ids) (\<lambda>complete.
       when_op complete (change (\<lambda>s. s\<lparr>sy_pending_refresh := sy_pending_refresh s - {node_id}\<rparr>))))"

definition setting_limits :: "'h sync \<Rightarrow> int \<Rightarrow> int \<Rightarrow> int \<Rightarrow> int \<Rightarrow> pyval" where
  "setting_limits s node_id endpoint_id cluster attribute =
     (case map_of (sy_limits s) (node_id, endpoint_id, cluster, attribute) of None \<Rightarrow> PNone | Some v \<Rightarrow> v)"

definition attribute_list :: "'h sync \<Rightarrow> int \<Rightarrow> int \<Rightarrow> int \<Rightarrow> pyval" where
  "attribute_list s node_id endpoint_id cluster =
     (case map_of (sy_lists s) (node_id, endpoint_id, cluster) of None \<Rightarrow> PNone | Some v \<Rightarrow> v)"

definition sensitivity_levels_supported :: "'h sync \<Rightarrow> int \<Rightarrow> int \<Rightarrow> int option py_result" where
  "sensitivity_levels_supported s node_id endpoint_id =
     (let raw = setting_limits s node_id endpoint_id CLUSTER_BOOLEAN_STATE_CONFIG 1
      in if raw = PNone then Inr None else tolerant (py_int raw))"

definition PROP_SWITCH_FEATURES :: string where "PROP_SWITCH_FEATURES = ''switchFeatureMap''"

definition capability_props :: "'h sync \<Rightarrow> node_info \<Rightarrow> endpoint_info \<Rightarrow> pydict" where
  "capability_props s node endpoint =
     (let key = (ni_node_id node, ei_endpoint_id endpoint);
          sources = List.map_filter (endpoint_by_id node)
            (case map_of (sy_reverse s) key of None \<Rightarrow> [] | Some eids \<Rightarrow> eids);
          meters = fold (\<lambda>src d. dict_over d (meter_props src)) sources (meter_props endpoint);
          battery = (if ei_endpoint_id endpoint \<in> battery_endpoints s (ni_node_id node)
                     then AList.update ''SupportsBatteryLevel'' (PBool True) meters else meters)
      in if ei_has endpoint CLUSTER_SWITCH
         then (case switch_features node endpoint of
                 Some f \<Rightarrow> if f \<noteq> 0 then AList.update PROP_SWITCH_FEATURES (PStr (str_of_int f)) battery else battery
               | None \<Rightarrow> battery)
         else battery)"

end
