(* ===== verification/SyncNaming.thy ===== *)
theory SyncNaming
  imports SyncMeters
begin

text \<open>
  \<open>device_sync.DeviceSync\<close>: creating one device, its name and folder, the name its family agrees
  on, the true-up of names that the plugin generated, and the device group of a node.

  The retry of \<open>moveToFolder\<close> with the older signature is part of the host's call. A \<open>nodeBaseName\<close>
  is a text or absent.
\<close>

section \<open>Writing to a device\<close>

definition apply_states :: "'h indigo \<Rightarrow> int \<Rightarrow> state_write list \<Rightarrow> ('h, unit) sync_op" where
  "apply_states api dev_id kvlist =
     and_then (ask (\<lambda>h. case in_device api h dev_id of
         Inr dev \<Rightarrow> Inr (Some dev) | Inl e \<Rightarrow> if e = KeyError then Inr None else Inl e)) (\<lambda>found. case found of
       None \<Rightarrow> pure_op ()
     | Some dev \<Rightarrow> in_turn [try_host (in_update_states api dev_id kvlist),
                     when_op (hv_error dev \<noteq> []) (try_host (in_set_error api dev_id []))])"

definition kvlist_of :: "pydict \<Rightarrow> state_write list" where
  "kvlist_of states = map WriteEntry (plain_kv states)"

definition existing_name :: "'h indigo \<Rightarrow> string \<Rightarrow> ('h, string) sync_op" where
  "existing_name api name = and_then (ask (in_all api)) (\<lambda>devs. pure_op (unique_name (map hv_name devs) name))"

definition setdefault :: "string \<Rightarrow> pyval \<Rightarrow> pydict \<Rightarrow> pydict" where
  "setdefault k v d = (if map_of d k = None then d @ [(k, v)] else d)"

text \<open>The device that came into being, if any. The seed states are written twice: all of them with any
  refusal absorbed, then \<open>reachable\<close> again with its display text.\<close>

definition seed_states :: "'h indigo \<Rightarrow> int \<Rightarrow> pydict \<Rightarrow> ('h, unit) sync_op" where
  "seed_states api dev_id states = when_op (states \<noteq> []) (in_turn
     [rescue (try_host (in_update_states api dev_id (kvlist_of states))) (\<lambda>e. pure_op ()),
      (case map_of states ''reachable'' of
         None \<Rightarrow> pure_op ()
       | Some v \<Rightarrow> apply_states api dev_id [WriteReachable (truthy v)])])"

definition create_one :: "'h indigo \<Rightarrow> indigo_spec \<Rightarrow> string \<Rightarrow> int \<Rightarrow> string \<Rightarrow> ('h, int option) sync_op" where
  "create_one api spec name folder_id model =
     (let props = setdefault ''createdTypeId'' (PStr (sp_device_type_id spec)) (sp_props spec)
      in and_then (rescue (and_then (existing_name api name) (\<lambda>free.
           call_host (in_create api (sp_device_type_id spec) free props folder_id)))
             (\<lambda>e. pure_op (Inl (CreateRaised e)))) (\<lambda>made. case made of
           Inl NameNotUnique \<Rightarrow> and_then (say (Creation (WarnNameTaken name))) (\<lambda>_. pure_op None)
         | Inl (CreateRaised e) \<Rightarrow> and_then (say (Creation (LogCreateFailed e))) (\<lambda>_. pure_op None)
         | Inr dev \<Rightarrow> and_then (in_turn
             [when_op (model \<noteq> []) (rescue (try_host (in_set_model api (hv_id dev) model)) (\<lambda>e. pure_op ())),
              seed_states api (hv_id dev) (sp_initial_states spec)]) (\<lambda>_. pure_op (Some (hv_id dev)))))"

definition resolve_folder_id :: "'h indigo \<Rightarrow> string \<Rightarrow> ('h, int) sync_op" where
  "resolve_folder_id api room =
     (let name = str_strip room
      in if name = [] then pure_op 0
         else rescue (and_then (ask (in_folders api)) (\<lambda>folders.
                case find (\<lambda>f. snd f = name) folders of
                  Some f \<Rightarrow> pure_op (fst f)
                | None \<Rightarrow> try_host (in_new_folder api name)))
              (\<lambda>e. and_then (say (WarnFolder name)) (\<lambda>_. pure_op 0)))"

definition move_to_folder :: "'h indigo \<Rightarrow> bool \<Rightarrow> int \<Rightarrow> int \<Rightarrow> ('h, unit) sync_op" where
  "move_to_folder api dedup dev_id folder_id =
     rescue (try_host (in_move api dev_id folder_id)) (\<lambda>e. warn_once_if dedup dev_id KindFolder)"

text \<open>A device as it is read: \<open>None\<close> when the caller is done with it (gone, or unreadable with a
  warning).\<close>

definition read_device :: "'h indigo \<Rightarrow> warn_kind \<Rightarrow> int \<Rightarrow> ('h, host_dev option) sync_op" where
  "read_device api kind dev_id = rescue (and_then (ask (\<lambda>h. in_device api h dev_id)) (\<lambda>dev. pure_op (Some dev)))
     (\<lambda>e. if e = KeyError then pure_op None else and_then (group_warn dev_id kind) (\<lambda>_. pure_op None))"

definition apply_identity :: "'h indigo \<Rightarrow> bool \<Rightarrow> int \<Rightarrow> string \<Rightarrow> int \<Rightarrow> ('h, bool) sync_op" where
  "apply_identity api dedup dev_id name folder_id =
     and_then (read_device api KindIdentity dev_id) (\<lambda>found. case found of
       None \<Rightarrow> pure_op False
     | Some dev \<Rightarrow>
         and_then (rescue
           (and_then (if hv_name dev = name then pure_op name else existing_name api name) (\<lambda>target.
            and_then (when_op (hv_name dev \<noteq> target) (try_host (in_rename api dev_id target))) (\<lambda>_.
              pure_op (target = name))))
           (\<lambda>e. and_then (warn_once_if dedup dev_id KindRename) (\<lambda>_. pure_op False))) (\<lambda>renamed.
         and_then (when_op (folder_id \<noteq> 0 \<and> hv_folder dev \<noteq> folder_id) (move_to_folder api dedup dev_id folder_id)) (\<lambda>_.
           pure_op renamed)))"

section \<open>Specifications of the devices of the module\<close>

definition ELECTRICAL_MERGE_CLUSTERS :: "int list" where "ELECTRICAL_MERGE_CLUSTERS = [144, 145, 156]"

definition hex_list :: "int list \<Rightarrow> string" where
  "hex_list cs = concat (case map (\<lambda>c. ''0x'' @ hex4 c) cs of
     [] \<Rightarrow> [] | x # xs \<Rightarrow> x # map (\<lambda>y. '', '' @ y) xs)"

definition unknown_spec :: "node_info \<Rightarrow> endpoint_info \<Rightarrow> indigo_spec option" where
  "unknown_spec node endpoint =
     (if ei_endpoint_id endpoint = 0 then None
      else (let unmapped = sorted_list_of_set (unmapped_clusters endpoint);
                merge_only = sorted_list_of_set (ei_cluster_ids endpoint \<inter> set ELECTRICAL_MERGE_CLUSTERS);
                supported = hex_list unmapped @ (if merge_only = [] then []
                  else '' (endpoint also exposes merge-only '' @ hex_list merge_only @ '')'')
            in if unmapped = [] then None
               else Some \<lparr>sp_device_type_id = ''matterUnknown'', sp_name = device_name ''Matter '' node,
                          sp_props = dict_over (base_props node endpoint) [(''supportedClusters'', PStr supported)],
                          sp_initial_states = [(''reachable'', PBool True)]\<rparr>))"

definition energy_meter_spec :: "node_info \<Rightarrow> endpoint_info \<Rightarrow> indigo_spec" where
  "energy_meter_spec node endpoint =
     \<lparr>sp_device_type_id = ''matterEnergyMeter'', sp_name = device_name ''Matter '' node,
      sp_props = base_props node endpoint,
      sp_initial_states = [(''curEnergyLevel'', PFloat (Fin 0)), (''accumEnergyTotal'', PFloat (Fin 0)),
                           (''reachable'', PBool True)]\<rparr>"

definition node_spec :: "node_info \<Rightarrow> power_coverage \<Rightarrow> string option \<Rightarrow> indigo_spec" where
  "node_spec node coverage base_name =
     (let name = (case base_name of Some (c # b) \<Rightarrow> c # b | _ \<Rightarrow> device_name ''Matter '' node)
      in \<lparr>sp_device_type_id = ''matterNode'', sp_name = name,
          sp_props = [(''nodeId'', PStr (str_of_int (ni_node_id node))), (''endpointId'', PStr ''0''),
             (''address'', PStr (node_id_to_str (NInt (ni_node_id node)))),
             (''vendorName'', PStr (ni_vendor_name node)), (''productName'', PStr (ni_product_name node)),
             (''softwareVersion'', PStr (ni_sw_version node)), (''nodeBaseName'', PStr name)]
             @ (if 0 \<in> pc_covered coverage then [(''SupportsBatteryLevel'', PBool True)] else []),
          sp_initial_states = [(''reachable'', PBool True), (''softwareVersion'', PStr (ni_sw_version node))]\<rparr>)"

section \<open>Family names\<close>

definition fallback_base :: "node_info \<Rightarrow> string" where
  "fallback_base node = (if ni_product_name node \<noteq> [] then ni_product_name node
     else ''Matter '' @ str_of_int (ni_node_id node))"

definition family_entries :: "dev_index \<Rightarrow> int \<Rightarrow> (int \<times> string) list" where
  "family_entries ix node_id = map (\<lambda>(eid, t, d). (d, t)) (filter (\<lambda>x. fst x \<noteq> 0) (node_entries ix node_id))"

text \<open>The vote of a device: whether it is strong, and its base.\<close>

definition name_vote :: "string \<Rightarrow> string \<Rightarrow> string \<Rightarrow> (bool \<times> string) option" where
  "name_vote fallback type_id name = (case generated_base name (label_of_type type_id) of
       None \<Rightarrow> if fallback \<noteq> [] \<and> name = fallback then Some (False, fallback) else None
     | Some b \<Rightarrow> Some (b \<noteq> fallback, b))"

definition agreed_base :: "(bool \<times> string) list \<Rightarrow> string option" where
  "agreed_base votes = (let strong = remdups (map snd (filter fst votes));
                            weak = remdups (map snd (filter (\<lambda>v. \<not> fst v) votes))
     in case strong of
          [b] \<Rightarrow> Some b
        | [] \<Rightarrow> (case weak of [w] \<Rightarrow> Some w | _ \<Rightarrow> None)
        | _ \<Rightarrow> None)"

definition derive_family_base :: "'h indigo \<Rightarrow> 'h sync \<Rightarrow> node_info \<Rightarrow> string option" where
  "derive_family_base api s node = agreed_base (List.map_filter (\<lambda>(d, t).
     case in_device api (sy_host s) d of
       Inl e \<Rightarrow> None | Inr dev \<Rightarrow> name_vote (fallback_base node) t (hv_name dev))
     (family_entries (sy_index s) (ni_node_id node)))"

definition true_up_endpoint_name ::
  "'h indigo \<Rightarrow> int \<Rightarrow> string \<Rightarrow> string \<Rightarrow> string \<Rightarrow> string \<Rightarrow> ('h, unit) sync_op" where
  "true_up_endpoint_name api dev_id target derived_base fallback role =
     and_then (read_device api KindTrueupName dev_id) (\<lambda>found. case found of
       None \<Rightarrow> pure_op ()
     | Some dev \<Rightarrow>
         if hv_name dev = target then pure_op ()
         else if \<not> is_generated_name (hv_name dev) derived_base role
                 \<and> \<not> is_generated_name (hv_name dev) fallback role then pure_op ()
         else and_then (existing_name api target) (\<lambda>free.
           if free \<noteq> target then pure_op ()
           else and_then (apply_identity api True dev_id target 0) (\<lambda>_. pure_op ())))"

text \<open>The folder of the first sibling that has one.\<close>

fun first_folder :: "'h indigo \<Rightarrow> int list \<Rightarrow> ('h, int) sync_op" where
  "first_folder api [] = pure_op 0"
| "first_folder api (d # ds) =
     and_then (ask (\<lambda>h. case in_device api h d of
         Inr dev \<Rightarrow> Inr (hv_folder dev)
       | Inl e \<Rightarrow> if e \<in> {KeyError, AttributeError, TypeError, ValueError} then Inr 0 else Inl e)) (\<lambda>f.
       if f \<noteq> 0 then pure_op f else first_folder api ds)"

definition sibling_folder_id :: "'h indigo \<Rightarrow> int \<Rightarrow> ('h, int) sync_op" where
  "sibling_folder_id api node_id =
     and_then (look (\<lambda>s. ids_where (\<lambda>k. fst k = node_id \<and> snd k \<noteq> 0) (sy_index s))) (first_folder api)"

definition adopt_folder :: "'h indigo \<Rightarrow> host_dev \<Rightarrow> int \<Rightarrow> int \<Rightarrow> int \<Rightarrow> ('h, unit) sync_op" where
  "adopt_folder api dev dev_id node_id folder_id = when_op (hv_folder dev = 0)
     (rescue (and_then (if folder_id \<noteq> 0 then pure_op folder_id else sibling_folder_id api node_id) (\<lambda>target.
        when_op (target \<noteq> 0) (move_to_folder api True dev_id target))) (\<lambda>e. pure_op ()))"

definition stamped_base :: "host_dev \<Rightarrow> string \<Rightarrow> string" where
  "stamped_base dev fallback = (case dget (hv_props dev) ''nodeBaseName'' of PStr (c # b) \<Rightarrow> c # b | _ \<Rightarrow> fallback)"

text \<open>Whether the node device may be stamped: it has the name, or was given it just now.\<close>

definition rename_node_device :: "'h indigo \<Rightarrow> host_dev \<Rightarrow> int \<Rightarrow> string \<Rightarrow> string \<Rightarrow> ('h, bool) sync_op" where
  "rename_node_device api dev dev_id derived_base fallback =
     (if hv_name dev = derived_base then pure_op True
      else if \<not> is_generated_name (hv_name dev) (stamped_base dev fallback) [] then pure_op False
      else and_then (existing_name api derived_base) (\<lambda>free.
        if free \<noteq> derived_base then pure_op False
        else apply_identity api True dev_id derived_base 0))"

definition true_up_node_device ::
  "'h indigo \<Rightarrow> int \<Rightarrow> node_info \<Rightarrow> string option \<Rightarrow> int \<Rightarrow> ('h, unit) sync_op" where
  "true_up_node_device api dev_id node derived_base folder_id =
     and_then (read_device api KindTrueupNode dev_id) (\<lambda>found. case found of
       None \<Rightarrow> pure_op ()
     | Some dev \<Rightarrow> and_then (adopt_folder api dev dev_id (ni_node_id node) folder_id) (\<lambda>_.
         case derived_base of
           Some (c # b) \<Rightarrow> and_then (rename_node_device api dev dev_id (c # b) (fallback_base node)) (\<lambda>named.
             when_op (named \<and> dget (hv_props dev) ''nodeBaseName'' \<noteq> PStr (c # b))
               (rescue (try_host (in_replace_props api dev_id
                   (AList.update ''nodeBaseName'' (PStr (c # b)) (hv_props dev))))
                 (\<lambda>e. group_warn dev_id KindRestamp)))
         | _ \<Rightarrow> pure_op ()))"

section \<open>Device groups\<close>

definition group_and_verify :: "'h indigo \<Rightarrow> int \<Rightarrow> int \<Rightarrow> int \<Rightarrow> int \<Rightarrow> ('h, unit) sync_op" where
  "group_and_verify api dev_id node_dev_id fst_id snd_id =
     and_then (rescue (and_then (try_host (in_group_with api fst_id snd_id)) (\<lambda>_. pure_op True))
       (\<lambda>e. and_then (group_warn dev_id KindGroup) (\<lambda>_. pure_op False))) (\<lambda>grouped.
     when_op grouped
       (and_then (rescue (and_then (ask (\<lambda>h. in_group_list api h dev_id)) (\<lambda>g. pure_op (Some g))) (\<lambda>e. pure_op None))
         (\<lambda>after. case after of
            None \<Rightarrow> pure_op ()
          | Some g \<Rightarrow> when_op (node_dev_id \<notin> set g) (group_warn dev_id KindVerify))))"

definition ensure_grouped :: "'h indigo \<Rightarrow> int \<Rightarrow> int \<Rightarrow> int set \<Rightarrow> ('h, unit) sync_op" where
  "ensure_grouped api dev_id node_dev_id family =
     (if dev_id = node_dev_id then pure_op ()
      else and_then (rescue (and_then (ask (\<lambda>h. in_group_list api h dev_id)) (\<lambda>g. pure_op (Some g))) (\<lambda>e. pure_op None))
        (\<lambda>read. case read of
           None \<Rightarrow> pure_op ()
         | Some g \<Rightarrow>
             if node_dev_id \<in> set g then pure_op ()
             else if 1 < length g then
               (if set g \<subseteq> family then
                  and_then (rescue (and_then (ask (\<lambda>h. in_group_list api h node_dev_id)) (\<lambda>n. pure_op (Some n)))
                    (\<lambda>e. pure_op None)) (\<lambda>node_group. case node_group of
                      None \<Rightarrow> pure_op ()
                    | Some n \<Rightarrow> if 1 < length n then pure_op ()
                                else group_and_verify api dev_id node_dev_id node_dev_id dev_id)
                else group_warn dev_id KindForeign)
             else group_and_verify api dev_id node_dev_id dev_id node_dev_id))"

end
