(* ===== verification/SyncCreate.thy ===== *)
theory SyncCreate
  imports SyncNaming
begin

text \<open>
  \<open>device_sync.DeviceSync.create_devices\<close>: the pass that creates the devices of a node, with the
  priming of a device from the node's attributes and the synthetic node device.

  The members of a node's family are grouped in increasing order of their ids.
\<close>

section \<open>Priming\<close>

definition run_update :: "platform \<Rightarrow> handler_class \<Rightarrow> host_dev \<Rightarrow> int \<Rightarrow> pyval \<Rightarrow> ('h, pydict) sync_op" where
  "run_update pf h dev attribute v s = (case on_attribute_update pf h (hv_dev dev) attribute v (sy_cache s) of
     (r, c) \<Rightarrow> (r, s\<lparr>sy_cache := c\<rparr>))"

text \<open>The handler that primes a device with an attribute, if any does.\<close>

definition primes :: "'h sync \<Rightarrow> int \<Rightarrow> int \<Rightarrow> string \<Rightarrow> string set \<Rightarrow> attr_path \<Rightarrow> handler_class option" where
  "primes s node_id endpoint_id own_type siblings path = (case path of (ep, cluster, attribute) \<Rightarrow>
     (case handler_for_cluster cluster of
        None \<Rightarrow> None
      | Some h \<Rightarrow>
          if ep = endpoint_id \<and> ep = 0 \<and> map_of (sy_forward s) (node_id, endpoint_id) \<noteq> None \<and> meter_cluster cluster
          then None
          else if ep \<noteq> endpoint_id \<and> \<not> node_scoped h
             \<and> ep \<notin> set (case map_of (sy_reverse s) (node_id, endpoint_id) of None \<Rightarrow> [] | Some src \<Rightarrow> src)
          then None
          else if ep \<noteq> endpoint_id \<and> node_scoped h
             \<and> (case battery_targets s node_id ep of None \<Rightarrow> False | Some ts \<Rightarrow> endpoint_id \<notin> ts)
          then None
          else if ep = endpoint_id \<and> \<not> node_scoped h \<and> device_type_id h \<noteq> [] \<and> device_type_id h \<noteq> own_type
             \<and> device_type_id h \<in> siblings
          then None
          else Some h))"

definition prime_states :: "'h indigo \<Rightarrow> node_info \<Rightarrow> int \<Rightarrow> int \<Rightarrow> string \<Rightarrow> string set \<Rightarrow> ('h, unit) sync_op" where
  "prime_states api node dev_id endpoint_id own_type siblings =
     and_then (ask (\<lambda>h. in_device api h dev_id)) (\<lambda>dev.
     and_then (collect (ni_attributes node) (\<lambda>(path, v).
         and_then (look (\<lambda>s. primes s (ni_node_id node) endpoint_id own_type siblings path)) (\<lambda>found. case found of
           None \<Rightarrow> pure_op []
         | Some h \<Rightarrow> rescue
             (and_then (run_update (in_platform api) h dev (snd (snd path)) v) (\<lambda>upd.
                pure_op (map WriteEntry (format_kv h upd))))
             (\<lambda>e. and_then (say (WarnPrime dev_id (fst (snd path)) (snd (snd path)))) (\<lambda>_. pure_op []))))) (\<lambda>kv.
       when_op (kv \<noteq> []) (apply_states api dev_id kv)))"

section \<open>The node device\<close>

text \<open>Only a node whose own list of attributes names one of two mandatory attributes gets its device.\<close>

definition make_node_device ::
  "'h indigo \<Rightarrow> node_info \<Rightarrow> power_coverage \<Rightarrow> int \<Rightarrow> string \<Rightarrow> string option \<Rightarrow> ('h, int option) sync_op" where
  "make_node_device api node coverage folder_id model derived_base =
     (let nid = ni_node_id node; spec = node_spec node coverage derived_base;
          attribute_ids = path_value (ni_attributes node) (0, BASIC_INFO, ATTR_ATTRIBUTE_LIST)
      in and_then (computed (implements attribute_ids 5)) (\<lambda>has_label.
         and_then (computed (implements attribute_ids 10)) (\<lambda>has_version.
         if has_label \<noteq> Some True \<and> has_version \<noteq> Some True
         then and_then (look (\<lambda>s. nid \<in> sy_nonconformant s)) (\<lambda>said.
              and_then (when_op (has_label = Some False \<and> has_version = Some False \<and> \<not> said) (in_turn
                [change (\<lambda>s. s\<lparr>sy_nonconformant := insert nid (sy_nonconformant s)\<rparr>),
                 say (Creation (InfoNonConformant nid))])) (\<lambda>_. pure_op None))
         else and_then (if folder_id = 0 then sibling_folder_id api nid else pure_op folder_id) (\<lambda>folder.
              and_then (create_one api spec (sp_name spec) folder model) (\<lambda>made. case made of
                None \<Rightarrow> pure_op None
              | Some d \<Rightarrow> and_then (in_turn
                  [change (\<lambda>s. s\<lparr>sy_index := index_put (nid, 0) ''matterNode'' d (sy_index s)\<rparr>),
                   prime_states api node d 0 ''matterNode'' {''matterNode''},
                   say (Creation (InfoNodeDevice nid d))]) (\<lambda>_. pure_op (Some d)))))))"

definition ensure_node_device ::
  "'h indigo \<Rightarrow> node_info \<Rightarrow> power_coverage \<Rightarrow> int \<Rightarrow> string \<Rightarrow> bool \<Rightarrow> string option \<Rightarrow> ('h, int option) sync_op" where
  "ensure_node_device api node coverage folder_id model planned derived_base =
     and_then (look (\<lambda>s. (node_device_of (sy_index s) (ni_node_id node), is_tombstoned NodeTombstones (ni_node_id node) s)))
       (\<lambda>(existing, dead). case existing of
          Some d \<Rightarrow> and_then (true_up_node_device api d node derived_base folder_id) (\<lambda>_. pure_op (Some d))
        | None \<Rightarrow> if dead \<or> \<not> planned then pure_op None
                  else make_node_device api node coverage folder_id model derived_base)"

section \<open>The plan\<close>

definition recognized_clusters :: "int list" where
  "recognized_clusters = map cluster_id default_handlers @ NON_DEVICE_CLUSTERS"

text \<open>The specs of an endpoint no handler claims: an energy meter, a placeholder or none.\<close>

definition orphan_specs :: "'h indigo \<Rightarrow> node_info \<Rightarrow> endpoint_info \<Rightarrow> ('h, indigo_spec list) sync_op" where
  "orphan_specs api node endpoint =
     (let eid = ei_endpoint_id endpoint; key = (ni_node_id node, eid)
      in if is_meter_source_candidate endpoint []
         then and_then (look (\<lambda>s. (map_of (sy_forward s) key, key \<in> sy_redundant_meter s,
                                   map_of (types_at (sy_index s) key) ''matterEnergyMeter''))) (\<lambda>(linked, said, meter_dev).
           if eid \<noteq> 0 \<and> linked = None then pure_op [energy_meter_spec node endpoint]
           else and_then (when_op (eid \<noteq> 0 \<and> \<not> said \<and> meter_dev \<noteq> None) (in_turn
             [change (\<lambda>s. s\<lparr>sy_redundant_meter := insert key (sy_redundant_meter s)\<rparr>),
              say (Creation (InfoRedundantMeter (ni_node_id node) eid))])) (\<lambda>_. pure_op []))
         else pure_op (case unknown_spec node endpoint of None \<Rightarrow> [] | Some sp \<Rightarrow> [sp]))"

definition decorate :: "'h sync \<Rightarrow> node_info \<Rightarrow> power_coverage \<Rightarrow> int \<Rightarrow> indigo_spec \<Rightarrow> indigo_spec" where
  "decorate s node coverage eid spec =
     (let battery = (if eid \<in> pc_covered coverage then setdefault ''SupportsBatteryLevel'' (PBool True) (sp_props spec)
                     else sp_props spec);
          sources = List.map_filter (endpoint_by_id node)
            (case map_of (sy_reverse s) (ni_node_id node, eid) of None \<Rightarrow> [] | Some eids \<Rightarrow> eids)
      in spec\<lparr>sp_props := (if sp_device_type_id spec \<in> set METER_CAPABLE_TYPES
           then fold (\<lambda>(k, v). setdefault k v) (concat (map meter_props sources)) battery else battery)\<rparr>)"

definition plan_endpoint ::
  "'h indigo \<Rightarrow> node_info \<Rightarrow> power_coverage \<Rightarrow> endpoint_info \<Rightarrow> ('h, (endpoint_info \<times> indigo_spec) list) sync_op" where
  "plan_endpoint api node coverage endpoint =
     (let eid = ei_endpoint_id endpoint; raw_specs = handlers_for_endpoint node endpoint;
          leftover = sorted_list_of_set (ei_cluster_ids endpoint - set recognized_clusters)
      in and_then (look (\<lambda>s. map_of (types_at (sy_index s) (ni_node_id node, eid)) ''matterUnknown'')) (\<lambda>placeholder.
         and_then (if raw_specs = [] then orphan_specs api node endpoint
           else and_then (when_op (leftover \<noteq> []) (say (Creation (InfoLeftoverClusters (ni_node_id node) eid leftover))))
             (\<lambda>_. pure_op raw_specs)) (\<lambda>specs.
         and_then (when_op (placeholder \<noteq> None \<and> placeholder \<noteq> Some 0
             \<and> \<not> list_ex (\<lambda>sp. sp_device_type_id sp = ''matterUnknown'') specs)
           (say (Creation (InfoPlaceholderObsolete (ni_node_id node) eid)))) (\<lambda>_.
         and_then (look (\<lambda>s. map (decorate s node coverage eid) specs)) (\<lambda>done_specs.
           pure_op (map (\<lambda>sp. (endpoint, sp)) done_specs))))))"

definition aggregators :: "node_info \<Rightarrow> int list" where
  "aggregators node = map ei_endpoint_id (filter (\<lambda>e. 14 \<in> set (ei_device_types e)) (ni_endpoints node))"

definition role_count :: "(endpoint_info \<times> indigo_spec) list \<Rightarrow> string \<Rightarrow> nat" where
  "role_count plan role = length (filter (\<lambda>(_, sp). label_of_type (sp_device_type_id sp) = role) plan)"

definition bridge_label :: "endpoint_info \<Rightarrow> string" where
  "bridge_label endpoint = (if ei_node_label endpoint \<noteq> [] then ei_node_label endpoint else ei_product_name endpoint)"

definition base_given :: "string option \<Rightarrow> bool" where
  "base_given b = (b \<noteq> None \<and> b \<noteq> Some [])"

definition planned_name ::
  "bool \<Rightarrow> string option \<Rightarrow> (endpoint_info \<times> indigo_spec) list \<Rightarrow> endpoint_info \<Rightarrow> indigo_spec \<Rightarrow> string" where
  "planned_name authoritative derived plan endpoint spec =
     (let base = (if bridge_label endpoint \<noteq> [] \<or> \<not> base_given derived then sp_name spec else the derived);
          role = label_of_type (sp_device_type_id spec); ep = str_of_int (ei_endpoint_id endpoint)
      in if bridge_label endpoint \<noteq> [] then (if authoritative then sp_name spec else bridge_label endpoint)
         else if role \<noteq> [] \<and> 1 < role_count plan role then base @ '' - '' @ role @ '' '' @ ep
         else if role \<noteq> [] then base @ '' - '' @ role
         else if 1 < length plan then base @ '' (endpoint '' @ ep @ '')''
         else base)"

section \<open>The pass\<close>

datatype made_device = Existing int | Made int | CreationFailed

fun made_id :: "made_device \<Rightarrow> int option" where
  "made_id (Existing d) = Some d"
| "made_id (Made d) = Some d"
| "made_id CreationFailed = None"

record pass_info =
  pi_authoritative :: bool
  pi_derived :: "string option"
  pi_folder :: int
  pi_model :: string
  pi_plan :: "(endpoint_info \<times> indigo_spec) list"

definition planned_types :: "(endpoint_info \<times> indigo_spec) list \<Rightarrow> int \<Rightarrow> string set" where
  "planned_types plan eid = set (map (sp_device_type_id \<circ> snd) (filter (\<lambda>(e, _). ei_endpoint_id e = eid) plan))"

definition keep_device ::
  "'h indigo \<Rightarrow> node_info \<Rightarrow> pass_info \<Rightarrow> endpoint_info \<Rightarrow> indigo_spec \<Rightarrow> int \<Rightarrow> ('h, made_device list) sync_op" where
  "keep_device api node info endpoint spec dev_id =
     (let name = planned_name (pi_authoritative info) (pi_derived info) (pi_plan info) endpoint spec
      in and_then (if pi_authoritative info
           then and_then (apply_identity api False dev_id name (pi_folder info)) (\<lambda>_. pure_op ())
           else when_op (base_given (pi_derived info) \<and> bridge_label endpoint = [])
             (true_up_endpoint_name api dev_id name (the (pi_derived info)) (fallback_base node)
                (label_of_type (sp_device_type_id spec)))) (\<lambda>_. pure_op [Existing dev_id]))"

definition make_device ::
  "'h indigo \<Rightarrow> node_info \<Rightarrow> pass_info \<Rightarrow> endpoint_info \<Rightarrow> indigo_spec \<Rightarrow> ('h, made_device list) sync_op" where
  "make_device api node info endpoint spec =
     (let name = planned_name (pi_authoritative info) (pi_derived info) (pi_plan info) endpoint spec;
          nid = ni_node_id node; eid = ei_endpoint_id endpoint; type_id = sp_device_type_id spec;
          addressed = spec\<lparr>sp_props := setdefault ''address'' (PStr (node_id_to_str (NInt nid))) (sp_props spec)\<rparr>
      in and_then (create_one api addressed name (pi_folder info) (pi_model info)) (\<lambda>made. case made of
           None \<Rightarrow> pure_op [CreationFailed]
         | Some d \<Rightarrow> and_then (in_turn
             [when_op (type_id = ''matterUnknown'') (say (Creation (InfoPlaceholder nid eid))),
              change (\<lambda>s. s\<lparr>sy_index := index_put (nid, eid) type_id d (sy_index s)\<rparr>),
              prime_states api node d eid type_id (planned_types (pi_plan info) eid)]) (\<lambda>_. pure_op [Made d])))"

definition realise ::
  "'h indigo \<Rightarrow> node_info \<Rightarrow> pass_info \<Rightarrow> endpoint_info \<times> indigo_spec \<Rightarrow> ('h, made_device list) sync_op" where
  "realise api node info x = (case x of (endpoint, spec) \<Rightarrow>
     and_then (look (\<lambda>s. map_of (types_at (sy_index s) (ni_node_id node, ei_endpoint_id endpoint))
                           (sp_device_type_id spec))) (\<lambda>existing. case existing of
       Some d \<Rightarrow> keep_device api node info endpoint spec d
     | None \<Rightarrow> make_device api node info endpoint spec))"

definition group_family :: "'h indigo \<Rightarrow> int \<Rightarrow> int list \<Rightarrow> ('h, unit) sync_op" where
  "group_family api node_dev_id family = for_each (filter (\<lambda>d. d \<noteq> node_dev_id) family) (\<lambda>d.
     and_then (rescue (and_then (ask (\<lambda>h. in_device api h d)) (\<lambda>_. pure_op True))
       (\<lambda>e. if e = KeyError \<or> e = ValueError then pure_op False
            else and_then (group_warn d KindGroupLookup) (\<lambda>_. pure_op False))) (\<lambda>there.
       when_op there (rescue (ensure_grouped api d node_dev_id (set family)) (\<lambda>e. pure_op ()))))"

definition note_capabilities :: "node_info \<Rightarrow> power_coverage \<Rightarrow> ('h, unit) sync_op" where
  "note_capabilities node coverage =
     (let nid = ni_node_id node
      in and_then (change (\<lambda>s. s\<lparr>sy_coverage := (if pc_by_source coverage = [] then AList.delete nid (sy_coverage s)
                    else AList.update nid (pc_by_source coverage) (sy_coverage s))\<rparr>)) (\<lambda>_.
         and_then (cache_setting_limits node) (\<lambda>changed.
           when_op changed (change (\<lambda>s. s\<lparr>sy_pending_refresh := insert nid (sy_pending_refresh s)\<rparr>)))))"

record create_result =
  cr_device_ids :: "int list"
  cr_node_device :: "int option"
  cr_primary :: "int option"
  cr_endpoints :: nat
  cr_vendor_id :: "int option"
  cr_product_id :: "int option"
  cr_vendor_name :: string
  cr_product_name :: string
  cr_failed :: nat

definition result_of :: "node_info \<Rightarrow> made_device list \<Rightarrow> int option \<Rightarrow> create_result" where
  "result_of node outcomes node_dev =
     (let ids = List.map_filter made_id outcomes
      in \<lparr>cr_device_ids = ids, cr_node_device = node_dev, cr_primary = (case ids of [] \<Rightarrow> None | d # _ \<Rightarrow> Some d),
          cr_endpoints = length (ni_endpoints node), cr_vendor_id = ni_vendor_id node, cr_product_id = ni_product_id node,
          cr_vendor_name = ni_vendor_name node, cr_product_name = ni_product_name node,
          cr_failed = length (filter (\<lambda>m. m = CreationFailed) outcomes)\<rparr>)"

definition nothing_created :: "node_info \<Rightarrow> create_result" where
  "nothing_created node = result_of node [] None"

definition power_source_eps :: "node_info \<Rightarrow> int list" where
  "power_source_eps node = map ei_endpoint_id (filter (\<lambda>e. ei_has e CLUSTER_POWER_SOURCE) (ni_endpoints node))"

definition node_coverage :: "node_info \<Rightarrow> power_coverage py_result" where
  "node_coverage node = py_bind (resolve_power_coverage (power_source_eps node)
     (\<lambda>ep. path_value (ni_attributes node) (ep, CLUSTER_POWER_SOURCE, ATTR_ENDPOINT_LIST))
     (map ei_endpoint_id (ni_endpoints node))) (\<lambda>(coverage, _). Inr coverage)"

text \<open>The part of a pass that runs under the lock, from the plan to the last device.\<close>

definition realise_plan ::
  "'h indigo \<Rightarrow> node_info \<Rightarrow> power_coverage \<Rightarrow> bool \<Rightarrow> string \<Rightarrow> (endpoint_info \<times> indigo_spec) list
    \<Rightarrow> ('h, made_device list \<times> int option) sync_op" where
  "realise_plan api node coverage authoritative room plan =
     (let model = (if ni_product_name node \<noteq> [] then ni_product_name node else ni_vendor_name node)
      in and_then (if authoritative then resolve_folder_id api room else pure_op 0) (\<lambda>folder_id.
         and_then (look (\<lambda>s. if authoritative then None else derive_family_base api s node)) (\<lambda>derived.
         and_then (ensure_node_device api node coverage folder_id model (plan \<noteq> []) derived) (\<lambda>node_dev.
         and_then (collect plan (realise api node \<lparr>pi_authoritative = authoritative, pi_derived = derived,
                     pi_folder = folder_id, pi_model = model, pi_plan = plan\<rparr>)) (\<lambda>outcomes.
         and_then (case node_dev of None \<Rightarrow> pure_op ()
                   | Some d \<Rightarrow> true_up_node_device api d node derived folder_id) (\<lambda>_.
           pure_op (outcomes, node_dev)))))))"

definition finish_pass ::
  "'h indigo \<Rightarrow> node_info \<Rightarrow> power_coverage \<Rightarrow> made_device list \<Rightarrow> int option \<Rightarrow> nat \<Rightarrow> ('h, unit) sync_op" where
  "finish_pass api node coverage outcomes node_dev planned =
     (let nid = ni_node_id node; new_ids = List.map_filter (\<lambda>m. case m of Made d \<Rightarrow> Some d | _ \<Rightarrow> None) outcomes;
          failed = length (filter (\<lambda>m. m = CreationFailed) outcomes); informative = (ni_attributes node \<noteq> [])
      in and_then (look (\<lambda>s. case node_dev of None \<Rightarrow> []
            | Some d \<Rightarrow> sorted_list_of_set (insert d (set (ids_where (\<lambda>k. fst k = nid) (sy_index s)))))) (\<lambda>family.
         in_turn
           [(case node_dev of None \<Rightarrow> pure_op () | Some d \<Rightarrow> group_family api d family),
            when_op (new_ids \<noteq> []) (say (Creation (InfoCreated nid new_ids))),
            when_op (0 < failed) (say (Creation (WarnCreateFailed nid failed planned))),
            and_then (look (\<lambda>s. nid \<in> sy_pending_refresh s)) (\<lambda>pending.
              when_op (pending \<or> new_ids \<noteq> []) (refresh_state_lists api nid)),
            when_op informative (warn_of_newly_excluded api node coverage),
            when_op informative (report_settable_attributes api node)]))"

definition create_devices :: "'h indigo \<Rightarrow> node_info \<Rightarrow> string \<Rightarrow> ('h, create_result) sync_op" where
  "create_devices api node room =
     (let nid = ni_node_id node; informative = (ni_attributes node \<noteq> []);
          authoritative = (str_strip (ni_suggested_name node) \<noteq> [] \<or> str_strip room \<noteq> []);
          know = change (\<lambda>s. s\<lparr>sy_known := insert nid (sy_known s)\<rparr>)
      in and_then (look (\<lambda>s. (is_tombstoned RetiredNodes nid s,
             0 < (case map_of (sy_suspended s) nid of None \<Rightarrow> 0 | Some n \<Rightarrow> n)))) (\<lambda>(retired, suspended).
         if retired then and_then know (\<lambda>_. pure_op (nothing_created node))
         else if suspended then pure_op (nothing_created node)
         else and_then know (\<lambda>_.
           and_then (computed (node_coverage node)) (\<lambda>coverage.
           and_then (when_op informative (note_capabilities node coverage)) (\<lambda>_.
           and_then (when_op informative (resolve_meter_links node
               (map (\<lambda>e. (ei_endpoint_id e, handlers_for_endpoint node e)) (ni_endpoints node)))) (\<lambda>_.
           and_then (collect (ni_endpoints node) (plan_endpoint api node coverage)) (\<lambda>plan.
           and_then (when_op (plan = [] \<and> aggregators node \<noteq> [])
               (say (Creation (WarnEmptyBridge nid (aggregators node))))) (\<lambda>_.
           and_then (realise_plan api node coverage authoritative room plan) (\<lambda>(outcomes, node_dev).
           and_then (finish_pass api node coverage outcomes node_dev (length plan)) (\<lambda>_.
             pure_op (result_of node outcomes node_dev)))))))))))"

definition create_from_raw :: "'h indigo \<Rightarrow> pydict \<Rightarrow> string \<Rightarrow> string \<Rightarrow> ('h, create_result) sync_op" where
  "create_from_raw api raw_node suggested_name room =
     and_then (computed (parse_node (pf_repr (in_platform api)) raw_node suggested_name)) (\<lambda>node.
     and_then (look (is_tombstoned RetiredNodes (ni_node_id node))) (\<lambda>retired.
     and_then (when_op retired (in_turn [tombstones_forget api RetiredNodes (ni_node_id node),
         say (Creation (InfoRetirementCleared (ni_node_id node)))])) (\<lambda>_.
       create_devices api node room)))"

end
