(* ===== verification/SyncEvents.thy ===== *)
theory SyncEvents
  imports SyncCreate
begin

text \<open>
  \<open>device_sync.DeviceSync\<close>: the self-heal of capability properties, reachability, the reconcile
  pass, and the dispatch of matter-server's events to the devices.

  An attribute or event id that a frame lacks is written \<open>-1\<close>, which no handler reads. A set of
  nodes is visited in increasing order.
\<close>

section \<open>Capability properties of existing devices\<close>

definition DEVICE_TYPE_BUTTON :: string where "DEVICE_TYPE_BUTTON = ''matterButton''"

definition text_of :: "platform \<Rightarrow> pyval \<Rightarrow> string" where
  "text_of pf v = (if truthy v then py_str (pf_repr pf) v else [])"

definition missing_capability :: "platform \<Rightarrow> string \<Rightarrow> pydict \<Rightarrow> string \<times> pyval \<Rightarrow> pydict" where
  "missing_capability pf type_id current p = (case p of (key, v) \<Rightarrow>
     if key \<in> {''SupportsPowerMeter'', ''SupportsEnergyMeter''} \<and> type_id \<notin> set METER_CAPABLE_TYPES then []
     else if key = PROP_SWITCH_FEATURES
     then (if type_id = DEVICE_TYPE_BUTTON \<and> PStr (text_of pf (dget current key)) \<noteq> v then [(key, v)] else [])
     else if \<not> truthy (dget current key) then [(key, v)] else [])"

definition missing_props ::
  "platform \<Rightarrow> int \<Rightarrow> string \<Rightarrow> pydict \<Rightarrow> pydict \<Rightarrow> pydict \<Rightarrow> pydict" where
  "missing_props pf node_id type_id current full_cap display =
     (let caps = concat (map (missing_capability pf type_id current) full_cap);
          shown = dict_over caps (filter (\<lambda>(key, v). map_of current key = None
                    \<or> truthy (dget current key) \<noteq> truthy v) display);
          typed = (if type_id \<noteq> [] \<and> map_of current ''createdTypeId'' = None
                   then AList.update ''createdTypeId'' (PStr type_id) shown else shown)
      in if \<not> truthy (dget current ''address'')
         then AList.update ''address'' (PStr (node_id_to_str (NInt node_id))) typed else typed)"

definition stuck_keys :: "platform \<Rightarrow> pydict \<Rightarrow> pydict \<Rightarrow> string list" where
  "stuck_keys pf missing applied = map fst (filter (\<lambda>(key, v). map_of applied key = None
     \<or> (if key = PROP_SWITCH_FEATURES then PStr (text_of pf (dget applied key)) \<noteq> v
        else truthy (dget applied key) \<noteq> truthy v)) missing)"

definition warn_stale_display :: "host_dev \<Rightarrow> pydict \<Rightarrow> ('h, unit) sync_op" where
  "warn_stale_display dev display =
     when_op (\<not> truthy (dget_or display ''SupportsOnState'' (PBool True)) \<and> hv_display dev = Some ''onOffState'')
       (say (WarnStaleDisplay (hv_id dev)))"

definition reassert_device ::
  "'h indigo \<Rightarrow> node_info \<Rightarrow> pydict \<Rightarrow> int \<Rightarrow> ('h, unit) sync_op" where
  "reassert_device api node full_cap dev_id = rescue
     (and_then (ask (\<lambda>h. in_device api h dev_id)) (\<lambda>dev.
        let pf = in_platform api; type_id = hv_type dev; current = hv_props dev;
            display = (case handler_for_device (hv_dev dev) of None \<Rightarrow> [] | Some h \<Rightarrow> display_props h);
            missing = missing_props pf (ni_node_id node) type_id current full_cap display
        in and_then (when_op (type_id = DEVICE_TYPE_BUTTON \<and> map_of current PROP_SWITCH_FEATURES = None
               \<and> map_of full_cap PROP_SWITCH_FEATURES = None) (group_warn dev_id KindSwitchFeatures)) (\<lambda>_.
           if missing = [] then warn_stale_display dev display
           else and_then (try_host (in_replace_props api dev_id (dict_over current missing))) (\<lambda>_.
             and_then (ask (\<lambda>h. in_device api h dev_id)) (\<lambda>after.
               say (case stuck_keys pf missing (hv_props after) of
                      [] \<Rightarrow> InfoReasserted dev_id (map fst missing)
                    | ks \<Rightarrow> WarnPropsStuck dev_id ks))))))
     (\<lambda>e. say (WarnReassert dev_id e))"

definition reassert_capability_props :: "'h indigo \<Rightarrow> node_info \<Rightarrow> ('h, unit) sync_op" where
  "reassert_capability_props api node = for_each (ni_endpoints node) (\<lambda>endpoint.
     and_then (look (\<lambda>s. (capability_props s node endpoint,
         map snd (types_at (sy_index s) (ni_node_id node, ei_endpoint_id endpoint))))) (\<lambda>(full_cap, dev_ids).
       for_each dev_ids (reassert_device api node full_cap)))"

section \<open>Reachability\<close>

definition safe_unreachable :: "'h indigo \<Rightarrow> int \<Rightarrow> ('h, unit) sync_op" where
  "safe_unreachable api dev_id = rescue
     (and_then (ask (\<lambda>h. in_device api h dev_id)) (\<lambda>_. try_host (in_set_error api dev_id ''unreachable'')))
     (\<lambda>e. if e = KeyError then pure_op () else group_warn dev_id KindUnreachable)"

definition clear_error :: "'h indigo \<Rightarrow> int \<Rightarrow> ('h, unit) sync_op" where
  "clear_error api dev_id = rescue
     (and_then (ask (\<lambda>h. in_device api h dev_id)) (\<lambda>dev.
        when_op (hv_error dev \<noteq> []) (try_host (in_set_error api dev_id []))))
     (\<lambda>e. if e = KeyError then pure_op () else group_warn dev_id KindClearError)"

definition write_node_reachable :: "'h indigo \<Rightarrow> int \<Rightarrow> bool \<Rightarrow> ('h, unit) sync_op" where
  "write_node_reachable api node_id reachable =
     and_then (look (\<lambda>s. node_device_of (sy_index s) node_id)) (\<lambda>found. case found of
       None \<Rightarrow> pure_op ()
     | Some d \<Rightarrow> rescue
         (and_then (ask (\<lambda>h. in_device api h d)) (\<lambda>_. try_host (in_update_states api d [WriteReachable reachable])))
         (\<lambda>e. if e = KeyError then pure_op () else group_warn d KindReachable))"

definition mark_unreachable :: "'h indigo \<Rightarrow> int \<Rightarrow> ('h, unit) sync_op" where
  "mark_unreachable api node_id =
     and_then (look (\<lambda>s. ids_where (\<lambda>k. fst k = node_id) (sy_index s))) (\<lambda>targets.
       in_turn [for_each targets (safe_unreachable api), write_node_reachable api node_id False])"

definition mark_endpoint_unreachable :: "'h indigo \<Rightarrow> int \<Rightarrow> int \<Rightarrow> ('h, unit) sync_op" where
  "mark_endpoint_unreachable api node_id endpoint_id =
     and_then (look (\<lambda>s. all_dev_ids_for_endpoint (sy_index s) node_id endpoint_id))
       (\<lambda>targets. for_each targets (safe_unreachable api))"

text \<open>The first occurrences of a list.\<close>

definition once_each :: "'a list \<Rightarrow> 'a list" where
  "once_each xs = rev (remdups (rev xs))"

definition nodes_with_device :: "(int \<times> int \<Rightarrow> bool) \<Rightarrow> dev_index \<Rightarrow> int list" where
  "nodes_with_device p ix = sorted_list_of_set (set (map (fst \<circ> fst) (filter (\<lambda>(k, m).
     snd k = 0 \<and> p k \<and> map_of m ''matterNode'' \<noteq> None) ix)))"

definition mark_all_unreachable :: "'h indigo \<Rightarrow> ('h, unit) sync_op" where
  "mark_all_unreachable api =
     and_then (look (\<lambda>s. (once_each (ids_where (\<lambda>k. True) (sy_index s)), nodes_with_device (\<lambda>k. True) (sy_index s))))
       (\<lambda>(targets, nodes). in_turn [for_each targets (safe_unreachable api),
          for_each nodes (\<lambda>n. write_node_reachable api n False)])"

definition own_type_of :: "type_map \<Rightarrow> int \<Rightarrow> string" where
  "own_type_of m dev_id = (case find (\<lambda>(t, d). d = dev_id) m of None \<Rightarrow> [] | Some (t, d) \<Rightarrow> t)"

definition refresh_live_node :: "'h indigo \<Rightarrow> node_info \<Rightarrow> ('h, unit) sync_op" where
  "refresh_live_node api node = in_turn [reassert_capability_props api node,
     for_each (ni_endpoints node) (\<lambda>endpoint.
       and_then (look (\<lambda>s. types_at (sy_index s) (ni_node_id node, ei_endpoint_id endpoint))) (\<lambda>m.
         for_each (map snd m) (\<lambda>d. in_turn
           [prime_states api node d (ei_endpoint_id endpoint) (own_type_of m d) (set (map fst m)),
            clear_error api d])))]"

definition apply_reachability :: "'h indigo \<Rightarrow> node_info \<Rightarrow> ('h, unit) sync_op" where
  "apply_reachability api node = in_turn
     [(if ni_available node then refresh_live_node api node else mark_unreachable api (ni_node_id node)),
      write_node_reachable api (ni_node_id node) (ni_available node)]"

section \<open>Reconciling\<close>

definition parse_raw :: "'h indigo \<Rightarrow> pyval \<Rightarrow> node_info py_result" where
  "parse_raw api raw = (case raw of
     PDict d \<Rightarrow> parse_node (pf_repr (in_platform api)) d [] | _ \<Rightarrow> Inl AttributeError)"

text \<open>The ids seen so far and the endpoints that are live.\<close>

definition reconcile_node ::
  "'h indigo \<Rightarrow> pyval \<Rightarrow> int set \<times> (int \<times> int) set \<Rightarrow> ('h, int set \<times> (int \<times> int) set) sync_op" where
  "reconcile_node api raw acc = (case acc of (seen, live) \<Rightarrow> (case parse_raw api raw of
       Inl e \<Rightarrow> and_then (say (WarnUnparseable (salvage_node_id raw) e)) (\<lambda>_.
         pure_op (case salvage_node_id raw of None \<Rightarrow> seen | Some n \<Rightarrow> insert n seen, live))
     | Inr node \<Rightarrow>
         and_then (rescue (and_then (create_devices api node []) (\<lambda>_. apply_reachability api node))
             (\<lambda>e. say (WarnReconcile (ni_node_id node) e))) (\<lambda>_.
           pure_op (insert (ni_node_id node) seen,
                    live \<union> set (map (\<lambda>e. (ni_node_id node, ei_endpoint_id e)) (ni_endpoints node))))))"

fun reconcile_nodes ::
  "'h indigo \<Rightarrow> pyval list \<Rightarrow> int set \<times> (int \<times> int) set \<Rightarrow> ('h, int set \<times> (int \<times> int) set) sync_op" where
  "reconcile_nodes api [] acc = pure_op acc"
| "reconcile_nodes api (raw # raws) acc = and_then (reconcile_node api raw acc) (reconcile_nodes api raws)"

definition reconcile_all :: "'h indigo \<Rightarrow> pyval list \<Rightarrow> ('h, unit) sync_op" where
  "reconcile_all api raw_nodes =
     and_then (rebuild_index api) (\<lambda>_.
     and_then (reconcile_nodes api raw_nodes ({}, {})) (\<lambda>(seen, live).
     and_then (look (\<lambda>s. (sorted_list_of_set (sy_known s - seen), ids_where (\<lambda>k. k \<notin> live) (sy_index s),
                          nodes_with_device (\<lambda>k. k \<notin> live) (sy_index s)))) (\<lambda>(dropped, orphans, orphan_nodes).
       in_turn
         [change (\<lambda>s. s\<lparr>sy_known := seen\<rparr>),
          when_op (dropped \<noteq> []) (say (WarnDropped dropped)),
          for_each orphans (safe_unreachable api),
          for_each orphan_nodes (\<lambda>n. write_node_reachable api n False)])))"

section \<open>Events\<close>

definition id_or_none :: "int option \<Rightarrow> int" where
  "id_or_none x = (case x of None \<Rightarrow> -1 | Some n \<Rightarrow> n)"

definition gated :: "'h sync \<Rightarrow> int \<Rightarrow> bool" where
  "gated s dev_id = (sy_active s \<noteq> {} \<and> dev_id \<notin> sy_active s)"

text \<open>The device of an event, unless it is gone.\<close>

definition event_device :: "'h indigo \<Rightarrow> int \<Rightarrow> ('h, host_dev option) sync_op" where
  "event_device api dev_id = ask (\<lambda>h. case in_device api h dev_id of
     Inr dev \<Rightarrow> Inr (Some dev) | Inl e \<Rightarrow> if e = KeyError then Inr None else Inl e)"

definition write_update :: "'h indigo \<Rightarrow> handler_class \<Rightarrow> int \<Rightarrow> pydict \<Rightarrow> ('h, unit) sync_op" where
  "write_update api h dev_id states =
     when_op (states \<noteq> []) (apply_states api dev_id (map WriteEntry (format_kv h states)))"

text \<open>An event for the one device its cluster is routed to: what the handler raises is a warning, what
  the write raises is not caught.\<close>

definition deliver_one ::
  "'h indigo \<Rightarrow> handler_class \<Rightarrow> int option \<Rightarrow> (host_dev \<Rightarrow> ('h, pydict) sync_op) \<Rightarrow> (int \<Rightarrow> sync_line) \<Rightarrow> ('h, unit) sync_op" where
  "deliver_one api h target read bad = (case target of
       None \<Rightarrow> pure_op ()
     | Some d \<Rightarrow> and_then (look (\<lambda>s. gated s d)) (\<lambda>closed.
         if closed then pure_op ()
         else and_then (event_device api d) (\<lambda>found. case found of
           None \<Rightarrow> pure_op ()
         | Some dev \<Rightarrow> and_then (rescue (and_then (read dev) (\<lambda>u. pure_op (Some u)))
               (\<lambda>e. and_then (say (bad d)) (\<lambda>_. pure_op None))) (\<lambda>states. case states of
             None \<Rightarrow> pure_op ()
           | Some u \<Rightarrow> write_update api h d u))))"

text \<open>A reading of a node-scoped cluster for one of the devices it applies to.\<close>

definition deliver_scoped ::
  "'h indigo \<Rightarrow> handler_class \<Rightarrow> int \<Rightarrow> pyval \<Rightarrow> int \<Rightarrow> ('h, unit) sync_op" where
  "deliver_scoped api h attribute v d = and_then (look (\<lambda>s. gated s d)) (\<lambda>closed.
     if closed then pure_op ()
     else and_then (event_device api d) (\<lambda>found. case found of
       None \<Rightarrow> pure_op ()
     | Some dev \<Rightarrow> rescue (and_then (run_update (in_platform api) h dev attribute v) (write_update api h d))
         (\<lambda>e. say (WarnBadUpdate d))))"

definition on_bridged_reachable :: "'h indigo \<Rightarrow> int \<Rightarrow> int \<Rightarrow> pyval \<Rightarrow> ('h, unit) sync_op" where
  "on_bridged_reachable api node_id endpoint_id v =
     and_then (look (\<lambda>s. all_dev_ids_for_endpoint (sy_index s) node_id endpoint_id)) (\<lambda>dev_ids.
       if v = PNone then pure_op ()
       else for_each dev_ids (if truthy v then clear_error api else safe_unreachable api))"

definition on_attribute :: "'h indigo \<Rightarrow> rat \<Rightarrow> matter_event \<Rightarrow> ('h, unit) sync_op" where
  "on_attribute api now evt = (case (ev_node_id evt, ev_endpoint evt, ev_cluster evt) of
       (PNone, _, _) \<Rightarrow> say (WarnMalformed ''attribute'')
     | (_, None, _) \<Rightarrow> say (WarnMalformed ''attribute'')
     | (_, _, None) \<Rightarrow> say (WarnMalformed ''attribute'')
     | (raw_node, Some ep, Some cluster) \<Rightarrow>
         and_then (if cluster = CLUSTER_THREAD_DIAG
           then and_then (computed (py_int raw_node)) (\<lambda>n.
                  change (\<lambda>s. s\<lparr>sy_event_seen := AList.update n now (sy_event_seen s)\<rparr>))
           else pure_op ()) (\<lambda>_.
         if cluster = CLUSTER_BRIDGED_BASIC \<and> ev_attribute evt = Some 17
         then and_then (computed (py_int raw_node)) (\<lambda>n. on_bridged_reachable api n ep (ev_value evt))
         else (case handler_for_cluster cluster of
             None \<Rightarrow> pure_op ()
           | Some h \<Rightarrow> and_then (computed (py_int raw_node)) (\<lambda>n.
               if node_scoped h
               then and_then (look (\<lambda>s. case battery_targets s n ep of
                        None \<Rightarrow> ids_where (\<lambda>k. fst k = n) (sy_index s)
                      | Some ts \<Rightarrow> ids_where (\<lambda>k. fst k = n \<and> snd k \<in> ts) (sy_index s))) (\<lambda>dev_ids.
                      for_each dev_ids (deliver_scoped api h (id_or_none (ev_attribute evt)) (ev_value evt)))
               else and_then (look (\<lambda>s. lookup_for_cluster s n ep cluster)) (\<lambda>target.
                      deliver_one api h target
                        (\<lambda>dev. run_update (in_platform api) h dev (id_or_none (ev_attribute evt)) (ev_value evt))
                        WarnBadUpdate)))))"

definition on_cluster_event :: "'h indigo \<Rightarrow> matter_event \<Rightarrow> ('h, unit) sync_op" where
  "on_cluster_event api evt = (case (ev_node_id evt, ev_endpoint evt, ev_cluster evt) of
       (PNone, _, _) \<Rightarrow> say (WarnMalformed ''node_event'')
     | (_, None, _) \<Rightarrow> say (WarnMalformed ''node_event'')
     | (_, _, None) \<Rightarrow> say (WarnMalformed ''node_event'')
     | (raw_node, Some ep, Some cluster) \<Rightarrow> (case handler_for_cluster cluster of
           None \<Rightarrow> pure_op ()
         | Some h \<Rightarrow> and_then (computed (py_int raw_node)) (\<lambda>n.
             and_then (look (\<lambda>s. lookup_for_cluster s n ep cluster)) (\<lambda>target.
               deliver_one api h target
                 (\<lambda>dev. computed (on_node_event h (hv_dev dev) (id_or_none (ev_event_id evt)) (ev_event_data evt)))
                 WarnBadEvent))))"

definition on_node_added :: "'h indigo \<Rightarrow> matter_event \<Rightarrow> ('h, unit) sync_op" where
  "on_node_added api evt = (case dget (ev_raw evt) ''data'' of
       PDict d \<Rightarrow> (case parse_raw api (PDict d) of
           Inl e \<Rightarrow> say (WarnAddedParse e)
         | Inr node \<Rightarrow> and_then (create_devices api node []) (\<lambda>_. apply_reachability api node))
     | _ \<Rightarrow> pure_op ())"

definition on_endpoint_removed :: "'h indigo \<Rightarrow> matter_event \<Rightarrow> ('h, unit) sync_op" where
  "on_endpoint_removed api evt = (case (ev_node_id evt, ev_endpoint evt) of
       (PNone, _) \<Rightarrow> say (WarnMalformed ''endpoint_removed'')
     | (_, None) \<Rightarrow> say (WarnMalformed ''endpoint_removed'')
     | (raw_node, Some ep) \<Rightarrow> and_then (computed (py_int raw_node)) (\<lambda>n. mark_endpoint_unreachable api n ep))"

definition on_node_removed :: "'h indigo \<Rightarrow> pyval \<Rightarrow> ('h, unit) sync_op" where
  "on_node_removed api raw_node = and_then (computed (py_int raw_node)) (\<lambda>n.
     in_turn [mark_unreachable api n, forget_node_capabilities api n])"

definition sync_event :: "'h indigo \<Rightarrow> rat \<Rightarrow> matter_event \<Rightarrow> ('h, unit) sync_op" where
  "sync_event api now evt =
     (if ev_kind evt = PStr EVT_ATTRIBUTE_UPDATED then on_attribute api now evt
      else if ev_kind evt = PStr EVT_NODE_EVENT then on_cluster_event api evt
      else if ev_kind evt = PStr ''node_added'' \<or> ev_kind evt = PStr ''node_updated'' then on_node_added api evt
      else if ev_kind evt = PStr EVT_NODE_REMOVED \<and> ev_node_id evt \<noteq> PNone then on_node_removed api (ev_node_id evt)
      else if ev_kind evt = PStr EVT_ENDPOINT_ADDED
      then when_op (ev_node_id evt = PNone \<or> ev_endpoint evt = None) (say (WarnMalformed ''endpoint_added''))
      else if ev_kind evt = PStr EVT_ENDPOINT_REMOVED then on_endpoint_removed api evt
      else if ev_kind evt = PStr ''server_shutdown'' then in_turn [say WarnShutdown, mark_all_unreachable api]
      else pure_op ())"

definition sync_command :: "'h indigo \<Rightarrow> matter_dev \<Rightarrow> indigo_action \<Rightarrow> acted" where
  "sync_command api dev action = (case handler_for_device dev of
       None \<Rightarrow> no_action | Some h \<Rightarrow> handle_indigo_action (in_platform api) h dev action)"

end
