(* ===== verification/SyncFrame.thy ===== *)
theory SyncFrame
  imports SyncEvents
begin

text \<open>
  What the operations of \<open>DeviceSync\<close> can do to the host and to the index. A condition on the two
  that survives every call within a footprint (which devices are deleted, which types created,
  which devices written) survives every operation that stays inside it; the locale
  \<open>footprint\<close> proves this once for all operations.
\<close>

section \<open>Keeping a condition\<close>

definition keeps :: "('h sync \<Rightarrow> bool) \<Rightarrow> ('h, 'a) sync_op \<Rightarrow> bool" where
  "keeps P m \<longleftrightarrow> (\<forall>s. P s \<longrightarrow> P (snd (m s)))"

named_theorems keeping \<open>rules for conditions that survive an operation\<close>

lemma keeps_trivial [keeping]: "keeps P (pure_op x)" "keeps P (raise_op e)" "keeps P (look g)" "keeps P (computed r)"
  "keeps P (ask q)"
  by (simp_all add: keeps_def sync_ops)

lemma keeps_and_then [keeping]: "keeps P m \<Longrightarrow> (\<And>x. keeps P (f x)) \<Longrightarrow> keeps P (and_then m f)"
  unfolding keeps_def and_then_def by (auto split: prod.splits sum.splits; metis snd_conv)

lemma keeps_look_then: "(\<And>s. P s \<Longrightarrow> P (snd (f (g s) s))) \<Longrightarrow> keeps P (and_then (look g) f)"
  by (simp add: keeps_def sync_ops)

lemma keeps_ask_then: "(\<And>x s. P s \<Longrightarrow> q (sy_host s) = Inr x \<Longrightarrow> P (snd (f x s))) \<Longrightarrow> keeps P (and_then (ask q) f)"
  by (auto simp: keeps_def sync_ops split: sum.splits)

lemma keeps_rescue [keeping]: "keeps P m \<Longrightarrow> (\<And>e. keeps P (k e)) \<Longrightarrow> keeps P (rescue m k)"
  unfolding keeps_def rescue_def by (auto split: prod.splits sum.splits; metis snd_conv)

lemma keeps_when [keeping]: "(b \<Longrightarrow> keeps P m) \<Longrightarrow> keeps P (when_op b m)"
  by (simp add: keeps_def sync_ops)

lemma keeps_if [keeping]: "(b \<Longrightarrow> keeps P m) \<Longrightarrow> (\<not> b \<Longrightarrow> keeps P n) \<Longrightarrow> keeps P (if b then m else n)"
  by simp

lemma keeps_in_turn [keeping]: "(\<And>m. m \<in> set ms \<Longrightarrow> keeps P m) \<Longrightarrow> keeps P (in_turn ms)"
  by (induction ms) (simp_all add: keeps_trivial keeps_and_then)

lemma keeps_for_each [keeping]: "(\<And>x. x \<in> set xs \<Longrightarrow> keeps P (f x)) \<Longrightarrow> keeps P (for_each xs f)"
  by (induction xs) (simp_all add: keeps_trivial keeps_and_then)

lemma keeps_collect [keeping]: "(\<And>x. x \<in> set xs \<Longrightarrow> keeps P (f x)) \<Longrightarrow> keeps P (collect xs f)"
  by (induction xs) (simp_all add: keeps_trivial keeps_and_then)

lemma keeps_option [keeping]:
  "(x = None \<Longrightarrow> keeps P m) \<Longrightarrow> (\<And>y. x = Some y \<Longrightarrow> keeps P (f y)) \<Longrightarrow> keeps P (case x of None \<Rightarrow> m | Some y \<Rightarrow> f y)"
  by (cases x) simp_all

lemma keeps_prod [keeping]: "(\<And>a b. x = (a, b) \<Longrightarrow> keeps P (f a b)) \<Longrightarrow> keeps P (case x of (a, b) \<Rightarrow> f a b)"
  by (cases x) simp

lemma keeps_finally [keeping]: "keeps P m \<Longrightarrow> keeps P c \<Longrightarrow> keeps P (finally_op m c)"
  unfolding keeps_def finally_op_def by (auto split: prod.splits sum.splits; metis snd_conv)

text \<open>What every result of an operation satisfies.\<close>

definition yields :: "('a \<Rightarrow> bool) \<Rightarrow> ('h, 'a) sync_op \<Rightarrow> bool" where
  "yields R m \<longleftrightarrow> (\<forall>s x. fst (m s) = Inr x \<longrightarrow> R x)"

lemma yields_pure: "R x \<Longrightarrow> yields R (pure_op x)"
  by (simp add: yields_def sync_ops)

lemma yields_and_then: "yields Q m \<Longrightarrow> (\<And>x. Q x \<Longrightarrow> yields R (f x)) \<Longrightarrow> yields R (and_then m f)"
  unfolding yields_def and_then_def by (auto split: prod.splits sum.splits; metis fst_conv)

lemma yields_any: "yields (\<lambda>_. True) m"
  by (simp add: yields_def)

lemma yields_if: "(b \<Longrightarrow> yields R m) \<Longrightarrow> (\<not> b \<Longrightarrow> yields R n) \<Longrightarrow> yields R (if b then m else n)"
  by simp

lemma yields_collect:
  assumes "\<And>x. x \<in> set xs \<Longrightarrow> yields (\<lambda>ys. \<forall>y \<in> set ys. R y) (f x)"
  shows "yields (\<lambda>ys. \<forall>y \<in> set ys. R y) (collect xs f)"
  using assms
proof (induction xs)
  case Nil
  then show ?case by (simp add: yields_pure)
next
  case (Cons x xs)
  have "yields (\<lambda>ys. \<forall>y \<in> set ys. R y) (and_then (collect xs f) (\<lambda>zs. pure_op (ys @ zs)))" if "\<forall>y \<in> set ys. R y" for ys
    by (rule yields_and_then [OF Cons.IH [OF Cons.prems]]) (use that in \<open>auto intro!: yields_pure\<close>)
  then show ?case using Cons.prems [of x] by (auto intro: yields_and_then)
qed

lemma keeps_yield_then: "keeps P m \<Longrightarrow> yields R m \<Longrightarrow> (\<And>x. R x \<Longrightarrow> keeps P (f x)) \<Longrightarrow> keeps P (and_then m f)"
  unfolding keeps_def yields_def and_then_def by (auto split: prod.splits sum.splits; metis fst_conv snd_conv)

lemma keepsD: "keeps P m \<Longrightarrow> P s \<Longrightarrow> P (snd (m s))"
  by (simp add: keeps_def)

text \<open>From a state in \<open>P\<close> an operation returns in \<open>Q\<close>, or raises in \<open>E\<close>.\<close>

definition runs ::
  "('h sync \<Rightarrow> bool) \<Rightarrow> ('h, 'a) sync_op \<Rightarrow> ('a \<Rightarrow> 'h sync \<Rightarrow> bool) \<Rightarrow> ('h sync \<Rightarrow> bool) \<Rightarrow> bool" where
  "runs P m Q E \<longleftrightarrow> (\<forall>s. P s \<longrightarrow> (case m s of (Inl e, t) \<Rightarrow> E t | (Inr x, t) \<Rightarrow> Q x t))"

lemma runs_and_then: "runs P m R E \<Longrightarrow> (\<And>x. runs (R x) (f x) Q E) \<Longrightarrow> runs P (and_then m f) Q E"
  unfolding runs_def and_then_def by (fastforce split: prod.splits sum.splits)

lemma runs_rescue: "runs P m Q R \<Longrightarrow> (\<And>e. runs R (k e) Q E) \<Longrightarrow> runs P (rescue m k) Q E"
  unfolding runs_def rescue_def by (fastforce split: prod.splits sum.splits)

lemma runs_pure: "(\<And>s. P s \<Longrightarrow> Q x s) \<Longrightarrow> runs P (pure_op x) Q E"
  by (simp add: runs_def sync_ops)

lemma runs_look: "runs P (look g) (\<lambda>x s. P s \<and> x = g s) E"
  by (simp add: runs_def sync_ops)

lemma runs_computed: "runs P (computed r) (\<lambda>x s. P s \<and> r = Inr x) P"
  by (simp add: runs_def sync_ops split: sum.split)

lemma runs_change: "(\<And>s. P s \<Longrightarrow> Q () (f s)) \<Longrightarrow> runs P (change f) Q E"
  by (simp add: runs_def sync_ops)

lemma runs_if: "(b \<Longrightarrow> runs P m Q E) \<Longrightarrow> (\<not> b \<Longrightarrow> runs P n Q E) \<Longrightarrow> runs P (if b then m else n) Q E"
  by simp

lemma runs_when: "(b \<Longrightarrow> runs P m Q E) \<Longrightarrow> (\<And>s. \<not> b \<Longrightarrow> P s \<Longrightarrow> Q () s) \<Longrightarrow> runs P (when_op b m) Q E"
  by (auto simp: runs_def sync_ops)

lemma runs_keeps: "keeps P m \<Longrightarrow> runs P m (\<lambda>_. P) P"
  unfolding runs_def keeps_def by (force split: prod.splits sum.splits)

lemma keeps_runs: "runs P m (\<lambda>_. P) P \<Longrightarrow> keeps P m"
  unfolding runs_def keeps_def by (fastforce split: prod.splits sum.splits)

lemma runs_weaken:
  "runs P m Q E \<Longrightarrow> (\<And>s. P' s \<Longrightarrow> P s) \<Longrightarrow> (\<And>x s. Q x s \<Longrightarrow> Q' x s) \<Longrightarrow> (\<And>s. E s \<Longrightarrow> E' s) \<Longrightarrow> runs P' m Q' E'"
  unfolding runs_def by (fastforce split: prod.splits sum.splits)

lemma runs_yields: "runs P m (\<lambda>_. P) E \<Longrightarrow> yields R m \<Longrightarrow> runs P m (\<lambda>x s. P s \<and> R x) E"
proof -
  assume m: "runs P m (\<lambda>_. P) E" "yields R m"
  have "R x" if "m s = (Inr x, t)" for s x t using m(2) that unfolding yields_def by (metis fst_conv)
  then show ?thesis
    unfolding runs_def
  proof (intro allI impI)
    fix s
    assume s: "P s"
    obtain r t where "m s = (r, t)" by fastforce
    with s m(1) \<open>\<And>s x t. m s = (Inr x, t) \<Longrightarrow> R x\<close>
    show "case m s of (Inl e, t) \<Rightarrow> E t | (Inr x, t) \<Rightarrow> P t \<and> R x" by (cases r) (auto simp: runs_def)
  qed
qed

lemma runs_collect:
  assumes "\<And>x. x \<in> set xs \<Longrightarrow> runs P (f x) (\<lambda>ys s. P s \<and> (\<forall>y \<in> set ys. R y)) E"
  shows "runs P (collect xs f) (\<lambda>ys s. P s \<and> (\<forall>y \<in> set ys. R y)) E"
  using assms
proof (induction xs)
  case Nil
  then show ?case by (simp add: runs_pure)
next
  case (Cons x xs)
  have rest: "runs (\<lambda>s. P s \<and> (\<forall>y \<in> set ys. R y)) (collect xs f) (\<lambda>zs s. (P s \<and> (\<forall>y \<in> set zs. R y)) \<and> (\<forall>y \<in> set ys. R y)) E" for ys
  proof (cases "\<forall>y \<in> set ys. R y")
    case True
    then show ?thesis using Cons by (simp add: runs_def)
  qed (auto simp: runs_def)
  show ?case
    unfolding collect.simps
    by (rule runs_and_then [OF Cons.prems], simp, rule runs_and_then [OF rest], rule runs_pure) auto
qed

lemma runsD: "runs P m Q E \<Longrightarrow> P s \<Longrightarrow> case m s of (Inl e, t) \<Rightarrow> E t | (Inr x, t) \<Rightarrow> Q x t"
  by (simp add: runs_def)

section \<open>Footprints\<close>

text \<open>\<open>D\<close>: ids that may be deleted; \<open>C\<close>: types that may be created; \<open>W\<close>: ids whose states and error may be
  written. The condition is one on the host (\<open>I\<close>), on the index (\<open>J\<close>), and on the tombstones of the node
  devices and the active devices (\<open>T\<close>). An operation that changes the index keeps \<open>J\<close> when it is
  closed under the changes made, with entries for the types of \<open>C\<close> only.\<close>

definition host_keeps ::
  "'h indigo \<Rightarrow> ('h \<Rightarrow> bool) \<Rightarrow> (int \<Rightarrow> bool) \<Rightarrow> (string \<Rightarrow> bool) \<Rightarrow> (int \<Rightarrow> bool) \<Rightarrow> bool" where
  "host_keeps api I D C W \<longleftrightarrow> (\<forall>h. I h \<longrightarrow>
     (\<forall>t name props folder. C t \<longrightarrow> I (snd (in_create api t name props folder h)))
     \<and> (\<forall>d. D d \<longrightarrow> I (snd (in_delete api d h)))
     \<and> (\<forall>d kv. W d \<longrightarrow> I (snd (in_update_states api d kv h)))
     \<and> (\<forall>d e. W d \<longrightarrow> I (snd (in_set_error api d e h)))
     \<and> (\<forall>d m. I (snd (in_set_model api d m h)))
     \<and> (\<forall>d n. I (snd (in_rename api d n h)))
     \<and> (\<forall>d p. I (snd (in_replace_props api d p h)))
     \<and> (\<forall>d. I (snd (in_ungroup api d h)))
     \<and> (\<forall>a b. I (snd (in_group_with api a b h)))
     \<and> (\<forall>d f. I (snd (in_move api d f h)))
     \<and> (\<forall>n. I (snd (in_new_folder api n h)))
     \<and> (\<forall>d. I (snd (in_states_changed api d h)))
     \<and> (\<forall>k ids. I (snd (in_save api k ids h)))
     \<and> (\<forall>n. I (in_survey api n h))
     \<and> (\<forall>n. I (in_forget_survey api n h)))"

definition index_closed :: "(string \<Rightarrow> bool) \<Rightarrow> (dev_index \<Rightarrow> bool) \<Rightarrow> bool" where
  "index_closed C J \<longleftrightarrow> J [] \<and> (\<forall>ix. J ix \<longrightarrow> (\<forall>key t d. C t \<longrightarrow> J (index_put key t d ix))
     \<and> (\<forall>d. J (forget_device d ix)) \<and> (\<forall>n. J (drop_node_entry n ix)))"

locale footprint =
  fixes api :: "'h indigo" and I :: "'h \<Rightarrow> bool" and J :: "dev_index \<Rightarrow> bool"
    and T :: "tombstones option \<Rightarrow> int set \<Rightarrow> bool" and D :: "int \<Rightarrow> bool" and C :: "string \<Rightarrow> bool" and W :: "int \<Rightarrow> bool"
  assumes host: "host_keeps api I D C W"
begin

definition holds :: "'h sync \<Rightarrow> bool" where
  "holds s \<longleftrightarrow> I (sy_host s) \<and> J (sy_index s) \<and> T (sy_tombstones s) (sy_active s)"

text \<open>Four premises, so that the rules for the index are tried before it.\<close>

lemma other_fields [keeping]:
  "(\<And>s. sy_host (f s) = sy_host s) \<Longrightarrow> (\<And>s. sy_index (f s) = sy_index s)
    \<Longrightarrow> (\<And>s. sy_tombstones (f s) = sy_tombstones s) \<Longrightarrow> (\<And>s. sy_active (f s) = sy_active s)
    \<Longrightarrow> keeps holds (change f)"
  by (simp add: keeps_def holds_def sync_ops)

lemma said [keeping]: "keeps holds (say l)"
  by (simp add: keeps_def holds_def sync_ops)

lemma indexed [keeping]:
  "index_closed C J \<Longrightarrow> C t \<Longrightarrow> keeps holds (change (\<lambda>s. s\<lparr>sy_index := index_put key t d (sy_index s)\<rparr>))"
  "index_closed C J \<Longrightarrow> keeps holds (change (\<lambda>s. s\<lparr>sy_index := forget_device d (sy_index s)\<rparr>))"
  "index_closed C J \<Longrightarrow> keeps holds (change (\<lambda>s. s\<lparr>sy_index := drop_node_entry n (sy_index s)\<rparr>))"
  "index_closed C J \<Longrightarrow> keeps holds (change (\<lambda>s. s\<lparr>sy_index := []\<rparr>))"
  by (cases key; simp add: keeps_def holds_def sync_ops index_closed_def)+

lemma kept_try: "(\<And>h. I h \<Longrightarrow> I (snd (f h))) \<Longrightarrow> keeps holds (try_host f)"
  by (auto simp: keeps_def holds_def sync_ops split: prod.splits; metis snd_conv)

lemma kept_call: "(\<And>h. I h \<Longrightarrow> I (snd (f h))) \<Longrightarrow> keeps holds (call_host f)"
  by (auto simp: keeps_def holds_def sync_ops split: prod.splits; metis snd_conv)

lemma host_calls [keeping]:
  "C t \<Longrightarrow> keeps holds (call_host (in_create api t name props folder))"
  "D d \<Longrightarrow> keeps holds (try_host (in_delete api d))"
  "W d \<Longrightarrow> keeps holds (try_host (in_update_states api d kv))"
  "W d \<Longrightarrow> keeps holds (try_host (in_set_error api d e))"
  "keeps holds (try_host (in_set_model api d m))" "keeps holds (try_host (in_rename api d n))"
  "keeps holds (try_host (in_replace_props api d p))" "keeps holds (try_host (in_ungroup api d))"
  "keeps holds (try_host (in_group_with api a b))" "keeps holds (try_host (in_move api d fo))"
  "keeps holds (try_host (in_new_folder api n))" "keeps holds (try_host (in_states_changed api d))"
  "keeps holds (try_host (in_save api k ids))"
  "keeps holds (change (\<lambda>s. s\<lparr>sy_host := in_survey api node (sy_host s)\<rparr>))"
  "keeps holds (change (\<lambda>s. s\<lparr>sy_host := in_forget_survey api i (sy_host s)\<rparr>))"
  using host by (auto simp: host_keeps_def keeps_def holds_def change_def intro!: kept_try [unfolded keeps_def holds_def, rule_format]
    kept_call [unfolded keeps_def holds_def, rule_format])

lemma group_warn_kept [keeping]: "keeps holds (group_warn d k)" "keeps holds (warn_once_if b d k)"
  by (auto simp: group_warn_def warn_once_if_def intro!: keeping)

lemma set_tombs_fields:
  "sy_host (set_tombs k ids s) = sy_host s" "sy_index (set_tombs k ids s) = sy_index s"
  "k = RetiredNodes \<Longrightarrow> sy_tombstones (set_tombs k ids s) = sy_tombstones s"
  "sy_active (set_tombs k ids s) = sy_active s"
  by (cases k; simp add: set_tombs_def)+

lemma persist_kept [keeping]: "keeps holds (tombstones_persist api k)"
  by (auto simp: tombstones_persist_def intro!: keeping)

lemma set_tombs_kept [keeping]: "k = RetiredNodes \<or> (\<forall>t a. T t a) \<Longrightarrow> keeps holds (change (set_tombs k ids))"
  by (auto simp: keeps_def holds_def sync_ops set_tombs_fields)

lemma tombstones_kept [keeping]:
  "k = RetiredNodes \<or> (\<forall>t a. T t a) \<Longrightarrow> keeps holds (tombstones_add api k n)"
  "k = RetiredNodes \<or> (\<forall>t a. T t a) \<Longrightarrow> keeps holds (tombstones_forget api k n)"
  by (auto simp: tombstones_add_def tombstones_forget_def intro!: keeping)

text \<open>The same with no condition on the index.\<close>

lemma unindexed_kept:
  "(\<And>ix. J ix) \<Longrightarrow> keeps holds (change (\<lambda>s. s\<lparr>sy_index := f s\<rparr>))"
  by (simp add: keeps_def holds_def sync_ops)

lemma rebuild_unindexed: "(\<And>ix. J ix) \<Longrightarrow> keeps holds (rebuild_index api)"
  by (auto simp: rebuild_index_def warn_unconfigured_strays_def note_device_def Let_def intro!: keeping unindexed_kept)

lemma delete_unindexed: "(\<And>ix. J ix) \<Longrightarrow> (\<And>d. d \<in> set ds \<Longrightarrow> D d) \<Longrightarrow> keeps holds (delete_devices api ds n)"
  by (auto simp: delete_devices_def Let_def ungroup_device_def delete_device_def intro!: keeping unindexed_kept)

lemma note_device_kept [keeping]: "index_closed C J \<Longrightarrow> (\<And>t. C t) \<Longrightarrow> keeps holds (note_device dev)"
  by (auto simp: note_device_def Let_def intro!: keeping)

lemma rebuild_index_kept [keeping]: "index_closed C J \<Longrightarrow> (\<And>t. C t) \<Longrightarrow> keeps holds (rebuild_index api)"
  by (auto simp: rebuild_index_def warn_unconfigured_strays_def intro!: keeping)

lemma delete_devices_kept [keeping]: "index_closed C J \<Longrightarrow> (\<And>d. d \<in> set ds \<Longrightarrow> D d) \<Longrightarrow> keeps holds (delete_devices api ds n)"
  by (auto simp: delete_devices_def Let_def ungroup_device_def delete_device_def intro!: keeping)

lemma apply_states_kept [keeping]: "W d \<Longrightarrow> keeps holds (apply_states api d kv)"
  by (auto simp: apply_states_def intro!: keeping)

lemma create_one_kept [keeping]:
  assumes "\<And>d. W d" "C (sp_device_type_id spec)" shows "keeps holds (create_one api spec name folder model)"
proof -
  have "keeps holds (seed_states api d states)" for d states
    using assms(1) by (auto simp: seed_states_def intro!: keeping)
  with assms show ?thesis
    by (auto simp: create_one_def existing_name_def Let_def intro!: keeping split: sum.splits create_fault.splits)
qed

lemma identity_kept [keeping]:
  "keeps holds (resolve_folder_id api room)" "keeps holds (move_to_folder api b d f)" "keeps holds (read_device api k d)"
  "keeps holds (existing_name api name)" "keeps holds (apply_identity api b d name f)"
proof -
  show r: "keeps holds (resolve_folder_id api room)"
    by (auto simp: resolve_folder_id_def Let_def intro!: keeping)
  show m: "keeps holds (move_to_folder api b d f)" for b d f
    by (auto simp: move_to_folder_def intro!: keeping)
  show d: "keeps holds (read_device api k d)" for k d
    by (auto simp: read_device_def intro!: keeping)
  show e: "keeps holds (existing_name api name)" for name
    by (auto simp: existing_name_def intro!: keeping)
  show "keeps holds (apply_identity api b d name f)"
    by (auto simp: apply_identity_def intro!: keeping m d e)
qed

lemma first_folder_kept [keeping]: "keeps holds (first_folder api ds)"
  by (induction ds) (auto intro!: keeping)

lemma naming_kept [keeping]:
  "keeps holds (true_up_endpoint_name api d target b f r)" "keeps holds (sibling_folder_id api n)"
  "keeps holds (true_up_node_device api d node base folder)"
proof -
  show "keeps holds (true_up_endpoint_name api d target b f r)"
    by (auto simp: true_up_endpoint_name_def intro!: keeping)
  show s: "keeps holds (sibling_folder_id api n)" for n
    by (auto simp: sibling_folder_id_def intro!: keeping)
  have a: "keeps holds (adopt_folder api dev d n f)" for dev d n f
    by (auto simp: adopt_folder_def intro!: keeping s)
  have n: "keeps holds (rename_node_device api dev d b f)" for dev d b f
    by (auto simp: rename_node_device_def intro!: keeping)
  show "keeps holds (true_up_node_device api d node base folder)"
    by (auto simp: true_up_node_device_def intro!: keeping a n split: option.splits list.splits)
qed

lemma grouping_kept [keeping]: "keeps holds (ensure_grouped api d n family)"
proof -
  have g: "keeps holds (group_and_verify api d n a b)" for d n a b
    by (auto simp: group_and_verify_def intro!: keeping)
  show ?thesis by (auto simp: ensure_grouped_def intro!: keeping g)
qed

lemma run_update_kept [keeping]: "keeps holds (run_update pf h dev a v)"
  by (auto simp: run_update_def keeps_def holds_def split: prod.splits)

lemma prime_states_kept [keeping]: "W d \<Longrightarrow> keeps holds (prime_states api node d ep t sib)"
  by (auto simp: prime_states_def intro!: keeping)

end

end
