(* ===== verification/SyncFacts.thy ===== *)
theory SyncFacts
  imports SyncFrame HandlerFacts
begin

text \<open>
  Properties of \<open>DeviceSync\<close>: the index, the passes that create devices, deletion, replacement,
  meter links, events and reachability.
\<close>

section \<open>What a pass can create\<close>

lemma handler_spec_types:
  assumes "sp \<in> set (handlers_for_endpoint node endpoint)"
  shows "sp_device_type_id sp \<in> set (map device_type_id (filter creates_device default_handlers))"
proof -
  have "sp_device_type_id sp \<in> set (map sp_device_type_id (handlers_for_endpoint node endpoint))" using assms by simp
  then show ?thesis unfolding endpoint_types by auto
qed

definition planned_type :: "string \<Rightarrow> bool" where
  "planned_type t \<longleftrightarrow> t \<in> set (map device_type_id (filter creates_device default_handlers))
     \<union> {''matterUnknown'', ''matterEnergyMeter''}"

lemma planned_not_node: "planned_type t \<Longrightarrow> t \<noteq> ''matterNode''"
proof -
  have "list_all (\<lambda>t. t \<noteq> ''matterNode'') (map device_type_id (filter creates_device default_handlers))" by code_simp
  then show "planned_type t \<Longrightarrow> t \<noteq> ''matterNode''" by (auto simp: planned_type_def list_all_iff)
qed

lemma decorate_type [simp]: "sp_device_type_id (decorate s node coverage eid sp) = sp_device_type_id sp"
  by (simp add: decorate_def Let_def)

lemma spec_types [simp]:
  "unknown_spec node endpoint = Some sp \<Longrightarrow> sp_device_type_id sp = ''matterUnknown''"
  "sp_device_type_id (energy_meter_spec node endpoint) = ''matterEnergyMeter''"
  "sp_device_type_id (node_spec node coverage base) = ''matterNode''"
  by (auto simp: unknown_spec_def energy_meter_spec_def node_spec_def Let_def split: if_splits)

text \<open>The types an endpoint can get devices of: those of its handlers, or else the two of the module; the root
  endpoint without a handler gets none.\<close>

definition possible_types :: "node_info \<Rightarrow> endpoint_info \<Rightarrow> string set" where
  "possible_types node endpoint = (let ts = map sp_device_type_id (handlers_for_endpoint node endpoint)
     in if ts \<noteq> [] then set ts
        else if ei_endpoint_id endpoint = 0 then {}
        else if is_meter_source_candidate endpoint [] then {''matterEnergyMeter''}
        else if unmapped_clusters endpoint = {} then {} else {''matterUnknown''})"

lemma possible_planned: "t \<in> possible_types node endpoint \<Longrightarrow> planned_type t"
  using handler_spec_types by (auto simp: possible_types_def planned_type_def Let_def split: if_splits)

lemma orphan_types:
  assumes "handlers_for_endpoint node endpoint = []"
  shows "yields (\<lambda>sps. \<forall>sp \<in> set sps. sp_device_type_id sp \<in> possible_types node endpoint) (orphan_specs api node endpoint)"
proof -
  have "unknown_spec node endpoint = None" if "unmapped_clusters endpoint = {}" "ei_endpoint_id endpoint \<noteq> 0"
    using that by (simp add: unknown_spec_def Let_def)
  moreover have "unknown_spec node endpoint = None" if "ei_endpoint_id endpoint = 0"
    using that by (simp add: unknown_spec_def)
  ultimately show ?thesis
    using assms by (auto simp: orphan_specs_def possible_types_def Let_def intro!: yields_and_then [OF yields_any] yields_pure
        split: prod.splits option.splits)
qed

lemma plan_types:
  "yields (\<lambda>ps. \<forall>p \<in> set ps. fst p = endpoint \<and> sp_device_type_id (snd p) \<in> possible_types node endpoint)
     (plan_endpoint api node coverage endpoint)"
proof -
  have h: "yields (\<lambda>sps. \<forall>sp \<in> set sps. sp_device_type_id sp \<in> possible_types node endpoint)
      (if handlers_for_endpoint node endpoint = [] then orphan_specs api node endpoint
       else and_then m (\<lambda>_. pure_op (handlers_for_endpoint node endpoint)))" for m :: "('a, unit) sync_op"
    using orphan_types [of node endpoint api]
    by (auto simp: possible_types_def Let_def intro!: yields_and_then [OF yields_any] yields_pure)
  have l: "yields (\<lambda>sps. \<forall>sp \<in> set sps. sp_device_type_id sp \<in> possible_types node endpoint)
      (look (\<lambda>s. map (decorate s node coverage eid) specs) :: ('a, _) sync_op)"
    if "\<forall>sp \<in> set specs. sp_device_type_id sp \<in> possible_types node endpoint" for specs eid
    using that by (auto simp: yields_def sync_ops)
  show ?thesis
    unfolding plan_endpoint_def Let_def
    by (intro yields_and_then [OF yields_any] yields_and_then [OF h] yields_and_then [OF l] yields_pure) auto
qed

text \<open>The endpoints whose readings go to another one once a pass has resolved the links: those of the links when the
  node's attributes are known, else those of the pass before. No meter is made for them.\<close>

definition handler_specs :: "node_info \<Rightarrow> (int \<times> indigo_spec list) list" where
  "handler_specs node = map (\<lambda>e. (ei_endpoint_id e, handlers_for_endpoint node e)) (ni_endpoints node)"

definition meter_linked :: "node_info \<Rightarrow> ((int \<times> int) \<times> int) list \<Rightarrow> int \<Rightarrow> bool" where
  "meter_linked node forward eid = (if ni_attributes node = [] then map_of forward (ni_node_id node, eid) \<noteq> None
     else (case meter_links node (handler_specs node) of Inl _ \<Rightarrow> False | Inr links \<Rightarrow> eid \<in> fst ` set links))"

definition wanted_types :: "node_info \<Rightarrow> (int \<Rightarrow> bool) \<Rightarrow> endpoint_info \<Rightarrow> string set" where
  "wanted_types node linked endpoint = possible_types node endpoint
     - (if handlers_for_endpoint node endpoint = [] \<and> linked (ei_endpoint_id endpoint) then {''matterEnergyMeter''} else {})"

definition wanted :: "node_info \<Rightarrow> (int \<Rightarrow> bool) \<Rightarrow> endpoint_info \<times> indigo_spec \<Rightarrow> bool" where
  "wanted node linked p \<longleftrightarrow> fst p \<in> set (ni_endpoints node) \<and> sp_device_type_id (snd p) \<in> wanted_types node linked (fst p)"

definition links_known :: "node_info \<Rightarrow> (int \<Rightarrow> bool) \<Rightarrow> 'h sync \<Rightarrow> bool" where
  "links_known node linked s \<longleftrightarrow> (\<forall>eid. linked eid \<longrightarrow> map_of (sy_forward s) (ni_node_id node, eid) \<noteq> None)"

lemma dict_join_lookup: "map_of (dict_join d e) k = (case map_of (rev e) k of None \<Rightarrow> map_of d k | Some v \<Rightarrow> Some v)"
  by (induction e rule: rev_induct) (auto simp: dict_join_def update_conv')

lemma orphan_wanted:
  assumes "keeps P (orphan_specs api node endpoint)" "handlers_for_endpoint node endpoint = []"
  shows "runs (\<lambda>s. P s \<and> links_known node linked s) (orphan_specs api node endpoint)
     (\<lambda>sps s. (P s \<and> links_known node linked s) \<and> (\<forall>sp \<in> set sps. sp_device_type_id sp \<in> wanted_types node linked endpoint)) P"
proof -
  have kept: "keeps (links_known node linked) (orphan_specs api node endpoint)"
    by (auto simp: orphan_specs_def Let_def keeps_def sync_ops links_known_def split: option.split)
  have gives: "sp_device_type_id sp \<in> wanted_types node linked endpoint"
    if "links_known node linked s" "fst (orphan_specs api node endpoint s) = Inr sps" "sp \<in> set sps" for s sps sp
  proof -
    have "sp_device_type_id sp \<in> possible_types node endpoint"
      using orphan_types [OF assms(2), of api] that(2,3) by (auto simp: yields_def)
    moreover have "sp_device_type_id sp \<noteq> ''matterEnergyMeter''" if "linked (ei_endpoint_id endpoint)"
      using that \<open>links_known node linked s\<close> \<open>fst (orphan_specs api node endpoint s) = Inr sps\<close> \<open>sp \<in> set sps\<close>
      by (auto simp: orphan_specs_def Let_def sync_ops links_known_def split: if_splits option.splits)
    ultimately show ?thesis by (auto simp: wanted_types_def)
  qed
  show ?thesis
    unfolding runs_def
  proof (intro allI impI, elim conjE)
    fix s
    assume s: "P s" "links_known node linked s"
    obtain r t where run: "orphan_specs api node endpoint s = (r, t)" by fastforce
    have "P t" "links_known node linked t" using keepsD [OF assms(1) s(1)] keepsD [OF kept s(2)] run by simp_all
    then show "case orphan_specs api node endpoint s of (Inl e, t) \<Rightarrow> P t
        | (Inr sps, t) \<Rightarrow> (P t \<and> links_known node linked t) \<and> (\<forall>sp \<in> set sps. sp_device_type_id sp \<in> wanted_types node linked endpoint)"
      using gives [OF s(2)] run by (cases r) auto
  qed
qed

definition planned_for :: "node_info \<Rightarrow> endpoint_info \<times> indigo_spec \<Rightarrow> bool" where
  "planned_for node p \<longleftrightarrow> fst p \<in> set (ni_endpoints node) \<and> sp_device_type_id (snd p) \<in> possible_types node (fst p)"

lemma plan_planned:
  "yields (\<lambda>ps. \<forall>p \<in> set ps. planned_for node p) (collect (ni_endpoints node) (plan_endpoint api node coverage))"
proof (rule yields_collect)
  fix e
  assume "e \<in> set (ni_endpoints node)"
  then show "yields (\<lambda>ps. \<forall>p \<in> set ps. planned_for node p) (plan_endpoint api node coverage e)"
    using plan_types [of e node api coverage] by (fastforce simp: yields_def planned_for_def)
qed

context footprint
begin

lemma planning_kept [keeping]: "keeps holds (plan_endpoint api node coverage endpoint)"
proof -
  have "keeps holds (orphan_specs api node endpoint)"
    by (auto simp: orphan_specs_def Let_def intro!: keeping)
  then show ?thesis by (auto simp: plan_endpoint_def Let_def intro!: keeping)
qed

lemma realise_kept:
  assumes "\<And>d. W d" "C (sp_device_type_id (snd x))" "index_closed C J" shows "keeps holds (realise api node info x)"
  using assms
  by (cases x) (auto simp: realise_def keep_device_def make_device_def Let_def intro!: keeping)

lemma ensure_node_device_kept:
  assumes "\<And>d. W d" "index_closed C J"
    and "C ''matterNode'' \<or> (\<forall>s. holds s \<longrightarrow> is_tombstoned NodeTombstones (ni_node_id node) s)"
  shows "keeps holds (ensure_node_device api node coverage folder model planned base)"
  unfolding ensure_node_device_def
proof (rule keeps_look_then)
  fix s
  assume s: "holds s"
  have "keeps holds (make_node_device api node coverage folder model base)" if "C ''matterNode''"
    using that assms(1,2) by (auto simp: make_node_device_def Let_def intro!: keeping)
  then show "holds (snd ((case (node_device_of (sy_index s) (ni_node_id node), is_tombstoned NodeTombstones (ni_node_id node) s) of
      (existing, dead) \<Rightarrow> (case existing of
          Some d \<Rightarrow> and_then (true_up_node_device api d node base folder) (\<lambda>_. pure_op (Some d))
        | None \<Rightarrow> if dead \<or> \<not> planned then pure_op None
                  else make_node_device api node coverage folder model base)) s))"
    using assms(3) s by (cases "node_device_of (sy_index s) (ni_node_id node)") (auto intro!: keeping keepsD [where P = holds and s = s, OF _ s])
qed

lemma finishing_kept [keeping]: "keeps holds (finish_pass api node coverage outcomes n planned)"
proof -
  have g: "keeps holds (group_family api n family)" for n family
    by (auto simp: group_family_def intro!: keeping)
  have r: "keeps holds (refresh_state_lists api n)" for n
  proof -
    have "keeps holds (rebuild_state_lists api ds)" for ds
      by (induction ds) (auto intro!: keeping)
    then show ?thesis by (auto simp: refresh_state_lists_def intro!: keeping)
  qed
  have w: "keeps holds (warn_of_newly_excluded api node coverage)"
    by (auto simp: warn_of_newly_excluded_def warn_excluded_def intro!: keeping)
  have p: "keeps holds (report_settable_attributes api node)"
    by (auto simp: report_settable_attributes_def intro!: keeping)
  show ?thesis by (auto simp: finish_pass_def Let_def intro!: keeping g r w p)
qed

lemma create_devices_general:
  assumes "\<And>info x. planned_for node x \<Longrightarrow> keeps holds (realise api node info x)"
    and "\<And>coverage f m b base. keeps holds (ensure_node_device api node coverage f m b base)"
  shows "keeps holds (create_devices api node room)"
proof -
  have n: "keeps holds (note_capabilities node coverage)" for coverage
    by (auto simp: note_capabilities_def cache_setting_limits_def Let_def intro!: keeping)
  have m: "keeps holds (resolve_meter_links node specs)" for specs
    by (auto simp: resolve_meter_links_def Let_def intro!: keeping)
  have r: "keeps holds (realise_plan api node coverage auth room plan)"
    if "\<forall>p \<in> set plan. planned_for node p" for coverage auth room plan
    using that by (auto simp: realise_plan_def Let_def intro!: keeping assms)
  have c: "keeps holds (and_then (collect (ni_endpoints node) (plan_endpoint api node coverage)) f)"
    if "\<And>plan. \<forall>p \<in> set plan. planned_for node p \<Longrightarrow> keeps holds (f plan)" for f coverage
    by (rule keeps_yield_then [OF _ plan_planned that]) (auto intro!: keeping)
  show ?thesis
    by (auto simp: create_devices_def Let_def intro!: keeping n m r c)
qed

lemma create_devices_kept [keeping]:
  assumes "\<And>d. W d" "\<And>t. planned_type t \<Longrightarrow> C t" "index_closed C J"
    and "C ''matterNode'' \<or> (\<forall>s. holds s \<longrightarrow> is_tombstoned NodeTombstones (ni_node_id node) s)"
  shows "keeps holds (create_devices api node room)"
  using assms
  by (intro create_devices_general realise_kept ensure_node_device_kept)
    (auto simp: planned_for_def dest: possible_planned)

text \<open>The plan of a node whose links are known, and a pass over a node that has all its devices.\<close>

lemma planning_wanted:
  assumes "endpoint \<in> set (ni_endpoints node)"
  shows "runs (\<lambda>s. holds s \<and> links_known node linked s) (plan_endpoint api node coverage endpoint)
     (\<lambda>ps s. (holds s \<and> links_known node linked s) \<and> (\<forall>p \<in> set ps. wanted node linked p)) holds"
proof -
  let ?A = "\<lambda>s. holds s \<and> links_known node linked s"
  let ?B = "\<lambda>sps s. ?A s \<and> (\<forall>sp \<in> set sps. sp_device_type_id sp \<in> wanted_types node linked endpoint)"
  have say: "runs P (when_op b (say l)) (\<lambda>_. P) holds"
    if "\<And>s l. P s \<Longrightarrow> P (s\<lparr>sy_log := l\<rparr>)" for P :: "'h sync \<Rightarrow> bool" and b l
    using that by (simp add: runs_def sync_ops)
  have kept: "?A (s\<lparr>sy_log := l\<rparr>)" if "?A s" for s l
    using that by (simp add: holds_def links_known_def)
  have specs: "runs ?A (if handlers_for_endpoint node endpoint = [] then orphan_specs api node endpoint
       else and_then (when_op b (say l)) (\<lambda>_. pure_op (handlers_for_endpoint node endpoint))) ?B holds" for b l
  proof (rule runs_if)
    assume "handlers_for_endpoint node endpoint = []"
    moreover have "keeps holds (orphan_specs api node endpoint)"
      by (auto simp: orphan_specs_def Let_def intro!: keeping)
    ultimately show "runs ?A (orphan_specs api node endpoint) ?B holds" by (intro orphan_wanted)
  next
    assume "handlers_for_endpoint node endpoint \<noteq> []"
    then show "runs ?A (and_then (when_op b (say l)) (\<lambda>_. pure_op (handlers_for_endpoint node endpoint))) ?B holds"
      by (intro runs_and_then [OF say] runs_pure) (auto simp: kept wanted_types_def possible_types_def Let_def)
  qed
  show ?thesis
    unfolding plan_endpoint_def Let_def
    by (rule runs_and_then [OF runs_weaken [OF runs_look]], assumption, assumption, assumption,
        rule runs_and_then [OF runs_weaken [OF specs]], simp, assumption, assumption,
        rule runs_and_then [OF say], simp add: kept,
        rule runs_and_then [OF runs_look], rule runs_pure) (use assms in \<open>auto simp: wanted_def\<close>)
qed

lemma resolve_links_known:
  assumes "ni_attributes node \<noteq> []"
  shows "runs holds (resolve_meter_links node (handler_specs node))
     (\<lambda>_ s. holds s \<and> links_known node (meter_linked node forward) s) holds"
proof -
  have link: "map_of (dict_join d (dict_join [] (map (\<lambda>(src, t). ((n, src), t)) links))) (n, eid) \<noteq> None"
    if "(eid, t) \<in> set links" for d eid t n and links :: "(int \<times> int) list"
  proof -
    from that have "((n, eid), t) \<in> set (rev (map (\<lambda>(src, t). ((n, src), t)) links))" by force
    then have "map_of (rev (map (\<lambda>(src, t). ((n, src), t)) links)) (n, eid) \<noteq> None"
      by (metis weak_map_of_SomeI option.distinct(1))
    then have "map_of (dict_join [] (map (\<lambda>(src, t). ((n, src), t)) links)) (n, eid) \<noteq> None"
      by (auto simp: dict_join_lookup)
    then have "(n, eid) \<in> fst ` set (dict_join [] (map (\<lambda>(src, t). ((n, src), t)) links))"
      by (simp add: map_of_eq_None_iff)
    then have "map_of (rev (dict_join [] (map (\<lambda>(src, t). ((n, src), t)) links))) (n, eid) \<noteq> None"
      by (simp add: map_of_eq_None_iff)
    then show ?thesis by (auto simp: dict_join_lookup)
  qed
  show ?thesis
    unfolding resolve_meter_links_def Let_def
    by (rule runs_and_then [OF runs_keeps], rule other_fields; (simp; fail)?)
      (rule runs_and_then [OF runs_computed], rule runs_change,
        use assms link in \<open>auto simp: holds_def links_known_def meter_linked_def\<close>)
qed

lemma settled_pass_kept:
  assumes missing: "\<And>s e t. holds s \<Longrightarrow> e \<in> set (ni_endpoints node) \<Longrightarrow> t \<in> wanted_types node (meter_linked node (sy_forward s0)) e
      \<Longrightarrow> map_of (types_at (sy_index s) (ni_node_id node, ei_endpoint_id e)) t \<noteq> None"
    and node_dev: "\<And>s. holds s \<Longrightarrow> node_device_of (sy_index s) (ni_node_id node) \<noteq> None \<or> is_tombstoned NodeTombstones (ni_node_id node) s"
    and start: "holds s0"
  shows "holds (snd (create_devices api node room s0))"
proof -
  let ?linked = "meter_linked node (sy_forward s0)"
  let ?A = "\<lambda>s. holds s \<and> links_known node ?linked s"
  have made: "keeps holds (realise api node info x)" if x: "wanted node ?linked x" for info x
  proof -
    obtain e sp where p: "x = (e, sp)" by (cases x)
    show ?thesis
      unfolding realise_def p prod.case
    proof (rule keeps_look_then)
      fix s
      assume s: "holds s"
      then obtain d where d: "map_of (types_at (sy_index s) (ni_node_id node, ei_endpoint_id e)) (sp_device_type_id sp) = Some d"
        using missing [OF s, of e "sp_device_type_id sp"] x by (auto simp: wanted_def p)
      have "keeps holds (keep_device api node info e sp d)" by (auto simp: keep_device_def Let_def intro!: keeping)
      then show "holds (snd ((case map_of (types_at (sy_index s) (ni_node_id node, ei_endpoint_id e)) (sp_device_type_id sp) of
          Some d \<Rightarrow> keep_device api node info e sp d | None \<Rightarrow> make_device api node info e sp) s))"
        using s by (simp add: d keepsD)
    qed
  qed
  have ensured: "keeps holds (ensure_node_device api node coverage f m b base)" for coverage f m b base
    unfolding ensure_node_device_def
  proof (rule keeps_look_then)
    fix s
    assume s: "holds s"
    show "holds (snd ((case (node_device_of (sy_index s) (ni_node_id node), is_tombstoned NodeTombstones (ni_node_id node) s) of
        (existing, dead) \<Rightarrow> (case existing of
            Some d \<Rightarrow> and_then (true_up_node_device api d node base f) (\<lambda>_. pure_op (Some d))
          | None \<Rightarrow> if dead \<or> \<not> b then pure_op None else make_node_device api node coverage f m base)) s))"
      using node_dev [OF s] s by (cases "node_device_of (sy_index s) (ni_node_id node)")
        (auto intro!: keeping keepsD [where P = holds and s = s, OF _ s])
  qed
  have rest: "runs ?A (and_then (collect (ni_endpoints node) (plan_endpoint api node coverage)) (\<lambda>plan.
       and_then (when_op (plan = [] \<and> aggregators node \<noteq> [])
           (say (Creation (WarnEmptyBridge (ni_node_id node) (aggregators node))))) (\<lambda>_.
       and_then (realise_plan api node coverage auth room plan) (\<lambda>(outcomes, node_dev).
       and_then (finish_pass api node coverage outcomes node_dev (length plan)) (\<lambda>_.
         pure_op (result_of node outcomes node_dev)))))) (\<lambda>_. holds) holds" for coverage auth
  proof (rule runs_and_then [OF runs_collect [OF planning_wanted]], assumption)
    fix plan
    show "runs (\<lambda>s. ?A s \<and> (\<forall>p \<in> set plan. wanted node ?linked p)) (and_then (when_op (plan = [] \<and> aggregators node \<noteq> [])
           (say (Creation (WarnEmptyBridge (ni_node_id node) (aggregators node))))) (\<lambda>_.
       and_then (realise_plan api node coverage auth room plan) (\<lambda>(outcomes, node_dev).
       and_then (finish_pass api node coverage outcomes node_dev (length plan)) (\<lambda>_.
         pure_op (result_of node outcomes node_dev))))) (\<lambda>_. holds) holds"
    proof (cases "\<forall>p \<in> set plan. wanted node ?linked p")
      case True
      then have "keeps holds (realise_plan api node coverage auth room plan)"
        by (auto simp: realise_plan_def Let_def intro!: keeping made ensured)
      then show ?thesis
        by (intro runs_weaken [OF runs_keeps [where P = holds]]) (auto intro!: keeping)
    next
      case False
      then show ?thesis unfolding runs_def by blast
    qed
  qed
  have known: "runs (\<lambda>s. holds s \<and> sy_forward s = sy_forward s0) (change (\<lambda>s. s\<lparr>sy_known := K s\<rparr>))
      (\<lambda>_ s. holds s \<and> sy_forward s = sy_forward s0) holds" for K
    by (rule runs_change) (simp add: holds_def)
  have noted: "keeps holds (note_capabilities node coverage)" for coverage
    by (auto simp: note_capabilities_def cache_setting_limits_def Let_def intro!: keeping)
  have links: "runs (\<lambda>s. holds s \<and> sy_forward s = sy_forward s0)
      (and_then (when_op (ni_attributes node \<noteq> []) (note_capabilities node coverage)) (\<lambda>_.
       and_then (when_op (ni_attributes node \<noteq> []) (resolve_meter_links node (handler_specs node))) (\<lambda>_. R))) (\<lambda>_. holds) holds"
    if R: "runs ?A R (\<lambda>_. holds) holds" for coverage and R :: "('h, create_result) sync_op"
  proof (cases "ni_attributes node = []")
    case True
    then show ?thesis using R by (auto simp: runs_def sync_ops links_known_def meter_linked_def)
  next
    case False
    then show ?thesis
      by (intro runs_weaken [OF runs_and_then [OF runs_keeps [OF keeps_when [OF noted]]
            runs_and_then [OF _ R], of "\<lambda>_. when_op (ni_attributes node \<noteq> []) (resolve_meter_links node (handler_specs node))"]])
        (auto simp: when_op_def intro: resolve_links_known)
  qed
  let ?S = "\<lambda>s. holds s \<and> sy_forward s = sy_forward s0"
  let ?know = "change (\<lambda>s. s\<lparr>sy_known := insert (ni_node_id node) (sy_known s)\<rparr>) :: ('h, unit) sync_op"
  have pass: "runs ?S (and_then ?know (\<lambda>_.
           and_then (computed (node_coverage node)) (\<lambda>coverage.
           and_then (when_op (ni_attributes node \<noteq> []) (note_capabilities node coverage)) (\<lambda>_.
           and_then (when_op (ni_attributes node \<noteq> []) (resolve_meter_links node (handler_specs node))) (\<lambda>_.
           and_then (collect (ni_endpoints node) (plan_endpoint api node coverage)) (\<lambda>plan.
           and_then (when_op (plan = [] \<and> aggregators node \<noteq> [])
               (say (Creation (WarnEmptyBridge (ni_node_id node) (aggregators node))))) (\<lambda>_.
           and_then (realise_plan api node coverage auth room plan) (\<lambda>(outcomes, node_dev).
           and_then (finish_pass api node coverage outcomes node_dev (length plan)) (\<lambda>_.
             pure_op (result_of node outcomes node_dev)))))))))) (\<lambda>_. holds) holds" for auth
    by (rule runs_and_then [OF known], rule runs_and_then [OF runs_weaken [OF runs_computed]],
        assumption, assumption, erule conjunct1, rule runs_weaken [OF links [OF rest]]) auto
  have none: "runs ?S (pure_op (nothing_created node)) (\<lambda>_. holds) holds"
    by (rule runs_pure) simp
  have retired: "runs ?S (and_then ?know (\<lambda>_. pure_op (nothing_created node))) (\<lambda>_. holds) holds"
    by (rule runs_and_then [OF known]) (rule none)
  have "runs ?S (create_devices api node room) (\<lambda>_. holds) holds"
    unfolding create_devices_def Let_def handler_specs_def [symmetric]
    by (rule runs_and_then [OF runs_weaken [OF runs_look, where P' = ?S and Q' = "\<lambda>_. ?S"]])
      (auto intro!: runs_if pass none retired)
  then show ?thesis using start by (auto dest!: runsD [where s = s0] split: prod.splits sum.splits)
qed

lemma reachability_kept [keeping]:
  "W d \<Longrightarrow> keeps holds (safe_unreachable api d)" "W d \<Longrightarrow> keeps holds (clear_error api d)"
  "(\<And>d. W d) \<Longrightarrow> keeps holds (write_node_reachable api n b)"
  by (auto simp: safe_unreachable_def clear_error_def write_node_reachable_def intro!: keeping)

lemma apply_reachability_kept [keeping]: "(\<And>d. W d) \<Longrightarrow> keeps holds (apply_reachability api node)"
proof -
  assume W: "\<And>d. W d"
  have d: "keeps holds (reassert_device api node cap d)" for cap d
    by (auto simp: reassert_device_def warn_stale_display_def Let_def intro!: keeping)
  then have r: "keeps holds (reassert_capability_props api node)"
    by (auto simp: reassert_capability_props_def intro!: keeping)
  have "keeps holds (refresh_live_node api node)"
    using W by (auto simp: refresh_live_node_def intro!: keeping r)
  moreover have "keeps holds (mark_unreachable api n)" for n
    using W by (auto simp: mark_unreachable_def intro!: keeping)
  ultimately show ?thesis
    using W by (auto simp: apply_reachability_def intro!: keeping)
qed

lemma marking_kept [keeping]:
  "(\<And>d. W d) \<Longrightarrow> keeps holds (mark_unreachable api n)" "(\<And>d. W d) \<Longrightarrow> keeps holds (mark_all_unreachable api)"
  "(\<And>d. W d) \<Longrightarrow> keeps holds (mark_endpoint_unreachable api n e)"
  by (auto simp: mark_unreachable_def mark_all_unreachable_def mark_endpoint_unreachable_def intro!: keeping)

text \<open>An event of a handler, for the one device it is routed to or for those a node-scoped reading applies
  to.\<close>

lemma deliver_one_kept:
  assumes "\<And>s d. holds s \<Longrightarrow> target = Some d \<Longrightarrow> gated s d \<or> W d" and "\<And>dev. keeps holds (read dev)"
  shows "keeps holds (deliver_one api h target read bad)"
proof (cases target)
  case (Some d)
  show ?thesis
    unfolding deliver_one_def Some option.case
  proof (rule keeps_look_then)
    fix s
    assume s: "holds s"
    show "holds (snd ((if gated s d then pure_op () else and_then (event_device api d) (\<lambda>found. case found of
        None \<Rightarrow> pure_op ()
      | Some dev \<Rightarrow> and_then (rescue (and_then (read dev) (\<lambda>u. pure_op (Some u)))
            (\<lambda>e. and_then (say (bad d)) (\<lambda>_. pure_op None))) (\<lambda>states. case states of
          None \<Rightarrow> pure_op () | Some u \<Rightarrow> write_update api h d u))) s))"
      using assms(1) [OF s Some] s assms(2)
      by (auto simp: event_device_def write_update_def intro!: keeping keepsD [where P = holds and s = s, OF _ s])
  qed
qed (simp add: deliver_one_def keeping)

lemma deliver_scoped_kept:
  assumes "\<And>s. holds s \<Longrightarrow> gated s d \<or> W d" shows "keeps holds (deliver_scoped api h a v d)"
  unfolding deliver_scoped_def
proof (rule keeps_look_then)
  fix s
  assume s: "holds s"
  show "holds (snd ((if gated s d then pure_op () else and_then (event_device api d) (\<lambda>found. case found of
      None \<Rightarrow> pure_op ()
    | Some dev \<Rightarrow> rescue (and_then (run_update (in_platform api) h dev a v) (write_update api h d))
        (\<lambda>e. say (WarnBadUpdate d)))) s))"
    using assms [OF s] s
    by (auto simp: event_device_def write_update_def intro!: keeping keepsD [where P = holds and s = s, OF _ s])
qed

end

end
