(* ===== verification/SyncClaims.thy ===== *)
theory SyncClaims
  imports SyncFacts
begin

text \<open>
  The contracts of \<open>DeviceSync\<close>: its index in every reachable state, which devices a pass, a
  deletion, a replacement and an event may touch, how a reconcile ends, and where readings of a
  meter go.
\<close>

section \<open>The index in every reachable state\<close>

definition index_ok :: "dev_index \<Rightarrow> bool" where
  "index_ok ix = (distinct (map fst ix) \<and> list_all (\<lambda>(k, m). m \<noteq> [] \<and> distinct (map fst m)) ix)"

lemma update_not_empty [simp]: "AList.update k v d \<noteq> []"
  by (cases d) (auto split: if_splits)

lemma types_at_distinct: "index_ok ix \<Longrightarrow> distinct (map fst (types_at ix key))"
  by (auto simp: index_ok_def types_at_def list_all_iff split: option.splits dest!: map_of_SomeD)

lemma index_ok_update: "index_ok ix \<Longrightarrow> m \<noteq> [] \<Longrightarrow> distinct (map fst m) \<Longrightarrow> index_ok (AList.update key m ix)"
  by (auto simp: index_ok_def list_all_iff distinct_update dest: update_in_set)

lemma index_ok_delete: "index_ok ix \<Longrightarrow> index_ok (AList.delete key ix)"
  by (auto simp: index_ok_def list_all_iff delete_eq_filter distinct_map_filter)

lemma index_ok_closed: "index_closed C index_ok"
  unfolding index_closed_def
proof (intro conjI allI impI)
  fix ix :: dev_index and key :: "int \<times> int" and t :: string and d n :: int
  assume ok: "index_ok ix"
  show "index_ok (index_put key t d ix)"
    unfolding index_put_def by (intro index_ok_update ok) (simp_all add: distinct_update types_at_distinct ok)
  show "index_ok (forget_device d ix)"
    using ok by (auto simp: index_ok_def forget_device_def list_all_iff distinct_map_filter o_def case_prod_beta)
  show "index_ok (drop_node_entry n ix)"
    using ok types_at_distinct [OF ok, of "(n, 0)"]
    by (auto simp: drop_node_entry_def types_at_def Let_def distinct_delete intro!: index_ok_update index_ok_delete
        split: option.splits)
qed (simp add: index_ok_def)

datatype sync_request =
    ReqRebuild
  | ReqActive int bool
  | ReqNote host_dev
  | ReqDelete int bool
  | ReqNodeDeviceGone int int
  | ReqReplace plan
  | ReqCommission pydict string string
  | ReqReconcile "pyval list"
  | ReqEvent rat matter_event
  | ReqConnectionLost
  | ReqRecreateNodeDevices

definition run_request :: "'h indigo \<Rightarrow> sync_request \<Rightarrow> ('h, unit) sync_op" where
  "run_request api r = (case r of
       ReqRebuild \<Rightarrow> rebuild_index api
     | ReqActive d b \<Rightarrow> set_active d b
     | ReqNote dev \<Rightarrow> note_device dev
     | ReqDelete n b \<Rightarrow> and_then (delete_node api n b) (\<lambda>_. pure_op ())
     | ReqNodeDeviceGone n d \<Rightarrow> note_node_device_deleted api n d
     | ReqReplace p \<Rightarrow> and_then (replace_node api p) (\<lambda>_. pure_op ())
     | ReqCommission raw name room \<Rightarrow> and_then (create_from_raw api raw name room) (\<lambda>_. pure_op ())
     | ReqReconcile raws \<Rightarrow> reconcile_all api raws
     | ReqEvent now evt \<Rightarrow> sync_event api now evt
     | ReqConnectionLost \<Rightarrow> mark_all_unreachable api
     | ReqRecreateNodeDevices \<Rightarrow> and_then (tombstones_clear_all api NodeTombstones) (\<lambda>_. pure_op ()))"

inductive sync_reach :: "'h indigo \<Rightarrow> 'h sync \<Rightarrow> bool" for api where
  start_up: "sy_index s = [] \<Longrightarrow> sync_reach api s"
| request: "sync_reach api s \<Longrightarrow> sync_reach api (snd (run_request api r s))"

context footprint
begin

lemma deliveries_kept:
  assumes W: "\<And>d. W d"
  shows "keeps holds (on_attribute api now evt)" "keeps holds (on_cluster_event api evt)"
proof -
  have "keeps holds (on_bridged_reachable api n e v)" for n e v
    using W by (auto simp: on_bridged_reachable_def intro!: keeping)
  moreover have "keeps holds (deliver_one api h target (\<lambda>dev. run_update pf h dev a v) bad)" for h target pf a v bad
    using W by (intro deliver_one_kept) (auto intro!: keeping)
  moreover have "keeps holds (deliver_scoped api h a v d)" for h a v d
    using W by (intro deliver_scoped_kept) auto
  ultimately show "keeps holds (on_attribute api now evt)"
    by (auto simp: on_attribute_def intro!: keeping split: pyval.splits)
  have "keeps holds (deliver_one api h target (\<lambda>dev. computed (f dev)) bad)" for h target f bad
    using W by (intro deliver_one_kept) (auto intro!: keeping)
  then show "keeps holds (on_cluster_event api evt)"
    by (auto simp: on_cluster_event_def intro!: keeping split: pyval.splits)
qed

lemma requests_kept:
  assumes "\<And>d. W d" "\<And>t. C t" "\<And>d. D d" "index_closed C J" "\<And>t a. T t a"
  shows "keeps holds (run_request api r)"
proof -
  have create: "keeps holds (create_devices api node room)" for node room
    using assms by (auto intro!: keeping)
  have f: "keeps holds (forget_node_capabilities api n)" for n
    using assms by (auto simp: forget_node_capabilities_def intro!: keeping)
  have reconcile: "keeps holds (reconcile_all api raws)"  for raws
  proof -
    have n: "keeps holds (reconcile_node api raw acc)" for raw acc
      using assms create by (auto simp: reconcile_node_def intro!: keeping split: sum.splits)
    have "keeps holds (reconcile_nodes api raws acc)" for acc
      by (induction raws arbitrary: acc) (auto intro!: keeping n)
    then show ?thesis using assms by (auto simp: reconcile_all_def intro!: keeping)
  qed
  have added: "keeps holds (on_node_added api evt)" for evt
    using assms create by (cases "dget (ev_raw evt) ''data''") (auto simp: on_node_added_def intro!: keeping split: sum.splits)
  have removed: "keeps holds (on_node_removed api raw)" for raw
    using assms f by (auto simp: on_node_removed_def intro!: keeping)
  have endpoint: "keeps holds (on_endpoint_removed api evt)" for evt
    using assms by (cases "ev_node_id evt") (auto simp: on_endpoint_removed_def intro!: keeping)
  have event: "keeps holds (sync_event api now evt)" for now evt
    unfolding sync_event_def
    by (intro keeps_if deliveries_kept assms(1) added removed endpoint) (auto intro!: keeping assms(1))
  have replace: "keeps holds (replace_node api p)" for p
  proof -
    have "keeps holds (rebind_device api p v ds x)" for v ds x
      by (cases x) (auto simp: rebind_device_def intro!: keeping)
    moreover have "keeps holds (new_node_version api n)" for n
      by (auto simp: new_node_version_def intro!: keeping)
    ultimately show ?thesis
      using assms by (auto simp: replace_node_def creation_suspended_def suspend_creation_def resume_creation_def Let_def
          intro!: keeping)
  qed
  have tombs: "keeps holds (tombstones_clear_all api k)" for k
    using assms by (auto simp: tombstones_clear_all_def intro!: keeping)
  have delete: "keeps holds (delete_node api n b)" for n b
    using assms by (auto simp: delete_node_def Let_def intro!: keeping)
  have active: "keeps holds (set_active d b)" for d b
    using assms(5) by (auto simp: set_active_def keeps_def holds_def sync_ops)
  have gone: "keeps holds (note_node_device_deleted api n d)" for n d
    using assms by (auto simp: note_node_device_deleted_def intro!: keeping)
  have raw: "keeps holds (create_from_raw api d a b)" for d a b
    using assms create by (auto simp: create_from_raw_def intro!: keeping)
  show ?thesis
    using assms by (cases r) (auto simp: run_request_def intro!: keeping reconcile event replace tombs delete active gone raw)
qed

end

interpretation idx: footprint api "\<lambda>_. True" index_ok "\<lambda>_ _. True" "\<lambda>_. True" "\<lambda>_. True" "\<lambda>_. True" for api
  by unfold_locales (simp add: host_keeps_def)

text \<open>C11: whatever requests come, in whatever order and whatever the host answers: the index has one entry
  per endpoint and one device per type in it, and no entry is left empty.\<close>

theorem index_always_ok:
  assumes "sync_reach api s" shows "index_ok (sy_index s)"
  using assms
proof induction
  case (start_up s)
  then show ?case by (simp add: index_ok_def)
next
  case (request s r)
  have "keeps (idx.holds) (run_request api r)"
    by (rule idx.requests_kept) (simp_all add: index_ok_closed)
  with request.IH show ?case by (auto simp: idx.holds_def dest: keepsD)
qed

section \<open>Creating devices\<close>

text \<open>C10: a node whose wanted devices all exist: a pass creates and deletes no device, writes no states and leaves the
  index as it was, whatever else it does. Wanted is a device of each type of the endpoint's handlers, else
  a meter or a placeholder; no meter is wanted where the readings are linked to another endpoint. The
  node device counts as existing, or as given up.\<close>

theorem settled_node_untouched:
  assumes "host_keeps api I (\<lambda>_. False) (\<lambda>_. False) (\<lambda>_. False)" "I (sy_host s)"
    and "\<forall>e \<in> set (ni_endpoints node). \<forall>t \<in> wanted_types node (meter_linked node (sy_forward s)) e.
          map_of (types_at (sy_index s) (ni_node_id node, ei_endpoint_id e)) t \<noteq> None"
    and "node_device_of (sy_index s) (ni_node_id node) \<noteq> None \<or> is_tombstoned NodeTombstones (ni_node_id node) s"
  shows "I (sy_host (snd (create_devices api node room s)))
    \<and> sy_index (snd (create_devices api node room s)) = sy_index s"
proof -
  let ?holds = "footprint.holds I (\<lambda>ix. ix = sy_index s) (\<lambda>t a. t = sy_tombstones s)"
  have fp: "footprint api I (\<lambda>_. False) (\<lambda>_. False) (\<lambda>_. False)" by unfold_locales (rule assms(1))
  note holds = footprint.holds_def [OF fp]
  have "?holds (snd (create_devices api node room s))"
    by (rule footprint.settled_pass_kept [OF fp, of "\<lambda>ix. ix = sy_index s" "\<lambda>t a. t = sy_tombstones s" node s])
      (use assms(2-4) in \<open>auto simp: holds is_tombstoned_def tombs_of_def\<close>)
  then show ?thesis by (simp add: holds)
qed

text \<open>C8: a node whose node device the user deleted does not get it back from any pass.\<close>

theorem tombstone_honoured:
  assumes "host_keeps api I (\<lambda>_. True) (\<lambda>t. t \<noteq> ''matterNode'') (\<lambda>_. True)" "I (sy_host s)"
    and "index_ok (sy_index s)" "node_device_of (sy_index s) (ni_node_id node) = None"
    and "is_tombstoned NodeTombstones (ni_node_id node) s"
  shows "I (sy_host (snd (create_devices api node room s)))
    \<and> node_device_of (sy_index (snd (create_devices api node room s))) (ni_node_id node) = None
    \<and> is_tombstoned NodeTombstones (ni_node_id node) (snd (create_devices api node room s))"
proof -
  let ?n = "ni_node_id node"
  let ?J = "\<lambda>ix. index_ok ix \<and> node_device_of ix ?n = None"
  let ?holds = "footprint.holds I ?J (\<lambda>t a. t = sy_tombstones s)"
  have fp: "footprint api I (\<lambda>_. True) (\<lambda>t. t \<noteq> ''matterNode'') (\<lambda>_. True)" by unfold_locales (rule assms(1))
  note holds = footprint.holds_def [OF fp]
  have put: "node_device_of (index_put key t d ix) ?n = None" if "node_device_of ix ?n = None" "t \<noteq> ''matterNode''" for key t d ix
    using that by (auto simp: node_device_of_def index_put_def types_at_def update_conv')
  have mem: "node_device_of ix ?n = None \<longleftrightarrow> (\<forall>m. ((?n, 0), m) \<in> set ix \<longrightarrow> ''matterNode'' \<notin> fst ` set m)" if "index_ok ix" for ix
    using that by (auto simp: node_device_of_def types_at_def index_ok_def map_of_eq_None_iff split: option.splits
        dest: map_of_SomeD)
  have forget: "node_device_of (forget_device d ix) ?n = None" if "index_ok ix" "node_device_of ix ?n = None" for d ix
  proof -
    have "index_ok (forget_device d ix)" using that(1) index_ok_closed [of "\<lambda>_. True"] by (simp add: index_closed_def)
    then show ?thesis using that by (auto simp: mem forget_device_def image_iff) (metis fst_conv)
  qed
  have drop: "node_device_of (drop_node_entry m ix) ?n = None" if "node_device_of ix ?n = None" for m ix
    using that by (auto simp: node_device_of_def drop_node_entry_def types_at_def Let_def update_conv' delete_conv'
        split: option.splits)
  have nil: "node_device_of [] ?n = None" by (simp add: node_device_of_def types_at_def)
  have "index_closed (\<lambda>t. t \<noteq> ''matterNode'') ?J"
    using index_ok_closed [of "\<lambda>t. t \<noteq> ''matterNode''"] put forget drop nil unfolding index_closed_def by simp
  then have "keeps ?holds (create_devices api node room)"
    using assms(5)
    by (intro footprint.create_devices_kept [OF fp])
      (auto simp: holds is_tombstoned_def tombs_of_def dest: planned_not_node)
  moreover have "?holds s" using assms(2-4) by (simp add: holds)
  ultimately have "?holds (snd (create_devices api node room s))" by (rule keepsD)
  then show ?thesis using assms(5) by (simp add: holds is_tombstoned_def tombs_of_def)
qed

text \<open>A node that was retired by a replacement gets nothing, and while a replacement is rebuilding a node
  no pass over it changes anything.\<close>

theorem held_back_nodes:
  "is_tombstoned RetiredNodes (ni_node_id node) s \<Longrightarrow>
     create_devices api node room s = (Inr (nothing_created node), s\<lparr>sy_known := insert (ni_node_id node) (sy_known s)\<rparr>)"
  "\<not> is_tombstoned RetiredNodes (ni_node_id node) s \<Longrightarrow> map_of (sy_suspended s) (ni_node_id node) = Some depth \<Longrightarrow> 0 < depth \<Longrightarrow>
     create_devices api node room s = (Inr (nothing_created node), s)"
  by (simp_all add: create_devices_def sync_ops Let_def)

end
