(* ===== verification/SyncTrace.thy ===== *)
theory SyncTrace
  imports SyncClaims
begin

text \<open>
  The calls of an operation in the order they are made. A host that notes its calls is one of the hosts every
  operation can run on; the order of the notes is the order in which the code changes the server.
\<close>

section \<open>A host that notes its calls\<close>

datatype host_call =
    HostCreate string
  | HostDelete int "unit py_result"
  | HostStates int
  | HostError int
  | HostProps int "unit py_result"
  | HostOther

definition noting_call :: "('a \<Rightarrow> host_call) \<Rightarrow> ('h \<Rightarrow> 'a \<times> 'h) \<Rightarrow> 'h \<times> host_call list \<Rightarrow> 'a \<times> ('h \<times> host_call list)" where
  "noting_call call f x = (case f (fst x) of (r, h) \<Rightarrow> (r, (h, snd x @ [call r])))"

definition recording :: "'h indigo \<Rightarrow> ('h \<times> host_call list) indigo" where
  "recording api = \<lparr>in_device = \<lambda>x. in_device api (fst x), in_own = \<lambda>x. in_own api (fst x), in_all = \<lambda>x. in_all api (fst x),
     in_create = \<lambda>t n p f. noting_call (\<lambda>_. HostCreate t) (in_create api t n p f),
     in_set_model = \<lambda>d m. noting_call (\<lambda>_. HostOther) (in_set_model api d m),
     in_rename = \<lambda>d n. noting_call (\<lambda>_. HostOther) (in_rename api d n),
     in_update_states = \<lambda>d kv. noting_call (\<lambda>_. HostStates d) (in_update_states api d kv),
     in_replace_props = \<lambda>d p. noting_call (HostProps d) (in_replace_props api d p),
     in_set_error = \<lambda>d e. noting_call (\<lambda>_. HostError d) (in_set_error api d e),
     in_delete = \<lambda>d. noting_call (HostDelete d) (in_delete api d),
     in_ungroup = \<lambda>d. noting_call (\<lambda>_. HostOther) (in_ungroup api d),
     in_group_with = \<lambda>a b. noting_call (\<lambda>_. HostOther) (in_group_with api a b),
     in_group_list = \<lambda>x. in_group_list api (fst x),
     in_move = \<lambda>d f. noting_call (\<lambda>_. HostOther) (in_move api d f),
     in_folders = \<lambda>x. in_folders api (fst x),
     in_new_folder = \<lambda>n. noting_call (\<lambda>_. HostOther) (in_new_folder api n),
     in_states_changed = \<lambda>d. noting_call (\<lambda>_. HostOther) (in_states_changed api d),
     in_save = \<lambda>k ids. noting_call (\<lambda>_. HostOther) (in_save api k ids),
     in_survey = \<lambda>n x. (in_survey api n (fst x), snd x),
     in_forget_survey = \<lambda>n x. (in_forget_survey api n (fst x), snd x),
     in_platform = in_platform api\<rparr>"

text \<open>A condition on the calls so far.\<close>

definition called :: "(host_call list \<Rightarrow> bool) \<Rightarrow> ('h \<times> host_call list) sync \<Rightarrow> bool" where
  "called R s \<longleftrightarrow> R (snd (sy_host s))"

lemma called_plain [keeping]:
  "(\<And>s. sy_host (f s) = sy_host s) \<Longrightarrow> keeps (called R) (change f)" "keeps (called R) (say l)"
  "(\<And>cs. R cs \<Longrightarrow> R (cs @ [HostOther])) \<Longrightarrow> keeps (called R) (try_host (noting_call (\<lambda>_. HostOther) g))"
  by (auto simp: keeps_def called_def sync_ops noting_call_def split: prod.splits)

lemma called_tombstones [keeping]:
  "(\<And>cs. R cs \<Longrightarrow> R (cs @ [HostOther])) \<Longrightarrow> keeps (called R) (tombstones_add (recording api) k n)"
proof -
  have set: "sy_host (set_tombs k ids s) = sy_host s" for ids and s :: "('a \<times> host_call list) sync"
    by (cases k) (simp_all add: set_tombs_def)
  show "(\<And>cs. R cs \<Longrightarrow> R (cs @ [HostOther])) \<Longrightarrow> keeps (called R) (tombstones_add (recording api) k n)"
    by (auto simp: tombstones_add_def tombstones_persist_def recording_def set intro!: keeping)
qed

lemma called_rebuild [keeping]: "keeps (called R) (rebuild_index (recording api))"
  by (auto simp: rebuild_index_def warn_unconfigured_strays_def note_device_def Let_def group_warn_def warn_once_if_def
      intro!: keeping)

section \<open>Deletions before rebinds\<close>

definition replaces :: "plan \<Rightarrow> host_call list \<Rightarrow> bool" where
  "replaces p cs \<longleftrightarrow> (\<forall>c \<in> set cs. case c of HostDelete d _ \<Rightarrow> d \<in> set (duplicates_of p) | HostProps _ _ \<Rightarrow> True | HostOther \<Rightarrow> True | _ \<Rightarrow> False)
     \<and> (\<forall>xs d r ys. cs = xs @ HostProps d r # ys \<longrightarrow>
          (\<exists>(old, new) \<in> set (pl_pairs p). dv_id old = d \<and> HostDelete (dv_id new) (Inr ()) \<in> set xs))"

lemma snoc_split: "cs @ [c] = xs @ d # ys \<longleftrightarrow> (ys = [] \<and> cs = xs \<and> c = d) \<or> (\<exists>zs. ys = zs @ [c] \<and> cs = xs @ d # zs)"
  by (cases ys rule: rev_cases) auto

lemma replaces_snoc:
  "replaces p cs \<Longrightarrow> replaces p (cs @ [HostOther])"
  "replaces p cs \<Longrightarrow> d \<in> set (duplicates_of p) \<Longrightarrow> replaces p (cs @ [HostDelete d r])"
  "replaces p cs \<Longrightarrow> (old, new) \<in> set (pl_pairs p) \<Longrightarrow> HostDelete (dv_id new) (Inr ()) \<in> set cs \<Longrightarrow> replaces p (cs @ [HostProps (dv_id old) r])"
  unfolding replaces_def by (fastforce simp: snoc_split)+

definition replaced :: "plan \<Rightarrow> int list \<Rightarrow> host_call list \<Rightarrow> bool" where
  "replaced p ids cs \<longleftrightarrow> replaces p cs \<and> (\<forall>d \<in> set ids. HostDelete d (Inr ()) \<in> set cs)"

lemma replaced_other: "replaced p ids cs \<Longrightarrow> replaced p ids (cs @ [HostOther])"
  by (simp add: replaced_def replaces_snoc)

lemma delete_noted:
  assumes "d \<in> set (duplicates_of p)"
  shows "runs (called (replaced p ids)) (delete_device (recording api) m d) (\<lambda>new. called (replaced p (ids @ new))) (called (replaced p []))"
  using assms
  by (auto simp: runs_def delete_device_def sync_ops called_def recording_def noting_call_def replaced_def replaces_snoc
      split: prod.splits sum.splits)

lemma deletions_noted:
  assumes "set ds \<subseteq> set (duplicates_of p)"
  shows "runs (called (replaced p ids)) (collect ds (delete_device (recording api) m)) (\<lambda>new. called (replaced p (ids @ new))) (called (replaced p []))"
  using assms
proof (induction ds arbitrary: ids)
  case Nil
  then show ?case by (simp add: runs_pure)
next
  case (Cons d ds)
  show ?case
    unfolding collect.simps
    by (rule runs_and_then [OF delete_noted], use Cons.prems in simp, rule runs_and_then [OF Cons.IH], use Cons.prems in simp, rule runs_pure) simp
qed

lemma delete_devices_noted:
  "runs (called (replaced p [])) (delete_devices (recording api) (duplicates_of p) n) (\<lambda>ids. called (replaced p ids)) (called (replaced p []))"
proof -
  have "keeps (called (replaced p [])) (ungroup_device (recording api) d)" for d
    by (auto simp: ungroup_device_def recording_def intro!: keeping replaced_other)
  then show ?thesis
    unfolding delete_devices_def Let_def
    by (intro runs_and_then [OF runs_keeps] runs_weaken [OF deletions_noted [of "duplicates_of p" p "[]"]])
      (auto intro!: keeping)
qed

lemma rebind_noted:
  "x \<in> set (pl_pairs p) \<Longrightarrow> keeps (called (replaced p ids)) (rebind_device (recording api) p v ids x)"
  by (cases x) (auto simp: keeps_def rebind_device_def sync_ops called_def recording_def noting_call_def replaced_def replaces_snoc
      split: prod.splits sum.splits)

lemma replace_noted: "keeps (called (replaced p [])) (replace_node (recording api) p)"
proof -
  have rest: "runs (called (replaced p ids)) (and_then (collect (pl_pairs p) (rebind_device (recording api) p v ids)) (\<lambda>outcomes.
           (let rebound = List.map_filter (case_sum Some (\<lambda>_. None)) outcomes;
                skipped = List.map_filter (case_sum (\<lambda>_. None) Some) outcomes
            in and_then (in_turn
                 [when_op (list_ex (\<lambda>r. dv_type r = ''matterNode'' \<and> dv_id r \<in> set ids) (pl_extra_deletes p))
                    (tombstones_add (recording api) NodeTombstones (pl_new_node p)),
                  when_op (rebound \<noteq> []) (tombstones_add (recording api) RetiredNodes (pl_old_node p)),
                  change (\<lambda>s. s\<lparr>sy_known := insert (pl_new_node p) (sy_known s)\<rparr>)]) (\<lambda>_.
               pure_op \<lparr>rr_rebound = rebound, rr_deleted = ids, rr_skipped = skipped\<rparr>)))) (\<lambda>_. called (replaced p [])) (called (replaced p []))" for v ids
    by (rule runs_weaken [OF runs_keeps [where P = "called (replaced p ids)"]])
      (auto simp: Let_def called_def replaced_def replaces_snoc intro!: keeping rebind_noted replaced_other)
  have version: "keeps (called (replaced p [])) (new_node_version (recording api) n)" for n
    by (auto simp: new_node_version_def intro!: keeping)
  have held: "keeps (called (replaced p [])) (creation_suspended n m)" if "keeps (called (replaced p [])) m" for n and m :: "('a \<times> host_call list, replace_result) sync_op"
    using that by (auto simp: creation_suspended_def suspend_creation_def resume_creation_def Let_def intro!: keeping)
  show ?thesis
    unfolding replace_node_def
    by (rule keeps_and_then, rule held, rule keeps_and_then, rule keeps_trivial, rule keeps_and_then, rule version,
        rule keeps_finally, rule keeps_runs [OF runs_and_then [OF delete_devices_noted rest]])
      (auto intro!: keeping)
qed

end
