(* ===== verification/SyncContracts.thy ===== *)
theory SyncContracts
  imports SyncTrace
begin

text \<open>
  Further contracts of \<open>DeviceSync\<close>: what a replacement may delete, whose deletion of the node device
  counts as the user's, the links of meters, how a reconcile ends, the node an event stays on, the
  names that are recognised as generated, and a refused write of a new device.
\<close>

section \<open>Results of operations\<close>

lemma yieldsD: "yields R m \<Longrightarrow> m s = (Inr x, t) \<Longrightarrow> R x"
  unfolding yields_def by (metis fst_conv)

lemma yields_look: "(\<And>s. R (g s)) \<Longrightarrow> yields R (look g)"
  by (simp add: yields_def sync_ops)

lemma yields_rescue: "yields R m \<Longrightarrow> (\<And>e. yields R (k e)) \<Longrightarrow> yields R (rescue m k)"
  unfolding yields_def rescue_def by (auto split: prod.splits sum.splits; metis fst_conv)

lemma yields_finally: "yields R m \<Longrightarrow> yields R (finally_op m c)"
  unfolding yields_def finally_op_def by (auto split: prod.splits sum.splits; metis fst_conv)

lemma yields_prod: "(\<And>a b. x = (a, b) \<Longrightarrow> yields R (f a b)) \<Longrightarrow> yields R (case x of (a, b) \<Rightarrow> f a b)"
  by (cases x) simp

section \<open>A host for the examples\<close>

text \<open>The devices in a list; a new device gets the id after the largest, and every write is accepted.\<close>

definition shelf_device :: "int \<Rightarrow> string \<Rightarrow> string \<Rightarrow> pydict \<Rightarrow> host_dev" where
  "shelf_device d t name props = \<lparr>hv_id = d,
     hv_dev = \<lparr>md_device_type_id = Some t, md_name = name, md_plugin_props = props, md_states = [],
       md_brightness = NumI 0, md_on_state = None, md_heat_setpoint = NumI 20, md_cool_setpoint = NumI 20\<rparr>,
     hv_folder = 0, hv_error = [], hv_configured = True, hv_display = None\<rparr>"

definition shelf_update :: "int \<Rightarrow> (host_dev \<Rightarrow> host_dev) \<Rightarrow> host_dev list \<Rightarrow> unit py_result \<times> host_dev list" where
  "shelf_update d f h = (if d \<in> set (map hv_id h) then (Inr (), map (\<lambda>x. if hv_id x = d then f x else x) h) else (Inl KeyError, h))"

definition shelf_host :: "host_dev list indigo" where
  "shelf_host = \<lparr>in_device = \<lambda>h d. case find (\<lambda>x. hv_id x = d) h of None \<Rightarrow> Inl KeyError | Some x \<Rightarrow> Inr x,
     in_own = Inr, in_all = Inr,
     in_create = \<lambda>t name props folder h. let x = shelf_device (fold max (map hv_id h) 0 + 1) t name props in (Inr x, h @ [x]),
     in_set_model = \<lambda>d m h. (Inr (), h),
     in_rename = \<lambda>d n. shelf_update d (\<lambda>x. x\<lparr>hv_dev := hv_dev x\<lparr>md_name := n\<rparr>\<rparr>),
     in_update_states = \<lambda>d kv. shelf_update d id,
     in_replace_props = \<lambda>d p. shelf_update d (\<lambda>x. x\<lparr>hv_dev := hv_dev x\<lparr>md_plugin_props := p\<rparr>\<rparr>),
     in_set_error = \<lambda>d e. shelf_update d (\<lambda>x. x\<lparr>hv_error := e\<rparr>),
     in_delete = \<lambda>d h. (Inr (), filter (\<lambda>x. hv_id x \<noteq> d) h),
     in_ungroup = \<lambda>d h. (Inr (), h), in_group_with = \<lambda>a b h. (Inr (), h), in_group_list = \<lambda>h d. Inr [d],
     in_move = \<lambda>d f. shelf_update d (\<lambda>x. x\<lparr>hv_folder := f\<rparr>),
     in_folders = \<lambda>h. Inr [], in_new_folder = \<lambda>n h. (Inr 1, h), in_states_changed = \<lambda>d h. (Inr (), h),
     in_save = \<lambda>k ids h. (Inr (), h), in_survey = \<lambda>n h. h, in_forget_survey = \<lambda>n h. h,
     in_platform = \<lparr>pf_pow = \<lambda>u w. u, pf_pow10 = \<lambda>u. Inr u, pf_repr = \<lambda>v. []\<rparr>\<rparr>"

lemma shelf_update_ids [simp]:
  assumes "\<And>x. hv_id (f x) = hv_id x"
  shows "hv_id ` set (snd (shelf_update d f h)) = hv_id ` set h"
proof -
  have "map hv_id (snd (shelf_update d f h)) = map hv_id h" by (auto simp: shelf_update_def assms)
  then show ?thesis by (metis list.set_map)
qed

definition shelf_state :: "'h \<Rightarrow> 'h sync" where
  "shelf_state h = \<lparr>sy_host = h, sy_index = [], sy_active = {}, sy_forward = [], sy_reverse = [], sy_coverage = [],
     sy_event_seen = [], sy_limits = [], sy_lists = [], sy_known = {},
     sy_tombstones = Some \<lparr>tb_ids = {}, tb_saves = True, tb_logs = True\<rparr>,
     sy_retired = Some \<lparr>tb_ids = {}, tb_saves = True, tb_logs = True\<rparr>,
     sy_pending_refresh = {}, sy_battery_warned = {}, sy_nonconformant = {}, sy_self_deleted = {},
     sy_suspended = [], sy_group_warned = {}, sy_redundant_meter = {}, sy_cache = [], sy_log = []\<rparr>"

definition shelf_relay :: "int \<Rightarrow> int \<Rightarrow> host_dev" where
  "shelf_relay d node = shelf_device d ''matterRelay'' ''Lamp'' [(''nodeId'', PStr (str_of_int node)), (''endpointId'', PStr ''1'')]"

lemma and_then_run: "m s = (Inr x, t) \<Longrightarrow> and_then m f s = f x t"
  by (simp add: and_then_def)

lemma look_run: "and_then (look g) f s = f (g s) s"
  by (simp add: sync_ops)

lemma change_run: "in_turn (change u # ms) s = in_turn ms (u s)"
  by (simp add: sync_ops)

text \<open>A field the host and the log do not reach.\<close>

lemma spared:
  "(\<And>s h. g (s\<lparr>sy_host := h\<rparr>) = g s) \<Longrightarrow> keeps (\<lambda>s. g s = K) (try_host f)"
  "(\<And>s l. g (s\<lparr>sy_log := l\<rparr>) = g s) \<Longrightarrow> keeps (\<lambda>s. g s = K) (say l)"
  "(\<And>s. g (u s) = g s) \<Longrightarrow> keeps (\<lambda>s. g s = K) (change u)"
  by (auto simp: keeps_def sync_ops split: prod.splits)

section \<open>Replacing a node\<close>

lemma deleted_asked: "yields (\<lambda>ids. set ids \<subseteq> set ds) (delete_devices api ds n)"
proof -
  have "yields (\<lambda>ys. \<forall>y \<in> set ys. y \<in> set ds) (collect ds (delete_device api m))" for m
    by (rule yields_collect)
      (auto simp: delete_device_def intro!: yields_rescue yields_and_then [OF yields_any] yields_pure)
  then show ?thesis
    unfolding delete_devices_def Let_def subset_eq by (intro yields_and_then [OF yields_any])
qed

text \<open>An outcome that is justified: a device rebound had its duplicate deleted.\<close>

definition rebind_ok :: "plan \<Rightarrow> int list \<Rightarrow> int \<Rightarrow> bool" where
  "rebind_ok p deleted d \<longleftrightarrow> (\<exists>(old, new) \<in> set (pl_pairs p). dv_id old = d \<and> dv_id new \<in> set deleted)"

lemma rebind_outcomes:
  "yields (\<lambda>ys. \<forall>y \<in> set ys. \<forall>d. y = Inl d \<longrightarrow> rebind_ok p deleted d) (collect (pl_pairs p) (rebind_device api p v deleted))"
proof (rule yields_collect)
  fix x
  assume x: "x \<in> set (pl_pairs p)"
  obtain old new where p: "x = (old, new)" by (cases x)
  have "rebind_ok p deleted (dv_id old)" if "dv_id new \<in> set deleted"
    using x that unfolding rebind_ok_def p by blast
  then show "yields (\<lambda>ys. \<forall>y \<in> set ys. \<forall>d. y = Inl d \<longrightarrow> rebind_ok p deleted d) (rebind_device api p v deleted x)"
    by (auto simp: rebind_device_def p intro!: yields_rescue yields_and_then [OF yields_any] yields_pure)
qed

lemma replace_result_ok:
  "yields (\<lambda>r. set (rr_deleted r) \<subseteq> set (duplicates_of p) \<and> (\<forall>d \<in> set (rr_rebound r). rebind_ok p (rr_deleted r) d))
     (replace_node api p)"
proof -
  have r: "yields (\<lambda>r. set (rr_deleted r) \<subseteq> set (duplicates_of p) \<and> (\<forall>d \<in> set (rr_rebound r). rebind_ok p (rr_deleted r) d))
      (and_then (collect (pl_pairs p) (rebind_device api p v deleted)) (\<lambda>outcomes.
           (let rebound = List.map_filter (case_sum Some (\<lambda>_. None)) outcomes;
                skipped = List.map_filter (case_sum (\<lambda>_. None) Some) outcomes
            in and_then (in_turn (k rebound)) (\<lambda>_.
               pure_op \<lparr>rr_rebound = rebound, rr_deleted = deleted, rr_skipped = skipped\<rparr>))))"
    if "set deleted \<subseteq> set (duplicates_of p)" for v deleted k
    by (rule yields_and_then [OF rebind_outcomes])
      (use that in \<open>auto simp: Let_def map_filter_def split: sum.splits intro!: yields_and_then [OF yields_any] yields_pure\<close>)
  show ?thesis
    unfolding replace_node_def creation_suspended_def
  proof (rule yields_and_then [where Q = "\<lambda>r. set (rr_deleted r) \<subseteq> set (duplicates_of p)
      \<and> (\<forall>d \<in> set (rr_rebound r). rebind_ok p (rr_deleted r) d)"], goal_cases)
    case 1
    show ?case
      by (intro yields_and_then [OF yields_any] yields_finally yields_and_then [OF deleted_asked] r)
  next
    case (2 r)
    then show ?case by (intro yields_and_then [OF yields_any] yields_pure)
  qed
qed

text \<open>C6: a replacement creates no device, writes no states and no errors and deletes only the duplicates of the plan;
  and on a host that notes its calls, the properties of a device are rewritten only for a device of the
  plan, after the deletion of its duplicate went through. Every condition on the host that such calls keep
  survives, and what is reported as rebound had its duplicate deleted.\<close>

theorem replace_spares:
  assumes "host_keeps api I (\<lambda>d. d \<in> set (duplicates_of p)) (\<lambda>_. False) (\<lambda>_. False)" "I (sy_host s)"
    and "snd (sy_host u) = []"
  shows "I (sy_host (snd (replace_node api p s)))
    \<and> (case fst (replace_node api p s) of Inl _ \<Rightarrow> True
       | Inr r \<Rightarrow> set (rr_deleted r) \<subseteq> set (duplicates_of p)
           \<and> list_all (\<lambda>d. \<exists>(old, new) \<in> set (pl_pairs p). dv_id old = d \<and> dv_id new \<in> set (rr_deleted r)) (rr_rebound r))
    \<and> replaces p (snd (sy_host (snd (replace_node (recording api) p u))))"
proof -
  let ?holds = "footprint.holds I (\<lambda>_. True) (\<lambda>_ _. True)"
  have fp: "footprint api I (\<lambda>d. d \<in> set (duplicates_of p)) (\<lambda>_. False) (\<lambda>_. False)" by unfold_locales (rule assms(1))
  note keeping = keeping footprint.other_fields [OF fp] footprint.said [OF fp] footprint.host_calls [OF fp]
    footprint.tombstones_kept [OF fp] footprint.delete_unindexed [OF fp] footprint.rebuild_unindexed [OF fp]
  have "keeps ?holds (rebind_device api p v ds x)" for v ds x
    by (cases x) (auto simp: rebind_device_def intro!: keeping)
  moreover have "keeps ?holds (new_node_version api n)" for n
    by (auto simp: new_node_version_def intro!: keeping)
  ultimately have "keeps ?holds (replace_node api p)"
    by (auto simp: replace_node_def creation_suspended_def suspend_creation_def resume_creation_def Let_def intro!: keeping)
  moreover have "?holds s" using assms(2) by (simp add: footprint.holds_def [OF fp])
  ultimately have "I (sy_host (snd (replace_node api p s)))" by (auto simp: footprint.holds_def [OF fp] dest: keepsD)
  moreover have "called (replaced p []) u" using assms(3) by (simp add: called_def replaced_def replaces_def)
  then have "replaces p (snd (sy_host (snd (replace_node (recording api) p u))))"
    using keepsD [OF replace_noted] by (simp add: called_def replaced_def)
  ultimately show ?thesis
    using replace_result_ok [of p api] by (auto simp: yields_def rebind_ok_def list_all_iff split: sum.split)
qed

definition demo_replacement :: plan where
  "demo_replacement = \<lparr>pl_old_node = 5, pl_new_node = 6,
     pl_pairs = [(\<lparr>dv_id = 1, dv_endpoint = 1, dv_type = ''matterRelay'', dv_name = ''Lamp''\<rparr>,
                  \<lparr>dv_id = 2, dv_endpoint = 1, dv_type = ''matterRelay'', dv_name = ''Lamp 2''\<rparr>)],
     pl_unmatched_old = [], pl_unmatched_new = [], pl_extra_deletes = []\<rparr>"

lemma demo_replacement_keeps:
  "host_keeps shelf_host (\<lambda>h. 1 \<in> hv_id ` set h) (\<lambda>d. d \<in> set (duplicates_of demo_replacement)) (\<lambda>_. False) (\<lambda>_. False)"
  by (auto simp: host_keeps_def shelf_host_def demo_replacement_def duplicates_of_def Let_def)

lemma replace_spares_witness:
  "(1 \<in> hv_id ` set (sy_host (snd (replace_node shelf_host demo_replacement (shelf_state [shelf_relay 1 5, shelf_relay 2 6])))))
   \<and> fst (replace_node shelf_host demo_replacement (shelf_state [shelf_relay 1 5, shelf_relay 2 6]))
      = Inr \<lparr>rr_rebound = [1], rr_deleted = [2], rr_skipped = []\<rparr>
   \<and> replaces demo_replacement
       (snd (sy_host (snd (replace_node (recording shelf_host) demo_replacement (shelf_state ([shelf_relay 1 5, shelf_relay 2 6], []))))))
   \<and> filter (\<lambda>c. c \<noteq> HostOther)
       (snd (sy_host (snd (replace_node (recording shelf_host) demo_replacement (shelf_state ([shelf_relay 1 5, shelf_relay 2 6], []))))))
      = [HostDelete 2 (Inr ()), HostProps 1 (Inr ())]"
proof -
  have "snd (sy_host (shelf_state ([shelf_relay 1 5, shelf_relay 2 6], []))) = []" "1 \<in> hv_id ` set (sy_host (shelf_state [shelf_relay 1 5, shelf_relay 2 6]))"
    by (simp_all add: shelf_state_def shelf_relay_def shelf_device_def)
  note * = replace_spares [OF demo_replacement_keeps this(2) this(1)]
  have "fst (replace_node shelf_host demo_replacement (shelf_state [shelf_relay 1 5, shelf_relay 2 6]))
      = Inr \<lparr>rr_rebound = [1], rr_deleted = [2], rr_skipped = []\<rparr>"
    "filter (\<lambda>c. c \<noteq> HostOther)
       (snd (sy_host (snd (replace_node (recording shelf_host) demo_replacement (shelf_state ([shelf_relay 1 5, shelf_relay 2 6], []))))))
      = [HostDelete 2 (Inr ()), HostProps 1 (Inr ())]"
    by code_simp+
  with * show ?thesis by blast
qed

section \<open>Deleting a node\<close>

definition returns :: "('h, 'a) sync_op \<Rightarrow> bool" where
  "returns m \<longleftrightarrow> (\<forall>s. \<exists>x. fst (m s) = Inr x)"

named_theorems returning \<open>rules for operations that never raise\<close>

lemma returns_plain [returning]: "returns (pure_op x)" "returns (look g)" "returns (change f)" "returns (say l)"
  by (simp_all add: returns_def sync_ops)

lemma returns_and_then [returning]: "returns m \<Longrightarrow> (\<And>x. returns (f x)) \<Longrightarrow> returns (and_then m f)"
  unfolding returns_def and_then_def by (auto split: prod.splits sum.splits; metis fst_conv sum.distinct(1))

lemma returns_rescue [returning]: "(\<And>e. returns (k e)) \<Longrightarrow> returns (rescue m k)"
  unfolding returns_def rescue_def by (auto split: prod.splits sum.splits)

lemma returns_when [returning]: "(b \<Longrightarrow> returns m) \<Longrightarrow> returns (when_op b m)"
  by (simp add: returns_def sync_ops)

lemma returns_if [returning]: "(b \<Longrightarrow> returns m) \<Longrightarrow> (\<not> b \<Longrightarrow> returns n) \<Longrightarrow> returns (if b then m else n)"
  by simp

lemma returns_in_turn [returning]: "(\<And>m. m \<in> set ms \<Longrightarrow> returns m) \<Longrightarrow> returns (in_turn ms)"
  by (induction ms) (simp_all add: returning)

lemma returns_for_each [returning]: "(\<And>x. x \<in> set xs \<Longrightarrow> returns (f x)) \<Longrightarrow> returns (for_each xs f)"
  by (induction xs) (simp_all add: returning)

lemma returns_collect [returning]: "(\<And>x. x \<in> set xs \<Longrightarrow> returns (f x)) \<Longrightarrow> returns (collect xs f)"
  by (induction xs) (simp_all add: returning)

lemma returns_option [returning]:
  "(x = None \<Longrightarrow> returns m) \<Longrightarrow> (\<And>y. x = Some y \<Longrightarrow> returns (f y)) \<Longrightarrow> returns (case x of None \<Rightarrow> m | Some y \<Rightarrow> f y)"
  by (cases x) simp_all

lemma returnsE: "returns m \<Longrightarrow> (\<And>x t. m s = (Inr x, t) \<Longrightarrow> thesis) \<Longrightarrow> thesis"
  unfolding returns_def by (metis prod.collapse)

lemma group_warn_returns [returning]: "returns (group_warn d k)" "returns (warn_once_if b d k)"
  by (auto simp: group_warn_def warn_once_if_def intro!: returning)

lemma tombstones_return [returning]: "returns (tombstones_add api k n)" "returns (tombstones_forget api k n)"
  by (auto simp: tombstones_add_def tombstones_forget_def tombstones_persist_def intro!: returning)

lemma delete_returns [returning]: "returns (delete_devices api ds marked)" "returns (delete_node api n b)"
proof -
  show d: "returns (delete_devices api ds marked)" for ds marked
    by (auto simp: delete_devices_def Let_def delete_device_def ungroup_device_def intro!: returning)
  show "returns (delete_node api n b)"
    by (auto simp: delete_node_def Let_def intro!: returning d)
qed

lemma node_entries_iff:
  "(e, t, d) \<in> set (node_entries ix n) \<longleftrightarrow> (\<exists>m. ((n, e), m) \<in> set ix \<and> (t, d) \<in> set m)"
  by (force simp: node_entries_def split: if_splits)

lemma node_device_entries:
  assumes "index_ok ix" "node_device_of ix n = Some d"
  shows "map (snd \<circ> snd) (filter is_node_entry (node_entries ix n)) \<noteq> []"
    "x \<in> set (map (snd \<circ> snd) (filter is_node_entry (node_entries ix n))) \<Longrightarrow> x = d"
proof -
  obtain m where m: "map_of ix (n, 0) = Some m" "map_of m ''matterNode'' = Some d"
    using assms(2) by (auto simp: node_device_of_def types_at_def split: option.splits)
  have "(0, ''matterNode'', d) \<in> set (node_entries ix n)"
    unfolding node_entries_iff using m by (blast dest: map_of_SomeD)
  then show "map (snd \<circ> snd) (filter is_node_entry (node_entries ix n)) \<noteq> []"
    by (auto simp: is_node_entry_def filter_empty_conv intro: bexI [of _ "(0, ''matterNode'', d)"])
  assume "x \<in> set (map (snd \<circ> snd) (filter is_node_entry (node_entries ix n)))"
  then have "(0, ''matterNode'', x) \<in> set (node_entries ix n)"
    by (auto simp: is_node_entry_def)
  then obtain m' where m': "((n, 0), m') \<in> set ix" "(''matterNode'', x) \<in> set m'" unfolding node_entries_iff by blast
  have "m' = m" using assms(1) m(1) m'(1) by (auto simp: index_ok_def dest: map_of_is_SomeI)
  moreover have "distinct (map fst m)"
    using assms(1) m(1) by (auto simp: index_ok_def list_all_iff dest: map_of_SomeD)
  ultimately have "map_of m ''matterNode'' = Some x" using m'(2) by (auto intro: map_of_is_SomeI)
  then show "x = d" using m(2) by simp
qed

lemma last_same: "xs \<noteq> [] \<Longrightarrow> (\<And>x. x \<in> set xs \<Longrightarrow> x = d) \<Longrightarrow> last xs = d"
  by simp

lemma self_deleted_kept:
  "keeps (\<lambda>s. sy_self_deleted s = K) (for_each ds (ungroup_device api))"
  "keeps (\<lambda>s. sy_self_deleted s = K) (tombstones_forget api k n)"
proof -
  show "keeps (\<lambda>s. sy_self_deleted s = K) (for_each ds (ungroup_device api))"
    by (auto simp: ungroup_device_def intro!: keeping spared)
  show "keeps (\<lambda>s. sy_self_deleted s = K) (tombstones_forget api k n)"
    by (cases k) (auto simp: tombstones_forget_def tombstones_persist_def set_tombs_def intro!: keeping spared)
qed

lemma collect_append:
  "collect (xs @ [y]) f s = (case collect xs f s of (Inl e, t) \<Rightarrow> (Inl e, t)
     | (Inr as, t) \<Rightarrow> (case f y t of (Inl e, u) \<Rightarrow> (Inl e, u) | (Inr bs, u) \<Rightarrow> (Inr (as @ bs), u)))"
  by (induction xs arbitrary: s) (auto simp: sync_ops split: prod.splits sum.splits)

lemma runs_returns:
  assumes "returns m" "keeps P m" shows "runs P m (\<lambda>_. P) (\<lambda>_. False)"
  unfolding runs_def
proof (intro allI impI)
  fix s
  assume "P s"
  then have "P (snd (m s))" using assms(2) by (rule keepsD [rotated])
  moreover obtain x t where "m s = (Inr x, t)" using assms(1) by (rule returnsE)
  ultimately show "case m s of (Inl e, t) \<Rightarrow> False | (Inr x, t) \<Rightarrow> P t" by simp
qed

text \<open>A device other than the marked one, and the marked one, where the callback does nothing but for the marked
  device.\<close>

lemma deleted_other:
  assumes "x \<noteq> d"
  shows "runs (\<lambda>s. d \<in> sy_self_deleted s \<and> sy_tombstones s = T)
     (delete_device_delivering (\<lambda>x. when_op (x = d) m) api (Some d) x)
     (\<lambda>ids s. (d \<in> sy_self_deleted s \<and> sy_tombstones s = T) \<and> (\<forall>y \<in> set ids. y \<noteq> d)) (\<lambda>_. False)"
  using assms by (auto simp: runs_def delete_device_delivering_def sync_ops split: prod.splits sum.splits)

lemma deletions_marked:
  assumes "d \<notin> set others"
    and "runs (\<lambda>s. d \<in> sy_self_deleted s \<and> sy_tombstones s = T) (delete_device_delivering (\<lambda>x. when_op (x = d) m) api (Some d) d)
       (\<lambda>ids s. Q (d \<in> set ids) s) (\<lambda>_. False)"
  shows "runs (\<lambda>s. sy_tombstones s = T) (delete_devices_delivering (\<lambda>x. when_op (x = d) m) api (others @ [d]) (Some d))
     (\<lambda>ids s. Q (d \<in> set ids) s) (\<lambda>_. False)"
proof -
  let ?A = "\<lambda>s. d \<in> sy_self_deleted s \<and> sy_tombstones s = T"
  let ?del = "delete_device_delivering (\<lambda>x. when_op (x = d) m) api (Some d)"
  have ungroup: "runs ?A (for_each ds (ungroup_device api)) (\<lambda>_. ?A) (\<lambda>_. False)" for ds
  proof -
    have "runs ?A (ungroup_device api x) (\<lambda>_. ?A) (\<lambda>_. False)" for x
      by (auto simp: runs_def ungroup_device_def sync_ops split: prod.splits sum.splits)
    then show ?thesis
      by (induction ds) (auto intro!: runs_pure runs_and_then)
  qed
  have all: "runs ?A (collect (others @ [d]) ?del) (\<lambda>ids s. Q (d \<in> set ids) s) (\<lambda>_. False)"
    using assms(1)
  proof (induction others)
    case Nil
    show ?case
      unfolding append_Nil collect.simps
      by (rule runs_and_then [OF assms(2)]) (auto simp: runs_def sync_ops)
  next
    case (Cons x others)
    have first: "runs ?A (?del x) (\<lambda>ids s. ?A s \<and> (\<forall>y \<in> set ids. y \<noteq> d)) (\<lambda>_. False)"
      using Cons.prems by (intro deleted_other) auto
    have rest: "runs (\<lambda>s. ?A s \<and> (\<forall>y \<in> set ids. y \<noteq> d)) (collect (others @ [d]) ?del)
        (\<lambda>more s. Q (d \<in> set more) s \<and> d \<notin> set ids) (\<lambda>_. False)" for ids
      using Cons.IH Cons.prems by (cases "d \<in> set ids") (auto simp: runs_def)
    show ?case
      unfolding append_Cons collect.simps
      by (rule runs_and_then [OF first], rule runs_and_then [OF rest], rule runs_pure) simp
  qed
  have mark: "runs (\<lambda>s. sy_tombstones s = T) (change (\<lambda>s. s\<lparr>sy_self_deleted := insert d (sy_self_deleted s)\<rparr>)) (\<lambda>_. ?A) (\<lambda>_. False)"
    by (rule runs_change) simp
  have m: "(case Some d of None \<Rightarrow> None | Some da \<Rightarrow> if da \<in> set (others @ [d]) then Some da else None) = Some d"
    by simp
  show ?thesis
    unfolding delete_devices_delivering_def Let_def m
    by (rule runs_and_then [OF _ all]) (auto intro!: runs_and_then [OF mark] runs_and_then [OF ungroup] runs_pure)
qed

lemma node_deletion_marked:
  assumes "index_ok (sy_index s)" "node_device_of (sy_index s) n = Some d"
    and "\<forall>(e, t, x) \<in> set (node_entries (sy_index s) n). x = d \<longrightarrow> e = 0 \<and> t = ''matterNode''"
    and "runs (\<lambda>u. d \<in> sy_self_deleted u \<and> sy_tombstones u = sy_tombstones s)
       (delete_device_delivering (\<lambda>x. when_op (x = d) m) api (Some d) d) (\<lambda>ids u. Q (d \<in> set ids) u) (\<lambda>_. False)"
    and "\<And>b. keeps (Q b) (tombstones_forget api RetiredNodes n)"
  shows "case delete_node_delivering (\<lambda>x. when_op (x = d) m) api n forgets s of (Inl _, _) \<Rightarrow> False
     | (Inr ids, after) \<Rightarrow> Q (d \<in> set ids) after"
proof -
  define es where "es = node_entries (sy_index s) n"
  define others where "others = map (snd \<circ> snd) (filter (\<lambda>x. \<not> is_node_entry x) es)"
  define s1 where "s1 = (if forgets then s\<lparr>sy_known := sy_known s - {n}\<rparr> else s)"
  have nodes: "map (snd \<circ> snd) (filter is_node_entry es) \<noteq> []" "last (map (snd \<circ> snd) (filter is_node_entry es)) = d"
    using node_device_entries [OF assms(1,2)] by (auto simp: es_def intro: last_same)
  have d: "d \<notin> set others" using assms(3) by (auto simp: others_def es_def is_node_entry_def)
  have know: "when_op forgets (change (\<lambda>s. s\<lparr>sy_known := sy_known s - {n}\<rparr>)) s = (Inr (), s1)"
    by (simp add: s1_def sync_ops)
  have entries: "node_entries (sy_index s1) n = es" "sy_tombstones s1 = sy_tombstones s" by (simp_all add: s1_def es_def)
  have forget: "runs (Q b) (when_op forgets (tombstones_forget api RetiredNodes n)) (\<lambda>_. Q b) (\<lambda>_. False)" for b
    by (intro runs_returns returning keeping assms(5))
  have "runs (\<lambda>u. sy_tombstones u = sy_tombstones s)
      (and_then (delete_devices_delivering (\<lambda>x. when_op (x = d) m) api (others @ [d]) (Some d)) (\<lambda>deleted.
        and_then (when_op forgets (tombstones_forget api RetiredNodes n)) (\<lambda>_. pure_op deleted)))
      (\<lambda>ids u. Q (d \<in> set ids) u) (\<lambda>_. False)"
    by (rule runs_and_then [OF deletions_marked [OF d assms(4)]], rule runs_and_then [OF forget], rule runs_pure)
  note run = runsD [OF this entries(2)]
  have "delete_node_delivering (\<lambda>x. when_op (x = d) m) api n forgets s
      = and_then (delete_devices_delivering (\<lambda>x. when_op (x = d) m) api (others @ [d]) (Some d)) (\<lambda>deleted.
          and_then (when_op forgets (tombstones_forget api RetiredNodes n)) (\<lambda>_. pure_op deleted)) s1"
    using nodes by (simp add: delete_node_delivering_def Let_def and_then_def look_def know entries(1) others_def [symmetric])
  with run show ?thesis by simp
qed

text \<open>C14: whose deletion of a node device it was. Where the host delivers its callback inside the call that deletes,
  the plugin's own deletion of a node leaves no tombstone and no mark behind. Where the callback comes
  afterwards, it leaves none either if the deletion of the node device went through; after a refused one
  the device carries no mark, and its next deletion counts as the user's and leaves a tombstone for the
  node, if tombstones are kept at all. No deletion raises.\<close>

theorem own_deletion_marked:
  assumes "index_ok (sy_index s)" "node_device_of (sy_index s) n = Some d"
    and "\<forall>(e, t, x) \<in> set (node_entries (sy_index s) n). x = d \<longrightarrow> e = 0 \<and> t = ''matterNode''"
  shows "(case delete_node_delivering (\<lambda>x. when_op (x = d) (note_node_device_deleted api n d)) api n forgets s of (Inl _, _) \<Rightarrow> False
     | (Inr ids, after) \<Rightarrow> sy_tombstones after = sy_tombstones s \<and> d \<notin> sy_self_deleted after)
   \<and> (case and_then (delete_node api n forgets) (\<lambda>ids. and_then (note_node_device_deleted api n d) (\<lambda>_. pure_op ids)) s of (Inl _, _) \<Rightarrow> False
     | (Inr ids, after) \<Rightarrow> d \<notin> sy_self_deleted after
         \<and> (if d \<in> set ids then sy_tombstones after = sy_tombstones s
            else \<forall>tb. sy_tombstones after = Some tb \<longrightarrow> is_tombstoned NodeTombstones n after))"
proof
  have forgotten: "keeps (\<lambda>u. sy_tombstones u = T \<and> d \<notin> sy_self_deleted u) (tombstones_forget api RetiredNodes n)"
    "keeps (\<lambda>u. (d \<in> sy_self_deleted u \<longleftrightarrow> b) \<and> sy_tombstones u = T) (tombstones_forget api RetiredNodes n)" for b T
    by (auto simp: keeps_def tombstones_forget_def tombstones_persist_def set_tombs_def tombs_of_def sync_ops
        split: option.splits prod.splits sum.splits)
  show "case delete_node_delivering (\<lambda>x. when_op (x = d) (note_node_device_deleted api n d)) api n forgets s of (Inl _, _) \<Rightarrow> False
     | (Inr ids, after) \<Rightarrow> sy_tombstones after = sy_tombstones s \<and> d \<notin> sy_self_deleted after"
    by (rule node_deletion_marked [OF assms, of _ _ "\<lambda>_ u. sy_tombstones u = sy_tombstones s \<and> d \<notin> sy_self_deleted u"])
      (use forgotten(1) in \<open>auto simp: runs_def delete_device_delivering_def note_node_device_deleted_def sync_ops
        split: prod.splits sum.splits\<close>)
  let ?Q = "\<lambda>b u. (d \<in> sy_self_deleted u \<longleftrightarrow> b) \<and> sy_tombstones u = sy_tombstones s"
  have same: "delete_node api n forgets s = delete_node_delivering (\<lambda>x. when_op (x = d) (pure_op ())) api n forgets s"
    by (simp add: delete_node_silent when_op_def)
  have silent: "case delete_node api n forgets s of (Inl _, _) \<Rightarrow> False | (Inr ids, after) \<Rightarrow> ?Q (d \<in> set ids) after"
    unfolding same
    by (rule node_deletion_marked [OF assms, of _ _ ?Q])
      (use forgotten(2) in \<open>auto simp: runs_def delete_device_delivering_def sync_ops split: prod.splits sum.splits\<close>)
  have told: "runs (?Q b) (note_node_device_deleted api n d) (\<lambda>_ u. d \<notin> sy_self_deleted u \<and>
      (if b then sy_tombstones u = sy_tombstones s else \<forall>tb. sy_tombstones u = Some tb \<longrightarrow> is_tombstoned NodeTombstones n u)) (\<lambda>_. False)" for b
    by (auto simp: runs_def note_node_device_deleted_def tombstones_add_def tombstones_persist_def set_tombs_def tombs_of_def
        is_tombstoned_def sync_ops split: option.splits prod.splits sum.splits if_splits)
  show "case and_then (delete_node api n forgets) (\<lambda>ids. and_then (note_node_device_deleted api n d) (\<lambda>_. pure_op ids)) s of (Inl _, _) \<Rightarrow> False
     | (Inr ids, after) \<Rightarrow> d \<notin> sy_self_deleted after
         \<and> (if d \<in> set ids then sy_tombstones after = sy_tombstones s
            else \<forall>tb. sy_tombstones after = Some tb \<longrightarrow> is_tombstoned NodeTombstones n after)"
  proof -
    obtain r t where del: "delete_node api n forgets s = (r, t)" by fastforce
    with silent obtain ids where ids: "r = Inr ids" "?Q (d \<in> set ids) t" by (cases r) auto
    obtain r' u where told_now: "note_node_device_deleted api n d t = (r', u)" by fastforce
    show ?thesis
      using runsD [OF told ids(2)] unfolding and_then_def del ids(1) prod.case sum.case told_now pure_op_def
      by (cases r') simp_all
  qed
qed

definition demo_plug :: "host_dev list sync" where
  "demo_plug = (shelf_state [shelf_device 3 ''matterNode'' ''Plug'' []])\<lparr>sy_index := [((6, 0), [(''matterNode'', 3)])]\<rparr>"

lemma own_deletion_marked_witness:
  "(case delete_node_delivering (\<lambda>x. when_op (x = 3) (note_node_device_deleted shelf_host 6 3)) shelf_host 6 True demo_plug of (Inl _, _) \<Rightarrow> False
     | (Inr ids, after) \<Rightarrow> sy_tombstones after = sy_tombstones demo_plug \<and> 3 \<notin> sy_self_deleted after)
   \<and> fst (delete_node shelf_host 6 True demo_plug) = Inr [3]"
proof
  have "index_ok (sy_index demo_plug)" "node_device_of (sy_index demo_plug) 6 = Some 3"
    "\<forall>(e, t, x) \<in> set (node_entries (sy_index demo_plug) 6). x = 3 \<longrightarrow> e = 0 \<and> t = ''matterNode''"
    by code_simp+
  from own_deletion_marked [OF this, of shelf_host True]
  show "case delete_node_delivering (\<lambda>x. when_op (x = 3) (note_node_device_deleted shelf_host 6 3)) shelf_host 6 True demo_plug of (Inl _, _) \<Rightarrow> False
     | (Inr ids, after) \<Rightarrow> sy_tombstones after = sy_tombstones demo_plug \<and> 3 \<notin> sy_self_deleted after" by (rule conjunct1)
qed code_simp

section \<open>Meter links\<close>

lemma endpoint_by_id_iff:
  "distinct (map ei_endpoint_id (ni_endpoints node)) \<Longrightarrow>
     endpoint_by_id node i = Some e \<longleftrightarrow> e \<in> set (ni_endpoints node) \<and> ei_endpoint_id e = i"
  unfolding endpoint_by_id_def
  by (auto simp: find_Some_iff distinct_conv_nth in_set_conv_nth)

lemma specs_at_handler:
  assumes "distinct (map ei_endpoint_id (ni_endpoints node))" "e \<in> set (ni_endpoints node)"
  shows "specs_at (handler_specs node) (ei_endpoint_id e) = handlers_for_endpoint node e"
proof -
  have "map_of (handler_specs node) (ei_endpoint_id e) = Some (handlers_for_endpoint node e)"
    using assms by (intro map_of_is_SomeI) (auto simp: handler_specs_def o_def)
  then show ?thesis by (simp add: specs_at_def)
qed

lemma endpoint_by_own_id:
  "distinct (map ei_endpoint_id (ni_endpoints node)) \<Longrightarrow> e \<in> set (ni_endpoints node) \<Longrightarrow>
     endpoint_by_id node (ei_endpoint_id e) = Some e"
  by (simp add: endpoint_by_id_iff)

lemma sole_member: "sole xs = Some x \<Longrightarrow> finite xs \<Longrightarrow> x \<in> xs"
  unfolding sole_def by (auto split: list.splits) (metis list.set_intros(1) set_sorted_list_of_set)

lemma meter_target_capable: "resolve_meter_target node e capable = Inr (Some t) \<Longrightarrow> finite capable \<Longrightarrow> t \<in> capable"
  by (auto simp: resolve_meter_target_def py_bind_Inr dest!: sole_member split: option.splits)

lemma py_map_link:
  "py_map f xs = Inr ys \<Longrightarrow> y \<in> set ys \<Longrightarrow> \<exists>x \<in> set xs. f x = Inr y"
  by (induction xs arbitrary: ys) (auto simp: py_bind_Inr)

lemma links_distinct:
  assumes "distinct (map ei_endpoint_id (ni_endpoints node))" "meter_links node specs = Inr links"
  shows "distinct (map fst links)"
proof -
  have "distinct (map fst (List.map_filter id ys)) \<and> fst ` set (List.map_filter id ys) \<subseteq> g ` set xs"
    if "py_map f xs = Inr ys" "\<And>x y. f x = Inr (Some y) \<Longrightarrow> fst y = g x" "distinct (map g xs)"
    for f :: "endpoint_info \<Rightarrow> (int \<times> int) option py_result" and g :: "endpoint_info \<Rightarrow> int" and xs ys
    using that(1,3)
  proof (induction xs arbitrary: ys)
    case (Cons x xs)
    then obtain y zs where y: "f x = Inr y" "py_map f xs = Inr zs" "ys = y # zs" by (auto simp: py_bind_Inr)
    show ?case using Cons.IH [OF y(2)] Cons.prems(2) that(2) [of x] y(1,3)
      by (cases y) (auto simp: map_filter_simps)
  qed (simp add: map_filter_simps)
  note * = this
  obtain ys where ys: "py_map (\<lambda>e. py_bind (resolve_meter_target node e (meter_capable_eps node specs)) (\<lambda>t.
        Inr (map_option (\<lambda>target. (ei_endpoint_id e, target)) t)))
      (filter (\<lambda>e. is_meter_source_candidate e (specs_at specs (ei_endpoint_id e))) (ni_endpoints node)) = Inr ys"
      "links = List.map_filter id ys"
    using assms(2) by (auto simp: meter_links_def Let_def py_bind_Inr)
  show ?thesis
    using * [OF ys(1), of ei_endpoint_id] assms(1) ys(2) by (auto simp: py_bind_Inr distinct_map_filter)
qed

text \<open>Readings are handed only from an endpoint that measures and that no handler makes a device for, to another
  one that a handler makes a light or a switch for and that does not measure itself, so that no link leads
  to its own endpoint; and the readings of one endpoint go to one other endpoint at most. (The root
  endpoint can be a source, and several sources can share a target.)\<close>

theorem meter_links_sound:
  assumes "distinct (map ei_endpoint_id (ni_endpoints node))"
    and "meter_links node (handler_specs node) = Inr links" "(source, target) \<in> set links"
  shows "source \<noteq> target \<and> distinct (map fst links)
    \<and> (\<exists>e \<in> set (ni_endpoints node). ei_endpoint_id e = source \<and> has_meter e \<and> handlers_for_endpoint node e = [])
    \<and> (\<exists>e \<in> set (ni_endpoints node). ei_endpoint_id e = target \<and> \<not> has_meter e
         \<and> (\<exists>sp \<in> set (handlers_for_endpoint node e). sp_device_type_id sp \<in> set METER_CAPABLE_TYPES))"
proof -
  let ?capable = "meter_capable_eps node (handler_specs node)"
  obtain e where e: "e \<in> set (ni_endpoints node)" "ei_endpoint_id e = source"
      "is_meter_source_candidate e (specs_at (handler_specs node) source)" "resolve_meter_target node e ?capable = Inr (Some target)"
    using assms(2,3) by (auto simp: meter_links_def Let_def py_bind_Inr map_filter_def dest!: py_map_link)
  have "has_meter e" "handlers_for_endpoint node e = []"
    using e specs_at_handler [OF assms(1) e(1)] by (auto simp: is_meter_source_candidate_def split: if_splits)
  moreover have "target \<in> ?capable" using meter_target_capable [OF e(4)] by (simp add: meter_capable_eps_def)
  then obtain e' sp where e': "e' \<in> set (ni_endpoints node)" "ei_endpoint_id e' = target" "\<not> has_meter e'"
      "sp \<in> set (handlers_for_endpoint node e')" "sp_device_type_id sp \<in> set METER_CAPABLE_TYPES"
    using endpoint_by_own_id [OF assms(1)]
    by (auto simp: meter_capable_eps_def handler_specs_def list_ex_iff simp del: Let_def)
  moreover have "source \<noteq> target"
    using endpoint_by_own_id [OF assms(1)] e(1,2) e'(1-3) \<open>has_meter e\<close> by (metis option.inject)
  ultimately show ?thesis using e(1,2) links_distinct [OF assms(1,2)] by blast
qed

definition demo_strip :: node_info where
  "demo_strip = \<lparr>ni_node_id = 6, ni_suggested_name = [], ni_vendor_id = None, ni_product_id = None,
     ni_vendor_name = [], ni_product_name = ''Plug'', ni_sw_version = [], ni_available = True,
     ni_endpoints = [\<lparr>ei_endpoint_id = 1, ei_cluster_ids = {6}, ei_device_types = [], ei_node_label = [], ei_vendor_name = [], ei_product_name = []\<rparr>,
                     \<lparr>ei_endpoint_id = 2, ei_cluster_ids = {144}, ei_device_types = [], ei_node_label = [], ei_vendor_name = [], ei_product_name = []\<rparr>],
     ni_attributes = [((1, 6, 0), PBool True), ((2, 144, 8), PInt 1)]\<rparr>"

lemma demo_strip_links: "meter_links demo_strip (handler_specs demo_strip) = Inr [(2, 1)]"
  by code_simp

lemma meter_links_sound_witness:
  "meter_links demo_strip (handler_specs demo_strip) = Inr [(2, 1)] \<and> (2 :: int) \<noteq> 1"
proof
  show *: "meter_links demo_strip (handler_specs demo_strip) = Inr [(2, 1)]" by (rule demo_strip_links)
  have "distinct (map ei_endpoint_id (ni_endpoints demo_strip))" by code_simp
  from meter_links_sound [OF this *, of 2 1] show "(2 :: int) \<noteq> 1" by simp
qed

definition sources_of :: "((int \<times> int) \<times> int list) list \<Rightarrow> int \<times> int \<Rightarrow> int list" where
  "sources_of reverse key = (case map_of reverse key of None \<Rightarrow> [] | Some xs \<Rightarrow> xs)"

definition links_inverse :: "'h sync \<Rightarrow> bool" where
  "links_inverse s \<longleftrightarrow> (\<forall>n source target. map_of (sy_forward s) (n, source) = Some target
     \<longleftrightarrow> source \<in> set (sources_of (sy_reverse s) (n, target)))"

lemma map_of_reversed: "distinct (map fst e) \<Longrightarrow> map_of (rev e) = map_of e"
  by (metis distinct_rev map_of_inject_set rev_map set_rev)

lemma dict_join_distinct: "distinct (map fst d) \<Longrightarrow> distinct (map fst (dict_join d e))"
  by (induction e rule: rev_induct) (auto simp: dict_join_def distinct_update)

lemma dict_joined:
  "distinct (map fst e) \<Longrightarrow> map_of (dict_join d e) k = (case map_of e k of None \<Rightarrow> map_of d k | Some v \<Rightarrow> Some v)"
  by (simp add: dict_join_lookup map_of_reversed)

lemma reverse_of_snoc:
  "reverse_of n (links @ [(a, b)]) = (let d = reverse_of n links; before = sources_of d (n, b)
     in AList.update (n, b) (if a \<in> set before then before else before @ [a]) d)"
  by (simp add: reverse_of_def sources_of_def Let_def)

lemma reverse_of_sources:
  "set (sources_of (reverse_of n links) (n, target)) = {source. (source, target) \<in> set links}"
  "n' \<noteq> n \<Longrightarrow> map_of (reverse_of n links) (n', target) = None"
  "map_of (reverse_of n links) (n, target) = None \<longleftrightarrow> target \<notin> snd ` set links"
proof (induction links rule: rev_induct)
  case (snoc l links)
  obtain a b where l: "l = (a, b)" by (cases l)
  { case 1 then show ?case using snoc(1) by (auto simp: l reverse_of_snoc Let_def sources_of_def update_conv') }
  { case 2 then show ?case using snoc(2) by (auto simp: l reverse_of_snoc Let_def update_conv') }
  { case 3 then show ?case using snoc(3) by (auto simp: l reverse_of_snoc Let_def update_conv') }
qed (simp_all add: reverse_of_def sources_of_def)

lemma reverse_of_distinct: "distinct (map fst (reverse_of n links))"
proof (induction links rule: rev_induct)
  case (snoc l links)
  then show ?case by (cases l) (simp add: reverse_of_snoc Let_def distinct_update)
qed (simp add: reverse_of_def)

lemma without_node_lookup: "map_of (without_node n d) k = (if fst k = n then None else map_of d k)"
  by (induction d) (auto simp: without_node_def)

text \<open>The map of targets and the map of sources stay inverse to each other when a pass resolves the links of
  a node.\<close>

theorem meter_maps_inverse:
  assumes "distinct (map ei_endpoint_id (ni_endpoints node))" "links_inverse s"
  shows "links_inverse (snd (resolve_meter_links node specs s))"
proof -
  let ?n = "ni_node_id node"
  note lookups = links_inverse_def sources_of_def without_node_lookup
  show ?thesis
  proof (cases "meter_links node specs")
    case (Inl e)
    then show ?thesis using assms(2) by (auto simp: resolve_meter_links_def Let_def sync_ops lookups)
  next
    case (Inr links)
    note d = links_distinct [OF assms(1) Inr]
    have keys: "distinct (map fst (map (\<lambda>(src, t). ((?n, src), t)) links))"
      using d by (auto simp: distinct_map inj_on_def case_prod_beta)
    have fwd: "map_of (map (\<lambda>(src, t). ((?n, src), t)) links) (n, src) = (if n = ?n then map_of links src else None)" for n src
      by (induction links) auto
    have joined: "map_of (dict_join [] (map (\<lambda>(src, t). ((?n, src), t)) links)) (n, src)
        = (if n = ?n then map_of links src else None)" for n src
      using keys by (auto simp: dict_joined fwd split: option.split)
    have forward: "map_of links src = Some t \<longleftrightarrow> (src, t) \<in> set links" for src t
      using d by (auto dest: map_of_SomeD map_of_is_SomeI)
    have "links_inverse (s\<lparr>sy_forward := dict_join (without_node ?n (sy_forward s))
              (dict_join [] (map (\<lambda>(src, t). ((?n, src), t)) links)),
           sy_reverse := dict_join (without_node ?n (sy_reverse s)) (reverse_of ?n links)\<rparr>)"
      unfolding links_inverse_def
    proof (intro allI)
      fix n src t
      show "map_of (sy_forward (s\<lparr>sy_forward := dict_join (without_node ?n (sy_forward s))
              (dict_join [] (map (\<lambda>(src, t). ((?n, src), t)) links)),
           sy_reverse := dict_join (without_node ?n (sy_reverse s)) (reverse_of ?n links)\<rparr>)) (n, src) = Some t
        \<longleftrightarrow> src \<in> set (sources_of (sy_reverse (s\<lparr>sy_forward := dict_join (without_node ?n (sy_forward s))
              (dict_join [] (map (\<lambda>(src, t). ((?n, src), t)) links)),
           sy_reverse := dict_join (without_node ?n (sy_reverse s)) (reverse_of ?n links)\<rparr>)) (n, t))"
      proof (cases "n = ?n")
        case True
        then show ?thesis
          using forward [of src t] reverse_of_sources(1,3) [of ?n links t]
          by (cases "map_of (reverse_of ?n links) (?n, t)"; cases "map_of links src")
            (auto simp: dict_joined joined dict_join_distinct reverse_of_distinct without_node_lookup sources_of_def
              intro: rev_image_eqI)
      next
        case False
        then show ?thesis
          using assms(2) reverse_of_sources(2) [OF False, of links t]
          by (simp add: dict_joined joined dict_join_distinct reverse_of_distinct lookups)
      qed
    qed
    then show ?thesis using Inr by (simp add: resolve_meter_links_def Let_def sync_ops)
  qed
qed

lemma meter_maps_inverse_witness:
  "links_inverse (snd (resolve_meter_links demo_strip (handler_specs demo_strip) (shelf_state [])))
   \<and> sy_forward (snd (resolve_meter_links demo_strip (handler_specs demo_strip) (shelf_state []))) = [((6, 2), 1)]"
proof
  have "distinct (map ei_endpoint_id (ni_endpoints demo_strip))" by code_simp
  then show "links_inverse (snd (resolve_meter_links demo_strip (handler_specs demo_strip) (shelf_state [])))"
    by (rule meter_maps_inverse) (simp add: links_inverse_def sources_of_def shelf_state_def)
qed code_simp

section \<open>Reconciling\<close>

lemma unreachable_returns [returning]:
  "returns (safe_unreachable api d)" "returns (write_node_reachable api n b)"
  by (auto simp: safe_unreachable_def write_node_reachable_def intro!: returning)

lemma unreachable_spares_known:
  "keeps (\<lambda>s. sy_known s = K) (safe_unreachable api d)" "keeps (\<lambda>s. sy_known s = K) (write_node_reachable api n b)"
  by (auto simp: safe_unreachable_def write_node_reachable_def group_warn_def intro!: keeping spared)

text \<open>The id a reconcile takes from an entry of the list: that of its node, or what can be salvaged.\<close>

definition id_listed :: "'h indigo \<Rightarrow> pyval \<Rightarrow> int option" where
  "id_listed api raw = (case parse_raw api raw of Inr node \<Rightarrow> Some (ni_node_id node) | Inl _ \<Rightarrow> salvage_node_id raw)"

lemma reconcile_node_seen:
  "returns (reconcile_node api raw acc)"
  "yields (\<lambda>r. fst r = fst acc \<union> set_option (id_listed api raw)) (reconcile_node api raw acc)"
  by (cases acc; cases "parse_raw api raw";
      auto simp: reconcile_node_def id_listed_def intro!: returning yields_and_then [OF yields_any] yields_pure split: option.split)+

lemma reconcile_nodes_seen:
  "returns (reconcile_nodes api raws acc)"
  "yields (\<lambda>r. fst r = fst acc \<union> set (List.map_filter (id_listed api) raws)) (reconcile_nodes api raws acc)"
proof (induction raws arbitrary: acc)
  case (Cons raw raws)
  { case 1 show ?case using Cons(1) by (auto intro!: returning reconcile_node_seen) }
  { case 2
    have "yields (\<lambda>r. fst r = fst acc \<union> set (List.map_filter (id_listed api) (raw # raws))) (reconcile_nodes api raws x)"
      if "fst x = fst acc \<union> set_option (id_listed api raw)" for x
      using Cons(2) [of x] that by (cases "id_listed api raw") (simp_all add: map_filter_simps)
    then show ?case by (simp add: yields_and_then [OF reconcile_node_seen(2)]) }
qed (simp_all add: returning yields_pure map_filter_simps)

text \<open>C16: a reconcile ends whatever the nodes of the list are and whatever the host refuses, once the index is
  rebuilt; afterwards the known nodes are exactly those of the list, an unreadable entry counted by
  the id that can be salvaged from it.\<close>

theorem reconcile_known:
  assumes "fst (rebuild_index api s) = Inr ()"
  shows "fst (reconcile_all api raws s) = Inr ()
    \<and> sy_known (snd (reconcile_all api raws s)) = set (List.map_filter (id_listed api) raws)"
proof -
  obtain s1 where s1: "rebuild_index api s = (Inr (), s1)" using assms by (metis prod.collapse)
  obtain seen live s2 where s2: "reconcile_nodes api raws ({}, {}) s1 = (Inr (seen, live), s2)"
    using reconcile_nodes_seen(1) by (metis returnsE surj_pair)
  have seen: "seen = set (List.map_filter (id_listed api) raws)"
    using yieldsD [OF reconcile_nodes_seen(2) s2] by simp
  define rest where "rest dropped orphans orphan_nodes = in_turn
     [when_op (dropped \<noteq> []) (say (WarnDropped dropped)), for_each orphans (safe_unreachable api),
      for_each orphan_nodes (\<lambda>n. write_node_reachable api n False)]" for dropped orphans orphan_nodes
  have rest: "\<exists>t. rest a b c u = (Inr (), t) \<and> sy_known t = sy_known u" for a b c u
  proof -
    have "returns (rest a b c)" by (auto simp: rest_def intro!: returning)
    then obtain t where t: "rest a b c u = (Inr (), t)" by (rule returnsE) simp
    have "keeps (\<lambda>s. sy_known s = K) (rest a b c)" for K
      unfolding rest_def
      by (intro keeps_in_turn) (auto intro!: keeps_when keeps_for_each spared(2) unreachable_spares_known)
    then have "sy_known (snd (rest a b c u)) = sy_known u" by (rule keepsD) simp
    with t show ?thesis by simp
  qed
  have run: "reconcile_all api raws s = rest (sorted_list_of_set (sy_known s2 - seen)) (ids_where (\<lambda>k. k \<notin> live) (sy_index s2))
      (nodes_with_device (\<lambda>k. k \<notin> live) (sy_index s2)) (s2\<lparr>sy_known := seen\<rparr>)"
    unfolding reconcile_all_def and_then_run [where m = "rebuild_index api", OF s1]
      and_then_run [where m = "reconcile_nodes api raws ({}, {})", OF s2] look_run prod.case rest_def change_run ..
  obtain t where "reconcile_all api raws s = (Inr (), t)" "sy_known t = sy_known (s2\<lparr>sy_known := seen\<rparr>)"
    unfolding run using rest by metis
  then show ?thesis unfolding seen by simp
qed

lemma reconcile_known_witness:
  "sy_known (snd (reconcile_all shelf_host [PDict [(''node_id'', PInt 9)], PDict demo_node] (shelf_state [shelf_relay 1 5]))) = {7, 9}"
proof -
  have r: "fst (rebuild_index shelf_host (shelf_state [shelf_relay 1 5])) = Inr ()" by code_simp
  have "set (List.map_filter (id_listed shelf_host) [PDict [(''node_id'', PInt 9)], PDict demo_node]) = {7, 9}" by code_simp
  with reconcile_known [OF r, of "[PDict [(''node_id'', PInt 9)], PDict demo_node]"] show ?thesis by simp
qed

section \<open>Events\<close>

definition node_devices :: "dev_index \<Rightarrow> int \<Rightarrow> int set" where
  "node_devices ix n = set (ids_where (\<lambda>k. fst k = n) ix)"

lemma node_devices_iff: "d \<in> node_devices ix n \<longleftrightarrow> (\<exists>e m. ((n, e), m) \<in> set ix \<and> d \<in> snd ` set m)"
  by (force simp: node_devices_def ids_where_def)

lemma node_devicesI: "map_of ix (n, e) = Some m \<Longrightarrow> (t, d) \<in> set m \<Longrightarrow> d \<in> node_devices ix n"
  unfolding node_devices_iff by (metis imageI map_of_SomeD snd_conv)

lemma types_at_devices: "map_of (types_at ix (n, e)) t = Some d \<Longrightarrow> d \<in> node_devices ix n"
  by (auto simp: types_at_def split: option.splits dest!: map_of_SomeD [of _ t] intro: node_devicesI)

lemma lookup_devices: "lookup_dev ix n e t = Some d \<Longrightarrow> d \<in> node_devices ix n"
  by (auto simp: lookup_dev_def split: option.splits list.splits intro: node_devicesI map_of_SomeD)

lemma cluster_devices: "lookup_for_cluster s n e c = Some d \<Longrightarrow> d \<in> node_devices (sy_index s) n"
  by (auto simp: lookup_for_cluster_def Let_def types_at_devices lookup_devices split: option.splits if_splits)

lemma endpoint_devices: "d \<in> set (all_dev_ids_for_endpoint ix n e) \<Longrightarrow> d \<in> node_devices ix n"
  by (auto simp: all_dev_ids_for_endpoint_def types_at_def split: option.splits intro: node_devicesI [OF sym])

lemma ids_where_devices: "d \<in> set (ids_where p ix) \<Longrightarrow> (\<And>k. p k \<Longrightarrow> fst k = n) \<Longrightarrow> d \<in> node_devices ix n"
  by (force simp: node_devices_def ids_where_def)

text \<open>The devices an event may write to: those of its node, and only active ones unless the event is the
  reachability of a bridged endpoint.\<close>

definition may_write :: "'h sync \<Rightarrow> matter_event \<Rightarrow> int \<Rightarrow> int \<Rightarrow> bool" where
  "may_write s evt n d \<longleftrightarrow> d \<in> node_devices (sy_index s) n
     \<and> (\<not> gated s d \<or> ev_cluster evt = Some CLUSTER_BRIDGED_BASIC \<and> ev_attribute evt = Some 17)"

lemma keeps_computed_then: "(\<And>x. r = Inr x \<Longrightarrow> keeps P (f x)) \<Longrightarrow> keeps P (and_then (computed r) f)"
  by (cases r) (auto simp: keeps_def sync_ops)

lemma routed:
  assumes "ev_node_id evt \<noteq> PNone"
  shows "on_attribute api now evt = (case ev_endpoint evt of None \<Rightarrow> say (WarnMalformed ''attribute'') | Some ep \<Rightarrow>
      (case ev_cluster evt of None \<Rightarrow> say (WarnMalformed ''attribute'') | Some cluster \<Rightarrow>
         and_then (if cluster = CLUSTER_THREAD_DIAG
           then and_then (computed (py_int (ev_node_id evt))) (\<lambda>n.
                  change (\<lambda>s. s\<lparr>sy_event_seen := AList.update n now (sy_event_seen s)\<rparr>))
           else pure_op ()) (\<lambda>_.
         if cluster = CLUSTER_BRIDGED_BASIC \<and> ev_attribute evt = Some 17
         then and_then (computed (py_int (ev_node_id evt))) (\<lambda>n. on_bridged_reachable api n ep (ev_value evt))
         else (case handler_for_cluster cluster of
             None \<Rightarrow> pure_op ()
           | Some h \<Rightarrow> and_then (computed (py_int (ev_node_id evt))) (\<lambda>n.
               if node_scoped h
               then and_then (look (\<lambda>s. case battery_targets s n ep of
                        None \<Rightarrow> ids_where (\<lambda>k. fst k = n) (sy_index s)
                      | Some ts \<Rightarrow> ids_where (\<lambda>k. fst k = n \<and> snd k \<in> ts) (sy_index s))) (\<lambda>dev_ids.
                      for_each dev_ids (deliver_scoped api h (id_or_none (ev_attribute evt)) (ev_value evt)))
               else and_then (look (\<lambda>s. lookup_for_cluster s n ep cluster)) (\<lambda>target.
                      deliver_one api h target
                        (\<lambda>dev. run_update (in_platform api) h dev (id_or_none (ev_attribute evt)) (ev_value evt))
                        WarnBadUpdate))))))"
    "on_cluster_event api evt = (case ev_endpoint evt of None \<Rightarrow> say (WarnMalformed ''node_event'') | Some ep \<Rightarrow>
      (case ev_cluster evt of None \<Rightarrow> say (WarnMalformed ''node_event'') | Some cluster \<Rightarrow>
        (case handler_for_cluster cluster of
           None \<Rightarrow> pure_op ()
         | Some h \<Rightarrow> and_then (computed (py_int (ev_node_id evt))) (\<lambda>n.
             and_then (look (\<lambda>s. lookup_for_cluster s n ep cluster)) (\<lambda>target.
               deliver_one api h target
                 (\<lambda>dev. computed (on_node_event h (hv_dev dev) (id_or_none (ev_event_id evt)) (ev_event_data evt)))
                 WarnBadEvent)))))"
  using assms by (cases "ev_node_id evt"; simp add: on_attribute_def on_cluster_event_def split: option.split)+

text \<open>C4: a report or an event of a node leaves the index as it was, creates and deletes no device, and writes states
  and errors only to devices of that node. While any device is running, it writes to one that is not
  running only when the node says whether a bridged endpoint can be reached; before the first one runs the
  gate is open. Every condition on the host survives that such writes keep; renames, properties, groups
  and folders are left open.\<close>

theorem events_stay_on_node:
  assumes "host_keeps api I (\<lambda>_. False) (\<lambda>_. False) (may_write s evt n)" "I (sy_host s)"
    and "py_int (ev_node_id evt) = Inr n" "ev_kind evt = PStr EVT_ATTRIBUTE_UPDATED \<or> ev_kind evt = PStr EVT_NODE_EVENT"
  shows "I (sy_host (snd (sync_event api now evt s))) \<and> sy_index (snd (sync_event api now evt s)) = sy_index s"
proof -
  let ?J = "\<lambda>ix. ix = sy_index s" and ?T = "\<lambda>(_ :: tombstones option) a. a = sy_active s"
  let ?holds = "footprint.holds I ?J ?T"
  have fp: "footprint api I (\<lambda>_. False) (\<lambda>_. False) (may_write s evt n)" by unfold_locales (rule assms(1))
  note holds = footprint.holds_def [OF fp]
  note rules = keeping footprint.other_fields [OF fp] footprint.said [OF fp]
  have one: "keeps ?holds (and_then (look (\<lambda>u. lookup_for_cluster u n ep c)) (\<lambda>target. deliver_one api h target read bad))"
    if "\<And>dev. keeps ?holds (read dev)" for ep c h read bad
  proof (rule keeps_look_then)
    fix u
    assume u: "?holds u"
    have "keeps ?holds (deliver_one api h (lookup_for_cluster u n ep c) read bad)"
      by (rule footprint.deliver_one_kept [OF fp _ that])
        (use u in \<open>auto simp: holds may_write_def gated_def dest: cluster_devices\<close>)
    then show "?holds (snd (deliver_one api h (lookup_for_cluster u n ep c) read bad u))" using u by (rule keepsD)
  qed
  have scoped: "keeps ?holds (and_then (look g) (\<lambda>ds. for_each ds (deliver_scoped api h a v)))"
    if "\<And>u d. d \<in> set (g u) \<Longrightarrow> d \<in> node_devices (sy_index u) n" for g h a v
  proof (rule keeps_look_then)
    fix u
    assume u: "?holds u"
    have "keeps ?holds (for_each (g u) (deliver_scoped api h a v))"
      by (intro keeps_for_each footprint.deliver_scoped_kept [OF fp])
        (use u that [of _ u] in \<open>auto simp: holds may_write_def gated_def\<close>)
    then show "?holds (snd (for_each (g u) (deliver_scoped api h a v) u))" using u by (rule keepsD)
  qed
  have bridged: "keeps ?holds (on_bridged_reachable api n ep v)"
    if "ev_cluster evt = Some CLUSTER_BRIDGED_BASIC" "ev_attribute evt = Some 17" for ep v
    unfolding on_bridged_reachable_def
  proof (rule keeps_look_then)
    fix u
    assume u: "?holds u"
    have "keeps ?holds (if v = PNone then pure_op () else for_each (all_dev_ids_for_endpoint (sy_index u) n ep)
        (if truthy v then clear_error api else safe_unreachable api))"
      by (auto intro!: keeping footprint.reachability_kept [OF fp] dest: endpoint_devices)
        (use u that in \<open>auto simp: holds may_write_def dest: endpoint_devices\<close>)
    then show "?holds (snd ((if v = PNone then pure_op () else for_each (all_dev_ids_for_endpoint (sy_index u) n ep)
        (if truthy v then clear_error api else safe_unreachable api)) u))" using u by (rule keepsD)
  qed
  have here: "ev_node_id evt \<noteq> PNone" using assms(3) by auto
  have nodes: "d \<in> node_devices (sy_index u) n" if "d \<in> set (case battery_targets u n ep of
      None \<Rightarrow> ids_where (\<lambda>k. fst k = n) (sy_index u) | Some ts \<Rightarrow> ids_where (\<lambda>k. fst k = n \<and> snd k \<in> ts) (sy_index u))" for u d ep
    using that by (auto split: option.splits intro: ids_where_devices)
  have known: "keeps ?holds (and_then (computed (py_int (ev_node_id evt))) f)" if "keeps ?holds (f n)" for f :: "int \<Rightarrow> ('a, unit) sync_op"
    by (rule keeps_computed_then) (use assms(3) that in simp)
  have "keeps ?holds (on_attribute api now evt)"
    unfolding routed(1) [OF here]
    by (intro keeps_option keeps_and_then keeps_if known bridged scoped one nodes footprint.run_update_kept [OF fp]
        keeps_trivial footprint.said [OF fp] footprint.other_fields [OF fp]) simp_all
  moreover have "keeps ?holds (on_cluster_event api evt)"
    unfolding routed(2) [OF here]
    by (intro keeps_option known one keeps_trivial footprint.said [OF fp])
  ultimately have "keeps ?holds (sync_event api now evt)"
    using assms(4) by (auto simp: sync_event_def)
  then show ?thesis
    using assms(2) keepsD [of ?holds "sync_event api now evt" s] by (simp add: holds)
qed

definition demo_two_nodes :: "host_dev list sync" where
  "demo_two_nodes = (shelf_state [shelf_relay 2 6, shelf_relay 4 5])\<lparr>sy_index :=
     [((6, 1), [(''matterRelay'', 2)]), ((5, 1), [(''matterRelay'', 4)])]\<rparr>"

definition demo_report :: matter_event where
  "demo_report = \<lparr>ev_kind = PStr EVT_ATTRIBUTE_UPDATED, ev_node_id = PInt 6, ev_endpoint = Some 1, ev_cluster = Some 6,
     ev_attribute = Some 0, ev_value = PBool True, ev_event_id = None, ev_event_data = PNone, ev_raw = []\<rparr>"

lemma events_stay_on_node_witness:
  "filter (\<lambda>x. hv_id x = 4 \<and> hv_error x \<noteq> []) (sy_host (snd (sync_event shelf_host 0 demo_report demo_two_nodes))) = []"
proof -
  have "d = 2" if "may_write demo_two_nodes demo_report 6 d" for d
    using that by (auto simp: may_write_def node_devices_def ids_where_def demo_two_nodes_def)
  then have "\<not> may_write demo_two_nodes demo_report 6 4" by fastforce
  then have "host_keeps shelf_host (\<lambda>h. filter (\<lambda>x. hv_id x = 4 \<and> hv_error x \<noteq> []) h = []) (\<lambda>_. False) (\<lambda>_. False)
      (may_write demo_two_nodes demo_report 6)"
    by (auto simp: host_keeps_def shelf_host_def shelf_update_def filter_empty_conv)
  from events_stay_on_node [OF this, of 0] show ?thesis
    by (simp add: demo_report_def) (simp add: demo_two_nodes_def shelf_state_def shelf_relay_def shelf_device_def)
qed

section \<open>Names\<close>

lemma label_shape:
  assumes "label_of_type t \<noteq> []"
  shows "CHR ''-'' \<notin> set (label_of_type t)" "last (label_of_type t) \<notin> {CHR '')'', newline}"
proof -
  have "list_all (\<lambda>(t, l). CHR ''-'' \<notin> set l \<and> last l \<notin> {CHR '')'', newline}) ENDPOINT_ROLE_LABELS" by code_simp
  then show "CHR ''-'' \<notin> set (label_of_type t)" "last (label_of_type t) \<notin> {CHR '')'', newline}"
    using assms by (auto simp: label_of_type_def list_all_iff split: option.splits dest!: map_of_SomeD)
qed

lemma digits_decimal: "0 \<le> n \<Longrightarrow> all_digits (str_of_int n)"
  using digits_of_char_range [of 10 _ "nat n"] digits_of_nonempty [of 10 "nat n"]
  by (fastforce simp: all_digits_def str_of_int_def list_all_iff is_decimal_char_def Let_def)

lemma last_not_suffix: "last s \<noteq> CHR '')'' \<Longrightarrow> first_cut endpoint_suffix s = None"
proof (induction s)
  case (Cons c s)
  then show ?case
    by (cases "s = []") (auto simp: endpoint_suffix_def)
qed simp

lemma numbered_made: "numbered pre (pre @ '' '' @ ds) \<longleftrightarrow> all_digits ds"
  by (simp add: numbered_def)

lemma unsuffixed: "last name \<notin> {CHR '')'', newline} \<Longrightarrow> without_endpoint_suffix name = name"
  by (simp add: without_endpoint_suffix_def last_not_suffix)

lemma last_cut_None: "(\<And>k. k < length s \<Longrightarrow> \<not> p (drop k s)) \<Longrightarrow> last_cut p s = None"
proof (induction s)
  case (Cons c s)
  have "\<not> p (c # s)" using Cons.prems [of 0] by simp
  moreover have "last_cut p s = None" using Cons.prems [of "Suc _"] by (intro Cons.IH) simp
  ultimately show ?case by simp
qed simp

lemma last_cut_at:
  assumes "p (c # s)" "\<And>k. k < length s \<Longrightarrow> \<not> p (drop k s)"
  shows "last_cut p (b @ c # s) = Some b"
  using last_cut_None [of s p, OF assms(2)] assms(1) by (induction b) simp_all

lemma role_suffix_dash: "role_suffix role s \<Longrightarrow> CHR ''-'' \<in> set (drop 1 s)"
proof -
  assume "role_suffix role s"
  then have "take (length ('' - '' @ role)) s = '' - '' @ role" by (auto simp: role_suffix_def numbered_def)
  then have "s = '' - '' @ role @ drop (length ('' - '' @ role)) s" by (metis append_assoc append_take_drop_id)
  then have "drop 1 s = ''- '' @ role @ drop (length ('' - '' @ role)) s" by (metis append_Cons drop0 drop_Suc_Cons One_nat_def)
  then show ?thesis by simp
qed

lemma role_name_base:
  assumes "CHR ''-'' \<notin> set role" "tail = [] \<or> (\<exists>n \<ge> 0. tail = CHR '' '' # str_of_int n)"
  shows "last_cut (role_suffix role) (b @ '' - '' @ role @ tail) = Some b"
proof -
  have tail: "CHR ''-'' \<notin> set tail"
    using assms(2) digits_of_char_range [of 10 "CHR ''-''"] by (auto simp: str_of_int_def code_point_def)
  have "role_suffix role (CHR '' '' # ''- '' @ role @ tail)"
    using assms(2) digits_decimal by (auto simp: role_suffix_def numbered_def)
  moreover have "\<not> role_suffix role (drop k (''- '' @ role @ tail))" for k
  proof
    assume "role_suffix role (drop k (''- '' @ role @ tail))"
    then have "CHR ''-'' \<in> set (drop (1 + k) (''- '' @ role @ tail))" by (metis role_suffix_dash drop_drop)
    then have "CHR ''-'' \<in> set ('' '' @ role @ tail)" by (auto dest: in_set_dropD)
    then show False using assms(1) tail by simp
  qed
  ultimately show ?thesis using last_cut_at [of "role_suffix role" "CHR '' ''" "''- '' @ role @ tail" b] by simp
qed

text \<open>C21: every name a pass plans for an endpoint without a bridge label is made from a base: the one derived from the
  family's names, or, as in a commission or where none could be derived, the name the handler gave. Later
  the name is recognised as one the plugin made from that base; and where the device has a role and the
  base contains no newline, the base can be read back out of the name.\<close>

theorem planned_names_recognised:
  assumes "bridge_label endpoint = []" "0 \<le> ei_endpoint_id endpoint"
    and "base = (if base_given derived then the derived else sp_name spec)" "base \<noteq> []"
  shows "let name = planned_name authoritative derived plan endpoint spec; role = label_of_type (sp_device_type_id spec)
    in is_generated_name name base role
       \<and> (role \<noteq> [] \<longrightarrow> newline \<notin> set base \<longrightarrow> generated_base name role = Some base)"
proof -
  define role where "role = label_of_type (sp_device_type_id spec)"
  define ep where "ep = str_of_int (ei_endpoint_id endpoint)"
  define name where "name = planned_name authoritative derived plan endpoint spec"
  have digits: "all_digits ep" using assms(2) by (simp add: ep_def digits_decimal)
  have name: "name = (if role \<noteq> [] \<and> 1 < role_count plan role then base @ '' - '' @ role @ '' '' @ ep
      else if role \<noteq> [] then base @ '' - '' @ role
      else if 1 < length plan then base @ '' (endpoint '' @ ep @ '')'' else base)"
    using assms(1,3) by (auto simp: name_def planned_name_def Let_def role_def ep_def)
  have "numbered (base @ '' - '' @ role) ((base @ '' - '' @ role) @ '' '' @ ep)"
    unfolding numbered_made by (rule digits)
  then have "is_generated_name name base role"
    using digits assms(4) by (simp add: name is_generated_name_def endpoint_suffix_def butlast_append)
  moreover have "generated_base name role = Some base" if r: "role \<noteq> []" "newline \<notin> set base"
  proof -
    obtain tail where tail: "name = base @ '' - '' @ role @ tail" "tail = [] \<or> (\<exists>n \<ge> 0. tail = CHR '' '' # str_of_int n)"
      using name r(1) assms(2) by (auto simp: ep_def split: if_splits)
    have "last ep \<notin> {CHR '')'', newline}"
      using digits by (auto simp: all_digits_def list_all_iff is_decimal_char_def code_point_def newline_def dest!: last_in_set)
    then have "last name \<notin> {CHR '')'', newline}"
      using label_shape(2) [of "sp_device_type_id spec"] that(1) digits
      by (auto simp: name role_def all_digits_def)
    then show ?thesis
      using role_name_base [OF label_shape(1) tail(2), of "sp_device_type_id spec" base] that assms(4)
      by (simp add: generated_base_def unsuffixed tail(1) role_def [symmetric])
  qed
  ultimately show ?thesis by (simp add: name_def role_def Let_def)
qed

definition demo_planned :: "endpoint_info \<times> indigo_spec" where
  "demo_planned = (\<lparr>ei_endpoint_id = 1, ei_cluster_ids = {6}, ei_device_types = [], ei_node_label = [], ei_vendor_name = [], ei_product_name = []\<rparr>,
     \<lparr>sp_device_type_id = ''matterRelay'', sp_name = ''Plug'', sp_props = [], sp_initial_states = [(''reachable'', PBool True)]\<rparr>)"

lemma planned_names_recognised_witness:
  "is_generated_name ''Desk - Switch'' ''Desk'' ''Switch'' \<and> generated_base ''Desk - Switch'' ''Switch'' = Some ''Desk''
   \<and> is_generated_name ''Plug - Switch'' ''Plug'' ''Switch'' \<and> generated_base ''Plug - Switch'' ''Switch'' = Some ''Plug''"
proof -
  have "bridge_label (fst demo_planned) = []" "(0 :: int) \<le> ei_endpoint_id (fst demo_planned)" by code_simp+
  note named = planned_names_recognised [OF this]
  have "planned_name False (Some ''Desk'') [demo_planned] (fst demo_planned) (snd demo_planned) = ''Desk - Switch''"
    "planned_name True None [demo_planned] (fst demo_planned) (snd demo_planned) = ''Plug - Switch''"
    "label_of_type (sp_device_type_id (snd demo_planned)) = ''Switch''" "newline \<notin> set ''Desk''" "newline \<notin> set ''Plug''"
    "sp_name (snd demo_planned) = ''Plug''"
    by code_simp+
  then show ?thesis
    using named [of "''Desk''" "Some ''Desk''" "snd demo_planned" False "[demo_planned]"]
      named [of "''Plug''" None "snd demo_planned" True "[demo_planned]"]
    by (simp add: Let_def base_given_def)
qed

text \<open>C15: when the host makes the device but refuses its states, the refusal of the first write is absorbed and that
  of the second, of \<open>reachable\<close>, is raised: the loop over the plan ends with it, the rest of the plan is
  left out, and the device that now exists on the host is not in the index.\<close>

theorem seed_write_escapes:
  assumes "map_of (types_at (sy_index s) (ni_node_id node, ei_endpoint_id endpoint)) (sp_device_type_id spec) = None"
    and "in_all api (sy_host s) = Inr devs" "map_of (sp_initial_states spec) ''reachable'' = Some v"
    and "\<And>n p f. \<exists>dev h. in_create api (sp_device_type_id spec) n p f (sy_host s) = (Inr dev, h) \<and> hv_id dev = d \<and> there h"
    and "\<And>h m. there h \<Longrightarrow> there (snd (in_set_model api d m h))" "\<And>h. there h \<Longrightarrow> \<exists>dev. in_device api h d = Inr dev"
    and "\<And>h kv. there h \<Longrightarrow> \<exists>h'. in_update_states api d kv h = (Inl e, h') \<and> there h'"
  shows "\<exists>h. there h \<and> collect ((endpoint, spec) # rest) (realise api node info) s = (Inl e, s\<lparr>sy_host := h\<rparr>)"
proof -
  have states: "sp_initial_states spec \<noteq> []" using assms(3) by auto
  have seed: "\<exists>h'. there h' \<and> seed_states api d (sp_initial_states spec) (s\<lparr>sy_host := h\<rparr>) = (Inl e, s\<lparr>sy_host := h'\<rparr>)"
    if h: "there h" for h
  proof -
    obtain h1 where h1: "in_update_states api d (kvlist_of (sp_initial_states spec)) h = (Inl e, h1)" "there h1"
      using assms(7) [OF h] by blast
    obtain h2 where h2: "in_update_states api d [WriteReachable (truthy v)] h1 = (Inl e, h2)" "there h2"
      using assms(7) [OF h1(2)] by blast
    obtain dev where "in_device api h1 d = Inr dev" using assms(6) [OF h1(2)] by blast
    then show ?thesis
      using states h1 h2 assms(3) by (intro exI [of _ h2]) (simp add: seed_states_def apply_states_def sync_ops)
  qed
  have create: "\<exists>h. there h \<and> create_one api (spec\<lparr>sp_props := p\<rparr>) name folder model s = (Inl e, s\<lparr>sy_host := h\<rparr>)" for p name folder model
  proof -
    obtain dev h where dev: "in_create api (sp_device_type_id spec) (unique_name (map hv_name devs) name)
        (setdefault ''createdTypeId'' (PStr (sp_device_type_id spec)) p) folder (sy_host s) = (Inr dev, h)" "hv_id dev = d" "there h"
      using assms(4) by blast
    define h' where "h' = (if model = [] then h else snd (in_set_model api d model h))"
    have "there h'" using dev(3) assms(5) by (simp add: h'_def)
    then obtain h2 where h2: "there h2" "seed_states api d (sp_initial_states spec) (s\<lparr>sy_host := h'\<rparr>) = (Inl e, s\<lparr>sy_host := h2\<rparr>)"
      using seed by blast
    have "when_op (model \<noteq> []) (rescue (try_host (in_set_model api d model)) (\<lambda>e. pure_op ())) (s\<lparr>sy_host := h\<rparr>) = (Inr (), s\<lparr>sy_host := h'\<rparr>)"
      by (simp add: h'_def sync_ops split: prod.splits sum.splits)
    then have "create_one api (spec\<lparr>sp_props := p\<rparr>) name folder model s = (Inl e, s\<lparr>sy_host := h2\<rparr>)"
      using dev(1,2) h2(2)
      by (simp add: create_one_def existing_name_def Let_def assms(2) and_then_def rescue_def ask_def pure_op_def call_host_def)
    then show ?thesis using h2(1) by blast
  qed
  obtain h where h: "there h" "create_one api (spec\<lparr>sp_props := setdefault ''address'' (PStr (node_id_to_str (NInt (ni_node_id node)))) (sp_props spec)\<rparr>)
      (planned_name (pi_authoritative info) (pi_derived info) (pi_plan info) endpoint spec) (pi_folder info) (pi_model info) s
      = (Inl e, s\<lparr>sy_host := h\<rparr>)"
    using create by blast
  then have "make_device api node info endpoint spec s = (Inl e, s\<lparr>sy_host := h\<rparr>)"
    by (simp add: make_device_def Let_def and_then_def)
  with h(1) show ?thesis by (auto simp: realise_def assms(1) and_then_def look_def)
qed

text \<open>A host that refuses every write of states.\<close>

definition grudging_host :: "host_dev list indigo" where
  "grudging_host = shelf_host\<lparr>in_update_states := \<lambda>d kv h. (Inl RuntimeError, h)\<rparr>"

definition demo_info :: pass_info where
  "demo_info = \<lparr>pi_authoritative = False, pi_derived = None, pi_folder = 0, pi_model = [], pi_plan = [demo_planned]\<rparr>"

lemma seed_write_escapes_witness:
  "\<exists>h. 1 \<in> hv_id ` set h \<and> collect [demo_planned, demo_planned] (realise grudging_host demo_strip demo_info) (shelf_state [])
     = (Inl RuntimeError, (shelf_state [])\<lparr>sy_host := h\<rparr>)"
proof -
  have found: "\<exists>dev. find (\<lambda>x. hv_id x = 1) h = Some dev" if "1 \<in> hv_id ` set h" for h :: "host_dev list"
    using that by (cases "find (\<lambda>x. hv_id x = 1) h") (auto simp: find_None_iff)
  have plan: "demo_planned = (fst demo_planned, snd demo_planned)" by simp
  show ?thesis
    by (subst (1) plan, rule seed_write_escapes [where d = 1 and devs = "[]" and v = "PBool True"])
      (use found in \<open>auto simp: grudging_host_def shelf_host_def shelf_state_def demo_planned_def types_at_def Let_def shelf_device_def
        split: option.splits\<close>)
qed

section \<open>The contracts of passes at work\<close>

lemma index_always_ok_witness:
  "index_ok (sy_index (snd (run_request shelf_host ReqRebuild (shelf_state [shelf_relay 1 5, shelf_relay 2 6]))))
   \<and> sy_index (snd (run_request shelf_host ReqRebuild (shelf_state [shelf_relay 1 5, shelf_relay 2 6])))
      = [((5, 1), [(''matterRelay'', 1)]), ((6, 1), [(''matterRelay'', 2)])]"
proof
  show "index_ok (sy_index (snd (run_request shelf_host ReqRebuild (shelf_state [shelf_relay 1 5, shelf_relay 2 6]))))"
    by (rule index_always_ok [of shelf_host], rule request, rule start_up) (simp add: shelf_state_def)
qed code_simp

text \<open>The readings of endpoint 2 go to the relay of endpoint 1, so no meter is wanted.\<close>

definition demo_settled :: "host_dev list sync" where
  "demo_settled = (shelf_state [shelf_device 1 ''matterNode'' ''Plug'' [], shelf_relay 2 6])
     \<lparr>sy_index := [((6, 0), [(''matterNode'', 1)]), ((6, 1), [(''matterRelay'', 2)])]\<rparr>"

lemma settled_node_untouched_witness:
  "map hv_id (sy_host (snd (create_devices shelf_host demo_strip [] demo_settled))) = [1, 2]
   \<and> sy_index (snd (create_devices shelf_host demo_strip [] demo_settled)) = sy_index demo_settled"
proof (rule settled_node_untouched)
  show "host_keeps shelf_host (\<lambda>h. map hv_id h = [1, 2]) (\<lambda>_. False) (\<lambda>_. False) (\<lambda>_. False)"
    by (auto simp: host_keeps_def shelf_host_def shelf_update_def)
  have linked: "meter_linked demo_strip (sy_forward demo_settled) 2" "\<not> meter_linked demo_strip (sy_forward demo_settled) 1"
    using demo_strip_links by (simp_all add: meter_linked_def) (simp_all add: demo_strip_def)
  have types: "map (possible_types demo_strip) (ni_endpoints demo_strip) = [{''matterRelay''}, {''matterEnergyMeter''}]"
    "map (\<lambda>e. handlers_for_endpoint demo_strip e = []) (ni_endpoints demo_strip) = [False, True]"
    "map (\<lambda>e. types_at (sy_index demo_settled) (6, ei_endpoint_id e)) (ni_endpoints demo_strip) = [[(''matterRelay'', 2)], []]"
    by code_simp+
  show "\<forall>e \<in> set (ni_endpoints demo_strip). \<forall>t \<in> wanted_types demo_strip (meter_linked demo_strip (sy_forward demo_settled)) e.
          map_of (types_at (sy_index demo_settled) (ni_node_id demo_strip, ei_endpoint_id e)) t \<noteq> None"
    using types linked by (auto simp: wanted_types_def demo_strip_def)
  show "node_device_of (sy_index demo_settled) (ni_node_id demo_strip) \<noteq> None
      \<or> is_tombstoned NodeTombstones (ni_node_id demo_strip) demo_settled" by code_simp
qed (simp add: demo_settled_def shelf_state_def shelf_relay_def shelf_device_def)

definition demo_dead :: "host_dev list sync" where
  "demo_dead = (shelf_state [])\<lparr>sy_tombstones := Some \<lparr>tb_ids = {''6''}, tb_saves = True, tb_logs = True\<rparr>\<rparr>"

lemma tombstone_honoured_witness:
  "''matterNode'' \<notin> hv_type ` set (sy_host (snd (create_devices shelf_host demo_strip [] demo_dead)))"
proof -
  have "''matterNode'' \<notin> hv_type ` set (sy_host (snd (create_devices shelf_host demo_strip [] demo_dead)))
    \<and> node_device_of (sy_index (snd (create_devices shelf_host demo_strip [] demo_dead))) (ni_node_id demo_strip) = None
    \<and> is_tombstoned NodeTombstones (ni_node_id demo_strip) (snd (create_devices shelf_host demo_strip [] demo_dead))"
  proof (rule tombstone_honoured)
    show "host_keeps shelf_host (\<lambda>h. ''matterNode'' \<notin> hv_type ` set h) (\<lambda>_. True) (\<lambda>t. t \<noteq> ''matterNode'') (\<lambda>_. True)"
      by (auto simp: host_keeps_def shelf_host_def shelf_update_def shelf_device_def hv_type_def Let_def split: if_splits)
    show "index_ok (sy_index demo_dead)" "node_device_of (sy_index demo_dead) (ni_node_id demo_strip) = None"
      "is_tombstoned NodeTombstones (ni_node_id demo_strip) demo_dead" by code_simp+
  qed (simp add: demo_dead_def shelf_state_def)
  then show ?thesis by blast
qed

lemma held_back_nodes_witness:
  "snd (create_devices shelf_host demo_strip [] ((shelf_state [])\<lparr>sy_suspended := [(6, 1)]\<rparr>)) = (shelf_state [])\<lparr>sy_suspended := [(6, 1)]\<rparr>"
  by (subst held_back_nodes(2) [where depth = 1])
    (simp_all add: demo_strip_def shelf_state_def is_tombstoned_def tombs_of_def)

end
