(* ===== verification/HttpApi.thy ===== *)
theory HttpApi
  imports SyncContracts CommissionJobs NodeToolchain
begin

text \<open>
  \<open>http_handlers.py\<close> and the providers of \<open>http_api_mixin.py\<close>: the requests of the API, the ladder of
  their answers, and the decommissioning of a node, cut at its one await.

  A request is what the host hands over: its method, its path components, the parameters of the query and
  the body. A provider runs on the event loop; what comes of it is a value of \<open>provided\<close>. The bodies of
  errors are constructors. The HTML pages are not modelled.
\<close>

section \<open>Requests\<close>

record iws_request =
  rq_method :: "string option"
  rq_file_path :: "string list option"
  rq_query :: "pydict option"
  rq_body :: "pydict option"

definition parse_request :: "iws_request \<Rightarrow> string \<times> string list \<times> pydict" where
  "parse_request rq =
     (case rq_method rq of None \<Rightarrow> ''GET'' | Some m \<Rightarrow> m,
      case rq_file_path rq of None \<Rightarrow> [] | Some p \<Rightarrow> p,
      fold (\<lambda>(k, v). AList.update k v) (case rq_body rq of None \<Rightarrow> [] | Some b \<Rightarrow> b)
        (case rq_query rq of None \<Rightarrow> [] | Some q \<Rightarrow> q))"

definition is_post :: "string \<Rightarrow> bool" where
  "is_post m = (map (\<lambda>c. let n = code_point c in if 97 \<le> n \<and> n \<le> 122 then char_of (n - 32) else c) m = ''POST'')"

definition parse_node_id :: "pyval \<Rightarrow> int option" where
  "parse_node_id text = (case text of PStr s \<Rightarrow> int_of_text0 s | _ \<Rightarrow> None)"

section \<open>Answers\<close>

datatype unavailable = PluginNotReady | NotConnected | ServerTimedOut | NoAnswerFrom string | LoopFault

datatype api_error =
    MethodNotAllowed
  | NodeIdRequired
  | InvalidNodeId pyval
  | ServerUnreachable unavailable
  | InternalError py_exc
  | NodeNotFound

type_synonym 'a api_reply = "int \<times> (api_error + 'a)"

datatype 'a provided = Provided 'a | Unavailable unavailable | ProviderRaised py_exc

text \<open>What \<open>decommission\<close> and \<open>diagnostics\<close> share: the id of the node, and the rungs below it.\<close>

definition asked_node :: "string list \<Rightarrow> pydict option \<Rightarrow> api_error + int" where
  "asked_node path_args query =
     (let raw = (case path_args of p # _ \<Rightarrow> PStr p
                 | [] \<Rightarrow> dget (case query of None \<Rightarrow> [] | Some q \<Rightarrow> q) ''nodeId'')
      in if \<not> truthy raw then Inl NodeIdRequired
         else (case parse_node_id raw of None \<Rightarrow> Inl (InvalidNodeId raw) | Some node_id \<Rightarrow> Inr node_id))"

fun ladder :: "'a option provided \<Rightarrow> 'a api_reply" where
  "ladder (Unavailable why) = (503, Inl (ServerUnreachable why))"
| "ladder (ProviderRaised e) = (500, Inl (InternalError e))"
| "ladder (Provided None) = (404, Inl NodeNotFound)"
| "ladder (Provided (Some x)) = (200, Inr x)"

definition api_diagnostics :: "string list \<Rightarrow> pydict option \<Rightarrow> (int \<Rightarrow> 'a option provided) \<Rightarrow> 'a api_reply" where
  "api_diagnostics path_args query provider =
     (case asked_node path_args query of Inl e \<Rightarrow> (400, Inl e) | Inr n \<Rightarrow> ladder (provider n))"

text \<open>The provider of \<open>decommission\<close> changes the state it runs on.\<close>

definition api_decommission ::
  "string \<Rightarrow> string list \<Rightarrow> pydict option \<Rightarrow> (int \<Rightarrow> 's \<Rightarrow> 'a option provided \<times> 's) \<Rightarrow> 's \<Rightarrow> 'a api_reply \<times> 's" where
  "api_decommission method path_args query provider s =
     (if \<not> is_post method then ((405, Inl MethodNotAllowed), s)
      else (case asked_node path_args query of
          Inl e \<Rightarrow> ((400, Inl e), s)
        | Inr n \<Rightarrow> (case provider n s of (r, s') \<Rightarrow> (ladder r, s'))))"

datatype commission_reply = JobPolled "int \<times> job_view option" | JobRequested "(int \<times> http_body) py_result" | CommissionNeedsPost

definition api_commission ::
  "string \<Rightarrow> string list \<Rightarrow> pydict \<Rightarrow> bool \<Rightarrow> int \<Rightarrow> int \<Rightarrow> string \<Rightarrow> string option \<Rightarrow> jobs_state
    \<Rightarrow> commission_reply \<times> jobs_state" where
  "api_commission method path_args query server_up now now_utc jid sched st = (case path_args of
       p # _ \<Rightarrow> (case get_job p now now_utc st of (view, st') \<Rightarrow> (JobPolled view, st'))
     | [] \<Rightarrow>
         if \<not> is_post method then (CommissionNeedsPost, st)
         else (case create_job query server_up now jid sched st of (r, _, st') \<Rightarrow> (JobRequested r, st')))"

text \<open>What comes of a coroutine on the loop: its end, or the time the caller waits runs out.\<close>

datatype 'a loop_run = Ran "'a provided" | WaitExpired

definition bridged :: "bool \<Rightarrow> 'a loop_run \<Rightarrow> 'a provided" where
  "bridged has_runtime run =
     (if \<not> has_runtime then Unavailable PluginNotReady
      else (case run of
          WaitExpired \<Rightarrow> Unavailable ServerTimedOut
        | Ran (ProviderRaised e) \<Rightarrow> if e = RuntimeError then Unavailable LoopFault else ProviderRaised e
        | Ran r \<Rightarrow> r))"

section \<open>Decommissioning\<close>

text \<open>How \<open>remove_node\<close> ended: an exception carries its error code, \<open>PNone\<close> when it has none.\<close>

datatype removal_answer = FabricRemoved | RemoveRaised pyval

record decommissioned =
  dc_node_id :: int
  dc_removed :: "int list"
  dc_fabric_removed :: bool

definition fabric_absent :: "removal_answer \<Rightarrow> bool" where
  "fabric_absent ans = (case ans of FabricRemoved \<Rightarrow> False | RemoveRaised code \<Rightarrow> is_node_not_exists code)"

definition fabric_gone :: "removal_answer \<Rightarrow> bool" where
  "fabric_gone ans = (case ans of FabricRemoved \<Rightarrow> True | RemoveRaised code \<Rightarrow> is_node_not_exists code)"

text \<open>The coroutine after its await; \<open>known\<close> was read before it.\<close>

definition decommission_after ::
  "'h indigo \<Rightarrow> int \<Rightarrow> bool \<Rightarrow> removal_answer \<Rightarrow> ('h, decommissioned option) sync_op" where
  "decommission_after api node_id known ans =
     and_then (delete_node api node_id (fabric_gone ans)) (\<lambda>removed.
       pure_op (if removed = [] \<and> \<not> known \<and> (fabric_absent ans \<or> \<not> fabric_gone ans) then None
                else Some \<lparr>dc_node_id = node_id, dc_removed = removed, dc_fabric_removed = fabric_gone ans\<rparr>))"

text \<open>The whole provider, with what happened meanwhile as a change of the state. Without a client nothing
  is submitted; with one, a caller whose wait expires leaves the coroutine running.\<close>

definition decommission_sync ::
  "'h indigo \<Rightarrow> bool \<Rightarrow> bool \<Rightarrow> bool \<Rightarrow> removal_answer \<Rightarrow> ('h sync \<Rightarrow> 'h sync) \<Rightarrow> int \<Rightarrow> 'h sync
    \<Rightarrow> decommissioned option provided \<times> 'h sync" where
  "decommission_sync api has_runtime has_client in_time ans meanwhile node_id s =
     (if \<not> has_runtime then (Unavailable PluginNotReady, s)
      else if \<not> has_client then (Unavailable NotConnected, s)
      else (case decommission_after api node_id (knows_node s node_id) ans (meanwhile s) of (r, s') \<Rightarrow>
         (bridged True (if in_time then Ran (case r of Inr x \<Rightarrow> Provided x | Inl e \<Rightarrow> ProviderRaised e)
                        else WaitExpired), s')))"

definition http_decommission ::
  "'h indigo \<Rightarrow> iws_request \<Rightarrow> bool \<Rightarrow> bool \<Rightarrow> bool \<Rightarrow> removal_answer \<Rightarrow> ('h sync \<Rightarrow> 'h sync) \<Rightarrow> 'h sync
    \<Rightarrow> decommissioned api_reply \<times> 'h sync" where
  "http_decommission api rq has_runtime has_client in_time ans meanwhile s =
     (case parse_request rq of (m, path, query) \<Rightarrow>
        api_decommission m path (Some query)
          (decommission_sync api has_runtime has_client in_time ans meanwhile) s)"

section \<open>Diagnostics\<close>

datatype get_node_answer = NodeRaw pyval | NodeNoConnection string | NodeError py_exc

record diagnosed_endpoint =
  de_endpoint :: int
  de_clusters :: "int list"
  de_device :: "int option"

record diagnosed =
  dg_node_id :: int
  dg_vendor_id :: "int option"
  dg_product_id :: "int option"
  dg_vendor_name :: string
  dg_product_name :: string
  dg_software :: string
  dg_endpoints :: "diagnosed_endpoint list"

definition diagnose :: "(pyval \<Rightarrow> string) \<Rightarrow> 'h sync \<Rightarrow> int \<Rightarrow> get_node_answer \<Rightarrow> diagnosed option provided" where
  "diagnose repr s node_id ans = (case ans of
       NodeNoConnection why \<Rightarrow> Unavailable (NoAnswerFrom why)
     | NodeError e \<Rightarrow> ProviderRaised e
     | NodeRaw raw \<Rightarrow>
         if \<not> truthy raw then Provided None
         else (case raw of
             PDict d \<Rightarrow> (case parse_node repr d [] of
                 Inl e \<Rightarrow> ProviderRaised e
               | Inr node \<Rightarrow> Provided (Some \<lparr>dg_node_id = node_id, dg_vendor_id = ni_vendor_id node,
                   dg_product_id = ni_product_id node, dg_vendor_name = ni_vendor_name node,
                   dg_product_name = ni_product_name node, dg_software = ni_sw_version node,
                   dg_endpoints = map (\<lambda>e. \<lparr>de_endpoint = ei_endpoint_id e,
                       de_clusters = sorted_list_of_set (ei_cluster_ids e),
                       de_device = lookup_dev (sy_index s) (ni_node_id node) (ei_endpoint_id e) None\<rparr>) (ni_endpoints node)\<rparr>))
           | _ \<Rightarrow> ProviderRaised AttributeError))"

definition http_diagnostics ::
  "(pyval \<Rightarrow> string) \<Rightarrow> iws_request \<Rightarrow> bool \<Rightarrow> bool \<Rightarrow> get_node_answer \<Rightarrow> 'h sync \<Rightarrow> diagnosed api_reply" where
  "http_diagnostics repr rq has_runtime in_time ans s = (case parse_request rq of (_, path, query) \<Rightarrow>
     api_diagnostics path (Some query) (\<lambda>n. bridged has_runtime (if in_time then Ran (diagnose repr s n ans) else WaitExpired)))"

section \<open>Properties\<close>

lemma set_tombs_known [simp]: "sy_known (set_tombs k x s) = sy_known s"
  by (cases k) (simp_all add: set_tombs_def)





text \<open>The second half of the promise fails for a node that only its devices make known: when its removal from the
  fabric fails, its devices are deleted all the same, and it is not offered for another attempt.\<close>

definition demo_request :: iws_request where
  "demo_request = \<lparr>rq_method = Some ''POST'', rq_file_path = None, rq_query = Some [(''nodeId'', PStr ''6'')], rq_body = None\<rparr>"

theorem failed_removal_forgets:
  "knows_node demo_plug 6
   \<and> (case http_decommission shelf_host demo_request True True True (RemoveRaised PNone) id demo_plug of (reply, s') \<Rightarrow>
        reply = (200, Inr \<lparr>dc_node_id = 6, dc_removed = [3], dc_fabric_removed = False\<rparr>) \<and> \<not> knows_node s' 6)"
  by code_simp


section \<open>Diagnostics only report\<close>

text \<open>The rungs of the ladder are distinct: unreachable, unknown and faulty are never confused.\<close>

lemma ladder_distinct:
  "fst (ladder r) = 503 \<longleftrightarrow> (\<exists>w. r = Unavailable w)" "fst (ladder r) = 404 \<longleftrightarrow> r = Provided None"
  "fst (ladder r) = 500 \<longleftrightarrow> (\<exists>e. r = ProviderRaised e)" "fst (ladder r) = 200 \<longleftrightarrow> (\<exists>x. r = Provided (Some x))"
  by (cases r rule: ladder.cases; simp)+

end
