(* ===== verification/Spec2Isabelle.thy ===== *)
theory Spec2Isabelle
  imports WsLoop CommissionSystem ExportBridgePush CtCalibration NodeReplace MatterModel BridgeHealth ExportCatalog HandlerFacts SettingsReport AgentFacts ThreadSurvey HttpApi
begin

text \<open>
  A verification library for the Indigo Matter plugin: a Python program that joins two Matter
  worlds to the Indigo home server. Inbound, it drives a matter-server process over a WebSocket
  and turns Matter nodes into Indigo devices; outbound, it exports Indigo devices to other
  ecosystems through a bridge node, again over a WebSocket. All file names are below
  \<open>indigo-matter.indigoPlugin/Contents/Server Plugin/\<close>.

  \<^bold>\<open>Theories and code.\<close>
  \<^item> \<open>PyBase\<close>: the values of the language the rest is written over: JSON values, truth, equality and
    conversion of values, decimal and hexadecimal texts, results with a Python exception.
  \<^item> \<open>CtBounds\<close>: \<open>mired_units.py\<close> and \<open>ct_bounds.py\<close>, the colour-temperature arithmetic and the
    effective bounds of an export.
  \<^item> \<open>MatterProtocol\<close>: \<open>protocol.py\<close>, frames to and from matter-server. \<open>MatterModel\<close>:
    \<open>matter_model.py\<close>, a node read from its attributes.
  \<^item> \<open>BridgeProtocol\<close>: \<open>bridge_protocol.py\<close>, frames to and from the bridge node.
  \<^item> \<open>WsClient\<close>: \<open>ws_json_client.py\<close>, the reconnecting client of both peers, as a transition system;
    its contract with the codec of a peer is the locale \<open>frame_protocol\<close>, interpreted on the
    hooks of \<open>matter_client.py\<close> and of \<open>bridge_client.py\<close>. \<open>WsLoop\<close>: its behaviour over runs.
  \<^item> \<open>CommissionJobs\<close>, \<open>CommissionWorker\<close>: \<open>commission_jobs.py\<close>, the job table and the coroutines cut
    at their awaits. \<open>CommissionFacts\<close>: lemmas on single operations. \<open>CommissionSystem\<close>: the
    interleavings of all of them as an inductive step relation, with reachability.
  \<^item> \<open>ExportStore\<close>: \<open>export_store.py\<close>, the allow-list of exports and its persistence.
  \<^item> \<open>CtLearner\<close>: \<open>ct_learner.py\<close>; \<open>CtCalibration\<close>: \<open>ct_calibration.py\<close>. Both write bounds through
    \<open>ExportStore\<close> with the arithmetic of \<open>CtBounds\<close>.
  \<^item> \<open>NodeReplace\<close>: \<open>node_replace.py\<close>, the plan that moves devices from one node to another.
  \<^item> \<open>ExportHandlers\<close>: \<open>export_handlers.py\<close>, the translation of Indigo states into Matter states per
    role and of Matter commands into Indigo calls. \<open>ExportFacts\<close>: what both directions agree on.
  \<^item> \<open>BridgeAttach\<close>: \<open>bridge_client.py\<close>, the attach to the bridge node, the triage of its answers and
    the rebuild of its endpoints, over the frames of \<open>BridgeProtocol\<close>.
  \<^item> \<open>ExportCatalog\<close>: \<open>export_catalog.py\<close>, which roles a device may be exported as.
  \<^item> \<open>BridgeHealth\<close>: \<open>bridge_health.py\<close>, the health device of the bridge and the watchdog pass.
  \<^item> \<open>BridgeOps\<close>, \<open>ExportBridge\<close>: \<open>export_bridge.py\<close>, the engine that joins the catalogue, the handlers, the
    store, the learner, the health band and the client; its methods are operations over one record,
    in a small language of statements with exceptions. \<open>ExportBridgeFacts\<close>: the un-export debt and the
    gate of the client over all calls, by relations that compose (locale \<open>step_relation\<close>, interpreted for
    each). \<open>ExportBridgePush\<close>: what is published, and what becomes of a device that cannot be read.
  \<^item> \<open>PyFloat\<close>: rounding to doubles and to decimals. \<open>HandlerBase\<close>, \<open>HandlerLights\<close>, \<open>HandlerActuators\<close>,
    \<open>HandlerSensors\<close>: \<open>matter_handlers/\<close>, per cluster the devices an endpoint gets, the states a report is
    read as, and the commands of an Indigo action. \<open>HandlerSettings\<close>: \<open>matter_handlers/settings.py\<close>, the
    writable settings. \<open>HandlerRegistry\<close>: the dispatch over all of them. \<open>HandlerFacts\<close>: their properties.
  \<^item> \<open>ThreadMesh\<close>, \<open>ThreadGraph\<close>: \<open>thread_mesh.py\<close>, the diagnostics of a node and the graph of the Thread
    network. \<open>ThreadFacts\<close>: its links and its children.
  \<^item> \<open>SyncHost\<close> to \<open>SyncEvents\<close>: \<open>device_sync.py\<close>, the part that keeps Indigo devices for Matter nodes. \<open>SyncHost\<close>:
    the state, the Indigo host as a parameter, generated names and tombstones; \<open>SyncIndex\<close>: the index, deletion,
    replacement; \<open>SyncMeters\<close>: meter links, batteries and capabilities; \<open>SyncNaming\<close>: one device, its name, folder
    and group; \<open>SyncCreate\<close>: the pass over a node; \<open>SyncEvents\<close>: reachability, reconcile and events. An operation is
    a function on the state with the host's, ending in a result or an exception. It uses the registry of
    \<open>HandlerRegistry\<close>, the nodes of \<open>MatterModel\<close>, the events of \<open>MatterProtocol\<close> and the plan of \<open>NodeReplace\<close>.
    \<open>SyncFrame\<close>: which calls of the host an operation can make, as a calculus of intro rules and the locale
    \<open>footprint\<close>; \<open>SyncFacts\<close>: footprints of passes and deliveries; \<open>SyncTrace\<close>: a host that records the calls
    made on it, for what depends on their order; \<open>SyncClaims\<close>, \<open>SyncContracts\<close>: the contracts.
  \<^item> \<open>DeviceSettings\<close>: \<open>device_settings.py\<close>, the settings a device is offered, their dialog, and the write proved by a
    read-back, over the registry of \<open>HandlerSettings\<close>. \<open>AttributeTable\<close>: \<open>matter_handlers/writable_attributes.py\<close>.
    \<open>SettingsReport\<close>: \<open>settings_report.py\<close>, the survey of what is writable and not offered, and the dump of a node.
  \<^item> \<open>NodeToolchain\<close>: \<open>node_resolver.py\<close>, which Node the agents run on.
  \<^item> \<open>AgentHost\<close>, \<open>LaunchAgent\<close>: \<open>launch_agent.py\<close>, the launchd agents that run matter-server and the bridge node,
    over a machine whose every call is noted with its answer. \<open>AgentFacts\<close>: which calls the answers so far allow.
  \<^item> \<open>HttpApi\<close>: \<open>http_handlers.py\<close> and the providers of \<open>http_api_mixin.py\<close>, the API over the job table, the
    device synchronisation and the node model. \<open>ThreadSurvey\<close>: \<open>thread_survey.py\<close>, over \<open>ThreadMesh\<close>.
  This theory joins them and holds the properties that span components.

  \<^bold>\<open>How the program is modelled.\<close> A class is a record of its attributes, a method a function from
  the old state to the new one and a list of effects (log lines, callbacks, calls of Indigo). A
  Python exception is the left side of a sum; the exceptions a clause catches are the branches
  of the code. A coroutine is cut at its awaits: one step is what runs without interruption, and
  its continuation is a value of a datatype. What the environment answers (a peer, the disk, the
  clock, Indigo) is an argument of the step. Python integers are \<open>int\<close>, times are \<open>int\<close>
  (microseconds) or \<open>rat\<close>, floats of JSON are \<open>pyfloat\<close> with the infinities and the absence of a
  number kept apart. A dictionary is an association list in insertion order where the order can
  be seen, a map otherwise. There is no fuel: every loop of the modelled code is structural.

  \<^bold>\<open>What the lemmas show.\<close> The job table: who may claim a node and who may remove one, that no
  interleaving of coroutines removes a node that another job holds, that every job reaches a
  terminal status when the peer answers finitely and that this fails otherwise. The client: it
  refines an abstract board of calls, no caller is left hanging or given the answer of another,
  the run loop survives every failure. The store: writes are atomic, an entry that was written is
  read back, unreadable data is kept. The learner and the calibration: bounds stay ordered, what
  is learned is backed by two distinct shortfalls, the lamp is put back. The codecs: round trips,
  and where parsing is wider than printing. The export: every published state has the type and the
  range its attribute has on the wire, colours and temperatures come back within a stated distance,
  drift below the tolerance is never sent twice, and an attach never replaces endpoints it was not
  told to. The engine: a debt of accessories to remove survives every failure until an attach that
  carried it landed, at most one client or un-export is alive, and what is published is accepted by
  the catalogue and well typed. Device synchronisation: whatever requests come, the index has one device
  per endpoint and type; a pass over a node that has its devices changes none of them, and a
  node device the user deleted is not made again; a replacement deletes only duplicates, and each before the rebind
  it makes room for; a deletion the program makes itself is marked before the host can report it; an event
  stays on the devices of its node; a reconcile ends whatever it finds; meters are linked soundly.
  Settings: a write is reported as applied only on a matching read-back, and the survey is exact.
  The toolchain: a pin that was rejected is not the one that is chosen instead. The agents: whatever is asked of
  them, they signal only processes listed as their own servers, and remove only their own files and the locks
  they have evidence nobody living holds. The API: a node that is known is never answered as unknown. The
  survey: a live reading never removes a node from it.

  \<^bold>\<open>Not modelled.\<close> The host interface of Indigo (menus, dialogs, device callbacks), HTML pages,
  the specifications of the two agents, backups, and the text of log lines (a log
  line is a constructor with its arguments). Code of other packages (websockets, asyncio, the
  JSON decoder) appears only as answers of the environment.
\<close>

section \<open>Properties across the components\<close>

text \<open>C37: a learned bound survives a restart: when an adoption reports a republish, a store opened
  on the preferences left behind, with a validator that accepts its entries, starts without a
  load error, has the entry of the device with the candidate as its effective bound on that
  side, and would send the bridge exactly that number.\<close>

theorem learned_survives_restart:
  assumes "store_ok st" "adopt d s c why weak env ok st = (st', effs)" "Republish d \<in> set effs"
    and "\<And>k e. store_get k st' = Some e \<Longrightarrow> accepts validator e"
  shows "\<exists>st'' logs fresh e. open_store validator prefs_raise (st_prefs st') = (None, st'', logs)
    \<and> st_load_error st'' = None
    \<and> store_get d st = Some fresh \<and> store_get d st'' = Some e
    \<and> effective_ct_bounds (ee_options e) = new_bounds s c (effective_ct_bounds (ee_options fresh))
    \<and> map_of (wire_options (ee_options e)) (seed_key s) = Some (PInt c)
    \<and> (\<forall>k. k \<noteq> d \<longrightarrow> store_get k st'' = store_get k st)"
  using assms(2,1)
proof (cases rule: adopt_cases)
  case same
  with assms(3) show ?thesis by simp
next
  case (learned fresh)
  let ?e = "learned_entry s c fresh"
  obtain st'' logs where o: "open_store validator prefs_raise (st_prefs st') = (None, st'', logs)"
      "st_load_error st'' = None" "\<And>k. store_get k st'' = store_get k st'"
    using reload_store [OF learned(4,5) assms(4)] reload_entries [of "st_entries st'"] learned(4)
    by (simp add: store_get_def store_ok_def)
  have "learned_key s \<in> set STORED_KEYS" by (cases s) (simp_all add: learned_key_def set_STORED_KEYS)
  then have "has_stored_ct_bounds (ee_options ?e)"
    unfolding has_stored_iff by (rule bexI [rotated]) (simp add: learned_entry_def)
  then have "map_of (wire_options (ee_options ?e)) (seed_key s) = Some (PInt c)"
    by (cases s) (simp_all add: map_of_wire_options learned_bounds seed_key_def new_bounds_def ct_keys)
  with o learned learned_bounds show ?thesis by metis
qed

lemma learned_survives_restart_witness:
  "\<exists>st'' logs e. open_store None False (st_prefs (fst (adopt 42 SideMax 350 (Swept 350) False ok_env True demo_store)))
       = (None, st'', logs)
     \<and> store_get 42 st'' = Some e \<and> effective_ct_bounds (ee_options e) = (200, 350)"
proof -
  obtain st' effs where a: "adopt 42 SideMax 350 (Swept 350) False ok_env True demo_store = (st', effs)"
    by (cases "adopt 42 SideMax 350 (Swept 350) False ok_env True demo_store")
  have "Republish 42 \<in> set (snd (adopt 42 SideMax 350 (Swept 350) False ok_env True demo_store))" by code_simp
  with a have "Republish 42 \<in> set effs" by simp
  from learned_survives_restart [OF demo_store_ok(1) a this, of None False]
  obtain st'' logs fresh e where o: "open_store None False (st_prefs st') = (None, st'', logs)"
      "store_get 42 demo_store = Some fresh" "store_get 42 st'' = Some e"
      "effective_ct_bounds (ee_options e) = new_bounds SideMax 350 (effective_ct_bounds (ee_options fresh))"
    by auto
  from o(2) have "fresh = demo_entry" by (simp add: store_get_def demo_store_def)
  moreover have "new_bounds SideMax 350 (effective_ct_bounds (ee_options demo_entry)) = (200, 350)" by code_simp
  ultimately show ?thesis using o a by auto
qed

text \<open>The two attributes the fabric scan reads are those the node model stores.\<close>

lemma scan_fabrics_find:
  "scan_fabrics attrs s c =
    (case find (\<lambda>(key, v). parse_attr_key key = Inr (0, OP_CREDS_CLUSTER, ATTR_SUPPORTED_FABRICS)) (rev attrs) of
       Some (key, v) \<Rightarrow> v | None \<Rightarrow> s,
     case find (\<lambda>(key, v). parse_attr_key key = Inr (0, OP_CREDS_CLUSTER, ATTR_COMMISSIONED_FABRICS)) (rev attrs) of
       Some (key, v) \<Rightarrow> v | None \<Rightarrow> c)"
proof (induction attrs arbitrary: s c)
  case (Cons kv attrs)
  have snoc: "find P (xs @ [y]) = (case find P xs of Some x \<Rightarrow> Some x | None \<Rightarrow> if P y then Some y else None)"
    for P and xs :: "(string \<times> pyval) list" and y
    by (induction xs) auto
  obtain k v where kv: "kv = (k, v)" by (cases kv)
  show ?case
  proof (cases "parse_attr_key k")
    case (Inl e)
    with Cons kv show ?thesis by (simp add: snoc split: option.split)
  next
    case (Inr p)
    obtain a b d where "p = (a, b, d)" by (cases p) auto
    with Inr Cons kv show ?thesis
      by (auto simp: snoc ATTR_SUPPORTED_FABRICS_def ATTR_COMMISSIONED_FABRICS_def split: option.split)
  qed
qed simp

text \<open>The commissioning worker and the node model read the same node: the fabric counts of an
  attribute snapshot are the numbers found at supported and commissioned fabrics of endpoint 0
  in the node model's attributes, absent where the node has none, and both absent when either
  is no number.\<close>

theorem fabric_counts_of_node:
  "fabric_counts attrs =
    (case (int_or_none (path_value (normalise_attributes attrs) (0, 62, 2)),
           int_or_none (path_value (normalise_attributes attrs) (0, 62, 3))) of
       (Inr s, Inr c) \<Rightarrow> Inr (s, c)
     | (Inl e, _) \<Rightarrow> if e = TypeError \<or> e = ValueError then Inr (None, None) else Inl e
     | (_, Inl e) \<Rightarrow> if e = TypeError \<or> e = ValueError then Inr (None, None) else Inl e)"
proof -
  have "path_value (normalise_attributes attrs) p =
      (case find (\<lambda>(key, v). parse_attr_key key = Inr p) (rev attrs) of Some (key, v) \<Rightarrow> v | None \<Rightarrow> PNone)" for p
    by (simp add: path_value_def normalise_attributes_def normalise_fold split: option.split)
  then have "scan_fabrics attrs PNone PNone =
      (path_value (normalise_attributes attrs) (0, 62, 2), path_value (normalise_attributes attrs) (0, 62, 3))"
    by (simp add: scan_fabrics_find OP_CREDS_CLUSTER_def ATTR_SUPPORTED_FABRICS_def ATTR_COMMISSIONED_FABRICS_def)
  then show ?thesis by (auto simp: fabric_counts_def Let_def split: sum.splits)
qed

end
